(* ===== verification/Prelude.thy ===== *)
theory Prelude
  imports Complex_Main "HOL-Library.AList" "HOL-Library.Char_ord" "HOL-Library.List_Lexorder"
    "HOL-Library.Product_Lexorder" "HOL-Library.Sublist" "HOL-Library.Multiset"
begin

text \<open>
  The part of Python the backend is written in, as far as the modelled modules use it:
  exceptions as values, strings, dictionaries that remember insertion order, stable sorting by a
  key, "keep the first item of each key" loops, and the dynamically typed values of metadata
  dictionaries. The lemmas here are about these constructs only and are shared by all components.

  \<^item> An operation that may raise returns \<open>py_error + 'a\<close>; \<open>Inl\<close> is the exception.
  \<^item> A \<open>string\<close> is a list of bytes. Python compares \<open>str\<close> by code point; on ASCII text (all
    identifiers, addresses and enum values of the backend) and on UTF-8 text that is the order of
    \<open>HOL-Library.List_Lexorder\<close>. \<open>lower\<close> changes the ASCII letters only.
  \<^item> A \<open>dict\<close> is an association list in insertion order: \<open>AList.update\<close> replaces the value of a
    present key in place and appends a new key, as \<open>d[k] = v\<close> does.
  \<^item> \<open>sorted(xs, key=f)\<close> is \<open>sort_key f xs\<close>: both are stable.
\<close>

section \<open>Exceptions\<close>

datatype py_error =
    ValueError string
  | KeyError string
  | TypeError string
  | DuplicateWatchError string
  | WatchNotFoundError string
  | DuplicateCorrelationRuleError string
  | RetryExhaustedError string
  | InvalidOperation string
  | AttributeError string
  | IndexError string
  | ScenarioValidationError string
  | DuplicateDiscoveryProviderError string
  | BlockchainRpcError string

type_synonym 'a result = "py_error + 'a"

definition bindR :: "'a result \<Rightarrow> ('a \<Rightarrow> 'b result) \<Rightarrow> 'b result" where
  "bindR r f = (case r of Inl e \<Rightarrow> Inl e | Inr x \<Rightarrow> f x)"

fun mapR :: "('a \<Rightarrow> 'b result) \<Rightarrow> 'a list \<Rightarrow> 'b list result" where
  "mapR f [] = Inr []"
| "mapR f (x # xs) = bindR (f x) (\<lambda>y. bindR (mapR f xs) (\<lambda>ys. Inr (y # ys)))"

lemma bindR_simps [simp]:
  "bindR (Inl e) f = Inl e"
  "bindR (Inr x) f = f x"
  by (simp_all add: bindR_def)

lemma bindR_eq_Inr: "bindR r f = Inr y \<longleftrightarrow> (\<exists>x. r = Inr x \<and> f x = Inr y)"
  by (cases r) simp_all

lemma bindR_eq_Inl: "bindR r f = Inl e \<longleftrightarrow> r = Inl e \<or> (\<exists>x. r = Inr x \<and> f x = Inl e)"
  by (cases r) simp_all

lemma mapR_Inr: "(\<And>x. x \<in> set xs \<Longrightarrow> f x = Inr (g x)) \<Longrightarrow> mapR f xs = Inr (map g xs)"
  by (induction xs) simp_all

section \<open>Strings\<close>

definition lower_char :: "char \<Rightarrow> char" where
  "lower_char c =
     (let n = (of_char c :: nat) in if 65 \<le> n \<and> n \<le> 90 then char_of (n + 32) else c)"

definition upper_char :: "char \<Rightarrow> char" where
  "upper_char c =
     (let n = (of_char c :: nat) in if 97 \<le> n \<and> n \<le> 122 then char_of (n - 32) else c)"

definition lower :: "string \<Rightarrow> string" where
  "lower s = map lower_char s"

lemma lower_char_idem [simp]: "lower_char (lower_char c) = lower_char c"
proof (cases "65 \<le> (of_char c :: nat) \<and> (of_char c :: nat) \<le> 90")
  case True
  then have "(of_char (char_of (of_char c + 32 :: nat) :: char) :: nat) = of_char c + 32"
    by simp
  with True show ?thesis by (simp add: lower_char_def Let_def)
next
  case False
  then have "lower_char c = c" by (auto simp: lower_char_def Let_def)
  then show ?thesis by simp
qed

lemma lower_idem [simp]: "lower (lower s) = lower s"
  by (simp add: lower_def)

lemma lower_simps [simp]:
  "lower [] = []"
  "lower (c # s) = lower_char c # lower s"
  "length (lower s) = length s"
  "lower (s @ t) = lower s @ lower t"
  by (simp_all add: lower_def)

fun join :: "string \<Rightarrow> string list \<Rightarrow> string" where
  "join sep [] = []"
| "join sep [s] = s"
| "join sep (s # t # ss) = s @ sep @ join sep (t # ss)"

text \<open>\<open>a or b\<close> of an optional text and a text.\<close>

definition or_text :: "string option \<Rightarrow> string \<Rightarrow> string" where
  "or_text a b = (case a of None \<Rightarrow> b | Some s \<Rightarrow> if s = [] then b else s)"

text \<open>\<open>s.removeprefix(p)\<close>.\<close>

definition removeprefix :: "string \<Rightarrow> string \<Rightarrow> string" where
  "removeprefix p s = (if prefix p s then drop (length p) s else s)"

text \<open>
  \<open>s.split(c, 1)[-1]\<close> and \<open>s.split(c)[-1]\<close>: what follows the first and the last occurrence of
  the separator, or the whole string when there is none.
\<close>

fun after_first :: "char \<Rightarrow> string \<Rightarrow> string option" where
  "after_first c [] = None"
| "after_first c (x # xs) = (if x = c then Some xs else after_first c xs)"

definition after_last :: "char \<Rightarrow> string \<Rightarrow> string" where
  "after_last c s = rev (takeWhile (\<lambda>x. x \<noteq> c) (rev s))"

lemma after_first_None: "after_first c s = None \<longleftrightarrow> c \<notin> set s"
  by (induction s) auto

lemma after_first_append: "c \<notin> set s \<Longrightarrow> after_first c (s @ c # t) = Some t"
  by (induction s) auto

lemma after_last_append: "c \<notin> set t \<Longrightarrow> after_last c (s @ c # t) = t"
proof -
  assume "c \<notin> set t"
  then have "takeWhile (\<lambda>x. x \<noteq> c) (rev t @ c # rev s) = rev t"
    by (subst takeWhile_append2) auto
  then show ?thesis by (simp add: after_last_def)
qed

text \<open>Decimal digits of a number, \<open>str(n)\<close>.\<close>

fun nat_digits :: "nat \<Rightarrow> string" where
  "nat_digits n =
     (if n < 10 then [char_of (48 + n)] else nat_digits (n div 10) @ [char_of (48 + n mod 10)])"

declare nat_digits.simps [simp del]

definition int_str :: "int \<Rightarrow> string" where
  "int_str i = (if i < 0 then ''-'' @ nat_digits (nat (- i)) else nat_digits (nat i))"

section \<open>Dictionaries\<close>

type_synonym ('k, 'v) dict = "('k \<times> 'v) list"

abbreviation dict_keys :: "('k, 'v) dict \<Rightarrow> 'k list" where
  "dict_keys d \<equiv> map fst d"

abbreviation dict_values :: "('k, 'v) dict \<Rightarrow> 'v list" where
  "dict_values d \<equiv> map snd d"

abbreviation wf_dict :: "('k, 'v) dict \<Rightarrow> bool" where
  "wf_dict d \<equiv> distinct (map fst d)"

text \<open>\<open>d.get(k, default)\<close>, \<open>d.pop(k, None)\<close>, \<open>d.setdefault(k, [])\<close> followed by an update.\<close>

definition dict_get :: "('k, 'v) dict \<Rightarrow> 'k \<Rightarrow> 'v \<Rightarrow> 'v" where
  "dict_get d k dflt = (case map_of d k of None \<Rightarrow> dflt | Some v \<Rightarrow> v)"

definition dict_pop :: "'k \<Rightarrow> ('k, 'v) dict \<Rightarrow> ('k, 'v) dict" where
  "dict_pop k d = AList.delete k d"

text \<open>\<open>{key(x): val(x) for x in xs}\<close>: the last item of a key wins, the first fixes its place.\<close>

definition dict_of :: "('a \<Rightarrow> 'k) \<Rightarrow> ('a \<Rightarrow> 'v) \<Rightarrow> 'a list \<Rightarrow> ('k, 'v) dict" where
  "dict_of f g xs = fold (\<lambda>x d. AList.update (f x) (g x) d) xs []"

text \<open>\<open>{**a, **b}\<close>.\<close>

definition dict_merge :: "('k, 'v) dict \<Rightarrow> ('k, 'v) dict \<Rightarrow> ('k, 'v) dict" where
  "dict_merge a b = fold (\<lambda>(k, v) d. AList.update k v d) b a"

lemma map_of_pop [simp]: "map_of (dict_pop k d) = (map_of d)(k := None)"
  by (simp add: dict_pop_def delete_conv')

lemma map_of_upd [simp]: "map_of (AList.update k v d) = (map_of d)(k \<mapsto> v)"
  by (simp add: update_conv')

lemma wf_dict_pop [simp]: "wf_dict d \<Longrightarrow> wf_dict (dict_pop k d)"
  by (simp add: dict_pop_def distinct_delete)

lemma keys_pop [simp]: "set (dict_keys (dict_pop k d)) = set (dict_keys d) - {k}"
  by (simp add: dict_pop_def delete_keys)

lemma keys_upd: "set (dict_keys (AList.update k v d)) = insert k (set (dict_keys d))"
  by (induction d) auto

lemma update_new: "k \<notin> set (dict_keys d) \<Longrightarrow> AList.update k v d = d @ [(k, v)]"
  by (induction d) auto

lemma set_update_subset: "set (AList.update k v d) \<subseteq> insert (k, v) (set d)"
  by (induction d) auto

lemma set_pop_subset: "set (dict_pop k d) \<subseteq> set d"
  by (auto simp: dict_pop_def AList.delete_eq)

lemma map_of_fold_update:
  "map_of (fold (\<lambda>x d. AList.update (f x) (g x) d) xs d) k =
     (case map_of (rev (map (\<lambda>x. (f x, g x)) xs)) k of None \<Rightarrow> map_of d k | Some v \<Rightarrow> Some v)"
  by (induction xs arbitrary: d) (auto simp: map_add_def split: option.splits)

lemma map_of_dict_of: "map_of (dict_of f g xs) = map_of (rev (map (\<lambda>x. (f x, g x)) xs))"
  by (rule ext) (simp add: dict_of_def map_of_fold_update split: option.split)

lemma wf_fold_update:
  "wf_dict d \<Longrightarrow> wf_dict (fold (\<lambda>x d. AList.update (f x) (g x) d) xs d)"
  by (induction xs arbitrary: d) (simp_all add: distinct_update)

lemma wf_dict_of [simp]: "wf_dict (dict_of f g xs)"
  unfolding dict_of_def by (rule wf_fold_update) simp

lemma keys_dict_of [simp]: "set (dict_keys (dict_of f g xs)) = f ` set xs"
proof -
  have "set (dict_keys (fold (\<lambda>x d. AList.update (f x) (g x) d) xs d)) =
      set (dict_keys d) \<union> f ` set xs" for d
    by (induction xs arbitrary: d) (auto simp: keys_upd simp del: set_map)
  then show ?thesis by (simp add: dict_of_def)
qed

lemma dom_map_of_keys: "map_of d k = None \<longleftrightarrow> k \<notin> set (dict_keys d)"
  by (simp add: map_of_eq_None_iff)

lemma map_of_dict_of_None: "map_of (dict_of f g xs) k = None \<longleftrightarrow> k \<notin> f ` set xs"
  by (simp add: dom_map_of_keys del: set_map)

lemma map_of_dict_of_SomeD:
  "map_of (dict_of f g xs) k = Some v \<Longrightarrow> \<exists>x \<in> set xs. f x = k \<and> g x = v"
  by (auto simp: map_of_dict_of dest!: map_of_SomeD)

lemma map_of_dict_of_inj:
  assumes "distinct (map f xs)" and "x \<in> set xs"
  shows "map_of (dict_of f g xs) (f x) = Some (g x)"
proof -
  have "distinct (map fst (rev (map (\<lambda>x. (f x, g x)) xs)))"
    using assms(1) by (simp add: rev_map [symmetric] o_def)
  then show ?thesis
    using assms(2) by (simp add: map_of_dict_of)
qed

lemma dict_of_distinct:
  assumes "distinct (map f xs)"
  shows "dict_of f g xs = map (\<lambda>x. (f x, g x)) xs"
proof -
  have "fold (\<lambda>x d. AList.update (f x) (g x) d) xs d = d @ map (\<lambda>x. (f x, g x)) xs"
    if "distinct (map f xs)" "set (dict_keys d) \<inter> f ` set xs = {}" for d
    using that
  proof (induction xs arbitrary: d)
    case (Cons x xs)
    have "f x \<notin> set (dict_keys d)" using Cons.prems(2) by auto
    then have "AList.update (f x) (g x) d = d @ [(f x, g x)]" by (rule update_new)
    with Cons show ?case by auto
  qed simp
  from this [OF assms, of "[]"] show ?thesis by (simp add: dict_of_def)
qed

lemma map_of_dict_merge [simp]: "map_of (dict_merge a b) k =
    (case map_of (rev b) k of None \<Rightarrow> map_of a k | Some v \<Rightarrow> Some v)"
  by (induction b arbitrary: a) (auto simp: dict_merge_def map_add_def split: option.splits)

section \<open>Loops that keep the first item of each key\<close>

text \<open>
  The loop \<open>for x in xs: if key(x) in seen: continue; seen.add(key(x)); out.append(x)\<close>, with
  \<open>seen\<close> as an argument. It occurs in evidence merging, change events, alert deduplication and
  correlation.
\<close>

fun dedup_from :: "('a \<Rightarrow> 'k) \<Rightarrow> 'k list \<Rightarrow> 'a list \<Rightarrow> 'a list" where
  "dedup_from f seen [] = []"
| "dedup_from f seen (x # xs) =
     (if f x \<in> set seen then dedup_from f seen xs
      else x # dedup_from f (f x # seen) xs)"

abbreviation dedup_by :: "('a \<Rightarrow> 'k) \<Rightarrow> 'a list \<Rightarrow> 'a list" where
  "dedup_by f xs \<equiv> dedup_from f [] xs"

lemma set_dedup_from: "set (dedup_from f seen xs) \<subseteq> {x \<in> set xs. f x \<notin> set seen}"
  by (induction xs arbitrary: seen) (auto split: if_splits, force+)

lemma keys_dedup_from: "f ` set (dedup_from f seen xs) = f ` set xs - set seen"
  by (induction xs arbitrary: seen) auto

lemma distinct_dedup_from: "distinct (map f (dedup_from f seen xs))"
proof (induction xs arbitrary: seen)
  case (Cons x xs)
  have "f x \<notin> f ` set (dedup_from f (f x # seen) xs)" by (simp add: keys_dedup_from)
  with Cons show ?case by simp
qed simp

lemma subseq_dedup_from: "subseq (dedup_from f seen xs) xs"
  by (induction xs arbitrary: seen) auto

lemma dedup_from_distinct:
  "distinct (map f xs) \<Longrightarrow> f ` set xs \<inter> set seen = {} \<Longrightarrow> dedup_from f seen xs = xs"
  by (induction xs arbitrary: seen) auto

lemma dedup_by_subset: "set (dedup_by f xs) \<subseteq> set xs"
  using set_dedup_from [of f "[]" xs] by auto

lemma dedup_by_keys [simp]: "f ` set (dedup_by f xs) = f ` set xs"
  by (simp add: keys_dedup_from)

lemma dedup_by_distinct [simp]: "distinct (map f (dedup_by f xs))"
  by (rule distinct_dedup_from)

lemma dedup_by_Nil [simp]: "dedup_by f xs = [] \<longleftrightarrow> xs = []"
  using dedup_by_keys [of f xs] by (metis image_is_empty set_empty)

lemma dedup_by_idem [simp]: "dedup_by f (dedup_by f xs) = dedup_by f xs"
  by (rule dedup_from_distinct) simp_all

lemma sorted_subseq:
  "subseq xs ys \<Longrightarrow> sorted (map f ys) \<Longrightarrow> sorted (map (f :: 'a \<Rightarrow> 'b :: linorder) xs)"
  by (induction rule: list_emb.induct) (auto dest: list_emb_set)

lemma sorted_dedup_from:
  "sorted (map g xs) \<Longrightarrow> sorted (map (g :: 'a \<Rightarrow> 'b :: linorder) (dedup_from f seen xs))"
  by (rule sorted_subseq [OF subseq_dedup_from])

section \<open>Sorted collections\<close>

lemma distinct_map_sort_key [simp]: "distinct (map f (sort_key g xs)) = distinct (map f xs)"
proof -
  have "mset (map f (sort_key g xs)) = mset (map f xs)" by simp
  then show ?thesis by (rule mset_eq_imp_distinct_iff)
qed

lemma sort_key_Nil [simp]: "sort_key f xs = [] \<longleftrightarrow> xs = []"
  by (metis length_0_conv length_sort)

text \<open>\<open>sorted(set(xs))\<close>.\<close>

definition sorted_set :: "'a :: linorder list \<Rightarrow> 'a list" where
  "sorted_set xs = sort (remdups xs)"

lemma sorted_set_simps [simp]:
  "set (sorted_set xs) = set xs"
  "sorted (sorted_set xs)"
  "distinct (sorted_set xs)"
  by (simp_all add: sorted_set_def)

lemma sorted_set_cong: "set xs = set ys \<Longrightarrow> sorted_set xs = sorted_set ys"
  by (metis sorted_set_simps sorted_distinct_set_unique)

lemma sorted_set_ident: "sorted xs \<Longrightarrow> distinct xs \<Longrightarrow> sorted_set xs = xs"
  by (simp add: sorted_set_def distinct_remdups_id sorted_sort_id)

text \<open>\<open>order.index(x)\<close> of an item that is in the list.\<close>

fun index_of :: "'a list \<Rightarrow> 'a \<Rightarrow> nat" where
  "index_of [] x = 0"
| "index_of (y # ys) x = (if y = x then 0 else Suc (index_of ys x))"

lemma index_of_less: "x \<in> set xs \<Longrightarrow> index_of xs x < length xs"
  by (induction xs) auto

lemma nth_index_of [simp]: "x \<in> set xs \<Longrightarrow> xs ! index_of xs x = x"
  by (induction xs) auto

end
