(* ===== verification/PyValue.thy ===== *)
theory PyValue
  imports Prelude
begin

text \<open>
  Python values the backend passes around without a static type: \<open>decimal.Decimal\<close> numbers (risk
  scores) and the values of \<open>dict[str, Any]\<close> metadata.

  A \<open>Decimal\<close> is kept as Python keeps it, a coefficient with the number of digits after the point,
  because \<open>str(score)\<close> shows that number (\<open>0.00\<close> is not printed as \<open>0\<close>); equality and order are
  those of the value. Arithmetic is exact: rounding to the 28 digits of the default context starts
  far above the scores of the backend and is not modelled. The sign of zero is not kept. \<open>sum(xs)\<close>
  starts from the integer 0, which is \<open>Dec 0 0\<close>.
\<close>

section \<open>Decimal\<close>

datatype decimal = Dec (dec_coeff: int) (dec_scale: nat)

definition dec_val :: "decimal \<Rightarrow> rat" where
  "dec_val d = of_int (dec_coeff d) / 10 ^ dec_scale d"

text \<open>The coefficient of \<open>d\<close> when written with \<open>m\<close> digits after the point.\<close>

definition dec_at :: "nat \<Rightarrow> decimal \<Rightarrow> int" where
  "dec_at m d = dec_coeff d * 10 ^ (m - dec_scale d)"

definition dec_add :: "decimal \<Rightarrow> decimal \<Rightarrow> decimal" where
  "dec_add a b = (let m = max (dec_scale a) (dec_scale b) in Dec (dec_at m a + dec_at m b) m)"

definition dec_sub :: "decimal \<Rightarrow> decimal \<Rightarrow> decimal" where
  "dec_sub a b = (let m = max (dec_scale a) (dec_scale b) in Dec (dec_at m a - dec_at m b) m)"

definition dec_le :: "decimal \<Rightarrow> decimal \<Rightarrow> bool" where
  "dec_le a b = (let m = max (dec_scale a) (dec_scale b) in dec_at m a \<le> dec_at m b)"

definition dec_less :: "decimal \<Rightarrow> decimal \<Rightarrow> bool" where
  "dec_less a b = (let m = max (dec_scale a) (dec_scale b) in dec_at m a < dec_at m b)"

definition dec_eq :: "decimal \<Rightarrow> decimal \<Rightarrow> bool" where
  "dec_eq a b = (let m = max (dec_scale a) (dec_scale b) in dec_at m a = dec_at m b)"

abbreviation dec_int :: "int \<Rightarrow> decimal" where
  "dec_int i \<equiv> Dec i 0"

definition dec_sum :: "decimal list \<Rightarrow> decimal" where
  "dec_sum ds = fold (\<lambda>d acc. dec_add acc d) ds (dec_int 0)"

text \<open>\<open>int(d)\<close> truncates towards zero.\<close>

definition dec_trunc :: "decimal \<Rightarrow> int" where
  "dec_trunc d =
     (if dec_coeff d < 0 then - ((- dec_coeff d) div 10 ^ dec_scale d)
      else dec_coeff d div 10 ^ dec_scale d)"

text \<open>\<open>str(d)\<close>, as \<open>_pydecimal.Decimal.__str__\<close> computes it.\<close>

definition dec_str :: "decimal \<Rightarrow> string" where
  "dec_str d =
     (let sign = (if dec_coeff d < 0 then ''-'' else []);
          digits = nat_digits (nat \<bar>dec_coeff d\<bar>);
          len = int (length digits);
          leftdigits = len - int (dec_scale d);
          dotplace = (if leftdigits > -6 then leftdigits else 1);
          intpart = (if dotplace \<le> 0 then ''0'' else take (nat dotplace) digits);
          fracpart =
            (if dotplace \<le> 0 then CHR ''.'' # replicate (nat (- dotplace)) CHR ''0'' @ digits
             else if dotplace \<ge> len then []
             else CHR ''.'' # drop (nat dotplace) digits);
          expo = (if leftdigits = dotplace then [] else CHR ''E'' # int_str (leftdigits - dotplace))
      in sign @ intpart @ fracpart @ expo)"

lemma dec_val_at:
  assumes "dec_scale d \<le> m"
  shows "of_int (dec_at m d) = dec_val d * 10 ^ m"
proof -
  have "(10 :: rat) ^ m = 10 ^ (m - dec_scale d) * 10 ^ dec_scale d"
    using assms by (simp flip: power_add)
  then show ?thesis by (simp add: dec_at_def dec_val_def)
qed

lemma dec_val_Dec [simp]: "dec_val (Dec c s) = of_int c / 10 ^ s"
  by (simp add: dec_val_def)

lemma dec_val_add [simp]: "dec_val (dec_add a b) = dec_val a + dec_val b"
  by (simp add: dec_add_def Let_def dec_val_at add_divide_distrib)

lemma dec_val_sub [simp]: "dec_val (dec_sub a b) = dec_val a - dec_val b"
  by (simp add: dec_sub_def Let_def dec_val_at diff_divide_distrib)

lemma dec_le_iff: "dec_le a b \<longleftrightarrow> dec_val a \<le> dec_val b"
proof -
  let ?m = "max (dec_scale a) (dec_scale b)"
  have "dec_at ?m a \<le> dec_at ?m b \<longleftrightarrow> (of_int (dec_at ?m a) :: rat) \<le> of_int (dec_at ?m b)"
    by simp
  also have "\<dots> \<longleftrightarrow> dec_val a \<le> dec_val b" by (simp add: dec_val_at)
  finally show ?thesis by (simp add: dec_le_def Let_def)
qed

lemma dec_less_iff: "dec_less a b \<longleftrightarrow> dec_val a < dec_val b"
proof -
  let ?m = "max (dec_scale a) (dec_scale b)"
  have "dec_at ?m a < dec_at ?m b \<longleftrightarrow> (of_int (dec_at ?m a) :: rat) < of_int (dec_at ?m b)"
    by simp
  also have "\<dots> \<longleftrightarrow> dec_val a < dec_val b" by (simp add: dec_val_at)
  finally show ?thesis by (simp add: dec_less_def Let_def)
qed

lemma dec_eq_iff: "dec_eq a b \<longleftrightarrow> dec_val a = dec_val b"
proof -
  have "dec_eq a b \<longleftrightarrow> dec_le a b \<and> dec_le b a"
    by (auto simp: dec_eq_def dec_le_def Let_def max.commute)
  then show ?thesis by (auto simp: dec_le_iff)
qed

lemma dec_val_fold_add: "dec_val (fold (\<lambda>d acc. dec_add acc d) ds acc) = dec_val acc + sum_list (map dec_val ds)"
  by (induction ds arbitrary: acc) simp_all

lemma dec_val_sum: "dec_val (dec_sum ds) = sum_list (map dec_val ds)"
  by (simp add: dec_sum_def dec_val_fold_add)

section \<open>Dynamically typed values\<close>

datatype pyval =
    PyNone
  | PyBool bool
  | PyInt int
  | PyDec decimal
  | PyStr string
  | PyList "pyval list"
  | PyDict "(string \<times> pyval) list"

type_synonym metadata = "(string, pyval) dict"

definition py_get :: "metadata \<Rightarrow> string \<Rightarrow> pyval" where
  "py_get m k = dict_get m k PyNone"

text \<open>\<open>bool(v)\<close>.\<close>

fun py_truthy :: "pyval \<Rightarrow> bool" where
  "py_truthy PyNone = False"
| "py_truthy (PyBool b) = b"
| "py_truthy (PyInt i) = (i \<noteq> 0)"
| "py_truthy (PyDec d) = (dec_coeff d \<noteq> 0)"
| "py_truthy (PyStr s) = (s \<noteq> [])"
| "py_truthy (PyList xs) = (xs \<noteq> [])"
| "py_truthy (PyDict d) = (d \<noteq> [])"

text \<open>Numbers compare by value across \<open>bool\<close>, \<open>int\<close> and \<open>Decimal\<close>.\<close>

fun py_number :: "pyval \<Rightarrow> decimal option" where
  "py_number (PyBool b) = Some (dec_int (if b then 1 else 0))"
| "py_number (PyInt i) = Some (dec_int i)"
| "py_number (PyDec d) = Some d"
| "py_number v = None"

text \<open>\<open>isinstance(v, (int, float, Decimal))\<close> followed by \<open>int(v)\<close>; anything else counts as 0.\<close>

definition py_weight :: "pyval \<Rightarrow> int" where
  "py_weight v = (case py_number v of None \<Rightarrow> 0 | Some d \<Rightarrow> dec_trunc d)"

text \<open>\<open>v == w\<close>: lists pointwise, dictionaries as sets of entries.\<close>

function (sequential) py_eq :: "pyval \<Rightarrow> pyval \<Rightarrow> bool" where
  "py_eq PyNone PyNone = True"
| "py_eq (PyStr s) (PyStr t) = (s = t)"
| "py_eq (PyList xs) (PyList ys) =
     (length xs = length ys \<and> list_all (\<lambda>(x, y). py_eq x y) (zip xs ys))"
| "py_eq (PyDict d) (PyDict e) =
     (length d = length e \<and>
      list_all (\<lambda>(k, v). case map_of e k of None \<Rightarrow> False | Some w \<Rightarrow> py_eq v w) d)"
| "py_eq v w =
     (case (py_number v, py_number w) of (Some a, Some b) \<Rightarrow> dec_eq a b | _ \<Rightarrow> False)"
  by pat_completeness auto
termination
proof (relation "measure (\<lambda>(v, w). size v)", simp, goal_cases)
  case (1 xs ys z x y)
  then have "x \<in> set xs" by (metis set_zip_leftD)
  then have "size x \<le> size_list size xs" by (simp add: size_list_estimation')
  then show ?case by simp
next
  case (2 d e z k v w)
  then have "(k, v) \<in> set d" by simp
  then have "size v < size_list (size_prod (\<lambda>_. 0) size) d"
    by (induction d) auto
  then show ?case by simp
qed

definition meta_eq :: "metadata \<Rightarrow> metadata \<Rightarrow> bool" where
  "meta_eq a b = py_eq (PyDict a) (PyDict b)"

text \<open>A value as Python can hold it: no dictionary in it has a key twice.\<close>

fun wf_pyval :: "pyval \<Rightarrow> bool" where
  "wf_pyval (PyList xs) = list_all wf_pyval xs"
| "wf_pyval (PyDict d) = (wf_dict d \<and> list_all (\<lambda>(k, v). wf_pyval v) d)"
| "wf_pyval v = True"

lemma py_eq_refl: "wf_pyval v \<Longrightarrow> py_eq v v"
proof (induction v)
  case (PyList xs)
  then show ?case by (auto simp: list_all_iff zip_same)
next
  case (PyDict d)
  then have "py_eq v v" if "(k, v) \<in> set d" for k v
    using that by (force simp: list_all_iff)
  with PyDict.prems show ?case by (auto simp: list_all_iff)
qed (simp_all add: dec_eq_iff)

section \<open>Text of a value\<close>

text \<open>\<open>repr\<close> of a string: single quotes unless the text has a single and no double quote.\<close>

definition hex_digit :: "nat \<Rightarrow> char" where
  "hex_digit n = char_of (if n < 10 then 48 + n else 87 + n)"

definition repr_char :: "char \<Rightarrow> char \<Rightarrow> string" where
  "repr_char q c =
     (let n = (of_char c :: nat)
      in if c = q \<or> c = CHR 0x5C then [CHR 0x5C, c]
         else if n = 10 then [CHR 0x5C, CHR ''n'']
         else if n = 13 then [CHR 0x5C, CHR ''r'']
         else if n = 9 then [CHR 0x5C, CHR ''t'']
         else if n < 32 \<or> n = 127 then [CHR 0x5C, CHR ''x'', hex_digit (n div 16), hex_digit (n mod 16)]
         else [c])"

definition repr_str :: "string \<Rightarrow> string" where
  "repr_str s =
     (let q = (if CHR 0x27 \<in> set s \<and> CHR 0x22 \<notin> set s then CHR 0x22 else CHR 0x27)
      in [q] @ concat (map (repr_char q) s) @ [q])"

fun py_repr :: "pyval \<Rightarrow> string" where
  "py_repr PyNone = ''None''"
| "py_repr (PyBool b) = (if b then ''True'' else ''False'')"
| "py_repr (PyInt i) = int_str i"
| "py_repr (PyDec d) = ''Decimal('' @ repr_str (dec_str d) @ '')''"
| "py_repr (PyStr s) = repr_str s"
| "py_repr (PyList xs) = ''['' @ join '', '' (map py_repr xs) @ '']''"
| "py_repr (PyDict d) = ''{'' @ join '', '' (map (\<lambda>(k, v). repr_str k @ '': '' @ py_repr v) d) @ ''}''"

definition py_str :: "pyval \<Rightarrow> string" where
  "py_str v = (case v of PyStr s \<Rightarrow> s | PyDec d \<Rightarrow> dec_str d | _ \<Rightarrow> py_repr v)"

lemma py_str_PyStr [simp]: "py_str (PyStr s) = s"
  by (simp add: py_str_def)

end
