(* ===== verification/PyTime.thy ===== *)
theory PyTime
  imports PyValue
begin

text \<open>
  \<open>datetime.datetime\<close> as the backend uses it. A value is a wall clock, kept as the number of
  microseconds since 0001-01-01T00:00:00, with the UTC offset of its \<open>tzinfo\<close> (\<open>None\<close> for a naive
  value). Comparison follows the library: two naive values by their wall clocks, two aware ones
  by the instants they denote, and a mixed pair raises \<open>TypeError\<close>. \<open>isoformat\<close> goes through the
  proleptic Gregorian calendar (\<open>_ord2ymd\<close> of the standard library). The range check of the
  library (years 1 to 9999, \<open>OverflowError\<close>) is not modelled.
\<close>

section \<open>Values, comparison, arithmetic\<close>

record datetime =
  dt_wall :: int
  dt_off :: "int option"

abbreviation us_per_second :: int where "us_per_second \<equiv> 1000000"
abbreviation us_per_day :: int where "us_per_day \<equiv> 86400000000"

text \<open>The instant: the wall clock at offset 0. A naive value stands for its own wall clock.\<close>

definition dt_instant :: "datetime \<Rightarrow> int" where
  "dt_instant d = dt_wall d - (case dt_off d of None \<Rightarrow> 0 | Some o' \<Rightarrow> o')"

definition dt_aware :: "datetime \<Rightarrow> bool" where
  "dt_aware d = (dt_off d \<noteq> None)"

definition dt_utc :: "datetime \<Rightarrow> bool" where
  "dt_utc d = (dt_off d = Some 0)"

definition dt_mixed_error :: py_error where
  "dt_mixed_error = TypeError ''can't compare offset-naive and offset-aware datetimes''"

definition dt_less :: "datetime \<Rightarrow> datetime \<Rightarrow> bool result" where
  "dt_less a b =
     (if dt_aware a = dt_aware b then Inr (dt_instant a < dt_instant b) else Inl dt_mixed_error)"

definition dt_ge :: "datetime \<Rightarrow> datetime \<Rightarrow> bool result" where
  "dt_ge a b =
     (if dt_aware a = dt_aware b then Inr (dt_instant b \<le> dt_instant a) else Inl dt_mixed_error)"

definition dt_add :: "datetime \<Rightarrow> int \<Rightarrow> datetime" where
  "dt_add d us = d\<lparr>dt_wall := dt_wall d + us\<rparr>"

lemma dt_instant_add [simp]: "dt_instant (dt_add d us) = dt_instant d + us"
  by (simp add: dt_add_def dt_instant_def)

lemma dt_aware_add [simp]: "dt_aware (dt_add d us) = dt_aware d"
  by (simp add: dt_add_def dt_aware_def)

lemma dt_utc_add [simp]: "dt_utc (dt_add d us) = dt_utc d"
  by (simp add: dt_add_def dt_utc_def)

lemma dt_utc_aware: "dt_utc d \<Longrightarrow> dt_aware d"
  by (simp add: dt_utc_def dt_aware_def)

lemma dt_utc_eq: "dt_utc a \<Longrightarrow> dt_utc b \<Longrightarrow> dt_instant a = dt_instant b \<Longrightarrow> a = b"
  by (simp add: dt_utc_def dt_instant_def)

section \<open>The calendar\<close>

definition days_before_year :: "int \<Rightarrow> int" where
  "days_before_year y = (let p = y - 1 in p * 365 + p div 4 - p div 100 + p div 400)"

definition is_leap :: "int \<Rightarrow> bool" where
  "is_leap y \<longleftrightarrow> y mod 4 = 0 \<and> (y mod 100 \<noteq> 0 \<or> y mod 400 = 0)"

text \<open>The days of a common year before each month, \<open>_DAYS_BEFORE_MONTH\<close>.\<close>

definition days_before_month_table :: "int list" where
  "days_before_month_table = [0, 31, 59, 90, 120, 151, 181, 212, 243, 273, 304, 334]"

definition days_before_month :: "bool \<Rightarrow> nat \<Rightarrow> int" where
  "days_before_month leap m =
     days_before_month_table ! (m - 1) + (if 2 < m \<and> leap then 1 else 0)"

text \<open>The ordinal of a date; 0001-01-01 has ordinal 1.\<close>

definition ymd2ord :: "int \<Rightarrow> nat \<Rightarrow> int \<Rightarrow> int" where
  "ymd2ord y m d = days_before_year y + days_before_month (is_leap y) m + d"

text \<open>
  Month and day of the day of the year \<open>n\<close> (from 0): the estimate \<open>(n + 50) >> 5\<close> is the month or
  one too large.
\<close>

definition month_day :: "bool \<Rightarrow> int \<Rightarrow> nat \<times> int" where
  "month_day leap n =
     (let m = nat ((n + 50) div 32)
      in if days_before_month leap m > n then (m - 1, n - days_before_month leap (m - 1) + 1)
         else (m, n - days_before_month leap m + 1))"

definition ord2ymd :: "int \<Rightarrow> int \<times> nat \<times> int" where
  "ord2ymd ordinal =
     (let n = ordinal - 1;
          n400 = n div 146097; n = n mod 146097;
          n100 = n div 36524; n = n mod 36524;
          n4 = n div 1461; n = n mod 1461;
          n1 = n div 365; n = n mod 365;
          year = n400 * 400 + 1 + n100 * 100 + n4 * 4 + n1
      in if n1 = 4 \<or> n100 = 4 then (year - 1, 12, 31)
         else
           (let (m, d) = month_day (n1 = 3 \<and> (n4 \<noteq> 24 \<or> n100 = 3)) n
            in (year, m, d)))"

section \<open>isoformat\<close>

text \<open>\<open>"%0wd" % n\<close>.\<close>

definition pad0 :: "nat \<Rightarrow> nat \<Rightarrow> string" where
  "pad0 w n = replicate (w - length (nat_digits n)) CHR ''0'' @ nat_digits n"

definition iso_time :: "int \<Rightarrow> string" where
  "iso_time us =
     (let s = us div us_per_second; f = us mod us_per_second
      in pad0 2 (nat (s div 3600)) @ '':'' @ pad0 2 (nat (s div 60 mod 60)) @ '':''
         @ pad0 2 (nat (s mod 60)) @ (if f = 0 then [] else ''.'' @ pad0 6 (nat f)))"

definition iso_offset :: "int \<Rightarrow> string" where
  "iso_offset o' =
     (let a = \<bar>o'\<bar>; s = a div us_per_second; f = a mod us_per_second
      in (if o' < 0 then ''-'' else ''+'') @ pad0 2 (nat (s div 3600)) @ '':''
         @ pad0 2 (nat (s div 60 mod 60))
         @ (if s mod 60 = 0 \<and> f = 0 then []
            else '':'' @ pad0 2 (nat (s mod 60)) @ (if f = 0 then [] else ''.'' @ pad0 6 (nat f))))"

definition isoformat :: "datetime \<Rightarrow> string" where
  "isoformat d =
     (let (y, m, day) = ord2ymd (dt_wall d div us_per_day + 1)
      in pad0 4 (nat y) @ ''-'' @ pad0 2 m @ ''-'' @ pad0 2 (nat day) @ ''T''
         @ iso_time (dt_wall d mod us_per_day)
         @ (case dt_off d of None \<Rightarrow> [] | Some o' \<Rightarrow> iso_offset o'))"

end
