(* ===== verification/Calendar.thy ===== *)
theory Calendar
  imports PyTime
begin

text \<open>
  The calendar conversion of \<open>isoformat\<close> is exact: converting a day number to a date and back is the
  identity, and the date is a real one. The proof follows the digits the conversion extracts (400-,
  100-, 4-year and 1-year periods) and the month estimate.
\<close>

definition days_in_month :: "bool \<Rightarrow> nat \<Rightarrow> int" where
  "days_in_month leap m =
     (if m = 2 then (if leap then 29 else 28) else if m \<in> {4, 6, 9, 11} then 30 else 31)"

lemma month_day_inverse:
  assumes "0 \<le> n" "n < 365" "month_day leap n = (m, d)"
  shows "1 \<le> m \<and> m \<le> 12 \<and> 1 \<le> d \<and> d \<le> days_in_month leap m \<and> days_before_month leap m + d = n + 1"
proof -
  define q where "q = (n + 50) div 32"
  have "n + 50 = 32 * q + (n + 50) mod 32" by (simp add: q_def)
  moreover have "0 \<le> (n + 50) mod 32" "(n + 50) mod 32 < 32" by simp_all
  ultimately have q: "32 * q \<le> n + 50" "n + 50 < 32 * q + 32" by linarith+
  have md: "(if days_before_month leap (nat q) > n
      then (nat q - 1, n - days_before_month leap (nat q - 1) + 1)
      else (nat q, n - days_before_month leap (nat q) + 1)) = (m, d)"
    using assms(3) unfolding month_day_def Let_def q_def .
  have "1 \<le> q" "q \<le> 12" using q assms(1,2) by linarith+
  then have "q = 1 \<or> q = 2 \<or> q = 3 \<or> q = 4 \<or> q = 5 \<or> q = 6 \<or> q = 7 \<or> q = 8 \<or> q = 9 \<or> q = 10 \<or> q = 11 \<or> q = 12"
    by presburger
  then show ?thesis
    using md q assms(1,2)
    by (elim disjE) (auto simp: days_before_month_def days_before_month_table_def days_in_month_def split: if_splits)
qed

lemma mod_zero_last:
  assumes "x = m * k + r" "1 \<le> r" "r \<le> (m :: int)"
  shows "x mod m = 0 \<longleftrightarrow> r = m"
proof (cases "r = m")
  case False
  then have "x mod m = r" using assms by (intro int_mod_pos_eq [of x m k]) simp_all
  with False assms(2) show ?thesis by simp
qed (use assms in simp)

text \<open>The year of period digits \<open>a, b, c, d\<close>: its days before, and whether it is a leap year.\<close>

lemma period_days:
  assumes "0 \<le> b" "b \<le> 3" "0 \<le> c" "c \<le> 24" "0 \<le> d" "d \<le> (3 :: int)"
  shows "days_before_year (a * 400 + 1 + b * 100 + c * 4 + d) = 146097 * a + 36524 * b + 1461 * c + 365 * d"
    and "is_leap (a * 400 + 1 + b * 100 + c * 4 + d) \<longleftrightarrow> d = 3 \<and> (c \<noteq> 24 \<or> b = 3)"
proof -
  let ?p = "a * 400 + b * 100 + c * 4 + d"
  have "?p div 4 = 100 * a + 25 * b + c"
    by (rule int_div_pos_eq [where r = d]) (use assms in simp_all)
  moreover have "?p div 100 = 4 * a + b"
    by (rule int_div_pos_eq [where r = "4 * c + d"]) (use assms in simp_all)
  moreover have "?p div 400 = a"
    by (rule int_div_pos_eq [where r = "100 * b + 4 * c + d"]) (use assms in simp_all)
  ultimately show "days_before_year (a * 400 + 1 + b * 100 + c * 4 + d) =
      146097 * a + 36524 * b + 1461 * c + 365 * d"
    by (simp add: days_before_year_def algebra_simps)
  have "(?p + 1) mod 4 = 0 \<longleftrightarrow> d + 1 = 4"
    by (rule mod_zero_last [where k = "100 * a + 25 * b + c"]) (use assms in simp_all)
  moreover have "(?p + 1) mod 100 = 0 \<longleftrightarrow> 4 * c + d + 1 = 100"
    by (rule mod_zero_last [where k = "4 * a + b"]) (use assms in simp_all)
  moreover have "(?p + 1) mod 400 = 0 \<longleftrightarrow> 100 * b + 4 * c + d + 1 = 400"
    by (rule mod_zero_last [where k = a]) (use assms in simp_all)
  moreover have "4 * c + d + 1 = 100 \<longleftrightarrow> c = 24 \<and> d = 3"
    "100 * b + 4 * c + d + 1 = 400 \<longleftrightarrow> b = 3 \<and> c = 24 \<and> d = 3"
    using assms by arith+
  ultimately show "is_leap (a * 400 + 1 + b * 100 + c * 4 + d) \<longleftrightarrow> d = 3 \<and> (c \<noteq> 24 \<or> b = 3)"
    by (auto simp: is_leap_def algebra_simps)
qed

lemma last_day_of_year:
  assumes "is_leap y"
  shows "ymd2ord y 12 31 = days_before_year y + 366"
  using assms by (simp add: ymd2ord_def days_before_month_def days_before_month_table_def)

lemma ord2ymd_inverse:
  assumes "1 \<le> n" and "ord2ymd n = (y, m, d)"
  shows "ymd2ord y m d = n \<and> 1 \<le> y \<and> 1 \<le> m \<and> m \<le> 12 \<and> 1 \<le> d \<and>
    d \<le> days_in_month (is_leap y) m"
proof -
  let ?n0 = "n - 1"
  define a where "a = ?n0 div 146097"
  define r1 where "r1 = ?n0 mod 146097"
  define b where "b = r1 div 36524"
  define r2 where "r2 = r1 mod 36524"
  define c where "c = r2 div 1461"
  define r3 where "r3 = r2 mod 1461"
  define e where "e = r3 div 365"
  define r4 where "r4 = r3 mod 365"
  define Y where "Y = a * 400 + 1 + b * 100 + c * 4 + e"
  note digits = a_def r1_def b_def r2_def c_def r3_def e_def r4_def Y_def
  have n: "n = 146097 * a + r1 + 1" by (simp add: a_def r1_def)
  have r1: "r1 = 36524 * b + r2" by (simp add: b_def r2_def)
  have r2: "r2 = 1461 * c + r3" by (simp add: c_def r3_def)
  have r3: "r3 = 365 * e + r4" by (simp add: e_def r4_def)
  have bounds: "0 \<le> r1" "r1 < 146097" "0 \<le> r2" "r2 < 36524" "0 \<le> r3" "r3 < 1461" "0 \<le> r4" "r4 < 365"
    by (simp_all add: r1_def r2_def r3_def r4_def)
  have a0: "0 \<le> a" using assms(1) by (simp add: a_def)
  have ranges: "0 \<le> b" "b \<le> 4" "0 \<le> c" "c \<le> 24" "0 \<le> e" "e \<le> 4"
    using r1 r2 r3 bounds by linarith+
  have conv: "ord2ymd n = (if e = 4 \<or> b = 4 then (Y - 1, 12, 31)
      else (let (m, d) = month_day (e = 3 \<and> (c \<noteq> 24 \<or> b = 3)) r4 in (Y, m, d)))"
    by (simp add: ord2ymd_def Let_def digits)
  consider (b4) "b = 4" | (e4) "b \<le> 3" "e = 4" | (reg) "b \<le> 3" "e \<le> 3"
    using ranges by linarith
  then show ?thesis
  proof cases
    case b4
    with r1 r2 r3 bounds ranges have z: "r2 = 0" "c = 0" "e = 0" by linarith+
    then have Y: "Y - 1 = a * 400 + 1 + 3 * 100 + 24 * 4 + 3" using b4 by (simp add: Y_def)
    have "is_leap (Y - 1)" "days_before_year (Y - 1) = 146097 * a + 36524 * 3 + 1461 * 24 + 365 * 3"
      unfolding Y by (subst period_days; simp)+
    with last_day_of_year [of "Y - 1"] b4 n r1 z a0 Y assms(2) conv show ?thesis by (simp add: days_in_month_def)
  next
    case e4
    with r2 r3 bounds ranges have z: "r4 = 0" "c \<le> 23" by linarith+
    have Y: "Y - 1 = a * 400 + 1 + b * 100 + c * 4 + 3" using e4 by (simp add: Y_def)
    have "is_leap (Y - 1)" "days_before_year (Y - 1) = 146097 * a + 36524 * b + 1461 * c + 365 * 3"
      unfolding Y using ranges e4 z by (subst period_days; simp)+
    with last_day_of_year [of "Y - 1"] e4 n r1 r2 r3 z a0 Y ranges assms(2) conv show ?thesis by (simp add: days_in_month_def)
  next
    case reg
    have dby: "days_before_year Y = 146097 * a + 36524 * b + 1461 * c + 365 * e"
      and leap: "is_leap Y \<longleftrightarrow> e = 3 \<and> (c \<noteq> 24 \<or> b = 3)"
      unfolding Y_def using ranges reg by (subst period_days; simp)+
    obtain m' d' where md: "month_day (is_leap Y) r4 = (m', d')" by force
    then have "ord2ymd n = (Y, m', d')" using conv reg leap by simp
    with assms(2) have eq: "y = Y" "m = m'" "d = d'" by simp_all
    have "1 \<le> Y" using a0 ranges by (simp add: Y_def)
    with month_day_inverse [OF bounds(7,8) md] dby n r1 r2 r3
    show ?thesis by (simp add: eq ymd2ord_def)
  qed
qed

end
