(* ===== verification/PyText.thy ===== *)
theory PyText
  imports PyValue
begin

text \<open>
  Conversions from text and from dynamically typed values: \<open>int(v)\<close>, \<open>Decimal(text)\<close>, iteration over
  a value and \<open>sep.join(v)\<close>. Numbers are read in the plain forms (an optional sign, digits, for
  decimals a fraction and an exponent); surrounding blanks, underscores and the special values of
  \<open>Decimal\<close> are not modelled. Only the class of an exception matters here, so messages are short.
\<close>

section \<open>Numbers from text\<close>

definition digit_char :: "char \<Rightarrow> bool" where
  "digit_char c \<longleftrightarrow> 48 \<le> (of_char c :: nat) \<and> (of_char c :: nat) \<le> 57"

definition digits_val :: "string \<Rightarrow> nat" where
  "digits_val s = foldl (\<lambda>n c. 10 * n + (of_char c - 48)) 0 s"

definition parse_nat :: "string \<Rightarrow> nat option" where
  "parse_nat s = (if s \<noteq> [] \<and> list_all digit_char s then Some (digits_val s) else None)"

fun parse_int :: "string \<Rightarrow> int option" where
  "parse_int [] = None"
| "parse_int (c # s) =
     (if c = CHR ''-'' then map_option (\<lambda>n. - int n) (parse_nat s)
      else if c = CHR ''+'' then map_option int (parse_nat s)
      else map_option int (parse_nat (c # s)))"

text \<open>\<open>Decimal(text)\<close>: sign, digits with an optional point, and an optional exponent.\<close>

definition split_at :: "(char \<Rightarrow> bool) \<Rightarrow> string \<Rightarrow> string \<times> string" where
  "split_at P s = (takeWhile (\<lambda>c. \<not> P c) s, drop 1 (dropWhile (\<lambda>c. \<not> P c) s))"

definition shift_decimal :: "int \<Rightarrow> decimal \<Rightarrow> decimal" where
  "shift_decimal e d =
     (if e < 0 then Dec (dec_coeff d) (dec_scale d + nat (- e))
      else if e \<le> int (dec_scale d) then Dec (dec_coeff d) (dec_scale d - nat e)
      else Dec (dec_coeff d * 10 ^ (nat e - dec_scale d)) 0)"

definition parse_unsigned_decimal :: "string \<Rightarrow> decimal option" where
  "parse_unsigned_decimal s =
     (let (mantissa, e) = split_at (\<lambda>c. c = CHR ''E'' \<or> c = CHR ''e'') s;
          (intpart, frac) = split_at (\<lambda>c. c = CHR ''.'') mantissa
      in case parse_nat (intpart @ frac) of
           None \<Rightarrow> None
         | Some n \<Rightarrow>
             (if mantissa = s then Some (Dec (int n) (length frac))
              else map_option (\<lambda>x. shift_decimal x (Dec (int n) (length frac))) (parse_int e)))"

fun parse_decimal :: "string \<Rightarrow> decimal option" where
  "parse_decimal [] = None"
| "parse_decimal (c # s) =
     (if c = CHR ''-'' then map_option (\<lambda>d. Dec (- dec_coeff d) (dec_scale d)) (parse_unsigned_decimal s)
      else if c = CHR ''+'' then parse_unsigned_decimal s
      else parse_unsigned_decimal (c # s))"

section \<open>Conversions of values\<close>

fun py_int :: "pyval \<Rightarrow> int result" where
  "py_int (PyBool b) = Inr (if b then 1 else 0)"
| "py_int (PyInt i) = Inr i"
| "py_int (PyDec d) = Inr (dec_trunc d)"
| "py_int (PyStr s) = (case parse_int s of
     Some i \<Rightarrow> Inr i | None \<Rightarrow> Inl (ValueError ''invalid literal for int()''))"
| "py_int v = Inl (TypeError ''int() argument'')"

fun py_decimal :: "pyval \<Rightarrow> decimal result" where
  "py_decimal (PyBool b) = Inr (dec_int (if b then 1 else 0))"
| "py_decimal (PyInt i) = Inr (dec_int i)"
| "py_decimal (PyDec d) = Inr d"
| "py_decimal (PyStr s) = (case parse_decimal s of
     Some d \<Rightarrow> Inr d | None \<Rightarrow> Inl (InvalidOperation ''ConversionSyntax''))"
| "py_decimal (PyList xs) = Inl (ValueError ''argument must be a sequence of length 3'')"
| "py_decimal v = Inl (TypeError ''conversion to Decimal is not supported'')"

fun py_iter :: "pyval \<Rightarrow> pyval list result" where
  "py_iter (PyList xs) = Inr xs"
| "py_iter (PyStr s) = Inr (map (\<lambda>c. PyStr [c]) s)"
| "py_iter (PyDict d) = Inr (map (\<lambda>(k, v). PyStr k) d)"
| "py_iter v = Inl (TypeError ''object is not iterable'')"

fun py_expect_str :: "pyval \<Rightarrow> string result" where
  "py_expect_str (PyStr s) = Inr s"
| "py_expect_str v = Inl (TypeError ''expected str instance'')"

definition py_join :: "string \<Rightarrow> pyval \<Rightarrow> string result" where
  "py_join sep v = bindR (py_iter v) (\<lambda>xs. bindR (mapR py_expect_str xs) (\<lambda>ss. Inr (join sep ss)))"

lemma py_join_strings [simp]: "py_join sep (PyList (map PyStr ss)) = Inr (join sep ss)"
proof -
  have "mapR py_expect_str (map PyStr ss) = Inr ss" by (induction ss) simp_all
  then show ?thesis by (simp add: py_join_def)
qed

section \<open>Reading back a number\<close>

lemma digit_char_of: "n < 10 \<Longrightarrow> (of_char (char_of (48 + n) :: char) :: nat) = 48 + n"
  by simp

lemma nat_digits_digits [simp]: "list_all digit_char (nat_digits n)"
proof (induction n rule: nat_digits.induct)
  case (1 n)
  have digit: "digit_char (char_of (48 + k))" if "k < 10" for k :: nat
    using that by (simp add: digit_char_def)
  from 1 show ?case
    by (subst nat_digits.simps) (simp add: digit)
qed

lemma nat_digits_nonempty [simp]: "nat_digits n \<noteq> []"
  by (subst nat_digits.simps) simp

lemma digits_val_append: "digits_val (s @ [c]) = 10 * digits_val s + (of_char c - 48)"
  by (simp add: digits_val_def)

lemma digits_val_nat_digits [simp]: "digits_val (nat_digits n) = n"
proof (induction n rule: nat_digits.induct)
  case (1 n)
  show ?case
  proof (cases "n < 10")
    case True
    then show ?thesis by (subst nat_digits.simps) (simp add: digits_val_def)
  next
    case False
    with 1 show ?thesis by (subst nat_digits.simps) (simp add: digits_val_append)
  qed
qed

lemma digits_val_zeros [simp]: "digits_val (replicate k CHR ''0'' @ s) = digits_val s"
  by (induction k) (simp_all add: digits_val_def)

lemma digits_val_zero_Cons [simp]: "digits_val (CHR ''0'' # s) = digits_val s"
  by (simp add: digits_val_def)

lemma parse_nat_digits [simp]: "parse_nat (nat_digits n) = Some n"
  by (simp add: parse_nat_def)

lemma digit_char_not_sign: "digit_char c \<Longrightarrow> c \<notin> {CHR ''-'', CHR ''+'', CHR ''.'', CHR ''E'', CHR ''e''}"
  by (auto simp: digit_char_def)

lemma parse_int_str [simp]: "parse_int (int_str i) = Some i"
proof (cases "i < 0")
  case False
  obtain c s where cs: "nat_digits (nat i) = c # s" by (cases "nat_digits (nat i)") auto
  then have "digit_char c" using nat_digits_digits [of "nat i"] by simp
  from digit_char_not_sign [OF this] parse_nat_digits [of "nat i"] cs False show ?thesis
    by (auto simp: int_str_def)
qed (simp add: int_str_def)

lemma split_at_sep: "list_all (\<lambda>c. \<not> P c) a \<Longrightarrow> P x \<Longrightarrow> split_at P (a @ x # b) = (a, b)"
  by (induction a) (auto simp: split_at_def)

lemma split_at_none: "list_all (\<lambda>c. \<not> P c) a \<Longrightarrow> split_at P a = (a, [])"
proof -
  assume "list_all (\<lambda>c. \<not> P c) a"
  then have tk: "takeWhile (\<lambda>c. \<not> P c) a = a" and dr: "dropWhile (\<lambda>c. \<not> P c) a = []"
    by (simp_all add: list_all_iff)
  show ?thesis by (simp only: split_at_def tk dr drop_Nil)
qed

abbreviation exp_char :: "char \<Rightarrow> bool" where
  "exp_char c \<equiv> c = CHR ''E'' \<or> c = CHR ''e''"

lemma digits_no_exp: "list_all digit_char s \<Longrightarrow> list_all (\<lambda>c. c \<noteq> CHR ''E'' \<and> c \<noteq> CHR ''e'') s"
  and digits_no_dot: "list_all digit_char s \<Longrightarrow> list_all (\<lambda>c. c \<noteq> CHR ''.'') s"
  using digit_char_not_sign by (fastforce simp: list_all_iff)+

text \<open>The mantissa: digits, or digits with a point in them.\<close>

lemma split_mantissa:
  assumes "list_all digit_char a" "list_all digit_char b"
  shows "split_at (\<lambda>c. c = CHR ''.'') (if b = [] then a else a @ CHR ''.'' # b) = (a, b)"
  using assms by (auto simp: split_at_none split_at_sep digits_no_dot)

lemma parse_unsigned_plain:
  assumes "list_all digit_char a" "list_all digit_char b" "a \<noteq> []"
  shows "parse_unsigned_decimal (if b = [] then a else a @ CHR ''.'' # b) =
    Some (Dec (int (digits_val (a @ b))) (length b))"
proof -
  let ?m = "if b = [] then a else a @ CHR ''.'' # b"
  have "list_all (\<lambda>c. \<not> exp_char c) ?m" using assms by (auto simp: digits_no_exp)
  then have "split_at exp_char ?m = (?m, [])" by (rule split_at_none)
  with split_mantissa [OF assms(1,2)] assms show ?thesis
    by (simp add: parse_unsigned_decimal_def parse_nat_def del: if_split)
qed

lemma parse_unsigned_exp:
  assumes "list_all digit_char a" "list_all digit_char b" "a \<noteq> []"
  shows "parse_unsigned_decimal ((if b = [] then a else a @ CHR ''.'' # b) @ CHR ''E'' # int_str e) =
    Some (shift_decimal e (Dec (int (digits_val (a @ b))) (length b)))"
proof -
  let ?m = "if b = [] then a else a @ CHR ''.'' # b"
  have "list_all (\<lambda>c. \<not> exp_char c) ?m" using assms by (auto simp: digits_no_exp)
  then have "split_at exp_char (?m @ CHR ''E'' # int_str e) = (?m, int_str e)" by (rule split_at_sep) simp
  with split_mantissa [OF assms(1,2)] assms show ?thesis
    by (simp add: parse_unsigned_decimal_def parse_nat_def del: if_split)
qed

definition unsigned_str :: "nat \<Rightarrow> nat \<Rightarrow> string" where
  "unsigned_str c s = dec_str (Dec (int c) s)"

abbreviation mantissa :: "string \<Rightarrow> string \<Rightarrow> string" where
  "mantissa a b \<equiv> (if b = [] then a else a @ CHR ''.'' # b)"

lemma unsigned_str_cases:
  obtains (plain) a b where "list_all digit_char a" "list_all digit_char b" "a \<noteq> []"
      "unsigned_str c s = mantissa a b" "digits_val (a @ b) = c" "length b = s"
  | (exponent) a b e where "list_all digit_char a" "list_all digit_char b" "a \<noteq> []"
      "unsigned_str c s = mantissa a b @ CHR ''E'' # int_str e" "digits_val (a @ b) = c"
      "shift_decimal e (Dec (int c) (length b)) = Dec (int c) s"
proof -
  let ?ds = "nat_digits c"
  let ?len = "length ?ds"
  let ?left = "int ?len - int s"
  have ds: "list_all digit_char ?ds" "?ds \<noteq> []" by simp_all
  have parts: "list_all digit_char (take k ?ds)" "list_all digit_char (drop k ?ds)" for k
    using ds(1) by (auto simp: list_all_iff dest: in_set_takeD in_set_dropD)
  have len: "0 < ?len" by simp
  consider (low) "?left > - 6" "?left \<le> 0" | (all) "?left > 0" "s = 0" | (mid) "?left > 0" "0 < s"
    | (exp) "?left \<le> - 6" by linarith
  then show thesis
  proof cases
    case low
    let ?b = "replicate (nat (- ?left)) CHR ''0'' @ ?ds"
    have "unsigned_str c s = mantissa ''0'' ?b"
      using low by (simp add: unsigned_str_def dec_str_def Let_def)
    moreover have "list_all digit_char (replicate k CHR ''0'')" for k
      by (induction k) (simp_all add: digit_char_def)
    then have "list_all digit_char ?b" using ds(1) by simp
    moreover have "length ?b = s" using low by simp
    ultimately show thesis by (intro plain [of "''0''" ?b]) (simp_all add: digit_char_def)
  next
    case all
    then have "unsigned_str c s = ?ds" by (simp add: unsigned_str_def dec_str_def Let_def)
    with all ds show thesis by (intro plain [of ?ds "[]"]) simp_all
  next
    case mid
    let ?k = "nat ?left"
    have "drop ?k ?ds \<noteq> []" using mid by simp
    moreover from this have "unsigned_str c s = mantissa (take ?k ?ds) (drop ?k ?ds)"
      using mid by (simp add: unsigned_str_def dec_str_def Let_def)
    moreover have "take ?k ?ds \<noteq> []" "length (drop ?k ?ds) = s" using mid by simp_all
    ultimately show thesis using parts by (intro plain [of "take ?k ?ds" "drop ?k ?ds"]) simp_all
  next
    case exp
    have "unsigned_str c s = mantissa (take 1 ?ds) (drop 1 ?ds) @ CHR ''E'' # int_str (?left - 1)"
      using exp len by (auto simp: unsigned_str_def dec_str_def Let_def)
    moreover have "take 1 ?ds \<noteq> []" by simp
    moreover have "?len - 1 + nat (1 - ?left) = s" using exp len by linarith
    then have "shift_decimal (?left - 1) (Dec (int c) (length (drop 1 ?ds))) = Dec (int c) s"
      using exp by (simp add: shift_decimal_def)
    ultimately show thesis using parts by (intro exponent [of "take 1 ?ds" "drop 1 ?ds"]) simp_all
  qed
qed

lemma parse_unsigned_str: "parse_unsigned_decimal (unsigned_str c s) = Some (Dec (int c) s)"
proof (cases rule: unsigned_str_cases [of c s])
  case (plain a b)
  with parse_unsigned_plain [of a b] show ?thesis by simp
next
  case (exponent a b e)
  with parse_unsigned_exp [of a b e] show ?thesis by simp
qed

lemma unsigned_str_head: "\<exists>x xs. unsigned_str c s = x # xs \<and> digit_char x"
  by (cases rule: unsigned_str_cases [of c s]) (auto simp: neq_Nil_conv)

text \<open>\<open>Decimal(str(d))\<close> is \<open>d\<close>.\<close>

lemma parse_dec_str [simp]: "parse_decimal (dec_str d) = Some d"
proof (cases d)
  case (Dec c s)
  have str: "dec_str d = (if c < 0 then ''-'' else []) @ unsigned_str (nat \<bar>c\<bar>) s"
    by (simp add: Dec unsigned_str_def dec_str_def Let_def)
  show ?thesis
  proof (cases "c < 0")
    case True
    with str show ?thesis by (simp add: parse_unsigned_str Dec)
  next
    case False
    obtain x xs where u: "unsigned_str (nat \<bar>c\<bar>) s = x # xs" "digit_char x"
      using unsigned_str_head by blast
    with digit_char_not_sign [OF u(2)] False str parse_unsigned_str [of "nat \<bar>c\<bar>" s] show ?thesis
      by (auto simp: Dec)
  qed
qed

end
