(* ===== verification/IsoFormat.thy ===== *)
theory IsoFormat
  imports Calendar PyText
begin

text \<open>
  Reading \<open>isoformat\<close> back. \<open>datetime.fromisoformat\<close> is modelled for dates and for the extended format
  with minutes that \<open>isoformat\<close> writes, with \<open>Z\<close>; the compact and week forms count as invalid. Every
  value \<open>datetime\<close> can hold is read back as it was written.
\<close>

section \<open>Reading fields\<close>

definition read_digits :: "nat \<Rightarrow> string \<Rightarrow> (nat \<times> string) option" where
  "read_digits n s =
     (if n \<le> length s \<and> list_all digit_char (take n s)
      then Some (digits_val (take n s), drop n s) else None)"

definition read_char :: "char \<Rightarrow> string \<Rightarrow> string option" where
  "read_char c s = (case s of [] \<Rightarrow> None | x # xs \<Rightarrow> if x = c then Some xs else None)"

text \<open>An optional fraction of six digits, in microseconds.\<close>

definition read_fraction :: "string \<Rightarrow> (nat \<times> string) option" where
  "read_fraction s =
     (case read_char CHR ''.'' s of None \<Rightarrow> Some (0, s) | Some t \<Rightarrow> read_digits 6 t)"

text \<open>\<open>HH:MM[:SS[.ffffff]]\<close>, in microseconds.\<close>

definition read_seconds :: "string \<Rightarrow> (nat \<times> string) option" where
  "read_seconds s =
     (case read_char CHR '':'' s of
        None \<Rightarrow> Some (0, s)
      | Some t \<Rightarrow> Option.bind (read_digits 2 t) (\<lambda>(sec, t).
          if sec < 60 then map_option (\<lambda>(us, t). (sec * 1000000 + us, t)) (read_fraction t) else None))"

definition read_time :: "string \<Rightarrow> (nat \<times> string) option" where
  "read_time s =
     Option.bind (read_digits 2 s) (\<lambda>(hour, s).
       Option.bind (read_char CHR '':'' s) (\<lambda>s.
         Option.bind (read_digits 2 s) (\<lambda>(minute, s).
           if hour < 24 \<and> minute < 60
           then map_option (\<lambda>(us, s). ((hour * 3600 + minute * 60) * 1000000 + us, s)) (read_seconds s)
           else None)))"

text \<open>The offset: nothing, \<open>Z\<close>, or a sign and a time.\<close>

definition read_offset :: "string \<Rightarrow> int option option" where
  "read_offset s =
     (case s of
        [] \<Rightarrow> Some None
      | c # t \<Rightarrow>
          if s = ''Z'' then Some (Some 0)
          else if c = CHR ''+'' \<or> c = CHR ''-''
          then (case read_time t of
                  Some (us, []) \<Rightarrow> Some (Some (if c = CHR ''-'' then - int us else int us))
                | _ \<Rightarrow> None)
          else None)"

definition read_date :: "string \<Rightarrow> (int \<times> string) option" where
  "read_date s =
     Option.bind (read_digits 4 s) (\<lambda>(y, s).
       Option.bind (read_char CHR ''-'' s) (\<lambda>s.
         Option.bind (read_digits 2 s) (\<lambda>(m, s).
           Option.bind (read_char CHR ''-'' s) (\<lambda>s.
             Option.bind (read_digits 2 s) (\<lambda>(d, s).
               if 1 \<le> y \<and> 1 \<le> m \<and> m \<le> 12 \<and> 1 \<le> d \<and> int d \<le> days_in_month (is_leap (int y)) m
               then Some (ymd2ord (int y) m (int d), s) else None)))))"

definition fromisoformat_opt :: "string \<Rightarrow> datetime option" where
  "fromisoformat_opt s =
     Option.bind (read_date s) (\<lambda>(ordinal, s).
       case s of
         [] \<Rightarrow> Some \<lparr>dt_wall = (ordinal - 1) * us_per_day, dt_off = None\<rparr>
       | separator # t \<Rightarrow>
           Option.bind (read_time t) (\<lambda>(us, t).
             Option.bind (read_offset t) (\<lambda>off.
               Some \<lparr>dt_wall = (ordinal - 1) * us_per_day + int us, dt_off = off\<rparr>)))"

definition fromisoformat :: "string \<Rightarrow> datetime result" where
  "fromisoformat s =
     (case fromisoformat_opt s of
        None \<Rightarrow> Inl (ValueError ''Invalid isoformat string'') | Some d \<Rightarrow> Inr d)"

section \<open>Reading back what isoformat writes\<close>

lemma length_nat_digits: "k < 10 ^ n \<Longrightarrow> 1 \<le> n \<Longrightarrow> length (nat_digits k) \<le> n"
proof (induction n arbitrary: k)
  case (Suc n)
  show ?case
  proof (cases "k < 10")
    case True
    then show ?thesis by (subst nat_digits.simps) simp
  next
    case False
    then have "n \<noteq> 0" using Suc.prems(1) by (cases n) simp_all
    moreover have "k div 10 < 10 ^ n" using Suc.prems(1) by simp
    ultimately have "length (nat_digits (k div 10)) \<le> n" by (intro Suc.IH) simp_all
    with False show ?thesis by (subst nat_digits.simps) simp
  qed
qed simp

lemma pad0_props:
  assumes "k < 10 ^ n" "1 \<le> n"
  shows "length (pad0 n k) = n" "list_all digit_char (pad0 n k)" "digits_val (pad0 n k) = k"
proof -
  show "length (pad0 n k) = n" using length_nat_digits [OF assms] by (simp add: pad0_def)
  have "list_all digit_char (replicate m CHR ''0'')" for m
    by (induction m) (simp_all add: digit_char_def)
  then show "list_all digit_char (pad0 n k)" by (simp add: pad0_def)
qed (simp add: pad0_def)

lemma read_pad0 [simp]:
  assumes "k < 10 ^ n" "1 \<le> n"
  shows "read_digits n (pad0 n k @ s) = Some (k, s)"
  using pad0_props [OF assms] by (simp add: read_digits_def)

lemma read_char_Cons [simp]: "read_char c (c # s) = Some s"
  by (simp add: read_char_def)

lemma read_char_other: "s = [] \<or> hd s \<noteq> c \<Longrightarrow> read_char c s = None"
  by (cases s) (simp_all add: read_char_def)

text \<open>What follows a time does not continue it.\<close>

definition stops :: "string \<Rightarrow> bool" where
  "stops s \<longleftrightarrow> s = [] \<or> (hd s \<noteq> CHR '':'' \<and> hd s \<noteq> CHR ''.'')"

lemma read_fraction_written:
  assumes "f < 1000000" "stops s"
  shows "read_fraction ((if f = 0 then [] else ''.'' @ pad0 6 f) @ s) = Some (f, s)"
  using assms by (auto simp: read_fraction_def read_char_other stops_def)

lemma read_seconds_written:
  assumes "sec < 60" "f < 1000000" "stops s"
  shows "read_seconds ('':'' @ pad0 2 sec @ (if f = 0 then [] else ''.'' @ pad0 6 f) @ s) =
    Some (sec * 1000000 + f, s)"
  using assms read_fraction_written [OF assms(2,3)] by (simp add: read_seconds_def del: if_split)

lemma read_seconds_none: "stops s \<Longrightarrow> read_seconds s = Some (0, s)"
  using read_char_other [of s "CHR '':''"] by (auto simp: read_seconds_def stops_def)

lemma read_time_start:
  assumes "h < 24" "m < 60" "read_seconds s = Some (us, t)"
  shows "read_time (pad0 2 h @ '':'' @ pad0 2 m @ s) = Some ((h * 3600 + m * 60) * 1000000 + us, t)"
  using assms by (simp add: read_time_def)

text \<open>Hours, minutes, seconds and microseconds of a time of day.\<close>

lemma clock_fields:
  assumes "0 \<le> us" "us < us_per_day"
  defines "h \<equiv> nat (us div us_per_second div 3600)"
    and "m \<equiv> nat (us div us_per_second div 60 mod 60)"
    and "sec \<equiv> nat (us div us_per_second mod 60)"
    and "f \<equiv> nat (us mod us_per_second)"
  shows "h < 24" "m < 60" "sec < 60" "f < 1000000"
    and "(h * 3600 + m * 60) * 1000000 + (sec * 1000000 + f) = nat us"
proof -
  define t where "t = us div us_per_second"
  have t: "0 \<le> t" "t < 86400" using assms(1,2) by (simp_all add: t_def)
  have "t div 60 div 60 = t div 3600" by (simp add: zdiv_zmult2_eq [symmetric])
  then have hours: "t div 60 = 60 * (t div 3600) + t div 60 mod 60"
    using mult_div_mod_eq [of 60 "t div 60"] by simp
  have pos: "0 \<le> t div 3600" "0 \<le> t div 60 mod 60" "0 \<le> t mod 60" "0 \<le> us mod us_per_second"
    using t by simp_all
  show "h < 24" "m < 60" "sec < 60" "f < 1000000"
    using t pos by (simp_all add: h_def m_def sec_def f_def t_def [symmetric] nat_less_iff)
  have "int ((h * 3600 + m * 60) * 1000000 + (sec * 1000000 + f)) =
      us_per_second * (60 * (60 * (t div 3600) + t div 60 mod 60) + t mod 60) + us mod us_per_second"
    unfolding h_def m_def sec_def f_def t_def [symmetric] using pos by simp
  also have "\<dots> = us"
    unfolding hours [symmetric] mult_div_mod_eq unfolding t_def by (rule mult_div_mod_eq)
  finally have "int ((h * 3600 + m * 60) * 1000000 + (sec * 1000000 + f)) = us" .
  then show "(h * 3600 + m * 60) * 1000000 + (sec * 1000000 + f) = nat us" by simp
qed

lemma read_iso_time:
  assumes "0 \<le> us" "us < us_per_day" "stops t"
  shows "read_time (iso_time us @ t) = Some (nat us, t)"
proof -
  let ?s = "us div us_per_second"
  let ?f = "nat (us mod us_per_second)"
  note fields = clock_fields [OF assms(1,2)]
  have zero: "us mod us_per_second = 0 \<longleftrightarrow> ?f = 0"
    using pos_mod_sign [of us_per_second us] by auto
  have written: "iso_time us @ t =
      pad0 2 (nat (?s div 3600)) @ '':'' @ pad0 2 (nat (?s div 60 mod 60)) @
        ('':'' @ pad0 2 (nat (?s mod 60)) @ (if ?f = 0 then [] else ''.'' @ pad0 6 ?f) @ t)"
    by (simp add: iso_time_def Let_def zero)
  show ?thesis
    unfolding written read_time_start [OF fields(1,2) read_seconds_written [OF fields(3,4) assms(3)]]
      fields(5) by (rule refl)
qed

lemma read_iso_offset_time:
  assumes "0 \<le> a" "a < us_per_day"
  shows "read_time (tl (iso_offset a)) = Some (nat a, [])"
proof -
  let ?s = "a div us_per_second"
  let ?f = "nat (a mod us_per_second)"
  note fields = clock_fields [OF assms]
  have zero: "a mod us_per_second = 0 \<longleftrightarrow> ?f = 0" "?s mod 60 = 0 \<longleftrightarrow> nat (?s mod 60) = 0"
    using pos_mod_sign [of us_per_second a] pos_mod_sign [of 60 ?s] by auto
  have stop: "stops []" by (simp add: stops_def)
  show ?thesis
  proof (cases "nat (?s mod 60) = 0 \<and> ?f = 0")
    case True
    then have "tl (iso_offset a) = pad0 2 (nat (?s div 3600)) @ '':'' @ pad0 2 (nat (?s div 60 mod 60)) @ []"
      using assms(1) by (simp add: iso_offset_def Let_def zero)
    moreover have "(nat (?s div 3600) * 3600 + nat (?s div 60 mod 60) * 60) * 1000000 + 0 = nat a"
      using fields(5) unfolding conjunct1 [OF True] conjunct2 [OF True] mult_zero_left add_0 .
    ultimately show ?thesis
      using read_time_start [OF fields(1,2) read_seconds_none [OF stop]] by presburger
  next
    case False
    then have "tl (iso_offset a) = pad0 2 (nat (?s div 3600)) @ '':'' @ pad0 2 (nat (?s div 60 mod 60)) @
        ('':'' @ pad0 2 (nat (?s mod 60)) @ (if ?f = 0 then [] else ''.'' @ pad0 6 ?f) @ [])"
      using assms(1) by (simp add: iso_offset_def Let_def zero)
    then show ?thesis
      by (simp only: read_time_start [OF fields(1,2) read_seconds_written [OF fields(3,4) stop]] fields(5))
  qed
qed

lemma iso_offset_sign:
  "iso_offset o' = (if o' < 0 then CHR ''-'' else CHR ''+'') # tl (iso_offset \<bar>o'\<bar>)"
  by (simp add: iso_offset_def Let_def)

lemma read_iso_offset:
  assumes "\<bar>o'\<bar> < us_per_day"
  shows "read_offset (iso_offset o') = Some (Some o')" "stops (iso_offset o')"
proof -
  have "read_time (tl (iso_offset \<bar>o'\<bar>)) = Some (nat \<bar>o'\<bar>, [])"
    by (rule read_iso_offset_time) (use assms in simp_all)
  then show "read_offset (iso_offset o') = Some (Some o')"
    by (subst iso_offset_sign) (simp add: read_offset_def)
  show "stops (iso_offset o')" by (subst iso_offset_sign) (simp add: stops_def)
qed

text \<open>The values \<open>datetime\<close> can hold: years 1 to 9999, offsets of less than a day.\<close>

definition dt_valid :: "datetime \<Rightarrow> bool" where
  "dt_valid d \<longleftrightarrow> 0 \<le> dt_wall d \<and> dt_wall d < days_before_year 10000 * us_per_day \<and>
     (case dt_off d of None \<Rightarrow> True | Some o' \<Rightarrow> \<bar>o'\<bar> < us_per_day)"

lemma days_before_year_mono:
  assumes "y \<le> z"
  shows "days_before_year y \<le> days_before_year z"
proof -
  have step: "days_before_year x \<le> days_before_year (x + 1)" for x
  proof -
    have "(x - 1) div 100 + 1 \<ge> x div 100" by linarith
    moreover have "(x - 1) div 4 \<le> x div 4" "(x - 1) div 400 \<le> x div 400" by linarith+
    ultimately show ?thesis by (simp add: days_before_year_def Let_def)
  qed
  from assms show ?thesis
  proof (induction z rule: int_ge_induct)
    case (step z)
    then show ?case using \<open>\<And>x. days_before_year x \<le> days_before_year (x + 1)\<close> [of z] by linarith
  qed simp
qed

lemma read_iso_date:
  assumes "1 \<le> n" "n \<le> days_before_year 10000" "ord2ymd n = (y, m, d)"
  shows "read_date (pad0 4 (nat y) @ ''-'' @ pad0 2 m @ ''-'' @ pad0 2 (nat d) @ s) = Some (n, s)"
proof -
  note date = ord2ymd_inverse [OF assms(1,3)]
  have dim: "days_in_month (is_leap y) m \<le> 31" by (simp add: days_in_month_def)
  have "days_before_year y < n"
    using date by (auto simp: ymd2ord_def days_before_month_def days_before_month_table_def nth_Cons'
        split: if_splits)
  then have "y < 10000" using days_before_year_mono [of 10000 y] assms(2) by linarith
  moreover have "d \<le> 31" using date dim by linarith
  ultimately have "nat y < 10 ^ 4" "m < 10 ^ 2" "nat d < 10 ^ 2" "Suc 0 \<le> nat y" "Suc 0 \<le> nat d"
    using date by (simp_all add: Suc_le_eq)
  then show ?thesis
    using date by (simp add: read_date_def)
qed

theorem fromisoformat_isoformat:
  assumes "dt_valid d"
  shows "fromisoformat (isoformat d) = Inr d"
proof -
  let ?n = "dt_wall d div us_per_day + 1"
  let ?us = "dt_wall d mod us_per_day"
  obtain y m day where date: "ord2ymd ?n = (y, m, day)" by (cases "ord2ymd ?n") auto
  have "dt_wall d = dt_wall d div us_per_day * us_per_day + ?us" "0 \<le> ?us" "?us < us_per_day"
    by simp_all
  then have "1 \<le> ?n" "?n \<le> days_before_year 10000"
    using assms unfolding dt_valid_def by linarith+
  note read_date = read_iso_date [OF this date]
  have us: "0 \<le> ?us" "?us < us_per_day" by simp_all
  obtain off where off: "read_offset off = Some (dt_off d)" "stops off"
    "isoformat d = pad0 4 (nat y) @ ''-'' @ pad0 2 m @ ''-'' @ pad0 2 (nat day) @ ''T'' @ iso_time ?us @ off"
  proof (cases "dt_off d")
    case None
    then show ?thesis
      by (intro that [of "[]"]) (simp_all add: isoformat_def date read_offset_def stops_def)
  next
    case (Some o')
    then have "\<bar>o'\<bar> < us_per_day" using assms by (simp add: dt_valid_def)
    from read_iso_offset [OF this] Some show ?thesis
      by (intro that [of "iso_offset o'"]) (simp_all add: isoformat_def date)
  qed
  have "fromisoformat_opt (isoformat d) =
      Some \<lparr>dt_wall = (?n - 1) * us_per_day + int (nat ?us), dt_off = dt_off d\<rparr>"
    unfolding off(3) fromisoformat_opt_def read_date
    by (simp add: read_iso_time [OF us off(2)] off(1))
  then show ?thesis by (simp add: fromisoformat_def)
qed

end
