(* ===== verification/Serialization.thy ===== *)
theory Serialization
  imports IsoFormat
begin

text \<open>
  What the persistence modules share: subscripts and \<open>get\<close> of a payload, \<open>json.dumps(v, sort_keys=True)\<close>
  and \<open>json.loads\<close>. A JSON text is represented by the value \<open>json.loads\<close> returns for it, so \<open>loads\<close> is
  the identity and the \<open>isinstance(payload, str)\<close> branches of the loaders coincide. \<open>dumps\<close> rejects
  \<open>Decimal\<close> and sorts the keys of every dictionary.
\<close>

section \<open>Access to a payload\<close>

text \<open>\<open>v[k]\<close>, \<open>v.get(k, default)\<close>, \<open>v.values()\<close>.\<close>

definition py_item :: "pyval \<Rightarrow> string \<Rightarrow> pyval result" where
  "py_item v k =
     (case v of
        PyDict d \<Rightarrow> (case map_of d k of None \<Rightarrow> Inl (KeyError k) | Some x \<Rightarrow> Inr x)
      | _ \<Rightarrow> Inl (TypeError ''object is not subscriptable by text''))"

definition py_lookup :: "pyval \<Rightarrow> string \<Rightarrow> pyval \<Rightarrow> pyval result" where
  "py_lookup v k dflt =
     (case v of PyDict d \<Rightarrow> Inr (dict_get d k dflt) | _ \<Rightarrow> Inl (AttributeError ''get''))"

definition py_values :: "pyval \<Rightarrow> pyval list result" where
  "py_values v = (case v of PyDict d \<Rightarrow> Inr (dict_values d) | _ \<Rightarrow> Inl (AttributeError ''values''))"

text \<open>
  \<open>dict(v)\<close>: a copy of a dictionary, or the dictionary of the pairs of a list. A key that is not
  text is outside the model and counts as an error.
\<close>

fun pair_of :: "pyval \<Rightarrow> (string \<times> pyval) result" where
  "pair_of (PyList [PyStr k, x]) = Inr (k, x)"
| "pair_of (PyStr [a, b]) = Inr ([a], PyStr [b])"
| "pair_of v = Inl (TypeError ''cannot convert dictionary update sequence'')"

definition py_dict_of :: "pyval \<Rightarrow> metadata result" where
  "py_dict_of v =
     (case v of
        PyDict d \<Rightarrow> Inr d
      | _ \<Rightarrow> bindR (py_iter v) (\<lambda>xs. bindR (mapR pair_of xs) (\<lambda>ps. Inr (dict_of fst snd ps))))"

text \<open>\<open>dict(payload.get(''metadata'') or {})\<close>.\<close>

definition read_metadata :: "pyval \<Rightarrow> metadata result" where
  "read_metadata payload =
     bindR (py_lookup payload ''metadata'' PyNone) (\<lambda>m. if py_truthy m then py_dict_of m else Inr [])"

definition read_text :: "pyval \<Rightarrow> string \<Rightarrow> string result" where
  "read_text payload k = bindR (py_item payload k) (\<lambda>v. Inr (py_str v))"

definition opt_val :: "('a \<Rightarrow> pyval) \<Rightarrow> 'a option \<Rightarrow> pyval" where
  "opt_val f v = (case v of None \<Rightarrow> PyNone | Some x \<Rightarrow> f x)"

text \<open>\<open>datetime.fromisoformat(v)\<close>.\<close>

definition py_fromisoformat :: "pyval \<Rightarrow> datetime result" where
  "py_fromisoformat v =
     (case v of PyStr s \<Rightarrow> fromisoformat s | _ \<Rightarrow> Inl (TypeError ''fromisoformat: argument must be str''))"

lemma py_fromisoformat_isoformat [simp]:
  "dt_valid d \<Longrightarrow> py_fromisoformat (PyStr (isoformat d)) = Inr d"
  by (simp add: py_fromisoformat_def fromisoformat_isoformat)

section \<open>json.dumps and json.loads\<close>

fun json_ok :: "pyval \<Rightarrow> bool" where
  "json_ok (PyDec d) = False"
| "json_ok (PyList xs) = list_all json_ok xs"
| "json_ok (PyDict d) = list_all (\<lambda>(k, v). json_ok v) d"
| "json_ok v = True"

fun json_sorted :: "pyval \<Rightarrow> pyval" where
  "json_sorted (PyList xs) = PyList (map json_sorted xs)"
| "json_sorted (PyDict d) = PyDict (sort_key fst (map (\<lambda>(k, v). (k, json_sorted v)) d))"
| "json_sorted v = v"

definition json_dumps :: "pyval \<Rightarrow> pyval result" where
  "json_dumps v =
     (if json_ok v then Inr (json_sorted v)
      else Inl (TypeError ''Object of type Decimal is not JSON serializable''))"

definition json_loads :: "pyval \<Rightarrow> pyval" where
  "json_loads text_value = text_value"

text \<open>The entries of a written dictionary.\<close>

definition json_entries :: "metadata \<Rightarrow> metadata" where
  "json_entries d = sort_key fst (map (\<lambda>(k, v). (k, json_sorted v)) d)"

lemma json_sorted_dict [simp]: "json_sorted (PyDict d) = PyDict (json_entries d)"
  by (simp add: json_entries_def)

declare json_sorted.simps(2) [simp del]

lemma keys_json_entries: "mset (dict_keys (json_entries d)) = mset (dict_keys d)"
  by (simp add: json_entries_def image_mset.compositionality o_def split_beta)

lemma wf_json_entries [simp]: "wf_dict (json_entries d) = wf_dict d"
  by (rule mset_eq_imp_distinct_iff [OF keys_json_entries])

lemma json_entries_Nil [simp]: "json_entries d = [] \<longleftrightarrow> d = []" "json_entries [] = []"
  by (simp_all add: json_entries_def)

lemma length_json_entries [simp]: "length (json_entries d) = length d"
  by (simp add: json_entries_def)

lemma set_json_entries: "set (json_entries d) = (\<lambda>(k, v). (k, json_sorted v)) ` set d"
  by (simp add: json_entries_def)

lemma map_of_json_entries:
  assumes "wf_dict d"
  shows "map_of (json_entries d) k = map_option json_sorted (map_of d k)"
proof -
  have "map_of (json_entries d) k = map_of (map (\<lambda>(k, v). (k, json_sorted v)) d) k"
  proof (rule fun_cong [OF map_of_inject_set [THEN iffD2]])
    show "distinct (map fst (json_entries d))" using assms by simp
    show "distinct (map fst (map (\<lambda>(k, v). (k, json_sorted v)) d))"
      using assms by (simp add: o_def split_beta)
    show "set (json_entries d) = set (map (\<lambda>(k, v). (k, json_sorted v)) d)"
      by (simp add: set_json_entries)
  qed
  then show ?thesis by (simp add: map_of_map)
qed

lemma py_item_json:
  "wf_dict d \<Longrightarrow> py_item (PyDict (json_entries d)) k =
     (case map_of d k of None \<Rightarrow> Inl (KeyError k) | Some x \<Rightarrow> Inr (json_sorted x))"
  by (simp add: py_item_def map_of_json_entries split: option.split)

lemma py_lookup_json:
  "wf_dict d \<Longrightarrow> py_lookup (PyDict (json_entries d)) k dflt =
     (case map_of d k of None \<Rightarrow> Inr dflt | Some x \<Rightarrow> Inr (json_sorted x))"
  by (simp add: py_lookup_def dict_get_def map_of_json_entries split: option.split)

text \<open>What is read back is equal in Python's sense to what was written.\<close>

lemma py_eq_json_sorted: "wf_pyval v \<Longrightarrow> py_eq (json_sorted v) v"
proof (induction v)
  case (PyList xs)
  then show ?case by (auto simp: list_all_iff zip_map1 zip_same)
next
  case (PyDict d)
  then have wf: "wf_dict d" "\<forall>(k, v) \<in> set d. py_eq (json_sorted v) v"
    by (force simp: list_all_iff)+
  then have "list_all (\<lambda>(k, v). case map_of d k of None \<Rightarrow> False | Some w \<Rightarrow> py_eq v w) (json_entries d)"
    by (auto simp: list_all_iff set_json_entries map_of_is_SomeI)
  then show ?case by simp
qed (simp_all add: dec_eq_iff)

lemma wf_json_sorted [simp]: "wf_pyval v \<Longrightarrow> wf_pyval (json_sorted v)"
proof (induction v)
  case (PyDict d)
  then have "\<forall>(k, v) \<in> set d. wf_pyval (json_sorted v)"
    by (force simp: list_all_iff)
  moreover have "wf_dict (json_entries d)" using PyDict.prems by simp
  ultimately show ?case
    by (auto simp: list_all_iff set_json_entries)
qed (auto simp: list_all_iff)

text \<open>Metadata that can be written: no key twice, no \<open>Decimal\<close>.\<close>

definition json_meta :: "metadata \<Rightarrow> bool" where
  "json_meta m \<longleftrightarrow> wf_pyval (PyDict m) \<and> json_ok (PyDict m)"

lemma json_metaD:
  assumes "json_meta m"
  shows "wf_dict m" "json_ok (PyDict m)" "wf_pyval (PyDict m)" "meta_eq (json_entries m) m"
  using assms py_eq_json_sorted [of "PyDict m"]
  by (simp_all add: json_meta_def meta_eq_def)

lemma json_meta_Nil [simp]: "json_meta []"
  by (simp add: json_meta_def)

lemma meta_eq_Nil [simp]: "meta_eq [] []"
  by (simp add: meta_eq_def)

lemma read_metadata_json:
  assumes "wf_dict d" "map_of d ''metadata'' = Some (PyDict m)"
  shows "read_metadata (PyDict (json_entries d)) = Inr (json_entries m)"
  using assms by (cases "m = []") (simp_all add: read_metadata_def py_lookup_json py_dict_of_def)

lemma read_text_json:
  assumes "wf_dict d" "map_of d k = Some (PyStr s)"
  shows "read_text (PyDict (json_entries d)) k = Inr s"
  using assms by (simp add: read_text_def py_item_json)

section \<open>Codecs\<close>

text \<open>
  A codec writes a value as a JSON value and reads it back; \<open>restored x\<close> is what comes back for a
  valid \<open>x\<close>, equal to it up to the order of metadata keys.
\<close>

locale json_codec =
  fixes to_json :: "'a \<Rightarrow> pyval"
    and of_json :: "pyval \<Rightarrow> 'a result"
    and restored :: "'a \<Rightarrow> 'a"
    and same :: "'a \<Rightarrow> 'a \<Rightarrow> bool"
    and valid :: "'a \<Rightarrow> bool"
  assumes written: "valid x \<Longrightarrow> json_ok (to_json x)"
    and read_back: "valid x \<Longrightarrow> of_json (json_sorted (to_json x)) = Inr (restored x)"
    and same_restored: "valid x \<Longrightarrow> same (restored x) x"
begin

lemma written_list: "list_all valid xs \<Longrightarrow> json_ok (PyList (map to_json xs))"
  by (auto simp: list_all_iff written)

lemma read_list:
  assumes "list_all valid xs"
  shows "mapR of_json (map (\<lambda>x. json_sorted (to_json x)) xs) = Inr (map restored xs)"
  using assms by (induction xs) (simp_all add: read_back)

lemma same_list: "list_all valid xs \<Longrightarrow> list_all2 same (map restored xs) xs"
  by (induction xs) (simp_all add: same_restored)

end

end
