(* ===== verification/WatchModels.thy ===== *)
theory WatchModels
  imports PyTime
begin

text \<open>
  The watch data of \<open>continuous/models.py\<close>, the scheduler of \<open>continuous/scheduler.py\<close> and the
  subscription helpers of \<open>continuous/protocol_subscription.py\<close>. The 16 hexadecimal digits taken
  from a SHA-256 digest are a parameter \<open>H\<close> of every definition that builds an identifier with
  them, so what is proved holds for any hash.
\<close>

section \<open>Models (continuous/models.py)\<close>

datatype WatchScheduleType = SchedManual | SchedHourly | SchedDaily | SchedWeekly | SchedCron

datatype WatchStatus = WatchEnabled | WatchDisabled | WatchPaused

datatype WatchEventType =
    EvRegistered | EvUnregistered | EvConfigUpdated | EvEnabled | EvDisabled | EvPaused
  | EvResumed | EvDeleted | EvScheduled | EvExecuted

fun schedule_type_value :: "WatchScheduleType \<Rightarrow> string" where
  "schedule_type_value SchedManual = ''manual''"
| "schedule_type_value SchedHourly = ''hourly''"
| "schedule_type_value SchedDaily = ''daily''"
| "schedule_type_value SchedWeekly = ''weekly''"
| "schedule_type_value SchedCron = ''cron''"

fun watch_status_value :: "WatchStatus \<Rightarrow> string" where
  "watch_status_value WatchEnabled = ''enabled''"
| "watch_status_value WatchDisabled = ''disabled''"
| "watch_status_value WatchPaused = ''paused''"

fun watch_event_type_value :: "WatchEventType \<Rightarrow> string" where
  "watch_event_type_value EvRegistered = ''registered''"
| "watch_event_type_value EvUnregistered = ''unregistered''"
| "watch_event_type_value EvConfigUpdated = ''config_updated''"
| "watch_event_type_value EvEnabled = ''enabled''"
| "watch_event_type_value EvDisabled = ''disabled''"
| "watch_event_type_value EvPaused = ''paused''"
| "watch_event_type_value EvResumed = ''resumed''"
| "watch_event_type_value EvDeleted = ''deleted''"
| "watch_event_type_value EvScheduled = ''scheduled''"
| "watch_event_type_value EvExecuted = ''executed''"

record WatchConfiguration =
  wc_schedule_type :: WatchScheduleType
  wc_cron_expression :: "string option"
  wc_timezone :: string
  wc_metadata :: metadata

record WatchedProtocol =
  wp_watch_id :: string
  wp_chain_id :: int
  wp_root_address :: string
  wp_protocol_name :: string
  wp_registered_at :: datetime
  wp_metadata :: metadata

record WatchSubscription =
  ws_subscription_id :: string
  ws_protocol :: WatchedProtocol
  ws_configuration :: WatchConfiguration
  ws_status :: WatchStatus
  ws_baseline_scan :: "metadata option"
  ws_last_execution_at :: "datetime option"
  ws_next_execution_at :: "datetime option"
  ws_created_at :: datetime
  ws_updated_at :: datetime

record WatchEvent =
  we_event_id :: string
  we_event_type :: WatchEventType
  we_watch_id :: string
  we_timestamp :: datetime
  we_metadata :: metadata

definition default_configuration :: WatchConfiguration where
  "default_configuration =
     \<lparr>wc_schedule_type = SchedManual, wc_cron_expression = None, wc_timezone = ''UTC'',
      wc_metadata = []\<rparr>"

section \<open>Subscription helpers (continuous/protocol\_subscription.py)\<close>

definition watch_id :: "int \<Rightarrow> string \<Rightarrow> string" where
  "watch_id chain_id root_address = int_str chain_id @ '':'' @ lower root_address"

definition build_watched_protocol ::
  "datetime \<Rightarrow> int \<Rightarrow> string \<Rightarrow> string \<Rightarrow> datetime option \<Rightarrow> metadata option \<Rightarrow> WatchedProtocol" where
  "build_watched_protocol clk chain_id root_address protocol_name registered_at metadata =
     \<lparr>wp_watch_id = watch_id chain_id root_address,
      wp_chain_id = chain_id,
      wp_root_address = lower root_address,
      wp_protocol_name = protocol_name,
      wp_registered_at = (case registered_at of None \<Rightarrow> clk | Some t \<Rightarrow> t),
      wp_metadata = (case metadata of None \<Rightarrow> [] | Some m \<Rightarrow> m)\<rparr>"

definition build_subscription ::
  "datetime \<Rightarrow> WatchedProtocol \<Rightarrow> WatchConfiguration \<Rightarrow> WatchStatus \<Rightarrow> metadata option \<Rightarrow>
   datetime option \<Rightarrow> datetime option \<Rightarrow> datetime option \<Rightarrow> datetime option \<Rightarrow> WatchSubscription" where
  "build_subscription clk protocol configuration status baseline_scan last_execution_at
     next_execution_at created_at updated_at =
     (let timestamp = (case created_at of None \<Rightarrow> clk | Some t \<Rightarrow> t)
      in \<lparr>ws_subscription_id = wp_watch_id protocol,
          ws_protocol = protocol,
          ws_configuration = configuration,
          ws_status = status,
          ws_baseline_scan = baseline_scan,
          ws_last_execution_at = last_execution_at,
          ws_next_execution_at = next_execution_at,
          ws_created_at = timestamp,
          ws_updated_at = (case updated_at of None \<Rightarrow> timestamp | Some t \<Rightarrow> t)\<rparr>)"

definition merge_configuration :: "WatchConfiguration \<Rightarrow> WatchConfiguration \<Rightarrow> WatchConfiguration" where
  "merge_configuration current updated =
     \<lparr>wc_schedule_type = wc_schedule_type updated,
      wc_cron_expression =
        (case wc_cron_expression updated of
           Some e \<Rightarrow> Some e | None \<Rightarrow> wc_cron_expression current),
      wc_timezone = (if wc_timezone updated \<noteq> [] then wc_timezone updated else wc_timezone current),
      wc_metadata = dict_merge (wc_metadata current) (wc_metadata updated)\<rparr>"

definition event_id :: "(string \<Rightarrow> string) \<Rightarrow> string \<Rightarrow> string \<Rightarrow> datetime \<Rightarrow> string" where
  "event_id H watch_id_value event_type timestamp =
     watch_id_value @ '':'' @ event_type @ '':''
     @ H (watch_id_value @ ''|'' @ event_type @ ''|'' @ isoformat timestamp)"

text \<open>Watch identifiers do not depend on the case of the address.\<close>

lemma watch_id_lower [simp]: "watch_id c (lower a) = watch_id c a"
  by (simp add: watch_id_def)

lemma build_watched_protocol_simps [simp]:
  "wp_watch_id (build_watched_protocol clk c a n t m) = watch_id c a"
  "wp_chain_id (build_watched_protocol clk c a n t m) = c"
  "wp_root_address (build_watched_protocol clk c a n t m) = lower a"
  "wp_protocol_name (build_watched_protocol clk c a n t m) = n"
  by (simp_all add: build_watched_protocol_def)

lemma build_subscription_simps [simp]:
  "ws_subscription_id (build_subscription clk p cfg st b l n c u) = wp_watch_id p"
  "ws_protocol (build_subscription clk p cfg st b l n c u) = p"
  "ws_configuration (build_subscription clk p cfg st b l n c u) = cfg"
  "ws_status (build_subscription clk p cfg st b l n c u) = st"
  "ws_baseline_scan (build_subscription clk p cfg st b l n c u) = b"
  "ws_next_execution_at (build_subscription clk p cfg st b l n c u) = n"
  "ws_last_execution_at (build_subscription clk p cfg st b l n c u) = l"
  by (simp_all add: build_subscription_def Let_def)

lemma merge_configuration_schedule [simp]:
  "wc_schedule_type (merge_configuration a b) = wc_schedule_type b"
  by (simp add: merge_configuration_def)

section \<open>Scheduler (continuous/scheduler.py)\<close>

text \<open>The \<open>INTERVALS\<close> table, in microseconds.\<close>

fun schedule_interval :: "WatchScheduleType \<Rightarrow> int option" where
  "schedule_interval SchedManual = None"
| "schedule_interval SchedHourly = Some (3600 * us_per_second)"
| "schedule_interval SchedDaily = Some us_per_day"
| "schedule_interval SchedWeekly = Some (7 * us_per_day)"
| "schedule_interval SchedCron = None"

definition ensure_utc :: "datetime \<Rightarrow> datetime" where
  "ensure_utc value =
     (case dt_off value of
        None \<Rightarrow> value\<lparr>dt_off := Some 0\<rparr>
      | Some o' \<Rightarrow> \<lparr>dt_wall = dt_wall value - o', dt_off = Some 0\<rparr>)"

definition compute_cron_next :: "WatchConfiguration \<Rightarrow> datetime \<Rightarrow> datetime option" where
  "compute_cron_next configuration reference_time =
     (if wc_cron_expression configuration = None \<or> wc_cron_expression configuration = Some []
      then None else None)"

definition compute_next_execution :: "WatchConfiguration \<Rightarrow> datetime \<Rightarrow> datetime option" where
  "compute_next_execution configuration reference_time =
     (case schedule_interval (wc_schedule_type configuration) of
        None \<Rightarrow>
          if wc_schedule_type configuration = SchedCron
          then compute_cron_next configuration reference_time else None
      | Some interval \<Rightarrow> Some (dt_add (ensure_utc reference_time) interval))"

definition is_due :: "WatchSubscription \<Rightarrow> datetime \<Rightarrow> bool" where
  "is_due subscription now =
     (if ws_status subscription \<noteq> WatchEnabled then False
      else if wc_schedule_type (ws_configuration subscription) = SchedManual then False
      else
        (case ws_next_execution_at subscription of
           None \<Rightarrow> False
         | Some next \<Rightarrow> dt_instant (ensure_utc next) \<le> dt_instant (ensure_utc now)))"

definition schedule_initial :: "WatchSubscription \<Rightarrow> datetime \<Rightarrow> datetime option" where
  "schedule_initial subscription now =
     (if wc_schedule_type (ws_configuration subscription) = SchedManual then None
      else compute_next_execution (ws_configuration subscription) now)"

definition after_execution :: "WatchSubscription \<Rightarrow> datetime \<Rightarrow> datetime option" where
  "after_execution subscription executed_at =
     compute_next_execution (ws_configuration subscription) executed_at"

lemma ensure_utc_instant [simp]: "dt_instant (ensure_utc d) = dt_instant d"
  by (simp add: ensure_utc_def dt_instant_def split: option.split)

lemma ensure_utc_utc [simp]: "dt_utc (ensure_utc d)"
  by (simp add: ensure_utc_def dt_utc_def split: option.split)

lemma schedule_interval_pos: "schedule_interval t = Some i \<Longrightarrow> 0 < i"
  by (cases t) auto

text \<open>Initial scheduling and rescheduling agree; cron and manual watches get no time.\<close>

lemma schedule_initial_eq: "schedule_initial s t =
    map_option (dt_add (ensure_utc t)) (schedule_interval (wc_schedule_type (ws_configuration s)))"
  by (cases "wc_schedule_type (ws_configuration s)")
    (simp_all add: schedule_initial_def compute_next_execution_def compute_cron_next_def)

lemma after_execution_eq: "after_execution s t = schedule_initial s t"
  by (cases "wc_schedule_type (ws_configuration s)")
    (simp_all add: schedule_initial_def after_execution_def compute_next_execution_def)

lemma schedule_initial_status [simp]:
  "schedule_initial (s\<lparr>ws_status := x\<rparr>) t = schedule_initial s t"
  by (simp add: schedule_initial_def)

lemma is_due_iff:
  "is_due s now \<longleftrightarrow>
     ws_status s = WatchEnabled \<and> wc_schedule_type (ws_configuration s) \<noteq> SchedManual \<and>
     (\<exists>next. ws_next_execution_at s = Some next \<and> dt_instant next \<le> dt_instant now)"
  by (auto simp: is_due_def split: option.splits)

end
