(* ===== verification/Stores.thy ===== *)
theory Stores
  imports Prelude
begin

text \<open>
  The two storage contracts of the continuous-monitoring pipeline, as locales. A keyed store
  (\<open>WatchPersistenceStore\<close>, \<open>SnapshotStore\<close>) overwrites the item of a key; a write-once store
  (\<open>BaselineStore\<close>, \<open>HistoryStore\<close>, the correlation rule registry) keeps the first item of a key.
  The in-memory classes of the backend are shown to meet the contract where they are modelled.
\<close>

section \<open>Stores that overwrite\<close>

locale keyed_store =
  fixes get :: "'s \<Rightarrow> 'k \<Rightarrow> 'v option"
    and save :: "'v \<Rightarrow> 's \<Rightarrow> 's"
    and del :: "'k \<Rightarrow> 's \<Rightarrow> 's"
    and key :: "'v \<Rightarrow> 'k"
    and invar :: "'s \<Rightarrow> bool"
  assumes get_save: "get (save v s) k = (if k = key v then Some v else get s k)"
    and get_del: "get (del k s) k' = (if k' = k then None else get s k')"
    and invar_save: "invar s \<Longrightarrow> invar (save v s)"
    and invar_del: "invar s \<Longrightarrow> invar (del k s)"
    and get_key: "invar s \<Longrightarrow> get s k = Some v \<Longrightarrow> key v = k"
begin

lemma get_save_same: "get (save v s) (key v) = Some v"
  by (simp add: get_save)

lemma get_save_other: "k \<noteq> key v \<Longrightarrow> get (save v s) k = get s k"
  by (simp add: get_save)

lemma save_overwrites: "key v = key w \<Longrightarrow> get (save v (save w s)) = get (save v s)"
  by (rule ext) (simp add: get_save)

lemma save_commute: "key v \<noteq> key w \<Longrightarrow> get (save v (save w s)) = get (save w (save v s))"
  by (rule ext) (simp add: get_save)

lemma del_save: "get (del (key v) (save v s)) = get (del (key v) s)"
  by (rule ext) (simp add: get_save get_del)

lemma get_update_stored:
  "invar s \<Longrightarrow> get s k = Some v \<Longrightarrow> key w = key v \<Longrightarrow> get (save w s) k = Some w"
  by (simp add: get_save get_key)

lemma get_Some_save_cases:
  assumes "get (save v s) k = Some w"
  obtains (new) "k = key v" "w = v" | (old) "k \<noteq> key v" "get s k = Some w"
  using assms by (auto simp: get_save split: if_splits)

end

section \<open>Stores that keep the first item\<close>

locale write_once_store =
  fixes get :: "'s \<Rightarrow> 'k \<Rightarrow> 'v option"
    and put :: "'v \<Rightarrow> 's \<Rightarrow> 's"
    and key :: "'v \<Rightarrow> 'k"
  assumes put_present: "get s (key v) = Some w \<Longrightarrow> put v s = s"
    and put_absent: "get s (key v) = None \<Longrightarrow> get (put v s) = (get s)(key v \<mapsto> v)"
begin

lemma put_idem: "put v (put v s) = put v s"
proof (cases "get s (key v)")
  case None
  then have "get (put v s) (key v) = Some v" by (simp add: put_absent)
  then show ?thesis by (rule put_present)
next
  case (Some w)
  then have "put v s = s" by (rule put_present)
  then show ?thesis by simp
qed

lemma put_keeps: "get s k = Some w \<Longrightarrow> get (put v s) k = Some w"
proof (cases "get s (key v)")
  case None
  moreover assume "get s k = Some w"
  ultimately show ?thesis by (auto simp: put_absent)
next
  case (Some u)
  moreover assume "get s k = Some w"
  ultimately show ?thesis by (simp add: put_present)
qed

lemma fold_put_keeps: "get s k = Some w \<Longrightarrow> get (fold put vs s) k = Some w"
  by (induction vs arbitrary: s) (simp_all add: put_keeps)

lemma put_other: "k \<noteq> key v \<Longrightarrow> get (put v s) k = get s k"
  by (cases "get s (key v)") (simp_all add: put_absent put_present)

lemma put_dom: "get (put v s) (key v) \<noteq> None"
  by (cases "get s (key v)") (simp_all add: put_absent put_present)

lemma fold_put_dom: "v \<in> set vs \<Longrightarrow> get (fold put vs s) (key v) \<noteq> None"
proof (induction vs arbitrary: s)
  case (Cons u us)
  show ?case
  proof (cases "u = v")
    case True
    obtain w where "get (put v s) (key v) = Some w" using put_dom by blast
    then have "get (fold put us (put v s)) (key v) = Some w" by (rule fold_put_keeps)
    with True show ?thesis by simp
  next
    case False
    with Cons show ?thesis by simp
  qed
qed simp

lemma fold_put_first: "get s k = None \<Longrightarrow>
    get (fold put vs s) k = find (\<lambda>v. key v = k) vs"
proof (induction vs arbitrary: s)
  case (Cons v vs)
  show ?case
  proof (cases "key v = k")
    case True
    with Cons.prems have "get (put v s) k = Some v" by (simp add: put_absent)
    with True show ?thesis by (simp add: fold_put_keeps)
  next
    case False
    with Cons show ?thesis by (simp add: put_other)
  qed
qed simp

end

end
