(* ===== verification/Watch.thy ===== *)
theory Watch
  imports WatchModels Stores
begin

text \<open>
  The watch registry (\<open>continuous/watch_registry.py\<close>), its lifecycle manager
  (\<open>continuous/watch_manager.py\<close>) and the in-memory persistence they run on
  (\<open>continuous/persistence.py\<close>). The state is the persistence store; an operation that may raise
  returns the exception or the result with the new store (every raise of these modules comes
  before the first write, so the store is unchanged by a call that raises). \<open>clk\<close> is what
  \<open>_utc_now()\<close> returns during the call.
\<close>

section \<open>In-memory persistence (continuous/persistence.py)\<close>

record InMemoryWatchPersistence =
  subscriptions :: "(string, WatchSubscription) dict"
  events :: "WatchEvent list"

definition empty_persistence :: InMemoryWatchPersistence where
  "empty_persistence = \<lparr>subscriptions = [], events = []\<rparr>"

definition save_subscription ::
  "WatchSubscription \<Rightarrow> InMemoryWatchPersistence \<Rightarrow> InMemoryWatchPersistence" where
  "save_subscription s st =
     st\<lparr>subscriptions := AList.update (ws_subscription_id s) s (subscriptions st)\<rparr>"

definition get_subscription :: "InMemoryWatchPersistence \<Rightarrow> string \<Rightarrow> WatchSubscription option" where
  "get_subscription st wid = map_of (subscriptions st) wid"

definition delete_subscription ::
  "string \<Rightarrow> InMemoryWatchPersistence \<Rightarrow> bool \<times> InMemoryWatchPersistence" where
  "delete_subscription wid st =
     (map_of (subscriptions st) wid \<noteq> None,
      st\<lparr>subscriptions := dict_pop wid (subscriptions st)\<rparr>)"

definition list_subscriptions :: "InMemoryWatchPersistence \<Rightarrow> WatchSubscription list" where
  "list_subscriptions st =
     map (\<lambda>k. the (map_of (subscriptions st) k)) (sort (dict_keys (subscriptions st)))"

definition append_event :: "WatchEvent \<Rightarrow> InMemoryWatchPersistence \<Rightarrow> InMemoryWatchPersistence" where
  "append_event e st = st\<lparr>events := events st @ [e]\<rparr>"

definition list_events :: "InMemoryWatchPersistence \<Rightarrow> string option \<Rightarrow> WatchEvent list" where
  "list_events st wid =
     (case wid of
        None \<Rightarrow> events st
      | Some w \<Rightarrow> filter (\<lambda>e. we_watch_id e = w) (events st))"

text \<open>What the class keeps: dictionary keys are unique and are the subscriptions' identifiers.\<close>

definition wf_persistence :: "InMemoryWatchPersistence \<Rightarrow> bool" where
  "wf_persistence st \<longleftrightarrow>
     wf_dict (subscriptions st) \<and> (\<forall>(k, s) \<in> set (subscriptions st). ws_subscription_id s = k)"

interpretation watch_store: keyed_store get_subscription save_subscription
  "\<lambda>k st. snd (delete_subscription k st)" ws_subscription_id wf_persistence
proof unfold_locales
  show "get_subscription (save_subscription v s) k =
      (if k = ws_subscription_id v then Some v else get_subscription s k)" for v s k
    by (simp add: get_subscription_def save_subscription_def)
  show "get_subscription (snd (delete_subscription k s)) k' =
      (if k' = k then None else get_subscription s k')" for k s k'
    by (simp add: get_subscription_def delete_subscription_def)
  show "wf_persistence s \<Longrightarrow> wf_persistence (save_subscription v s)" for s v
    using set_update_subset [of "ws_subscription_id v" v "subscriptions s"]
    by (auto simp: wf_persistence_def save_subscription_def distinct_update)
  show "wf_persistence s \<Longrightarrow> wf_persistence (snd (delete_subscription k s))" for s k
    using set_pop_subset [of k "subscriptions s"]
    by (auto simp: wf_persistence_def delete_subscription_def)
  show "wf_persistence s \<Longrightarrow> get_subscription s k = Some v \<Longrightarrow> ws_subscription_id v = k" for s k v
    by (auto simp: wf_persistence_def get_subscription_def dest: map_of_SomeD)
qed

lemma get_append_event [simp]: "get_subscription (append_event e st) = get_subscription st"
  by (rule ext) (simp add: get_subscription_def append_event_def)

lemma events_append_event [simp]: "events (append_event e st) = events st @ [e]"
  by (simp add: append_event_def)

lemma events_save [simp]: "events (save_subscription s st) = events st"
  by (simp add: save_subscription_def)

lemma events_delete [simp]: "events (snd (delete_subscription k st)) = events st"
  by (simp add: delete_subscription_def)

lemma fst_delete [simp]: "fst (delete_subscription k st) \<longleftrightarrow> get_subscription st k \<noteq> None"
  by (simp add: delete_subscription_def get_subscription_def)

lemma wf_append_event [simp]: "wf_persistence (append_event e st) = wf_persistence st"
  by (simp add: wf_persistence_def append_event_def)

lemma wf_empty [simp]: "wf_persistence empty_persistence"
  by (simp add: wf_persistence_def empty_persistence_def)

lemma get_empty [simp]: "get_subscription empty_persistence k = None"
  by (simp add: get_subscription_def empty_persistence_def)

section \<open>Registry (continuous/watch\_registry.py)\<close>

definition duplicate_watch :: "string \<Rightarrow> py_error" where
  "duplicate_watch wid = DuplicateWatchError (''watch already registered: '' @ wid)"

definition watch_not_found :: "string \<Rightarrow> py_error" where
  "watch_not_found wid = WatchNotFoundError (''watch not found: '' @ wid)"

definition require_subscription :: "InMemoryWatchPersistence \<Rightarrow> string \<Rightarrow> WatchSubscription result" where
  "require_subscription st wid =
     (case get_subscription st wid of None \<Rightarrow> Inl (watch_not_found wid) | Some s \<Rightarrow> Inr s)"

definition record_event ::
  "(string \<Rightarrow> string) \<Rightarrow> string \<Rightarrow> WatchEventType \<Rightarrow> datetime \<Rightarrow> metadata option \<Rightarrow>
   InMemoryWatchPersistence \<Rightarrow> InMemoryWatchPersistence" where
  "record_event H wid event_type timestamp metadata st =
     append_event
       \<lparr>we_event_id = event_id H wid (watch_event_type_value event_type) timestamp,
        we_event_type = event_type,
        we_watch_id = wid,
        we_timestamp = timestamp,
        we_metadata = (case metadata of None \<Rightarrow> [] | Some m \<Rightarrow> m)\<rparr> st"

definition register ::
  "(string \<Rightarrow> string) \<Rightarrow> datetime \<Rightarrow> int \<Rightarrow> string \<Rightarrow> string \<Rightarrow> WatchConfiguration option \<Rightarrow>
   metadata option \<Rightarrow> metadata option \<Rightarrow> datetime option \<Rightarrow> InMemoryWatchPersistence \<Rightarrow>
   (WatchSubscription \<times> InMemoryWatchPersistence) result" where
  "register H clk chain_id root_address protocol_name configuration baseline_scan metadata now st =
     (let identifier = watch_id chain_id root_address
      in if get_subscription st identifier \<noteq> None then Inl (duplicate_watch identifier)
         else
           (let timestamp = (case now of None \<Rightarrow> clk | Some t \<Rightarrow> t);
                protocol = build_watched_protocol clk chain_id root_address protocol_name
                             (Some timestamp) metadata;
                config = (case configuration of None \<Rightarrow> default_configuration | Some c \<Rightarrow> c);
                subscription = build_subscription clk protocol config WatchEnabled baseline_scan
                                 None None (Some timestamp) (Some timestamp);
                subscription = subscription
                  \<lparr>ws_next_execution_at := schedule_initial subscription timestamp\<rparr>;
                st = save_subscription subscription st;
                st = record_event H identifier EvRegistered timestamp
                       (Some [(''protocol_name'', PyStr protocol_name)]) st;
                st = (case ws_next_execution_at subscription of
                        None \<Rightarrow> st
                      | Some next \<Rightarrow>
                          record_event H identifier EvScheduled timestamp
                            (Some [(''next_execution_at'', PyStr (isoformat next))]) st)
            in Inr (subscription, st)))"

text \<open>\<open>unregister\<close> and \<open>delete_watch\<close> differ in the audit event only.\<close>

definition remove_watch ::
  "(string \<Rightarrow> string) \<Rightarrow> WatchEventType \<Rightarrow> datetime \<Rightarrow> string \<Rightarrow> InMemoryWatchPersistence \<Rightarrow>
   (bool \<times> InMemoryWatchPersistence) result" where
  "remove_watch H event_type clk wid st =
     bindR (require_subscription st wid) (\<lambda>subscription.
       let (deleted, st') = delete_subscription wid st
       in Inr (deleted,
            if deleted
            then record_event H wid event_type clk
                   (Some [(''protocol_name'',
                      PyStr (wp_protocol_name (ws_protocol subscription)))]) st'
            else st'))"

definition unregister ::
  "(string \<Rightarrow> string) \<Rightarrow> datetime \<Rightarrow> string \<Rightarrow> InMemoryWatchPersistence \<Rightarrow>
   (bool \<times> InMemoryWatchPersistence) result" where
  "unregister H clk wid st = remove_watch H EvUnregistered clk wid st"

definition delete_watch ::
  "(string \<Rightarrow> string) \<Rightarrow> datetime \<Rightarrow> string \<Rightarrow> InMemoryWatchPersistence \<Rightarrow>
   (bool \<times> InMemoryWatchPersistence) result" where
  "delete_watch H clk wid st = remove_watch H EvDeleted clk wid st"

definition update_configuration ::
  "(string \<Rightarrow> string) \<Rightarrow> datetime \<Rightarrow> string \<Rightarrow> WatchConfiguration \<Rightarrow> datetime option \<Rightarrow>
   InMemoryWatchPersistence \<Rightarrow> (WatchSubscription \<times> InMemoryWatchPersistence) result" where
  "update_configuration H clk wid configuration now st =
     bindR (require_subscription st wid) (\<lambda>subscription.
       let timestamp = (case now of None \<Rightarrow> clk | Some t \<Rightarrow> t);
           merged = merge_configuration (ws_configuration subscription) configuration;
           updated = subscription
             \<lparr>ws_configuration := merged,
              ws_updated_at := timestamp,
              ws_next_execution_at :=
                (if ws_status subscription = WatchEnabled
                 then schedule_initial (subscription\<lparr>ws_configuration := merged\<rparr>) timestamp
                 else None)\<rparr>;
           st = save_subscription updated st;
           st = record_event H wid EvConfigUpdated timestamp
                  (Some [(''schedule_type'', PyStr (schedule_type_value (wc_schedule_type merged)))]) st
       in Inr (updated, st))"

definition record_execution ::
  "(string \<Rightarrow> string) \<Rightarrow> datetime \<Rightarrow> string \<Rightarrow> datetime option \<Rightarrow> metadata option \<Rightarrow>
   InMemoryWatchPersistence \<Rightarrow> (WatchSubscription \<times> InMemoryWatchPersistence) result" where
  "record_execution H clk wid executed_at scan_snapshot st =
     bindR (require_subscription st wid) (\<lambda>subscription.
       let timestamp = (case executed_at of None \<Rightarrow> clk | Some t \<Rightarrow> t);
           baseline = (case ws_baseline_scan subscription of
                         None \<Rightarrow> scan_snapshot
                       | Some b \<Rightarrow> if b \<noteq> [] then Some b else scan_snapshot);
           updated = subscription
             \<lparr>ws_baseline_scan := baseline,
              ws_last_execution_at := Some timestamp,
              ws_next_execution_at :=
                (if ws_status subscription = WatchEnabled
                 then after_execution subscription timestamp
                 else ws_next_execution_at subscription),
              ws_updated_at := timestamp\<rparr>;
           st = save_subscription updated st;
           st = record_event H wid EvExecuted timestamp
                  (Some [(''scan_snapshot'',
                     PyDict (case scan_snapshot of None \<Rightarrow> [] | Some m \<Rightarrow> m))]) st
       in Inr (updated, st))"

section \<open>Lifecycle manager (continuous/watch\_manager.py)\<close>

definition transition ::
  "(string \<Rightarrow> string) \<Rightarrow> datetime \<Rightarrow> string \<Rightarrow> WatchStatus \<Rightarrow> WatchEventType \<Rightarrow> datetime option \<Rightarrow>
   bool \<Rightarrow> bool \<Rightarrow> InMemoryWatchPersistence \<Rightarrow>
   (WatchSubscription \<times> InMemoryWatchPersistence) result" where
  "transition H clk wid target_status event_type now reschedule clear_schedule st =
     bindR (require_subscription st wid) (\<lambda>subscription.
       let timestamp = (case now of None \<Rightarrow> clk | Some t \<Rightarrow> t);
           next_execution =
             (if clear_schedule then None
              else if reschedule
              then schedule_initial (subscription\<lparr>ws_status := WatchEnabled\<rparr>) timestamp
              else ws_next_execution_at subscription);
           updated = subscription
             \<lparr>ws_status := target_status,
              ws_next_execution_at := next_execution,
              ws_updated_at := timestamp\<rparr>;
           st = save_subscription updated st;
           st = record_event H wid event_type timestamp None st
       in Inr (updated, st))"

definition enable where
  "enable H clk wid now st = transition H clk wid WatchEnabled EvEnabled now True False st"

definition disable where
  "disable H clk wid now st = transition H clk wid WatchDisabled EvDisabled now False True st"

definition pause where
  "pause H clk wid now st = transition H clk wid WatchPaused EvPaused now False True st"

definition resume ::
  "(string \<Rightarrow> string) \<Rightarrow> datetime \<Rightarrow> string \<Rightarrow> datetime option \<Rightarrow> InMemoryWatchPersistence \<Rightarrow>
   (WatchSubscription \<times> InMemoryWatchPersistence) result" where
  "resume H clk wid now st =
     bindR (require_subscription st wid) (\<lambda>subscription.
       if ws_status subscription \<noteq> WatchPaused
       then Inl (ValueError (''watch is not paused: '' @ wid))
       else transition H clk wid WatchEnabled EvResumed now True False st)"

definition manager_delete ::
  "(string \<Rightarrow> string) \<Rightarrow> datetime \<Rightarrow> string \<Rightarrow> InMemoryWatchPersistence \<Rightarrow>
   (bool \<times> InMemoryWatchPersistence) result" where
  "manager_delete H clk wid st =
     (if get_subscription st wid = None then Inl (watch_not_found wid)
      else delete_watch H clk wid st)"

end
