(* ===== verification/WatchLifecycle.thy ===== *)
theory WatchLifecycle
  imports Watch
begin

text \<open>
  The watch registry and manager as one state machine: a command is one public call, a step is a
  call that returns. The invariant of the reachable stores ties the identifier of a subscription
  to its protocol and its next execution time to its status and schedule; on top of it stand the
  properties of scheduling, of the baseline and of the audit log.
\<close>

section \<open>Commands and steps\<close>

datatype watch_command =
    CmdRegister int string string "WatchConfiguration option" "metadata option" "metadata option"
      "datetime option"
  | CmdUnregister string
  | CmdUpdateConfiguration string WatchConfiguration "datetime option"
  | CmdRecordExecution string "datetime option" "metadata option"
  | CmdDeleteWatch string
  | CmdEnable string "datetime option"
  | CmdDisable string "datetime option"
  | CmdPause string "datetime option"
  | CmdResume string "datetime option"
  | CmdManagerDelete string

fun command_target :: "watch_command \<Rightarrow> string" where
  "command_target (CmdRegister c a n cfg b m now) = watch_id c a"
| "command_target (CmdUnregister w) = w"
| "command_target (CmdUpdateConfiguration w cfg now) = w"
| "command_target (CmdRecordExecution w t scan) = w"
| "command_target (CmdDeleteWatch w) = w"
| "command_target (CmdEnable w now) = w"
| "command_target (CmdDisable w now) = w"
| "command_target (CmdPause w now) = w"
| "command_target (CmdResume w now) = w"
| "command_target (CmdManagerDelete w) = w"

definition second :: "('a \<times> 'b) result \<Rightarrow> 'b result" where
  "second r = bindR r (\<lambda>(_, s). Inr s)"

fun exec_watch :: "(string \<Rightarrow> string) \<Rightarrow> datetime \<Rightarrow> watch_command \<Rightarrow> InMemoryWatchPersistence \<Rightarrow>
    InMemoryWatchPersistence result" where
  "exec_watch H clk (CmdRegister c a n cfg b m now) st = second (register H clk c a n cfg b m now st)"
| "exec_watch H clk (CmdUnregister w) st = second (unregister H clk w st)"
| "exec_watch H clk (CmdUpdateConfiguration w cfg now) st =
     second (update_configuration H clk w cfg now st)"
| "exec_watch H clk (CmdRecordExecution w t scan) st = second (record_execution H clk w t scan st)"
| "exec_watch H clk (CmdDeleteWatch w) st = second (delete_watch H clk w st)"
| "exec_watch H clk (CmdEnable w now) st = second (enable H clk w now st)"
| "exec_watch H clk (CmdDisable w now) st = second (disable H clk w now st)"
| "exec_watch H clk (CmdPause w now) st = second (pause H clk w now st)"
| "exec_watch H clk (CmdResume w now) st = second (resume H clk w now st)"
| "exec_watch H clk (CmdManagerDelete w) st = second (manager_delete H clk w st)"

inductive watch_step ::
  "(string \<Rightarrow> string) \<Rightarrow> watch_command \<Rightarrow> InMemoryWatchPersistence \<Rightarrow> InMemoryWatchPersistence \<Rightarrow> bool"
  for H where
  call: "exec_watch H clk cmd st = Inr st' \<Longrightarrow> watch_step H cmd st st'"

inductive watch_reachable :: "(string \<Rightarrow> string) \<Rightarrow> InMemoryWatchPersistence \<Rightarrow> bool" for H where
  start: "watch_reachable H empty_persistence"
| step: "watch_reachable H st \<Longrightarrow> watch_step H cmd st st' \<Longrightarrow> watch_reachable H st'"

section \<open>What one operation does to the store\<close>

lemma second_Inr [simp]: "second (Inr (x, s)) = Inr s"
  by (simp add: second_def)

lemma second_Inl [simp]: "second (Inl e) = Inl e"
  by (simp add: second_def)

lemma second_eq_Inr: "second r = Inr s \<longleftrightarrow> (\<exists>x. r = Inr (x, s))"
  by (cases r) (auto simp: second_def split: prod.splits)

lemma require_Some [simp]: "get_subscription st w = Some s \<Longrightarrow> require_subscription st w = Inr s"
  by (simp add: require_subscription_def)

lemma require_None [simp]:
  "get_subscription st w = None \<Longrightarrow> require_subscription st w = Inl (watch_not_found w)"
  by (simp add: require_subscription_def)

lemma require_eq_Inr: "require_subscription st w = Inr s \<longleftrightarrow> get_subscription st w = Some s"
  by (simp add: require_subscription_def split: option.split)

lemma get_record_event [simp]:
  "get_subscription (record_event H w ty t m st) = get_subscription st"
  by (simp add: record_event_def)

lemma wf_record_event [simp]: "wf_persistence (record_event H w ty t m st) = wf_persistence st"
  by (simp add: record_event_def)

lemma events_record_event: "\<exists>e. events (record_event H w ty t m st) = events st @ [e] \<and>
    we_watch_id e = w \<and> we_event_type e = ty"
  by (auto simp: record_event_def)

lemma remove_watch_Inr: "remove_watch H ty clk w st = Inr (b, st') \<longleftrightarrow>
    (\<exists>s. get_subscription st w = Some s \<and> b \<and>
       st' = record_event H w ty clk
         (Some [(''protocol_name'', PyStr (wp_protocol_name (ws_protocol s)))])
         (snd (delete_subscription w st)))"
  by (cases "get_subscription st w") (auto simp: remove_watch_def case_prod_beta)

lemmas registry_defs = register_def remove_watch_Inr unregister_def delete_watch_def
  update_configuration_def record_execution_def transition_def enable_def disable_def pause_def
  resume_def manager_delete_def Let_def bindR_eq_Inr require_eq_Inr second_eq_Inr

text \<open>
  Every step is one of three kinds on the subscriptions: a new subscription, a new version of a
  stored one that keeps its identity, or a removal; and it appends events of its target.
\<close>

definition new_version :: "WatchSubscription \<Rightarrow> WatchSubscription \<Rightarrow> bool" where
  "new_version s u \<longleftrightarrow>
     ws_subscription_id u = ws_subscription_id s \<and> ws_protocol u = ws_protocol s \<and>
     ws_created_at u = ws_created_at s \<and>
     (\<forall>b. ws_baseline_scan s = Some b \<longrightarrow> b \<noteq> [] \<longrightarrow> ws_baseline_scan u = Some b)"

inductive watch_effect ::
  "string \<Rightarrow> InMemoryWatchPersistence \<Rightarrow> InMemoryWatchPersistence \<Rightarrow> bool" where
  added: "get_subscription st w = None \<Longrightarrow> ws_subscription_id u = w \<Longrightarrow>
    get_subscription st' = get_subscription (save_subscription u st) \<Longrightarrow> watch_effect w st st'"
| changed: "get_subscription st w = Some s \<Longrightarrow> new_version s u \<Longrightarrow>
    get_subscription st' = get_subscription (save_subscription u st) \<Longrightarrow> watch_effect w st st'"
| removed: "get_subscription st w = Some s \<Longrightarrow>
    get_subscription st' = get_subscription (snd (delete_subscription w st)) \<Longrightarrow>
    watch_effect w st st'"

lemma transition_version: "transition H clk w ts ty now r c st = Inr (u, st') \<Longrightarrow>
    \<exists>s. get_subscription st w = Some s \<and> new_version s u \<and>
      get_subscription st' = get_subscription (save_subscription u st)"
  by (auto simp: registry_defs new_version_def)

lemma update_version: "update_configuration H clk w cfg now st = Inr (u, st') \<Longrightarrow>
    \<exists>s. get_subscription st w = Some s \<and> new_version s u \<and>
      get_subscription st' = get_subscription (save_subscription u st)"
  by (auto simp: registry_defs new_version_def)

lemma record_version: "record_execution H clk w t scan st = Inr (u, st') \<Longrightarrow>
    \<exists>s. get_subscription st w = Some s \<and> new_version s u \<and>
      get_subscription st' = get_subscription (save_subscription u st)"
  by (auto simp: registry_defs new_version_def)

lemma effect_changed: "\<exists>s. get_subscription st w = Some s \<and> new_version s u \<and>
      get_subscription st' = get_subscription (save_subscription u st) \<Longrightarrow> watch_effect w st st'"
  by (blast intro: watch_effect.changed)

lemmas effect_versions = transition_version [THEN effect_changed]
  update_version [THEN effect_changed] record_version [THEN effect_changed]

lemma effect_remove: "remove_watch H ty clk w st = Inr (b, st') \<Longrightarrow> watch_effect w st st'"
  by (auto simp: registry_defs intro!: watch_effect.removed)

lemma register_added: "register H clk c a n cfg b m now st = Inr (u, st') \<Longrightarrow>
    get_subscription st (watch_id c a) = None \<and> ws_subscription_id u = watch_id c a \<and>
    get_subscription st' = get_subscription (save_subscription u st)"
  by (auto simp: registry_defs split: if_splits option.splits)

lemma effect_register: "register H clk c a n cfg b m now st = Inr (u, st') \<Longrightarrow>
    watch_effect (watch_id c a) st st'"
  using register_added by (blast intro: watch_effect.added)

lemma watch_step_effect: "watch_step H cmd st st' \<Longrightarrow> watch_effect (command_target cmd) st st'"
proof (induction rule: watch_step.induct)
  case (call clk cmd st st')
  then show ?case
    by (cases cmd)
      (auto simp: second_eq_Inr unregister_def delete_watch_def manager_delete_def enable_def
         disable_def pause_def resume_def bindR_eq_Inr
         intro: effect_remove effect_register effect_versions
         split: if_splits)
qed

section \<open>The invariant of the reachable stores\<close>

definition identity_ok :: "WatchSubscription \<Rightarrow> bool" where
  "identity_ok s \<longleftrightarrow>
     ws_subscription_id s = wp_watch_id (ws_protocol s) \<and>
     wp_watch_id (ws_protocol s) =
       watch_id (wp_chain_id (ws_protocol s)) (wp_root_address (ws_protocol s)) \<and>
     lower (wp_root_address (ws_protocol s)) = wp_root_address (ws_protocol s)"

definition schedule_ok :: "WatchSubscription \<Rightarrow> bool" where
  "schedule_ok s \<longleftrightarrow>
     (ws_next_execution_at s \<noteq> None \<longleftrightarrow>
        ws_status s = WatchEnabled \<and>
        schedule_interval (wc_schedule_type (ws_configuration s)) \<noteq> None) \<and>
     (\<forall>t. ws_next_execution_at s = Some t \<longrightarrow> dt_utc t)"

definition registry_inv :: "InMemoryWatchPersistence \<Rightarrow> bool" where
  "registry_inv st \<longleftrightarrow>
     wf_persistence st \<and>
     (\<forall>k s. get_subscription st k = Some s \<longrightarrow> identity_ok s \<and> schedule_ok s)"

lemma registry_invD:
  assumes "registry_inv st" and "get_subscription st k = Some s"
  shows "identity_ok s" "schedule_ok s" "ws_subscription_id s = k"
  using assms watch_store.get_key by (auto simp: registry_inv_def)

lemma identity_new_version: "identity_ok s \<Longrightarrow> new_version s u \<Longrightarrow> identity_ok u"
  by (simp add: identity_ok_def new_version_def)

lemma schedule_ok_simps [simp]:
  "schedule_ok (s\<lparr>ws_updated_at := t\<rparr>) = schedule_ok s"
  "schedule_ok (s\<lparr>ws_last_execution_at := l\<rparr>) = schedule_ok s"
  "schedule_ok (s\<lparr>ws_baseline_scan := b\<rparr>) = schedule_ok s"
  by (simp_all add: schedule_ok_def)

text \<open>Whatever the operation, what it stores is scheduled consistently.\<close>

lemma schedule_ok_transition:
  assumes "transition H clk w ts ty now r c st = Inr (u, st')"
    and "ts = WatchEnabled \<and> r \<and> \<not> c \<or> ts \<noteq> WatchEnabled \<and> c"
  shows "schedule_ok u"
  using assms by (auto simp: registry_defs schedule_ok_def schedule_initial_eq)

lemma schedule_ok_update:
  assumes "update_configuration H clk w cfg now st = Inr (u, st')"
  shows "schedule_ok u"
proof -
  from assms obtain s where "ws_status u = ws_status s"
    and "wc_schedule_type (ws_configuration u) = wc_schedule_type cfg"
    and "ws_next_execution_at u =
      (if ws_status s = WatchEnabled
       then schedule_initial (s\<lparr>ws_configuration := merge_configuration (ws_configuration s) cfg\<rparr>)
         (case now of None \<Rightarrow> clk | Some x \<Rightarrow> x)
       else None)"
    by (auto simp: registry_defs)
  then show ?thesis by (auto simp: schedule_ok_def schedule_initial_eq)
qed

lemma schedule_ok_record:
  assumes "record_execution H clk w t scan st = Inr (u, st')" and "registry_inv st"
  shows "schedule_ok u"
proof -
  from assms(1) obtain s where s: "get_subscription st w = Some s"
    and u: "ws_status u = ws_status s" "ws_configuration u = ws_configuration s"
      "ws_next_execution_at u =
        (if ws_status s = WatchEnabled
         then after_execution s (case t of None \<Rightarrow> clk | Some x \<Rightarrow> x) else ws_next_execution_at s)"
    by (auto simp: registry_defs)
  from assms(2) s have "schedule_ok s" by (rule registry_invD)
  with u show ?thesis by (auto simp: schedule_ok_def after_execution_eq schedule_initial_eq)
qed

lemma register_ok:
  "register H clk c a n cfg b m now st = Inr (u, st') \<Longrightarrow> identity_ok u \<and> schedule_ok u"
  by (auto simp: registry_defs identity_ok_def schedule_ok_def schedule_initial_eq
      split: if_splits)

lemma registry_inv_save:
  assumes "registry_inv st" "identity_ok u" "schedule_ok u"
    and "wf_persistence st'" "get_subscription st' = get_subscription (save_subscription u st)"
  shows "registry_inv st'"
  using assms by (auto simp: registry_inv_def watch_store.get_save)

lemma registry_inv_version:
  assumes "registry_inv st" "schedule_ok u" "wf_persistence st'"
    and "\<exists>s. get_subscription st w = Some s \<and> new_version s u \<and>
      get_subscription st' = get_subscription (save_subscription u st)"
  shows "registry_inv st'"
  using assms by (blast intro: registry_inv_save identity_new_version registry_invD)

lemma wf_exec: "wf_persistence st \<Longrightarrow> exec_watch H clk cmd st = Inr st' \<Longrightarrow> wf_persistence st'"
  by (cases cmd)
    (auto simp: registry_defs intro: watch_store.invar_save watch_store.invar_del
      split: if_splits option.splits)

lemma registry_inv_remove:
  assumes "registry_inv st" "remove_watch H ty clk w st = Inr (b, st')" "wf_persistence st'"
  shows "registry_inv st'"
  using assms
  by (auto simp: registry_inv_def registry_defs watch_store.get_del split: if_splits)

lemma registry_inv_step:
  assumes "watch_step H cmd st st'" and inv: "registry_inv st"
  shows "registry_inv st'"
  using assms(1)
proof cases
  case (call clk)
  from inv have "wf_persistence st" by (simp add: registry_inv_def)
  from this call have wf: "wf_persistence st'" by (rule wf_exec)
  have tr: "registry_inv st'"
    if "transition H clk w ts ty now r c st = Inr (u, st')"
      "ts = WatchEnabled \<and> r \<and> \<not> c \<or> ts \<noteq> WatchEnabled \<and> c" for w ts ty now r c u
    using inv schedule_ok_transition [OF that] wf transition_version [OF that(1)]
    by (rule registry_inv_version)
  show ?thesis
  proof (cases cmd)
    case (CmdRegister c a n cfg b m now)
    with call obtain u where u: "register H clk c a n cfg b m now st = Inr (u, st')"
      by (auto simp: second_eq_Inr)
    from inv register_ok [OF u] wf register_added [OF u] show ?thesis
      by (blast intro: registry_inv_save)
  next
    case (CmdUpdateConfiguration w cfg now)
    with call obtain u where u: "update_configuration H clk w cfg now st = Inr (u, st')"
      by (auto simp: second_eq_Inr)
    from inv schedule_ok_update [OF u] wf update_version [OF u] show ?thesis
      by (rule registry_inv_version)
  next
    case (CmdRecordExecution w t scan)
    with call obtain u where u: "record_execution H clk w t scan st = Inr (u, st')"
      by (auto simp: second_eq_Inr)
    from inv schedule_ok_record [OF u inv] wf record_version [OF u] show ?thesis
      by (rule registry_inv_version)
  qed (use call inv wf tr in \<open>auto simp: second_eq_Inr unregister_def delete_watch_def
         manager_delete_def enable_def disable_def pause_def resume_def bindR_eq_Inr
       intro: registry_inv_remove split: if_splits\<close>)
qed

lemma reachable_registry_inv: "watch_reachable H st \<Longrightarrow> registry_inv st"
proof (induction rule: watch_reachable.induct)
  case start
  then show ?case by (simp add: registry_inv_def)
next
  case (step st cmd st')
  then show ?case by (blast intro: registry_inv_step)
qed

section \<open>Runs\<close>

fun run_watch :: "(string \<Rightarrow> string) \<Rightarrow> (datetime \<times> watch_command) list \<Rightarrow>
    InMemoryWatchPersistence \<Rightarrow> InMemoryWatchPersistence result" where
  "run_watch H [] st = Inr st"
| "run_watch H ((clk, cmd) # cs) st = bindR (exec_watch H clk cmd st) (run_watch H cs)"

lemma run_watch_inv: "run_watch H cs st = Inr st' \<Longrightarrow> registry_inv st \<Longrightarrow> registry_inv st'"
proof (induction cs arbitrary: st)
  case (Cons c cs)
  obtain clk cmd where c: "c = (clk, cmd)" by (cases c)
  with Cons.prems obtain st1 where "exec_watch H clk cmd st = Inr st1" "run_watch H cs st1 = Inr st'"
    by (auto simp: bindR_eq_Inr)
  with Cons show ?case by (blast intro: registry_inv_step watch_step.call)
qed simp

lemma run_watch_reachable:
  "run_watch H cs st = Inr st' \<Longrightarrow> watch_reachable H st \<Longrightarrow> watch_reachable H st'"
proof (induction cs arbitrary: st)
  case (Cons c cs)
  obtain clk cmd where c: "c = (clk, cmd)" by (cases c)
  with Cons.prems obtain st1 where "exec_watch H clk cmd st = Inr st1" "run_watch H cs st1 = Inr st'"
    by (auto simp: bindR_eq_Inr)
  with Cons show ?case by (blast intro: watch_reachable.step watch_step.call)
qed simp

definition run_targets :: "(datetime \<times> watch_command) list \<Rightarrow> string set" where
  "run_targets cs = (\<lambda>(clk, cmd). command_target cmd) ` set cs"

lemma run_watch_append:
  "run_watch H (cs @ ds) st = bindR (run_watch H cs st) (run_watch H ds)"
proof (induction cs arbitrary: st)
  case (Cons c cs)
  then show ?case by (cases c) (simp add: bindR_def split: sum.split)
qed simp

lemma reachable_run: "watch_reachable H st \<longleftrightarrow> (\<exists>cs. run_watch H cs empty_persistence = Inr st)"
proof
  assume "watch_reachable H st"
  then show "\<exists>cs. run_watch H cs empty_persistence = Inr st"
  proof (induction rule: watch_reachable.induct)
    case start
    have "run_watch H [] empty_persistence = Inr empty_persistence" by simp
    then show ?case by blast
  next
    case (step st cmd st')
    then obtain cs clk where cs: "run_watch H cs empty_persistence = Inr st"
      and "exec_watch H clk cmd st = Inr st'"
      by (auto elim: watch_step.cases)
    then have "run_watch H (cs @ [(clk, cmd)]) empty_persistence = Inr st'"
      by (simp add: run_watch_append)
    then show ?case by blast
  qed
next
  assume "\<exists>cs. run_watch H cs empty_persistence = Inr st"
  then show "watch_reachable H st" by (blast intro: run_watch_reachable watch_reachable.start)
qed

text \<open>The events a step appends, and the subscriptions it leaves alone.\<close>

lemma record_event_events: "events (record_event H w ty t m st) =
    events st @ [\<lparr>we_event_id = event_id H w (watch_event_type_value ty) t, we_event_type = ty,
      we_watch_id = w, we_timestamp = t, we_metadata = (case m of None \<Rightarrow> [] | Some x \<Rightarrow> x)\<rparr>]"
  by (simp add: record_event_def)

lemma exec_events:
  "exec_watch H clk cmd st = Inr st' \<Longrightarrow>
     \<exists>new. events st' = events st @ new \<and> new \<noteq> [] \<and>
       we_watch_id ` set new = {command_target cmd}"
  by (cases cmd)
    (auto simp: registry_defs record_event_events
      split: if_splits option.splits)

lemma effect_frame:
  assumes "watch_effect w st st'" "wf_persistence st" "k \<noteq> w"
  shows "get_subscription st' k = get_subscription st k"
  using assms(1)
proof cases
  case (changed s u)
  from assms(2) changed(1) have "ws_subscription_id s = w" by (rule watch_store.get_key)
  with changed assms(3) show ?thesis by (simp add: new_version_def watch_store.get_save)
qed (use assms(3) in \<open>simp_all add: watch_store.get_save watch_store.get_del\<close>)

lemma identity_ok_version_id: "new_version s u \<Longrightarrow> ws_subscription_id u = ws_subscription_id s"
  by (simp add: new_version_def)

lemma effect_keeps_baseline:
  assumes "watch_effect w st st'" "wf_persistence st"
    and "get_subscription st k = Some s" "ws_baseline_scan s = Some b" "b \<noteq> []"
  shows "get_subscription st' k = None \<or>
    (\<exists>s'. get_subscription st' k = Some s' \<and> ws_baseline_scan s' = Some b)"
proof (cases "k = w")
  case True
  from assms(1) show ?thesis
  proof cases
    case (changed t u)
    have "ws_subscription_id t = w" using assms(2) changed(1) by (rule watch_store.get_key)
    with changed True assms(3-5) show ?thesis by (auto simp: watch_store.get_save new_version_def)
  qed (use True assms(3) in \<open>auto simp: watch_store.get_del\<close>)
next
  case False
  with assms show ?thesis by (simp add: effect_frame)
qed

fun is_removal :: "watch_command \<Rightarrow> bool" where
  "is_removal (CmdUnregister w) = True"
| "is_removal (CmdDeleteWatch w) = True"
| "is_removal (CmdManagerDelete w) = True"
| "is_removal cmd = False"

lemma exec_not_removal:
  assumes "exec_watch H clk cmd st = Inr st'" "\<not> is_removal cmd"
    and "registry_inv st" "get_subscription st k = Some s"
  shows "\<exists>s'. get_subscription st' k = Some s'"
proof -
  from assms(3) have wf: "wf_persistence st" by (simp add: registry_inv_def)
  have keep: "\<exists>s'. get_subscription st' k = Some s'"
    if "get_subscription st' = get_subscription (save_subscription u st)" for u
    using assms(4) that by (cases "k = ws_subscription_id u") (auto simp: watch_store.get_save)
  show ?thesis
    using assms(1,2)
    by (cases cmd)
      (auto simp: second_eq_Inr enable_def disable_def pause_def resume_def bindR_eq_Inr
        dest!: register_added transition_version update_version record_version
        intro: keep split: if_splits)
qed

section \<open>Properties\<close>

text \<open>
  Property C29. In every store the registry and the manager can reach, a subscription is filed under
  its own identifier, which is the identifier of its chain and its lower-case root address, and it
  has a next execution time exactly when it is enabled with an hourly, daily or weekly schedule;
  that time is in UTC. In particular disabling or pausing clears the schedule, and cron and manual
  watches never get a time.
\<close>

theorem watch_registry_invariant:
  assumes "watch_reachable H st" and "get_subscription st k = Some s"
  shows "ws_subscription_id s = k \<and>
    k = watch_id (wp_chain_id (ws_protocol s)) (wp_root_address (ws_protocol s)) \<and>
    lower (wp_root_address (ws_protocol s)) = wp_root_address (ws_protocol s) \<and>
    (ws_next_execution_at s \<noteq> None \<longleftrightarrow>
       ws_status s = WatchEnabled \<and>
       wc_schedule_type (ws_configuration s) \<in> {SchedHourly, SchedDaily, SchedWeekly}) \<and>
    (\<forall>t. ws_next_execution_at s = Some t \<longrightarrow> dt_utc t)"
proof -
  from assms(1) have inv: "registry_inv st" by (rule reachable_registry_inv)
  note facts = registry_invD [OF inv assms(2)]
  have "ws_next_execution_at s \<noteq> None \<longleftrightarrow>
      ws_status s = WatchEnabled \<and>
      wc_schedule_type (ws_configuration s) \<in> {SchedHourly, SchedDaily, SchedWeekly}"
    using facts(2)
    by (cases "wc_schedule_type (ws_configuration s)") (simp_all add: schedule_ok_def)
  with facts show ?thesis by (auto simp: identity_ok_def schedule_ok_def)
qed

definition demo_time :: datetime where
  "demo_time = \<lparr>dt_wall = 63849600000000000, dt_off = Some 0\<rparr>"

definition demo_config :: WatchConfiguration where
  "demo_config = default_configuration\<lparr>wc_schedule_type := SchedHourly\<rparr>"

definition demo_commands :: "(datetime \<times> watch_command) list" where
  "demo_commands =
     [(demo_time, CmdRegister 1 ''0xAB'' ''Vault'' (Some demo_config) None None None),
      (demo_time, CmdRecordExecution ''1:0xab'' None (Some [(''risk'', PyInt 7)]))]"

definition demo_store :: InMemoryWatchPersistence where
  "demo_store =
     (case run_watch (\<lambda>_. ''00'') demo_commands empty_persistence of
        Inr st \<Rightarrow> st | Inl _ \<Rightarrow> empty_persistence)"

lemma demo_run: "run_watch (\<lambda>_. ''00'') demo_commands empty_persistence = Inr demo_store"
  by code_simp

lemma demo_reachable: "watch_reachable (\<lambda>_. ''00'') demo_store"
  by (rule run_watch_reachable [OF demo_run watch_reachable.start])

lemma demo_subscription: "\<exists>s. get_subscription demo_store ''1:0xab'' = Some s \<and>
    ws_status s = WatchEnabled \<and> wc_schedule_type (ws_configuration s) = SchedHourly \<and>
    ws_baseline_scan s = Some [(''risk'', PyInt 7)]"
proof -
  have "case get_subscription demo_store ''1:0xab'' of None \<Rightarrow> False
      | Some s \<Rightarrow> ws_status s = WatchEnabled \<and>
          wc_schedule_type (ws_configuration s) = SchedHourly \<and>
          ws_baseline_scan s = Some [(''risk'', PyInt 7)]"
    by code_simp
  then show ?thesis by (auto split: option.splits)
qed

theorem watch_registry_invariant_witness:
  "\<exists>s. get_subscription demo_store ''1:0xab'' = Some s \<and> ws_next_execution_at s \<noteq> None"
proof -
  obtain s where s: "get_subscription demo_store ''1:0xab'' = Some s" "ws_status s = WatchEnabled"
    "wc_schedule_type (ws_configuration s) = SchedHourly"
    using demo_subscription by blast
  with watch_registry_invariant [OF demo_reachable s(1)] show ?thesis by auto
qed

text \<open>
  Recording an execution at \<open>t\<close> in a reachable store restarts the schedule from \<open>t\<close>:
  afterwards the watch is due at a time \<open>now\<close> exactly when it is enabled, has an interval, and that
  interval has passed since \<open>t\<close>; a disabled, paused, manual or cron watch is never due.
\<close>

theorem due_after_execution:
  assumes "watch_reachable H st"
    and "record_execution H clk w (Some t) scan st = Inr (u, st')"
  shows "is_due u now \<longleftrightarrow>
    ws_status u = WatchEnabled \<and>
    (\<exists>i. schedule_interval (wc_schedule_type (ws_configuration u)) = Some i \<and>
       dt_instant t + i \<le> dt_instant now)"
proof -
  from assms(1) have inv: "registry_inv st" by (rule reachable_registry_inv)
  from assms(2) obtain s where s: "get_subscription st w = Some s"
    and u: "ws_status u = ws_status s" "ws_configuration u = ws_configuration s"
      "ws_next_execution_at u =
        (if ws_status s = WatchEnabled then after_execution s t else ws_next_execution_at s)"
    by (auto simp: registry_defs)
  then show ?thesis by (auto simp: is_due_iff after_execution_eq schedule_initial_eq)
qed

theorem due_after_execution_witness:
  "\<exists>u st'. record_execution (\<lambda>_. ''00'') demo_time ''1:0xab'' (Some demo_time) None demo_store =
       Inr (u, st') \<and>
     \<not> is_due u demo_time \<and> is_due u (dt_add demo_time (3600 * us_per_second))"
proof -
  obtain s where s: "get_subscription demo_store ''1:0xab'' = Some s" "ws_status s = WatchEnabled"
    "wc_schedule_type (ws_configuration s) = SchedHourly"
    using demo_subscription by blast
  then obtain u st' where
    u: "record_execution (\<lambda>_. ''00'') demo_time ''1:0xab'' (Some demo_time) None demo_store = Inr (u, st')"
    and "ws_status u = WatchEnabled" "wc_schedule_type (ws_configuration u) = SchedHourly"
    by (auto simp: record_execution_def Let_def)
  with due_after_execution [OF demo_reachable u] show ?thesis by auto
qed

text \<open>
  Registration is keyed by chain and case-insensitive address: in any store, registering
  succeeds exactly when no watch has that key, the new watch is enabled and stored under the key,
  every other watch is untouched, and registering the same address again in any spelling raises
  \<open>DuplicateWatchError\<close>.
\<close>

theorem register_unique:
  "((\<exists>r. register H clk c a n cfg b m now st = Inr r) \<longleftrightarrow>
      get_subscription st (watch_id c a) = None) \<and>
   (\<forall>u st'. register H clk c a n cfg b m now st = Inr (u, st') \<longrightarrow>
      get_subscription st' = (get_subscription st)(watch_id c a \<mapsto> u) \<and>
      ws_status u = WatchEnabled \<and> ws_baseline_scan u = b \<and>
      (\<forall>a'. lower a' = lower a \<longrightarrow>
        register H clk' c a' n' cfg' b' m' now' st' = Inl (duplicate_watch (watch_id c a))))"
proof (intro conjI allI impI)
  show "(\<exists>r. register H clk c a n cfg b m now st = Inr r) \<longleftrightarrow>
      get_subscription st (watch_id c a) = None"
    by (simp add: register_def Let_def)
  fix u st' assume r: "register H clk c a n cfg b m now st = Inr (u, st')"
  from register_added [OF r]
  show st': "get_subscription st' = (get_subscription st)(watch_id c a \<mapsto> u)"
    by (auto simp: fun_eq_iff watch_store.get_save)
  from r show "ws_status u = WatchEnabled" "ws_baseline_scan u = b"
    by (auto simp: registry_defs split: if_splits)
  fix a' assume "lower a' = lower a"
  then have "watch_id c a' = watch_id c a" by (simp add: watch_id_def)
  with st' show "register H clk' c a' n' cfg' b' m' now' st' = Inl (duplicate_watch (watch_id c a))"
    by (simp add: register_def Let_def)
qed

theorem register_unique_witness:
  "\<exists>u st'. register (\<lambda>_. ''00'') demo_time 1 ''0xAB'' ''Vault'' None None None None empty_persistence =
       Inr (u, st') \<and>
     register (\<lambda>_. ''00'') demo_time 1 ''0xaB'' ''Other'' None None None None st' =
       Inl (duplicate_watch (watch_id 1 ''0xAB''))"
proof -
  have "lower ''0xaB'' = lower ''0xAB''" by code_simp
  then show ?thesis
    using register_unique [of "\<lambda>_. ''00''" demo_time 1 "''0xAB''" "''Vault''" None None None None
      empty_persistence demo_time "''Other''" None None None None]
    by fastforce
qed

text \<open>
  The baseline scan of a watch is written once: along any run of commands from a
  reachable store that does not remove the watch, a non-empty baseline stays what it was. (An empty
  dictionary counts as no baseline, as in \<open>subscription.baseline_scan or scan_snapshot\<close>.)
\<close>

theorem baseline_written_once:
  assumes "watch_reachable H st" and "run_watch H cs st = Inr st'"
    and "get_subscription st k = Some s" and "ws_baseline_scan s = Some b" and "b \<noteq> []"
    and "\<forall>(clk, cmd) \<in> set cs. is_removal cmd \<longrightarrow> command_target cmd \<noteq> k"
  shows "\<exists>s'. get_subscription st' k = Some s' \<and> ws_baseline_scan s' = Some b"
proof -
  from assms(1) have "registry_inv st" by (rule reachable_registry_inv)
  with assms(2-6) show ?thesis
  proof (induction cs arbitrary: st s)
    case (Cons c cs)
    obtain clk cmd where c: "c = (clk, cmd)" by (cases c)
    with Cons.prems obtain st1 where st1: "exec_watch H clk cmd st = Inr st1"
      "run_watch H cs st1 = Inr st'" by (auto simp: bindR_eq_Inr)
    from st1(1) have step: "watch_step H cmd st st1" by (rule watch_step.call)
    note eff = watch_step_effect [OF step]
    have wf: "wf_persistence st" using Cons.prems(6) by (simp add: registry_inv_def)
    have "get_subscription st1 k \<noteq> None"
    proof (cases "is_removal cmd")
      case True
      with c Cons.prems(5) have "k \<noteq> command_target cmd" by auto
      with effect_frame [OF eff wf] Cons.prems(2) show ?thesis by simp
    next
      case False
      from exec_not_removal [OF st1(1) False Cons.prems(6,2)] show ?thesis by auto
    qed
    with effect_keeps_baseline [OF eff wf Cons.prems(2-4)] obtain s1
      where s1: "get_subscription st1 k = Some s1" "ws_baseline_scan s1 = Some b" by blast
    have "registry_inv st1" using step Cons.prems(6) by (rule registry_inv_step)
    moreover have "\<forall>(clk, cmd) \<in> set cs. is_removal cmd \<longrightarrow> command_target cmd \<noteq> k"
      using Cons.prems(5) by auto
    ultimately show ?case using st1(2) s1 Cons.prems(4) by (intro Cons.IH)
  qed auto
qed

theorem baseline_written_once_witness:
  "\<exists>s'. get_subscription demo_store ''1:0xab'' = Some s' \<and>
     (\<exists>st' s''. run_watch (\<lambda>_. ''00'') [(demo_time, CmdRecordExecution ''1:0xab'' None (Some []))]
        demo_store = Inr st' \<and> get_subscription st' ''1:0xab'' = Some s'' \<and>
        ws_baseline_scan s'' = Some [(''risk'', PyInt 7)])"
proof -
  obtain s where s: "get_subscription demo_store ''1:0xab'' = Some s"
    "ws_baseline_scan s = Some [(''risk'', PyInt 7)]"
    using demo_subscription by blast
  then obtain st' where run: "run_watch (\<lambda>_. ''00'')
      [(demo_time, CmdRecordExecution ''1:0xab'' None (Some []))] demo_store = Inr st'"
    by (auto simp: record_execution_def Let_def)
  have "\<exists>s'. get_subscription st' ''1:0xab'' = Some s' \<and>
      ws_baseline_scan s' = Some [(''risk'', PyInt 7)]"
    by (rule baseline_written_once [OF demo_reachable run s]) simp_all
  with s run show ?thesis by blast
qed

text \<open>
  The audit log is append-only and complete: a run appends events, at least one for every
  call, to the log it started from, the watches named by the new events are exactly the targets of
  the calls, and a watch that no call targets keeps its subscription.
\<close>

theorem audit_log_complete:
  assumes "watch_reachable H st" and "run_watch H cs st = Inr st'"
  shows "(\<exists>new. events st' = events st @ new \<and> length cs \<le> length new \<and>
      we_watch_id ` set new = run_targets cs) \<and>
    (\<forall>k. k \<notin> run_targets cs \<longrightarrow> get_subscription st' k = get_subscription st k)"
proof (intro conjI allI impI)
  show "\<exists>new. events st' = events st @ new \<and> length cs \<le> length new \<and>
      we_watch_id ` set new = run_targets cs"
    using assms(2)
  proof (induction cs arbitrary: st)
    case (Cons c cs)
    obtain clk cmd where c: "c = (clk, cmd)" by (cases c)
    with Cons.prems obtain st1 where st1: "exec_watch H clk cmd st = Inr st1"
      "run_watch H cs st1 = Inr st'" by (auto simp: bindR_eq_Inr)
    from exec_events [OF st1(1)] obtain n1 where n1: "events st1 = events st @ n1" "n1 \<noteq> []"
      "we_watch_id ` set n1 = {command_target cmd}" by blast
    from Cons.IH [OF st1(2)] obtain n2 where n2: "events st' = events st1 @ n2"
      "length cs \<le> length n2" "we_watch_id ` set n2 = run_targets cs"
      by blast
    have "length (c # cs) \<le> length (n1 @ n2)" using n1(2) n2(2) by (cases n1) auto
    moreover have "we_watch_id ` set (n1 @ n2) = run_targets (c # cs)"
      using n1(3) n2(3) c by (simp add: image_Un run_targets_def)
    moreover have "events st' = events st @ n1 @ n2" using n1(1) n2(1) by simp
    ultimately show ?case by blast
  qed (simp add: run_targets_def)
next
  fix k assume "k \<notin> run_targets cs"
  moreover from assms(1) have "registry_inv st" by (rule reachable_registry_inv)
  ultimately show "get_subscription st' k = get_subscription st k"
    using assms(2)
  proof (induction cs arbitrary: st)
    case (Cons c cs)
    obtain clk cmd where c: "c = (clk, cmd)" by (cases c)
    with Cons.prems obtain st1 where st1: "exec_watch H clk cmd st = Inr st1"
      "run_watch H cs st1 = Inr st'" by (auto simp: bindR_eq_Inr)
    from st1(1) have step: "watch_step H cmd st st1" by (rule watch_step.call)
    have "get_subscription st1 k = get_subscription st k"
      using Cons.prems(1,2) c
      by (intro effect_frame [OF watch_step_effect [OF step]])
        (auto simp: registry_inv_def run_targets_def)
    moreover have "get_subscription st' k = get_subscription st1 k"
      using st1(2) registry_inv_step [OF step Cons.prems(2)] Cons.prems(1)
      by (intro Cons.IH) (auto simp: run_targets_def)
    ultimately show ?case by simp
  qed simp
qed

theorem audit_log_complete_witness:
  "\<exists>new. events demo_store = events empty_persistence @ new \<and> 2 \<le> length new \<and>
     we_watch_id ` set new = {''1:0xab''}"
proof -
  have "run_targets demo_commands = {''1:0xab''}"
  proof -
    have "watch_id 1 ''0xAB'' = ''1:0xab''" by code_simp
    then show ?thesis by (simp add: demo_commands_def run_targets_def)
  qed
  moreover have "length demo_commands = 2" by (simp add: demo_commands_def)
  ultimately show ?thesis
    using audit_log_complete [OF watch_reachable.start demo_run] by auto
qed

text \<open>
  Resuming is the inverse of pausing: \<open>resume\<close> raises unless the watch exists and is
  paused; pausing an enabled watch and resuming it at \<open>t\<close> gives back the same subscription, enabled,
  with the next execution one interval after \<open>t\<close> (none without an interval) and the update time \<open>t\<close>.
\<close>

theorem pause_resume:
  "((\<exists>r. resume H clk w now st = Inr r) \<longleftrightarrow>
      (\<exists>s. get_subscription st w = Some s \<and> ws_status s = WatchPaused)) \<and>
   (\<forall>s. get_subscription st w = Some s \<longrightarrow> ws_subscription_id s = w \<longrightarrow>
        ws_status s = WatchEnabled \<longrightarrow>
      (\<exists>p st1 st2. pause H clk w now st = Inr (p, st1) \<and> (\<forall>x. \<not> is_due p x) \<and>
        resume H clk' w (Some t) st1 =
          Inr (s\<lparr>ws_next_execution_at := map_option (dt_add (ensure_utc t))
                   (schedule_interval (wc_schedule_type (ws_configuration s))),
                 ws_updated_at := t\<rparr>, st2)))"
proof (intro conjI allI impI)
  show "(\<exists>r. resume H clk w now st = Inr r) \<longleftrightarrow>
      (\<exists>s. get_subscription st w = Some s \<and> ws_status s = WatchPaused)"
    by (cases "get_subscription st w") (auto simp: resume_def transition_def Let_def)
next
  fix s assume s: "get_subscription st w = Some s" "ws_subscription_id s = w" "ws_status s = WatchEnabled"
  let ?p = "s\<lparr>ws_status := WatchPaused, ws_next_execution_at := None,
    ws_updated_at := (case now of None \<Rightarrow> clk | Some x \<Rightarrow> x)\<rparr>"
  from s obtain st1 where p: "pause H clk w now st = Inr (?p, st1)"
    and g: "get_subscription st1 w = Some ?p"
    by (simp add: pause_def transition_def Let_def watch_store.get_save)
  from g s have "\<exists>st2. resume H clk' w (Some t) st1 =
      Inr (s\<lparr>ws_next_execution_at := map_option (dt_add (ensure_utc t))
               (schedule_interval (wc_schedule_type (ws_configuration s))),
             ws_updated_at := t\<rparr>, st2)"
    by (simp add: resume_def transition_def Let_def schedule_initial_eq)
  moreover have "\<not> is_due ?p x" for x by (simp add: is_due_iff)
  ultimately show "\<exists>p st1 st2. pause H clk w now st = Inr (p, st1) \<and> (\<forall>x. \<not> is_due p x) \<and>
      resume H clk' w (Some t) st1 =
        Inr (s\<lparr>ws_next_execution_at := map_option (dt_add (ensure_utc t))
                 (schedule_interval (wc_schedule_type (ws_configuration s))),
               ws_updated_at := t\<rparr>, st2)"
    using p by blast
qed

theorem pause_resume_witness:
  "\<exists>s p st1. get_subscription demo_store ''1:0xab'' = Some s \<and>
     pause (\<lambda>_. ''00'') demo_time ''1:0xab'' None demo_store = Inr (p, st1) \<and>
     (\<forall>x. \<not> is_due p x)"
proof -
  obtain s where s: "get_subscription demo_store ''1:0xab'' = Some s" "ws_status s = WatchEnabled"
    using demo_subscription by blast
  then have "ws_subscription_id s = ''1:0xab''"
    using registry_invD(3) [OF reachable_registry_inv [OF demo_reachable]] by simp
  with pause_resume [of "\<lambda>_. ''00''" demo_time "''1:0xab''" None demo_store demo_time demo_time] s
  show ?thesis by blast
qed

end
