(* ===== verification/WatchPersistence.thy ===== *)
theory WatchPersistence
  imports Serialization WatchLifecycle
begin

text \<open>
  The JSON form of the watch store (\<open>continuous/persistence.py\<close>): \<open>serialize_subscription\<close>,
  \<open>serialize_event\<close>, \<open>dump_store\<close> and their inverses. Loading what was dumped gives the same
  subscriptions and events back, for every store the registry can reach.
\<close>

section \<open>Writing\<close>

definition serialize_datetime :: "datetime option \<Rightarrow> pyval" where
  "serialize_datetime v = (case v of None \<Rightarrow> PyNone | Some d \<Rightarrow> PyStr (isoformat d))"

definition serialize_protocol :: "WatchedProtocol \<Rightarrow> pyval" where
  "serialize_protocol p = PyDict
     [(''watch_id'', PyStr (wp_watch_id p)),
      (''chain_id'', PyInt (wp_chain_id p)),
      (''root_address'', PyStr (wp_root_address p)),
      (''protocol_name'', PyStr (wp_protocol_name p)),
      (''registered_at'', serialize_datetime (Some (wp_registered_at p))),
      (''metadata'', PyDict (wp_metadata p))]"

text \<open>\<open>asdict\<close>; the schedule type is a \<open>StrEnum\<close> and is written as its value.\<close>

definition serialize_configuration :: "WatchConfiguration \<Rightarrow> pyval" where
  "serialize_configuration c = PyDict
     [(''schedule_type'', PyStr (schedule_type_value (wc_schedule_type c))),
      (''cron_expression'', opt_val PyStr (wc_cron_expression c)),
      (''timezone'', PyStr (wc_timezone c)),
      (''metadata'', PyDict (wc_metadata c))]"

definition serialize_subscription :: "WatchSubscription \<Rightarrow> pyval" where
  "serialize_subscription s = PyDict
     [(''subscription_id'', PyStr (ws_subscription_id s)),
      (''protocol'', serialize_protocol (ws_protocol s)),
      (''configuration'', serialize_configuration (ws_configuration s)),
      (''status'', PyStr (watch_status_value (ws_status s))),
      (''baseline_scan'', opt_val PyDict (ws_baseline_scan s)),
      (''last_execution_at'', serialize_datetime (ws_last_execution_at s)),
      (''next_execution_at'', serialize_datetime (ws_next_execution_at s)),
      (''created_at'', serialize_datetime (Some (ws_created_at s))),
      (''updated_at'', serialize_datetime (Some (ws_updated_at s)))]"

definition serialize_event :: "WatchEvent \<Rightarrow> pyval" where
  "serialize_event e = PyDict
     [(''event_id'', PyStr (we_event_id e)),
      (''event_type'', PyStr (watch_event_type_value (we_event_type e))),
      (''watch_id'', PyStr (we_watch_id e)),
      (''timestamp'', serialize_datetime (Some (we_timestamp e))),
      (''metadata'', PyDict (we_metadata e))]"

definition dump_watch_store :: "InMemoryWatchPersistence \<Rightarrow> pyval result" where
  "dump_watch_store st =
     json_dumps (PyDict
       [(''subscriptions'', PyList (map serialize_subscription (list_subscriptions st))),
        (''events'', PyList (map serialize_event (list_events st None)))])"

section \<open>Reading\<close>

text \<open>The enum constructors: a value that no member has raises \<open>ValueError\<close>.\<close>

definition read_enum :: "('a \<Rightarrow> string) \<Rightarrow> 'a list \<Rightarrow> string \<Rightarrow> 'a result" where
  "read_enum val members s =
     (case find (\<lambda>m. val m = s) members of
        None \<Rightarrow> Inl (ValueError (s @ '' is not a valid member'')) | Some m \<Rightarrow> Inr m)"

definition read_schedule_type :: "string \<Rightarrow> WatchScheduleType result" where
  "read_schedule_type =
     read_enum schedule_type_value [SchedManual, SchedHourly, SchedDaily, SchedWeekly, SchedCron]"

definition read_watch_status :: "string \<Rightarrow> WatchStatus result" where
  "read_watch_status = read_enum watch_status_value [WatchEnabled, WatchDisabled, WatchPaused]"

definition read_event_type :: "string \<Rightarrow> WatchEventType result" where
  "read_event_type = read_enum watch_event_type_value
     [EvRegistered, EvUnregistered, EvConfigUpdated, EvEnabled, EvDisabled, EvPaused, EvResumed,
      EvDeleted, EvScheduled, EvExecuted]"

definition deserialize_datetime :: "pyval \<Rightarrow> datetime option result" where
  "deserialize_datetime v =
     (case v of PyNone \<Rightarrow> Inr None | _ \<Rightarrow> bindR (py_fromisoformat v) (\<lambda>d. Inr (Some d)))"

text \<open>\<open>_deserialize_datetime(payload[k]) or datetime.fromisoformat(''1970-01-01T00:00:00+00:00'')\<close>.\<close>

definition epoch :: datetime where
  "epoch = \<lparr>dt_wall = 719162 * us_per_day, dt_off = Some 0\<rparr>"

definition read_datetime :: "pyval \<Rightarrow> string \<Rightarrow> datetime result" where
  "read_datetime payload k =
     bindR (py_item payload k) (\<lambda>v. bindR (deserialize_datetime v) (\<lambda>d.
       Inr (case d of None \<Rightarrow> epoch | Some t \<Rightarrow> t)))"

text \<open>
  Fields the dataclasses declare as \<open>str | None\<close> and \<open>dict | None\<close>. The code stores whatever the
  payload has; a value of another type has no place in the records and counts as \<open>TypeError\<close>.
\<close>

definition typed_opt_str :: "pyval \<Rightarrow> string option result" where
  "typed_opt_str v =
     (case v of PyNone \<Rightarrow> Inr None | PyStr s \<Rightarrow> Inr (Some s) | _ \<Rightarrow> Inl (TypeError ''expected str or None''))"

definition typed_opt_dict :: "pyval \<Rightarrow> metadata option result" where
  "typed_opt_dict v =
     (case v of PyNone \<Rightarrow> Inr None | PyDict d \<Rightarrow> Inr (Some d) | _ \<Rightarrow> Inl (TypeError ''expected dict or None''))"

definition deserialize_protocol :: "pyval \<Rightarrow> WatchedProtocol result" where
  "deserialize_protocol payload =
     bindR (read_text payload ''watch_id'') (\<lambda>watch.
     bindR (bindR (py_item payload ''chain_id'') py_int) (\<lambda>chain_id.
     bindR (read_text payload ''root_address'') (\<lambda>root_address.
     bindR (read_text payload ''protocol_name'') (\<lambda>protocol_name.
     bindR (read_datetime payload ''registered_at'') (\<lambda>registered_at.
     bindR (read_metadata payload) (\<lambda>metadata.
       Inr \<lparr>wp_watch_id = watch, wp_chain_id = chain_id, wp_root_address = lower root_address,
            wp_protocol_name = protocol_name, wp_registered_at = registered_at,
            wp_metadata = metadata\<rparr>))))))"

definition deserialize_configuration :: "pyval \<Rightarrow> WatchConfiguration result" where
  "deserialize_configuration payload =
     bindR (py_lookup payload ''schedule_type'' (PyStr (schedule_type_value SchedManual))) (\<lambda>v.
     bindR (read_schedule_type (py_str v)) (\<lambda>schedule_type.
     bindR (bindR (py_lookup payload ''cron_expression'' PyNone) typed_opt_str) (\<lambda>cron_expression.
     bindR (py_lookup payload ''timezone'' (PyStr ''UTC'')) (\<lambda>timezone.
     bindR (read_metadata payload) (\<lambda>metadata.
       Inr \<lparr>wc_schedule_type = schedule_type, wc_cron_expression = cron_expression,
            wc_timezone = py_str timezone, wc_metadata = metadata\<rparr>)))))"

definition deserialize_subscription :: "pyval \<Rightarrow> WatchSubscription result" where
  "deserialize_subscription payload =
     bindR (read_text payload ''subscription_id'') (\<lambda>subscription_id.
     bindR (bindR (py_item payload ''protocol'') deserialize_protocol) (\<lambda>protocol.
     bindR (bindR (py_item payload ''configuration'') deserialize_configuration) (\<lambda>configuration.
     bindR (bindR (read_text payload ''status'') read_watch_status) (\<lambda>status.
     bindR (bindR (py_lookup payload ''baseline_scan'' PyNone) typed_opt_dict) (\<lambda>baseline_scan.
     bindR (bindR (py_lookup payload ''last_execution_at'' PyNone) deserialize_datetime) (\<lambda>last.
     bindR (bindR (py_lookup payload ''next_execution_at'' PyNone) deserialize_datetime) (\<lambda>next.
     bindR (read_datetime payload ''created_at'') (\<lambda>created_at.
     bindR (read_datetime payload ''updated_at'') (\<lambda>updated_at.
       Inr \<lparr>ws_subscription_id = subscription_id, ws_protocol = protocol,
            ws_configuration = configuration, ws_status = status, ws_baseline_scan = baseline_scan,
            ws_last_execution_at = last, ws_next_execution_at = next, ws_created_at = created_at,
            ws_updated_at = updated_at\<rparr>)))))))))"

definition deserialize_event :: "pyval \<Rightarrow> WatchEvent result" where
  "deserialize_event payload =
     bindR (read_text payload ''event_id'') (\<lambda>eid.
     bindR (bindR (read_text payload ''event_type'') read_event_type) (\<lambda>event_type.
     bindR (read_text payload ''watch_id'') (\<lambda>watch.
     bindR (read_datetime payload ''timestamp'') (\<lambda>timestamp.
     bindR (read_metadata payload) (\<lambda>metadata.
       Inr \<lparr>we_event_id = eid, we_event_type = event_type, we_watch_id = watch,
            we_timestamp = timestamp, we_metadata = metadata\<rparr>)))))"

definition load_watch_store :: "pyval \<Rightarrow> InMemoryWatchPersistence result" where
  "load_watch_store payload =
     (let data = json_loads payload
      in bindR (bindR (py_lookup data ''subscriptions'' (PyList [])) py_iter) (\<lambda>items.
         bindR (mapR deserialize_subscription items) (\<lambda>subs.
         bindR (bindR (py_lookup data ''events'' (PyList [])) py_iter) (\<lambda>items.
         bindR (mapR deserialize_event items) (\<lambda>evs.
           Inr (fold append_event evs (fold save_subscription subs empty_persistence)))))))"

section \<open>What can be written, and equality up to the order of keys\<close>

definition opt_meta :: "metadata option \<Rightarrow> bool" where
  "opt_meta m \<longleftrightarrow> (case m of None \<Rightarrow> True | Some d \<Rightarrow> json_meta d)"

definition opt_dt_valid :: "datetime option \<Rightarrow> bool" where
  "opt_dt_valid t \<longleftrightarrow> (case t of None \<Rightarrow> True | Some d \<Rightarrow> dt_valid d)"

definition opt_meta_eq :: "metadata option \<Rightarrow> metadata option \<Rightarrow> bool" where
  "opt_meta_eq a b \<longleftrightarrow>
     (case (a, b) of (None, None) \<Rightarrow> True | (Some x, Some y) \<Rightarrow> meta_eq x y | _ \<Rightarrow> False)"

definition storable_subscription :: "WatchSubscription \<Rightarrow> bool" where
  "storable_subscription s \<longleftrightarrow>
     json_meta (wp_metadata (ws_protocol s)) \<and> json_meta (wc_metadata (ws_configuration s)) \<and>
     opt_meta (ws_baseline_scan s) \<and> dt_valid (wp_registered_at (ws_protocol s)) \<and>
     opt_dt_valid (ws_last_execution_at s) \<and> opt_dt_valid (ws_next_execution_at s) \<and>
     dt_valid (ws_created_at s) \<and> dt_valid (ws_updated_at s)"

definition writable_subscription :: "WatchSubscription \<Rightarrow> bool" where
  "writable_subscription s \<longleftrightarrow> storable_subscription s \<and>
     lower (wp_root_address (ws_protocol s)) = wp_root_address (ws_protocol s)"

definition writable_event :: "WatchEvent \<Rightarrow> bool" where
  "writable_event e \<longleftrightarrow> json_meta (we_metadata e) \<and> dt_valid (we_timestamp e)"

text \<open>\<open>==\<close> of the dataclasses: field by field, dictionaries as sets of entries.\<close>

definition same_subscription :: "WatchSubscription \<Rightarrow> WatchSubscription \<Rightarrow> bool" where
  "same_subscription a b \<longleftrightarrow>
     a\<lparr>ws_protocol := (ws_protocol a)\<lparr>wp_metadata := []\<rparr>,
        ws_configuration := (ws_configuration a)\<lparr>wc_metadata := []\<rparr>, ws_baseline_scan := None\<rparr> =
     b\<lparr>ws_protocol := (ws_protocol b)\<lparr>wp_metadata := []\<rparr>,
        ws_configuration := (ws_configuration b)\<lparr>wc_metadata := []\<rparr>, ws_baseline_scan := None\<rparr> \<and>
     meta_eq (wp_metadata (ws_protocol a)) (wp_metadata (ws_protocol b)) \<and>
     meta_eq (wc_metadata (ws_configuration a)) (wc_metadata (ws_configuration b)) \<and>
     opt_meta_eq (ws_baseline_scan a) (ws_baseline_scan b)"

definition same_event :: "WatchEvent \<Rightarrow> WatchEvent \<Rightarrow> bool" where
  "same_event a b \<longleftrightarrow>
     a\<lparr>we_metadata := []\<rparr> = b\<lparr>we_metadata := []\<rparr> \<and> meta_eq (we_metadata a) (we_metadata b)"

definition restored_subscription :: "WatchSubscription \<Rightarrow> WatchSubscription" where
  "restored_subscription s = s
     \<lparr>ws_protocol := (ws_protocol s)\<lparr>wp_metadata := json_entries (wp_metadata (ws_protocol s))\<rparr>,
      ws_configuration := (ws_configuration s)
        \<lparr>wc_metadata := json_entries (wc_metadata (ws_configuration s))\<rparr>,
      ws_baseline_scan := map_option json_entries (ws_baseline_scan s)\<rparr>"

definition restored_event :: "WatchEvent \<Rightarrow> WatchEvent" where
  "restored_event e = e\<lparr>we_metadata := json_entries (we_metadata e)\<rparr>"

section \<open>One value back and forth\<close>

lemma read_enum_values [simp]:
  "read_schedule_type (schedule_type_value t) = Inr t"
  "read_watch_status (watch_status_value st) = Inr st"
  "read_event_type (watch_event_type_value ty) = Inr ty"
  by ((cases t; simp add: read_schedule_type_def read_enum_def),
    (cases st; simp add: read_watch_status_def read_enum_def),
    (cases ty; simp add: read_event_type_def read_enum_def))

lemma json_sorted_opt [simp]:
  "json_sorted (serialize_datetime t) = serialize_datetime t"
  "json_sorted (opt_val PyStr s) = opt_val PyStr s"
  "json_sorted (opt_val PyDict m) = opt_val PyDict (map_option json_entries m)"
  by ((cases t; simp add: serialize_datetime_def), (cases s; simp add: opt_val_def),
    (cases m; simp add: opt_val_def))

lemma json_ok_opt [simp]:
  "json_ok (serialize_datetime t)"
  "json_ok (opt_val PyStr s)"
  "opt_meta m \<Longrightarrow> json_ok (opt_val PyDict m)"
  by ((cases t; simp add: serialize_datetime_def), (cases s; simp add: opt_val_def),
    (cases m; simp add: opt_val_def opt_meta_def json_metaD(2) [simplified]))

lemma read_opt [simp]:
  "opt_dt_valid t \<Longrightarrow> deserialize_datetime (serialize_datetime t) = Inr t"
  "typed_opt_str (opt_val PyStr s) = Inr s"
  "typed_opt_dict (opt_val PyDict m) = Inr m"
  by ((cases t; simp add: serialize_datetime_def deserialize_datetime_def opt_dt_valid_def),
    (cases s; simp add: opt_val_def typed_opt_str_def),
    (cases m; simp add: opt_val_def typed_opt_dict_def))

lemma opt_dt_valid_Some [simp]: "opt_dt_valid (Some d) = dt_valid d"
  by (simp add: opt_dt_valid_def)

lemma opt_meta_eq_restored: "opt_meta m \<Longrightarrow> opt_meta_eq (map_option json_entries m) m"
  by (cases m) (simp_all add: opt_meta_eq_def opt_meta_def json_metaD)

lemmas reading_defs = read_datetime_def py_item_json py_lookup_json read_text_json read_metadata_json

lemma protocol_roundtrip:
  assumes "dt_valid (wp_registered_at p)" "lower (wp_root_address p) = wp_root_address p"
  shows "deserialize_protocol (json_sorted (serialize_protocol p)) =
    Inr (p\<lparr>wp_metadata := json_entries (wp_metadata p)\<rparr>)"
  using assms by (simp add: deserialize_protocol_def serialize_protocol_def reading_defs)

lemma configuration_roundtrip:
  "deserialize_configuration (json_sorted (serialize_configuration c)) =
    Inr (c\<lparr>wc_metadata := json_entries (wc_metadata c)\<rparr>)"
  by (simp add: deserialize_configuration_def serialize_configuration_def reading_defs)

lemma subscription_roundtrip:
  assumes "writable_subscription s"
  shows "deserialize_subscription (json_sorted (serialize_subscription s)) = Inr (restored_subscription s)"
  using assms
  by (simp add: deserialize_subscription_def serialize_subscription_def reading_defs
      protocol_roundtrip configuration_roundtrip writable_subscription_def
      storable_subscription_def restored_subscription_def)

lemma event_roundtrip:
  assumes "writable_event e"
  shows "deserialize_event (json_sorted (serialize_event e)) = Inr (restored_event e)"
  using assms
  by (simp add: deserialize_event_def serialize_event_def reading_defs writable_event_def restored_event_def)

interpretation subscription_codec: json_codec serialize_subscription deserialize_subscription
  restored_subscription same_subscription writable_subscription
proof
  show "json_ok (serialize_subscription s)" if "writable_subscription s" for s
    using that by (simp add: serialize_subscription_def serialize_protocol_def
        serialize_configuration_def writable_subscription_def
        storable_subscription_def json_metaD(2) [simplified])
  show "same_subscription (restored_subscription s) s" if "writable_subscription s" for s
    using that by (simp add: same_subscription_def restored_subscription_def
        writable_subscription_def storable_subscription_def json_metaD opt_meta_eq_restored)
qed (rule subscription_roundtrip)

interpretation event_codec: json_codec serialize_event deserialize_event
  restored_event same_event writable_event
proof
  show "json_ok (serialize_event e)" if "writable_event e" for e
    using that by (simp add: serialize_event_def writable_event_def json_metaD(2) [simplified])
  show "same_event (restored_event e) e" if "writable_event e" for e
    using that by (simp add: same_event_def restored_event_def writable_event_def json_metaD)
qed (rule event_roundtrip)

section \<open>The store back and forth\<close>

lemma restored_ids [simp]: "ws_subscription_id (restored_subscription s) = ws_subscription_id s"
  by (simp add: restored_subscription_def)

lemma subscriptions_fold_save:
  "subscriptions (fold save_subscription xs st) =
     fold (\<lambda>x d. AList.update (ws_subscription_id x) x d) xs (subscriptions st)"
  by (induction xs arbitrary: st) (simp_all add: save_subscription_def)

lemma get_saved:
  "get_subscription (fold save_subscription xs empty_persistence) w =
     map_of (dict_of ws_subscription_id (\<lambda>x. x) xs) w"
  by (simp add: get_subscription_def subscriptions_fold_save dict_of_def empty_persistence_def)

lemma events_fold_save [simp]: "events (fold save_subscription xs st) = events st"
  by (induction xs arbitrary: st) simp_all

lemma events_fold_append [simp]: "events (fold append_event es st) = events st @ es"
  by (induction es arbitrary: st) simp_all

lemma get_fold_append [simp]: "get_subscription (fold append_event es st) = get_subscription st"
  by (induction es arbitrary: st) simp_all

text \<open>The listed subscriptions: each stored one once.\<close>

lemma list_subscriptions_props:
  assumes "wf_persistence st"
  shows "map ws_subscription_id (list_subscriptions st) = sort (dict_keys (subscriptions st))"
    and "s \<in> set (list_subscriptions st) \<longleftrightarrow> get_subscription st (ws_subscription_id s) = Some s"
proof -
  have stored: "\<exists>s. map_of (subscriptions st) k = Some s \<and> ws_subscription_id s = k"
    if mem: "k \<in> set (dict_keys (subscriptions st))" for k
  proof -
    obtain s where s: "map_of (subscriptions st) k = Some s"
      using mem dom_map_of_keys [of "subscriptions st" k] by (cases "map_of (subscriptions st) k") blast+
    with watch_store.get_key [OF assms, of k s] have "ws_subscription_id s = k"
      by (simp add: get_subscription_def)
    with s show ?thesis by blast
  qed
  have "(ws_subscription_id \<circ> (\<lambda>k. the (map_of (subscriptions st) k))) k = k"
    if "k \<in> set (sort (dict_keys (subscriptions st)))" for k
    using that stored [of k] by (auto simp del: set_map)
  then show "map ws_subscription_id (list_subscriptions st) = sort (dict_keys (subscriptions st))"
    unfolding list_subscriptions_def map_map by (rule map_idI)
  show "s \<in> set (list_subscriptions st) \<longleftrightarrow> get_subscription st (ws_subscription_id s) = Some s"
    unfolding list_subscriptions_def get_subscription_def
  proof
    assume "s \<in> set (map (\<lambda>k. the (map_of (subscriptions st) k)) (sort (dict_keys (subscriptions st))))"
    then obtain k where "k \<in> set (dict_keys (subscriptions st))" "s = the (map_of (subscriptions st) k)"
      unfolding set_map [of "\<lambda>k. the (map_of (subscriptions st) k)"] set_sort by (rule imageE)
    with stored [of k] show "map_of (subscriptions st) (ws_subscription_id s) = Some s" by auto
  next
    assume s: "map_of (subscriptions st) (ws_subscription_id s) = Some s"
    then have "ws_subscription_id s \<in> set (sort (dict_keys (subscriptions st)))"
      unfolding set_sort using dom_map_of_keys [of "subscriptions st" "ws_subscription_id s"] by (metis option.distinct(1))
    then show "s \<in> set (map (\<lambda>k. the (map_of (subscriptions st) k)) (sort (dict_keys (subscriptions st))))"
      unfolding set_map by (rule rev_image_eqI) (simp add: s)
  qed
qed

lemma load_dump_watch_store:
  assumes "list_all writable_subscription (list_subscriptions st)"
    and "list_all writable_event (events st)"
  shows "\<exists>dumped. dump_watch_store st = Inr dumped \<and> load_watch_store dumped =
    Inr (fold append_event (map restored_event (events st))
      (fold save_subscription (map restored_subscription (list_subscriptions st)) empty_persistence))"
proof -
  note subs = subscription_codec.read_list [OF assms(1)] subscription_codec.written_list [OF assms(1)]
  note evs = event_codec.read_list [OF assms(2)] event_codec.written_list [OF assms(2)]
  let ?d = "[(''subscriptions'', PyList (map serialize_subscription (list_subscriptions st))),
             (''events'', PyList (map serialize_event (events st)))]"
  have "dump_watch_store st = Inr (PyDict (json_entries ?d))"
    using subs(2) evs(2) by (simp add: dump_watch_store_def list_events_def json_dumps_def)
  moreover have "load_watch_store (PyDict (json_entries ?d)) =
    Inr (fold append_event (map restored_event (events st))
      (fold save_subscription (map restored_subscription (list_subscriptions st)) empty_persistence))"
    using subs(1) evs(1) by (simp add: load_watch_store_def json_loads_def py_lookup_json o_def)
  ultimately show ?thesis by blast
qed

text \<open>
  Property C15. Loading a dumped watch store gives it back: for every store the registry reaches whose
  timestamps \<open>datetime\<close> can hold and whose metadata JSON can write, \<open>dump_store\<close> succeeds, \<open>load_store\<close>
  of its text succeeds, each watch identifier has an equal subscription in both stores (or in
  neither) and the audit log has equal events in the same order.
\<close>

theorem watch_store_roundtrip:
  assumes "watch_reachable H st"
    and "\<forall>s \<in> set (list_subscriptions st). storable_subscription s"
    and "\<forall>e \<in> set (list_events st None). writable_event e"
  shows "\<exists>dumped st'. dump_watch_store st = Inr dumped \<and> load_watch_store dumped = Inr st' \<and>
    (\<forall>w. rel_option same_subscription (get_subscription st' w) (get_subscription st w)) \<and>
    list_all2 same_event (list_events st' None) (list_events st None)"
proof -
  note inv = reachable_registry_inv [OF assms(1)]
  then have wf: "wf_persistence st" by (simp add: registry_inv_def)
  note listed = list_subscriptions_props [OF wf]
  let ?xs = "map restored_subscription (list_subscriptions st)"
  have subs: "list_all writable_subscription (list_subscriptions st)"
    using assms(2) registry_invD(1) [OF inv] listed(2)
    by (auto simp: list_all_iff writable_subscription_def identity_ok_def)
  have evs: "list_all writable_event (events st)"
    using assms(3) by (simp add: list_all_iff list_events_def)
  obtain dumped where dumped: "dump_watch_store st = Inr dumped" "load_watch_store dumped =
      Inr (fold append_event (map restored_event (events st)) (fold save_subscription ?xs empty_persistence))"
    using load_dump_watch_store [OF subs evs] by blast
  let ?st' = "fold append_event (map restored_event (events st)) (fold save_subscription ?xs empty_persistence)"
  have ids: "map ws_subscription_id ?xs = sort (dict_keys (subscriptions st))"
    using listed(1) by (simp add: o_def)
  have "distinct (map ws_subscription_id ?xs)"
    unfolding ids using wf by (simp add: wf_persistence_def)
  note inj = map_of_dict_of_inj [OF this]
  have "rel_option same_subscription (get_subscription ?st' w) (get_subscription st w)" for w
  proof (cases "get_subscription st w")
    case None
    then have "w \<notin> set (map ws_subscription_id ?xs)"
      unfolding ids by (simp add: get_subscription_def dom_map_of_keys del: set_map)
    then have "get_subscription ?st' w = None"
      by (simp add: get_saved map_of_dict_of_None image_image)
    with None show ?thesis by simp
  next
    case (Some s)
    with watch_store.get_key [OF wf] have s: "ws_subscription_id s = w" by blast
    with Some listed(2) have mem: "s \<in> set (list_subscriptions st)" by simp
    then have "get_subscription ?st' w = Some (restored_subscription s)"
      using inj [of "restored_subscription s" "\<lambda>x. x"] s by (simp add: get_saved)
    with Some mem subs subscription_codec.same_restored [of s] show ?thesis
      by (simp add: list_all_iff)
  qed
  moreover have "list_all2 same_event (list_events ?st' None) (list_events st None)"
    using event_codec.same_list [OF evs] by (simp add: list_events_def empty_persistence_def)
  ultimately show ?thesis using dumped by blast
qed

lemma demo_storable:
  "list_all storable_subscription (list_subscriptions demo_store)"
  "list_all writable_event (events demo_store)"
  by code_simp+

theorem watch_store_roundtrip_witness:
  "\<exists>dumped st' s s'. dump_watch_store demo_store = Inr dumped \<and> load_watch_store dumped = Inr st' \<and>
    get_subscription demo_store ''1:0xab'' = Some s \<and> get_subscription st' ''1:0xab'' = Some s' \<and>
    same_subscription s' s \<and> length (list_events st' None) = length (list_events demo_store None)"
proof -
  have storable: "\<forall>s \<in> set (list_subscriptions demo_store). storable_subscription s"
    "\<forall>e \<in> set (list_events demo_store None). writable_event e"
    using demo_storable by (simp_all add: list_all_iff list_events_def)
  obtain dumped st' where dumped: "dump_watch_store demo_store = Inr dumped" "load_watch_store dumped = Inr st'"
    "rel_option same_subscription (get_subscription st' ''1:0xab'') (get_subscription demo_store ''1:0xab'')"
    "list_all2 same_event (list_events st' None) (list_events demo_store None)"
    using watch_store_roundtrip [OF demo_reachable storable] by blast
  obtain s where "get_subscription demo_store ''1:0xab'' = Some s" using demo_subscription by blast
  with dumped show ?thesis by (auto simp: option_rel_Some2 dest: list_all2_lengthD)
qed

end
