(* ===== verification/RiskEvidence.thy ===== *)
theory RiskEvidence
  imports PyTime
begin

text \<open>
  The unified risk evidence of \<open>risk/evidence_types.py\<close>, \<open>risk/models.py\<close> and
  \<open>risk/evidence.py\<close>. The four level enumerations live in a Python module that is not in the
  repository; their members are those of the shared API types in \<open>frontend/src/types\<close>, which are
  also all the members the backend names.
\<close>

section \<open>Levels\<close>

datatype ConfidenceLevel = ConfLow | ConfMedium | ConfHigh
datatype RiskLevel = RiskLow | RiskMedium | RiskHigh
datatype ThreatLevel = ThreatLow | ThreatMedium | ThreatHigh | ThreatCritical
datatype CentralizationLevel = CentralLow | CentralMedium | CentralHigh

section \<open>Evidence types (risk/evidence\_types.py)\<close>

datatype EvidenceSource =
    SrcGovernance | SrcLiquidity | SrcWallet | SrcProtocol | SrcRelationship | SrcThreatSurface
  | SrcProxy | SrcCapability | SrcHoneypot | SrcSimulation | SrcClassification | SrcSystem

datatype EvidenceCategory =
    CatUpgradeability | CatAuthority | CatCapability | CatHoneypot | CatLiquidity | CatWallet
  | CatProtocol | CatRelationship | CatThreat | CatClassification | CatConfidence | CatSystem

datatype EvidenceSeverity = SevInfo | SevLow | SevMedium | SevHigh | SevCritical

fun source_value :: "EvidenceSource \<Rightarrow> string" where
  "source_value SrcGovernance = ''governance''"
| "source_value SrcLiquidity = ''liquidity''"
| "source_value SrcWallet = ''wallet''"
| "source_value SrcProtocol = ''protocol''"
| "source_value SrcRelationship = ''relationship''"
| "source_value SrcThreatSurface = ''threat_surface''"
| "source_value SrcProxy = ''proxy''"
| "source_value SrcCapability = ''capability''"
| "source_value SrcHoneypot = ''honeypot''"
| "source_value SrcSimulation = ''simulation''"
| "source_value SrcClassification = ''classification''"
| "source_value SrcSystem = ''system''"

fun category_value :: "EvidenceCategory \<Rightarrow> string" where
  "category_value CatUpgradeability = ''upgradeability''"
| "category_value CatAuthority = ''authority''"
| "category_value CatCapability = ''capability''"
| "category_value CatHoneypot = ''honeypot''"
| "category_value CatLiquidity = ''liquidity''"
| "category_value CatWallet = ''wallet''"
| "category_value CatProtocol = ''protocol''"
| "category_value CatRelationship = ''relationship''"
| "category_value CatThreat = ''threat''"
| "category_value CatClassification = ''classification''"
| "category_value CatConfidence = ''confidence''"
| "category_value CatSystem = ''system''"

fun severity_value :: "EvidenceSeverity \<Rightarrow> string" where
  "severity_value SevInfo = ''info''"
| "severity_value SevLow = ''low''"
| "severity_value SevMedium = ''medium''"
| "severity_value SevHigh = ''high''"
| "severity_value SevCritical = ''critical''"

text \<open>The metadata keys the modelled code reads.\<close>

abbreviation key_signal :: string where "key_signal \<equiv> ''signal''"
abbreviation key_threat_weight :: string where "key_threat_weight \<equiv> ''threat_weight''"
abbreviation key_centralization_weight :: string where
  "key_centralization_weight \<equiv> ''centralization_weight''"
abbreviation key_confidence_weight :: string where "key_confidence_weight \<equiv> ''confidence_weight''"
abbreviation key_force_threat_critical :: string where
  "key_force_threat_critical \<equiv> ''force_threat_critical''"
abbreviation key_reason_only :: string where "key_reason_only \<equiv> ''reason_only''"
abbreviation key_admin_type :: string where "key_admin_type \<equiv> ''admin_type''"
abbreviation key_owner_type :: string where "key_owner_type \<equiv> ''owner_type''"
abbreviation key_is_timelock :: string where "key_is_timelock \<equiv> ''is_timelock''"

text \<open>
  \<open>SEVERITY_ORDER\<close> and \<open>SEVERITY_RANK\<close>, which \<open>risk_delta/severity_mapper.py\<close>,
  \<open>alerting/suppression.py\<close> and \<open>alerting/alert_rules.py\<close> each spell out.
\<close>

definition severity_order :: "EvidenceSeverity list" where
  "severity_order = [SevInfo, SevLow, SevMedium, SevHigh, SevCritical]"

definition severity_rank :: "EvidenceSeverity \<Rightarrow> nat" where
  "severity_rank s = index_of severity_order s"

lemma severity_rank_simps [simp]:
  "severity_rank SevInfo = 0" "severity_rank SevLow = 1" "severity_rank SevMedium = 2"
  "severity_rank SevHigh = 3" "severity_rank SevCritical = 4"
  by (simp_all add: severity_rank_def severity_order_def)

text \<open>The rank makes severities a linear order, from \<open>info\<close> to \<open>critical\<close>.\<close>

lemma severity_rank_inj: "severity_rank a = severity_rank b \<longleftrightarrow> a = b"
  by (cases a; cases b) simp_all

instantiation EvidenceSeverity :: linorder
begin

definition less_eq_EvidenceSeverity :: "EvidenceSeverity \<Rightarrow> EvidenceSeverity \<Rightarrow> bool" where
  "a \<le> b \<longleftrightarrow> severity_rank a \<le> severity_rank b"

definition less_EvidenceSeverity :: "EvidenceSeverity \<Rightarrow> EvidenceSeverity \<Rightarrow> bool" where
  "a < b \<longleftrightarrow> severity_rank a < severity_rank b"

instance
  by standard
    (auto simp: less_eq_EvidenceSeverity_def less_EvidenceSeverity_def severity_rank_inj)

end

lemma severity_le_simps [simp]:
  "SevInfo \<le> s" "s \<le> SevCritical" "(SevCritical \<le> s) = (s = SevCritical)"
  by (cases s; simp add: less_eq_EvidenceSeverity_def)+

lemma severity_value_inj: "severity_value a = severity_value b \<longleftrightarrow> a = b"
  by (cases a; cases b) simp_all

section \<open>Evidence items (risk/models.py, risk/evidence.py)\<close>

record RiskEvidence =
  ev_id :: string
  ev_source :: EvidenceSource
  ev_category :: EvidenceCategory
  ev_severity :: EvidenceSeverity
  ev_score :: decimal
  ev_confidence :: ConfidenceLevel
  ev_reason :: string
  ev_metadata :: metadata
  ev_timestamp :: datetime

definition evidence_id :: "EvidenceSource \<Rightarrow> EvidenceCategory \<Rightarrow> string \<Rightarrow> string" where
  "evidence_id source category signal =
     source_value source @ '':'' @ category_value category @ '':'' @ signal"

definition create_evidence ::
  "datetime \<Rightarrow> EvidenceSource \<Rightarrow> EvidenceCategory \<Rightarrow> string \<Rightarrow> EvidenceSeverity \<Rightarrow> decimal \<Rightarrow>
   ConfidenceLevel \<Rightarrow> string \<Rightarrow> metadata option \<Rightarrow> datetime option \<Rightarrow> RiskEvidence" where
  "create_evidence clk source category signal severity score confidence reason metadata timestamp =
     \<lparr>ev_id = evidence_id source category signal,
      ev_source = source,
      ev_category = category,
      ev_severity = severity,
      ev_score = score,
      ev_confidence = confidence,
      ev_reason = reason,
      ev_metadata = (case metadata of None \<Rightarrow> [] | Some m \<Rightarrow> m),
      ev_timestamp = (case timestamp of None \<Rightarrow> clk | Some t \<Rightarrow> t)\<rparr>"

text \<open>The nested loops over groups and items with one \<open>seen\<close> set.\<close>

definition merge_evidence :: "RiskEvidence list list \<Rightarrow> RiskEvidence list" where
  "merge_evidence groups = dedup_by ev_id (concat groups)"

text \<open>Evidence identifiers determine source, category and signal.\<close>

lemma source_value_no_colon: "CHR '':'' \<notin> set (source_value s)"
  by (cases s) auto

lemma category_value_no_colon: "CHR '':'' \<notin> set (category_value c)"
  by (cases c) auto

lemma source_value_inj: "source_value a = source_value b \<longleftrightarrow> a = b"
  by (cases a; cases b) simp_all

lemma category_value_inj: "category_value a = category_value b \<longleftrightarrow> a = b"
  by (cases a; cases b) simp_all

lemma append_sep_inject:
  assumes "x \<notin> set a" "x \<notin> set b" "a @ x # s = b @ x # t"
  shows "a = b \<and> s = t"
proof -
  have "takeWhile (\<lambda>c. c \<noteq> x) (a @ x # s) = a" "takeWhile (\<lambda>c. c \<noteq> x) (b @ x # t) = b"
    using assms(1,2) by (auto intro: takeWhile_append2 simp: takeWhile_append)
  with assms(3) have "a = b" by simp
  with assms(3) show ?thesis by simp
qed

lemma evidence_id_inject:
  "evidence_id s c g = evidence_id s' c' g' \<longleftrightarrow> s = s' \<and> c = c' \<and> g = g'"
proof
  assume "evidence_id s c g = evidence_id s' c' g'"
  then have "source_value s @ CHR '':'' # category_value c @ CHR '':'' # g =
      source_value s' @ CHR '':'' # category_value c' @ CHR '':'' # g'"
    by (simp add: evidence_id_def)
  from append_sep_inject [OF source_value_no_colon source_value_no_colon this]
  have s: "source_value s = source_value s'"
    and r: "category_value c @ CHR '':'' # g = category_value c' @ CHR '':'' # g'" by simp_all
  from append_sep_inject [OF category_value_no_colon category_value_no_colon r] s
  show "s = s' \<and> c = c' \<and> g = g'" by (simp add: source_value_inj category_value_inj)
qed simp

lemma merge_evidence_ids [simp]: "ev_id ` set (merge_evidence gs) = ev_id ` (\<Union>g \<in> set gs. set g)"
  by (simp add: merge_evidence_def)

lemma distinct_merge_evidence [simp]: "distinct (map ev_id (merge_evidence gs))"
  by (simp add: merge_evidence_def)

lemma merge_evidence_subset: "set (merge_evidence gs) \<subseteq> (\<Union>g \<in> set gs. set g)"
  using dedup_by_subset [of ev_id "concat gs"] by (simp add: merge_evidence_def)

end
