(* ===== verification/ChangeDetection.thy ===== *)
theory ChangeDetection
  imports RiskEvidence
begin

text \<open>
  Change detection between two protocol snapshots: the models, the diff engine, the classifier and
  the detector of \<open>continuous/change_detection/\<close> (\<open>models.py\<close>, \<open>snapshot.py\<close>, \<open>diff_engine.py\<close>,
  \<open>change_classifier.py\<close>, \<open>change_detector.py\<close>).
\<close>

section \<open>Models (models.py)\<close>

datatype ChangeType =
    ImplementationChanged | OwnerChanged | ProxyAdminChanged | GovernanceChanged
  | LiquidityChanged | TreasuryChanged | BytecodeChanged | DependencyChanged
  | RuntimeFingerprintChanged

datatype ChangeSeverity = ChInfo | ChLow | ChMedium | ChHigh | ChCritical

fun change_type_value :: "ChangeType \<Rightarrow> string" where
  "change_type_value ImplementationChanged = ''implementation_changed''"
| "change_type_value OwnerChanged = ''owner_changed''"
| "change_type_value ProxyAdminChanged = ''proxy_admin_changed''"
| "change_type_value GovernanceChanged = ''governance_changed''"
| "change_type_value LiquidityChanged = ''liquidity_changed''"
| "change_type_value TreasuryChanged = ''treasury_changed''"
| "change_type_value BytecodeChanged = ''bytecode_changed''"
| "change_type_value DependencyChanged = ''dependency_changed''"
| "change_type_value RuntimeFingerprintChanged = ''runtime_fingerprint_changed''"

record ContractSnapshot =
  cs_address :: string
  cs_proxy_implementation :: "string option"
  cs_owner :: "string option"
  cs_proxy_admin :: "string option"
  cs_timelock :: "string option"
  cs_governor :: "string option"
  cs_treasury :: "string option"
  cs_bytecode_hash :: "string option"
  cs_abi_hash :: "string option"
  cs_metadata :: metadata

record ProtocolSnapshot =
  ps_snapshot_id :: string
  ps_watch_id :: string
  ps_chain_id :: int
  ps_root_address :: string
  ps_captured_at :: datetime
  ps_contracts :: "ContractSnapshot list"
  ps_dependency_fingerprint :: string
  ps_liquidity_fingerprint :: string
  ps_runtime_fingerprint :: string
  ps_metadata :: metadata

record ChangeEvent =
  ce_event_id :: string
  ce_change_type :: ChangeType
  ce_severity :: ChangeSeverity
  ce_before :: "string option"
  ce_after :: "string option"
  ce_affected_contracts :: "string list"
  ce_timestamp :: datetime
  ce_confidence :: ConfidenceLevel
  ce_metadata :: metadata

record ChangeDetectionResult =
  cr_watch_id :: string
  cr_baseline_snapshot_id :: string
  cr_current_snapshot_id :: string
  cr_detected_at :: datetime
  cr_changes :: "ChangeEvent list"
  cr_unchanged :: bool

record RawChange =
  rc_change_type :: ChangeType
  rc_before :: "string option"
  rc_after :: "string option"
  rc_affected_contracts :: "string list"

section \<open>Snapshot helpers (snapshot.py)\<close>

definition snapshot_id :: "(string \<Rightarrow> string) \<Rightarrow> string \<Rightarrow> datetime \<Rightarrow> string" where
  "snapshot_id H watch captured_at =
     watch @ '':snapshot:'' @ H (watch @ ''|'' @ isoformat captured_at)"

definition normalize_str :: "string \<Rightarrow> string" where
  "normalize_str value =
     (let normalized = removeprefix ''0x'' (lower value)
      in if length normalized \<noteq> 40 then lower value else ''0x'' @ normalized)"

definition normalize_address :: "string option \<Rightarrow> string option" where
  "normalize_address value = map_option normalize_str value"

definition contract_index :: "ContractSnapshot list \<Rightarrow> (string, ContractSnapshot) dict" where
  "contract_index contracts = dict_of (\<lambda>c. lower (cs_address c)) (\<lambda>c. c) contracts"

definition contract_addresses :: "ContractSnapshot list \<Rightarrow> string list" where
  "contract_addresses contracts = sort (map (\<lambda>c. lower (cs_address c)) contracts)"

definition ensure_protocol_compatibility :: "ProtocolSnapshot \<Rightarrow> ProtocolSnapshot \<Rightarrow> unit result" where
  "ensure_protocol_compatibility baseline current =
     (if ps_watch_id baseline \<noteq> ps_watch_id current
      then Inl (ValueError ''baseline and current snapshots must share the same watch_id'')
      else if ps_chain_id baseline \<noteq> ps_chain_id current
      then Inl (ValueError ''baseline and current snapshots must share the same chain_id'')
      else if lower (ps_root_address baseline) \<noteq> lower (ps_root_address current)
      then Inl (ValueError ''baseline and current snapshots must share the same root_address'')
      else Inr ())"

section \<open>Diff engine (diff\_engine.py)\<close>

definition contract_fields :: "((ContractSnapshot \<Rightarrow> string option) \<times> ChangeType) list" where
  "contract_fields =
     [(cs_proxy_implementation, ImplementationChanged),
      (cs_owner, OwnerChanged),
      (cs_proxy_admin, ProxyAdminChanged),
      (cs_bytecode_hash, BytecodeChanged),
      (cs_treasury, TreasuryChanged)]"

text \<open>\<open>getattr(before, field_name, None) if before else None\<close> and \<open>value or ''''\<close>.\<close>

definition field_of :: "(ContractSnapshot \<Rightarrow> string option) \<Rightarrow> ContractSnapshot option \<Rightarrow> string option" where
  "field_of fld c = (case c of None \<Rightarrow> None | Some x \<Rightarrow> fld x)"

definition or_empty :: "string option \<Rightarrow> string" where
  "or_empty v = (case v of None \<Rightarrow> [] | Some s \<Rightarrow> s)"

definition or_none :: "string \<Rightarrow> string option" where
  "or_none s = (if s = [] then None else Some s)"

definition governance_value :: "ContractSnapshot option \<Rightarrow> string option" where
  "governance_value contract =
     (case contract of
        None \<Rightarrow> None
      | Some c \<Rightarrow> Some (''governor='' @ or_empty (cs_governor c) @ '';timelock='' @ or_empty (cs_timelock c)))"

definition raw_change :: "ChangeType \<Rightarrow> string option \<Rightarrow> string option \<Rightarrow> string list \<Rightarrow> RawChange" where
  "raw_change ty b a affected =
     \<lparr>rc_change_type = ty, rc_before = b, rc_after = a, rc_affected_contracts = affected\<rparr>"

definition diff_contract ::
  "ContractSnapshot option \<Rightarrow> ContractSnapshot option \<Rightarrow> string \<Rightarrow> RawChange list" where
  "diff_contract before after address =
     concat (map (\<lambda>(fld, change_type).
         if field_of fld before = field_of fld after then []
         else [raw_change change_type (field_of fld before) (field_of fld after) [address]])
       contract_fields)
     @ (if governance_value before \<noteq> governance_value after
        then [raw_change GovernanceChanged (governance_value before) (governance_value after) [address]]
        else [])"

definition diff_protocol_field :: "ChangeType \<Rightarrow> string \<Rightarrow> string \<Rightarrow> string list \<Rightarrow> RawChange list" where
  "diff_protocol_field change_type before after addresses =
     (if before = after then []
      else [raw_change change_type (or_none before) (or_none after) addresses])"

definition raw_change_sort_key :: "RawChange \<Rightarrow> string \<times> string \<times> string \<times> string" where
  "raw_change_sort_key c =
     (change_type_value (rc_change_type c), join '','' (rc_affected_contracts c),
      or_empty (rc_before c), or_empty (rc_after c))"

definition diff_addresses :: "ProtocolSnapshot \<Rightarrow> ProtocolSnapshot \<Rightarrow> string list" where
  "diff_addresses baseline current =
     sorted_set (dict_keys (contract_index (ps_contracts baseline))
       @ dict_keys (contract_index (ps_contracts current)))"

definition diff_unsorted :: "ProtocolSnapshot \<Rightarrow> ProtocolSnapshot \<Rightarrow> RawChange list" where
  "diff_unsorted baseline current =
     (let baseline_contracts = contract_index (ps_contracts baseline);
          current_contracts = contract_index (ps_contracts current);
          addresses = diff_addresses baseline current
      in concat (map (\<lambda>address.
             diff_contract (map_of baseline_contracts address) (map_of current_contracts address)
               address) addresses)
         @ diff_protocol_field DependencyChanged (ps_dependency_fingerprint baseline)
             (ps_dependency_fingerprint current) addresses
         @ diff_protocol_field LiquidityChanged (ps_liquidity_fingerprint baseline)
             (ps_liquidity_fingerprint current) addresses
         @ diff_protocol_field RuntimeFingerprintChanged (ps_runtime_fingerprint baseline)
             (ps_runtime_fingerprint current) addresses)"

definition diff :: "ProtocolSnapshot \<Rightarrow> ProtocolSnapshot \<Rightarrow> RawChange list result" where
  "diff baseline current =
     bindR (ensure_protocol_compatibility baseline current) (\<lambda>_.
       Inr (sort_key raw_change_sort_key (diff_unsorted baseline current)))"

definition change_event_id ::
  "(string \<Rightarrow> string) \<Rightarrow> string \<Rightarrow> ChangeType \<Rightarrow> string option \<Rightarrow> string option \<Rightarrow> string list \<Rightarrow> string" where
  "change_event_id H watch change_type before after affected =
     (let payload = join ''|'' [watch, change_type_value change_type, or_empty before,
                       or_empty after, join '','' affected]
      in watch @ '':'' @ change_type_value change_type @ '':'' @ H payload)"

section \<open>Classifier (change\_classifier.py)\<close>

fun default_severity :: "ChangeType \<Rightarrow> ChangeSeverity" where
  "default_severity ImplementationChanged = ChCritical"
| "default_severity OwnerChanged = ChHigh"
| "default_severity ProxyAdminChanged = ChCritical"
| "default_severity GovernanceChanged = ChHigh"
| "default_severity LiquidityChanged = ChMedium"
| "default_severity TreasuryChanged = ChHigh"
| "default_severity BytecodeChanged = ChHigh"
| "default_severity DependencyChanged = ChMedium"
| "default_severity RuntimeFingerprintChanged = ChMedium"

fun default_confidence :: "ChangeSeverity \<Rightarrow> ConfidenceLevel" where
  "default_confidence ChInfo = ConfHigh"
| "default_confidence ChLow = ConfHigh"
| "default_confidence ChMedium = ConfMedium"
| "default_confidence ChHigh = ConfHigh"
| "default_confidence ChCritical = ConfHigh"

definition classify :: "RawChange \<Rightarrow> ChangeSeverity \<times> ConfidenceLevel" where
  "classify change =
     (let severity = default_severity (rc_change_type change)
      in (severity, default_confidence severity))"

section \<open>Detector (change\_detector.py)\<close>

definition event_sort_key :: "ChangeEvent \<Rightarrow> string \<times> string \<times> string" where
  "event_sort_key e =
     (change_type_value (ce_change_type e), join '','' (ce_affected_contracts e), ce_event_id e)"

definition raw_event_id :: "(string \<Rightarrow> string) \<Rightarrow> string \<Rightarrow> RawChange \<Rightarrow> string" where
  "raw_event_id H watch c =
     change_event_id H watch (rc_change_type c) (rc_before c) (rc_after c) (rc_affected_contracts c)"

definition build_event :: "(string \<Rightarrow> string) \<Rightarrow> string \<Rightarrow> datetime \<Rightarrow> RawChange \<Rightarrow> ChangeEvent" where
  "build_event H watch timestamp c =
     (let (severity, confidence) = classify c
      in \<lparr>ce_event_id = raw_event_id H watch c,
          ce_change_type = rc_change_type c,
          ce_severity = severity,
          ce_before = rc_before c,
          ce_after = rc_after c,
          ce_affected_contracts = rc_affected_contracts c,
          ce_timestamp = timestamp,
          ce_confidence = confidence,
          ce_metadata = [(''watch_id'', PyStr watch)]\<rparr>)"

definition build_events :: "(string \<Rightarrow> string) \<Rightarrow> string \<Rightarrow> RawChange list \<Rightarrow> datetime \<Rightarrow> ChangeEvent list" where
  "build_events H watch raw_changes timestamp =
     sort_key event_sort_key
       (map (build_event H watch timestamp) (dedup_by (raw_event_id H watch) raw_changes))"

definition detect ::
  "(string \<Rightarrow> string) \<Rightarrow> datetime \<Rightarrow> ProtocolSnapshot \<Rightarrow> ProtocolSnapshot \<Rightarrow> datetime option \<Rightarrow>
   ChangeDetectionResult result" where
  "detect H clk baseline current detected_at =
     bindR (ensure_protocol_compatibility baseline current) (\<lambda>_.
       let timestamp = (case detected_at of None \<Rightarrow> clk | Some t \<Rightarrow> t)
       in bindR (diff baseline current) (\<lambda>raw_changes.
            let changes = build_events H (ps_watch_id baseline) raw_changes timestamp
            in Inr \<lparr>cr_watch_id = ps_watch_id baseline,
                    cr_baseline_snapshot_id = ps_snapshot_id baseline,
                    cr_current_snapshot_id = ps_snapshot_id current,
                    cr_detected_at = timestamp,
                    cr_changes = changes,
                    cr_unchanged = (length changes = 0)\<rparr>))"

end
