(* ===== verification/Snapshots.thy ===== *)
theory Snapshots
  imports ChangeDetection Stores
begin

text \<open>
  Snapshot storage (\<open>continuous/change_detection/snapshot_store.py\<close>): the in-memory store of baseline
  and current snapshots and the serialised form of a snapshot. \<open>detect_from_store\<close> of the detector
  reads from this store.
\<close>

section \<open>The in-memory store\<close>

record InMemorySnapshotStore =
  is_baselines :: "(string, ProtocolSnapshot) dict"
  is_current :: "(string, ProtocolSnapshot) dict"

definition empty_snapshot_store :: InMemorySnapshotStore where
  "empty_snapshot_store = \<lparr>is_baselines = [], is_current = []\<rparr>"

definition save_baseline :: "ProtocolSnapshot \<Rightarrow> InMemorySnapshotStore \<Rightarrow> InMemorySnapshotStore" where
  "save_baseline s st = st\<lparr>is_baselines := AList.update (ps_watch_id s) s (is_baselines st)\<rparr>"

definition save_current :: "ProtocolSnapshot \<Rightarrow> InMemorySnapshotStore \<Rightarrow> InMemorySnapshotStore" where
  "save_current s st = st\<lparr>is_current := AList.update (ps_watch_id s) s (is_current st)\<rparr>"

definition snapshot_baseline :: "InMemorySnapshotStore \<Rightarrow> string \<Rightarrow> ProtocolSnapshot option" where
  "snapshot_baseline st watch = map_of (is_baselines st) watch"

definition snapshot_current :: "InMemorySnapshotStore \<Rightarrow> string \<Rightarrow> ProtocolSnapshot option" where
  "snapshot_current st watch = map_of (is_current st) watch"

definition delete_watch_snapshots :: "string \<Rightarrow> InMemorySnapshotStore \<Rightarrow> InMemorySnapshotStore" where
  "delete_watch_snapshots watch st =
     st\<lparr>is_baselines := dict_pop watch (is_baselines st), is_current := dict_pop watch (is_current st)\<rparr>"

text \<open>Every snapshot is stored under its own watch id.\<close>

definition snapshots_keyed :: "(string, ProtocolSnapshot) dict \<Rightarrow> bool" where
  "snapshots_keyed d \<longleftrightarrow> (\<forall>w s. map_of d w = Some s \<longrightarrow> ps_watch_id s = w)"

interpretation baseline_snapshots: keyed_store snapshot_baseline save_baseline
  delete_watch_snapshots ps_watch_id "\<lambda>st. snapshots_keyed (is_baselines st)"
  by unfold_locales
    (auto simp: snapshot_baseline_def save_baseline_def delete_watch_snapshots_def snapshots_keyed_def
      split: if_splits)

interpretation current_snapshots: keyed_store snapshot_current save_current
  delete_watch_snapshots ps_watch_id "\<lambda>st. snapshots_keyed (is_current st)"
  by unfold_locales
    (auto simp: snapshot_current_def save_current_def delete_watch_snapshots_def snapshots_keyed_def
      split: if_splits)

section \<open>Detection from the store (change\_detector.py)\<close>

definition detect_from_store ::
  "(string \<Rightarrow> string) \<Rightarrow> datetime \<Rightarrow> InMemorySnapshotStore option \<Rightarrow> string \<Rightarrow> ProtocolSnapshot \<Rightarrow>
   datetime option \<Rightarrow> ChangeDetectionResult result" where
  "detect_from_store H clk store watch current detected_at =
     (case store of
        None \<Rightarrow> Inl (ValueError ''snapshot store is required for detect_from_store'')
      | Some st \<Rightarrow>
          (case snapshot_baseline st watch of
             None \<Rightarrow> Inl (ValueError (''baseline snapshot not found for watch: '' @ watch))
           | Some baseline \<Rightarrow> detect H clk baseline current detected_at))"

section \<open>Serialised snapshots\<close>

definition opt_str :: "string option \<Rightarrow> pyval" where
  "opt_str v = (case v of None \<Rightarrow> PyNone | Some s \<Rightarrow> PyStr s)"

definition serialize_contract :: "ContractSnapshot \<Rightarrow> pyval" where
  "serialize_contract c = PyDict
     [(''address'', PyStr (cs_address c)),
      (''proxy_implementation'', opt_str (cs_proxy_implementation c)),
      (''owner'', opt_str (cs_owner c)),
      (''proxy_admin'', opt_str (cs_proxy_admin c)),
      (''timelock'', opt_str (cs_timelock c)),
      (''governor'', opt_str (cs_governor c)),
      (''treasury'', opt_str (cs_treasury c)),
      (''bytecode_hash'', opt_str (cs_bytecode_hash c)),
      (''abi_hash'', opt_str (cs_abi_hash c)),
      (''metadata'', PyDict (cs_metadata c))]"

definition serialize_snapshot :: "ProtocolSnapshot \<Rightarrow> metadata" where
  "serialize_snapshot s =
     [(''snapshot_id'', PyStr (ps_snapshot_id s)),
      (''watch_id'', PyStr (ps_watch_id s)),
      (''chain_id'', PyInt (ps_chain_id s)),
      (''root_address'', PyStr (ps_root_address s)),
      (''captured_at'', PyStr (isoformat (ps_captured_at s))),
      (''contracts'', PyList (map serialize_contract (ps_contracts s))),
      (''dependency_fingerprint'', PyStr (ps_dependency_fingerprint s)),
      (''liquidity_fingerprint'', PyStr (ps_liquidity_fingerprint s)),
      (''runtime_fingerprint'', PyStr (ps_runtime_fingerprint s)),
      (''metadata'', PyDict (ps_metadata s))]"

end
