(* ===== verification/SnapshotBuilder.thy ===== *)
theory SnapshotBuilder
  imports Serialization WatchModels Snapshots
begin

text \<open>
  Building snapshots from payloads (\<open>continuous/change_detection/snapshot_builder.py\<close>) and the JSON
  form of the snapshot store (\<open>snapshot_store.py\<close>). Building normalises addresses and sorts the
  contracts; rebuilding a built snapshot from its serialised form gives it back.
\<close>

section \<open>SnapshotBuilder\<close>

text \<open>\<open>normalize_address(payload.get(k))\<close>: \<open>None\<close> stays, other values must have \<open>lower\<close>.\<close>

definition py_normalize_address :: "pyval \<Rightarrow> string option result" where
  "py_normalize_address v =
     (case v of
        PyNone \<Rightarrow> Inr None
      | PyStr s \<Rightarrow> Inr (Some (normalize_str s))
      | _ \<Rightarrow> Inl (AttributeError ''lower''))"

definition optional_str :: "pyval \<Rightarrow> string option" where
  "optional_str v = (case v of PyNone \<Rightarrow> None | _ \<Rightarrow> Some (py_str v))"

definition parse_datetime :: "datetime \<Rightarrow> pyval \<Rightarrow> datetime result" where
  "parse_datetime clk v = (case v of PyNone \<Rightarrow> Inr clk | _ \<Rightarrow> fromisoformat (py_str v))"

definition address_field :: "pyval \<Rightarrow> string \<Rightarrow> string option result" where
  "address_field payload k = bindR (py_lookup payload k PyNone) py_normalize_address"

definition build_contract :: "pyval \<Rightarrow> ContractSnapshot result" where
  "build_contract payload =
     bindR (read_text payload ''address'') (\<lambda>address.
     bindR (address_field payload ''proxy_implementation'') (\<lambda>proxy_implementation.
     bindR (address_field payload ''owner'') (\<lambda>owner.
     bindR (address_field payload ''proxy_admin'') (\<lambda>proxy_admin.
     bindR (address_field payload ''timelock'') (\<lambda>timelock.
     bindR (address_field payload ''governor'') (\<lambda>governor.
     bindR (address_field payload ''treasury'') (\<lambda>treasury.
     bindR (py_lookup payload ''bytecode_hash'' PyNone) (\<lambda>bytecode_hash.
     bindR (py_lookup payload ''abi_hash'' PyNone) (\<lambda>abi_hash.
     bindR (read_metadata payload) (\<lambda>metadata.
       Inr \<lparr>cs_address = normalize_str address, cs_proxy_implementation = proxy_implementation,
            cs_owner = owner, cs_proxy_admin = proxy_admin, cs_timelock = timelock,
            cs_governor = governor, cs_treasury = treasury,
            cs_bytecode_hash = optional_str bytecode_hash, cs_abi_hash = optional_str abi_hash,
            cs_metadata = metadata\<rparr>))))))))))"

definition build_snapshot ::
  "(string \<Rightarrow> string) \<Rightarrow> datetime \<Rightarrow> pyval \<Rightarrow> datetime option \<Rightarrow> ProtocolSnapshot result" where
  "build_snapshot H clk payload captured_at =
     bindR (bindR (py_item payload ''chain_id'') py_int) (\<lambda>chain_id.
     bindR (read_text payload ''root_address'') (\<lambda>given_root.
     bindR (py_lookup payload ''watch_id'' PyNone) (\<lambda>given_watch.
     let root_address = normalize_str given_root;
         watch = (if py_truthy given_watch then py_str given_watch else watch_id chain_id root_address)
     in
     bindR (case captured_at of
              Some t \<Rightarrow> Inr t
            | None \<Rightarrow> bindR (py_lookup payload ''captured_at'' PyNone) (parse_datetime clk)) (\<lambda>moment.
     bindR (bindR (py_lookup payload ''contracts'' (PyList [])) py_iter) (\<lambda>items.
     bindR (mapR build_contract items) (\<lambda>contracts.
     bindR (py_lookup payload ''snapshot_id'' PyNone) (\<lambda>given_id.
     bindR (py_lookup payload ''dependency_fingerprint'' (PyStr [])) (\<lambda>dependency.
     bindR (py_lookup payload ''liquidity_fingerprint'' (PyStr [])) (\<lambda>liquidity.
     bindR (py_lookup payload ''runtime_fingerprint'' (PyStr [])) (\<lambda>runtime.
     bindR (read_metadata payload) (\<lambda>metadata.
       Inr \<lparr>ps_snapshot_id =
              (if py_truthy given_id then py_str given_id else snapshot_id H watch moment),
            ps_watch_id = watch, ps_chain_id = chain_id, ps_root_address = root_address,
            ps_captured_at = moment, ps_contracts = sort_key cs_address contracts,
            ps_dependency_fingerprint = py_str dependency,
            ps_liquidity_fingerprint = py_str liquidity,
            ps_runtime_fingerprint = py_str runtime, ps_metadata = metadata\<rparr>)))))))))))"

definition deserialize_snapshot ::
  "(string \<Rightarrow> string) \<Rightarrow> datetime \<Rightarrow> pyval \<Rightarrow> ProtocolSnapshot result" where
  "deserialize_snapshot H clk payload = build_snapshot H clk payload None"

section \<open>The store as JSON\<close>

definition serialize_dict :: "(string, ProtocolSnapshot) dict \<Rightarrow> pyval" where
  "serialize_dict d = PyDict (map (\<lambda>(k, s). (k, PyDict (serialize_snapshot s))) (sort_key fst d))"

definition dump_snapshot_store :: "InMemorySnapshotStore \<Rightarrow> pyval result" where
  "dump_snapshot_store st =
     json_dumps (PyDict
       [(''baselines'', serialize_dict (is_baselines st)), (''current'', serialize_dict (is_current st))])"

definition load_snapshot_store ::
  "(string \<Rightarrow> string) \<Rightarrow> datetime \<Rightarrow> pyval \<Rightarrow> InMemorySnapshotStore result" where
  "load_snapshot_store H clk payload =
     (let data = json_loads payload
      in bindR (bindR (py_lookup data ''baselines'' (PyDict [])) py_values) (\<lambda>items.
         bindR (mapR (deserialize_snapshot H clk) items) (\<lambda>baselines.
         bindR (bindR (py_lookup data ''current'' (PyDict [])) py_values) (\<lambda>items.
         bindR (mapR (deserialize_snapshot H clk) items) (\<lambda>current.
           Inr (fold save_current current (fold save_baseline baselines empty_snapshot_store)))))))"

section \<open>What the builder makes\<close>

lemma lower_char_0x [simp]: "lower_char CHR ''0'' = CHR ''0''" "lower_char CHR ''x'' = CHR ''x''"
  by (simp_all add: lower_char_def)

lemma lower_removeprefix: "lower (removeprefix ''0x'' (lower s)) = removeprefix ''0x'' (lower s)"
  by (simp add: removeprefix_def lower_def drop_map [symmetric] o_def)

lemma normalize_str_idem [simp]: "normalize_str (normalize_str s) = normalize_str s"
proof (cases "length (removeprefix ''0x'' (lower s)) = 40")
  case True
  then have "normalize_str s = ''0x'' @ removeprefix ''0x'' (lower s)"
    by (simp add: normalize_str_def Let_def)
  moreover have "lower (''0x'' @ removeprefix ''0x'' (lower s)) = ''0x'' @ removeprefix ''0x'' (lower s)"
    using lower_removeprefix by simp
  moreover have "removeprefix ''0x'' (''0x'' @ removeprefix ''0x'' (lower s)) = removeprefix ''0x'' (lower s)"
    by (simp add: removeprefix_def)
  ultimately show ?thesis using True by (simp add: normalize_str_def Let_def)
qed (simp add: normalize_str_def Let_def)

definition normal_opt :: "string option \<Rightarrow> bool" where
  "normal_opt v \<longleftrightarrow> map_option normalize_str v = v"

lemma normal_opt_simps [simp]: "normal_opt None" "normal_opt (Some s) \<longleftrightarrow> normalize_str s = s"
  by (simp_all add: normal_opt_def)

definition built_contract :: "ContractSnapshot \<Rightarrow> bool" where
  "built_contract c \<longleftrightarrow>
     normalize_str (cs_address c) = cs_address c \<and> normal_opt (cs_proxy_implementation c) \<and>
     normal_opt (cs_owner c) \<and> normal_opt (cs_proxy_admin c) \<and> normal_opt (cs_timelock c) \<and>
     normal_opt (cs_governor c) \<and> normal_opt (cs_treasury c)"

definition built_snapshot :: "ProtocolSnapshot \<Rightarrow> bool" where
  "built_snapshot s \<longleftrightarrow>
     normalize_str (ps_root_address s) = ps_root_address s \<and> ps_watch_id s \<noteq> [] \<and>
     ps_snapshot_id s \<noteq> [] \<and> sorted (map cs_address (ps_contracts s)) \<and>
     list_all built_contract (ps_contracts s)"

lemma py_normalize_built: "py_normalize_address v = Inr a \<Longrightarrow> normal_opt a"
  by (cases v) (auto simp: py_normalize_address_def)

lemma address_field_built: "address_field p k = Inr a \<Longrightarrow> normal_opt a"
  by (auto simp: address_field_def bindR_eq_Inr intro: py_normalize_built)

lemma build_contract_built: "build_contract p = Inr c \<Longrightarrow> built_contract c"
  by (auto simp: build_contract_def bindR_eq_Inr built_contract_def dest!: address_field_built)

lemma mapR_list_all:
  "mapR f xs = Inr ys \<Longrightarrow> (\<And>x y. f x = Inr y \<Longrightarrow> P y) \<Longrightarrow> list_all P ys"
  by (induction xs arbitrary: ys) (auto simp: bindR_eq_Inr)

lemma join_nonempty: "\<exists>s \<in> set ss. s \<noteq> [] \<Longrightarrow> join sep ss \<noteq> []"
  by (induction sep ss rule: join.induct) auto

lemma py_str_nonempty: "py_truthy v \<Longrightarrow> py_str v \<noteq> []"
  by (cases v) (auto simp: py_str_def int_str_def dec_str_def Let_def)

lemma watch_id_nonempty [simp]: "watch_id c a \<noteq> []" "snapshot_id H w t \<noteq> []"
  by (simp_all add: watch_id_def snapshot_id_def)

lemma build_snapshot_built:
  assumes "build_snapshot H clk payload captured = Inr s"
  shows "built_snapshot s"
proof -
  from assms obtain contracts items where c: "mapR build_contract items = Inr contracts"
    and s: "ps_contracts s = sort_key cs_address contracts" "ps_watch_id s \<noteq> []" "ps_snapshot_id s \<noteq> []"
      "normalize_str (ps_root_address s) = ps_root_address s"
    by (auto simp: build_snapshot_def bindR_eq_Inr Let_def py_str_nonempty)
  have "list_all built_contract contracts"
    using c by (rule mapR_list_all) (rule build_contract_built)
  with s show ?thesis by (simp add: built_snapshot_def list_all_iff)
qed

section \<open>Snapshots back and forth\<close>

definition storable_snapshot :: "ProtocolSnapshot \<Rightarrow> bool" where
  "storable_snapshot s \<longleftrightarrow>
     dt_valid (ps_captured_at s) \<and> json_meta (ps_metadata s) \<and>
     list_all (\<lambda>c. json_meta (cs_metadata c)) (ps_contracts s)"

text \<open>\<open>==\<close> of the dataclasses.\<close>

definition same_contract :: "ContractSnapshot \<Rightarrow> ContractSnapshot \<Rightarrow> bool" where
  "same_contract a b \<longleftrightarrow>
     a\<lparr>cs_metadata := []\<rparr> = b\<lparr>cs_metadata := []\<rparr> \<and> meta_eq (cs_metadata a) (cs_metadata b)"

definition same_snapshot :: "ProtocolSnapshot \<Rightarrow> ProtocolSnapshot \<Rightarrow> bool" where
  "same_snapshot a b \<longleftrightarrow>
     a\<lparr>ps_contracts := [], ps_metadata := []\<rparr> = b\<lparr>ps_contracts := [], ps_metadata := []\<rparr> \<and>
     list_all2 same_contract (ps_contracts a) (ps_contracts b) \<and>
     meta_eq (ps_metadata a) (ps_metadata b)"

definition restored_contract :: "ContractSnapshot \<Rightarrow> ContractSnapshot" where
  "restored_contract c = c\<lparr>cs_metadata := json_entries (cs_metadata c)\<rparr>"

definition restored_snapshot :: "ProtocolSnapshot \<Rightarrow> ProtocolSnapshot" where
  "restored_snapshot s = s
     \<lparr>ps_contracts := map restored_contract (ps_contracts s), ps_metadata := json_entries (ps_metadata s)\<rparr>"

lemma json_sorted_opt_str [simp]: "json_sorted (opt_str v) = opt_str v" "json_ok (opt_str v)"
  by (cases v; simp add: opt_str_def)+

lemma normalize_opt_str [simp]: "normal_opt v \<Longrightarrow> py_normalize_address (opt_str v) = Inr v"
  by (cases v) (simp_all add: opt_str_def py_normalize_address_def)

lemma optional_opt_str [simp]: "optional_str (opt_str v) = v"
  by (cases v) (simp_all add: opt_str_def optional_str_def)

lemmas building_defs = py_item_json py_lookup_json read_text_json read_metadata_json

lemma contract_roundtrip:
  assumes "built_contract c"
  shows "build_contract (json_sorted (serialize_contract c)) = Inr (restored_contract c)"
  using assms
  by (simp add: build_contract_def serialize_contract_def address_field_def building_defs
      built_contract_def restored_contract_def)

interpretation contract_codec: json_codec serialize_contract build_contract restored_contract
  same_contract "\<lambda>c. built_contract c \<and> json_meta (cs_metadata c)"
proof
  show "json_ok (serialize_contract c)" if "built_contract c \<and> json_meta (cs_metadata c)" for c
    using that by (simp add: serialize_contract_def json_metaD(2) [simplified])
  show "same_contract (restored_contract c) c" if "built_contract c \<and> json_meta (cs_metadata c)" for c
    using that by (simp add: same_contract_def restored_contract_def json_metaD)
qed (simp add: contract_roundtrip)

lemma restored_contract_address [simp]: "cs_address (restored_contract c) = cs_address c"
  by (simp add: restored_contract_def)

lemma sort_key_sorted: "sorted (map f xs) \<Longrightarrow> sort_key f xs = xs"
  by (rule properties_for_sort_key) simp_all

lemma storable_contracts:
  "built_snapshot s \<Longrightarrow> storable_snapshot s \<Longrightarrow>
     list_all (\<lambda>c. built_contract c \<and> json_meta (cs_metadata c)) (ps_contracts s)"
  by (simp add: built_snapshot_def storable_snapshot_def list_all_iff)

lemma wf_serialize_snapshot: "wf_dict (serialize_snapshot s)"
  by (simp add: serialize_snapshot_def)

lemma parse_written_datetime [simp]: "dt_valid d \<Longrightarrow> parse_datetime clk (PyStr (isoformat d)) = Inr d"
  by (simp add: parse_datetime_def fromisoformat_isoformat)

lemma snapshot_roundtrip:
  assumes "built_snapshot s" "storable_snapshot s"
  shows "deserialize_snapshot H clk (json_sorted (PyDict (serialize_snapshot s))) = Inr (restored_snapshot s)"
proof -
  have contracts: "mapR build_contract (map (\<lambda>c. json_sorted (serialize_contract c)) (ps_contracts s)) =
      Inr (map restored_contract (ps_contracts s))"
    by (rule contract_codec.read_list [OF storable_contracts [OF assms]])
  have order: "sort_key cs_address (map restored_contract (ps_contracts s)) =
      map restored_contract (ps_contracts s)"
    using assms(1) by (intro sort_key_sorted) (simp add: built_snapshot_def o_def)
  note fields = serialize_snapshot_def [of s]
  show ?thesis
    using assms contracts order wf_serialize_snapshot [of s]
    by (simp add: deserialize_snapshot_def build_snapshot_def building_defs fields o_def
        built_snapshot_def storable_snapshot_def restored_snapshot_def)
qed

interpretation snapshot_codec: json_codec "\<lambda>s. PyDict (serialize_snapshot s)"
  "deserialize_snapshot H clk" restored_snapshot same_snapshot
  "\<lambda>s. built_snapshot s \<and> storable_snapshot s" for H clk
proof
  show "json_ok (PyDict (serialize_snapshot s))" if "built_snapshot s \<and> storable_snapshot s" for s
    using that contract_codec.written_list [OF storable_contracts [of s]]
    by (simp add: serialize_snapshot_def storable_snapshot_def json_metaD(2) [simplified])
  show "same_snapshot (restored_snapshot s) s" if "built_snapshot s \<and> storable_snapshot s" for s
    using that contract_codec.same_list [OF storable_contracts [of s]]
    by (simp add: same_snapshot_def restored_snapshot_def storable_snapshot_def json_metaD)
qed (simp add: snapshot_roundtrip [simplified])

section \<open>Stores of snapshots back and forth\<close>

text \<open>A dictionary of built snapshots under their own watch ids.\<close>

definition snapshots_inv :: "(string, ProtocolSnapshot) dict \<Rightarrow> bool" where
  "snapshots_inv d \<longleftrightarrow> wf_dict d \<and> (\<forall>(w, s) \<in> set d. ps_watch_id s = w \<and> built_snapshot s)"

lemma snapshots_inv_Nil [simp]: "snapshots_inv []"
  by (simp add: snapshots_inv_def)

lemma snapshots_inv_update:
  "snapshots_inv d \<Longrightarrow> built_snapshot s \<Longrightarrow> snapshots_inv (AList.update (ps_watch_id s) s d)"
  using set_update_subset [of "ps_watch_id s" s d] by (auto simp: snapshots_inv_def distinct_update)

lemma snapshots_inv_pop: "snapshots_inv d \<Longrightarrow> snapshots_inv (dict_pop w d)"
  using set_pop_subset [of w d] by (auto simp: snapshots_inv_def)

text \<open>What a loader makes of the values of a dumped dictionary.\<close>

definition reloaded :: "(string, ProtocolSnapshot) dict \<Rightarrow> ProtocolSnapshot list" where
  "reloaded d = map restored_snapshot (dict_values (sort_key fst d))"

definition all_storable :: "(string, ProtocolSnapshot) dict \<Rightarrow> bool" where
  "all_storable d \<longleftrightarrow> (\<forall>(w, s) \<in> set d. storable_snapshot s)"

lemma stored_built:
  "snapshots_inv d \<Longrightarrow> all_storable d \<Longrightarrow>
     list_all (\<lambda>s. built_snapshot s \<and> storable_snapshot s) (dict_values (sort_key fst d))"
  by (auto simp: snapshots_inv_def all_storable_def list_all_iff)

lemma serialize_dict_written:
  assumes "snapshots_inv d" "all_storable d"
  shows "json_ok (serialize_dict d)"
    and "bindR (py_values (json_sorted (serialize_dict d))) (\<lambda>items. mapR (deserialize_snapshot H clk) items) =
      Inr (reloaded d)"
proof -
  note stored = stored_built [OF assms]
  let ?e = "map (\<lambda>(k, s). (k, PyDict (serialize_snapshot s))) (sort_key fst d)"
  show "json_ok (serialize_dict d)"
    using snapshot_codec.written_list [OF stored]
    by (simp add: serialize_dict_def list_all_iff split_beta)
  have "sorted (map fst (map (\<lambda>(k, v). (k, json_sorted v)) ?e))"
    by (simp add: o_def split_beta)
  from sort_key_sorted [OF this]
  have "dict_values (json_entries ?e) =
      map (\<lambda>s. json_sorted (PyDict (serialize_snapshot s))) (dict_values (sort_key fst d))"
    by (simp add: json_entries_def o_def split_beta)
  then have "py_values (json_sorted (serialize_dict d)) =
      Inr (map (\<lambda>s. json_sorted (PyDict (serialize_snapshot s))) (dict_values (sort_key fst d)))"
    by (simp add: serialize_dict_def py_values_def)
  with snapshot_codec.read_list [OF stored]
  show "bindR (py_values (json_sorted (serialize_dict d))) (\<lambda>items. mapR (deserialize_snapshot H clk) items) =
      Inr (reloaded d)"
    by (simp only: bindR_simps reloaded_def)
qed

lemma restored_watch_id [simp]: "ps_watch_id (restored_snapshot s) = ps_watch_id s"
  by (simp add: restored_snapshot_def)

lemma reloaded_ids:
  assumes "snapshots_inv d"
  shows "map ps_watch_id (reloaded d) = dict_keys (sort_key fst d)"
proof -
  have "\<forall>p \<in> set d. ps_watch_id (snd p) = fst p" using assms by (auto simp: snapshots_inv_def)
  then show ?thesis by (simp add: reloaded_def)
qed

text \<open>The restored snapshot of a watch, in any dictionary that indexes what was reloaded.\<close>

lemma find_reloaded:
  assumes "snapshots_inv d"
  shows "map_of (map (\<lambda>s. (ps_watch_id s, s)) (reloaded d)) w = map_option restored_snapshot (map_of d w)"
proof -
  have eq: "map (\<lambda>s. (ps_watch_id s, s)) (reloaded d) = map (\<lambda>(w, s). (w, restored_snapshot s)) (sort_key fst d)"
  proof -
    have "\<forall>p \<in> set d. ps_watch_id (snd p) = fst p" using assms by (auto simp: snapshots_inv_def)
    then show ?thesis by (simp add: reloaded_def split_beta)
  qed
  have "map_of (sort_key fst d) = map_of d"
  proof (rule map_of_inject_set [THEN iffD2])
    show "distinct (map fst (sort_key fst d))" "distinct (map fst d)"
      using assms by (simp_all add: snapshots_inv_def)
  qed simp
  then show ?thesis unfolding eq by (simp add: map_of_map)
qed

lemma reloaded_same:
  assumes "snapshots_inv d" "all_storable d"
  shows "rel_option same_snapshot (map_option restored_snapshot (map_of d w)) (map_of d w)"
proof (cases "map_of d w")
  case (Some s)
  then have "(w, s) \<in> set d" by (rule map_of_SomeD)
  with assms have "built_snapshot s \<and> storable_snapshot s"
    by (auto simp: snapshots_inv_def all_storable_def)
  from snapshot_codec.same_restored [OF this] Some show ?thesis by simp
qed simp

lemma baselines_fold:
  "is_baselines (fold save_baseline xs st) = fold (\<lambda>s d. AList.update (ps_watch_id s) s d) xs (is_baselines st)"
  "is_current (fold save_baseline xs st) = is_current st"
  by (induction xs arbitrary: st) (simp_all add: save_baseline_def)

lemma current_fold:
  "is_current (fold save_current xs st) = fold (\<lambda>s d. AList.update (ps_watch_id s) s d) xs (is_current st)"
  "is_baselines (fold save_current xs st) = is_baselines st"
  by (induction xs arbitrary: st) (simp_all add: save_current_def)

lemma dict_of_reloaded:
  assumes "snapshots_inv d"
  shows "map_of (fold (\<lambda>s d. AList.update (ps_watch_id s) s d) (reloaded d) []) w =
    map_option restored_snapshot (map_of d w)"
proof -
  have "distinct (map ps_watch_id (reloaded d))"
    unfolding reloaded_ids [OF assms] using assms by (simp add: snapshots_inv_def)
  then have "fold (\<lambda>s d. AList.update (ps_watch_id s) s d) (reloaded d) [] =
      map (\<lambda>s. (ps_watch_id s, s)) (reloaded d)"
    using dict_of_distinct [of ps_watch_id "reloaded d" "\<lambda>s. s"] by (simp add: dict_of_def)
  then show ?thesis using find_reloaded [OF assms] by simp
qed

inductive snapshot_store_reachable :: "(string \<Rightarrow> string) \<Rightarrow> InMemorySnapshotStore \<Rightarrow> bool" for H where
  store_empty: "snapshot_store_reachable H empty_snapshot_store"
| store_baseline: "snapshot_store_reachable H st \<Longrightarrow> build_snapshot H clk payload captured = Inr s \<Longrightarrow>
    snapshot_store_reachable H (save_baseline s st)"
| store_current: "snapshot_store_reachable H st \<Longrightarrow> build_snapshot H clk payload captured = Inr s \<Longrightarrow>
    snapshot_store_reachable H (save_current s st)"
| store_delete: "snapshot_store_reachable H st \<Longrightarrow> snapshot_store_reachable H (delete_watch_snapshots w st)"

lemma reachable_snapshots_inv:
  "snapshot_store_reachable H st \<Longrightarrow> snapshots_inv (is_baselines st) \<and> snapshots_inv (is_current st)"
  by (induction rule: snapshot_store_reachable.induct)
    (auto simp: empty_snapshot_store_def save_baseline_def save_current_def delete_watch_snapshots_def
      intro: snapshots_inv_update snapshots_inv_pop build_snapshot_built)

text \<open>
  Loading a dumped snapshot store gives it back: for every store filled with snapshots
  the builder made whose timestamps \<open>datetime\<close> can hold and whose metadata JSON can write, \<open>dump_store\<close>
  succeeds, \<open>load_store\<close> of its text succeeds with any clock, and each watch has an equal baseline and
  an equal current snapshot in both stores (or in neither).
\<close>

theorem snapshot_store_roundtrip:
  assumes "snapshot_store_reachable H st"
    and "all_storable (is_baselines st)" "all_storable (is_current st)"
  shows "\<exists>dumped st'. dump_snapshot_store st = Inr dumped \<and> load_snapshot_store H clk dumped = Inr st' \<and>
    (\<forall>w. rel_option same_snapshot (snapshot_baseline st' w) (snapshot_baseline st w) \<and>
         rel_option same_snapshot (snapshot_current st' w) (snapshot_current st w))"
proof -
  from reachable_snapshots_inv [OF assms(1)]
  have inv: "snapshots_inv (is_baselines st)" "snapshots_inv (is_current st)" by simp_all
  note written = serialize_dict_written [OF inv(1) assms(2)] serialize_dict_written [OF inv(2) assms(3)]
  let ?d = "[(''baselines'', serialize_dict (is_baselines st)), (''current'', serialize_dict (is_current st))]"
  let ?st' = "fold save_current (reloaded (is_current st))
    (fold save_baseline (reloaded (is_baselines st)) empty_snapshot_store)"
  have "dump_snapshot_store st = Inr (PyDict (json_entries ?d))"
    using written by (simp add: dump_snapshot_store_def json_dumps_def)
  moreover have "load_snapshot_store H clk (PyDict (json_entries ?d)) = Inr ?st'"
    using written(2) [where H = H and clk = clk] written(4) [where H = H and clk = clk]
    by (auto simp: load_snapshot_store_def json_loads_def py_lookup_json bindR_eq_Inr)
  moreover have "rel_option same_snapshot (snapshot_baseline ?st' w) (snapshot_baseline st w)"
    "rel_option same_snapshot (snapshot_current ?st' w) (snapshot_current st w)" for w
    using reloaded_same [OF inv(1) assms(2)] reloaded_same [OF inv(2) assms(3)]
    by (simp_all add: snapshot_baseline_def snapshot_current_def baselines_fold current_fold
        dict_of_reloaded [OF inv(1)] dict_of_reloaded [OF inv(2)] empty_snapshot_store_def)
  ultimately show ?thesis by blast
qed

definition demo_payload :: pyval where
  "demo_payload = PyDict
     [(''chain_id'', PyStr ''1''), (''root_address'', PyStr ''0xAB''),
      (''snapshot_id'', PyStr ''first''),
      (''contracts'', PyList [PyDict [(''address'', PyStr ''0xCD''), (''owner'', PyStr ''0xEF'')]]),
      (''metadata'', PyDict [(''b'', PyInt 1), (''a'', PyBool True)])]"

definition demo_moment :: datetime where
  "demo_moment = \<lparr>dt_wall = 63849600000000000, dt_off = Some 0\<rparr>"

definition demo_built :: ProtocolSnapshot where
  "demo_built = \<lparr>ps_snapshot_id = ''first'', ps_watch_id = ''1:0xab'', ps_chain_id = 1,
     ps_root_address = ''0xab'', ps_captured_at = demo_moment,
     ps_contracts = [\<lparr>cs_address = ''0xcd'', cs_proxy_implementation = None, cs_owner = Some ''0xef'',
       cs_proxy_admin = None, cs_timelock = None, cs_governor = None, cs_treasury = None,
       cs_bytecode_hash = None, cs_abi_hash = None, cs_metadata = []\<rparr>],
     ps_dependency_fingerprint = [], ps_liquidity_fingerprint = [], ps_runtime_fingerprint = [],
     ps_metadata = [(''b'', PyInt 1), (''a'', PyBool True)]\<rparr>"

lemma demo_build: "build_snapshot (\<lambda>_. ''00'') demo_moment demo_payload (Some demo_moment) = Inr demo_built"
  by code_simp

theorem snapshot_store_roundtrip_witness:
  "\<exists>dumped st' s. dump_snapshot_store (save_baseline demo_built empty_snapshot_store) = Inr dumped \<and>
    load_snapshot_store (\<lambda>_. ''00'') demo_moment dumped = Inr st' \<and>
    snapshot_baseline st' ''1:0xab'' = Some s \<and> same_snapshot s demo_built \<and>
    snapshot_current st' ''1:0xab'' = None"
proof -
  let ?st = "save_baseline demo_built empty_snapshot_store"
  have reach: "snapshot_store_reachable (\<lambda>_. ''00'') ?st"
    using store_baseline [OF store_empty demo_build] .
  have "storable_snapshot demo_built" by code_simp
  then have storable: "all_storable (is_baselines ?st)" "all_storable (is_current ?st)"
    by (simp_all add: all_storable_def save_baseline_def empty_snapshot_store_def)
  have "snapshot_baseline ?st ''1:0xab'' = Some demo_built" "snapshot_current ?st ''1:0xab'' = None"
    by (simp_all add: snapshot_baseline_def snapshot_current_def save_baseline_def
        empty_snapshot_store_def demo_built_def)
  moreover obtain dumped st' where
    "dump_snapshot_store ?st = Inr dumped" "load_snapshot_store (\<lambda>_. ''00'') demo_moment dumped = Inr st'"
    "rel_option same_snapshot (snapshot_baseline st' ''1:0xab'') (snapshot_baseline ?st ''1:0xab'')"
    "rel_option same_snapshot (snapshot_current st' ''1:0xab'') (snapshot_current ?st ''1:0xab'')"
    using snapshot_store_roundtrip [OF reach storable, of demo_moment] by blast
  ultimately show ?thesis by (auto simp: option_rel_Some2)
qed

end
