(* ===== verification/RiskInput.thy ===== *)
theory RiskInput
  imports RiskEvidence
begin

text \<open>
  What the risk evidence builder reads: the flattened contract findings of \<open>schemas/risk.py\<close> and the
  analyzer outputs of \<open>schemas/scan_result.py\<close>, with the weights and reason texts of
  \<open>risk/scoring_weights.py\<close>.

  The enumerations of \<open>app.models.enums\<close> are not in the repository. \<open>AdminType\<close>, \<open>GovernanceType\<close> and
  \<open>UpgradeAuthority\<close> have the members and values of \<open>frontend/src/types/scan.ts\<close>; the other three
  have the members the backend names, and their values, which only occur in reason texts and metadata,
  are a parameter (\<open>EnumValues\<close>). A schema class is a record of the fields the modelled code reads.
\<close>

section \<open>Enumerations\<close>

datatype AdminType = AdminEoa | AdminContract | AdminMultisig

fun admin_type_value :: "AdminType \<Rightarrow> string" where
  "admin_type_value AdminEoa = ''eoa''"
| "admin_type_value AdminContract = ''contract''"
| "admin_type_value AdminMultisig = ''multisig''"

datatype GovernanceType =
    GovNone | GovOwnable | GovOwnable2Step | GovAccessControl | GovProxyAdmin | GovTimelock
  | GovMultisig | GovUnknown

fun governance_type_value :: "GovernanceType \<Rightarrow> string" where
  "governance_type_value GovNone = ''none''"
| "governance_type_value GovOwnable = ''ownable''"
| "governance_type_value GovOwnable2Step = ''ownable2step''"
| "governance_type_value GovAccessControl = ''access_control''"
| "governance_type_value GovProxyAdmin = ''proxy_admin''"
| "governance_type_value GovTimelock = ''timelock''"
| "governance_type_value GovMultisig = ''multisig''"
| "governance_type_value GovUnknown = ''unknown''"

datatype UpgradeAuthority =
    AuthNone | AuthEoa | AuthMultisig | AuthTimelock | AuthContract | AuthUnknown

fun upgrade_authority_value :: "UpgradeAuthority \<Rightarrow> string" where
  "upgrade_authority_value AuthNone = ''none''"
| "upgrade_authority_value AuthEoa = ''eoa''"
| "upgrade_authority_value AuthMultisig = ''multisig''"
| "upgrade_authority_value AuthTimelock = ''timelock''"
| "upgrade_authority_value AuthContract = ''contract''"
| "upgrade_authority_value AuthUnknown = ''unknown''"

datatype ContractType =
    CtEoa | CtTimelock | CtMultisig | CtErc1155 | CtErc721 | CtErc20 | CtProxy | CtUnknown

datatype ProxyType =
    PtNone | PtEip1967Transparent | PtEip1967Uups | PtEip1967Beacon | PtUnknown

datatype ScanDetectionMethod = DetSource | DetHybrid | DetSimulation | DetBytecode

record EnumValues =
  contract_type_value :: "ContractType \<Rightarrow> string"
  proxy_type_value :: "ProxyType \<Rightarrow> string"
  detection_method_value :: "ScanDetectionMethod \<Rightarrow> string"

section \<open>Contract findings (schemas/risk.py)\<close>

record ContractRiskInput =
  ri_is_contract :: bool
  ri_is_upgradeable :: bool
  ri_implementation_address :: "string option"
  ri_admin_address :: "string option"
  ri_admin_type :: "AdminType option"
  ri_owner_address :: "string option"
  ri_owner_type :: "AdminType option"
  ri_is_timelock :: bool
  ri_min_delay :: "int option"
  ri_mint_capability :: bool
  ri_pause_capability :: bool
  ri_blacklist_capability :: bool
  ri_ownership_capability :: bool
  ri_trading_enabled_control :: bool
  ri_whitelist_control :: bool
  ri_blacklist_sell_blocking :: bool
  ri_transfer_tax_control :: bool
  ri_trade_simulated :: bool
  ri_can_buy :: "bool option"
  ri_can_sell :: "bool option"
  ri_buy_tax_bps :: "int option"
  ri_sell_tax_bps :: "int option"
  ri_is_verified :: bool
  ri_contract_type :: "ContractType option"
  ri_proxy_type :: "ProxyType option"
  ri_detection_method :: "ScanDetectionMethod option"
  ri_has_liquidity :: bool
  ri_liquidity_usd :: decimal
  ri_liquidity_locked :: bool
  ri_liquidity_lock_percentage :: decimal
  ri_lp_owner :: "string option"
  ri_primary_dex :: "string option"
  ri_liquidity_analyzed :: bool
  ri_deployer_is_fresh :: bool
  ri_creator_owns_majority :: bool
  ri_lp_owner_is_creator :: bool
  ri_exchange_funded_deployer :: bool
  ri_tornado_funded_deployer :: bool
  ri_treasury_is_multisig :: bool
  ri_wallet_known_scam :: bool
  ri_wallet_analyzed :: bool

text \<open>The schema's defaults, for a caller that only gives the four required fields.\<close>

definition contract_risk_input ::
  "bool \<Rightarrow> bool \<Rightarrow> string option \<Rightarrow> string option \<Rightarrow> ContractRiskInput" where
  "contract_risk_input is_contract is_upgradeable implementation_address admin_address =
     \<lparr>ri_is_contract = is_contract, ri_is_upgradeable = is_upgradeable,
      ri_implementation_address = implementation_address, ri_admin_address = admin_address,
      ri_admin_type = None, ri_owner_address = None, ri_owner_type = None,
      ri_is_timelock = False, ri_min_delay = None, ri_mint_capability = False,
      ri_pause_capability = False, ri_blacklist_capability = False,
      ri_ownership_capability = False, ri_trading_enabled_control = False,
      ri_whitelist_control = False, ri_blacklist_sell_blocking = False,
      ri_transfer_tax_control = False, ri_trade_simulated = False, ri_can_buy = None,
      ri_can_sell = None, ri_buy_tax_bps = None, ri_sell_tax_bps = None, ri_is_verified = False,
      ri_contract_type = None, ri_proxy_type = None, ri_detection_method = None,
      ri_has_liquidity = False, ri_liquidity_usd = Dec 0 2, ri_liquidity_locked = False,
      ri_liquidity_lock_percentage = Dec 0 2, ri_lp_owner = None, ri_primary_dex = None,
      ri_liquidity_analyzed = False, ri_deployer_is_fresh = False,
      ri_creator_owns_majority = False, ri_lp_owner_is_creator = False,
      ri_exchange_funded_deployer = False, ri_tornado_funded_deployer = False,
      ri_treasury_is_multisig = False, ri_wallet_known_scam = False, ri_wallet_analyzed = False\<rparr>"

section \<open>Analyzer outputs (schemas/scan\_result.py)\<close>

record GovernanceRoleData =
  gr_name :: string
  gr_role_id :: string
  gr_admin_role_name :: "string option"
  gr_admin_role_id :: "string option"
  gr_is_default_admin :: bool

record GovernanceAnalysisData =
  ga_governance_type :: GovernanceType
  ga_upgrade_authority :: UpgradeAuthority
  ga_has_timelock :: bool
  ga_role_count :: nat
  ga_roles :: "GovernanceRoleData list"
  ga_ownership_address :: "string option"
  ga_ownership_renounced :: bool
  ga_source_confidence :: ConfidenceLevel

record LiquidityPoolData =
  lq_dex :: string
  lq_pair_address :: string

record LiquidityAnalysisData =
  la_has_liquidity :: bool
  la_liquidity_usd :: decimal
  la_primary_dex :: "string option"
  la_lp_owner :: "string option"
  la_liquidity_locked :: bool
  la_liquidity_lock_percentage :: decimal
  la_top_pools :: "LiquidityPoolData list"

record WalletReputationData =
  wr_known_scam :: bool
  wr_sanctioned :: bool

record WalletOwnershipData =
  wo_treasury :: "string option"

record WalletIntelligenceData =
  wi_ownership :: WalletOwnershipData
  wi_reputation :: WalletReputationData
  wi_deployer_is_fresh :: bool
  wi_creator_owns_majority :: bool
  wi_lp_owner_is_creator :: bool
  wi_exchange_funded_deployer :: bool
  wi_tornado_funded_deployer :: bool
  wi_treasury_is_multisig :: bool

text \<open>
  The seven integration classes: NFT integrations are named by their \<open>standard\<close>, all others have a
  \<open>name\<close>.
\<close>

datatype IntegrationData =
    NamedIntegration (ig_name: string) (ig_confidence: int)
  | NftIntegration (ig_standard: string) (ig_confidence: int)

record ProtocolRelationshipData =
  pr_source :: string
  pr_target :: string
  pr_relationship_type :: string
  pr_confidence :: int
  pr_detection_source :: string

text \<open>External dependencies have a \<open>name\<close>, trust boundaries and privileged entities a \<open>label\<close>.\<close>

datatype ThreatItemLabel = ItemName string | ItemLabel string

record ThreatItem =
  ti_label :: ThreatItemLabel
  ti_confidence :: int
  ti_detection_source :: string
  ti_address :: "string option"

record AttackPathData =
  ap_name :: string
  ap_steps :: "string list"
  ap_confidence :: int
  ap_detection_source :: string

record CriticalAssetData =
  ca_asset_type :: string
  ca_label :: string
  ca_confidence :: int
  ca_address :: "string option"

record ThreatSurfaceData =
  ts_external_dependencies :: "ThreatItem list"
  ts_trust_boundaries :: "ThreatItem list"
  ts_privileged_entities :: "ThreatItem list"
  ts_attack_paths :: "AttackPathData list"
  ts_critical_assets :: "CriticalAssetData list"

record ProtocolIntelligenceData =
  pi_protocol_family :: string
  pi_protocol_name :: string
  pi_protocol_type :: string
  pi_family :: string
  pi_name :: string
  pi_dexes :: "IntegrationData list"
  pi_lending :: "IntegrationData list"
  pi_oracles :: "IntegrationData list"
  pi_bridges :: "IntegrationData list"
  pi_vaults :: "IntegrationData list"
  pi_nfts :: "IntegrationData list"
  pi_governance :: "IntegrationData list"
  pi_relationships :: "ProtocolRelationshipData list"
  pi_threat_surface :: ThreatSurfaceData
  pi_confidence_score :: int
  pi_confidence_level :: ConfidenceLevel
  pi_detection_reasons :: "string list"

section \<open>Risk assessment (schemas/risk.py)\<close>

record RiskAssessment =
  ra_risk_score :: decimal
  ra_risk_level :: RiskLevel
  ra_risk_reasons :: "string list"
  ra_threat_level :: ThreatLevel
  ra_centralization_level :: CentralizationLevel
  ra_confidence_level :: ConfidenceLevel

end
