(* ===== verification/EvidenceBuilder.thy ===== *)
theory EvidenceBuilder
  imports RiskInput
begin

text \<open>
  \<open>RiskEvidenceBuilder\<close> of \<open>risk/evidence_builder.py\<close>: the adapters that translate the flattened
  contract findings and the analyzer outputs into risk evidence, one definition per method, with the
  weights and reason texts of \<open>risk/scoring_weights.py\<close> written where the code names them. An
  \<open>if condition: evidence.append(item)\<close> is \<open>only_if condition item\<close>; the pieces are concatenated in
  the order of the code. \<open>clk\<close> is the reading of \<open>datetime.now(UTC)\<close> in \<open>create_evidence\<close>.
\<close>

section \<open>Scores and texts\<close>

definition only_if :: "bool \<Rightarrow> 'a \<Rightarrow> 'a list" where
  "only_if c x = (if c then [x] else [])"

lemma only_if_simps [simp]:
  "only_if True x = [x]" "only_if False x = []"
  "map f (only_if c x) = only_if c (f x)"
  by (simp_all add: only_if_def)

lemma set_only_if: "x \<in> set (only_if c y) \<longleftrightarrow> c \<and> x = y"
  by (auto simp: only_if_def)

abbreviation zero_score :: decimal where "zero_score \<equiv> Dec 0 2"

text \<open>\<open>bool(s)\<close> of a \<open>str | None\<close>, and the metadata value of optional fields.\<close>

definition given :: "string option \<Rightarrow> bool" where
  "given s = (s \<noteq> None \<and> s \<noteq> Some [])"

definition py_opt :: "('a \<Rightarrow> pyval) \<Rightarrow> 'a option \<Rightarrow> pyval" where
  "py_opt f v = (case v of None \<Rightarrow> PyNone | Some x \<Rightarrow> f x)"

text \<open>\<open>str.title()\<close>: a letter after a non-letter is upper case, every other letter lower case.\<close>

definition is_letter :: "char \<Rightarrow> bool" where
  "is_letter c =
     (let n = (of_char (lower_char c) :: nat) in 97 \<le> n \<and> n \<le> 122)"

fun title_from :: "bool \<Rightarrow> string \<Rightarrow> string" where
  "title_from after_letter [] = []"
| "title_from after_letter (c # s) =
     (if after_letter then lower_char c else upper_char c) # title_from (is_letter c) s"

definition title_case :: "string \<Rightarrow> string" where
  "title_case s = title_from False s"

definition spaced :: "string \<Rightarrow> string" where
  "spaced s = map (\<lambda>c. if c = CHR ''_'' then CHR '' '' else c) s"

definition timelock_reason :: "int option \<Rightarrow> string" where
  "timelock_reason min_delay =
     (case min_delay of
        Some d \<Rightarrow> ''Upgrade authority protected by TimelockController (min delay '' @ int_str d @ ''s)''
      | None \<Rightarrow> ''Upgrade authority protected by TimelockController'')"

definition confidence_from_score :: "int \<Rightarrow> ConfidenceLevel" where
  "confidence_from_score score =
     (if score \<ge> 75 then ConfHigh else if score \<ge> 45 then ConfMedium else ConfLow)"

definition severity_for_score :: "decimal \<Rightarrow> EvidenceSeverity" where
  "severity_for_score score =
     (if dec_le (Dec 3000 2) score then SevHigh
      else if dec_le (Dec 1500 2) score then SevMedium
      else if dec_less (Dec 0 2) score then SevLow
      else SevInfo)"

fun confidence_from_detection_method :: "ScanDetectionMethod option \<Rightarrow> int" where
  "confidence_from_detection_method (Some DetSource) = 15"
| "confidence_from_detection_method (Some DetHybrid) = 12"
| "confidence_from_detection_method (Some DetSimulation) = 10"
| "confidence_from_detection_method (Some DetBytecode) = 10"
| "confidence_from_detection_method None = 5"

section \<open>Evidence from the contract findings\<close>

definition admin_evidence_weights :: "ContractRiskInput \<Rightarrow> decimal \<times> string \<times> int" where
  "admin_evidence_weights f =
     (if ri_is_timelock f then (Dec 12 0, timelock_reason (ri_min_delay f), 12)
      else case (if ri_owner_type f \<noteq> None then ri_owner_type f else ri_admin_type f) of
        Some AdminMultisig \<Rightarrow>
          (Dec 15 0, ''Upgrade admin appears to be a Gnosis Safe-style multisig'', 22)
      | Some AdminContract \<Rightarrow>
          (Dec 28 0, ''Upgrade admin is a smart contract (review ProxyAdmin or timelock)'', 32)
      | _ \<Rightarrow>
          (Dec 35 0,
           ''Upgrade admin is an externally owned account (elevated single-key upgrade risk)'', 45))"

text \<open>The lines of \<open>from_contract_risk_input\<close> on the proxy, and on the upgrade authority.\<close>

definition proxy_evidence :: "datetime \<Rightarrow> ContractRiskInput \<Rightarrow> RiskEvidence list" where
  "proxy_evidence clk f =
     only_if (ri_is_upgradeable f)
       (create_evidence clk SrcProxy CatUpgradeability ''upgradeable'' SevMedium (Dec 35 0) ConfMedium
          ''Contract uses an upgradeable EIP-1967 proxy pattern''
          (Some [(key_threat_weight, PyInt 18),
                 (key_centralization_weight,
                  PyInt (if given (ri_admin_address f) then 0 else 28)),
                 (key_signal, PyStr ''is_upgradeable'')]) None)
     @ (if given (ri_implementation_address f)
        then [create_evidence clk SrcProxy CatUpgradeability ''implementation_exposed'' SevMedium
               (Dec 30 0) ConfMedium
               ''Implementation contract address is exposed via storage slot''
               (Some [(key_threat_weight, PyInt 12), (key_confidence_weight, PyInt 20),
                      (key_signal, PyStr ''implementation_address'')]) None]
        else only_if (ri_is_upgradeable f)
          (create_evidence clk SrcProxy CatConfidence ''proxy_unresolved'' SevLow zero_score ConfLow
             ''Upgradeable proxy without resolved implementation''
             (Some [(key_confidence_weight, PyInt (- 15)),
                    (key_signal, PyStr ''proxy_unresolved'')]) None))"

definition admin_evidence :: "datetime \<Rightarrow> ContractRiskInput \<Rightarrow> RiskEvidence list" where
  "admin_evidence clk f =
     (if given (ri_admin_address f) then
        (case admin_evidence_weights f of (admin_score, admin_reason, central_weight) \<Rightarrow>
          create_evidence clk SrcGovernance CatAuthority ''admin_authority''
            (severity_for_score admin_score) admin_score ConfMedium admin_reason
            (Some [(key_centralization_weight, PyInt central_weight),
                   (key_is_timelock, PyBool (ri_is_timelock f)),
                   (''min_delay'', py_opt PyInt (ri_min_delay f)),
                   (key_admin_type, py_opt (PyStr \<circ> admin_type_value) (ri_admin_type f)),
                   (key_owner_type, py_opt (PyStr \<circ> admin_type_value) (ri_owner_type f)),
                   (key_signal, PyStr ''admin_address'')]) None
          # only_if (given (ri_owner_address f) \<and> ri_admin_type f = Some AdminContract)
             (create_evidence clk SrcGovernance CatAuthority ''proxyadmin_owner'' SevInfo zero_score
                ConfMedium ''ProxyAdmin owner() traced to controlling address''
                (Some [(key_reason_only, PyBool True),
                       (key_signal, PyStr ''proxyadmin_owner'')]) None))
      else [])"

text \<open>The rows of the tables the code loops over: enabled, signal, score, reason, threat, severity.\<close>

definition capability_table ::
  "ContractRiskInput \<Rightarrow> (bool \<times> string \<times> int \<times> string \<times> int \<times> EvidenceSeverity) list" where
  "capability_table f =
     [(ri_mint_capability f, ''mint_capability'', 20,
       ''Contract exposes mint capability (supply inflation risk)'', 22, SevMedium),
      (ri_pause_capability f, ''pause_capability'', 15,
       ''Contract exposes pause capability (user funds may be frozen)'', 18, SevMedium),
      (ri_blacklist_capability f, ''blacklist_capability'', 25,
       ''Contract exposes blacklist capability (selective transfer blocking)'', 28, SevHigh),
      (ri_ownership_capability f, ''ownership_capability'', 10,
       ''Contract exposes centralized ownership controls (transferOwnership)'', 8, SevLow)]"

definition capability_evidence :: "datetime \<Rightarrow> ContractRiskInput \<Rightarrow> RiskEvidence list" where
  "capability_evidence clk f =
     concat (map (\<lambda>(enabled, signal, score, reason, threat_weight, severity).
       only_if enabled
         (create_evidence clk SrcCapability CatCapability signal severity (dec_int score) ConfMedium
            reason
            (Some ([(key_threat_weight, PyInt threat_weight), (key_signal, PyStr signal)]
                   @ only_if (signal = ''ownership_capability'')
                       (key_centralization_weight, PyInt 22))) None))
       (capability_table f))"

definition high_tax :: "int option \<Rightarrow> bool" where
  "high_tax tax_bps = (case tax_bps of None \<Rightarrow> False | Some t \<Rightarrow> t \<ge> 5000)"

definition simulation_confirmed_sell_block :: "ContractRiskInput \<Rightarrow> bool" where
  "simulation_confirmed_sell_block f = (ri_trade_simulated f \<and> ri_can_sell f = Some False)"

definition simulation_confirmed_high_tax :: "ContractRiskInput \<Rightarrow> bool" where
  "simulation_confirmed_high_tax f =
     (ri_trade_simulated f \<and> (high_tax (ri_sell_tax_bps f) \<or> high_tax (ri_buy_tax_bps f)))"

definition honeypot_item ::
  "datetime \<Rightarrow> string \<Rightarrow> EvidenceSeverity \<Rightarrow> int \<Rightarrow> string \<Rightarrow> int \<Rightarrow> RiskEvidence" where
  "honeypot_item clk signal severity score reason threat_weight =
     create_evidence clk SrcHoneypot CatHoneypot signal severity (dec_int score) ConfMedium reason
       (Some [(key_threat_weight, PyInt threat_weight), (key_signal, PyStr signal)]) None"

definition honeypot_evidence :: "datetime \<Rightarrow> ContractRiskInput \<Rightarrow> RiskEvidence list" where
  "honeypot_evidence clk f =
     only_if (ri_trading_enabled_control f)
       (honeypot_item clk ''trading_enabled_control'' SevMedium 18
          ''Contract exposes trading launch controls (enableTrading / openTrading)'' 20)
     @ only_if (ri_whitelist_control f)
       (honeypot_item clk ''whitelist_control'' SevMedium 20
          ''Contract exposes whitelist controls (selective trading gate)'' 22)
     @ only_if (ri_blacklist_sell_blocking f \<and> \<not> simulation_confirmed_sell_block f)
       (honeypot_item clk ''blacklist_sell_blocking'' SevHigh 28
          ''Contract exposes blacklist and sell-restriction patterns (honeypot risk)'' 30)
     @ only_if (ri_transfer_tax_control f \<and> \<not> simulation_confirmed_high_tax f)
       (honeypot_item clk ''transfer_tax_control'' SevMedium 22
          ''Contract exposes configurable transfer tax / fee controls'' 24)"

definition simulation_item ::
  "datetime \<Rightarrow> string \<Rightarrow> EvidenceSeverity \<Rightarrow> int \<Rightarrow> string \<Rightarrow> metadata \<Rightarrow> RiskEvidence" where
  "simulation_item clk signal severity score reason metadata =
     create_evidence clk SrcSimulation CatHoneypot signal severity (dec_int score) ConfHigh reason
       (Some metadata) None"

definition tax_text :: "int option \<Rightarrow> string" where
  "tax_text tax_bps = (case tax_bps of None \<Rightarrow> ''None'' | Some t \<Rightarrow> int_str t)"

definition simulation_evidence :: "datetime \<Rightarrow> ContractRiskInput \<Rightarrow> RiskEvidence list" where
  "simulation_evidence clk f =
     (if \<not> ri_trade_simulated f then []
      else
        only_if (ri_can_buy f = Some False)
          (simulation_item clk ''sim_buy_blocked'' SevMedium 15
             ''Trade simulation confirmed buy path reverts on fork''
             [(key_threat_weight, PyInt 18), (key_signal, PyStr ''sim_buy_blocked'')])
        @ only_if (ri_can_sell f = Some False)
          (simulation_item clk ''sim_sell_blocked'' SevCritical 35
             ''Trade simulation confirmed sell path reverts (honeypot)''
             [(key_threat_weight, PyInt 40), (key_force_threat_critical, PyBool True),
              (key_signal, PyStr ''sim_sell_blocked'')])
        @ only_if (high_tax (ri_buy_tax_bps f))
          (simulation_item clk ''sim_high_buy_tax'' SevMedium 12
             (''Trade simulation measured elevated buy tax ('' @ tax_text (ri_buy_tax_bps f) @ '' bps)'')
             [(key_threat_weight, PyInt 14), (key_signal, PyStr ''sim_high_buy_tax'')])
        @ only_if (high_tax (ri_sell_tax_bps f))
          (simulation_item clk ''sim_high_sell_tax'' SevHigh 25
             (''Trade simulation measured elevated sell tax ('' @ tax_text (ri_sell_tax_bps f) @ '' bps)'')
             [(key_threat_weight, PyInt 28), (key_signal, PyStr ''sim_high_sell_tax'')]))"

definition burn_addresses :: "string list" where
  "burn_addresses =
     [''0x0000000000000000000000000000000000000000'',
      ''0x000000000000000000000000000000000000dead'']"

definition liquidity_evidence ::
  "datetime \<Rightarrow> bool \<Rightarrow> decimal \<Rightarrow> bool \<Rightarrow> decimal \<Rightarrow> string option \<Rightarrow> string option \<Rightarrow>
   RiskEvidence list" where
  "liquidity_evidence clk has_liquidity liquidity_usd liquidity_locked liquidity_lock_percentage
     lp_owner primary_dex =
     (if \<not> has_liquidity then
        [create_evidence clk SrcLiquidity CatLiquidity ''no_liquidity'' SevHigh (Dec 30 0) ConfMedium
           ''No DEX liquidity pool discovered for this token''
           (Some [(key_threat_weight, PyInt 25), (key_signal, PyStr ''no_liquidity'')]) None]
      else
        only_if (dec_less liquidity_usd (Dec 100000 2))
          (create_evidence clk SrcLiquidity CatLiquidity ''low_liquidity'' SevMedium (Dec 18 0)
             ConfMedium
             (''Primary pool liquidity depth is very low ($'' @ int_str (dec_trunc liquidity_usd) @ '')'')
             (Some [(key_threat_weight, PyInt 12), (key_signal, PyStr ''low_liquidity''),
                    (''primary_dex'', py_opt PyStr primary_dex)]) None)
        @ only_if (\<not> liquidity_locked)
          (create_evidence clk SrcLiquidity CatLiquidity ''unlocked_lp'' SevMedium (Dec 22 0) ConfMedium
             ''LP tokens appear unlocked (no significant burn/lock detected)''
             (Some [(key_threat_weight, PyInt 18), (key_signal, PyStr ''unlocked_lp'')]) None)
        @ only_if (given lp_owner \<and> lp_owner \<notin> Some ` set burn_addresses \<and>
                   dec_less liquidity_lock_percentage (Dec 5000 2))
          (create_evidence clk SrcLiquidity CatLiquidity ''single_wallet_lp'' SevMedium (Dec 15 0)
             ConfMedium ''Primary LP ownership concentrated in a single wallet''
             (Some [(key_signal, PyStr ''single_wallet_lp''),
                    (''entity_address'', py_opt PyStr lp_owner)]) None))"

definition liquidity_evidence_from_input :: "datetime \<Rightarrow> ContractRiskInput \<Rightarrow> RiskEvidence list" where
  "liquidity_evidence_from_input clk f =
     liquidity_evidence clk (ri_has_liquidity f) (ri_liquidity_usd f) (ri_liquidity_locked f)
       (ri_liquidity_lock_percentage f) (ri_lp_owner f) (ri_primary_dex f)"

definition wallet_evidence ::
  "datetime \<Rightarrow> bool \<Rightarrow> bool \<Rightarrow> bool \<Rightarrow> bool \<Rightarrow> bool \<Rightarrow> bool \<Rightarrow> bool \<Rightarrow> RiskEvidence list" where
  "wallet_evidence clk deployer_is_fresh creator_owns_majority lp_owner_is_creator
     exchange_funded_deployer tornado_funded_deployer treasury_is_multisig wallet_known_scam =
     concat (map (\<lambda>(enabled, signal, score, reason, severity).
       only_if enabled
         (create_evidence clk SrcWallet CatWallet signal severity (dec_int score) ConfMedium reason
            (Some [(key_signal, PyStr signal)]) None))
       [(deployer_is_fresh, ''fresh_deployer'', 12,
         ''Contract deployer wallet appears newly created (fresh wallet)'', SevLow),
        (creator_owns_majority, ''creator_owns_majority'', 25,
         ''Creator wallet controls owner or LP concentration'', SevHigh),
        (lp_owner_is_creator, ''lp_owner_is_creator'', 18,
         ''LP owner wallet matches contract creator (rug-pull pattern)'', SevMedium),
        (exchange_funded_deployer, ''exchange_funded_deployer'', - 5,
         ''Deployer funded from a known exchange (lower anonymity risk)'', SevInfo),
        (tornado_funded_deployer, ''tornado_funded_deployer'', 35,
         ''Deployer funded via Tornado Cash mixer (elevated anonymity risk)'', SevCritical),
        (treasury_is_multisig, ''treasury_multisig'', - 10,
         ''Treasury or admin authority appears to be a multisig'', SevInfo),
        (wallet_known_scam, ''wallet_known_scam'', 40,
         ''Deployer or owner wallet matches known scam/sanctioned denylist'', SevCritical)])"

definition wallet_evidence_from_input :: "datetime \<Rightarrow> ContractRiskInput \<Rightarrow> RiskEvidence list" where
  "wallet_evidence_from_input clk f =
     wallet_evidence clk (ri_deployer_is_fresh f) (ri_creator_owns_majority f)
       (ri_lp_owner_is_creator f) (ri_exchange_funded_deployer f) (ri_tornado_funded_deployer f)
       (ri_treasury_is_multisig f) (ri_wallet_known_scam f)"

text \<open>The items of \<open>_classification_confidence_evidence\<close> share category, severity and score.\<close>

definition confidence_item ::
  "datetime \<Rightarrow> EvidenceSource \<Rightarrow> string \<Rightarrow> ConfidenceLevel \<Rightarrow> string \<Rightarrow> metadata \<Rightarrow> RiskEvidence" where
  "confidence_item clk source signal confidence reason metadata =
     create_evidence clk source CatConfidence signal SevInfo zero_score confidence reason
       (Some metadata) None"

definition classification_confidence_evidence ::
  "EnumValues \<Rightarrow> datetime \<Rightarrow> ContractRiskInput \<Rightarrow> RiskEvidence list" where
  "classification_confidence_evidence V clk f =
     only_if (ri_is_verified f)
       (confidence_item clk SrcClassification ''verified_source'' ConfHigh
          ''Verified contract source available''
          [(key_confidence_weight, PyInt 35), (key_signal, PyStr ''verified_source'')])
     @ (case ri_contract_type f of
          None \<Rightarrow> []
        | Some t \<Rightarrow> only_if (t \<notin> {CtUnknown, CtEoa})
            (confidence_item clk SrcClassification ''contract_classification'' ConfMedium
               (''Contract classified as '' @ contract_type_value V t)
               [(key_confidence_weight, PyInt 20), (key_signal, PyStr ''contract_classification'')]))
     @ only_if (ri_is_contract f)
       (confidence_item clk SrcClassification ''bytecode_confirmed'' ConfMedium
          ''Contract bytecode confirmed on-chain''
          [(key_confidence_weight, PyInt 10), (key_signal, PyStr ''bytecode_confirmed'')])
     @ (case ri_proxy_type f of
          None \<Rightarrow> []
        | Some t \<Rightarrow> only_if (t \<notin> {PtNone, PtUnknown})
            (confidence_item clk SrcClassification ''proxy_classification'' ConfMedium
               (''Proxy pattern classified as '' @ proxy_type_value V t)
               [(key_confidence_weight, PyInt 5), (key_signal, PyStr ''proxy_classification'')]))
     @ only_if (ri_trade_simulated f)
       (confidence_item clk SrcSimulation ''trade_simulated'' ConfHigh ''Trade path simulated on fork''
          [(key_confidence_weight, PyInt 20), (key_signal, PyStr ''trade_simulated'')])
     @ (let detection_weight = confidence_from_detection_method (ri_detection_method f)
        in only_if (detection_weight \<noteq> 0)
          (confidence_item clk SrcClassification ''detection_method'' ConfMedium
             ''Capability/honeypot detection method recorded''
             [(key_confidence_weight, PyInt detection_weight),
              (''detection_method'',
               py_opt (PyStr \<circ> detection_method_value V) (ri_detection_method f)),
              (key_signal, PyStr ''detection_method'')]))"

definition not_contract_evidence :: "datetime \<Rightarrow> RiskEvidence" where
  "not_contract_evidence clk =
     create_evidence clk SrcSystem CatSystem ''not_contract'' SevInfo zero_score ConfHigh
       ''Target address has no contract bytecode''
       (Some [(key_confidence_weight, PyInt 45), (key_signal, PyStr ''not_contract'')]) None"

definition has_risk_reason :: "RiskEvidence list \<Rightarrow> bool" where
  "has_risk_reason evidence =
     list_ex (\<lambda>e. ev_category e \<noteq> CatConfidence \<and>
       (dec_less (dec_int 0) (ev_score e) \<or> py_truthy (py_get (ev_metadata e) key_reason_only)))
       evidence"

definition from_contract_risk_input ::
  "EnumValues \<Rightarrow> datetime \<Rightarrow> ContractRiskInput \<Rightarrow> RiskEvidence list" where
  "from_contract_risk_input V clk f =
     (if \<not> ri_is_contract f then [not_contract_evidence clk]
      else
        let evidence =
          proxy_evidence clk f
          @ admin_evidence clk f
          @ capability_evidence clk f
          @ honeypot_evidence clk f
          @ simulation_evidence clk f
          @ (if ri_liquidity_analyzed f then liquidity_evidence_from_input clk f else [])
          @ (if ri_wallet_analyzed f then wallet_evidence_from_input clk f else [])
          @ classification_confidence_evidence V clk f
        in evidence
           @ only_if (\<not> has_risk_reason evidence)
               (create_evidence clk SrcSystem CatSystem ''no_upgrade_signals'' SevInfo zero_score
                  ConfMedium ''No upgradeability indicators detected''
                  (Some [(key_signal, PyStr ''no_upgrade_signals'')]) None))"

section \<open>Evidence from the analyzer outputs\<close>

definition governance_item ::
  "datetime \<Rightarrow> GovernanceAnalysisData \<Rightarrow> string \<Rightarrow> EvidenceSeverity \<Rightarrow> string \<Rightarrow> metadata \<Rightarrow>
   RiskEvidence" where
  "governance_item clk d signal severity reason metadata =
     create_evidence clk SrcGovernance CatAuthority signal severity zero_score
       (ga_source_confidence d) reason (Some metadata) None"

definition from_governance_analysis :: "datetime \<Rightarrow> GovernanceAnalysisData \<Rightarrow> RiskEvidence list" where
  "from_governance_analysis clk d =
     only_if (governance_type_value (ga_governance_type d) \<noteq> ''none'')
       (governance_item clk d ''governance_type'' SevInfo
          (''Governance type detected: '' @ governance_type_value (ga_governance_type d))
          [(key_signal, PyStr ''governance_type''),
           (''governance_type'', PyStr (governance_type_value (ga_governance_type d))),
           (''upgrade_authority'', PyStr (upgrade_authority_value (ga_upgrade_authority d)))])
     @ only_if (ga_has_timelock d)
       (governance_item clk d ''timelock'' SevLow ''Timelock governance detected''
          [(key_signal, PyStr ''has_timelock'')])
     @ only_if (ga_ownership_renounced d)
       (governance_item clk d ''ownership_renounced'' SevInfo ''Contract ownership appears renounced''
          [(key_signal, PyStr ''ownership_renounced'')])
     @ map (\<lambda>role.
         governance_item clk d (''role:'' @ gr_role_id role) SevInfo
           (''AccessControl role detected: '' @ gr_name role)
           [(key_signal, PyStr ''governance_role''),
            (''role_name'', PyStr (gr_name role)),
            (''role_id'', PyStr (gr_role_id role))]) (ga_roles d)"

definition from_liquidity_analysis :: "datetime \<Rightarrow> LiquidityAnalysisData \<Rightarrow> RiskEvidence list" where
  "from_liquidity_analysis clk d =
     liquidity_evidence clk (la_has_liquidity d) (la_liquidity_usd d) (la_liquidity_locked d)
       (la_liquidity_lock_percentage d) (la_lp_owner d) (la_primary_dex d)"

definition from_wallet_intelligence :: "datetime \<Rightarrow> WalletIntelligenceData \<Rightarrow> RiskEvidence list" where
  "from_wallet_intelligence clk d =
     wallet_evidence clk (wi_deployer_is_fresh d) (wi_creator_owns_majority d)
       (wi_lp_owner_is_creator d) (wi_exchange_funded_deployer d) (wi_tornado_funded_deployer d)
       (wi_treasury_is_multisig d)
       (wr_known_scam (wi_reputation d) \<or> wr_sanctioned (wi_reputation d))"

text \<open>\<open>getattr(item, ''name'', None) or getattr(item, ''standard'', ''unknown'')\<close>.\<close>

fun integration_name :: "IntegrationData \<Rightarrow> string" where
  "integration_name (NamedIntegration name conf) = (if name \<noteq> [] then name else ''unknown'')"
| "integration_name (NftIntegration standard conf) = standard"

definition integration_evidence ::
  "datetime \<Rightarrow> string \<Rightarrow> IntegrationData list \<Rightarrow> RiskEvidence list" where
  "integration_evidence clk label items =
     map (\<lambda>(index, item).
       create_evidence clk SrcProtocol CatProtocol
         (label @ '':'' @ nat_digits index @ '':'' @ integration_name item) SevInfo zero_score
         (confidence_from_score (ig_confidence item))
         (title_case label @ '' integration detected: '' @ integration_name item)
         (Some [(key_signal, PyStr (''protocol_'' @ label)),
                (''entity_name'', PyStr (integration_name item))]) None)
       (List.enumerate 0 items)"

definition from_protocol_intelligence ::
  "datetime \<Rightarrow> ProtocolIntelligenceData \<Rightarrow> RiskEvidence list" where
  "from_protocol_intelligence clk d =
     only_if (pi_protocol_family d \<noteq> ''unknown'' \<or> pi_protocol_name d \<noteq> ''unknown'')
       (create_evidence clk SrcProtocol CatProtocol ''protocol_identity'' SevInfo zero_score
          (pi_confidence_level d)
          (''Protocol classified as '' @ pi_name d @ '' ('' @ pi_family d @ '')'')
          (Some [(key_signal, PyStr ''protocol_identity''),
                 (''protocol_family'', PyStr (pi_family d)),
                 (''protocol_name'', PyStr (pi_name d)),
                 (''protocol_type'', PyStr (pi_protocol_type d))]) None)
     @ concat (map (\<lambda>(group, label). integration_evidence clk label group)
         [(pi_dexes d, ''dex''), (pi_lending d, ''lending''), (pi_oracles d, ''oracle''),
          (pi_bridges d, ''bridge''), (pi_vaults d, ''vault''), (pi_nfts d, ''nft''),
          (pi_governance d, ''governance_integration'')])
     @ map (\<lambda>reason.
         create_evidence clk SrcProtocol CatProtocol (''detection_reason:'' @ take 48 reason) SevInfo
           zero_score (pi_confidence_level d) reason
           (Some [(key_signal, PyStr ''detection_reason'')]) None) (pi_detection_reasons d)"

definition from_protocol_relationship_analysis ::
  "datetime \<Rightarrow> ProtocolRelationshipData list \<Rightarrow> RiskEvidence list" where
  "from_protocol_relationship_analysis clk relationships =
     map (\<lambda>(index, r).
       create_evidence clk SrcRelationship CatRelationship (''relationship:'' @ nat_digits index)
         SevInfo zero_score (confidence_from_score (pr_confidence r))
         (pr_source r @ '' '' @ pr_relationship_type r @ '' '' @ pr_target r)
         (Some [(key_signal, PyStr ''protocol_relationship''),
                (''relationship_type'', PyStr (pr_relationship_type r)),
                (''source'', PyStr (pr_source r)),
                (''target'', PyStr (pr_target r)),
                (''detection_source'', PyStr (pr_detection_source r))]) None)
       (List.enumerate 0 relationships)"

text \<open>\<open>getattr(item, ''label'', None) or getattr(item, ''name'', ''unknown'')\<close>.\<close>

fun threat_label :: "ThreatItemLabel \<Rightarrow> string" where
  "threat_label (ItemName name) = name"
| "threat_label (ItemLabel label) = (if label \<noteq> [] then label else ''unknown'')"

definition threat_items :: "datetime \<Rightarrow> ThreatItem list \<Rightarrow> string \<Rightarrow> RiskEvidence list" where
  "threat_items clk items kind =
     map (\<lambda>(index, item).
       create_evidence clk SrcThreatSurface CatThreat (kind @ '':'' @ nat_digits index) SevMedium
         zero_score (confidence_from_score (ti_confidence item))
         (title_case (spaced kind) @ '': '' @ threat_label (ti_label item))
         (Some [(key_signal, PyStr kind),
                (''entity_name'', PyStr (threat_label (ti_label item))),
                (''entity_address'', py_opt PyStr (ti_address item)),
                (''detection_source'', PyStr (ti_detection_source item))]) None)
       (List.enumerate 0 items)"

definition attack_path_items :: "datetime \<Rightarrow> AttackPathData list \<Rightarrow> RiskEvidence list" where
  "attack_path_items clk attack_paths =
     map (\<lambda>(index, p).
       create_evidence clk SrcThreatSurface CatThreat (''attack_path:'' @ nat_digits index) SevHigh
         zero_score (confidence_from_score (ap_confidence p))
         (''Attack path identified: '' @ ap_name p)
         (Some [(key_signal, PyStr ''attack_path''),
                (''attack_path'', PyStr (ap_name p)),
                (''steps'', PyList (map PyStr (ap_steps p))),
                (''detection_source'', PyStr (ap_detection_source p))]) None)
       (List.enumerate 0 attack_paths)"

definition critical_asset_items :: "datetime \<Rightarrow> CriticalAssetData list \<Rightarrow> RiskEvidence list" where
  "critical_asset_items clk assets =
     map (\<lambda>(index, a).
       create_evidence clk SrcThreatSurface CatThreat (''critical_asset:'' @ nat_digits index)
         SevMedium zero_score (confidence_from_score (ca_confidence a))
         (''Critical asset identified: '' @ ca_label a)
         (Some [(key_signal, PyStr ''critical_asset''),
                (''entity_name'', PyStr (ca_label a)),
                (''entity_address'', py_opt PyStr (ca_address a)),
                (''asset_type'', PyStr (ca_asset_type a))]) None)
       (List.enumerate 0 assets)"

definition from_threat_surface_analysis :: "datetime \<Rightarrow> ThreatSurfaceData \<Rightarrow> RiskEvidence list" where
  "from_threat_surface_analysis clk d =
     threat_items clk (ts_external_dependencies d) ''dependency''
     @ threat_items clk (ts_trust_boundaries d) ''trust_boundary''
     @ threat_items clk (ts_privileged_entities d) ''privileged_entity''
     @ attack_path_items clk (ts_attack_paths d)
     @ critical_asset_items clk (ts_critical_assets d)"

section \<open>The bundle (RiskEvidenceBundle, RiskEvidenceBuilder.build)\<close>

record RiskEvidenceBundle =
  bu_contract_input :: "ContractRiskInput option"
  bu_governance :: "GovernanceAnalysisData option"
  bu_liquidity :: "LiquidityAnalysisData option"
  bu_wallet :: "WalletIntelligenceData option"
  bu_protocol :: "ProtocolIntelligenceData option"
  bu_threat_surface :: "ThreatSurfaceData option"

definition scoring_evidence :: "EnumValues \<Rightarrow> datetime \<Rightarrow> RiskEvidenceBundle \<Rightarrow> RiskEvidence list" where
  "scoring_evidence V clk bundle =
     (case bu_contract_input bundle of
        Some f \<Rightarrow> from_contract_risk_input V clk f
      | None \<Rightarrow>
          case_option [] (from_governance_analysis clk) (bu_governance bundle)
          @ case_option [] (from_liquidity_analysis clk) (bu_liquidity bundle)
          @ case_option [] (from_wallet_intelligence clk) (bu_wallet bundle))"

definition supplemental_evidence :: "datetime \<Rightarrow> RiskEvidenceBundle \<Rightarrow> RiskEvidence list" where
  "supplemental_evidence clk bundle =
     (case bu_protocol bundle of
        Some p \<Rightarrow>
          from_protocol_intelligence clk p
          @ from_protocol_relationship_analysis clk (pi_relationships p)
          @ from_threat_surface_analysis clk (pi_threat_surface p)
      | None \<Rightarrow> case_option [] (from_threat_surface_analysis clk) (bu_threat_surface bundle))"

definition build_evidence :: "EnumValues \<Rightarrow> datetime \<Rightarrow> RiskEvidenceBundle \<Rightarrow> RiskEvidence list" where
  "build_evidence V clk bundle =
     merge_evidence [scoring_evidence V clk bundle, supplemental_evidence clk bundle]"

end
