(* ===== verification/Reanalysis.thy ===== *)
theory Reanalysis
  imports ChangeDetection EvidenceBuilder
begin

text \<open>
  Selective re-analysis (\<open>continuous/reanalysis/\<close>): the impact table, the module selector, the
  planner, the evidence delta and the orchestrator that runs the planned modules. The module
  executor is an argument of the orchestrator, as its \<open>ModuleExecutor\<close> interface is in the code;
  the executor over the evidence builder and the one over given handlers are modelled below.
\<close>

section \<open>Models (models.py)\<close>

datatype ReanalysisModule =
  ModCapability | ModProtocol | ModThreat | ModGovernance | ModLiquidity | ModRelationship

fun module_value :: "ReanalysisModule \<Rightarrow> string" where
  "module_value ModCapability = ''capability''"
| "module_value ModProtocol = ''protocol''"
| "module_value ModThreat = ''threat''"
| "module_value ModGovernance = ''governance''"
| "module_value ModLiquidity = ''liquidity''"
| "module_value ModRelationship = ''relationship''"

record ExecutionPlan =
  pl_plan_id :: string
  pl_watch_id :: string
  pl_modules :: "ReanalysisModule list"
  pl_triggered_by :: "ChangeType list"
  pl_affected_contracts :: "string list"
  pl_metadata :: metadata

record EvidenceDelta =
  de_added :: "RiskEvidence list"
  de_removed :: "RiskEvidence list"
  de_updated :: "(RiskEvidence \<times> RiskEvidence) list"

record ReanalysisMetrics =
  rm_modules_planned :: nat
  rm_modules_executed :: nat
  rm_duration_ms :: rat
  rm_evidence_added_count :: nat
  rm_evidence_removed_count :: nat
  rm_evidence_updated_count :: nat

record ReanalysisResult =
  rr_watch_id :: string
  rr_execution_plan :: ExecutionPlan
  rr_executed_modules :: "ReanalysisModule list"
  rr_new_evidence :: "RiskEvidence list"
  rr_evidence_delta :: EvidenceDelta
  rr_metrics :: ReanalysisMetrics
  rr_change_result :: ChangeDetectionResult

section \<open>Impact analysis and module selection (impact\_analyzer.py, module\_selector.py)\<close>

fun modules_for_change :: "ChangeType \<Rightarrow> ReanalysisModule list" where
  "modules_for_change ImplementationChanged = [ModCapability, ModProtocol, ModThreat]"
| "modules_for_change OwnerChanged = [ModGovernance, ModThreat]"
| "modules_for_change ProxyAdminChanged = [ModGovernance, ModThreat]"
| "modules_for_change GovernanceChanged = [ModGovernance, ModThreat]"
| "modules_for_change LiquidityChanged = [ModLiquidity]"
| "modules_for_change TreasuryChanged = [ModGovernance, ModThreat]"
| "modules_for_change BytecodeChanged = [ModCapability, ModProtocol, ModThreat]"
| "modules_for_change DependencyChanged = [ModProtocol, ModRelationship]"
| "modules_for_change RuntimeFingerprintChanged = [ModProtocol, ModThreat]"

definition modules_for_event :: "ChangeEvent \<Rightarrow> ReanalysisModule list" where
  "modules_for_event event = modules_for_change (ce_change_type event)"

definition affected_contracts :: "ChangeEvent list \<Rightarrow> string list" where
  "affected_contracts events = sorted_set (concat (map ce_affected_contracts events))"

definition module_order :: "ReanalysisModule list" where
  "module_order =
     [ModCapability, ModGovernance, ModLiquidity, ModProtocol, ModRelationship, ModThreat]"

definition select_modules :: "ChangeEvent list \<Rightarrow> ReanalysisModule list" where
  "select_modules events =
     (let selected = concat (map modules_for_event events)
      in filter (\<lambda>m. m \<in> set selected) module_order)"

text \<open>A set of change types sorted by value.\<close>

definition triggered_change_types :: "ChangeEvent list \<Rightarrow> ChangeType list" where
  "triggered_change_types events =
     sort_key change_type_value (remdups (map ce_change_type events))"

section \<open>Execution plans (execution\_plan.py, planner.py)\<close>

definition plan_id_of ::
  "(string \<Rightarrow> string) \<Rightarrow> string \<Rightarrow> ReanalysisModule list \<Rightarrow> ChangeType list \<Rightarrow> string" where
  "plan_id_of H watch modules triggered_by =
     (let payload = join ''|'' [watch, join '','' (map module_value modules),
                       join '','' (map change_type_value triggered_by)]
      in watch @ '':plan:'' @ H payload)"

definition build_execution_plan ::
  "(string \<Rightarrow> string) \<Rightarrow> ChangeDetectionResult \<Rightarrow> ReanalysisModule list \<Rightarrow> ExecutionPlan" where
  "build_execution_plan H change_result modules =
     (let triggered_by = triggered_change_types (cr_changes change_result);
          affected = affected_contracts (cr_changes change_result)
      in \<lparr>pl_plan_id = plan_id_of H (cr_watch_id change_result) modules triggered_by,
          pl_watch_id = cr_watch_id change_result,
          pl_modules = modules,
          pl_triggered_by = triggered_by,
          pl_affected_contracts = affected,
          pl_metadata =
            [(''baseline_snapshot_id'', PyStr (cr_baseline_snapshot_id change_result)),
             (''current_snapshot_id'', PyStr (cr_current_snapshot_id change_result))]\<rparr>)"

definition plan :: "(string \<Rightarrow> string) \<Rightarrow> ChangeDetectionResult \<Rightarrow> ExecutionPlan" where
  "plan H change_result =
     (if cr_unchanged change_result then build_execution_plan H change_result []
      else build_execution_plan H change_result (select_modules (cr_changes change_result)))"

section \<open>Evidence delta (delta\_builder.py)\<close>

definition evidence_changed :: "RiskEvidence \<Rightarrow> RiskEvidence \<Rightarrow> bool" where
  "evidence_changed before after \<longleftrightarrow>
     \<not> dec_eq (ev_score before) (ev_score after)
     \<or> ev_severity before \<noteq> ev_severity after
     \<or> ev_confidence before \<noteq> ev_confidence after
     \<or> ev_reason before \<noteq> ev_reason after
     \<or> \<not> meta_eq (ev_metadata before) (ev_metadata after)"

definition evidence_index :: "RiskEvidence list \<Rightarrow> (string, RiskEvidence) dict" where
  "evidence_index items = dict_of ev_id (\<lambda>e. e) items"

text \<open>One pass of each loop: the items are visited in the order of their identifiers.\<close>

definition build_delta :: "RiskEvidence list \<Rightarrow> RiskEvidence list \<Rightarrow> EvidenceDelta" where
  "build_delta previous current =
     (let previous_index = evidence_index previous;
          current_index = evidence_index current;
          visited = sort_key fst current_index
      in \<lparr>de_added = map snd (filter (\<lambda>(i, e). map_of previous_index i = None) visited),
          de_removed = map snd (filter (\<lambda>(i, e). i \<notin> set (dict_keys current_index))
            (sort_key fst previous_index)),
          de_updated = concat (map (\<lambda>(i, e). case map_of previous_index i of
              None \<Rightarrow> []
            | Some prior \<Rightarrow> if evidence_changed prior e then [(prior, e)] else []) visited)\<rparr>)"

section \<open>Executors and orchestrator (orchestrator.py)\<close>

record 'b ReanalysisContext =
  cx_watch_id :: string
  cx_chain_id :: int
  cx_root_address :: string
  cx_affected_contracts :: "string list"
  cx_change_result :: ChangeDetectionResult
  cx_bundles :: "(ReanalysisModule, 'b) dict"

text \<open>
  The protocol intelligence always carries a threat surface (the schema fills in an empty one), so the
  surface of the bundle itself counts only without it.
\<close>

definition evidence_for_threat :: "datetime \<Rightarrow> RiskEvidenceBundle \<Rightarrow> RiskEvidence list" where
  "evidence_for_threat clk bundle =
     (case bu_protocol bundle of
        Some p \<Rightarrow> from_threat_surface_analysis clk (pi_threat_surface p)
      | None \<Rightarrow> case_option [] (from_threat_surface_analysis clk) (bu_threat_surface bundle))"

definition evidence_for_module ::
  "EnumValues \<Rightarrow> datetime \<Rightarrow> ReanalysisModule \<Rightarrow> RiskEvidenceBundle \<Rightarrow> RiskEvidence list" where
  "evidence_for_module V clk m bundle =
     (case m of
        ModGovernance \<Rightarrow> case_option [] (from_governance_analysis clk) (bu_governance bundle)
      | ModLiquidity \<Rightarrow> case_option [] (from_liquidity_analysis clk) (bu_liquidity bundle)
      | ModProtocol \<Rightarrow> case_option [] (from_protocol_intelligence clk) (bu_protocol bundle)
      | ModRelationship \<Rightarrow>
          case_option [] (\<lambda>p. from_protocol_relationship_analysis clk (pi_relationships p))
            (bu_protocol bundle)
      | ModThreat \<Rightarrow> evidence_for_threat clk bundle
      | ModCapability \<Rightarrow> case_option [] (from_contract_risk_input V clk) (bu_contract_input bundle))"

definition builder_execute ::
  "EnumValues \<Rightarrow> datetime \<Rightarrow> ReanalysisModule \<Rightarrow> RiskEvidenceBundle ReanalysisContext \<Rightarrow>
   RiskEvidence list result" where
  "builder_execute V clk m ctx =
     (case map_of (cx_bundles ctx) m of
        None \<Rightarrow> Inr []
      | Some bundle \<Rightarrow> Inr (evidence_for_module V clk m bundle))"

definition callable_execute ::
  "(ReanalysisModule, 'b ReanalysisContext \<Rightarrow> RiskEvidence list result) dict \<Rightarrow> ReanalysisModule \<Rightarrow>
   'b ReanalysisContext \<Rightarrow> RiskEvidence list result" where
  "callable_execute handlers m ctx =
     (case map_of handlers m of None \<Rightarrow> Inr [] | Some handler \<Rightarrow> handler ctx)"

definition build_metrics ::
  "ExecutionPlan \<Rightarrow> ReanalysisModule list \<Rightarrow> EvidenceDelta \<Rightarrow> rat \<Rightarrow> ReanalysisMetrics" where
  "build_metrics pl executed delta duration_ms =
     \<lparr>rm_modules_planned = length (pl_modules pl),
      rm_modules_executed = length executed,
      rm_duration_ms = duration_ms,
      rm_evidence_added_count = length (de_added delta),
      rm_evidence_removed_count = length (de_removed delta),
      rm_evidence_updated_count = length (de_updated delta)\<rparr>"

text \<open>\<open>(root_address or watch_id.split('':'', 1)[-1]).lower()\<close>.\<close>

definition root_address_of :: "string option \<Rightarrow> string \<Rightarrow> string" where
  "root_address_of root_address watch =
     lower (case root_address of
        Some a \<Rightarrow> if a \<noteq> [] then a else case_option watch id (after_first CHR '':'' watch)
      | None \<Rightarrow> case_option watch id (after_first CHR '':'' watch))"

text \<open>The loop over the planned modules: the executed modules and their evidence groups so far.\<close>

fun execute_modules ::
  "(ReanalysisModule \<Rightarrow> 'x \<Rightarrow> RiskEvidence list result) \<Rightarrow> 'x \<Rightarrow> ReanalysisModule list \<Rightarrow>
   ReanalysisModule list \<Rightarrow> RiskEvidence list list \<Rightarrow>
   (ReanalysisModule list \<times> RiskEvidence list list) result" where
  "execute_modules execute ctx [] executed groups = Inr (executed, groups)"
| "execute_modules execute ctx (m # ms) executed groups =
     bindR (execute m ctx) (\<lambda>module_evidence.
       execute_modules execute ctx ms (executed @ [m]) (groups @ [module_evidence]))"

definition reanalysis_context ::
  "ChangeDetectionResult \<Rightarrow> ExecutionPlan \<Rightarrow> int \<Rightarrow> string option \<Rightarrow> (ReanalysisModule, 'b) dict option \<Rightarrow>
   'b ReanalysisContext" where
  "reanalysis_context change_result pl chain_id root_address bundles =
     \<lparr>cx_watch_id = cr_watch_id change_result,
      cx_chain_id = chain_id,
      cx_root_address = root_address_of root_address (cr_watch_id change_result),
      cx_affected_contracts = pl_affected_contracts pl,
      cx_change_result = change_result,
      cx_bundles = case_option [] id bundles\<rparr>"

definition run_reanalysis ::
  "(string \<Rightarrow> string) \<Rightarrow> (ReanalysisModule \<Rightarrow> 'b ReanalysisContext \<Rightarrow> RiskEvidence list result) \<Rightarrow> rat \<Rightarrow>
   ChangeDetectionResult \<Rightarrow> RiskEvidence list \<Rightarrow> int \<Rightarrow> string option \<Rightarrow>
   (ReanalysisModule, 'b) dict option \<Rightarrow> ReanalysisResult result" where
  "run_reanalysis H execute duration_ms change_result previous_evidence chain_id root_address bundles =
     (let pl = plan H change_result;
          ctx = reanalysis_context change_result pl chain_id root_address bundles
      in bindR (execute_modules execute ctx (pl_modules pl) [] []) (\<lambda>(executed, groups).
           let new_evidence = merge_evidence groups;
               delta = build_delta previous_evidence new_evidence
           in Inr \<lparr>rr_watch_id = cr_watch_id change_result,
                   rr_execution_plan = pl,
                   rr_executed_modules = executed,
                   rr_new_evidence = new_evidence,
                   rr_evidence_delta = delta,
                   rr_metrics = build_metrics pl executed delta duration_ms,
                   rr_change_result = change_result\<rparr>))"

end
