(* ===== verification/RiskDelta.thy ===== *)
theory RiskDelta
  imports Reanalysis
begin

text \<open>
  Risk posture deltas (\<open>continuous/risk_delta/\<close>): summaries of evidence bundles
  (\<open>severity_mapper.py\<close>), the trend classifier, the explainer and the delta engine.
\<close>

section \<open>Models (models.py)\<close>

datatype RiskTrend = TrendIncreased | TrendDecreased | TrendUnchanged

fun trend_value :: "RiskTrend \<Rightarrow> string" where
  "trend_value TrendIncreased = ''increased''"
| "trend_value TrendDecreased = ''decreased''"
| "trend_value TrendUnchanged = ''unchanged''"

record EvidenceBundle =
  eb_watch_id :: string
  eb_evidence :: "RiskEvidence list"
  eb_captured_at :: datetime

record RiskSummary =
  su_watch_id :: string
  su_total_score :: decimal
  su_evidence_count :: nat
  su_max_severity :: EvidenceSeverity
  su_severity_counts :: "(string \<times> nat) list"
  su_intelligence_domains :: "string list"

record RiskDelta =
  rd_watch_id :: string
  rd_previous_summary :: RiskSummary
  rd_current_summary :: RiskSummary
  rd_score_delta :: decimal
  rd_added :: "RiskEvidence list"
  rd_removed :: "RiskEvidence list"
  rd_updated :: "(RiskEvidence \<times> RiskEvidence) list"
  rd_trend :: RiskTrend

record RiskDeltaExplanation =
  rx_headline :: string
  rx_reasons :: "string list"
  rx_contributing_evidence_ids :: "string list"
  rx_affected_domains :: "string list"
  rx_metadata :: metadata

record EvidenceSummary =
  es_added_count :: nat
  es_removed_count :: nat
  es_updated_count :: nat
  es_affected_domains :: "string list"
  es_contributing_signals :: "string list"

record RiskDeltaReport =
  rp_watch_id :: string
  rp_delta :: RiskDelta
  rp_previous_summary :: RiskSummary
  rp_current_summary :: RiskSummary
  rp_trend :: RiskTrend
  rp_explanation :: RiskDeltaExplanation
  rp_evidence_summary :: EvidenceSummary

section \<open>Summaries (severity\_mapper.py)\<close>

fun intelligence_domain :: "EvidenceSource \<Rightarrow> string" where
  "intelligence_domain SrcGovernance = ''governance''"
| "intelligence_domain SrcLiquidity = ''liquidity''"
| "intelligence_domain SrcWallet = ''wallet''"
| "intelligence_domain SrcProtocol = ''protocol''"
| "intelligence_domain SrcRelationship = ''relationship''"
| "intelligence_domain SrcThreatSurface = ''threat''"
| "intelligence_domain SrcProxy = ''protocol''"
| "intelligence_domain SrcCapability = ''capability''"
| "intelligence_domain SrcHoneypot = ''honeypot''"
| "intelligence_domain SrcSimulation = ''simulation''"
| "intelligence_domain SrcClassification = ''classification''"
| "intelligence_domain SrcSystem = ''system''"

definition evidence_signal :: "RiskEvidence \<Rightarrow> string" where
  "evidence_signal e =
     (let signal = py_get (ev_metadata e) key_signal
      in if py_truthy signal then py_str signal else after_last CHR '':'' (ev_id e))"

definition decimal_zero :: decimal where
  "decimal_zero = Dec 0 2"

definition score_contribution :: "RiskEvidence \<Rightarrow> decimal" where
  "score_contribution e =
     (if py_truthy (py_get (ev_metadata e) key_reason_only) then decimal_zero else ev_score e)"

text \<open>The accumulators of the loop over the evidence.\<close>

record SummaryState =
  ss_total :: decimal
  ss_counts :: "(string, nat) dict"
  ss_domains :: "string list"
  ss_max :: EvidenceSeverity

definition summary_start :: SummaryState where
  "summary_start =
     \<lparr>ss_total = decimal_zero, ss_counts = map (\<lambda>s. (severity_value s, 0)) severity_order,
      ss_domains = [], ss_max = SevInfo\<rparr>"

definition summary_step :: "RiskEvidence \<Rightarrow> SummaryState \<Rightarrow> SummaryState" where
  "summary_step item st =
     \<lparr>ss_total = dec_add (ss_total st) (score_contribution item),
      ss_counts = AList.update (severity_value (ev_severity item))
        (dict_get (ss_counts st) (severity_value (ev_severity item)) 0 + 1) (ss_counts st),
      ss_domains = intelligence_domain (ev_source item) # ss_domains st,
      ss_max = (if severity_rank (ss_max st) \<le> severity_rank (ev_severity item)
        then ev_severity item else ss_max st)\<rparr>"

definition summarize_evidence :: "string \<Rightarrow> RiskEvidence list \<Rightarrow> RiskSummary" where
  "summarize_evidence watch evidence =
     (let st = fold summary_step evidence summary_start
      in \<lparr>su_watch_id = watch,
          su_total_score = ss_total st,
          su_evidence_count = length evidence,
          su_max_severity = ss_max st,
          su_severity_counts = sort_key fst (ss_counts st),
          su_intelligence_domains = sorted_set (ss_domains st)\<rparr>)"

definition summarize_bundle :: "EvidenceBundle \<Rightarrow> RiskSummary" where
  "summarize_bundle bundle = summarize_evidence (eb_watch_id bundle) (eb_evidence bundle)"

definition domains_for_evidence :: "RiskEvidence list \<Rightarrow> string list" where
  "domains_for_evidence evidence = sorted_set (map (\<lambda>e. intelligence_domain (ev_source e)) evidence)"

section \<open>Trend (delta\_classifier.py)\<close>

definition computed_delta :: "EvidenceDelta \<Rightarrow> decimal" where
  "computed_delta delta =
     dec_add (dec_sub (dec_sum (map score_contribution (de_added delta)))
                      (dec_sum (map score_contribution (de_removed delta))))
       (dec_sum (map (\<lambda>(before, after). dec_sub (score_contribution after) (score_contribution before))
         (de_updated delta)))"

definition score_delta :: "RiskSummary \<Rightarrow> RiskSummary \<Rightarrow> EvidenceDelta \<Rightarrow> decimal" where
  "score_delta previous current delta =
     (let computed = computed_delta delta;
          summary_delta = dec_sub (su_total_score current) (su_total_score previous)
      in if dec_eq computed summary_delta then computed else summary_delta)"

definition has_material_changes :: "EvidenceDelta \<Rightarrow> bool" where
  "has_material_changes delta \<longleftrightarrow> de_added delta \<noteq> [] \<or> de_removed delta \<noteq> [] \<or> de_updated delta \<noteq> []"

definition classify_trend :: "RiskSummary \<Rightarrow> RiskSummary \<Rightarrow> EvidenceDelta \<Rightarrow> RiskTrend" where
  "classify_trend previous current delta =
     (let d = score_delta previous current delta
      in if dec_less decimal_zero d then TrendIncreased
         else if dec_less d decimal_zero then TrendDecreased
         else if has_material_changes delta then TrendUnchanged
         else TrendUnchanged)"

section \<open>Explanation (delta\_explainer.py)\<close>

definition changed_evidence :: "EvidenceDelta \<Rightarrow> RiskEvidence list" where
  "changed_evidence delta = de_added delta @ de_removed delta @ map snd (de_updated delta)"

definition item_reason :: "string \<Rightarrow> RiskEvidence \<Rightarrow> string" where
  "item_reason verb item =
     verb @ '' '' @ intelligence_domain (ev_source item) @ '' evidence '' @ [CHR 0x27]
     @ evidence_signal item @ [CHR 0x27] @ '' ('' @ severity_value (ev_severity item) @ '', score ''
     @ dec_str (score_contribution item) @ '')''"

definition update_reason :: "RiskEvidence \<times> RiskEvidence \<Rightarrow> string" where
  "update_reason pair =
     (let before = fst pair; after = snd pair;
          delta = dec_sub (score_contribution after) (score_contribution before)
      in ''Updated '' @ intelligence_domain (ev_source after) @ '' evidence '' @ [CHR 0x27]
         @ evidence_signal after @ [CHR 0x27] @ '' (score delta '' @ dec_str delta @ '')'')"

definition build_delta_reasons :: "RiskTrend \<Rightarrow> EvidenceDelta \<Rightarrow> string list" where
  "build_delta_reasons trend delta =
     (let reasons = map (item_reason ''Added'') (de_added delta)
            @ map (item_reason ''Removed'') (de_removed delta)
            @ map update_reason (de_updated delta);
          reasons = (if reasons = [] \<and> trend = TrendUnchanged
            then [''No material risk evidence changes detected''] else reasons)
      in sort reasons)"

definition contributing_ids :: "EvidenceDelta \<Rightarrow> string list" where
  "contributing_ids delta = sorted_set (map ev_id (changed_evidence delta))"

definition affected_domains :: "EvidenceDelta \<Rightarrow> string list" where
  "affected_domains delta = domains_for_evidence (changed_evidence delta)"

definition headline :: "RiskTrend \<Rightarrow> RiskSummary \<Rightarrow> RiskSummary \<Rightarrow> string" where
  "headline trend previous current =
     (case trend of
        TrendIncreased \<Rightarrow> ''Protocol risk posture increased from '' @ dec_str (su_total_score previous)
          @ '' to '' @ dec_str (su_total_score current)
      | TrendDecreased \<Rightarrow> ''Protocol risk posture decreased from '' @ dec_str (su_total_score previous)
          @ '' to '' @ dec_str (su_total_score current)
      | TrendUnchanged \<Rightarrow> ''Protocol risk posture unchanged at '' @ dec_str (su_total_score current))"

definition explain :: "RiskTrend \<Rightarrow> RiskSummary \<Rightarrow> RiskSummary \<Rightarrow> EvidenceDelta \<Rightarrow> RiskDeltaExplanation" where
  "explain trend previous current delta =
     \<lparr>rx_headline = headline trend previous current,
      rx_reasons = build_delta_reasons trend delta,
      rx_contributing_evidence_ids = contributing_ids delta,
      rx_affected_domains = affected_domains delta,
      rx_metadata =
        [(''previous_total_score'', PyStr (dec_str (su_total_score previous))),
         (''current_total_score'', PyStr (dec_str (su_total_score current))),
         (''trend'', PyStr (trend_value trend))]\<rparr>"

section \<open>Engine (delta\_engine.py)\<close>

definition build_evidence_summary :: "EvidenceDelta \<Rightarrow> EvidenceSummary" where
  "build_evidence_summary delta =
     \<lparr>es_added_count = length (de_added delta),
      es_removed_count = length (de_removed delta),
      es_updated_count = length (de_updated delta),
      es_affected_domains = domains_for_evidence (changed_evidence delta),
      es_contributing_signals = sorted_set (map evidence_signal (changed_evidence delta))\<rparr>"

definition compute_risk_delta ::
  "EvidenceDelta \<Rightarrow> EvidenceBundle \<Rightarrow> EvidenceBundle \<Rightarrow> RiskDeltaReport result" where
  "compute_risk_delta delta previous current =
     (if eb_watch_id previous \<noteq> eb_watch_id current
      then Inl (ValueError ''previous and current bundles must share the same watch_id'')
      else
        (let previous_summary = summarize_bundle previous;
             current_summary = summarize_bundle current;
             trend = classify_trend previous_summary current_summary delta
         in Inr \<lparr>rp_watch_id = eb_watch_id previous,
                 rp_delta = \<lparr>rd_watch_id = eb_watch_id previous,
                   rd_previous_summary = previous_summary,
                   rd_current_summary = current_summary,
                   rd_score_delta = score_delta previous_summary current_summary delta,
                   rd_added = de_added delta,
                   rd_removed = de_removed delta,
                   rd_updated = de_updated delta,
                   rd_trend = trend\<rparr>,
                 rp_previous_summary = previous_summary,
                 rp_current_summary = current_summary,
                 rp_trend = trend,
                 rp_explanation = explain trend previous_summary current_summary delta,
                 rp_evidence_summary = build_evidence_summary delta\<rparr>))"

end
