(* ===== verification/Alerting.thy ===== *)
theory Alerting
  imports RiskDelta
begin

text \<open>
  Alert generation (\<open>continuous/alerting/\<close>): the rules that turn a risk delta report into candidate
  alerts, deduplication, suppression by policy, routing and the notification formatter. Text with
  characters outside ASCII (the dash of the Slack message) is given by its UTF-8 bytes.
\<close>

section \<open>Models (models.py)\<close>

datatype AckState = AckPending | AckAcknowledged | AckSuppressed

fun ack_value :: "AckState \<Rightarrow> string" where
  "ack_value AckPending = ''pending''"
| "ack_value AckAcknowledged = ''acknowledged''"
| "ack_value AckSuppressed = ''suppressed''"

datatype AlertRuleType =
    RuleCriticalRiskIncrease | RuleHighRiskIncrease | RuleGovernanceChange
  | RuleImplementationChange | RuleOwnershipChange | RuleTreasuryChange
  | RuleRuntimeExploitIndicator | RuleNewCriticalEvidence

fun rule_type_value :: "AlertRuleType \<Rightarrow> string" where
  "rule_type_value RuleCriticalRiskIncrease = ''critical_risk_increase''"
| "rule_type_value RuleHighRiskIncrease = ''high_risk_increase''"
| "rule_type_value RuleGovernanceChange = ''governance_change''"
| "rule_type_value RuleImplementationChange = ''implementation_change''"
| "rule_type_value RuleOwnershipChange = ''ownership_change''"
| "rule_type_value RuleTreasuryChange = ''treasury_change''"
| "rule_type_value RuleRuntimeExploitIndicator = ''runtime_exploit_indicator''"
| "rule_type_value RuleNewCriticalEvidence = ''new_critical_evidence''"

datatype NotificationChannel = ChanEmail | ChanSlack | ChanDiscord | ChanWebhook | ChanPagerduty | ChanSiem

fun channel_value :: "NotificationChannel \<Rightarrow> string" where
  "channel_value ChanEmail = ''email''"
| "channel_value ChanSlack = ''slack''"
| "channel_value ChanDiscord = ''discord''"
| "channel_value ChanWebhook = ''webhook''"
| "channel_value ChanPagerduty = ''pagerduty''"
| "channel_value ChanSiem = ''siem''"

record AlertPolicy =
  ap_minimum_severity :: EvidenceSeverity
  ap_cooldown_seconds :: int
  ap_suppress_duplicates :: bool
  ap_respect_acknowledgements :: bool

definition default_alert_policy :: AlertPolicy where
  "default_alert_policy =
     \<lparr>ap_minimum_severity = SevMedium, ap_cooldown_seconds = 3600, ap_suppress_duplicates = True,
      ap_respect_acknowledgements = True\<rparr>"

record SecurityAlert =
  al_alert_id :: string
  al_severity :: EvidenceSeverity
  al_title :: string
  al_summary :: string
  al_affected_protocol :: string
  al_affected_contracts :: "string list"
  al_evidence_references :: "string list"
  al_timestamp :: datetime
  al_acknowledgement_state :: AckState
  al_rule_type :: AlertRuleType
  al_metadata :: metadata

record SuppressedAlert =
  sa_alert_id :: string
  sa_rule_type :: AlertRuleType
  sa_reason :: string
  sa_candidate :: SecurityAlert

record RoutingDecision =
  ro_alert_id :: string
  ro_channels :: "NotificationChannel list"
  ro_priority :: string
  ro_metadata :: metadata

record AlertBatch =
  ab_watch_id :: string
  ab_generated_alerts :: "SecurityAlert list"
  ab_suppressed_alerts :: "SuppressedAlert list"
  ab_routing :: "RoutingDecision list"
  ab_generated_at :: datetime

section \<open>Deduplication (deduplicator.py)\<close>

definition build_alert_id :: "(string \<Rightarrow> string) \<Rightarrow> string \<Rightarrow> AlertRuleType \<Rightarrow> string list \<Rightarrow> string" where
  "build_alert_id H watch rule_type evidence_ids =
     (let fingerprint = join ''|'' [watch, rule_type_value rule_type, join '','' (sort evidence_ids)]
      in watch @ '':alert:'' @ rule_type_value rule_type @ '':'' @ H fingerprint)"

definition alert_sort_key :: "SecurityAlert \<Rightarrow> string \<times> string \<times> string" where
  "alert_sort_key a = (severity_value (al_severity a), rule_type_value (al_rule_type a), al_alert_id a)"

text \<open>The loop with its \<open>seen\<close> set: the first alert of an identifier is unique, later ones duplicates.\<close>

fun dedup_loop :: "string list \<Rightarrow> SecurityAlert list \<Rightarrow> SecurityAlert list \<times> SecurityAlert list" where
  "dedup_loop seen [] = ([], [])"
| "dedup_loop seen (a # alerts) =
     (if al_alert_id a \<in> set seen
      then (let (unique, duplicates) = dedup_loop seen alerts in (unique, a # duplicates))
      else (let (unique, duplicates) = dedup_loop (al_alert_id a # seen) alerts
            in (a # unique, duplicates)))"

definition deduplicate_batch :: "SecurityAlert list \<Rightarrow> SecurityAlert list \<times> SecurityAlert list" where
  "deduplicate_batch candidates = dedup_loop [] (sort_key alert_sort_key candidates)"

definition filter_recent :: "string list \<Rightarrow> SecurityAlert list \<Rightarrow> SecurityAlert list \<times> SecurityAlert list" where
  "filter_recent recent_alert_ids alerts =
     (filter (\<lambda>a. al_alert_id a \<notin> set recent_alert_ids) alerts,
      filter (\<lambda>a. al_alert_id a \<in> set recent_alert_ids) alerts)"

section \<open>Rules (alert\_rules.py)\<close>

definition governance_signals :: "string list" where
  "governance_signals = [''owner_changed'', ''admin_authority'', ''proxyadmin_owner'']"

definition implementation_signals :: "string list" where
  "implementation_signals =
     [''implementation_changed'', ''upgradeable'', ''implementation_exposed'', ''proxy_execution'']"

definition ownership_signals :: "string list" where
  "ownership_signals = [''owner_changed'', ''ownership_capability'', ''proxyadmin_owner'']"

definition treasury_signals :: "string list" where
  "treasury_signals = [''treasury_multisig'', ''treasury_change'']"

definition runtime_signals :: "string list" where
  "runtime_signals =
     [''runtime_exploit'', ''runtime_selfdestruct'', ''delegatecall_chain'',
      ''unexpected_external_call'', ''flash_loan_callback'', ''state_transition_observed'']"

definition high_score_delta :: decimal where "high_score_delta = Dec 2000 2"
definition critical_score_delta :: decimal where "critical_score_delta = Dec 4000 2"

definition signal_matches :: "string \<Rightarrow> string list \<Rightarrow> bool" where
  "signal_matches signal candidates =
     (let normalized = lower signal
      in normalized \<in> set candidates \<or> list_ex (\<lambda>token. sublist token normalized) candidates)"

definition max_severity :: "EvidenceSeverity \<Rightarrow> EvidenceSeverity \<Rightarrow> EvidenceSeverity" where
  "max_severity current minimum =
     severity_order ! (max (index_of severity_order current) (index_of severity_order minimum))"

definition protocol_context :: "string \<Rightarrow> string \<times> string list" where
  "protocol_context watch =
     (case after_first CHR '':'' watch of
        Some address \<Rightarrow> (watch, [lower address])
      | None \<Rightarrow> (watch, []))"

definition build_alert ::
  "(string \<Rightarrow> string) \<Rightarrow> RiskDeltaReport \<Rightarrow> AlertRuleType \<Rightarrow> EvidenceSeverity \<Rightarrow> string \<Rightarrow> string \<Rightarrow>
   string list \<Rightarrow> datetime \<Rightarrow> SecurityAlert" where
  "build_alert H report rule_type severity title summary evidence_ids generated_at =
     (let (protocol, contracts) = protocol_context (rp_watch_id report)
      in \<lparr>al_alert_id = build_alert_id H (rp_watch_id report) rule_type evidence_ids,
          al_severity = severity,
          al_title = title,
          al_summary = summary,
          al_affected_protocol = protocol,
          al_affected_contracts = contracts,
          al_evidence_references = evidence_ids,
          al_timestamp = generated_at,
          al_acknowledgement_state = AckPending,
          al_rule_type = rule_type,
          al_metadata =
            [(''watch_id'', PyStr (rp_watch_id report)),
             (''trend'', PyStr (trend_value (rp_trend report))),
             (''score_delta'', PyStr (dec_str (rd_score_delta (rp_delta report))))]\<rparr>)"

definition risk_increase_rules :: "(string \<Rightarrow> string) \<Rightarrow> RiskDeltaReport \<Rightarrow> datetime \<Rightarrow> SecurityAlert list" where
  "risk_increase_rules H report generated_at =
     (let d = rd_score_delta (rp_delta report);
          worst = su_max_severity (rp_current_summary report);
          alert = (\<lambda>rule_type severity title.
            build_alert H report rule_type severity title (rx_headline (rp_explanation report))
              (rx_contributing_evidence_ids (rp_explanation report)) generated_at)
      in if rp_trend report \<noteq> TrendIncreased then []
         else if dec_le critical_score_delta d \<or> worst = SevCritical
         then [alert RuleCriticalRiskIncrease SevCritical ''Critical risk posture increase detected'']
         else if dec_le high_score_delta d \<or> worst = SevHigh
         then [alert RuleHighRiskIncrease SevHigh ''High risk posture increase detected'']
         else [])"

definition rules_for_added_evidence ::
  "(string \<Rightarrow> string) \<Rightarrow> RiskDeltaReport \<Rightarrow> datetime \<Rightarrow> RiskEvidence \<Rightarrow> SecurityAlert list" where
  "rules_for_added_evidence H report generated_at e =
     (let signal = evidence_signal e;
          alert = (\<lambda>rule_type severity title.
            build_alert H report rule_type severity title (ev_reason e) [ev_id e] generated_at)
      in (if ev_severity e = SevCritical
          then [alert RuleNewCriticalEvidence SevCritical (''New critical evidence detected: '' @ signal)]
          else [])
       @ (if signal_matches signal governance_signals
             \<or> intelligence_domain (ev_source e) = ''governance''
          then [alert RuleGovernanceChange (max_severity (ev_severity e) SevHigh)
                  ''Governance change detected'']
          else [])
       @ (if signal_matches signal implementation_signals \<or> ev_source e = SrcProxy
          then [alert RuleImplementationChange (max_severity (ev_severity e) SevCritical)
                  ''Implementation change detected'']
          else [])
       @ (if signal_matches signal ownership_signals
          then [alert RuleOwnershipChange (max_severity (ev_severity e) SevHigh)
                  ''Ownership change detected'']
          else [])
       @ (if signal_matches signal treasury_signals \<or> sublist ''treasury'' signal
          then [alert RuleTreasuryChange (max_severity (ev_severity e) SevHigh)
                  ''Treasury change detected'']
          else [])
       @ (if signal_matches signal runtime_signals
             \<or> ev_source e \<in> {SrcSimulation, SrcThreatSurface, SrcClassification}
          then [alert RuleRuntimeExploitIndicator (max_severity (ev_severity e) SevHigh)
                  ''Runtime exploit indicator detected'']
          else []))"

definition rules_for_updated_evidence ::
  "(string \<Rightarrow> string) \<Rightarrow> RiskDeltaReport \<Rightarrow> datetime \<Rightarrow> RiskEvidence \<times> RiskEvidence \<Rightarrow> SecurityAlert list" where
  "rules_for_updated_evidence H report generated_at pair =
     (let (before, after) = pair
      in if ev_severity after \<noteq> SevCritical then []
         else if ev_severity before = SevCritical then []
         else [build_alert H report RuleNewCriticalEvidence SevCritical
                 (''Evidence escalated to critical: '' @ evidence_signal after)
                 (ev_reason after) [ev_id after] generated_at])"

definition evidence_rules :: "(string \<Rightarrow> string) \<Rightarrow> RiskDeltaReport \<Rightarrow> datetime \<Rightarrow> SecurityAlert list" where
  "evidence_rules H report generated_at =
     concat (map (rules_for_added_evidence H report generated_at) (rd_added (rp_delta report)))
     @ concat (map (rules_for_updated_evidence H report generated_at) (rd_updated (rp_delta report)))"

definition evaluate_rules :: "(string \<Rightarrow> string) \<Rightarrow> RiskDeltaReport \<Rightarrow> datetime \<Rightarrow> SecurityAlert list" where
  "evaluate_rules H report generated_at =
     risk_increase_rules H report generated_at @ evidence_rules H report generated_at"

section \<open>Suppression (suppression.py)\<close>

definition meets_minimum_severity :: "EvidenceSeverity \<Rightarrow> EvidenceSeverity \<Rightarrow> bool" where
  "meets_minimum_severity current minimum \<longleftrightarrow>
     index_of severity_order minimum \<le> index_of severity_order current"

definition suppression_reason ::
  "AlertPolicy \<Rightarrow> (string, SecurityAlert) dict \<Rightarrow> datetime \<Rightarrow> SecurityAlert \<Rightarrow> string option result" where
  "suppression_reason policy recent_index now alert =
     (if \<not> meets_minimum_severity (al_severity alert) (ap_minimum_severity policy)
      then Inr (Some (''below minimum severity threshold (''
             @ severity_value (ap_minimum_severity policy) @ '')''))
      else case map_of recent_index (al_alert_id alert) of
        None \<Rightarrow> Inr None
      | Some prior \<Rightarrow>
          if ap_respect_acknowledgements policy \<and> al_acknowledgement_state prior = AckAcknowledged
          then Inr (Some ''alert acknowledged'')
          else if 0 < ap_cooldown_seconds policy
          then (let cooldown_until =
                      dt_add (al_timestamp prior) (ap_cooldown_seconds policy * us_per_second)
                in bindR (dt_less now cooldown_until) (\<lambda>active.
                     Inr (if active then Some (''cooldown active until '' @ isoformat cooldown_until)
                          else None)))
          else Inr None)"

definition delivery_key :: "SecurityAlert \<Rightarrow> string \<times> string" where
  "delivery_key a = (severity_value (al_severity a), al_alert_id a)"

definition suppressed_alert :: "string \<Rightarrow> SecurityAlert \<Rightarrow> SuppressedAlert" where
  "suppressed_alert reason alert =
     \<lparr>sa_alert_id = al_alert_id alert, sa_rule_type = al_rule_type alert, sa_reason = reason,
      sa_candidate = alert\<rparr>"

fun suppression_loop ::
  "AlertPolicy \<Rightarrow> (string, SecurityAlert) dict \<Rightarrow> datetime \<Rightarrow> SecurityAlert list \<Rightarrow>
   (SecurityAlert list \<times> SuppressedAlert list) result" where
  "suppression_loop policy recent_index now [] = Inr ([], [])"
| "suppression_loop policy recent_index now (alert # alerts) =
     bindR (suppression_reason policy recent_index now alert) (\<lambda>reason.
       bindR (suppression_loop policy recent_index now alerts) (\<lambda>(generated, suppressed).
         Inr (case reason of
                Some r \<Rightarrow> (generated, suppressed_alert r alert # suppressed)
              | None \<Rightarrow> (alert # generated, suppressed))))"

definition apply_suppression ::
  "AlertPolicy \<Rightarrow> SecurityAlert list \<Rightarrow> datetime \<Rightarrow> SecurityAlert list \<Rightarrow>
   (SecurityAlert list \<times> SuppressedAlert list) result" where
  "apply_suppression policy recent_alerts now alerts =
     suppression_loop policy (dict_of al_alert_id (\<lambda>a. a) recent_alerts) now
       (sort_key delivery_key alerts)"

definition acknowledge :: "SecurityAlert \<Rightarrow> SecurityAlert" where
  "acknowledge alert =
     alert\<lparr>al_acknowledgement_state := AckAcknowledged,
           al_metadata := AList.update ''acknowledged'' (PyBool True) (al_metadata alert)\<rparr>"

section \<open>Routing (router.py)\<close>

definition critical_channels :: "NotificationChannel list" where
  "critical_channels = [ChanPagerduty, ChanSlack, ChanEmail, ChanSiem]"

definition high_channels :: "NotificationChannel list" where
  "high_channels = [ChanSlack, ChanEmail, ChanWebhook]"

definition default_channels :: "NotificationChannel list" where
  "default_channels = [ChanWebhook, ChanEmail]"

definition channels_for_severity :: "EvidenceSeverity \<Rightarrow> NotificationChannel list" where
  "channels_for_severity s =
     (if s = SevCritical then critical_channels else if s = SevHigh then high_channels
      else default_channels)"

lemmas channels_simps =
  channels_for_severity_def critical_channels_def high_channels_def default_channels_def

definition routing_decision :: "SecurityAlert \<Rightarrow> RoutingDecision" where
  "routing_decision alert =
     \<lparr>ro_alert_id = al_alert_id alert,
      ro_channels = channels_for_severity (al_severity alert),
      ro_priority = severity_value (al_severity alert),
      ro_metadata =
        [(''rule_type'', PyStr (rule_type_value (al_rule_type alert))),
         (''affected_protocol'', PyStr (al_affected_protocol alert))]\<rparr>"

definition route :: "SecurityAlert list \<Rightarrow> RoutingDecision list" where
  "route alerts = map routing_decision (sort_key delivery_key alerts)"

section \<open>Engine (alert\_engine.py)\<close>

definition generate_alerts ::
  "(string \<Rightarrow> string) \<Rightarrow> datetime \<Rightarrow> RiskDeltaReport \<Rightarrow> AlertPolicy option \<Rightarrow> SecurityAlert list \<Rightarrow>
   datetime option \<Rightarrow> AlertBatch result" where
  "generate_alerts H clk report policy recent_alerts generated_at =
     (let timestamp = (case generated_at of None \<Rightarrow> clk | Some t \<Rightarrow> t);
          active_policy = (case policy of None \<Rightarrow> default_alert_policy | Some p \<Rightarrow> p);
          candidates = evaluate_rules H report timestamp;
          (unique, batch_duplicates) = deduplicate_batch candidates
      in bindR (apply_suppression active_policy recent_alerts timestamp unique)
           (\<lambda>(generated, suppressed).
             let duplicate_suppressed =
                   map (suppressed_alert ''duplicate alert identifier'') batch_duplicates;
                 generated_sorted = sort_key delivery_key generated
             in Inr \<lparr>ab_watch_id = rp_watch_id report,
                     ab_generated_alerts = generated_sorted,
                     ab_suppressed_alerts = sort_key sa_alert_id (suppressed @ duplicate_suppressed),
                     ab_routing = route generated_sorted,
                     ab_generated_at = timestamp\<rparr>))"

section \<open>Notification payloads (notification\_formatter.py)\<close>

definition or_na :: "string \<Rightarrow> string" where
  "or_na s = (if s = [] then ''n/a'' else s)"

definition newline :: string where "newline = [CHR 0x0A]"

definition plain_text :: "SecurityAlert \<Rightarrow> string" where
  "plain_text a =
     al_title a @ newline @ newline @ al_summary a @ newline @ newline
     @ ''Protocol: '' @ al_affected_protocol a @ newline
     @ ''Contracts: '' @ or_na (join '', '' (al_affected_contracts a)) @ newline
     @ ''Evidence: '' @ or_na (join '', '' (al_evidence_references a)) @ newline
     @ ''Severity: '' @ severity_value (al_severity a) @ newline"

definition slack_text :: "SecurityAlert \<Rightarrow> string" where
  "slack_text a =
     ''*'' @ al_title a @ ''* '' @ [CHR 0xE2, CHR 0x80, CHR 0x94] @ '' '' @ al_summary a
     @ '' ('' @ [CHR 0x60] @ severity_value (al_severity a) @ [CHR 0x60] @ '')''"

definition base_payload :: "SecurityAlert \<Rightarrow> metadata" where
  "base_payload a =
     [(''alert_id'', PyStr (al_alert_id a)),
      (''severity'', PyStr (severity_value (al_severity a))),
      (''title'', PyStr (al_title a)),
      (''summary'', PyStr (al_summary a)),
      (''protocol'', PyStr (al_affected_protocol a)),
      (''contracts'', PyList (map PyStr (al_affected_contracts a))),
      (''evidence_references'', PyList (map PyStr (al_evidence_references a))),
      (''timestamp'', PyStr (isoformat (al_timestamp a))),
      (''rule_type'', PyStr (rule_type_value (al_rule_type a))),
      (''acknowledgement_state'', PyStr (ack_value (al_acknowledgement_state a))),
      (''metadata'', PyDict (al_metadata a))]"

definition format_alert :: "SecurityAlert \<Rightarrow> NotificationChannel \<Rightarrow> metadata" where
  "format_alert a channel =
     (let payload = base_payload a
      in case channel of
           ChanSlack \<Rightarrow> AList.update ''text'' (PyStr (slack_text a)) payload
         | ChanEmail \<Rightarrow>
             AList.update ''body'' (PyStr (plain_text a))
               (AList.update ''subject''
                 (PyStr (''['' @ map upper_char (severity_value (al_severity a)) @ ''] '' @ al_title a))
                 payload)
         | ChanPagerduty \<Rightarrow>
             AList.update ''source'' (PyStr ''chainsentinel'')
               (AList.update ''summary'' (PyStr (al_title a)) payload)
         | _ \<Rightarrow> payload)"

definition push_payload ::
  "SecurityAlert \<Rightarrow> NotificationChannel \<Rightarrow> (string, metadata list) dict \<Rightarrow> (string, metadata list) dict" where
  "push_payload a channel grouped =
     AList.update (channel_value channel)
       (dict_get grouped (channel_value channel) [] @ [format_alert a channel]) grouped"

definition alert_channels :: "RoutingDecision list \<Rightarrow> SecurityAlert \<Rightarrow> NotificationChannel list" where
  "alert_channels routing a =
     (case map_of (dict_of ro_alert_id (\<lambda>r. r) routing) (al_alert_id a) of
        Some decision \<Rightarrow> ro_channels decision
      | None \<Rightarrow> [ChanWebhook])"

definition format_batch ::
  "SecurityAlert list \<Rightarrow> RoutingDecision list \<Rightarrow> (string, metadata list) dict" where
  "format_batch alerts routing =
     fold (\<lambda>a grouped. fold (push_payload a) (alert_channels routing a) grouped) alerts []"

end
