(* ===== verification/History.thy ===== *)
theory History
  imports Alerting Snapshots PyText
begin

text \<open>
  History of a watch (\<open>continuous/history/\<close>): the write-once baseline store, the append-only record
  store, the ingestor that turns pipeline results into records, the snapshot archiver and the
  retention engine.
\<close>

section \<open>Models (models.py)\<close>

datatype HistoryRecordType =
    RecSnapshot | RecChangeDetection | RecReanalysis | RecEvidenceDelta | RecRiskDelta
  | RecAlertBatch | RecAcknowledgement

fun record_type_value :: "HistoryRecordType \<Rightarrow> string" where
  "record_type_value RecSnapshot = ''snapshot''"
| "record_type_value RecChangeDetection = ''change_detection''"
| "record_type_value RecReanalysis = ''reanalysis''"
| "record_type_value RecEvidenceDelta = ''evidence_delta''"
| "record_type_value RecRiskDelta = ''risk_delta''"
| "record_type_value RecAlertBatch = ''alert_batch''"
| "record_type_value RecAcknowledgement = ''acknowledgement''"

record HistoricalRecord =
  hr_record_id :: string
  hr_watch_id :: string
  hr_record_type :: HistoryRecordType
  hr_timestamp :: datetime
  hr_reference_id :: string
  hr_payload :: metadata

record RetentionPolicy =
  rt_max_records_per_watch :: int
  rt_max_age_days :: int
  rt_retain_baseline :: bool
  rt_archive_removed :: bool

definition default_retention :: RetentionPolicy where
  "default_retention =
     \<lparr>rt_max_records_per_watch = 1000, rt_max_age_days = 365, rt_retain_baseline = True,
      rt_archive_removed = True\<rparr>"

record ArchiveManifest =
  am_watch_id :: string
  am_removed_record_ids :: "string list"
  am_archived_record_ids :: "string list"
  am_retained_count :: nat
  am_applied_at :: datetime

section \<open>Baselines (baseline\_store.py)\<close>

record InMemoryBaselineStore =
  bs_baselines :: "(string, ProtocolSnapshot) dict"

definition set_baseline ::
  "ProtocolSnapshot \<Rightarrow> InMemoryBaselineStore \<Rightarrow> bool \<times> InMemoryBaselineStore" where
  "set_baseline s st =
     (if ps_watch_id s \<in> set (dict_keys (bs_baselines st)) then (False, st)
      else (True, st\<lparr>bs_baselines := AList.update (ps_watch_id s) s (bs_baselines st)\<rparr>))"

definition get_baseline :: "InMemoryBaselineStore \<Rightarrow> string \<Rightarrow> ProtocolSnapshot option" where
  "get_baseline st watch = map_of (bs_baselines st) watch"

definition has_baseline :: "InMemoryBaselineStore \<Rightarrow> string \<Rightarrow> bool" where
  "has_baseline st watch \<longleftrightarrow> watch \<in> set (dict_keys (bs_baselines st))"

lemma has_baseline_iff: "has_baseline st w \<longleftrightarrow> get_baseline st w \<noteq> None"
  by (simp add: has_baseline_def get_baseline_def dom_map_of_keys del: set_map)

interpretation baselines: write_once_store get_baseline "\<lambda>s st. snd (set_baseline s st)" ps_watch_id
proof
  show "snd (set_baseline s st) = st" if "get_baseline st (ps_watch_id s) = Some w" for s st w
    using that has_baseline_iff [of st "ps_watch_id s"]
    by (simp add: set_baseline_def has_baseline_def del: set_map)
  show "get_baseline (snd (set_baseline s st)) = (get_baseline st)(ps_watch_id s \<mapsto> s)"
    if "get_baseline st (ps_watch_id s) = None" for s st
    using that has_baseline_iff [of st "ps_watch_id s"]
    by (simp add: set_baseline_def has_baseline_def get_baseline_def fun_eq_iff del: set_map)
qed

section \<open>Records (history\_store.py)\<close>

record InMemoryHistoryStore =
  hs_records :: "(string, HistoricalRecord) dict"
  hs_watch_index :: "(string, string list) dict"

definition empty_history :: InMemoryHistoryStore where
  "empty_history = \<lparr>hs_records = [], hs_watch_index = []\<rparr>"

definition append_record :: "HistoricalRecord \<Rightarrow> InMemoryHistoryStore \<Rightarrow> InMemoryHistoryStore" where
  "append_record r st =
     (if hr_record_id r \<in> set (dict_keys (hs_records st)) then st
      else \<lparr>hs_records = AList.update (hr_record_id r) r (hs_records st),
            hs_watch_index = AList.update (hr_watch_id r)
              (dict_get (hs_watch_index st) (hr_watch_id r) [] @ [hr_record_id r])
              (hs_watch_index st)\<rparr>)"

definition record_sort_key :: "HistoricalRecord \<Rightarrow> string \<times> string \<times> string" where
  "record_sort_key r =
     (isoformat (hr_timestamp r), record_type_value (hr_record_type r), hr_record_id r)"

definition watch_records :: "InMemoryHistoryStore \<Rightarrow> string \<Rightarrow> HistoricalRecord list" where
  "watch_records st watch =
     List.map_filter (map_of (hs_records st)) (dict_get (hs_watch_index st) watch [])"

definition list_records ::
  "InMemoryHistoryStore \<Rightarrow> string \<Rightarrow> HistoryRecordType option \<Rightarrow> HistoricalRecord list" where
  "list_records st watch record_type =
     sort_key record_sort_key
       (case record_type of
          None \<Rightarrow> watch_records st watch
        | Some ty \<Rightarrow> filter (\<lambda>r. hr_record_type r = ty) (watch_records st watch))"

definition get_record :: "InMemoryHistoryStore \<Rightarrow> string \<Rightarrow> HistoricalRecord option" where
  "get_record st record_id = map_of (hs_records st) record_id"

definition remove_record :: "string \<Rightarrow> nat \<times> InMemoryHistoryStore \<Rightarrow> nat \<times> InMemoryHistoryStore" where
  "remove_record record_id acc =
     (let (removed, st) = acc
      in case map_of (hs_records st) record_id of
           None \<Rightarrow> (removed, st)
         | Some r \<Rightarrow>
             (let watch_ids = dict_get (hs_watch_index st) (hr_watch_id r) []
              in (removed + 1,
                  \<lparr>hs_records = dict_pop record_id (hs_records st),
                   hs_watch_index =
                     (if record_id \<in> set watch_ids
                      then AList.update (hr_watch_id r) (remove1 record_id watch_ids) (hs_watch_index st)
                      else hs_watch_index st)\<rparr>)))"

definition remove_records :: "string list \<Rightarrow> InMemoryHistoryStore \<Rightarrow> nat \<times> InMemoryHistoryStore" where
  "remove_records record_ids st = fold remove_record record_ids (0, st)"

definition build_record_id ::
  "(string \<Rightarrow> string) \<Rightarrow> string \<Rightarrow> HistoryRecordType \<Rightarrow> string \<Rightarrow> datetime \<Rightarrow> string" where
  "build_record_id H watch record_type reference_id timestamp =
     (let fingerprint = join ''|'' [watch, record_type_value record_type, reference_id, isoformat timestamp]
      in watch @ '':history:'' @ record_type_value record_type @ '':'' @ H fingerprint)"

definition build_record ::
  "(string \<Rightarrow> string) \<Rightarrow> string \<Rightarrow> HistoryRecordType \<Rightarrow> datetime \<Rightarrow> string \<Rightarrow> metadata \<Rightarrow> HistoricalRecord" where
  "build_record H watch record_type timestamp reference_id payload =
     \<lparr>hr_record_id = build_record_id H watch record_type reference_id timestamp,
      hr_watch_id = watch,
      hr_record_type = record_type,
      hr_timestamp = timestamp,
      hr_reference_id = reference_id,
      hr_payload = payload\<rparr>"

section \<open>Ingestion (HistoryIngestor)\<close>

abbreviation py_nat :: "nat \<Rightarrow> pyval" where "py_nat n \<equiv> PyInt (int n)"
abbreviation py_strs :: "string list \<Rightarrow> pyval" where "py_strs ss \<equiv> PyList (map PyStr ss)"

definition ingest_snapshot :: "(string \<Rightarrow> string) \<Rightarrow> ProtocolSnapshot \<Rightarrow> HistoricalRecord" where
  "ingest_snapshot H s =
     build_record H (ps_watch_id s) RecSnapshot (ps_captured_at s) (ps_snapshot_id s)
       [(''snapshot'', PyDict (serialize_snapshot s)),
        (''chain_id'', PyInt (ps_chain_id s)),
        (''root_address'', PyStr (ps_root_address s))]"

definition ingest_change_result :: "(string \<Rightarrow> string) \<Rightarrow> ChangeDetectionResult \<Rightarrow> HistoricalRecord" where
  "ingest_change_result H r =
     build_record H (cr_watch_id r) RecChangeDetection (cr_detected_at r)
       (cr_baseline_snapshot_id r @ '':'' @ cr_current_snapshot_id r)
       [(''baseline_snapshot_id'', PyStr (cr_baseline_snapshot_id r)),
        (''current_snapshot_id'', PyStr (cr_current_snapshot_id r)),
        (''unchanged'', PyBool (cr_unchanged r)),
        (''change_count'', py_nat (length (cr_changes r))),
        (''change_types'', py_strs (map (\<lambda>c. change_type_value (ce_change_type c)) (cr_changes r)))]"

definition ingest_reanalysis_result :: "(string \<Rightarrow> string) \<Rightarrow> ReanalysisResult \<Rightarrow> HistoricalRecord" where
  "ingest_reanalysis_result H r =
     build_record H (rr_watch_id r) RecReanalysis (cr_detected_at (rr_change_result r))
       (pl_plan_id (rr_execution_plan r))
       [(''plan_id'', PyStr (pl_plan_id (rr_execution_plan r))),
        (''modules_executed'', py_strs (map module_value (rr_executed_modules r))),
        (''evidence_added_count'', py_nat (rm_evidence_added_count (rr_metrics r))),
        (''evidence_removed_count'', py_nat (rm_evidence_removed_count (rr_metrics r))),
        (''evidence_updated_count'', py_nat (rm_evidence_updated_count (rr_metrics r)))]"

text \<open>
  \<open>sorted({item.metadata.get(''signal'', item.reason) ...})\<close>; a signal that is not text makes the set
  or the sort raise \<open>TypeError\<close> (the code only creates text signals).
\<close>

definition added_signals :: "RiskEvidence list \<Rightarrow> string list result" where
  "added_signals added =
     bindR (mapR (\<lambda>e. py_expect_str (dict_get (ev_metadata e) key_signal (PyStr (ev_reason e)))) added)
       (\<lambda>signals. Inr (sorted_set signals))"

definition ingest_evidence_delta :: "(string \<Rightarrow> string) \<Rightarrow> ReanalysisResult \<Rightarrow> HistoricalRecord result" where
  "ingest_evidence_delta H r =
     (let delta = rr_evidence_delta r
      in bindR (added_signals (de_added delta)) (\<lambda>signals.
           Inr (build_record H (rr_watch_id r) RecEvidenceDelta (cr_detected_at (rr_change_result r))
             (pl_plan_id (rr_execution_plan r) @ '':evidence'')
             [(''added_count'', py_nat (length (de_added delta))),
              (''removed_count'', py_nat (length (de_removed delta))),
              (''updated_count'', py_nat (length (de_updated delta))),
              (''added_signals'', py_strs signals)])))"

definition ingest_risk_delta :: "(string \<Rightarrow> string) \<Rightarrow> RiskDeltaReport \<Rightarrow> datetime \<Rightarrow> HistoricalRecord" where
  "ingest_risk_delta H report captured_at =
     build_record H (rp_watch_id report) RecRiskDelta captured_at
       (rp_watch_id report @ '':risk:'' @ isoformat captured_at)
       [(''trend'', PyStr (trend_value (rp_trend report))),
        (''score_delta'', PyStr (dec_str (rd_score_delta (rp_delta report)))),
        (''previous_score'', PyStr (dec_str (su_total_score (rp_previous_summary report)))),
        (''current_score'', PyStr (dec_str (su_total_score (rp_current_summary report)))),
        (''headline'', PyStr (rx_headline (rp_explanation report))),
        (''added_count'', py_nat (es_added_count (rp_evidence_summary report))),
        (''removed_count'', py_nat (es_removed_count (rp_evidence_summary report))),
        (''updated_count'', py_nat (es_updated_count (rp_evidence_summary report)))]"

definition ingest_acknowledgement :: "(string \<Rightarrow> string) \<Rightarrow> SecurityAlert \<Rightarrow> HistoricalRecord result" where
  "ingest_acknowledgement H a =
     bindR (py_expect_str (dict_get (al_metadata a) ''watch_id'' (PyStr (al_affected_protocol a)))) (\<lambda>watch.
       Inr (build_record H watch RecAcknowledgement (al_timestamp a) (al_alert_id a)
         [(''alert_id'', PyStr (al_alert_id a)),
          (''severity'', PyStr (severity_value (al_severity a))),
          (''rule_type'', PyStr (rule_type_value (al_rule_type a))),
          (''acknowledgement_state'', PyStr (ack_value (al_acknowledgement_state a))),
          (''title'', PyStr (al_title a))]))"

definition ingest_alert_batch :: "(string \<Rightarrow> string) \<Rightarrow> AlertBatch \<Rightarrow> HistoricalRecord list result" where
  "ingest_alert_batch H batch =
     (let alerts = ab_generated_alerts batch;
          batch_record = build_record H (ab_watch_id batch) RecAlertBatch (ab_generated_at batch)
            (ab_watch_id batch @ '':alerts:'' @ isoformat (ab_generated_at batch))
            [(''generated_count'', py_nat (length alerts)),
             (''suppressed_count'', py_nat (length (ab_suppressed_alerts batch))),
             (''alert_ids'', py_strs (map al_alert_id alerts)),
             (''severities'', py_strs (map (\<lambda>a. severity_value (al_severity a)) alerts)),
             (''rule_types'', py_strs (map (\<lambda>a. rule_type_value (al_rule_type a)) alerts))]
      in bindR (mapR (ingest_acknowledgement H)
             (filter (\<lambda>a. ack_value (al_acknowledgement_state a) \<noteq> ''pending'') alerts))
           (\<lambda>acks. Inr (batch_record # acks)))"

section \<open>Archiver (snapshot\_archive.py)\<close>

record SnapshotArchiveResult =
  sr_snapshot :: ProtocolSnapshot
  sr_baseline_created :: bool
  sr_history_record :: HistoricalRecord

definition archive ::
  "(string \<Rightarrow> string) \<Rightarrow> ProtocolSnapshot \<Rightarrow> bool \<Rightarrow> InMemoryBaselineStore \<Rightarrow> InMemoryHistoryStore \<Rightarrow>
   SnapshotArchiveResult \<times> InMemoryBaselineStore \<times> InMemoryHistoryStore" where
  "archive H s as_baseline bs hs =
     (let (created, bs') =
            (if as_baseline \<or> \<not> has_baseline bs (ps_watch_id s) then set_baseline s bs else (False, bs));
          r = ingest_snapshot H s
      in (\<lparr>sr_snapshot = s, sr_baseline_created = created, sr_history_record = r\<rparr>, bs', append_record r hs))"

definition archive_cycle ::
  "(string \<Rightarrow> string) \<Rightarrow> ProtocolSnapshot \<Rightarrow> datetime option \<Rightarrow> InMemoryHistoryStore \<Rightarrow>
   HistoricalRecord \<times> InMemoryHistoryStore" where
  "archive_cycle H s archived_at hs =
     (let r = ingest_snapshot H s;
          r = (case archived_at of
                 None \<Rightarrow> r
               | Some t \<Rightarrow> r\<lparr>hr_timestamp := t,
                   hr_payload := AList.update ''archived_at'' (PyStr (isoformat t)) (hr_payload r)\<rparr>)
      in (r, append_record r hs))"

section \<open>Retention (retention.py)\<close>

definition protected_reference_ids ::
  "InMemoryBaselineStore option \<Rightarrow> string \<Rightarrow> RetentionPolicy \<Rightarrow> string list" where
  "protected_reference_ids bs watch policy =
     (if \<not> rt_retain_baseline policy then []
      else case bs of
        None \<Rightarrow> []
      | Some b \<Rightarrow> (case get_baseline b watch of None \<Rightarrow> [] | Some s \<Rightarrow> [ps_snapshot_id s]))"

definition is_expired :: "RetentionPolicy \<Rightarrow> datetime \<Rightarrow> HistoricalRecord \<Rightarrow> bool result" where
  "is_expired policy now r =
     (if rt_max_age_days policy \<le> 0 then Inr False
      else dt_less (hr_timestamp r) (dt_add now (- (rt_max_age_days policy * us_per_day))))"

definition retention_sort_key :: "HistoricalRecord \<Rightarrow> string \<times> string" where
  "retention_sort_key r = (isoformat (hr_timestamp r), hr_record_id r)"

text \<open>The first loop: identifiers of the expired records whose reference is not protected.\<close>

fun expired_ids :: "RetentionPolicy \<Rightarrow> datetime \<Rightarrow> string list \<Rightarrow> HistoricalRecord list \<Rightarrow> string list result" where
  "expired_ids policy now protected [] = Inr []"
| "expired_ids policy now protected (r # rs) =
     (if hr_reference_id r \<in> set protected then expired_ids policy now protected rs
      else bindR (is_expired policy now r) (\<lambda>old.
        bindR (expired_ids policy now protected rs) (\<lambda>ids.
          Inr (if old then hr_record_id r # ids else ids))))"

text \<open>The overflow: the oldest unprotected records beyond the allowed number.\<close>

definition overflow_ids :: "RetentionPolicy \<Rightarrow> string list \<Rightarrow> HistoricalRecord list \<Rightarrow> string list" where
  "overflow_ids policy protected remaining =
     (if int (length remaining) > rt_max_records_per_watch policy
      then (let removable = filter (\<lambda>r. hr_reference_id r \<notin> set protected)
                  (sort_key retention_sort_key remaining);
                overflow = int (length remaining) - rt_max_records_per_watch policy
            in map hr_record_id (take (nat overflow) removable))
      else [])"

definition apply_retention ::
  "datetime \<Rightarrow> InMemoryBaselineStore option \<Rightarrow> string \<Rightarrow> RetentionPolicy option \<Rightarrow> datetime option \<Rightarrow>
   InMemoryHistoryStore \<Rightarrow> (ArchiveManifest \<times> InMemoryHistoryStore) result" where
  "apply_retention clk bs watch policy now hs =
     (let timestamp = (case now of None \<Rightarrow> clk | Some t \<Rightarrow> t);
          active = (case policy of None \<Rightarrow> default_retention | Some p \<Rightarrow> p);
          records = list_records hs watch None;
          protected = protected_reference_ids bs watch active
      in bindR (expired_ids active timestamp protected records) (\<lambda>expired.
           let remaining = filter (\<lambda>r. hr_record_id r \<notin> set expired) records;
               ordered = sorted_set (expired @ overflow_ids active protected remaining);
               hs' = snd (remove_records ordered hs)
           in Inr (\<lparr>am_watch_id = watch,
                    am_removed_record_ids = ordered,
                    am_archived_record_ids = (if rt_archive_removed active then ordered else []),
                    am_retained_count = length (list_records hs' watch None),
                    am_applied_at = timestamp\<rparr>, hs')))"

end
