(* ===== verification/ChangeDetectionProps.thy ===== *)
theory ChangeDetectionProps
  imports ChangeDetection
begin

text \<open>
  What change detection guarantees: it reports nothing exactly when the compared fields of the two
  snapshots agree, it is symmetric up to swapping before and after, and the emitted events are
  sorted, have distinct identifiers and cover every difference.
\<close>

section \<open>What is compared\<close>

text \<open>
  The contract a snapshot shows at an address: the last one listed under it, whatever the case of its
  letters.
\<close>

definition contract_at :: "ProtocolSnapshot \<Rightarrow> string \<Rightarrow> ContractSnapshot option" where
  "contract_at s address = find (\<lambda>c. lower (cs_address c) = address) (rev (ps_contracts s))"

text \<open>
  What makes two contracts equal for the comparison: implementation, owner, proxy admin, bytecode and
  treasury as stored, and the line of governor and timelock, a missing one read as empty. The hash of
  the ABI and the metadata are not looked at.
\<close>

definition governance_line :: "ContractSnapshot \<Rightarrow> string" where
  "governance_line c =
     ''governor='' @ (case cs_governor c of None \<Rightarrow> [] | Some g \<Rightarrow> g) @
     '';timelock='' @ (case cs_timelock c of None \<Rightarrow> [] | Some t \<Rightarrow> t)"

definition no_difference :: "ContractSnapshot \<Rightarrow> ContractSnapshot \<Rightarrow> bool" where
  "no_difference c d \<longleftrightarrow>
     cs_proxy_implementation c = cs_proxy_implementation d \<and> cs_owner c = cs_owner d \<and>
     cs_proxy_admin c = cs_proxy_admin d \<and> cs_bytecode_hash c = cs_bytecode_hash d \<and>
     cs_treasury c = cs_treasury d \<and> governance_line c = governance_line d"

lemma contract_at_index: "map_of (contract_index (ps_contracts s)) address = contract_at s address"
proof -
  have "map_of (map (\<lambda>c. (lower (cs_address c), c)) cs) address = find (\<lambda>c. lower (cs_address c) = address) cs" for cs
    by (induction cs) auto
  from this [of "rev (ps_contracts s)"] show ?thesis
    by (simp add: contract_index_def map_of_dict_of contract_at_def rev_map)
qed

lemma diff_contract_Nil: "diff_contract b a address = [] \<longleftrightarrow> rel_option no_difference b a"
  by (cases b; cases a)
    (auto simp: diff_contract_def contract_fields_def field_of_def governance_value_def or_empty_def
      no_difference_def governance_line_def)

text \<open>Without a semicolon in the governors, equal lines mean equal governors and equal timelocks.\<close>

lemma governance_line_inj:
  assumes "CHR '';'' \<notin> set (or_empty (cs_governor c))" "CHR '';'' \<notin> set (or_empty (cs_governor d))"
  shows "governance_line c = governance_line d \<longleftrightarrow>
    or_empty (cs_governor c) = or_empty (cs_governor d) \<and> or_empty (cs_timelock c) = or_empty (cs_timelock d)"
proof -
  have split: "u @ CHR '';'' # v = u' @ CHR '';'' # v' \<longleftrightarrow> u = u' \<and> v = v'"
    if "CHR '';'' \<notin> set u" "CHR '';'' \<notin> set u'" for u u' v v' :: string
    using that by (auto simp: append_eq_append_conv2 Cons_eq_append_conv append_eq_Cons_conv)
  have line: "governance_line c = ''governor='' @ or_empty (cs_governor c) @ '';timelock='' @ or_empty (cs_timelock c)" for c
    by (simp add: governance_line_def or_empty_def)
  show ?thesis unfolding line using split [OF assms] by simp
qed

lemma diff_protocol_field_Nil [simp]: "diff_protocol_field ty b a addrs = [] \<longleftrightarrow> b = a"
  by (simp add: diff_protocol_field_def)

lemma set_diff_addresses: "set (diff_addresses b c) =
    set (dict_keys (contract_index (ps_contracts b))) \<union> set (dict_keys (contract_index (ps_contracts c)))"
  by (simp add: diff_addresses_def)

lemma contract_at_outside:
  assumes "address \<notin> set (diff_addresses b c)"
  shows "contract_at b address = None" "contract_at c address = None"
  using assms by (simp_all add: set_diff_addresses contract_at_index [symmetric] dom_map_of_keys del: set_map)

lemma diff_unsorted_Nil:
  "diff_unsorted b c = [] \<longleftrightarrow>
     (\<forall>address. rel_option no_difference (contract_at b address) (contract_at c address)) \<and>
     ps_dependency_fingerprint b = ps_dependency_fingerprint c \<and>
     ps_liquidity_fingerprint b = ps_liquidity_fingerprint c \<and>
     ps_runtime_fingerprint b = ps_runtime_fingerprint c"
proof -
  have "(\<forall>a \<in> set (diff_addresses b c). rel_option no_difference (contract_at b a) (contract_at c a)) \<longleftrightarrow>
      (\<forall>a. rel_option no_difference (contract_at b a) (contract_at c a))"
    using contract_at_outside [of _ b c] by (metis option.rel_inject(1))
  then show ?thesis
    by (simp add: diff_unsorted_def Let_def diff_contract_Nil contract_at_index)
qed

lemma ensure_Inr: "ensure_protocol_compatibility b c = Inr u \<longleftrightarrow>
    ps_watch_id b = ps_watch_id c \<and> ps_chain_id b = ps_chain_id c \<and>
    lower (ps_root_address b) = lower (ps_root_address c)"
  by (simp add: ensure_protocol_compatibility_def)

lemma ensure_sym: "ensure_protocol_compatibility b c = Inr u \<longleftrightarrow>
    ensure_protocol_compatibility c b = Inr u"
  by (auto simp: ensure_Inr)

lemma detect_Inr: "detect H clk b c t = Inr r \<longleftrightarrow>
    ensure_protocol_compatibility b c = Inr () \<and>
    (let timestamp = (case t of None \<Rightarrow> clk | Some x \<Rightarrow> x);
         changes = build_events H (ps_watch_id b) (sort_key raw_change_sort_key (diff_unsorted b c)) timestamp
     in r = \<lparr>cr_watch_id = ps_watch_id b, cr_baseline_snapshot_id = ps_snapshot_id b,
             cr_current_snapshot_id = ps_snapshot_id c, cr_detected_at = timestamp,
             cr_changes = changes, cr_unchanged = (length changes = 0)\<rparr>)"
  by (auto simp: detect_def diff_def bindR_eq_Inr Let_def)

section \<open>Events\<close>

lemma build_event_simps [simp]:
  "ce_event_id (build_event H w t c) = raw_event_id H w c"
  "ce_change_type (build_event H w t c) = rc_change_type c"
  "ce_before (build_event H w t c) = rc_before c"
  "ce_after (build_event H w t c) = rc_after c"
  "ce_affected_contracts (build_event H w t c) = rc_affected_contracts c"
  "ce_severity (build_event H w t c) = default_severity (rc_change_type c)"
  by (simp_all add: build_event_def classify_def Let_def)

lemma build_events_Nil [simp]: "build_events H w raw t = [] \<longleftrightarrow> raw = []"
  by (simp add: build_events_def)

lemma build_events_ids: "ce_event_id ` set (build_events H w raw t) = raw_event_id H w ` set raw"
  by (simp add: build_events_def image_image)

lemma build_events_distinct: "distinct (map ce_event_id (build_events H w raw t))"
  by (simp add: build_events_def o_def)

lemma build_events_from: "e \<in> set (build_events H w raw t) \<Longrightarrow> \<exists>c \<in> set raw. e = build_event H w t c"
  using dedup_by_subset [of "raw_event_id H w" raw] by (auto simp: build_events_def)

section \<open>Symmetry\<close>

definition swap_change :: "RawChange \<Rightarrow> RawChange" where
  "swap_change c = c\<lparr>rc_before := rc_after c, rc_after := rc_before c\<rparr>"

lemma swap_raw_change [simp]: "swap_change (raw_change ty b a addrs) = raw_change ty a b addrs"
  by (simp add: swap_change_def raw_change_def)

lemma diff_contract_swap: "diff_contract a b address = map swap_change (diff_contract b a address)"
  by (auto simp: diff_contract_def contract_fields_def)

lemma diff_protocol_field_swap:
  "diff_protocol_field ty a b addrs = map swap_change (diff_protocol_field ty b a addrs)"
  by (auto simp: diff_protocol_field_def)

lemma diff_addresses_swap: "diff_addresses c b = diff_addresses b c"
  unfolding diff_addresses_def by (rule sorted_set_cong) auto

lemma diff_unsorted_swap: "diff_unsorted c b = map swap_change (diff_unsorted b c)"
  by (simp add: diff_unsorted_def Let_def diff_addresses_swap map_concat o_def
      diff_contract_swap [symmetric] diff_protocol_field_swap [symmetric])

section \<open>Two concrete snapshots\<close>

definition demo_clock :: datetime where
  "demo_clock = \<lparr>dt_wall = 63839000000000000, dt_off = Some 0\<rparr>"

definition demo_contract :: "string \<Rightarrow> string \<Rightarrow> ContractSnapshot" where
  "demo_contract address owner =
     \<lparr>cs_address = address, cs_proxy_implementation = None, cs_owner = Some owner,
      cs_proxy_admin = None, cs_timelock = None, cs_governor = None, cs_treasury = None,
      cs_bytecode_hash = None, cs_abi_hash = None, cs_metadata = []\<rparr>"

definition demo_snapshot :: "ContractSnapshot list \<Rightarrow> ProtocolSnapshot" where
  "demo_snapshot contracts =
     \<lparr>ps_snapshot_id = ''s'', ps_watch_id = ''1:0xa'', ps_chain_id = 1, ps_root_address = ''0xa'',
      ps_captured_at = \<lparr>dt_wall = 0, dt_off = Some 0\<rparr>, ps_contracts = contracts,
      ps_dependency_fingerprint = ''d'', ps_liquidity_fingerprint = ''l'',
      ps_runtime_fingerprint = ''r'', ps_metadata = []\<rparr>"

abbreviation demo_before :: ProtocolSnapshot where
  "demo_before \<equiv> demo_snapshot [demo_contract ''0xa'' ''0x1'']"

abbreviation demo_after :: ProtocolSnapshot where
  "demo_after \<equiv> demo_snapshot [demo_contract ''0xa'' ''0x2'', demo_contract ''0xb'' ''0x1'']"

lemma demo_ensure [simp]: "ensure_protocol_compatibility (demo_snapshot xs) (demo_snapshot ys) = Inr ()"
  by (simp add: ensure_Inr demo_snapshot_def)

lemma demo_detects: "\<exists>r. detect H clk (demo_snapshot xs) (demo_snapshot ys) t = Inr r"
  by (simp add: detect_Inr Let_def)

section \<open>Properties\<close>

text \<open>
  Property C17. Detection is sound and complete for the fields it compares: it raises exactly when the
  snapshots belong to different protocols, and otherwise reports \<open>unchanged\<close> exactly when both show
  contracts at the same addresses (compared without case), each pair with the same implementation,
  owner, proxy admin, bytecode hash, treasury and governance line, compared as stored, and the
  dependency, liquidity and runtime fingerprints agree.
\<close>

theorem detect_unchanged_iff:
  "((\<exists>r. detect H clk b c t = Inr r) \<longleftrightarrow>
      ps_watch_id b = ps_watch_id c \<and> ps_chain_id b = ps_chain_id c \<and>
      lower (ps_root_address b) = lower (ps_root_address c)) \<and>
   (\<forall>r. detect H clk b c t = Inr r \<longrightarrow>
      (cr_unchanged r \<longleftrightarrow>
         (\<forall>address. rel_option no_difference (contract_at b address) (contract_at c address)) \<and>
         ps_dependency_fingerprint b = ps_dependency_fingerprint c \<and>
         ps_liquidity_fingerprint b = ps_liquidity_fingerprint c \<and>
         ps_runtime_fingerprint b = ps_runtime_fingerprint c))"
proof (intro conjI allI impI)
  show "(\<exists>r. detect H clk b c t = Inr r) \<longleftrightarrow>
      ps_watch_id b = ps_watch_id c \<and> ps_chain_id b = ps_chain_id c \<and>
      lower (ps_root_address b) = lower (ps_root_address c)"
    by (simp add: detect_Inr ensure_Inr Let_def)
next
  fix r assume r: "detect H clk b c t = Inr r"
  then have "cr_unchanged r \<longleftrightarrow> diff_unsorted b c = []"
    by (auto simp only: detect_Inr Let_def length_0_conv build_events_Nil sort_key_Nil ChangeDetectionResult.simps)
  then show "cr_unchanged r \<longleftrightarrow>
         (\<forall>address. rel_option no_difference (contract_at b address) (contract_at c address)) \<and>
         ps_dependency_fingerprint b = ps_dependency_fingerprint c \<and>
         ps_liquidity_fingerprint b = ps_liquidity_fingerprint c \<and>
         ps_runtime_fingerprint b = ps_runtime_fingerprint c"
    by (simp only: diff_unsorted_Nil)
qed

text \<open>A new treasury is a change; a new hash of the ABI is none.\<close>

theorem detect_unchanged_iff_witness:
  "\<exists>r r'. detect (\<lambda>s. s) demo_clock demo_before
        (demo_snapshot [(demo_contract ''0xa'' ''0x1'')\<lparr>cs_abi_hash := Some ''new''\<rparr>]) None = Inr r \<and> cr_unchanged r \<and>
      detect (\<lambda>s. s) demo_clock demo_before
        (demo_snapshot [(demo_contract ''0xa'' ''0x1'')\<lparr>cs_treasury := Some ''0x3''\<rparr>]) None = Inr r' \<and> \<not> cr_unchanged r'"
proof -
  let ?abi = "demo_snapshot [(demo_contract ''0xa'' ''0x1'')\<lparr>cs_abi_hash := Some ''new''\<rparr>]"
  let ?treasury = "demo_snapshot [(demo_contract ''0xa'' ''0x1'')\<lparr>cs_treasury := Some ''0x3''\<rparr>]"
  obtain r r' where r: "detect (\<lambda>s. s) demo_clock demo_before ?abi None = Inr r"
    "detect (\<lambda>s. s) demo_clock demo_before ?treasury None = Inr r'"
    using demo_detects by blast
  have "rel_option no_difference (contract_at demo_before a) (contract_at ?abi a)" for a
    by (simp add: contract_at_def demo_snapshot_def demo_contract_def no_difference_def governance_line_def)
  moreover have "\<not> rel_option no_difference (contract_at demo_before ''0xa'') (contract_at ?treasury ''0xa'')"
    by code_simp
  ultimately show ?thesis
    using detect_unchanged_iff [of "\<lambda>s. s" demo_clock demo_before ?abi None]
      detect_unchanged_iff [of "\<lambda>s. s" demo_clock demo_before ?treasury None] r
    by (auto simp: demo_snapshot_def)
qed

text \<open>
  The events of a detection are sorted by type, contracts and identifier, their
  identifiers are distinct and are exactly those of the differences found, and each event carries
  type, values and contracts of a difference with the severity its type is assigned.
\<close>

theorem detect_events_complete:
  assumes "detect H clk b c t = Inr r"
  shows "sorted (map event_sort_key (cr_changes r)) \<and>
    distinct (map ce_event_id (cr_changes r)) \<and>
    ce_event_id ` set (cr_changes r) = raw_event_id H (ps_watch_id b) ` set (diff_unsorted b c) \<and>
    (\<forall>e \<in> set (cr_changes r). \<exists>d \<in> set (diff_unsorted b c).
       ce_change_type e = rc_change_type d \<and> ce_before e = rc_before d \<and> ce_after e = rc_after d \<and>
       ce_affected_contracts e = rc_affected_contracts d \<and>
       ce_severity e = default_severity (rc_change_type d))"
proof -
  from assms obtain ts where r: "cr_changes r = build_events H (ps_watch_id b)
      (sort_key raw_change_sort_key (diff_unsorted b c)) ts"
    by (auto simp: detect_Inr Let_def)
  have "sorted (map event_sort_key (cr_changes r))" by (simp add: r build_events_def)
  moreover have "distinct (map ce_event_id (cr_changes r))" by (simp add: r build_events_distinct)
  moreover have "ce_event_id ` set (cr_changes r) = raw_event_id H (ps_watch_id b) ` set (diff_unsorted b c)"
    by (simp add: r build_events_ids)
  moreover have "\<exists>d \<in> set (diff_unsorted b c).
       ce_change_type e = rc_change_type d \<and> ce_before e = rc_before d \<and> ce_after e = rc_after d \<and>
       ce_affected_contracts e = rc_affected_contracts d \<and>
       ce_severity e = default_severity (rc_change_type d)" if "e \<in> set (cr_changes r)" for e
    using build_events_from [OF that [unfolded r]] by auto
  ultimately show ?thesis by blast
qed

theorem detect_events_complete_witness:
  "\<exists>r. detect (\<lambda>s. s) demo_clock demo_before demo_after None = Inr r \<and>
     sorted (map event_sort_key (cr_changes r)) \<and> distinct (map ce_event_id (cr_changes r))"
proof -
  obtain r where r: "detect (\<lambda>s. s) demo_clock demo_before demo_after None = Inr r"
    using demo_detects by blast
  from detect_events_complete [OF r] r show ?thesis by blast
qed

text \<open>
  The diff is symmetric: comparing the snapshots the other way round finds the same
  changes with before and after exchanged, and raises in the same cases.
\<close>

theorem diff_symmetric:
  "(\<forall>cs. diff b c = Inr cs \<longrightarrow>
      (\<exists>ds. diff c b = Inr ds \<and> mset ds = image_mset swap_change (mset cs))) \<and>
   ((\<exists>e. diff b c = Inl e) \<longleftrightarrow> (\<exists>e. diff c b = Inl e))"
proof (cases "ensure_protocol_compatibility b c")
  case (Inl e)
  moreover from this obtain e' where "ensure_protocol_compatibility c b = Inl e'"
    using ensure_sym [of b c] by (cases "ensure_protocol_compatibility c b") auto
  ultimately show ?thesis by (simp add: diff_def)
next
  case (Inr u)
  moreover from this have "ensure_protocol_compatibility c b = Inr u" by (simp add: ensure_sym)
  ultimately show ?thesis by (simp add: diff_def diff_unsorted_swap [of c b])
qed

theorem diff_symmetric_witness:
  "\<exists>cs ds. diff demo_before demo_after = Inr cs \<and> diff demo_after demo_before = Inr ds \<and>
     mset ds = image_mset swap_change (mset cs)"
proof -
  obtain cs where "diff demo_before demo_after = Inr cs" by (simp add: diff_def)
  with diff_symmetric [of demo_before demo_after] show ?thesis by blast
qed

text \<open>
  A contract that appears is never silent: if an address is indexed in the current
  snapshot only, the detection is not \<open>unchanged\<close> and has an event of high severity for that address
  alone, a governance change from nothing to the (possibly empty) governance of the contract.
\<close>

theorem added_contract_reported:
  assumes "detect H clk b c t = Inr r"
    and "map_of (contract_index (ps_contracts b)) address = None"
    and "map_of (contract_index (ps_contracts c)) address = Some x"
  shows "\<not> cr_unchanged r \<and>
    raw_change GovernanceChanged None (governance_value (Some x)) [address] \<in> set (diff_unsorted b c) \<and>
    raw_event_id H (ps_watch_id b) (raw_change GovernanceChanged None (governance_value (Some x)) [address])
      \<in> ce_event_id ` set (cr_changes r) \<and>
    default_severity GovernanceChanged = ChHigh"
proof -
  have "address \<in> set (dict_keys (contract_index (ps_contracts c)))"
    using assms(3) by (metis dom_map_of_keys option.distinct(1))
  then have addr: "address \<in> set (diff_addresses b c)" by (simp add: set_diff_addresses)
  have "raw_change GovernanceChanged None (governance_value (Some x)) [address]
      \<in> set (diff_contract None (Some x) address)"
    by (simp add: diff_contract_def governance_value_def)
  with addr assms(2,3)
  have raw: "raw_change GovernanceChanged None (governance_value (Some x)) [address]
      \<in> set (diff_unsorted b c)"
    unfolding diff_unsorted_def Let_def by fastforce
  then have "ce_event_id ` set (cr_changes r) \<noteq> {}" and
    ev: "raw_event_id H (ps_watch_id b)
        (raw_change GovernanceChanged None (governance_value (Some x)) [address])
      \<in> ce_event_id ` set (cr_changes r)"
    using assms(1) by (auto simp: detect_Inr Let_def build_events_ids)
  then have "cr_changes r \<noteq> []" by auto
  then have "\<not> cr_unchanged r" using assms(1) by (auto simp: detect_Inr Let_def)
  with raw ev show ?thesis by simp
qed

theorem added_contract_reported_witness:
  "\<exists>r. detect (\<lambda>s. s) demo_clock demo_before demo_after None = Inr r \<and> \<not> cr_unchanged r"
proof -
  obtain r where r: "detect (\<lambda>s. s) demo_clock demo_before demo_after None = Inr r"
    using demo_detects by blast
  have "map_of (contract_index (ps_contracts demo_before)) ''0xb'' = None"
    "map_of (contract_index (ps_contracts demo_after)) ''0xb'' = Some (demo_contract ''0xb'' ''0x1'')"
    by code_simp+
  from added_contract_reported [OF r this] r show ?thesis by blast
qed

end
