(* ===== verification/ReanalysisProps.thy ===== *)
theory ReanalysisProps
  imports Reanalysis ChangeDetectionProps
begin

text \<open>
  What selective re-analysis promises: exactly the impacted modules run, in a fixed order; the
  evidence delta turns the previous evidence into the new one; the result of a run accounts for
  every executed module.
\<close>

section \<open>Module selection\<close>

lemma module_order_complete [simp]: "set module_order = UNIV"
proof (rule UNIV_eq_I [symmetric])
  show "m \<in> set module_order" for m by (cases m) (simp_all add: module_order_def)
qed

lemma distinct_module_order [simp]: "distinct module_order"
  by (simp add: module_order_def)

lemma modules_for_change_nonempty [simp]: "modules_for_change t \<noteq> []"
  by (cases t) simp_all

lemma set_select_modules:
  "set (select_modules events) = (\<Union>e \<in> set events. set (modules_for_event e))"
  by (auto simp: select_modules_def Let_def)

lemma select_modules_Nil: "select_modules events = [] \<longleftrightarrow> events = []"
proof -
  have "select_modules events = [] \<longleftrightarrow> set (select_modules events) = {}" by simp
  also have "\<dots> \<longleftrightarrow> events = []"
    unfolding set_select_modules by (cases events) (simp_all add: modules_for_event_def)
  finally show ?thesis .
qed

text \<open>
  Module selection is exact: the selected modules are those some change event
  impacts, each once and in the fixed module order, and nothing is selected only when nothing
  changed.
\<close>

theorem select_modules_exact:
  "set (select_modules events) = (\<Union>e \<in> set events. set (modules_for_change (ce_change_type e))) \<and>
   subseq (select_modules events) module_order \<and> distinct (select_modules events) \<and>
   (select_modules events = [] \<longleftrightarrow> events = [])"
proof -
  have "subseq (select_modules events) module_order"
    by (simp add: select_modules_def Let_def)
  moreover have "distinct (select_modules events)" by (simp add: select_modules_def Let_def)
  ultimately show ?thesis
    by (simp add: set_select_modules select_modules_Nil modules_for_event_def)
qed

lemma detect_unchanged_flag:
  "detect H clk b c ts = Inr r \<Longrightarrow> cr_unchanged r \<longleftrightarrow> cr_changes r = []"
  by (auto simp: detect_def bindR_eq_Inr Let_def)

text \<open>
  The plan of a detection result: it lists the modules the changes select, it is
  empty exactly when the detector found no change, it carries every affected contract, and its
  triggers are the change types that occurred, sorted by value.
\<close>

theorem plan_of_detection:
  assumes "detect H clk baseline current ts = Inr r"
  shows "pl_modules (plan H r) = select_modules (cr_changes r) \<and>
     (pl_modules (plan H r) = [] \<longleftrightarrow> cr_changes r = []) \<and>
     set (pl_affected_contracts (plan H r)) = (\<Union>e \<in> set (cr_changes r). set (ce_affected_contracts e)) \<and>
     set (pl_triggered_by (plan H r)) = ce_change_type ` set (cr_changes r) \<and>
     sorted (map change_type_value (pl_triggered_by (plan H r))) \<and>
     distinct (pl_triggered_by (plan H r))"
proof -
  have m: "pl_modules (plan H r) = select_modules (cr_changes r)"
    using detect_unchanged_flag [OF assms] select_modules_Nil [of "[]"]
    by (cases "cr_changes r") (simp_all add: plan_def build_execution_plan_def Let_def)
  have t: "pl_triggered_by (plan H r) = triggered_change_types (cr_changes r)"
    and a: "pl_affected_contracts (plan H r) = affected_contracts (cr_changes r)"
    by (simp_all add: plan_def build_execution_plan_def Let_def)
  show ?thesis
    by (simp add: m t a select_modules_Nil affected_contracts_def triggered_change_types_def)
qed

theorem plan_of_detection_witness:
  "\<exists>r. detect (\<lambda>s. s) demo_clock demo_before demo_after None = Inr r \<and>
     pl_modules (plan (\<lambda>s. s) r) = select_modules (cr_changes r)"
proof -
  obtain r where r: "detect (\<lambda>s. s) demo_clock demo_before demo_after None = Inr r"
    using demo_detects by blast
  with plan_of_detection [OF r] show ?thesis by blast
qed

section \<open>Evidence delta\<close>

definition wf_evidence :: "RiskEvidence \<Rightarrow> bool" where
  "wf_evidence e \<longleftrightarrow> wf_pyval (PyDict (ev_metadata e))"

lemma evidence_changed_refl: "wf_evidence e \<Longrightarrow> \<not> evidence_changed e e"
  using py_eq_refl [of "PyDict (ev_metadata e)"]
  by (simp only: evidence_changed_def wf_evidence_def meta_eq_def dec_eq_iff) simp

lemma wf_evidence_index: "wf_dict (evidence_index es)"
  by (simp add: evidence_index_def)

lemma evidence_index_keys [simp]: "fst ` set (evidence_index es) = ev_id ` set es"
  using keys_dict_of [of ev_id "\<lambda>e. e" es] by (simp only: evidence_index_def set_map)

lemma evidence_index_SomeD: "map_of (evidence_index es) i = Some e \<Longrightarrow> e \<in> set es \<and> ev_id e = i"
  using map_of_dict_of_SomeD [of ev_id "\<lambda>e. e" es i e] by (auto simp: evidence_index_def)

lemma evidence_index_None: "map_of (evidence_index es) i = None \<longleftrightarrow> i \<notin> ev_id ` set es"
  by (simp add: evidence_index_def map_of_dict_of_None)

lemma evidence_index_mem: "(i, e) \<in> set (evidence_index es) \<longleftrightarrow> map_of (evidence_index es) i = Some e"
  by (simp add: map_of_eq_Some_iff wf_evidence_index)

lemma delta_added: "e \<in> set (de_added (build_delta p c)) \<longleftrightarrow>
    map_of (evidence_index c) (ev_id e) = Some e \<and> map_of (evidence_index p) (ev_id e) = None"
proof -
  have "e \<in> set (de_added (build_delta p c)) \<longleftrightarrow>
      (\<exists>i. map_of (evidence_index c) i = Some e \<and> map_of (evidence_index p) i = None)"
    by (auto simp: build_delta_def Let_def evidence_index_mem image_iff)
  then show ?thesis by (metis evidence_index_SomeD)
qed

lemma delta_removed: "e \<in> set (de_removed (build_delta p c)) \<longleftrightarrow>
    map_of (evidence_index p) (ev_id e) = Some e \<and> map_of (evidence_index c) (ev_id e) = None"
proof -
  have "e \<in> set (de_removed (build_delta p c)) \<longleftrightarrow>
      (\<exists>i. map_of (evidence_index p) i = Some e \<and> map_of (evidence_index c) i = None)"
    by (simp only: build_delta_def Let_def flip: dom_map_of_keys)
      (auto simp: evidence_index_mem image_iff)
  then show ?thesis by (metis evidence_index_SomeD)
qed

lemma delta_updated: "(a, b) \<in> set (de_updated (build_delta p c)) \<longleftrightarrow>
    map_of (evidence_index p) (ev_id b) = Some a \<and> map_of (evidence_index c) (ev_id b) = Some b \<and>
    evidence_changed a b"
proof
  assume "(a, b) \<in> set (de_updated (build_delta p c))"
  then obtain i where "map_of (evidence_index c) i = Some b" "map_of (evidence_index p) i = Some a"
    "evidence_changed a b"
    by (auto simp: build_delta_def Let_def evidence_index_mem split: option.splits if_splits)
  then show "map_of (evidence_index p) (ev_id b) = Some a \<and>
      map_of (evidence_index c) (ev_id b) = Some b \<and> evidence_changed a b"
    using evidence_index_SomeD [of c i b] by simp
next
  assume *: "map_of (evidence_index p) (ev_id b) = Some a \<and>
      map_of (evidence_index c) (ev_id b) = Some b \<and> evidence_changed a b"
  then have "(ev_id b, b) \<in> set (evidence_index c)" by (simp add: evidence_index_mem)
  with * show "(a, b) \<in> set (de_updated (build_delta p c))"
    by (auto simp: build_delta_def Let_def intro!: bexI [of _ "(ev_id b, b)"])
qed

text \<open>The patch a delta describes: drop the removed items, store the new and the updated ones.\<close>

definition apply_delta :: "EvidenceDelta \<Rightarrow> (string, RiskEvidence) dict \<Rightarrow> (string, RiskEvidence) dict" where
  "apply_delta delta d =
     fold (\<lambda>e. AList.update (ev_id e) e) (de_added delta @ map snd (de_updated delta))
       (fold (\<lambda>e. dict_pop (ev_id e)) (de_removed delta) d)"

lemma map_of_fold_store:
  "map_of (fold (\<lambda>e. AList.update (ev_id e) e) es d) i =
     (if i \<in> ev_id ` set es then find (\<lambda>e. ev_id e = i) (rev es) else map_of d i)"
proof (induction es rule: rev_induct)
  case (snoc e es)
  then show ?case by auto
qed simp

lemma map_of_fold_drop:
  "map_of (fold (\<lambda>e. dict_pop (ev_id e)) es d) i = (if i \<in> ev_id ` set es then None else map_of d i)"
  by (induction es arbitrary: d) auto

lemma stored_by_patch:
  assumes "\<And>e. e \<in> set es \<Longrightarrow> ev_id e = i \<Longrightarrow> e = x" "x \<in> set es" "ev_id x = i"
  shows "map_of (fold (\<lambda>e. AList.update (ev_id e) e) es d) i = Some x"
proof -
  have "find (\<lambda>e. ev_id e = i) (rev es) \<noteq> None" using assms(2,3) by (auto simp: find_None_iff)
  then obtain y where y: "find (\<lambda>e. ev_id e = i) (rev es) = Some y" by blast
  then have "y \<in> set es" "ev_id y = i" by (auto simp: find_Some_iff) (metis nth_mem set_rev length_rev)
  with assms(1) y have "find (\<lambda>e. ev_id e = i) (rev es) = Some x" by simp
  moreover from assms(2,3) have "i \<in> ev_id ` set es" by blast
  ultimately show ?thesis by (simp add: map_of_fold_store)
qed

text \<open>
  Property C16. The evidence delta is a correct patch: applied to the previous evidence it yields,
  identifier by identifier, the current evidence, up to items that show no reportable difference.
\<close>

theorem delta_patches:
  assumes "\<And>e. e \<in> set current \<Longrightarrow> wf_evidence e"
  shows "rel_option (\<lambda>a b. \<not> evidence_changed a b)
     (map_of (apply_delta (build_delta previous current) (evidence_index previous)) i)
     (map_of (evidence_index current) i)"
proof -
  let ?d = "build_delta previous current"
  let ?stored = "de_added ?d @ map snd (de_updated ?d)"
  let ?dropped = "fold (\<lambda>e. dict_pop (ev_id e)) (de_removed ?d) (evidence_index previous)"
  have stored: "e \<in> set ?stored \<Longrightarrow> map_of (evidence_index current) (ev_id e) = Some e" for e
    by (auto simp: delta_added delta_updated)
  show ?thesis
  proof (cases "map_of (evidence_index current) i")
    case None
    then have "i \<notin> ev_id ` set ?stored" using stored by force
    moreover have "map_of ?dropped i = None"
    proof (cases "map_of (evidence_index previous) i")
      case (Some a)
      with None have "a \<in> set (de_removed ?d) \<and> ev_id a = i"
        using evidence_index_SomeD [OF Some] by (simp add: delta_removed)
      then show ?thesis by (auto simp: map_of_fold_drop)
    qed (simp add: map_of_fold_drop)
    ultimately show ?thesis using None by (simp add: apply_delta_def map_of_fold_store del: set_append set_map fold_append rev_append)
  next
    case (Some b)
    then have id: "ev_id b = i" and wf: "wf_evidence b"
      using evidence_index_SomeD [OF Some] assms by simp_all
    show ?thesis
    proof (cases "b \<in> set ?stored")
      case True
      moreover have "e = b" if "e \<in> set ?stored" "ev_id e = i" for e
        using stored [OF that(1)] that(2) Some by simp
      ultimately have "map_of (apply_delta ?d (evidence_index previous)) i = Some b"
        unfolding apply_delta_def using id by (intro stored_by_patch)
      with Some wf show ?thesis by (simp add: evidence_changed_refl)
    next
      case False
      then have "i \<notin> ev_id ` set ?stored" using stored Some by force
      moreover from False id obtain a where a: "map_of (evidence_index previous) i = Some a"
        using Some by (cases "map_of (evidence_index previous) i") (auto simp: delta_added)
      moreover have "\<not> evidence_changed a b"
      proof
        assume "evidence_changed a b"
        with a Some id have "(a, b) \<in> set (de_updated ?d)" by (simp add: delta_updated)
        then have "b \<in> snd ` set (de_updated ?d)" by force
        with False show False by simp
      qed
      moreover have "i \<notin> ev_id ` set (de_removed ?d)" using Some by (auto simp: delta_removed)
      ultimately show ?thesis using Some
        by (simp add: apply_delta_def map_of_fold_store map_of_fold_drop del: set_append set_map fold_append rev_append)
    qed
  qed
qed

definition demo_evidence :: "string \<Rightarrow> int \<Rightarrow> RiskEvidence" where
  "demo_evidence signal score =
     create_evidence demo_clock SrcThreatSurface CatThreat signal SevHigh (dec_int score) ConfHigh
       ''changed'' (Some [(''signal'', PyStr signal)]) None"

lemma demo_evidence_simps [simp]:
  "wf_evidence (demo_evidence s n)"
  "ev_id (demo_evidence s n) = evidence_id SrcThreatSurface CatThreat s"
  by (simp_all add: demo_evidence_def create_evidence_def wf_evidence_def)

theorem delta_patches_witness:
  "rel_option (\<lambda>a b. \<not> evidence_changed a b)
     (map_of (apply_delta
        (build_delta [demo_evidence ''a'' 1, demo_evidence ''b'' 2] [demo_evidence ''a'' 3])
        (evidence_index [demo_evidence ''a'' 1, demo_evidence ''b'' 2])) ''threat_surface:threat:a'')
     (map_of (evidence_index [demo_evidence ''a'' 3]) ''threat_surface:threat:a'')"
  by (rule delta_patches) auto

lemma evidence_index_of_id:
  assumes "i \<in> ev_id ` set es"
  obtains e where "map_of (evidence_index es) i = Some e" "ev_id e = i"
proof -
  from assms obtain e where "map_of (evidence_index es) i = Some e"
    using evidence_index_None [of es i] by auto
  with evidence_index_SomeD [OF this] that show thesis by blast
qed

lemma added_ids: "ev_id ` set (de_added (build_delta p c)) = ev_id ` set c - ev_id ` set p" (is "?A = ?B")
proof
  show "?A \<subseteq> ?B"
  proof
    fix i assume "i \<in> ?A"
    then obtain e where e: "ev_id e = i" "e \<in> set (de_added (build_delta p c))" by blast
    then have c: "map_of (evidence_index c) i = Some e" and p: "map_of (evidence_index p) i = None"
      by (simp_all only: delta_added)
    have "e \<in> set c" using evidence_index_SomeD [OF c] by (rule conjunct1)
    with e(1) iffD1 [OF evidence_index_None p] show "i \<in> ?B" by blast
  qed
  show "?B \<subseteq> ?A"
  proof
    fix i assume i: "i \<in> ?B"
    then obtain e where e: "map_of (evidence_index c) i = Some e" "ev_id e = i"
      using evidence_index_of_id by blast
    moreover from i have "map_of (evidence_index p) i = None" by (simp add: evidence_index_None)
    ultimately have "e \<in> set (de_added (build_delta p c))" by (simp add: delta_added)
    with e(2) show "i \<in> ?A" by blast
  qed
qed

lemma removed_ids: "ev_id ` set (de_removed (build_delta p c)) = ev_id ` set p - ev_id ` set c"
proof -
  have "set (de_removed (build_delta p c)) = set (de_added (build_delta c p))"
    by (auto simp: delta_added delta_removed)
  then show ?thesis by (simp add: added_ids)
qed

lemma distinct_delta_ids:
  "distinct (map ev_id (map snd (filter P (sort_key fst (evidence_index es)))))"
proof -
  let ?xs = "filter P (sort_key fst (evidence_index es))"
  have "map ev_id (map snd ?xs) = map fst ?xs"
    by (auto simp: evidence_index_mem dest: evidence_index_SomeD)
  moreover have "distinct (map fst (sort_key fst (evidence_index es)))"
    using wf_evidence_index by simp
  ultimately show ?thesis by (simp only: distinct_map_filter)
qed

lemma distinct_delta_added: "distinct (map ev_id (de_added (build_delta p c)))"
  and distinct_delta_removed: "distinct (map ev_id (de_removed (build_delta p c)))"
  unfolding build_delta_def Let_def by (simp_all only: EvidenceDelta.simps distinct_delta_ids)

text \<open>
  The delta partitions the identifiers: added are exactly those that appeared,
  removed exactly those that disappeared, updated pairs are exactly the items of a common
  identifier that differ; each identifier is reported once, and comparing a list with itself
  reports neither additions nor removals.
\<close>

theorem delta_partition:
  "ev_id ` set (de_added (build_delta p c)) = ev_id ` set c - ev_id ` set p \<and>
   ev_id ` set (de_removed (build_delta p c)) = ev_id ` set p - ev_id ` set c \<and>
   (\<forall>a b. (a, b) \<in> set (de_updated (build_delta p c)) \<longleftrightarrow>
      map_of (evidence_index p) (ev_id b) = Some a \<and> map_of (evidence_index c) (ev_id b) = Some b \<and>
      evidence_changed a b) \<and>
   distinct (map ev_id (de_added (build_delta p c))) \<and>
   distinct (map ev_id (de_removed (build_delta p c)))"
  by (simp add: added_ids removed_ids delta_updated distinct_delta_added distinct_delta_removed)

section \<open>The orchestrator\<close>

lemma execute_modules_Inr:
  "execute_modules execute ctx ms done groups = Inr (executed, gs) \<longleftrightarrow>
     executed = done @ ms \<and>
     (\<exists>new. gs = groups @ new \<and> list_all2 (\<lambda>m g. execute m ctx = Inr g) ms new)"
proof (induction ms arbitrary: "done" groups)
  case (Cons m ms)
  show ?case
  proof (cases "execute m ctx")
    case (Inl e)
    then show ?thesis by (auto simp: list_all2_Cons1)
  next
    case (Inr g)
    then show ?thesis by (auto simp: Cons.IH list_all2_Cons1)
  qed
qed auto

text \<open>
  A run of the orchestrator that returns executed exactly the planned modules in plan
  order; every new evidence item comes from one of them, every identifier they produced is present
  once, and the delta reports as removed exactly the previous identifiers none of the executed
  modules produced again - also those of modules that were not planned.
\<close>

theorem reanalysis_accounts:
  assumes "run_reanalysis H execute dur cr previous chain addr bundles = Inr r"
  shows "rr_executed_modules r = pl_modules (plan H cr) \<and>
     distinct (map ev_id (rr_new_evidence r)) \<and>
     (\<forall>i. i \<in> ev_id ` set (rr_new_evidence r) \<longleftrightarrow>
        (\<exists>m e g. m \<in> set (pl_modules (plan H cr)) \<and>
           execute m (reanalysis_context cr (plan H cr) chain addr bundles) = Inr g \<and>
           e \<in> set g \<and> ev_id e = i)) \<and>
     ev_id ` set (de_removed (rr_evidence_delta r)) =
       ev_id ` set previous - ev_id ` set (rr_new_evidence r) \<and>
     rm_modules_executed (rr_metrics r) = rm_modules_planned (rr_metrics r)"
proof -
  let ?ctx = "reanalysis_context cr (plan H cr) chain addr bundles"
  from assms obtain executed groups where
    ex: "execute_modules execute ?ctx (pl_modules (plan H cr)) [] [] = Inr (executed, groups)"
    and r: "rr_executed_modules r = executed" "rr_new_evidence r = merge_evidence groups"
      "rr_evidence_delta r = build_delta previous (merge_evidence groups)"
      "rr_metrics r = build_metrics (plan H cr) executed (rr_evidence_delta r) dur"
    by (auto simp: run_reanalysis_def Let_def bindR_eq_Inr)
  then have run: "executed = pl_modules (plan H cr)"
    and produced: "list_all2 (\<lambda>m g. execute m ?ctx = Inr g) (pl_modules (plan H cr)) groups"
    by (simp_all add: execute_modules_Inr)
  have groups: "g \<in> set groups \<longleftrightarrow> (\<exists>m \<in> set (pl_modules (plan H cr)). execute m ?ctx = Inr g)" for g
    using produced by (induction rule: list_all2_induct) auto
  have ids: "i \<in> ev_id ` set (merge_evidence groups) \<longleftrightarrow> (\<exists>g \<in> set groups. \<exists>e \<in> set g. ev_id e = i)" for i
    by auto
  have removed: "ev_id ` set (de_removed (build_delta previous (merge_evidence groups))) =
      ev_id ` set previous - ev_id ` set (merge_evidence groups)"
    by (rule removed_ids)
  have i: "i \<in> ev_id ` set (rr_new_evidence r) \<longleftrightarrow>
      (\<exists>m e g. m \<in> set (pl_modules (plan H cr)) \<and> execute m ?ctx = Inr g \<and> e \<in> set g \<and> ev_id e = i)" for i
    unfolding r(2) ids using groups by blast
  show ?thesis
    using r run removed i by (simp add: build_metrics_def del: merge_evidence_ids)
qed

definition demo_execute :: "ReanalysisModule \<Rightarrow> unit ReanalysisContext \<Rightarrow> RiskEvidence list result" where
  "demo_execute m ctx = Inr (if m = ModThreat then [demo_evidence ''a'' 3] else [])"

definition demo_changes :: ChangeDetectionResult where
  "demo_changes = \<lparr>cr_watch_id = ''1:0xab'', cr_baseline_snapshot_id = ''b'', cr_current_snapshot_id = ''c'',
     cr_detected_at = demo_clock, cr_changes = build_events (\<lambda>s. s) ''1:0xab''
       [raw_change OwnerChanged None (Some ''0x1'') [''0xab'']] demo_clock, cr_unchanged = False\<rparr>"

theorem reanalysis_accounts_witness:
  "\<exists>r. run_reanalysis (\<lambda>s. s) demo_execute 1 demo_changes [demo_evidence ''z'' 9] 1 None None = Inr r \<and>
     ev_id ` set (de_removed (rr_evidence_delta r)) =
       {''threat_surface:threat:z''} - ev_id ` set (rr_new_evidence r)"
proof -
  have "\<exists>x. execute_modules demo_execute ctx ms ds gs = Inr x" for ctx ms ds gs
    by (induction ms arbitrary: ds gs) (simp_all add: demo_execute_def)
  then obtain x where "execute_modules demo_execute (reanalysis_context demo_changes
      (plan (\<lambda>s. s) demo_changes) 1 None None) (pl_modules (plan (\<lambda>s. s) demo_changes)) [] [] = Inr x"
    by blast
  then obtain r where r: "run_reanalysis (\<lambda>s. s) demo_execute 1 demo_changes [demo_evidence ''z'' 9] 1 None None = Inr r"
    by (cases x) (simp add: run_reanalysis_def Let_def)
  have "ev_id ` set [demo_evidence ''z'' 9] = {''threat_surface:threat:z''}"
    by (simp add: evidence_id_def)
  with reanalysis_accounts [OF r] r show ?thesis by metis
qed

end
