(* ===== verification/RiskDeltaProps.thy ===== *)
theory RiskDeltaProps
  imports RiskDelta ReanalysisProps
begin

text \<open>
  Correctness of the risk delta: summaries aggregate their evidence, the trend is the sign of the
  change of the total, and the evidence delta accounts for that change item by item.
\<close>

section \<open>Summaries\<close>

definition total_score :: "RiskEvidence list \<Rightarrow> rat" where
  "total_score es = sum_list (map (dec_val \<circ> score_contribution) es)"

lemma summary_step_simps [simp]:
  "dec_val (ss_total (summary_step e st)) = dec_val (ss_total st) + dec_val (score_contribution e)"
  "ss_max (summary_step e st) = max (ss_max st) (ev_severity e)"
  "dict_get (ss_counts (summary_step e st)) (severity_value s) 0 =
     dict_get (ss_counts st) (severity_value s) 0 + (if ev_severity e = s then 1 else 0)"
  "ss_domains (summary_step e st) = intelligence_domain (ev_source e) # ss_domains st"
  "set (dict_keys (ss_counts (summary_step e st))) =
     insert (severity_value (ev_severity e)) (set (dict_keys (ss_counts st)))"
  "wf_dict (ss_counts st) \<Longrightarrow> wf_dict (ss_counts (summary_step e st))"
  by (auto simp: summary_step_def max_def less_eq_EvidenceSeverity_def dict_get_def severity_value_inj
      dom_update severity_rank_inj distinct_update)

lemma summary_fold_total:
  "dec_val (ss_total (fold summary_step es st)) = dec_val (ss_total st) + total_score es"
  by (induction es arbitrary: st) (simp_all add: total_score_def)

lemma summary_fold_max: "ss_max (fold summary_step es st) = fold max (map ev_severity es) (ss_max st)"
  by (induction es arbitrary: st) (simp_all add: max.commute)

lemma summary_fold_counts:
  "dict_get (ss_counts (fold summary_step es st)) (severity_value s) 0 =
     dict_get (ss_counts st) (severity_value s) 0 + count_list (map ev_severity es) s"
  by (induction es arbitrary: st) auto

lemma summary_fold_domains:
  "set (ss_domains (fold summary_step es st)) =
     set (ss_domains st) \<union> (\<lambda>e. intelligence_domain (ev_source e)) ` set es"
  by (induction es arbitrary: st) auto

lemma summary_fold_keys:
  "wf_dict (ss_counts st) \<Longrightarrow> set (dict_keys (ss_counts st)) = range severity_value \<Longrightarrow>
   wf_dict (ss_counts (fold summary_step es st)) \<and>
   set (dict_keys (ss_counts (fold summary_step es st))) = range severity_value"
  by (induction es arbitrary: st) (auto simp del: set_map)

lemma severity_order_complete: "set severity_order = UNIV"
proof (rule UNIV_eq_I [symmetric])
  show "s \<in> set severity_order" for s by (cases s) (simp_all add: severity_order_def)
qed

lemma summary_start_simps [simp]:
  "dec_val (ss_total summary_start) = 0" "ss_max summary_start = SevInfo"
  "dict_get (ss_counts summary_start) (severity_value s) 0 = 0" "ss_domains summary_start = []"
  "wf_dict (ss_counts summary_start)" "dict_keys (ss_counts summary_start) = map severity_value severity_order"
  by (cases s; simp add: summary_start_def decimal_zero_def severity_order_def dict_get_def)+

lemma total_of_summary [simp]: "dec_val (su_total_score (summarize_evidence w es)) = total_score es"
  by (simp add: summarize_evidence_def Let_def summary_fold_total)

text \<open>
  A summary aggregates its evidence: the total is the sum of the contributions, the
  count of each of the five severities is exact and the five are listed once, sorted by name, the
  maximal severity is the highest one present (\<open>info\<close> for no evidence), and the domains are those of
  the sources.
\<close>

theorem summary_correct:
  "dec_val (su_total_score (summarize_evidence w es)) = total_score es \<and>
   su_evidence_count (summarize_evidence w es) = length es \<and>
   set (su_severity_counts (summarize_evidence w es)) =
     (\<lambda>s. (severity_value s, count_list (map ev_severity es) s)) ` UNIV \<and>
   sorted (map fst (su_severity_counts (summarize_evidence w es))) \<and>
   length (su_severity_counts (summarize_evidence w es)) = 5 \<and>
   su_max_severity (summarize_evidence w es) = Max (insert SevInfo (ev_severity ` set es)) \<and>
   set (su_intelligence_domains (summarize_evidence w es)) =
     (\<lambda>e. intelligence_domain (ev_source e)) ` set es"
proof -
  let ?c = "ss_counts (fold summary_step es summary_start)"
  have wf: "wf_dict ?c" and keys: "set (dict_keys ?c) = range severity_value"
    using summary_fold_keys [OF summary_start_simps(5), of es]
    by (simp_all only: summary_start_simps(6) set_map severity_order_complete)
  have get: "dict_get ?c (severity_value s) 0 = count_list (map ev_severity es) s" for s
    by (simp add: summary_fold_counts)
  have entry: "map_of ?c (severity_value s) = Some (count_list (map ev_severity es) s)" for s
  proof -
    have "map_of ?c (severity_value s) \<noteq> None" using keys by (simp add: dom_map_of_keys del: set_map)
    then show ?thesis using get [of s] by (auto simp: dict_get_def)
  qed
  have set_c: "set ?c = (\<lambda>s. (severity_value s, count_list (map ev_severity es) s)) ` UNIV"
  proof
    show "set ?c \<subseteq> (\<lambda>s. (severity_value s, count_list (map ev_severity es) s)) ` UNIV"
    proof
      fix x assume x: "x \<in> set ?c"
      then have "fst x \<in> set (dict_keys ?c)" by simp
      then obtain s where s: "fst x = severity_value s" using keys by auto
      from x wf have "map_of ?c (fst x) = Some (snd x)" by (simp add: map_of_is_SomeI)
      with entry [of s] have "snd x = count_list (map ev_severity es) s" unfolding s by simp
      with s have "x = (severity_value s, count_list (map ev_severity es) s)" by (simp add: prod_eq_iff)
      then show "x \<in> (\<lambda>s. (severity_value s, count_list (map ev_severity es) s)) ` UNIV" by simp
    qed
    show "(\<lambda>s. (severity_value s, count_list (map ev_severity es) s)) ` UNIV \<subseteq> set ?c"
      by (rule image_subsetI) (rule map_of_SomeD [OF entry])
  qed
  have "length ?c = card (range severity_value)"
    using distinct_card [OF wf] keys by simp
  also have "\<dots> = card (set severity_order)"
    unfolding severity_order_complete
    by (rule card_image) (simp add: inj_on_def severity_value_inj)
  finally have five: "length ?c = 5" by (simp add: severity_order_def)
  have max: "fold max (map ev_severity es) SevInfo = Max (insert SevInfo (ev_severity ` set es))"
    using Max.set_eq_fold [of SevInfo "map ev_severity es"] by simp
  show ?thesis
    using set_c five max
    by (simp add: summarize_evidence_def Let_def summary_fold_total summary_fold_max summary_fold_domains)
qed

section \<open>Trend and score delta\<close>

lemma score_delta_val [simp]:
  "dec_val (score_delta p c d) = dec_val (su_total_score c) - dec_val (su_total_score p)"
  by (simp add: score_delta_def Let_def dec_eq_iff)

lemma trend_sign:
  "classify_trend p c d =
     (if dec_val (su_total_score p) < dec_val (su_total_score c) then TrendIncreased
      else if dec_val (su_total_score c) < dec_val (su_total_score p) then TrendDecreased
      else TrendUnchanged)"
  by (simp add: classify_trend_def Let_def dec_less_iff decimal_zero_def)

lemma compute_risk_delta_Inr:
  "compute_risk_delta d p c = Inr r \<Longrightarrow>
     eb_watch_id p = eb_watch_id c \<and> rp_watch_id r = eb_watch_id p \<and>
     rp_previous_summary r = summarize_bundle p \<and> rp_current_summary r = summarize_bundle c \<and>
     rp_trend r = classify_trend (summarize_bundle p) (summarize_bundle c) d \<and>
     rp_explanation r = explain (rp_trend r) (summarize_bundle p) (summarize_bundle c) d \<and>
     rd_score_delta (rp_delta r) = score_delta (summarize_bundle p) (summarize_bundle c) d \<and>
     rp_evidence_summary r = build_evidence_summary d"
  by (auto simp: compute_risk_delta_def Let_def split: if_splits)

text \<open>
  The report of the risk delta engine is exact for whatever evidence delta it is
  given: the score delta is the difference of the two totals and the trend is its sign. The engine
  raises \<open>ValueError\<close> precisely when the bundles are of different watches.
\<close>

theorem risk_delta_trend:
  "case compute_risk_delta d p c of
     Inl e \<Rightarrow> eb_watch_id p \<noteq> eb_watch_id c \<and>
       e = ValueError ''previous and current bundles must share the same watch_id''
   | Inr r \<Rightarrow> eb_watch_id p = eb_watch_id c \<and>
       dec_val (rd_score_delta (rp_delta r)) = total_score (eb_evidence c) - total_score (eb_evidence p) \<and>
       rp_trend r = (if total_score (eb_evidence p) < total_score (eb_evidence c) then TrendIncreased
         else if total_score (eb_evidence c) < total_score (eb_evidence p) then TrendDecreased
         else TrendUnchanged)"
proof (cases "compute_risk_delta d p c")
  case (Inl e)
  then show ?thesis by (simp add: compute_risk_delta_def Let_def split: if_splits)
next
  case (Inr r)
  with compute_risk_delta_Inr [OF Inr] show ?thesis by (simp add: trend_sign summarize_bundle_def)
qed

section \<open>The evidence delta accounts for the score delta\<close>

lemma py_eq_truthy: "py_eq v w \<Longrightarrow> py_truthy v = py_truthy w"
  by (cases v; cases w) (auto simp: dec_eq_iff dec_val_def split: if_splits)

lemma meta_eq_get:
  assumes "wf_dict a" "wf_dict b" "meta_eq a b"
  shows "py_truthy (py_get a k) = py_truthy (py_get b k)"
proof -
  from assms(3) have len: "length a = length b"
    and eqs: "\<And>k v. (k, v) \<in> set a \<Longrightarrow> \<exists>w. map_of b k = Some w \<and> py_eq v w"
    by (fastforce simp: meta_eq_def list_all_iff split: option.splits)+
  have "set (dict_keys a) \<subseteq> set (dict_keys b)" using eqs by (force dest: map_of_SomeD)
  moreover have "card (set (dict_keys a)) = card (set (dict_keys b))"
    using distinct_card [OF assms(1)] distinct_card [OF assms(2)] len by simp
  ultimately have keys: "set (dict_keys a) = set (dict_keys b)" by (simp add: card_subset_eq)
  show ?thesis
  proof (cases "map_of a k")
    case None
    with keys have "map_of b k = None" by (metis dom_map_of_keys)
    with None show ?thesis by (simp add: py_get_def dict_get_def)
  next
    case (Some v)
    with eqs [of k v] obtain w where "map_of b k = Some w" "py_eq v w" by (auto dest: map_of_SomeD)
    with Some show ?thesis by (simp add: py_get_def dict_get_def py_eq_truthy)
  qed
qed

lemma unchanged_contribution:
  assumes "wf_evidence a" "wf_evidence b" "\<not> evidence_changed a b"
  shows "dec_val (score_contribution a) = dec_val (score_contribution b)"
  using assms meta_eq_get [of "ev_metadata a" "ev_metadata b" key_reason_only]
  by (auto simp: score_contribution_def evidence_changed_def wf_evidence_def dec_eq_iff)

lemma sum_list_by_id:
  assumes "distinct (map ev_id es)"
  shows "sum_list (map f es) = (\<Sum>i \<in> ev_id ` set es. f (the (map_of (evidence_index es) i)))"
proof -
  have get: "map_of (evidence_index es) (ev_id e) = Some e" if "e \<in> set es" for e
  proof -
    from that obtain e' where "map_of (evidence_index es) (ev_id e) = Some e'" "ev_id e' = ev_id e"
      using evidence_index_of_id by blast
    moreover from this have "e' \<in> set es" using evidence_index_SomeD by blast
    ultimately show ?thesis using that assms by (metis distinct_map inj_onD)
  qed
  have "sum_list (map f es) = (\<Sum>e \<in> set es. f e)"
    using assms by (simp add: sum_list_distinct_conv_sum_set distinct_map)
  also have "\<dots> = (\<Sum>e \<in> set es. f (the (map_of (evidence_index es) (ev_id e))))"
    by (rule sum.cong) (simp_all add: get)
  also have "\<dots> = (\<Sum>i \<in> ev_id ` set es. f (the (map_of (evidence_index es) i)))"
    using assms by (simp add: sum.reindex distinct_map)
  finally show ?thesis .
qed

lemma total_score_by_id:
  assumes "distinct (map ev_id es)"
  shows "total_score es =
    (\<Sum>i \<in> ev_id ` set es. dec_val (score_contribution (the (map_of (evidence_index es) i))))"
  unfolding total_score_def using sum_list_by_id [OF assms, of "dec_val \<circ> score_contribution"] by simp

lemma sum_added:
  "total_score (de_added (build_delta p c)) =
     (\<Sum>i \<in> ev_id ` set c - ev_id ` set p. dec_val (score_contribution (the (map_of (evidence_index c) i))))"
proof -
  let ?as = "de_added (build_delta p c)"
  have get: "map_of (evidence_index c) (ev_id e) = Some e" if "e \<in> set ?as" for e
    using that by (simp only: delta_added)
  have "total_score ?as = (\<Sum>e \<in> set ?as. dec_val (score_contribution e))"
    using distinct_delta_added [of p c]
    by (simp add: total_score_def sum_list_distinct_conv_sum_set distinct_map)
  also have "\<dots> = (\<Sum>e \<in> set ?as. dec_val (score_contribution (the (map_of (evidence_index c) (ev_id e)))))"
    by (rule sum.cong) (simp_all add: get)
  also have "\<dots> = (\<Sum>i \<in> ev_id ` set ?as. dec_val (score_contribution (the (map_of (evidence_index c) i))))"
    using distinct_delta_added [of p c] by (simp add: sum.reindex distinct_map)
  finally show ?thesis by (simp add: added_ids)
qed

lemma sum_removed:
  "total_score (de_removed (build_delta p c)) =
     (\<Sum>i \<in> ev_id ` set p - ev_id ` set c. dec_val (score_contribution (the (map_of (evidence_index p) i))))"
proof -
  have "set (de_removed (build_delta p c)) = set (de_added (build_delta c p))"
    by (auto simp: delta_added delta_removed)
  then have "total_score (de_removed (build_delta p c)) = total_score (de_added (build_delta c p))"
    using distinct_delta_added [of c p] distinct_delta_removed [of p c]
    by (simp add: total_score_def sum_list_distinct_conv_sum_set distinct_map)
  then show ?thesis by (simp add: sum_added)
qed

lemma distinct_delta_updated: "distinct (map (ev_id \<circ> snd) (de_updated (build_delta p c)))"
proof -
  let ?f = "\<lambda>(i, e). case map_of (evidence_index p) i of
      None \<Rightarrow> [] | Some prior \<Rightarrow> if evidence_changed prior e then [(prior, e)] else []"
  let ?xs = "sort_key fst (evidence_index c)"
  have collapse: "map (ev_id \<circ> snd) (concat (map ?f xs)) = map fst (filter (\<lambda>x. ?f x \<noteq> []) xs)"
    if "list_all (\<lambda>(i, e). ev_id e = i) xs" for xs
    using that
  proof (induction xs)
    case (Cons x xs)
    then show ?case by (cases x; cases "map_of (evidence_index p) (fst x)") simp_all
  qed simp
  have "list_all (\<lambda>(i, e). ev_id e = i) ?xs"
    unfolding list_all_iff
  proof
    fix x assume x: "x \<in> set ?xs"
    obtain i e where "x = (i, e)" by (cases x)
    moreover from this x have "map_of (evidence_index c) i = Some e" by (simp add: evidence_index_mem)
    ultimately show "case x of (i, e) \<Rightarrow> ev_id e = i" using evidence_index_SomeD by simp
  qed
  from collapse [OF this]
  have "map (ev_id \<circ> snd) (de_updated (build_delta p c)) = map fst (filter (\<lambda>x. ?f x \<noteq> []) ?xs)"
    by (simp add: build_delta_def Let_def)
  moreover have "distinct (map fst ?xs)" using wf_evidence_index by simp
  ultimately show ?thesis by (simp only: distinct_map_filter)
qed

abbreviation contribution_at :: "RiskEvidence list \<Rightarrow> string \<Rightarrow> rat" where
  "contribution_at es i \<equiv> dec_val (score_contribution (the (map_of (evidence_index es) i)))"

lemma sum_updated:
  assumes "\<And>e. e \<in> set p \<Longrightarrow> wf_evidence e" "\<And>e. e \<in> set c \<Longrightarrow> wf_evidence e"
  shows "sum_list (map (\<lambda>(a, b). dec_val (score_contribution b) - dec_val (score_contribution a))
      (de_updated (build_delta p c))) =
    (\<Sum>i \<in> ev_id ` set p \<inter> ev_id ` set c. contribution_at c i - contribution_at p i)"
proof -
  let ?us = "de_updated (build_delta p c)"
  let ?ids = "(ev_id \<circ> snd) ` set ?us"
  have dist: "distinct ?us" "inj_on (ev_id \<circ> snd) (set ?us)"
    using distinct_delta_updated [of p c] by (auto simp: distinct_map)
  have get: "map_of (evidence_index p) (ev_id b) = Some a" "map_of (evidence_index c) (ev_id b) = Some b"
    if "(a, b) \<in> set ?us" for a b
    using that by (simp_all only: delta_updated)
  have sub: "?ids \<subseteq> ev_id ` set p \<inter> ev_id ` set c"
  proof
    fix i assume "i \<in> ?ids"
    then obtain a b where ab: "(a, b) \<in> set ?us" "i = ev_id b" by auto
    then have "a \<in> set p" "ev_id a = i" "b \<in> set c" "ev_id b = i"
      using evidence_index_SomeD [OF get(1) [OF ab(1)]] evidence_index_SomeD [OF get(2) [OF ab(1)]]
      by simp_all
    then show "i \<in> ev_id ` set p \<inter> ev_id ` set c" by (metis IntI imageI)
  qed
  have rest: "contribution_at c i - contribution_at p i = 0"
    if i: "i \<in> ev_id ` set p \<inter> ev_id ` set c - ?ids" for i
  proof -
    from i obtain a b where a: "map_of (evidence_index p) i = Some a" "ev_id a = i"
      and b: "map_of (evidence_index c) i = Some b" "ev_id b = i"
      using evidence_index_of_id by (metis Int_iff Diff_iff)
    then have "\<not> evidence_changed a b" using i delta_updated [of a b p c] by force
    moreover have "wf_evidence a" "wf_evidence b"
      using evidence_index_SomeD [OF a(1)] evidence_index_SomeD [OF b(1)] assms by blast+
    ultimately show ?thesis using a b unchanged_contribution [of a b] by simp
  qed
  have "sum_list (map (\<lambda>(a, b). dec_val (score_contribution b) - dec_val (score_contribution a)) ?us) =
      (\<Sum>(a, b) \<in> set ?us. dec_val (score_contribution b) - dec_val (score_contribution a))"
    using dist(1) by (simp add: sum_list_distinct_conv_sum_set)
  also have "\<dots> = (\<Sum>x \<in> set ?us. contribution_at c ((ev_id \<circ> snd) x) - contribution_at p ((ev_id \<circ> snd) x))"
    by (rule sum.cong) (auto simp: get)
  also have "\<dots> = (\<Sum>i \<in> ?ids. contribution_at c i - contribution_at p i)"
    using dist(2) by (simp add: sum.reindex o_def)
  also have "\<dots> = (\<Sum>i \<in> ev_id ` set p \<inter> ev_id ` set c. contribution_at c i - contribution_at p i)"
    by (rule sum.mono_neutral_left [OF _ sub]) (use rest in auto)
  finally show ?thesis .
qed

lemma computed_delta_val:
  "dec_val (computed_delta d) = total_score (de_added d) - total_score (de_removed d) +
     sum_list (map (\<lambda>(a, b). dec_val (score_contribution b) - dec_val (score_contribution a)) (de_updated d))"
  by (simp add: computed_delta_def dec_val_sum total_score_def o_def case_prod_unfold)

text \<open>
  For bundles whose identifiers are unique, the delta of \<open>DeltaBuilder\<close> explains the
  whole change of the total score: added minus removed contributions plus the changes of the
  updated items is the difference of the totals, so the engine's fallback is never taken and the
  reported score delta is the itemised one.
\<close>

theorem delta_explains_score:
  assumes "distinct (map ev_id p)" "distinct (map ev_id c)"
    and "list_all wf_evidence p" "list_all wf_evidence c"
  shows "dec_val (computed_delta (build_delta p c)) = total_score c - total_score p \<and>
     score_delta (summarize_evidence w p) (summarize_evidence w c) (build_delta p c) =
       computed_delta (build_delta p c)"
proof -
  let ?P = "ev_id ` set p" and ?C = "ev_id ` set c"
  have wf: "\<And>e. e \<in> set p \<Longrightarrow> wf_evidence e" "\<And>e. e \<in> set c \<Longrightarrow> wf_evidence e"
    using assms(3,4) by (auto simp: list_all_iff)
  have "total_score c = sum (contribution_at c) (?C - ?P) + sum (contribution_at c) (?P \<inter> ?C)"
    unfolding total_score_by_id [OF assms(2)]
    by (subst sum.union_disjoint [symmetric]) (auto intro: arg_cong [where f = "sum _"])
  moreover have "total_score p = sum (contribution_at p) (?P - ?C) + sum (contribution_at p) (?P \<inter> ?C)"
    unfolding total_score_by_id [OF assms(1)]
    by (subst sum.union_disjoint [symmetric]) (auto intro: arg_cong [where f = "sum _"])
  ultimately have val: "dec_val (computed_delta (build_delta p c)) = total_score c - total_score p"
    by (simp add: computed_delta_val sum_added sum_removed sum_updated [OF wf] sum_subtractf)
  then show ?thesis by (simp add: score_delta_def Let_def dec_eq_iff)
qed

theorem delta_explains_score_witness:
  "dec_val (computed_delta (build_delta [demo_evidence ''a'' 1, demo_evidence ''b'' 2]
     [demo_evidence ''a'' 3])) =
   total_score [demo_evidence ''a'' 3] - total_score [demo_evidence ''a'' 1, demo_evidence ''b'' 2]"
  using delta_explains_score [of "[demo_evidence ''a'' 1, demo_evidence ''b'' 2]" "[demo_evidence ''a'' 3]"]
  by (simp add: evidence_id_def)

section \<open>The explanation\<close>

text \<open>
  The explanation names everything that changed and nothing else: its evidence ids are
  the changed identifiers, its domains those of the changed items, there is one reason per change,
  and the single default reason appears exactly when nothing changed and the trend is unchanged.
\<close>

theorem explanation_complete:
  "set (rx_contributing_evidence_ids (explain t p c d)) = ev_id ` set (changed_evidence d) \<and>
   set (rx_affected_domains (explain t p c d)) =
     (\<lambda>e. intelligence_domain (ev_source e)) ` set (changed_evidence d) \<and>
   sorted (rx_reasons (explain t p c d)) \<and>
   (has_material_changes d \<longrightarrow> length (rx_reasons (explain t p c d)) =
      length (de_added d) + length (de_removed d) + length (de_updated d)) \<and>
   (\<not> has_material_changes d \<longrightarrow> rx_reasons (explain t p c d) =
      (if t = TrendUnchanged then [''No material risk evidence changes detected''] else []))"
  by (auto simp: explain_def contributing_ids_def affected_domains_def domains_for_evidence_def
      build_delta_reasons_def has_material_changes_def changed_evidence_def Let_def)

theorem explanation_complete_witness:
  "rx_reasons (explain TrendUnchanged (summarize_evidence ''w'' []) (summarize_evidence ''w'' [])
     (build_delta [] [])) = [''No material risk evidence changes detected''] \<and>
   length (rx_reasons (explain TrendIncreased (summarize_evidence ''w'' [])
     (summarize_evidence ''w'' [demo_evidence ''a'' 1])
     \<lparr>de_added = [demo_evidence ''a'' 1], de_removed = [], de_updated = []\<rparr>)) = 1"
proof -
  have "\<not> has_material_changes (build_delta [] [])"
    by (simp add: has_material_changes_def build_delta_def evidence_index_def dict_of_def)
  moreover have "has_material_changes \<lparr>de_added = [demo_evidence ''a'' 1], de_removed = [], de_updated = []\<rparr>"
    by (simp add: has_material_changes_def)
  ultimately show ?thesis
    using explanation_complete [of TrendUnchanged _ _ "build_delta [] []"]
      explanation_complete [of TrendIncreased _ _
        "\<lparr>de_added = [demo_evidence ''a'' 1], de_removed = [], de_updated = []\<rparr>"]
    by simp
qed

end
