(* ===== verification/AlertingProps.thy ===== *)
theory AlertingProps
  imports Alerting RiskDeltaProps
begin

text \<open>
  What the alert engine promises: no candidate is lost, no identifier is delivered twice, exactly the
  alerts the policy allows are delivered, a delivered alert is not repeated within its cooldown,
  critical evidence always leads to an alert, and every delivered alert is routed.
\<close>

section \<open>Deduplication\<close>

lemma dedup_loop_unique: "fst (dedup_loop seen xs) = dedup_from al_alert_id seen xs"
  by (induction seen xs rule: dedup_loop.induct) (simp_all add: case_prod_unfold Let_def)

lemma dedup_loop_mset: "mset (fst (dedup_loop seen xs)) + mset (snd (dedup_loop seen xs)) = mset xs"
  by (induction seen xs rule: dedup_loop.induct) (simp_all add: case_prod_unfold Let_def)

definition unique_candidates :: "(string \<Rightarrow> string) \<Rightarrow> RiskDeltaReport \<Rightarrow> datetime \<Rightarrow> SecurityAlert list" where
  "unique_candidates H report now = fst (deduplicate_batch (evaluate_rules H report now))"

lemma distinct_unique_candidates: "distinct (map al_alert_id (unique_candidates H report now))"
  by (simp add: unique_candidates_def deduplicate_batch_def dedup_loop_unique)

lemma ids_unique_candidates:
  "al_alert_id ` set (unique_candidates H report now) = al_alert_id ` set (evaluate_rules H report now)"
  by (simp add: unique_candidates_def deduplicate_batch_def dedup_loop_unique)

lemma unique_candidates_subset: "set (unique_candidates H report now) \<subseteq> set (evaluate_rules H report now)"
  using dedup_by_subset [of al_alert_id "sort_key alert_sort_key (evaluate_rules H report now)"]
  by (simp add: unique_candidates_def deduplicate_batch_def dedup_loop_unique)

section \<open>Suppression\<close>

text \<open>The policy as a specification: which alert may be delivered at the instant \<open>now\<close>.\<close>

definition deliverable :: "AlertPolicy \<Rightarrow> SecurityAlert list \<Rightarrow> datetime \<Rightarrow> SecurityAlert \<Rightarrow> bool" where
  "deliverable policy recent now a \<longleftrightarrow>
     ap_minimum_severity policy \<le> al_severity a \<and>
     (case map_of (dict_of al_alert_id (\<lambda>x. x) recent) (al_alert_id a) of
        None \<Rightarrow> True
      | Some prior \<Rightarrow>
          \<not> (ap_respect_acknowledgements policy \<and> al_acknowledgement_state prior = AckAcknowledged) \<and>
          (ap_cooldown_seconds policy \<le> 0 \<or>
           dt_instant (al_timestamp prior) + ap_cooldown_seconds policy * us_per_second \<le> dt_instant now))"

lemma meets_minimum_severity_iff: "meets_minimum_severity a b \<longleftrightarrow> b \<le> a"
  by (simp add: meets_minimum_severity_def less_eq_EvidenceSeverity_def severity_rank_def)

lemma suppression_reason_deliverable:
  "suppression_reason policy (dict_of al_alert_id (\<lambda>x. x) recent) now a = Inr r \<Longrightarrow>
     (r = None) = deliverable policy recent now a"
  by (cases "map_of (dict_of al_alert_id (\<lambda>x. x) recent) (al_alert_id a)")
    (auto simp only: suppression_reason_def deliverable_def meets_minimum_severity_iff dt_less_def Let_def
      bindR_eq_Inr option.simps dt_instant_add dt_aware_add split: if_splits)

lemma suppression_reason_total:
  assumes "dt_aware now" "\<And>x. x \<in> set recent \<Longrightarrow> dt_aware (al_timestamp x)"
  shows "\<exists>r. suppression_reason policy (dict_of al_alert_id (\<lambda>x. x) recent) now a = Inr r"
proof (cases "map_of (dict_of al_alert_id (\<lambda>x. x) recent) (al_alert_id a)")
  case (Some prior)
  from map_of_dict_of_SomeD [OF this] have "prior \<in> set recent" by blast
  with assms have "dt_aware (al_timestamp prior)" by blast
  with Some assms(1) show ?thesis by (simp add: suppression_reason_def dt_less_def Let_def)
qed (simp add: suppression_reason_def)

lemma suppression_loop_Inr:
  "suppression_loop policy idx now xs = Inr (g, s) \<Longrightarrow>
     g = filter (\<lambda>a. suppression_reason policy idx now a = Inr None) xs \<and>
     mset g + mset (map sa_candidate s) = mset xs \<and>
     (\<forall>x \<in> set xs. \<exists>r. suppression_reason policy idx now x = Inr r)"
proof (induction xs arbitrary: g s)
  case (Cons a xs)
  from Cons.prems obtain r g' s' where r: "suppression_reason policy idx now a = Inr r"
    and rest: "suppression_loop policy idx now xs = Inr (g', s')"
    and gs: "(g, s) = (case r of Some t \<Rightarrow> (g', suppressed_alert t a # s') | None \<Rightarrow> (a # g', s'))"
    by (auto simp: bindR_eq_Inr)
  from Cons.IH [OF rest] r gs show ?case by (auto simp: suppressed_alert_def split: option.splits)
qed simp

lemma suppression_loop_total:
  assumes "\<And>x. x \<in> set xs \<Longrightarrow> \<exists>r. suppression_reason policy idx now x = Inr r"
  shows "\<exists>g s. suppression_loop policy idx now xs = Inr (g, s)"
  using assms
proof (induction xs)
  case (Cons a xs)
  then obtain r g s where "suppression_reason policy idx now a = Inr r"
    "suppression_loop policy idx now xs = Inr (g, s)"
    by (meson list.set_intros)
  then show ?case by (cases r) simp_all
qed simp

section \<open>The batch\<close>

definition batch_time :: "datetime \<Rightarrow> datetime option \<Rightarrow> datetime" where
  "batch_time clk ts = (case ts of None \<Rightarrow> clk | Some t \<Rightarrow> t)"

definition batch_policy :: "AlertPolicy option \<Rightarrow> AlertPolicy" where
  "batch_policy policy = (case policy of None \<Rightarrow> default_alert_policy | Some p \<Rightarrow> p)"

lemma generate_alerts_Inr:
  assumes "generate_alerts H clk report policy recent ts = Inr batch"
  obtains g s where
    "suppression_loop (batch_policy policy) (dict_of al_alert_id (\<lambda>a. a) recent) (batch_time clk ts)
       (sort_key delivery_key (unique_candidates H report (batch_time clk ts))) = Inr (g, s)"
    "ab_generated_alerts batch = g"
    "ab_suppressed_alerts batch = sort_key sa_alert_id (s @ map (suppressed_alert ''duplicate alert identifier'')
       (snd (deduplicate_batch (evaluate_rules H report (batch_time clk ts)))))"
    "ab_routing batch = map routing_decision g"
    "ab_generated_at batch = batch_time clk ts"
proof -
  from assms obtain g s where
    loop: "suppression_loop (batch_policy policy) (dict_of al_alert_id (\<lambda>a. a) recent) (batch_time clk ts)
       (sort_key delivery_key (unique_candidates H report (batch_time clk ts))) = Inr (g, s)"
    and batch: "batch = \<lparr>ab_watch_id = rp_watch_id report,
         ab_generated_alerts = sort_key delivery_key g,
         ab_suppressed_alerts = sort_key sa_alert_id (s @ map (suppressed_alert ''duplicate alert identifier'')
           (snd (deduplicate_batch (evaluate_rules H report (batch_time clk ts))))),
         ab_routing = route (sort_key delivery_key g),
         ab_generated_at = batch_time clk ts\<rparr>"
    by (auto simp: generate_alerts_def Let_def bindR_eq_Inr apply_suppression_def batch_time_def
        batch_policy_def unique_candidates_def case_prod_unfold)
  have "sorted (map delivery_key g)"
    using suppression_loop_Inr [OF loop] by (simp add: sorted_filter)
  then have "sort_key delivery_key g = g" by (rule sort_key_id_if_sorted)
  then show thesis using that [OF loop] batch by (simp add: route_def)
qed

text \<open>
  No candidate alert is lost or invented: the delivered and the suppressed alerts
  together are, with multiplicity, the alerts the rules produced. Delivered alerts have distinct
  identifiers and come sorted, suppressed ones are sorted by identifier, and every delivered alert
  has its routing decision.
\<close>

theorem alerts_conserved:
  assumes "generate_alerts H clk report policy recent ts = Inr batch"
  shows "mset (ab_generated_alerts batch) + mset (map sa_candidate (ab_suppressed_alerts batch)) =
       mset (evaluate_rules H report (batch_time clk ts)) \<and>
     distinct (map al_alert_id (ab_generated_alerts batch)) \<and>
     sorted (map delivery_key (ab_generated_alerts batch)) \<and>
     sorted (map sa_alert_id (ab_suppressed_alerts batch)) \<and>
     ab_routing batch = map routing_decision (ab_generated_alerts batch)"
proof -
  let ?cands = "evaluate_rules H report (batch_time clk ts)"
  obtain g s where loop: "suppression_loop (batch_policy policy) (dict_of al_alert_id (\<lambda>a. a) recent)
       (batch_time clk ts) (sort_key delivery_key (unique_candidates H report (batch_time clk ts))) = Inr (g, s)"
    and b: "ab_generated_alerts batch = g"
    "ab_suppressed_alerts batch = sort_key sa_alert_id (s @ map (suppressed_alert ''duplicate alert identifier'')
       (snd (deduplicate_batch ?cands)))" "ab_routing batch = map routing_decision g"
    using generate_alerts_Inr [OF assms] by blast
  note split = suppression_loop_Inr [OF loop]
  have g: "mset g + mset (map sa_candidate s) = mset (unique_candidates H report (batch_time clk ts))"
    using conjunct1 [OF conjunct2 [OF split]] by simp
  note sub = conjunct1 [OF split]
  have "mset g + (mset (map sa_candidate s) + mset (snd (deduplicate_batch ?cands))) = mset ?cands"
    using g dedup_loop_mset [of "[]" "sort_key alert_sort_key ?cands"]
    by (simp add: unique_candidates_def deduplicate_batch_def add.assoc [symmetric])
  moreover have "mset (map sa_candidate (ab_suppressed_alerts batch)) =
      mset (map sa_candidate s) + mset (snd (deduplicate_batch ?cands))"
    by (simp add: b(2) suppressed_alert_def multiset.map_comp o_def)
  moreover have "distinct (map al_alert_id g)" "sorted (map delivery_key g)"
    unfolding sub using distinct_unique_candidates
    by (simp_all only: distinct_map_filter distinct_map_sort_key sorted_filter sorted_sort_key)
  ultimately show ?thesis using b by simp
qed

lemma generated_iff:
  assumes "generate_alerts H clk report policy recent ts = Inr batch"
  shows "a \<in> set (ab_generated_alerts batch) \<longleftrightarrow>
    a \<in> set (unique_candidates H report (batch_time clk ts)) \<and>
    deliverable (batch_policy policy) recent (batch_time clk ts) a"
proof -
  obtain g s where loop: "suppression_loop (batch_policy policy) (dict_of al_alert_id (\<lambda>a. a) recent)
       (batch_time clk ts) (sort_key delivery_key (unique_candidates H report (batch_time clk ts))) = Inr (g, s)"
    and b: "ab_generated_alerts batch = g"
    using generate_alerts_Inr [OF assms] by blast
  note split = suppression_loop_Inr [OF loop]
  have "suppression_reason (batch_policy policy) (dict_of al_alert_id (\<lambda>a. a) recent) (batch_time clk ts) x =
      Inr None \<longleftrightarrow> deliverable (batch_policy policy) recent (batch_time clk ts) x"
    if "x \<in> set (unique_candidates H report (batch_time clk ts))" for x
  proof -
    from that conjunct2 [OF conjunct2 [OF split]] obtain r where r: "suppression_reason (batch_policy policy)
        (dict_of al_alert_id (\<lambda>a. a) recent) (batch_time clk ts) x = Inr r"
      by auto
    from suppression_reason_deliverable [OF r] show ?thesis by (auto simp: r)
  qed
  with conjunct1 [OF split] show ?thesis by (auto simp: b)
qed

lemma generate_alerts_total:
  assumes "dt_aware (batch_time clk ts)" and "list_all (\<lambda>x. dt_aware (al_timestamp x)) recent"
  obtains batch where "generate_alerts H clk report policy recent ts = Inr batch"
proof -
  have "\<exists>r. suppression_reason (batch_policy policy) (dict_of al_alert_id (\<lambda>a. a) recent)
      (batch_time clk ts) a = Inr r" for a
    using suppression_reason_total [of "batch_time clk ts" recent] assms by (auto simp: list_all_iff)
  then obtain g s where "suppression_loop (batch_policy policy) (dict_of al_alert_id (\<lambda>a. a) recent)
      (batch_time clk ts) (sort_key delivery_key (unique_candidates H report (batch_time clk ts))) = Inr (g, s)"
    using suppression_loop_total by meson
  then have "\<exists>batch. generate_alerts H clk report policy recent ts = Inr batch"
    by (simp add: generate_alerts_def Let_def apply_suppression_def batch_time_def
        batch_policy_def unique_candidates_def case_prod_unfold)
  with that show thesis by blast
qed

text \<open>
  Property C28. The engine delivers exactly what the policy allows: with timezone-aware timestamps
  generation always returns, and an alert is delivered if and only if it is a deduplicated candidate
  of at least the minimum severity that is neither acknowledged (when acknowledgements are
  respected) nor within the cooldown of a recent alert of its identifier.
\<close>

theorem delivery_exact:
  assumes "dt_aware (batch_time clk ts)" and "list_all (\<lambda>x. dt_aware (al_timestamp x)) recent"
  shows "\<exists>batch. generate_alerts H clk report policy recent ts = Inr batch \<and>
     set (ab_generated_alerts batch) =
       {a. a \<in> set (unique_candidates H report (batch_time clk ts)) \<and>
           deliverable (batch_policy policy) recent (batch_time clk ts) a}"
proof -
  obtain batch where "generate_alerts H clk report policy recent ts = Inr batch"
    using generate_alerts_total [OF assms] by blast
  with generated_iff [OF this] show ?thesis by blast
qed

section \<open>Cooldown\<close>

lemma build_alert_simps [simp]:
  "al_timestamp (build_alert H r ty sv t s ids now) = now"
  "al_alert_id (build_alert H r ty sv t s ids now) = build_alert_id H (rp_watch_id r) ty ids"
  "al_severity (build_alert H r ty sv t s ids now) = sv"
  "al_rule_type (build_alert H r ty sv t s ids now) = ty"
  "al_acknowledgement_state (build_alert H r ty sv t s ids now) = AckPending"
  by (simp_all add: build_alert_def case_prod_unfold Let_def)

text \<open>Every candidate is built by \<open>build_alert\<close>, and the critical rules give critical alerts.\<close>

definition built_by_rules :: "(string \<Rightarrow> string) \<Rightarrow> RiskDeltaReport \<Rightarrow> datetime \<Rightarrow> SecurityAlert \<Rightarrow> bool" where
  "built_by_rules H report now a \<longleftrightarrow>
     (\<exists>ids. al_alert_id a = build_alert_id H (rp_watch_id report) (al_rule_type a) ids) \<and>
     al_timestamp a = now \<and> al_acknowledgement_state a = AckPending \<and>
     (al_rule_type a = RuleNewCriticalEvidence \<longrightarrow> al_severity a = SevCritical)"

lemma built_by_build_alert [simp]:
  "built_by_rules H report now (build_alert H report ty sv t s ids now) \<longleftrightarrow>
     (ty = RuleNewCriticalEvidence \<longrightarrow> sv = SevCritical)"
  by (auto simp: built_by_rules_def)

lemma candidates_built: "list_all (built_by_rules H report now) (evaluate_rules H report now)"
proof -
  have "list_all (built_by_rules H report now) (risk_increase_rules H report now)"
    by (simp add: risk_increase_rules_def Let_def)
  moreover have "list_all (built_by_rules H report now) (rules_for_added_evidence H report now e)" for e
    by (simp add: rules_for_added_evidence_def Let_def del: severity_value.simps)
  moreover have "list_all (built_by_rules H report now) (rules_for_updated_evidence H report now p)" for p
    by (simp add: rules_for_updated_evidence_def Let_def case_prod_unfold)
  ultimately show ?thesis
    by (simp add: evaluate_rules_def evidence_rules_def list_all_iff) blast
qed

lemma candidate_built: "a \<in> set (unique_candidates H report now) \<Longrightarrow> built_by_rules H report now a"
  using candidates_built [of H report now] unique_candidates_subset [of H report now]
  by (auto simp: list_all_iff)

lemma rule_type_value_no_colon: "CHR '':'' \<notin> set (rule_type_value ty)"
  by (cases ty) auto

lemma rule_type_value_inj: "rule_type_value a = rule_type_value b \<longleftrightarrow> a = b"
  by (cases a; cases b) simp_all

lemma build_alert_id_rule:
  "build_alert_id H w ty ids = build_alert_id H w ty' ids' \<Longrightarrow> ty = ty'"
  using append_sep_inject [OF rule_type_value_no_colon rule_type_value_no_colon,
      of ty "H (join ''|'' [w, rule_type_value ty, join '','' (sort ids)])" ty'
        "H (join ''|'' [w, rule_type_value ty', join '','' (sort ids')])"]
  by (simp add: build_alert_id_def Let_def rule_type_value_inj)

text \<open>
  Property C11. A delivered alert is not repeated within its cooldown: when the alerts of an earlier
  batch are the recent alerts of a later run, no alert of the later batch has the identifier of one
  of them as long as the cooldown of the policy has not passed.
\<close>

theorem no_repeat_within_cooldown:
  assumes first: "generate_alerts H clk1 report1 policy1 recent1 ts1 = Inr batch1"
    and second: "generate_alerts H clk2 report2 policy2 (ab_generated_alerts batch1) ts2 = Inr batch2"
    and cooldown: "0 < ap_cooldown_seconds (batch_policy policy2)"
    and early: "dt_instant (batch_time clk2 ts2) <
      dt_instant (batch_time clk1 ts1) + ap_cooldown_seconds (batch_policy policy2) * us_per_second"
  shows "al_alert_id ` set (ab_generated_alerts batch1) \<inter> al_alert_id ` set (ab_generated_alerts batch2) = {}"
proof -
  have False if a: "a \<in> set (ab_generated_alerts batch1)" and b: "b \<in> set (ab_generated_alerts batch2)"
    and same: "al_alert_id a = al_alert_id b" for a b
  proof -
    let ?idx = "dict_of al_alert_id (\<lambda>x. x) (ab_generated_alerts batch1)"
    have "map_of ?idx (al_alert_id b) \<noteq> None"
      using a same by (metis imageI map_of_dict_of_None)
    then obtain prior where prior: "map_of ?idx (al_alert_id b) = Some prior" by blast
    with map_of_dict_of_SomeD [OF prior] have "prior \<in> set (ab_generated_alerts batch1)" by blast
    then have "al_timestamp prior = batch_time clk1 ts1"
      using generated_iff [OF first] candidate_built by (auto simp: built_by_rules_def)
    moreover have "deliverable (batch_policy policy2) (ab_generated_alerts batch1) (batch_time clk2 ts2) b"
      using b generated_iff [OF second] by blast
    ultimately show False using prior cooldown early by (simp add: deliverable_def)
  qed
  then show ?thesis by blast
qed

section \<open>Critical evidence\<close>

text \<open>
  Critical evidence always leads to an alert: when an added item is critical, or an
  updated item has become critical, and no recent alert exists, the batch contains the
  new-critical-evidence alert of that item, whatever minimum severity the policy sets.
\<close>

theorem critical_evidence_alerts:
  assumes "generate_alerts H clk report policy [] ts = Inr batch"
    and "(e \<in> set (rd_added (rp_delta report)) \<and> ev_severity e = SevCritical) \<or>
      (\<exists>b. (b, e) \<in> set (rd_updated (rp_delta report)) \<and> ev_severity b \<noteq> SevCritical \<and> ev_severity e = SevCritical)"
  shows "\<exists>a. a \<in> set (ab_generated_alerts batch) \<and> al_severity a = SevCritical \<and>
     al_rule_type a = RuleNewCriticalEvidence \<and>
     al_alert_id a = build_alert_id H (rp_watch_id report) RuleNewCriticalEvidence [ev_id e]"
proof -
  let ?id = "build_alert_id H (rp_watch_id report) RuleNewCriticalEvidence [ev_id e]"
  have "?id \<in> al_alert_id ` set (evaluate_rules H report (batch_time clk ts))"
    using assms(2)
  proof
    assume "e \<in> set (rd_added (rp_delta report)) \<and> ev_severity e = SevCritical"
    moreover from this have
      "?id \<in> al_alert_id ` set (rules_for_added_evidence H report (batch_time clk ts) e)"
      by (simp add: rules_for_added_evidence_def Let_def)
    ultimately show ?thesis by (auto simp: evaluate_rules_def evidence_rules_def)
  next
    assume "\<exists>b. (b, e) \<in> set (rd_updated (rp_delta report)) \<and> ev_severity b \<noteq> SevCritical \<and> ev_severity e = SevCritical"
    then obtain b where b: "(b, e) \<in> set (rd_updated (rp_delta report))" "ev_severity b \<noteq> SevCritical"
      "ev_severity e = SevCritical" by blast
    then have "?id \<in> al_alert_id ` set (rules_for_updated_evidence H report (batch_time clk ts) (b, e))"
      by (simp add: rules_for_updated_evidence_def Let_def)
    with b(1) show ?thesis by (auto simp: evaluate_rules_def evidence_rules_def)
  qed
  then obtain a where a: "a \<in> set (unique_candidates H report (batch_time clk ts))" "al_alert_id a = ?id"
    unfolding ids_unique_candidates [symmetric] by auto
  from candidate_built [OF a(1)] a(2) have "al_rule_type a = RuleNewCriticalEvidence"
    using build_alert_id_rule by (metis built_by_rules_def)
  with candidate_built [OF a(1)] have crit: "al_severity a = SevCritical" by (simp add: built_by_rules_def)
  then have "deliverable (batch_policy policy) [] (batch_time clk ts) a"
    by (simp add: deliverable_def dict_of_def)
  with generated_iff [OF assms(1)] a crit \<open>al_rule_type a = RuleNewCriticalEvidence\<close> show ?thesis by blast
qed

section \<open>Witnesses\<close>

definition demo_critical :: RiskEvidence where
  "demo_critical = create_evidence demo_clock SrcThreatSurface CatThreat ''drain'' SevCritical (dec_int 50)
     ConfHigh ''funds can be drained'' None None"

definition demo_bundle :: "RiskEvidence list \<Rightarrow> EvidenceBundle" where
  "demo_bundle es = \<lparr>eb_watch_id = ''1:0xab'', eb_evidence = es, eb_captured_at = demo_clock\<rparr>"

lemma demo_report:
  obtains r where
    "compute_risk_delta (build_delta [] [demo_critical]) (demo_bundle []) (demo_bundle [demo_critical]) = Inr r"
    "demo_critical \<in> set (rd_added (rp_delta r))"
proof -
  have "demo_critical \<in> set (de_added (build_delta [] [demo_critical]))"
    by (simp add: delta_added evidence_index_def dict_of_def)
  with that show thesis by (simp add: compute_risk_delta_def demo_bundle_def Let_def)
qed

lemma demo_critical_severity [simp]: "ev_severity demo_critical = SevCritical"
  by (simp add: demo_critical_def create_evidence_def)

lemma demo_clock_aware [simp]: "dt_aware demo_clock"
  by (simp add: demo_clock_def dt_aware_def)

lemma batch_time_None [simp]: "batch_time clk None = clk"
  by (simp add: batch_time_def)

lemma demo_batch:
  obtains batch where "generate_alerts H demo_clock r None [] None = Inr batch"
  using generate_alerts_total [of demo_clock None "[]" H r None] by auto

theorem alerts_conserved_witness:
  "\<exists>r batch. compute_risk_delta (build_delta [] [demo_critical]) (demo_bundle [])
       (demo_bundle [demo_critical]) = Inr r \<and>
     generate_alerts (\<lambda>s. s) demo_clock r None [] None = Inr batch \<and>
     distinct (map al_alert_id (ab_generated_alerts batch))"
proof -
  obtain r where r: "compute_risk_delta (build_delta [] [demo_critical]) (demo_bundle [])
       (demo_bundle [demo_critical]) = Inr r" using demo_report by blast
  obtain batch where batch: "generate_alerts (\<lambda>s. s) demo_clock r None [] None = Inr batch"
    using demo_batch by blast
  from alerts_conserved [OF batch] r batch show ?thesis by blast
qed

theorem delivery_exact_witness:
  "\<exists>r batch. compute_risk_delta (build_delta [] [demo_critical]) (demo_bundle [])
       (demo_bundle [demo_critical]) = Inr r \<and>
     generate_alerts (\<lambda>s. s) demo_clock r None [] None = Inr batch"
proof -
  obtain r where r: "compute_risk_delta (build_delta [] [demo_critical]) (demo_bundle [])
       (demo_bundle [demo_critical]) = Inr r" using demo_report by blast
  with delivery_exact [of demo_clock None "[]" "\<lambda>s. s" r None] show ?thesis by auto
qed

theorem critical_evidence_alerts_witness:
  "\<exists>r batch a. compute_risk_delta (build_delta [] [demo_critical]) (demo_bundle [])
       (demo_bundle [demo_critical]) = Inr r \<and>
     generate_alerts (\<lambda>s. s) demo_clock r None [] None = Inr batch \<and>
     a \<in> set (ab_generated_alerts batch) \<and> al_rule_type a = RuleNewCriticalEvidence"
proof -
  obtain r where r: "compute_risk_delta (build_delta [] [demo_critical]) (demo_bundle [])
       (demo_bundle [demo_critical]) = Inr r" and e: "demo_critical \<in> set (rd_added (rp_delta r))"
    using demo_report by blast
  obtain batch where batch: "generate_alerts (\<lambda>s. s) demo_clock r None [] None = Inr batch"
    using demo_batch by blast
  from critical_evidence_alerts [OF batch, of demo_critical] e r batch show ?thesis by auto
qed

theorem no_repeat_within_cooldown_witness:
  "\<exists>r batch batch'. compute_risk_delta (build_delta [] [demo_critical]) (demo_bundle [])
       (demo_bundle [demo_critical]) = Inr r \<and>
     generate_alerts (\<lambda>s. s) demo_clock r None [] None = Inr batch \<and>
     generate_alerts (\<lambda>s. s) (dt_add demo_clock 60000000) r None (ab_generated_alerts batch) None = Inr batch' \<and>
     al_alert_id ` set (ab_generated_alerts batch) \<inter> al_alert_id ` set (ab_generated_alerts batch') = {}"
proof -
  obtain r where r: "compute_risk_delta (build_delta [] [demo_critical]) (demo_bundle [])
       (demo_bundle [demo_critical]) = Inr r" using demo_report by blast
  obtain batch where batch: "generate_alerts (\<lambda>s. s) demo_clock r None [] None = Inr batch"
    using demo_batch by blast
  have "al_timestamp a = demo_clock" if "a \<in> set (ab_generated_alerts batch)" for a
    using that generated_iff [OF batch] candidate_built by (auto simp: built_by_rules_def)
  then have aware: "list_all (\<lambda>x. dt_aware (al_timestamp x)) (ab_generated_alerts batch)"
    by (simp add: list_all_iff)
  obtain batch' where batch': "generate_alerts (\<lambda>s. s) (dt_add demo_clock 60000000) r None
      (ab_generated_alerts batch) None = Inr batch'"
    by (rule generate_alerts_total [OF _ aware, of "dt_add demo_clock 60000000" None]) simp
  from no_repeat_within_cooldown [OF batch batch'] r batch batch' show ?thesis
    by (auto simp: batch_policy_def default_alert_policy_def)
qed

section \<open>Notification payloads\<close>

lemma channel_value_inj: "channel_value a = channel_value b \<longleftrightarrow> a = b"
  by (cases a; cases b) simp_all

lemma push_payload_get:
  "dict_get (push_payload a ch grouped) (channel_value ch') [] =
     dict_get grouped (channel_value ch') [] @ (if ch = ch' then [format_alert a ch] else [])"
  by (simp add: push_payload_def dict_get_def channel_value_inj)

lemma push_payloads_get:
  "distinct chs \<Longrightarrow> dict_get (fold (push_payload a) chs grouped) (channel_value ch) [] =
     dict_get grouped (channel_value ch) [] @ (if ch \<in> set chs then [format_alert a ch] else [])"
  by (induction chs arbitrary: grouped) (auto simp: push_payload_get)

lemma format_batch_get:
  assumes "\<And>a. a \<in> set alerts \<Longrightarrow> distinct (alert_channels routing a)"
  shows "dict_get (format_batch alerts routing) (channel_value ch) [] =
     map (\<lambda>a. format_alert a ch) (filter (\<lambda>a. ch \<in> set (alert_channels routing a)) alerts)"
proof -
  have "dict_get (fold (\<lambda>a grouped. fold (push_payload a) (alert_channels routing a) grouped) alerts grouped)
      (channel_value ch) [] = dict_get grouped (channel_value ch) [] @
        map (\<lambda>a. format_alert a ch) (filter (\<lambda>a. ch \<in> set (alert_channels routing a)) alerts)" for grouped
    using assms by (induction alerts arbitrary: grouped) (simp_all add: push_payloads_get)
  from this [of "[]"] show ?thesis by (simp add: format_batch_def dict_get_def)
qed

lemma alert_channels_routed:
  assumes "distinct (map al_alert_id alerts)" "a \<in> set alerts"
  shows "alert_channels (map routing_decision alerts) a = channels_for_severity (al_severity a)"
proof -
  have "distinct (map ro_alert_id (map routing_decision alerts))"
    using assms(1) by (simp add: routing_decision_def o_def)
  moreover have "routing_decision a \<in> set (map routing_decision alerts)" using assms(2) by simp
  ultimately have "map_of (dict_of ro_alert_id (\<lambda>r. r) (map routing_decision alerts))
      (ro_alert_id (routing_decision a)) = Some (routing_decision a)"
    using map_of_dict_of_inj by fast
  then show ?thesis by (simp add: alert_channels_def routing_decision_def)
qed

text \<open>
  Formatting a generated batch delivers each alert on exactly the channels of its
  severity: the payloads of a channel are those of the delivered alerts whose severity routes to
  it, in delivery order; critical alerts reach the pager, and every alert reaches e-mail.
\<close>

theorem batch_payloads:
  assumes "generate_alerts H clk report policy recent ts = Inr batch"
  shows "dict_get (format_batch (ab_generated_alerts batch) (ab_routing batch)) (channel_value ch) [] =
     map (\<lambda>a. format_alert a ch)
       (filter (\<lambda>a. ch \<in> set (channels_for_severity (al_severity a))) (ab_generated_alerts batch)) \<and>
     ChanPagerduty \<in> set (channels_for_severity SevCritical) \<and>
     ChanEmail \<in> set (channels_for_severity s)"
proof -
  obtain g st where loop: "suppression_loop (batch_policy policy) (dict_of al_alert_id (\<lambda>a. a) recent)
       (batch_time clk ts) (sort_key delivery_key (unique_candidates H report (batch_time clk ts))) = Inr (g, st)"
    and b: "ab_generated_alerts batch = g" "ab_routing batch = map routing_decision g"
    using generate_alerts_Inr [OF assms] by blast
  have "distinct (map al_alert_id g)"
    unfolding conjunct1 [OF suppression_loop_Inr [OF loop]] using distinct_unique_candidates
    by (simp only: distinct_map_filter distinct_map_sort_key)
  note routed = alert_channels_routed [OF this]
  have "distinct (channels_for_severity (al_severity a))" for a
    by (simp add: channels_simps)
  then have "dict_get (format_batch g (map routing_decision g)) (channel_value ch) [] =
      map (\<lambda>a. format_alert a ch) (filter (\<lambda>a. ch \<in> set (alert_channels (map routing_decision g) a)) g)"
    by (intro format_batch_get) (simp add: routed)
  also have "filter (\<lambda>a. ch \<in> set (alert_channels (map routing_decision g) a)) g =
      filter (\<lambda>a. ch \<in> set (channels_for_severity (al_severity a))) g"
    by (rule filter_cong) (simp_all add: routed)
  finally show ?thesis by (simp add: b channels_simps)
qed

theorem batch_payloads_witness:
  "\<exists>r batch. compute_risk_delta (build_delta [] [demo_critical]) (demo_bundle [])
       (demo_bundle [demo_critical]) = Inr r \<and>
     generate_alerts (\<lambda>s. s) demo_clock r None [] None = Inr batch \<and>
     dict_get (format_batch (ab_generated_alerts batch) (ab_routing batch)) ''email'' [] =
       map (\<lambda>a. format_alert a ChanEmail) (filter (\<lambda>a. ChanEmail \<in> set (channels_for_severity (al_severity a)))
         (ab_generated_alerts batch))"
proof -
  obtain r where r: "compute_risk_delta (build_delta [] [demo_critical]) (demo_bundle [])
       (demo_bundle [demo_critical]) = Inr r" using demo_report by blast
  obtain batch where batch: "generate_alerts (\<lambda>s. s) demo_clock r None [] None = Inr batch"
    using demo_batch by blast
  from batch_payloads [OF batch, of ChanEmail] r batch show ?thesis by auto
qed

end
