(* ===== verification/HistoryProps.thy ===== *)
theory HistoryProps
  imports History AlertingProps
begin

text \<open>
  The history of a watch is what was appended and not removed: the two indexes of the store agree,
  listing is exact and sorted, a baseline never changes, and retention removes exactly what its
  policy asks for and never the record of the baseline.
\<close>

section \<open>The store invariant\<close>

abbreviation watch_ids :: "InMemoryHistoryStore \<Rightarrow> string \<Rightarrow> string list" where
  "watch_ids st w \<equiv> dict_get (hs_watch_index st) w []"

definition history_inv :: "InMemoryHistoryStore \<Rightarrow> bool" where
  "history_inv st \<longleftrightarrow>
     (\<forall>i r. get_record st i = Some r \<longrightarrow> hr_record_id r = i) \<and>
     (\<forall>w. distinct (watch_ids st w) \<and>
        (\<forall>i. i \<in> set (watch_ids st w) \<longleftrightarrow> (\<exists>r. get_record st i = Some r \<and> hr_watch_id r = w)))"

lemma history_invD:
  assumes "history_inv st"
  shows "get_record st i = Some r \<Longrightarrow> hr_record_id r = i"
    and "distinct (watch_ids st w)"
    and "i \<in> set (watch_ids st w) \<longleftrightarrow> (\<exists>r. get_record st i = Some r \<and> hr_watch_id r = w)"
  using assms by (auto simp: history_inv_def)

lemma get_record_append:
  "get_record (append_record r st) i =
     (if get_record st (hr_record_id r) = None \<and> i = hr_record_id r then Some r else get_record st i)"
  by (auto simp: append_record_def get_record_def dom_map_of_keys del: set_map)

interpretation history: write_once_store get_record append_record hr_record_id
proof
  show "append_record r st = st" if "get_record st (hr_record_id r) = Some w" for r st w
    using that dom_map_of_keys [of "hs_records st" "hr_record_id r"]
    by (auto simp: append_record_def get_record_def)
  show "get_record (append_record r st) = (get_record st)(hr_record_id r \<mapsto> r)"
    if "get_record st (hr_record_id r) = None" for r st
    using that by (auto simp: get_record_append fun_eq_iff)
qed

lemma watch_ids_append:
  "get_record st (hr_record_id r) = None \<Longrightarrow>
     watch_ids (append_record r st) w =
       (if w = hr_watch_id r then watch_ids st w @ [hr_record_id r] else watch_ids st w)"
  by (simp add: append_record_def get_record_def dom_map_of_keys dict_get_def del: set_map)

lemma get_record_empty [simp]: "get_record empty_history i = None"
  by (simp add: get_record_def empty_history_def)

lemma history_inv_empty: "history_inv empty_history"
  by (simp add: history_inv_def empty_history_def get_record_def dict_get_def)

lemma history_inv_append:
  assumes "history_inv st"
  shows "history_inv (append_record r st)"
proof (cases "get_record st (hr_record_id r)")
  case (Some w)
  then show ?thesis using assms by (simp add: history.put_present)
next
  case None
  then have "hr_record_id r \<notin> set (watch_ids st w)" for w
    using history_invD(3) [OF assms] by auto
  with None assms show ?thesis
    by (auto simp: history_inv_def watch_ids_append get_record_append)
qed

lemma remove_record_absent: "get_record st i = None \<Longrightarrow> remove_record i (n, st) = (n, st)"
  by (simp add: remove_record_def get_record_def)

lemma remove_record_present:
  assumes "history_inv st" "get_record st i = Some r"
  obtains st' where "remove_record i (n, st) = (n + 1, st')"
    "get_record st' = (get_record st)(i := None)"
    "\<And>w. watch_ids st' w = filter (\<lambda>j. j \<noteq> i) (watch_ids st w)"
proof -
  have i: "i \<in> set (watch_ids st (hr_watch_id r))" using assms history_invD(3) by blast
  let ?st = "\<lparr>hs_records = dict_pop i (hs_records st),
      hs_watch_index = AList.update (hr_watch_id r) (remove1 i (watch_ids st (hr_watch_id r))) (hs_watch_index st)\<rparr>"
  have "remove_record i (n, st) = (n + 1, ?st)"
    using assms(2) i by (simp add: remove_record_def get_record_def Let_def)
  moreover have "get_record ?st = (get_record st)(i := None)"
    by (simp add: get_record_def fun_eq_iff)
  moreover have "watch_ids ?st w = filter (\<lambda>j. j \<noteq> i) (watch_ids st w)" for w
  proof (cases "w = hr_watch_id r")
    case True
    then show ?thesis using history_invD(2) [OF assms(1)]
      by (simp add: dict_get_def distinct_remove1_removeAll removeAll_filter_not_eq eq_commute [of i])
  next
    case False
    then have "i \<notin> set (watch_ids st w)" using assms history_invD(3) [OF assms(1)] by auto
    then have "filter (\<lambda>j. j \<noteq> i) (watch_ids st w) = watch_ids st w" by (auto simp: filter_id_conv)
    with False show ?thesis by (simp add: dict_get_def)
  qed
  ultimately show thesis using that by blast
qed

lemma history_inv_remove_record:
  assumes "history_inv st"
  shows "history_inv (snd (remove_record i (n, st)))"
proof (cases "get_record st i")
  case None
  with assms show ?thesis by (simp add: remove_record_absent)
next
  case (Some r)
  obtain st' where "remove_record i (n, st) = (n + 1, st')" "get_record st' = (get_record st)(i := None)"
    "\<And>w. watch_ids st' w = filter (\<lambda>j. j \<noteq> i) (watch_ids st w)"
    using remove_record_present [OF assms Some] by blast
  with assms show ?thesis by (auto simp: history_inv_def)
qed

lemma watch_records_remove_record:
  assumes "history_inv st"
  shows "watch_records (snd (remove_record i (n, st))) w =
    filter (\<lambda>r. hr_record_id r \<noteq> i) (watch_records st w)"
proof -
  have pick: "List.map_filter ((get_record st)(i := None)) (filter (\<lambda>j. j \<noteq> i) ks) =
      filter (\<lambda>r. hr_record_id r \<noteq> i) (List.map_filter (get_record st) ks)" for ks
    by (induction ks) (auto simp: map_filter_simps history_invD(1) [OF assms] split: option.splits)
  show ?thesis
  proof (cases "get_record st i")
    case None
    have "hr_record_id r \<noteq> i" if "r \<in> set (watch_records st w)" for r
      using that None history_invD(1) [OF assms]
      by (fastforce simp: watch_records_def map_filter_def get_record_def)
    then have "filter (\<lambda>r. hr_record_id r \<noteq> i) (watch_records st w) = watch_records st w"
      by (simp add: filter_id_conv)
    with None show ?thesis by (simp add: remove_record_absent)
  next
    case (Some r)
    obtain st' where st': "remove_record i (n, st) = (n + 1, st')"
      "get_record st' = (get_record st)(i := None)"
      "\<And>w. watch_ids st' w = filter (\<lambda>j. j \<noteq> i) (watch_ids st w)"
      using remove_record_present [OF assms Some] by blast
    have "map_of (hs_records s) = get_record s" for s by (simp add: get_record_def fun_eq_iff)
    with st' pick show ?thesis by (simp add: watch_records_def)
  qed
qed

lemma fold_remove:
  "history_inv st \<Longrightarrow> history_inv (snd (fold remove_record ids (n, st))) \<and>
     watch_records (snd (fold remove_record ids (n, st))) w =
       filter (\<lambda>r. hr_record_id r \<notin> set ids) (watch_records st w)"
proof (induction ids arbitrary: n st)
  case (Cons i ids)
  obtain m st' where step: "remove_record i (n, st) = (m, st')" by (cases "remove_record i (n, st)")
  with history_inv_remove_record [OF Cons.prems, of i n] watch_records_remove_record [OF Cons.prems, of i n w]
  have "history_inv st'" "watch_records st' w = filter (\<lambda>r. hr_record_id r \<noteq> i) (watch_records st w)"
    by simp_all
  with Cons.IH [of st' m] step show ?case by (simp add: conj_commute)
qed simp

lemma history_inv_remove: "history_inv st \<Longrightarrow> history_inv (snd (remove_records ids st))"
  using fold_remove by (simp add: remove_records_def)

lemma watch_records_remove:
  "history_inv st \<Longrightarrow> watch_records (snd (remove_records ids st)) w =
     filter (\<lambda>r. hr_record_id r \<notin> set ids) (watch_records st w)"
  using fold_remove by (simp add: remove_records_def)

lemma set_watch_records:
  assumes "history_inv st"
  shows "set (watch_records st w) = {r. get_record st (hr_record_id r) = Some r \<and> hr_watch_id r = w}"
proof -
  have mem: "r \<in> set (watch_records st w) \<longleftrightarrow> (\<exists>i. i \<in> set (watch_ids st w) \<and> get_record st i = Some r)" for r
  proof -
    have "r \<in> set (List.map_filter g ks) \<longleftrightarrow> (\<exists>i. i \<in> set ks \<and> g i = Some r)"
      for g :: "string \<Rightarrow> HistoricalRecord option" and ks
      by (induction ks) (auto simp: map_filter_simps split: option.splits)
    then show ?thesis by (simp only: watch_records_def get_record_def)
  qed
  show ?thesis
  proof (intro equalityI subsetI)
    fix r assume "r \<in> set (watch_records st w)"
    then obtain i where i: "i \<in> set (watch_ids st w)" "get_record st i = Some r" using mem by blast
    with history_invD(1,3) [OF assms] show "r \<in> {r. get_record st (hr_record_id r) = Some r \<and> hr_watch_id r = w}"
      by (metis (mono_tags, lifting) mem_Collect_eq option.inject)
  next
    fix r assume "r \<in> {r. get_record st (hr_record_id r) = Some r \<and> hr_watch_id r = w}"
    then show "r \<in> set (watch_records st w)" using mem history_invD(3) [OF assms] by blast
  qed
qed

lemma distinct_watch_records:
  assumes "history_inv st"
  shows "distinct (map hr_record_id (watch_records st w))"
proof -
  have "map hr_record_id (List.map_filter (map_of (hs_records st)) ks) =
      filter (\<lambda>i. get_record st i \<noteq> None) ks" for ks
    by (induction ks) (auto simp: map_filter_simps history_invD(1) [OF assms] get_record_def split: option.splits)
  with history_invD(2) [OF assms] show ?thesis by (simp add: watch_records_def)
qed

section \<open>Listing\<close>

lemma list_records_filter:
  "list_records st w ty =
     filter (\<lambda>r. ty = None \<or> Some (hr_record_type r) = ty) (sort_key record_sort_key (watch_records st w))"
  by (cases ty) (simp_all add: list_records_def filter_sort)

lemma list_records_remove:
  "history_inv st \<Longrightarrow> list_records (snd (remove_records ids st)) w ty =
     filter (\<lambda>r. hr_record_id r \<notin> set ids) (list_records st w ty)"
  by (simp add: list_records_filter watch_records_remove filter_sort conj_commute)

inductive history_reachable :: "InMemoryHistoryStore \<Rightarrow> bool" where
  history_empty: "history_reachable empty_history"
| history_append: "history_reachable st \<Longrightarrow> history_reachable (append_record r st)"
| history_remove: "history_reachable st \<Longrightarrow> history_reachable (snd (remove_records ids st))"

lemma reachable_history_inv: "history_reachable st \<Longrightarrow> history_inv st"
  by (induction rule: history_reachable.induct)
    (simp_all add: history_inv_empty history_inv_append history_inv_remove)

text \<open>
  In every store reached by appending and removing records, listing a watch returns
  exactly the stored records of that watch and type, each once and sorted by time, type and
  identifier; appending a record whose identifier is stored changes nothing, and appending a new
  one makes it retrievable without touching any other.
\<close>

theorem history_listing_exact:
  assumes "history_reachable st"
  shows "set (list_records st w ty) =
       {r. get_record st (hr_record_id r) = Some r \<and> hr_watch_id r = w \<and>
           (ty = None \<or> ty = Some (hr_record_type r))} \<and>
     distinct (map hr_record_id (list_records st w ty)) \<and>
     sorted (map record_sort_key (list_records st w ty)) \<and>
     get_record (append_record r st) = (if get_record st (hr_record_id r) = None
       then (get_record st)(hr_record_id r \<mapsto> r) else get_record st)"
proof -
  note inv = reachable_history_inv [OF assms]
  have "set (list_records st w ty) =
      {r. get_record st (hr_record_id r) = Some r \<and> hr_watch_id r = w \<and>
          (ty = None \<or> ty = Some (hr_record_type r))}"
    by (auto simp: list_records_filter set_watch_records [OF inv])
  moreover have "distinct (map hr_record_id (list_records st w ty))"
    unfolding list_records_filter using distinct_watch_records [OF inv]
    by (simp only: distinct_map_filter distinct_map_sort_key)
  moreover have "sorted (map record_sort_key (list_records st w ty))"
    unfolding list_records_filter by (simp add: sorted_filter)
  moreover have "get_record (append_record r st) = (if get_record st (hr_record_id r) = None
       then (get_record st)(hr_record_id r \<mapsto> r) else get_record st)"
    using history.put_absent [of st r] history.put_present [of st r]
    by (cases "get_record st (hr_record_id r)") simp_all
  ultimately show ?thesis by blast
qed

definition demo_record :: "string \<Rightarrow> int \<Rightarrow> HistoricalRecord" where
  "demo_record ref day = build_record (\<lambda>s. s) ''1:0xab'' RecSnapshot (dt_add demo_clock (day * us_per_day)) ref []"

definition demo_history :: InMemoryHistoryStore where
  "demo_history = append_record (demo_record ''s2'' 400) (append_record (demo_record ''s1'' 1) empty_history)"

lemma demo_history_reachable: "history_reachable demo_history"
  unfolding demo_history_def by (intro history_reachable.intros)

theorem history_listing_exact_witness:
  "\<exists>r. set (list_records demo_history ''1:0xab'' None) =
     {r. get_record demo_history (hr_record_id r) = Some r \<and> hr_watch_id r = ''1:0xab''} \<and>
   r \<in> set (list_records demo_history ''1:0xab'' None)"
proof -
  have "get_record demo_history (hr_record_id (demo_record ''s2'' 400)) \<noteq> None"
    unfolding demo_history_def by (rule history.put_dom)
  then obtain r where r: "get_record demo_history (hr_record_id (demo_record ''s2'' 400)) = Some r" by blast
  then have "r \<in> {demo_record ''s2'' 400, demo_record ''s1'' 1}"
    by (auto simp: demo_history_def get_record_append get_record_empty split: if_splits)
  then have "hr_watch_id r = ''1:0xab''" by (auto simp: demo_record_def build_record_def)
  moreover have "get_record demo_history (hr_record_id r) = Some r"
    using r history_invD(1) [OF reachable_history_inv [OF demo_history_reachable] r] by simp
  ultimately show ?thesis
    using history_listing_exact [OF demo_history_reachable, of "''1:0xab''" None] by auto
qed

section \<open>Retention\<close>

lemma expired_ids_Inr:
  "expired_ids policy now protected rs = Inr ids \<Longrightarrow>
     set ids = hr_record_id ` {r \<in> set rs. hr_reference_id r \<notin> set protected \<and> is_expired policy now r = Inr True} \<and>
     (\<forall>r \<in> set rs. hr_reference_id r \<notin> set protected \<longrightarrow> (\<exists>old. is_expired policy now r = Inr old))"
proof (induction rs arbitrary: ids)
  case (Cons r rs)
  show ?case
  proof (cases "hr_reference_id r \<in> set protected")
    case True
    with Cons show ?thesis by auto
  next
    case False
    with Cons.prems obtain old ids' where old: "is_expired policy now r = Inr old"
      and rest: "expired_ids policy now protected rs = Inr ids'"
      and ids: "ids = (if old then hr_record_id r # ids' else ids')"
      by (auto simp: bindR_eq_Inr)
    from Cons.IH [OF rest] old ids False show ?thesis by auto
  qed
qed simp

lemma length_filter_without:
  assumes "distinct (map f xs)" "set ts \<subseteq> set xs" "distinct ts"
  shows "length (filter (\<lambda>x. f x \<notin> f ` set ts) xs) = length xs - length ts"
proof -
  have inj: "inj_on f (set xs)" and dist: "distinct xs" using assms(1) by (simp_all add: distinct_map)
  have "f x \<in> f ` set ts \<longleftrightarrow> x \<in> set ts" if "x \<in> set xs" for x
    using that inj assms(2) by (meson inj_on_image_mem_iff)
  then have "filter (\<lambda>x. f x \<notin> f ` set ts) xs = filter (\<lambda>x. x \<notin> set ts) xs"
    by (intro filter_cong) simp_all
  moreover have "set (filter (\<lambda>x. x \<notin> set ts) xs) = set xs - set ts" by auto
  moreover have "distinct (filter (\<lambda>x. x \<notin> set ts) xs)" using dist by simp
  ultimately have "length (filter (\<lambda>x. f x \<notin> f ` set ts) xs) = card (set xs - set ts)"
    by (metis distinct_card)
  also have "\<dots> = length xs - length ts"
    using assms(2,3) dist by (simp add: card_Diff_subset distinct_card)
  finally show ?thesis .
qed

text \<open>What survives the first pass of retention: protected or not older than the cutoff.\<close>

definition fresh_record :: "RetentionPolicy \<Rightarrow> datetime \<Rightarrow> string list \<Rightarrow> HistoricalRecord \<Rightarrow> bool" where
  "fresh_record policy now protected r \<longleftrightarrow>
     hr_reference_id r \<in> set protected \<or> rt_max_age_days policy \<le> 0 \<or>
     dt_instant now - rt_max_age_days policy * us_per_day \<le> dt_instant (hr_timestamp r)"

lemma is_expired_fresh:
  "is_expired policy now r = Inr old \<Longrightarrow> hr_reference_id r \<notin> set protected \<Longrightarrow>
     old \<longleftrightarrow> \<not> fresh_record policy now protected r"
  by (auto simp: is_expired_def fresh_record_def dt_less_def split: if_splits)

lemma survivors:
  assumes "history_inv hs"
    and "expired_ids policy now protected (list_records hs w None) = Inr ids"
  shows "filter (\<lambda>r. hr_record_id r \<notin> set ids) (list_records hs w None) =
    filter (fresh_record policy now protected) (list_records hs w None)"
proof (rule filter_cong [OF refl])
  fix r assume r: "r \<in> set (list_records hs w None)"
  let ?rs = "list_records hs w None"
  note ids = expired_ids_Inr [OF assms(2)]
  have inj: "r' = r" if "r' \<in> set ?rs" "hr_record_id r' = hr_record_id r" for r'
  proof -
    have "distinct (map hr_record_id ?rs)"
      using distinct_watch_records [OF assms(1)] by (simp add: list_records_def)
    with that r show ?thesis by (meson distinct_map inj_onD)
  qed
  have "hr_record_id r \<in> set ids \<longleftrightarrow>
      hr_reference_id r \<notin> set protected \<and> is_expired policy now r = Inr True"
  proof
    assume "hr_record_id r \<in> set ids"
    then obtain r' where "r' \<in> set ?rs" "hr_record_id r' = hr_record_id r"
      "hr_reference_id r' \<notin> set protected" "is_expired policy now r' = Inr True"
      unfolding conjunct1 [OF ids] by auto
    with inj [of r'] show "hr_reference_id r \<notin> set protected \<and> is_expired policy now r = Inr True" by simp
  next
    assume "hr_reference_id r \<notin> set protected \<and> is_expired policy now r = Inr True"
    with r show "hr_record_id r \<in> set ids" unfolding conjunct1 [OF ids] by simp
  qed
  also have "\<dots> \<longleftrightarrow> \<not> fresh_record policy now protected r"
  proof (cases "hr_reference_id r \<in> set protected")
    case False
    with conjunct2 [OF ids] r obtain old where old: "is_expired policy now r = Inr old" by blast
    from is_expired_fresh [OF old False] False old show ?thesis by simp
  qed (simp add: fresh_record_def)
  finally show "hr_record_id r \<notin> set ids \<longleftrightarrow> fresh_record policy now protected r" by simp
qed

lemma overflow_ids_mem:
  "i \<in> set (overflow_ids policy protected rs) \<Longrightarrow>
     \<exists>r \<in> set rs. hr_record_id r = i \<and> hr_reference_id r \<notin> set protected"
  by (auto simp: overflow_ids_def Let_def split: if_splits dest!: in_set_takeD)

definition retention_policy :: "RetentionPolicy option \<Rightarrow> RetentionPolicy" where
  "retention_policy p = (case p of None \<Rightarrow> default_retention | Some p \<Rightarrow> p)"

lemma apply_retention_Inr:
  assumes "history_inv hs" "apply_retention clk bs w p ts hs = Inr (m, hs')"
  defines "policy \<equiv> retention_policy p"
    and "now \<equiv> batch_time clk ts"
    and "protected \<equiv> protected_reference_ids bs w (retention_policy p)"
  defines "kept \<equiv> filter (fresh_record policy now protected) (list_records hs w None)"
  shows "list_records hs' w None =
      filter (\<lambda>r. hr_record_id r \<notin> set (overflow_ids policy protected kept)) kept"
    and "history_inv hs'"
    and "am_retained_count m = length (list_records hs' w None)"
    and "\<And>w'. list_records hs' w' ty = filter (\<lambda>r. hr_record_id r \<notin> set (am_removed_record_ids m)) (list_records hs w' ty)"
    and "\<And>i. i \<in> set (am_removed_record_ids m) \<Longrightarrow> \<exists>r \<in> set (list_records hs w None). hr_record_id r = i"
proof -
  from assms(2) obtain ids where
    ids: "expired_ids policy now protected (list_records hs w None) = Inr ids"
    and m: "am_removed_record_ids m = sorted_set (ids @ overflow_ids policy protected
        (filter (\<lambda>r. hr_record_id r \<notin> set ids) (list_records hs w None)))"
      "hs' = snd (remove_records (am_removed_record_ids m) hs)"
      "am_retained_count m = length (list_records hs' w None)"
    unfolding policy_def now_def protected_def retention_policy_def batch_time_def
    by (auto simp: apply_retention_def Let_def bindR_eq_Inr)
  note kept = survivors [OF assms(1) ids, folded kept_def]
  show "list_records hs' w None =
      filter (\<lambda>r. hr_record_id r \<notin> set (overflow_ids policy protected kept)) kept"
    by (simp add: m(1,2) list_records_remove [OF assms(1)] kept flip: filter_filter [of _ "\<lambda>r. hr_record_id r \<notin> set ids"])
  show "history_inv hs'" by (simp add: m(2) history_inv_remove [OF assms(1)])
  show "am_retained_count m = length (list_records hs' w None)" by (rule m(3))
  show "list_records hs' w' ty = filter (\<lambda>r. hr_record_id r \<notin> set (am_removed_record_ids m)) (list_records hs w' ty)" for w'
    unfolding m(2) by (rule list_records_remove [OF assms(1)])
  show "\<exists>r \<in> set (list_records hs w None). hr_record_id r = i" if "i \<in> set (am_removed_record_ids m)" for i
    using that conjunct1 [OF expired_ids_Inr [OF ids]] overflow_ids_mem
    by (force simp: m(1) kept)
qed

lemma list_records_mem:
  assumes "history_inv hs"
  shows "r \<in> set (list_records hs w None) \<longleftrightarrow> get_record hs (hr_record_id r) = Some r \<and> hr_watch_id r = w"
  by (simp add: list_records_def set_watch_records [OF assms])

lemma record_id_inj:
  assumes "history_inv hs" "r \<in> set (list_records hs w None)" "r' \<in> set (list_records hs w' ty)"
    "hr_record_id r' = hr_record_id r"
  shows "r' = r"
proof -
  have "r' \<in> set (list_records hs w' None)" using assms(3) by (auto simp: list_records_filter)
  with assms list_records_mem [OF assms(1)] show ?thesis by (metis option.inject)
qed

text \<open>
  Property C24. Retention is safe: the record of the protected baseline survives, every other watch is
  untouched, what survives was there before and is not expired, nothing unexpired is removed unless
  there are more unexpired records than the policy allows, and of the unprotected records the oldest
  go first.
\<close>

theorem retention_safe:
  assumes reach: "history_reachable hs"
    and run: "apply_retention clk bs w p ts hs = Inr (m, hs')"
  shows "(\<forall>r. r \<in> set (list_records hs w None) \<and>
         hr_reference_id r \<in> set (protected_reference_ids bs w (retention_policy p)) \<longrightarrow>
         r \<in> set (list_records hs' w None)) \<and>
     (\<forall>w'. w' \<noteq> w \<longrightarrow> list_records hs' w' ty = list_records hs w' ty) \<and>
     set (list_records hs' w None) \<subseteq> set (filter (fresh_record (retention_policy p) (batch_time clk ts)
       (protected_reference_ids bs w (retention_policy p))) (list_records hs w None)) \<and>
     (int (length (filter (fresh_record (retention_policy p) (batch_time clk ts)
       (protected_reference_ids bs w (retention_policy p))) (list_records hs w None)))
         \<le> rt_max_records_per_watch (retention_policy p) \<longrightarrow>
       list_records hs' w None = filter (fresh_record (retention_policy p) (batch_time clk ts)
         (protected_reference_ids bs w (retention_policy p))) (list_records hs w None))"
proof -
  let ?policy = "retention_policy p" and ?protected = "protected_reference_ids bs w (retention_policy p)"
  let ?kept = "filter (fresh_record ?policy (batch_time clk ts) ?protected) (list_records hs w None)"
  note inv = reachable_history_inv [OF reach]
  note after = apply_retention_Inr [OF inv run]
  have "r \<in> set (list_records hs' w None)"
    if r: "r \<in> set (list_records hs w None)" "hr_reference_id r \<in> set ?protected" for r
  proof -
    have "hr_record_id r \<notin> set (overflow_ids ?policy ?protected ?kept)"
    proof
      assume "hr_record_id r \<in> set (overflow_ids ?policy ?protected ?kept)"
      from overflow_ids_mem [OF this] obtain r' where "r' \<in> set (list_records hs w None)"
        "hr_record_id r' = hr_record_id r" "hr_reference_id r' \<notin> set ?protected" by auto
      with record_id_inj [OF inv r(1)] r(2) show False by blast
    qed
    with r show ?thesis unfolding after(1) by (simp add: fresh_record_def)
  qed
  moreover have "list_records hs' w' ty = list_records hs w' ty" if "w' \<noteq> w" for w'
  proof -
    have "hr_record_id r \<notin> set (am_removed_record_ids m)" if r: "r \<in> set (list_records hs w' ty)" for r
    proof
      assume gone: "hr_record_id r \<in> set (am_removed_record_ids m)"
      from after(5) [OF gone] obtain r' where
        "r' \<in> set (list_records hs w None)" "hr_record_id r' = hr_record_id r" by blast
      with record_id_inj [OF inv _ r] have "r \<in> set (list_records hs w None)" by metis
      moreover from r have "r \<in> set (list_records hs w' None)" by (auto simp: list_records_filter)
      ultimately show False using \<open>w' \<noteq> w\<close> by (simp add: list_records_mem [OF inv])
    qed
    then show ?thesis unfolding after(4) by (simp add: filter_id_conv)
  qed
  moreover have "set (list_records hs' w None) \<subseteq> set ?kept" unfolding after(1) by auto
  moreover have "list_records hs' w None = ?kept"
    if "int (length ?kept) \<le> rt_max_records_per_watch ?policy"
    using that unfolding after(1) by (simp add: overflow_ids_def)
  ultimately show ?thesis by blast
qed

lemma overflow_ids_take:
  "overflow_ids policy protected K =
     map hr_record_id (take (nat (int (length K) - rt_max_records_per_watch policy))
       (filter (\<lambda>r. hr_reference_id r \<notin> set protected) (sort_key retention_sort_key K)))"
  by (simp add: overflow_ids_def Let_def)

lemma overflow_bound:
  assumes dist: "distinct (map hr_record_id K)"
    and L: "L = filter (\<lambda>r. hr_record_id r \<notin> set (overflow_ids policy protected K)) K"
  shows "int (length L) \<le> rt_max_records_per_watch policy \<or> set (map hr_reference_id L) \<subseteq> set protected"
proof -
  define n where "n = nat (int (length K) - rt_max_records_per_watch policy)"
  define R where "R = filter (\<lambda>r. hr_reference_id r \<notin> set protected) (sort_key retention_sort_key K)"
  have left: "L = filter (\<lambda>r. hr_record_id r \<notin> hr_record_id ` set (take n R)) K"
    unfolding L overflow_ids_take n_def R_def set_map ..
  have R: "r \<in> set R \<longleftrightarrow> r \<in> set K \<and> hr_reference_id r \<notin> set protected" for r by (auto simp: R_def)
  have "set (take n R) \<subseteq> set K" by (meson R in_set_takeD subsetI)
  moreover have "distinct (take n R)" using dist by (simp add: distinct_map R_def)
  ultimately have len: "length L = length K - length (take n R)"
    unfolding left by (rule length_filter_without [OF dist])
  show ?thesis
  proof (cases "n \<le> length R")
    case True
    then have "length L = length K - n" using len by simp
    moreover have "length R \<le> length K"
      using length_filter_le [of "\<lambda>r. hr_reference_id r \<notin> set protected" "sort_key retention_sort_key K"]
      by (simp add: R_def)
    ultimately show ?thesis using True unfolding n_def by linarith
  next
    case False
    have "hr_reference_id r \<in> set protected" if "r \<in> set L" for r
    proof (rule ccontr)
      assume "hr_reference_id r \<notin> set protected"
      with that have "r \<in> set R" unfolding R by (simp add: left)
      with False have "r \<in> set (take n R)" by simp
      with that show False by (simp add: left)
    qed
    then show ?thesis by auto
  qed
qed

lemma overflow_oldest:
  assumes dist: "distinct (map hr_record_id K)"
    and L: "L = filter (\<lambda>r. hr_record_id r \<notin> set (overflow_ids policy protected K)) K"
  shows "\<forall>a b. a \<in> set K \<and> a \<notin> set L \<and> b \<in> set L \<and> hr_reference_id b \<notin> set protected \<longrightarrow>
    retention_sort_key a \<le> retention_sort_key b"
proof (intro allI impI)
  fix a b assume ab: "a \<in> set K \<and> a \<notin> set L \<and> b \<in> set L \<and> hr_reference_id b \<notin> set protected"
  define n where "n = nat (int (length K) - rt_max_records_per_watch policy)"
  define R where "R = filter (\<lambda>r. hr_reference_id r \<notin> set protected) (sort_key retention_sort_key K)"
  have left: "L = filter (\<lambda>r. hr_record_id r \<notin> hr_record_id ` set (take n R)) K"
    unfolding L overflow_ids_take n_def R_def set_map ..
  have R: "r \<in> set R \<longleftrightarrow> r \<in> set K \<and> hr_reference_id r \<notin> set protected" for r by (auto simp: R_def)
  have sub: "set (take n R) \<subseteq> set K" by (meson R in_set_takeD subsetI)
  from ab have "hr_record_id a \<in> hr_record_id ` set (take n R)" by (simp add: left)
  then have a: "a \<in> set (take n R)"
    using ab sub dist by (metis distinct_map inj_on_image_mem_iff)
  from ab have "b \<in> set R" "b \<notin> set (take n R)" unfolding R by (auto simp: left)
  then have b: "b \<in> set (drop n R)" by (metis Un_iff append_take_drop_id set_append)
  have "sorted (map retention_sort_key R)" unfolding R_def by (simp only: sorted_filter sorted_sort_key)
  then have "sorted (map retention_sort_key (take n R) @ map retention_sort_key (drop n R))"
    by (simp only: append_take_drop_id flip: map_append)
  with a b show "retention_sort_key a \<le> retention_sort_key b" by (auto simp only: sorted_append set_map)
qed

text \<open>
  Retention is effective: afterwards the watch has at most the allowed number of
  records, or every record left is protected; the manifest counts what is left, and among the
  unprotected records the oldest were removed first.
\<close>

theorem retention_bounded:
  assumes reach: "history_reachable hs"
    and run: "apply_retention clk bs w p ts hs = Inr (m, hs')"
  shows "am_retained_count m = length (list_records hs' w None) \<and>
     (int (am_retained_count m) \<le> rt_max_records_per_watch (retention_policy p) \<or>
      set (map hr_reference_id (list_records hs' w None)) \<subseteq>
        set (protected_reference_ids bs w (retention_policy p))) \<and>
     (\<forall>a b. a \<in> set (filter (fresh_record (retention_policy p) (batch_time clk ts)
          (protected_reference_ids bs w (retention_policy p))) (list_records hs w None)) \<and>
        a \<notin> set (list_records hs' w None) \<and> b \<in> set (list_records hs' w None) \<and>
        hr_reference_id b \<notin> set (protected_reference_ids bs w (retention_policy p)) \<longrightarrow>
        retention_sort_key a \<le> retention_sort_key b)"
proof -
  note inv = reachable_history_inv [OF reach]
  note after = apply_retention_Inr [OF inv run]
  have "distinct (map hr_record_id (list_records hs w None))"
    using distinct_watch_records [OF inv] by (simp add: list_records_def)
  then have "distinct (map hr_record_id (filter (fresh_record (retention_policy p) (batch_time clk ts)
       (protected_reference_ids bs w (retention_policy p))) (list_records hs w None)))"
    by (simp only: distinct_map_filter)
  note cut = overflow_bound [OF this after(1)] overflow_oldest [OF this after(1)]
  show ?thesis unfolding after(3) using cut by blast
qed

definition demo_now :: datetime where
  "demo_now = dt_add demo_clock (500 * us_per_day)"

lemma expired_ids_total:
  assumes "dt_aware now" "\<And>r. r \<in> set rs \<Longrightarrow> dt_aware (hr_timestamp r)"
  shows "\<exists>ids. expired_ids policy now protected rs = Inr ids"
  using assms by (induction rs) (auto simp: is_expired_def dt_less_def)

lemma apply_retention_total:
  assumes "dt_aware (batch_time clk ts)"
    and "\<And>r. r \<in> set (list_records hs w None) \<Longrightarrow> dt_aware (hr_timestamp r)"
  obtains m hs' where "apply_retention clk bs w p ts hs = Inr (m, hs')"
proof -
  obtain ids where "expired_ids (retention_policy p) (batch_time clk ts)
      (protected_reference_ids bs w (retention_policy p)) (list_records hs w None) = Inr ids"
    using expired_ids_total assms by meson
  with that show thesis
    by (simp add: apply_retention_def retention_policy_def batch_time_def Let_def)
qed

lemma demo_history_get:
  "get_record demo_history i = Some r \<Longrightarrow> r \<in> {demo_record ''s2'' 400, demo_record ''s1'' 1}"
  by (auto simp: demo_history_def get_record_append get_record_empty split: if_splits)

lemma demo_retention:
  obtains m hs' where "apply_retention demo_now None ''1:0xab'' None None demo_history = Inr (m, hs')"
proof (rule apply_retention_total [of demo_now None demo_history "''1:0xab''" None None])
  show "dt_aware (batch_time demo_now None)" by (simp add: demo_now_def)
  show "dt_aware (hr_timestamp r)" if "r \<in> set (list_records demo_history ''1:0xab'' None)" for r
  proof -
    from that have "get_record demo_history (hr_record_id r) = Some r"
      by (simp add: list_records_mem [OF reachable_history_inv [OF demo_history_reachable]])
    from demo_history_get [OF this] show ?thesis by (auto simp: demo_record_def build_record_def)
  qed
qed

theorem retention_safe_witness:
  "\<exists>m hs'. apply_retention demo_now None ''1:0xab'' None None demo_history = Inr (m, hs') \<and>
     list_records hs' ''2:0xcd'' None = list_records demo_history ''2:0xcd'' None"
proof -
  obtain m hs' where r: "apply_retention demo_now None ''1:0xab'' None None demo_history = Inr (m, hs')"
    by (rule demo_retention)
  from retention_safe [OF demo_history_reachable r] r show ?thesis by auto
qed

theorem retention_bounded_witness:
  "\<exists>m hs'. apply_retention demo_now None ''1:0xab'' None None demo_history = Inr (m, hs') \<and>
     am_retained_count m = length (list_records hs' ''1:0xab'' None)"
proof -
  obtain m hs' where r: "apply_retention demo_now None ''1:0xab'' None None demo_history = Inr (m, hs')"
    by (rule demo_retention)
  from retention_bounded [OF demo_history_reachable r] r show ?thesis by blast
qed

section \<open>Archiving snapshots\<close>

definition archive_step ::
  "(string \<Rightarrow> string) \<Rightarrow> ProtocolSnapshot \<times> bool \<Rightarrow> InMemoryBaselineStore \<times> InMemoryHistoryStore \<Rightarrow>
   InMemoryBaselineStore \<times> InMemoryHistoryStore" where
  "archive_step H cmd st =
     (let (r, bs, hs) = archive H (fst cmd) (snd cmd) (fst st) (snd st) in (bs, hs))"

lemma archive_stores:
  "archive H s f bs hs =
     (\<lparr>sr_snapshot = s, sr_baseline_created = (get_baseline bs (ps_watch_id s) = None),
       sr_history_record = ingest_snapshot H s\<rparr>,
      snd (set_baseline s bs), append_record (ingest_snapshot H s) hs)"
  by (auto simp: archive_def set_baseline_def Let_def has_baseline_def get_baseline_def dom_map_of_keys
      simp del: set_map)

lemma archive_step_stores:
  "archive_step H cmd (bs, hs) =
     (snd (set_baseline (fst cmd) bs), append_record (ingest_snapshot H (fst cmd)) hs)"
  by (simp add: archive_step_def archive_stores)

lemma archive_fold:
  "fold (archive_step H) cmds (bs, hs) =
     (fold (\<lambda>s b. snd (set_baseline s b)) (map fst cmds) bs,
      fold append_record (map (ingest_snapshot H) (map fst cmds)) hs)"
  by (induction cmds arbitrary: bs hs) (simp_all add: archive_step_stores)

text \<open>Both stores after a sequence of archivings: the first snapshot of a watch, the first record of an id.\<close>

lemma archived_baseline:
  "get_baseline (fst (fold (archive_step H) cmds (bs, hs))) w =
     (case get_baseline bs w of
        Some s \<Rightarrow> Some s
      | None \<Rightarrow> find (\<lambda>s. ps_watch_id s = w) (map fst cmds))"
  by (simp add: archive_fold baselines.fold_put_keeps baselines.fold_put_first split: option.split)

lemma archived_record:
  "get_record (snd (fold (archive_step H) cmds (bs, hs))) i =
     (case get_record hs i of
        Some r \<Rightarrow> Some r
      | None \<Rightarrow> find (\<lambda>r. hr_record_id r = i) (map (\<lambda>c. ingest_snapshot H (fst c)) cmds))"
  by (simp add: archive_fold o_def history.fold_put_keeps history.fold_put_first split: option.split)

end
