(* ===== verification/HistoryPersistence.thy ===== *)
theory HistoryPersistence
  imports SnapshotBuilder HistoryProps
begin

text \<open>
  The JSON form of the history store (\<open>history_store.py\<close>) and of the baseline store
  (\<open>baseline_store.py\<close>). A store loaded from its dump answers every listing like the original.
\<close>

section \<open>Records\<close>

definition serialize_record :: "HistoricalRecord \<Rightarrow> pyval" where
  "serialize_record r = PyDict
     [(''record_id'', PyStr (hr_record_id r)),
      (''watch_id'', PyStr (hr_watch_id r)),
      (''record_type'', PyStr (record_type_value (hr_record_type r))),
      (''timestamp'', PyStr (isoformat (hr_timestamp r))),
      (''reference_id'', PyStr (hr_reference_id r)),
      (''payload'', PyDict (hr_payload r))]"

definition read_record_type :: "pyval \<Rightarrow> HistoryRecordType result" where
  "read_record_type v =
     (case find (\<lambda>ty. v = PyStr (record_type_value ty))
        [RecSnapshot, RecChangeDetection, RecReanalysis, RecEvidenceDelta, RecRiskDelta,
         RecAlertBatch, RecAcknowledgement] of
        None \<Rightarrow> Inl (ValueError ''not a valid HistoryRecordType'') | Some ty \<Rightarrow> Inr ty)"

text \<open>
  The identifiers are stored as they come; one that is not text has no place in the record and
  counts as \<open>TypeError\<close>.
\<close>

definition deserialize_record :: "pyval \<Rightarrow> HistoricalRecord result" where
  "deserialize_record payload =
     bindR (bindR (py_item payload ''record_id'') py_expect_str) (\<lambda>record_id.
     bindR (bindR (py_item payload ''watch_id'') py_expect_str) (\<lambda>watch.
     bindR (bindR (py_item payload ''record_type'') read_record_type) (\<lambda>record_type.
     bindR (bindR (py_item payload ''timestamp'') py_fromisoformat) (\<lambda>timestamp.
     bindR (bindR (py_item payload ''reference_id'') py_expect_str) (\<lambda>reference_id.
     bindR (bindR (py_lookup payload ''payload'' (PyDict [])) py_dict_of) (\<lambda>contents.
       Inr \<lparr>hr_record_id = record_id, hr_watch_id = watch, hr_record_type = record_type,
            hr_timestamp = timestamp, hr_reference_id = reference_id, hr_payload = contents\<rparr>))))))"

definition stored_records :: "InMemoryHistoryStore \<Rightarrow> HistoricalRecord list" where
  "stored_records st =
     map (\<lambda>k. the (map_of (hs_records st) k)) (sort (dict_keys (hs_records st)))"

definition dump_history_store :: "InMemoryHistoryStore \<Rightarrow> pyval result" where
  "dump_history_store st =
     json_dumps (PyDict [(''records'', PyList (map serialize_record (stored_records st)))])"

definition load_history_store :: "pyval \<Rightarrow> InMemoryHistoryStore result" where
  "load_history_store payload =
     (let data = json_loads payload
      in bindR (bindR (py_lookup data ''records'' (PyList [])) py_iter) (\<lambda>items.
         bindR (mapR deserialize_record items) (\<lambda>records.
           Inr (fold append_record records empty_history))))"

section \<open>Baselines\<close>

definition dump_baseline_store :: "InMemoryBaselineStore \<Rightarrow> pyval result" where
  "dump_baseline_store st = json_dumps (serialize_dict (bs_baselines st))"

definition load_baseline_store ::
  "(string \<Rightarrow> string) \<Rightarrow> datetime \<Rightarrow> pyval \<Rightarrow> InMemoryBaselineStore result" where
  "load_baseline_store H clk payload =
     bindR (py_values (json_loads payload)) (\<lambda>items.
     bindR (mapR (deserialize_snapshot H clk) items) (\<lambda>snapshots.
       Inr (fold (\<lambda>s st. snd (set_baseline s st)) snapshots \<lparr>bs_baselines = []\<rparr>)))"

section \<open>Records back and forth\<close>

definition storable_record :: "HistoricalRecord \<Rightarrow> bool" where
  "storable_record r \<longleftrightarrow> dt_valid (hr_timestamp r) \<and> json_meta (hr_payload r)"

definition same_record :: "HistoricalRecord \<Rightarrow> HistoricalRecord \<Rightarrow> bool" where
  "same_record a b \<longleftrightarrow>
     a\<lparr>hr_payload := []\<rparr> = b\<lparr>hr_payload := []\<rparr> \<and> meta_eq (hr_payload a) (hr_payload b)"

definition restored_record :: "HistoricalRecord \<Rightarrow> HistoricalRecord" where
  "restored_record r = r\<lparr>hr_payload := json_entries (hr_payload r)\<rparr>"

lemma restored_record_simps [simp]:
  "hr_record_id (restored_record r) = hr_record_id r"
  "hr_watch_id (restored_record r) = hr_watch_id r"
  "hr_record_type (restored_record r) = hr_record_type r"
  "record_sort_key (restored_record r) = record_sort_key r"
  by (simp_all add: restored_record_def record_sort_key_def)

lemma read_record_type_value [simp]: "read_record_type (PyStr (record_type_value ty)) = Inr ty"
  by (cases ty) (simp_all add: read_record_type_def)

lemma record_roundtrip:
  assumes "storable_record r"
  shows "deserialize_record (json_sorted (serialize_record r)) = Inr (restored_record r)"
  using assms
  by (simp add: deserialize_record_def serialize_record_def py_item_json py_lookup_json py_dict_of_def
      storable_record_def restored_record_def)

interpretation record_codec: json_codec serialize_record deserialize_record restored_record
  same_record storable_record
proof
  show "json_ok (serialize_record r)" if "storable_record r" for r
    using that by (simp add: serialize_record_def storable_record_def json_metaD(2) [simplified])
  show "same_record (restored_record r) r" if "storable_record r" for r
    using that by (simp add: same_record_def restored_record_def storable_record_def json_metaD)
qed (rule record_roundtrip)

section \<open>The stores back and forth\<close>

lemma wf_remove_record:
  "wf_dict (hs_records st) \<Longrightarrow> wf_dict (hs_records (snd (remove_record i (n, st))))"
  by (auto simp: remove_record_def Let_def simp del: distinct_map split: option.splits)

lemma wf_remove_records:
  "wf_dict (hs_records st) \<Longrightarrow> wf_dict (hs_records (snd (fold remove_record ids (n, st))))"
proof (induction ids arbitrary: n st)
  case (Cons i ids)
  obtain m st' where step: "remove_record i (n, st) = (m, st')" by (cases "remove_record i (n, st)")
  with wf_remove_record [OF Cons.prems, of i n] have "wf_dict (hs_records st')" by simp
  from Cons.IH [OF this, of m] step show ?case by simp
qed simp

lemma reachable_wf_records: "history_reachable st \<Longrightarrow> wf_dict (hs_records st)"
proof (induction rule: history_reachable.induct)
  case (history_append st r)
  then show ?case by (simp add: append_record_def distinct_update)
next
  case (history_remove st ids)
  then show ?case by (simp add: remove_records_def wf_remove_records)
qed (simp add: empty_history_def)

lemma stored_records_ids:
  assumes "history_reachable st"
  shows "map hr_record_id (stored_records st) = sort (dict_keys (hs_records st))"
    and "r \<in> set (stored_records st) \<longleftrightarrow> get_record st (hr_record_id r) = Some r"
proof -
  note inv = reachable_history_inv [OF assms]
  have stored: "\<exists>r. map_of (hs_records st) k = Some r \<and> hr_record_id r = k"
    if mem: "k \<in> set (dict_keys (hs_records st))" for k
  proof -
    obtain r where r: "map_of (hs_records st) k = Some r"
      using mem dom_map_of_keys [of "hs_records st" k] by (cases "map_of (hs_records st) k") blast+
    with history_invD(1) [OF inv, of k r] show ?thesis by (simp add: get_record_def)
  qed
  have "(hr_record_id \<circ> (\<lambda>k. the (map_of (hs_records st) k))) k = k"
    if "k \<in> set (sort (dict_keys (hs_records st)))" for k
    using that stored [of k] by (auto simp del: set_map)
  then show "map hr_record_id (stored_records st) = sort (dict_keys (hs_records st))"
    unfolding stored_records_def map_map by (rule map_idI)
  show "r \<in> set (stored_records st) \<longleftrightarrow> get_record st (hr_record_id r) = Some r"
    unfolding stored_records_def get_record_def set_map [of "\<lambda>k. the (map_of (hs_records st) k)"] set_sort
  proof
    assume "r \<in> (\<lambda>k. the (map_of (hs_records st) k)) ` set (dict_keys (hs_records st))"
    then obtain k where "k \<in> set (dict_keys (hs_records st))" "r = the (map_of (hs_records st) k)"
      by (rule imageE)
    with stored [of k] show "map_of (hs_records st) (hr_record_id r) = Some r" by auto
  next
    assume r: "map_of (hs_records st) (hr_record_id r) = Some r"
    then have "hr_record_id r \<in> set (dict_keys (hs_records st))"
      using dom_map_of_keys [of "hs_records st" "hr_record_id r"] by (metis option.distinct(1))
    then show "r \<in> (\<lambda>k. the (map_of (hs_records st) k)) ` set (dict_keys (hs_records st))"
      by (rule rev_image_eqI) (simp add: r)
  qed
qed

lemma reachable_fold_append: "history_reachable st \<Longrightarrow> history_reachable (fold append_record rs st)"
  by (induction rs arbitrary: st) (simp_all add: history_append)

text \<open>The store that a loader makes of the records of a reachable store.\<close>

definition reloaded_history :: "InMemoryHistoryStore \<Rightarrow> InMemoryHistoryStore" where
  "reloaded_history st = fold append_record (map restored_record (stored_records st)) empty_history"

lemma get_reloaded:
  assumes "history_reachable st"
  shows "get_record (reloaded_history st) i = map_option restored_record (get_record st i)"
proof -
  note listed = stored_records_ids(2) [OF assms]
  have found: "find (\<lambda>r. hr_record_id r = i) (map restored_record rs) =
      map_option restored_record (find (\<lambda>r. hr_record_id r = i) rs)" for rs
    by (induction rs) simp_all
  have "find (\<lambda>r. hr_record_id r = i) (stored_records st) = get_record st i"
  proof (cases "get_record st i")
    case None
    then show ?thesis using listed by (auto simp: find_None_iff)
  next
    case (Some r)
    then have r: "hr_record_id r = i" using history_invD(1) [OF reachable_history_inv [OF assms]] by blast
    have "find (\<lambda>r. hr_record_id r = i) (stored_records st) \<noteq> None"
      using Some r listed by (auto simp: find_None_iff)
    then obtain r' where r': "find (\<lambda>r. hr_record_id r = i) (stored_records st) = Some r'" by blast
    then have "r' \<in> set (stored_records st)" "hr_record_id r' = i"
      by (auto simp: find_Some_iff)
    with listed [of r'] Some r' show ?thesis by simp
  qed
  then show ?thesis
    by (simp add: reloaded_history_def history.fold_put_first found)
qed

lemma list_reloaded:
  assumes "history_reachable st"
  shows "list_records (reloaded_history st) w ty = map restored_record (list_records st w ty)"
proof -
  have reach: "history_reachable (reloaded_history st)"
    unfolding reloaded_history_def by (rule reachable_fold_append [OF history_empty])
  note inv = reachable_history_inv [OF assms] and inv' = reachable_history_inv [OF reach]
  have members: "set (list_records s w ty) = {r. get_record s (hr_record_id r) = Some r \<and> hr_watch_id r = w \<and>
      (ty = None \<or> ty = Some (hr_record_type r))}" if "history_inv s" for s
    by (auto simp: list_records_filter set_watch_records [OF that])
  have ids: "distinct (map hr_record_id (list_records s w ty))" if "history_inv s" for s
    unfolding list_records_filter using distinct_watch_records [OF that]
    by (simp only: distinct_map_filter distinct_map_sort_key)
  have keys: "distinct (map record_sort_key rs)" if "distinct (map hr_record_id rs)" for rs
    using that by (auto simp: distinct_map inj_on_def record_sort_key_def)
  have order: "sorted (map record_sort_key (list_records s w ty))" for s
    unfolding list_records_filter by (simp add: sorted_filter)
  have eq: "set (list_records (reloaded_history st) w ty) = set (map restored_record (list_records st w ty))"
  proof (intro equalityI subsetI)
    fix r assume "r \<in> set (list_records (reloaded_history st) w ty)"
    then have r: "get_record (reloaded_history st) (hr_record_id r) = Some r" "hr_watch_id r = w"
      "ty = None \<or> ty = Some (hr_record_type r)" using members [OF inv'] by auto
    then obtain q where q: "get_record st (hr_record_id r) = Some q" "r = restored_record q"
      by (auto simp: get_reloaded [OF assms])
    with r have "q \<in> set (list_records st w ty)" unfolding members [OF inv] by auto
    with q show "r \<in> set (map restored_record (list_records st w ty))" by simp
  next
    fix r assume "r \<in> set (map restored_record (list_records st w ty))"
    then obtain q where "q \<in> set (list_records st w ty)" "r = restored_record q" by auto
    then show "r \<in> set (list_records (reloaded_history st) w ty)"
      unfolding members [OF inv] members [OF inv'] by (auto simp: get_reloaded [OF assms])
  qed
  have "inj_on record_sort_key (set (list_records (reloaded_history st) w ty))"
    using keys [OF ids [OF inv']] by (simp add: distinct_map)
  then have inj: "inj_on record_sort_key (set (list_records (reloaded_history st) w ty) \<union>
      set (map restored_record (list_records st w ty)))"
    by (simp only: eq Un_absorb)
  have keymap: "map record_sort_key (map restored_record rs) = map record_sort_key rs" for rs
    by simp
  show ?thesis
  proof (rule map_sorted_distinct_set_unique [OF inj])
    show "sorted (map record_sort_key (map restored_record (list_records st w ty)))"
      "distinct (map record_sort_key (map restored_record (list_records st w ty)))"
      unfolding keymap by (rule order, rule keys [OF ids [OF inv]])
  qed (rule order, rule keys [OF ids [OF inv']], rule eq)
qed

text \<open>
  Property C5. Loading a dumped history store gives it back: for every store reached by appending and
  removing records whose timestamps \<open>datetime\<close> can hold and whose payloads JSON can write,
  \<open>dump_history_store\<close> succeeds, \<open>load_history_store\<close> of its text succeeds, and the loaded store lists
  for every watch and type equal records in the same order (although it was filled in another order)
  and finds the same records by identifier.
\<close>

theorem history_store_roundtrip:
  assumes "history_reachable st" "\<forall>r \<in> set (stored_records st). storable_record r"
  shows "\<exists>dumped st'. dump_history_store st = Inr dumped \<and> load_history_store dumped = Inr st' \<and>
    (\<forall>w ty. list_all2 same_record (list_records st' w ty) (list_records st w ty)) \<and>
    (\<forall>i. rel_option same_record (get_record st' i) (get_record st i))"
proof -
  have storable: "list_all storable_record (stored_records st)"
    using assms(2) by (simp add: list_all_iff)
  note records = record_codec.read_list [OF storable] record_codec.written_list [OF storable]
  note listed = stored_records_ids(2) [OF assms(1)]
  let ?d = "[(''records'', PyList (map serialize_record (stored_records st)))]"
  have "dump_history_store st = Inr (PyDict (json_entries ?d))"
    using records(2) by (simp add: dump_history_store_def json_dumps_def)
  moreover have "load_history_store (PyDict (json_entries ?d)) = Inr (reloaded_history st)"
    using records(1) by (simp add: load_history_store_def json_loads_def py_lookup_json o_def reloaded_history_def)
  moreover have "list_all2 same_record (list_records (reloaded_history st) w ty) (list_records st w ty)" for w ty
  proof -
    have "list_all storable_record (list_records st w ty)"
    proof -
      have "get_record st (hr_record_id r) = Some r" if "r \<in> set (list_records st w ty)" for r
        using that by (auto simp: list_records_filter set_watch_records [OF reachable_history_inv [OF assms(1)]])
      with listed assms(2) show ?thesis by (auto simp: list_all_iff)
    qed
    from record_codec.same_list [OF this] show ?thesis by (simp add: list_reloaded [OF assms(1)])
  qed
  moreover have "rel_option same_record (get_record (reloaded_history st) i) (get_record st i)" for i
  proof (cases "get_record st i")
    case (Some r)
    with history_invD(1) [OF reachable_history_inv [OF assms(1)]] listed [of r] assms(2)
    have "storable_record r" by auto
    from record_codec.same_restored [OF this] Some show ?thesis by (simp add: get_reloaded [OF assms(1)])
  qed (simp add: get_reloaded [OF assms(1)])
  ultimately show ?thesis by blast
qed

theorem history_store_roundtrip_witness:
  "\<exists>dumped st'. dump_history_store demo_history = Inr dumped \<and> load_history_store dumped = Inr st' \<and>
    length (list_records st' ''1:0xab'' None) = length (list_records demo_history ''1:0xab'' None) \<and>
    get_record st' (hr_record_id (demo_record ''s2'' 400)) \<noteq> None"
proof -
  note listed = stored_records_ids(2) [OF demo_history_reachable]
  have "dt_valid (dt_add demo_clock (400 * us_per_day))" "dt_valid (dt_add demo_clock (1 * us_per_day))"
    by code_simp+
  then have demo: "storable_record (demo_record ''s2'' 400)" "storable_record (demo_record ''s1'' 1)"
    by (simp_all add: storable_record_def demo_record_def build_record_def)
  have "\<forall>r \<in> set (stored_records demo_history). storable_record r"
  proof
    fix r assume "r \<in> set (stored_records demo_history)"
    with listed obtain i where "get_record demo_history i = Some r" by blast
    then have "r \<in> {demo_record ''s2'' 400, demo_record ''s1'' 1}"
      by (auto simp: demo_history_def get_record_append get_record_empty split: if_splits)
    with demo show "storable_record r" by auto
  qed
  then obtain dumped st' where loaded: "dump_history_store demo_history = Inr dumped" "load_history_store dumped = Inr st'"
    "\<forall>w ty. list_all2 same_record (list_records st' w ty) (list_records demo_history w ty)"
    "\<forall>i. rel_option same_record (get_record st' i) (get_record demo_history i)"
    using history_store_roundtrip [OF demo_history_reachable] by blast
  have "get_record demo_history (hr_record_id (demo_record ''s2'' 400)) \<noteq> None"
    unfolding demo_history_def by (rule history.put_dom)
  with loaded(4) have "get_record st' (hr_record_id (demo_record ''s2'' 400)) \<noteq> None"
    by (metis option_rel_Some2 option.distinct(1) option.exhaust)
  moreover have "length (list_records st' ''1:0xab'' None) = length (list_records demo_history ''1:0xab'' None)"
    using loaded(3) by (blast dest: list_all2_lengthD)
  ultimately show ?thesis using loaded(1,2) by blast
qed

text \<open>The baseline store, filled with snapshots the builder made.\<close>

lemma baseline_store_roundtrip:
  assumes "snapshots_inv (bs_baselines st)" "all_storable (bs_baselines st)"
  shows "\<exists>dumped st'. dump_baseline_store st = Inr dumped \<and> load_baseline_store H clk dumped = Inr st' \<and>
    (\<forall>w. rel_option same_snapshot (get_baseline st' w) (get_baseline st w))"
proof -
  note written = serialize_dict_written [OF assms]
  let ?st' = "fold (\<lambda>s st. snd (set_baseline s st)) (reloaded (bs_baselines st)) \<lparr>bs_baselines = []\<rparr>"
  have "dump_baseline_store st = Inr (json_sorted (serialize_dict (bs_baselines st)))"
    using written(1) by (simp add: dump_baseline_store_def json_dumps_def)
  moreover have "load_baseline_store H clk (json_sorted (serialize_dict (bs_baselines st))) = Inr ?st'"
    using written(2) [where H = H and clk = clk]
    by (auto simp: load_baseline_store_def json_loads_def bindR_eq_Inr)
  moreover have "rel_option same_snapshot (get_baseline ?st' w) (get_baseline st w)" for w
  proof -
    have find_map: "find (\<lambda>s. ps_watch_id s = w) ss = map_of (map (\<lambda>s. (ps_watch_id s, s)) ss) w" for ss
      by (induction ss) simp_all
    have "get_baseline ?st' w = find (\<lambda>s. ps_watch_id s = w) (reloaded (bs_baselines st))"
      by (rule baselines.fold_put_first) (simp add: get_baseline_def)
    also have "\<dots> = map_option restored_snapshot (get_baseline st w)"
      unfolding find_map find_reloaded [OF assms(1)] by (simp add: get_baseline_def)
    finally have "get_baseline ?st' w = map_option restored_snapshot (get_baseline st w)" .
    then show ?thesis
      using reloaded_same [OF assms, of w] by (simp add: get_baseline_def)
  qed
  ultimately show ?thesis by blast
qed

section \<open>Archived snapshots\<close>

text \<open>A built snapshot is rebuilt from its serialised form as it is.\<close>

lemma read_metadata_entry: "py_lookup p ''metadata'' PyNone = Inr (PyDict d) \<Longrightarrow> read_metadata p = Inr d"
  by (cases d) (simp_all add: read_metadata_def py_dict_of_def)

lemma contract_reread: "built_contract c \<Longrightarrow> build_contract (serialize_contract c) = Inr c"
  by (simp add: build_contract_def serialize_contract_def address_field_def read_text_def py_item_def
      py_lookup_def dict_get_def read_metadata_entry built_contract_def)

lemma snapshot_reread:
  assumes "built_snapshot s" "dt_valid (ps_captured_at s)"
  shows "deserialize_snapshot H clk (PyDict (serialize_snapshot s)) = Inr s"
proof -
  have "mapR build_contract (map serialize_contract (ps_contracts s)) = Inr (ps_contracts s)"
  proof -
    have "mapR build_contract (map serialize_contract cs) = Inr cs" if "list_all built_contract cs" for cs
      using that by (induction cs) (simp_all add: contract_reread)
    then show ?thesis using assms(1) by (simp add: built_snapshot_def)
  qed
  then show ?thesis
    using assms
    by (simp add: deserialize_snapshot_def build_snapshot_def serialize_snapshot_def read_text_def py_item_def
        py_lookup_def dict_get_def read_metadata_entry built_snapshot_def sort_key_sorted)
qed

lemma ingested_snapshot: "dict_get (hr_payload (ingest_snapshot H s)) ''snapshot'' PyNone = PyDict (serialize_snapshot s)"
  by (simp add: ingest_snapshot_def build_record_def dict_get_def)

lemma find_unique: "x \<in> set xs \<Longrightarrow> (\<And>y. y \<in> set xs \<Longrightarrow> f y = f x \<Longrightarrow> y = x) \<Longrightarrow> find (\<lambda>y. f y = f x) xs = Some x"
  by (induction xs) auto

text \<open>
  Property C12. The baseline of a watch is the first snapshot archived for it and never changes:
  archiving reports creation exactly when there was no baseline, whatever the \<open>as_baseline\<close> flag, and
  after any sequence of archivings a baseline that existed is still there, otherwise the first
  snapshot of the watch is the baseline. The record under an identifier is likewise the first one: one
  that existed stays, and otherwise it is that of the first archived snapshot with this identifier. So
  a snapshot whose identifier no earlier record and no other archived snapshot has can be retrieved:
  the snapshot builder reads it back, unchanged, from the record found under its identifier.
\<close>

theorem baseline_immutable:
  "get_baseline (fst (fold (archive_step H) cmds (bs, hs))) w =
     (case get_baseline bs w of
        Some s \<Rightarrow> Some s
      | None \<Rightarrow> find (\<lambda>s. ps_watch_id s = w) (map fst cmds)) \<and>
   sr_baseline_created (fst (archive H s f bs hs)) = (get_baseline bs (ps_watch_id s) = None) \<and>
   get_record (snd (fold (archive_step H) cmds (bs, hs))) i =
     (case get_record hs i of
        Some r \<Rightarrow> Some r
      | None \<Rightarrow> find (\<lambda>r. hr_record_id r = i) (map (\<lambda>c. ingest_snapshot H (fst c)) cmds)) \<and>
   (\<forall>s \<in> fst ` set cmds.
      built_snapshot s \<and> dt_valid (ps_captured_at s) \<and> get_record hs (hr_record_id (ingest_snapshot H s)) = None \<and>
      (\<forall>s' \<in> fst ` set cmds. hr_record_id (ingest_snapshot H s') = hr_record_id (ingest_snapshot H s) \<longrightarrow> s' = s) \<longrightarrow>
      (\<exists>r. get_record (snd (fold (archive_step H) cmds (bs, hs))) (hr_record_id (ingest_snapshot H s)) = Some r \<and>
         hr_watch_id r = ps_watch_id s \<and> hr_reference_id r = ps_snapshot_id s \<and> hr_timestamp r = ps_captured_at s \<and>
         deserialize_snapshot H' clk (dict_get (hr_payload r) ''snapshot'' PyNone) = Inr s))"
proof -
  have "\<exists>r. get_record (snd (fold (archive_step H) cmds (bs, hs))) (hr_record_id (ingest_snapshot H s)) = Some r \<and>
      hr_watch_id r = ps_watch_id s \<and> hr_reference_id r = ps_snapshot_id s \<and> hr_timestamp r = ps_captured_at s \<and>
      deserialize_snapshot H' clk (dict_get (hr_payload r) ''snapshot'' PyNone) = Inr s"
    if s: "s \<in> fst ` set cmds" "built_snapshot s" "dt_valid (ps_captured_at s)"
      "get_record hs (hr_record_id (ingest_snapshot H s)) = None"
      "\<forall>s' \<in> fst ` set cmds. hr_record_id (ingest_snapshot H s') = hr_record_id (ingest_snapshot H s) \<longrightarrow> s' = s" for s
  proof -
    have "find (\<lambda>r. hr_record_id r = hr_record_id (ingest_snapshot H s)) (map (\<lambda>c. ingest_snapshot H (fst c)) cmds) =
        Some (ingest_snapshot H s)"
      by (rule find_unique) (use s(1,5) in auto)
    then have "get_record (snd (fold (archive_step H) cmds (bs, hs))) (hr_record_id (ingest_snapshot H s)) =
        Some (ingest_snapshot H s)"
      using s(4) by (simp add: archived_record)
    moreover have "hr_watch_id (ingest_snapshot H s) = ps_watch_id s" "hr_reference_id (ingest_snapshot H s) = ps_snapshot_id s"
      "hr_timestamp (ingest_snapshot H s) = ps_captured_at s"
      by (simp_all add: ingest_snapshot_def build_record_def)
    ultimately show ?thesis using snapshot_reread [OF s(2,3)] by (simp add: ingested_snapshot)
  qed
  moreover have "sr_baseline_created (fst (archive H s f bs hs)) = (get_baseline bs (ps_watch_id s) = None)"
    by (simp add: archive_stores)
  ultimately show ?thesis
    by (intro conjI archived_baseline archived_record) blast+
qed

theorem baseline_immutable_witness:
  "\<exists>r. get_baseline (fst (fold (archive_step (\<lambda>s. s)) [(demo_before, False), (demo_after, True)]
         (\<lparr>bs_baselines = []\<rparr>, empty_history))) ''1:0xa'' = Some demo_before \<and>
     get_record (snd (fold (archive_step (\<lambda>s. s)) [(demo_before, False)] (\<lparr>bs_baselines = []\<rparr>, empty_history)))
       (hr_record_id (ingest_snapshot (\<lambda>s. s) demo_before)) = Some r \<and>
     deserialize_snapshot (\<lambda>s. s) demo_clock (dict_get (hr_payload r) ''snapshot'' PyNone) = Inr demo_before"
proof -
  have "built_snapshot demo_before" "dt_valid (ps_captured_at demo_before)" by code_simp+
  moreover have "get_record empty_history i = None" for i by (simp add: get_record_empty)
  moreover note baseline_immutable [of "\<lambda>s. s" "[(demo_before, False)]" "\<lparr>bs_baselines = []\<rparr>" empty_history _ _ _ _ "\<lambda>s. s" demo_clock,
      THEN conjunct2, THEN conjunct2, THEN conjunct2]
  ultimately obtain r where r: "get_record (snd (fold (archive_step (\<lambda>s. s)) [(demo_before, False)] (\<lparr>bs_baselines = []\<rparr>, empty_history)))
       (hr_record_id (ingest_snapshot (\<lambda>s. s) demo_before)) = Some r"
     "deserialize_snapshot (\<lambda>s. s) demo_clock (dict_get (hr_payload r) ''snapshot'' PyNone) = Inr demo_before"
    by auto
  have "get_baseline \<lparr>bs_baselines = []\<rparr> ''1:0xa'' = None" "ps_watch_id demo_before = ''1:0xa''"
    by (simp_all add: get_baseline_def demo_snapshot_def)
  then have "get_baseline (fst (fold (archive_step (\<lambda>s. s)) [(demo_before, False), (demo_after, True)]
      (\<lparr>bs_baselines = []\<rparr>, empty_history))) ''1:0xa'' = Some demo_before"
    using baseline_immutable [of "\<lambda>s. s" "[(demo_before, False), (demo_after, True)]" "\<lparr>bs_baselines = []\<rparr>" empty_history "''1:0xa''",
      THEN conjunct1] by simp
  with r show ?thesis by blast
qed

end
