(* ===== verification/Timeline.thy ===== *)
theory Timeline
  imports HistoryProps
begin

text \<open>
  Timelines and trends over the history of a watch (\<open>history/timeline_builder.py\<close>,
  \<open>history/trend_analyzer.py\<close>). Payload entries are read as the code reads them, with their defaults and
  with the exceptions of \<open>int\<close>, \<open>Decimal\<close>, iteration and \<open>join\<close>. Quotients are exact rationals: the
  28-digit rounding of the default decimal context is not modelled; \<open>quantize(0.01)\<close> rounds half to
  even.
\<close>

section \<open>Models (models.py)\<close>

datatype TimelineEntryKind =
  KindSnapshot | KindChange | KindEvidenceDelta | KindRiskDelta | KindAlert | KindAcknowledgement

fun kind_value :: "TimelineEntryKind \<Rightarrow> string" where
  "kind_value KindSnapshot = ''snapshot''"
| "kind_value KindChange = ''change''"
| "kind_value KindEvidenceDelta = ''evidence_delta''"
| "kind_value KindRiskDelta = ''risk_delta''"
| "kind_value KindAlert = ''alert''"
| "kind_value KindAcknowledgement = ''acknowledgement''"

record TimelineEntry =
  te_entry_id :: string
  te_watch_id :: string
  te_kind :: TimelineEntryKind
  te_timestamp :: datetime
  te_title :: string
  te_summary :: pyval
  te_reference_id :: string
  te_metadata :: metadata

record RiskTrendMetrics =
  tm_direction :: RiskTrend
  tm_score_delta_total :: decimal
  tm_delta_count :: nat
  tm_increasing_cycles :: nat
  tm_decreasing_cycles :: nat
  tm_unchanged_cycles :: nat

record AlertFrequencyMetrics =
  af_total_alerts :: int
  af_critical_alerts :: nat
  af_high_alerts :: nat
  af_suppressed_alerts :: int
  af_acknowledged_alerts :: nat
  af_alerts_per_cycle :: rat

record ChangeRecurrenceMetrics =
  cm_governance_changes :: nat
  cm_implementation_changes :: nat
  cm_ownership_changes :: nat
  cm_treasury_changes :: nat

record StabilityMetrics =
  sm_total_cycles :: nat
  sm_unchanged_cycles :: nat
  sm_stability_ratio :: decimal
  sm_change_free_streak :: nat

record TrendAnalysis =
  ta_watch_id :: string
  ta_risk_trend :: RiskTrendMetrics
  ta_alert_frequency :: AlertFrequencyMetrics
  ta_change_recurrence :: ChangeRecurrenceMetrics
  ta_stability :: StabilityMetrics

record TimelineReport =
  tl_watch_id :: string
  tl_generated_at :: datetime
  tl_entries :: "TimelineEntry list"
  tl_trends :: TrendAnalysis
  tl_record_count :: nat

section \<open>Trends (trend\_analyzer.py)\<close>

text \<open>The loop over the risk records: total, increasing, decreasing, unchanged.\<close>

fun risk_trend_loop :: "decimal \<times> nat \<times> nat \<times> nat \<Rightarrow> HistoricalRecord list \<Rightarrow>
    (decimal \<times> nat \<times> nat \<times> nat) result" where
  "risk_trend_loop acc [] = Inr acc"
| "risk_trend_loop (score, inc, dec, unch) (r # rs) =
     (let trend = dict_get (hr_payload r) ''trend'' (PyStr ''unchanged'')
      in bindR (py_decimal (dict_get (hr_payload r) ''score_delta'' (PyStr ''0.00''))) (\<lambda>d.
           risk_trend_loop
             (if py_eq trend (PyStr ''increased'') then (dec_add score d, inc + 1, dec, unch)
              else if py_eq trend (PyStr ''decreased'') then (dec_add score d, inc, dec + 1, unch)
              else (dec_add score d, inc, dec, unch + 1)) rs))"

definition risk_trend_metrics :: "HistoricalRecord list \<Rightarrow> RiskTrendMetrics result" where
  "risk_trend_metrics rs =
     (if rs = [] then Inr \<lparr>tm_direction = TrendUnchanged, tm_score_delta_total = decimal_zero,
        tm_delta_count = 0, tm_increasing_cycles = 0, tm_decreasing_cycles = 0, tm_unchanged_cycles = 0\<rparr>
      else bindR (risk_trend_loop (decimal_zero, 0, 0, 0) rs) (\<lambda>(score, inc, dec, unch).
        Inr \<lparr>tm_direction =
               (if dec < inc then TrendIncreased else if inc < dec then TrendDecreased else TrendUnchanged),
             tm_score_delta_total = score,
             tm_delta_count = length rs,
             tm_increasing_cycles = inc,
             tm_decreasing_cycles = dec,
             tm_unchanged_cycles = unch\<rparr>))"

definition count_value :: "string \<Rightarrow> pyval list \<Rightarrow> nat" where
  "count_value s vs = length (filter (\<lambda>v. py_eq v (PyStr s)) vs)"

text \<open>The loop over the alert batches: generated, critical, high, suppressed.\<close>

fun alert_loop :: "int \<times> nat \<times> nat \<times> int \<Rightarrow> HistoricalRecord list \<Rightarrow> (int \<times> nat \<times> nat \<times> int) result" where
  "alert_loop acc [] = Inr acc"
| "alert_loop (n, critical, high, suppressed) (r # rs) =
     bindR (py_int (dict_get (hr_payload r) ''generated_count'' (PyInt 0))) (\<lambda>g.
     bindR (py_int (dict_get (hr_payload r) ''suppressed_count'' (PyInt 0))) (\<lambda>s.
     bindR (py_iter (dict_get (hr_payload r) ''severities'' (PyList []))) (\<lambda>severities.
       alert_loop (n + g, critical + count_value ''critical'' severities,
         high + count_value ''high'' severities, suppressed + s) rs)))"

definition alert_frequency_metrics ::
  "HistoricalRecord list \<Rightarrow> HistoricalRecord list \<Rightarrow> nat \<Rightarrow> AlertFrequencyMetrics result" where
  "alert_frequency_metrics alerts acknowledgements cycle_count =
     bindR (alert_loop (0, 0, 0, 0) alerts) (\<lambda>(n, critical, high, suppressed).
       Inr \<lparr>af_total_alerts = n,
            af_critical_alerts = critical,
            af_high_alerts = high,
            af_suppressed_alerts = suppressed,
            af_acknowledged_alerts = length acknowledgements,
            af_alerts_per_cycle = of_int n / of_nat (max cycle_count 1)\<rparr>)"

definition governance_change_types :: "string list" where
  "governance_change_types = [''governance_changed'', ''owner_changed'', ''proxy_admin_changed'']"

definition implementation_change_types :: "string list" where
  "implementation_change_types = [''implementation_changed'', ''bytecode_changed'']"

definition ownership_change_types :: "string list" where
  "ownership_change_types = [''owner_changed'', ''proxy_admin_changed'']"

definition treasury_change_types :: "string list" where
  "treasury_change_types = [''treasury_changed'']"

text \<open>
  Membership of a value in a frozenset of text; a list or dictionary is unhashable and raises.
\<close>

fun py_in_strings :: "string list \<Rightarrow> pyval \<Rightarrow> bool result" where
  "py_in_strings ss (PyStr s) = Inr (s \<in> set ss)"
| "py_in_strings ss (PyList xs) = Inl (TypeError ''unhashable type'')"
| "py_in_strings ss (PyDict d) = Inl (TypeError ''unhashable type'')"
| "py_in_strings ss v = Inr False"

definition count_in :: "string list \<Rightarrow> pyval list \<Rightarrow> nat result" where
  "count_in ss vs = bindR (mapR (py_in_strings ss) vs) (\<lambda>bs. Inr (length (filter id bs)))"

fun change_loop :: "ChangeRecurrenceMetrics \<Rightarrow> HistoricalRecord list \<Rightarrow> ChangeRecurrenceMetrics result" where
  "change_loop m [] = Inr m"
| "change_loop m (r # rs) =
     bindR (py_iter (dict_get (hr_payload r) ''change_types'' (PyList []))) (\<lambda>types.
     bindR (count_in governance_change_types types) (\<lambda>g.
     bindR (count_in implementation_change_types types) (\<lambda>i.
     bindR (count_in ownership_change_types types) (\<lambda>own.
     bindR (count_in treasury_change_types types) (\<lambda>t.
       change_loop
         \<lparr>cm_governance_changes = cm_governance_changes m + g,
          cm_implementation_changes = cm_implementation_changes m + i,
          cm_ownership_changes = cm_ownership_changes m + own,
          cm_treasury_changes = cm_treasury_changes m + t\<rparr> rs)))))"

definition change_recurrence_metrics :: "HistoricalRecord list \<Rightarrow> ChangeRecurrenceMetrics result" where
  "change_recurrence_metrics rs =
     change_loop \<lparr>cm_governance_changes = 0, cm_implementation_changes = 0, cm_ownership_changes = 0,
       cm_treasury_changes = 0\<rparr> rs"

text \<open>\<open>(n / d).quantize(Decimal(''0.01''))\<close> for \<open>0 < d\<close>, rounding half to even.\<close>

definition quantize_ratio :: "nat \<Rightarrow> nat \<Rightarrow> decimal" where
  "quantize_ratio n d =
     (let q = 100 * n div d; r = 100 * n mod d
      in Dec (int (if 2 * r < d \<or> (2 * r = d \<and> even q) then q else q + 1)) 2)"

definition record_unchanged :: "HistoricalRecord \<Rightarrow> bool" where
  "record_unchanged r \<longleftrightarrow> py_truthy (dict_get (hr_payload r) ''unchanged'' (PyBool False))"

definition stability_metrics :: "HistoricalRecord list \<Rightarrow> StabilityMetrics" where
  "stability_metrics rs =
     (if rs = [] then \<lparr>sm_total_cycles = 0, sm_unchanged_cycles = 0, sm_stability_ratio = Dec 100 2,
        sm_change_free_streak = 0\<rparr>
      else
        (let unchanged_cycles = length (filter record_unchanged rs)
         in \<lparr>sm_total_cycles = length rs,
             sm_unchanged_cycles = unchanged_cycles,
             sm_stability_ratio = quantize_ratio unchanged_cycles (length rs),
             sm_change_free_streak = length (takeWhile record_unchanged (rev rs))\<rparr>))"

definition records_of :: "HistoryRecordType \<Rightarrow> HistoricalRecord list \<Rightarrow> HistoricalRecord list" where
  "records_of ty rs = filter (\<lambda>r. hr_record_type r = ty) rs"

definition analyze_trends :: "string \<Rightarrow> HistoricalRecord list \<Rightarrow> TrendAnalysis result" where
  "analyze_trends watch rs =
     (let risk = records_of RecRiskDelta rs;
          alerts = records_of RecAlertBatch rs;
          changes = records_of RecChangeDetection rs;
          acks = records_of RecAcknowledgement rs
      in bindR (risk_trend_metrics risk) (\<lambda>trend.
         bindR (alert_frequency_metrics alerts acks (length changes)) (\<lambda>frequency.
         bindR (change_recurrence_metrics changes) (\<lambda>recurrence.
           Inr \<lparr>ta_watch_id = watch,
                ta_risk_trend = trend,
                ta_alert_frequency = frequency,
                ta_change_recurrence = recurrence,
                ta_stability = stability_metrics changes\<rparr>))))"

section \<open>Timeline (timeline\_builder.py)\<close>

fun kind_for_record :: "HistoryRecordType \<Rightarrow> TimelineEntryKind" where
  "kind_for_record RecSnapshot = KindSnapshot"
| "kind_for_record RecChangeDetection = KindChange"
| "kind_for_record RecReanalysis = KindEvidenceDelta"
| "kind_for_record RecEvidenceDelta = KindEvidenceDelta"
| "kind_for_record RecRiskDelta = KindRiskDelta"
| "kind_for_record RecAlertBatch = KindAlert"
| "kind_for_record RecAcknowledgement = KindAcknowledgement"

definition title_and_summary :: "HistoricalRecord \<Rightarrow> (string \<times> pyval) result" where
  "title_and_summary r =
     (let get = dict_get (hr_payload r)
      in case hr_record_type r of
           RecSnapshot \<Rightarrow>
             Inr (''Protocol snapshot captured'', PyStr (''Snapshot '' @ hr_reference_id r))
         | RecChangeDetection \<Rightarrow>
             (if py_truthy (get ''unchanged'' (PyBool False))
              then Inr (''No protocol changes detected'', PyStr ''Baseline comparison unchanged'')
              else bindR (py_join '', '' (get ''change_types'' (PyList []))) (\<lambda>types.
                Inr (py_str (get ''change_count'' (PyInt 0)) @ '' protocol change(s) detected'', PyStr types)))
         | RecReanalysis \<Rightarrow>
             bindR (py_join '', '' (get ''modules_executed'' (PyList []))) (\<lambda>modules.
               Inr (''Selective re-analysis completed'',
                 PyStr (''Modules executed: '' @ (if modules = [] then ''none'' else modules))))
         | RecEvidenceDelta \<Rightarrow>
             Inr (''Evidence delta recorded'',
               PyStr (''added='' @ py_str (get ''added_count'' (PyInt 0))
                 @ '', removed='' @ py_str (get ''removed_count'' (PyInt 0))
                 @ '', updated='' @ py_str (get ''updated_count'' (PyInt 0))))
         | RecRiskDelta \<Rightarrow>
             Inr (''Risk posture '' @ py_str (get ''trend'' (PyStr ''unchanged'')),
               get ''headline'' (PyStr ''Risk delta computed''))
         | RecAlertBatch \<Rightarrow>
             Inr (py_str (get ''generated_count'' (PyInt 0)) @ '' alert(s) generated'',
               PyStr (''suppressed='' @ py_str (get ''suppressed_count'' (PyInt 0))))
         | RecAcknowledgement \<Rightarrow>
             Inr (''Alert acknowledged: '' @ py_str (get ''title'' (PyStr (hr_reference_id r))),
               PyStr (''state='' @ py_str (get ''acknowledgement_state'' (PyStr ''acknowledged'')))))"

definition entry_for_record :: "HistoricalRecord \<Rightarrow> TimelineEntry result" where
  "entry_for_record r =
     bindR (title_and_summary r) (\<lambda>(title, summary).
       Inr \<lparr>te_entry_id = hr_record_id r @ '':timeline'',
            te_watch_id = hr_watch_id r,
            te_kind = kind_for_record (hr_record_type r),
            te_timestamp = hr_timestamp r,
            te_title = title,
            te_summary = summary,
            te_reference_id = hr_reference_id r,
            te_metadata =
              [(''record_id'', PyStr (hr_record_id r)),
               (''record_type'', PyStr (record_type_value (hr_record_type r)))]\<rparr>)"

definition entry_sort_key :: "TimelineEntry \<Rightarrow> string \<times> string \<times> string" where
  "entry_sort_key e = (isoformat (te_timestamp e), kind_value (te_kind e), te_entry_id e)"

definition build_timeline ::
  "datetime \<Rightarrow> InMemoryHistoryStore \<Rightarrow> string \<Rightarrow> datetime option \<Rightarrow> TimelineReport result" where
  "build_timeline clk hs watch generated_at =
     (let timestamp = (case generated_at of None \<Rightarrow> clk | Some t \<Rightarrow> t);
          records = list_records hs watch None
      in bindR (mapR entry_for_record records) (\<lambda>entries.
         bindR (analyze_trends watch records) (\<lambda>trends.
           Inr \<lparr>tl_watch_id = watch,
                tl_generated_at = timestamp,
                tl_entries = sort_key entry_sort_key entries,
                tl_trends = trends,
                tl_record_count = length records\<rparr>)))"

end
