(* ===== verification/TimelineProps.thy ===== *)
theory TimelineProps
  imports Timeline
begin

text \<open>
  Timelines show every record once in order, and the trends derived from archived risk deltas are
  those of the reports that were archived.
\<close>

lemma mapR_Inr_iff: "mapR f xs = Inr ys \<longleftrightarrow> list_all2 (\<lambda>x y. f x = Inr y) xs ys"
proof (induction xs arbitrary: ys)
  case (Cons x xs)
  then show ?case by (auto simp: bindR_eq_Inr list_all2_Cons1)
qed auto

lemma entry_for_record_Inr:
  "entry_for_record r = Inr e \<Longrightarrow> te_entry_id e = hr_record_id r @ '':timeline'' \<and>
     te_watch_id e = hr_watch_id r \<and> te_kind e = kind_for_record (hr_record_type r) \<and>
     te_timestamp e = hr_timestamp r \<and> te_reference_id e = hr_reference_id r"
  by (auto simp: entry_for_record_def bindR_eq_Inr)

lemma quantize_ratio_bounds:
  assumes "n \<le> d" "0 < d"
  shows "0 \<le> dec_val (quantize_ratio n d)" and "dec_val (quantize_ratio n d) \<le> 1"
proof -
  let ?q = "100 * n div d" and ?r = "100 * n mod d"
  have "100 * n = d * ?q + ?r" by simp
  have "?q \<le> 100" using assms by (metis div_le_mono mult_le_mono2 nonzero_mult_div_cancel_right not_less_zero)
  moreover have "?r = 0" if "?q = 100"
  proof -
    have "100 * d + ?r \<le> 100 * d" using assms(1) \<open>100 * n = d * ?q + ?r\<close> that by simp
    then show ?thesis by simp
  qed
  ultimately have "(if 2 * ?r < d \<or> (2 * ?r = d \<and> even ?q) then ?q else ?q + 1) \<le> 100"
    using assms(2) by (cases "?q = 100") auto
  then show "0 \<le> dec_val (quantize_ratio n d)" "dec_val (quantize_ratio n d) \<le> 1"
    by (simp_all add: quantize_ratio_def Let_def)
qed

lemma takeWhile_le_filter: "length (takeWhile P xs) \<le> length (filter P xs)"
  by (induction xs) auto

lemma stability_bounds:
  "sm_unchanged_cycles (stability_metrics rs) \<le> sm_total_cycles (stability_metrics rs) \<and>
   sm_total_cycles (stability_metrics rs) = length rs \<and>
   sm_change_free_streak (stability_metrics rs) \<le> sm_unchanged_cycles (stability_metrics rs) \<and>
   0 \<le> dec_val (sm_stability_ratio (stability_metrics rs)) \<and>
   dec_val (sm_stability_ratio (stability_metrics rs)) \<le> 1"
proof (cases "rs = []")
  case False
  have "length (takeWhile record_unchanged (rev rs)) \<le> length (filter record_unchanged rs)"
    using takeWhile_le_filter [of record_unchanged "rev rs"] by (simp flip: rev_filter)
  with False quantize_ratio_bounds [of "length (filter record_unchanged rs)" "length rs"]
  show ?thesis by (simp add: stability_metrics_def Let_def)
qed (simp add: stability_metrics_def)

text \<open>
  A timeline shows the history of its watch: one entry per stored record of the watch,
  with the time, reference and kind of the record, sorted by time; the stability ratio is a
  fraction between 0 and 1, the unchanged cycles are among the detection records, and the
  change-free streak is part of them.
\<close>

theorem timeline_faithful:
  assumes "history_reachable hs" and "build_timeline clk hs w ts = Inr rep"
  shows "sorted (map entry_sort_key (tl_entries rep)) \<and>
     image_mset (\<lambda>e. (te_entry_id e, te_kind e, te_timestamp e, te_reference_id e)) (mset (tl_entries rep)) =
       image_mset (\<lambda>r. (hr_record_id r @ '':timeline'', kind_for_record (hr_record_type r), hr_timestamp r,
         hr_reference_id r)) (mset (list_records hs w None)) \<and>
     distinct (map te_entry_id (tl_entries rep)) \<and>
     tl_record_count rep = length (tl_entries rep) \<and>
     sm_total_cycles (ta_stability (tl_trends rep)) =
       length (records_of RecChangeDetection (list_records hs w None)) \<and>
     sm_change_free_streak (ta_stability (tl_trends rep)) \<le> sm_unchanged_cycles (ta_stability (tl_trends rep)) \<and>
     sm_unchanged_cycles (ta_stability (tl_trends rep)) \<le> sm_total_cycles (ta_stability (tl_trends rep)) \<and>
     0 \<le> dec_val (sm_stability_ratio (ta_stability (tl_trends rep))) \<and>
     dec_val (sm_stability_ratio (ta_stability (tl_trends rep))) \<le> 1"
proof -
  let ?rs = "list_records hs w None"
  from assms(2) obtain es trends where es: "mapR entry_for_record ?rs = Inr es"
    and trends: "analyze_trends w ?rs = Inr trends"
    and rep: "tl_entries rep = sort_key entry_sort_key es" "tl_trends rep = trends"
      "tl_record_count rep = length ?rs"
    by (auto simp: build_timeline_def Let_def bindR_eq_Inr)
  from es have pairs: "list_all2 (\<lambda>r e. entry_for_record r = Inr e) ?rs es" by (simp add: mapR_Inr_iff)
  then have view: "map (\<lambda>e. (te_entry_id e, te_kind e, te_timestamp e, te_reference_id e)) es =
      map (\<lambda>r. (hr_record_id r @ '':timeline'', kind_for_record (hr_record_type r), hr_timestamp r,
        hr_reference_id r)) ?rs"
    by (induction rule: list_all2_induct) (auto dest: entry_for_record_Inr)
  from pairs have ids: "map te_entry_id es = map (\<lambda>i. i @ '':timeline'') (map hr_record_id ?rs)"
    by (induction rule: list_all2_induct) (auto dest: entry_for_record_Inr)
  have "distinct (map hr_record_id ?rs)"
    using distinct_watch_records [OF reachable_history_inv [OF assms(1)]] by (simp add: list_records_def)
  then have "distinct (map te_entry_id es)" unfolding ids by (simp add: distinct_map inj_on_def)
  moreover have "image_mset (\<lambda>e. (te_entry_id e, te_kind e, te_timestamp e, te_reference_id e)) (mset es) =
      image_mset (\<lambda>r. (hr_record_id r @ '':timeline'', kind_for_record (hr_record_type r), hr_timestamp r,
        hr_reference_id r)) (mset ?rs)"
    using arg_cong [OF view, of mset] by simp
  moreover have "length es = length ?rs" using pairs by (simp add: list_all2_lengthD)
  moreover have "ta_stability trends = stability_metrics (records_of RecChangeDetection ?rs)"
    using trends by (auto simp: analyze_trends_def Let_def bindR_eq_Inr)
  ultimately show ?thesis
    using stability_bounds [of "records_of RecChangeDetection ?rs"] by (simp add: rep)
qed

lemma demo_timeline: "\<exists>rep. build_timeline demo_clock demo_history ''1:0xab'' None = Inr rep"
proof -
  have "hr_record_type r = RecSnapshot" if "r \<in> set (list_records demo_history ''1:0xab'' None)" for r
  proof -
    from that have "get_record demo_history (hr_record_id r) = Some r"
      by (simp add: list_records_mem [OF reachable_history_inv [OF demo_history_reachable]])
    from demo_history_get [OF this] show ?thesis by (auto simp: demo_record_def build_record_def)
  qed
  then have snap: "\<forall>r \<in> set (list_records demo_history ''1:0xab'' None). hr_record_type r = RecSnapshot" by blast
  have "\<exists>es. mapR entry_for_record rs = Inr es" if "\<forall>r \<in> set rs. hr_record_type r = RecSnapshot" for rs
    using that by (induction rs) (auto simp: entry_for_record_def title_and_summary_def Let_def)
  moreover have "records_of ty rs = []" if "\<forall>r \<in> set rs. hr_record_type r = RecSnapshot" "ty \<noteq> RecSnapshot" for ty rs
    using that by (auto simp: records_of_def filter_empty_conv)
  ultimately show ?thesis using snap
    by (auto simp: build_timeline_def analyze_trends_def Let_def bindR_eq_Inr risk_trend_metrics_def
        alert_frequency_metrics_def change_recurrence_metrics_def)
qed

theorem timeline_faithful_witness:
  "\<exists>rep. build_timeline demo_clock demo_history ''1:0xab'' None = Inr rep \<and>
     tl_record_count rep = length (tl_entries rep)"
proof -
  obtain rep where "build_timeline demo_clock demo_history ''1:0xab'' None = Inr rep"
    using demo_timeline by blast
  with timeline_faithful [OF demo_history_reachable this] show ?thesis by blast
qed

section \<open>Trends of archived reports\<close>

lemma ingested_payload [simp]:
  "dict_get (hr_payload (ingest_risk_delta H report t)) ''trend'' v = PyStr (trend_value (rp_trend report))"
  "dict_get (hr_payload (ingest_risk_delta H report t)) ''score_delta'' v =
     PyStr (dec_str (rd_score_delta (rp_delta report)))"
  by (simp_all add: ingest_risk_delta_def build_record_def dict_get_def)

lemma risk_trend_loop_reports:
  "\<exists>score. risk_trend_loop (d, i, j, k) (map (\<lambda>x. ingest_risk_delta H (fst x) (snd x)) reports) =
     Inr (score, i + length (filter (\<lambda>x. rp_trend (fst x) = TrendIncreased) reports),
       j + length (filter (\<lambda>x. rp_trend (fst x) = TrendDecreased) reports),
       k + length (filter (\<lambda>x. rp_trend (fst x) = TrendUnchanged) reports)) \<and>
     dec_val score = dec_val d + sum_list (map (\<lambda>x. dec_val (rd_score_delta (rp_delta (fst x)))) reports)"
proof (induction reports arbitrary: d i j k)
  case (Cons x reports)
  let ?d = "dec_add d (rd_score_delta (rp_delta (fst x)))"
  show ?case
  proof (cases "rp_trend (fst x)")
    case TrendIncreased
    with Cons.IH [of ?d "i + 1" j k] show ?thesis by (simp add: Let_def add.assoc)
  next
    case TrendDecreased
    with Cons.IH [of ?d i "j + 1" k] show ?thesis by (simp add: Let_def add.assoc)
  next
    case TrendUnchanged
    with Cons.IH [of ?d i j "k + 1"] show ?thesis by (simp add: Let_def add.assoc)
  qed
qed simp

text \<open>
  The risk trend of archived reports is the trend of the reports: reading the archived
  records back succeeds, the total is the sum of the reports' score deltas, every cycle is counted
  once under its trend, and the direction is decided by the majority of increases over decreases.
\<close>

theorem trend_of_reports:
  "\<exists>m. risk_trend_metrics (map (\<lambda>x. ingest_risk_delta H (fst x) (snd x)) reports) = Inr m \<and>
     dec_val (tm_score_delta_total m) = sum_list (map (\<lambda>x. dec_val (rd_score_delta (rp_delta (fst x)))) reports) \<and>
     tm_delta_count m = length reports \<and>
     tm_increasing_cycles m = length (filter (\<lambda>x. rp_trend (fst x) = TrendIncreased) reports) \<and>
     tm_decreasing_cycles m = length (filter (\<lambda>x. rp_trend (fst x) = TrendDecreased) reports) \<and>
     tm_increasing_cycles m + tm_decreasing_cycles m + tm_unchanged_cycles m = length reports \<and>
     tm_direction m = (if tm_decreasing_cycles m < tm_increasing_cycles m then TrendIncreased
       else if tm_increasing_cycles m < tm_decreasing_cycles m then TrendDecreased else TrendUnchanged)"
proof (cases "reports = []")
  case True
  then show ?thesis by (simp add: risk_trend_metrics_def decimal_zero_def)
next
  case False
  obtain score where loop: "risk_trend_loop (decimal_zero, 0, 0, 0)
      (map (\<lambda>x. ingest_risk_delta H (fst x) (snd x)) reports) =
      Inr (score, length (filter (\<lambda>x. rp_trend (fst x) = TrendIncreased) reports),
       length (filter (\<lambda>x. rp_trend (fst x) = TrendDecreased) reports),
       length (filter (\<lambda>x. rp_trend (fst x) = TrendUnchanged) reports))"
    and score: "dec_val score = sum_list (map (\<lambda>x. dec_val (rd_score_delta (rp_delta (fst x)))) reports)"
    using risk_trend_loop_reports [of decimal_zero 0 0 0 H reports] by (auto simp: decimal_zero_def)
  have parts: "length (filter (\<lambda>x. rp_trend (fst x) = TrendIncreased) xs) +
      length (filter (\<lambda>x. rp_trend (fst x) = TrendDecreased) xs) +
      length (filter (\<lambda>x. rp_trend (fst x) = TrendUnchanged) xs) = length xs"
    for xs :: "(RiskDeltaReport \<times> datetime) list"
  proof (induction xs)
    case (Cons x xs)
    then show ?case by (cases "rp_trend (fst x)") simp_all
  qed simp
  show ?thesis using False loop score parts [of reports] by (simp add: risk_trend_metrics_def)
qed

end
