(* ===== verification/GraphSearch.thy ===== *)
theory GraphSearch
  imports Prelude
begin

text \<open>
  The worklist loops of the protocol graph traversal (\<open>protocol_graph/traversal.py\<close>), over an
  adjacency dictionary. A node is looked up after a normalisation \<open>nf\<close>, which is \<open>lower\<close> for outgoing
  and the identity for incoming edges. Every loop terminates on every dictionary: it can only
  extend its collection of seen nodes by targets of the dictionary.
\<close>

type_synonym adjacency = "(string, string list) dict"

definition nbrs :: "(string \<Rightarrow> string) \<Rightarrow> adjacency \<Rightarrow> string \<Rightarrow> string list" where
  "nbrs nf adj a = dict_get adj (nf a) []"

definition targets :: "adjacency \<Rightarrow> string list" where
  "targets adj = concat (map snd adj)"

definition edge_rel :: "(string \<Rightarrow> string) \<Rightarrow> adjacency \<Rightarrow> (string \<times> string) set" where
  "edge_rel nf adj = {(a, b). b \<in> set (nbrs nf adj a)}"

lemma edge_rel_iff [simp]: "(a, b) \<in> edge_rel nf adj \<longleftrightarrow> b \<in> set (nbrs nf adj a)"
  by (simp add: edge_rel_def)

lemma nbrs_targets: "set (nbrs nf adj a) \<subseteq> set (targets adj)"
proof (cases "map_of adj (nf a)")
  case (Some ts)
  then have "(nf a, ts) \<in> set adj" by (rule map_of_SomeD)
  then have "set ts \<subseteq> set (targets adj)" by (force simp: targets_def)
  with Some show ?thesis by (simp add: nbrs_def dict_get_def)
qed (simp add: nbrs_def dict_get_def)

text \<open>The neighbours a loop adds: those not seen yet, each once.\<close>

abbreviation fresh :: "string list \<Rightarrow> string list \<Rightarrow> string list" where
  "fresh seen ns \<equiv> dedup_from (\<lambda>x. x) seen ns"

lemma set_fresh [simp]: "set (fresh seen ns) = set ns - set seen"
  using keys_dedup_from [of "\<lambda>x. x" seen ns] by simp

lemma distinct_fresh [simp]: "distinct (fresh seen ns)"
  using distinct_dedup_from [of "\<lambda>x. x" seen ns] by simp

lemma card_fresh_less:
  assumes "set ns \<subseteq> T" "finite T" "fresh seen ns \<noteq> []"
  shows "card (T - set (seen @ fresh seen ns)) < card (T - set seen)"
proof (rule psubset_card_mono)
  have "set (fresh seen ns) \<noteq> {}" using assms(3) by (simp del: set_fresh)
  with assms(1) show "T - set (seen @ fresh seen ns) \<subset> T - set seen" by auto
qed (use assms(2) in simp)

lemma card_diff_less:
  assumes "finite B" "A \<subseteq> B" "x \<in> B" "x \<notin> A"
  shows "card A < card B"
  using assms by (intro psubset_card_mono) auto

section \<open>Breadth-first search\<close>

function bfs_loop :: "(string \<Rightarrow> string) \<Rightarrow> adjacency \<Rightarrow> string list \<Rightarrow> string list \<Rightarrow> string list \<Rightarrow> string list" where
  "bfs_loop nf adj seen [] visited = visited"
| "bfs_loop nf adj seen (current # queue) visited =
     bfs_loop nf adj (seen @ fresh seen (nbrs nf adj current))
       (queue @ fresh seen (nbrs nf adj current)) (visited @ [current])"
  by pat_completeness auto
termination
proof (relation "measures [\<lambda>(nf, adj, seen, queue, visited). card (set (targets adj) - set seen),
    \<lambda>(nf, adj, seen, queue, visited). length queue]", simp, goal_cases)
  case (1 nf adj seen current queue visited)
  show ?case
  proof (cases "fresh seen (nbrs nf adj current) = []")
    case True
    then show ?thesis by simp
  next
    case False
    from card_fresh_less [OF nbrs_targets finite_set False] show ?thesis by simp
  qed
qed

section \<open>Depth-first search\<close>

text \<open>The nested recursion of \<open>_walk\<close>: a list of nodes is walked one after the other.\<close>

function walk :: "(string \<Rightarrow> string) \<Rightarrow> adjacency \<Rightarrow> string list \<Rightarrow> string list \<Rightarrow> string list" where
  "walk nf adj [] visited = visited"
| "walk nf adj (n # ns) visited =
     (if n \<in> set visited then walk nf adj ns visited
      else walk nf adj ns (walk nf adj (nbrs nf adj n) (visited @ [n])))"
  by pat_completeness auto

termination
proof (relation "measures [\<lambda>(nf, adj, ns, visited). card ((set (targets adj) \<union> set ns) - set visited),
    \<lambda>(nf, adj, ns, visited). length ns]", goal_cases)
  case 1
  then show ?case by simp
next
  case (2 nf adj n ns visited)
  then have "(set (targets adj) \<union> set ns) - set visited = (set (targets adj) \<union> set (n # ns)) - set visited"
    by auto
  then show ?case by simp
next
  case (3 nf adj n ns visited)
  then have "card ((set (targets adj) \<union> set (nbrs nf adj n)) - set (visited @ [n])) <
      card ((set (targets adj) \<union> set (n # ns)) - set visited)"
    using nbrs_targets [of nf adj n] by (intro card_diff_less [where x = n]) auto
  then show ?case by simp
next
  have mono: "set v \<subseteq> set (walk f a ms v)" if "walk_dom (f, a, ms, v)" for f a ms v
    using that by (induction rule: walk.pinduct) (auto simp: walk.psimps)
  case (4 nf adj n ns visited)
  from mono [OF 4(2)]
  have "card ((set (targets adj) \<union> set ns) - set (walk nf adj (nbrs nf adj n) (visited @ [n]))) <
      card ((set (targets adj) \<union> set (n # ns)) - set visited)"
    using 4(1) by (intro card_diff_less [where x = n]) auto
  then show ?case by simp
qed

lemma walk_mono: "set visited \<subseteq> set (walk nf adj ns visited)"
proof (induction nf adj ns visited rule: walk.induct)
  case (2 nf adj n ns visited)
  then show ?case by (cases "n \<in> set visited") auto
qed simp

section \<open>Collecting what a stack reaches\<close>

function collect :: "(string \<Rightarrow> string) \<Rightarrow> adjacency \<Rightarrow> string list \<Rightarrow> string list \<Rightarrow> string list" where
  "collect nf adj stack seen =
     (if stack = [] then seen
      else if last stack \<in> set seen then collect nf adj (butlast stack) seen
      else collect nf adj (butlast stack @ nbrs nf adj (last stack)) (seen @ [last stack]))"
  by pat_completeness auto
termination
proof (relation "measures [\<lambda>(nf, adj, stack, seen). card ((set (targets adj) \<union> set stack) - set seen),
    \<lambda>(nf, adj, stack, seen). length stack]", goal_cases)
  case 1
  then show ?case by simp
next
  case (2 nf adj stack seen)
  then have "set stack = insert (last stack) (set (butlast stack))"
    by (metis append_butlast_last_id list.simps(15) rotate1.simps(2) set_rotate1)
  with 2 have "(set (targets adj) \<union> set (butlast stack)) - set seen = (set (targets adj) \<union> set stack) - set seen"
    by auto
  with 2 show ?case by simp
next
  case (3 nf adj stack seen)
  then have "card ((set (targets adj) \<union> set (butlast stack @ nbrs nf adj (last stack))) - set (seen @ [last stack])) <
      card ((set (targets adj) \<union> set stack) - set seen)"
    using nbrs_targets [of nf adj "last stack"]
    by (intro card_diff_less [where x = "last stack"]) (auto dest: in_set_butlastD)
  then show ?case by simp
qed

declare collect.simps [simp del]

section \<open>Cycles\<close>

text \<open>
  The recursion of \<open>_visit\<close> with its path; the \<open>stack\<close> set of the code always holds the nodes of the
  path. The state is the visited nodes and the cycles found.
\<close>

function cycle_search ::
  "(string \<Rightarrow> string) \<Rightarrow> adjacency \<Rightarrow> string list \<Rightarrow> string list \<Rightarrow> string list \<times> string list list \<Rightarrow>
   string list \<times> string list list" where
  "cycle_search nf adj path [] st = st"
| "cycle_search nf adj path (m # ms) st =
     (if m \<notin> set (fst st)
      then cycle_search nf adj path ms
             (cycle_search nf adj (path @ [m]) (nbrs nf adj m) (fst st @ [m], snd st))
      else if m \<in> set path
      then cycle_search nf adj path ms (fst st, snd st @ [drop (index_of path m) path @ [m]])
      else cycle_search nf adj path ms st)"
  by pat_completeness auto

termination
proof (relation "measures [\<lambda>(nf, adj, path, ms, st). card ((set (targets adj) \<union> set ms) - set (fst st)),
    \<lambda>(nf, adj, path, ms, st). length ms]", goal_cases)
  case 1
  then show ?case by simp
next
  case (2 nf adj path m ms st)
  then have "card ((set (targets adj) \<union> set (nbrs nf adj m)) - set (fst st @ [m])) <
      card ((set (targets adj) \<union> set (m # ms)) - set (fst st))"
    using nbrs_targets [of nf adj m] by (intro card_diff_less [where x = m]) auto
  then show ?case by simp
next
  have mono: "set (fst st) \<subseteq> set (fst (cycle_search nf adj path ms st))"
    if "cycle_search_dom (nf, adj, path, ms, st)" for nf adj path ms st
    using that
  proof (induction rule: cycle_search.pinduct)
    case (2 nf adj path m ms st)
    show ?case
    proof (cases "m \<in> set (fst st)")
      case True
      with 2 show ?thesis by (cases "m \<in> set path") (simp_all add: cycle_search.psimps)
    next
      case False
      with 2(1) 2(2) [OF False] 2(3) [OF False] show ?thesis
        by (simp add: cycle_search.psimps) blast
    qed
  qed (simp add: cycle_search.psimps)
  case (3 nf adj path m ms st)
  from mono [OF 3(2)]
  have "card ((set (targets adj) \<union> set ms) -
        set (fst (cycle_search nf adj (path @ [m]) (nbrs nf adj m) (fst st @ [m], snd st)))) <
      card ((set (targets adj) \<union> set (m # ms)) - set (fst st))"
    using 3(1) by (intro card_diff_less [where x = m]) auto
  then show ?case by simp
next
  case (4 nf adj path m ms st)
  then have "(set (targets adj) \<union> set ms) - set (fst st) = (set (targets adj) \<union> set (m # ms)) - set (fst st)"
    by auto
  then show ?case by simp
next
  case (5 nf adj path m ms st)
  then have "(set (targets adj) \<union> set ms) - set (fst st) = (set (targets adj) \<union> set (m # ms)) - set (fst st)"
    by auto
  then show ?case by simp
qed

section \<open>Shortest paths\<close>

function path_loop ::
  "(string \<Rightarrow> string) \<Rightarrow> adjacency \<Rightarrow> string \<Rightarrow> string list \<Rightarrow> (string \<times> string list) list \<Rightarrow> string list option" where
  "path_loop nf adj goal seen [] = None"
| "path_loop nf adj goal seen ((current, path) # queue) =
     (if goal \<in> set (fresh seen (nbrs nf adj current)) then Some (path @ [goal])
      else path_loop nf adj goal (seen @ fresh seen (nbrs nf adj current))
             (queue @ map (\<lambda>n. (n, path @ [n])) (fresh seen (nbrs nf adj current))))"
  by pat_completeness auto
termination
proof (relation "measures [\<lambda>(nf, adj, goal, seen, queue). card (set (targets adj) - set seen),
    \<lambda>(nf, adj, goal, seen, queue). length queue]", simp, goal_cases)
  case (1 nf adj goal seen current path queue)
  show ?case
  proof (cases "fresh seen (nbrs nf adj current) = []")
    case True
    then show ?thesis by simp
  next
    case False
    from card_fresh_less [OF nbrs_targets finite_set False] show ?thesis by simp
  qed
qed

end
