(* ===== verification/ProtocolGraph.thy ===== *)
theory ProtocolGraph
  imports PyText GraphSearch
begin

text \<open>
  The protocol graph (\<open>protocol_graph/models.py\<close>, \<open>node_classifier.py\<close>, \<open>edge_builder.py\<close>) and the
  discovery result it is built from (\<open>protocol_scan/models.py\<close>). Enum members carry the source's
  names; \<open>..._value\<close> is the string value of a member.
\<close>

section \<open>Discovery models\<close>

datatype protocol_role =
    ROOT | PROXY | IMPLEMENTATION | GOVERNOR | TIMELOCK | ROUTER | FACTORY | POOL | VAULT
  | STRATEGY | TOKEN | TREASURY | ORACLE | BRIDGE | MESSENGER | UNKNOWN

fun role_value :: "protocol_role \<Rightarrow> string" where
  "role_value ROOT = ''root''"
| "role_value PROXY = ''proxy''"
| "role_value IMPLEMENTATION = ''implementation''"
| "role_value GOVERNOR = ''governor''"
| "role_value TIMELOCK = ''timelock''"
| "role_value ROUTER = ''router''"
| "role_value FACTORY = ''factory''"
| "role_value POOL = ''pool''"
| "role_value VAULT = ''vault''"
| "role_value STRATEGY = ''strategy''"
| "role_value TOKEN = ''token''"
| "role_value TREASURY = ''treasury''"
| "role_value ORACLE = ''oracle''"
| "role_value BRIDGE = ''bridge''"
| "role_value MESSENGER = ''messenger''"
| "role_value UNKNOWN = ''unknown''"

datatype protocol_relationship_type =
    PROXY_TO_IMPLEMENTATION | GOVERNOR_TO_TIMELOCK | ROUTER_TO_FACTORY | FACTORY_TO_POOL
  | VAULT_TO_STRATEGY | TOKEN_TO_TREASURY | BRIDGE_TO_MESSENGER

fun relationship_type_value :: "protocol_relationship_type \<Rightarrow> string" where
  "relationship_type_value PROXY_TO_IMPLEMENTATION = ''PROXY_TO_IMPLEMENTATION''"
| "relationship_type_value GOVERNOR_TO_TIMELOCK = ''GOVERNOR_TO_TIMELOCK''"
| "relationship_type_value ROUTER_TO_FACTORY = ''ROUTER_TO_FACTORY''"
| "relationship_type_value FACTORY_TO_POOL = ''FACTORY_TO_POOL''"
| "relationship_type_value VAULT_TO_STRATEGY = ''VAULT_TO_STRATEGY''"
| "relationship_type_value TOKEN_TO_TREASURY = ''TOKEN_TO_TREASURY''"
| "relationship_type_value BRIDGE_TO_MESSENGER = ''BRIDGE_TO_MESSENGER''"

record ProtocolContract =
  pc_address :: string
  pc_role :: protocol_role
  pc_confidence :: int
  pc_detection_source :: string
  pc_metadata :: metadata

record ProtocolRelationship =
  rel_source_address :: string
  rel_target_address :: string
  rel_type :: protocol_relationship_type
  rel_confidence :: int
  rel_detection_source :: string

record ProtocolDiscoveryResult =
  pd_root_address :: string
  pd_chain_id :: int
  pd_protocol_name :: string
  pd_protocol_family :: string
  pd_contracts :: "ProtocolContract list"
  pd_relationships :: "ProtocolRelationship list"
  pd_confidence :: int
  pd_detection_sources :: "string list"

section \<open>Graph models\<close>

datatype graph_edge_type =
    E_PROXY_TO_IMPLEMENTATION | E_ADMIN_TO_PROXY | E_GOVERNOR_TO_TIMELOCK | E_ROUTER_TO_FACTORY
  | E_FACTORY_TO_POOL | E_VAULT_TO_STRATEGY | E_TOKEN_TO_TREASURY | E_BRIDGE_TO_MESSENGER
  | E_ORACLE_TO_PROTOCOL | E_DEPENDS_ON

fun edge_type_value :: "graph_edge_type \<Rightarrow> string" where
  "edge_type_value E_PROXY_TO_IMPLEMENTATION = ''PROXY_TO_IMPLEMENTATION''"
| "edge_type_value E_ADMIN_TO_PROXY = ''ADMIN_TO_PROXY''"
| "edge_type_value E_GOVERNOR_TO_TIMELOCK = ''GOVERNOR_TO_TIMELOCK''"
| "edge_type_value E_ROUTER_TO_FACTORY = ''ROUTER_TO_FACTORY''"
| "edge_type_value E_FACTORY_TO_POOL = ''FACTORY_TO_POOL''"
| "edge_type_value E_VAULT_TO_STRATEGY = ''VAULT_TO_STRATEGY''"
| "edge_type_value E_TOKEN_TO_TREASURY = ''TOKEN_TO_TREASURY''"
| "edge_type_value E_BRIDGE_TO_MESSENGER = ''BRIDGE_TO_MESSENGER''"
| "edge_type_value E_ORACLE_TO_PROTOCOL = ''ORACLE_TO_PROTOCOL''"
| "edge_type_value E_DEPENDS_ON = ''DEPENDS_ON''"

lemma edge_type_value_inj [simp]: "edge_type_value a = edge_type_value b \<longleftrightarrow> a = b"
  by (cases a; cases b) simp_all

record ProtocolNode =
  pn_address :: string
  pn_role :: protocol_role
  pn_protocol_name :: string
  pn_metadata :: metadata

record ProtocolEdge =
  pe_source :: string
  pe_target :: string
  pe_type :: graph_edge_type
  pe_confidence :: int

record ProtocolGraph =
  pg_nodes :: "ProtocolNode list"
  pg_edges :: "ProtocolEdge list"
  pg_root_node :: string
  pg_adjacency_map :: "(string, string list) dict"

record GraphValidationIssue =
  gi_code :: string
  gi_message :: string
  gi_address :: "string option"

record GraphValidationReport =
  gr_is_valid :: bool
  gr_issues :: "GraphValidationIssue list"
  gr_disconnected_nodes :: "string list"
  gr_orphan_nodes :: "string list"
  gr_cycles :: "string list list"

section \<open>Keeping the best item of each key\<close>

text \<open>
  The loop of \<open>_dedupe_nodes\<close> and \<open>_dedupe_edges\<close>: a dictionary from keys to items in which an
  item replaces the one stored under its key when it is \<open>better\<close>.
\<close>

definition keep_step :: "('a \<Rightarrow> 'k) \<Rightarrow> ('a \<Rightarrow> 'a \<Rightarrow> bool) \<Rightarrow> 'a \<Rightarrow> ('k, 'a) dict \<Rightarrow> ('k, 'a) dict" where
  "keep_step key better x best =
     (case map_of best (key x) of
        None \<Rightarrow> AList.update (key x) x best
      | Some existing \<Rightarrow> if better x existing then AList.update (key x) x best else best)"

definition keep_best :: "('a \<Rightarrow> 'k) \<Rightarrow> ('a \<Rightarrow> 'a \<Rightarrow> bool) \<Rightarrow> 'a list \<Rightarrow> ('k, 'a) dict" where
  "keep_best key better xs = fold (keep_step key better) xs []"

section \<open>Node classification\<close>

definition classify_contract :: "ProtocolContract \<Rightarrow> string \<Rightarrow> string \<Rightarrow> ProtocolNode" where
  "classify_contract contract protocol_name protocol_family =
     \<lparr> pn_address = pc_address contract, pn_role = pc_role contract,
       pn_protocol_name = protocol_name,
       pn_metadata = dict_merge (pc_metadata contract)
         [(''confidence'', PyInt (pc_confidence contract)),
          (''detection_source'', PyStr (pc_detection_source contract)),
          (''protocol_family'', PyStr protocol_family),
          (''is_root'',
             if py_eq (PyStr (pc_address contract)) (py_get (pc_metadata contract) ''root_address'')
             then PyBool True
             else dict_get (pc_metadata contract) ''is_root'' (PyBool False))] \<rparr>"

text \<open>
  The score \<open>metadata.get("confidence", 0)\<close>. The nodes compared come from \<open>classify_contract\<close>, which
  stores the integer confidence of the contract under that key.
\<close>

definition node_score :: "ProtocolNode \<Rightarrow> int" where
  "node_score n = (case dict_get (pn_metadata n) ''confidence'' (PyInt 0) of PyInt i \<Rightarrow> i | _ \<Rightarrow> 0)"

definition dedupe_nodes :: "ProtocolNode list \<Rightarrow> ProtocolNode list" where
  "dedupe_nodes nodes =
     sort_key (\<lambda>item. (role_value (pn_role item), pn_address item))
       (dict_values (keep_best pn_address (\<lambda>node existing. node_score node \<ge> node_score existing) nodes))"

definition build_nodes :: "ProtocolDiscoveryResult \<Rightarrow> ProtocolNode list" where
  "build_nodes discovery =
     dedupe_nodes (map (\<lambda>contract. classify_contract contract (pd_protocol_name discovery)
       (pd_protocol_family discovery)) (pd_contracts discovery))"

definition mark_root_node :: "ProtocolNode list \<Rightarrow> string \<Rightarrow> ProtocolNode list" where
  "mark_root_node nodes root_address =
     map (\<lambda>node. if pn_address node = root_address
       then node\<lparr> pn_role := (if pn_role node \<noteq> UNKNOWN then pn_role node else ROOT),
              pn_metadata := dict_merge (pn_metadata node)
                [(''is_root'', PyBool True), (''root_address'', PyStr root_address)] \<rparr>
       else node\<lparr> pn_metadata := dict_merge (pn_metadata node) [(''root_address'', PyStr root_address)] \<rparr>)
       nodes"

section \<open>Edge construction\<close>

fun discovery_edge_type :: "protocol_relationship_type \<Rightarrow> graph_edge_type" where
  "discovery_edge_type PROXY_TO_IMPLEMENTATION = E_PROXY_TO_IMPLEMENTATION"
| "discovery_edge_type GOVERNOR_TO_TIMELOCK = E_GOVERNOR_TO_TIMELOCK"
| "discovery_edge_type ROUTER_TO_FACTORY = E_ROUTER_TO_FACTORY"
| "discovery_edge_type FACTORY_TO_POOL = E_FACTORY_TO_POOL"
| "discovery_edge_type VAULT_TO_STRATEGY = E_VAULT_TO_STRATEGY"
| "discovery_edge_type TOKEN_TO_TREASURY = E_TOKEN_TO_TREASURY"
| "discovery_edge_type BRIDGE_TO_MESSENGER = E_BRIDGE_TO_MESSENGER"

definition from_relationship :: "ProtocolRelationship \<Rightarrow> ProtocolEdge" where
  "from_relationship r =
     \<lparr> pe_source = rel_source_address r, pe_target = rel_target_address r,
       pe_type = discovery_edge_type (rel_type r), pe_confidence = rel_confidence r \<rparr>"

definition known_addresses :: "ProtocolDiscoveryResult \<Rightarrow> string set" where
  "known_addresses discovery = pc_address ` set (pd_contracts discovery)"

definition infer_admin_to_proxy :: "ProtocolDiscoveryResult \<Rightarrow> ProtocolEdge list" where
  "infer_admin_to_proxy discovery =
     (let contracts_by_address = dict_of pc_address (\<lambda>c. c) (pd_contracts discovery)
      in List.map_filter (\<lambda>contract.
           if pc_role contract \<notin> {PROXY, ROOT} then None
           else case py_get (pc_metadata contract) ''admin_address'' of
               PyStr admin \<Rightarrow>
                 (case map_of contracts_by_address (lower admin) of
                    None \<Rightarrow> None
                  | Some admin_contract \<Rightarrow> Some
                      \<lparr> pe_source = lower admin, pe_target = pc_address contract, pe_type = E_ADMIN_TO_PROXY,
                        pe_confidence = min (pc_confidence contract) (pc_confidence admin_contract) \<rparr>)
             | _ \<Rightarrow> None)
         (pd_contracts discovery))"

definition infer_oracle_to_protocol :: "ProtocolDiscoveryResult \<Rightarrow> ProtocolEdge list" where
  "infer_oracle_to_protocol discovery =
     List.map_filter (\<lambda>contract.
       if pc_role contract \<noteq> ORACLE then None
       else Some \<lparr> pe_source = pc_address contract, pe_target = lower (pd_root_address discovery),
                   pe_type = E_ORACLE_TO_PROTOCOL, pe_confidence = pc_confidence contract \<rparr>)
       (pd_contracts discovery)"

definition infer_depends_on :: "ProtocolDiscoveryResult \<Rightarrow> string set \<Rightarrow> ProtocolEdge list" where
  "infer_depends_on discovery known =
     (let existing_pairs = (\<lambda>r. (rel_source_address r, rel_target_address r)) ` set (pd_relationships discovery)
      in List.map_filter (\<lambda>contract.
           if pc_address contract = lower (pd_root_address discovery) then None
           else case py_get (pc_metadata contract) ''depends_on'' of
               PyStr dependency \<Rightarrow>
                 if lower dependency \<in> known \<and> (pc_address contract, lower dependency) \<notin> existing_pairs
                 then Some \<lparr> pe_source = pc_address contract, pe_target = lower dependency,
                             pe_type = E_DEPENDS_ON, pe_confidence = pc_confidence contract \<rparr>
                 else None
             | _ \<Rightarrow> None)
         (pd_contracts discovery))"

abbreviation edge_key :: "ProtocolEdge \<Rightarrow> string \<times> string \<times> string" where
  "edge_key e \<equiv> (pe_source e, pe_target e, edge_type_value (pe_type e))"

definition dedupe_edges :: "ProtocolEdge list \<Rightarrow> ProtocolEdge list" where
  "dedupe_edges edges =
     sort_key (\<lambda>item. (edge_type_value (pe_type item), pe_source item, pe_target item))
       (dict_values (keep_best edge_key (\<lambda>edge existing. pe_confidence edge > pe_confidence existing) edges))"

definition raw_edges :: "ProtocolDiscoveryResult \<Rightarrow> ProtocolEdge list" where
  "raw_edges discovery =
     filter (\<lambda>edge. pe_source edge \<in> known_addresses discovery \<and> pe_target edge \<in> known_addresses discovery)
       (map from_relationship (pd_relationships discovery)) @
     infer_admin_to_proxy discovery @ infer_oracle_to_protocol discovery @
     infer_depends_on discovery (known_addresses discovery)"

definition build_edges :: "ProtocolDiscoveryResult \<Rightarrow> ProtocolEdge list" where
  "build_edges discovery = dedupe_edges (raw_edges discovery)"

section \<open>Adjacency maps\<close>

text \<open>
  \<open>d.setdefault(k, set()).add(v)\<close> and \<open>d.setdefault(k, set())\<close>. A set is the list of the items
  added so far; it is only ever read as \<open>tuple(sorted(s))\<close>, which is \<open>sorted_set\<close> of the list.
\<close>

definition set_add :: "string \<Rightarrow> string \<Rightarrow> adjacency \<Rightarrow> adjacency" where
  "set_add k v d = AList.update k (dict_get d k [] @ [v]) d"

definition set_touch :: "string \<Rightarrow> adjacency \<Rightarrow> adjacency" where
  "set_touch k d = (case map_of d k of None \<Rightarrow> AList.update k [] d | Some _ \<Rightarrow> d)"

definition build_adjacency_map :: "ProtocolNode list \<Rightarrow> ProtocolEdge list \<Rightarrow> adjacency" where
  "build_adjacency_map nodes edges =
     (let adjacency = fold (\<lambda>edge d. set_touch (pe_target edge) (set_add (pe_source edge) (pe_target edge) d))
                        edges (dict_of pn_address (\<lambda>_. []) nodes)
      in map (\<lambda>(a, ts). (a, sorted_set ts)) (sort_key fst adjacency))"

text \<open>The incoming map of the traversal and of the dependency resolver.\<close>

definition reverse_adjacency :: "ProtocolGraph \<Rightarrow> adjacency" where
  "reverse_adjacency graph =
     (let incoming = fold (\<lambda>(source, ts) d. fold (\<lambda>t d. set_add t source d) ts d)
                       (pg_adjacency_map graph) (dict_of pn_address (\<lambda>_. []) (pg_nodes graph))
      in map (\<lambda>(a, parents). (a, sorted_set parents)) incoming)"

section \<open>Facts about the builders\<close>

subsection \<open>The best item of a key\<close>

lemma wf_keep_best: "wf_dict (keep_best key better xs)"
proof -
  have "wf_dict d \<Longrightarrow> wf_dict (fold (keep_step key better) xs d)" for d
    by (induction xs arbitrary: d) (auto simp: keep_step_def distinct_update split: option.split)
  then show ?thesis by (simp add: keep_best_def)
qed

text \<open>What is kept, for a score that must not drop: \<open>strict\<close> tells whether ties are replaced.\<close>

lemma keep_best_exact:
  fixes score :: "'a \<Rightarrow> int"
  assumes "\<And>x e. score e < score x \<Longrightarrow> better x e" "\<And>x e. better x e \<Longrightarrow> score e \<le> score x"
  shows "(case map_of (keep_best key better xs) k of
      None \<Rightarrow> \<forall>x \<in> set xs. key x \<noteq> k
    | Some e \<Rightarrow> e \<in> set xs \<and> key e = k \<and> (\<forall>x \<in> set xs. key x = k \<longrightarrow> score x \<le> score e))"
proof (induction xs rule: rev_induct)
  case Nil
  then show ?case by (simp add: keep_best_def)
next
  case (snoc y xs)
  have step: "keep_best key better (xs @ [y]) = keep_step key better y (keep_best key better xs)"
    by (simp add: keep_best_def)
  show ?case
  proof (cases "key y = k")
    case False
    then have "map_of (keep_best key better (xs @ [y])) k = map_of (keep_best key better xs) k"
      by (simp add: step keep_step_def split: option.split)
    with snoc False show ?thesis by (simp split: option.splits)
  next
    case True
    show ?thesis
    proof (cases "map_of (keep_best key better xs) k")
      case None
      with snoc True show ?thesis by (simp add: step keep_step_def)
    next
      case (Some e)
      with snoc have e: "e \<in> set xs" "key e = k" "\<forall>x \<in> set xs. key x = k \<longrightarrow> score x \<le> score e" by simp_all
      show ?thesis
      proof (cases "better y e")
        case True
        with \<open>key y = k\<close> Some e assms(2) [OF True] show ?thesis
          by (auto simp: step keep_step_def)
      next
        case False
        then have "score y \<le> score e" using assms(1) [of e y] by force
        with False \<open>key y = k\<close> Some e show ?thesis by (simp add: step keep_step_def)
      qed
    qed
  qed
qed

lemma keep_best_entries:
  assumes "(k, e) \<in> set (keep_best key better xs)"
  shows "map_of (keep_best key better xs) k = Some e"
  using assms wf_keep_best [of key better xs] by simp

lemma map_of_map_snd: "map_of (map (\<lambda>(a, v). (a, f v)) d) k = map_option f (map_of d k)"
  by (induction d) auto

end
