(* ===== verification/GraphTraversal.thy ===== *)
theory GraphTraversal
  imports ProtocolGraph
begin

text \<open>
  Traversal, validation and construction of protocol graphs (\<open>protocol_graph/traversal.py\<close>,
  \<open>validator.py\<close>, \<open>graph_builder.py\<close>). A \<open>ProtocolGraphTraversal\<close> holds the graph, its adjacency map
  and the reverse map; its methods are functions of the graph here.
\<close>

section \<open>Searches\<close>

abbreviation node_addresses :: "ProtocolGraph \<Rightarrow> string list" where
  "node_addresses graph \<equiv> map pn_address (pg_nodes graph)"

definition neighbors :: "ProtocolGraph \<Rightarrow> string \<Rightarrow> string list" where
  "neighbors graph a = nbrs lower (pg_adjacency_map graph) a"

text \<open>\<open>(start or self.root).lower()\<close>: both \<open>None\<close> and the empty string select the root.\<close>

definition search_origin :: "ProtocolGraph \<Rightarrow> string option \<Rightarrow> string" where
  "search_origin graph start =
     lower (case start of None \<Rightarrow> pg_root_node graph
       | Some s \<Rightarrow> if s = [] then pg_root_node graph else s)"

definition bfs :: "ProtocolGraph \<Rightarrow> string option \<Rightarrow> string list" where
  "bfs graph start =
     (let origin = search_origin graph start
      in if origin \<notin> set (node_addresses graph) then []
         else bfs_loop lower (pg_adjacency_map graph) [origin] [origin] [])"

definition dfs :: "ProtocolGraph \<Rightarrow> string option \<Rightarrow> string list" where
  "dfs graph start =
     (let origin = search_origin graph start
      in if origin \<notin> set (node_addresses graph) then []
         else walk lower (pg_adjacency_map graph) [origin] [])"

definition ancestors :: "ProtocolGraph \<Rightarrow> string \<Rightarrow> string list" where
  "ancestors graph a =
     sort (collect (\<lambda>x. x) (reverse_adjacency graph)
       (nbrs (\<lambda>x. x) (reverse_adjacency graph) (lower a)) [])"

definition descendants :: "ProtocolGraph \<Rightarrow> string \<Rightarrow> string list" where
  "descendants graph a =
     sort (collect lower (pg_adjacency_map graph) (neighbors graph (lower a)) [])"

definition shortest_path :: "ProtocolGraph \<Rightarrow> string \<Rightarrow> string \<Rightarrow> string list option" where
  "shortest_path graph s t =
     (if lower s = lower t then Some [lower s]
      else path_loop lower (pg_adjacency_map graph) (lower t) [lower s] [(lower s, [lower s])])"

definition disconnected_from_root :: "ProtocolGraph \<Rightarrow> string list" where
  "disconnected_from_root graph =
     (let reachable = set (bfs graph (Some (pg_root_node graph)))
      in filter (\<lambda>a. a \<notin> reachable) (node_addresses graph))"

definition find_cycles :: "ProtocolGraph \<Rightarrow> string list list" where
  "find_cycles graph =
     sort (snd (cycle_search lower (pg_adjacency_map graph) [] (sort (node_addresses graph)) ([], [])))"

section \<open>Topological sorting\<close>

text \<open>The number of incoming edges of every node, then Kahn's queue.\<close>

definition count_indegree :: "ProtocolGraph \<Rightarrow> (string, int) dict" where
  "count_indegree graph =
     fold (\<lambda>(source, ts) d. fold (\<lambda>t d. case map_of d t of
              None \<Rightarrow> d | Some n \<Rightarrow> AList.update t (n + 1) d) ts d)
       (pg_adjacency_map graph) (dict_of pn_address (\<lambda>_. 0) (pg_nodes graph))"

fun relax :: "string list \<Rightarrow> (string, int) dict \<Rightarrow> string list \<Rightarrow> (string, int) dict \<times> string list" where
  "relax [] indegree queue = (indegree, queue)"
| "relax (n # ns) indegree queue =
     (case map_of indegree n of
        None \<Rightarrow> relax ns indegree queue
      | Some d \<Rightarrow> relax ns (AList.update n (d - 1) indegree) (if d - 1 = 0 then queue @ [n] else queue))"

abbreviation waiting :: "(string, int) dict \<Rightarrow> string set" where
  "waiting indegree \<equiv> {k. \<exists>d. map_of indegree k = Some d \<and> 0 < d}"

lemma finite_waiting [simp]: "finite (waiting indegree)"
  by (rule finite_subset [OF _ finite_dom_map_of [of indegree]]) auto

lemma waiting_update:
  "map_of ind n = Some d \<Longrightarrow> waiting (AList.update n (d - 1) ind) =
     (if d = 1 then waiting ind - {n} else waiting ind)"
  by auto

lemma relax_measure:
  "card (waiting (fst (relax ns ind q))) + length (snd (relax ns ind q)) \<le> card (waiting ind) + length q"
proof (induction ns ind q rule: relax.induct)
  case (2 n ns ind q)
  show ?case
  proof (cases "map_of ind n")
    case None
    with 2(1) show ?thesis by simp
  next
    case (Some d)
    have "card (waiting (AList.update n (d - 1) ind)) + length (if d - 1 = 0 then q @ [n] else q) \<le>
        card (waiting ind) + length q"
    proof (cases "d = 1")
      case True
      then have "n \<in> waiting ind" using Some by simp
      then have "Suc (card (waiting ind - {n})) = card (waiting ind)" by (intro card_Suc_Diff1) simp
      moreover have "waiting (AList.update n (d - 1) ind) = waiting ind - {n}"
        using waiting_update [OF Some] True by simp
      ultimately show ?thesis using True by simp
    next
      case False
      with waiting_update [OF Some] show ?thesis by simp
    qed
    with 2(2) [OF Some] Some show ?thesis by simp
  qed
qed simp

function kahn_loop :: "adjacency \<Rightarrow> (string, int) dict \<Rightarrow> string list \<Rightarrow> string list \<Rightarrow> string list" where
  "kahn_loop adj indegree [] done_nodes = done_nodes"
| "kahn_loop adj indegree (current # queue) done_nodes =
     (let r = relax (nbrs lower adj current) indegree queue
      in kahn_loop adj (fst r) (snd r) (done_nodes @ [current]))"
  by pat_completeness auto
termination
proof (relation "measure (\<lambda>(adj, ind, queue, done_nodes). card (waiting ind) + length queue)", simp, goal_cases)
  case (1 adj indegree current queue done_nodes r)
  with relax_measure [of "nbrs lower adj current" indegree queue] show ?case by simp
qed

definition topological_sort :: "ProtocolGraph \<Rightarrow> string list" where
  "topological_sort graph =
     (let indegree = count_indegree graph;
          done_nodes = kahn_loop (pg_adjacency_map graph) indegree
                       (sort (map fst (filter (\<lambda>(a, d). d = 0) indegree))) []
      in if length done_nodes \<noteq> length indegree then [] else done_nodes)"

definition is_dag :: "ProtocolGraph \<Rightarrow> bool" where
  "is_dag graph \<longleftrightarrow> topological_sort graph \<noteq> []"

section \<open>Validation\<close>

definition find_orphan_nodes :: "ProtocolGraph \<Rightarrow> string list" where
  "find_orphan_nodes graph =
     (if length (pg_nodes graph) \<le> 1 then []
      else let touched = pe_source ` set (pg_edges graph) \<union> pe_target ` set (pg_edges graph)
           in filter (\<lambda>a. a \<notin> touched \<and> a \<noteq> pg_root_node graph) (node_addresses graph))"

definition edge_issues :: "string set \<Rightarrow> ProtocolEdge \<Rightarrow> GraphValidationIssue list" where
  "edge_issues addresses edge =
     (if pe_source edge \<notin> addresses
      then [\<lparr> gi_code = ''invalid_edge'',
             gi_message = ''Edge source not found in nodes: '' @ pe_source edge,
             gi_address = Some (pe_source edge) \<rparr>] else []) @
     (if pe_target edge \<notin> addresses
      then [\<lparr> gi_code = ''invalid_edge'',
             gi_message = ''Edge target not found in nodes: '' @ pe_target edge,
             gi_address = Some (pe_target edge) \<rparr>] else []) @
     (if pe_source edge = pe_target edge
      then [\<lparr> gi_code = ''self_loop'', gi_message = ''Self loop detected on '' @ pe_source edge,
             gi_address = Some (pe_source edge) \<rparr>] else [])"

definition blocking_codes :: "string set" where
  "blocking_codes = {''missing_root'', ''duplicate_nodes'', ''invalid_edge'', ''self_loop''}"

definition count_issue :: "'a list \<Rightarrow> string \<Rightarrow> string \<Rightarrow> GraphValidationIssue list" where
  "count_issue xs code text =
     (if xs \<noteq> [] then [\<lparr> gi_code = code, gi_message = nat_digits (length xs) @ text, gi_address = None \<rparr>] else [])"

definition validate :: "ProtocolGraph \<Rightarrow> GraphValidationReport" where
  "validate graph =
     (let addresses = set (node_addresses graph);
          disconnected = sort (disconnected_from_root graph);
          cycles = find_cycles graph;
          orphan_nodes = sort (find_orphan_nodes graph);
          issues =
            (if pg_root_node graph \<notin> addresses
             then [\<lparr> gi_code = ''missing_root'', gi_message = ''Root node is not present in graph nodes'',
                    gi_address = Some (pg_root_node graph) \<rparr>] else []) @
            (if card addresses \<noteq> length (pg_nodes graph)
             then [\<lparr> gi_code = ''duplicate_nodes'', gi_message = ''Graph contains duplicate node addresses'',
                    gi_address = None \<rparr>] else []) @
            concat (map (edge_issues addresses) (pg_edges graph)) @
            count_issue disconnected ''disconnected_nodes'' '' node(s) disconnected from root'' @
            count_issue cycles ''cycles_detected'' '' cycle(s) detected in graph'' @
            count_issue orphan_nodes ''orphan_nodes'' '' orphan node(s) with no edges''
      in \<lparr> gr_is_valid = (\<not> list_ex (\<lambda>issue. gi_code issue \<in> blocking_codes) issues),
           gr_issues = issues, gr_disconnected_nodes = disconnected,
           gr_orphan_nodes = orphan_nodes, gr_cycles = cycles \<rparr>)"

section \<open>Construction\<close>

definition assemble_graph :: "ProtocolDiscoveryResult \<Rightarrow> ProtocolGraph" where
  "assemble_graph discovery =
     (let root_address = lower (pd_root_address discovery);
          nodes = mark_root_node (build_nodes discovery) root_address;
          edges = build_edges discovery
      in \<lparr> pg_nodes = nodes, pg_edges = edges, pg_root_node = root_address,
           pg_adjacency_map = build_adjacency_map nodes edges \<rparr>)"

definition invalid_graph :: "GraphValidationReport \<Rightarrow> py_error" where
  "invalid_graph report =
     ValueError (''Invalid protocol graph: '' @
       py_repr (PyList (map PyStr (sorted_set (map gi_code (gr_issues report))))))"

definition build :: "ProtocolDiscoveryResult \<Rightarrow> ProtocolGraph result" where
  "build discovery =
     (let graph = assemble_graph discovery; report = validate graph
      in if \<not> gr_is_valid report then Inl (invalid_graph report) else Inr graph)"

definition build_with_validation ::
  "ProtocolDiscoveryResult \<Rightarrow> bool \<Rightarrow> (ProtocolGraph \<times> GraphValidationReport) result" where
  "build_with_validation discovery allow_invalid =
     (let graph = assemble_graph discovery; report = validate graph
      in if \<not> gr_is_valid report \<and> \<not> allow_invalid then Inl (invalid_graph report)
         else Inr (graph, report))"

end
