(* ===== verification/Scheduler.thy ===== *)
theory Scheduler
  imports GraphTraversal PyTime
begin

text \<open>
  The protocol scan scheduler (\<open>protocol_scheduler/\<close>): dependency resolution into batches, bounded
  retries, the scan of a node, the run loop with its node results, metrics and aggregation.

  What the scans do outside this process is a parameter of type \<open>scan_env\<close>: the outcome of the
  \<open>k\<close>-th attempt on an address (an analysis or the text of the exception) and the times measured.
  A run makes each attempt on each address at most once, so any run is one choice of these
  functions, whatever the interleaving of the worker pool; \<open>asyncio.gather\<close> returns the results in
  the order of the tasks. Durations are exact rationals here and floats in the code.
\<close>

section \<open>Models\<close>

datatype node_scan_status = PENDING | RUNNING | COMPLETED | FAILED | SKIPPED

fun node_scan_status_value :: "node_scan_status \<Rightarrow> string" where
  "node_scan_status_value PENDING = ''pending''"
| "node_scan_status_value RUNNING = ''running''"
| "node_scan_status_value COMPLETED = ''completed''"
| "node_scan_status_value FAILED = ''failed''"
| "node_scan_status_value SKIPPED = ''skipped''"

record ExecutionBatch =
  eb_batch_index :: nat
  eb_addresses :: "string list"

text \<open>The fields of \<open>ContractAnalysisData\<close> the scheduler reads; the level is the enum's value.\<close>

record ContractAnalysis =
  ca_risk_score :: decimal
  ca_risk_level :: string
  ca_risk_reasons :: "string list"
  ca_is_contract :: bool
  ca_is_upgradeable :: bool

record NodeScanResult =
  ns_address :: string
  ns_status :: node_scan_status
  ns_analysis :: "ContractAnalysis option"
  ns_error :: "string option"
  ns_duration_ms :: rat
  ns_retry_count :: nat
  ns_started_at :: "datetime option"
  ns_completed_at :: "datetime option"

record ScanTimingInfo =
  ti_started_at :: datetime
  ti_completed_at :: datetime
  ti_total_duration_ms :: rat

record ProtocolScanMetrics =
  sm_nodes_scanned :: nat
  sm_parallel_batches_executed :: nat
  sm_total_duration_ms :: rat
  sm_average_node_duration_ms :: rat
  sm_retry_count :: nat

record scan_env =
  se_attempt :: "string \<Rightarrow> nat \<Rightarrow> string + ContractAnalysis"
  se_started_at :: "string \<Rightarrow> datetime"
  se_completed_at :: "string \<Rightarrow> datetime"
  se_duration_ms :: "string \<Rightarrow> rat"

section \<open>Dependency resolution\<close>

definition build_dependency_maps :: "ProtocolGraph \<Rightarrow> adjacency \<times> adjacency" where
  "build_dependency_maps graph = (reverse_adjacency graph, pg_adjacency_map graph)"

definition release :: "adjacency \<Rightarrow> string \<Rightarrow> (string, int) dict \<Rightarrow> (string, int) dict" where
  "release outgoing a indegree =
     fold (\<lambda>child d. case map_of d child of None \<Rightarrow> d | Some n \<Rightarrow> AList.update child (n - 1) d)
       (nbrs (\<lambda>x. x) outgoing a) (AList.delete a indegree)"

abbreviation zero_degree :: "(string, int) dict \<Rightarrow> string list" where
  "zero_degree indegree \<equiv> sort (map fst (filter (\<lambda>(a, d). d = 0) indegree))"

lemma length_update: "map_of d k \<noteq> None \<Longrightarrow> length (AList.update k v d) = length d"
  by (induction d) auto

lemma length_release_le: "length (release outgoing a ind) \<le> length (AList.delete a ind)"
proof -
  have "length (fold (\<lambda>child d. case map_of d child of None \<Rightarrow> d | Some n \<Rightarrow> AList.update child (n - 1) d) cs d) = length d"
    for cs and d :: "(string, int) dict"
    by (induction cs arbitrary: d) (auto simp: length_update split: option.split)
  then show ?thesis by (simp add: release_def)
qed

lemma length_delete_less: "a \<in> fst ` set d \<Longrightarrow> length (AList.delete a d) < length d"
  by (auto simp: AList.delete_eq intro!: length_filter_less)

lemma length_fold_release_le: "length (fold (release outgoing) as ind) \<le> length ind"
proof (induction as arbitrary: ind)
  case (Cons a as)
  have "length (AList.delete a ind) \<le> length ind" by (simp add: AList.delete_eq)
  with Cons [of "release outgoing a ind"] length_release_le [of outgoing a ind] show ?case by simp
qed simp

function batch_loop :: "adjacency \<Rightarrow> (string, int) dict \<Rightarrow> nat \<Rightarrow> ExecutionBatch list" where
  "batch_loop outgoing indegree batch_index =
     (let ready = zero_degree indegree
      in if ready = [] then []
         else \<lparr> eb_batch_index = batch_index, eb_addresses = ready \<rparr> #
              batch_loop outgoing (fold (release outgoing) ready indegree) (Suc batch_index))"
  by pat_completeness auto
termination
proof (relation "measure (\<lambda>(outgoing, ind, i). length ind)", simp, goal_cases)
  case (1 outgoing indegree batch_index ready)
  then obtain a as where ready: "ready = a # as" by (metis neq_Nil_conv)
  then have "a \<in> set ready" by simp
  then have "a \<in> fst ` set indegree" using 1(1) by force
  then have "length (release outgoing a indegree) < length indegree"
    using length_release_le [of outgoing a indegree] length_delete_less [of a indegree] by simp
  then have "length (fold (release outgoing) ready indegree) < length indegree"
    using length_fold_release_le [of outgoing as "release outgoing a indegree"] ready by simp
  with 1(1) show ?case by simp
qed

declare batch_loop.simps [simp del]

definition resolve_batches :: "ProtocolGraph \<Rightarrow> ExecutionBatch list" where
  "resolve_batches graph =
     (let (incoming, outgoing) = build_dependency_maps graph;
          indegree = dict_of pn_address (\<lambda>node. int (length (dict_get incoming (pn_address node) []))) (pg_nodes graph)
      in batch_loop outgoing indegree 0)"

definition resolve_execution_order :: "ProtocolGraph \<Rightarrow> string list" where
  "resolve_execution_order graph = concat (map eb_addresses (resolve_batches graph))"

section \<open>Retries\<close>

record RetryPolicy =
  rp_max_attempts :: int
  rp_delay_seconds :: rat

definition make_retry_policy :: "int \<Rightarrow> rat \<Rightarrow> RetryPolicy result" where
  "make_retry_policy max_attempts delay =
     (if max_attempts < 1 then Inl (ValueError ''max_attempts must be at least 1'')
      else Inr \<lparr> rp_max_attempts = max_attempts, rp_delay_seconds = delay \<rparr>)"

text \<open>The loop over \<open>range(max_attempts)\<close>: the attempt, the attempts left, the last error.\<close>

fun retry_loop :: "(nat \<Rightarrow> string + 'a) \<Rightarrow> nat \<Rightarrow> nat \<Rightarrow> string \<Rightarrow> ('a \<times> nat) result" where
  "retry_loop operation attempt 0 last_error = Inl (RetryExhaustedError last_error)"
| "retry_loop operation attempt (Suc left) last_error =
     (case operation attempt of
        Inr x \<Rightarrow> Inr (x, attempt)
      | Inl exc \<Rightarrow> retry_loop operation (Suc attempt) left exc)"

definition execute_with_retry :: "(nat \<Rightarrow> string + 'a) \<Rightarrow> RetryPolicy \<Rightarrow> ('a \<times> nat) result" where
  "execute_with_retry operation policy = retry_loop operation 0 (nat (rp_max_attempts policy)) []"

section \<open>The scan of a node\<close>

definition pending_result :: "string \<Rightarrow> NodeScanResult" where
  "pending_result a =
     \<lparr> ns_address = a, ns_status = PENDING, ns_analysis = None, ns_error = None, ns_duration_ms = 0,
       ns_retry_count = 0, ns_started_at = None, ns_completed_at = None \<rparr>"

definition scan :: "scan_env \<Rightarrow> RetryPolicy \<Rightarrow> string \<Rightarrow> NodeScanResult" where
  "scan env policy a =
     (case execute_with_retry (se_attempt env a) policy of
        Inr (analysis, retry_count) \<Rightarrow>
          \<lparr> ns_address = a, ns_status = COMPLETED, ns_analysis = Some analysis, ns_error = None,
            ns_duration_ms = se_duration_ms env a, ns_retry_count = retry_count,
            ns_started_at = Some (se_started_at env a), ns_completed_at = Some (se_completed_at env a) \<rparr>
      | Inl exc \<Rightarrow>
          \<lparr> ns_address = a, ns_status = FAILED, ns_analysis = None,
            ns_error = Some (case exc of RetryExhaustedError msg \<Rightarrow> msg | _ \<Rightarrow> []),
            ns_duration_ms = se_duration_ms env a, ns_retry_count = nat (max 0 (rp_max_attempts policy - 1)),
            ns_started_at = Some (se_started_at env a), ns_completed_at = Some (se_completed_at env a) \<rparr>)"

definition skipped :: "scan_env \<Rightarrow> string \<Rightarrow> string \<Rightarrow> NodeScanResult" where
  "skipped env a reason =
     (pending_result a)\<lparr> ns_status := SKIPPED, ns_error := Some reason,
                         ns_completed_at := Some (se_completed_at env a) \<rparr>"

definition merge_result :: "NodeScanResult \<Rightarrow> NodeScanResult \<Rightarrow> NodeScanResult" where
  "merge_result current updated =
     current\<lparr> ns_status := ns_status updated, ns_analysis := ns_analysis updated,
       ns_error := ns_error updated, ns_duration_ms := ns_duration_ms updated,
       ns_retry_count := ns_retry_count updated,
       ns_started_at := (case ns_started_at updated of None \<Rightarrow> ns_started_at current | Some t \<Rightarrow> Some t),
       ns_completed_at := ns_completed_at updated \<rparr>"

section \<open>Metrics\<close>

record MetricsCollector =
  mc_nodes_scanned :: nat
  mc_parallel_batches_executed :: nat
  mc_retry_count :: nat
  mc_node_durations_ms :: "rat list"

definition new_metrics :: MetricsCollector where
  "new_metrics = \<lparr> mc_nodes_scanned = 0, mc_parallel_batches_executed = 0, mc_retry_count = 0,
                   mc_node_durations_ms = [] \<rparr>"

definition record_batch :: "MetricsCollector \<Rightarrow> MetricsCollector" where
  "record_batch m = m\<lparr> mc_parallel_batches_executed := mc_parallel_batches_executed m + 1 \<rparr>"

definition record_node :: "rat \<Rightarrow> nat \<Rightarrow> MetricsCollector \<Rightarrow> MetricsCollector" where
  "record_node duration_ms retry_count m =
     m\<lparr> mc_nodes_scanned := mc_nodes_scanned m + 1,
        mc_node_durations_ms := mc_node_durations_ms m @ [duration_ms],
        mc_retry_count := mc_retry_count m + retry_count \<rparr>"

definition build_scan_metrics :: "rat \<Rightarrow> MetricsCollector \<Rightarrow> ProtocolScanMetrics" where
  "build_scan_metrics total_duration_ms m =
     \<lparr> sm_nodes_scanned = mc_nodes_scanned m,
       sm_parallel_batches_executed = mc_parallel_batches_executed m,
       sm_total_duration_ms = total_duration_ms,
       sm_average_node_duration_ms =
         (if mc_node_durations_ms m = [] then 0
          else sum_list (mc_node_durations_ms m) / of_nat (length (mc_node_durations_ms m))),
       sm_retry_count = mc_retry_count m \<rparr>"

section \<open>The run loop\<close>

type_synonym node_results = "(string, NodeScanResult) dict"

text \<open>
  \<open>all(...)\<close> and \<open>any(...)\<close> over the dependencies of a node: they stop at the first answer, and a
  dependency that is no node raises \<open>KeyError\<close> when it is looked at.
\<close>

fun all_completed :: "node_results \<Rightarrow> string list \<Rightarrow> bool result" where
  "all_completed results [] = Inr True"
| "all_completed results (d # ds) =
     (case map_of results d of
        None \<Rightarrow> Inl (KeyError d)
      | Some r \<Rightarrow> if ns_status r = COMPLETED then all_completed results ds else Inr False)"

fun any_failed :: "node_results \<Rightarrow> string list \<Rightarrow> bool result" where
  "any_failed results [] = Inr False"
| "any_failed results (d # ds) =
     (case map_of results d of
        None \<Rightarrow> Inl (KeyError d)
      | Some r \<Rightarrow> if ns_status r = FAILED then Inr True else any_failed results ds)"

text \<open>The items of a dictionary are walked as its keys, each with the value stored under it.\<close>

fun ready_loop :: "node_results \<Rightarrow> adjacency \<Rightarrow> string list \<Rightarrow> string list result" where
  "ready_loop results incoming [] = Inr []"
| "ready_loop results incoming (a # as) =
     (if map_option ns_status (map_of results a) \<noteq> Some PENDING then ready_loop results incoming as
      else bindR (all_completed results (dict_get incoming a []))
        (\<lambda>ok. bindR (ready_loop results incoming as) (\<lambda>rest. Inr (if ok then a # rest else rest))))"

definition ready_nodes :: "node_results \<Rightarrow> adjacency \<Rightarrow> string list result" where
  "ready_nodes results incoming = bindR (ready_loop results incoming (dict_keys results)) (\<lambda>ready. Inr (sort ready))"

text \<open>
  \<open>_mark_skipped_nodes\<close> walks a copy of the items while it changes the results; a node it marks is
  skipped, not failed, so the mark does not spread to the dependents.
\<close>

fun mark_skipped_loop ::
  "scan_env \<Rightarrow> adjacency \<Rightarrow> node_results \<Rightarrow> string list \<Rightarrow> node_results \<Rightarrow> node_results result" where
  "mark_skipped_loop env incoming copy [] results = Inr results"
| "mark_skipped_loop env incoming copy (a # as) results =
     (if map_option ns_status (map_of copy a) \<noteq> Some PENDING then mark_skipped_loop env incoming copy as results
      else bindR (any_failed results (dict_get incoming a []))
        (\<lambda>failed. mark_skipped_loop env incoming copy as
           (if failed then AList.update a (skipped env a ''dependency_failed'') results else results)))"

definition mark_skipped_nodes :: "scan_env \<Rightarrow> node_results \<Rightarrow> adjacency \<Rightarrow> node_results result" where
  "mark_skipped_nodes env results incoming = mark_skipped_loop env incoming results (dict_keys results) results"

definition mark_unresolved_nodes :: "scan_env \<Rightarrow> node_results \<Rightarrow> node_results" where
  "mark_unresolved_nodes env results =
     map (\<lambda>(a, r). (a, if ns_status r \<noteq> PENDING then r else skipped env a ''unresolved_dependencies'')) results"

record run_state =
  ru_node_results :: node_results
  ru_execution_order :: "string list"
  ru_execution_batches :: "ExecutionBatch list"
  ru_metrics :: MetricsCollector

text \<open>
  One result of a batch: merged into the stored one, counted when it completed. The lookup always
  finds one, for the batch is drawn from the keys.
\<close>

definition apply_result :: "NodeScanResult \<Rightarrow> run_state \<Rightarrow> run_state" where
  "apply_result result st =
     (case map_of (ru_node_results st) (ns_address result) of
        None \<Rightarrow> st
      | Some current \<Rightarrow>
          let st' = st\<lparr> ru_node_results := AList.update (ns_address result) (merge_result current result)
                          (ru_node_results st) \<rparr>
          in if ns_status result = COMPLETED
             then st'\<lparr> ru_execution_order := ru_execution_order st' @ [ns_address result],
                       ru_metrics := record_node (ns_duration_ms result) (ns_retry_count result) (ru_metrics st') \<rparr>
             else st')"

definition run_batch :: "scan_env \<Rightarrow> RetryPolicy \<Rightarrow> string list \<Rightarrow> run_state \<Rightarrow> run_state" where
  "run_batch env policy ready st =
     fold (\<lambda>a. apply_result (scan env policy a)) ready
       (st\<lparr> ru_execution_batches := ru_execution_batches st @
              [\<lparr> eb_batch_index = length (ru_execution_batches st), eb_addresses = ready \<rparr>],
            ru_metrics := record_batch (ru_metrics st) \<rparr>)"

definition pending :: "node_results \<Rightarrow> string set" where
  "pending results = {a. map_option ns_status (map_of results a) = Some PENDING}"

lemma in_pending: "a \<in> pending results \<longleftrightarrow> map_option ns_status (map_of results a) = Some PENDING"
  by (simp add: pending_def)

lemma finite_pending [simp]: "finite (pending results)"
  by (rule finite_subset [OF _ finite_dom_map_of [of results]]) (auto simp: in_pending)

lemma scan_fields [simp]:
  "ns_address (scan env policy a) = a"
  "ns_status (scan env policy a) \<noteq> PENDING"
  by (simp_all add: scan_def split: sum.split)

lemma scan_status:
  "ns_status (scan env policy a) = (case execute_with_retry (se_attempt env a) policy of Inr _ \<Rightarrow> COMPLETED | Inl _ \<Rightarrow> FAILED)"
  by (simp add: scan_def split: sum.split)

lemma skipped_fields [simp]:
  "ns_address (skipped env a reason) = a" "ns_status (skipped env a reason) = SKIPPED"
  "ns_error (skipped env a reason) = Some reason"
  by (simp_all add: skipped_def pending_result_def)

lemma merge_fields [simp]:
  "ns_address (merge_result c u) = ns_address c" "ns_status (merge_result c u) = ns_status u"
  "ns_error (merge_result c u) = ns_error u" "ns_analysis (merge_result c u) = ns_analysis u"
  "ns_retry_count (merge_result c u) = ns_retry_count u"
  by (simp_all add: merge_result_def)

lemma pending_apply: "pending (ru_node_results (apply_result (scan env policy a) st)) = pending (ru_node_results st) - {a}"
  by (auto simp: apply_result_def Let_def in_pending split: option.split sum.split if_splits)

lemma pending_run_batch:
  "pending (ru_node_results (run_batch env policy ready st)) = pending (ru_node_results st) - set ready"
proof -
  have "pending (ru_node_results (fold (\<lambda>a. apply_result (scan env policy a)) ready s)) =
      pending (ru_node_results s) - set ready" for s
  proof (induction ready arbitrary: s)
    case (Cons a ready)
    then show ?case by (simp only: fold_simps pending_apply list.set) blast
  qed simp
  then show ?thesis by (simp add: run_batch_def)
qed

lemma pending_skip: "pending (AList.update a (skipped env a reason) results) = pending results - {a}"
  by (auto simp: in_pending split: if_splits)

lemma pending_mark_skipped:
  "mark_skipped_loop env incoming copy as results = Inr results' \<Longrightarrow> pending results' \<subseteq> pending results"
proof (induction env incoming copy as results rule: mark_skipped_loop.induct)
  case (2 env incoming copy a as results)
  show ?case
  proof (cases "map_option ns_status (map_of copy a) = Some PENDING")
    case False
    with 2 show ?thesis by simp
  next
    case True
    with 2(3) obtain failed where failed: "any_failed results (dict_get incoming a []) = Inr failed"
      "mark_skipped_loop env incoming copy as
        (if failed then AList.update a (skipped env a ''dependency_failed'') results else results) = Inr results'"
      by (auto simp: bindR_eq_Inr)
    with 2(2) [OF _ failed(2)] True
    have "pending results' \<subseteq> pending (if failed then AList.update a (skipped env a ''dependency_failed'') results else results)"
      by simp
    then show ?thesis by (cases failed) (auto simp: pending_skip)
  qed
qed simp

lemma ready_loop_pending: "ready_loop results incoming as = Inr ready \<Longrightarrow> set ready \<subseteq> pending results"
proof (induction results incoming as arbitrary: ready rule: ready_loop.induct)
  case (2 results incoming a as)
  show ?case
  proof (cases "a \<in> pending results")
    case True
    with 2 show ?thesis by (auto simp: bindR_eq_Inr in_pending [of a] split: if_splits)
  next
    case False
    with 2 show ?thesis by (auto simp: in_pending [of a])
  qed
qed simp

lemma ready_nodes_pending: "ready_nodes results incoming = Inr ready \<Longrightarrow> set ready \<subseteq> pending results"
  using ready_loop_pending [of results incoming "dict_keys results"] by (auto simp: ready_nodes_def bindR_eq_Inr)

lemma diff_psubset: "A \<subseteq> B \<Longrightarrow> R \<subseteq> A \<Longrightarrow> R \<noteq> {} \<Longrightarrow> A - R \<subset> B"
  by auto

function run_loop :: "scan_env \<Rightarrow> RetryPolicy \<Rightarrow> adjacency \<Rightarrow> run_state \<Rightarrow> run_state result" where
  "run_loop env policy incoming st =
     (case mark_skipped_nodes env (ru_node_results st) incoming of
        Inl e \<Rightarrow> Inl e
      | Inr results \<Rightarrow>
          (case ready_nodes results incoming of
             Inl e \<Rightarrow> Inl e
           | Inr ready \<Rightarrow>
               if ready = [] then Inr (st\<lparr> ru_node_results := mark_unresolved_nodes env results \<rparr>)
               else run_loop env policy incoming (run_batch env policy ready (st\<lparr> ru_node_results := results \<rparr>))))"
  by pat_completeness auto
termination
proof (relation "measure (\<lambda>(env, policy, incoming, st). card (pending (ru_node_results st)))", simp, goal_cases)
  case (1 env policy incoming st results ready)
  have "pending results \<subseteq> pending (ru_node_results st)"
    using 1(1) pending_mark_skipped by (simp add: mark_skipped_nodes_def)
  moreover have "set ready \<subseteq> pending results" using 1(2) by (rule ready_nodes_pending)
  moreover have "set ready \<noteq> {}" using 1(3) by simp
  ultimately have "pending results - set ready \<subset> pending (ru_node_results st)" by (rule diff_psubset)
  then have "pending (ru_node_results (run_batch env policy ready (st\<lparr> ru_node_results := results \<rparr>))) \<subset>
      pending (ru_node_results st)"
    by (simp add: pending_run_batch)
  from psubset_card_mono [OF finite_pending this] show ?case by (simp only: in_measure case_prod_conv)
qed

declare run_loop.simps [simp del]

section \<open>Aggregation and the result of a run\<close>

text \<open>The evidence dictionaries have fixed keys and are records here.\<close>

record NodeEvidence =
  ne_role :: string
  ne_protocol_name :: string
  ne_risk_score :: string
  ne_risk_level :: string
  ne_risk_reasons :: "string list"
  ne_is_contract :: bool
  ne_is_upgradeable :: bool
  ne_duration_ms :: rat
  ne_retry_count :: nat

record AggregatedEvidence =
  ag_protocol_root :: string
  ag_node_count :: nat
  ag_completed_count :: nat
  ag_failed_count :: nat
  ag_skipped_count :: nat
  ag_highest_risk_score :: string
  ag_risk_levels :: "string list"
  ag_nodes :: "(string, NodeEvidence) dict"

definition node_evidence :: "ProtocolNode \<Rightarrow> NodeScanResult \<Rightarrow> ContractAnalysis \<Rightarrow> NodeEvidence" where
  "node_evidence node result analysis =
     \<lparr> ne_role = role_value (pn_role node), ne_protocol_name = pn_protocol_name node,
       ne_risk_score = dec_str (ca_risk_score analysis), ne_risk_level = ca_risk_level analysis,
       ne_risk_reasons = ca_risk_reasons analysis, ne_is_contract = ca_is_contract analysis,
       ne_is_upgradeable = ca_is_upgradeable analysis, ne_duration_ms = ns_duration_ms result,
       ne_retry_count = ns_retry_count result \<rparr>"

text \<open>The nodes the aggregation loop does not skip, with their result and analysis.\<close>

definition analysed_nodes ::
  "ProtocolGraph \<Rightarrow> node_results \<Rightarrow> (ProtocolNode \<times> NodeScanResult \<times> ContractAnalysis) list" where
  "analysed_nodes graph results =
     List.map_filter (\<lambda>node.
       case map_of results (pn_address node) of
         None \<Rightarrow> None
       | Some result \<Rightarrow>
           if ns_status result \<noteq> COMPLETED then None
           else map_option (\<lambda>analysis. (node, result, analysis)) (ns_analysis result))
       (pg_nodes graph)"

definition status_count :: "node_scan_status \<Rightarrow> node_results \<Rightarrow> nat" where
  "status_count status results = length (filter (\<lambda>(a, r). ns_status r = status) results)"

definition aggregate_protocol_evidence :: "ProtocolGraph \<Rightarrow> node_results \<Rightarrow> AggregatedEvidence" where
  "aggregate_protocol_evidence graph results =
     (let analysed = analysed_nodes graph results;
          highest = fold (\<lambda>(node, result, analysis) high.
                      if dec_less high (ca_risk_score analysis) then ca_risk_score analysis else high)
                    analysed (Dec 0 2);
          nodes = dict_of (\<lambda>(node, result, analysis). pn_address node)
                    (\<lambda>(node, result, analysis). node_evidence node result analysis) analysed
      in \<lparr> ag_protocol_root = pg_root_node graph, ag_node_count = length (pg_nodes graph),
           ag_completed_count = length nodes, ag_failed_count = status_count FAILED results,
           ag_skipped_count = status_count SKIPPED results, ag_highest_risk_score = dec_str highest,
           ag_risk_levels = sorted_set (map (\<lambda>(node, result, analysis). ca_risk_level analysis) analysed),
           ag_nodes = nodes \<rparr>)"

record ProtocolScanResult =
  sr_execution_order :: "string list"
  sr_completed_nodes :: "string list"
  sr_failed_nodes :: "string list"
  sr_aggregated_evidence :: AggregatedEvidence
  sr_metrics :: ProtocolScanMetrics
  sr_timing :: ScanTimingInfo
  sr_node_results :: "NodeScanResult list"
  sr_execution_batches :: "ExecutionBatch list"

definition initial_run :: "ProtocolGraph \<Rightarrow> run_state" where
  "initial_run graph =
     \<lparr> ru_node_results = dict_of pn_address (\<lambda>node. pending_result (pn_address node)) (pg_nodes graph),
       ru_execution_order = [], ru_execution_batches = [], ru_metrics = new_metrics \<rparr>"

text \<open>The results of a finished run; \<open>timing\<close> is what the clock gave for the whole run.\<close>

definition scan_result :: "ScanTimingInfo \<Rightarrow> ProtocolGraph \<Rightarrow> run_state \<Rightarrow> ProtocolScanResult" where
  "scan_result timing graph st =
     (let results = ru_node_results st;
          status = (\<lambda>a. map_option ns_status (map_of results a));
          ordered = List.map_filter (map_of results) (map pn_address (sort_key pn_address (pg_nodes graph)))
      in \<lparr> sr_execution_order = ru_execution_order st,
           sr_completed_nodes = filter (\<lambda>a. status a = Some COMPLETED) (ru_execution_order st),
           sr_failed_nodes = map ns_address (filter (\<lambda>r. ns_status r = FAILED) ordered),
           sr_aggregated_evidence = aggregate_protocol_evidence graph results,
           sr_metrics = build_scan_metrics (ti_total_duration_ms timing) (ru_metrics st),
           sr_timing = timing,
           sr_node_results = ordered,
           sr_execution_batches = ru_execution_batches st \<rparr>)"

definition run :: "scan_env \<Rightarrow> RetryPolicy \<Rightarrow> ScanTimingInfo \<Rightarrow> ProtocolGraph \<Rightarrow> ProtocolScanResult result" where
  "run env policy timing graph =
     bindR (run_loop env policy (fst (build_dependency_maps graph)) (initial_run graph))
       (\<lambda>st. Inr (scan_result timing graph st))"

end
