(* ===== verification/GraphOrder.thy ===== *)
theory GraphOrder
  imports GraphTraversal
begin

text \<open>
  Kahn's algorithm over a finite set \<open>N\<close> of nodes with successor lists \<open>S\<close>. What the topological
  sort of the traversal and the batch planning of the scheduler share: the unmet dependencies of
  a node, and the ordering in which dependencies come first.
\<close>

section \<open>Unmet dependencies\<close>

definition unmet :: "string set \<Rightarrow> (string \<Rightarrow> string list) \<Rightarrow> string set \<Rightarrow> string \<Rightarrow> string set" where
  "unmet N S done v = {u \<in> N - done. v \<in> set (S u)}"

definition succ_rel :: "string set \<Rightarrow> (string \<Rightarrow> string list) \<Rightarrow> (string \<times> string) set" where
  "succ_rel N S = {(u, v). u \<in> N \<and> v \<in> set (S u)}"

text \<open>Every node comes after all nodes it depends on.\<close>

definition deps_first :: "string set \<Rightarrow> (string \<Rightarrow> string list) \<Rightarrow> string list \<Rightarrow> bool" where
  "deps_first N S xs \<longleftrightarrow> (\<forall>i < length xs. unmet N S (set (take i xs)) (xs ! i) = {})"

lemma deps_first_Nil [simp]: "deps_first N S []"
  by (simp add: deps_first_def)

lemma deps_first_snoc [simp]:
  "deps_first N S (xs @ [v]) \<longleftrightarrow> deps_first N S xs \<and> unmet N S (set xs) v = {}"
  by (auto simp: deps_first_def nth_append less_Suc_eq)

lemma unmet_done: "unmet N S (D \<union> {c}) v = unmet N S D v - {c}"
  by (auto simp: unmet_def)

lemma unmet_mono: "D \<subseteq> D' \<Longrightarrow> unmet N S D' v \<subseteq> unmet N S D v"
  by (auto simp: unmet_def)

lemma finite_unmet [simp]: "finite N \<Longrightarrow> finite (unmet N S D v)"
  by (simp add: unmet_def)

lemma deps_first_append:
  assumes "deps_first N S xs" "\<forall>v \<in> set ys. unmet N S (set xs) v = {}"
  shows "deps_first N S (xs @ ys)"
  using assms
proof (induction ys rule: rev_induct)
  case (snoc y ys)
  have "unmet N S (set (xs @ ys)) y = {}"
    using snoc(3) unmet_mono [of "set xs" "set (xs @ ys)" N S y] by auto
  with snoc show ?case by (simp flip: append_assoc)
qed simp

text \<open>An ordering of all nodes in which dependencies come first exists only without cycles.\<close>

lemma deps_first_acyclic:
  assumes "deps_first N S xs" "N \<subseteq> set xs" "\<forall>u \<in> N. set (S u) \<subseteq> set xs" "distinct xs"
  shows "acyclic (succ_rel N S)"
proof (rule acyclic_subset)
  have "index_of xs u < index_of xs v" if uv: "(u, v) \<in> succ_rel N S" for u v
  proof -
    let ?i = "index_of xs v"
    have v: "v \<in> set xs" using uv assms(3) by (auto simp: succ_rel_def)
    then have "u \<in> set (take ?i xs)"
      using uv assms(1) index_of_less [OF v] nth_index_of [OF v]
      by (force simp: deps_first_def unmet_def succ_rel_def)
    then obtain j where "j < ?i" "j < length xs" "xs ! j = u" by (auto simp: in_set_conv_nth)
    moreover from this have "u \<in> set xs" by auto
    ultimately show ?thesis
      using assms(4) nth_index_of [of u xs] index_of_less [of u xs] nth_eq_iff_index_eq [of xs j "index_of xs u"]
      by auto
  qed
  then show "succ_rel N S \<subseteq> measure (index_of xs)" by auto
qed (rule wf_acyclic [OF wf_measure])

text \<open>Without cycles, a nonempty set of remaining nodes has one without unmet dependencies.\<close>

lemma acyclic_ready:
  assumes "acyclic (succ_rel N S)" "finite N" "\<forall>u \<in> N. set (S u) \<subseteq> N" "N - D \<noteq> {}"
  shows "\<exists>v \<in> N - D. unmet N S D v = {}"
proof -
  have "succ_rel N S \<subseteq> N \<times> N" using assms(3) by (auto simp: succ_rel_def)
  then have "finite (succ_rel N S)" using assms(2) by (meson finite_SigmaI finite_subset)
  then have "wf (succ_rel N S)" using assms(1) by (rule finite_acyclic_wf)
  from wfE_min' [OF this assms(4)] obtain v where "v \<in> N - D" "\<And>u. (u, v) \<in> succ_rel N S \<Longrightarrow> u \<notin> N - D" by blast
  then show ?thesis by (auto simp: unmet_def succ_rel_def)
qed

lemma all_done:
  assumes "acyclic (succ_rel N S)" "finite N" "\<forall>u \<in> N. set (S u) \<subseteq> N" "D \<subseteq> N"
    "\<forall>v \<in> N. unmet N S D v = {} \<longrightarrow> v \<in> D"
  shows "D = N"
  using acyclic_ready [OF assms(1-3), of D] assms(4,5) by auto

section \<open>The queue loop\<close>

lemma relax_exact:
  "distinct ns \<Longrightarrow>
   (\<forall>v. map_of (fst (relax ns ind q)) v =
      (if v \<in> set ns then map_option (\<lambda>d. d - 1) (map_of ind v) else map_of ind v)) \<and>
   snd (relax ns ind q) = q @ filter (\<lambda>n. map_of ind n = Some 1) ns"
proof (induction ns ind q rule: relax.induct)
  case (2 n ns ind q)
  show ?case
  proof (cases "map_of ind n")
    case None
    with 2 show ?thesis by auto
  next
    case (Some d)
    have "filter (\<lambda>m. map_of (AList.update n (d - 1) ind) m = Some 1) ns = filter (\<lambda>m. map_of ind m = Some 1) ns"
      using 2(3) by (intro filter_cong) auto
    with 2(2) [OF Some] 2(3) Some show ?thesis by auto
  qed
qed simp

text \<open>The degrees a loop keeps are the numbers of unmet dependencies.\<close>

definition degrees :: "string set \<Rightarrow> (string \<Rightarrow> string list) \<Rightarrow> string set \<Rightarrow> string \<Rightarrow> int option" where
  "degrees N S D v = (if v \<in> N then Some (int (card (unmet N S D v))) else None)"

lemma degrees_zero: "finite N \<Longrightarrow> degrees N S D v = Some 0 \<longleftrightarrow> v \<in> N \<and> unmet N S D v = {}"
  by (simp add: degrees_def)

lemma degrees_step:
  assumes "c \<in> N" "c \<notin> D" "finite N"
  shows "degrees N S (insert c D) v =
    (if v \<in> set (S c) then map_option (\<lambda>d. d - 1) (degrees N S D v) else degrees N S D v)"
proof (cases "v \<in> set (S c)")
  case True
  then have "c \<in> unmet N S D v" using assms(1,2) by (simp add: unmet_def)
  moreover have "unmet N S (insert c D) v = unmet N S D v - {c}" using unmet_done [of N S D c v] by simp
  moreover have "finite (unmet N S D v)" using assms(3) by simp
  ultimately have "int (card (unmet N S (insert c D) v)) = int (card (unmet N S D v)) - 1"
    by (metis card_Suc_Diff1 of_nat_Suc add_diff_cancel_left')
  with True show ?thesis by (simp add: degrees_def)
next
  case False
  then have "unmet N S (insert c D) v = unmet N S D v" by (auto simp: unmet_def)
  with False show ?thesis by (simp add: degrees_def)
qed

definition kahn_inv ::
  "string set \<Rightarrow> (string \<Rightarrow> string list) \<Rightarrow> (string, int) dict \<Rightarrow> string list \<Rightarrow> string list \<Rightarrow> bool" where
  "kahn_inv N S ind queue out \<longleftrightarrow> distinct (out @ queue) \<and> set (out @ queue) \<subseteq> N \<and> deps_first N S out \<and>
     map_of ind = degrees N S (set out) \<and>
     (\<forall>v \<in> N. v \<in> set (out @ queue) \<longleftrightarrow> unmet N S (set out) v = {})"

lemma kahn_inv_step:
  assumes N: "finite N" "\<forall>u \<in> N. set (S u) \<subseteq> N" "distinct (S c)"
    and inv: "kahn_inv N S ind (c # queue) out"
  shows "kahn_inv N S (fst (relax (S c) ind queue)) (snd (relax (S c) ind queue)) (out @ [c])"
proof -
  have c: "c \<in> N" "c \<notin> set out" "unmet N S (set out) c = {}" using inv by (auto simp: kahn_inv_def)
  have deg: "map_of ind = degrees N S (set out)" using inv by (simp add: kahn_inv_def)
  let ?new = "filter (\<lambda>n. map_of ind n = Some 1) (S c)"
  have relax: "map_of (fst (relax (S c) ind queue)) v =
      (if v \<in> set (S c) then map_option (\<lambda>d. d - 1) (map_of ind v) else map_of ind v)"
    "snd (relax (S c) ind queue) = queue @ ?new" for v
    using relax_exact [OF N(3)] by blast+
  have ready: "v \<in> set ?new \<longleftrightarrow> v \<in> N \<and> unmet N S (set out) v = {c}" for v
  proof
    assume "v \<in> set ?new"
    then have "v \<in> set (S c)" "degrees N S (set out) v = Some 1" by (simp_all add: deg)
    then have v: "v \<in> N" "card (unmet N S (set out) v) = 1" "c \<in> unmet N S (set out) v"
      using c(1,2) by (simp_all add: degrees_def unmet_def split: if_splits)
    then obtain w where "unmet N S (set out) v = {w}" by (auto simp: card_1_singleton_iff)
    with v show "v \<in> N \<and> unmet N S (set out) v = {c}" by simp
  next
    assume v: "v \<in> N \<and> unmet N S (set out) v = {c}"
    then have "c \<in> unmet N S (set out) v" by simp
    then have "v \<in> set (S c)" by (simp add: unmet_def)
    with v show "v \<in> set ?new" by (simp add: deg degrees_def)
  qed
  have step: "unmet N S (set (out @ [c])) v = unmet N S (set out) v - {c}" for v
    using unmet_done [of N S "set out" c v] by simp
  have "distinct ((out @ [c]) @ queue @ ?new)"
  proof -
    have "v \<notin> set (out @ c # queue)" if "v \<in> set ?new" for v
      using that inv ready [of v] by (auto simp: kahn_inv_def)
    with inv N(3) show ?thesis by (auto simp: kahn_inv_def)
  qed
  moreover have "set ((out @ [c]) @ queue @ ?new) \<subseteq> N" using inv ready by (auto simp: kahn_inv_def)
  moreover have "deps_first N S (out @ [c])" using inv c(3) by (simp add: kahn_inv_def)
  moreover have "map_of (fst (relax (S c) ind queue)) = degrees N S (set (out @ [c]))"
    using degrees_step [OF c(1,2) N(1), of S] by (intro ext) (simp add: relax(1) deg)
  moreover have "\<forall>v \<in> N. v \<in> set ((out @ [c]) @ queue @ ?new) \<longleftrightarrow> unmet N S (set (out @ [c])) v = {}"
  proof
    fix v assume "v \<in> N"
    then have "v \<in> set (out @ c # queue) \<longleftrightarrow> unmet N S (set out) v = {}"
      using inv by (simp add: kahn_inv_def)
    moreover have "v \<in> set ?new \<longleftrightarrow> unmet N S (set out) v = {c}" using ready \<open>v \<in> N\<close> by blast
    moreover have "unmet N S (set out) v - {c} = {} \<longleftrightarrow> unmet N S (set out) v = {} \<or> unmet N S (set out) v = {c}"
      by auto
    moreover have "v \<in> set ((out @ [c]) @ queue @ ?new) \<longleftrightarrow> v \<in> set (out @ c # queue) \<or> v \<in> set ?new"
      by (simp only: set_append list.set Un_iff insert_iff empty_iff) blast
    ultimately show "v \<in> set ((out @ [c]) @ queue @ ?new) \<longleftrightarrow> unmet N S (set (out @ [c])) v = {}"
      by (simp only: step)
  qed
  ultimately show ?thesis by (simp only: kahn_inv_def relax(2))
qed

lemma kahn_loop_inv:
  assumes "finite N" "\<forall>u \<in> N. set (nbrs lower adj u) \<subseteq> N" "\<forall>u. distinct (nbrs lower adj u)"
    "kahn_inv N (nbrs lower adj) ind queue out"
  shows "\<exists>ind'. kahn_inv N (nbrs lower adj) ind' [] (kahn_loop adj ind queue out)"
  using assms
proof (induction adj ind queue out rule: kahn_loop.induct)
  case (1 adj ind out)
  then show ?case by auto
next
  case (2 adj ind c queue out)
  have "\<exists>ind'. kahn_inv N (nbrs lower adj) ind' [] (kahn_loop adj
      (fst (relax (nbrs lower adj c) ind queue)) (snd (relax (nbrs lower adj c) ind queue)) (out @ [c]))"
    using 2(2-4) kahn_inv_step [OF 2(2,3) _ 2(5)] by (intro 2(1)) auto
  then show ?case by (simp add: Let_def)
qed

end
