(* ===== verification/GraphSearchProps.thy ===== *)
theory GraphSearchProps
  imports GraphSearch
begin

text \<open>
  Correctness of the worklist loops against the edge relation: the searches visit exactly the
  reachable nodes, the cycle search finds a cycle if and only if there is one, and the path search
  returns a shortest path if and only if there is a path.
\<close>

section \<open>Closed sets\<close>

definition closed_under :: "(string \<Rightarrow> string) \<Rightarrow> adjacency \<Rightarrow> string set \<Rightarrow> bool" where
  "closed_under nf adj S \<longleftrightarrow> (\<forall>x \<in> S. set (nbrs nf adj x) \<subseteq> S)"

lemma closed_reach:
  assumes "closed_under nf adj S" "A \<subseteq> S"
  shows "(edge_rel nf adj)\<^sup>* `` A \<subseteq> S"
proof
  fix y assume "y \<in> (edge_rel nf adj)\<^sup>* `` A"
  then obtain x where "x \<in> A" "(x, y) \<in> (edge_rel nf adj)\<^sup>*" by blast
  from this(2) have "x \<in> S \<Longrightarrow> y \<in> S"
    using assms(1) by (induction rule: rtrancl_induct) (auto simp: closed_under_def)
  with \<open>x \<in> A\<close> assms(2) show "y \<in> S" by blast
qed

lemma reach_eqI:
  assumes "closed_under nf adj S" "A \<subseteq> S" "S \<subseteq> (edge_rel nf adj)\<^sup>* `` A"
  shows "S = (edge_rel nf adj)\<^sup>* `` A"
  using closed_reach [OF assms(1,2)] assms(3) by blast

lemma reach_nbrs: "x \<in> (edge_rel nf adj)\<^sup>* `` A \<Longrightarrow> set (nbrs nf adj x) \<subseteq> (edge_rel nf adj)\<^sup>* `` A"
  by (meson ImageE ImageI edge_rel_iff rtrancl_into_rtrancl subsetI)

section \<open>Breadth-first search\<close>

lemma bfs_loop_inv:
  assumes "set seen = set (visited @ queue)" "distinct (visited @ queue)"
    "\<forall>x \<in> set visited. set (nbrs nf adj x) \<subseteq> set seen" "set seen \<subseteq> (edge_rel nf adj)\<^sup>* `` A"
  shows "distinct (bfs_loop nf adj seen queue visited) \<and>
    closed_under nf adj (set (bfs_loop nf adj seen queue visited)) \<and>
    set seen \<subseteq> set (bfs_loop nf adj seen queue visited) \<and>
    set (bfs_loop nf adj seen queue visited) \<subseteq> (edge_rel nf adj)\<^sup>* `` A"
  using assms
proof (induction nf adj seen queue visited rule: bfs_loop.induct)
  case (1 nf adj seen visited)
  then show ?case by (simp add: closed_under_def)
next
  case (2 nf adj seen current queue visited)
  let ?new = "fresh seen (nbrs nf adj current)"
  have a: "set (seen @ ?new) = set ((visited @ [current]) @ queue @ ?new)" using 2(2) by auto
  have b: "distinct ((visited @ [current]) @ queue @ ?new)" using 2(2,3) by auto
  have c: "\<forall>x \<in> set (visited @ [current]). set (nbrs nf adj x) \<subseteq> set (seen @ ?new)" using 2(4) by auto
  have d: "set (seen @ ?new) \<subseteq> (edge_rel nf adj)\<^sup>* `` A"
  proof -
    have "current \<in> (edge_rel nf adj)\<^sup>* `` A" using 2(2,5) by auto
    from reach_nbrs [OF this] 2(5) show ?thesis by (simp only: set_append set_fresh) blast
  qed
  from 2(1) [OF a b c d] show ?case by (simp only: bfs_loop.simps set_append) blast
qed

lemma bfs_reaches:
  "set (bfs_loop nf adj [s] [s] []) = (edge_rel nf adj)\<^sup>* `` {s}"
  "distinct (bfs_loop nf adj [s] [s] [])"
  using bfs_loop_inv [of "[s]" "[]" "[s]" nf adj "{s}"] reach_eqI [of nf adj _ "{s}"] by auto

section \<open>Depth-first search\<close>

lemma union_chain:
  assumes "W \<subseteq> (V \<union> {n}) \<union> E" "R \<subseteq> W \<union> F" "E \<subseteq> N" "n \<in> N"
  shows "R \<subseteq> V \<union> (N \<union> F)"
  using assms by blast

lemma walk_inv:
  "distinct visited \<Longrightarrow>
   distinct (walk nf adj ns visited) \<and>
   set visited \<union> set ns \<subseteq> set (walk nf adj ns visited) \<and>
   (\<forall>x \<in> set (walk nf adj ns visited) - set visited. set (nbrs nf adj x) \<subseteq> set (walk nf adj ns visited)) \<and>
   set (walk nf adj ns visited) \<subseteq> set visited \<union> (edge_rel nf adj)\<^sup>* `` set ns"
proof (induction nf adj ns visited rule: walk.induct)
  case (1 nf adj visited)
  then show ?case by simp
next
  case (2 nf adj n ns visited)
  show ?case
  proof (cases "n \<in> set visited")
    case True
    with 2 show ?thesis by auto
  next
    case False
    let ?W = "walk nf adj (nbrs nf adj n) (visited @ [n])"
    let ?R = "walk nf adj ns ?W"
    have W: "distinct ?W" "set (visited @ [n]) \<union> set (nbrs nf adj n) \<subseteq> set ?W"
      "\<forall>x \<in> set ?W - set (visited @ [n]). set (nbrs nf adj x) \<subseteq> set ?W"
      "set ?W \<subseteq> set (visited @ [n]) \<union> (edge_rel nf adj)\<^sup>* `` set (nbrs nf adj n)"
      using 2(2) [OF False] 2(4) False by simp_all
    have R: "distinct ?R" "set ?W \<union> set ns \<subseteq> set ?R"
      "\<forall>x \<in> set ?R - set ?W. set (nbrs nf adj x) \<subseteq> set ?R"
      "set ?R \<subseteq> set ?W \<union> (edge_rel nf adj)\<^sup>* `` set ns"
      using 2(3) [OF False W(1)] by simp_all
    have closed: "set (nbrs nf adj x) \<subseteq> set ?R" if "x \<in> set ?R - set visited" for x
    proof (cases "x \<in> set ?W")
      case True
      then have "set (nbrs nf adj x) \<subseteq> set ?W" using W(2,3) that by (cases "x = n") auto
      with R(2) show ?thesis by blast
    next
      case False
      with R(3) that show ?thesis by blast
    qed
    have "(edge_rel nf adj)\<^sup>* `` set (nbrs nf adj n) \<subseteq> (edge_rel nf adj)\<^sup>* `` {n}"
      by (auto intro: converse_rtrancl_into_rtrancl)
    then have "set ?R \<subseteq> set visited \<union> ((edge_rel nf adj)\<^sup>* `` {n} \<union> (edge_rel nf adj)\<^sup>* `` set ns)"
      using W(4) by (intro union_chain [OF _ R(4), where n = n and E = "(edge_rel nf adj)\<^sup>* `` set (nbrs nf adj n)"]) simp_all
    moreover have "(edge_rel nf adj)\<^sup>* `` set (n # ns) =
        (edge_rel nf adj)\<^sup>* `` {n} \<union> (edge_rel nf adj)\<^sup>* `` set ns" by auto
    moreover have "walk nf adj (n # ns) visited = ?R" using False by simp
    moreover have "set visited \<union> set (n # ns) \<subseteq> set ?R" using W(2) R(2) by auto
    ultimately show ?thesis using closed R(1) by (intro conjI ballI) (simp_all only:)
  qed
qed

lemma walk_reaches:
  "set (walk nf adj [s] []) = (edge_rel nf adj)\<^sup>* `` {s}"
  "distinct (walk nf adj [s] [])"
  using walk_inv [of "[]" nf adj "[s]"] reach_eqI [of nf adj "set (walk nf adj [s] [])" "{s}"]
  by (auto simp: closed_under_def)

section \<open>Collecting\<close>

lemma collect_inv:
  assumes "\<forall>x \<in> set seen. set (nbrs nf adj x) \<subseteq> set seen \<union> set stack" "distinct seen"
    "set seen \<union> set stack \<subseteq> (edge_rel nf adj)\<^sup>* `` A"
  shows "closed_under nf adj (set (collect nf adj stack seen)) \<and>
    set seen \<union> set stack \<subseteq> set (collect nf adj stack seen) \<and> distinct (collect nf adj stack seen) \<and>
    set (collect nf adj stack seen) \<subseteq> (edge_rel nf adj)\<^sup>* `` A"
  using assms
proof (induction nf adj stack seen rule: collect.induct)
  case (1 nf adj stack seen)
  show ?case
  proof (cases "stack = []")
    case True
    with 1 show ?thesis by (simp add: collect.simps closed_under_def)
  next
    case False
    then have stack: "set stack = insert (last stack) (set (butlast stack))"
      by (metis append_butlast_last_id list.simps(15) rotate1.simps(2) set_rotate1)
    show ?thesis
    proof (cases "last stack \<in> set seen")
      case True
      then have "set seen \<union> set (butlast stack) = set seen \<union> set stack" using stack by auto
      then have "closed_under nf adj (set (collect nf adj (butlast stack) seen)) \<and>
          set seen \<union> set stack \<subseteq> set (collect nf adj (butlast stack) seen) \<and>
          distinct (collect nf adj (butlast stack) seen) \<and>
          set (collect nf adj (butlast stack) seen) \<subseteq> (edge_rel nf adj)\<^sup>* `` A"
        using 1(1) [OF False True] 1(3-5) by simp
      then show ?thesis using False True by (subst (1 2 3 4) collect.simps) simp
    next
      case new: False
      let ?st = "butlast stack @ nbrs nf adj (last stack)" and ?sn = "seen @ [last stack]"
      have "\<forall>x \<in> set ?sn. set (nbrs nf adj x) \<subseteq> set ?sn \<union> set ?st" using 1(3) stack by auto
      moreover have "set ?sn \<union> set ?st \<subseteq> (edge_rel nf adj)\<^sup>* `` A"
      proof -
        have "last stack \<in> (edge_rel nf adj)\<^sup>* `` A" using 1(5) stack by auto
        from reach_nbrs [OF this] this show ?thesis using 1(5) stack
          by (simp only: set_append list.set) blast
      qed
      ultimately have "closed_under nf adj (set (collect nf adj ?st ?sn)) \<and>
          set ?sn \<union> set ?st \<subseteq> set (collect nf adj ?st ?sn) \<and> distinct (collect nf adj ?st ?sn) \<and>
          set (collect nf adj ?st ?sn) \<subseteq> (edge_rel nf adj)\<^sup>* `` A"
        using 1(2) [OF False new] 1(4) new by simp
      moreover have "set seen \<union> set stack \<subseteq> set ?sn \<union> set ?st" using stack by auto
      ultimately show ?thesis using False new by (subst (1 2 3 4) collect.simps) auto
    qed
  qed
qed

lemma collect_reaches:
  "set (collect nf adj (nbrs nf adj a) []) = (edge_rel nf adj)\<^sup>+ `` {a}"
proof -
  have "set (collect nf adj (nbrs nf adj a) []) = (edge_rel nf adj)\<^sup>* `` set (nbrs nf adj a)"
    using collect_inv [of "[]" nf adj "nbrs nf adj a" "set (nbrs nf adj a)"] by (intro reach_eqI) auto
  also have "\<dots> = (edge_rel nf adj)\<^sup>+ `` {a}"
    by (auto simp: trancl_unfold_left relcomp_unfold)
  finally show ?thesis .
qed

section \<open>Paths\<close>

definition is_path :: "(string \<Rightarrow> string) \<Rightarrow> adjacency \<Rightarrow> string list \<Rightarrow> bool" where
  "is_path nf adj p \<longleftrightarrow> p \<noteq> [] \<and> successively (\<lambda>a b. b \<in> set (nbrs nf adj a)) p"

lemma is_path_single [simp]: "is_path nf adj [a]"
  by (simp add: is_path_def)

lemma is_path_snoc [simp]:
  "p \<noteq> [] \<Longrightarrow> is_path nf adj (p @ [b]) \<longleftrightarrow> is_path nf adj p \<and> b \<in> set (nbrs nf adj (last p))"
  by (auto simp: is_path_def successively_append_iff)

lemma is_path_relpow:
  "is_path nf adj p \<Longrightarrow> (hd p, last p) \<in> edge_rel nf adj ^^ (length p - 1)"
proof (induction p rule: rev_induct)
  case (snoc b p)
  show ?case
  proof (cases "p = []")
    case False
    with snoc have "(hd p, last p) \<in> edge_rel nf adj ^^ (length p - 1)" "(last p, b) \<in> edge_rel nf adj"
      by simp_all
    then have "(hd p, b) \<in> edge_rel nf adj ^^ Suc (length p - 1)" by auto
    with False show ?thesis by simp
  qed simp
qed (simp add: is_path_def)

definition is_cycle :: "(string \<Rightarrow> string) \<Rightarrow> adjacency \<Rightarrow> string list \<Rightarrow> bool" where
  "is_cycle nf adj c \<longleftrightarrow> is_path nf adj c \<and> 2 \<le> length c \<and> hd c = last c"

lemma is_cycle_trancl: "is_cycle nf adj c \<Longrightarrow> (hd c, hd c) \<in> (edge_rel nf adj)\<^sup>+"
  using is_path_relpow [of nf adj c] trancl_power [of "(hd c, hd c)" "edge_rel nf adj"]
  by (auto simp: is_cycle_def intro: exI [of _ "length c - 1"])

lemma is_cycle_close:
  assumes "is_path nf adj p" "m \<in> set p" "m \<in> set (nbrs nf adj (last p))"
  shows "is_cycle nf adj (drop (index_of p m) p @ [m])"
proof -
  let ?i = "index_of p m"
  have i: "?i < length p" "p ! ?i = m" using assms(2) by (simp_all add: index_of_less)
  have "successively (\<lambda>a b. b \<in> set (nbrs nf adj a)) (take ?i p @ drop ?i p)"
    using assms(1) by (simp add: is_path_def)
  then have "is_path nf adj (drop ?i p)" using i(1) by (simp only: successively_append_iff) (simp add: is_path_def)
  then show ?thesis using i assms(3) by (simp add: is_cycle_def hd_drop_conv_nth hd_append)
qed

section \<open>Cycles\<close>

lemma cycle_search_sound:
  assumes "path = [] \<or> is_path nf adj path \<and> set ms \<subseteq> set (nbrs nf adj (last path))"
    "closed_under nf adj R" "set ms \<subseteq> R" "\<forall>c \<in> set (snd st). is_cycle nf adj c \<and> hd c \<in> R"
  shows "\<forall>c \<in> set (snd (cycle_search nf adj path ms st)). is_cycle nf adj c \<and> hd c \<in> R"
  using assms
proof (induction nf adj path ms st rule: cycle_search.induct)
  case (2 nf adj path m ms st)
  let ?ok = "\<lambda>st. \<forall>c \<in> set (snd st). is_cycle nf adj c \<and> hd c \<in> R"
  have ms: "path = [] \<or> is_path nf adj path \<and> set ms \<subseteq> set (nbrs nf adj (last path))" "set ms \<subseteq> R"
    using 2(5,7) by auto
  show ?case
  proof (cases "m \<in> set (fst st)")
    case False
    have "set (nbrs nf adj m) \<subseteq> R" using 2(6,7) by (simp add: closed_under_def)
    then have "?ok (cycle_search nf adj (path @ [m]) (nbrs nf adj m) (fst st @ [m], snd st))"
      using 2(5,6,8) by (intro 2(1) [OF False]) (cases "path = []", simp_all)
    from 2(2) [OF False ms(1) 2(6) ms(2) this] False show ?thesis by simp
  next
    case old: True
    show ?thesis
    proof (cases "m \<in> set path")
      case True
      then have "is_cycle nf adj (drop (index_of path m) path @ [m])"
        using 2(5) by (intro is_cycle_close) auto
      moreover from this have "hd (drop (index_of path m) path @ [m]) = m" by (simp add: is_cycle_def)
      ultimately have "?ok (cycle_search nf adj path ms (fst st, snd st @ [drop (index_of path m) path @ [m]]))"
        using 2(6,7,8) old True ms by (intro 2(3)) auto
      with old True show ?thesis by simp
    next
      case False
      from 2(4) [OF _ False ms(1) 2(6) ms(2) 2(8)] old False show ?thesis by simp
    qed
  qed
qed simp

text \<open>
  When no cycle is reported, the finished nodes (visited and not on the path) are closed under
  successors and none of them is on a cycle.
\<close>

definition finished_ok :: "(string \<Rightarrow> string) \<Rightarrow> adjacency \<Rightarrow> string set \<Rightarrow> bool" where
  "finished_ok nf adj F \<longleftrightarrow> closed_under nf adj F \<and> (\<forall>x \<in> F. (x, x) \<notin> (edge_rel nf adj)\<^sup>+)"

lemma finished_ok_insert:
  assumes "finished_ok nf adj F" "m \<notin> F" "set (nbrs nf adj m) \<subseteq> F"
  shows "finished_ok nf adj (insert m F)"
proof -
  have "(m, m) \<notin> (edge_rel nf adj)\<^sup>+"
  proof
    assume "(m, m) \<in> (edge_rel nf adj)\<^sup>+"
    then obtain y where "y \<in> set (nbrs nf adj m)" "(y, m) \<in> (edge_rel nf adj)\<^sup>*"
      by (auto dest: tranclD)
    with assms(1,3) have "m \<in> F"
      using closed_reach [of nf adj F F] by (auto simp: finished_ok_def)
    with assms(2) show False ..
  qed
  with assms(1,3) show ?thesis by (auto simp: finished_ok_def closed_under_def)
qed

lemma cycle_search_mono:
  "set (fst st) \<subseteq> set (fst (cycle_search nf adj path ms st)) \<and>
   set (snd st) \<subseteq> set (snd (cycle_search nf adj path ms st))"
proof (induction nf adj path ms st rule: cycle_search.induct)
  case (2 nf adj path m ms st)
  show ?case
  proof (cases "m \<in> set (fst st)")
    case True
    with 2(3,4) show ?thesis by (cases "m \<in> set path") auto
  next
    case False
    with 2(1) [OF False] 2(2) [OF False] show ?thesis by (simp only: cycle_search.simps) auto
  qed
qed simp

lemma cycle_search_complete:
  assumes "set path \<subseteq> set (fst st)" "finished_ok nf adj (set (fst st) - set path)"
    "snd (cycle_search nf adj path ms st) = []"
  shows "finished_ok nf adj (set (fst (cycle_search nf adj path ms st)) - set path) \<and>
    set ms \<subseteq> set (fst (cycle_search nf adj path ms st)) - set path"
  using assms
proof (induction nf adj path ms st rule: cycle_search.induct)
  case (2 nf adj path m ms st)
  let ?V = "set (fst st)"
  show ?case
  proof (cases "m \<in> ?V")
    case new: False
    let ?inner = "cycle_search nf adj (path @ [m]) (nbrs nf adj m) (fst st @ [m], snd st)"
    let ?outer = "cycle_search nf adj path ms ?inner"
    have eq: "cycle_search nf adj path (m # ms) st = ?outer" using new by simp
    have V: "?V \<union> {m} \<subseteq> set (fst ?inner)" "set (fst ?inner) \<subseteq> set (fst ?outer)"
      "set (snd ?inner) \<subseteq> set (snd ?outer)"
      using cycle_search_mono [of "(fst st @ [m], snd st)" nf adj "path @ [m]" "nbrs nf adj m"]
        cycle_search_mono [of ?inner nf adj path ms] by simp_all
    have m: "m \<notin> set path" using new 2(5) by auto
    have "?V \<union> {m} - set (path @ [m]) = ?V - set path" using new 2(5) by auto
    then have inner: "finished_ok nf adj (set (fst ?inner) - set (path @ [m]))"
      "set (nbrs nf adj m) \<subseteq> set (fst ?inner) - set (path @ [m])"
      using 2(1) [OF new] 2(5-7) V(3) eq by auto
    have "set (fst ?inner) - set path = insert m (set (fst ?inner) - set (path @ [m]))" using V(1) m by auto
    then have "finished_ok nf adj (set (fst ?inner) - set path)"
      using finished_ok_insert [OF inner(1) _ inner(2)] by simp
    then have "finished_ok nf adj (set (fst ?outer) - set path) \<and> set ms \<subseteq> set (fst ?outer) - set path"
      using 2(2) [OF new] 2(5,7) V(1) eq by auto
    with V m eq show ?thesis by auto
  next
    case old: True
    have m: "m \<notin> set path"
    proof
      assume "m \<in> set path"
      with old have "snd (cycle_search nf adj path (m # ms) st) \<noteq> []"
        using cycle_search_mono [of "(fst st, snd st @ [drop (index_of path m) path @ [m]])" nf adj path ms] by auto
      with 2(7) show False by simp
    qed
    then have eq: "cycle_search nf adj path (m # ms) st = cycle_search nf adj path ms st" using old by simp
    have "finished_ok nf adj (set (fst (cycle_search nf adj path ms st)) - set path) \<and>
        set ms \<subseteq> set (fst (cycle_search nf adj path ms st)) - set path"
      using 2(4) [OF _ m] old 2(5-7) eq by simp
    with eq old m cycle_search_mono [of st nf adj path ms] show ?thesis by auto
  qed
qed simp

lemma cycle_search_exact:
  "snd (cycle_search nf adj [] ms ([], [])) = [] \<longleftrightarrow>
     (\<forall>x \<in> (edge_rel nf adj)\<^sup>* `` set ms. (x, x) \<notin> (edge_rel nf adj)\<^sup>+)"
  (is "?C = [] \<longleftrightarrow> ?acyclic")
proof
  assume "?C = []"
  then have "finished_ok nf adj (set (fst (cycle_search nf adj [] ms ([], []))))"
    "set ms \<subseteq> set (fst (cycle_search nf adj [] ms ([], [])))"
    using cycle_search_complete [of "[]" "([], [])" nf adj ms] by (simp_all add: finished_ok_def closed_under_def)
  then show ?acyclic using closed_reach by (fastforce simp: finished_ok_def)
next
  assume ?acyclic
  show "?C = []"
  proof (rule ccontr)
    assume "?C \<noteq> []"
    then obtain c where "c \<in> set ?C" by (cases ?C) auto
    moreover have "closed_under nf adj ((edge_rel nf adj)\<^sup>* `` set ms)"
      using reach_nbrs by (simp add: closed_under_def)
    then have "\<forall>c \<in> set ?C. is_cycle nf adj c \<and> hd c \<in> (edge_rel nf adj)\<^sup>* `` set ms"
      by (rule cycle_search_sound [rotated]) auto
    ultimately show False using is_cycle_trancl \<open>?acyclic\<close> by blast
  qed
qed

section \<open>Shortest paths\<close>

text \<open>
  The invariant of the path search. A queue entry holds a path from the start to its node, and no
  shorter path leads there; the lengths in the queue are sorted and differ by at most one; the
  nodes of smaller distance than the first entry's are all seen.
\<close>

definition path_inv ::
  "(string \<Rightarrow> string) \<Rightarrow> adjacency \<Rightarrow> string \<Rightarrow> string \<Rightarrow> string list \<Rightarrow> (string \<times> string list) list \<Rightarrow> bool" where
  "path_inv nf adj s goal seen queue \<longleftrightarrow>
     (\<forall>(n, p) \<in> set queue. is_path nf adj p \<and> hd p = s \<and> last p = n \<and> n \<in> set seen \<and>
        (\<forall>k < length p - 1. (s, n) \<notin> edge_rel nf adj ^^ k)) \<and>
     (\<forall>x \<in> set seen - fst ` set queue. set (nbrs nf adj x) \<subseteq> set seen) \<and>
     s \<in> set seen \<and> goal \<notin> set seen \<and>
     sorted (map (length \<circ> snd) queue) \<and>
     (\<forall>q \<in> set queue. length (snd q) \<le> Suc (length (snd (hd queue)))) \<and>
     (queue \<noteq> [] \<longrightarrow> (\<forall>k < length (snd (hd queue)). \<forall>x. (s, x) \<in> edge_rel nf adj ^^ k \<longrightarrow> x \<in> set seen))"

lemma path_inv_init: "goal \<noteq> s \<Longrightarrow> path_inv nf adj s goal [s] [(s, [s])]"
  by (simp add: path_inv_def)

lemma path_inv_empty:
  assumes "path_inv nf adj s goal seen []"
  shows "(s, goal) \<notin> (edge_rel nf adj)\<^sup>*"
proof -
  from assms have "closed_under nf adj (set seen)" "s \<in> set seen" "goal \<notin> set seen"
    by (simp_all add: path_inv_def closed_under_def)
  with closed_reach [of nf adj "set seen" "{s}"] show ?thesis by auto
qed

lemma path_inv_found:
  assumes "path_inv nf adj s goal seen ((c, p) # queue)" "goal \<in> set (nbrs nf adj c)"
  shows "is_path nf adj (p @ [goal]) \<and> hd (p @ [goal]) = s \<and>
    (\<forall>k < length p. (s, goal) \<notin> edge_rel nf adj ^^ k)"
  using assms by (auto simp: path_inv_def is_path_def [of nf adj p])

lemma path_inv_step:
  assumes inv: "path_inv nf adj s goal seen ((c, p) # queue)"
    and goal: "goal \<notin> set (fresh seen (nbrs nf adj c))"
  shows "path_inv nf adj s goal (seen @ fresh seen (nbrs nf adj c))
    (queue @ map (\<lambda>n. (n, p @ [n])) (fresh seen (nbrs nf adj c)))"
proof -
  let ?new = "fresh seen (nbrs nf adj c)"
  let ?seen = "seen @ ?new" and ?queue = "queue @ map (\<lambda>n. (n, p @ [n])) ?new"
  have head: "is_path nf adj p" "hd p = s" "last p = c" "p \<noteq> []" "c \<in> set seen"
    using inv by (auto simp: path_inv_def is_path_def)
  have entries: "is_path nf adj q \<and> hd q = s \<and> last q = n \<and> n \<in> set seen \<and>
      (\<forall>k < length q - 1. (s, n) \<notin> edge_rel nf adj ^^ k)" if "(n, q) \<in> set queue" for n q
    using inv that by (auto simp: path_inv_def)
  have near: "x \<in> set seen" if "k < length p" "(s, x) \<in> edge_rel nf adj ^^ k" for k x
    using inv that by (auto simp: path_inv_def)
  have lens: "length p \<le> length (snd q) \<and> length (snd q) \<le> Suc (length p)" if "q \<in> set ?queue" for q
    using inv that by (auto simp: path_inv_def)
  have "\<forall>(n, q) \<in> set ?queue. is_path nf adj q \<and> hd q = s \<and> last q = n \<and> n \<in> set ?seen \<and>
      (\<forall>k < length q - 1. (s, n) \<notin> edge_rel nf adj ^^ k)"
    using entries near head by auto
  moreover have "\<forall>x \<in> set ?seen - fst ` set ?queue. set (nbrs nf adj x) \<subseteq> set ?seen"
  proof
    fix x assume x: "x \<in> set ?seen - fst ` set ?queue"
    have "fst ` set ?queue = fst ` set queue \<union> set ?new" by (simp add: image_Un image_image)
    with x have "x \<in> set seen" unfolding set_append by blast
    show "set (nbrs nf adj x) \<subseteq> set ?seen"
    proof (cases "x = c")
      case False
      with x \<open>x \<in> set seen\<close> have "x \<in> set seen - fst ` set ((c, p) # queue)" by auto
      with inv have "set (nbrs nf adj x) \<subseteq> set seen" by (simp only: path_inv_def)
      then show ?thesis by auto
    qed auto
  qed
  moreover have "s \<in> set ?seen" "goal \<notin> set ?seen" using inv goal by (simp_all add: path_inv_def)
  moreover have "sorted (map (length \<circ> snd) ?queue)"
  proof -
    have "map (length \<circ> snd) ?queue = map (length \<circ> snd) queue @ replicate (length ?new) (Suc (length p))"
      by (simp add: o_def map_replicate_const)
    moreover have "sorted (map (length \<circ> snd) queue)" using inv by (simp add: path_inv_def)
    moreover have "\<forall>l \<in> set (map (length \<circ> snd) queue). l \<le> Suc (length p)" using lens by auto
    ultimately show ?thesis by (simp add: sorted_append)
  qed
  moreover have "\<forall>q \<in> set ?queue. length (snd q) \<le> Suc (length (snd (hd ?queue)))"
  proof
    fix q assume q: "q \<in> set ?queue"
    then have "hd ?queue \<in> set ?queue"
      using length_pos_if_in_set [OF q] by (intro hd_in_set) (simp only: length_greater_0_conv not_False_eq_True)
    from lens [OF q] lens [OF this] show "length (snd q) \<le> Suc (length (snd (hd ?queue)))" by simp
  qed
  moreover have "x \<in> set ?seen" if "?queue \<noteq> []" "k < length (snd (hd ?queue))" "(s, x) \<in> edge_rel nf adj ^^ k" for k x
  proof (cases "k < length p")
    case True
    with near that show ?thesis by simp
  next
    case False
    have hd_in: "hd ?queue \<in> set ?queue" using that(1) by (rule hd_in_set)
    from lens [OF this] False that(2) have k: "k = length p" "length (snd (hd ?queue)) = Suc (length p)" by auto
    from head(4) obtain j where "length p = Suc j" by (cases p) auto
    with k(1) have j: "k = Suc j" "j < length p" by auto
    from that(3) j(1) obtain y where y: "(s, y) \<in> edge_rel nf adj ^^ j" "x \<in> set (nbrs nf adj y)" by auto
    from near [OF j(2) y(1)] have "y \<in> set seen" .
    show ?thesis
    proof (cases "y = c")
      case True
      with y(2) show ?thesis by auto
    next
      case False
      have "y \<notin> fst ` set queue"
      proof
        assume "y \<in> fst ` set queue"
        then obtain q where q: "(y, q) \<in> set queue" by auto
        then have "queue \<noteq> []" by auto
        then have "length (snd (hd queue)) = Suc (length p)" using k(2) by (simp add: hd_append)
        moreover have "length (snd (hd queue)) \<le> length q"
          using inv q \<open>queue \<noteq> []\<close> by (cases queue) (auto simp: path_inv_def)
        ultimately have "j < length q - 1" using j k(1) by simp
        with entries [OF q] y(1) show False by blast
      qed
      with \<open>y \<in> set seen\<close> False have "y \<in> set seen - fst ` set ((c, p) # queue)" by auto
      with inv have "set (nbrs nf adj y) \<subseteq> set seen" by (simp only: path_inv_def)
      with y(2) show ?thesis by auto
    qed
  qed
  ultimately show ?thesis unfolding path_inv_def by blast
qed

lemma path_loop_exact:
  assumes "path_inv nf adj s goal seen queue"
  shows "case path_loop nf adj goal seen queue of
      None \<Rightarrow> (s, goal) \<notin> (edge_rel nf adj)\<^sup>*
    | Some p \<Rightarrow> is_path nf adj p \<and> hd p = s \<and> last p = goal \<and>
        (\<forall>q. is_path nf adj q \<and> hd q = s \<and> last q = goal \<longrightarrow> length p \<le> length q)"
  using assms
proof (induction nf adj goal seen queue rule: path_loop.induct)
  case (1 nf adj goal seen)
  from path_inv_empty [OF this] show ?case by simp
next
  case (2 nf adj goal seen current path queue)
  show ?case
  proof (cases "goal \<in> set (fresh seen (nbrs nf adj current))")
    case True
    then have "goal \<in> set (nbrs nf adj current)" by simp
    note found = path_inv_found [OF 2(2) this]
    have "length (path @ [goal]) \<le> length q" if "is_path nf adj q" "hd q = s" "last q = goal" for q
    proof (rule ccontr)
      assume "\<not> length (path @ [goal]) \<le> length q"
      moreover have "q \<noteq> []" using that(1) by (simp add: is_path_def)
      ultimately have "length q - 1 < length path" by (cases q) auto
      with is_path_relpow [OF that(1)] that(2,3) found show False by auto
    qed
    with True found show ?thesis by simp
  next
    case False
    from 2(1) [OF False path_inv_step [OF 2(2) False]] show ?thesis
      by (simp only: path_loop.simps False if_False)
  qed
qed

end
