(* ===== verification/GraphFacts.thy ===== *)
theory GraphFacts
  imports GraphOrder GraphSearchProps
begin

text \<open>
  What the maps of a protocol graph hold, in terms of its edges: the adjacency map, the reverse
  map, the degree count, and the nodes and edges the builders keep of a discovery result.
\<close>

section \<open>The adjacency map of a graph\<close>

definition graph_rel :: "ProtocolGraph \<Rightarrow> (string \<times> string) set" where
  "graph_rel graph = (\<lambda>e. (pe_source e, pe_target e)) ` set (pg_edges graph)"

text \<open>The adjacency map is the one of the nodes and edges, as \<open>build\<close> leaves it.\<close>

definition consistent_graph :: "ProtocolGraph \<Rightarrow> bool" where
  "consistent_graph graph \<longleftrightarrow> pg_adjacency_map graph = build_adjacency_map (pg_nodes graph) (pg_edges graph)"

lemma wf_set_add [simp]: "wf_dict d \<Longrightarrow> wf_dict (set_add k v d)"
  by (simp add: set_add_def distinct_update)

lemma wf_set_touch [simp]: "wf_dict d \<Longrightarrow> wf_dict (set_touch k d)"
  by (simp add: set_touch_def distinct_update split: option.split)

lemma keys_set_add: "fst ` set (set_add k v d) = insert k (fst ` set d)"
  using keys_upd [of k _ d] by (simp add: set_add_def)

lemma keys_set_touch: "fst ` set (set_touch k d) = insert k (fst ` set d)"
proof (cases "map_of d k")
  case None
  then show ?thesis using keys_upd [of k _ d] by (simp add: set_touch_def)
next
  case (Some v)
  then have "k \<in> fst ` set d" by (force dest: map_of_SomeD)
  with Some show ?thesis by (simp add: set_touch_def insert_absorb)
qed

lemma get_set_add:
  "set (dict_get (set_add k v d) a []) = set (dict_get d a []) \<union> (if a = k then {v} else {})"
  by (cases "map_of d k") (auto simp: set_add_def dict_get_def)

lemma get_set_touch: "dict_get (set_touch k d) a [] = dict_get d a []"
  by (simp add: set_touch_def dict_get_def split: option.split)

lemma adjacency_fold:
  fixes edges :: "ProtocolEdge list"
  defines "F \<equiv> \<lambda>d. fold (\<lambda>edge d. set_touch (pe_target edge) (set_add (pe_source edge) (pe_target edge) d)) edges d"
  shows "wf_dict d \<Longrightarrow> wf_dict (F d)"
    and "fst ` set (F d) = fst ` set d \<union> pe_source ` set edges \<union> pe_target ` set edges"
    and "set (dict_get (F d) a []) = set (dict_get d a []) \<union> pe_target ` {e \<in> set edges. pe_source e = a}"
  unfolding F_def
  by (induction edges arbitrary: d) (auto simp: keys_set_add keys_set_touch get_set_add get_set_touch)

lemma dict_get_sort_key:
  assumes "wf_dict d"
  shows "dict_get (sort_key fst d) k v = dict_get d k v"
proof -
  have "map_of (sort_key fst d) = map_of d" using assms by (subst map_of_inject_set) simp_all
  then show ?thesis by (simp add: dict_get_def)
qed

lemma dict_get_sorted_sets:
  "set (dict_get (map (\<lambda>(a, ts). (a, sorted_set ts)) d) k []) = set (dict_get d k [])"
  "distinct (dict_get (map (\<lambda>(a, ts). (a, sorted_set ts)) d) k [])"
  by (simp_all add: dict_get_def map_of_map_snd split: option.split)

lemma dict_of_Nil: "dict_get (dict_of f (\<lambda>_. [] :: 'v list) xs) a [] = []"
proof (cases "map_of (dict_of f (\<lambda>_. [] :: 'v list) xs) a")
  case None
  then show ?thesis by (simp only: dict_get_def option.case)
next
  case (Some ts)
  then have "ts = []" using map_of_dict_of_SomeD by fastforce
  with Some show ?thesis by (simp only: dict_get_def option.case)
qed

lemma adjacency_wf: "wf_dict (build_adjacency_map nodes edges)"
proof -
  have "wf_dict (fold (\<lambda>edge d. set_touch (pe_target edge) (set_add (pe_source edge) (pe_target edge) d))
      edges (dict_of pn_address (\<lambda>_. []) nodes))" by (rule adjacency_fold(1)) simp
  then show ?thesis by (simp add: build_adjacency_map_def o_def case_prod_unfold)
qed

lemma adjacency_keys:
  "fst ` set (build_adjacency_map nodes edges) =
     pn_address ` set nodes \<union> pe_source ` set edges \<union> pe_target ` set edges"
proof -
  have "fst ` set (dict_of pn_address (\<lambda>_. [] :: string list) nodes) = pn_address ` set nodes"
    using keys_dict_of [of pn_address "\<lambda>_. [] :: string list" nodes] by (simp only: set_map)
  moreover have "fst ` set (build_adjacency_map nodes edges) =
      fst ` set (fold (\<lambda>edge d. set_touch (pe_target edge) (set_add (pe_source edge) (pe_target edge) d))
        edges (dict_of pn_address (\<lambda>_. []) nodes))"
    by (simp add: build_adjacency_map_def Let_def image_image case_prod_unfold)
  ultimately show ?thesis by (simp only: adjacency_fold(2))
qed

lemma nbrs_adjacency:
  "set (nbrs nf (build_adjacency_map nodes edges) a) = pe_target ` {e \<in> set edges. pe_source e = nf a}"
  "distinct (nbrs nf (build_adjacency_map nodes edges) a)"
proof -
  have wf: "wf_dict (fold (\<lambda>edge d. set_touch (pe_target edge) (set_add (pe_source edge) (pe_target edge) d))
      edges (dict_of pn_address (\<lambda>_. []) nodes))" by (rule adjacency_fold(1)) simp
  show "set (nbrs nf (build_adjacency_map nodes edges) a) = pe_target ` {e \<in> set edges. pe_source e = nf a}"
    using adjacency_fold(3) [of edges "dict_of pn_address (\<lambda>_. []) nodes" "nf a"]
    by (simp add: nbrs_def build_adjacency_map_def Let_def dict_get_sorted_sets dict_get_sort_key [OF wf] dict_of_Nil)
  show "distinct (nbrs nf (build_adjacency_map nodes edges) a)"
    by (simp add: nbrs_def build_adjacency_map_def Let_def dict_get_sorted_sets)
qed

lemma nbrs_graph:
  assumes "consistent_graph graph"
  shows "b \<in> set (nbrs nf (pg_adjacency_map graph) a) \<longleftrightarrow> (nf a, b) \<in> graph_rel graph"
    "distinct (nbrs nf (pg_adjacency_map graph) a)"
  using assms by (auto simp: consistent_graph_def nbrs_adjacency graph_rel_def image_iff) metis

lemma adjacency_entries:
  assumes "consistent_graph graph"
  shows "wf_dict (pg_adjacency_map graph)"
    and "(\<exists>ts. (a, ts) \<in> set (pg_adjacency_map graph) \<and> b \<in> set ts) \<longleftrightarrow> (a, b) \<in> graph_rel graph"
proof -
  show wf: "wf_dict (pg_adjacency_map graph)" using assms by (simp add: consistent_graph_def adjacency_wf)
  have "(\<exists>ts. (a, ts) \<in> set (pg_adjacency_map graph) \<and> b \<in> set ts) \<longleftrightarrow> b \<in> set (nbrs (\<lambda>x. x) (pg_adjacency_map graph) a)"
  proof (cases "map_of (pg_adjacency_map graph) a")
    case None
    then have "(a, ts) \<notin> set (pg_adjacency_map graph)" for ts by (force simp: map_of_eq_None_iff)
    with None show ?thesis by (simp add: nbrs_def dict_get_def)
  next
    case (Some ts)
    then have "(a, ts') \<in> set (pg_adjacency_map graph) \<longleftrightarrow> ts' = ts" for ts'
      using map_of_eq_Some_iff [OF wf, of a ts'] by auto
    with Some show ?thesis by (simp add: nbrs_def dict_get_def del: map_of_eq_Some_iff)
  qed
  with nbrs_graph(1) [OF assms, of b "\<lambda>x. x" a]
  show "(\<exists>ts. (a, ts) \<in> set (pg_adjacency_map graph) \<and> b \<in> set ts) \<longleftrightarrow> (a, b) \<in> graph_rel graph" by simp
qed

section \<open>The reverse map\<close>

lemma get_fold_set_add:
  "set (dict_get (fold (\<lambda>t d. set_add t source d) ts d) b []) =
     set (dict_get d b []) \<union> (if b \<in> set ts then {source} else {})"
  by (induction ts arbitrary: d) (auto simp: get_set_add)

lemma get_fold_reverse:
  "set (dict_get (fold (\<lambda>(source, ts) d. fold (\<lambda>t d. set_add t source d) ts d) adj d) b []) =
     set (dict_get d b []) \<union> {a. \<exists>ts. (a, ts) \<in> set adj \<and> b \<in> set ts}"
proof (induction adj arbitrary: d)
  case (Cons p adj)
  obtain a ts where p: "p = (a, ts)" by (cases p)
  have "{a'. \<exists>ts'. (a', ts') \<in> set (p # adj) \<and> b \<in> set ts'} =
      (if b \<in> set ts then {a} else {}) \<union> {a'. \<exists>ts'. (a', ts') \<in> set adj \<and> b \<in> set ts'}"
    by (auto simp: p)
  then show ?case by (simp only: fold_simps p Cons case_prod_conv get_fold_set_add Un_assoc)
qed simp

lemma nbrs_reverse:
  assumes "consistent_graph graph"
  shows "set (nbrs (\<lambda>x. x) (reverse_adjacency graph) b) = {a. (a, b) \<in> graph_rel graph}"
    and "distinct (nbrs (\<lambda>x. x) (reverse_adjacency graph) b)"
  using get_fold_reverse [of "pg_adjacency_map graph" "dict_of pn_address (\<lambda>_. []) (pg_nodes graph)" b]
  by (simp_all add: nbrs_def reverse_adjacency_def Let_def dict_get_sorted_sets dict_of_Nil
      adjacency_entries(2) [OF assms])

lemma edge_rel_reverse:
  "consistent_graph graph \<Longrightarrow> edge_rel (\<lambda>x. x) (reverse_adjacency graph) = (graph_rel graph)\<inverse>"
  by (auto simp: edge_rel_def nbrs_reverse)

section \<open>Counting incoming edges\<close>

lemma count_inner:
  "distinct ts \<Longrightarrow>
   map_of (fold (\<lambda>t d. case map_of d t of None \<Rightarrow> d | Some n \<Rightarrow> AList.update t (n + 1) d) ts d) v =
     map_option (\<lambda>n. n + of_bool (v \<in> set ts)) (map_of d v) \<and>
   map fst (fold (\<lambda>t d. case map_of d t of None \<Rightarrow> d | Some n \<Rightarrow> AList.update t (n + (1::int)) d) ts d) = map fst d"
proof (induction ts arbitrary: d)
  case (Cons t ts)
  show ?case
  proof (cases "map_of d t")
    case None
    with Cons show ?thesis by (cases "v = t") auto
  next
    case (Some n)
    have "t \<in> fst ` set d" using Some by (force dest: map_of_SomeD)
    then have keys: "map fst (AList.update t (n + 1) d) = map fst d"
      by (induction d) auto
    show ?thesis
    proof (cases "v = t")
      case True
      with Cons Some keys show ?thesis by simp
    next
      case False
      with Cons Some keys show ?thesis by simp
    qed
  qed
qed (simp add: option.map_ident)

lemma count_outer:
  "\<forall>p \<in> set adj. distinct (snd p) \<Longrightarrow>
   map_of (fold (\<lambda>(source, ts) d. fold (\<lambda>t d. case map_of d t of
       None \<Rightarrow> d | Some n \<Rightarrow> AList.update t (n + 1) d) ts d) adj d) v =
     map_option (\<lambda>n. n + (\<Sum>p \<leftarrow> adj. of_bool (v \<in> set (snd p)))) (map_of d v) \<and>
   map fst (fold (\<lambda>(source, ts) d. fold (\<lambda>t d. case map_of d t of
       None \<Rightarrow> d | Some n \<Rightarrow> AList.update t (n + (1::int)) d) ts d) adj d) = map fst d"
proof (induction adj arbitrary: d)
  case (Cons p adj)
  obtain a ts where p: "p = (a, ts)" by (cases p)
  with Cons(2) have "distinct ts" by simp
  with Cons count_inner [of ts d v] p show ?case
    by (cases "map_of d v") (simp_all add: add.assoc del: map_of_eq_Some_iff)
qed (simp add: option.map_ident)

lemma sum_list_of_bool: "wf_dict d \<Longrightarrow> (\<Sum>p \<leftarrow> d. of_bool (P p)) = int (card (fst ` {p \<in> set d. P p}))"
proof (induction d)
  case (Cons p d)
  have "fst p \<notin> fst ` {q \<in> set d. P q}" using Cons(2) by auto
  moreover have "{q \<in> set (p # d). P q} = (if P p then insert p {q \<in> set d. P q} else {q \<in> set d. P q})" by auto
  ultimately show ?case using Cons by simp
qed simp

section \<open>Nodes and edges kept\<close>

lemma keep_best_shape:
  "fst ` set (keep_best key better xs) = key ` set xs \<and>
   (\<forall>(k, e) \<in> set (keep_best key better xs). key e = k \<and> e \<in> set xs)"
proof (induction xs rule: rev_induct)
  case Nil
  then show ?case by (simp add: keep_best_def)
next
  case (snoc y xs)
  let ?d = "keep_best key better xs"
  have step: "keep_best key better (xs @ [y]) = keep_step key better y ?d" by (simp add: keep_best_def)
  have upd: "fst ` set (AList.update (key y) y ?d) = insert (key y) (fst ` set ?d)"
    "set (AList.update (key y) y ?d) \<subseteq> insert (key y, y) (set ?d)"
    using keys_upd [of "key y" y ?d] set_update_subset by (simp_all only: set_map)
  show ?case
  proof (cases "map_of ?d (key y)")
    case None
    with snoc upd show ?thesis by (simp add: step keep_step_def) blast
  next
    case (Some e)
    then have "key y \<in> fst ` set ?d" by (force dest: map_of_SomeD)
    with Some snoc upd show ?thesis by (simp add: step keep_step_def insert_absorb) blast
  qed
qed

lemma keep_best_values:
  "key ` set (dict_values (keep_best key better xs)) = key ` set xs"
  "distinct (map key (dict_values (keep_best key better xs)))"
  "set (dict_values (keep_best key better xs)) \<subseteq> set xs"
proof -
  have entry: "key e = k \<and> e \<in> set xs" if "(k, e) \<in> set (keep_best key better xs)" for k e
    using that keep_best_shape [of key better xs] by auto
  then have "map key (dict_values (keep_best key better xs)) = dict_keys (keep_best key better xs)"
    by auto
  then show "distinct (map key (dict_values (keep_best key better xs)))"
    using wf_keep_best [of key better xs] by (simp only:)
  from entry have "key ` set (dict_values (keep_best key better xs)) = fst ` set (keep_best key better xs)"
    by (auto simp: image_image intro!: image_cong)
  with keep_best_shape [of key better xs] show "key ` set (dict_values (keep_best key better xs)) = key ` set xs"
    by simp
  from entry show "set (dict_values (keep_best key better xs)) \<subseteq> set xs" by auto
qed

lemma keep_best_optimal:
  fixes score :: "'a \<Rightarrow> int"
  assumes "\<And>x e. score e < score x \<Longrightarrow> better x e" "\<And>x e. better x e \<Longrightarrow> score e \<le> score x"
    and "e \<in> set (dict_values (keep_best key better xs))" "x \<in> set xs" "key x = key e"
  shows "score x \<le> score e"
proof -
  from assms(3) obtain k where k: "(k, e) \<in> set (keep_best key better xs)" by auto
  with keep_best_shape [of key better xs] have "key e = k" by auto
  with keep_best_exact [where score = score and better = better and key = key and xs = xs and k = k, OF assms(1,2)]
    keep_best_entries [OF k] assms(4,5)
  show ?thesis by simp
qed

lemma mark_root_addresses [simp]: "map pn_address (mark_root_node nodes root_address) = map pn_address nodes"
  by (simp add: mark_root_node_def)

lemma build_nodes_addresses:
  "pn_address ` set (build_nodes discovery) = known_addresses discovery"
  "distinct (map pn_address (build_nodes discovery))"
  using keep_best_values(1,2) [of pn_address "\<lambda>node existing. node_score node \<ge> node_score existing"
      "map (\<lambda>contract. classify_contract contract (pd_protocol_name discovery) (pd_protocol_family discovery))
        (pd_contracts discovery)"]
  by (simp_all add: build_nodes_def dedupe_nodes_def known_addresses_def image_image classify_contract_def)

lemma build_edges_values:
  "edge_key ` set (build_edges discovery) = edge_key ` set (raw_edges discovery)"
  "distinct (map edge_key (build_edges discovery))"
  "set (build_edges discovery) \<subseteq> set (raw_edges discovery)"
  using keep_best_values [of edge_key "\<lambda>edge existing. pe_confidence edge > pe_confidence existing" "raw_edges discovery"]
  by (simp_all add: build_edges_def dedupe_edges_def)

lemma in_map_filter: "y \<in> set (List.map_filter f xs) \<longleftrightarrow> (\<exists>x \<in> set xs. f x = Some y)"
  by (force simp: List.map_filter_def)

lemma raw_edges_ends:
  assumes "e \<in> set (raw_edges discovery)"
  shows "pe_source e \<in> known_addresses discovery"
    and "pe_target e \<in> insert (lower (pd_root_address discovery)) (known_addresses discovery)"
proof -
  have contract: "pc_address c \<in> known_addresses discovery" if "c \<in> set (pd_contracts discovery)" for c
    using that by (simp add: known_addresses_def)
  have admin: "a \<in> known_addresses discovery"
    if "map_of (dict_of pc_address (\<lambda>c. c) (pd_contracts discovery)) a = Some c" for a c
    using map_of_dict_of_SomeD [OF that] by (auto simp: known_addresses_def)
  from assms consider
      "pe_source e \<in> known_addresses discovery" "pe_target e \<in> known_addresses discovery"
    | "e \<in> set (infer_admin_to_proxy discovery)" | "e \<in> set (infer_oracle_to_protocol discovery)"
    | "e \<in> set (infer_depends_on discovery (known_addresses discovery))"
    by (auto simp: raw_edges_def)
  then have "pe_source e \<in> known_addresses discovery \<and>
      pe_target e \<in> insert (lower (pd_root_address discovery)) (known_addresses discovery)"
  proof cases
    case 2
    then obtain c where c: "c \<in> set (pd_contracts discovery)"
      "(if pc_role c \<notin> {PROXY, ROOT} then None
        else case py_get (pc_metadata c) ''admin_address'' of
            PyStr admin \<Rightarrow>
              (case map_of (dict_of pc_address (\<lambda>c. c) (pd_contracts discovery)) (lower admin) of
                 None \<Rightarrow> None
               | Some admin_contract \<Rightarrow> Some
                   \<lparr> pe_source = lower admin, pe_target = pc_address c, pe_type = E_ADMIN_TO_PROXY,
                     pe_confidence = min (pc_confidence c) (pc_confidence admin_contract) \<rparr>)
          | _ \<Rightarrow> None) = Some e"
      unfolding infer_admin_to_proxy_def Let_def in_map_filter by blast
    then show ?thesis
      by (cases "py_get (pc_metadata c) ''admin_address''")
        (auto simp: contract admin simp del: map_of_eq_Some_iff split: if_split_asm option.split_asm)
  next
    case 3
    then show ?thesis
      by (auto simp: infer_oracle_to_protocol_def in_map_filter contract split: if_split_asm)
  next
    case 4
    then obtain c where c: "c \<in> set (pd_contracts discovery)" "pc_address c \<noteq> lower (pd_root_address discovery)"
      "(case py_get (pc_metadata c) ''depends_on'' of
          PyStr dependency \<Rightarrow>
            if lower dependency \<in> known_addresses discovery \<and> (pc_address c, lower dependency) \<notin>
                (\<lambda>r. (rel_source_address r, rel_target_address r)) ` set (pd_relationships discovery)
            then Some \<lparr> pe_source = pc_address c, pe_target = lower dependency,
                        pe_type = E_DEPENDS_ON, pe_confidence = pc_confidence c \<rparr>
            else None
        | _ \<Rightarrow> None) = Some e"
      unfolding infer_depends_on_def Let_def in_map_filter by (auto split: if_split_asm)
    then show ?thesis
      by (cases "py_get (pc_metadata c) ''depends_on''") (auto simp: contract split: if_split_asm)
  qed simp
  then show "pe_source e \<in> known_addresses discovery"
    "pe_target e \<in> insert (lower (pd_root_address discovery)) (known_addresses discovery)" by simp_all
qed

section \<open>Validity\<close>

definition valid_graph :: "ProtocolGraph \<Rightarrow> bool" where
  "valid_graph graph \<longleftrightarrow> pg_root_node graph \<in> set (node_addresses graph) \<and> distinct (node_addresses graph) \<and>
     (\<forall>e \<in> set (pg_edges graph). pe_source e \<in> set (node_addresses graph) \<and>
        pe_target e \<in> set (node_addresses graph) \<and> pe_source e \<noteq> pe_target e)"

lemma distinct_card_iff: "card (set xs) = length xs \<longleftrightarrow> distinct xs"
  using card_distinct distinct_card by blast

lemma validate_valid: "gr_is_valid (validate graph) \<longleftrightarrow> valid_graph graph"
proof -
  have count: "\<not> list_ex (\<lambda>issue. gi_code issue \<in> blocking_codes) (count_issue xs code msg)"
    if "code \<notin> blocking_codes" for xs :: "'a list" and code msg
    using that by (simp add: count_issue_def)
  have codes: "''disconnected_nodes'' \<notin> blocking_codes" "''cycles_detected'' \<notin> blocking_codes"
    "''orphan_nodes'' \<notin> blocking_codes" "''missing_root'' \<in> blocking_codes"
    "''duplicate_nodes'' \<in> blocking_codes" "''invalid_edge'' \<in> blocking_codes" "''self_loop'' \<in> blocking_codes"
    by (simp_all add: blocking_codes_def)
  have edge: "list_ex (\<lambda>issue. gi_code issue \<in> blocking_codes) (edge_issues addresses e) \<longleftrightarrow>
      \<not> (pe_source e \<in> addresses \<and> pe_target e \<in> addresses \<and> pe_source e \<noteq> pe_target e)" for addresses e
    by (simp add: edge_issues_def codes)
  have edges: "list_ex (\<lambda>issue. gi_code issue \<in> blocking_codes) (concat (map (edge_issues addresses) es)) \<longleftrightarrow>
      (\<exists>e \<in> set es. \<not> (pe_source e \<in> addresses \<and> pe_target e \<in> addresses \<and> pe_source e \<noteq> pe_target e))"
    for addresses es
    by (induction es) (simp_all add: edge)
  have "card (set (node_addresses graph)) \<noteq> length (pg_nodes graph) \<longleftrightarrow> \<not> distinct (node_addresses graph)"
    using distinct_card_iff [of "node_addresses graph"] by simp
  then show ?thesis
    unfolding validate_def Let_def valid_graph_def
    by (simp add: edges count codes conj_ac del: set_map)
qed

end
