(* ===== verification/GraphProps.thy ===== *)
theory GraphProps
  imports GraphFacts
begin

text \<open>
  What the protocol graph promises. A graph is \<open>well_formed\<close> when its adjacency map is the one of
  its edges, it passes validation and its addresses are lower case (as discovery delivers them);
  then searches, paths, cycles and topological orders are those of the edge relation.
\<close>

section \<open>Well-formed graphs\<close>

definition well_formed :: "ProtocolGraph \<Rightarrow> bool" where
  "well_formed graph \<longleftrightarrow> consistent_graph graph \<and> valid_graph graph \<and>
     (\<forall>a \<in> set (node_addresses graph). lower a = a)"

lemma wf_edge:
  assumes "well_formed graph" "(a, b) \<in> graph_rel graph"
  shows "a \<in> set (node_addresses graph)" "b \<in> set (node_addresses graph)" "lower a = a" "lower b = b" "a \<noteq> b"
  using assms by (auto simp: well_formed_def valid_graph_def graph_rel_def)

lemma wf_edge_rel:
  assumes "well_formed graph" "lower a = a"
  shows "(a, b) \<in> edge_rel lower (pg_adjacency_map graph) \<longleftrightarrow> (a, b) \<in> graph_rel graph"
  using assms nbrs_graph(1) [of graph b lower a] by (simp add: well_formed_def)

lemma wf_reach:
  assumes "well_formed graph" "lower a = a"
  shows "(a, b) \<in> (edge_rel lower (pg_adjacency_map graph))\<^sup>* \<longleftrightarrow> (a, b) \<in> (graph_rel graph)\<^sup>*"
proof
  assume "(a, b) \<in> (edge_rel lower (pg_adjacency_map graph))\<^sup>*"
  then have "(a, b) \<in> (graph_rel graph)\<^sup>* \<and> lower b = b"
  proof (induction rule: rtrancl_induct)
    case (step x y)
    then have "(x, y) \<in> graph_rel graph" using wf_edge_rel [OF assms(1), of x y] by blast
    with step wf_edge(4) [OF assms(1) this] show ?case by (meson rtrancl.rtrancl_into_rtrancl)
  qed (simp add: assms(2))
  then show "(a, b) \<in> (graph_rel graph)\<^sup>*" ..
next
  assume "(a, b) \<in> (graph_rel graph)\<^sup>*"
  then show "(a, b) \<in> (edge_rel lower (pg_adjacency_map graph))\<^sup>*"
  proof (induction rule: rtrancl_induct)
    case (step x y)
    then have "(x, y) \<in> edge_rel lower (pg_adjacency_map graph)"
      using wf_edge_rel [OF assms(1), of x y] wf_edge(3) [OF assms(1), of x y] by blast
    with step show ?case by (meson rtrancl.rtrancl_into_rtrancl)
  qed simp
qed

lemma wf_reach_plus:
  assumes "well_formed graph" "lower a = a"
  shows "(a, b) \<in> (edge_rel lower (pg_adjacency_map graph))\<^sup>+ \<longleftrightarrow> (a, b) \<in> (graph_rel graph)\<^sup>+"
proof -
  have "(a, b) \<in> (edge_rel lower (pg_adjacency_map graph))\<^sup>+ \<longleftrightarrow>
      (\<exists>c. (a, c) \<in> graph_rel graph \<and> (c, b) \<in> (graph_rel graph)\<^sup>*)"
    using wf_edge_rel [OF assms] wf_edge(4) [OF assms(1)] wf_reach [OF assms(1)]
    by (simp only: trancl_unfold_left relcomp_unfold) blast
  then show ?thesis by (simp only: trancl_unfold_left [of "graph_rel graph"] relcomp_unfold) blast
qed

lemma assemble_consistent [simp]: "consistent_graph (assemble_graph discovery)"
  by (simp add: consistent_graph_def assemble_graph_def Let_def)

lemma assemble_addresses:
  "set (node_addresses (assemble_graph discovery)) = known_addresses discovery"
  "distinct (node_addresses (assemble_graph discovery))"
  "pg_root_node (assemble_graph discovery) = lower (pd_root_address discovery)"
  "pg_edges (assemble_graph discovery) = build_edges discovery"
  using build_nodes_addresses [of discovery] by (simp_all add: assemble_graph_def Let_def)

lemma assemble_valid:
  "valid_graph (assemble_graph discovery) \<longleftrightarrow>
     lower (pd_root_address discovery) \<in> known_addresses discovery \<and>
     (\<forall>e \<in> set (raw_edges discovery). pe_source e \<noteq> pe_target e)"
proof -
  have keys: "(\<forall>e \<in> set (build_edges discovery). P (pe_source e) (pe_target e)) \<longleftrightarrow>
      (\<forall>e \<in> set (raw_edges discovery). P (pe_source e) (pe_target e))" for P
  proof -
    have "(\<forall>e \<in> set es. P (pe_source e) (pe_target e)) \<longleftrightarrow>
        (\<forall>k \<in> edge_key ` set es. P (fst k) (fst (snd k)))" for es by simp
    then show ?thesis by (simp only: build_edges_values(1))
  qed
  have "valid_graph (assemble_graph discovery) \<longleftrightarrow>
      lower (pd_root_address discovery) \<in> known_addresses discovery \<and>
      (\<forall>e \<in> set (raw_edges discovery). pe_source e \<in> known_addresses discovery \<and>
         pe_target e \<in> known_addresses discovery \<and> pe_source e \<noteq> pe_target e)"
    using keys [of "\<lambda>a b. a \<in> known_addresses discovery \<and> b \<in> known_addresses discovery \<and> a \<noteq> b"]
    by (simp only: valid_graph_def assemble_addresses simp_thms)
  then show ?thesis using raw_edges_ends [of _ discovery] by (metis insert_absorb)
qed

text \<open>A discovery with three contracts, for the witnesses.\<close>

definition sample_contract :: "string \<Rightarrow> protocol_role \<Rightarrow> metadata \<Rightarrow> ProtocolContract" where
  "sample_contract a role md =
     \<lparr> pc_address = a, pc_role = role, pc_confidence = 90, pc_detection_source = ''static'', pc_metadata = md \<rparr>"

definition sample_discovery :: ProtocolDiscoveryResult where
  "sample_discovery =
     \<lparr> pd_root_address = ''0xA'', pd_chain_id = 1, pd_protocol_name = ''vault'', pd_protocol_family = ''dex'',
       pd_contracts = [sample_contract ''0xa'' ROOT [(''admin_address'', PyStr ''0xC'')],
         sample_contract ''0xb'' IMPLEMENTATION [], sample_contract ''0xc'' TOKEN []],
       pd_relationships = [\<lparr> rel_source_address = ''0xa'', rel_target_address = ''0xb'',
         rel_type = PROXY_TO_IMPLEMENTATION, rel_confidence = 80, rel_detection_source = ''static'' \<rparr>],
       pd_confidence = 90, pd_detection_sources = [''static''] \<rparr>"

lemma sample_well_formed: "well_formed (assemble_graph sample_discovery)"
proof -
  have "lower (pd_root_address sample_discovery) \<in> known_addresses sample_discovery" by code_simp
  moreover have "\<forall>e \<in> set (raw_edges sample_discovery). pe_source e \<noteq> pe_target e" by code_simp
  moreover have "\<forall>a \<in> known_addresses sample_discovery. lower a = a" by code_simp
  ultimately show ?thesis by (simp only: well_formed_def assemble_consistent assemble_valid assemble_addresses)
qed

section \<open>Building\<close>

text \<open>
  Property C37. Building a graph raises, always a \<open>ValueError\<close>, exactly when the root is not among
  the discovered contracts or some relationship or inferred link leads from a contract to itself;
  otherwise it returns the assembled graph, and \<open>build_with_validation\<close> agrees.
\<close>

theorem graph_build_exact:
  "(let ok = lower (pd_root_address d) \<in> known_addresses d \<and> (\<forall>e \<in> set (raw_edges d). pe_source e \<noteq> pe_target e)
    in (case build d of Inl err \<Rightarrow> \<not> ok \<and> (\<exists>msg. err = ValueError msg) | Inr graph \<Rightarrow> ok \<and> graph = assemble_graph d) \<and>
       (case build_with_validation d allow of
          Inl err \<Rightarrow> \<not> ok \<and> \<not> allow \<and> build d = Inl err
        | Inr (graph, report) \<Rightarrow> (ok \<or> allow) \<and> graph = assemble_graph d \<and> report = validate graph))"
  unfolding Let_def assemble_valid [symmetric] validate_valid [symmetric]
  by (simp add: build_def build_with_validation_def invalid_graph_def Let_def)

theorem graph_build_exact_witness:
  "build sample_discovery = Inr (assemble_graph sample_discovery)"
proof -
  have "lower (pd_root_address sample_discovery) \<in> known_addresses sample_discovery"
    "\<forall>e \<in> set (raw_edges sample_discovery). pe_source e \<noteq> pe_target e" by code_simp+
  with graph_build_exact [of sample_discovery False] show ?thesis
    unfolding Let_def by (cases "build sample_discovery") simp_all
qed

lemma build_Inr: "build d = Inr graph \<longleftrightarrow> graph = assemble_graph d \<and> valid_graph (assemble_graph d)"
  by (auto simp: build_def Let_def validate_valid)

lemma adjacency_shape:
  "sorted (dict_keys (build_adjacency_map nodes edges))"
  "(a, ts) \<in> set (build_adjacency_map nodes edges) \<Longrightarrow> sorted ts \<and> distinct ts"
  by (simp add: build_adjacency_map_def Let_def o_def case_prod_unfold)
    (auto simp: build_adjacency_map_def Let_def)

text \<open>
  Property C38. A graph that \<open>build\<close> returns is well typed: its nodes are the discovered contracts,
  each address once, with the root among them; its edges link two different nodes; its adjacency
  map has exactly the node addresses as sorted keys and maps each to the sorted set of the targets
  of its edges.
\<close>

theorem built_graph_typed:
  assumes "build d = Inr graph"
  shows "valid_graph graph \<and> set (node_addresses graph) = known_addresses d \<and>
    dict_keys (pg_adjacency_map graph) = sorted_set (node_addresses graph) \<and>
    (\<forall>(a, ts) \<in> set (pg_adjacency_map graph). sorted ts \<and> distinct ts \<and> set ts = {b. (a, b) \<in> graph_rel graph})"
proof -
  from assms have g: "graph = assemble_graph d" "valid_graph graph" by (auto simp: build_Inr)
  have cons: "consistent_graph graph" using g(1) by simp
  then have adj: "pg_adjacency_map graph = build_adjacency_map (pg_nodes graph) (pg_edges graph)"
    by (simp add: consistent_graph_def)
  have "set (dict_keys (pg_adjacency_map graph)) = set (node_addresses graph)"
    using g(2) adjacency_keys [of "pg_nodes graph" "pg_edges graph"] by (auto simp: adj valid_graph_def)
  then have "dict_keys (pg_adjacency_map graph) = sorted_set (node_addresses graph)"
    using adjacency_wf adjacency_shape(1) by (intro sorted_distinct_set_unique) (simp_all add: adj)
  moreover have "sorted ts \<and> distinct ts \<and> set ts = {b. (a, b) \<in> graph_rel graph}"
    if "(a, ts) \<in> set (pg_adjacency_map graph)" for a ts
  proof -
    have "map_of (pg_adjacency_map graph) a = Some ts" using adjacency_entries(1) [OF cons] that by simp
    then have "nbrs (\<lambda>x. x) (pg_adjacency_map graph) a = ts" by (simp add: nbrs_def dict_get_def)
    then have "set ts = {b. (a, b) \<in> graph_rel graph}" using nbrs_graph(1) [OF cons, of _ "\<lambda>x. x" a] by auto
    with adjacency_shape(2) that show ?thesis by (simp add: adj)
  qed
  ultimately show ?thesis using g assemble_addresses(1) by auto
qed

theorem built_graph_typed_witness:
  "dict_keys (pg_adjacency_map (assemble_graph sample_discovery)) = [''0xa'', ''0xb'', ''0xc'']"
proof -
  have "build sample_discovery = Inr (assemble_graph sample_discovery)"
    using sample_well_formed by (simp add: build_Inr well_formed_def)
  from built_graph_typed [OF this] have "dict_keys (pg_adjacency_map (assemble_graph sample_discovery)) =
      sorted_set (node_addresses (assemble_graph sample_discovery))" by blast
  also have "\<dots> = [''0xa'', ''0xb'', ''0xc'']" by code_simp
  finally show ?thesis .
qed

text \<open>
  Property C23. Edge deduplication loses no link and keeps the strongest evidence: there is exactly
  one edge for each (source, target, type) among the relationship and inferred edges, it is one of
  them and none of the same key has a higher confidence; the edges are sorted by type, source and
  target.
\<close>

theorem edges_keep_best:
  "edge_key ` set (build_edges d) = edge_key ` set (raw_edges d) \<and> distinct (map edge_key (build_edges d)) \<and>
   sorted (map (\<lambda>e. (edge_type_value (pe_type e), pe_source e, pe_target e)) (build_edges d)) \<and>
   (\<forall>e \<in> set (build_edges d). e \<in> set (raw_edges d) \<and>
     (\<forall>r \<in> set (raw_edges d). edge_key r = edge_key e \<longrightarrow> pe_confidence r \<le> pe_confidence e))"
proof -
  have "pe_confidence r \<le> pe_confidence e"
    if "e \<in> set (build_edges d)" "r \<in> set (raw_edges d)" "edge_key r = edge_key e" for e r
  proof (rule keep_best_optimal [where key = edge_key and xs = "raw_edges d" and
        better = "\<lambda>edge existing. pe_confidence edge > pe_confidence existing"])
    show "e \<in> set (dict_values (keep_best edge_key
        (\<lambda>edge existing. pe_confidence edge > pe_confidence existing) (raw_edges d)))"
      using that(1) by (simp add: build_edges_def dedupe_edges_def)
  qed (use that in simp_all)
  moreover have "sorted (map (\<lambda>e. (edge_type_value (pe_type e), pe_source e, pe_target e)) (build_edges d))"
    by (simp add: build_edges_def dedupe_edges_def)
  ultimately show ?thesis using build_edges_values by (intro conjI ballI impI) blast+
qed

theorem edges_keep_best_witness:
  "(''0xc'', ''0xa'') \<in> (\<lambda>e. (pe_source e, pe_target e)) ` set (build_edges sample_discovery)"
proof -
  have "(''0xc'', ''0xa'', ''ADMIN_TO_PROXY'') \<in> edge_key ` set (raw_edges sample_discovery)" by code_simp
  with edges_keep_best [of sample_discovery]
  have "(''0xc'', ''0xa'', ''ADMIN_TO_PROXY'') \<in> edge_key ` set (build_edges sample_discovery)" by blast
  then show ?thesis by force
qed

section \<open>Searching\<close>

text \<open>
  Property C19. On a well-formed graph both searches visit, each node once, exactly what the origin
  reaches along edges and nothing when the origin is no node; the nodes disconnected from the root
  are those it does not reach; descendants are the nodes reached by at least one edge and ancestors
  those that reach the node so, both sorted.
\<close>

theorem searches_exact:
  assumes "well_formed graph"
  shows "(let orig = search_origin graph start;
              reached = (if orig \<in> set (node_addresses graph) then (graph_rel graph)\<^sup>* `` {orig} else {})
          in set (bfs graph start) = reached \<and> set (dfs graph start) = reached \<and>
             distinct (bfs graph start) \<and> distinct (dfs graph start)) \<and>
    set (disconnected_from_root graph) = set (node_addresses graph) - (graph_rel graph)\<^sup>* `` {pg_root_node graph} \<and>
    set (descendants graph a) = (graph_rel graph)\<^sup>+ `` {lower a} \<and> sorted (descendants graph a) \<and>
    set (ancestors graph a) = {x. (x, lower a) \<in> (graph_rel graph)\<^sup>+} \<and> sorted (ancestors graph a)"
proof -
  let ?E = "edge_rel lower (pg_adjacency_map graph)"
  have origin: "lower (search_origin graph s) = search_origin graph s" for s
    by (simp add: search_origin_def)
  have reach: "?E\<^sup>* `` {search_origin graph s} = (graph_rel graph)\<^sup>* `` {search_origin graph s}" for s
    using wf_reach [OF assms origin] by auto
  have root: "search_origin graph (Some (pg_root_node graph)) = pg_root_node graph"
    using assms by (auto simp: search_origin_def well_formed_def valid_graph_def)
  moreover have "pg_root_node graph \<in> set (node_addresses graph)"
    using assms by (simp add: well_formed_def valid_graph_def)
  ultimately have disc: "set (disconnected_from_root graph) =
      set (node_addresses graph) - (graph_rel graph)\<^sup>* `` {pg_root_node graph}"
    using reach [of "Some (pg_root_node graph)"]
    by (simp only: disconnected_from_root_def bfs_def Let_def bfs_reaches if_False not_True_eq_False
        set_filter not_not simp_thms if_True) blast
  have desc: "set (descendants graph a) = (graph_rel graph)\<^sup>+ `` {lower a}"
    using wf_reach_plus [OF assms, of "lower a"]
    by (auto simp only: descendants_def neighbors_def collect_reaches set_sort lower_idem Image_singleton_iff)
  have "consistent_graph graph" using assms by (simp add: well_formed_def)
  then have anc: "set (ancestors graph a) = {x. (x, lower a) \<in> (graph_rel graph)\<^sup>+}"
    by (auto simp: ancestors_def collect_reaches edge_rel_reverse trancl_converse)
  show ?thesis
    using disc desc anc reach [of start]
    by (simp add: Let_def bfs_def dfs_def bfs_reaches walk_reaches descendants_def ancestors_def
        del: bfs_loop.simps walk.simps)
qed

theorem searches_exact_witness:
  "set (bfs (assemble_graph sample_discovery) (Some ''0xA'')) = {''0xa'', ''0xb''} \<and>
   (''0xc'', ''0xb'') \<in> (graph_rel (assemble_graph sample_discovery))\<^sup>+"
proof
  show "set (bfs (assemble_graph sample_discovery) (Some ''0xA'')) = {''0xa'', ''0xb''}" by code_simp
  have "''0xb'' \<in> set (descendants (assemble_graph sample_discovery) ''0xC'')" by code_simp
  moreover have "lower ''0xC'' = ''0xc''" by code_simp
  ultimately show "(''0xc'', ''0xb'') \<in> (graph_rel (assemble_graph sample_discovery))\<^sup>+"
    using searches_exact [OF sample_well_formed, of None "''0xC''"] by simp
qed

definition edge_path :: "ProtocolGraph \<Rightarrow> string \<Rightarrow> string \<Rightarrow> string list \<Rightarrow> bool" where
  "edge_path graph s t p \<longleftrightarrow> p \<noteq> [] \<and> hd p = s \<and> last p = t \<and> successively (\<lambda>a b. (a, b) \<in> graph_rel graph) p"

lemma edge_path_iff:
  assumes "well_formed graph" "lower s = s"
  shows "edge_path graph s t p \<longleftrightarrow> is_path lower (pg_adjacency_map graph) p \<and> hd p = s \<and> last p = t"
proof -
  have "p \<noteq> [] \<Longrightarrow> lower (hd p) = hd p \<Longrightarrow>
      successively (\<lambda>a b. b \<in> set (nbrs lower (pg_adjacency_map graph) a)) p \<longleftrightarrow>
      successively (\<lambda>a b. (a, b) \<in> graph_rel graph) p"
  proof (induction p)
    case (Cons a p)
    show ?case
    proof (cases p)
      case (Cons b q)
      with Cons.prems wf_edge_rel [OF assms(1), of a b] wf_edge(4) [OF assms(1), of a b] Cons.IH
      show ?thesis by auto
    qed simp
  qed simp
  with assms(2) show ?thesis by (auto simp: edge_path_def is_path_def)
qed

text \<open>
  \<open>shortest_path\<close> is correct on well-formed graphs: it returns a path along edges from
  the source to the target that no other such path undercuts, and \<open>None\<close> exactly when the target
  cannot be reached.
\<close>

theorem shortest_path_exact:
  assumes "well_formed graph"
  shows "case shortest_path graph s t of
      None \<Rightarrow> (lower s, lower t) \<notin> (graph_rel graph)\<^sup>*
    | Some p \<Rightarrow> edge_path graph (lower s) (lower t) p \<and>
        (\<forall>q. edge_path graph (lower s) (lower t) q \<longrightarrow> length p \<le> length q)"
proof (cases "lower s = lower t")
  case True
  have "edge_path graph (lower t) (lower t) q \<Longrightarrow> Suc 0 \<le> length q" for q
    by (cases q) (auto simp: edge_path_def)
  with True show ?thesis by (simp add: shortest_path_def edge_path_def [of _ _ _ "[lower t]"])
next
  case False
  from False path_loop_exact [OF path_inv_init, of "lower t" "lower s" lower "pg_adjacency_map graph"]
  show ?thesis
    by (simp add: shortest_path_def edge_path_iff [OF assms] wf_reach [OF assms] del: path_loop.simps
        split: option.splits)
qed

theorem shortest_path_exact_witness:
  "edge_path (assemble_graph sample_discovery) ''0xc'' ''0xb'' [''0xc'', ''0xa'', ''0xb'']"
proof -
  have "shortest_path (assemble_graph sample_discovery) ''0xc'' ''0xb'' = Some [''0xc'', ''0xa'', ''0xb'']"
    by code_simp
  moreover have "lower ''0xc'' = ''0xc''" "lower ''0xb'' = ''0xb''" by code_simp+
  ultimately show ?thesis
    using shortest_path_exact [OF sample_well_formed, of "''0xc''" "''0xb''"] by simp
qed

section \<open>Orders and cycles\<close>

abbreviation graph_nodes :: "ProtocolGraph \<Rightarrow> string set" where
  "graph_nodes graph \<equiv> set (node_addresses graph)"

abbreviation graph_succ :: "ProtocolGraph \<Rightarrow> string \<Rightarrow> string list" where
  "graph_succ graph \<equiv> nbrs lower (pg_adjacency_map graph)"

lemma wf_lower: "well_formed graph \<Longrightarrow> a \<in> graph_nodes graph \<Longrightarrow> lower a = a"
  by (auto simp: well_formed_def)

lemma wf_succ:
  assumes "well_formed graph"
  shows "succ_rel (graph_nodes graph) (graph_succ graph) = graph_rel graph"
    and "\<forall>u \<in> graph_nodes graph. set (graph_succ graph u) \<subseteq> graph_nodes graph"
    and "\<forall>u. distinct (graph_succ graph u)"
proof -
  have succ: "v \<in> set (graph_succ graph u) \<longleftrightarrow> (u, v) \<in> graph_rel graph" if "u \<in> graph_nodes graph" for u v
    using wf_edge_rel [OF assms wf_lower [OF assms that], of v] by simp
  show "succ_rel (graph_nodes graph) (graph_succ graph) = graph_rel graph"
    using succ wf_edge(1) [OF assms] by (auto simp: succ_rel_def)
  show "\<forall>u \<in> graph_nodes graph. set (graph_succ graph u) \<subseteq> graph_nodes graph"
    using succ wf_edge(2) [OF assms] by blast
  show "\<forall>u. distinct (graph_succ graph u)"
    using assms nbrs_graph(2) [of graph] by (simp add: well_formed_def)
qed

lemma count_indegree_exact:
  assumes "well_formed graph"
  shows "map_of (count_indegree graph) = degrees (graph_nodes graph) (graph_succ graph) {}"
    and "dict_keys (count_indegree graph) = node_addresses graph"
proof -
  let ?d = "dict_of pn_address (\<lambda>_. 0 :: int) (pg_nodes graph)"
  have cons: "consistent_graph graph" and dist: "distinct (node_addresses graph)"
    using assms by (simp_all add: well_formed_def valid_graph_def)
  have "\<forall>p \<in> set (pg_adjacency_map graph). distinct (snd p)"
    using cons adjacency_shape(2) [of _ _ "pg_nodes graph" "pg_edges graph"] by (auto simp: consistent_graph_def)
  note count = count_outer [OF this, of ?d]
  show "dict_keys (count_indegree graph) = node_addresses graph"
    using count dist by (simp add: count_indegree_def dict_of_distinct o_def)
  show "map_of (count_indegree graph) = degrees (graph_nodes graph) (graph_succ graph) {}"
  proof
    fix v
    have "fst ` {p \<in> set (pg_adjacency_map graph). v \<in> set (snd p)} = {u. (u, v) \<in> graph_rel graph}"
      using adjacency_entries(2) [OF cons, of _ v] by force
    also have "\<dots> = unmet (graph_nodes graph) (graph_succ graph) {} v"
      using wf_succ(1) [OF assms] by (auto simp: unmet_def succ_rel_def)
    finally have "(\<Sum>p \<leftarrow> pg_adjacency_map graph. of_bool (v \<in> set (snd p))) =
        int (card (unmet (graph_nodes graph) (graph_succ graph) {} v))"
      using sum_list_of_bool [OF adjacency_entries(1) [OF cons]] by simp
    moreover have "map_of ?d v = (if v \<in> graph_nodes graph then Some 0 else None)"
      using map_of_dict_of_inj [OF dist] map_of_dict_of_None [of pn_address "\<lambda>_. 0 :: int" "pg_nodes graph" v]
      by (auto simp del: map_of_eq_Some_iff map_of_eq_None_iff)
    ultimately show "map_of (count_indegree graph) v = degrees (graph_nodes graph) (graph_succ graph) {} v"
      using count by (simp add: count_indegree_def degrees_def)
  qed
qed

lemma topological_sort_cases:
  assumes "well_formed graph"
  shows "if acyclic (graph_rel graph)
    then distinct (topological_sort graph) \<and> set (topological_sort graph) = graph_nodes graph \<and>
      deps_first (graph_nodes graph) (graph_succ graph) (topological_sort graph)
    else topological_sort graph = []"
proof -
  let ?N = "graph_nodes graph" and ?S = "graph_succ graph" and ?ind = "count_indegree graph"
  let ?start = "sort (map fst (filter (\<lambda>(a, d). d = 0) ?ind))"
  let ?out = "kahn_loop (pg_adjacency_map graph) ?ind ?start []"
  note count = count_indegree_exact [OF assms]
  have dist: "distinct (node_addresses graph)" using assms by (simp add: well_formed_def valid_graph_def)
  have wf: "wf_dict ?ind" using dist by (simp add: count(2))
  have "v \<in> set ?start \<longleftrightarrow> map_of ?ind v = Some 0" for v
    using wf by force
  then have "v \<in> set ?start \<longleftrightarrow> v \<in> ?N \<and> unmet ?N ?S {} v = {}" for v
    by (simp only: count(1) degrees_zero [OF finite_set])
  moreover have "distinct ?start" using wf by (simp add: distinct_map_filter)
  ultimately have "kahn_inv ?N ?S ?ind ?start []"
    using count(1) by (auto simp: kahn_inv_def simp del: set_sort)
  from kahn_loop_inv [OF finite_set wf_succ(2,3) [OF assms] this] obtain ind'
    where "kahn_inv ?N ?S ind' [] ?out" by blast
  then have out: "distinct ?out" "set ?out \<subseteq> ?N" "deps_first ?N ?S ?out"
    "\<forall>v \<in> ?N. unmet ?N ?S (set ?out) v = {} \<longrightarrow> v \<in> set ?out" by (auto simp: kahn_inv_def)
  have len: "length ?ind = card ?N"
    using count(2) dist by (metis distinct_card length_map)
  have sort: "topological_sort graph = (if length ?out \<noteq> length ?ind then [] else ?out)"
    by (simp add: topological_sort_def Let_def)
  have eq: "length ?out = length ?ind \<longleftrightarrow> set ?out = ?N"
    using out(1,2) len by (metis card_subset_eq distinct_card finite_set)
  show ?thesis
  proof (cases "acyclic (graph_rel graph)")
    case True
    then have "set ?out = ?N"
      using all_done [of ?N ?S "set ?out"] wf_succ [OF assms] out(2,4) by simp
    with True sort eq out(1,3) show ?thesis by simp
  next
    case False
    have "set ?out \<noteq> ?N"
    proof
      assume "set ?out = ?N"
      then have "acyclic (succ_rel ?N ?S)"
        using deps_first_acyclic [OF out(3)] out(1) wf_succ(2) [OF assms] by simp
      with False wf_succ(1) [OF assms] show False by simp
    qed
    with False sort eq show ?thesis by simp
  qed
qed

lemma deps_first_index:
  assumes "deps_first N S xs" "distinct xs" "u \<in> N" "v \<in> set xs" "v \<in> set (S u)"
  shows "index_of xs u < index_of xs v"
proof -
  let ?i = "index_of xs v"
  have "u \<in> set (take ?i xs)"
    using assms index_of_less [OF assms(4)] nth_index_of [OF assms(4)]
    by (force simp: deps_first_def unmet_def)
  then obtain j where "j < ?i" "j < length xs" "xs ! j = u" by (auto simp: in_set_conv_nth)
  moreover from this have "u \<in> set xs" by auto
  ultimately show ?thesis
    using assms(2) nth_index_of [of u xs] index_of_less [of u xs] nth_eq_iff_index_eq [of xs j "index_of xs u"]
    by auto
qed

text \<open>
  Property C3. On a well-formed graph \<open>topological_sort\<close> refines the notion of a dependency order:
  when the edges have no cycle it lists every node exactly once with the source of each edge before
  its target, and it is empty exactly when there is a cycle, which is what \<open>is_dag\<close> reports.
\<close>

theorem topological_order:
  assumes "well_formed graph"
  shows "(is_dag graph \<longleftrightarrow> acyclic (graph_rel graph)) \<and>
    (acyclic (graph_rel graph) \<longrightarrow>
       distinct (topological_sort graph) \<and> set (topological_sort graph) = set (node_addresses graph) \<and>
       (\<forall>e \<in> set (pg_edges graph).
          index_of (topological_sort graph) (pe_source e) < index_of (topological_sort graph) (pe_target e)))"
proof -
  note cases = topological_sort_cases [OF assms]
  have "graph_nodes graph \<noteq> {}" using assms by (auto simp: well_formed_def valid_graph_def)
  then have dag: "is_dag graph \<longleftrightarrow> acyclic (graph_rel graph)"
    using cases by (cases "acyclic (graph_rel graph)") (auto simp: is_dag_def)
  have "index_of (topological_sort graph) (pe_source e) < index_of (topological_sort graph) (pe_target e)"
    if "acyclic (graph_rel graph)" "e \<in> set (pg_edges graph)" for e
  proof -
    have e: "(pe_source e, pe_target e) \<in> graph_rel graph" using that(2) by (auto simp: graph_rel_def)
    then have "pe_target e \<in> set (graph_succ graph (pe_source e))" using wf_succ(1) [OF assms] by (auto simp: succ_rel_def)
    with cases that(1) wf_edge(1,2) [OF assms e] show ?thesis
      by (intro deps_first_index [of "graph_nodes graph" "graph_succ graph"]) simp_all
  qed
  with dag cases show ?thesis by simp
qed

theorem topological_order_witness:
  "acyclic (graph_rel (assemble_graph sample_discovery)) \<and>
   topological_sort (assemble_graph sample_discovery) = [''0xc'', ''0xa'', ''0xb'']"
proof -
  have "topological_sort (assemble_graph sample_discovery) = [''0xc'', ''0xa'', ''0xb'']" by code_simp
  then show ?thesis using topological_order [OF sample_well_formed] by (simp add: is_dag_def)
qed

text \<open>
  \<open>find_cycles\<close> decides acyclicity: on a well-formed graph every reported cycle is a
  closed walk along edges, and none is reported exactly when the edge relation has no cycle, that is
  when \<open>topological_sort\<close> succeeds.
\<close>

theorem cycles_exact:
  assumes "well_formed graph"
  shows "(find_cycles graph = [] \<longleftrightarrow> acyclic (graph_rel graph)) \<and>
    (find_cycles graph = [] \<longleftrightarrow> topological_sort graph \<noteq> []) \<and>
    (\<forall>c \<in> set (find_cycles graph). 2 \<le> length c \<and> edge_path graph (hd c) (hd c) c)"
proof -
  let ?E = "edge_rel lower (pg_adjacency_map graph)"
  let ?ms = "sort (node_addresses graph)"
  have lower: "lower a = a" if "a \<in> graph_nodes graph" for a using wf_lower [OF assms that] .
  have plus: "(x, x) \<in> ?E\<^sup>+ \<longleftrightarrow> (x, x) \<in> (graph_rel graph)\<^sup>+" if "x \<in> graph_nodes graph" for x
    using wf_reach_plus [OF assms lower [OF that]] .
  have "?E\<^sup>* `` graph_nodes graph \<subseteq> graph_nodes graph"
    using closed_reach [of lower "pg_adjacency_map graph" "graph_nodes graph" "graph_nodes graph"] wf_succ(2) [OF assms]
    by (simp add: closed_under_def)
  then have reach: "?E\<^sup>* `` set ?ms = graph_nodes graph" by auto
  have "x \<in> graph_nodes graph" if "(x, x) \<in> (graph_rel graph)\<^sup>+" for x
    using that wf_edge(1) [OF assms] by (meson tranclD)
  then have "(\<forall>x \<in> graph_nodes graph. (x, x) \<notin> ?E\<^sup>+) \<longleftrightarrow> acyclic (graph_rel graph)"
    using plus by (auto simp: acyclic_def)
  then have exact: "find_cycles graph = [] \<longleftrightarrow> acyclic (graph_rel graph)"
    using cycle_search_exact [of lower "pg_adjacency_map graph" ?ms]
    by (simp only: find_cycles_def reach sort_key_Nil)
  have "graph_nodes graph \<noteq> {}" using assms by (auto simp: well_formed_def valid_graph_def)
  then have "topological_sort graph \<noteq> [] \<longleftrightarrow> acyclic (graph_rel graph)"
    using topological_sort_cases [OF assms] by (cases "acyclic (graph_rel graph)") auto
  moreover have "2 \<le> length c \<and> edge_path graph (hd c) (hd c) c" if "c \<in> set (find_cycles graph)" for c
  proof -
    have "is_cycle lower (pg_adjacency_map graph) c \<and> hd c \<in> graph_nodes graph"
      using that cycle_search_sound [of "[]" lower "pg_adjacency_map graph" ?ms "graph_nodes graph" "([], [])"]
        wf_succ(2) [OF assms] by (simp add: find_cycles_def closed_under_def)
    moreover from this have "edge_path graph (hd c) (hd c) c \<longleftrightarrow> is_path lower (pg_adjacency_map graph) c \<and> last c = hd c"
      using edge_path_iff [OF assms lower, of "hd c" "hd c" c] by blast
    ultimately show ?thesis by (simp add: is_cycle_def)
  qed
  ultimately show ?thesis using exact by simp
qed

theorem cycles_exact_witness:
  "topological_sort (assemble_graph sample_discovery) \<noteq> [] \<and> find_cycles (assemble_graph sample_discovery) = []"
proof -
  have "find_cycles (assemble_graph sample_discovery) = []" by code_simp
  with cycles_exact [OF sample_well_formed] show ?thesis by blast
qed

end
