(* ===== verification/SchedulerFacts.thy ===== *)
theory SchedulerFacts
  imports Scheduler GraphProps
begin

text \<open>
  The steps of the run loop on well-formed graphs: no lookup fails, and each step has a closed
  form in terms of the stored statuses. The run invariant says what is stored for every node and
  how the batches relate to the dependencies.
\<close>

section \<open>Closed forms of the steps\<close>

definition has_status :: "node_results \<Rightarrow> node_scan_status \<Rightarrow> string \<Rightarrow> bool" where
  "has_status results s a \<longleftrightarrow> map_option ns_status (map_of results a) = Some s"

lemma has_status_Some: "map_of results a = Some r \<Longrightarrow> has_status results s a \<longleftrightarrow> ns_status r = s"
  by (simp add: has_status_def)

lemma has_status_None: "map_of results a = None \<Longrightarrow> \<not> has_status results s a"
  by (simp add: has_status_def)

lemma has_status_update: "has_status (AList.update k r d) s a \<longleftrightarrow> (if a = k then ns_status r = s else has_status d s a)"
  by (simp add: has_status_def)

lemma has_status_unique: "has_status d s a \<Longrightarrow> has_status d t a \<Longrightarrow> s = t"
  by (auto simp: has_status_def)

lemma has_status_known: "has_status d s a \<Longrightarrow> a \<in> set (dict_keys d)"
  by (cases "map_of d a") (force simp: has_status_def dest: map_of_SomeD)+

lemma known_Some: "fst ` set d = N \<Longrightarrow> a \<in> N \<Longrightarrow> \<exists>r. map_of d a = Some r"
  using map_of_eq_None_iff [of d a] by (cases "map_of d a") auto

lemma all_completed_exact:
  "set ds \<subseteq> fst ` set results \<Longrightarrow> all_completed results ds = Inr (\<forall>d \<in> set ds. has_status results COMPLETED d)"
proof (induction ds)
  case (Cons d ds)
  then obtain r where r: "map_of results d = Some r" using known_Some [of results _ d] by auto
  with Cons show ?case by (simp add: has_status_Some [OF r])
qed simp

lemma any_failed_exact:
  "set ds \<subseteq> fst ` set results \<Longrightarrow> any_failed results ds = Inr (\<exists>d \<in> set ds. has_status results FAILED d)"
proof (induction ds)
  case (Cons d ds)
  then obtain r where r: "map_of results d = Some r" using known_Some [of results _ d] by auto
  with Cons show ?case by (simp add: has_status_Some [OF r])
qed simp

lemma ready_loop_exact:
  assumes "\<forall>a. set (dict_get incoming a []) \<subseteq> fst ` set results"
  shows "ready_loop results incoming as =
    Inr (filter (\<lambda>a. has_status results PENDING a \<and>
      (\<forall>d \<in> set (dict_get incoming a []). has_status results COMPLETED d)) as)"
  using assms by (induction as) (simp_all add: all_completed_exact has_status_def)

text \<open>Updating a present key keeps the keys.\<close>

lemma keys_update_present: "k \<in> fst ` set d \<Longrightarrow> dict_keys (AList.update k v d) = dict_keys d"
  by (induction d) auto

lemma mark_skipped_loop_exact:
  assumes "\<forall>a. set (dict_get incoming a []) \<subseteq> fst ` set results"
    "\<forall>a. has_status results FAILED a \<longleftrightarrow> has_status copy FAILED a" "set as \<subseteq> fst ` set results"
    "\<forall>a \<in> set as. has_status copy PENDING a \<longrightarrow> \<not> has_status results FAILED a"
  shows "\<exists>results'. mark_skipped_loop env incoming copy as results = Inr results' \<and>
    dict_keys results' = dict_keys results \<and>
    (\<forall>v. map_of results' v =
      (if v \<in> set as \<and> has_status copy PENDING v \<and> (\<exists>d \<in> set (dict_get incoming v []). has_status copy FAILED d)
       then Some (skipped env v ''dependency_failed'') else map_of results v))"
  using assms
proof (induction as arbitrary: results)
  case (Cons a as)
  show ?case
  proof (cases "has_status copy PENDING a")
    case False
    then have "mark_skipped_loop env incoming copy (a # as) results = mark_skipped_loop env incoming copy as results"
      by (simp add: has_status_def)
    with False Cons.IH [of results] Cons.prems show ?thesis by auto
  next
    case pending: True
    have failed: "any_failed results (dict_get incoming a []) = Inr (\<exists>d \<in> set (dict_get incoming a []). has_status copy FAILED d)"
      using any_failed_exact [of "dict_get incoming a []" results] Cons.prems(1,2) by simp
    have step: "mark_skipped_loop env incoming copy (a # as) results = mark_skipped_loop env incoming copy as
        (if \<exists>d \<in> set (dict_get incoming a []). has_status copy FAILED d
         then AList.update a (skipped env a ''dependency_failed'') results else results)"
      using pending failed by (simp add: has_status_def [of copy PENDING])
    show ?thesis
    proof (cases "\<exists>d \<in> set (dict_get incoming a []). has_status copy FAILED d")
      case False
      with step have "mark_skipped_loop env incoming copy (a # as) results = mark_skipped_loop env incoming copy as results"
        by simp
      with False Cons.IH [of results] Cons.prems show ?thesis by auto
    next
      case True
      let ?r = "AList.update a (skipped env a ''dependency_failed'') results"
      have keys: "dict_keys ?r = dict_keys results" using Cons.prems(3) by (intro keys_update_present) simp
      then have fst: "fst ` set ?r = fst ` set results" by (metis set_map)
      have "\<not> has_status results FAILED a" using Cons.prems(4) pending by simp
      then have stat: "has_status ?r FAILED b \<longleftrightarrow> has_status copy FAILED b" for b
        using Cons.prems(2) by (auto simp: has_status_update)
      have "\<exists>results'. mark_skipped_loop env incoming copy as ?r = Inr results' \<and>
        dict_keys results' = dict_keys ?r \<and>
        (\<forall>v. map_of results' v =
          (if v \<in> set as \<and> has_status copy PENDING v \<and> (\<exists>d \<in> set (dict_get incoming v []). has_status copy FAILED d)
           then Some (skipped env v ''dependency_failed'') else map_of ?r v))"
        using Cons.prems stat fst by (intro Cons.IH) simp_all
      with True step pending keys show ?thesis by auto
    qed
  qed
qed simp

lemma mark_skipped_exact:
  assumes "\<forall>a. set (dict_get incoming a []) \<subseteq> fst ` set results"
  shows "\<exists>results'. mark_skipped_nodes env results incoming = Inr results' \<and>
    dict_keys results' = dict_keys results \<and>
    (\<forall>v. map_of results' v =
      (if has_status results PENDING v \<and> (\<exists>d \<in> set (dict_get incoming v []). has_status results FAILED d)
       then Some (skipped env v ''dependency_failed'') else map_of results v))"
proof -
  have "\<forall>a \<in> set (dict_keys results). has_status results PENDING a \<longrightarrow> \<not> has_status results FAILED a"
    using has_status_unique by fastforce
  with mark_skipped_loop_exact [of incoming results results "dict_keys results" env] assms
  obtain results' where "mark_skipped_nodes env results incoming = Inr results'" "dict_keys results' = dict_keys results"
    "\<forall>v. map_of results' v =
      (if v \<in> set (dict_keys results) \<and> has_status results PENDING v \<and>
          (\<exists>d \<in> set (dict_get incoming v []). has_status results FAILED d)
       then Some (skipped env v ''dependency_failed'') else map_of results v)"
    by (auto simp: mark_skipped_nodes_def)
  then show ?thesis using has_status_known by (intro exI [of _ results']) metis
qed

lemma mark_unresolved_exact:
  "map_of (mark_unresolved_nodes env results) v =
     (if has_status results PENDING v then Some (skipped env v ''unresolved_dependencies'') else map_of results v)"
  "dict_keys (mark_unresolved_nodes env results) = dict_keys results"
  by (induction results) (auto simp: mark_unresolved_nodes_def has_status_def)

lemma merge_pending [simp]: "merge_result (pending_result a) (scan env policy a) = scan env policy a"
  by (simp add: merge_result_def pending_result_def scan_def split: sum.split prod.split)

definition succeeds :: "scan_env \<Rightarrow> RetryPolicy \<Rightarrow> string \<Rightarrow> bool" where
  "succeeds env policy a \<longleftrightarrow> ns_status (scan env policy a) = COMPLETED"

lemma not_succeeds: "\<not> succeeds env policy a \<longleftrightarrow> ns_status (scan env policy a) = FAILED"
  by (simp add: succeeds_def scan_status split: sum.split)

lemma fold_apply_exact:
  assumes "distinct ready" "\<forall>a \<in> set ready. map_of (ru_node_results st) a = Some (pending_result a)"
  shows "let st' = fold (\<lambda>a. apply_result (scan env policy a)) ready st in
    dict_keys (ru_node_results st') = dict_keys (ru_node_results st) \<and>
    (\<forall>v. map_of (ru_node_results st') v =
      (if v \<in> set ready then Some (scan env policy v) else map_of (ru_node_results st) v)) \<and>
    ru_execution_order st' = ru_execution_order st @ filter (succeeds env policy) ready \<and>
    ru_execution_batches st' = ru_execution_batches st"
  using assms
proof (induction ready arbitrary: st)
  case (Cons a ready)
  let ?st = "apply_result (scan env policy a) st"
  have a: "map_of (ru_node_results st) a = Some (pending_result a)" using Cons.prems(2) by simp
  then have "a \<in> fst ` set (ru_node_results st)" by (force dest: map_of_SomeD)
  note keys = keys_update_present [OF this, of "scan env policy a"]
  have st: "ru_node_results ?st = AList.update a (scan env policy a) (ru_node_results st)"
    "ru_execution_order ?st = ru_execution_order st @ (if succeeds env policy a then [a] else [])"
    "ru_execution_batches ?st = ru_execution_batches st"
    using a by (simp_all add: apply_result_def Let_def succeeds_def)
  have "let st' = fold (\<lambda>a. apply_result (scan env policy a)) ready ?st in
      dict_keys (ru_node_results st') = dict_keys (ru_node_results ?st) \<and>
      (\<forall>v. map_of (ru_node_results st') v =
        (if v \<in> set ready then Some (scan env policy v) else map_of (ru_node_results ?st) v)) \<and>
      ru_execution_order st' = ru_execution_order ?st @ filter (succeeds env policy) ready \<and>
      ru_execution_batches st' = ru_execution_batches ?st"
    using Cons.prems st(1) by (intro Cons.IH) auto
  then show ?case using Cons.prems(1) keys by (auto simp: Let_def st)
qed simp

section \<open>The run invariant\<close>

definition deps :: "ProtocolGraph \<Rightarrow> string \<Rightarrow> string set" where
  "deps graph v = {u. (u, v) \<in> graph_rel graph}"

lemma incoming_deps:
  assumes "well_formed graph"
  shows "set (dict_get (fst (build_dependency_maps graph)) v []) = deps graph v"
    and "deps graph v \<subseteq> graph_nodes graph"
proof -
  have "consistent_graph graph" using assms by (simp add: well_formed_def)
  from nbrs_reverse(1) [OF this, of v]
  show "set (dict_get (fst (build_dependency_maps graph)) v []) = deps graph v"
    by (simp add: nbrs_def build_dependency_maps_def deps_def)
  show "deps graph v \<subseteq> graph_nodes graph" using wf_edge(1) [OF assms] by (auto simp: deps_def)
qed

text \<open>What is stored for a node: untouched, its scan, or a skip because of a failed dependency.\<close>

definition node_ok :: "scan_env \<Rightarrow> RetryPolicy \<Rightarrow> ProtocolGraph \<Rightarrow> node_results \<Rightarrow> string \<Rightarrow> bool" where
  "node_ok env policy graph results v \<longleftrightarrow>
     map_of results v = Some (pending_result v) \<or>
     map_of results v = Some (scan env policy v) \<and> (\<forall>u \<in> deps graph v. has_status results COMPLETED u) \<or>
     map_of results v = Some (skipped env v ''dependency_failed'') \<and> (\<exists>u \<in> deps graph v. has_status results FAILED u)"

text \<open>Every batch is ready when it starts: its dependencies completed in earlier batches.\<close>

definition batches_ok :: "scan_env \<Rightarrow> RetryPolicy \<Rightarrow> ProtocolGraph \<Rightarrow> ExecutionBatch list \<Rightarrow> bool" where
  "batches_ok env policy graph bs \<longleftrightarrow>
     distinct (concat (map eb_addresses bs)) \<and>
     (\<forall>i < length bs. eb_batch_index (bs ! i) = i \<and> eb_addresses (bs ! i) \<noteq> [] \<and> sorted (eb_addresses (bs ! i)) \<and>
        (\<forall>v \<in> set (eb_addresses (bs ! i)). deps graph v \<subseteq>
           {u \<in> set (concat (map eb_addresses (take i bs))). succeeds env policy u}))"

definition run_inv :: "scan_env \<Rightarrow> RetryPolicy \<Rightarrow> ProtocolGraph \<Rightarrow> run_state \<Rightarrow> bool" where
  "run_inv env policy graph st \<longleftrightarrow>
     dict_keys (ru_node_results st) = node_addresses graph \<and>
     (\<forall>v \<in> graph_nodes graph. node_ok env policy graph (ru_node_results st) v) \<and>
     (\<forall>v. v \<in> set (concat (map eb_addresses (ru_execution_batches st))) \<longleftrightarrow>
        has_status (ru_node_results st) COMPLETED v \<or> has_status (ru_node_results st) FAILED v) \<and>
     batches_ok env policy graph (ru_execution_batches st) \<and>
     ru_execution_order st = filter (succeeds env policy) (concat (map eb_addresses (ru_execution_batches st)))"

lemma run_invD:
  assumes "run_inv env policy graph st"
  shows "dict_keys (ru_node_results st) = node_addresses graph"
    and "v \<in> graph_nodes graph \<Longrightarrow> node_ok env policy graph (ru_node_results st) v"
    and "v \<in> set (concat (map eb_addresses (ru_execution_batches st))) \<longleftrightarrow>
      has_status (ru_node_results st) COMPLETED v \<or> has_status (ru_node_results st) FAILED v"
    and "batches_ok env policy graph (ru_execution_batches st)"
    and "ru_execution_order st = filter (succeeds env policy) (concat (map eb_addresses (ru_execution_batches st)))"
  using assms unfolding run_inv_def by blast+

lemma pending_status [simp]: "ns_status (pending_result a) = PENDING"
  by (simp add: pending_result_def)

lemma initial_inv:
  assumes "well_formed graph"
  shows "run_inv env policy graph (initial_run graph)"
proof -
  have dist: "distinct (node_addresses graph)" using assms by (simp add: well_formed_def valid_graph_def)
  let ?d = "dict_of pn_address (\<lambda>node. pending_result (pn_address node)) (pg_nodes graph)"
  have keys: "dict_keys ?d = node_addresses graph" using dist by (simp add: dict_of_distinct)
  have all: "map_of ?d v = Some (pending_result v)" if "v \<in> graph_nodes graph" for v
    using map_of_dict_of_inj [OF dist] that by auto
  have "\<not> has_status ?d s v" if "s \<noteq> PENDING" for s v
  proof (cases "v \<in> graph_nodes graph")
    case True
    from has_status_Some [OF all [OF True]] that show ?thesis by simp
  next
    case False
    with keys has_status_known [of ?d s v] show ?thesis by auto
  qed
  with keys all show ?thesis by (simp add: run_inv_def initial_run_def node_ok_def batches_ok_def)
qed

text \<open>One round: skip, then run what is ready, or stop.\<close>

lemma node_status:
  assumes "node_ok env policy graph results v"
  shows "has_status results PENDING v \<longleftrightarrow> map_of results v = Some (pending_result v)"
    and "has_status results COMPLETED v \<longleftrightarrow> map_of results v = Some (scan env policy v) \<and> succeeds env policy v"
    and "has_status results FAILED v \<longleftrightarrow> map_of results v = Some (scan env policy v) \<and> \<not> succeeds env policy v"
proof -
  have ne: "pending_result v \<noteq> scan env policy v" "pending_result v \<noteq> skipped env v r" "scan env policy v \<noteq> skipped env v r" for r
    by (metis pending_status scan_fields(2), metis node_scan_status.distinct(7) pending_status skipped_fields(2),
        metis scan_status skipped_fields(2) node_scan_status.distinct(17,19) sum.case_eq_if)
  show "has_status results PENDING v \<longleftrightarrow> map_of results v = Some (pending_result v)"
    "has_status results COMPLETED v \<longleftrightarrow> map_of results v = Some (scan env policy v) \<and> succeeds env policy v"
    "has_status results FAILED v \<longleftrightarrow> map_of results v = Some (scan env policy v) \<and> \<not> succeeds env policy v"
    using assms ne unfolding node_ok_def not_succeeds
    by (auto simp: has_status_def succeeds_def)
qed

lemma dependencies_known:
  assumes "well_formed graph" "dict_keys results = node_addresses graph"
  shows "\<forall>a. set (dict_get (fst (build_dependency_maps graph)) a []) \<subseteq> fst ` set results"
  using incoming_deps [OF assms(1)] assms(2) by (metis set_map)

lemma mark_inv:
  assumes wf: "well_formed graph" and inv: "run_inv env policy graph st"
  shows "\<exists>results. mark_skipped_nodes env (ru_node_results st) (fst (build_dependency_maps graph)) = Inr results \<and>
    run_inv env policy graph (st\<lparr> ru_node_results := results \<rparr>) \<and>
    (\<forall>v. has_status results PENDING v \<longrightarrow> \<not> (\<exists>u \<in> deps graph v. has_status results FAILED u))"
proof -
  let ?R = "ru_node_results st"
  have keys: "dict_keys ?R = node_addresses graph" using inv by (simp add: run_inv_def)
  from mark_skipped_exact [OF dependencies_known [OF wf keys], of env] obtain R1 where
    R1: "mark_skipped_nodes env ?R (fst (build_dependency_maps graph)) = Inr R1" "dict_keys R1 = dict_keys ?R"
      "\<forall>v. map_of R1 v =
        (if has_status ?R PENDING v \<and> (\<exists>u \<in> deps graph v. has_status ?R FAILED u)
         then Some (skipped env v ''dependency_failed'') else map_of ?R v)"
    by (auto simp: incoming_deps(1) [OF wf])
  have other: "has_status R1 s v \<longleftrightarrow> has_status ?R s v" if "s = COMPLETED \<or> s = FAILED" for s v
  proof (cases "has_status ?R PENDING v \<and> (\<exists>u \<in> deps graph v. has_status ?R FAILED u)")
    case True
    moreover from True have "\<not> has_status ?R s v" using that has_status_unique [of ?R PENDING v s] by auto
    moreover from True have "map_of R1 v = Some (skipped env v ''dependency_failed'')" using R1(3) by simp
    ultimately show ?thesis using that by (auto simp: has_status_def [of R1])
  next
    case False
    then have "map_of R1 v = map_of ?R v" using R1(3) by metis
    then show ?thesis by (simp add: has_status_def)
  qed
  have pend: "has_status R1 PENDING v \<longleftrightarrow> has_status ?R PENDING v \<and> \<not> (\<exists>u \<in> deps graph v. has_status ?R FAILED u)" for v
    using R1(3) by (auto simp: has_status_def [of R1] has_status_def [of ?R PENDING])
  have "node_ok env policy graph R1 v" if "v \<in> graph_nodes graph" for v
  proof (cases "has_status ?R PENDING v \<and> (\<exists>u \<in> deps graph v. has_status ?R FAILED u)")
    case True
    then show ?thesis using R1(3) other by (auto simp: node_ok_def)
  next
    case False
    then have "map_of R1 v = map_of ?R v" using R1(3) by metis
    moreover have "node_ok env policy graph ?R v" using run_invD(2) [OF inv that] .
    ultimately show ?thesis using other by (auto simp: node_ok_def)
  qed
  then have "run_inv env policy graph (st\<lparr> ru_node_results := R1 \<rparr>)"
    using inv R1(2) other by (simp add: run_inv_def)
  with R1(1) pend other show ?thesis by blast
qed

lemma ready_exact:
  assumes wf: "well_formed graph" and keys: "dict_keys results = node_addresses graph"
  shows "ready_nodes results (fst (build_dependency_maps graph)) =
    Inr (sort (filter (\<lambda>v. has_status results PENDING v \<and> (\<forall>u \<in> deps graph v. has_status results COMPLETED u))
      (node_addresses graph)))"
  using ready_loop_exact [OF dependencies_known [OF wf keys], of "node_addresses graph"]
  by (simp add: ready_nodes_def keys incoming_deps(1) [OF wf])

lemma concat_snoc: "concat (map f (xs @ [x])) = concat (map f xs) @ f x"
  by simp

lemma batches_ok_snoc:
  assumes "batches_ok env policy graph bs" "distinct (concat (map eb_addresses bs) @ ready)" "ready \<noteq> []" "sorted ready"
    "\<forall>v \<in> set ready. deps graph v \<subseteq> {u \<in> set (concat (map eb_addresses bs)). succeeds env policy u}"
  shows "batches_ok env policy graph (bs @ [\<lparr> eb_batch_index = length bs, eb_addresses = ready \<rparr>])"
  using assms unfolding batches_ok_def by (simp add: nth_append less_Suc_eq all_conj_distrib)

lemma batch_inv:
  assumes wf: "well_formed graph" and inv: "run_inv env policy graph st"
    and ready: "distinct ready" "sorted ready" "ready \<noteq> []" "set ready \<subseteq> graph_nodes graph"
    "\<forall>v \<in> set ready. has_status (ru_node_results st) PENDING v \<and>
       (\<forall>u \<in> deps graph v. has_status (ru_node_results st) COMPLETED u)"
  shows "run_inv env policy graph (run_batch env policy ready st)"
proof -
  let ?R = "ru_node_results st" and ?bs = "ru_execution_batches st"
  let ?b = "\<lparr> eb_batch_index = length ?bs, eb_addresses = ready \<rparr>"
  let ?st = "st\<lparr> ru_execution_batches := ?bs @ [?b], ru_metrics := record_batch (ru_metrics st) \<rparr>"
  let ?st' = "run_batch env policy ready st"
  have ok: "node_ok env policy graph ?R v" if "v \<in> graph_nodes graph" for v
    using run_invD(2) [OF inv that] .
  have "\<forall>a \<in> set ready. map_of ?R a = Some (pending_result a)"
    using ready(4,5) node_status(1) [OF ok] by blast
  then have st': "dict_keys (ru_node_results ?st') = dict_keys ?R"
    "map_of (ru_node_results ?st') v = (if v \<in> set ready then Some (scan env policy v) else map_of ?R v)"
    "ru_execution_order ?st' = ru_execution_order st @ filter (succeeds env policy) ready"
    "ru_execution_batches ?st' = ?bs @ [?b]" for v
    using fold_apply_exact [OF ready(1), of ?st env policy] by (simp_all add: run_batch_def Let_def)
  have stat: "has_status (ru_node_results ?st') s v \<longleftrightarrow>
      (if v \<in> set ready then ns_status (scan env policy v) = s else has_status ?R s v)" for s v
    by (simp add: has_status_def st'(2))
  have keep: "has_status (ru_node_results ?st') s v" if "has_status ?R s v" "s \<noteq> PENDING" for s v
    using that ready(5) has_status_unique [of ?R s v PENDING] stat by auto
  have "node_ok env policy graph (ru_node_results ?st') v" if "v \<in> graph_nodes graph" for v
  proof (cases "v \<in> set ready")
    case True
    with ready(5) keep show ?thesis by (simp add: node_ok_def st'(2))
  next
    case False
    with ok [OF that] keep show ?thesis unfolding node_ok_def st'(2) by auto
  qed
  moreover have done_iff: "v \<in> set (concat (map eb_addresses ?bs)) \<longleftrightarrow> has_status ?R COMPLETED v \<or> has_status ?R FAILED v" for v
    using run_invD(3) [OF inv] .
  then have "v \<in> set (concat (map eb_addresses (?bs @ [?b]))) \<longleftrightarrow>
      has_status (ru_node_results ?st') COMPLETED v \<or> has_status (ru_node_results ?st') FAILED v" for v
    using not_succeeds [of env policy v] by (auto simp: stat succeeds_def simp del: set_concat)
  moreover have "batches_ok env policy graph (?bs @ [?b])"
  proof (rule batches_ok_snoc)
    show ok': "batches_ok env policy graph ?bs" using inv by (simp add: run_inv_def)
    have "v \<notin> set (concat (map eb_addresses ?bs))" if "v \<in> set ready" for v
    proof -
      have "has_status ?R PENDING v" using that ready(5) by simp
      then have "\<not> has_status ?R COMPLETED v" "\<not> has_status ?R FAILED v"
        using has_status_unique [of ?R PENDING v] by auto
      with done_iff show ?thesis by blast
    qed
    then have "set (concat (map eb_addresses ?bs)) \<inter> set ready = {}" by blast
    with ok' ready(1) show "distinct (concat (map eb_addresses ?bs) @ ready)"
      by (simp only: batches_ok_def distinct_append simp_thms)
    have "u \<in> set (concat (map eb_addresses ?bs)) \<and> succeeds env policy u" if "v \<in> set ready" "u \<in> deps graph v" for u v
    proof -
      have u: "has_status ?R COMPLETED u" using that ready(5) by blast
      moreover have "u \<in> graph_nodes graph" using incoming_deps(2) [OF wf, of v] that(2) by blast
      ultimately show ?thesis using node_status(2) [OF ok] done_iff by blast
    qed
    then show "\<forall>v \<in> set ready. deps graph v \<subseteq> {u \<in> set (concat (map eb_addresses ?bs)). succeeds env policy u}"
      by blast
  qed (use ready in simp_all)
  moreover have "ru_execution_order ?st' = filter (succeeds env policy) (concat (map eb_addresses (?bs @ [?b])))"
    using inv by (simp add: st'(3) run_inv_def)
  ultimately show ?thesis using inv by (simp only: run_inv_def st'(1) st'(4)) blast
qed

definition stuck :: "ProtocolGraph \<Rightarrow> node_results \<Rightarrow> bool" where
  "stuck graph results \<longleftrightarrow> (\<forall>v \<in> graph_nodes graph. has_status results PENDING v \<longrightarrow>
     \<not> (\<exists>u \<in> deps graph v. has_status results FAILED u) \<and>
     \<not> (\<forall>u \<in> deps graph v. has_status results COMPLETED u))"

lemma run_loop_ends:
  assumes "well_formed graph" "run_inv env policy graph st" "incoming = fst (build_dependency_maps graph)"
  shows "\<exists>st'. run_inv env policy graph st' \<and> stuck graph (ru_node_results st') \<and>
    run_loop env policy incoming st =
      Inr (st'\<lparr> ru_node_results := mark_unresolved_nodes env (ru_node_results st') \<rparr>)"
  using assms
proof (induction env policy incoming st rule: run_loop.induct)
  case (1 env policy incoming st)
  from mark_inv [OF 1(2,3)] obtain results where
    R: "mark_skipped_nodes env (ru_node_results st) incoming = Inr results"
      "run_inv env policy graph (st\<lparr> ru_node_results := results \<rparr>)"
      "\<forall>v. has_status results PENDING v \<longrightarrow> \<not> (\<exists>u \<in> deps graph v. has_status results FAILED u)"
    using 1(4) by blast
  have keys: "dict_keys results = node_addresses graph" using run_invD(1) [OF R(2)] by simp
  let ?ready = "sort (filter (\<lambda>v. has_status results PENDING v \<and> (\<forall>u \<in> deps graph v. has_status results COMPLETED u))
    (node_addresses graph))"
  have ready: "ready_nodes results incoming = Inr ?ready" using ready_exact [OF 1(2) keys] 1(4) by simp
  show ?case
  proof (cases "?ready = []")
    case True
    then have "stuck graph results"
      using R(3) by (auto simp: stuck_def filter_empty_conv)
    moreover have "run_loop env policy incoming st = Inr (st\<lparr> ru_node_results := mark_unresolved_nodes env results \<rparr>)"
      using R(1) ready True by (subst run_loop.simps) simp
    ultimately show ?thesis using R(2) by (intro exI [of _ "st\<lparr> ru_node_results := results \<rparr>"]) simp
  next
    case False
    have "distinct (node_addresses graph)" using 1(2) by (simp add: well_formed_def valid_graph_def)
    then have "run_inv env policy graph (run_batch env policy ?ready (st\<lparr> ru_node_results := results \<rparr>))"
      using False by (intro batch_inv [OF 1(2) R(2)]) auto
    moreover have "run_loop env policy incoming st =
        run_loop env policy incoming (run_batch env policy ?ready (st\<lparr> ru_node_results := results \<rparr>))"
      using R(1) ready False by (subst run_loop.simps) simp
    ultimately show ?thesis using 1(1) [OF R(1) ready False 1(2) _ 1(4)] by simp
  qed
qed

text \<open>The statuses a run ends with.\<close>

lemma final_results:
  assumes wf: "well_formed graph" and inv: "run_inv env policy graph st" and stuck: "stuck graph (ru_node_results st)"
  defines "R \<equiv> mark_unresolved_nodes env (ru_node_results st)"
  shows "v \<in> graph_nodes graph \<Longrightarrow> map_of R v = Some
      (if \<forall>u \<in> deps graph v. has_status R COMPLETED u then scan env policy v
       else skipped env v (if \<exists>u \<in> deps graph v. has_status R FAILED u
                           then ''dependency_failed'' else ''unresolved_dependencies''))"
    and "s = COMPLETED \<or> s = FAILED \<Longrightarrow> has_status R s v \<longleftrightarrow> has_status (ru_node_results st) s v"
    and "\<not> has_status R PENDING v" "\<not> has_status R RUNNING v"
proof -
  let ?Q = "ru_node_results st"
  note R = mark_unresolved_exact(1) [of env ?Q, folded R_def]
  have keep: "has_status R s v \<longleftrightarrow> has_status ?Q s v" if "s = COMPLETED \<or> s = FAILED" for s v
  proof (cases "has_status ?Q PENDING v")
    case True
    then have "\<not> has_status ?Q s v" using that has_status_unique [of ?Q PENDING v s] by auto
    with True that R show ?thesis by (auto simp: has_status_def [of R])
  next
    case False
    then have "map_of R v = map_of ?Q v" using R by metis
    then show ?thesis by (simp add: has_status_def)
  qed
  then show "s = COMPLETED \<or> s = FAILED \<Longrightarrow> has_status R s v \<longleftrightarrow> has_status ?Q s v" .
  have final: "map_of R v = Some
      (if \<forall>u \<in> deps graph v. has_status R COMPLETED u then scan env policy v
       else skipped env v (if \<exists>u \<in> deps graph v. has_status R FAILED u
                           then ''dependency_failed'' else ''unresolved_dependencies''))"
    if v: "v \<in> graph_nodes graph" for v
  proof (cases "has_status ?Q PENDING v")
    case True
    with stuck v have "\<not> (\<exists>u \<in> deps graph v. has_status ?Q FAILED u)" "\<not> (\<forall>u \<in> deps graph v. has_status ?Q COMPLETED u)"
      unfolding stuck_def by blast+
    with True keep show ?thesis by (auto simp: R)
  next
    case False
    have ok: "node_ok env policy graph ?Q v" using run_invD(2) [OF inv v] .
    have same: "map_of R v = map_of ?Q v" using False R by metis
    from ok consider "map_of ?Q v = Some (scan env policy v)" "\<forall>u \<in> deps graph v. has_status ?Q COMPLETED u"
      | u where "map_of ?Q v = Some (skipped env v ''dependency_failed'')" "u \<in> deps graph v" "has_status ?Q FAILED u"
      using False by (auto simp: node_ok_def has_status_def)
    then show ?thesis
    proof cases
      case 1
      with keep same show ?thesis by simp
    next
      case 2
      then have "has_status R FAILED u" "\<not> has_status R COMPLETED u"
        using keep has_status_unique [of R FAILED u COMPLETED] by auto
      with 2 same show ?thesis by auto
    qed
  qed
  then show "v \<in> graph_nodes graph \<Longrightarrow> map_of R v = Some
      (if \<forall>u \<in> deps graph v. has_status R COMPLETED u then scan env policy v
       else skipped env v (if \<exists>u \<in> deps graph v. has_status R FAILED u
                           then ''dependency_failed'' else ''unresolved_dependencies''))" .
  have "dict_keys R = node_addresses graph"
    using run_invD(1) [OF inv] mark_unresolved_exact(2) by (simp add: R_def)
  then have out: "v \<notin> graph_nodes graph \<Longrightarrow> \<not> has_status R s v" for s
    using has_status_known [of R s v] by auto
  have "ns_status (scan env policy v) \<noteq> RUNNING" by (simp add: scan_status split: sum.split)
  then show "\<not> has_status R PENDING v" "\<not> has_status R RUNNING v"
    using out final [of v] by (cases "v \<in> graph_nodes graph"; auto simp: has_status_def [of R _ v] split: if_splits)+
qed

lemma run_exact:
  assumes "well_formed graph"
  shows "\<exists>st R. run env policy timing graph = Inr (scan_result timing graph (st\<lparr> ru_node_results := R \<rparr>)) \<and>
    run_inv env policy graph st \<and> stuck graph (ru_node_results st) \<and> R = mark_unresolved_nodes env (ru_node_results st)"
  using run_loop_ends [OF assms initial_inv [OF assms] refl, of env policy]
  by (auto simp: run_def)

end
