(* ===== verification/SchedulerProps.thy ===== *)
theory SchedulerProps
  imports SchedulerFacts
begin

text \<open>
  What the scheduler promises on well-formed graphs: the planned batches are the layers of the
  dependency order, a run ends with every node scanned or skipped for a stated reason, nothing is
  scanned before its dependencies completed, and retries are bounded.
\<close>

section \<open>Layers\<close>

definition ready_list :: "ProtocolGraph \<Rightarrow> string set \<Rightarrow> string list" where
  "ready_list graph D = sort (filter (\<lambda>v. v \<notin> D \<and> deps graph v \<subseteq> D) (node_addresses graph))"

text \<open>Batches that are, from the nodes \<open>D\<close> done before, exactly what is ready, until nothing is.\<close>

fun layered :: "ProtocolGraph \<Rightarrow> string set \<Rightarrow> nat \<Rightarrow> ExecutionBatch list \<Rightarrow> bool" where
  "layered graph D i [] \<longleftrightarrow> ready_list graph D = []"
| "layered graph D i (b # bs) \<longleftrightarrow> ready_list graph D \<noteq> [] \<and>
     b = \<lparr> eb_batch_index = i, eb_addresses = ready_list graph D \<rparr> \<and>
     layered graph (D \<union> set (ready_list graph D)) (Suc i) bs"

lemma layered_unique: "layered graph D i bs \<Longrightarrow> layered graph D i bs' \<Longrightarrow> bs = bs'"
proof (induction graph D i bs arbitrary: bs' rule: layered.induct)
  case (1 graph D i)
  then show ?case by (cases bs') auto
next
  case (2 graph D i b bs)
  then show ?case by (cases bs') auto
qed

lemma set_ready_list: "set (ready_list graph D) = {v \<in> graph_nodes graph - D. deps graph v \<subseteq> D}"
  by (auto simp: ready_list_def)

abbreviation plain_succ :: "ProtocolGraph \<Rightarrow> string \<Rightarrow> string list" where
  "plain_succ graph \<equiv> nbrs (\<lambda>x. x) (pg_adjacency_map graph)"

lemma plain_succ_rel:
  assumes "well_formed graph"
  shows "v \<in> set (plain_succ graph u) \<longleftrightarrow> (u, v) \<in> graph_rel graph" "distinct (plain_succ graph u)"
    "unmet (graph_nodes graph) (plain_succ graph) D v = deps graph v - D"
proof -
  have cons: "consistent_graph graph" using assms by (simp add: well_formed_def)
  show succ: "v \<in> set (plain_succ graph u) \<longleftrightarrow> (u, v) \<in> graph_rel graph" "distinct (plain_succ graph u)" for u v
    using nbrs_graph [OF cons, where nf = "\<lambda>x. x"] by simp_all
  show "unmet (graph_nodes graph) (plain_succ graph) D v = deps graph v - D"
    using succ(1) wf_edge(1) [OF assms] by (auto simp: unmet_def deps_def)
qed

section \<open>Planning\<close>

definition plan_inv :: "ProtocolGraph \<Rightarrow> string set \<Rightarrow> (string, int) dict \<Rightarrow> bool" where
  "plan_inv graph D indegree \<longleftrightarrow>
     dict_keys indegree = filter (\<lambda>v. v \<notin> D) (node_addresses graph) \<and>
     (\<forall>v. map_of indegree v = (if v \<in> D then None else degrees (graph_nodes graph) (plain_succ graph) D v))"

lemma map_of_delete [simp]: "map_of (AList.delete k d) v = (if v = k then None else map_of d v)"
  by (simp add: delete_conv')

lemma release_exact:
  assumes "distinct (nbrs (\<lambda>x. x) outgoing a)"
  shows "map_of (release outgoing a ind) v =
      (if v \<in> set (nbrs (\<lambda>x. x) outgoing a) then map_option (\<lambda>d. d - 1) (map_of (AList.delete a ind) v)
       else map_of (AList.delete a ind) v)"
    and "dict_keys (release outgoing a ind) = dict_keys (AList.delete a ind)"
proof -
  have "distinct cs \<Longrightarrow>
      (\<forall>v. map_of (fold (\<lambda>child d. case map_of d child of None \<Rightarrow> d | Some n \<Rightarrow> AList.update child (n - 1) d) cs d) v =
        (if v \<in> set cs then map_option (\<lambda>d. d - 1) (map_of d v) else map_of d v)) \<and>
      dict_keys (fold (\<lambda>child d. case map_of d child of None \<Rightarrow> d | Some n \<Rightarrow> AList.update child (n - 1) d) cs d) =
        dict_keys d" for cs and d :: "(string, int) dict"
  proof (induction cs arbitrary: d)
    case (Cons c cs)
    show ?case
    proof (cases "map_of d c")
      case None
      with Cons show ?thesis by auto
    next
      case (Some n)
      then have "c \<in> fst ` set d" by (force dest: map_of_SomeD)
      note keys = keys_update_present [OF this, of "n - 1"]
      with Some Cons.IH [of "AList.update c (n - 1) d"] Cons.prems show ?thesis by auto
    qed
  qed simp
  from this [OF assms, of "AList.delete a ind"]
  show "map_of (release outgoing a ind) v =
      (if v \<in> set (nbrs (\<lambda>x. x) outgoing a) then map_option (\<lambda>d. d - 1) (map_of (AList.delete a ind) v)
       else map_of (AList.delete a ind) v)"
    "dict_keys (release outgoing a ind) = dict_keys (AList.delete a ind)"
    by (simp_all add: release_def)
qed

lemma plan_inv_release:
  assumes wf: "well_formed graph" and inv: "plan_inv graph D ind" and a: "a \<in> graph_nodes graph" "a \<notin> D"
  shows "plan_inv graph (insert a D) (release (pg_adjacency_map graph) a ind)"
proof -
  let ?S = "plain_succ graph" and ?N = "graph_nodes graph"
  note rel = release_exact [OF plain_succ_rel(2) [OF wf], of a ind]
  have "dict_keys (AList.delete a ind) = filter (\<lambda>v. v \<noteq> a) (dict_keys ind)"
    by (induction ind) auto
  then have "dict_keys (release (pg_adjacency_map graph) a ind) = filter (\<lambda>v. v \<notin> insert a D) (node_addresses graph)"
    using inv rel(2) by (simp add: plan_inv_def conj_commute)
  moreover have "map_of (release (pg_adjacency_map graph) a ind) v =
      (if v \<in> insert a D then None else degrees ?N ?S (insert a D) v)" for v
    using inv degrees_step [OF a finite_set, of ?S v] by (simp add: rel(1) plan_inv_def)
  ultimately show ?thesis by (simp add: plan_inv_def)
qed

lemma plan_inv_fold:
  assumes "well_formed graph"
  shows "plan_inv graph D ind \<Longrightarrow> distinct as \<Longrightarrow> set as \<subseteq> graph_nodes graph - D \<Longrightarrow>
    plan_inv graph (D \<union> set as) (fold (release (pg_adjacency_map graph)) as ind)"
proof (induction as arbitrary: D ind)
  case (Cons a as)
  have "plan_inv graph (insert a D) (release (pg_adjacency_map graph) a ind)"
    using Cons.prems by (intro plan_inv_release [OF assms]) auto
  from Cons.IH [OF this] Cons.prems show ?case by auto
qed simp

lemma plan_inv_ready:
  assumes wf: "well_formed graph" and inv: "plan_inv graph D ind"
  shows "zero_degree ind = ready_list graph D"
proof -
  have dist: "distinct (node_addresses graph)" using wf by (simp add: well_formed_def valid_graph_def)
  with inv have wfd: "wf_dict ind" by (simp add: plan_inv_def)
  have "map fst (filter (\<lambda>(a, d). d = 0) ind) = filter (\<lambda>a. map_of ind a = Some 0) (map fst ind)"
    using wfd by (auto simp: filter_map o_def intro!: filter_cong [THEN arg_cong] dest: eq_key_imp_eq_value)
  also have "\<dots> = filter (\<lambda>v. v \<notin> D \<and> deps graph v \<subseteq> D) (node_addresses graph)"
  proof -
    have "map_of ind v = Some 0 \<longleftrightarrow> deps graph v \<subseteq> D" if "v \<notin> D" "v \<in> graph_nodes graph" for v
    proof -
      have "map_of ind v = degrees (graph_nodes graph) (plain_succ graph) D v"
        using inv that(1) by (simp add: plan_inv_def)
      then show ?thesis using degrees_zero [of "graph_nodes graph" "plain_succ graph" D v, OF finite_set] that(2)
        by (simp only: plain_succ_rel(3) [OF wf] Diff_eq_empty_iff simp_thms)
    qed
    moreover have "map fst ind = filter (\<lambda>v. v \<notin> D) (node_addresses graph)" using inv by (simp add: plan_inv_def)
    ultimately show ?thesis by (simp only: filter_filter) (rule filter_cong [OF refl], blast)
  qed
  finally show ?thesis by (simp add: ready_list_def)
qed

lemma batch_loop_layered:
  assumes "well_formed graph" "plan_inv graph D ind" "outgoing = pg_adjacency_map graph"
  shows "layered graph D i (batch_loop outgoing ind i)"
  using assms(2,3)
proof (induction outgoing ind i arbitrary: D rule: batch_loop.induct)
  case (1 outgoing ind i)
  let ?ready = "ready_list graph D"
  have ready: "zero_degree ind = ?ready" using plan_inv_ready [OF assms(1) 1(2)] .
  show ?case
  proof (cases "?ready = []")
    case True
    then have "batch_loop outgoing ind i = []"
      by (subst batch_loop.simps) (simp only: Let_def ready if_True simp_thms)
    with True show ?thesis by simp
  next
    case False
    have "distinct (node_addresses graph)" using assms(1) by (simp add: well_formed_def valid_graph_def)
    then have "plan_inv graph (D \<union> set ?ready) (fold (release outgoing) ?ready ind)"
      unfolding 1(3) by (intro plan_inv_fold [OF assms(1) 1(2)]) (auto simp: ready_list_def)
    then have "layered graph (D \<union> set ?ready) (Suc i) (batch_loop outgoing (fold (release outgoing) ?ready ind) (Suc i))"
      using 1(1) [OF ready [symmetric] False _ 1(3)] ready by simp
    moreover have "batch_loop outgoing ind i = \<lparr> eb_batch_index = i, eb_addresses = ?ready \<rparr> #
        batch_loop outgoing (fold (release outgoing) ?ready ind) (Suc i)"
      using False by (subst batch_loop.simps) (simp only: Let_def ready if_False)
    ultimately show ?thesis using False by simp
  qed
qed

lemma resolve_layered:
  assumes "well_formed graph"
  shows "layered graph {} 0 (resolve_batches graph)"
proof -
  let ?ind = "dict_of pn_address (\<lambda>node. int (length (dict_get (fst (build_dependency_maps graph)) (pn_address node) []))) (pg_nodes graph)"
  have dist: "distinct (node_addresses graph)" and cons: "consistent_graph graph"
    using assms by (simp_all add: well_formed_def valid_graph_def)
  have len: "length (dict_get (fst (build_dependency_maps graph)) v []) = card (deps graph v)" for v
    using nbrs_reverse(2) [OF cons, of v] incoming_deps(1) [OF assms, of v]
    by (metis build_dependency_maps_def distinct_card fst_conv nbrs_def)
  have "map_of ?ind v = degrees (graph_nodes graph) (plain_succ graph) {} v" for v
  proof (cases "v \<in> graph_nodes graph")
    case True
    then obtain n where "n \<in> set (pg_nodes graph)" "pn_address n = v" by auto
    then have "map_of ?ind v = Some (int (card (deps graph v)))"
      using map_of_dict_of_inj [OF dist, of n] len by auto
    with True show ?thesis by (simp only: degrees_def plain_succ_rel(3) [OF assms] if_True Diff_empty)
  next
    case False
    then have "map_of ?ind v = None" using map_of_dict_of_None by (metis set_map)
    with False show ?thesis by (simp add: degrees_def del: map_of_eq_None_iff)
  qed
  moreover have "dict_keys ?ind = node_addresses graph" using dist by (simp add: dict_of_distinct)
  ultimately have "plan_inv graph {} ?ind" by (simp add: plan_inv_def)
  from batch_loop_layered [OF assms this refl, of 0] show ?thesis
    by (simp add: resolve_batches_def build_dependency_maps_def Let_def)
qed

text \<open>What a layered list of batches covers.\<close>

lemma layered_props:
  assumes "well_formed graph"
  shows "layered graph D i bs \<Longrightarrow> D \<subseteq> graph_nodes graph \<Longrightarrow>
    distinct (concat (map eb_addresses bs)) \<and> set (concat (map eb_addresses bs)) \<subseteq> graph_nodes graph - D \<and>
    ready_list graph (D \<union> set (concat (map eb_addresses bs))) = [] \<and>
    (\<forall>k < length bs. \<forall>v \<in> set (eb_addresses (bs ! k)). deps graph v \<subseteq> D \<union> set (concat (map eb_addresses (take k bs))))"
proof (induction bs arbitrary: D i)
  case (Cons b bs)
  let ?r = "ready_list graph D"
  have dist: "distinct (node_addresses graph)" using assms by (simp add: well_formed_def valid_graph_def)
  have b: "eb_addresses b = ?r" "layered graph (D \<union> set ?r) (Suc i) bs" using Cons.prems(1) by auto
  have r: "distinct ?r" "set ?r \<subseteq> graph_nodes graph - D" "\<forall>v \<in> set ?r. deps graph v \<subseteq> D"
    using dist by (auto simp: ready_list_def)
  have "D \<union> set ?r \<subseteq> graph_nodes graph" using Cons.prems(2) r(2) by blast
  from Cons.IH [OF b(2) this] have IH:
    "distinct (concat (map eb_addresses bs))" "set (concat (map eb_addresses bs)) \<subseteq> graph_nodes graph - (D \<union> set ?r)"
    "ready_list graph (D \<union> set ?r \<union> set (concat (map eb_addresses bs))) = []"
    "\<forall>k < length bs. \<forall>v \<in> set (eb_addresses (bs ! k)). deps graph v \<subseteq>
       D \<union> set ?r \<union> set (concat (map eb_addresses (take k bs)))" by blast+
  have "\<forall>k < length (b # bs). \<forall>v \<in> set (eb_addresses ((b # bs) ! k)). deps graph v \<subseteq>
      D \<union> set (concat (map eb_addresses (take k (b # bs))))"
  proof (intro allI impI ballI)
    fix k v assume "k < length (b # bs)" "v \<in> set (eb_addresses ((b # bs) ! k))"
    then show "deps graph v \<subseteq> D \<union> set (concat (map eb_addresses (take k (b # bs))))"
      using r(3) IH(4) b(1) by (cases k) (auto simp: Un_assoc)
  qed
  moreover have eq: "concat (map eb_addresses (b # bs)) = ?r @ concat (map eb_addresses bs)" by (simp add: b(1))
  moreover have "set ?r \<inter> set (concat (map eb_addresses bs)) = {}" using IH(2) by blast
  then have "distinct (concat (map eb_addresses (b # bs)))"
    using r(1) IH(1) by (simp only: eq distinct_append simp_thms)
  moreover have "set (concat (map eb_addresses (b # bs))) \<subseteq> graph_nodes graph - D"
    unfolding eq set_append using r(2) IH(2) by blast
  moreover have "ready_list graph (D \<union> set (concat (map eb_addresses (b # bs)))) = []"
    using IH(3) by (simp only: eq set_append Un_assoc)
  ultimately show ?case by blast
qed simp

section \<open>Runs without failures\<close>

lemma no_failures:
  assumes wf: "well_formed graph" and inv: "run_inv env policy graph st"
    and ok: "\<forall>v \<in> graph_nodes graph. succeeds env policy v"
  defines "R \<equiv> ru_node_results st"
  defines "D \<equiv> set (concat (map eb_addresses (ru_execution_batches st)))"
  shows "\<not> has_status R FAILED v" "has_status R COMPLETED v \<longleftrightarrow> v \<in> D"
    "v \<in> graph_nodes graph \<Longrightarrow> has_status R PENDING v \<longleftrightarrow> v \<notin> D"
proof -
  have known: "u \<in> graph_nodes graph" if "has_status R s u" for s u
    using has_status_known [OF that] run_invD(1) [OF inv] by (simp add: R_def del: set_map)
  show failed: "\<not> has_status R FAILED u" for u
  proof
    assume u: "has_status R FAILED u"
    from node_status(3) [OF run_invD(2) [OF inv known [OF u]]] u ok known [OF u] show False by (simp add: R_def del: set_map)
  qed
  show compl: "has_status R COMPLETED u \<longleftrightarrow> u \<in> D" for u
    using run_invD(3) [OF inv, of u] failed by (simp add: R_def D_def del: set_concat)
  assume v: "v \<in> graph_nodes graph"
  show "has_status R PENDING v \<longleftrightarrow> v \<notin> D"
  proof
    assume p: "has_status R PENDING v"
    then have "\<not> has_status R COMPLETED v" using has_status_unique [of R PENDING v COMPLETED] by auto
    with compl show "v \<notin> D" by blast
  next
    assume "v \<notin> D"
    then have "\<not> has_status R COMPLETED v" using compl by blast
    moreover have "node_ok env policy graph R v" using run_invD(2) [OF inv v] by (simp add: R_def)
    ultimately show "has_status R PENDING v"
      using failed ok v node_status(1,2) [of env policy graph R v] unfolding node_ok_def by blast
  qed
qed

lemma run_loop_layered:
  assumes wf: "well_formed graph" and ok: "\<forall>v \<in> graph_nodes graph. succeeds env policy v"
    and "run_inv env policy graph st" "incoming = fst (build_dependency_maps graph)"
    and "run_loop env policy incoming st = Inr st'"
  shows "\<exists>tail. ru_execution_batches st' = ru_execution_batches st @ tail \<and>
    layered graph (set (concat (map eb_addresses (ru_execution_batches st)))) (length (ru_execution_batches st)) tail"
  using assms
proof (induction env policy incoming st rule: run_loop.induct)
  case (1 env policy incoming st)
  let ?D = "set (concat (map eb_addresses (ru_execution_batches st)))"
  from mark_inv [OF 1(2,4)] obtain results where
    R: "mark_skipped_nodes env (ru_node_results st) incoming = Inr results"
      "run_inv env policy graph (st\<lparr> ru_node_results := results \<rparr>)"
    using 1(5) by blast
  have keys: "dict_keys results = node_addresses graph" using run_invD(1) [OF R(2)] by simp
  have stat: "has_status results COMPLETED v \<longleftrightarrow> v \<in> ?D"
    "v \<in> graph_nodes graph \<Longrightarrow> has_status results PENDING v \<longleftrightarrow> v \<notin> ?D" for v
    using no_failures(2,3) [OF 1(2) R(2) 1(3), of v] by (simp_all del: set_concat set_map)
  have "filter (\<lambda>v. has_status results PENDING v \<and> (\<forall>u \<in> deps graph v. has_status results COMPLETED u)) (node_addresses graph) =
      filter (\<lambda>v. v \<notin> ?D \<and> deps graph v \<subseteq> ?D) (node_addresses graph)"
    by (rule filter_cong [OF refl]) (use stat in blast)
  then have ready: "ready_nodes results incoming = Inr (ready_list graph ?D)"
    using ready_exact [OF 1(2) keys] 1(5) by (simp only: ready_list_def)
  show ?case
  proof (cases "ready_list graph ?D = []")
    case True
    then have "run_loop env policy incoming st = Inr (st\<lparr> ru_node_results := mark_unresolved_nodes env results \<rparr>)"
      using R(1) ready by (subst run_loop.simps) simp
    with 1(6) True show ?thesis by auto
  next
    case False
    let ?st = "run_batch env policy (ready_list graph ?D) (st\<lparr> ru_node_results := results \<rparr>)"
    have loop: "run_loop env policy incoming st = run_loop env policy incoming ?st"
      using R(1) ready False by (subst run_loop.simps) simp
    have "distinct (node_addresses graph)" using 1(2) by (simp add: well_formed_def valid_graph_def)
    then have dist: "distinct (ready_list graph ?D)" by (simp add: ready_list_def)
    have pend: "has_status results PENDING v \<and> (\<forall>u \<in> deps graph v. has_status results COMPLETED u)"
      if "v \<in> set (ready_list graph ?D)" for v using that stat unfolding set_ready_list by blast
    have inv: "run_inv env policy graph ?st"
      using False dist pend by (intro batch_inv [OF 1(2) R(2)]) (auto simp: ready_list_def)
    have "\<forall>a \<in> set (ready_list graph ?D). map_of results a = Some (pending_result a)"
    proof
      fix a assume a: "a \<in> set (ready_list graph ?D)"
      then have "a \<in> graph_nodes graph" unfolding set_ready_list by blast
      with node_status(1) [OF run_invD(2) [OF R(2)]] pend [OF a]
      show "map_of results a = Some (pending_result a)" by (simp del: set_map)
    qed
    then have bs: "ru_execution_batches ?st = ru_execution_batches st @
        [\<lparr> eb_batch_index = length (ru_execution_batches st), eb_addresses = ready_list graph ?D \<rparr>]"
      using fold_apply_exact [OF dist, of "st\<lparr> ru_node_results := results, ru_execution_batches := ru_execution_batches st @
          [\<lparr> eb_batch_index = length (ru_execution_batches st), eb_addresses = ready_list graph ?D \<rparr>],
          ru_metrics := record_batch (ru_metrics st) \<rparr>" env policy]
      by (simp add: run_batch_def Let_def)
    have "run_loop env policy incoming ?st = Inr st'" using loop 1(6) by simp
    from 1(1) [OF R(1) ready False 1(2,3) inv 1(5) this] obtain tail where
      "ru_execution_batches st' = ru_execution_batches ?st @ tail"
      "layered graph (set (concat (map eb_addresses (ru_execution_batches ?st)))) (length (ru_execution_batches ?st)) tail"
      by blast
    with bs False show ?thesis
      by (intro exI [of _ "\<lparr> eb_batch_index = length (ru_execution_batches st), eb_addresses = ready_list graph ?D \<rparr> # tail"])
        simp
  qed
qed

section \<open>Properties\<close>

definition demo_analysis :: ContractAnalysis where
  "demo_analysis = \<lparr> ca_risk_score = Dec 2500 2, ca_risk_level = ''low'', ca_risk_reasons = [],
     ca_is_contract = True, ca_is_upgradeable = False \<rparr>"

definition scan_now :: datetime where
  "scan_now = \<lparr> dt_wall = 0, dt_off = Some 0 \<rparr>"

definition demo_timing :: ScanTimingInfo where
  "demo_timing = \<lparr> ti_started_at = scan_now, ti_completed_at = scan_now, ti_total_duration_ms = 7 \<rparr>"

text \<open>Scans that always succeed, except that the first attempt on \<open>flaky\<close> times out.\<close>

definition demo_env :: "string \<Rightarrow> scan_env" where
  "demo_env flaky = \<lparr> se_attempt = (\<lambda>a k. if a = flaky \<and> k = 0 then Inl ''timeout'' else Inr demo_analysis),
     se_started_at = (\<lambda>_. scan_now), se_completed_at = (\<lambda>_. scan_now), se_duration_ms = (\<lambda>_. 1) \<rparr>"

abbreviation demo_policy :: "int \<Rightarrow> RetryPolicy" where
  "demo_policy n \<equiv> \<lparr> rp_max_attempts = n, rp_delay_seconds = 0 \<rparr>"

lemma retry_loop_exact:
  "case retry_loop op i n err of
     Inr (x, k) \<Rightarrow> i \<le> k \<and> k < i + n \<and> op k = Inr x \<and> (\<forall>j. i \<le> j \<longrightarrow> j < k \<longrightarrow> (\<exists>e. op j = Inl e))
   | Inl e \<Rightarrow> (\<forall>j. i \<le> j \<longrightarrow> j < i + n \<longrightarrow> (\<exists>e. op j = Inl e)) \<and>
       e = RetryExhaustedError (if n = 0 then err else projl (op (i + n - 1)))"
proof (induction op i n err rule: retry_loop.induct)
  case (2 op i n err)
  show ?case
  proof (cases "op i")
    case (Inl exc)
    have ge: "\<forall>j. i \<le> j \<longrightarrow> j < k \<longrightarrow> (\<exists>e. op j = Inl e)" if "\<forall>j. Suc i \<le> j \<longrightarrow> j < k \<longrightarrow> (\<exists>e. op j = Inl e)" for k
      using that Inl by (metis le_antisym not_less_eq_eq)
    from 2 [OF Inl] show ?thesis
      using ge Inl by (cases "retry_loop op (Suc i) n exc") (auto split: prod.splits)
  qed simp
qed simp

text \<open>
  Property C25. Retries are bounded and honest: with a valid policy an operation is tried at most
  \<open>max_attempts\<close> times; it returns the result of the first attempt that succeeds with the number of
  failures before it, and raises \<open>RetryExhaustedError\<close> with the text of the last failure exactly
  when all of them fail.
\<close>

theorem retry_bounded:
  assumes "make_retry_policy n delay = Inr policy"
  shows "case execute_with_retry op policy of
      Inr (x, k) \<Rightarrow> int k < n \<and> op k = Inr x \<and> (\<forall>j < k. \<exists>e. op j = Inl e)
    | Inl e \<Rightarrow> (\<forall>j. int j < n \<longrightarrow> (\<exists>e. op j = Inl e)) \<and> e = RetryExhaustedError (projl (op (nat n - 1)))"
proof -
  from assms have n: "1 \<le> n" "rp_max_attempts policy = n" by (auto simp: make_retry_policy_def split: if_splits)
  have "int k < n \<longleftrightarrow> k < nat n" for k using n(1) by linarith
  then show ?thesis using retry_loop_exact [where op = op and i = 0 and n = "nat n" and err = "[]"] n
    by (simp add: execute_with_retry_def split: sum.splits prod.splits)
qed

theorem retry_bounded_witness:
  "execute_with_retry (se_attempt (demo_env ''0xa'') ''0xa'') (demo_policy 3) = Inr (demo_analysis, 1) \<and>
   (\<exists>e. se_attempt (demo_env ''0xa'') ''0xa'' 0 = Inl e)"
proof -
  have "make_retry_policy 3 0 = Inr (demo_policy 3)" by code_simp
  note bounded = retry_bounded [OF this, of "se_attempt (demo_env ''0xa'') ''0xa''"]
  have "execute_with_retry (se_attempt (demo_env ''0xa'') ''0xa'') (demo_policy 3) = Inr (demo_analysis, 1)"
    by code_simp
  with bounded show ?thesis by simp
qed

text \<open>
  The static plan is sound and complete on well-formed graphs: no node occurs twice in
  the batches, the batches are numbered from 0, every dependency of a node lies in a strictly
  earlier batch, and the plan covers all nodes exactly when the edges have no cycle.
\<close>

theorem plan_exact:
  assumes "well_formed graph"
  shows "let bs = map eb_addresses (resolve_batches graph) in
    resolve_execution_order graph = concat bs \<and> distinct (concat bs) \<and> set (concat bs) \<subseteq> set (node_addresses graph) \<and>
    (\<forall>k < length bs. \<forall>v \<in> set (bs ! k). \<forall>u. (u, v) \<in> graph_rel graph \<longrightarrow> u \<in> set (concat (take k bs))) \<and>
    (set (concat bs) = set (node_addresses graph) \<longleftrightarrow> acyclic (graph_rel graph))"
proof -
  let ?bs = "resolve_batches graph" and ?N = "graph_nodes graph" and ?S = "plain_succ graph"
  let ?cat = "concat (map eb_addresses ?bs)"
  from layered_props [OF assms resolve_layered [OF assms]] have L: "distinct ?cat" "set ?cat \<subseteq> ?N"
    "ready_list graph (set ?cat) = []"
    "\<forall>k < length ?bs. \<forall>v \<in> set (eb_addresses (?bs ! k)). deps graph v \<subseteq> set (concat (map eb_addresses (take k ?bs)))"
    by simp_all
  have rel: "succ_rel ?N ?S = graph_rel graph"
    using plain_succ_rel(1) [OF assms] wf_edge(1) [OF assms] by (auto simp: succ_rel_def)
  have closed: "\<forall>u \<in> ?N. set (?S u) \<subseteq> ?N"
    using plain_succ_rel(1) [OF assms] wf_edge(2) [OF assms] by blast
  have acyclic: "set ?cat = ?N \<longleftrightarrow> acyclic (graph_rel graph)"
  proof
    assume cover: "set ?cat = ?N"
    have "deps_first ?N ?S (concat (map eb_addresses (take k ?bs)))" if "k \<le> length ?bs" for k
      using that
    proof (induction k)
      case (Suc k)
      have "concat (map eb_addresses (take (Suc k) ?bs)) = concat (map eb_addresses (take k ?bs)) @ eb_addresses (?bs ! k)"
        using Suc.prems by (simp add: take_Suc_conv_app_nth)
      moreover have "\<forall>v \<in> set (eb_addresses (?bs ! k)). unmet ?N ?S (set (concat (map eb_addresses (take k ?bs)))) v = {}"
        using L(4) Suc.prems by (simp only: plain_succ_rel(3) [OF assms] Diff_eq_empty_iff Suc_le_eq simp_thms) blast
      ultimately show ?case using Suc deps_first_append by (metis Suc_leD)
    qed simp
    from this [of "length ?bs"] have "deps_first ?N ?S ?cat" by simp
    from deps_first_acyclic [OF this] cover closed L(1) rel show "acyclic (graph_rel graph)" by simp
  next
    assume "acyclic (graph_rel graph)"
    then have ac: "acyclic (succ_rel ?N ?S)" using rel by simp
    have "v \<in> set ?cat" if "v \<in> ?N" "unmet ?N ?S (set ?cat) v = {}" for v
    proof (rule ccontr)
      assume "v \<notin> set ?cat"
      moreover have "deps graph v \<subseteq> set ?cat" using that(2) by (simp only: plain_succ_rel(3) [OF assms] Diff_eq_empty_iff)
      ultimately have "v \<in> set (ready_list graph (set ?cat))" using that(1) unfolding set_ready_list by blast
      with L(3) show False by simp
    qed
    with all_done [OF ac finite_set closed L(2)] show "set ?cat = ?N" by blast
  qed
  have "u \<in> set (concat (take k (map eb_addresses ?bs)))"
    if "k < length (map eb_addresses ?bs)" "v \<in> set (map eb_addresses ?bs ! k)" "(u, v) \<in> graph_rel graph" for k u v
  proof -
    have "deps graph v \<subseteq> set (concat (map eb_addresses (take k ?bs)))" using L(4) that(1,2) by simp
    with that(3) show ?thesis by (simp only: take_map deps_def) blast
  qed
  with L(1,2) acyclic show ?thesis
    unfolding Let_def resolve_execution_order_def by blast
qed

theorem plan_exact_witness:
  "resolve_execution_order (assemble_graph sample_discovery) = [''0xc'', ''0xa'', ''0xb''] \<and>
   acyclic (graph_rel (assemble_graph sample_discovery))"
proof -
  have order: "resolve_execution_order (assemble_graph sample_discovery) = [''0xc'', ''0xa'', ''0xb'']" by code_simp
  have "set (node_addresses (assemble_graph sample_discovery)) = {''0xc'', ''0xa'', ''0xb''}" by code_simp
  with order plan_exact [OF sample_well_formed] show ?thesis unfolding Let_def by simp
qed

text \<open>
  When every scan succeeds, a run on a well-formed graph executes exactly the batches
  of the static plan.
\<close>

theorem run_follows_plan:
  assumes "well_formed graph" "\<forall>v \<in> set (node_addresses graph). ns_status (scan env policy v) = COMPLETED"
  shows "\<exists>r. run env policy timing graph = Inr r \<and> sr_execution_batches r = resolve_batches graph"
proof -
  have ok: "\<forall>v \<in> graph_nodes graph. succeeds env policy v" using assms(2) by (simp add: succeeds_def)
  from run_loop_ends [OF assms(1) initial_inv [OF assms(1)] refl] obtain st' where
    loop: "run_loop env policy (fst (build_dependency_maps graph)) (initial_run graph) = Inr st'" by blast
  from run_loop_layered [OF assms(1) ok initial_inv [OF assms(1)] refl this]
  have "layered graph {} 0 (ru_execution_batches st')" by (simp add: initial_run_def)
  with resolve_layered [OF assms(1)] have "ru_execution_batches st' = resolve_batches graph"
    by (rule layered_unique [rotated])
  with loop show ?thesis by (simp add: run_def scan_result_def Let_def)
qed

theorem run_follows_plan_witness:
  "\<exists>r. run (demo_env ''0xa'') (demo_policy 3) demo_timing (assemble_graph sample_discovery) = Inr r \<and>
     sr_execution_batches r = resolve_batches (assemble_graph sample_discovery)"
proof -
  have "\<forall>v \<in> set (node_addresses (assemble_graph sample_discovery)).
      ns_status (scan (demo_env ''0xa'') (demo_policy 3) v) = COMPLETED" by code_simp
  then show ?thesis by (rule run_follows_plan [OF sample_well_formed])
qed

section \<open>The outcome of a run\<close>

lemma result_list:
  assumes wf: "well_formed graph" and keys: "dict_keys R = node_addresses graph"
    and entries: "\<And>v. v \<in> graph_nodes graph \<Longrightarrow> \<exists>x. map_of R v = Some x \<and> ns_address x = v"
  defines "xs \<equiv> List.map_filter (map_of R) (map pn_address (sort_key pn_address (pg_nodes graph)))"
  shows "map ns_address xs = sort (node_addresses graph)"
    and "x \<in> set xs \<longleftrightarrow> ns_address x \<in> graph_nodes graph \<and> map_of R (ns_address x) = Some x"
proof -
  have sorted: "map pn_address (sort_key pn_address (pg_nodes graph)) = sort (node_addresses graph)"
    by (rule properties_for_sort [symmetric]) simp_all
  have "map ns_address (List.map_filter (map_of R) vs) = vs" if "set vs \<subseteq> graph_nodes graph" for vs
    using that
  proof (induction vs)
    case (Cons v vs)
    then obtain x where "map_of R v = Some x" "ns_address x = v" using entries [of v] by auto
    with Cons show ?case by (simp add: List.map_filter_simps del: map_of_eq_Some_iff)
  qed (simp add: List.map_filter_simps)
  from this [of "sort (node_addresses graph)"] show "map ns_address xs = sort (node_addresses graph)"
    by (simp add: xs_def sorted)
  have "x \<in> set xs \<longleftrightarrow> (\<exists>v \<in> graph_nodes graph. map_of R v = Some x)"
    by (simp add: xs_def sorted in_map_filter del: map_of_eq_Some_iff)
  then show "x \<in> set xs \<longleftrightarrow> ns_address x \<in> graph_nodes graph \<and> map_of R (ns_address x) = Some x"
    using entries by (metis option.inject)
qed

lemma run_results:
  assumes wf: "well_formed graph"
  shows "\<exists>st r. run env policy timing graph = Inr r \<and> run_inv env policy graph st \<and>
    r = scan_result timing graph (st\<lparr> ru_node_results := mark_unresolved_nodes env (ru_node_results st) \<rparr>) \<and>
    map ns_address (sr_node_results r) = sort (node_addresses graph) \<and>
    (\<forall>x. x \<in> set (sr_node_results r) \<longleftrightarrow> ns_address x \<in> graph_nodes graph \<and>
       map_of (mark_unresolved_nodes env (ru_node_results st)) (ns_address x) = Some x) \<and>
    stuck graph (ru_node_results st)"
proof -
  from run_exact [OF wf, of env policy timing] obtain st where
    st: "run env policy timing graph =
        Inr (scan_result timing graph (st\<lparr> ru_node_results := mark_unresolved_nodes env (ru_node_results st) \<rparr>))"
      "run_inv env policy graph st" "stuck graph (ru_node_results st)" by blast
  let ?R = "mark_unresolved_nodes env (ru_node_results st)"
  have keys: "dict_keys ?R = node_addresses graph" using run_invD(1) [OF st(2)] mark_unresolved_exact(2) by simp
  have "\<exists>x. map_of ?R v = Some x \<and> ns_address x = v" if "v \<in> graph_nodes graph" for v
    using final_results(1) [OF wf st(2,3) that] by auto
  note list = result_list [OF wf keys this]
  have "sr_node_results (scan_result timing graph (st\<lparr> ru_node_results := ?R \<rparr>)) =
      List.map_filter (map_of ?R) (map pn_address (sort_key pn_address (pg_nodes graph)))"
    by (simp add: scan_result_def Let_def)
  with st list show ?thesis by (intro exI [of _ st]) (simp del: map_of_eq_Some_iff set_map)
qed

lemma all_dependencies:
  assumes wf: "well_formed graph"
    and mem: "\<forall>x. x \<in> set xs \<longleftrightarrow> ns_address x \<in> graph_nodes graph \<and> map_of R (ns_address x) = Some x"
    and known: "\<forall>u \<in> graph_nodes graph. \<exists>x. map_of R u = Some x \<and> ns_address x = u"
  shows "(\<forall>y \<in> set xs. (ns_address y, v) \<in> graph_rel graph \<longrightarrow> ns_status y = s) \<longleftrightarrow> (\<forall>u \<in> deps graph v. has_status R s u)"
    and "(\<exists>y \<in> set xs. (ns_address y, v) \<in> graph_rel graph \<and> ns_status y = s) \<longleftrightarrow> (\<exists>u \<in> deps graph v. has_status R s u)"
proof -
  have step: "(\<exists>y \<in> set xs. ns_address y = u \<and> P (ns_status y)) \<longleftrightarrow> (\<exists>t. has_status R t u \<and> P t)" if u: "u \<in> deps graph v" for u P
  proof -
    have "u \<in> graph_nodes graph" using incoming_deps(2) [OF wf] u by blast
    with known obtain x where "map_of R u = Some x" "ns_address x = u" by blast
    then show ?thesis using mem \<open>u \<in> graph_nodes graph\<close>
      by (auto simp: has_status_def simp del: map_of_eq_Some_iff set_map)
  qed
  have iff: "(\<exists>y \<in> set xs. (ns_address y, v) \<in> graph_rel graph \<and> P (ns_status y)) \<longleftrightarrow>
      (\<exists>u \<in> deps graph v. \<exists>t. has_status R t u \<and> P t)" for P
  proof -
    have "(\<exists>y \<in> set xs. (ns_address y, v) \<in> graph_rel graph \<and> P (ns_status y)) \<longleftrightarrow>
        (\<exists>u \<in> deps graph v. \<exists>y \<in> set xs. ns_address y = u \<and> P (ns_status y))"
      unfolding deps_def by blast
    with step show ?thesis by simp
  qed
  from iff [of "\<lambda>t. t = s"] show "(\<exists>y \<in> set xs. (ns_address y, v) \<in> graph_rel graph \<and> ns_status y = s) \<longleftrightarrow>
      (\<exists>u \<in> deps graph v. has_status R s u)" by simp
  have "(\<exists>t. has_status R t u \<and> t \<noteq> s) \<longleftrightarrow> \<not> has_status R s u" if u: "u \<in> deps graph v" for u
  proof -
    have "u \<in> graph_nodes graph" using incoming_deps(2) [OF wf] u by blast
    with known obtain x where "map_of R u = Some x" by blast
    then show ?thesis by (simp add: has_status_def del: map_of_eq_Some_iff)
  qed
  with iff [of "\<lambda>t. t \<noteq> s"] show "(\<forall>y \<in> set xs. (ns_address y, v) \<in> graph_rel graph \<longrightarrow> ns_status y = s) \<longleftrightarrow>
      (\<forall>u \<in> deps graph v. has_status R s u)" by blast
qed

text \<open>
  Property C1. A run on a well-formed graph always ends with a result, whatever the scans do, cycles
  included. It reports every node once, sorted by address, and each with the outcome its
  dependencies dictate: its scan when all of them completed, and otherwise a skip, because of a
  failed dependency when there is one and as unresolved when not.
\<close>

theorem run_outcomes:
  assumes "well_formed graph"
  shows "\<exists>r. run env policy timing graph = Inr r \<and>
    map ns_address (sr_node_results r) = sort (node_addresses graph) \<and>
    (\<forall>x \<in> set (sr_node_results r). x =
       (if \<forall>y \<in> set (sr_node_results r). (ns_address y, ns_address x) \<in> graph_rel graph \<longrightarrow> ns_status y = COMPLETED
        then scan env policy (ns_address x)
        else skipped env (ns_address x)
          (if \<exists>y \<in> set (sr_node_results r). (ns_address y, ns_address x) \<in> graph_rel graph \<and> ns_status y = FAILED
           then ''dependency_failed'' else ''unresolved_dependencies'')))"
proof -
  from run_results [OF assms, of env policy timing] obtain st r where
    r: "run env policy timing graph = Inr r" "run_inv env policy graph st" "stuck graph (ru_node_results st)"
      "map ns_address (sr_node_results r) = sort (node_addresses graph)"
    and mem: "\<forall>x. x \<in> set (sr_node_results r) \<longleftrightarrow> ns_address x \<in> graph_nodes graph \<and>
       map_of (mark_unresolved_nodes env (ru_node_results st)) (ns_address x) = Some x" by blast
  note final = final_results(1) [OF assms r(2,3)]
  have known: "\<forall>u \<in> graph_nodes graph. \<exists>x. map_of (mark_unresolved_nodes env (ru_node_results st)) u = Some x \<and> ns_address x = u"
    using final by (simp del: set_map)
  have "x = (if \<forall>y \<in> set (sr_node_results r). (ns_address y, ns_address x) \<in> graph_rel graph \<longrightarrow> ns_status y = COMPLETED
        then scan env policy (ns_address x)
        else skipped env (ns_address x)
          (if \<exists>y \<in> set (sr_node_results r). (ns_address y, ns_address x) \<in> graph_rel graph \<and> ns_status y = FAILED
           then ''dependency_failed'' else ''unresolved_dependencies''))"
    if "x \<in> set (sr_node_results r)" for x
  proof -
    from mem that have x: "ns_address x \<in> graph_nodes graph"
      "map_of (mark_unresolved_nodes env (ru_node_results st)) (ns_address x) = Some x" by blast+
    from trans [OF x(2) [symmetric] final [OF x(1)]] show ?thesis
      unfolding all_dependencies [OF assms mem known] by (simp only: option.inject)
  qed
  with r(1,4) show ?thesis by blast
qed

theorem run_outcomes_witness:
  "\<exists>r. run (demo_env ''0xa'') (demo_policy 1) demo_timing (assemble_graph sample_discovery) = Inr r \<and>
     map ns_address (sr_node_results r) = [''0xa'', ''0xb'', ''0xc'']"
proof -
  have "sort (node_addresses (assemble_graph sample_discovery)) = [''0xa'', ''0xb'', ''0xc'']" by code_simp
  with run_outcomes [OF sample_well_formed, of "demo_env ''0xa''" "demo_policy 1" demo_timing] show ?thesis by metis
qed

text \<open>
  Property C2. Nothing is scanned early or twice: over the executed batches of a run on a
  well-formed graph no node repeats, every dependency of a scanned node completed in a strictly
  earlier batch, the execution order lists exactly the scans that completed in the order they ran,
  and there are at most as many batches as nodes.
\<close>

theorem run_respects_dependencies:
  assumes "well_formed graph" "run env policy timing graph = Inr r"
  shows "let bs = map eb_addresses (sr_execution_batches r) in
    distinct (concat bs) \<and> set (concat bs) \<subseteq> set (node_addresses graph) \<and> length bs \<le> length (pg_nodes graph) \<and>
    sr_execution_order r = filter (\<lambda>v. ns_status (scan env policy v) = COMPLETED) (concat bs) \<and>
    sr_completed_nodes r = sr_execution_order r \<and>
    (\<forall>k < length bs. \<forall>v \<in> set (bs ! k). \<forall>u. (u, v) \<in> graph_rel graph \<longrightarrow>
       u \<in> set (concat (take k bs)) \<and> u \<in> set (sr_completed_nodes r))"
proof -
  from run_results [OF assms(1), of env policy timing] assms(2) obtain st where
    inv: "run_inv env policy graph st" "stuck graph (ru_node_results st)"
    and r: "r = scan_result timing graph (st\<lparr> ru_node_results := mark_unresolved_nodes env (ru_node_results st) \<rparr>)"
    by auto
  let ?bs = "ru_execution_batches st" and ?R = "mark_unresolved_nodes env (ru_node_results st)"
  let ?cat = "concat (map eb_addresses ?bs)"
  have bs: "sr_execution_batches r = ?bs" "sr_execution_order r = ru_execution_order st"
    by (simp_all add: r scan_result_def Let_def)
  have order: "ru_execution_order st = filter (succeeds env policy) ?cat" using run_invD(5) [OF inv(1)] .
  have ok: "distinct ?cat" "\<forall>k < length ?bs. eb_addresses (?bs ! k) \<noteq> [] \<and>
      (\<forall>v \<in> set (eb_addresses (?bs ! k)). deps graph v \<subseteq>
         {u \<in> set (concat (map eb_addresses (take k ?bs))). succeeds env policy u})"
    using run_invD(4) [OF inv(1)] unfolding batches_ok_def by blast+
  have keys: "dict_keys (ru_node_results st) = node_addresses graph" using run_invD(1) [OF inv(1)] .
  have nodes: "set ?cat \<subseteq> graph_nodes graph"
    using run_invD(3) [OF inv(1)] has_status_known keys by (metis subsetI)
  have "has_status ?R COMPLETED v" if "v \<in> set (ru_execution_order st)" for v
  proof -
    have v: "v \<in> set ?cat" "succeeds env policy v" using that order by auto
    then have "node_ok env policy graph (ru_node_results st) v" using run_invD(2) [OF inv(1)] nodes by blast
    with v run_invD(3) [OF inv(1), of v] node_status(2,3) have "has_status (ru_node_results st) COMPLETED v" by blast
    then show ?thesis using final_results(2) [OF assms(1) inv] by blast
  qed
  then have completed: "sr_completed_nodes r = ru_execution_order st"
    by (simp add: r scan_result_def Let_def has_status_def filter_id_conv)
  have "length (map eb_addresses ?bs) \<le> length (concat (map eb_addresses ?bs))"
  proof -
    have "\<forall>xs \<in> set xss. xs \<noteq> [] \<Longrightarrow> length xss \<le> length (concat xss)" for xss :: "string list list"
    proof (induction xss)
      case (Cons xs xss)
      then have "1 \<le> length xs" "length xss \<le> length (concat xss)" by (auto simp: Suc_le_eq)
      then show ?case by simp
    qed simp
    moreover have "\<forall>xs \<in> set (map eb_addresses ?bs). xs \<noteq> []" using ok(2) by (auto simp: in_set_conv_nth)
    ultimately show ?thesis by blast
  qed
  also have "\<dots> \<le> length (pg_nodes graph)"
  proof -
    have "length ?cat = card (set ?cat)" using ok(1) by (simp only: distinct_card)
    also have "\<dots> \<le> card (graph_nodes graph)" using nodes by (rule card_mono [OF finite_set])
    also have "\<dots> \<le> length (pg_nodes graph)" using card_length [of "node_addresses graph"] by simp
    finally show ?thesis .
  qed
  finally have len: "length (map eb_addresses ?bs) \<le> length (pg_nodes graph)" .
  have "u \<in> set (concat (take k (map eb_addresses ?bs))) \<and> u \<in> set (ru_execution_order st)"
    if "k < length (map eb_addresses ?bs)" "v \<in> set (map eb_addresses ?bs ! k)" "(u, v) \<in> graph_rel graph" for k u v
  proof -
    have "u \<in> set (concat (map eb_addresses (take k ?bs)))" "succeeds env policy u"
      using ok(2) that by (auto simp: deps_def simp del: set_concat)
    moreover from this(1) have "u \<in> set ?cat"
      by (metis append_take_drop_id concat_append map_append set_append UnI1)
    ultimately show ?thesis by (simp only: order take_map set_filter) blast
  qed
  then show ?thesis
    using ok(1) nodes len unfolding Let_def bs completed order succeeds_def [abs_def] by blast
qed

theorem run_respects_dependencies_witness:
  "\<exists>r. run (demo_env ''0xa'') (demo_policy 3) demo_timing (assemble_graph sample_discovery) = Inr r \<and>
     sr_completed_nodes r = sr_execution_order r"
proof -
  have wf: "well_formed (assemble_graph sample_discovery)" by (rule sample_well_formed)
  from run_results [OF wf, of "demo_env ''0xa''" "demo_policy 3" demo_timing] obtain r
    where "run (demo_env ''0xa'') (demo_policy 3) demo_timing (assemble_graph sample_discovery) = Inr r" by blast
  with run_respects_dependencies [OF wf this] show ?thesis unfolding Let_def by blast
qed

end
