(* ===== verification/Correlation.thy ===== *)
theory Correlation
  imports RiskEvidence Stores
begin

text \<open>
  Risk correlation (\<open>risk/correlation/\<close>): the evidence index, the rule and finding models, the rule
  registry, the matcher, the six built-in rules and the engine.

  A rule handler is its metadata with its evaluator, as in \<open>CallableCorrelationRule\<close>. An evaluator
  may raise: \<open>x in {None, ''eoa''}\<close> is a \<open>TypeError\<close> for an unhashable \<open>x\<close>.
\<close>

section \<open>Evidence index (evidence\_index.py)\<close>

record EvidenceIndex =
  ix_evidence :: "RiskEvidence list"
  ix_by_id :: "(string, RiskEvidence) dict"
  ix_by_signal :: "(string, RiskEvidence list) dict"

definition add_signal ::
  "RiskEvidence \<Rightarrow> (string, RiskEvidence list) dict \<Rightarrow> (string, RiskEvidence list) dict" where
  "add_signal item d =
     (case py_get (ev_metadata item) key_signal of
        PyStr s \<Rightarrow> AList.update s (dict_get d s [] @ [item]) d
      | _ \<Rightarrow> d)"

definition evidence_index_of :: "RiskEvidence list \<Rightarrow> EvidenceIndex" where
  "evidence_index_of evidence =
     \<lparr>ix_evidence = evidence,
      ix_by_id = dict_of ev_id (\<lambda>e. e) evidence,
      ix_by_signal = fold add_signal evidence []\<rparr>"

definition get_item :: "EvidenceIndex \<Rightarrow> string \<Rightarrow> RiskEvidence option" where
  "get_item ix i = map_of (ix_by_id ix) i"

definition has_signal :: "EvidenceIndex \<Rightarrow> string \<Rightarrow> bool" where
  "has_signal ix s = (s \<in> set (dict_keys (ix_by_signal ix)))"

definition items_with_signal :: "EvidenceIndex \<Rightarrow> string \<Rightarrow> RiskEvidence list" where
  "items_with_signal ix s = dict_get (ix_by_signal ix) s []"

definition has_any_signal :: "EvidenceIndex \<Rightarrow> string list \<Rightarrow> bool" where
  "has_any_signal ix ss = list_ex (has_signal ix) ss"

definition has_signal_prefix :: "EvidenceIndex \<Rightarrow> string \<Rightarrow> bool" where
  "has_signal_prefix ix p = list_ex (prefix p) (dict_keys (ix_by_signal ix))"

fun hashable :: "pyval \<Rightarrow> bool" where
  "hashable (PyList xs) = False"
| "hashable (PyDict d) = False"
| "hashable v = True"

definition effective_type :: "RiskEvidence \<Rightarrow> pyval" where
  "effective_type item =
     (if py_get (ev_metadata item) key_owner_type \<noteq> PyNone
      then py_get (ev_metadata item) key_owner_type
      else py_get (ev_metadata item) key_admin_type)"

fun admin_loop :: "RiskEvidence list \<Rightarrow> bool result" where
  "admin_loop [] = Inr False"
| "admin_loop (item # items) =
     (if py_truthy (py_get (ev_metadata item) key_is_timelock) then Inr False
      else if \<not> hashable (effective_type item) then Inl (TypeError ''unhashable type'')
      else if effective_type item \<in> {PyNone, PyStr ''eoa''} then Inr True
      else admin_loop items)"

definition has_admin_eoa_without_timelock :: "EvidenceIndex \<Rightarrow> bool result" where
  "has_admin_eoa_without_timelock ix =
     (let admin_items = items_with_signal ix ''admin_address''
      in if admin_items = [] then Inr False
         else if has_signal ix ''has_timelock'' then Inr False
         else admin_loop admin_items)"

definition has_upgrade_authority :: "EvidenceIndex \<Rightarrow> bool" where
  "has_upgrade_authority ix \<longleftrightarrow> has_signal ix ''admin_address'' \<or> has_signal ix ''is_upgradeable''"

definition admin_capabilities :: "string list" where
  "admin_capabilities =
     [''mint_capability'', ''pause_capability'', ''blacklist_capability'', ''ownership_capability'']"

definition has_admin_capability :: "EvidenceIndex \<Rightarrow> bool" where
  "has_admin_capability ix = has_any_signal ix admin_capabilities"

definition has_low_wallet_reputation :: "EvidenceIndex \<Rightarrow> bool" where
  "has_low_wallet_reputation ix =
     has_any_signal ix [''wallet_known_scam'', ''tornado_funded_deployer'']"

fun confidence_rank :: "ConfidenceLevel \<Rightarrow> nat" where
  "confidence_rank ConfLow = 0"
| "confidence_rank ConfMedium = 1"
| "confidence_rank ConfHigh = 2"

text \<open>\<open>min(items, key=...)\<close>: the first of the smallest items.\<close>

definition pick_lower :: "RiskEvidence \<Rightarrow> RiskEvidence \<Rightarrow> RiskEvidence" where
  "pick_lower best item =
     (if confidence_rank (ev_confidence item) < confidence_rank (ev_confidence best)
      then item else best)"

definition aggregate_confidence :: "RiskEvidence list \<Rightarrow> ConfidenceLevel" where
  "aggregate_confidence items =
     (case items of
        [] \<Rightarrow> ConfLow
      | first # rest \<Rightarrow> ev_confidence (foldl pick_lower first rest))"

section \<open>Models (models.py)\<close>

datatype CorrelationImpact = ImpLow | ImpMedium | ImpHigh | ImpCritical
datatype CorrelationLikelihood = LikeLow | LikeMedium | LikeHigh

record CorrelationRule =
  cu_id :: string
  cu_title :: string
  cu_description :: string
  cu_severity :: EvidenceSeverity
  cu_impact :: CorrelationImpact
  cu_likelihood :: CorrelationLikelihood
  cu_score_delta :: decimal
  cu_priority :: int

record CorrelatedRiskFinding =
  cf_id :: string
  cf_title :: string
  cf_description :: string
  cf_severity :: EvidenceSeverity
  cf_confidence :: ConfidenceLevel
  cf_score_delta :: decimal
  cf_impact :: CorrelationImpact
  cf_likelihood :: CorrelationLikelihood
  cf_explanation :: string
  cf_evidence_ids :: "string list"
  cf_correlation_rule :: string
  cf_metadata :: metadata

record CorrelationResult =
  co_findings :: "CorrelatedRiskFinding list"
  co_evidence_count :: nat
  co_rules_evaluated :: nat

type_synonym evaluation = "CorrelatedRiskFinding option result"

record CorrelationRuleHandler =
  ch_definition :: CorrelationRule
  ch_evaluate :: "EvidenceIndex \<Rightarrow> evaluation"

definition callable_rule ::
  "CorrelationRule \<Rightarrow> (EvidenceIndex \<Rightarrow> CorrelationRule \<Rightarrow> evaluation) \<Rightarrow> CorrelationRuleHandler" where
  "callable_rule rule evaluate =
     \<lparr>ch_definition = rule, ch_evaluate = (\<lambda>ix. evaluate ix rule)\<rparr>"

section \<open>Registry (registry.py)\<close>

type_synonym CorrelationRuleRegistry = "(string, CorrelationRuleHandler) dict"

definition register_rule ::
  "CorrelationRuleHandler \<Rightarrow> CorrelationRuleRegistry \<Rightarrow> CorrelationRuleRegistry result" where
  "register_rule h reg =
     (let rule_id = cu_id (ch_definition h)
      in if rule_id \<in> set (dict_keys reg)
         then Inl (DuplicateCorrelationRuleError (''Correlation rule already registered: '' @ rule_id))
         else Inr (AList.update rule_id h reg))"

definition get_rule :: "CorrelationRuleRegistry \<Rightarrow> string \<Rightarrow> CorrelationRuleHandler option" where
  "get_rule reg rule_id = map_of reg rule_id"

text \<open>A caller that ignores the error sees a write-once store: the first handler of an id stays.\<close>

interpretation rules: write_once_store get_rule
  "\<lambda>h reg. case register_rule h reg of Inl e \<Rightarrow> reg | Inr reg' \<Rightarrow> reg'" "\<lambda>h. cu_id (ch_definition h)"
  by unfold_locales
    (simp_all add: get_rule_def register_rule_def Let_def fun_eq_iff
      flip: dom_map_of_keys del: set_map)

definition handler_key :: "CorrelationRuleHandler \<Rightarrow> int \<times> string" where
  "handler_key h = (cu_priority (ch_definition h), cu_id (ch_definition h))"

definition all_handlers :: "CorrelationRuleRegistry \<Rightarrow> CorrelationRuleHandler list" where
  "all_handlers reg = sort_key handler_key (dict_values reg)"

definition clear_rules :: "CorrelationRuleRegistry \<Rightarrow> CorrelationRuleRegistry" where
  "clear_rules reg = []"

section \<open>Matcher (matcher.py)\<close>

text \<open>The loop over the handlers with the rule ids and fingerprints seen so far.\<close>

fun match_loop ::
  "EvidenceIndex \<Rightarrow> CorrelationRuleHandler list \<Rightarrow> string list \<Rightarrow> string list list \<Rightarrow>
   CorrelatedRiskFinding list result" where
  "match_loop ix [] seen_rule_ids seen_fingerprints = Inr []"
| "match_loop ix (h # hs) seen_rule_ids seen_fingerprints =
     (if cu_id (ch_definition h) \<in> set seen_rule_ids
      then match_loop ix hs seen_rule_ids seen_fingerprints
      else bindR (ch_evaluate h ix) (\<lambda>evaluated.
        case evaluated of
          None \<Rightarrow> match_loop ix hs seen_rule_ids seen_fingerprints
        | Some finding \<Rightarrow>
            if cf_evidence_ids finding \<in> set seen_fingerprints
            then match_loop ix hs seen_rule_ids seen_fingerprints
            else bindR (match_loop ix hs (cu_id (ch_definition h) # seen_rule_ids)
                          (cf_evidence_ids finding # seen_fingerprints))
                   (\<lambda>findings. Inr (finding # findings))))"

definition match_rules ::
  "RiskEvidence list \<Rightarrow> CorrelationRuleHandler list \<Rightarrow> CorrelatedRiskFinding list result" where
  "match_rules evidence handlers = match_loop (evidence_index_of evidence) handlers [] []"

section \<open>Built-in rules (builtin\_rules.py)\<close>

definition make_finding ::
  "CorrelationRule \<Rightarrow> RiskEvidence list \<Rightarrow> string \<Rightarrow> metadata \<Rightarrow> evaluation" where
  "make_finding rule matched explanation metadata =
     Inr (Some
       \<lparr>cf_id = ''correlation:'' @ cu_id rule,
        cf_title = cu_title rule,
        cf_description = cu_description rule,
        cf_severity = cu_severity rule,
        cf_confidence = aggregate_confidence matched,
        cf_score_delta = cu_score_delta rule,
        cf_impact = cu_impact rule,
        cf_likelihood = cu_likelihood rule,
        cf_explanation = explanation,
        cf_evidence_ids = map ev_id matched,
        cf_correlation_rule = cu_id rule,
        cf_metadata = metadata\<rparr>)"

definition match_critical_governance_centralization ::
  "EvidenceIndex \<Rightarrow> CorrelationRule \<Rightarrow> evaluation" where
  "match_critical_governance_centralization ix rule =
     (if \<not> has_signal ix ''is_upgradeable'' then Inr None
      else bindR (has_admin_eoa_without_timelock ix) (\<lambda>eoa_admin.
        if \<not> eoa_admin then Inr None
        else make_finding rule
          (items_with_signal ix ''is_upgradeable'' @ items_with_signal ix ''admin_address'')
          (''Upgradeable proxy controlled by an EOA without timelock protection ''
           @ ''creates critical governance centralization.'')
          [(key_centralization_weight, PyInt 12), (key_threat_weight, PyInt 8)]))"

definition match_exit_liquidity_risk :: "EvidenceIndex \<Rightarrow> CorrelationRule \<Rightarrow> evaluation" where
  "match_exit_liquidity_risk ix rule =
     (if \<not> has_signal ix ''mint_capability'' then Inr None
      else if \<not> has_any_signal ix [''no_liquidity'', ''low_liquidity''] then Inr None
      else
        let liquidity_signal =
          (if has_signal ix ''no_liquidity'' then ''no_liquidity'' else ''low_liquidity'')
        in make_finding rule
          (items_with_signal ix ''mint_capability'' @ items_with_signal ix liquidity_signal)
          (''Unlimited mint capability combined with shallow or missing liquidity ''
           @ ''enables exit liquidity extraction.'')
          [(key_threat_weight, PyInt 10)])"

text \<open>\<open>str(item.metadata.get(''signal'', '''')).startswith(p)\<close>.\<close>

definition signal_starts :: "string \<Rightarrow> RiskEvidence \<Rightarrow> bool" where
  "signal_starts p item = prefix p (py_str (dict_get (ev_metadata item) key_signal (PyStr [])))"

definition match_bridge_upgrade_risk :: "EvidenceIndex \<Rightarrow> CorrelationRule \<Rightarrow> evaluation" where
  "match_bridge_upgrade_risk ix rule =
     (if \<not> has_signal ix ''is_upgradeable'' then Inr None
      else
        let bridge_items = filter (signal_starts ''protocol_bridge'') (ix_evidence ix)
        in if bridge_items = [] then Inr None
           else make_finding rule (items_with_signal ix ''is_upgradeable'' @ bridge_items)
             (''Bridge integration on an upgradeable proxy increases the blast radius ''
              @ ''of malicious upgrades.'')
             [(key_threat_weight, PyInt 12)])"

definition match_oracle_manipulation_risk :: "EvidenceIndex \<Rightarrow> CorrelationRule \<Rightarrow> evaluation" where
  "match_oracle_manipulation_risk ix rule =
     (let oracle_items = filter (signal_starts ''protocol_oracle'') (ix_evidence ix)
      in if oracle_items = [] then Inr None
         else if \<not> has_upgrade_authority ix then Inr None
         else
           let authority_items =
             (if items_with_signal ix ''admin_address'' \<noteq> [] then items_with_signal ix ''admin_address''
              else items_with_signal ix ''is_upgradeable'')
           in make_finding rule (oracle_items @ authority_items)
             (''Oracle dependency combined with upgrade authority enables manipulation ''
              @ ''of pricing and dependent protocol logic.'')
             [(key_threat_weight, PyInt 14)])"

definition match_potential_rug_pull_pattern :: "EvidenceIndex \<Rightarrow> CorrelationRule \<Rightarrow> evaluation" where
  "match_potential_rug_pull_pattern ix rule =
     (if \<not> has_signal ix ''mint_capability'' then Inr None
      else if \<not> has_signal ix ''fresh_deployer'' then Inr None
      else if \<not> has_low_wallet_reputation ix then Inr None
      else make_finding rule
        (items_with_signal ix ''mint_capability'' @ items_with_signal ix ''fresh_deployer''
         @ (if items_with_signal ix ''wallet_known_scam'' \<noteq> []
            then items_with_signal ix ''wallet_known_scam''
            else items_with_signal ix ''tornado_funded_deployer''))
        (''Fresh deployment, weak wallet reputation, and mint capability form a ''
         @ ''classic rug-pull pattern.'')
        [(key_threat_weight, PyInt 16), (key_force_threat_critical, PyBool False)])"

definition match_centralized_administrative_control ::
  "EvidenceIndex \<Rightarrow> CorrelationRule \<Rightarrow> evaluation" where
  "match_centralized_administrative_control ix rule =
     (let privileged_items = items_with_signal ix ''privileged_entity''
      in if privileged_items = [] then Inr None
         else if \<not> has_admin_capability ix then Inr None
         else make_finding rule
           (privileged_items @ concat (map (items_with_signal ix) admin_capabilities))
           (''Concentrated privileged entities combined with administrative contract ''
            @ ''functions indicate centralized operational control.'')
           [(key_centralization_weight, PyInt 10)])"

definition builtin_rule ::
  "string \<Rightarrow> string \<Rightarrow> string \<Rightarrow> EvidenceSeverity \<Rightarrow> CorrelationImpact \<Rightarrow> CorrelationLikelihood \<Rightarrow>
   int \<Rightarrow> CorrelationRule" where
  "builtin_rule rule_id title description severity impact likelihood priority =
     \<lparr>cu_id = rule_id, cu_title = title, cu_description = description, cu_severity = severity,
      cu_impact = impact, cu_likelihood = likelihood, cu_score_delta = Dec 0 2,
      cu_priority = priority\<rparr>"

definition builtin_handlers :: "CorrelationRuleHandler list" where
  "builtin_handlers =
     [callable_rule
        (builtin_rule ''critical_governance_centralization'' ''Critical Governance Centralization''
           ''Upgradeable proxy with EOA upgrade authority and no timelock protection.''
           SevCritical ImpCritical LikeHigh 10)
        match_critical_governance_centralization,
      callable_rule
        (builtin_rule ''exit_liquidity_risk'' ''Exit Liquidity Risk''
           ''Unlimited mint capability paired with low or missing DEX liquidity.''
           SevHigh ImpHigh LikeMedium 20)
        match_exit_liquidity_risk,
      callable_rule
        (builtin_rule ''bridge_upgrade_risk'' ''Bridge Upgrade Risk''
           ''Bridge integration on an upgradeable proxy surface.''
           SevHigh ImpHigh LikeMedium 30)
        match_bridge_upgrade_risk,
      callable_rule
        (builtin_rule ''oracle_manipulation_risk'' ''Oracle Manipulation Risk''
           ''Oracle dependency combined with upgrade or admin authority.''
           SevHigh ImpHigh LikeMedium 40)
        match_oracle_manipulation_risk,
      callable_rule
        (builtin_rule ''potential_rug_pull_pattern'' ''Potential Rug Pull Pattern''
           ''Low wallet reputation, fresh deployment, and mint capability observed together.''
           SevCritical ImpCritical LikeHigh 50)
        match_potential_rug_pull_pattern,
      callable_rule
        (builtin_rule ''centralized_administrative_control'' ''Centralized Administrative Control''
           ''Privileged entity concentration with administrative contract functions.''
           SevHigh ImpHigh LikeMedium 60)
        match_centralized_administrative_control]"

fun register_all ::
  "CorrelationRuleHandler list \<Rightarrow> CorrelationRuleRegistry \<Rightarrow> CorrelationRuleRegistry result" where
  "register_all [] reg = Inr reg"
| "register_all (h # hs) reg = bindR (register_rule h reg) (register_all hs)"

definition register_builtin_rules ::
  "CorrelationRuleRegistry \<Rightarrow> CorrelationRuleRegistry result" where
  "register_builtin_rules reg = register_all builtin_handlers reg"

text \<open>
  The process-wide registry is created on first use; the argument is the registry created earlier, if
  any, and the result is both returned and remembered.
\<close>

definition get_default_registry ::
  "CorrelationRuleRegistry option \<Rightarrow> CorrelationRuleRegistry result" where
  "get_default_registry default_registry =
     (case default_registry of
        Some reg \<Rightarrow> Inr reg
      | None \<Rightarrow> register_builtin_rules [])"

section \<open>Engine (engine.py)\<close>

text \<open>
  \<open>registry or get_default_registry()\<close>: a registry without rules is false, so an engine that is
  given one works with the default registry instead.
\<close>

definition engine_registry ::
  "CorrelationRuleRegistry option \<Rightarrow> CorrelationRuleRegistry option \<Rightarrow>
   CorrelationRuleRegistry result" where
  "engine_registry registry default_registry =
     (case registry of
        Some reg \<Rightarrow> if length reg \<noteq> 0 then Inr reg else get_default_registry default_registry
      | None \<Rightarrow> get_default_registry default_registry)"

definition correlate ::
  "CorrelationRuleRegistry \<Rightarrow> RiskEvidence list \<Rightarrow> CorrelationResult result" where
  "correlate reg evidence =
     (let handlers = all_handlers reg
      in bindR (match_rules evidence handlers) (\<lambda>findings.
           Inr \<lparr>co_findings = findings, co_evidence_count = length evidence,
                co_rules_evaluated = length handlers\<rparr>))"

end
