(* ===== verification/RiskEngine.thy ===== *)
theory RiskEngine
  imports EvidenceBuilder Correlation
begin

text \<open>
  \<open>RiskEngine\<close> of \<open>services/risk_engine.py\<close>: the assessment of a contract from its risk evidence. The
  engine's own state is the rule registry of its correlation engine, an argument here. Metadata weights
  are read by \<open>py_weight\<close> (an \<open>isinstance\<close> test for numbers followed by \<open>int\<close>).
\<close>

definition has_signal_value :: "RiskEvidence list \<Rightarrow> string \<Rightarrow> bool" where
  "has_signal_value evidence signal =
     list_ex (\<lambda>e. py_eq (py_get (ev_metadata e) key_signal) (PyStr signal)) evidence"

definition weight_total :: "string \<Rightarrow> RiskEvidence list \<Rightarrow> int" where
  "weight_total key evidence =
     fold (\<lambda>e total. total + py_weight (dict_get (ev_metadata e) key (PyInt 0))) evidence 0"

definition threat_level :: "RiskEvidence list \<Rightarrow> ThreatLevel" where
  "threat_level evidence =
     (if list_ex (\<lambda>e. py_truthy (py_get (ev_metadata e) key_force_threat_critical)) evidence
      then ThreatCritical
      else
        let score = weight_total key_threat_weight evidence
        in if score > 74 then ThreatCritical
           else if score > 49 then ThreatHigh
           else if score > 24 then ThreatMedium
           else ThreatLow)"

definition centralization_level :: "RiskEvidence list \<Rightarrow> CentralizationLevel" where
  "centralization_level evidence =
     (let score = weight_total key_centralization_weight evidence
      in if score > 35 then CentralHigh
         else if score > 20 then CentralMedium
         else CentralLow)"

definition confidence_for_weight :: "int \<Rightarrow> ConfidenceLevel" where
  "confidence_for_weight score =
     (if score > 64 then ConfHigh else if score > 39 then ConfMedium else ConfLow)"

definition confidence_level :: "RiskEvidence list \<Rightarrow> ConfidenceLevel" where
  "confidence_level evidence = confidence_for_weight (weight_total key_confidence_weight evidence)"

definition score_to_level :: "decimal \<Rightarrow> RiskLevel" where
  "score_to_level score =
     (if dec_le score (Dec 3300 2) then RiskLow
      else if dec_le score (Dec 6600 2) then RiskMedium
      else RiskHigh)"

text \<open>\<open>CONFIDENCE_EOA_CONFIRMED\<close> is 45.\<close>

definition confidence_for_eoa :: ConfidenceLevel where
  "confidence_for_eoa = confidence_for_weight 45"

text \<open>The loop over the evidence: score and reasons so far.\<close>

definition score_step :: "RiskEvidence \<Rightarrow> decimal \<times> string list \<Rightarrow> decimal \<times> string list" where
  "score_step e = (\<lambda>(score, reasons).
     if ev_category e = CatConfidence then (score, reasons)
     else (dec_add score (ev_score e),
           if dec_coeff (ev_score e) \<noteq> 0 \<or> py_truthy (py_get (ev_metadata e) key_reason_only)
           then reasons @ [ev_reason e] else reasons))"

definition clamp_score :: "decimal \<Rightarrow> decimal" where
  "clamp_score score =
     (let upper = (if dec_less (Dec 10000 2) score then Dec 10000 2 else score)
      in if dec_less upper (Dec 0 2) then Dec 0 2 else upper)"

definition not_contract_assessment :: RiskAssessment where
  "not_contract_assessment =
     \<lparr>ra_risk_score = Dec 0 2,
      ra_risk_level = RiskLow,
      ra_risk_reasons = [''Target address has no contract bytecode''],
      ra_threat_level = ThreatLow,
      ra_centralization_level = CentralLow,
      ra_confidence_level = confidence_for_eoa\<rparr>"

definition evaluate_from_evidence ::
  "CorrelationRuleRegistry \<Rightarrow> RiskEvidence list \<Rightarrow> RiskAssessment result" where
  "evaluate_from_evidence reg evidence =
     (if has_signal_value evidence ''not_contract'' then Inr not_contract_assessment
      else bindR (correlate reg evidence) (\<lambda>correlation.
        case fold score_step evidence (Dec 0 2, []) of (item_score, reasons) \<Rightarrow>
          let score = clamp_score
                (fold (\<lambda>f total. dec_add total (cf_score_delta f)) (co_findings correlation) item_score)
          in Inr
            \<lparr>ra_risk_score = score,
             ra_risk_level = score_to_level score,
             ra_risk_reasons =
               (if reasons = [] then [''No upgradeability indicators detected''] else reasons),
             ra_threat_level = threat_level evidence,
             ra_centralization_level = centralization_level evidence,
             ra_confidence_level = confidence_level evidence\<rparr>))"

definition evaluate_contract_risk ::
  "EnumValues \<Rightarrow> datetime \<Rightarrow> CorrelationRuleRegistry \<Rightarrow> ContractRiskInput \<Rightarrow> RiskAssessment result"
  where
  "evaluate_contract_risk V clk reg findings =
     evaluate_from_evidence reg (from_contract_risk_input V clk findings)"

end
