(* ===== verification/CorrelationFacts.thy ===== *)
theory CorrelationFacts
  imports RiskEngine
begin

text \<open>
  The facts the risk scoring properties share: what the evidence index holds, what the matcher returns
  for handlers that do not raise, when each built-in rule applies, and what the scoring loop adds up.
\<close>

section \<open>The evidence index\<close>

definition signalled :: "string \<Rightarrow> RiskEvidence list \<Rightarrow> RiskEvidence list" where
  "signalled s evidence = filter (\<lambda>e. py_get (ev_metadata e) key_signal = PyStr s) evidence"

lemma dict_get_upd:
  "dict_get (AList.update k v d) k' dflt = (if k' = k then v else dict_get d k' dflt)"
  by (simp add: dict_get_def)

lemma dict_get_add_signal:
  "dict_get (add_signal e d) s [] =
     dict_get d s [] @ (if py_get (ev_metadata e) key_signal = PyStr s then [e] else [])"
  by (auto simp: add_signal_def dict_get_upd split: pyval.split)

lemma keys_add_signal:
  "s \<in> set (dict_keys (add_signal e d)) \<longleftrightarrow>
     s \<in> set (dict_keys d) \<or> py_get (ev_metadata e) key_signal = PyStr s"
  by (auto simp: add_signal_def keys_upd simp del: set_map split: pyval.split)

lemma dict_get_signals:
  "dict_get (fold add_signal evidence d) s [] = dict_get d s [] @ signalled s evidence"
  by (induction evidence arbitrary: d) (simp_all add: signalled_def dict_get_add_signal)

lemma keys_signals:
  "s \<in> set (dict_keys (fold add_signal evidence d)) \<longleftrightarrow>
     s \<in> set (dict_keys d) \<or> signalled s evidence \<noteq> []"
  by (induction evidence arbitrary: d) (auto simp: signalled_def keys_add_signal simp del: set_map)

lemma items_with_signal_index [simp]:
  "items_with_signal (evidence_index_of evidence) s = signalled s evidence"
  by (simp add: items_with_signal_def evidence_index_of_def dict_get_signals) (simp add: dict_get_def)

lemma has_signal_index [simp]:
  "has_signal (evidence_index_of evidence) s \<longleftrightarrow> signalled s evidence \<noteq> []"
  by (simp add: has_signal_def evidence_index_of_def keys_signals del: set_map)

lemma ix_evidence_index [simp]: "ix_evidence (evidence_index_of evidence) = evidence"
  by (simp add: evidence_index_of_def)

lemma set_signalled: "set (signalled s evidence) \<subseteq> set evidence"
  by (auto simp: signalled_def)

section \<open>The matcher\<close>

lemma disjoint_insert_subset: "a \<notin> A \<Longrightarrow> A \<inter> B = {} \<Longrightarrow> C \<subseteq> insert a B \<Longrightarrow> A \<inter> C = {}"
  by blast

text \<open>The findings of handlers that return: duplicates by evidence are dropped, the first is kept.\<close>

lemma match_loop_exact:
  assumes "\<And>h. h \<in> set hs \<Longrightarrow> ch_evaluate h ix = Inr (r h)"
    and "distinct (map (cu_id \<circ> ch_definition) hs)"
    and "(cu_id \<circ> ch_definition) ` set hs \<inter> set ids = {}"
  shows "match_loop ix hs ids fps = Inr (dedup_from cf_evidence_ids fps (List.map_filter r hs))"
  using assms
proof (induction hs arbitrary: ids fps)
  case (Cons h hs)
  have new: "cu_id (ch_definition h) \<notin> set ids" using Cons.prems(3) by auto
  have rest: "match_loop ix hs ids' fps' = Inr (dedup_from cf_evidence_ids fps' (List.map_filter r hs))"
    if "set ids' \<subseteq> insert (cu_id (ch_definition h)) (set ids)" for ids' fps'
  proof (rule Cons.IH)
    have "(cu_id \<circ> ch_definition) h \<notin> (cu_id \<circ> ch_definition) ` set hs"
      using Cons.prems(2) by (simp only: list.map distinct.simps set_map) blast
    moreover have "(cu_id \<circ> ch_definition) ` set hs \<inter> set ids = {}"
      using Cons.prems(3) by auto
    ultimately show "(cu_id \<circ> ch_definition) ` set hs \<inter> set ids' = {}"
      by (rule disjoint_insert_subset) (use that in simp)
    show "ch_evaluate h' ix = Inr (r h')" if "h' \<in> set hs" for h'
      using that Cons.prems(1) by simp
    show "distinct (map (cu_id \<circ> ch_definition) hs)" using Cons.prems(2) by (simp add: o_def)
  qed
  have here: "ch_evaluate h ix = Inr (r h)" using Cons.prems(1) by simp
  show ?case
    using new here rest [of ids, OF subset_insertI]
      rest [of "cu_id (ch_definition h) # ids", simplified list.set, OF subset_refl]
    by (cases "r h") (simp_all add: List.map_filter_simps)
qed (simp add: List.map_filter_simps)

section \<open>The default registry\<close>

definition default_registry :: CorrelationRuleRegistry where
  "default_registry = map (\<lambda>h. (cu_id (ch_definition h), h)) builtin_handlers"

lemma register_all_new:
  assumes "distinct (map (cu_id \<circ> ch_definition) hs)"
    and "set (dict_keys reg) \<inter> (cu_id \<circ> ch_definition) ` set hs = {}"
  shows "register_all hs reg = Inr (reg @ map (\<lambda>h. (cu_id (ch_definition h), h)) hs)"
  using assms
proof (induction hs arbitrary: reg)
  case (Cons h hs)
  have new: "cu_id (ch_definition h) \<notin> set (dict_keys reg)" using Cons.prems(2) by auto
  then have "register_rule h reg = Inr (reg @ [(cu_id (ch_definition h), h)])"
    by (simp add: register_rule_def update_new del: set_map)
  moreover have "register_all hs (reg @ [(cu_id (ch_definition h), h)]) =
      Inr ((reg @ [(cu_id (ch_definition h), h)]) @ map (\<lambda>h. (cu_id (ch_definition h), h)) hs)"
    by (rule Cons.IH) (use Cons.prems in auto)
  ultimately show ?case by simp
qed simp

lemma builtin_ids:
  "map (cu_id \<circ> ch_definition) builtin_handlers =
     [''critical_governance_centralization'', ''exit_liquidity_risk'', ''bridge_upgrade_risk'',
      ''oracle_manipulation_risk'', ''potential_rug_pull_pattern'',
      ''centralized_administrative_control'']"
  by (simp add: builtin_handlers_def callable_rule_def builtin_rule_def)

lemma distinct_builtin_ids: "distinct (map (cu_id \<circ> ch_definition) builtin_handlers)"
  unfolding builtin_ids by simp

lemma register_builtin_rules_default: "register_builtin_rules [] = Inr default_registry"
  using register_all_new [OF distinct_builtin_ids, of "[]"]
  by (simp add: register_builtin_rules_def default_registry_def)

lemma sorted_builtin: "sorted (map handler_key builtin_handlers)"
  by (simp add: builtin_handlers_def callable_rule_def builtin_rule_def handler_key_def less_eq_prod_def)

lemma all_handlers_default: "all_handlers default_registry = builtin_handlers"
proof -
  have "dict_values default_registry = builtin_handlers"
    by (simp add: default_registry_def o_def)
  moreover have "sort_key handler_key builtin_handlers = builtin_handlers"
    using sorted_builtin by (rule sort_key_id_if_sorted)
  ultimately show ?thesis by (simp add: all_handlers_def)
qed

text \<open>An engine that is given a registry without rules works with the default one.\<close>

lemma empty_registry_replaced: "engine_registry (Some (clear_rules reg)) None = Inr default_registry"
  by (simp add: engine_registry_def clear_rules_def get_default_registry_def
      register_builtin_rules_default)

section \<open>When a rule applies\<close>

text \<open>
  The conditions of the built-in rules over the evidence itself, and the evidence each rule cites.
\<close>

definition shows_signal :: "RiskEvidence list \<Rightarrow> string \<Rightarrow> bool" where
  "shows_signal evidence s = list_ex (\<lambda>e. py_get (ev_metadata e) key_signal = PyStr s) evidence"

definition marked_timelock :: "RiskEvidence \<Rightarrow> bool" where
  "marked_timelock e = py_truthy (py_get (ev_metadata e) key_is_timelock)"

definition eoa_controlled :: "RiskEvidence list \<Rightarrow> bool" where
  "eoa_controlled evidence \<longleftrightarrow>
     \<not> shows_signal evidence ''has_timelock'' \<and>
     list_ex (\<lambda>e. effective_type e \<in> {PyNone, PyStr ''eoa''})
       (takeWhile (\<lambda>e. \<not> marked_timelock e) (signalled ''admin_address'' evidence))"

definition rule_conditions :: "(string \<times> (RiskEvidence list \<Rightarrow> bool)) list" where
  "rule_conditions =
     [(''critical_governance_centralization'', \<lambda>ev.
         shows_signal ev ''is_upgradeable'' \<and> eoa_controlled ev),
      (''exit_liquidity_risk'', \<lambda>ev.
         shows_signal ev ''mint_capability'' \<and>
         (shows_signal ev ''no_liquidity'' \<or> shows_signal ev ''low_liquidity'')),
      (''bridge_upgrade_risk'', \<lambda>ev.
         shows_signal ev ''is_upgradeable'' \<and> list_ex (signal_starts ''protocol_bridge'') ev),
      (''oracle_manipulation_risk'', \<lambda>ev.
         list_ex (signal_starts ''protocol_oracle'') ev \<and>
         (shows_signal ev ''admin_address'' \<or> shows_signal ev ''is_upgradeable'')),
      (''potential_rug_pull_pattern'', \<lambda>ev.
         shows_signal ev ''mint_capability'' \<and> shows_signal ev ''fresh_deployer'' \<and>
         (shows_signal ev ''wallet_known_scam'' \<or> shows_signal ev ''tornado_funded_deployer'')),
      (''centralized_administrative_control'', \<lambda>ev.
         shows_signal ev ''privileged_entity'' \<and> list_ex (shows_signal ev) admin_capabilities)]"

definition rule_evidence :: "string \<Rightarrow> RiskEvidence list \<Rightarrow> RiskEvidence list" where
  "rule_evidence rule ev =
     (if rule = ''critical_governance_centralization'' then
        signalled ''is_upgradeable'' ev @ signalled ''admin_address'' ev
      else if rule = ''exit_liquidity_risk'' then
        signalled ''mint_capability'' ev
        @ signalled (if shows_signal ev ''no_liquidity'' then ''no_liquidity'' else ''low_liquidity'') ev
      else if rule = ''bridge_upgrade_risk'' then
        signalled ''is_upgradeable'' ev @ filter (signal_starts ''protocol_bridge'') ev
      else if rule = ''oracle_manipulation_risk'' then
        filter (signal_starts ''protocol_oracle'') ev
        @ signalled (if shows_signal ev ''admin_address'' then ''admin_address'' else ''is_upgradeable'') ev
      else if rule = ''potential_rug_pull_pattern'' then
        signalled ''mint_capability'' ev @ signalled ''fresh_deployer'' ev
        @ signalled (if shows_signal ev ''wallet_known_scam'' then ''wallet_known_scam''
                     else ''tornado_funded_deployer'') ev
      else signalled ''privileged_entity'' ev
           @ concat (map (\<lambda>s. signalled s ev) admin_capabilities))"

lemma signalled_Nil: "signalled s ev = [] \<longleftrightarrow> \<not> shows_signal ev s"
  by (auto simp: signalled_def shows_signal_def filter_empty_conv list_ex_iff)

lemma filter_Nil_ex: "filter P xs = [] \<longleftrightarrow> \<not> list_ex P xs"
  by (auto simp: filter_empty_conv list_ex_iff)

lemma admin_loop_exact:
  assumes "\<And>e. e \<in> set items \<Longrightarrow> hashable (effective_type e)"
  shows "admin_loop items =
    Inr (list_ex (\<lambda>e. effective_type e \<in> {PyNone, PyStr ''eoa''})
           (takeWhile (\<lambda>e. \<not> marked_timelock e) items))"
  using assms by (induction items) (simp_all add: marked_timelock_def)

lemma has_admin_eoa_index:
  assumes "\<And>e. e \<in> set ev \<Longrightarrow> hashable (effective_type e)"
  shows "has_admin_eoa_without_timelock (evidence_index_of ev) = Inr (eoa_controlled ev)"
proof -
  have "hashable (effective_type e)" if "e \<in> set (signalled ''admin_address'' ev)" for e
    using that assms set_signalled by blast
  from admin_loop_exact [OF this] show ?thesis
    by (simp add: has_admin_eoa_without_timelock_def Let_def eoa_controlled_def signalled_Nil [symmetric])
qed

text \<open>Each built-in rule returns; it finds its evidence exactly when its condition holds.\<close>

lemmas index_tests =
  has_any_signal_def has_upgrade_authority_def has_admin_capability_def has_low_wallet_reputation_def
  signalled_Nil filter_Nil_ex

definition rule_exact :: "RiskEvidence list \<Rightarrow> CorrelationRuleHandler \<Rightarrow> CorrelatedRiskFinding option \<Rightarrow> bool"
  where
  "rule_exact ev h r \<longleftrightarrow>
     (case map_of rule_conditions (cu_id (ch_definition h)) of
        None \<Rightarrow> False
      | Some c \<Rightarrow> (case r of
            None \<Rightarrow> \<not> c ev
          | Some f \<Rightarrow> c ev \<and>
              cf_correlation_rule f = cu_id (ch_definition h) \<and>
              cf_severity f = cu_severity (ch_definition h) \<and>
              cf_evidence_ids f = map ev_id (rule_evidence (cu_id (ch_definition h)) ev) \<and>
              cf_confidence f = aggregate_confidence (rule_evidence (cu_id (ch_definition h)) ev) \<and>
              cf_score_delta f = Dec 0 2))"

lemma builtin_rule_sel [simp]:
  "ch_definition (callable_rule rule e) = rule"
  "ch_evaluate (callable_rule rule e) ix = e ix rule"
  "cu_id (builtin_rule i t d s im l p) = i"
  "cu_severity (builtin_rule i t d s im l p) = s"
  "cu_score_delta (builtin_rule i t d s im l p) = Dec 0 2"
  "cu_priority (builtin_rule i t d s im l p) = p"
  by (simp_all add: callable_rule_def builtin_rule_def)

lemmas rule_exact_simps =
  rule_exact_def rule_conditions_def rule_evidence_def make_finding_def index_tests Let_def

lemma governance_rule:
  assumes "\<And>e. e \<in> set ev \<Longrightarrow> hashable (effective_type e)"
    and "h = callable_rule (builtin_rule ''critical_governance_centralization'' t d s im l p)
              match_critical_governance_centralization"
  shows "\<exists>r. ch_evaluate h (evidence_index_of ev) = Inr r \<and> rule_exact ev h r"
  using has_admin_eoa_index [OF assms(1)]
  by (auto simp: assms(2) match_critical_governance_centralization_def rule_exact_simps)

lemma exit_rule:
  assumes "h = callable_rule (builtin_rule ''exit_liquidity_risk'' t d s im l p)
              match_exit_liquidity_risk"
  shows "\<exists>r. ch_evaluate h (evidence_index_of ev) = Inr r \<and> rule_exact ev h r"
  by (auto simp: assms match_exit_liquidity_risk_def rule_exact_simps)

lemma bridge_rule:
  assumes "h = callable_rule (builtin_rule ''bridge_upgrade_risk'' t d s im l p)
              match_bridge_upgrade_risk"
  shows "\<exists>r. ch_evaluate h (evidence_index_of ev) = Inr r \<and> rule_exact ev h r"
  by (auto simp: assms match_bridge_upgrade_risk_def rule_exact_simps)

lemma oracle_rule:
  assumes "h = callable_rule (builtin_rule ''oracle_manipulation_risk'' t d s im l p)
              match_oracle_manipulation_risk"
  shows "\<exists>r. ch_evaluate h (evidence_index_of ev) = Inr r \<and> rule_exact ev h r"
  by (auto simp: assms match_oracle_manipulation_risk_def rule_exact_simps)

lemma rug_pull_rule:
  assumes "h = callable_rule (builtin_rule ''potential_rug_pull_pattern'' t d s im l p)
              match_potential_rug_pull_pattern"
  shows "\<exists>r. ch_evaluate h (evidence_index_of ev) = Inr r \<and> rule_exact ev h r"
  by (auto simp: assms match_potential_rug_pull_pattern_def rule_exact_simps)

lemma index_functions:
  "has_signal (evidence_index_of ev) = shows_signal ev"
  "items_with_signal (evidence_index_of ev) = (\<lambda>s. signalled s ev)"
  by (rule ext; simp add: signalled_Nil)+

lemma control_rule:
  assumes "h = callable_rule (builtin_rule ''centralized_administrative_control'' t d s im l p)
              match_centralized_administrative_control"
  shows "\<exists>r. ch_evaluate h (evidence_index_of ev) = Inr r \<and> rule_exact ev h r"
  by (auto simp: assms match_centralized_administrative_control_def index_functions rule_exact_simps)

lemma builtin_exact:
  assumes "\<And>e. e \<in> set ev \<Longrightarrow> hashable (effective_type e)" and "h \<in> set builtin_handlers"
  shows "\<exists>r. ch_evaluate h (evidence_index_of ev) = Inr r \<and> rule_exact ev h r"
  using assms(2) unfolding builtin_handlers_def
  by (auto intro: governance_rule [OF assms(1)] exit_rule bridge_rule oracle_rule rug_pull_rule
      control_rule)

section \<open>No two rules cite the same evidence\<close>

text \<open>
  The text of the signal tells which rule a list of evidence belongs to: bridge and oracle items,
  privileged entities, fresh deployers and liquidity items are each cited by one rule only.
\<close>

definition signal_text :: "RiskEvidence \<Rightarrow> string" where
  "signal_text e = py_str (dict_get (ev_metadata e) key_signal (PyStr []))"

definition cites :: "RiskEvidence list \<Rightarrow> (string \<Rightarrow> bool) \<Rightarrow> bool" where
  "cites xs P = list_ex (\<lambda>e. P (signal_text e)) xs"

definition rule_of_items :: "RiskEvidence list \<Rightarrow> nat" where
  "rule_of_items xs =
     (if cites xs (prefix ''protocol_bridge'') then 3
      else if cites xs (prefix ''protocol_oracle'') then 4
      else if cites xs ((=) ''privileged_entity'') then 6
      else if cites xs ((=) ''fresh_deployer'') then 5
      else if cites xs (\<lambda>s. s = ''no_liquidity'' \<or> s = ''low_liquidity'') then 2
      else 1)"

lemma cites_simps [simp]:
  "cites [] P = False"
  "cites (xs @ ys) P \<longleftrightarrow> cites xs P \<or> cites ys P"
  "cites (concat xss) P \<longleftrightarrow> list_ex (\<lambda>xs. cites xs P) xss"
  by (auto simp: cites_def list_ex_iff)

lemma signal_text_signalled: "e \<in> set (signalled s ev) \<Longrightarrow> signal_text e = s"
  by (auto simp: signalled_def signal_text_def py_get_def dict_get_def split: option.splits)

lemma cites_signalled [simp]: "cites (signalled s ev) P \<longleftrightarrow> shows_signal ev s \<and> P s"
proof -
  have "cites (signalled s ev) P \<longleftrightarrow> signalled s ev \<noteq> [] \<and> P s"
    using signal_text_signalled [of _ s ev]
    by (cases "signalled s ev") (auto simp: cites_def list_ex_iff)
  then show ?thesis by (simp add: signalled_Nil)
qed

lemma cites_starting:
  "cites (filter (signal_starts p) ev) P \<longleftrightarrow> list_ex (\<lambda>e. prefix p (signal_text e) \<and> P (signal_text e)) ev"
  by (auto simp: cites_def list_ex_iff signal_starts_def signal_text_def)

lemma cites_starting_self:
  "cites (filter (signal_starts p) ev) (prefix p) \<longleftrightarrow> list_ex (signal_starts p) ev"
  by (auto simp: cites_def list_ex_iff signal_starts_def signal_text_def)

lemma oracle_not_bridge: "prefix ''protocol_oracle'' s \<Longrightarrow> \<not> prefix ''protocol_bridge'' s"
  by (auto simp: prefix_def)

lemma cites_other_start:
  "\<not> cites (filter (signal_starts ''protocol_oracle'') ev) (prefix ''protocol_bridge'')"
  using oracle_not_bridge by (auto simp: cites_starting list_ex_iff)

definition rule_number :: "string \<Rightarrow> nat" where
  "rule_number rule = Suc (index_of (map fst rule_conditions) rule)"

lemma rule_of_rule_evidence:
  assumes "map_of rule_conditions rule = Some c" and "c ev"
  shows "rule_of_items (rule_evidence rule ev) = rule_number rule"
  using assms
  by (auto simp: rule_conditions_def rule_evidence_def rule_of_items_def rule_number_def
      cites_starting_self cites_other_start admin_capabilities_def split: if_splits)

section \<open>The built-in findings\<close>

definition rule_result :: "RiskEvidence list \<Rightarrow> CorrelationRuleHandler \<Rightarrow> CorrelatedRiskFinding option" where
  "rule_result ev h = projr (ch_evaluate h (evidence_index_of ev))"

abbreviation hashable_types :: "RiskEvidence list \<Rightarrow> bool" where
  "hashable_types ev \<equiv> \<forall>e \<in> set ev. hashable (effective_type e)"

lemma rule_result_exact:
  assumes "hashable_types ev" and "h \<in> set builtin_handlers"
  shows "ch_evaluate h (evidence_index_of ev) = Inr (rule_result ev h)"
    and "rule_exact ev h (rule_result ev h)"
  using builtin_exact [OF _ assms(2), of ev] assms(1) by (auto simp: rule_result_def)

lemma rule_result_Some:
  assumes "hashable_types ev" and "h \<in> set builtin_handlers" and "rule_result ev h = Some f"
  shows "\<exists>c. map_of rule_conditions (cu_id (ch_definition h)) = Some c \<and> c ev"
    and "cf_correlation_rule f = cu_id (ch_definition h)"
    and "cf_evidence_ids f = map ev_id (rule_evidence (cu_id (ch_definition h)) ev)"
    and "cf_confidence f = aggregate_confidence (rule_evidence (cu_id (ch_definition h)) ev)"
    and "dec_val (cf_score_delta f) = 0"
  using rule_result_exact(2) [OF assms(1,2)] assms(3)
  by (auto simp: rule_exact_def split: option.splits)

definition builtin_findings :: "RiskEvidence list \<Rightarrow> CorrelatedRiskFinding list" where
  "builtin_findings ev = List.map_filter (rule_result ev) builtin_handlers"

lemma correlate_builtin:
  assumes "hashable_types ev"
  shows "correlate default_registry ev =
    Inr \<lparr>co_findings = dedup_by cf_evidence_ids (builtin_findings ev),
         co_evidence_count = length ev, co_rules_evaluated = length builtin_handlers\<rparr>"
proof -
  have "match_rules ev builtin_handlers = Inr (dedup_by cf_evidence_ids (builtin_findings ev))"
    unfolding match_rules_def builtin_findings_def
    by (rule match_loop_exact)
      (use rule_result_exact(1) [OF assms] distinct_builtin_ids in simp_all)
  then show ?thesis by (simp add: correlate_def all_handlers_default Let_def)
qed

lemma in_builtin_findings:
  "f \<in> set (builtin_findings ev) \<longleftrightarrow> (\<exists>h \<in> set builtin_handlers. rule_result ev h = Some f)"
  by (auto simp: builtin_findings_def List.map_filter_def image_iff intro: rev_bexI)

lemma filter_keys_map_of:
  assumes "distinct (map fst d)"
  shows "filter (\<lambda>n. \<exists>c. map_of d n = Some c \<and> P c) (map fst d) = map fst (filter (\<lambda>(_, c). P c) d)"
proof -
  have "filter ((\<lambda>n. \<exists>c. map_of d n = Some c \<and> P c) \<circ> fst) d = filter (\<lambda>(_, c). P c) d"
    using map_of_is_SomeI [OF assms] by (intro filter_cong) auto
  then show ?thesis by (simp add: filter_map)
qed

lemma rule_condition_names: "map fst rule_conditions = map (cu_id \<circ> ch_definition) builtin_handlers"
  unfolding builtin_ids by (simp add: rule_conditions_def)

lemma builtin_finding_rules:
  assumes "hashable_types ev"
  shows "map cf_correlation_rule (builtin_findings ev) = map fst (filter (\<lambda>(_, c). c ev) rule_conditions)"
proof -
  have "map cf_correlation_rule (List.map_filter (rule_result ev) hs) =
      filter (\<lambda>n. \<exists>c. map_of rule_conditions n = Some c \<and> c ev) (map (cu_id \<circ> ch_definition) hs)"
    if "set hs \<subseteq> set builtin_handlers" for hs
    using that
  proof (induction hs)
    case (Cons h hs)
    then have "rule_exact ev h (rule_result ev h)" using rule_result_exact(2) [OF assms] by simp
    with Cons show ?case
      by (cases "rule_result ev h")
        (auto simp: List.map_filter_simps rule_exact_def split: option.splits)
  qed (simp add: List.map_filter_simps)
  from this [OF subset_refl] show ?thesis
    unfolding builtin_findings_def rule_condition_names [symmetric]
    by (simp only: filter_keys_map_of [OF distinct_builtin_ids [folded rule_condition_names]])
qed

lemma rule_evidence_subset: "set (rule_evidence rule ev) \<subseteq> set ev"
  using set_signalled [of _ ev] by (auto simp: rule_evidence_def)

lemma inj_on_map_ids:
  "distinct (map f ev) \<Longrightarrow> set xs \<subseteq> set ev \<Longrightarrow> set ys \<subseteq> set ev \<Longrightarrow> map f xs = map f ys \<Longrightarrow> xs = ys"
  by (rule inj_on_map_eq_map [THEN iffD1]) (auto simp: distinct_map intro: inj_on_subset)

lemma index_of_inj: "x \<in> set xs \<Longrightarrow> y \<in> set xs \<Longrightarrow> index_of xs x = index_of xs y \<Longrightarrow> x = y"
  by (metis nth_index_of)

lemma fingerprints_differ:
  assumes "hashable_types ev" and "distinct (map ev_id ev)"
    and "h \<in> set builtin_handlers" "rule_result ev h = Some f"
    and "h' \<in> set builtin_handlers" "rule_result ev h' = Some g"
    and "cf_evidence_ids f = cf_evidence_ids g"
  shows "cu_id (ch_definition h) = cu_id (ch_definition h')"
proof -
  let ?n = "cu_id (ch_definition h)" and ?m = "cu_id (ch_definition h')"
  obtain c where c: "map_of rule_conditions ?n = Some c" "c ev"
    using rule_result_Some(1) [OF assms(1,3,4)] by blast
  obtain d where d: "map_of rule_conditions ?m = Some d" "d ev"
    using rule_result_Some(1) [OF assms(1,5,6)] by blast
  have "map ev_id (rule_evidence ?n ev) = map ev_id (rule_evidence ?m ev)"
    using assms(7) rule_result_Some(3) [OF assms(1,3,4)] rule_result_Some(3) [OF assms(1,5,6)] by simp
  from inj_on_map_ids [OF assms(2) rule_evidence_subset rule_evidence_subset this]
  have "rule_number ?n = rule_number ?m"
    using rule_of_rule_evidence [OF c] rule_of_rule_evidence [OF d] by simp
  moreover have "?n \<in> set (map fst rule_conditions)" "?m \<in> set (map fst rule_conditions)"
    using c(1) d(1) by (metis dom_map_of_keys option.distinct(1))+
  ultimately show ?thesis
    unfolding rule_number_def by (metis Suc_inject index_of_inj)
qed

lemma distinct_fingerprints:
  assumes "hashable_types ev" and "distinct (map ev_id ev)"
  shows "distinct (map cf_evidence_ids (builtin_findings ev))"
proof -
  have "distinct (map cf_evidence_ids (List.map_filter (rule_result ev) hs))"
    if "set hs \<subseteq> set builtin_handlers" "distinct (map (cu_id \<circ> ch_definition) hs)" for hs
    using that
  proof (induction hs)
    case (Cons h hs)
    have IH: "distinct (map cf_evidence_ids (List.map_filter (rule_result ev) hs))"
      using Cons by simp
    have h: "h \<in> set builtin_handlers" using Cons.prems(1) by simp
    have new: "cu_id (ch_definition h) \<noteq> cu_id (ch_definition h')" if "h' \<in> set hs" for h'
      using that Cons.prems(2) by force
    show ?case
    proof (cases "rule_result ev h")
      case None
      then show ?thesis using IH by (simp add: List.map_filter_simps)
    next
      case (Some f)
      have "cf_evidence_ids f \<noteq> cf_evidence_ids g"
        if "h' \<in> set hs" "rule_result ev h' = Some g" for h' g
        using fingerprints_differ [OF assms h Some _ that(2)] that(1) new Cons.prems(1) by auto
      then have "cf_evidence_ids f \<notin> cf_evidence_ids ` set (List.map_filter (rule_result ev) hs)"
        by (fastforce simp: List.map_filter_def)
      then show ?thesis using Some IH by (simp add: List.map_filter_simps)
    qed
  qed (simp add: List.map_filter_simps)
  from this [OF subset_refl distinct_builtin_ids] show ?thesis by (simp add: builtin_findings_def)
qed

lemma aggregate_confidence_least:
  assumes "e \<in> set items"
  shows "confidence_rank (aggregate_confidence items) \<le> confidence_rank (ev_confidence e)"
proof -
  have "confidence_rank (ev_confidence (foldl pick_lower b xs)) \<le> confidence_rank (ev_confidence x)"
    if "x \<in> insert b (set xs)" for b xs x
    using that
  proof (induction xs arbitrary: b x)
    case (Cons y ys)
    have "confidence_rank (ev_confidence (foldl pick_lower (pick_lower b y) ys))
        \<le> confidence_rank (ev_confidence (pick_lower b y))"
      by (rule Cons.IH) simp
    moreover have "confidence_rank (ev_confidence (pick_lower b y)) \<le> confidence_rank (ev_confidence b)"
      "confidence_rank (ev_confidence (pick_lower b y)) \<le> confidence_rank (ev_confidence y)"
      by (simp_all add: pick_lower_def)
    ultimately have "confidence_rank (ev_confidence (foldl pick_lower b (y # ys))) \<le> confidence_rank (ev_confidence x)"
      if "x = b \<or> x = y"
      using that by (elim disjE) simp_all
    moreover have "confidence_rank (ev_confidence (foldl pick_lower b (y # ys))) \<le> confidence_rank (ev_confidence x)"
      if "x \<in> set ys"
      using Cons.IH [of x "pick_lower b y"] that by simp
    ultimately show ?case using Cons.prems by (simp only: list.set insert_iff) blast
  qed simp
  from this [of e "hd items" "tl items"] assms show ?thesis
    by (cases items) (simp_all add: aggregate_confidence_def)
qed

lemma aggregate_confidence_attained:
  assumes "items \<noteq> []"
  shows "\<exists>e \<in> set items. aggregate_confidence items = ev_confidence e"
proof -
  have "foldl pick_lower b xs \<in> insert b (set xs)" for b xs
  proof (induction xs arbitrary: b)
    case (Cons y ys)
    from Cons.IH [of "pick_lower b y"] show ?case by (auto simp: pick_lower_def split: if_splits)
  qed simp
  from this [of "hd items" "tl items"] assms
  have "foldl pick_lower (hd items) (tl items) \<in> set items" by (cases items) auto
  with assms show ?thesis by (cases items) (auto simp: aggregate_confidence_def)
qed

lemma rule_evidence_nonempty:
  assumes "map_of rule_conditions rule = Some c" "c ev"
  shows "rule_evidence rule ev \<noteq> []"
  using assms by (auto simp: rule_conditions_def rule_evidence_def signalled_Nil filter_Nil_ex split: if_splits)

end
