(* ===== verification/RiskProps.thy ===== *)
theory RiskProps
  imports CorrelationFacts
begin

text \<open>
  Properties of risk scoring: which built-in correlation findings are reported, what the engine's
  assessment of a list of evidence is, and how the findings on a contract determine its score and
  threat level.
\<close>

section \<open>Adding up evidence\<close>

definition item_total :: "RiskEvidence list \<Rightarrow> rat" where
  "item_total evidence =
     sum_list (map (\<lambda>e. if ev_category e = CatConfidence then 0 else dec_val (ev_score e)) evidence)"

definition explains :: "RiskEvidence \<Rightarrow> bool" where
  "explains e \<longleftrightarrow> ev_category e \<noteq> CatConfidence \<and>
     (dec_val (ev_score e) \<noteq> 0 \<or> py_truthy (py_get (ev_metadata e) key_reason_only))"

lemma item_total_simps [simp]:
  "item_total [] = 0"
  "item_total (e # es) =
     (if ev_category e = CatConfidence then 0 else dec_val (ev_score e)) + item_total es"
  "item_total (xs @ ys) = item_total xs + item_total ys"
  by (simp_all add: item_total_def)

lemma dec_coeff_zero: "dec_coeff d = 0 \<longleftrightarrow> dec_val d = 0"
  by (simp add: dec_val_def)

lemma fold_score_step:
  "\<exists>score. fold score_step evidence (start, reasons) =
      (score, reasons @ map ev_reason (filter explains evidence)) \<and>
    dec_val score = dec_val start + item_total evidence"
proof (induction evidence arbitrary: start reasons)
  case (Cons e es)
  let ?start = "if ev_category e = CatConfidence then start else dec_add start (ev_score e)"
  have first: "score_step e (start, reasons) = (?start, reasons @ map ev_reason (filter explains [e]))"
    "dec_val ?start = dec_val start + item_total [e]"
    by (simp_all add: score_step_def explains_def dec_coeff_zero)
  obtain score where "fold score_step es (?start, reasons @ map ev_reason (filter explains [e])) =
      (score, (reasons @ map ev_reason (filter explains [e])) @ map ev_reason (filter explains es))"
    "dec_val score = dec_val ?start + item_total es"
    using Cons.IH by blast
  with first show ?case by (simp del: filter.simps(2)) (simp add: explains_def)
qed simp

lemma fold_zero_deltas:
  "(\<And>f. f \<in> set fs \<Longrightarrow> dec_val (cf_score_delta f) = 0) \<Longrightarrow>
   dec_val (fold (\<lambda>f total. dec_add total (cf_score_delta f)) fs score) = dec_val score"
  by (induction fs arbitrary: score) simp_all

lemma dec_val_clamp: "dec_val (clamp_score d) = max 0 (min 100 (dec_val d))"
  by (simp add: clamp_score_def Let_def dec_less_iff max_def min_def)

lemma weight_total_list:
  "weight_total key evidence =
     sum_list (map (\<lambda>e. py_weight (dict_get (ev_metadata e) key (PyInt 0))) evidence)"
proof -
  have "fold (\<lambda>e total. total + f e) evidence n = n + sum_list (map f evidence)"
    for f :: "RiskEvidence \<Rightarrow> int" and n
    by (induction evidence arbitrary: n) simp_all
  then show ?thesis by (simp add: weight_total_def)
qed

lemma weight_total_simps [simp]:
  "weight_total key [] = 0"
  "weight_total key (e # es) = py_weight (dict_get (ev_metadata e) key (PyInt 0)) + weight_total key es"
  "weight_total key (xs @ ys) = weight_total key xs + weight_total key ys"
  by (simp_all add: weight_total_list)

text \<open>The level of a score by its value.\<close>

definition level_of_value :: "rat \<Rightarrow> RiskLevel" where
  "level_of_value v = (if v \<le> 33 then RiskLow else if v \<le> 66 then RiskMedium else RiskHigh)"

lemma score_to_level_value: "score_to_level d = level_of_value (dec_val d)"
  by (simp add: score_to_level_def level_of_value_def dec_le_iff)

section \<open>The assessment of evidence\<close>

lemma evaluate_builtin:
  assumes "hashable_types evidence" and "\<not> has_signal_value evidence ''not_contract''"
  shows "\<exists>a. evaluate_from_evidence default_registry evidence = Inr a \<and>
    dec_val (ra_risk_score a) = max 0 (min 100 (item_total evidence)) \<and>
    ra_risk_level a = level_of_value (dec_val (ra_risk_score a)) \<and>
    ra_risk_reasons a =
      (if list_ex explains evidence then map ev_reason (filter explains evidence)
       else [''No upgradeability indicators detected'']) \<and>
    ra_threat_level a = threat_level evidence \<and>
    ra_centralization_level a = centralization_level evidence \<and>
    ra_confidence_level a = confidence_level evidence"
proof -
  obtain score where score: "fold score_step evidence (Dec 0 2, []) =
      (score, map ev_reason (filter explains evidence))" "dec_val score = item_total evidence"
    using fold_score_step [of evidence "Dec 0 2" "[]"] by auto
  let ?fs = "dedup_by cf_evidence_ids (builtin_findings evidence)"
  have "dec_val (cf_score_delta f) = 0" if "f \<in> set ?fs" for f
  proof -
    from that have "f \<in> set (builtin_findings evidence)" by (rule subsetD [OF dedup_by_subset])
    then obtain h where "h \<in> set builtin_handlers" "rule_result evidence h = Some f"
      unfolding in_builtin_findings by (elim bexE)
    then show ?thesis by (rule rule_result_Some(5) [OF assms(1)])
  qed
  from fold_zero_deltas [OF this, of ?fs score]
  have total: "dec_val (fold (\<lambda>f total. dec_add total (cf_score_delta f)) ?fs score) = item_total evidence"
    by (simp add: score(2))
  have result: "evaluate_from_evidence default_registry evidence = Inr
      \<lparr>ra_risk_score = clamp_score (fold (\<lambda>f total. dec_add total (cf_score_delta f)) ?fs score),
       ra_risk_level =
         score_to_level (clamp_score (fold (\<lambda>f total. dec_add total (cf_score_delta f)) ?fs score)),
       ra_risk_reasons =
         (if map ev_reason (filter explains evidence) = []
          then [''No upgradeability indicators detected''] else map ev_reason (filter explains evidence)),
       ra_threat_level = threat_level evidence,
       ra_centralization_level = centralization_level evidence,
       ra_confidence_level = confidence_level evidence\<rparr>"
    by (simp only: evaluate_from_evidence_def assms(2) if_False correlate_builtin [OF assms(1)]
        bindR_simps score(1) Let_def prod.case CorrelationResult.select_convs)
  show ?thesis
    by (rule exI, rule conjI, rule result)
      (simp only: RiskAssessment.select_convs dec_val_clamp total score_to_level_value
        map_is_Nil_conv filter_Nil_ex, simp)
qed

section \<open>The evidence of a contract\<close>

text \<open>Weights and conditions of the contract findings, without the evidence in between.\<close>

definition admin_points :: "ContractRiskInput \<Rightarrow> int" where
  "admin_points f =
     (if ri_is_timelock f then 12
      else case (if ri_owner_type f = None then ri_admin_type f else ri_owner_type f) of
        Some AdminMultisig \<Rightarrow> 15 | Some AdminContract \<Rightarrow> 28 | _ \<Rightarrow> 35)"

definition exceeds :: "int option \<Rightarrow> int \<Rightarrow> bool" where
  "exceeds v n = (case v of None \<Rightarrow> False | Some t \<Rightarrow> n \<le> t)"

definition sell_blocked :: "ContractRiskInput \<Rightarrow> bool" where
  "sell_blocked f \<longleftrightarrow> ri_trade_simulated f \<and> ri_can_sell f = Some False"

definition tax_measured :: "ContractRiskInput \<Rightarrow> bool" where
  "tax_measured f \<longleftrightarrow> ri_trade_simulated f \<and>
     (exceeds (ri_buy_tax_bps f) 5000 \<or> exceeds (ri_sell_tax_bps f) 5000)"

definition code_points :: "ContractRiskInput \<Rightarrow> int" where
  "code_points f =
     35 * of_bool (ri_is_upgradeable f) + 30 * of_bool (given (ri_implementation_address f))
     + of_bool (given (ri_admin_address f)) * admin_points f
     + 20 * of_bool (ri_mint_capability f) + 15 * of_bool (ri_pause_capability f)
     + 25 * of_bool (ri_blacklist_capability f) + 10 * of_bool (ri_ownership_capability f)"

definition trading_points :: "ContractRiskInput \<Rightarrow> int" where
  "trading_points f =
     18 * of_bool (ri_trading_enabled_control f) + 20 * of_bool (ri_whitelist_control f)
     + 28 * of_bool (ri_blacklist_sell_blocking f \<and> \<not> sell_blocked f)
     + 22 * of_bool (ri_transfer_tax_control f \<and> \<not> tax_measured f)
     + of_bool (ri_trade_simulated f) *
         (15 * of_bool (ri_can_buy f = Some False) + 35 * of_bool (ri_can_sell f = Some False)
          + 12 * of_bool (exceeds (ri_buy_tax_bps f) 5000)
          + 25 * of_bool (exceeds (ri_sell_tax_bps f) 5000))"

definition liquidity_points :: "ContractRiskInput \<Rightarrow> int" where
  "liquidity_points f =
     (if \<not> ri_has_liquidity f then 30
      else 18 * of_bool (dec_val (ri_liquidity_usd f) < 1000)
           + 22 * of_bool (\<not> ri_liquidity_locked f)
           + 15 * of_bool (given (ri_lp_owner f) \<and> ri_lp_owner f \<notin> Some ` set burn_addresses
                           \<and> dec_val (ri_liquidity_lock_percentage f) < 50))"

definition wallet_points :: "ContractRiskInput \<Rightarrow> int" where
  "wallet_points f =
     12 * of_bool (ri_deployer_is_fresh f) + 25 * of_bool (ri_creator_owns_majority f)
     + 18 * of_bool (ri_lp_owner_is_creator f) - 5 * of_bool (ri_exchange_funded_deployer f)
     + 35 * of_bool (ri_tornado_funded_deployer f) - 10 * of_bool (ri_treasury_is_multisig f)
     + 40 * of_bool (ri_wallet_known_scam f)"

definition risk_points :: "ContractRiskInput \<Rightarrow> int" where
  "risk_points f =
     code_points f + trading_points f
     + of_bool (ri_liquidity_analyzed f) * liquidity_points f
     + of_bool (ri_wallet_analyzed f) * wallet_points f"

lemma create_evidence_sel [simp]:
  "ev_category (create_evidence clk src cat sig sev score conf reason meta t) = cat"
  "ev_score (create_evidence clk src cat sig sev score conf reason meta t) = score"
  "ev_reason (create_evidence clk src cat sig sev score conf reason meta t) = reason"
  "ev_id (create_evidence clk src cat sig sev score conf reason meta t) = evidence_id src cat sig"
  "ev_metadata (create_evidence clk src cat sig sev score conf reason (Some m) t) = m"
  by (simp_all add: create_evidence_def)

lemma item_total_only_if [simp]:
  "item_total (only_if c e) =
     (if c \<and> ev_category e \<noteq> CatConfidence then dec_val (ev_score e) else 0)"
  by (cases c) simp_all

lemma high_tax_exceeds: "high_tax v = exceeds v 5000"
  by (auto simp: high_tax_def exceeds_def split: option.split)

lemma proxy_total:
  "item_total (proxy_evidence clk f) =
     of_int (35 * of_bool (ri_is_upgradeable f) + 30 * of_bool (given (ri_implementation_address f)))"
  by (simp add: proxy_evidence_def)

lemma admin_total:
  "item_total (admin_evidence clk f) =
     of_int (of_bool (given (ri_admin_address f)) * admin_points f)"
  by (simp add: admin_evidence_def admin_evidence_weights_def admin_points_def
      split: option.splits AdminType.splits)

lemma capability_total:
  "item_total (capability_evidence clk f) =
     of_int (20 * of_bool (ri_mint_capability f) + 15 * of_bool (ri_pause_capability f)
       + 25 * of_bool (ri_blacklist_capability f) + 10 * of_bool (ri_ownership_capability f))"
  by (simp add: capability_evidence_def capability_table_def)

lemma trading_total:
  "item_total (honeypot_evidence clk f) + item_total (simulation_evidence clk f) =
     of_int (trading_points f)"
  by (simp add: honeypot_evidence_def honeypot_item_def simulation_evidence_def simulation_item_def
      trading_points_def simulation_confirmed_sell_block_def simulation_confirmed_high_tax_def
      sell_blocked_def tax_measured_def high_tax_exceeds disj_commute)

lemma liquidity_total:
  "item_total (liquidity_evidence_from_input clk f) = of_int (liquidity_points f)"
  by (simp add: liquidity_evidence_from_input_def liquidity_evidence_def liquidity_points_def
      dec_less_iff)

lemma wallet_total:
  "item_total (wallet_evidence_from_input clk f) = of_int (wallet_points f)"
  by (simp add: wallet_evidence_from_input_def wallet_evidence_def wallet_points_def)

lemma classification_total: "item_total (classification_confidence_evidence V clk f) = 0"
  by (simp add: classification_confidence_evidence_def confidence_item_def Let_def
      split: option.split)

lemma contract_total:
  assumes "ri_is_contract f"
  shows "item_total (from_contract_risk_input V clk f) = of_int (risk_points f)"
proof -
  have "item_total (from_contract_risk_input V clk f) =
      item_total (proxy_evidence clk f) + item_total (admin_evidence clk f)
      + item_total (capability_evidence clk f)
      + (item_total (honeypot_evidence clk f) + item_total (simulation_evidence clk f))
      + (if ri_liquidity_analyzed f then item_total (liquidity_evidence_from_input clk f) else 0)
      + (if ri_wallet_analyzed f then item_total (wallet_evidence_from_input clk f) else 0)
      + item_total (classification_confidence_evidence V clk f)"
    using assms by (simp add: from_contract_risk_input_def Let_def)
  then show ?thesis
    by (simp add: proxy_total admin_total capability_total trading_total liquidity_total
        wallet_total classification_total risk_points_def code_points_def)
qed

section \<open>The threat weights of a contract\<close>

definition code_threat :: "ContractRiskInput \<Rightarrow> int" where
  "code_threat f =
     18 * of_bool (ri_is_upgradeable f) + 12 * of_bool (given (ri_implementation_address f))
     + 22 * of_bool (ri_mint_capability f) + 18 * of_bool (ri_pause_capability f)
     + 28 * of_bool (ri_blacklist_capability f) + 8 * of_bool (ri_ownership_capability f)"

definition trading_threat :: "ContractRiskInput \<Rightarrow> int" where
  "trading_threat f =
     20 * of_bool (ri_trading_enabled_control f) + 22 * of_bool (ri_whitelist_control f)
     + 30 * of_bool (ri_blacklist_sell_blocking f \<and> \<not> sell_blocked f)
     + 24 * of_bool (ri_transfer_tax_control f \<and> \<not> tax_measured f)
     + of_bool (ri_trade_simulated f) *
         (18 * of_bool (ri_can_buy f = Some False) + 40 * of_bool (ri_can_sell f = Some False)
          + 14 * of_bool (exceeds (ri_buy_tax_bps f) 5000)
          + 28 * of_bool (exceeds (ri_sell_tax_bps f) 5000))"

definition liquidity_threat :: "ContractRiskInput \<Rightarrow> int" where
  "liquidity_threat f =
     (if \<not> ri_has_liquidity f then 25
      else 12 * of_bool (dec_val (ri_liquidity_usd f) < 1000) + 18 * of_bool (\<not> ri_liquidity_locked f))"

definition threat_points :: "ContractRiskInput \<Rightarrow> int" where
  "threat_points f =
     code_threat f + trading_threat f + of_bool (ri_liquidity_analyzed f) * liquidity_threat f"

definition level_of_threat :: "int \<Rightarrow> ThreatLevel" where
  "level_of_threat n =
     (if n \<le> 24 then ThreatLow else if n \<le> 49 then ThreatMedium
      else if n \<le> 74 then ThreatHigh else ThreatCritical)"

abbreviation threat_total :: "RiskEvidence list \<Rightarrow> int" where
  "threat_total \<equiv> weight_total key_threat_weight"

lemma weight_total_only_if [simp]:
  "weight_total key (only_if c e) =
     (if c then py_weight (dict_get (ev_metadata e) key (PyInt 0)) else 0)"
  by (cases c) simp_all

lemma metadata_read [simp]:
  "dict_get [] k d = d"
  "dict_get ((k', v) # m) k d = (if k = k' then v else dict_get m k d)"
  by (simp_all add: dict_get_def)

lemma py_weight_int [simp]: "py_weight (PyInt i) = i"
  by (simp add: py_weight_def dec_trunc_def)

lemma proxy_threat:
  "threat_total (proxy_evidence clk f) =
     18 * of_bool (ri_is_upgradeable f) + 12 * of_bool (given (ri_implementation_address f))"
  by (simp add: proxy_evidence_def)

lemma admin_threat: "threat_total (admin_evidence clk f) = 0"
  by (simp add: admin_evidence_def split: prod.split)

lemma capability_threat:
  "threat_total (capability_evidence clk f) =
     22 * of_bool (ri_mint_capability f) + 18 * of_bool (ri_pause_capability f)
     + 28 * of_bool (ri_blacklist_capability f) + 8 * of_bool (ri_ownership_capability f)"
  by (simp add: capability_evidence_def capability_table_def)

lemma trading_threat_total:
  "threat_total (honeypot_evidence clk f) + threat_total (simulation_evidence clk f) = trading_threat f"
  by (simp add: honeypot_evidence_def honeypot_item_def simulation_evidence_def simulation_item_def
      trading_threat_def simulation_confirmed_sell_block_def simulation_confirmed_high_tax_def
      sell_blocked_def tax_measured_def high_tax_exceeds disj_commute)

lemma liquidity_threat_total:
  "threat_total (liquidity_evidence_from_input clk f) = liquidity_threat f"
  by (simp add: liquidity_evidence_from_input_def liquidity_evidence_def liquidity_threat_def
      dec_less_iff)

lemma wallet_threat: "threat_total (wallet_evidence_from_input clk f) = 0"
  by (simp add: wallet_evidence_from_input_def wallet_evidence_def)

lemma classification_threat: "threat_total (classification_confidence_evidence V clk f) = 0"
  by (simp add: classification_confidence_evidence_def confidence_item_def Let_def
      split: option.split)

lemma contract_threat:
  assumes "ri_is_contract f"
  shows "threat_total (from_contract_risk_input V clk f) = threat_points f"
proof -
  have "threat_total (from_contract_risk_input V clk f) =
      threat_total (proxy_evidence clk f) + threat_total (admin_evidence clk f)
      + threat_total (capability_evidence clk f)
      + (threat_total (honeypot_evidence clk f) + threat_total (simulation_evidence clk f))
      + (if ri_liquidity_analyzed f then threat_total (liquidity_evidence_from_input clk f) else 0)
      + (if ri_wallet_analyzed f then threat_total (wallet_evidence_from_input clk f) else 0)
      + threat_total (classification_confidence_evidence V clk f)"
    using assms by (simp add: from_contract_risk_input_def Let_def)
  then show ?thesis
    by (simp add: proxy_threat admin_threat capability_threat trading_threat_total liquidity_threat_total
        wallet_threat classification_threat threat_points_def code_threat_def)
qed

section \<open>The contract evidence is regular\<close>

text \<open>
  No item of a contract looks like the \<open>not_contract\<close> marker or carries an unhashable owner type, and
  only the blocked sell path forces the critical threat level.
\<close>

definition plain_item :: "bool \<Rightarrow> RiskEvidence \<Rightarrow> bool" where
  "plain_item forced e \<longleftrightarrow>
     hashable (effective_type e) \<and>
     \<not> py_eq (py_get (ev_metadata e) key_signal) (PyStr ''not_contract'') \<and>
     (py_truthy (py_get (ev_metadata e) key_force_threat_critical) \<longrightarrow> forced)"

lemma list_all_only_if [simp]: "list_all P (only_if c e) \<longleftrightarrow> (c \<longrightarrow> P e)"
  by (cases c) simp_all

lemma hashable_opt [simp]: "hashable (py_opt (PyStr \<circ> f) v)"
  by (cases v) (simp_all add: py_opt_def)

lemmas plain_simps = plain_item_def effective_type_def py_get_def

lemma plain_code:
  "list_all (plain_item b) (proxy_evidence clk f)"
  "list_all (plain_item b) (admin_evidence clk f)"
  "list_all (plain_item b) (capability_evidence clk f)"
  by (simp_all add: proxy_evidence_def admin_evidence_def capability_evidence_def
      capability_table_def plain_simps split: prod.split)

lemma plain_trading:
  "list_all (plain_item b) (honeypot_evidence clk f)"
  "list_all (plain_item (sell_blocked f)) (simulation_evidence clk f)"
  by (simp_all add: honeypot_evidence_def honeypot_item_def simulation_evidence_def
      simulation_item_def plain_simps sell_blocked_def)

lemma plain_market:
  "list_all (plain_item b) (liquidity_evidence_from_input clk f)"
  "list_all (plain_item b) (wallet_evidence_from_input clk f)"
  "list_all (plain_item b) (classification_confidence_evidence V clk f)"
  by (simp_all add: liquidity_evidence_from_input_def liquidity_evidence_def
      wallet_evidence_from_input_def wallet_evidence_def classification_confidence_evidence_def
      confidence_item_def plain_simps Let_def split: option.split)

lemma plain_contract:
  assumes "ri_is_contract f"
  shows "list_all (plain_item (sell_blocked f)) (from_contract_risk_input V clk f)"
  using assms
  by (simp add: from_contract_risk_input_def Let_def plain_code plain_trading plain_market)
    (simp add: plain_simps)

lemma forced_critical:
  assumes "ri_is_contract f"
  shows "list_ex (\<lambda>e. py_truthy (py_get (ev_metadata e) key_force_threat_critical))
      (from_contract_risk_input V clk f) \<longleftrightarrow> sell_blocked f"
proof
  assume "sell_blocked f"
  then have "list_ex (\<lambda>e. py_truthy (py_get (ev_metadata e) key_force_threat_critical))
      (simulation_evidence clk f)"
    by (simp add: sell_blocked_def simulation_evidence_def simulation_item_def py_get_def)
  then show "list_ex (\<lambda>e. py_truthy (py_get (ev_metadata e) key_force_threat_critical))
      (from_contract_risk_input V clk f)"
    using assms by (simp add: from_contract_risk_input_def Let_def)
qed (use plain_contract [OF assms, of V clk] in \<open>auto simp: list_all_iff list_ex_iff plain_item_def\<close>)

section \<open>Properties\<close>

definition sample_values :: EnumValues where
  "sample_values =
     \<lparr>contract_type_value = (\<lambda>t. if t = CtErc20 then ''erc20'' else ''other''),
      proxy_type_value = (\<lambda>t. ''eip1967_transparent''),
      detection_method_value = (\<lambda>d. ''bytecode'')\<rparr>"

definition sample_clock :: datetime where
  "sample_clock = \<lparr>dt_wall = 63871372800000000, dt_off = Some 0\<rparr>"

text \<open>An upgradeable token with an EOA admin, minting, no liquidity, a fresh and mixer-funded deployer.\<close>

definition token_contract :: ContractRiskInput where
  "token_contract =
     (contract_risk_input True True (Some ''0xdead'') (Some ''0x1234''))
       \<lparr>ri_admin_type := Some AdminEoa, ri_mint_capability := True, ri_liquidity_analyzed := True,
        ri_wallet_analyzed := True, ri_deployer_is_fresh := True, ri_tornado_funded_deployer := True\<rparr>"

definition token_evidence :: "RiskEvidence list" where
  "token_evidence = from_contract_risk_input sample_values sample_clock token_contract"

lemma default_registry_created: "get_default_registry None = Inr default_registry"
  by (simp add: get_default_registry_def register_builtin_rules_default)

lemma default_registry_unique:
  "get_default_registry None = Inr reg \<Longrightarrow> reg = default_registry"
  by (simp add: default_registry_created)

text \<open>
  Property C10. Correlating evidence with unique ids over the default registry reports exactly the
  built-in rules whose condition holds, each once and in priority order: no rule hides another. A
  finding cites all evidence of its rule, which is evidence of the input, and its confidence is that of
  an item of this evidence with the lowest confidence among it.
\<close>

theorem builtin_rules_exact:
  assumes "get_default_registry None = Inr reg"
    and "distinct (map ev_id evidence)"
    and "\<forall>e \<in> set evidence. hashable (effective_type e)"
  shows "\<exists>res. correlate reg evidence = Inr res \<and>
    map cf_correlation_rule (co_findings res) = map fst (filter (\<lambda>(_, c). c evidence) rule_conditions) \<and>
    (\<forall>f \<in> set (co_findings res).
       cf_evidence_ids f = map ev_id (rule_evidence (cf_correlation_rule f) evidence) \<and>
       set (rule_evidence (cf_correlation_rule f) evidence) \<subseteq> set evidence \<and>
       (\<exists>e \<in> set (rule_evidence (cf_correlation_rule f) evidence). cf_confidence f = ev_confidence e) \<and>
       (\<forall>e \<in> set (rule_evidence (cf_correlation_rule f) evidence).
          confidence_rank (cf_confidence f) \<le> confidence_rank (ev_confidence e)))"
proof -
  have unique: "dedup_by cf_evidence_ids (builtin_findings evidence) = builtin_findings evidence"
    by (rule dedup_from_distinct) (simp_all add: distinct_fingerprints [OF assms(3,2)])
  have cited: "cf_evidence_ids f = map ev_id (rule_evidence (cf_correlation_rule f) evidence) \<and>
      cf_confidence f = aggregate_confidence (rule_evidence (cf_correlation_rule f) evidence) \<and>
      rule_evidence (cf_correlation_rule f) evidence \<noteq> []"
    if "f \<in> set (builtin_findings evidence)" for f
  proof -
    obtain h where h: "h \<in> set builtin_handlers" "rule_result evidence h = Some f"
      using \<open>f \<in> set (builtin_findings evidence)\<close> unfolding in_builtin_findings by (elim bexE)
    from rule_result_Some(1) [OF assms(3) h] have "rule_evidence (cu_id (ch_definition h)) evidence \<noteq> []"
      using rule_evidence_nonempty by blast
    then show ?thesis
      using rule_result_Some(2-4) [OF assms(3) h] by simp
  qed
  show ?thesis
    unfolding default_registry_unique [OF assms(1)] correlate_builtin [OF assms(3)] unique
    using builtin_finding_rules [OF assms(3)] cited rule_evidence_subset aggregate_confidence_least
      aggregate_confidence_attained
    by simp
qed

theorem builtin_rules_exact_witness:
  "\<exists>res. correlate default_registry token_evidence = Inr res \<and>
     map cf_correlation_rule (co_findings res) =
       [''critical_governance_centralization'', ''exit_liquidity_risk'', ''potential_rug_pull_pattern'']"
proof -
  have "map fst (filter (\<lambda>(_, c). c token_evidence) rule_conditions) =
      [''critical_governance_centralization'', ''exit_liquidity_risk'', ''potential_rug_pull_pattern'']"
    by code_simp
  moreover have "distinct (map ev_id token_evidence)" by code_simp
  moreover have "\<forall>e \<in> set token_evidence. hashable (effective_type e)" by code_simp
  ultimately show ?thesis
    using builtin_rules_exact [OF default_registry_created, of token_evidence] by auto
qed

text \<open>
  The assessment of contract evidence over the default registry: the score is the sum
  of all item scores outside the confidence category, cut to the range from 0 to 100, so the built-in
  correlations never change it; the level follows the score, the reasons are those of the items that
  score or are marked reason-only (or the default reason), and threat, centralization and confidence
  follow the metadata weights.
\<close>

theorem assessment_exact:
  assumes "get_default_registry None = Inr reg"
    and "\<forall>e \<in> set evidence. hashable (effective_type e)"
    and "\<not> has_signal_value evidence ''not_contract''"
  shows "\<exists>a. evaluate_from_evidence reg evidence = Inr a \<and>
    dec_val (ra_risk_score a) = max 0 (min 100 (item_total evidence)) \<and>
    ra_risk_level a = level_of_value (dec_val (ra_risk_score a)) \<and>
    ra_risk_reasons a =
      (if list_ex explains evidence then map ev_reason (filter explains evidence)
       else [''No upgradeability indicators detected'']) \<and>
    ra_threat_level a = threat_level evidence \<and>
    ra_centralization_level a = centralization_level evidence \<and>
    ra_confidence_level a = confidence_level evidence"
  unfolding default_registry_unique [OF assms(1)]
  by (rule evaluate_builtin) (use assms(2,3) in simp_all)

theorem assessment_exact_witness:
  "\<exists>a. evaluate_from_evidence default_registry token_evidence = Inr a \<and>
     dec_val (ra_risk_score a) = 100 \<and> ra_risk_level a = RiskHigh \<and>
     ra_centralization_level a = CentralHigh"
proof -
  have "item_total token_evidence = 197" "centralization_level token_evidence = CentralHigh"
    by code_simp+
  moreover have "\<not> has_signal_value token_evidence ''not_contract''" by code_simp
  moreover have "\<forall>e \<in> set token_evidence. hashable (effective_type e)" by code_simp
  ultimately show ?thesis
    using assessment_exact [OF default_registry_created, of token_evidence]
    by (auto simp: level_of_value_def)
qed

text \<open>
  Property C8. Assessing the findings on a contract always returns: the score is the sum of the
  weights of the findings that hold, cut to the range from 0 to 100, the level follows the score, and
  the threat level follows the threat weights unless a simulated sale was blocked, which makes it
  critical. An address without code gets the fixed low assessment.
\<close>

theorem contract_assessment:
  assumes "get_default_registry None = Inr reg"
  shows "\<exists>a. evaluate_contract_risk V clk reg f = Inr a \<and>
    (if ri_is_contract f
     then dec_val (ra_risk_score a) = max 0 (min 100 (of_int (risk_points f))) \<and>
       ra_risk_level a = level_of_value (dec_val (ra_risk_score a)) \<and>
       ra_threat_level a = (if sell_blocked f then ThreatCritical else level_of_threat (threat_points f)) \<and>
       ra_risk_reasons a \<noteq> []
     else a = not_contract_assessment)"
proof (cases "ri_is_contract f")
  case True
  let ?ev = "from_contract_risk_input V clk f"
  have plain: "\<forall>e \<in> set ?ev. plain_item (sell_blocked f) e"
    using plain_contract [OF True] by (simp add: list_all_iff)
  then have "\<forall>e \<in> set ?ev. hashable (effective_type e)" "\<not> has_signal_value ?ev ''not_contract''"
    by (auto simp: plain_item_def has_signal_value_def list_ex_iff)
  from evaluate_builtin [OF this] obtain a where a:
    "evaluate_from_evidence default_registry ?ev = Inr a"
    "dec_val (ra_risk_score a) = max 0 (min 100 (item_total ?ev))"
    "ra_risk_level a = level_of_value (dec_val (ra_risk_score a))"
    "ra_risk_reasons a = (if list_ex explains ?ev then map ev_reason (filter explains ?ev)
       else [''No upgradeability indicators detected''])"
    "ra_threat_level a = threat_level ?ev"
    by (elim exE conjE)
  have "ra_risk_reasons a \<noteq> []" by (simp add: a(4) filter_Nil_ex)
  moreover have "threat_level ?ev =
      (if sell_blocked f then ThreatCritical else level_of_threat (threat_points f))"
    unfolding threat_level_def forced_critical [OF True]
    by (simp add: contract_threat [OF True] level_of_threat_def Let_def)
  ultimately show ?thesis
    using a contract_total [OF True, of V clk] True
    by (simp add: evaluate_contract_risk_def default_registry_unique [OF assms])
next
  case False
  then show ?thesis
    by (simp add: evaluate_contract_risk_def from_contract_risk_input_def evaluate_from_evidence_def
        has_signal_value_def not_contract_evidence_def py_get_def)
qed

theorem contract_assessment_witness:
  "\<exists>a. evaluate_contract_risk sample_values sample_clock default_registry token_contract = Inr a \<and>
     dec_val (ra_risk_score a) = 100 \<and> ra_threat_level a = ThreatCritical"
proof -
  have "ri_is_contract token_contract" "risk_points token_contract = 197"
    "\<not> sell_blocked token_contract" "threat_points token_contract = 77"
    by code_simp+
  then show ?thesis
    using contract_assessment [OF default_registry_created, of sample_values sample_clock token_contract]
    by (auto simp: level_of_threat_def)
qed

end
