(* ===== verification/CallTrace.thy ===== *)
theory CallTrace
  imports RiskEvidence "HOL-Library.Word"
begin

text \<open>
  Execution traces and their call graphs (\<open>runtime/calltrace/models.py\<close>, \<open>call_classifier.py\<close>,
  \<open>call_graph_builder.py\<close>). A trace is a tree of frames; the builder walks it and numbers the frames.
\<close>

section \<open>Models (models.py)\<close>

type_synonym byte = "8 word"

datatype CallType =
    OpCall | OpStaticcall | OpDelegatecall | OpCallcode | OpCreate | OpCreate2 | OpSelfdestruct

datatype RuntimeEventType =
    RteDelegatecallChain | RteProxyExecution | RteRecursiveCall | RteUnexpectedExternalCall
  | RteFlashLoanCallback | RteContractCreation | RteContractDestruction

datatype CallClassification =
    ClsTopLevel | ClsInternal | ClsExternal | ClsDelegate | ClsStatic | ClsCreation
  | ClsDestruction | ClsValueTransfer

fun call_type_value :: "CallType \<Rightarrow> string" where
  "call_type_value OpCall = ''CALL''"
| "call_type_value OpStaticcall = ''STATICCALL''"
| "call_type_value OpDelegatecall = ''DELEGATECALL''"
| "call_type_value OpCallcode = ''CALLCODE''"
| "call_type_value OpCreate = ''CREATE''"
| "call_type_value OpCreate2 = ''CREATE2''"
| "call_type_value OpSelfdestruct = ''SELFDESTRUCT''"

fun runtime_event_value :: "RuntimeEventType \<Rightarrow> string" where
  "runtime_event_value RteDelegatecallChain = ''delegatecall_chain''"
| "runtime_event_value RteProxyExecution = ''proxy_execution''"
| "runtime_event_value RteRecursiveCall = ''recursive_call''"
| "runtime_event_value RteUnexpectedExternalCall = ''unexpected_external_call''"
| "runtime_event_value RteFlashLoanCallback = ''flash_loan_callback''"
| "runtime_event_value RteContractCreation = ''contract_creation''"
| "runtime_event_value RteContractDestruction = ''contract_destruction''"

text \<open>The frame holds its sub-frames, so \<open>RawTraceNode\<close> is a datatype with the fields as selectors.\<close>

datatype RawTraceNode = RawTraceNode
  (rt_call_type: CallType)
  (rt_from_address: string)
  (rt_to_address: "string option")
  (rt_value_wei: int)
  (rt_gas: int)
  (rt_gas_used: int)
  (rt_input: "byte list")
  (rt_output: "byte list")
  (rt_error: "string option")
  (rt_revert_reason: "string option")
  (rt_children: "RawTraceNode list")

record RawExecutionTrace =
  xt_transaction_hash :: string
  xt_root :: RawTraceNode
  xt_provider_name :: string
  xt_chain_id :: "int option"

record RuntimeCallNode =
  rn_node_id :: string
  rn_parent_id :: "string option"
  rn_depth :: nat
  rn_order_index :: nat
  rn_call_type :: CallType
  rn_classification :: CallClassification
  rn_from_address :: string
  rn_to_address :: "string option"
  rn_value_wei :: int
  rn_gas :: int
  rn_gas_used :: int
  rn_input :: "byte list"
  rn_output :: "byte list"
  rn_selector :: "string option"
  rn_error :: "string option"
  rn_revert_reason :: "string option"

record RuntimeCallGraph =
  cg_root_id :: string
  cg_nodes :: "RuntimeCallNode list"
  cg_execution_order :: "string list"
  cg_max_depth :: nat

section \<open>Classifier (call\_classifier.py)\<close>

definition classify_call :: "RawTraceNode \<Rightarrow> nat \<Rightarrow> string option \<Rightarrow> CallClassification" where
  "classify_call frame depth parent_id =
     (if rt_call_type frame = OpCreate \<or> rt_call_type frame = OpCreate2 then ClsCreation
      else if rt_call_type frame = OpSelfdestruct then ClsDestruction
      else if rt_call_type frame = OpDelegatecall then ClsDelegate
      else if rt_call_type frame = OpStaticcall then ClsStatic
      else if depth = 0 then ClsTopLevel
      else if rt_value_wei frame > 0 \<and> length (rt_input frame) = 0 then ClsValueTransfer
      else if parent_id = None then ClsExternal
      else if depth = 1 then ClsExternal
      else ClsInternal)"

section \<open>Builder (call\_graph\_builder.py)\<close>

text \<open>\<open>data.hex()\<close>.\<close>

definition hex_byte :: "byte \<Rightarrow> string" where
  "hex_byte b = [hex_digit (unat b div 16), hex_digit (unat b mod 16)]"

definition hex_bytes :: "byte list \<Rightarrow> string" where
  "hex_bytes bs = concat (map hex_byte bs)"

definition selector_of :: "byte list \<Rightarrow> string option" where
  "selector_of data = (if 4 \<le> length data then Some (hex_bytes (take 4 data)) else None)"

text \<open>\<open>address.lower() if address else None\<close>.\<close>

definition lower_or_none :: "string option \<Rightarrow> string option" where
  "lower_or_none a = (case a of None \<Rightarrow> None | Some s \<Rightarrow> if s = [] then None else Some (lower s))"

definition child_sort_key :: "RawTraceNode \<Rightarrow> string \<times> string \<times> string" where
  "child_sort_key frame =
     (call_type_value (rt_call_type frame),
      lower (case rt_to_address frame of None \<Rightarrow> [] | Some a \<Rightarrow> a),
      case selector_of (rt_input frame) of None \<Rightarrow> [] | Some s \<Rightarrow> s)"

definition sorted_children :: "RawTraceNode \<Rightarrow> (nat \<times> RawTraceNode) list" where
  "sorted_children frame =
     sort_key (\<lambda>(index, child). (child_sort_key child, index)) (enumerate 0 (rt_children frame))"

definition call_node :: "string \<Rightarrow> string option \<Rightarrow> nat \<Rightarrow> nat \<Rightarrow> RawTraceNode \<Rightarrow> RuntimeCallNode" where
  "call_node node_id parent_id depth order_index frame =
     \<lparr>rn_node_id = node_id,
      rn_parent_id = parent_id,
      rn_depth = depth,
      rn_order_index = order_index,
      rn_call_type = rt_call_type frame,
      rn_classification = classify_call frame depth parent_id,
      rn_from_address = lower (rt_from_address frame),
      rn_to_address = lower_or_none (rt_to_address frame),
      rn_value_wei = rt_value_wei frame,
      rn_gas = rt_gas frame,
      rn_gas_used = rt_gas_used frame,
      rn_input = rt_input frame,
      rn_output = rt_output frame,
      rn_selector = selector_of (rt_input frame),
      rn_error = rt_error frame,
      rn_revert_reason = rt_revert_reason frame\<rparr>"

text \<open>The variables the walk shares: \<open>nodes\<close>, \<open>execution_order\<close> and \<open>order_counter\<close>.\<close>

record walk_state =
  wk_nodes :: "RuntimeCallNode list"
  wk_execution_order :: "string list"
  wk_order_counter :: nat

definition visit_frame ::
  "RawTraceNode \<Rightarrow> string \<Rightarrow> string option \<Rightarrow> nat \<Rightarrow> walk_state \<Rightarrow> walk_state" where
  "visit_frame frame node_id parent_id depth st =
     \<lparr>wk_nodes = wk_nodes st @ [call_node node_id parent_id depth (wk_order_counter st) frame],
      wk_execution_order = wk_execution_order st @ [node_id],
      wk_order_counter = wk_order_counter st + 1\<rparr>"

lemma sorted_children_mem: "(i, c) \<in> set (sorted_children frame) \<Longrightarrow>
    i < length (rt_children frame) \<and> c = rt_children frame ! i"
  by (auto simp: sorted_children_def in_set_enumerate_eq)

lemma child_smaller: "c \<in> set (rt_children frame) \<Longrightarrow> size c < size frame"
  by (cases frame) (simp add: size_list_estimation' less_Suc_eq_le)

function walk_frame ::
  "RawTraceNode \<Rightarrow> string \<Rightarrow> string option \<Rightarrow> nat \<Rightarrow> walk_state \<Rightarrow> walk_state" where
  "walk_frame frame node_id parent_id depth st =
     fold (\<lambda>item st. walk_frame (snd item) (node_id @ ''.'' @ nat_digits (fst item)) (Some node_id) (depth + 1) st)
       (sorted_children frame) (visit_frame frame node_id parent_id depth st)"
  by pat_completeness auto
termination
  by (relation "measure (\<lambda>(frame, _). size frame)") (auto dest!: sorted_children_mem intro: child_smaller)

declare walk_frame.simps [simp del]

definition build_graph :: "RawTraceNode \<Rightarrow> RuntimeCallGraph" where
  "build_graph frame =
     (let st = walk_frame frame ''0'' None 0
            \<lparr>wk_nodes = [], wk_execution_order = [], wk_order_counter = 0\<rparr>
      in \<lparr>cg_root_id = ''0'',
          cg_nodes = wk_nodes st,
          cg_execution_order = wk_execution_order st,
          cg_max_depth = fold max (map rn_depth (wk_nodes st)) 0\<rparr>)"

section \<open>The graph as a list of paths\<close>

text \<open>
  A reference: the frames with their paths in the trace, in the order of the walk, and the
  identifier of a path. A path gives the positions of the children in the trace, not in the
  sorted order.
\<close>

fun frame_at :: "RawTraceNode \<Rightarrow> nat list \<Rightarrow> RawTraceNode option" where
  "frame_at frame [] = Some frame"
| "frame_at frame (i # p) =
     (if i < length (rt_children frame) then frame_at (rt_children frame ! i) p else None)"

function preorder :: "nat list \<Rightarrow> RawTraceNode \<Rightarrow> (nat list \<times> RawTraceNode) list" where
  "preorder p frame =
     (p, frame) # concat (map (\<lambda>item. preorder (p @ [fst item]) (snd item)) (sorted_children frame))"
  by pat_completeness auto
termination
  by (relation "measure (\<lambda>(_, frame). size frame)") (auto dest!: sorted_children_mem intro: child_smaller)

declare preorder.simps [simp del]

definition path_id :: "nat list \<Rightarrow> string" where
  "path_id p = ''0'' @ concat (map (\<lambda>i. ''.'' @ nat_digits i) p)"

definition path_parent :: "nat list \<Rightarrow> string option" where
  "path_parent p = (if p = [] then None else Some (path_id (butlast p)))"

definition node_of :: "nat \<Rightarrow> nat list \<times> RawTraceNode \<Rightarrow> RuntimeCallNode" where
  "node_of k item = call_node (path_id (fst item)) (path_parent (fst item)) (length (fst item)) k (snd item)"

definition nodes_from :: "nat \<Rightarrow> (nat list \<times> RawTraceNode) list \<Rightarrow> RuntimeCallNode list" where
  "nodes_from k items = map (\<lambda>(i, item). node_of i item) (enumerate k items)"

lemma nodes_from_simps [simp]:
  "nodes_from k [] = []"
  "nodes_from k (x # xs) = node_of k x # nodes_from (Suc k) xs"
  "nodes_from k (xs @ ys) = nodes_from k xs @ nodes_from (k + length xs) ys"
  "length (nodes_from k xs) = length xs"
  by (simp_all add: nodes_from_def enumerate_append_eq)

lemma path_id_snoc: "path_id (p @ [i]) = path_id p @ ''.'' @ nat_digits i"
  by (simp add: path_id_def)

lemma path_parent_snoc: "path_parent (p @ [i]) = Some (path_id p)"
  by (simp add: path_parent_def)

definition walked :: "(nat list \<times> RawTraceNode) list \<Rightarrow> walk_state \<Rightarrow> walk_state" where
  "walked items st =
     \<lparr>wk_nodes = wk_nodes st @ nodes_from (wk_order_counter st) items,
      wk_execution_order = wk_execution_order st @ map (\<lambda>item. path_id (fst item)) items,
      wk_order_counter = wk_order_counter st + length items\<rparr>"

lemma walked_Nil [simp]: "walked [] st = st"
  by (simp add: walked_def)

lemma walked_append: "walked ys (walked xs st) = walked (xs @ ys) st"
  by (simp add: walked_def)

lemma walk_frame_walked:
  "walk_frame frame (path_id p) (path_parent p) (length p) st = walked (preorder p frame) st"
proof (induction "size frame" arbitrary: frame p st rule: less_induct)
  case less
  have kids: "fold (\<lambda>item st. walk_frame (snd item) (path_id p @ ''.'' @ nat_digits (fst item))
        (Some (path_id p)) (length p + 1) st) items st' =
      walked (concat (map (\<lambda>item. preorder (p @ [fst item]) (snd item)) items)) st'"
    if "set items \<subseteq> set (sorted_children frame)" for items st'
    using that
  proof (induction items arbitrary: st')
    case (Cons item items)
    then have "(fst item, snd item) \<in> set (sorted_children frame)" by simp
    from sorted_children_mem [OF this] have "size (snd item) < size frame"
      using child_smaller [of "snd item" frame] by simp
    from less [OF this, of "p @ [fst item]" st']
    have "walk_frame (snd item) (path_id p @ ''.'' @ nat_digits (fst item)) (Some (path_id p)) (length p + 1) st' =
        walked (preorder (p @ [fst item]) (snd item)) st'"
      by (simp add: path_id_snoc path_parent_snoc)
    with Cons show ?case by (simp add: walked_append)
  qed simp
  have "visit_frame frame (path_id p) (path_parent p) (length p) st = walked [(p, frame)] st"
    by (simp add: visit_frame_def walked_def node_of_def)
  then show ?case
    by (simp add: walk_frame.simps [of frame] preorder.simps [of p] kids [OF subset_refl, simplified] walked_append)
qed

lemma build_graph_preorder:
  "cg_nodes (build_graph frame) = nodes_from 0 (preorder [] frame)"
  "cg_execution_order (build_graph frame) = map (\<lambda>item. path_id (fst item)) (preorder [] frame)"
  using walk_frame_walked [of frame "[]"]
  by (simp_all add: build_graph_def Let_def walked_def path_id_def path_parent_def)

end
