(* ===== verification/CallTraceFacts.thy ===== *)
theory CallTraceFacts
  imports CallTrace PyText
begin

text \<open>
  What the reference order of \<open>CallTrace\<close> says: every frame of the trace occurs once, at its path, and
  after its parent; identifiers of paths are unique.
\<close>

section \<open>Identifiers\<close>

lemma nat_digits_inject: "nat_digits m = nat_digits n \<Longrightarrow> m = n"
  by (metis digits_val_nat_digits)

lemma nat_digits_no_dot: "CHR ''.'' \<notin> set (nat_digits n)"
  using nat_digits_digits [of n] digit_char_not_sign by (auto simp: list_all_iff)

lemma dotted_inject:
  assumes "CHR ''.'' \<notin> set s" "CHR ''.'' \<notin> set t" "a @ CHR ''.'' # s = b @ CHR ''.'' # t"
  shows "a = b \<and> s = t"
proof -
  from assms(3) have "rev s @ CHR ''.'' # rev a = rev t @ CHR ''.'' # rev b"
    by (metis append.assoc append_Cons append_Nil rev.simps(2) rev_append)
  from append_sep_inject [OF _ _ this] assms(1,2) show ?thesis by simp
qed

lemma path_id_start: "path_id p = ''0'' \<longleftrightarrow> p = []"
  by (cases p) (simp_all add: path_id_def)

lemma path_id_inject: "path_id p = path_id q \<longleftrightarrow> p = q"
proof
  assume "path_id p = path_id q"
  then show "p = q"
  proof (induction p arbitrary: q rule: rev_induct)
    case Nil
    then show ?case using path_id_start [of q] by (simp add: path_id_def)
  next
    case (snoc i p)
    have "q \<noteq> []" using snoc.prems path_id_start [of "p @ [i]"] by (auto simp: path_id_def)
    then obtain r j where q: "q = r @ [j]" by (metis rev_exhaust)
    with snoc.prems have "path_id p @ CHR ''.'' # nat_digits i = path_id r @ CHR ''.'' # nat_digits j"
      by (simp add: path_id_snoc)
    from dotted_inject [OF nat_digits_no_dot nat_digits_no_dot this] snoc.IH [of r] q show ?case
      by (auto dest: nat_digits_inject)
  qed
qed simp

section \<open>The walk visits every frame once\<close>

lemma set_sorted_children: "set (sorted_children f) = {(i, rt_children f ! i) |i. i < length (rt_children f)}"
  by (auto simp: sorted_children_def in_set_enumerate_eq image_iff)

lemma distinct_sorted_children: "distinct (map fst (sorted_children f))"
proof -
  have "distinct (map fst (sorted_children f)) = distinct (map fst (enumerate 0 (rt_children f)))"
    unfolding sorted_children_def by (rule distinct_map_sort_key)
  then show ?thesis by simp
qed

lemma preorder_mem: "(q, g) \<in> set (preorder p f) \<longleftrightarrow> (\<exists>r. q = p @ r \<and> frame_at f r = Some g)"
proof (induction "size f" arbitrary: p q f rule: less_induct)
  case less
  have kids: "(q, g) \<in> set (preorder (p @ [i]) (rt_children f ! i)) \<longleftrightarrow>
      (\<exists>r. q = p @ i # r \<and> frame_at f (i # r) = Some g)" if "i < length (rt_children f)" for i
    using less [of "rt_children f ! i" q "p @ [i]"] child_smaller [of "rt_children f ! i" f] that by simp
  have "(q, g) \<in> set (preorder p f) \<longleftrightarrow> (q = p \<and> g = f) \<or>
      (\<exists>i < length (rt_children f). (q, g) \<in> set (preorder (p @ [i]) (rt_children f ! i)))"
    by (subst preorder.simps) (auto simp: set_sorted_children)
  also have "\<dots> \<longleftrightarrow> (q = p \<and> g = f) \<or>
      (\<exists>i < length (rt_children f). \<exists>r. q = p @ i # r \<and> frame_at f (i # r) = Some g)"
    using kids by auto
  also have "\<dots> \<longleftrightarrow> (\<exists>r. q = p @ r \<and> frame_at f r = Some g)"
  proof
    assume "\<exists>r. q = p @ r \<and> frame_at f r = Some g"
    then obtain r where r: "q = p @ r" "frame_at f r = Some g" by blast
    show "(q = p \<and> g = f) \<or>
        (\<exists>i < length (rt_children f). \<exists>r. q = p @ i # r \<and> frame_at f (i # r) = Some g)"
      using r by (cases r) (auto split: if_splits)
  qed force
  finally show ?case .
qed

lemma preorder_paths: "q \<in> set (map fst (preorder p f)) \<Longrightarrow> prefix p q"
  by (auto simp: preorder_mem)

lemma distinct_concat_disjoint:
  assumes "distinct xs" "\<And>x. x \<in> set xs \<Longrightarrow> distinct (D x)"
    and "\<And>x y. x \<in> set xs \<Longrightarrow> y \<in> set xs \<Longrightarrow> x \<noteq> y \<Longrightarrow> set (D x) \<inter> set (D y) = {}"
  shows "distinct (concat (map D xs))"
  using assms
proof (induction xs)
  case (Cons x xs)
  then have "distinct (concat (map D xs))" by simp
  moreover have "set (D x) \<inter> (\<Union>y \<in> set xs. set (D y)) = {}"
    using Cons.prems(1,3) by (auto simp: disjoint_iff)
  ultimately show ?case using Cons.prems(2) by simp
qed simp

lemma distinct_preorder: "distinct (map fst (preorder p f))"
proof (induction "size f" arbitrary: p f rule: less_induct)
  case less
  define D where "D item = map fst (preorder (p @ [fst item]) (snd item))" for item
  have paths: "prefix (p @ [fst item]) q" if "q \<in> set (D item)" for q item
    using that preorder_paths unfolding D_def by blast
  have "distinct (concat (map D (sorted_children f)))"
  proof (rule distinct_concat_disjoint)
    show "distinct (sorted_children f)" using distinct_sorted_children by (simp add: distinct_map)
    show "distinct (D item)" if "item \<in> set (sorted_children f)" for item
    proof -
      from that have "(fst item, snd item) \<in> set (sorted_children f)" by simp
      from sorted_children_mem [OF this] have "size (snd item) < size f"
        using child_smaller [of "snd item" f] by simp
      then show ?thesis unfolding D_def by (rule less)
    qed
    show "set (D x) \<inter> set (D y) = {}"
      if "x \<in> set (sorted_children f)" "y \<in> set (sorted_children f)" "x \<noteq> y" for x y
    proof -
      have "fst x \<noteq> fst y"
        using that distinct_sorted_children [of f] by (auto simp: distinct_map dest: inj_onD)
      then have "\<not> (prefix (p @ [fst x]) q \<and> prefix (p @ [fst y]) q)" for q
        by (auto simp: prefix_def)
      with paths show ?thesis by blast
    qed
  qed
  moreover have "p \<notin> set (concat (map D (sorted_children f)))"
  proof
    assume "p \<in> set (concat (map D (sorted_children f)))"
    then obtain item where "p \<in> set (D item)" by auto
    from prefix_length_le [OF paths [OF this]] show False by simp
  qed
  moreover have "map fst (preorder p f) = p # concat (map D (sorted_children f))"
    by (subst preorder.simps) (simp add: map_concat D_def [abs_def] o_def)
  ultimately show ?case by simp
qed

text \<open>The number of frames and the height of a trace.\<close>

fun frame_count :: "RawTraceNode \<Rightarrow> nat" where
  "frame_count (RawTraceNode ty a b v g u i ou e r children) = 1 + sum_list (map frame_count children)"

fun frame_height :: "RawTraceNode \<Rightarrow> nat" where
  "frame_height (RawTraceNode ty a b v g u i ou e r children) =
     fold max (map (\<lambda>c. frame_height c + 1) children) 0"

lemma frame_count_eq: "frame_count f = 1 + sum_list (map frame_count (rt_children f))"
  by (cases f) simp

lemma sum_list_sorted_children:
  "sum_list (map (\<lambda>item. h (snd item)) (sorted_children f)) = sum_list (map h (rt_children f))"
  for h :: "RawTraceNode \<Rightarrow> 'a :: comm_monoid_add"
proof -
  have "mset (map (\<lambda>item. h (snd item)) (sorted_children f)) =
      mset (map (\<lambda>item. h (snd item)) (enumerate 0 (rt_children f)))"
    by (simp only: sorted_children_def mset_map mset_sort)
  also have "map (\<lambda>item. h (snd item)) (enumerate 0 (rt_children f)) =
      map h (map snd (enumerate 0 (rt_children f)))"
    by (simp only: map_map o_def)
  finally have "mset (map (\<lambda>item. h (snd item)) (sorted_children f)) = mset (map h (rt_children f))"
    by (simp only: map_snd_enumerate)
  then show ?thesis by (metis sum_mset_sum_list)
qed

text \<open>Sums over all frames follow the tree.\<close>

fun frame_sum :: "(RawTraceNode \<Rightarrow> int) \<Rightarrow> RawTraceNode \<Rightarrow> int" where
  "frame_sum h (RawTraceNode ty a b v g u i ou e r children) =
     h (RawTraceNode ty a b v g u i ou e r children) + sum_list (map (frame_sum h) children)"

lemma frame_sum_eq: "frame_sum h f = h f + sum_list (map (frame_sum h) (rt_children f))"
  by (cases f) simp

lemma preorder_sum: "sum_list (map (\<lambda>item. h (snd item)) (preorder p f)) = frame_sum h f"
proof (induction "size f" arbitrary: p f rule: less_induct)
  case less
  have "sum_list (map (\<lambda>item. h (snd item)) (concat (map (\<lambda>item. preorder (p @ [fst item]) (snd item)) items))) =
      sum_list (map (\<lambda>item. frame_sum h (snd item)) items)"
    if "set items \<subseteq> set (sorted_children f)" for items
    using that
  proof (induction items)
    case (Cons item items)
    then have "(fst item, snd item) \<in> set (sorted_children f)" by simp
    from sorted_children_mem [OF this] have "size (snd item) < size f"
      using child_smaller [of "snd item" f] by simp
    from less [OF this, of "p @ [fst item]"] Cons show ?case by simp
  qed simp
  from this [OF subset_refl] show ?case
    by (subst preorder.simps) (simp add: frame_sum_eq [of h f] sum_list_sorted_children)
qed

lemma frame_count_sum: "int (frame_count f) = frame_sum (\<lambda>_. 1) f"
proof (induction f)
  case (RawTraceNode ty a b v g u i ou e r children)
  have "int (sum_list (map frame_count children)) = sum_list (map (\<lambda>c. int (frame_count c)) children)"
    by (induction children) simp_all
  also have "\<dots> = sum_list (map (frame_sum (\<lambda>_. 1)) children)"
    using RawTraceNode by (metis (no_types, lifting) map_eq_conv)
  finally show ?case by simp
qed

lemma length_preorder: "length (preorder p f) = frame_count f"
proof -
  have "int (length (preorder p f)) = sum_list (map (\<lambda>item. 1) (preorder p f))"
    by (simp add: sum_list_triv)
  also have "\<dots> = frame_sum (\<lambda>_. 1) f" by (rule preorder_sum)
  finally show ?thesis by (simp add: frame_count_sum [symmetric])
qed

end
