(* ===== verification/TraceDecoder.thy ===== *)
theory TraceDecoder
  imports CallTrace Serialization
begin

text \<open>
  Decoding of provider payloads into frames (\<open>runtime/calltrace/trace_decoder.py\<close>). The values a payload
  holds are those JSON can hold; \<open>HexBytes\<close> objects and ready-made \<open>RawTraceNode\<close>s inside a payload are
  not modelled.
\<close>

section \<open>Values\<close>

text \<open>\<open>a or b\<close>.\<close>

definition py_or :: "pyval \<Rightarrow> pyval \<Rightarrow> pyval" where
  "py_or a b = (if py_truthy a then a else b)"

text \<open>\<open>str(value).upper().replace("-", "").replace("_", "")\<close>.\<close>

definition call_type_text :: "pyval \<Rightarrow> string" where
  "call_type_text v = filter (\<lambda>c. c \<noteq> CHR ''-'' \<and> c \<noteq> CHR ''_'') (map upper_char (py_str v))"

definition call_type_aliases :: "(string, CallType) dict" where
  "call_type_aliases =
     [(''SUICIDE'', OpSelfdestruct), (''SELFDESTRUCT'', OpSelfdestruct),
      (''DELEGATECALL'', OpDelegatecall), (''STATICCALL'', OpStaticcall), (''CALLCODE'', OpCallcode),
      (''CREATE2'', OpCreate2), (''CREATE'', OpCreate), (''CALL'', OpCall)]"

definition normalize_call_type :: "pyval \<Rightarrow> CallType" where
  "normalize_call_type v = dict_get call_type_aliases (call_type_text v) OpCall"

definition zero_address :: string where
  "zero_address = ''0x0000000000000000000000000000000000000000''"

definition trace_address :: "pyval \<Rightarrow> string" where
  "trace_address v =
     (case v of
        PyNone \<Rightarrow> zero_address
      | _ \<Rightarrow> (let address = lower (py_str v) in if prefix ''0x'' address then address else ''0x'' @ address))"

definition trace_optional_address :: "pyval \<Rightarrow> string option" where
  "trace_optional_address v =
     (case v of
        PyNone \<Rightarrow> None
      | _ \<Rightarrow> (let address = trace_address v in if address = zero_address then None else Some address))"

definition hex_val :: "char \<Rightarrow> nat option" where
  "hex_val c =
     (let n = (of_char c :: nat)
      in if 48 \<le> n \<and> n \<le> 57 then Some (n - 48)
         else if 97 \<le> n \<and> n \<le> 102 then Some (n - 87)
         else if 65 \<le> n \<and> n \<le> 70 then Some (n - 55) else None)"

text \<open>\<open>int(text, 16)\<close> of a text that starts with \<open>0x\<close>.\<close>

fun hex_digits_val :: "nat \<Rightarrow> string \<Rightarrow> nat option" where
  "hex_digits_val acc [] = Some acc"
| "hex_digits_val acc (c # s) =
     (case hex_val c of None \<Rightarrow> None | Some d \<Rightarrow> hex_digits_val (16 * acc + d) s)"

definition parse_hex :: "string \<Rightarrow> int result" where
  "parse_hex s =
     (case (if s = [] then None else hex_digits_val 0 s) of
        None \<Rightarrow> Inl (ValueError ''invalid literal for int() with base 16'') | Some n \<Rightarrow> Inr (int n))"

fun trace_int :: "pyval \<Rightarrow> int result" where
  "trace_int PyNone = Inr 0"
| "trace_int (PyStr s) = (if prefix ''0x'' s then parse_hex (drop 2 s) else py_int (PyStr s))"
| "trace_int (PyList xs) = Inr 0"
| "trace_int (PyDict d) = Inr 0"
| "trace_int v = py_int v"

definition ascii_space :: "char \<Rightarrow> bool" where
  "ascii_space c \<longleftrightarrow> (of_char c :: nat) = 32 \<or> (9 \<le> (of_char c :: nat) \<and> (of_char c :: nat) \<le> 13)"

text \<open>\<open>bytes.fromhex\<close>: pairs of digits, blanks between the pairs.\<close>

fun bytes_fromhex :: "string \<Rightarrow> byte list option" where
  "bytes_fromhex [] = Some []"
| "bytes_fromhex [c] = (if ascii_space c then Some [] else None)"
| "bytes_fromhex (c # d # s) =
     (if ascii_space c then bytes_fromhex (d # s)
      else case (hex_val c, hex_val d) of
             (Some h, Some l) \<Rightarrow> map_option (\<lambda>bs. word_of_nat (16 * h + l) # bs) (bytes_fromhex s)
           | _ \<Rightarrow> None)"

definition trace_bytes :: "pyval \<Rightarrow> byte list result" where
  "trace_bytes v =
     (case v of
        PyNone \<Rightarrow> Inr []
      | _ \<Rightarrow>
         (let s = py_str v
          in if s \<in> {[], ''0x'', ''0X''} then Inr []
             else (case bytes_fromhex (if prefix ''0x'' s then drop 2 s else s) of
                     None \<Rightarrow> Inl (ValueError ''non-hexadecimal number found in fromhex() arg'')
                   | Some bs \<Rightarrow> Inr bs)))"

text \<open>\<open>s.strip()\<close>: the ASCII characters Python counts as blank.\<close>

definition py_space :: "char \<Rightarrow> bool" where
  "py_space c \<longleftrightarrow> ascii_space c \<or> (28 \<le> (of_char c :: nat) \<and> (of_char c :: nat) \<le> 31)"

definition strip :: "string \<Rightarrow> string" where
  "strip s = rev (dropWhile py_space (rev (dropWhile py_space s)))"

definition trace_optional_str :: "pyval \<Rightarrow> string option" where
  "trace_optional_str v =
     (case v of PyNone \<Rightarrow> None | _ \<Rightarrow> (let s = strip (py_str v) in if s = [] then None else Some s))"

section \<open>Frames\<close>

text \<open>
  The items of a children payload. A text or a dictionary would be iterated into texts, on which
  \<open>node.get\<close> fails.
\<close>

fun child_payloads :: "pyval \<Rightarrow> pyval list result" where
  "child_payloads (PyList xs) = Inr xs"
| "child_payloads (PyStr s) = (if s = [] then Inr [] else Inl (AttributeError ''get''))"
| "child_payloads (PyDict d) = (if d = [] then Inr [] else Inl (AttributeError ''get''))"
| "child_payloads v = Inl (TypeError ''object is not iterable'')"

lemma mapR_cong [fundef_cong]:
  "xs = ys \<Longrightarrow> (\<And>x. x \<in> set ys \<Longrightarrow> f x = g x) \<Longrightarrow> mapR f xs = mapR g ys"
  by (induction ys arbitrary: xs) auto

lemma bindR_cong [fundef_cong]:
  "r = s \<Longrightarrow> (\<And>x. s = Inr x \<Longrightarrow> f x = g x) \<Longrightarrow> bindR r f = bindR s g"
  by (cases s) simp_all

definition children_payload :: "metadata \<Rightarrow> pyval" where
  "children_payload d = py_or (py_get d ''calls'') (py_or (py_get d ''children'') (PyList []))"

lemma dict_value_size: "(k, v) \<in> set d \<Longrightarrow> size v < size_list (size_prod (\<lambda>_. 0) size) d"
  by (induction d) auto

lemma py_get_size: "py_get d k = PyList xs \<Longrightarrow> xs \<noteq> [] \<Longrightarrow> x \<in> set xs \<Longrightarrow> size x < size (PyDict d)"
proof -
  assume v: "py_get d k = PyList xs" and "xs \<noteq> []" and x: "x \<in> set xs"
  then have "map_of d k = Some (PyList xs)"
    by (auto simp: py_get_def dict_get_def split: option.splits)
  from dict_value_size [OF map_of_SomeD [OF this]]
  have "size (PyList xs) < size_list (size_prod (\<lambda>_. 0) size) d" .
  moreover have "size x \<le> size_list size xs" using x by (simp add: size_list_estimation')
  ultimately show ?thesis by simp
qed

lemma child_payload_size:
  assumes "child_payloads (children_payload d) = Inr items" "x \<in> set items"
  shows "size x < size (PyDict d)"
proof -
  have "children_payload d = PyList items"
    using assms by (cases "children_payload d") (auto split: if_splits)
  with assms(2) have "py_get d ''calls'' = PyList items \<or> py_get d ''children'' = PyList items"
    by (auto simp: children_payload_def py_or_def split: if_splits)
  with assms(2) show ?thesis using py_get_size by (metis empty_iff list.set(1))
qed

function decode_node :: "pyval \<Rightarrow> RawTraceNode result" where
  "decode_node node =
     (case node of
        PyDict d \<Rightarrow>
          bindR (child_payloads (children_payload d)) (\<lambda>items.
          bindR (mapR decode_node items) (\<lambda>children.
          bindR (trace_int (py_get d ''value'')) (\<lambda>value_wei.
          bindR (trace_int (py_get d ''gas'')) (\<lambda>gas.
          bindR (trace_int (py_or (py_get d ''gasUsed'') (py_get d ''gas_used''))) (\<lambda>gas_used.
          bindR (trace_bytes (py_or (py_get d ''input'') (py_get d ''callData''))) (\<lambda>input.
          bindR (trace_bytes (py_or (py_get d ''output'') (py_get d ''returnData''))) (\<lambda>out.
            Inr (RawTraceNode
              (normalize_call_type (py_or (py_get d ''type'') (py_or (py_get d ''callType'') (PyStr ''CALL''))))
              (trace_address (py_or (py_get d ''from'') (py_get d ''fromAddress'')))
              (trace_optional_address (py_or (py_get d ''to'') (py_get d ''toAddress'')))
              value_wei gas gas_used input out
              (trace_optional_str (py_get d ''error''))
              (trace_optional_str (py_or (py_get d ''revertReason'') (py_get d ''revert_reason'')))
              children))))))))
      | _ \<Rightarrow> Inl (AttributeError ''get''))"
  by pat_completeness auto
termination
  by (relation "measure size") (auto dest: child_payload_size)

declare decode_node.simps [simp del]

definition decode_trace :: "metadata \<Rightarrow> string \<Rightarrow> string \<Rightarrow> int option \<Rightarrow> RawExecutionTrace result" where
  "decode_trace payload transaction_hash provider_name chain_id =
     bindR (decode_node (case map_of payload ''result'' of Some v \<Rightarrow> v | None \<Rightarrow> PyDict payload)) (\<lambda>frame.
       Inr \<lparr>xt_transaction_hash = lower transaction_hash, xt_root = frame,
            xt_provider_name = provider_name, xt_chain_id = chain_id\<rparr>)"

end
