(* ===== verification/TraceAnalysis.thy ===== *)
theory TraceAnalysis
  imports TraceDecoder
begin

text \<open>
  Analysis of a call graph (\<open>runtime/calltrace/\<close>): gas profiling (\<open>gas_profiler.py\<close>), reverts
  (\<open>revert_analyzer.py\<close>), the event detectors (\<open>delegatecall_detector.py\<close>, \<open>create_detector.py\<close>,
  \<open>selfdestruct_detector.py\<close>, \<open>runtime_event_analyzer.py\<close>), and the engine that turns them into risk
  evidence (\<open>trace_intelligence.py\<close>, \<open>trace_provider.py\<close>).
\<close>

section \<open>Models (models.py)\<close>

record RuntimeEvent =
  ru_event_type :: RuntimeEventType
  ru_node_id :: string
  ru_description :: string
  ru_metadata :: metadata

record RevertFinding =
  rf_node_id :: string
  rf_contract_address :: "string option"
  rf_failing_function :: "string option"
  rf_revert_reason :: "string option"
  rf_call_depth :: nat
  rf_execution_path :: "string list"

record RevertAnalysis =
  ra_has_revert :: bool
  ra_findings :: "RevertFinding list"

record GasCallStat =
  gs_node_id :: string
  gs_call_type :: CallType
  gs_to_address :: "string option"
  gs_selector :: "string option"
  gs_gas_used :: int
  gs_depth :: nat

record GasProfile =
  gp_total_gas_used :: int
  gp_call_stats :: "GasCallStat list"
  gp_hottest_functions :: "(string \<times> int) list"
  gp_deepest_path :: "string list"
  gp_deepest_depth :: nat
  gp_expensive_external_calls :: "GasCallStat list"

record RuntimeExecutionReport =
  xr_transaction_hash :: string
  xr_call_graph :: RuntimeCallGraph
  xr_runtime_events :: "RuntimeEvent list"
  xr_revert_analysis :: RevertAnalysis
  xr_gas_profile :: GasProfile
  xr_risk_evidence :: "RiskEvidence list"
  xr_provider_name :: string

section \<open>Gas (gas\_profiler.py)\<close>

definition external_gas_threshold :: int where
  "external_gas_threshold = 100000"

definition call_stat :: "RuntimeCallNode \<Rightarrow> GasCallStat" where
  "call_stat node =
     \<lparr>gs_node_id = rn_node_id node, gs_call_type = rn_call_type node, gs_to_address = rn_to_address node,
      gs_selector = rn_selector node, gs_gas_used = rn_gas_used node, gs_depth = rn_depth node\<rparr>"

text \<open>\<open>item.selector or item.call_type.value\<close>.\<close>

definition function_key :: "GasCallStat \<Rightarrow> string" where
  "function_key s =
     (case gs_selector s of
        Some sel \<Rightarrow> if sel = [] then call_type_value (gs_call_type s) else sel
      | None \<Rightarrow> call_type_value (gs_call_type s))"

definition add_gas :: "GasCallStat \<Rightarrow> (string, int) dict \<Rightarrow> (string, int) dict" where
  "add_gas s totals =
     AList.update (function_key s) (dict_get totals (function_key s) 0 + gs_gas_used s) totals"

definition function_totals :: "GasCallStat list \<Rightarrow> (string, int) dict" where
  "function_totals stats = fold add_gas stats []"

definition top_functions :: "GasCallStat list \<Rightarrow> nat \<Rightarrow> (string \<times> int) list" where
  "top_functions stats limit = take limit (sort_key (\<lambda>p. (- snd p, fst p)) (function_totals stats))"

definition nodes_by_id :: "RuntimeCallGraph \<Rightarrow> (string, RuntimeCallNode) dict" where
  "nodes_by_id graph = dict_of rn_node_id (\<lambda>node. node) (cg_nodes graph)"

text \<open>\<open>max(xs, key=f, default=None)\<close>: the first item with the greatest key.\<close>

fun max_first :: "('a \<Rightarrow> 'b :: linorder) \<Rightarrow> 'a list \<Rightarrow> 'a option" where
  "max_first f [] = None"
| "max_first f (x # xs) =
     (case max_first f xs of None \<Rightarrow> Some x | Some y \<Rightarrow> Some (if f x < f y then y else x))"

text \<open>
  The loop \<open>while current_id is not None\<close> up the parents. It need not end on an arbitrary graph, so it
  is a partial function: \<open>None\<close> stands for a loop that does not return.
\<close>

partial_function (option) deepest_walk ::
  "(string, RuntimeCallNode) dict \<Rightarrow> string option \<Rightarrow> string list \<Rightarrow> string list result option" where
  "deepest_walk nodes current_id path =
     (case current_id of
        None \<Rightarrow> Some (Inr (rev path))
      | Some i \<Rightarrow>
          (case map_of nodes i of
             None \<Rightarrow> Some (Inl (KeyError i))
           | Some node \<Rightarrow> deepest_walk nodes (rn_parent_id node) (path @ [i])))"

declare deepest_walk.simps [code]

definition deepest_path :: "RuntimeCallGraph \<Rightarrow> string list result option" where
  "deepest_path graph =
     (case max_first (\<lambda>node. (rn_depth node, rn_order_index node)) (cg_nodes graph) of
        None \<Rightarrow> Some (Inr [])
      | Some deepest_node \<Rightarrow> deepest_walk (nodes_by_id graph) (Some (rn_node_id deepest_node)) [])"

definition is_external :: "RuntimeCallGraph \<Rightarrow> string \<Rightarrow> bool" where
  "is_external graph node_id =
     (case find (\<lambda>node. rn_node_id node = node_id) (cg_nodes graph) of
        None \<Rightarrow> False
      | Some node \<Rightarrow> rn_classification node = ClsExternal \<or> rn_classification node = ClsTopLevel)"

definition profile_gas :: "RuntimeCallGraph \<Rightarrow> GasProfile result option" where
  "profile_gas graph =
     (let stats = map call_stat (cg_nodes graph)
      in map_option (\<lambda>r. bindR r (\<lambda>path.
           Inr \<lparr>gp_total_gas_used = sum_list (map gs_gas_used stats),
                gp_call_stats = stats,
                gp_hottest_functions = top_functions stats 5,
                gp_deepest_path = path,
                gp_deepest_depth = (if path \<noteq> [] then length path - 1 else 0),
                gp_expensive_external_calls =
                  sort_key (\<lambda>s. (- gs_gas_used s, gs_node_id s))
                    (filter (\<lambda>s. external_gas_threshold \<le> gs_gas_used s \<and> is_external graph (gs_node_id s)) stats)\<rparr>))
         (deepest_path graph))"

section \<open>Reverts (revert\_analyzer.py)\<close>

partial_function (option) execution_walk ::
  "(string, RuntimeCallNode) dict \<Rightarrow> string option \<Rightarrow> string list \<Rightarrow> string list option" where
  "execution_walk nodes current_id path =
     (case current_id of
        None \<Rightarrow> Some (rev path)
      | Some i \<Rightarrow>
          (case map_of nodes i of
             None \<Rightarrow> Some (rev (path @ [i]))
           | Some node \<Rightarrow> execution_walk nodes (rn_parent_id node) (path @ [i])))"

declare execution_walk.simps [code]

definition opt_truthy :: "string option \<Rightarrow> bool" where
  "opt_truthy v \<longleftrightarrow> v \<noteq> None \<and> v \<noteq> Some []"

definition opt_or :: "string option \<Rightarrow> string option \<Rightarrow> string option" where
  "opt_or a b = (if opt_truthy a then a else b)"

definition failed_call :: "RuntimeCallNode \<Rightarrow> bool" where
  "failed_call node \<longleftrightarrow> opt_truthy (rn_error node) \<or> opt_truthy (rn_revert_reason node)"

definition revert_finding :: "RuntimeCallNode \<Rightarrow> string list \<Rightarrow> RevertFinding" where
  "revert_finding node path =
     \<lparr>rf_node_id = rn_node_id node,
      rf_contract_address = opt_or (rn_to_address node) (Some (rn_from_address node)),
      rf_failing_function = rn_selector node,
      rf_revert_reason = opt_or (rn_revert_reason node) (rn_error node),
      rf_call_depth = rn_depth node,
      rf_execution_path = path\<rparr>"

fun revert_findings ::
  "(string, RuntimeCallNode) dict \<Rightarrow> RuntimeCallNode list \<Rightarrow> RevertFinding list option" where
  "revert_findings nodes [] = Some []"
| "revert_findings nodes (node # rest) =
     (if \<not> failed_call node then revert_findings nodes rest
      else Option.bind (execution_walk nodes (Some (rn_node_id node)) []) (\<lambda>path.
             map_option (\<lambda>fs. revert_finding node path # fs) (revert_findings nodes rest)))"

definition analyze_reverts :: "RuntimeCallGraph \<Rightarrow> RevertAnalysis option" where
  "analyze_reverts graph =
     map_option (\<lambda>findings.
         let ordered = sort_key (\<lambda>f. (rf_call_depth f, rf_node_id f)) findings
         in \<lparr>ra_has_revert = (ordered \<noteq> []), ra_findings = ordered\<rparr>)
       (revert_findings (nodes_by_id graph) (cg_nodes graph))"

section \<open>Events\<close>

abbreviation opt_text :: "string option \<Rightarrow> pyval" where
  "opt_text v \<equiv> (case v of None \<Rightarrow> PyNone | Some s \<Rightarrow> PyStr s)"

definition runtime_event_key :: "RuntimeEvent \<Rightarrow> string \<times> string" where
  "runtime_event_key e = (runtime_event_value (ru_event_type e), ru_node_id e)"

definition sort_events :: "RuntimeEvent list \<Rightarrow> RuntimeEvent list" where
  "sort_events es = sort_key runtime_event_key es"

definition runtime_event :: "RuntimeEventType \<Rightarrow> RuntimeCallNode \<Rightarrow> string \<Rightarrow> metadata \<Rightarrow> RuntimeEvent" where
  "runtime_event ty node description metadata =
     \<lparr>ru_event_type = ty, ru_node_id = rn_node_id node, ru_description = description, ru_metadata = metadata\<rparr>"

text \<open>\<open>delegatecall_detector.py\<close>\<close>

definition delegate_nodes :: "RuntimeCallGraph \<Rightarrow> RuntimeCallNode list" where
  "delegate_nodes graph = filter (\<lambda>node. rn_call_type node = OpDelegatecall) (cg_nodes graph)"

definition delegatecall_chain :: "RuntimeCallNode list \<Rightarrow> RuntimeEvent list" where
  "delegatecall_chain ds =
     (if 2 \<le> length ds
      then [runtime_event RteDelegatecallChain (hd ds)
              ''Delegatecall chain detected across multiple execution frames''
              [(''delegatecall_count'', PyInt (int (length ds))),
               (''node_ids'', PyList (map (\<lambda>node. PyStr (rn_node_id node)) ds))]]
      else [])"

definition proxy_execution :: "(string, RuntimeCallNode) dict \<Rightarrow> RuntimeCallNode \<Rightarrow> RuntimeEvent list" where
  "proxy_execution nodes node =
     (case map_of nodes (case rn_parent_id node of None \<Rightarrow> [] | Some p \<Rightarrow> p) of
        None \<Rightarrow> []
      | Some parent \<Rightarrow>
          (if opt_truthy (rn_to_address parent) \<and> opt_truthy (rn_to_address node) \<and>
              rn_to_address parent \<noteq> rn_to_address node
           then [runtime_event RteProxyExecution node
                   ''Proxy contract delegated execution to implementation logic''
                   [(''proxy_address'', opt_text (rn_to_address parent)),
                    (''implementation_address'', opt_text (rn_to_address node))]]
           else []))"

definition detect_delegatecalls :: "RuntimeCallGraph \<Rightarrow> RuntimeEvent list" where
  "detect_delegatecalls graph =
     sort_events (delegatecall_chain (delegate_nodes graph) @
       concat (map (proxy_execution (nodes_by_id graph)) (delegate_nodes graph)))"

text \<open>\<open>create_detector.py\<close>, \<open>selfdestruct_detector.py\<close>\<close>

definition detect_creates :: "RuntimeCallGraph \<Rightarrow> RuntimeEvent list" where
  "detect_creates graph =
     sort_events (map (\<lambda>node. runtime_event RteContractCreation node
         (call_type_value (rn_call_type node) @ '' contract deployment detected'')
         [(''creation_type'', PyStr (call_type_value (rn_call_type node))),
          (''deployer'', PyStr (rn_from_address node)),
          (''created_address'', opt_text (rn_to_address node))])
       (filter (\<lambda>node. rn_call_type node = OpCreate \<or> rn_call_type node = OpCreate2) (cg_nodes graph)))"

definition detect_selfdestructs :: "RuntimeCallGraph \<Rightarrow> RuntimeEvent list" where
  "detect_selfdestructs graph =
     sort_events (map (\<lambda>node. runtime_event RteContractDestruction node
         ''Contract selfdestruct executed during runtime''
         [(''destroyed_contract'', PyStr (rn_from_address node)),
          (''beneficiary'', opt_text (rn_to_address node))])
       (filter (\<lambda>node. rn_call_type node = OpSelfdestruct) (cg_nodes graph)))"

text \<open>\<open>runtime_event_analyzer.py\<close>\<close>

definition flash_loan_selectors :: "string list" where
  "flash_loan_selectors = [''5cffe9de'', ''ab9c4b5d'', ''42b0b77c'']"

definition call_context :: "RuntimeCallNode \<Rightarrow> metadata" where
  "call_context node =
     [(''from_address'', PyStr (rn_from_address node)),
      (''to_address'', opt_text (rn_to_address node)),
      (''selector'', opt_text (rn_selector node)),
      (''depth'', PyInt (int (rn_depth node)))]"

definition call_pair :: "RuntimeCallNode \<Rightarrow> string \<times> string \<times> string" where
  "call_pair node =
     (rn_from_address node, case rn_to_address node of None \<Rightarrow> [] | Some a \<Rightarrow> a,
      case rn_selector node of None \<Rightarrow> [] | Some s \<Rightarrow> s)"

fun recursive_calls :: "(string \<times> string \<times> string) list \<Rightarrow> RuntimeCallNode list \<Rightarrow> RuntimeEvent list" where
  "recursive_calls seen [] = []"
| "recursive_calls seen (node # rest) =
     (if \<not> opt_truthy (rn_to_address node) then recursive_calls seen rest
      else (if call_pair node \<in> set seen
            then [runtime_event RteRecursiveCall node
                    ''Recursive call pattern detected between the same caller and callee''
                    (call_context node)]
            else []) @ recursive_calls (call_pair node # seen) rest)"

definition looks_like_flash_loan :: "RuntimeCallNode \<Rightarrow> bool" where
  "looks_like_flash_loan node =
     (case rn_selector node of
        None \<Rightarrow> False | Some s \<Rightarrow> s \<noteq> [] \<and> (prefix ''ab'' s \<or> prefix ''42'' s))"

definition flash_nodes :: "RuntimeCallGraph \<Rightarrow> RuntimeCallNode list" where
  "flash_nodes graph =
     filter (\<lambda>node. (case rn_selector node of None \<Rightarrow> False | Some s \<Rightarrow> s \<in> set flash_loan_selectors) \<or>
         looks_like_flash_loan node) (cg_nodes graph)"

definition callback_nodes :: "RuntimeCallGraph \<Rightarrow> RuntimeCallNode \<Rightarrow> RuntimeCallNode list" where
  "callback_nodes graph node =
     filter (\<lambda>child. rn_parent_id child = Some (rn_node_id node) \<and> rn_depth child = rn_depth node + 1)
       (cg_nodes graph)"

definition flash_loan_callbacks :: "RuntimeCallGraph \<Rightarrow> RuntimeEvent list" where
  "flash_loan_callbacks graph =
     concat (map (\<lambda>node.
         if callback_nodes graph node \<noteq> []
         then [runtime_event RteFlashLoanCallback node
                 ''Flash-loan style borrow with nested callback execution detected''
                 [(''borrow_node'', PyStr (rn_node_id node)),
                  (''callback_nodes'', PyList (map (\<lambda>c. PyStr (rn_node_id c)) (callback_nodes graph node)))]]
         else []) (flash_nodes graph))"

definition unexpected_external :: "string option \<Rightarrow> string list \<Rightarrow> RuntimeCallNode \<Rightarrow> bool" where
  "unexpected_external root_to trusted node =
     (if \<not> (rn_classification node = ClsExternal \<or> rn_classification node = ClsTopLevel) then False
      else if rn_call_type node \<in> {OpCreate, OpCreate2, OpSelfdestruct} then False
      else (case rn_to_address node of
              None \<Rightarrow> False
            | Some a \<Rightarrow>
                (if a = [] then False
                 else if a \<in> set trusted then False
                 else if opt_truthy root_to \<and> rn_to_address node = root_to \<and> rn_depth node \<le> 1 then False
                 else if rn_depth node \<le> 1 then False else True)))"

definition unexpected_external_calls :: "RuntimeCallGraph \<Rightarrow> string list \<Rightarrow> RuntimeEvent list" where
  "unexpected_external_calls graph trusted =
     (let root_to = (case cg_nodes graph of [] \<Rightarrow> None | node # _ \<Rightarrow> rn_to_address node)
      in map (\<lambda>node. runtime_event RteUnexpectedExternalCall node
             ''Unexpected external call detected deep in the execution trace'' (call_context node))
           (filter (unexpected_external root_to trusted) (cg_nodes graph)))"

definition dedupe_events :: "RuntimeEvent list \<Rightarrow> RuntimeEvent list" where
  "dedupe_events es = dedup_by runtime_event_key (sort_events es)"

definition analyze_events :: "RuntimeCallGraph \<Rightarrow> string list \<Rightarrow> RuntimeEvent list" where
  "analyze_events graph trusted_addresses =
     dedupe_events
       (detect_delegatecalls graph @ detect_creates graph @ detect_selfdestructs graph @
        recursive_calls [] (cg_nodes graph) @ flash_loan_callbacks graph @
        unexpected_external_calls graph (map lower trusted_addresses))"

section \<open>Evidence (trace\_intelligence.py)\<close>

fun event_evidence_mapping ::
  "RuntimeEventType \<Rightarrow> EvidenceSource \<times> EvidenceCategory \<times> string \<times> EvidenceSeverity \<times> string" where
  "event_evidence_mapping RteDelegatecallChain =
     (SrcProxy, CatUpgradeability, ''delegatecall_chain'', SevHigh,
      ''Delegatecall chain detected in execution trace'')"
| "event_evidence_mapping RteProxyExecution =
     (SrcProxy, CatUpgradeability, ''proxy_execution'', SevMedium,
      ''Proxy delegated execution detected in runtime trace'')"
| "event_evidence_mapping RteRecursiveCall =
     (SrcThreatSurface, CatThreat, ''recursive_execution'', SevMedium,
      ''Deep recursive execution pattern detected'')"
| "event_evidence_mapping RteUnexpectedExternalCall =
     (SrcThreatSurface, CatThreat, ''unexpected_external_call'', SevHigh,
      ''Unexpected external call detected during execution'')"
| "event_evidence_mapping RteFlashLoanCallback =
     (SrcProtocol, CatProtocol, ''flash_loan_callback'', SevMedium,
      ''Flash-loan callback execution pattern detected'')"
| "event_evidence_mapping RteContractCreation =
     (SrcClassification, CatClassification, ''runtime_create'', SevMedium,
      ''Contract creation detected in execution trace'')"
| "event_evidence_mapping RteContractDestruction =
     (SrcCapability, CatCapability, ''runtime_selfdestruct'', SevHigh,
      ''Contract selfdestruct executed in runtime trace'')"

definition zero_score :: decimal where
  "zero_score = Dec 0 2"

definition event_evidence :: "datetime \<Rightarrow> string \<Rightarrow> RuntimeEvent \<Rightarrow> RiskEvidence" where
  "event_evidence clk transaction_hash e =
     (case event_evidence_mapping (ru_event_type e) of (source, category, signal, severity, reason) \<Rightarrow>
        create_evidence clk source category signal severity zero_score ConfHigh reason
          (Some (dict_merge
             [(key_signal, PyStr signal), (key_reason_only, PyBool True),
              (''transaction_hash'', PyStr transaction_hash), (''node_id'', PyStr (ru_node_id e))]
             (ru_metadata e))) None)"

definition revert_evidence :: "datetime \<Rightarrow> string \<Rightarrow> RevertAnalysis \<Rightarrow> RiskEvidence list" where
  "revert_evidence clk transaction_hash analysis =
     (if \<not> ra_has_revert analysis then []
      else (let finding = hd (ra_findings analysis)
            in [create_evidence clk SrcSystem CatSystem ''execution_revert'' SevMedium zero_score ConfHigh
                  ''Execution revert captured in runtime trace''
                  (Some [(key_signal, PyStr ''execution_revert''), (key_reason_only, PyBool True),
                     (''transaction_hash'', PyStr transaction_hash),
                     (''node_id'', PyStr (rf_node_id finding)),
                     (''revert_reason'', opt_text (rf_revert_reason finding)),
                     (''failing_function'', opt_text (rf_failing_function finding)),
                     (''execution_path'', PyList (map PyStr (rf_execution_path finding)))]) None]))"

definition gas_evidence :: "datetime \<Rightarrow> string \<Rightarrow> GasProfile \<Rightarrow> RiskEvidence list" where
  "gas_evidence clk transaction_hash profile =
     (if gp_deepest_depth profile < 4 then []
      else [create_evidence clk SrcThreatSurface CatThreat ''deep_execution_path'' SevLow zero_score ConfMedium
              ''Deep execution path observed in runtime trace''
              (Some [(key_signal, PyStr ''deep_execution_path''), (key_reason_only, PyBool True),
                 (''transaction_hash'', PyStr transaction_hash),
                 (''deepest_depth'', PyInt (int (gp_deepest_depth profile))),
                 (''deepest_path'', PyList (map PyStr (gp_deepest_path profile)))]) None])"

definition emit_trace_evidence ::
  "datetime \<Rightarrow> string \<Rightarrow> RuntimeEvent list \<Rightarrow> RevertAnalysis \<Rightarrow> GasProfile \<Rightarrow> RiskEvidence list" where
  "emit_trace_evidence clk transaction_hash runtime_events revert_analysis profile =
     merge_evidence
       [map (event_evidence clk transaction_hash) runtime_events,
        revert_evidence clk transaction_hash revert_analysis,
        gas_evidence clk transaction_hash profile]"

section \<open>The engine\<close>

datatype TraceInput = TraceTree RawExecutionTrace | TraceFrame RawTraceNode | TracePayload metadata

definition zero_hash :: string where
  "zero_hash = ''0x'' @ replicate 64 CHR ''0''"

definition hash_or :: "string option \<Rightarrow> string \<Rightarrow> string" where
  "hash_or given dflt = (case given of Some h \<Rightarrow> if h = [] then dflt else h | None \<Rightarrow> dflt)"

definition normalize_trace :: "TraceInput \<Rightarrow> string option \<Rightarrow> int option \<Rightarrow> RawExecutionTrace result" where
  "normalize_trace input transaction_hash chain_id =
     (case input of
        TraceTree t \<Rightarrow> Inr t
      | TraceFrame frame \<Rightarrow>
          Inr \<lparr>xt_transaction_hash = lower (hash_or transaction_hash zero_hash), xt_root = frame,
               xt_provider_name = ''inline'', xt_chain_id = chain_id\<rparr>
      | TracePayload payload \<Rightarrow>
          decode_trace payload
            (hash_or transaction_hash (py_str (dict_get payload ''transactionHash'' (PyStr zero_hash))))
            (py_str (dict_get payload ''provider_name'' (PyStr ''decoded''))) chain_id)"

definition analyze_trace ::
  "datetime \<Rightarrow> TraceInput \<Rightarrow> string option \<Rightarrow> int option \<Rightarrow> string list \<Rightarrow>
   RuntimeExecutionReport result option" where
  "analyze_trace clk input transaction_hash chain_id trusted_addresses =
     (case normalize_trace input transaction_hash chain_id of
        Inl e \<Rightarrow> Some (Inl e)
      | Inr normalized \<Rightarrow>
          (let graph = build_graph (xt_root normalized);
               runtime_events = analyze_events graph trusted_addresses
           in Option.bind (analyze_reverts graph) (\<lambda>revert_analysis.
              map_option (\<lambda>r. bindR r (\<lambda>profile.
                  Inr \<lparr>xr_transaction_hash = xt_transaction_hash normalized,
                       xr_call_graph = graph,
                       xr_runtime_events = runtime_events,
                       xr_revert_analysis = revert_analysis,
                       xr_gas_profile = profile,
                       xr_risk_evidence = emit_trace_evidence clk (xt_transaction_hash normalized)
                         runtime_events revert_analysis profile,
                       xr_provider_name = xt_provider_name normalized\<rparr>))
                (profile_gas graph))))"

section \<open>Trace providers (trace\_provider.py)\<close>

record StaticTraceProvider =
  sp_traces :: "(string, RawExecutionTrace) dict"
  sp_provider_name :: string

definition register_trace :: "RawExecutionTrace \<Rightarrow> StaticTraceProvider \<Rightarrow> StaticTraceProvider" where
  "register_trace t p = p\<lparr>sp_traces := AList.update (lower (xt_transaction_hash t)) t (sp_traces p)\<rparr>"

definition static_execution_trace :: "StaticTraceProvider \<Rightarrow> string \<Rightarrow> int \<Rightarrow> RawExecutionTrace result" where
  "static_execution_trace p transaction_hash chain_id =
     (case map_of (sp_traces p) (lower transaction_hash) of
        None \<Rightarrow> Inl (KeyError (''No static trace registered for '' @ transaction_hash))
      | Some t \<Rightarrow> Inr \<lparr>xt_transaction_hash = xt_transaction_hash t, xt_root = xt_root t,
                       xt_provider_name = sp_provider_name p, xt_chain_id = Some chain_id\<rparr>)"

text \<open>The loader of \<open>MappingTraceProvider\<close> is a parameter.\<close>

definition mapping_execution_trace ::
  "(string \<Rightarrow> int \<Rightarrow> pyval result) \<Rightarrow> string \<Rightarrow> string \<Rightarrow> int \<Rightarrow> RawExecutionTrace result" where
  "mapping_execution_trace loader provider_name transaction_hash chain_id =
     bindR (loader transaction_hash chain_id) (\<lambda>payload. bindR (decode_node payload) (\<lambda>frame.
       Inr \<lparr>xt_transaction_hash = lower transaction_hash, xt_root = frame,
            xt_provider_name = provider_name, xt_chain_id = Some chain_id\<rparr>))"

definition analyze_hash ::
  "datetime \<Rightarrow> (string \<Rightarrow> int \<Rightarrow> RawExecutionTrace result) option \<Rightarrow> string \<Rightarrow> int \<Rightarrow> string list \<Rightarrow>
   RuntimeExecutionReport result option" where
  "analyze_hash clk provider transaction_hash chain_id trusted_addresses =
     (case provider of
        None \<Rightarrow> Some (Inl (ValueError ''trace provider is required for hash-based analysis''))
      | Some get_trace \<Rightarrow>
          (case get_trace transaction_hash chain_id of
             Inl e \<Rightarrow> Some (Inl e)
           | Inr t \<Rightarrow> analyze_trace clk (TraceTree t) None None trusted_addresses))"

end
