(* ===== verification/CallTraceProps.thy ===== *)
theory CallTraceProps
  imports CallTraceFacts TraceAnalysis
begin

text \<open>
  Properties of call traces: the graph is the trace, frame by frame; the loops up the parents end; the
  analyses say of the graph what holds of the trace.
\<close>

section \<open>Nodes and frames\<close>

lemma nodes_from_map:
  assumes "\<And>k item. h (node_of k item) = h' item"
  shows "map h (nodes_from k items) = map h' items"
  by (induction items arbitrary: k) (simp_all add: assms)

lemma node_of_simps [simp]:
  "rn_node_id (node_of k (p, f)) = path_id p"
  "rn_parent_id (node_of k (p, f)) = path_parent p"
  "rn_depth (node_of k (p, f)) = length p"
  "rn_order_index (node_of k (p, f)) = k"
  "rn_call_type (node_of k (p, f)) = rt_call_type f"
  "rn_from_address (node_of k (p, f)) = lower (rt_from_address f)"
  "rn_to_address (node_of k (p, f)) = lower_or_none (rt_to_address f)"
  "rn_gas_used (node_of k (p, f)) = rt_gas_used f"
  "rn_selector (node_of k (p, f)) = selector_of (rt_input f)"
  "rn_error (node_of k (p, f)) = rt_error f"
  "rn_revert_reason (node_of k (p, f)) = rt_revert_reason f"
  "rn_classification (node_of k (p, f)) = classify_call f (length p) (path_parent p)"
  by (simp_all add: node_of_def call_node_def)

abbreviation graph_nodes :: "RawTraceNode \<Rightarrow> RuntimeCallNode list" where
  "graph_nodes frame \<equiv> cg_nodes (build_graph frame)"

lemma in_nodes_from: "n \<in> set (nodes_from k items) \<longleftrightarrow>
    (\<exists>i < length items. n = node_of (k + i) (items ! i))"
proof -
  have "nodes_from k items ! i = node_of (k + i) (items ! i)" if "i < length items" for i
    using that by (simp add: nodes_from_def nth_enumerate_eq)
  then show ?thesis by (auto simp: in_set_conv_nth)
qed

lemma node_cases:
  assumes "n \<in> set (graph_nodes frame)"
  obtains k p f where "n = node_of k (p, f)" "frame_at frame p = Some f"
proof -
  from assms obtain i where i: "i < length (preorder [] frame)" "n = node_of i (preorder [] frame ! i)"
    by (auto simp: build_graph_preorder in_nodes_from)
  obtain p f where pf: "preorder [] frame ! i = (p, f)" by force
  with i(1) have "(p, f) \<in> set (preorder [] frame)" by (metis nth_mem)
  then have "frame_at frame p = Some f" by (simp add: preorder_mem)
  with i(2) pf that show thesis by simp
qed

lemma node_exists:
  assumes "frame_at frame p = Some f"
  obtains k where "node_of k (p, f) \<in> set (graph_nodes frame)"
proof -
  from assms have "(p, f) \<in> set (preorder [] frame)" by (simp add: preorder_mem)
  then obtain i where "i < length (preorder [] frame)" "preorder [] frame ! i = (p, f)"
    by (metis in_set_conv_nth)
  then have "node_of i (p, f) \<in> set (graph_nodes frame)"
    unfolding build_graph_preorder in_nodes_from by (intro exI [of _ i]) simp
  then show thesis by (rule that)
qed

lemma graph_ids: "map rn_node_id (graph_nodes frame) = map (\<lambda>item. path_id (fst item)) (preorder [] frame)"
  unfolding build_graph_preorder by (rule nodes_from_map) (simp add: node_of_def call_node_def)

lemma distinct_graph_ids: "distinct (map rn_node_id (graph_nodes frame))"
proof -
  have "inj path_id" by (rule injI) (simp add: path_id_inject)
  then have "distinct (map path_id (map fst (preorder [] frame)))"
    using distinct_preorder [of "[]" frame] by (simp only: distinct_map inj_on_subset [OF _ subset_UNIV] simp_thms)
  then show ?thesis by (simp add: graph_ids o_def)
qed

lemma order_indexes: "map rn_order_index (nodes_from k items) = [k..<k + length items]"
proof -
  have "map rn_order_index (nodes_from k items) = map fst (enumerate k items)"
    unfolding nodes_from_def map_map by (rule map_cong) (auto simp: node_of_def call_node_def)
  then show ?thesis by simp
qed

lemma node_of_reset: "(node_of k (p, f))\<lparr>rn_order_index := 0\<rparr> = node_of 0 (p, f)"
  by (simp add: node_of_def call_node_def)

text \<open>
  Property C4. The call graph is the trace: it has one node per frame, with unique identifiers; the
  frame at path \<open>p\<close> of the trace appears with the identifier of \<open>p\<close>, the identifier of its parent's
  path, depth \<open>length p\<close> and the frame's own data (addresses in lower case, selector, classification);
  nodes are numbered in the order of \<open>execution_order\<close>.
\<close>

theorem graph_is_trace:
  "distinct (map rn_node_id (cg_nodes (build_graph frame))) \<and>
   length (cg_nodes (build_graph frame)) = frame_count frame \<and>
   (\<lambda>n. n\<lparr>rn_order_index := 0\<rparr>) ` set (cg_nodes (build_graph frame)) =
     {call_node (path_id p) (path_parent p) (length p) 0 f |p f. frame_at frame p = Some f} \<and>
   map rn_order_index (cg_nodes (build_graph frame)) = [0..<frame_count frame] \<and>
   cg_execution_order (build_graph frame) = map rn_node_id (cg_nodes (build_graph frame))"
proof (intro conjI)
  show "(\<lambda>n. n\<lparr>rn_order_index := 0\<rparr>) ` set (graph_nodes frame) =
      {call_node (path_id p) (path_parent p) (length p) 0 f |p f. frame_at frame p = Some f}" (is "?L = ?R")
  proof (intro equalityI subsetI)
    fix m assume "m \<in> ?L"
    then obtain n where "n \<in> set (graph_nodes frame)" "m = n\<lparr>rn_order_index := 0\<rparr>" by blast
    then obtain p f where "m = node_of 0 (p, f)" "frame_at frame p = Some f"
      by (elim node_cases) (auto simp: node_of_reset)
    then show "m \<in> ?R" by (auto simp: node_of_def)
  next
    fix m assume "m \<in> ?R"
    then obtain p f where "frame_at frame p = Some f" "m = node_of 0 (p, f)" by (auto simp: node_of_def)
    then show "m \<in> ?L" by (elim node_exists) (metis imageI node_of_reset)
  qed
  show "map rn_order_index (graph_nodes frame) = [0..<frame_count frame]"
    by (simp add: build_graph_preorder length_preorder order_indexes)
  show "cg_execution_order (build_graph frame) = map rn_node_id (graph_nodes frame)"
    unfolding graph_ids by (rule build_graph_preorder)
  show "distinct (map rn_node_id (graph_nodes frame))" by (rule distinct_graph_ids)
qed (simp add: build_graph_preorder length_preorder)

section \<open>Parents come first\<close>

fun parents_first :: "nat list set \<Rightarrow> nat list list \<Rightarrow> bool" where
  "parents_first S [] = True"
| "parents_first S (q # qs) = ((q = [] \<or> butlast q \<in> S) \<and> parents_first (insert q S) qs)"

lemma parents_first_append:
  "parents_first S (ps @ qs) \<longleftrightarrow> parents_first S ps \<and> parents_first (S \<union> set ps) qs"
  by (induction ps arbitrary: S) (simp_all add: insert_commute)

lemma parents_first_mono: "parents_first S qs \<Longrightarrow> S \<subseteq> T \<Longrightarrow> parents_first T qs"
proof (induction qs arbitrary: S T)
  case (Cons q qs)
  then have "insert q S \<subseteq> insert q T" by blast
  with Cons show ?case by auto
qed simp

lemma parents_first_preorder: "p = [] \<or> butlast p \<in> S \<Longrightarrow> parents_first S (map fst (preorder p f))"
proof (induction "size f" arbitrary: p f S rule: less_induct)
  case less
  have "parents_first T (concat (map (\<lambda>item. map fst (preorder (p @ [fst item]) (snd item))) items))"
    if "set items \<subseteq> set (sorted_children f)" "p \<in> T" for items T
    using that
  proof (induction items arbitrary: T)
    case (Cons item items)
    then have "(fst item, snd item) \<in> set (sorted_children f)" by simp
    from sorted_children_mem [OF this] have "size (snd item) < size f"
      using child_smaller [of "snd item" f] by simp
    from less.hyps [OF this, of "p @ [fst item]" T] Cons.prems
    have "parents_first T (map fst (preorder (p @ [fst item]) (snd item)))" by simp
    with Cons show ?case by (simp add: parents_first_append)
  qed simp
  from this [OF subset_refl, of "insert p S"] less.prems show ?case
    by (subst preorder.simps) (simp add: map_concat o_def)
qed

lemma parents_first_nth:
  "parents_first S qs \<Longrightarrow> i < length qs \<Longrightarrow> qs ! i = [] \<or> butlast (qs ! i) \<in> S \<union> set (take i qs)"
proof (induction qs arbitrary: S i)
  case (Cons q qs)
  then show ?case by (cases i) auto
qed simp

text \<open>
  A node comes after its parent: the first node is the root, with identifier \<open>0\<close> and no
  parent, and every other node has an earlier node as its parent, one level up.
\<close>

theorem graph_parent_first:
  assumes "i < length (cg_nodes (build_graph frame))"
  shows "if i = 0
    then rn_node_id (cg_nodes (build_graph frame) ! i) = cg_root_id (build_graph frame) \<and>
         rn_parent_id (cg_nodes (build_graph frame) ! i) = None \<and>
         rn_depth (cg_nodes (build_graph frame) ! i) = 0
    else (\<exists>j < i. rn_parent_id (cg_nodes (build_graph frame) ! i) =
             Some (rn_node_id (cg_nodes (build_graph frame) ! j)) \<and>
           rn_depth (cg_nodes (build_graph frame) ! i) = rn_depth (cg_nodes (build_graph frame) ! j) + 1)"
proof -
  let ?items = "preorder [] frame"
  have len: "length (graph_nodes frame) = length ?items" by (simp add: build_graph_preorder)
  have nth: "graph_nodes frame ! j = node_of j (?items ! j)" if "j < length ?items" for j
    using that by (simp add: build_graph_preorder nodes_from_def nth_enumerate_eq)
  have head: "?items ! 0 = ([], frame)" by (subst preorder.simps) simp
  show ?thesis
  proof (cases "i = 0")
    case True
    moreover have "graph_nodes frame ! 0 = node_of 0 ([], frame)"
      using nth [of 0] assms len head True by simp
    moreover have "cg_root_id (build_graph frame) = path_id []"
      by (simp add: build_graph_def Let_def path_id_def)
    ultimately show ?thesis by (simp add: path_parent_def)
  next
    case False
    obtain q g where item: "?items ! i = (q, g)" by force
    have "q \<noteq> []"
    proof
      assume "q = []"
      moreover have "0 < length ?items" using assms len by linarith
      ultimately have "map fst ?items ! i = map fst ?items ! 0" using item head assms len by simp
      then have "i = 0"
        by (rule nth_eq_iff_index_eq [THEN iffD1, OF distinct_preorder [of "[]" frame], rotated 2])
          (use assms len \<open>0 < length ?items\<close> in simp_all)
      with False show False by simp
    qed
    with parents_first_nth [OF parents_first_preorder [of "[]" "{}" frame], of i] item assms len
    have "butlast q \<in> set (take i (map fst ?items))" by simp
    then obtain j where j: "j < i" "map fst ?items ! j = butlast q"
      using assms len by (auto simp: in_set_conv_nth)
    then obtain g' where "?items ! j = (butlast q, g')" using assms len by (cases "?items ! j") simp
    with nth [of i] nth [of j] item j assms len \<open>q \<noteq> []\<close> have
      "rn_parent_id (graph_nodes frame ! i) = Some (rn_node_id (graph_nodes frame ! j))"
      "rn_depth (graph_nodes frame ! i) = rn_depth (graph_nodes frame ! j) + 1"
      by (simp_all add: path_parent_def)
    with False j(1) show ?thesis by auto
  qed
qed

text \<open>A call with a nested delegatecall and a failed transfer.\<close>

definition demo_frame :: RawTraceNode where
  "demo_frame = RawTraceNode OpCall ''0xaa'' (Some ''0xBB'') 0 100 100 [] [] None None
     [RawTraceNode OpDelegatecall ''0xbb'' (Some ''0xcc'') 0 60 40 [1, 2, 3, 4] [] None None [],
      RawTraceNode OpCall ''0xbb'' (Some ''0xdd'') 1 30 20 [] [] (Some ''reverted'') None []]"

lemma demo_count: "frame_count demo_frame = 3" "frame_height demo_frame = 1"
  by (simp_all add: demo_frame_def)

theorem graph_parent_first_witness:
  "\<exists>j < 2. rn_parent_id (cg_nodes (build_graph demo_frame) ! 2) =
      Some (rn_node_id (cg_nodes (build_graph demo_frame) ! j)) \<and>
    rn_depth (cg_nodes (build_graph demo_frame) ! 2) = rn_depth (cg_nodes (build_graph demo_frame) ! j) + 1"
proof -
  have "2 < length (cg_nodes (build_graph demo_frame))"
    by (simp add: build_graph_preorder length_preorder demo_count)
  from graph_parent_first [OF this] show ?thesis by simp
qed

section \<open>The loops up the parents end\<close>

lemma node_at:
  assumes "frame_at frame p = Some f"
  obtains k where "map_of (nodes_by_id (build_graph frame)) (path_id p) = Some (node_of k (p, f))"
proof -
  obtain k where k: "node_of k (p, f) \<in> set (graph_nodes frame)"
    using node_exists [OF assms] by blast
  from map_of_dict_of_inj [OF distinct_graph_ids k, of "\<lambda>n. n"] show thesis
    by (intro that [of k]) (simp add: nodes_by_id_def)
qed

lemma frame_at_append: "frame_at f (p @ q) = Option.bind (frame_at f p) (\<lambda>g. frame_at g q)"
  by (induction p arbitrary: f) simp_all

lemma frame_at_butlast:
  assumes "frame_at frame (p @ [i]) = Some f"
  obtains g where "frame_at frame p = Some g"
  using assms by (cases "frame_at frame p") (simp_all add: frame_at_append)

abbreviation root_path :: "nat list \<Rightarrow> string list" where
  "root_path p \<equiv> map path_id (prefixes p)"

lemma walks_up:
  assumes "frame_at frame p = Some f"
  shows "deepest_walk (nodes_by_id (build_graph frame)) (Some (path_id p)) acc = Some (Inr (root_path p @ rev acc))"
    and "execution_walk (nodes_by_id (build_graph frame)) (Some (path_id p)) acc = Some (root_path p @ rev acc)"
  using assms
proof (induction p arbitrary: f acc rule: rev_induct)
  case Nil
  case 1
  obtain k where "map_of (nodes_by_id (build_graph frame)) (path_id []) = Some (node_of k ([], f))"
    using node_at [OF 1] by blast
  then show ?case
    by (simp add: deepest_walk.simps [of _ "Some _"] deepest_walk.simps [of _ None] path_parent_def)
next
  case Nil
  case 2
  obtain k where "map_of (nodes_by_id (build_graph frame)) (path_id []) = Some (node_of k ([], f))"
    using node_at [OF 2] by blast
  then show ?case
    by (simp add: execution_walk.simps [of _ "Some _"] execution_walk.simps [of _ None] path_parent_def)
next
  case (snoc i p)
  case 1
  obtain g where g: "frame_at frame p = Some g" using frame_at_butlast [OF 1] by blast
  obtain k where "map_of (nodes_by_id (build_graph frame)) (path_id (p @ [i])) = Some (node_of k (p @ [i], f))"
    using node_at [OF 1] by blast
  with snoc.IH(1) [OF g] show ?case
    by (simp add: deepest_walk.simps [of _ "Some (path_id (p @ [i]))"] path_parent_snoc prefixes_snoc)
next
  case (snoc i p)
  case 2
  obtain g where g: "frame_at frame p = Some g" using frame_at_butlast [OF 2] by blast
  obtain k where "map_of (nodes_by_id (build_graph frame)) (path_id (p @ [i])) = Some (node_of k (p @ [i], f))"
    using node_at [OF 2] by blast
  with snoc.IH(2) [OF g] show ?case
    by (simp add: execution_walk.simps [of _ "Some (path_id (p @ [i]))"] path_parent_snoc prefixes_snoc)
qed

lemma max_first_Some:
  "max_first h xs = Some x \<Longrightarrow> x \<in> set xs \<and> (\<forall>y \<in> set xs. h y \<le> h x)"
proof (induction xs arbitrary: x)
  case (Cons a xs)
  show ?case
  proof (cases "max_first h xs")
    case None
    then have "xs = []" by (cases xs) (simp_all split: option.splits)
    with Cons.prems show ?thesis by simp
  next
    case (Some y)
    with Cons.IH [OF Some] Cons.prems show ?thesis by (auto split: if_splits)
  qed
qed simp

lemma max_first_None: "max_first h xs = None \<longleftrightarrow> xs = []"
  by (cases xs) (simp_all split: option.splits)

text \<open>The height of the trace is the depth of its deepest frame.\<close>

lemma fold_max_ge: "x \<in> set (m # xs) \<Longrightarrow> x \<le> fold max xs (m :: nat)"
  by (simp only: Max.set_eq_fold [symmetric]) (rule Max_ge; simp)

lemma fold_max_in: "fold max xs (m :: nat) \<in> set (m # xs)"
  by (simp only: Max.set_eq_fold [symmetric]) (rule Max_in; simp)

lemma frame_height_eq: "frame_height f = fold max (map (\<lambda>c. frame_height c + 1) (rt_children f)) 0"
  by (cases f) simp

lemma frame_height_bound: "frame_at f p = Some g \<Longrightarrow> length p \<le> frame_height f"
proof (induction p arbitrary: f)
  case (Cons i p)
  then have i: "i < length (rt_children f)" "frame_at (rt_children f ! i) p = Some g"
    by (auto split: if_splits)
  then have "frame_height (rt_children f ! i) + 1 \<le> frame_height f"
    unfolding frame_height_eq [of f] by (intro fold_max_ge) simp
  with Cons.IH [OF i(2)] show ?case by simp
qed simp

lemma frame_height_reached: "\<exists>p g. frame_at f p = Some g \<and> length p = frame_height f"
proof (induction "size f" arbitrary: f rule: less_induct)
  case less
  have "frame_height f \<in> set (0 # map (\<lambda>c. frame_height c + 1) (rt_children f))"
    unfolding frame_height_eq [of f] by (rule fold_max_in)
  then consider (leaf) "frame_height f = 0"
    | (child) i where "i < length (rt_children f)" "frame_height f = frame_height (rt_children f ! i) + 1"
    by (auto simp: in_set_conv_nth)
  then show ?case
  proof cases
    case leaf
    then show ?thesis by (intro exI [of _ "[]"]) simp
  next
    case child
    with less [of "rt_children f ! i"] child_smaller [of "rt_children f ! i" f]
    obtain p g where "frame_at (rt_children f ! i) p = Some g" "length p = frame_height (rt_children f ! i)"
      by auto
    with child show ?thesis by (intro exI [of _ "i # p"]) auto
  qed
qed

lemma max_depth_height: "cg_max_depth (build_graph frame) = frame_height frame"
proof -
  have depth: "cg_max_depth (build_graph frame) = fold max (map rn_depth (graph_nodes frame)) 0"
    by (simp add: build_graph_def Let_def)
  obtain p g where p: "frame_at frame p = Some g" "length p = frame_height frame"
    using frame_height_reached by blast
  obtain k where "node_of k (p, g) \<in> set (graph_nodes frame)" using node_exists [OF p(1)] by blast
  then have "length p \<in> set (0 # map rn_depth (graph_nodes frame))" by force
  then have "frame_height frame \<le> cg_max_depth (build_graph frame)"
    unfolding depth p(2) [symmetric] by (rule fold_max_ge)
  moreover have "cg_max_depth (build_graph frame) \<in> set (0 # map rn_depth (graph_nodes frame))"
    unfolding depth by (rule fold_max_in)
  then have "cg_max_depth (build_graph frame) \<le> frame_height frame"
  proof (cases "cg_max_depth (build_graph frame) = 0")
    case False
    with \<open>cg_max_depth _ \<in> _\<close> obtain n where "n \<in> set (graph_nodes frame)" "cg_max_depth (build_graph frame) = rn_depth n"
      by auto
    then show ?thesis by (elim node_cases) (simp add: frame_height_bound)
  qed simp
  ultimately show ?thesis by simp
qed

lemma deepest_path_root:
  obtains p f where "frame_at frame p = Some f" "length p = frame_height frame"
    "deepest_path (build_graph frame) = Some (Inr (root_path p))"
proof -
  let ?key = "\<lambda>node. (rn_depth node, rn_order_index node)"
  have "graph_nodes frame \<noteq> []"
    using node_exists [of frame "[]" frame] by (metis empty_iff frame_at.simps(1) list.set(1))
  then have "max_first ?key (graph_nodes frame) \<noteq> None" by (simp add: max_first_None)
  then obtain n where n: "max_first ?key (graph_nodes frame) = Some n" by blast
  note greatest = max_first_Some [OF n]
  then obtain k p f where pf: "n = node_of k (p, f)" "frame_at frame p = Some f"
    by (blast elim: node_cases)
  obtain q g where q: "frame_at frame q = Some g" "length q = frame_height frame"
    using frame_height_reached by blast
  obtain j where "node_of j (q, g) \<in> set (graph_nodes frame)" using node_exists [OF q(1)] by blast
  with greatest have "?key (node_of j (q, g)) \<le> ?key n" by blast
  then have "frame_height frame \<le> length p" using pf q(2) by (auto simp: less_eq_prod_def)
  with frame_height_bound [OF pf(2)] have "length p = frame_height frame" by simp
  moreover have "deepest_path (build_graph frame) = Some (Inr (root_path p))"
    using n walks_up(1) [OF pf(2), of "[]"] pf(1) by (simp add: deepest_path_def)
  ultimately show thesis using pf(2) that by blast
qed

text \<open>
  Property C26. Profiling returns for every trace, although the loop up the parents need not end on an
  arbitrary graph: the deepest path leads from the root, parent by parent, to a frame of greatest
  depth, and \<open>deepest_depth\<close>, \<open>max_depth\<close> and the height of the trace agree.
\<close>

theorem deepest_path_correct:
  "\<exists>profile p f. profile_gas (build_graph frame) = Some (Inr profile) \<and>
     frame_at frame p = Some f \<and> length p = frame_height frame \<and>
     (\<forall>q g. frame_at frame q = Some g \<longrightarrow> length q \<le> length p) \<and>
     gp_deepest_path profile = map path_id (prefixes p) \<and>
     gp_deepest_depth profile = frame_height frame \<and>
     cg_max_depth (build_graph frame) = frame_height frame"
proof -
  obtain p f where p: "frame_at frame p = Some f" "length p = frame_height frame"
    "deepest_path (build_graph frame) = Some (Inr (root_path p))"
    by (rule deepest_path_root)
  then obtain profile where "profile_gas (build_graph frame) = Some (Inr profile)"
      "gp_deepest_path profile = root_path p" "gp_deepest_depth profile = length p"
    by (simp add: profile_gas_def Let_def)
  moreover have "length q \<le> length p" if "frame_at frame q = Some g" for q g
    using frame_height_bound [OF that] p(2) by simp
  ultimately show ?thesis
    using p(1,2) max_depth_height [of frame] by metis
qed

theorem deepest_path_correct_witness:
  "\<exists>profile. profile_gas (build_graph demo_frame) = Some (Inr profile) \<and>
    gp_deepest_depth profile = 1 \<and> length (gp_deepest_path profile) = 2"
  using deepest_path_correct [of demo_frame] by (auto simp: demo_count)

end
