(* ===== verification/TraceReportProps.thy ===== *)
theory TraceReportProps
  imports CallTraceProps
begin

text \<open>
  What a runtime execution report says of the trace: reverts, gas totals, events and evidence.
\<close>

section \<open>Reverts\<close>

definition failed_frame :: "RawTraceNode \<Rightarrow> bool" where
  "failed_frame f \<longleftrightarrow> opt_truthy (rt_error f) \<or> opt_truthy (rt_revert_reason f)"

definition finding_at :: "nat list \<times> RawTraceNode \<Rightarrow> RevertFinding" where
  "finding_at item = revert_finding (node_of 0 item) (root_path (fst item))"

lemma failed_call_node_of [simp]: "failed_call (node_of k item) = failed_frame (snd item)"
  by (cases item) (simp add: failed_call_def failed_frame_def)

lemma revert_finding_node_of: "revert_finding (node_of k item) path = revert_finding (node_of 0 item) path"
  by (cases item) (simp add: revert_finding_def)

lemma revert_findings_eq:
  assumes "\<forall>(p, f) \<in> set items. frame_at frame p = Some f"
  shows "revert_findings (nodes_by_id (build_graph frame)) (nodes_from k items) =
    Some (map finding_at (filter (\<lambda>item. failed_frame (snd item)) items))"
  using assms
proof (induction items arbitrary: k)
  case (Cons item items)
  obtain p f where item: "item = (p, f)" by force
  with Cons.prems have "frame_at frame p = Some f" by simp
  from walks_up(2) [OF this, of "[]"] Cons item show ?case
    by (simp add: finding_at_def revert_finding_node_of [of k])
qed simp

lemma distinct_path_ids: "distinct ps \<Longrightarrow> distinct (map path_id ps)"
  by (simp add: distinct_map inj_on_def path_id_inject)

lemma sorted_take_drop:
  assumes "sorted (map h xs)" "x \<in> set (take n xs)" "y \<in> set (drop n xs)"
  shows "h x \<le> h y"
proof -
  from assms(1) have "sorted (map h (take n xs) @ map h (drop n xs))"
    by (simp flip: map_append)
  with assms(2,3) show ?thesis by (simp add: sorted_append)
qed

lemma preorder_frames: "\<forall>(p, f) \<in> set (preorder [] frame). frame_at frame p = Some f"
  by (auto simp: preorder_mem)

lemma finding_at_simps [simp]:
  "rf_node_id (finding_at (p, f)) = path_id p"
  "rf_call_depth (finding_at (p, f)) = length p"
  "rf_failing_function (finding_at (p, f)) = selector_of (rt_input f)"
  "rf_revert_reason (finding_at (p, f)) = opt_or (rt_revert_reason f) (rt_error f)"
  "rf_execution_path (finding_at (p, f)) = root_path p"
  by (simp_all add: finding_at_def revert_finding_def)

lemma analyze_reverts_eq:
  "analyze_reverts (build_graph frame) = Some
     (let ordered = sort_key (\<lambda>f. (rf_call_depth f, rf_node_id f))
        (map finding_at (filter (\<lambda>item. failed_frame (snd item)) (preorder [] frame)))
      in \<lparr>ra_has_revert = (ordered \<noteq> []), ra_findings = ordered\<rparr>)"
  by (simp add: analyze_reverts_def build_graph_preorder revert_findings_eq [OF preorder_frames])

text \<open>
  The revert analysis is complete and exact: it returns for every trace, reports a
  finding for each frame with an error or a revert reason and for no other, with the frame's depth,
  selector, reason and the path from the root to it, shallow frames first; \<open>has_revert\<close> holds
  exactly when some frame failed.
\<close>

theorem reverts_exact:
  "\<exists>ra. analyze_reverts (build_graph frame) = Some ra \<and>
     (ra_has_revert ra \<longleftrightarrow> (\<exists>p f. frame_at frame p = Some f \<and> failed_frame f)) \<and>
     (\<lambda>x. (rf_node_id x, rf_call_depth x, rf_failing_function x, rf_revert_reason x, rf_execution_path x)) `
         set (ra_findings ra) =
       {(path_id p, length p, selector_of (rt_input f), opt_or (rt_revert_reason f) (rt_error f),
         map path_id (prefixes p)) |p f. frame_at frame p = Some f \<and> failed_frame f} \<and>
     distinct (map rf_node_id (ra_findings ra)) \<and> sorted (map rf_call_depth (ra_findings ra))"
proof -
  let ?failed = "filter (\<lambda>item. failed_frame (snd item)) (preorder [] frame)"
  let ?ordered = "sort_key (\<lambda>f. (rf_call_depth f, rf_node_id f)) (map finding_at ?failed)"
  let ?ra = "\<lparr>ra_has_revert = (?ordered \<noteq> []), ra_findings = ?ordered\<rparr>"
  have members: "set ?failed = {(p, f) |p f. frame_at frame p = Some f \<and> failed_frame f}"
    by (auto simp: preorder_mem)
  have "analyze_reverts (build_graph frame) = Some ?ra"
    by (simp only: analyze_reverts_eq Let_def)
  moreover have "ra_has_revert ?ra \<longleftrightarrow> (\<exists>p f. frame_at frame p = Some f \<and> failed_frame f)"
  proof -
    have "ra_has_revert ?ra \<longleftrightarrow> set ?failed \<noteq> {}"
      by (simp only: RevertAnalysis.select_convs sort_key_Nil map_is_Nil_conv set_empty simp_thms)
    then show ?thesis unfolding members by auto
  qed
  moreover have "(\<lambda>x. (rf_node_id x, rf_call_depth x, rf_failing_function x, rf_revert_reason x, rf_execution_path x)) `
         set (ra_findings ?ra) =
       {(path_id p, length p, selector_of (rt_input f), opt_or (rt_revert_reason f) (rt_error f),
         root_path p) |p f. frame_at frame p = Some f \<and> failed_frame f}" (is "?g ` _ = ?R")
  proof -
    have "set (ra_findings ?ra) = finding_at ` set ?failed" by simp
    then show ?thesis unfolding members by (force simp: image_iff)
  qed
  moreover have "distinct (map rf_node_id (ra_findings ?ra))"
  proof -
    have "map rf_node_id (map finding_at ?failed) = map path_id (map fst ?failed)"
      by (auto simp: split_beta finding_at_def revert_finding_def node_of_def call_node_def)
    moreover have "distinct (map fst ?failed)"
      using distinct_preorder [of "[]" frame] by (rule distinct_map_filter)
    then have "distinct (map path_id (map fst ?failed))"
      by (rule distinct_path_ids)
    ultimately show ?thesis by (simp only: distinct_map_sort_key RevertAnalysis.select_convs)
  qed
  moreover have "sorted (map rf_call_depth (ra_findings ?ra))"
  proof -
    have "sorted (map (\<lambda>f. (rf_call_depth f, rf_node_id f)) ?ordered)" by simp
    then have "sorted (map fst (map (\<lambda>f. (rf_call_depth f, rf_node_id f)) ?ordered))"
      by (auto simp: sorted_iff_nth_mono less_eq_prod_def nat_less_le simp del: map_map sort_key_simps)
    then show ?thesis by (simp add: o_def)
  qed
  ultimately show ?thesis by blast
qed

section \<open>Gas\<close>

definition frame_key :: "RawTraceNode \<Rightarrow> string" where
  "frame_key f = (case selector_of (rt_input f) of Some s \<Rightarrow> s | None \<Rightarrow> call_type_value (rt_call_type f))"

lemma hex_bytes_nonempty: "bs \<noteq> [] \<Longrightarrow> hex_bytes bs \<noteq> []"
  by (cases bs) (simp_all add: hex_bytes_def hex_byte_def)

lemma selector_nonempty: "selector_of bs = Some s \<Longrightarrow> s \<noteq> []"
proof -
  assume sel: "selector_of bs = Some s"
  then have "take 4 bs \<noteq> []" by (auto simp: selector_of_def split: if_splits)
  from hex_bytes_nonempty [OF this] sel show "s \<noteq> []"
    by (simp add: selector_of_def split: if_splits)
qed

lemma function_key_node_of [simp]: "function_key (call_stat (node_of k (p, f))) = frame_key f"
  by (auto simp: function_key_def call_stat_def frame_key_def dest: selector_nonempty split: option.split)

lemma function_totals_fold:
  assumes "wf_dict d"
  shows "wf_dict (fold add_gas stats d)"
    and "dict_get (fold add_gas stats d) k 0 =
      dict_get d k 0 + sum_list (map (\<lambda>s. if function_key s = k then gs_gas_used s else 0) stats)"
    and "set (dict_keys (fold add_gas stats d)) = set (dict_keys d) \<union> function_key ` set stats"
  using assms
proof (induction stats arbitrary: d)
  case (Cons s stats)
  have wf: "wf_dict (add_gas s d)" if "wf_dict d" for d
    using that by (simp add: add_gas_def distinct_update)
  { case 1 with Cons.IH(1) [OF wf] show ?case by simp }
  { case 2 with Cons.IH(2) [OF wf] show ?case by (simp add: dict_get_def add_gas_def) }
  { case 3 with Cons.IH(3) [OF wf] show ?case by (auto simp: keys_upd add_gas_def simp del: set_map) }
qed simp_all

lemma function_totals_props:
  "wf_dict (function_totals stats)"
  "dict_get (function_totals stats) k 0 = sum_list (map (\<lambda>s. if function_key s = k then gs_gas_used s else 0) stats)"
  "set (dict_keys (function_totals stats)) = function_key ` set stats"
  using function_totals_fold [of "[]" stats]
  by (simp_all add: function_totals_def dict_get_def)

lemma sum_stats: "sum_list (map h (map call_stat (graph_nodes frame))) = frame_sum h' frame"
  if "\<And>k p f. h (call_stat (node_of k (p, f))) = h' f"
proof -
  have "map h (map call_stat (nodes_from k items)) = map (\<lambda>item. h' (snd item)) items" for k items
  proof (induction items arbitrary: k)
    case (Cons item items)
    with that [of k "fst item" "snd item"] show ?case by simp
  qed simp
  then show ?thesis by (simp only: build_graph_preorder preorder_sum)
qed

definition graph_totals :: "RawTraceNode \<Rightarrow> (string, int) dict" where
  "graph_totals frame = function_totals (map call_stat (graph_nodes frame))"

definition ranked_totals :: "RawTraceNode \<Rightarrow> (string \<times> int) list" where
  "ranked_totals frame = sort_key (\<lambda>p. (- snd p, fst p)) (graph_totals frame)"

abbreviation key_gas :: "RawTraceNode \<Rightarrow> string \<Rightarrow> int" where
  "key_gas frame key \<equiv> frame_sum (\<lambda>f. if frame_key f = key then rt_gas_used f else 0) frame"

lemma ranked_entry:
  assumes "(key, gas) \<in> set (ranked_totals frame)"
  shows "gas = key_gas frame key"
proof -
  have "dict_get (graph_totals frame) key 0 = key_gas frame key"
    unfolding graph_totals_def function_totals_props(2)
    by (rule sum_stats) (simp only: function_key_node_of, simp add: call_stat_def)
  moreover have "wf_dict (graph_totals frame)"
    unfolding graph_totals_def by (rule function_totals_props)
  ultimately show ?thesis using assms by (simp add: dict_get_def ranked_totals_def)
qed

lemma ranked_keys: "set (dict_keys (ranked_totals frame)) = {frame_key f |p f. frame_at frame p = Some f}"
proof -
  let ?stats = "map call_stat (graph_nodes frame)"
  have "function_key ` set ?stats = {frame_key f |p f. frame_at frame p = Some f}"
  proof (intro equalityI subsetI)
    fix key assume "key \<in> function_key ` set ?stats"
    then obtain n where "n \<in> set (graph_nodes frame)" "key = function_key (call_stat n)" by auto
    then show "key \<in> {frame_key f |p f. frame_at frame p = Some f}"
      by (elim node_cases) auto
  next
    fix key assume "key \<in> {frame_key f |p f. frame_at frame p = Some f}"
    then obtain p f where "frame_at frame p = Some f" "key = frame_key f" by blast
    then show "key \<in> function_key ` set ?stats"
      by (elim node_exists) (force simp: image_image simp flip: function_key_node_of)
  qed
  then have "set (dict_keys (graph_totals frame)) = {frame_key f |p f. frame_at frame p = Some f}"
    unfolding graph_totals_def by (simp only: function_totals_props(3))
  then show ?thesis by (simp add: ranked_totals_def)
qed

lemma ranked_sorted: "sorted (map (\<lambda>p. - snd p) (ranked_totals frame))"
proof -
  have "sorted (map (\<lambda>p. (- snd p, fst p)) (ranked_totals frame))" by (simp add: ranked_totals_def)
  then show ?thesis
    by (auto simp: sorted_iff_nth_mono less_eq_prod_def order.order_iff_strict)
qed

lemma length_ranked: "length (ranked_totals frame) = card {frame_key f |p f. frame_at frame p = Some f}"
proof -
  have "wf_dict (ranked_totals frame)"
    by (simp add: ranked_totals_def graph_totals_def function_totals_props(1) del: distinct_map)
  from distinct_card [OF this] show ?thesis unfolding ranked_keys by simp
qed

lemma ranked_left_out:
  assumes "frame_at frame p = Some f" "frame_key f \<notin> fst ` set (take n (ranked_totals frame))"
    and "(key, gas) \<in> set (take n (ranked_totals frame))"
  shows "key_gas frame (frame_key f) \<le> gas"
proof -
  have "frame_key f \<in> set (dict_keys (ranked_totals frame))"
    using assms(1) unfolding ranked_keys by blast
  then obtain g where g: "(frame_key f, g) \<in> set (ranked_totals frame)" by auto
  have "(frame_key f, g) \<notin> set (take n (ranked_totals frame))"
  proof
    assume "(frame_key f, g) \<in> set (take n (ranked_totals frame))"
    then have "frame_key f \<in> fst ` set (take n (ranked_totals frame))"
      by (rule rev_image_eqI) simp
    with assms(2) show False by contradiction
  qed
  moreover have "set (ranked_totals frame) = set (take n (ranked_totals frame)) \<union> set (drop n (ranked_totals frame))"
    by (simp only: set_append [symmetric] append_take_drop_id)
  ultimately have "(frame_key f, g) \<in> set (drop n (ranked_totals frame))" using g by blast
  from sorted_take_drop [OF ranked_sorted assms(3) this] have "g \<le> gas" by simp
  with ranked_entry [OF g] show ?thesis by simp
qed

text \<open>
  Property C30. Gas totals: the total of a profile is the sum of \<open>gas_used\<close> over all frames of the trace
  (a frame's own number and, again, those of the calls nested in it); the five hottest functions are
  listed by falling total, each with the sum over the frames of its selector (or call type), and
  every function left out has a total no greater than those listed.
\<close>

theorem gas_totals:
  assumes "profile_gas (build_graph frame) = Some (Inr profile)"
  shows "gp_total_gas_used profile =
      rt_gas_used frame + sum_list (map (frame_sum rt_gas_used) (rt_children frame)) \<and>
    length (gp_hottest_functions profile) = min 5 (card {frame_key f |p f. frame_at frame p = Some f}) \<and>
    (\<forall>(key, gas) \<in> set (gp_hottest_functions profile).
       gas = frame_sum (\<lambda>f. if frame_key f = key then rt_gas_used f else 0) frame) \<and>
    sorted (map (\<lambda>(key, gas). - gas) (gp_hottest_functions profile)) \<and>
    (\<forall>p f. frame_at frame p = Some f \<longrightarrow> frame_key f \<notin> fst ` set (gp_hottest_functions profile) \<longrightarrow>
       (\<forall>(key, gas) \<in> set (gp_hottest_functions profile).
          frame_sum (\<lambda>g. if frame_key g = frame_key f then rt_gas_used g else 0) frame \<le> gas))"
proof -
  from assms have hot: "gp_hottest_functions profile = take 5 (ranked_totals frame)"
    and total: "gp_total_gas_used profile = sum_list (map gs_gas_used (map call_stat (graph_nodes frame)))"
    by (auto simp: profile_gas_def Let_def bindR_eq_Inr top_functions_def ranked_totals_def graph_totals_def)
  show ?thesis
  proof (intro conjI)
    show "gp_total_gas_used profile = rt_gas_used frame + sum_list (map (frame_sum rt_gas_used) (rt_children frame))"
      unfolding total frame_sum_eq [symmetric] by (rule sum_stats) (simp add: call_stat_def)
    show "length (gp_hottest_functions profile) = min 5 (card {frame_key f |p f. frame_at frame p = Some f})"
      by (simp add: hot length_ranked)
    show "\<forall>(key, gas) \<in> set (gp_hottest_functions profile). gas = key_gas frame key"
      using ranked_entry by (auto simp: hot dest: in_set_takeD)
    show "sorted (map (\<lambda>(key, gas). - gas) (gp_hottest_functions profile))"
      using sorted_wrt_take [OF ranked_sorted, of 5 frame] by (simp add: hot take_map case_prod_unfold)
    show "\<forall>p f. frame_at frame p = Some f \<longrightarrow> frame_key f \<notin> fst ` set (gp_hottest_functions profile) \<longrightarrow>
       (\<forall>(key, gas) \<in> set (gp_hottest_functions profile). key_gas frame (frame_key f) \<le> gas)"
      unfolding hot using ranked_left_out by (intro allI impI ballI) (clarify, blast)
  qed
qed

text \<open>The depth of a profile; every trace has one.\<close>

lemma profile_gas_depth:
  obtains profile where "profile_gas (build_graph frame) = Some (Inr profile)"
    "gp_deepest_depth profile = frame_height frame"
proof -
  obtain p f where "frame_at frame p = Some f" "length p = frame_height frame"
    "deepest_path (build_graph frame) = Some (Inr (root_path p))"
    by (rule deepest_path_root)
  then obtain profile where "profile_gas (build_graph frame) = Some (Inr profile)"
      "gp_deepest_depth profile = frame_height frame"
    by (simp add: profile_gas_def Let_def)
  then show thesis by (rule that)
qed

theorem gas_totals_witness:
  "\<exists>profile. profile_gas (build_graph demo_frame) = Some (Inr profile) \<and> gp_total_gas_used profile = 160"
proof -
  obtain profile where profile: "profile_gas (build_graph demo_frame) = Some (Inr profile)"
    by (rule profile_gas_depth)
  from gas_totals [OF profile] have "gp_total_gas_used profile = 160" by (simp add: demo_frame_def)
  with profile show ?thesis by blast
qed

section \<open>Events\<close>

lemma runtime_event_value_inject: "runtime_event_value a = runtime_event_value b \<longleftrightarrow> a = b"
  by (cases a; cases b) simp_all

definition has_event :: "RuntimeEventType \<Rightarrow> RuntimeEvent list \<Rightarrow> bool" where
  "has_event ty es \<longleftrightarrow> ty \<in> ru_event_type ` set es"

lemma has_event_simps [simp]:
  "has_event ty [] = False"
  "has_event ty (e # es) \<longleftrightarrow> ru_event_type e = ty \<or> has_event ty es"
  "has_event ty (es @ fs) \<longleftrightarrow> has_event ty es \<or> has_event ty fs"
  "has_event ty (sort_events es) \<longleftrightarrow> has_event ty es"
  by (auto simp: has_event_def sort_events_def)

lemma has_event_dedupe [simp]: "has_event ty (dedupe_events es) \<longleftrightarrow> has_event ty es"
proof -
  have "runtime_event_key ` set (dedupe_events es) = runtime_event_key ` set es"
    by (simp add: dedupe_events_def sort_events_def)
  then have "fst ` runtime_event_key ` set (dedupe_events es) = fst ` runtime_event_key ` set es" by simp
  then have keys: "(\<lambda>e. runtime_event_value (ru_event_type e)) ` set (dedupe_events es) =
      (\<lambda>e. runtime_event_value (ru_event_type e)) ` set es"
    by (simp add: image_image runtime_event_key_def)
  have "has_event ty fs \<longleftrightarrow>
      runtime_event_value ty \<in> (\<lambda>e. runtime_event_value (ru_event_type e)) ` set fs" for fs
    by (auto simp: has_event_def image_iff runtime_event_value_inject)
  then show ?thesis by (simp only: keys)
qed

text \<open>Each detector emits its own types.\<close>

lemma detector_types:
  "has_event ty (recursive_calls seen ns) \<Longrightarrow> ty = RteRecursiveCall"
  "has_event ty (flash_loan_callbacks g) \<Longrightarrow> ty = RteFlashLoanCallback"
  "has_event ty (concat (map (proxy_execution d) ns)) \<Longrightarrow> ty = RteProxyExecution"
  "has_event ty (delegatecall_chain ns) \<longleftrightarrow> ty = RteDelegatecallChain \<and> 2 \<le> length ns"
  "has_event ty (detect_creates g) \<longleftrightarrow> ty = RteContractCreation \<and>
     (\<exists>n \<in> set (cg_nodes g). rn_call_type n = OpCreate \<or> rn_call_type n = OpCreate2)"
  "has_event ty (detect_selfdestructs g) \<longleftrightarrow> ty = RteContractDestruction \<and>
     (\<exists>n \<in> set (cg_nodes g). rn_call_type n = OpSelfdestruct)"
proof -
  show "has_event ty (recursive_calls seen ns) \<Longrightarrow> ty = RteRecursiveCall"
    by (induction ns arbitrary: seen) (auto simp: runtime_event_def split: if_splits)
  show "has_event ty (flash_loan_callbacks g) \<Longrightarrow> ty = RteFlashLoanCallback"
    by (auto simp: has_event_def flash_loan_callbacks_def runtime_event_def split: if_splits)
  show "has_event ty (concat (map (proxy_execution d) ns)) \<Longrightarrow> ty = RteProxyExecution"
    by (auto simp: has_event_def proxy_execution_def runtime_event_def split: option.splits if_splits)
  show "has_event ty (delegatecall_chain ns) \<longleftrightarrow> ty = RteDelegatecallChain \<and> 2 \<le> length ns"
    by (auto simp: delegatecall_chain_def runtime_event_def)
  show "has_event ty (detect_creates g) \<longleftrightarrow> ty = RteContractCreation \<and>
     (\<exists>n \<in> set (cg_nodes g). rn_call_type n = OpCreate \<or> rn_call_type n = OpCreate2)"
    by (auto simp: detect_creates_def has_event_def sort_events_def runtime_event_def image_iff)
  show "has_event ty (detect_selfdestructs g) \<longleftrightarrow> ty = RteContractDestruction \<and>
     (\<exists>n \<in> set (cg_nodes g). rn_call_type n = OpSelfdestruct)"
    by (auto simp: detect_selfdestructs_def has_event_def sort_events_def runtime_event_def image_iff)
qed

text \<open>A frame two levels down is neither external nor top-level, so it is never unexpected.\<close>

lemma not_unexpected: "\<not> unexpected_external root_to trusted (node_of k (p, f))"
  by (cases p)
    (auto simp: unexpected_external_def classify_call_def path_parent_def split: option.splits if_splits)

lemma no_unexpected_events: "unexpected_external_calls (build_graph frame) trusted = []"
proof -
  have "\<not> unexpected_external root_to t n" if "n \<in> set (graph_nodes frame)" for n root_to t
    using that by (elim node_cases) (simp add: not_unexpected)
  then show ?thesis by (simp add: unexpected_external_calls_def Let_def filter_empty_conv)
qed

lemma call_types_of_nodes:
  "(\<exists>n \<in> set (graph_nodes frame). P (rn_call_type n)) \<longleftrightarrow> (\<exists>p f. frame_at frame p = Some f \<and> P (rt_call_type f))"
proof
  assume "\<exists>n \<in> set (graph_nodes frame). P (rn_call_type n)"
  then obtain n where "n \<in> set (graph_nodes frame)" "P (rn_call_type n)" by blast
  then show "\<exists>p f. frame_at frame p = Some f \<and> P (rt_call_type f)" by (elim node_cases) auto
next
  assume "\<exists>p f. frame_at frame p = Some f \<and> P (rt_call_type f)"
  then obtain p f where "frame_at frame p = Some f" "P (rt_call_type f)" by blast
  then show "\<exists>n \<in> set (graph_nodes frame). P (rn_call_type n)" by (elim node_exists) force
qed

lemma delegate_count: "length (delegate_nodes (build_graph frame)) =
    card {p. \<exists>f. frame_at frame p = Some f \<and> rt_call_type f = OpDelegatecall}"
proof -
  let ?items = "filter (\<lambda>item. rt_call_type (snd item) = OpDelegatecall) (preorder [] frame)"
  have "length (filter (\<lambda>n. rn_call_type n = OpDelegatecall) (nodes_from k items)) =
      length (filter (\<lambda>item. rt_call_type (snd item) = OpDelegatecall) items)" for k items
    by (induction items arbitrary: k) (simp_all add: node_of_def call_node_def)
  then have "length (delegate_nodes (build_graph frame)) = length (map fst ?items)"
    by (simp add: delegate_nodes_def build_graph_preorder)
  also have "distinct (map fst ?items)"
    using distinct_preorder [of "[]" frame] by (rule distinct_map_filter)
  from distinct_card [OF this]
  have "length (map fst ?items) = card (set (map fst ?items))" by simp
  also have "set (map fst ?items) = {p. \<exists>f. frame_at frame p = Some f \<and> rt_call_type f = OpDelegatecall}"
  proof (intro equalityI subsetI)
    fix p assume "p \<in> {p. \<exists>f. frame_at frame p = Some f \<and> rt_call_type f = OpDelegatecall}"
    then obtain f where "(p, f) \<in> set ?items" by (auto simp: preorder_mem)
    then show "p \<in> set (map fst ?items)" unfolding set_map by (rule rev_image_eqI) simp
  qed (auto simp: preorder_mem)
  finally show ?thesis .
qed

text \<open>The types of the events of a trace.\<close>

lemma trace_event_types:
  "has_event RteContractDestruction (analyze_events (build_graph frame) trusted) \<longleftrightarrow>
     (\<exists>p f. frame_at frame p = Some f \<and> rt_call_type f = OpSelfdestruct)"
  "has_event RteContractCreation (analyze_events (build_graph frame) trusted) \<longleftrightarrow>
     (\<exists>p f. frame_at frame p = Some f \<and> (rt_call_type f = OpCreate \<or> rt_call_type f = OpCreate2))"
  "has_event RteDelegatecallChain (analyze_events (build_graph frame) trusted) \<longleftrightarrow>
     2 \<le> card {p. \<exists>f. frame_at frame p = Some f \<and> rt_call_type f = OpDelegatecall}"
  "\<not> has_event RteUnexpectedExternalCall (analyze_events (build_graph frame) trusted)"
  using call_types_of_nodes [of frame "\<lambda>ty. ty = OpSelfdestruct"]
    call_types_of_nodes [of frame "\<lambda>ty. ty = OpCreate \<or> ty = OpCreate2"]
  by (auto simp: analyze_events_def no_unexpected_events detect_delegatecalls_def detector_types(4-6)
      delegate_count dest: detector_types(1-3))

text \<open>
  Property C32. The detector of unexpected external calls never fires on a graph the builder made,
  whatever the trusted addresses: it skips frames at depth 0 and 1, and the classifier calls a frame
  external or top-level at these depths only.
\<close>

theorem unexpected_call_never_reported:
  "RteUnexpectedExternalCall \<notin> ru_event_type ` set (analyze_events (build_graph frame) trusted)"
  using trace_event_types(4) [of frame trusted] unfolding has_event_def .

section \<open>Evidence\<close>

definition event_id_of :: "RuntimeEventType \<Rightarrow> string" where
  "event_id_of ty = (case event_evidence_mapping ty of (source, category, signal, _) \<Rightarrow>
     evidence_id source category signal)"

lemma event_evidence_id: "ev_id (event_evidence clk h e) = event_id_of (ru_event_type e)"
  by (simp add: event_evidence_def event_id_of_def create_evidence_def split: prod.split)

lemma event_id_of_inject: "event_id_of a = event_id_of b \<longleftrightarrow> a = b"
  by (cases a; cases b) (simp_all add: event_id_of_def evidence_id_inject)

abbreviation revert_id :: string where
  "revert_id \<equiv> evidence_id SrcSystem CatSystem ''execution_revert''"

abbreviation deep_id :: string where
  "deep_id \<equiv> evidence_id SrcThreatSurface CatThreat ''deep_execution_path''"

lemma event_id_of_others: "event_id_of ty \<noteq> revert_id" "event_id_of ty \<noteq> deep_id" "revert_id \<noteq> deep_id"
  by (cases ty; simp add: event_id_of_def evidence_id_inject)+

lemma evidence_ids:
  "ev_id ` set (emit_trace_evidence clk h es ra profile) =
     event_id_of ` ru_event_type ` set es \<union> (if ra_has_revert ra then {revert_id} else {}) \<union>
     (if gp_deepest_depth profile < 4 then {} else {deep_id})"
  by (auto simp: emit_trace_evidence_def event_evidence_id revert_evidence_def gas_evidence_def
      create_evidence_def image_image Let_def)

lemma evidence_scores: "ev_score ` set (emit_trace_evidence clk h es ra profile) \<subseteq> {zero_score}"
proof -
  have "ev_score e = zero_score"
    if "e \<in> set (map (event_evidence clk h) es) \<union> set (revert_evidence clk h ra) \<union> set (gas_evidence clk h profile)"
    for e
    using that by (auto simp: event_evidence_def revert_evidence_def gas_evidence_def create_evidence_def
        Let_def split: prod.splits if_splits)
  moreover have "set (emit_trace_evidence clk h es ra profile) \<subseteq>
      set (map (event_evidence clk h) es) \<union> set (revert_evidence clk h ra) \<union> set (gas_evidence clk h profile)"
    unfolding emit_trace_evidence_def by (rule order_trans [OF merge_evidence_subset]) auto
  ultimately show ?thesis by blast
qed

lemma event_in_evidence:
  "event_id_of ty \<in> ev_id ` set (emit_trace_evidence clk h es ra profile) \<longleftrightarrow> has_event ty es"
  by (auto simp: evidence_ids has_event_def event_id_of_inject event_id_of_others image_iff)

lemma other_in_evidence:
  "revert_id \<in> ev_id ` set (emit_trace_evidence clk h es ra profile) \<longleftrightarrow> ra_has_revert ra"
  "deep_id \<in> ev_id ` set (emit_trace_evidence clk h es ra profile) \<longleftrightarrow> 4 \<le> gp_deepest_depth profile"
  by (auto simp: evidence_ids image_iff event_id_of_others event_id_of_others [THEN not_sym])

lemma analyze_reverts_has_revert:
  obtains ra where "analyze_reverts (build_graph frame) = Some ra"
    "ra_has_revert ra \<longleftrightarrow> (\<exists>p f. frame_at frame p = Some f \<and> failed_frame f)"
proof -
  let ?failed = "filter (\<lambda>item. failed_frame (snd item)) (preorder [] frame)"
  obtain ra where ra: "analyze_reverts (build_graph frame) = Some ra" "ra_has_revert ra \<longleftrightarrow> ?failed \<noteq> []"
    by (simp add: analyze_reverts_eq Let_def)
  have "?failed \<noteq> [] \<longleftrightarrow> (\<exists>p f. frame_at frame p = Some f \<and> failed_frame f)"
  proof -
    have "?failed \<noteq> [] \<longleftrightarrow> (\<exists>item \<in> set (preorder [] frame). failed_frame (snd item))"
      by (auto simp: filter_empty_conv)
    then show ?thesis unfolding Bex_def split_paired_Ex by (simp add: preorder_mem)
  qed
  with ra that show thesis by blast
qed

text \<open>
  Property C13. The engine returns a report for every trace, and its evidence says exactly what the
  trace holds: a selfdestruct, a contract creation, two or more delegatecalls, a failed frame or a
  nesting of four levels each give their signal, and nothing else gives it; there is one item per
  signal, none of them changes the score, and an unexpected external call is never among them.
\<close>

theorem trace_evidence_exact:
  "\<exists>report ids. analyze_trace clk (TraceTree t) h chain trusted = Some (Inr report) \<and>
     ids = ev_id ` set (xr_risk_evidence report) \<and> distinct (map ev_id (xr_risk_evidence report)) \<and>
     (evidence_id SrcCapability CatCapability ''runtime_selfdestruct'' \<in> ids \<longleftrightarrow>
        (\<exists>p f. frame_at (xt_root t) p = Some f \<and> rt_call_type f = OpSelfdestruct)) \<and>
     (evidence_id SrcClassification CatClassification ''runtime_create'' \<in> ids \<longleftrightarrow>
        (\<exists>p f. frame_at (xt_root t) p = Some f \<and> (rt_call_type f = OpCreate \<or> rt_call_type f = OpCreate2))) \<and>
     (evidence_id SrcProxy CatUpgradeability ''delegatecall_chain'' \<in> ids \<longleftrightarrow>
        2 \<le> card {p. \<exists>f. frame_at (xt_root t) p = Some f \<and> rt_call_type f = OpDelegatecall}) \<and>
     (evidence_id SrcSystem CatSystem ''execution_revert'' \<in> ids \<longleftrightarrow>
        (\<exists>p f. frame_at (xt_root t) p = Some f \<and> failed_frame f)) \<and>
     (evidence_id SrcThreatSurface CatThreat ''deep_execution_path'' \<in> ids \<longleftrightarrow> 4 \<le> frame_height (xt_root t)) \<and>
     evidence_id SrcThreatSurface CatThreat ''unexpected_external_call'' \<notin> ids \<and>
     ev_score ` set (xr_risk_evidence report) \<subseteq> {Dec 0 2}"
proof -
  let ?frame = "xt_root t"
  let ?es = "analyze_events (build_graph ?frame) trusted"
  obtain ra where ra: "analyze_reverts (build_graph ?frame) = Some ra"
    "ra_has_revert ra \<longleftrightarrow> (\<exists>p f. frame_at ?frame p = Some f \<and> failed_frame f)"
    by (rule analyze_reverts_has_revert)
  obtain profile where profile: "profile_gas (build_graph ?frame) = Some (Inr profile)"
    "gp_deepest_depth profile = frame_height ?frame"
    by (rule profile_gas_depth)
  let ?evidence = "emit_trace_evidence clk (xt_transaction_hash t) ?es ra profile"
  obtain report where report: "analyze_trace clk (TraceTree t) h chain trusted = Some (Inr report)"
    "xr_risk_evidence report = ?evidence"
    using ra(1) profile(1) by (simp add: analyze_trace_def normalize_trace_def Let_def)
  note types = trace_event_types [of ?frame trusted]
  note event = event_in_evidence [of _ clk "xt_transaction_hash t" ?es ra profile]
  have ids: "event_id_of RteContractDestruction = evidence_id SrcCapability CatCapability ''runtime_selfdestruct''"
    "event_id_of RteContractCreation = evidence_id SrcClassification CatClassification ''runtime_create''"
    "event_id_of RteDelegatecallChain = evidence_id SrcProxy CatUpgradeability ''delegatecall_chain''"
    "event_id_of RteUnexpectedExternalCall = evidence_id SrcThreatSurface CatThreat ''unexpected_external_call''"
    by (simp_all add: event_id_of_def)
  have "distinct (map ev_id ?evidence)" by (simp only: emit_trace_evidence_def distinct_merge_evidence)
  moreover note event [of RteContractDestruction, unfolded ids types]
    event [of RteContractCreation, unfolded ids types] event [of RteDelegatecallChain, unfolded ids types]
    other_in_evidence(1) [of clk "xt_transaction_hash t" ?es ra profile, unfolded ra(2)]
    other_in_evidence(2) [of clk "xt_transaction_hash t" ?es ra profile, unfolded profile(2)]
    event [of RteUnexpectedExternalCall, unfolded ids] types(4)
    evidence_scores [of clk "xt_transaction_hash t" ?es ra profile, unfolded zero_score_def]
  ultimately show ?thesis
    by (intro exI [of _ report] exI [of _ "ev_id ` set ?evidence"]) (simp only: report simp_thms)
qed

end
