(* ===== verification/StateTransition.thy ===== *)
theory StateTransition
  imports TraceDecoder
begin

text \<open>
  State transitions of a transaction: the models (\<open>runtime/state/models.py\<close>) and the decoding of
  provider payloads (\<open>state_decoder.py\<close>). The values of a payload are those JSON can hold.
\<close>

section \<open>Models (models.py)\<close>

datatype StorageSlotKind =
    SlotImplementation | SlotProxyAdmin | SlotBeacon | SlotOwner | SlotAccessControlRole
  | SlotTimelock | SlotArbitrary

datatype BalanceAssetType = AssetNative | AssetErc20 | AssetErc721 | AssetErc1155

datatype AllowanceChangeKind =
    AllowApprove | AllowPermit | AllowIncrease | AllowDecrease | AllowRevoke | AllowUnlimited

datatype OwnershipRole = OwnOwner | OwnProxyAdmin | OwnGovernor | OwnTreasury | OwnMultisig

datatype SupplyChangeKind = SupplyMint | SupplyBurn | SupplyInflation | SupplyReduction

datatype MappedEventKind =
    MapTransfer | MapApproval | MapOwnershipTransferred | MapRoleGranted | MapRoleRevoked

fun slot_kind_value :: "StorageSlotKind \<Rightarrow> string" where
  "slot_kind_value SlotImplementation = ''implementation''"
| "slot_kind_value SlotProxyAdmin = ''proxy_admin''"
| "slot_kind_value SlotBeacon = ''beacon''"
| "slot_kind_value SlotOwner = ''owner''"
| "slot_kind_value SlotAccessControlRole = ''access_control_role''"
| "slot_kind_value SlotTimelock = ''timelock''"
| "slot_kind_value SlotArbitrary = ''arbitrary''"

fun asset_value :: "BalanceAssetType \<Rightarrow> string" where
  "asset_value AssetNative = ''native''"
| "asset_value AssetErc20 = ''erc20''"
| "asset_value AssetErc721 = ''erc721''"
| "asset_value AssetErc1155 = ''erc1155''"

fun ownership_role_value :: "OwnershipRole \<Rightarrow> string" where
  "ownership_role_value OwnOwner = ''owner''"
| "ownership_role_value OwnProxyAdmin = ''proxy_admin''"
| "ownership_role_value OwnGovernor = ''governor''"
| "ownership_role_value OwnTreasury = ''treasury''"
| "ownership_role_value OwnMultisig = ''multisig''"

fun supply_kind_value :: "SupplyChangeKind \<Rightarrow> string" where
  "supply_kind_value SupplyMint = ''mint''"
| "supply_kind_value SupplyBurn = ''burn''"
| "supply_kind_value SupplyInflation = ''inflation''"
| "supply_kind_value SupplyReduction = ''reduction''"

fun mapped_event_value :: "MappedEventKind \<Rightarrow> string" where
  "mapped_event_value MapTransfer = ''transfer''"
| "mapped_event_value MapApproval = ''approval''"
| "mapped_event_value MapOwnershipTransferred = ''ownership_transferred''"
| "mapped_event_value MapRoleGranted = ''role_granted''"
| "mapped_event_value MapRoleRevoked = ''role_revoked''"

record RawStorageDiff =
  sd_contract_address :: string
  sd_slot :: string
  sd_before :: string
  sd_after :: string

record RawBalanceDiff =
  bd_asset_type :: BalanceAssetType
  bd_contract_address :: "string option"
  bd_account_address :: string
  bd_before :: int
  bd_after :: int
  bd_token_id :: "int option"

record RawAllowanceDiff =
  ad_token_address :: string
  ad_owner_address :: string
  ad_spender_address :: string
  ad_before :: int
  ad_after :: int

record RawSupplyDiff =
  yd_token_address :: string
  yd_before :: int
  yd_after :: int

record RawStateLog =
  lg_contract_address :: string
  lg_topics :: "string list"
  lg_data :: "byte list"

text \<open>\<open>chain_id\<close> is whatever the payload holds; nothing reads it.\<close>

record RawStateTransition =
  rs_transaction_hash :: string
  rs_block_number :: "int option"
  rs_storage_diffs :: "RawStorageDiff list"
  rs_balance_diffs :: "RawBalanceDiff list"
  rs_allowance_diffs :: "RawAllowanceDiff list"
  rs_supply_diffs :: "RawSupplyDiff list"
  rs_logs :: "RawStateLog list"
  rs_provider_name :: string
  rs_chain_id :: pyval

record StorageDiff =
  sc_contract_address :: string
  sc_slot :: string
  sc_slot_kind :: StorageSlotKind
  sc_before :: string
  sc_after :: string
  sc_before_address :: "string option"
  sc_after_address :: "string option"

record BalanceChange =
  bc_asset_type :: BalanceAssetType
  bc_contract_address :: "string option"
  bc_account_address :: string
  bc_before :: int
  bc_after :: int
  bc_delta :: int
  bc_token_id :: "int option"
  bc_counterparty :: "string option"

record AllowanceChange =
  ac_kind :: AllowanceChangeKind
  ac_token_address :: string
  ac_owner_address :: string
  ac_spender_address :: string
  ac_before :: int
  ac_after :: int
  ac_is_unlimited :: bool

record OwnershipChange =
  oc_role :: OwnershipRole
  oc_contract_address :: string
  oc_before_address :: "string option"
  oc_after_address :: "string option"

record SupplyChange =
  uc_kind :: SupplyChangeKind
  uc_token_address :: string
  uc_before :: int
  uc_after :: int
  uc_delta :: int

record MappedStateEvent =
  me_event_kind :: MappedEventKind
  me_contract_address :: string
  me_metadata :: metadata

record RuntimeStateReport =
  sx_transaction_hash :: string
  sx_storage_changes :: "StorageDiff list"
  sx_balance_changes :: "BalanceChange list"
  sx_allowance_changes :: "AllowanceChange list"
  sx_ownership_changes :: "OwnershipChange list"
  sx_supply_changes :: "SupplyChange list"
  sx_mapped_state_events :: "MappedStateEvent list"
  sx_risk_evidence :: "RiskEvidence list"
  sx_provider_name :: string

section \<open>Values (state\_decoder.py)\<close>

definition state_address :: "pyval \<Rightarrow> string" where
  "state_address v =
     (case v of
        PyNone \<Rightarrow> zero_address
      | _ \<Rightarrow> (let s = lower (py_str v) in if prefix ''0x'' s then s else ''0x'' @ s))"

definition state_optional_address :: "pyval \<Rightarrow> string option" where
  "state_optional_address v =
     (case v of
        PyNone \<Rightarrow> None
      | _ \<Rightarrow> (let address = state_address v in if address = zero_address then None else Some address))"

text \<open>\<open>s.zfill(n)\<close> keeps a sign in front.\<close>

fun zfill :: "nat \<Rightarrow> string \<Rightarrow> string" where
  "zfill n [] = replicate n CHR ''0''"
| "zfill n (c # s) =
     (let zeros = replicate (n - length (c # s)) CHR ''0''
      in if c = CHR ''+'' \<or> c = CHR ''-'' then c # zeros @ s else zeros @ c # s)"

definition state_slot :: "pyval \<Rightarrow> string" where
  "state_slot v =
     (case v of
        PyNone \<Rightarrow> ''0x'' @ replicate 64 CHR ''0''
      | _ \<Rightarrow> (let s = lower (py_str v) in if prefix ''0x'' s then s else ''0x'' @ zfill 64 s))"

definition state_word :: "pyval \<Rightarrow> string" where
  "state_word v = state_slot v"

fun state_int :: "pyval \<Rightarrow> int result" where
  "state_int PyNone = Inr 0"
| "state_int (PyStr s) = (if prefix ''0x'' s then parse_hex (drop 2 s) else py_int (PyStr s))"
| "state_int v = py_int v"

definition state_optional_int :: "pyval \<Rightarrow> int option result" where
  "state_optional_int v =
     (case v of PyNone \<Rightarrow> Inr None | _ \<Rightarrow> bindR (state_int v) (\<lambda>i. Inr (Some i)))"

definition state_bytes :: "pyval \<Rightarrow> byte list result" where
  "state_bytes v =
     (case v of
        PyNone \<Rightarrow> Inr []
      | _ \<Rightarrow>
         (let s = py_str v
          in if s \<in> {[], ''0x'', ''0X''} then Inr []
             else (case bytes_fromhex (if prefix ''0x'' s then drop 2 s else s) of
                     None \<Rightarrow> Inl (ValueError ''non-hexadecimal number found in fromhex() arg'')
                   | Some bs \<Rightarrow> Inr bs)))"

text \<open>\<open>bytes(v)\<close> of a value that is not text: that many zeros, or the listed bytes.\<close>

definition zero_bytes :: "int \<Rightarrow> byte list result" where
  "zero_bytes n = (if n < 0 then Inl (ValueError ''negative count'') else Inr (replicate (nat n) 0))"

fun byte_of :: "pyval \<Rightarrow> byte result" where
  "byte_of (PyBool b) = Inr (if b then 1 else 0)"
| "byte_of (PyInt i) =
     (if 0 \<le> i \<and> i < 256 then Inr (word_of_int i) else Inl (ValueError ''bytes must be in range(0, 256)''))"
| "byte_of v = Inl (TypeError ''object cannot be interpreted as an integer'')"

fun py_bytes :: "pyval \<Rightarrow> byte list result" where
  "py_bytes (PyBool b) = zero_bytes (if b then 1 else 0)"
| "py_bytes (PyInt i) = zero_bytes i"
| "py_bytes (PyList xs) = mapR byte_of xs"
| "py_bytes (PyDict d) =
     (if d = [] then Inr [] else Inl (TypeError ''object cannot be interpreted as an integer''))"
| "py_bytes v = Inl (TypeError ''cannot convert object to bytes'')"

section \<open>Payloads\<close>

definition decode_storage :: "pyval \<Rightarrow> RawStorageDiff result" where
  "decode_storage item =
     (case item of
        PyDict d \<Rightarrow>
          Inr \<lparr>sd_contract_address = state_address (py_or (py_get d ''contract'') (py_get d ''contract_address'')),
               sd_slot = state_slot (py_get d ''slot''),
               sd_before = state_word (py_or (py_get d ''before'') (py_get d ''pre'')),
               sd_after = state_word (py_or (py_get d ''after'') (py_get d ''post''))\<rparr>
      | _ \<Rightarrow> Inl (AttributeError ''get''))"

definition asset_names :: "(string, BalanceAssetType) dict" where
  "asset_names =
     [(''native'', AssetNative), (''eth'', AssetNative), (''erc20'', AssetErc20),
      (''erc721'', AssetErc721), (''erc1155'', AssetErc1155)]"

definition decode_balance :: "pyval \<Rightarrow> RawBalanceDiff result" where
  "decode_balance item =
     (case item of
        PyDict d \<Rightarrow>
          (let asset = lower (py_str (py_or (py_get d ''asset_type'') (py_or (py_get d ''assetType'') (PyStr ''erc20''))));
               contract = py_or (py_get d ''contract'') (py_or (py_get d ''contract_address'') (py_get d ''token''))
           in bindR (state_int (py_get d ''before'')) (\<lambda>before.
              bindR (state_int (py_get d ''after'')) (\<lambda>after.
              bindR (state_optional_int (py_or (py_get d ''token_id'') (py_get d ''tokenId''))) (\<lambda>token_id.
                Inr \<lparr>bd_asset_type = dict_get asset_names asset AssetErc20,
                     bd_contract_address = state_optional_address contract,
                     bd_account_address = state_address (py_or (py_get d ''account'') (py_get d ''account_address'')),
                     bd_before = before, bd_after = after, bd_token_id = token_id\<rparr>))))
      | _ \<Rightarrow> Inl (AttributeError ''get''))"

definition decode_allowance :: "pyval \<Rightarrow> RawAllowanceDiff result" where
  "decode_allowance item =
     (case item of
        PyDict d \<Rightarrow>
          bindR (state_int (py_get d ''before'')) (\<lambda>before.
          bindR (state_int (py_get d ''after'')) (\<lambda>after.
            Inr \<lparr>ad_token_address = state_address (py_or (py_get d ''token'') (py_get d ''token_address'')),
                 ad_owner_address = state_address (py_or (py_get d ''owner'') (py_get d ''owner_address'')),
                 ad_spender_address = state_address (py_or (py_get d ''spender'') (py_get d ''spender_address'')),
                 ad_before = before, ad_after = after\<rparr>))
      | _ \<Rightarrow> Inl (AttributeError ''get''))"

definition decode_supply :: "pyval \<Rightarrow> RawSupplyDiff result" where
  "decode_supply item =
     (case item of
        PyDict d \<Rightarrow>
          bindR (state_int (py_get d ''before'')) (\<lambda>before.
          bindR (state_int (py_get d ''after'')) (\<lambda>after.
            Inr \<lparr>yd_token_address = state_address (py_or (py_get d ''token'') (py_get d ''token_address'')),
                 yd_before = before, yd_after = after\<rparr>))
      | _ \<Rightarrow> Inl (AttributeError ''get''))"

fun topic_text :: "pyval \<Rightarrow> string result" where
  "topic_text (PyStr s) = Inr (lower s)"
| "topic_text v = bindR (py_bytes v) (\<lambda>bs. Inr (''0x'' @ hex_bytes bs))"

definition decode_log :: "pyval \<Rightarrow> RawStateLog result" where
  "decode_log item =
     (case item of
        PyDict d \<Rightarrow>
          bindR (py_iter (py_or (py_get d ''topics'') (PyList []))) (\<lambda>topics_raw.
          bindR (mapR topic_text topics_raw) (\<lambda>topics.
          bindR (state_bytes (py_get d ''data'')) (\<lambda>data.
            Inr \<lparr>lg_contract_address = state_address (py_or (py_get d ''address'') (py_get d ''contract_address'')),
                 lg_topics = topics, lg_data = data\<rparr>)))
      | _ \<Rightarrow> Inl (AttributeError ''get''))"

text \<open>The items under a key or its other spelling.\<close>

definition decode_items ::
  "(pyval \<Rightarrow> 'a result) \<Rightarrow> metadata \<Rightarrow> string \<Rightarrow> string \<Rightarrow> 'a list result" where
  "decode_items decode payload k k' =
     bindR (py_iter (py_or (py_get payload k) (py_or (py_get payload k') (PyList [])))) (mapR decode)"

datatype StateInput = StateTree RawStateTransition | StatePayload metadata

definition decode_transition ::
  "StateInput \<Rightarrow> string \<Rightarrow> string \<Rightarrow> pyval \<Rightarrow> RawStateTransition result" where
  "decode_transition input transaction_hash provider_name chain_id =
     (case input of
        StateTree t \<Rightarrow> Inr t
      | StatePayload payload \<Rightarrow>
          bindR (decode_items decode_storage payload ''storage_diffs'' ''storageDiffs'') (\<lambda>storage.
          bindR (decode_items decode_balance payload ''balance_diffs'' ''balanceDiffs'') (\<lambda>balances.
          bindR (decode_items decode_allowance payload ''allowance_diffs'' ''allowanceDiffs'') (\<lambda>allowances.
          bindR (decode_items decode_supply payload ''supply_diffs'' ''supplyDiffs'') (\<lambda>supplies.
          bindR (decode_items decode_log payload ''logs'' ''events'') (\<lambda>logs.
          bindR (state_optional_int (py_or (py_get payload ''blockNumber'') (py_get payload ''block_number''))) (\<lambda>block_number.
            Inr \<lparr>rs_transaction_hash = lower transaction_hash,
                 rs_block_number = block_number,
                 rs_storage_diffs = storage,
                 rs_balance_diffs = balances,
                 rs_allowance_diffs = allowances,
                 rs_supply_diffs = supplies,
                 rs_logs = logs,
                 rs_provider_name = py_str (dict_get payload ''provider_name'' (PyStr provider_name)),
                 rs_chain_id = chain_id\<rparr>)))))))"

end
