(* ===== verification/StateAnalysis.thy ===== *)
theory StateAnalysis
  imports StateTransition TraceAnalysis
begin

text \<open>
  Analysis of a state transition (\<open>runtime/state/\<close>): mapping of logs (\<open>event_state_mapper.py\<close>), the
  storage, balance, allowance, ownership and supply analyzers, and the diff builder
  (\<open>state_diff_builder.py\<close>).
\<close>

section \<open>Logs (event\_state\_mapper.py)\<close>

definition topic_transfer :: string where
  "topic_transfer = ''0xddf252ad1be2c89b69c2b068fc378daa952ba7f163caa673f6c72a25a0c726''"

definition topic_approval :: string where
  "topic_approval = ''0x8c5be1e5ebec7d07bde6b468436436c9b6773938311887562a15482c6968b193''"

definition topic_ownership_transferred :: string where
  "topic_ownership_transferred = ''0x8be0079c531659141344cd1fd0a0f284194bc979c358836e638b052fb89f780a''"

definition topic_role_granted :: string where
  "topic_role_granted = ''0x2f8788117e7eff1d1e114834a54296279b6a06646258199245ee975980667f482''"

definition topic_role_revoked :: string where
  "topic_role_revoked = ''0xf6391f5c32d9c69d2a6998bef1fcbeafa92125de2ce89e3b7c76959d2e21c966''"

text \<open>\<open>log.topics[i]\<close>.\<close>

definition topic_at :: "RawStateLog \<Rightarrow> nat \<Rightarrow> string result" where
  "topic_at entry i =
     (if i < length (lg_topics entry) then Inr (lg_topics entry ! i)
      else Inl (IndexError ''tuple index out of range''))"

text \<open>\<open>s[-n:]\<close> for a positive \<open>n\<close>.\<close>

definition last_n :: "nat \<Rightarrow> 'a list \<Rightarrow> 'a list" where
  "last_n n xs = drop (length xs - n) xs"

definition topic_address :: "string \<Rightarrow> string" where
  "topic_address topic = ''0x'' @ last_n 40 (removeprefix ''0x'' (lower topic))"

definition uint_from_data :: "byte list \<Rightarrow> int" where
  "uint_from_data data = foldl (\<lambda>n b. 256 * n + int (unat b)) 0 (last_n 32 data)"

text \<open>\<open>int(s, 16)\<close>: blanks around, a sign and a \<open>0x\<close> are accepted.\<close>

definition unsigned_base16 :: "string \<Rightarrow> nat option" where
  "unsigned_base16 s =
     (let digits = (if prefix ''0x'' s \<or> prefix ''0X'' s then drop 2 s else s)
      in if digits = [] then None else hex_digits_val 0 digits)"

definition parse_base16 :: "string \<Rightarrow> int result" where
  "parse_base16 s =
     (case (case strip s of
              [] \<Rightarrow> None
            | c # r \<Rightarrow> (if c = CHR ''-'' then map_option (\<lambda>n. - int n) (unsigned_base16 r)
                       else if c = CHR ''+'' then map_option int (unsigned_base16 r)
                       else map_option int (unsigned_base16 (c # r)))) of
        None \<Rightarrow> Inl (ValueError ''invalid literal for int() with base 16'')
      | Some i \<Rightarrow> Inr i)"

definition map_transfer :: "RawStateLog \<Rightarrow> MappedStateEvent result" where
  "map_transfer entry =
     (let asset_type = (if 4 \<le> length (lg_topics entry) then ''erc721'' else ''erc20'')
      in bindR (topic_at entry 1) (\<lambda>t1.
         bindR (topic_at entry 2) (\<lambda>t2.
         bindR (if asset_type = ''erc721''
                then bindR (topic_at entry 3) (\<lambda>t3. bindR (parse_base16 t3) (\<lambda>i. Inr (PyInt i, i)))
                else Inr (PyNone, uint_from_data (lg_data entry))) (\<lambda>(token_id, value).
           Inr \<lparr>me_event_kind = MapTransfer,
                me_contract_address = lower (lg_contract_address entry),
                me_metadata =
                  [(''from'', PyStr (topic_address t1)), (''to'', PyStr (topic_address t2)),
                   (''value'', PyInt value), (''token_id'', token_id), (''asset_type'', PyStr asset_type)]\<rparr>))))"

definition map_approval :: "RawStateLog \<Rightarrow> MappedStateEvent result" where
  "map_approval entry =
     bindR (topic_at entry 1) (\<lambda>t1. bindR (topic_at entry 2) (\<lambda>t2.
       Inr \<lparr>me_event_kind = MapApproval,
            me_contract_address = lower (lg_contract_address entry),
            me_metadata =
              [(''owner'', PyStr (topic_address t1)), (''spender'', PyStr (topic_address t2)),
               (''value'', PyInt (uint_from_data (lg_data entry))), (''before'', PyInt 0)]\<rparr>))"

definition map_ownership_transferred :: "RawStateLog \<Rightarrow> MappedStateEvent result" where
  "map_ownership_transferred entry =
     bindR (topic_at entry 1) (\<lambda>t1. bindR (topic_at entry 2) (\<lambda>t2.
       Inr \<lparr>me_event_kind = MapOwnershipTransferred,
            me_contract_address = lower (lg_contract_address entry),
            me_metadata =
              [(''previous_owner'', PyStr (topic_address t1)), (''new_owner'', PyStr (topic_address t2))]\<rparr>))"

definition map_role_event :: "MappedEventKind \<Rightarrow> RawStateLog \<Rightarrow> MappedStateEvent result" where
  "map_role_event kind entry =
     bindR (topic_at entry 1) (\<lambda>t1. bindR (topic_at entry 2) (\<lambda>t2.
       Inr \<lparr>me_event_kind = kind,
            me_contract_address = lower (lg_contract_address entry),
            me_metadata =
              [(''role'', PyStr (lower t1)), (''account'', PyStr (topic_address t2)),
               (''sender'', if 3 < length (lg_topics entry) then PyStr (topic_address (lg_topics entry ! 3)) else PyNone)]\<rparr>))"

text \<open>One turn of the loop: at most one event.\<close>

definition map_log :: "RawStateLog \<Rightarrow> MappedStateEvent list result" where
  "map_log entry =
     (case lg_topics entry of
        [] \<Rightarrow> Inr []
      | t # _ \<Rightarrow>
          (let topic0 = lower t;
               keep = (\<lambda>r. bindR r (\<lambda>e. Inr [e]))
           in if topic0 = topic_transfer then keep (map_transfer entry)
              else if topic0 = topic_approval then keep (map_approval entry)
              else if topic0 = topic_ownership_transferred then keep (map_ownership_transferred entry)
              else if topic0 = topic_role_granted then keep (map_role_event MapRoleGranted entry)
              else if topic0 = topic_role_revoked then keep (map_role_event MapRoleRevoked entry)
              else Inr []))"

definition mapped_event_key :: "MappedStateEvent \<Rightarrow> string \<times> string" where
  "mapped_event_key e = (mapped_event_value (me_event_kind e), me_contract_address e)"

definition map_logs :: "RawStateLog list \<Rightarrow> MappedStateEvent list result" where
  "map_logs logs = bindR (mapR map_log logs) (\<lambda>mapped. Inr (sort_key mapped_event_key (concat mapped)))"

section \<open>Storage (storage\_analyzer.py)\<close>

definition eip1967_implementation_slot :: string where
  "eip1967_implementation_slot = ''0x360894a13ba1a3210667c828492db98dca3e2076cc3735a920a3ca505d382bbc''"

definition eip1967_admin_slot :: string where
  "eip1967_admin_slot = ''0xb53127684a568b3173ae63b9f9a42cbe97166b21bf7da7747eed036fb0d46a55''"

definition eip1967_beacon_slot :: string where
  "eip1967_beacon_slot = ''0xa3f0ad74e5423aebfd80d3ef4346578335a9a72aeaee59ff6cb3582b35133d50''"

definition known_slots :: "(string, StorageSlotKind) dict" where
  "known_slots =
     [(lower eip1967_implementation_slot, SlotImplementation),
      (lower eip1967_admin_slot, SlotProxyAdmin),
      (lower eip1967_beacon_slot, SlotBeacon),
      (''0x0000000000000000000000000000000000000000000000000000000000000000'', SlotOwner),
      (''0x0000000000000000000000000000000000000000000000000000000000000001'', SlotAccessControlRole),
      (''0x0000000000000000000000000000000000000000000000000000000000000002'', SlotTimelock)]"

definition extract_address :: "string \<Rightarrow> string option" where
  "extract_address word =
     (let normalized = removeprefix ''0x'' (lower word)
      in if length normalized < 40 then None
         else (let address = ''0x'' @ last_n 40 normalized
               in if address = ''0x0000000000000000000000000000000000000000'' then None else Some address))"

definition storage_change :: "RawStorageDiff \<Rightarrow> StorageDiff" where
  "storage_change d =
     \<lparr>sc_contract_address = lower (sd_contract_address d),
      sc_slot = lower (sd_slot d),
      sc_slot_kind = dict_get known_slots (lower (sd_slot d)) SlotArbitrary,
      sc_before = lower (sd_before d),
      sc_after = lower (sd_after d),
      sc_before_address = extract_address (sd_before d),
      sc_after_address = extract_address (sd_after d)\<rparr>"

definition analyze_storage :: "RawStateTransition \<Rightarrow> StorageDiff list" where
  "analyze_storage t =
     sort_key (\<lambda>c. (sc_contract_address c, sc_slot c))
       (map storage_change (filter (\<lambda>d. sd_before d \<noteq> sd_after d) (rs_storage_diffs t)))"

section \<open>Balances (balance\_analyzer.py)\<close>

definition balance_change :: "RawBalanceDiff \<Rightarrow> BalanceChange" where
  "balance_change d =
     \<lparr>bc_asset_type = bd_asset_type d,
      bc_contract_address = lower_or_none (bd_contract_address d),
      bc_account_address = lower (bd_account_address d),
      bc_before = bd_before d,
      bc_after = bd_after d,
      bc_delta = bd_after d - bd_before d,
      bc_token_id = bd_token_id d,
      bc_counterparty = None\<rparr>"

definition event_asset_names :: "(string, BalanceAssetType) dict" where
  "event_asset_names =
     [(''native'', AssetNative), (''erc20'', AssetErc20), (''erc721'', AssetErc721), (''erc1155'', AssetErc1155)]"

definition asset_type_from_metadata :: "metadata \<Rightarrow> BalanceAssetType" where
  "asset_type_from_metadata m =
     dict_get event_asset_names (lower (py_str (dict_get m ''asset_type'' (PyStr ''erc20'')))) AssetErc20"

definition optional_token_id :: "metadata \<Rightarrow> BalanceAssetType \<Rightarrow> int option result" where
  "optional_token_id m asset_type =
     (if asset_type \<noteq> AssetErc721 \<and> asset_type \<noteq> AssetErc1155 then Inr None
      else bindR (case py_get m ''token_id'' of
                    PyNone \<Rightarrow> py_int (dict_get m ''value'' (PyInt 0))
                  | token_id \<Rightarrow> py_int token_id) (\<lambda>i. Inr (Some i)))"

text \<open>\<open>str(m.get(k, "")).lower()\<close> and \<open>... or None\<close>.\<close>

definition meta_text :: "metadata \<Rightarrow> string \<Rightarrow> string" where
  "meta_text m k = lower (py_str (dict_get m k (PyStr [])))"

definition text_or_none :: "string \<Rightarrow> string option" where
  "text_or_none s = (if s = [] then None else Some s)"

definition transfer_change :: "MappedStateEvent \<Rightarrow> BalanceChange result" where
  "transfer_change e =
     (let m = me_metadata e; asset_type = asset_type_from_metadata m
      in bindR (py_int (dict_get m ''value'' (PyInt 0))) (\<lambda>value.
         bindR (optional_token_id m asset_type) (\<lambda>token_id.
           Inr \<lparr>bc_asset_type = asset_type,
                bc_contract_address = Some (lower (me_contract_address e)),
                bc_account_address = meta_text m ''to'',
                bc_before = 0,
                bc_after = value,
                bc_delta = value,
                bc_token_id = token_id,
                bc_counterparty = text_or_none (meta_text m ''from'')\<rparr>)))"

definition contract_text :: "BalanceChange \<Rightarrow> string" where
  "contract_text c = (case bc_contract_address c of None \<Rightarrow> [] | Some a \<Rightarrow> a)"

definition balance_key :: "BalanceChange \<Rightarrow> string \<times> string \<times> string \<times> int option" where
  "balance_key c = (asset_value (bc_asset_type c), contract_text c, bc_account_address c, bc_token_id c)"

definition analyze_balances :: "RawStateTransition \<Rightarrow> BalanceChange list result" where
  "analyze_balances t =
     bindR (map_logs (rs_logs t)) (\<lambda>events.
     bindR (mapR transfer_change (filter (\<lambda>e. mapped_event_value (me_event_kind e) = ''transfer'') events)) (\<lambda>transfers.
       Inr (sort_key (\<lambda>c. (asset_value (bc_asset_type c), contract_text c, bc_account_address c))
         (dedup_by balance_key
           (map balance_change (filter (\<lambda>d. bd_before d \<noteq> bd_after d) (rs_balance_diffs t)) @ transfers)))))"

section \<open>Allowances (allowance\_analyzer.py)\<close>

definition max_uint256 :: int where
  "max_uint256 = 2 ^ 256 - 1"

definition large_allowance_threshold :: int where
  "large_allowance_threshold = 10 ^ 30"

definition is_unlimited :: "int \<Rightarrow> bool" where
  "is_unlimited v \<longleftrightarrow> v \<ge> max_uint256 \<or> v \<ge> large_allowance_threshold"

definition allowance_kind :: "int \<Rightarrow> int \<Rightarrow> AllowanceChangeKind" where
  "allowance_kind before after =
     (if after \<ge> max_uint256 \<or> after \<ge> large_allowance_threshold then AllowUnlimited
      else if after = 0 \<and> before > 0 then AllowRevoke
      else if after > before then AllowIncrease
      else if after < before then AllowDecrease
      else AllowApprove)"

definition allowance_change :: "RawAllowanceDiff \<Rightarrow> AllowanceChange" where
  "allowance_change d =
     \<lparr>ac_kind = allowance_kind (ad_before d) (ad_after d),
      ac_token_address = lower (ad_token_address d),
      ac_owner_address = lower (ad_owner_address d),
      ac_spender_address = lower (ad_spender_address d),
      ac_before = ad_before d,
      ac_after = ad_after d,
      ac_is_unlimited = is_unlimited (ad_after d)\<rparr>"

definition approval_change :: "MappedStateEvent \<Rightarrow> AllowanceChange result" where
  "approval_change e =
     (let m = me_metadata e
      in bindR (py_int (dict_get m ''before'' (PyInt 0))) (\<lambda>before.
         bindR (py_int (dict_get m ''value'' (PyInt 0))) (\<lambda>after.
           Inr \<lparr>ac_kind = allowance_kind before after,
                ac_token_address = lower (me_contract_address e),
                ac_owner_address = meta_text m ''owner'',
                ac_spender_address = meta_text m ''spender'',
                ac_before = before,
                ac_after = after,
                ac_is_unlimited = is_unlimited after\<rparr>)))"

definition allowance_key :: "AllowanceChange \<Rightarrow> string \<times> string \<times> string" where
  "allowance_key c = (ac_token_address c, ac_owner_address c, ac_spender_address c)"

definition analyze_allowances :: "RawStateTransition \<Rightarrow> AllowanceChange list result" where
  "analyze_allowances t =
     bindR (map_logs (rs_logs t)) (\<lambda>events.
     bindR (mapR approval_change (filter (\<lambda>e. mapped_event_value (me_event_kind e) = ''approval'') events)) (\<lambda>approvals.
       Inr (sort_key allowance_key
         (dedup_by allowance_key (map allowance_change (rs_allowance_diffs t) @ approvals)))))"

section \<open>Ownership (ownership\_analyzer.py)\<close>

fun role_from_storage :: "StorageSlotKind \<Rightarrow> OwnershipRole option" where
  "role_from_storage SlotProxyAdmin = Some OwnProxyAdmin"
| "role_from_storage SlotOwner = Some OwnOwner"
| "role_from_storage SlotTimelock = Some OwnGovernor"
| "role_from_storage k = None"

definition map_role_name :: "string \<Rightarrow> OwnershipRole option" where
  "map_role_name role_name =
     (if sublist ''admin'' role_name then Some OwnProxyAdmin
      else if sublist ''governor'' role_name \<or> sublist ''timelock'' role_name then Some OwnGovernor
      else if sublist ''treasury'' role_name then Some OwnTreasury
      else if sublist ''multisig'' role_name then Some OwnMultisig
      else if sublist ''owner'' role_name then Some OwnOwner
      else None)"

definition storage_ownership :: "StorageDiff \<Rightarrow> OwnershipChange list" where
  "storage_ownership s =
     (case role_from_storage (sc_slot_kind s) of
        None \<Rightarrow> []
      | Some role \<Rightarrow>
          (if sc_before_address s = sc_after_address s then []
           else [\<lparr>oc_role = role, oc_contract_address = sc_contract_address s,
                  oc_before_address = sc_before_address s, oc_after_address = sc_after_address s\<rparr>]))"

text \<open>\<open>str(v).lower() if v else None\<close>.\<close>

definition value_text :: "pyval \<Rightarrow> string option" where
  "value_text v = (if py_truthy v then Some (lower (py_str v)) else None)"

definition event_ownership :: "MappedStateEvent \<Rightarrow> OwnershipChange list" where
  "event_ownership e =
     (let m = me_metadata e; kind = mapped_event_value (me_event_kind e)
      in if kind = ''ownership_transferred''
         then [\<lparr>oc_role = OwnOwner, oc_contract_address = lower (me_contract_address e),
                oc_before_address = value_text (py_get m ''previous_owner''),
                oc_after_address = value_text (py_get m ''new_owner'')\<rparr>]
         else if kind = ''role_granted''
         then (case map_role_name (meta_text m ''role'') of
                 None \<Rightarrow> []
               | Some role \<Rightarrow>
                   [\<lparr>oc_role = role, oc_contract_address = lower (me_contract_address e),
                     oc_before_address = None,
                     oc_after_address = text_or_none (meta_text m ''account'')\<rparr>])
         else [])"

definition ownership_key :: "OwnershipChange \<Rightarrow> string \<times> string \<times> string option \<times> string option" where
  "ownership_key c =
     (ownership_role_value (oc_role c), oc_contract_address c, oc_before_address c, oc_after_address c)"

definition analyze_ownership :: "RawStateTransition \<Rightarrow> StorageDiff list \<Rightarrow> OwnershipChange list result" where
  "analyze_ownership t storage_changes =
     bindR (map_logs (rs_logs t)) (\<lambda>events.
       Inr (sort_key (\<lambda>c. (ownership_role_value (oc_role c), oc_contract_address c))
         (dedup_by ownership_key
           (concat (map storage_ownership storage_changes) @ concat (map event_ownership events)))))"

section \<open>Supply (supply\_analyzer.py)\<close>

definition large_supply_delta :: int where
  "large_supply_delta = 10 ^ 24"

definition classify_supply_change :: "int \<Rightarrow> SupplyChangeKind" where
  "classify_supply_change delta =
     (if delta > 0 \<and> delta \<ge> large_supply_delta then SupplyInflation
      else if delta > 0 then SupplyMint
      else if delta < 0 \<and> \<bar>delta\<bar> \<ge> large_supply_delta then SupplyReduction
      else if delta < 0 then SupplyBurn
      else SupplyMint)"

definition supply_change :: "RawSupplyDiff \<Rightarrow> SupplyChange" where
  "supply_change d =
     \<lparr>uc_kind = classify_supply_change (yd_after d - yd_before d),
      uc_token_address = lower (yd_token_address d),
      uc_before = yd_before d,
      uc_after = yd_after d,
      uc_delta = yd_after d - yd_before d\<rparr>"

definition analyze_supply :: "RawStateTransition \<Rightarrow> SupplyChange list" where
  "analyze_supply t =
     sort_key (\<lambda>c. (uc_token_address c, supply_kind_value (uc_kind c)))
       (map supply_change (filter (\<lambda>d. yd_before d \<noteq> yd_after d) (rs_supply_diffs t)))"

section \<open>The diff builder (state\_diff\_builder.py)\<close>

record StateDiffBundle =
  sb_storage_changes :: "StorageDiff list"
  sb_balance_changes :: "BalanceChange list"
  sb_allowance_changes :: "AllowanceChange list"
  sb_ownership_changes :: "OwnershipChange list"
  sb_supply_changes :: "SupplyChange list"
  sb_mapped_state_events :: "MappedStateEvent list"

definition build_state_diff :: "RawStateTransition \<Rightarrow> StateDiffBundle result" where
  "build_state_diff t =
     (let storage_changes = analyze_storage t
      in bindR (map_logs (rs_logs t)) (\<lambda>mapped_state_events.
         bindR (analyze_balances t) (\<lambda>balance_changes.
         bindR (analyze_allowances t) (\<lambda>allowance_changes.
         bindR (analyze_ownership t storage_changes) (\<lambda>ownership_changes.
           Inr \<lparr>sb_storage_changes = storage_changes,
                sb_balance_changes = balance_changes,
                sb_allowance_changes = allowance_changes,
                sb_ownership_changes = ownership_changes,
                sb_supply_changes = analyze_supply t,
                sb_mapped_state_events = mapped_state_events\<rparr>)))))"

end
