(* ===== verification/StateEngine.thy ===== *)
theory StateEngine
  imports StateAnalysis
begin

text \<open>
  Evidence of a state transition and the engine (\<open>runtime/state/state_transition_engine.py\<close>), and the
  providers of transitions (\<open>state_provider.py\<close>).
\<close>

section \<open>Evidence\<close>

definition storage_evidence :: "datetime \<Rightarrow> string \<Rightarrow> StorageDiff list \<Rightarrow> RiskEvidence list" where
  "storage_evidence clk transaction_hash changes =
     map (\<lambda>c. create_evidence clk SrcProxy CatUpgradeability ''implementation_changed'' SevHigh zero_score ConfHigh
         ''Proxy implementation storage slot changed during execution''
         (Some [(key_signal, PyStr ''implementation_changed''), (key_reason_only, PyBool True),
            (''transaction_hash'', PyStr transaction_hash),
            (''contract_address'', PyStr (sc_contract_address c)),
            (''before_address'', opt_text (sc_before_address c)),
            (''after_address'', opt_text (sc_after_address c)),
            (''slot'', PyStr (sc_slot c)),
            (''slot_kind'', PyStr (slot_kind_value (sc_slot_kind c)))]) None)
       (filter (\<lambda>c. sc_slot_kind c = SlotImplementation) changes)"

definition ownership_evidence :: "datetime \<Rightarrow> string \<Rightarrow> OwnershipChange list \<Rightarrow> RiskEvidence list" where
  "ownership_evidence clk transaction_hash changes =
     map (\<lambda>c. create_evidence clk SrcGovernance CatAuthority ''owner_changed''
         (if oc_role c = OwnProxyAdmin then SevHigh else SevMedium) zero_score ConfHigh
         (ownership_role_value (oc_role c) @ '' changed during execution'')
         (Some [(key_signal, PyStr ''owner_changed''), (key_reason_only, PyBool True),
            (''transaction_hash'', PyStr transaction_hash),
            (''contract_address'', PyStr (oc_contract_address c)),
            (''role'', PyStr (ownership_role_value (oc_role c))),
            (''before_address'', opt_text (oc_before_address c)),
            (''after_address'', opt_text (oc_after_address c))]) None)
       changes"

definition allowance_evidence :: "datetime \<Rightarrow> string \<Rightarrow> AllowanceChange list \<Rightarrow> RiskEvidence list" where
  "allowance_evidence clk transaction_hash changes =
     map (\<lambda>c. create_evidence clk SrcCapability CatAuthority ''unlimited_allowance_granted'' SevHigh zero_score ConfHigh
         ''Unlimited allowance granted during state transition''
         (Some [(key_signal, PyStr ''unlimited_allowance_granted''), (key_reason_only, PyBool True),
            (''transaction_hash'', PyStr transaction_hash),
            (''token_address'', PyStr (ac_token_address c)),
            (''owner_address'', PyStr (ac_owner_address c)),
            (''spender_address'', PyStr (ac_spender_address c))]) None)
       (filter (\<lambda>c. \<not> (ac_kind c \<noteq> AllowUnlimited \<and> \<not> ac_is_unlimited c)) changes)"

definition supply_item ::
  "datetime \<Rightarrow> string \<Rightarrow> string \<Rightarrow> EvidenceSeverity \<Rightarrow> string \<Rightarrow> SupplyChange \<Rightarrow> RiskEvidence" where
  "supply_item clk transaction_hash signal severity reason c =
     create_evidence clk SrcCapability CatCapability signal severity zero_score ConfMedium reason
       (Some [(key_signal, PyStr signal), (key_reason_only, PyBool True),
          (''transaction_hash'', PyStr transaction_hash),
          (''token_address'', PyStr (uc_token_address c)),
          (''delta'', PyStr (int_str (uc_delta c)))]) None"

definition supply_evidence :: "datetime \<Rightarrow> string \<Rightarrow> SupplyChange list \<Rightarrow> RiskEvidence list" where
  "supply_evidence clk transaction_hash changes =
     map (\<lambda>c. case uc_kind c of
         SupplyInflation \<Rightarrow> supply_item clk transaction_hash ''large_supply_inflation'' SevHigh
           ''Large token supply inflation detected during execution'' c
       | SupplyMint \<Rightarrow> supply_item clk transaction_hash ''supply_mint'' SevMedium
           ''Token supply mint detected during execution'' c
       | _ \<Rightarrow> supply_item clk transaction_hash ''supply_burn'' SevLow
           ''Token supply burn detected during execution'' c)
       changes"

definition execution_context_evidence :: "datetime \<Rightarrow> string \<Rightarrow> RuntimeExecutionReport \<Rightarrow> RiskEvidence list" where
  "execution_context_evidence clk transaction_hash report =
     (if ra_has_revert (xr_revert_analysis report) then []
      else [create_evidence clk SrcClassification CatClassification ''state_transition_observed'' SevInfo zero_score
              ConfHigh ''State transition correlated with runtime execution trace''
              (Some [(key_signal, PyStr ''state_transition_observed''), (key_reason_only, PyBool True),
                 (''transaction_hash'', PyStr transaction_hash),
                 (''trace_provider'', PyStr (xr_provider_name report)),
                 (''call_count'', PyInt (int (length (cg_nodes (xr_call_graph report)))))]) None])"

definition emit_state_evidence ::
  "datetime \<Rightarrow> string \<Rightarrow> StateDiffBundle \<Rightarrow> RuntimeExecutionReport option \<Rightarrow> RiskEvidence list" where
  "emit_state_evidence clk transaction_hash bundle execution_report =
     merge_evidence
       ([storage_evidence clk transaction_hash (sb_storage_changes bundle),
         ownership_evidence clk transaction_hash (sb_ownership_changes bundle),
         allowance_evidence clk transaction_hash (sb_allowance_changes bundle),
         supply_evidence clk transaction_hash (sb_supply_changes bundle)] @
        (case execution_report of
           None \<Rightarrow> [] | Some report \<Rightarrow> [execution_context_evidence clk transaction_hash report]))"

section \<open>The engine\<close>

definition normalize_transition :: "StateInput \<Rightarrow> string option \<Rightarrow> RawStateTransition result" where
  "normalize_transition input transaction_hash =
     (case input of
        StateTree t \<Rightarrow> Inr t
      | StatePayload payload \<Rightarrow>
          decode_transition (StatePayload payload)
            (hash_or transaction_hash (py_str (dict_get payload ''transaction_hash'' (PyStr zero_hash))))
            (py_str (dict_get payload ''provider_name'' (PyStr ''decoded'')))
            (py_get payload ''chain_id''))"

definition analyze_transition ::
  "datetime \<Rightarrow> StateInput \<Rightarrow> string option \<Rightarrow> RuntimeExecutionReport option \<Rightarrow> RuntimeStateReport result" where
  "analyze_transition clk input transaction_hash execution_report =
     bindR (normalize_transition input transaction_hash) (\<lambda>normalized.
     bindR (build_state_diff normalized) (\<lambda>bundle.
       Inr \<lparr>sx_transaction_hash = rs_transaction_hash normalized,
            sx_storage_changes = sb_storage_changes bundle,
            sx_balance_changes = sb_balance_changes bundle,
            sx_allowance_changes = sb_allowance_changes bundle,
            sx_ownership_changes = sb_ownership_changes bundle,
            sx_supply_changes = sb_supply_changes bundle,
            sx_mapped_state_events = sb_mapped_state_events bundle,
            sx_risk_evidence =
              emit_state_evidence clk (rs_transaction_hash normalized) bundle execution_report,
            sx_provider_name = rs_provider_name normalized\<rparr>))"

section \<open>State providers (state\_provider.py)\<close>

record StaticStateProvider =
  sv_transitions :: "(string, RawStateTransition) dict"
  sv_provider_name :: string

definition register_transition :: "RawStateTransition \<Rightarrow> StaticStateProvider \<Rightarrow> StaticStateProvider" where
  "register_transition t p =
     p\<lparr>sv_transitions := AList.update (lower (rs_transaction_hash t)) t (sv_transitions p)\<rparr>"

definition static_state_transition ::
  "StaticStateProvider \<Rightarrow> string \<Rightarrow> int \<Rightarrow> int option \<Rightarrow> RawStateTransition result" where
  "static_state_transition p transaction_hash chain_id block_number =
     (case map_of (sv_transitions p) (lower transaction_hash) of
        None \<Rightarrow> Inl (KeyError (''No static state transition registered for '' @ transaction_hash))
      | Some t \<Rightarrow>
          Inr (t\<lparr>rs_block_number :=
                   (case block_number of
                      Some b \<Rightarrow> if b = 0 then rs_block_number t else Some b
                    | None \<Rightarrow> rs_block_number t),
                 rs_provider_name := sv_provider_name p,
                 rs_chain_id := PyInt chain_id\<rparr>))"

text \<open>The loader of \<open>MappingStateTransitionProvider\<close> is a parameter.\<close>

definition mapping_state_transition ::
  "(string \<Rightarrow> int \<Rightarrow> int option \<Rightarrow> StateInput result) \<Rightarrow> string \<Rightarrow> string \<Rightarrow> int \<Rightarrow> int option \<Rightarrow>
   RawStateTransition result" where
  "mapping_state_transition loader provider_name transaction_hash chain_id block_number =
     bindR (loader transaction_hash chain_id block_number) (\<lambda>payload.
       decode_transition payload transaction_hash provider_name (PyInt chain_id))"

definition analyze_state_hash ::
  "datetime \<Rightarrow> (string \<Rightarrow> int \<Rightarrow> int option \<Rightarrow> RawStateTransition result) option \<Rightarrow> string \<Rightarrow> int \<Rightarrow>
   int option \<Rightarrow> RuntimeExecutionReport option \<Rightarrow> RuntimeStateReport result" where
  "analyze_state_hash clk provider transaction_hash chain_id block_number execution_report =
     (case provider of
        None \<Rightarrow> Inl (ValueError ''state provider is required for hash-based analysis'')
      | Some get_state_transition \<Rightarrow>
          bindR (get_state_transition transaction_hash chain_id block_number) (\<lambda>t.
            analyze_transition clk (StateTree t) None execution_report))"

end
