(* ===== verification/SimulationScenario.thy ===== *)
theory SimulationScenario
  imports StateEngine
begin

text \<open>
  Exploit simulation scenarios (\<open>runtime/simulation/\<close>): the models (\<open>models.py\<close>), the scenario factories
  (\<open>scenario.py\<close>), validation and building (\<open>scenario_builder.py\<close>). The digest of a text is the
  parameter \<open>H\<close>.
\<close>

section \<open>Models (models.py)\<close>

datatype ScenarioType =
    ScnProxyUpgrade | ScnOwnershipTransfer | ScnUnlimitedApproval | ScnUnlimitedMint | ScnBurn
  | ScnPause | ScnUnpause | ScnTimelockReduction | ScnGovernanceExecution

datatype AttackType =
    AtkUpgrade | AtkGovernanceCapture | AtkTreasuryDrain | AtkUnlimitedMint | AtkUnlimitedApproval
  | AtkOracleManipulation | AtkBridgeCompromise | AtkPrivilegeEscalation

datatype SimulatedActionKind =
    ActCall | ActDelegatecall | ActApprove | ActTransfer | ActMint | ActBurn | ActUpgrade
  | ActGovernanceExecute | ActStorageWrite

fun scenario_type_value :: "ScenarioType \<Rightarrow> string" where
  "scenario_type_value ScnProxyUpgrade = ''proxy_upgrade''"
| "scenario_type_value ScnOwnershipTransfer = ''ownership_transfer''"
| "scenario_type_value ScnUnlimitedApproval = ''unlimited_approval''"
| "scenario_type_value ScnUnlimitedMint = ''unlimited_mint''"
| "scenario_type_value ScnBurn = ''burn''"
| "scenario_type_value ScnPause = ''pause''"
| "scenario_type_value ScnUnpause = ''unpause''"
| "scenario_type_value ScnTimelockReduction = ''timelock_reduction''"
| "scenario_type_value ScnGovernanceExecution = ''governance_proposal_execution''"

fun attack_type_value :: "AttackType \<Rightarrow> string" where
  "attack_type_value AtkUpgrade = ''upgrade_attack''"
| "attack_type_value AtkGovernanceCapture = ''governance_capture''"
| "attack_type_value AtkTreasuryDrain = ''treasury_drain''"
| "attack_type_value AtkUnlimitedMint = ''unlimited_mint''"
| "attack_type_value AtkUnlimitedApproval = ''unlimited_approval''"
| "attack_type_value AtkOracleManipulation = ''oracle_manipulation''"
| "attack_type_value AtkBridgeCompromise = ''bridge_compromise''"
| "attack_type_value AtkPrivilegeEscalation = ''privilege_escalation''"

record ScenarioPrecondition =
  sq_key :: string
  sq_description :: string
  sq_required :: bool
  sq_satisfied :: bool

record SimulatedAction =
  sk_kind :: SimulatedActionKind
  sk_actor :: string
  sk_target :: "string option"
  sk_description :: string
  sk_metadata :: metadata

record SimulationContext =
  cn_chain_id :: int
  cn_actor_address :: string
  cn_contract_address :: string
  cn_proxy_address :: "string option"
  cn_implementation_address :: "string option"
  cn_new_implementation_address :: "string option"
  cn_token_address :: "string option"
  cn_owner_address :: "string option"
  cn_new_owner_address :: "string option"
  cn_spender_address :: "string option"
  cn_recipient_address :: "string option"
  cn_governor_address :: "string option"
  cn_treasury_address :: "string option"
  cn_timelock_address :: "string option"
  cn_bridge_address :: "string option"
  cn_oracle_address :: "string option"

record SimulationScenario =
  sz_scenario_id :: string
  sz_scenario_type :: ScenarioType
  sz_context :: SimulationContext
  sz_preconditions :: "ScenarioPrecondition list"
  sz_actions :: "SimulatedAction list"
  sz_assumptions :: "string list"
  sz_limitations :: "string list"
  sz_metadata :: metadata

record ExpectedOutcome =
  xo_signal :: string
  xo_description :: string
  xo_severity :: "string option"

record AttackScenario =
  at_attack_id :: string
  at_attack_type :: AttackType
  at_name :: string
  at_description :: string
  at_preconditions :: "ScenarioPrecondition list"
  at_actions :: "SimulatedAction list"
  at_scenarios :: "SimulationScenario list"
  at_expected_state_changes :: "string list"
  at_expected_evidence :: "ExpectedOutcome list"
  at_limitations :: "string list"

record SimulatedFinding =
  sg_finding_id :: string
  sg_scenario_type :: ScenarioType
  sg_signal :: string
  sg_description :: string
  sg_severity :: string

record SimulationResult =
  sy_scenario_id :: string
  sy_scenario_type :: ScenarioType
  sy_transaction_hash :: string
  sy_predicted_execution :: RuntimeExecutionReport
  sy_predicted_state :: RuntimeStateReport
  sy_predicted_evidence :: "RiskEvidence list"
  sy_predicted_findings :: "SimulatedFinding list"
  sy_assumptions :: "string list"
  sy_confidence :: ConfidenceLevel
  sy_limitations :: "string list"

text \<open>A precondition and a context with the fields that have defaults left out.\<close>

definition precondition :: "string \<Rightarrow> string \<Rightarrow> ScenarioPrecondition" where
  "precondition key description =
     \<lparr>sq_key = key, sq_description = description, sq_required = True, sq_satisfied = True\<rparr>"

definition simple_context :: "int \<Rightarrow> string \<Rightarrow> string \<Rightarrow> SimulationContext" where
  "simple_context chain_id actor contract =
     \<lparr>cn_chain_id = chain_id, cn_actor_address = actor, cn_contract_address = contract,
      cn_proxy_address = None, cn_implementation_address = None, cn_new_implementation_address = None,
      cn_token_address = None, cn_owner_address = None, cn_new_owner_address = None,
      cn_spender_address = None, cn_recipient_address = None, cn_governor_address = None,
      cn_treasury_address = None, cn_timelock_address = None, cn_bridge_address = None,
      cn_oracle_address = None\<rparr>"

section \<open>Scenarios (scenario.py)\<close>

definition pause_slot :: string where
  "pause_slot = ''0x0000000000000000000000000000000000000000000000000000000000000003''"

definition timelock_slot :: string where
  "timelock_slot = ''0x0000000000000000000000000000000000000000000000000000000000000002''"

definition default_assumptions :: "string list" where
  "default_assumptions =
     [''Simulation composes M9.2/M9.3 predictors; EVM is not emulated.'',
      ''Predicted traces and state diffs are scenario templates, not live chain data.'']"

definition default_limitations :: "string list" where
  "default_limitations =
     [''Gas, revert conditions, and reentrancy are not fully modeled.'',
      ''Cross-contract side effects outside the scenario template are excluded.'']"

definition simulation_transaction_hash :: "(string \<Rightarrow> string) \<Rightarrow> string \<Rightarrow> string" where
  "simulation_transaction_hash H scenario_id = ''0x'' @ H scenario_id"

definition scenario_id :: "(string \<Rightarrow> string) \<Rightarrow> ScenarioType \<Rightarrow> SimulationContext \<Rightarrow> string" where
  "scenario_id H scenario_type ctx =
     (let parts = [scenario_type_value scenario_type, int_str (cn_chain_id ctx),
                   lower (cn_contract_address ctx), lower (cn_actor_address ctx)]
      in scenario_type_value scenario_type @ '':'' @ take 16 (H (join ''|'' parts)))"

text \<open>\<open>format(n, "064x")\<close>.\<close>

fun hex_digits :: "nat \<Rightarrow> string" where
  "hex_digits n = (if n < 16 then [hex_digit n] else hex_digits (n div 16) @ [hex_digit (n mod 16)])"

declare hex_digits.simps [simp del]

definition rjust :: "nat \<Rightarrow> char \<Rightarrow> string \<Rightarrow> string" where
  "rjust n c s = replicate (n - length s) c @ s"

definition format_064x :: "nat \<Rightarrow> string" where
  "format_064x n = rjust 64 CHR ''0'' (hex_digits n)"

definition simulated_action ::
  "SimulatedActionKind \<Rightarrow> string \<Rightarrow> string \<Rightarrow> string \<Rightarrow> metadata \<Rightarrow> SimulatedAction" where
  "simulated_action kind actor target description m =
     \<lparr>sk_kind = kind, sk_actor = actor, sk_target = Some target, sk_description = description,
      sk_metadata = m\<rparr>"

definition proxy_upgrade_scenario :: "(string \<Rightarrow> string) \<Rightarrow> SimulationContext \<Rightarrow> SimulationScenario" where
  "proxy_upgrade_scenario H ctx =
     (let proxy = lower (or_text (cn_proxy_address ctx) (cn_contract_address ctx));
          implementation = lower (or_text (cn_implementation_address ctx) (cn_contract_address ctx));
          new_implementation = lower (or_text (cn_new_implementation_address ctx) (cn_actor_address ctx))
      in \<lparr>sz_scenario_id = scenario_id H ScnProxyUpgrade ctx,
          sz_scenario_type = ScnProxyUpgrade,
          sz_context = ctx,
          sz_preconditions =
            [precondition ''proxy_admin'' ''Actor holds proxy admin privileges'',
             precondition ''implementation_slot'' ''Target is an upgradeable proxy''],
          sz_actions =
            [simulated_action ActUpgrade (lower (cn_actor_address ctx)) proxy ''upgradeTo(newImplementation)''
               [(''new_implementation'', PyStr new_implementation), (''old_implementation'', PyStr implementation)],
             simulated_action ActDelegatecall proxy new_implementation ''Post-upgrade delegated execution'' []],
          sz_assumptions = default_assumptions,
          sz_limitations = default_limitations,
          sz_metadata =
            [(''proxy'', PyStr proxy), (''implementation'', PyStr implementation),
             (''new_implementation'', PyStr new_implementation)]\<rparr>)"

definition ownership_transfer_scenario :: "(string \<Rightarrow> string) \<Rightarrow> SimulationContext \<Rightarrow> SimulationScenario" where
  "ownership_transfer_scenario H ctx =
     (let owner = lower (or_text (cn_owner_address ctx) (cn_actor_address ctx));
          new_owner = lower (or_text (cn_new_owner_address ctx)
                        (or_text (cn_recipient_address ctx) (cn_actor_address ctx)));
          contract = lower (cn_contract_address ctx)
      in \<lparr>sz_scenario_id = scenario_id H ScnOwnershipTransfer ctx,
          sz_scenario_type = ScnOwnershipTransfer,
          sz_context = ctx,
          sz_preconditions = [precondition ''current_owner'' ''Actor is the current owner''],
          sz_actions =
            [simulated_action ActCall owner contract ''transferOwnership(newOwner)''
               [(''new_owner'', PyStr new_owner)]],
          sz_assumptions = default_assumptions,
          sz_limitations = default_limitations,
          sz_metadata = [(''owner'', PyStr owner), (''new_owner'', PyStr new_owner)]\<rparr>)"

definition unlimited_approval_scenario :: "(string \<Rightarrow> string) \<Rightarrow> SimulationContext \<Rightarrow> SimulationScenario" where
  "unlimited_approval_scenario H ctx =
     (let token = lower (or_text (cn_token_address ctx) (cn_contract_address ctx));
          spender = lower (or_text (cn_spender_address ctx)
                      (or_text (cn_recipient_address ctx) (cn_actor_address ctx)));
          owner = lower (cn_actor_address ctx)
      in \<lparr>sz_scenario_id = scenario_id H ScnUnlimitedApproval ctx,
          sz_scenario_type = ScnUnlimitedApproval,
          sz_context = ctx,
          sz_preconditions = [precondition ''token_balance'' ''Owner holds token balance''],
          sz_actions =
            [simulated_action ActApprove owner token ''approve(spender, type(uint256).max)''
               [(''spender'', PyStr spender), (''amount'', PyStr (int_str max_uint256))]],
          sz_assumptions = default_assumptions,
          sz_limitations = default_limitations,
          sz_metadata = [(''token'', PyStr token), (''owner'', PyStr owner), (''spender'', PyStr spender)]\<rparr>)"

definition unlimited_mint_scenario ::
  "(string \<Rightarrow> string) \<Rightarrow> SimulationContext \<Rightarrow> int \<Rightarrow> SimulationScenario" where
  "unlimited_mint_scenario H ctx mint_amount =
     (let token = lower (or_text (cn_token_address ctx) (cn_contract_address ctx));
          recipient = lower (or_text (cn_recipient_address ctx) (cn_actor_address ctx))
      in \<lparr>sz_scenario_id = scenario_id H ScnUnlimitedMint ctx,
          sz_scenario_type = ScnUnlimitedMint,
          sz_context = ctx,
          sz_preconditions = [precondition ''minter_role'' ''Actor holds minter or owner role''],
          sz_actions =
            [simulated_action ActMint (lower (cn_actor_address ctx)) token ''mint(recipient, largeAmount)''
               [(''recipient'', PyStr recipient), (''amount'', PyStr (int_str mint_amount))]],
          sz_assumptions = default_assumptions,
          sz_limitations = default_limitations,
          sz_metadata =
            [(''token'', PyStr token), (''recipient'', PyStr recipient), (''mint_amount'', PyInt mint_amount)]\<rparr>)"

definition burn_scenario :: "(string \<Rightarrow> string) \<Rightarrow> SimulationContext \<Rightarrow> SimulationScenario" where
  "burn_scenario H ctx =
     (let token = lower (or_text (cn_token_address ctx) (cn_contract_address ctx));
          burn_amount = 500
      in \<lparr>sz_scenario_id = scenario_id H ScnBurn ctx,
          sz_scenario_type = ScnBurn,
          sz_context = ctx,
          sz_preconditions = [precondition ''token_balance'' ''Actor holds tokens to burn''],
          sz_actions =
            [simulated_action ActBurn (lower (cn_actor_address ctx)) token ''burn(amount)''
               [(''amount'', PyStr (int_str burn_amount))]],
          sz_assumptions = default_assumptions,
          sz_limitations = default_limitations,
          sz_metadata = [(''token'', PyStr token), (''burn_amount'', PyInt burn_amount)]\<rparr>)"

definition pause_scenario :: "(string \<Rightarrow> string) \<Rightarrow> SimulationContext \<Rightarrow> SimulationScenario" where
  "pause_scenario H ctx =
     \<lparr>sz_scenario_id = scenario_id H ScnPause ctx,
      sz_scenario_type = ScnPause,
      sz_context = ctx,
      sz_preconditions = [precondition ''pauser_role'' ''Actor holds pauser role''],
      sz_actions =
        [simulated_action ActStorageWrite (lower (cn_actor_address ctx)) (lower (cn_contract_address ctx))
           ''pause() sets paused storage flag'' [(''slot'', PyStr pause_slot), (''after'', PyStr ''0x01'')]],
      sz_assumptions = default_assumptions,
      sz_limitations = default_limitations @ [''Pause slot mapping is protocol-specific.''],
      sz_metadata = [(''slot'', PyStr pause_slot)]\<rparr>"

definition unpause_scenario :: "(string \<Rightarrow> string) \<Rightarrow> SimulationContext \<Rightarrow> SimulationScenario" where
  "unpause_scenario H ctx =
     \<lparr>sz_scenario_id = scenario_id H ScnUnpause ctx,
      sz_scenario_type = ScnUnpause,
      sz_context = ctx,
      sz_preconditions = [precondition ''pauser_role'' ''Actor holds pauser role''],
      sz_actions =
        [simulated_action ActStorageWrite (lower (cn_actor_address ctx)) (lower (cn_contract_address ctx))
           ''unpause() clears paused storage flag'' [(''slot'', PyStr pause_slot), (''after'', PyStr ''0x00'')]],
      sz_assumptions = default_assumptions,
      sz_limitations = default_limitations @ [''Pause slot mapping is protocol-specific.''],
      sz_metadata = [(''slot'', PyStr pause_slot)]\<rparr>"

definition timelock_reduction_scenario :: "(string \<Rightarrow> string) \<Rightarrow> SimulationContext \<Rightarrow> SimulationScenario" where
  "timelock_reduction_scenario H ctx =
     (let contract = lower (or_text (cn_timelock_address ctx) (cn_contract_address ctx));
          new_delay = 0
      in \<lparr>sz_scenario_id = scenario_id H ScnTimelockReduction ctx,
          sz_scenario_type = ScnTimelockReduction,
          sz_context = ctx,
          sz_preconditions = [precondition ''timelock_admin'' ''Actor controls timelock admin''],
          sz_actions =
            [simulated_action ActStorageWrite (lower (cn_actor_address ctx)) contract ''updateDelay(0)''
               [(''slot'', PyStr timelock_slot), (''after'', PyStr (''0x'' @ format_064x new_delay))]],
          sz_assumptions = default_assumptions,
          sz_limitations = default_limitations @ [''Timelock storage layout varies by implementation.''],
          sz_metadata = [(''slot'', PyStr timelock_slot), (''new_delay'', PyInt (int new_delay))]\<rparr>)"

definition governance_proposal_execution_scenario ::
  "(string \<Rightarrow> string) \<Rightarrow> SimulationContext \<Rightarrow> SimulationScenario" where
  "governance_proposal_execution_scenario H ctx =
     (let governor = lower (or_text (cn_governor_address ctx) (cn_contract_address ctx));
          target = lower (or_text (cn_recipient_address ctx) (cn_contract_address ctx))
      in \<lparr>sz_scenario_id = scenario_id H ScnGovernanceExecution ctx,
          sz_scenario_type = ScnGovernanceExecution,
          sz_context = ctx,
          sz_preconditions =
            [precondition ''proposal_passed'' ''Governance proposal has passed quorum'',
             precondition ''timelock_elapsed'' ''Timelock delay has elapsed''],
          sz_actions =
            [simulated_action ActGovernanceExecute (lower (cn_actor_address ctx)) governor
               ''execute(proposalId, targets, values, calldatas)'' [(''execution_target'', PyStr target)],
             simulated_action ActCall governor target ''Execute proposal payload'' []],
          sz_assumptions = default_assumptions,
          sz_limitations = default_limitations @ [''Proposal calldata is not decoded in simulation.''],
          sz_metadata = [(''governor'', PyStr governor), (''target'', PyStr target)]\<rparr>)"

definition scenario_factories ::
  "ScenarioType \<Rightarrow> ((string \<Rightarrow> string) \<Rightarrow> SimulationContext \<Rightarrow> SimulationScenario) option" where
  "scenario_factories scenario_type =
     Some (case scenario_type of
             ScnProxyUpgrade \<Rightarrow> proxy_upgrade_scenario
           | ScnOwnershipTransfer \<Rightarrow> ownership_transfer_scenario
           | ScnUnlimitedApproval \<Rightarrow> unlimited_approval_scenario
           | ScnUnlimitedMint \<Rightarrow> (\<lambda>H ctx. unlimited_mint_scenario H ctx (10 ^ 25))
           | ScnBurn \<Rightarrow> burn_scenario
           | ScnPause \<Rightarrow> pause_scenario
           | ScnUnpause \<Rightarrow> unpause_scenario
           | ScnTimelockReduction \<Rightarrow> timelock_reduction_scenario
           | ScnGovernanceExecution \<Rightarrow> governance_proposal_execution_scenario)"

section \<open>Validation (scenario\_builder.py)\<close>

definition is_address :: "string option \<Rightarrow> bool" where
  "is_address value =
     (case value of
        None \<Rightarrow> False
      | Some v \<Rightarrow>
          (if v = [] then False
           else (let normalized = removeprefix ''0x'' (lower v)
                 in length normalized = 40 \<and> list_all (\<lambda>c. c \<in> set ''0123456789abcdef'') normalized)))"

text \<open>\<open>if context.f and not _is_address(context.f)\<close>.\<close>

definition bad_optional :: "string option \<Rightarrow> bool" where
  "bad_optional v \<longleftrightarrow> opt_truthy v \<and> \<not> is_address v"

definition check :: "bool \<Rightarrow> string \<Rightarrow> string list" where
  "check bad message = (if bad then [message] else [])"

definition validation_errors :: "ScenarioType \<Rightarrow> SimulationContext \<Rightarrow> string list" where
  "validation_errors ty ctx =
     (let contract = cn_contract_address ctx
      in check (cn_chain_id ctx \<le> 0) ''chain_id must be positive'' @
         check (\<not> is_address (Some (cn_actor_address ctx))) ''actor_address must be a valid address'' @
         check (\<not> is_address (Some contract)) ''contract_address must be a valid address'' @
         (if ty = ScnProxyUpgrade
          then check (\<not> is_address (Some (or_text (cn_proxy_address ctx) contract)))
                 ''proxy_address must be a valid address'' @
               check (bad_optional (cn_new_implementation_address ctx))
                 ''new_implementation_address must be a valid address''
          else []) @
         (if ty = ScnOwnershipTransfer
          then check (bad_optional (cn_new_owner_address ctx)) ''new_owner_address must be a valid address''
          else []) @
         (if ty \<in> {ScnUnlimitedApproval, ScnUnlimitedMint, ScnBurn}
          then check (\<not> is_address (Some (or_text (cn_token_address ctx) contract)))
                 ''token_address must be a valid address''
          else []) @
         (if ty = ScnUnlimitedApproval
          then check (bad_optional (cn_spender_address ctx)) ''spender_address must be a valid address''
          else []) @
         (if ty = ScnTimelockReduction
          then check (\<not> is_address (Some (or_text (cn_timelock_address ctx) contract)))
                 ''timelock_address must be a valid address''
          else []) @
         (if ty = ScnGovernanceExecution
          then check (\<not> is_address (Some (or_text (cn_governor_address ctx) contract)))
                 ''governor_address must be a valid address''
          else []))"

definition validate_scenario :: "ScenarioType \<Rightarrow> SimulationContext \<Rightarrow> unit result" where
  "validate_scenario ty ctx =
     (let errors = validation_errors ty ctx
      in if errors \<noteq> [] then Inl (ScenarioValidationError (join ''; '' errors)) else Inr ())"

definition unsupported_type :: "ScenarioType \<Rightarrow> py_error" where
  "unsupported_type ty =
     ScenarioValidationError (''unsupported scenario type: '' @ scenario_type_value ty)"

definition build_scenario ::
  "(string \<Rightarrow> string) \<Rightarrow> ScenarioType \<Rightarrow> SimulationContext \<Rightarrow> SimulationScenario result" where
  "build_scenario H ty ctx =
     bindR (validate_scenario ty ctx) (\<lambda>_.
       case scenario_factories ty of
         None \<Rightarrow> Inl (unsupported_type ty)
       | Some factory \<Rightarrow> Inr (factory H ctx))"

definition placeholder_context :: SimulationContext where
  "placeholder_context =
     (let address = ''0x'' @ replicate 40 CHR ''a'' in simple_context 1 address address)"

definition build_preconditions ::
  "(string \<Rightarrow> string) \<Rightarrow> ScenarioType \<Rightarrow> ScenarioPrecondition list result" where
  "build_preconditions H ty =
     (case scenario_factories ty of
        None \<Rightarrow> Inl (unsupported_type ty)
      | Some factory \<Rightarrow> Inr (sz_preconditions (factory H placeholder_context)))"

end
