(* ===== verification/SimulationEngine.thy ===== *)
theory SimulationEngine
  imports SimulationScenario
begin

text \<open>
  Prediction of traces and state transitions from scenarios (\<open>execution_predictor.py\<close>,
  \<open>state_predictor.py\<close>), the mapping of their evidence (\<open>evidence_mapper.py\<close>) and the engine
  (\<open>simulation_engine.py\<close>, \<open>simulation_report.py\<close>).
\<close>

section \<open>Predicted traces (execution\_predictor.py)\<close>

definition upgrade_selector :: "byte list" where
  "upgrade_selector = [0x36, 0x59, 0xcf, 0xe6]"

definition trace_node ::
  "CallType \<Rightarrow> string \<Rightarrow> string option \<Rightarrow> int \<Rightarrow> byte list \<Rightarrow> RawTraceNode list \<Rightarrow> RawTraceNode" where
  "trace_node call_type from_address to_address gas_used input_data children =
     RawTraceNode call_type (lower from_address) (lower_or_none to_address) 0 gas_used gas_used
       input_data [] None None children"

definition primary_target :: "ScenarioType \<Rightarrow> SimulationContext \<Rightarrow> string" where
  "primary_target ty ctx =
     (if ty \<in> {ScnUnlimitedApproval, ScnUnlimitedMint, ScnBurn}
      then lower (or_text (cn_token_address ctx) (cn_contract_address ctx))
      else if ty = ScnTimelockReduction
      then lower (or_text (cn_timelock_address ctx) (cn_contract_address ctx))
      else lower (cn_contract_address ctx))"

definition trace_root_for_scenario :: "ScenarioType \<Rightarrow> SimulationContext \<Rightarrow> RawTraceNode" where
  "trace_root_for_scenario ty ctx =
     (let actor = lower (cn_actor_address ctx);
          contract = lower (cn_contract_address ctx)
      in if ty = ScnProxyUpgrade
         then (let proxy = lower (or_text (cn_proxy_address ctx) contract);
                   new_impl = lower (or_text (cn_new_implementation_address ctx)
                                (or_text (cn_implementation_address ctx) actor))
               in trace_node OpCall actor (Some proxy) 150000 (upgrade_selector @ replicate 28 0)
                    [trace_node OpDelegatecall proxy (Some new_impl) 100000 [] []])
         else if ty = ScnGovernanceExecution
         then (let governor = lower (or_text (cn_governor_address ctx) contract);
                   target = lower (or_text (cn_recipient_address ctx) contract)
               in trace_node OpCall actor (Some governor) 250000 []
                    [trace_node OpCall governor (Some target) 120000 [] []])
         else if ty \<in> {ScnUnlimitedApproval, ScnUnlimitedMint, ScnBurn, ScnOwnershipTransfer, ScnPause,
                       ScnUnpause, ScnTimelockReduction}
         then trace_node OpCall actor (Some (primary_target ty ctx)) 80000 [] []
         else trace_node OpCall actor (Some contract) 50000 [] [])"

definition predicted_trace :: "(string \<Rightarrow> string) \<Rightarrow> SimulationScenario \<Rightarrow> RawExecutionTrace" where
  "predicted_trace H scenario =
     \<lparr>xt_transaction_hash = simulation_transaction_hash H (sz_scenario_id scenario),
      xt_root = trace_root_for_scenario (sz_scenario_type scenario) (sz_context scenario),
      xt_provider_name = ''simulation'',
      xt_chain_id = Some (cn_chain_id (sz_context scenario))\<rparr>"

definition predict_execution ::
  "datetime \<Rightarrow> (string \<Rightarrow> string) \<Rightarrow> SimulationScenario \<Rightarrow> RuntimeExecutionReport result option" where
  "predict_execution clk H scenario = analyze_trace clk (TraceTree (predicted_trace H scenario)) None None []"

section \<open>Predicted state (state\_predictor.py)\<close>

definition large_mint_amount :: int where
  "large_mint_amount = 10 ^ 25"

definition word_address :: "string \<Rightarrow> string" where
  "word_address address = ''0x'' @ rjust 64 CHR ''0'' (removeprefix ''0x'' (lower address))"

definition word_hex :: "int \<Rightarrow> string" where
  "word_hex value = ''0x'' @ format_064x (nat value)"

text \<open>\<open>bytes.fromhex(_uint_word(value)[2:])\<close>.\<close>

definition uint_data :: "int \<Rightarrow> byte list result" where
  "uint_data value =
     (case bytes_fromhex (drop 2 (word_hex value)) of
        None \<Rightarrow> Inl (ValueError ''non-hexadecimal number found in fromhex() arg'')
      | Some bs \<Rightarrow> Inr bs)"

definition zero_slot :: string where
  "zero_slot = ''0x0000000000000000000000000000000000000000000000000000000000000000''"

definition storage_diff :: "string \<Rightarrow> string \<Rightarrow> string \<Rightarrow> string \<Rightarrow> RawStorageDiff" where
  "storage_diff contract slot before after =
     \<lparr>sd_contract_address = contract, sd_slot = slot, sd_before = before, sd_after = after\<rparr>"

definition predicted_storage_diffs :: "ScenarioType \<Rightarrow> SimulationContext \<Rightarrow> RawStorageDiff list" where
  "predicted_storage_diffs ty ctx =
     (let contract = lower (cn_contract_address ctx)
      in case ty of
           ScnProxyUpgrade \<Rightarrow>
             [storage_diff (lower (or_text (cn_proxy_address ctx) contract)) eip1967_implementation_slot
                (word_address (lower (or_text (cn_implementation_address ctx) contract)))
                (word_address (lower (or_text (cn_new_implementation_address ctx) (cn_actor_address ctx))))]
         | ScnOwnershipTransfer \<Rightarrow>
             (let owner = lower (or_text (cn_owner_address ctx) (cn_actor_address ctx))
              in [storage_diff contract zero_slot (word_address owner)
                    (word_address (lower (or_text (cn_new_owner_address ctx)
                       (or_text (cn_recipient_address ctx) owner))))])
         | ScnTimelockReduction \<Rightarrow>
             [storage_diff (lower (or_text (cn_timelock_address ctx) contract)) timelock_slot
                (word_hex 86400) (word_hex 0)]
         | ScnPause \<Rightarrow> [storage_diff contract pause_slot (word_hex 0) (word_hex 1)]
         | ScnUnpause \<Rightarrow> [storage_diff contract pause_slot (word_hex 1) (word_hex 0)]
         | ScnGovernanceExecution \<Rightarrow>
             [storage_diff (lower (or_text (cn_governor_address ctx) contract)) zero_slot
                (word_address (cn_actor_address ctx))
                (word_address (lower (or_text (cn_recipient_address ctx) (cn_actor_address ctx))))]
         | _ \<Rightarrow> [])"

definition erc20_diff :: "string \<Rightarrow> string \<Rightarrow> int \<Rightarrow> int \<Rightarrow> RawBalanceDiff" where
  "erc20_diff token account before after =
     \<lparr>bd_asset_type = AssetErc20, bd_contract_address = Some token, bd_account_address = account,
      bd_before = before, bd_after = after, bd_token_id = None\<rparr>"

definition predicted_balance_diffs :: "ScenarioType \<Rightarrow> SimulationContext \<Rightarrow> RawBalanceDiff list" where
  "predicted_balance_diffs ty ctx =
     (let token = lower (or_text (cn_token_address ctx) (cn_contract_address ctx));
          actor = lower (cn_actor_address ctx);
          recipient = lower (or_text (cn_recipient_address ctx) actor)
      in case ty of
           ScnUnlimitedMint \<Rightarrow> [erc20_diff token recipient 0 large_mint_amount]
         | ScnBurn \<Rightarrow> [erc20_diff token actor 1000 500]
         | ScnGovernanceExecution \<Rightarrow>
             [erc20_diff token (lower (or_text (cn_treasury_address ctx) recipient)) (10 ^ 22) 0]
         | _ \<Rightarrow> [])"

definition predicted_allowance_diffs :: "ScenarioType \<Rightarrow> SimulationContext \<Rightarrow> RawAllowanceDiff list" where
  "predicted_allowance_diffs ty ctx =
     (if ty \<noteq> ScnUnlimitedApproval then []
      else (let owner = lower (cn_actor_address ctx)
            in [\<lparr>ad_token_address = lower (or_text (cn_token_address ctx) (cn_contract_address ctx)),
                 ad_owner_address = owner,
                 ad_spender_address =
                   lower (or_text (cn_spender_address ctx) (or_text (cn_recipient_address ctx) owner)),
                 ad_before = 0, ad_after = max_uint256\<rparr>]))"

definition predicted_supply_diffs :: "ScenarioType \<Rightarrow> SimulationContext \<Rightarrow> RawSupplyDiff list" where
  "predicted_supply_diffs ty ctx =
     (let token = lower (or_text (cn_token_address ctx) (cn_contract_address ctx))
      in case ty of
           ScnUnlimitedMint \<Rightarrow> [\<lparr>yd_token_address = token, yd_before = 0, yd_after = large_mint_amount\<rparr>]
         | ScnBurn \<Rightarrow> [\<lparr>yd_token_address = token, yd_before = 1000, yd_after = 500\<rparr>]
         | _ \<Rightarrow> [])"

definition state_log :: "string \<Rightarrow> string list \<Rightarrow> byte list \<Rightarrow> RawStateLog" where
  "state_log contract topics data =
     \<lparr>lg_contract_address = contract, lg_topics = topics, lg_data = data\<rparr>"

definition topic_upgraded :: string where
  "topic_upgraded = ''0xbc7cd75a20ee27fd9adebab32041f755214dbc6b556c695889b9856025e1d5e8''"

definition zero_address_text :: string where
  "zero_address_text = ''0x'' @ concat (replicate 20 ''00'')"

definition predicted_logs :: "ScenarioType \<Rightarrow> SimulationContext \<Rightarrow> RawStateLog list result" where
  "predicted_logs ty ctx =
     (let contract = lower (cn_contract_address ctx);
          token = lower (or_text (cn_token_address ctx) contract);
          actor = lower (cn_actor_address ctx)
      in case ty of
           ScnOwnershipTransfer \<Rightarrow>
             Inr [state_log contract
                    [topic_ownership_transferred,
                     word_address (lower (or_text (cn_owner_address ctx) actor)),
                     word_address (lower (or_text (cn_new_owner_address ctx)
                       (or_text (cn_recipient_address ctx) actor)))] []]
         | ScnUnlimitedApproval \<Rightarrow>
             bindR (uint_data max_uint256) (\<lambda>data.
               Inr [state_log token
                      [topic_approval, word_address actor,
                       word_address (lower (or_text (cn_spender_address ctx)
                         (or_text (cn_recipient_address ctx) actor)))] data])
         | ScnUnlimitedMint \<Rightarrow>
             bindR (uint_data large_mint_amount) (\<lambda>data.
               Inr [state_log token
                      [topic_transfer, word_address zero_address_text,
                       word_address (lower (or_text (cn_recipient_address ctx) actor))] data])
         | ScnBurn \<Rightarrow>
             bindR (uint_data 500) (\<lambda>data.
               Inr [state_log token [topic_transfer, word_address actor, word_address zero_address_text] data])
         | ScnProxyUpgrade \<Rightarrow>
             Inr [state_log (lower (or_text (cn_proxy_address ctx) contract))
                    [topic_upgraded,
                     word_address (lower (or_text (cn_implementation_address ctx) contract)),
                     word_address (lower (or_text (cn_new_implementation_address ctx) actor))] []]
         | _ \<Rightarrow> Inr [])"

definition predicted_transition ::
  "(string \<Rightarrow> string) \<Rightarrow> SimulationScenario \<Rightarrow> RawStateTransition result" where
  "predicted_transition H scenario =
     (let ty = sz_scenario_type scenario; ctx = sz_context scenario
      in bindR (predicted_logs ty ctx) (\<lambda>logs.
           Inr \<lparr>rs_transaction_hash = simulation_transaction_hash H (sz_scenario_id scenario),
                rs_block_number = None,
                rs_storage_diffs = predicted_storage_diffs ty ctx,
                rs_balance_diffs = predicted_balance_diffs ty ctx,
                rs_allowance_diffs = predicted_allowance_diffs ty ctx,
                rs_supply_diffs = predicted_supply_diffs ty ctx,
                rs_logs = logs,
                rs_provider_name = ''simulation'',
                rs_chain_id = PyInt (cn_chain_id ctx)\<rparr>))"

definition predict_state ::
  "datetime \<Rightarrow> (string \<Rightarrow> string) \<Rightarrow> SimulationScenario \<Rightarrow> RuntimeExecutionReport option \<Rightarrow>
   RuntimeStateReport result" where
  "predict_state clk H scenario execution_report =
     bindR (predicted_transition H scenario) (\<lambda>t. analyze_transition clk (StateTree t) None execution_report)"

section \<open>Evidence (evidence\_mapper.py)\<close>

definition scenario_signals ::
  "ScenarioType \<Rightarrow> (string \<times> EvidenceSource \<times> EvidenceCategory \<times> EvidenceSeverity \<times> string) list" where
  "scenario_signals ty =
     (case ty of
        ScnPause \<Rightarrow>
          [(''simulated_pause'', SrcGovernance, CatAuthority, SevHigh, ''Simulated contract pause state transition'')]
      | ScnUnpause \<Rightarrow>
          [(''simulated_unpause'', SrcGovernance, CatAuthority, SevMedium, ''Simulated contract unpause state transition'')]
      | ScnTimelockReduction \<Rightarrow>
          [(''simulated_timelock_reduction'', SrcGovernance, CatAuthority, SevHigh, ''Simulated timelock delay reduction'')]
      | ScnGovernanceExecution \<Rightarrow>
          [(''governance_execution'', SrcGovernance, CatAuthority, SevHigh, ''Simulated governance proposal execution'')]
      | _ \<Rightarrow> [])"

definition scenario_evidence :: "datetime \<Rightarrow> SimulationScenario \<Rightarrow> RiskEvidence list" where
  "scenario_evidence clk scenario =
     map (\<lambda>(signal, source, category, severity, reason).
         create_evidence clk source category signal severity zero_score ConfMedium reason
           (Some [(key_signal, PyStr signal), (key_reason_only, PyBool True),
              (''scenario_id'', PyStr (sz_scenario_id scenario)),
              (''scenario_type'', PyStr (scenario_type_value (sz_scenario_type scenario))),
              (''simulated'', PyBool True)]) None)
       (scenario_signals (sz_scenario_type scenario))"

definition annotate :: "SimulationScenario \<Rightarrow> RiskEvidence \<Rightarrow> RiskEvidence" where
  "annotate scenario item =
     item\<lparr>ev_score := zero_score,
          ev_metadata := dict_merge (ev_metadata item)
            [(''simulated'', PyBool True),
             (''scenario_id'', PyStr (sz_scenario_id scenario)),
             (''scenario_type'', PyStr (scenario_type_value (sz_scenario_type scenario))),
             (key_reason_only, PyBool True)]\<rparr>"

definition map_simulation_evidence ::
  "datetime \<Rightarrow> SimulationScenario \<Rightarrow> RuntimeExecutionReport \<Rightarrow> RuntimeStateReport \<Rightarrow> RiskEvidence list" where
  "map_simulation_evidence clk scenario execution_report state_report =
     sort_key ev_id (map (annotate scenario)
       (merge_evidence
          [xr_risk_evidence execution_report, sx_risk_evidence state_report, scenario_evidence clk scenario]))"

text \<open>The signal defaults to the part of the identifier behind the last colon.\<close>

definition build_simulated_findings :: "SimulationScenario \<Rightarrow> RiskEvidence list \<Rightarrow> SimulatedFinding list" where
  "build_simulated_findings scenario evidence =
     map (\<lambda>(index, item).
         \<lparr>sg_finding_id = sz_scenario_id scenario @ '':finding:'' @ nat_digits index,
          sg_scenario_type = sz_scenario_type scenario,
          sg_signal = py_str (dict_get (ev_metadata item) key_signal (PyStr (after_last CHR '':'' (ev_id item)))),
          sg_description = ev_reason item,
          sg_severity = severity_value (ev_severity item)\<rparr>)
       (enumerate 0 evidence)"

section \<open>The engine (simulation\_engine.py, simulation\_report.py)\<close>

definition scenario_confidence :: "ScenarioType \<Rightarrow> ConfidenceLevel" where
  "scenario_confidence ty =
     (if ty \<in> {ScnProxyUpgrade, ScnOwnershipTransfer, ScnUnlimitedApproval, ScnUnlimitedMint}
      then ConfHigh else ConfMedium)"

definition build_simulation_result ::
  "SimulationScenario \<Rightarrow> string \<Rightarrow> RuntimeExecutionReport \<Rightarrow> RuntimeStateReport \<Rightarrow> RiskEvidence list \<Rightarrow>
   SimulatedFinding list \<Rightarrow> ConfidenceLevel \<Rightarrow> SimulationResult" where
  "build_simulation_result scenario transaction_hash execution_report state_report evidence findings confidence =
     \<lparr>sy_scenario_id = sz_scenario_id scenario,
      sy_scenario_type = sz_scenario_type scenario,
      sy_transaction_hash = transaction_hash,
      sy_predicted_execution = execution_report,
      sy_predicted_state = state_report,
      sy_predicted_evidence = evidence,
      sy_predicted_findings = findings,
      sy_assumptions = sz_assumptions scenario,
      sy_confidence = confidence,
      sy_limitations = sz_limitations scenario\<rparr>"

definition simulate ::
  "datetime \<Rightarrow> (string \<Rightarrow> string) \<Rightarrow> SimulationScenario \<Rightarrow> SimulationResult result option" where
  "simulate clk H scenario =
     (case validate_scenario (sz_scenario_type scenario) (sz_context scenario) of
        Inl e \<Rightarrow> Some (Inl e)
      | Inr _ \<Rightarrow>
          map_option (\<lambda>r. bindR r (\<lambda>execution_report.
              bindR (predict_state clk H scenario (Some execution_report)) (\<lambda>state_report.
                let evidence = map_simulation_evidence clk scenario execution_report state_report
                in Inr (build_simulation_result scenario
                          (simulation_transaction_hash H (sz_scenario_id scenario))
                          execution_report state_report evidence
                          (build_simulated_findings scenario evidence)
                          (scenario_confidence (sz_scenario_type scenario))))))
            (predict_execution clk H scenario))"

definition simulate_type ::
  "datetime \<Rightarrow> (string \<Rightarrow> string) \<Rightarrow> ScenarioType \<Rightarrow> SimulationContext \<Rightarrow> SimulationResult result option" where
  "simulate_type clk H ty ctx =
     (case build_scenario H ty ctx of
        Inl e \<Rightarrow> Some (Inl e)
      | Inr scenario \<Rightarrow> simulate clk H scenario)"

text \<open>\<open>simulate_attack\<close>: the scenarios one after the other, the first error ends the run.\<close>

fun simulate_all ::
  "datetime \<Rightarrow> (string \<Rightarrow> string) \<Rightarrow> SimulationScenario list \<Rightarrow> SimulationResult list result option" where
  "simulate_all clk H [] = Some (Inr [])"
| "simulate_all clk H (scenario # rest) =
     Option.bind (simulate clk H scenario) (\<lambda>r.
       case r of
         Inl e \<Rightarrow> Some (Inl e)
       | Inr result \<Rightarrow> map_option (\<lambda>rs. bindR rs (\<lambda>results. Inr (result # results))) (simulate_all clk H rest))"

definition simulate_attack ::
  "datetime \<Rightarrow> (string \<Rightarrow> string) \<Rightarrow> AttackScenario \<Rightarrow> SimulationResult list result option" where
  "simulate_attack clk H attack = simulate_all clk H (at_scenarios attack)"

end
