(* ===== verification/AttackLibrary.thy ===== *)
theory AttackLibrary
  imports SimulationEngine
begin

text \<open>
  The library of attacks (\<open>runtime/simulation/attack_library.py\<close>) and its executor
  (\<open>attack_executor.py\<close>). The scenarios of the library are built when the module is loaded; here they
  depend on the digest \<open>H\<close>.
\<close>

definition base_context :: SimulationContext where
  "base_context =
     simple_context 1 ''0xaaaaaaaaaaaaaaaaaaaaaaaaaaaaaaaaaaaaaaaa'' ''0xbbbbbbbbbbbbbbbbbbbbbbbbbbbbbbbbbbbbbbbb''"

definition plain_action :: "SimulatedActionKind \<Rightarrow> string \<Rightarrow> string \<Rightarrow> string \<Rightarrow> SimulatedAction" where
  "plain_action kind actor target description = simulated_action kind actor target description []"

definition outcome :: "string \<Rightarrow> string \<Rightarrow> string \<Rightarrow> ExpectedOutcome" where
  "outcome signal description severity =
     \<lparr>xo_signal = signal, xo_description = description, xo_severity = Some severity\<rparr>"

definition upgrade_attack :: "(string \<Rightarrow> string) \<Rightarrow> AttackScenario" where
  "upgrade_attack H =
     \<lparr>at_attack_id = ''attack:upgrade'',
      at_attack_type = AtkUpgrade,
      at_name = ''Proxy Upgrade Attack'',
      at_description = ''Malicious actor upgrades proxy implementation to attacker-controlled logic.'',
      at_preconditions = [precondition ''compromised_admin'' ''Attacker controls proxy admin key''],
      at_actions =
        [plain_action ActUpgrade ''0xaaaaaaaaaaaaaaaaaaaaaaaaaaaaaaaaaaaaaaaa''
           ''0xcccccccccccccccccccccccccccccccccccccccc'' ''upgradeTo(maliciousImplementation)''],
      at_scenarios =
        [proxy_upgrade_scenario H (base_context\<lparr>
           cn_proxy_address := Some ''0xcccccccccccccccccccccccccccccccccccccccc'',
           cn_implementation_address := Some ''0xdddddddddddddddddddddddddddddddddddddddd'',
           cn_new_implementation_address := Some ''0xeeeeeeeeeeeeeeeeeeeeeeeeeeeeeeeeeeeeeeee''\<rparr>)],
      at_expected_state_changes = [''EIP-1967 implementation slot update''],
      at_expected_evidence =
        [outcome ''implementation_changed'' ''Proxy implementation storage changed'' ''high'',
         outcome ''proxy_execution'' ''Delegated execution through proxy'' ''medium''],
      at_limitations = [''Does not verify new implementation bytecode safety.'']\<rparr>"

definition governance_capture :: "(string \<Rightarrow> string) \<Rightarrow> AttackScenario" where
  "governance_capture H =
     \<lparr>at_attack_id = ''attack:governance_capture'',
      at_attack_type = AtkGovernanceCapture,
      at_name = ''Governance Capture'',
      at_description = ''Attacker seizes ownership and executes governance proposals.'',
      at_preconditions =
        [precondition ''voting_power'' ''Attacker accumulated sufficient voting power'',
         precondition ''proposal_passed'' ''Malicious proposal passed''],
      at_actions =
        [plain_action ActCall ''0xaaaaaaaaaaaaaaaaaaaaaaaaaaaaaaaaaaaaaaaa''
           ''0xbbbbbbbbbbbbbbbbbbbbbbbbbbbbbbbbbbbbbbbb'' ''transferOwnership(attacker)'',
         plain_action ActGovernanceExecute ''0xaaaaaaaaaaaaaaaaaaaaaaaaaaaaaaaaaaaaaaaa''
           ''0x1111111111111111111111111111111111111111'' ''execute malicious proposal''],
      at_scenarios =
        [ownership_transfer_scenario H (base_context\<lparr>
           cn_owner_address := Some ''0x2222222222222222222222222222222222222222'',
           cn_new_owner_address := Some ''0xaaaaaaaaaaaaaaaaaaaaaaaaaaaaaaaaaaaaaaaa''\<rparr>),
         governance_proposal_execution_scenario H (base_context\<lparr>
           cn_governor_address := Some ''0x1111111111111111111111111111111111111111'',
           cn_recipient_address := Some ''0x3333333333333333333333333333333333333333'',
           cn_token_address := Some ''0x4444444444444444444444444444444444444444'',
           cn_treasury_address := Some ''0x5555555555555555555555555555555555555555''\<rparr>)],
      at_expected_state_changes = [''Owner slot update'', ''Treasury balance drain''],
      at_expected_evidence =
        [outcome ''owner_changed'' ''Ownership transferred to attacker'' ''high'',
         outcome ''governance_execution'' ''Governance proposal executed'' ''high''],
      at_limitations = [''Vote buying and social engineering paths are not modeled.'']\<rparr>"

definition treasury_drain :: "(string \<Rightarrow> string) \<Rightarrow> AttackScenario" where
  "treasury_drain H =
     \<lparr>at_attack_id = ''attack:treasury_drain'',
      at_attack_type = AtkTreasuryDrain,
      at_name = ''Treasury Drain'',
      at_description = ''Attacker obtains unlimited approval then drains treasury tokens.'',
      at_preconditions =
        [precondition ''treasury_approval'' ''Treasury granted token allowance to vulnerable contract''],
      at_actions =
        [plain_action ActApprove ''0x5555555555555555555555555555555555555555''
           ''0x4444444444444444444444444444444444444444'' ''treasury approves attacker contract'',
         plain_action ActTransfer ''0xaaaaaaaaaaaaaaaaaaaaaaaaaaaaaaaaaaaaaaaa''
           ''0x4444444444444444444444444444444444444444'' ''transferFrom treasury''],
      at_scenarios =
        [unlimited_approval_scenario H (base_context\<lparr>
           cn_token_address := Some ''0x4444444444444444444444444444444444444444'',
           cn_actor_address := ''0x5555555555555555555555555555555555555555'',
           cn_spender_address := Some ''0xaaaaaaaaaaaaaaaaaaaaaaaaaaaaaaaaaaaaaaaa''\<rparr>)],
      at_expected_state_changes = [''Unlimited allowance granted'', ''Treasury balance reduced''],
      at_expected_evidence = [outcome ''unlimited_allowance_granted'' ''Unlimited token approval'' ''high''],
      at_limitations = [''Requires existing treasury approval path; flash-loan paths excluded.'']\<rparr>"

definition unlimited_mint_attack :: "(string \<Rightarrow> string) \<Rightarrow> AttackScenario" where
  "unlimited_mint_attack H =
     \<lparr>at_attack_id = ''attack:unlimited_mint'',
      at_attack_type = AtkUnlimitedMint,
      at_name = ''Unlimited Mint Attack'',
      at_description = ''Privileged actor mints excessive token supply.'',
      at_preconditions = [precondition ''minter_role'' ''Attacker holds minter role''],
      at_actions =
        [plain_action ActMint ''0xaaaaaaaaaaaaaaaaaaaaaaaaaaaaaaaaaaaaaaaa''
           ''0x4444444444444444444444444444444444444444'' ''mint(attacker, largeAmount)''],
      at_scenarios =
        [unlimited_mint_scenario H (base_context\<lparr>
           cn_token_address := Some ''0x4444444444444444444444444444444444444444'',
           cn_recipient_address := Some ''0xaaaaaaaaaaaaaaaaaaaaaaaaaaaaaaaaaaaaaaaa''\<rparr>) (10 ^ 25)],
      at_expected_state_changes = [''Large supply inflation'', ''Recipient balance increase''],
      at_expected_evidence =
        [outcome ''large_supply_inflation'' ''Token supply inflated'' ''high'',
         outcome ''supply_mint'' ''Supply mint detected'' ''medium''],
      at_limitations = [''Mint cap enforcement is not evaluated.'']\<rparr>"

definition unlimited_approval_attack :: "(string \<Rightarrow> string) \<Rightarrow> AttackScenario" where
  "unlimited_approval_attack H =
     \<lparr>at_attack_id = ''attack:unlimited_approval'',
      at_attack_type = AtkUnlimitedApproval,
      at_name = ''Unlimited Approval Attack'',
      at_description = ''User tricked into granting unlimited token allowance.'',
      at_preconditions = [precondition ''user_interaction'' ''Victim signs approval transaction''],
      at_actions =
        [plain_action ActApprove ''0x2222222222222222222222222222222222222222''
           ''0x4444444444444444444444444444444444444444'' ''approve(spender, max)''],
      at_scenarios =
        [unlimited_approval_scenario H (base_context\<lparr>
           cn_token_address := Some ''0x4444444444444444444444444444444444444444'',
           cn_actor_address := ''0x2222222222222222222222222222222222222222'',
           cn_spender_address := Some ''0xaaaaaaaaaaaaaaaaaaaaaaaaaaaaaaaaaaaaaaaa''\<rparr>)],
      at_expected_state_changes = [''Allowance set to max uint256''],
      at_expected_evidence = [outcome ''unlimited_allowance_granted'' ''Unlimited approval granted'' ''high''],
      at_limitations = [''Phishing and UI deception vectors are out of scope.'']\<rparr>"

definition oracle_manipulation :: "(string \<Rightarrow> string) \<Rightarrow> AttackScenario" where
  "oracle_manipulation H =
     \<lparr>at_attack_id = ''attack:oracle_manipulation'',
      at_attack_type = AtkOracleManipulation,
      at_name = ''Oracle Manipulation'',
      at_description = ''Attacker manipulates oracle storage to distort pricing.'',
      at_preconditions = [precondition ''oracle_writable'' ''Oracle price slot is writable by attacker''],
      at_actions =
        [plain_action ActStorageWrite ''0xaaaaaaaaaaaaaaaaaaaaaaaaaaaaaaaaaaaaaaaa''
           ''0x6666666666666666666666666666666666666666'' ''write manipulated price to oracle slot''],
      at_scenarios =
        [timelock_reduction_scenario H (base_context\<lparr>
           cn_contract_address := ''0x6666666666666666666666666666666666666666'',
           cn_timelock_address := Some ''0x6666666666666666666666666666666666666666''\<rparr>)],
      at_expected_state_changes = [''Critical configuration slot modified''],
      at_expected_evidence = [outcome ''simulated_oracle_manipulation'' ''Oracle configuration changed'' ''high''],
      at_limitations = [''TWAP and multi-block manipulation not modeled.'']\<rparr>"

definition bridge_compromise :: "(string \<Rightarrow> string) \<Rightarrow> AttackScenario" where
  "bridge_compromise H =
     \<lparr>at_attack_id = ''attack:bridge_compromise'',
      at_attack_type = AtkBridgeCompromise,
      at_name = ''Bridge Compromise'',
      at_description = ''Bridge validator set compromised leading to unauthorized mint/burn.'',
      at_preconditions = [precondition ''validator_keys'' ''Attacker controls bridge validator quorum''],
      at_actions =
        [plain_action ActMint ''0xaaaaaaaaaaaaaaaaaaaaaaaaaaaaaaaaaaaaaaaa''
           ''0x7777777777777777777777777777777777777777'' ''bridge mint on destination chain''],
      at_scenarios =
        [unlimited_mint_scenario H (base_context\<lparr>
           cn_contract_address := ''0x7777777777777777777777777777777777777777'',
           cn_token_address := Some ''0x7777777777777777777777777777777777777777'',
           cn_bridge_address := Some ''0x8888888888888888888888888888888888888888''\<rparr>) (10 ^ 25)],
      at_expected_state_changes = [''Wrapped asset supply inflation''],
      at_expected_evidence = [outcome ''large_supply_inflation'' ''Bridge asset supply inflated'' ''high''],
      at_limitations = [''Cross-chain message passing is not simulated.'']\<rparr>"

definition privilege_escalation :: "(string \<Rightarrow> string) \<Rightarrow> AttackScenario" where
  "privilege_escalation H =
     \<lparr>at_attack_id = ''attack:privilege_escalation'',
      at_attack_type = AtkPrivilegeEscalation,
      at_name = ''Privilege Escalation'',
      at_description = ''Attacker gains admin role through misconfigured access control.'',
      at_preconditions = [precondition ''role_grantable'' ''Attacker can grant themselves admin role''],
      at_actions =
        [plain_action ActCall ''0xaaaaaaaaaaaaaaaaaaaaaaaaaaaaaaaaaaaaaaaa''
           ''0xbbbbbbbbbbbbbbbbbbbbbbbbbbbbbbbbbbbbbbbb'' ''grantRole(DEFAULT_ADMIN_ROLE, attacker)''],
      at_scenarios =
        [ownership_transfer_scenario H (base_context\<lparr>
           cn_owner_address := Some ''0x2222222222222222222222222222222222222222'',
           cn_new_owner_address := Some ''0xaaaaaaaaaaaaaaaaaaaaaaaaaaaaaaaaaaaaaaaa''\<rparr>)],
      at_expected_state_changes = [''Admin role or owner slot updated''],
      at_expected_evidence = [outcome ''owner_changed'' ''Administrative privilege escalated'' ''high''],
      at_limitations = [''Role hierarchy and timelock guards are simplified.'']\<rparr>"

definition attack_library :: "(string \<Rightarrow> string) \<Rightarrow> (AttackType, AttackScenario) dict" where
  "attack_library H =
     [(AtkUpgrade, upgrade_attack H),
      (AtkGovernanceCapture, governance_capture H),
      (AtkTreasuryDrain, treasury_drain H),
      (AtkUnlimitedMint, unlimited_mint_attack H),
      (AtkUnlimitedApproval, unlimited_approval_attack H),
      (AtkOracleManipulation, oracle_manipulation H),
      (AtkBridgeCompromise, bridge_compromise H),
      (AtkPrivilegeEscalation, privilege_escalation H)]"

definition all_attacks :: "(string \<Rightarrow> string) \<Rightarrow> AttackScenario list" where
  "all_attacks H = dict_values (attack_library H)"

definition execute_attack ::
  "datetime \<Rightarrow> (string \<Rightarrow> string) \<Rightarrow> AttackScenario \<Rightarrow> SimulationResult list result option" where
  "execute_attack clk H attack = simulate_attack clk H attack"

definition execute_by_type ::
  "datetime \<Rightarrow> (string \<Rightarrow> string) \<Rightarrow> AttackType \<Rightarrow> SimulationResult list result option" where
  "execute_by_type clk H ty =
     (case map_of (attack_library H) ty of
        None \<Rightarrow> Some (Inl (ValueError (''unknown attack type: '' @ attack_type_value ty)))
      | Some attack \<Rightarrow> execute_attack clk H attack)"

end
