(* ===== verification/StateFacts.thy ===== *)
theory StateFacts
  imports StateEngine
begin

text \<open>
  A reference for the analysis of logs: what each log contributes, read off its topics and data, and
  which logs can be read at all. The lemmas show that the mapper and the analyzers compute it.
\<close>

section \<open>Lists\<close>

lemma find_hd_filter: "find P xs = (case filter P xs of [] \<Rightarrow> None | x # _ \<Rightarrow> Some x)"
  by (induction xs) auto

lemma find_SomeD: "find P xs = Some x \<Longrightarrow> x \<in> set xs \<and> P x"
  by (induction xs) (auto split: if_splits)

lemma find_append_cong: "find P ys = find P zs \<Longrightarrow> find P (xs @ ys) = find P (xs @ zs)"
  by (induction xs) auto

text \<open>Sorting by a part of the key does not change which item of a key comes first.\<close>

lemma find_sort_key:
  assumes "\<And>x y. f x = f y \<Longrightarrow> g x = g y"
  shows "find (\<lambda>x. f x = k) (sort_key g xs) = find (\<lambda>x. f x = k) xs"
proof -
  have same: "sorted (map g ys)" if "\<forall>y \<in> set ys. f y = k" for ys
    using that by (induction ys) (auto intro!: eq_refl assms)
  have "filter (\<lambda>x. f x = k) (sort_key g xs) = sort_key g (filter (\<lambda>x. f x = k) xs)"
    by (rule filter_sort)
  also have "\<dots> = filter (\<lambda>x. f x = k) xs"
    by (rule sort_key_id_if_sorted [OF same]) simp
  finally show ?thesis by (simp add: find_hd_filter)
qed

text \<open>The loop that keeps the first item of each key keeps exactly the items found first.\<close>

lemma dedup_from_find:
  "x \<in> set (dedup_from f seen xs) \<longleftrightarrow> f x \<notin> set seen \<and> find (\<lambda>y. f y = f x) xs = Some x"
proof (induction xs arbitrary: seen)
  case (Cons y ys)
  show ?case
  proof (cases "f y = f x")
    case True
    then have "f y \<in> set seen \<Longrightarrow> ?thesis" using Cons by simp
    moreover have "f y \<notin> set seen \<Longrightarrow> ?thesis" using True Cons [of "f y # seen"] by auto
    ultimately show ?thesis by blast
  next
    case False
    then show ?thesis using Cons by auto
  qed
qed simp

lemma dedup_by_find: "x \<in> set (dedup_by f xs) \<longleftrightarrow> find (\<lambda>y. f y = f x) xs = Some x"
  by (simp add: dedup_from_find)

lemma mapR_total: "(\<exists>ys. mapR f xs = Inr ys) \<longleftrightarrow> list_all (\<lambda>x. \<exists>y. f x = Inr y) xs"
  by (induction xs) (auto simp: bindR_eq_Inr)

section \<open>Text\<close>

lemma lower_drop: "lower (drop n s) = drop n (lower s)"
  by (simp add: lower_def drop_map)

lemma lower_last_n: "lower s = s \<Longrightarrow> lower (last_n n s) = last_n n s"
  by (simp add: last_n_def lower_drop)

lemma lower_strip_prefix: "lower s = s \<Longrightarrow> lower (removeprefix p s) = removeprefix p s"
  by (simp add: removeprefix_def lower_drop)

lemma lower_0x [simp]: "lower ''0x'' = ''0x''"
  by code_simp

lemma lower_topic_address [simp]: "lower (topic_address s) = topic_address s"
  by (simp add: topic_address_def lower_last_n lower_strip_prefix lower_char_def)

lemma topic_address_nonempty [simp]: "topic_address s \<noteq> []"
  by (simp add: topic_address_def)

section \<open>What a log says\<close>

definition topic_kinds :: "(string \<times> MappedEventKind) list" where
  "topic_kinds =
     [(topic_transfer, MapTransfer), (topic_approval, MapApproval),
      (topic_ownership_transferred, MapOwnershipTransferred),
      (topic_role_granted, MapRoleGranted), (topic_role_revoked, MapRoleRevoked)]"

definition kind_of_log :: "RawStateLog \<Rightarrow> MappedEventKind option" where
  "kind_of_log l = (case lg_topics l of [] \<Rightarrow> None | t # _ \<Rightarrow> map_of topic_kinds (lower t))"

lemma topic_lengths: "list_all (\<lambda>(s, k). length s =
    (case k of MapTransfer \<Rightarrow> 64 | MapRoleGranted \<Rightarrow> 67 | _ \<Rightarrow> 66)) topic_kinds"
  by code_simp

lemma kind_of_log_length:
  assumes "kind_of_log l = Some k"
  shows "lg_topics l \<noteq> [] \<and>
    length (hd (lg_topics l)) = (case k of MapTransfer \<Rightarrow> 64 | MapRoleGranted \<Rightarrow> 67 | _ \<Rightarrow> 66)"
proof (cases "lg_topics l")
  case (Cons t r)
  with assms have "(lower t, k) \<in> set topic_kinds" by (simp add: kind_of_log_def map_of_SomeD)
  with topic_lengths have "length (lower t) = (case k of MapTransfer \<Rightarrow> 64 | MapRoleGranted \<Rightarrow> 67 | _ \<Rightarrow> 66)"
    by (auto simp: list_all_iff)
  with Cons show ?thesis by simp
qed (use assms in \<open>simp add: kind_of_log_def\<close>)

text \<open>
  A log the mapper can read: one of an unknown kind, or one with its first two arguments indexed and,
  for a transfer with a third, a number there.
\<close>

definition readable_log :: "RawStateLog \<Rightarrow> bool" where
  "readable_log l \<longleftrightarrow>
     kind_of_log l = None \<or>
     3 \<le> length (lg_topics l) \<and>
       (kind_of_log l = Some MapTransfer \<and> 4 \<le> length (lg_topics l) \<longrightarrow>
          (\<exists>i. parse_base16 (lg_topics l ! 3) = Inr i))"

definition transfer_number :: "RawStateLog \<Rightarrow> int" where
  "transfer_number l =
     (if 4 \<le> length (lg_topics l) then projr (parse_base16 (lg_topics l ! 3)) else uint_from_data (lg_data l))"

definition log_metadata :: "MappedEventKind \<Rightarrow> RawStateLog \<Rightarrow> metadata" where
  "log_metadata k l =
     (let a = PyStr (topic_address (lg_topics l ! 1)); b = PyStr (topic_address (lg_topics l ! 2))
      in case k of
           MapTransfer \<Rightarrow>
             [(''from'', a), (''to'', b), (''value'', PyInt (transfer_number l)),
              (''token_id'', if 4 \<le> length (lg_topics l) then PyInt (transfer_number l) else PyNone),
              (''asset_type'', PyStr (if 4 \<le> length (lg_topics l) then ''erc721'' else ''erc20''))]
         | MapApproval \<Rightarrow>
             [(''owner'', a), (''spender'', b), (''value'', PyInt (uint_from_data (lg_data l))), (''before'', PyInt 0)]
         | MapOwnershipTransferred \<Rightarrow> [(''previous_owner'', a), (''new_owner'', b)]
         | _ \<Rightarrow> [(''role'', PyStr (lower (lg_topics l ! 1))), (''account'', b),
                (''sender'', if 3 < length (lg_topics l) then PyStr (topic_address (lg_topics l ! 3)) else PyNone)])"

definition event_of_log :: "MappedEventKind \<Rightarrow> RawStateLog \<Rightarrow> MappedStateEvent" where
  "event_of_log k l =
     \<lparr>me_event_kind = k, me_contract_address = lower (lg_contract_address l), me_metadata = log_metadata k l\<rparr>"

definition events_of_log :: "RawStateLog \<Rightarrow> MappedStateEvent list" where
  "events_of_log l = (case kind_of_log l of None \<Rightarrow> [] | Some k \<Rightarrow> [event_of_log k l])"

lemma topic_at_eq: "topic_at l i = Inr t \<longleftrightarrow> i < length (lg_topics l) \<and> t = lg_topics l ! i"
  by (auto simp: topic_at_def)

lemma distinct_topics:
  "distinct [topic_transfer, topic_approval, topic_ownership_transferred, topic_role_granted, topic_role_revoked]"
  by code_simp

lemma map_log_cases:
  "map_log l =
     (case kind_of_log l of
        None \<Rightarrow> Inr []
      | Some k \<Rightarrow> bindR (case k of
            MapTransfer \<Rightarrow> map_transfer l
          | MapApproval \<Rightarrow> map_approval l
          | MapOwnershipTransferred \<Rightarrow> map_ownership_transferred l
          | _ \<Rightarrow> map_role_event k l) (\<lambda>e. Inr [e]))"
  using distinct_topics by (auto simp: map_log_def kind_of_log_def topic_kinds_def Let_def split: list.split)

lemma map_log_readable: "readable_log l \<Longrightarrow> map_log l = Inr (events_of_log l)"
  by (cases "kind_of_log l"; cases "the (kind_of_log l)")
    (auto simp: map_log_cases events_of_log_def readable_log_def event_of_log_def log_metadata_def
      map_transfer_def map_approval_def map_ownership_transferred_def map_role_event_def topic_at_def
      transfer_number_def Let_def)

lemma map_log_returns: "(\<exists>es. map_log l = Inr es) \<longleftrightarrow> readable_log l"
proof
  assume "\<exists>es. map_log l = Inr es"
  then show "readable_log l"
    by (cases "kind_of_log l"; cases "the (kind_of_log l)")
      (auto simp: map_log_cases readable_log_def map_transfer_def map_approval_def Let_def
        map_ownership_transferred_def map_role_event_def bindR_eq_Inr topic_at_eq split: if_splits)
qed (auto simp: map_log_readable)

abbreviation mapped :: "RawStateTransition \<Rightarrow> MappedStateEvent list" where
  "mapped t \<equiv> sort_key mapped_event_key (concat (map events_of_log (rs_logs t)))"

abbreviation readable :: "RawStateTransition \<Rightarrow> bool" where
  "readable t \<equiv> list_all readable_log (rs_logs t)"

lemma map_logs_readable: "readable t \<Longrightarrow> map_logs (rs_logs t) = Inr (mapped t)"
proof -
  assume "readable t"
  then have "mapR map_log (rs_logs t) = Inr (map events_of_log (rs_logs t))"
    by (intro mapR_Inr map_log_readable) (simp add: list_all_iff)
  then show ?thesis by (simp add: map_logs_def)
qed

lemma map_logs_returns: "(\<exists>es. map_logs (rs_logs t) = Inr es) \<longleftrightarrow> readable t"
  by (simp add: map_logs_def bindR_eq_Inr mapR_total map_log_returns)

lemma mapped_event_value_inj [simp]: "mapped_event_value a = mapped_event_value b \<longleftrightarrow> a = b"
  by (cases a; cases b) simp_all

text \<open>The mapped events of a kind, in the order of the report.\<close>

definition logs_of :: "MappedEventKind \<Rightarrow> RawStateTransition \<Rightarrow> RawStateLog list" where
  "logs_of k t = filter (\<lambda>l. kind_of_log l = Some k) (rs_logs t)"

lemma mapped_of_kind:
  "filter (\<lambda>e. me_event_kind e = k) (mapped t) =
     sort_key mapped_event_key (map (event_of_log k) (logs_of k t))"
proof -
  have "filter (\<lambda>e. me_event_kind e = k) (concat (map events_of_log ls)) =
      map (event_of_log k) (filter (\<lambda>l. kind_of_log l = Some k) ls)" for ls
    by (induction ls) (auto simp: events_of_log_def event_of_log_def split: option.split)
  then show ?thesis by (simp add: filter_sort logs_of_def)
qed

section \<open>What the analyzers make of it\<close>

lemma insort_key_map: "insort_key f (g x) (map g xs) = map g (insort_key (\<lambda>x. f (g x)) x xs)"
  by (induction xs) auto

lemma sort_key_map: "sort_key f (map g xs) = map g (sort_key (\<lambda>x. f (g x)) xs)"
  by (induction xs) (auto simp: insort_key_map)

lemma find_map: "find P (map f xs) = map_option f (find (\<lambda>x. P (f x)) xs)"
  by (induction xs) auto

lemma find_map_sort_key:
  assumes "\<And>x y. k (f x) = k (f y) \<Longrightarrow> g x = g y"
  shows "find (\<lambda>x. k x = i) (map f (sort_key g xs)) = find (\<lambda>x. k x = i) (map f xs)"
  using find_sort_key [of "\<lambda>x. k (f x)" g i xs, OF assms] by (simp add: find_map)

lemma mapped_event_value_iff [simp]:
  "mapped_event_value k = ''transfer'' \<longleftrightarrow> k = MapTransfer"
  "mapped_event_value k = ''approval'' \<longleftrightarrow> k = MapApproval"
  "mapped_event_value k = ''ownership_transferred'' \<longleftrightarrow> k = MapOwnershipTransferred"
  "mapped_event_value k = ''role_granted'' \<longleftrightarrow> k = MapRoleGranted"
  by (cases k; simp)+

definition transfer_of :: "RawStateLog \<Rightarrow> BalanceChange" where
  "transfer_of l =
     \<lparr>bc_asset_type = (if 4 \<le> length (lg_topics l) then AssetErc721 else AssetErc20),
      bc_contract_address = Some (lower (lg_contract_address l)),
      bc_account_address = topic_address (lg_topics l ! 2),
      bc_before = 0, bc_after = transfer_number l, bc_delta = transfer_number l,
      bc_token_id = (if 4 \<le> length (lg_topics l) then Some (transfer_number l) else None),
      bc_counterparty = Some (topic_address (lg_topics l ! 1))\<rparr>"

definition approval_of :: "RawStateLog \<Rightarrow> AllowanceChange" where
  "approval_of l =
     \<lparr>ac_kind = allowance_kind 0 (uint_from_data (lg_data l)),
      ac_token_address = lower (lg_contract_address l),
      ac_owner_address = topic_address (lg_topics l ! 1),
      ac_spender_address = topic_address (lg_topics l ! 2),
      ac_before = 0, ac_after = uint_from_data (lg_data l),
      ac_is_unlimited = is_unlimited (uint_from_data (lg_data l))\<rparr>"

definition transferred_ownership :: "RawStateLog \<Rightarrow> OwnershipChange" where
  "transferred_ownership l =
     \<lparr>oc_role = OwnOwner, oc_contract_address = lower (lg_contract_address l),
      oc_before_address = Some (topic_address (lg_topics l ! 1)),
      oc_after_address = Some (topic_address (lg_topics l ! 2))\<rparr>"

definition granted_role :: "RawStateLog \<Rightarrow> OwnershipChange list" where
  "granted_role l =
     (case map_role_name (lower (lg_topics l ! 1)) of
        None \<Rightarrow> []
      | Some role \<Rightarrow>
          [\<lparr>oc_role = role, oc_contract_address = lower (lg_contract_address l),
            oc_before_address = None, oc_after_address = Some (topic_address (lg_topics l ! 2))\<rparr>])"

lemma dict_get_Cons [simp]: "dict_get ((k, v) # m) k' d = (if k = k' then v else dict_get m k' d)"
  by (simp add: dict_get_def)

lemma py_get_Cons [simp]: "py_get ((k, v) # m) k' = (if k = k' then v else py_get m k')"
  by (simp add: py_get_def)

lemma transfer_change_event: "transfer_change (event_of_log MapTransfer l) = Inr (transfer_of l)"
  by (auto simp: transfer_change_def event_of_log_def log_metadata_def Let_def transfer_of_def
      asset_type_from_metadata_def event_asset_names_def lower_char_def optional_token_id_def
      meta_text_def text_or_none_def)

lemma approval_change_event: "approval_change (event_of_log MapApproval l) = Inr (approval_of l)"
  by (simp add: approval_change_def event_of_log_def log_metadata_def Let_def approval_of_def meta_text_def)

lemma event_ownership_event:
  "event_ownership (event_of_log k l) =
     (case k of MapOwnershipTransferred \<Rightarrow> [transferred_ownership l] | MapRoleGranted \<Rightarrow> granted_role l | _ \<Rightarrow> [])"
  by (cases k)
    (simp_all add: event_ownership_def event_of_log_def log_metadata_def Let_def transferred_ownership_def
      granted_role_def value_text_def meta_text_def text_or_none_def split: option.split)

abbreviation event_order :: "MappedEventKind \<Rightarrow> RawStateLog \<Rightarrow> string \<times> string" where
  "event_order k l \<equiv> mapped_event_key (event_of_log k l)"

abbreviation changed_balances :: "RawStateTransition \<Rightarrow> RawBalanceDiff list" where
  "changed_balances t \<equiv> filter (\<lambda>d. bd_before d \<noteq> bd_after d) (rs_balance_diffs t)"

lemma analyze_balances_readable:
  assumes "readable t"
  shows "analyze_balances t = Inr (sort_key (\<lambda>c. (asset_value (bc_asset_type c), contract_text c, bc_account_address c))
     (dedup_by balance_key (map balance_change (changed_balances t) @
        map transfer_of (sort_key (event_order MapTransfer) (logs_of MapTransfer t)))))"
proof -
  have "mapR transfer_change (map (event_of_log MapTransfer) ls) = Inr (map transfer_of ls)" for ls
    by (induction ls) (simp_all add: transfer_change_event)
  then show ?thesis
    using assms by (simp add: analyze_balances_def map_logs_readable mapped_of_kind sort_key_map)
qed

lemma analyze_allowances_readable:
  assumes "readable t"
  shows "analyze_allowances t = Inr (sort_key allowance_key
     (dedup_by allowance_key (map allowance_change (rs_allowance_diffs t) @
        map approval_of (sort_key (event_order MapApproval) (logs_of MapApproval t)))))"
proof -
  have "mapR approval_change (map (event_of_log MapApproval) ls) = Inr (map approval_of ls)" for ls
    by (induction ls) (simp_all add: approval_change_event)
  then show ?thesis
    using assms by (simp add: analyze_allowances_def map_logs_readable mapped_of_kind sort_key_map)
qed

lemma ownership_key_inject: "ownership_key a = ownership_key b \<longleftrightarrow> a = b"
proof -
  have "ownership_role_value x = ownership_role_value y \<longleftrightarrow> x = y" for x y
    by (cases x; cases y) simp_all
  then show ?thesis by (cases a; cases b) (simp add: ownership_key_def)
qed

lemma set_dedup_inj: "inj f \<Longrightarrow> set (dedup_by f xs) = set xs"
  by (rule inj_image_eq_iff [THEN iffD1, of f]) simp_all

lemma set_ownership_dedup: "set (dedup_by ownership_key xs) = set xs"
  by (rule set_dedup_inj) (simp add: inj_def ownership_key_inject)

lemma analyze_ownership_readable:
  assumes "readable t"
  obtains cs where "analyze_ownership t ss = Inr cs"
    "set cs = (\<Union>s \<in> set ss. set (storage_ownership s)) \<union>
       transferred_ownership ` set (logs_of MapOwnershipTransferred t) \<union>
       (\<Union>l \<in> set (logs_of MapRoleGranted t). set (granted_role l))"
proof -
  let ?cs = "concat (map storage_ownership ss) @ concat (map event_ownership (mapped t))"
  have "set (concat (map event_ownership (concat (map events_of_log ls)))) =
      transferred_ownership ` set (filter (\<lambda>l. kind_of_log l = Some MapOwnershipTransferred) ls) \<union>
      (\<Union>l \<in> set (filter (\<lambda>l. kind_of_log l = Some MapRoleGranted) ls). set (granted_role l))" for ls
  proof (induction ls)
    case (Cons l ls)
    then show ?case
      by (auto simp: events_of_log_def event_ownership_event split: option.splits MappedEventKind.splits)
  qed simp
  from this [of "rs_logs t"]
  have "set ?cs = (\<Union>s \<in> set ss. set (storage_ownership s)) \<union>
       transferred_ownership ` set (logs_of MapOwnershipTransferred t) \<union>
       (\<Union>l \<in> set (logs_of MapRoleGranted t). set (granted_role l))"
    by (simp add: logs_of_def Un_assoc)
  with assms that show thesis
    by (simp add: analyze_ownership_def map_logs_readable set_ownership_dedup)
qed

lemma build_state_diff_readable:
  assumes "readable t"
  obtains b where "build_state_diff t = Inr b" "sb_storage_changes b = analyze_storage t"
    "sb_supply_changes b = analyze_supply t" "sb_mapped_state_events b = mapped t"
    "analyze_balances t = Inr (sb_balance_changes b)" "analyze_allowances t = Inr (sb_allowance_changes b)"
    "analyze_ownership t (analyze_storage t) = Inr (sb_ownership_changes b)"
proof -
  obtain cs where cs: "analyze_ownership t (analyze_storage t) = Inr cs"
    using analyze_ownership_readable [OF assms] by metis
  then obtain b where b: "build_state_diff t = Inr b"
    using assms by (simp add: build_state_diff_def Let_def map_logs_readable analyze_balances_readable
        analyze_allowances_readable)
  then show thesis
    using assms cs
    by (intro that [of b]) (auto simp: build_state_diff_def Let_def bindR_eq_Inr map_logs_readable)
qed

end
