(* ===== verification/StateProps.thy ===== *)
theory StateProps
  imports StateFacts
begin

text \<open>
  What the state analysis reports: when it fails, what each list of changes holds, which evidence is
  raised, and which logs its event signatures can never match.
\<close>

section \<open>Errors\<close>

lemma mapR_first_error:
  assumes "find (\<lambda>x. \<not> ok x) xs = Some x" "f x = Inl e" "\<And>y. ok y \<Longrightarrow> \<exists>z. f y = Inr z"
  shows "mapR f xs = Inl e"
  using assms(1)
proof (induction xs)
  case (Cons y ys)
  show ?case
  proof (cases "ok y")
    case True
    then obtain z where "f y = Inr z" using assms(3) by blast
    with Cons True show ?thesis by simp
  qed (use Cons assms(2) in simp)
qed simp

lemma parse_base16_error: "parse_base16 s = Inl e \<Longrightarrow> \<exists>msg. e = ValueError msg"
  by (auto simp: parse_base16_def split: option.splits)

lemma unreadable_log:
  assumes "\<not> readable_log l"
  shows "\<exists>msg. map_log l = Inl (if length (lg_topics l) < 3 then IndexError msg else ValueError msg)"
proof -
  from assms obtain k where k: "kind_of_log l = Some k" by (auto simp: readable_log_def)
  show ?thesis
  proof (cases "length (lg_topics l) < 3")
    case True
    with k show ?thesis
      by (cases k) (auto simp: map_log_cases map_transfer_def map_approval_def Let_def
          map_ownership_transferred_def map_role_event_def topic_at_def)
  next
    case False
    with assms k have "k = MapTransfer" "4 \<le> length (lg_topics l)" "\<nexists>i. parse_base16 (lg_topics l ! 3) = Inr i"
      by (auto simp: readable_log_def)
    moreover from this(3) obtain e where "parse_base16 (lg_topics l ! 3) = Inl e"
      by (cases "parse_base16 (lg_topics l ! 3)") auto
    moreover from parse_base16_error [OF this] obtain msg where "e = ValueError msg" by blast
    ultimately show ?thesis using k False by (auto simp: map_log_cases map_transfer_def Let_def topic_at_def)
  qed
qed

text \<open>
  Property C33. Building the state diff fails exactly when a log of a known kind cannot be read: the
  first such log raises \<open>IndexError\<close> when fewer than two of its arguments are indexed, and \<open>ValueError\<close>
  when the token id of a transfer is not a number; all other transitions are analysed.
\<close>

theorem state_build_exact:
  "case find (\<lambda>l. \<not> readable_log l) (rs_logs t) of
     None \<Rightarrow> \<exists>b. build_state_diff t = Inr b
   | Some l \<Rightarrow> \<exists>msg. build_state_diff t =
       Inl (if length (lg_topics l) < 3 then IndexError msg else ValueError msg)"
proof (cases "find (\<lambda>l. \<not> readable_log l) (rs_logs t)")
  case None
  then have "readable t" by (simp add: find_None_iff list_all_iff)
  then obtain b where "build_state_diff t = Inr b" by (rule build_state_diff_readable)
  with None show ?thesis by simp
next
  case (Some l)
  then have "\<not> readable_log l" by (auto simp: find_Some_iff)
  then obtain msg where err: "map_log l = Inl (if length (lg_topics l) < 3 then IndexError msg else ValueError msg)"
    using unreadable_log by blast
  have "mapR map_log (rs_logs t) = Inl (if length (lg_topics l) < 3 then IndexError msg else ValueError msg)"
    by (rule mapR_first_error [where ok = readable_log and f = map_log, OF Some err]) (simp add: map_log_readable)
  then have "build_state_diff t = Inl (if length (lg_topics l) < 3 then IndexError msg else ValueError msg)"
    by (simp add: build_state_diff_def Let_def map_logs_def)
  with Some show ?thesis by auto
qed

lemma build_readable: "build_state_diff t = Inr b \<Longrightarrow> readable t"
proof -
  assume "build_state_diff t = Inr b"
  then have "\<exists>es. map_logs (rs_logs t) = Inr es" by (auto simp: build_state_diff_def Let_def bindR_eq_Inr)
  then show ?thesis by (simp only: map_logs_returns)
qed

section \<open>The lists of changes\<close>

lemma balance_key_contract: "balance_key (transfer_of l) = balance_key (transfer_of l') \<Longrightarrow>
    event_order MapTransfer l = event_order MapTransfer l'"
  by (simp add: balance_key_def transfer_of_def contract_text_def mapped_event_key_def event_of_log_def)

lemma allowance_key_contract: "allowance_key (approval_of l) = allowance_key (approval_of l') \<Longrightarrow>
    event_order MapApproval l = event_order MapApproval l'"
  by (simp add: allowance_key_def approval_of_def mapped_event_key_def event_of_log_def)

lemma balances_found:
  assumes "analyze_balances t = Inr cs" "readable t"
  shows "c \<in> set cs \<longleftrightarrow> find (\<lambda>x. balance_key x = balance_key c)
      (map balance_change (changed_balances t) @ map transfer_of (logs_of MapTransfer t)) = Some c"
    and "distinct (map balance_key cs)"
proof -
  have same: "find (\<lambda>x. balance_key x = i) (xs @ map transfer_of (sort_key (event_order MapTransfer) ls)) =
      find (\<lambda>x. balance_key x = i) (xs @ map transfer_of ls)" for i xs ls
    by (rule find_append_cong, rule find_map_sort_key, rule balance_key_contract)
  show "c \<in> set cs \<longleftrightarrow> find (\<lambda>x. balance_key x = balance_key c)
      (map balance_change (changed_balances t) @ map transfer_of (logs_of MapTransfer t)) = Some c"
    using assms by (auto simp: analyze_balances_readable dedup_by_find same)
  show "distinct (map balance_key cs)" using assms by (auto simp: analyze_balances_readable)
qed

lemma allowances_found:
  assumes "analyze_allowances t = Inr cs" "readable t"
  shows "c \<in> set cs \<longleftrightarrow> find (\<lambda>x. allowance_key x = allowance_key c)
      (map allowance_change (rs_allowance_diffs t) @ map approval_of (logs_of MapApproval t)) = Some c"
    and "distinct (map allowance_key cs)"
proof -
  have same: "find (\<lambda>x. allowance_key x = i) (xs @ map approval_of (sort_key (event_order MapApproval) ls)) =
      find (\<lambda>x. allowance_key x = i) (xs @ map approval_of ls)" for i xs ls
    by (rule find_append_cong, rule find_map_sort_key, rule allowance_key_contract)
  show "c \<in> set cs \<longleftrightarrow> find (\<lambda>x. allowance_key x = allowance_key c)
      (map allowance_change (rs_allowance_diffs t) @ map approval_of (logs_of MapApproval t)) = Some c"
    using assms by (auto simp: analyze_allowances_readable dedup_by_find same)
  show "distinct (map allowance_key cs)" using assms by (auto simp: analyze_allowances_readable)
qed

text \<open>
  Property C27. The lists of a state diff are exact: the storage and supply changes are those of the
  diffs that change something; for each balance (asset, contract, account, token id) and each allowance
  (token, owner, spender) there is one change, that of the first diff of the payload or, when there is
  none, of the first transfer or approval log; the ownership changes are those of the changed storage
  slots together with those of the logs.
\<close>

theorem state_diff_exact:
  assumes "build_state_diff t = Inr b"
  shows "mset (sb_storage_changes b) =
      mset (map storage_change (filter (\<lambda>d. sd_before d \<noteq> sd_after d) (rs_storage_diffs t))) \<and>
    mset (sb_supply_changes b) =
      mset (map supply_change (filter (\<lambda>d. yd_before d \<noteq> yd_after d) (rs_supply_diffs t))) \<and>
    (c \<in> set (sb_balance_changes b) \<longleftrightarrow>
       find (\<lambda>x. balance_key x = balance_key c)
         (map balance_change (filter (\<lambda>d. bd_before d \<noteq> bd_after d) (rs_balance_diffs t)) @
          map transfer_of (logs_of MapTransfer t)) = Some c) \<and>
    (a \<in> set (sb_allowance_changes b) \<longleftrightarrow>
       find (\<lambda>x. allowance_key x = allowance_key a)
         (map allowance_change (rs_allowance_diffs t) @ map approval_of (logs_of MapApproval t)) = Some a) \<and>
    distinct (map balance_key (sb_balance_changes b)) \<and> distinct (map allowance_key (sb_allowance_changes b)) \<and>
    set (sb_ownership_changes b) =
      (\<Union>s \<in> set (sb_storage_changes b). set (storage_ownership s)) \<union>
      transferred_ownership ` set (logs_of MapOwnershipTransferred t) \<union>
      (\<Union>l \<in> set (logs_of MapRoleGranted t). set (granted_role l))"
proof -
  from assms have r: "readable t" by (rule build_readable)
  obtain b' where b': "build_state_diff t = Inr b'" "sb_storage_changes b' = analyze_storage t"
    "sb_supply_changes b' = analyze_supply t" "sb_mapped_state_events b' = mapped t"
    "analyze_balances t = Inr (sb_balance_changes b')" "analyze_allowances t = Inr (sb_allowance_changes b')"
    "analyze_ownership t (analyze_storage t) = Inr (sb_ownership_changes b')"
    using build_state_diff_readable [OF r] by metis
  with assms have bb: "b' = b" by simp
  obtain cs where "analyze_ownership t (analyze_storage t) = Inr cs"
    "set cs = (\<Union>s \<in> set (analyze_storage t). set (storage_ownership s)) \<union>
       transferred_ownership ` set (logs_of MapOwnershipTransferred t) \<union>
       (\<Union>l \<in> set (logs_of MapRoleGranted t). set (granted_role l))"
    by (rule analyze_ownership_readable [OF r])
  with b'(7) have own: "set (sb_ownership_changes b') = (\<Union>s \<in> set (analyze_storage t). set (storage_ownership s)) \<union>
       transferred_ownership ` set (logs_of MapOwnershipTransferred t) \<union>
       (\<Union>l \<in> set (logs_of MapRoleGranted t). set (granted_role l))" by simp
  have "mset (analyze_storage t) = mset (map storage_change (filter (\<lambda>d. sd_before d \<noteq> sd_after d) (rs_storage_diffs t)))"
    "mset (analyze_supply t) = mset (map supply_change (filter (\<lambda>d. yd_before d \<noteq> yd_after d) (rs_supply_diffs t)))"
    by (simp_all add: analyze_storage_def analyze_supply_def)
  with own balances_found [OF b'(5) r] allowances_found [OF b'(6) r]
  show ?thesis unfolding bb [symmetric] b'(2,3) by (intro conjI)
qed

definition demo_transition :: RawStateTransition where
  "demo_transition =
     \<lparr>rs_transaction_hash = ''0x01'', rs_block_number = None,
      rs_storage_diffs = [\<lparr>sd_contract_address = ''0xAA'', sd_slot = eip1967_implementation_slot,
         sd_before = ''0x01'', sd_after = ''0x02''\<rparr>],
      rs_balance_diffs = [\<lparr>bd_asset_type = AssetErc20, bd_contract_address = Some ''0xAA'',
         bd_account_address = ''0xBB'', bd_before = 5, bd_after = 3, bd_token_id = None\<rparr>],
      rs_allowance_diffs = [\<lparr>ad_token_address = ''0xAA'', ad_owner_address = ''0xBB'',
         ad_spender_address = ''0xCC'', ad_before = 0, ad_after = 10 ^ 30\<rparr>],
      rs_supply_diffs = [\<lparr>yd_token_address = ''0xAA'', yd_before = 9, yd_after = 4\<rparr>],
      rs_logs = [\<lparr>lg_contract_address = ''0xAA'', lg_topics = [topic_ownership_transferred, ''0x0b'', ''0x0c''],
         lg_data = []\<rparr>],
      rs_provider_name = ''static'', rs_chain_id = PyNone\<rparr>"

lemma demo_readable: "readable demo_transition"
  by (simp add: demo_transition_def readable_log_def)

theorem state_diff_exact_witness:
  "\<exists>b. build_state_diff demo_transition = Inr b \<and>
     mset (sb_supply_changes b) = mset (map supply_change (rs_supply_diffs demo_transition))"
proof -
  obtain b where b: "build_state_diff demo_transition = Inr b"
    using build_state_diff_readable [OF demo_readable] by metis
  from state_diff_exact [OF b] have "mset (sb_supply_changes b) =
      mset (map supply_change (filter (\<lambda>d. yd_before d \<noteq> yd_after d) (rs_supply_diffs demo_transition)))" by blast
  with b show ?thesis by (simp add: demo_transition_def)
qed

section \<open>Event signatures\<close>

text \<open>
  Property C31. A log whose first topic is a 32-byte hash (66 characters) is never read as a transfer or
  as a granted role, because the two signatures the mapper compares with have 62 and 65 digits: on such
  logs no token transfer is mapped, and every balance change of a state diff comes from the payload.
\<close>

theorem transfer_logs_unrecognized:
  assumes "build_state_diff t = Inr b"
    and "list_all (\<lambda>l. lg_topics l = [] \<or> length (hd (lg_topics l)) = 66) (rs_logs t)"
  shows "set (sb_balance_changes b) \<subseteq> balance_change ` set (rs_balance_diffs t) \<and>
    {MapTransfer, MapRoleGranted} \<inter> me_event_kind ` set (sb_mapped_state_events b) = {}"
proof -
  have "kind_of_log l \<noteq> Some MapTransfer \<and> kind_of_log l \<noteq> Some MapRoleGranted"
    if "lg_topics l = [] \<or> length (hd (lg_topics l)) = 66" for l
    using that kind_of_log_length [of l MapTransfer] kind_of_log_length [of l MapRoleGranted] by auto
  with assms(2) have kinds: "kind_of_log l \<noteq> Some MapTransfer \<and> kind_of_log l \<noteq> Some MapRoleGranted"
    if "l \<in> set (rs_logs t)" for l
    using that by (auto simp: list_all_iff)
  then have none: "logs_of MapTransfer t = []" by (simp add: logs_of_def filter_empty_conv)
  from assms(1) have r: "readable t" by (rule build_readable)
  obtain b' where b': "build_state_diff t = Inr b'" "sb_mapped_state_events b' = mapped t"
    "analyze_balances t = Inr (sb_balance_changes b')"
    using build_state_diff_readable [OF r] by metis
  have "set (sb_balance_changes b') \<subseteq> balance_change ` set (rs_balance_diffs t)"
  proof
    fix c assume "c \<in> set (sb_balance_changes b')"
    then have "find (\<lambda>x. balance_key x = balance_key c) (map balance_change (changed_balances t)) = Some c"
      by (simp add: balances_found(1) [OF b'(3) r] none)
    from find_SomeD [OF this] have "c \<in> set (map balance_change (changed_balances t))" by simp
    then show "c \<in> balance_change ` set (rs_balance_diffs t)" by auto
  qed
  moreover have "{MapTransfer, MapRoleGranted} \<inter> me_event_kind ` set (mapped t) = {}"
    using kinds by (force simp: events_of_log_def event_of_log_def split: option.splits)
  ultimately show ?thesis using assms(1) b' by simp
qed

theorem transfer_logs_unrecognized_witness:
  "\<exists>b. build_state_diff demo_transition = Inr b \<and>
     set (sb_balance_changes b) \<subseteq> balance_change ` set (rs_balance_diffs demo_transition)"
proof -
  obtain b where b: "build_state_diff demo_transition = Inr b"
    using build_state_diff_readable [OF demo_readable] by metis
  have "length topic_ownership_transferred = 66" by code_simp
  then have "list_all (\<lambda>l. lg_topics l = [] \<or> length (hd (lg_topics l)) = 66) (rs_logs demo_transition)"
    by (simp add: demo_transition_def)
  from transfer_logs_unrecognized [OF b this] b show ?thesis by blast
qed

section \<open>Evidence\<close>

abbreviation implementation_id :: string where
  "implementation_id \<equiv> evidence_id SrcProxy CatUpgradeability ''implementation_changed''"

abbreviation owner_id :: string where
  "owner_id \<equiv> evidence_id SrcGovernance CatAuthority ''owner_changed''"

abbreviation allowance_id :: string where
  "allowance_id \<equiv> evidence_id SrcCapability CatAuthority ''unlimited_allowance_granted''"

abbreviation inflation_id :: string where
  "inflation_id \<equiv> evidence_id SrcCapability CatCapability ''large_supply_inflation''"

abbreviation mint_id :: string where
  "mint_id \<equiv> evidence_id SrcCapability CatCapability ''supply_mint''"

abbreviation burn_id :: string where
  "burn_id \<equiv> evidence_id SrcCapability CatCapability ''supply_burn''"

abbreviation observed_id :: string where
  "observed_id \<equiv> evidence_id SrcClassification CatClassification ''state_transition_observed''"

definition supply_id :: "SupplyChangeKind \<Rightarrow> string" where
  "supply_id k = (case k of SupplyInflation \<Rightarrow> inflation_id | SupplyMint \<Rightarrow> mint_id | _ \<Rightarrow> burn_id)"

lemma create_evidence_simps [simp]:
  "ev_id (create_evidence clk source category signal severity score confidence reason m ts) =
     evidence_id source category signal"
  "ev_score (create_evidence clk source category signal severity score confidence reason m ts) = score"
  by (simp_all add: create_evidence_def)

lemma state_evidence_groups:
  "ev_id ` set (storage_evidence clk h ss) =
     (if \<exists>s \<in> set ss. sc_slot_kind s = SlotImplementation then {implementation_id} else {})"
  "ev_id ` set (ownership_evidence clk h os) = (if os = [] then {} else {owner_id})"
  "ev_id ` set (allowance_evidence clk h as) =
     (if \<exists>a \<in> set as. ac_kind a = AllowUnlimited \<or> ac_is_unlimited a then {allowance_id} else {})"
  "ev_id ` set (supply_evidence clk h us) = supply_id ` uc_kind ` set us"
  "ev_id ` set (execution_context_evidence clk h r) =
     (if ra_has_revert (xr_revert_analysis r) then {} else {observed_id})"
proof -
  show "ev_id ` set (storage_evidence clk h ss) =
     (if \<exists>s \<in> set ss. sc_slot_kind s = SlotImplementation then {implementation_id} else {})"
    by (auto simp: storage_evidence_def image_image image_constant_conv filter_empty_conv)
  show "ev_id ` set (ownership_evidence clk h os) = (if os = [] then {} else {owner_id})"
    by (simp add: ownership_evidence_def image_image image_constant_conv)
  show "ev_id ` set (allowance_evidence clk h as) =
     (if \<exists>a \<in> set as. ac_kind a = AllowUnlimited \<or> ac_is_unlimited a then {allowance_id} else {})"
    by (auto simp: allowance_evidence_def image_image image_constant_conv filter_empty_conv)
  have "ev_id (case uc_kind c of
         SupplyInflation \<Rightarrow> supply_item clk h ''large_supply_inflation'' SevHigh
           ''Large token supply inflation detected during execution'' c
       | SupplyMint \<Rightarrow> supply_item clk h ''supply_mint'' SevMedium ''Token supply mint detected during execution'' c
       | _ \<Rightarrow> supply_item clk h ''supply_burn'' SevLow ''Token supply burn detected during execution'' c) =
     supply_id (uc_kind c)" for c
    by (cases "uc_kind c") (simp_all add: supply_item_def supply_id_def)
  then show "ev_id ` set (supply_evidence clk h us) = supply_id ` uc_kind ` set us"
    by (simp only: supply_evidence_def set_map image_image)
  show "ev_id ` set (execution_context_evidence clk h r) =
     (if ra_has_revert (xr_revert_analysis r) then {} else {observed_id})"
    by (simp add: execution_context_evidence_def)
qed

lemma state_evidence_ids:
  "ev_id ` set (emit_state_evidence clk h b x) =
     (if \<exists>s \<in> set (sb_storage_changes b). sc_slot_kind s = SlotImplementation then {implementation_id} else {}) \<union>
     (if sb_ownership_changes b = [] then {} else {owner_id}) \<union>
     (if \<exists>a \<in> set (sb_allowance_changes b). ac_kind a = AllowUnlimited \<or> ac_is_unlimited a then {allowance_id} else {}) \<union>
     supply_id ` uc_kind ` set (sb_supply_changes b) \<union>
     (if \<exists>r. x = Some r \<and> \<not> ra_has_revert (xr_revert_analysis r) then {observed_id} else {})"
  unfolding emit_state_evidence_def merge_evidence_ids
  by (cases x) (simp_all add: image_Un state_evidence_groups Un_assoc)

lemma state_evidence_zero: "ev_score ` set (emit_state_evidence clk h b x) \<subseteq> {zero_score}"
proof -
  have "ev_score ` set (storage_evidence clk h ss) \<subseteq> {zero_score}"
    "ev_score ` set (ownership_evidence clk h os) \<subseteq> {zero_score}"
    "ev_score ` set (allowance_evidence clk h as) \<subseteq> {zero_score}"
    "ev_score ` set (supply_evidence clk h us) \<subseteq> {zero_score}"
    "ev_score ` set (execution_context_evidence clk h r) \<subseteq> {zero_score}" for ss os as us r
    by (auto simp: storage_evidence_def ownership_evidence_def allowance_evidence_def supply_evidence_def
        supply_item_def execution_context_evidence_def split: SupplyChangeKind.splits)
  then have "ev_score ` (\<Union>g \<in> set ([storage_evidence clk h (sb_storage_changes b),
       ownership_evidence clk h (sb_ownership_changes b), allowance_evidence clk h (sb_allowance_changes b),
       supply_evidence clk h (sb_supply_changes b)] @
       (case x of None \<Rightarrow> [] | Some r \<Rightarrow> [execution_context_evidence clk h r])). set g) \<subseteq> {zero_score}"
    by (cases x) (simp_all add: image_Un)
  then show ?thesis
    unfolding emit_state_evidence_def by (rule order_trans [OF image_mono [OF merge_evidence_subset]])
qed

lemma slot_kinds:
  "dict_get known_slots s SlotArbitrary = SlotImplementation \<longleftrightarrow> s = eip1967_implementation_slot"
proof -
  have "lower eip1967_implementation_slot = eip1967_implementation_slot" by code_simp
  then show ?thesis by (auto simp: known_slots_def dict_get_def)
qed

lemma implementation_found: "(\<exists>s \<in> set (analyze_storage t). sc_slot_kind s = SlotImplementation) \<longleftrightarrow>
    (\<exists>d \<in> set (rs_storage_diffs t). sd_before d \<noteq> sd_after d \<and> lower (sd_slot d) = eip1967_implementation_slot)"
  by (auto simp: analyze_storage_def storage_change_def slot_kinds)

lemma classify_supply:
  "classify_supply_change d = SupplyInflation \<longleftrightarrow> 10 ^ 24 \<le> d"
  "d \<noteq> 0 \<Longrightarrow> classify_supply_change d = SupplyMint \<longleftrightarrow> 0 < d \<and> d < 10 ^ 24"
  "classify_supply_change d = SupplyBurn \<or> classify_supply_change d = SupplyReduction \<longleftrightarrow> d < 0"
  by (auto simp: classify_supply_change_def large_supply_delta_def)

definition ownership_slots :: "string list" where
  "ownership_slots =
     [eip1967_admin_slot, ''0x'' @ replicate 64 CHR ''0'', ''0x'' @ replicate 63 CHR ''0'' @ ''2'']"

lemma ownership_slot_kinds:
  "role_from_storage (dict_get known_slots s SlotArbitrary) = None \<longleftrightarrow> s \<notin> set ownership_slots"
proof (cases "map_of known_slots s")
  case None
  have "set ownership_slots \<subseteq> fst ` set known_slots" by code_simp
  moreover from None have "s \<notin> fst ` set known_slots" by (simp add: map_of_eq_None_iff)
  ultimately show ?thesis using None by (auto simp: dict_get_def)
next
  case (Some k)
  have "list_all (\<lambda>(s, k). (role_from_storage k = None) = (s \<notin> set ownership_slots)) known_slots"
    by code_simp
  with map_of_SomeD [OF Some] Some show ?thesis by (auto simp: list_all_iff dict_get_def)
qed

lemma storage_ownership_Nil:
  "storage_ownership (storage_change d) = [] \<longleftrightarrow>
     lower (sd_slot d) \<notin> set ownership_slots \<or> extract_address (sd_before d) = extract_address (sd_after d)"
  using ownership_slot_kinds [of "lower (sd_slot d)"]
  by (auto simp: storage_ownership_def storage_change_def split: option.splits)

lemma granted_role_Nil: "granted_role l = [] \<longleftrightarrow> map_role_name (lower (lg_topics l ! 1)) = None"
  by (simp add: granted_role_def split: option.split)

lemma ownership_found:
  assumes "build_state_diff t = Inr b"
  shows "sb_ownership_changes b \<noteq> [] \<longleftrightarrow>
    (\<exists>d \<in> set (rs_storage_diffs t). lower (sd_slot d) \<in> set ownership_slots \<and>
       extract_address (sd_before d) \<noteq> extract_address (sd_after d)) \<or>
    (\<exists>l \<in> set (rs_logs t). kind_of_log l = Some MapOwnershipTransferred) \<or>
    (\<exists>l \<in> set (rs_logs t). kind_of_log l = Some MapRoleGranted \<and> map_role_name (lower (lg_topics l ! 1)) \<noteq> None)"
proof -
  from assms have r: "readable t" by (rule build_readable)
  obtain b' where b': "build_state_diff t = Inr b'" 
    "analyze_ownership t (analyze_storage t) = Inr (sb_ownership_changes b')"
    using build_state_diff_readable [OF r] by metis
  obtain cs where cs: "analyze_ownership t (analyze_storage t) = Inr cs"
    "set cs = (\<Union>s \<in> set (analyze_storage t). set (storage_ownership s)) \<union>
       transferred_ownership ` set (logs_of MapOwnershipTransferred t) \<union>
       (\<Union>l \<in> set (logs_of MapRoleGranted t). set (granted_role l))"
    by (rule analyze_ownership_readable [OF r])
  have storage: "(\<Union>s \<in> set (analyze_storage t). set (storage_ownership s)) \<noteq> {} \<longleftrightarrow>
      (\<exists>d \<in> set (rs_storage_diffs t). storage_ownership (storage_change d) \<noteq> [])"
    by (force simp: analyze_storage_def storage_ownership_Nil)
  from b' cs assms have "sb_ownership_changes b = cs" by simp
  then have "sb_ownership_changes b \<noteq> [] \<longleftrightarrow> set cs \<noteq> {}" by simp
  also have "\<dots> \<longleftrightarrow> (\<Union>s \<in> set (analyze_storage t). set (storage_ownership s)) \<noteq> {} \<or>
      set (logs_of MapOwnershipTransferred t) \<noteq> {} \<or> (\<exists>l \<in> set (logs_of MapRoleGranted t). granted_role l \<noteq> [])"
    unfolding cs(2) by auto
  finally show ?thesis
    unfolding storage storage_ownership_Nil granted_role_Nil by (auto simp: logs_of_def filter_empty_conv)
qed

lemma unlimited_amounts:
  "allowance_kind before after = AllowUnlimited \<longleftrightarrow> 10 ^ 30 \<le> after"
  "is_unlimited after \<longleftrightarrow> 10 ^ 30 \<le> after"
  by (auto simp: allowance_kind_def is_unlimited_def max_uint256_def large_allowance_threshold_def)

lemma unlimited_iff: "ac_kind c = AllowUnlimited \<or> ac_is_unlimited c \<longleftrightarrow> 10 ^ 30 \<le> ac_after c"
  if "c = allowance_change d \<or> c = approval_of l"
  using that by (auto simp: allowance_change_def approval_of_def unlimited_amounts)

lemma allowances_unlimited:
  assumes "build_state_diff t = Inr b" "c \<in> set (sb_allowance_changes b)"
  shows "ac_kind c = AllowUnlimited \<or> ac_is_unlimited c \<longleftrightarrow> 10 ^ 30 \<le> ac_after c"
proof -
  from assms(1) have r: "readable t" by (rule build_readable)
  obtain b' where "build_state_diff t = Inr b'" "analyze_allowances t = Inr (sb_allowance_changes b')"
    using build_state_diff_readable [OF r] by metis
  with assms have "analyze_allowances t = Inr (sb_allowance_changes b)" by simp
  from allowances_found(1) [OF this r, of c] assms(2)
  have "c \<in> set (map allowance_change (rs_allowance_diffs t) @ map approval_of (logs_of MapApproval t))"
    by (auto dest: find_SomeD)
  then obtain d l where "c = allowance_change d \<or> c = approval_of l" by auto
  then show ?thesis by (rule unlimited_iff)
qed

lemma supply_kinds:
  assumes "\<And>d. d \<noteq> 0 \<Longrightarrow> P (classify_supply_change d) \<longleftrightarrow> Q d" "\<not> Q 0"
  shows "(\<exists>c \<in> set (analyze_supply t). P (uc_kind c)) \<longleftrightarrow>
    (\<exists>d \<in> set (rs_supply_diffs t). Q (yd_after d - yd_before d))"
proof
  assume "\<exists>c \<in> set (analyze_supply t). P (uc_kind c)"
  then obtain d where d: "d \<in> set (rs_supply_diffs t)" "yd_before d \<noteq> yd_after d"
    "P (classify_supply_change (yd_after d - yd_before d))"
    by (auto simp: analyze_supply_def supply_change_def)
  with assms(1) [of "yd_after d - yd_before d"] show "\<exists>d \<in> set (rs_supply_diffs t). Q (yd_after d - yd_before d)"
    by auto
next
  assume "\<exists>d \<in> set (rs_supply_diffs t). Q (yd_after d - yd_before d)"
  then obtain d where d: "d \<in> set (rs_supply_diffs t)" "Q (yd_after d - yd_before d)" by blast
  with assms(2) have "yd_before d \<noteq> yd_after d" by auto
  with d assms(1) [of "yd_after d - yd_before d"] show "\<exists>c \<in> set (analyze_supply t). P (uc_kind c)"
    by (auto simp: analyze_supply_def supply_change_def)
qed

lemma in_kinds: "k \<in> uc_kind ` S \<longleftrightarrow> (\<exists>c \<in> S. uc_kind c = k)"
  by auto

lemma supply_ids_inject:
  "inflation_id \<in> supply_id ` K \<longleftrightarrow> SupplyInflation \<in> K"
  "mint_id \<in> supply_id ` K \<longleftrightarrow> SupplyMint \<in> K"
  "burn_id \<in> supply_id ` K \<longleftrightarrow> SupplyBurn \<in> K \<or> SupplyReduction \<in> K"
proof -
  have "inflation_id = supply_id k \<longleftrightarrow> SupplyInflation = k" "mint_id = supply_id k \<longleftrightarrow> SupplyMint = k"
    "burn_id = supply_id k \<longleftrightarrow> SupplyBurn = k \<or> SupplyReduction = k" for k
    by (cases k; simp add: supply_id_def evidence_id_inject)+
  then show "inflation_id \<in> supply_id ` K \<longleftrightarrow> SupplyInflation \<in> K"
    "mint_id \<in> supply_id ` K \<longleftrightarrow> SupplyMint \<in> K"
    "burn_id \<in> supply_id ` K \<longleftrightarrow> SupplyBurn \<in> K \<or> SupplyReduction \<in> K"
    by (auto simp: image_iff)
qed

lemma not_supply_id: "implementation_id \<notin> supply_id ` K" "owner_id \<notin> supply_id ` K"
  "allowance_id \<notin> supply_id ` K" "observed_id \<notin> supply_id ` K"
  by (auto simp: supply_id_def evidence_id_inject split: SupplyChangeKind.splits)

text \<open>
  Property C6. The evidence of a state report says exactly what the transition did: an implementation
  slot that changed, an owner or admin that changed (by slot or by log), a reported allowance of at
  least \<open>10^30\<close>, supply that grew by at least \<open>10^24\<close>, grew by less, or shrank, and an execution without a
  revert each give their signal and nothing else gives it; there is one item per signal and no score.
\<close>

theorem state_evidence_exact:
  assumes "analyze_transition clk (StateTree t) h execution = Inr report"
  shows "\<exists>ids. ids = ev_id ` set (sx_risk_evidence report) \<and> distinct (map ev_id (sx_risk_evidence report)) \<and>
     ids \<subseteq> {implementation_id, owner_id, allowance_id, inflation_id, mint_id, burn_id, observed_id} \<and>
     ev_score ` set (sx_risk_evidence report) \<subseteq> {Dec 0 2} \<and>
     (implementation_id \<in> ids \<longleftrightarrow>
        (\<exists>d \<in> set (rs_storage_diffs t). sd_before d \<noteq> sd_after d \<and> lower (sd_slot d) = eip1967_implementation_slot)) \<and>
     (owner_id \<in> ids \<longleftrightarrow>
        (\<exists>d \<in> set (rs_storage_diffs t). lower (sd_slot d) \<in> set ownership_slots \<and>
           extract_address (sd_before d) \<noteq> extract_address (sd_after d)) \<or>
        (\<exists>l \<in> set (rs_logs t). kind_of_log l = Some MapOwnershipTransferred) \<or>
        (\<exists>l \<in> set (rs_logs t). kind_of_log l = Some MapRoleGranted \<and>
           map_role_name (lower (lg_topics l ! 1)) \<noteq> None)) \<and>
     (allowance_id \<in> ids \<longleftrightarrow> (\<exists>c \<in> set (sx_allowance_changes report). 10 ^ 30 \<le> ac_after c)) \<and>
     (inflation_id \<in> ids \<longleftrightarrow> (\<exists>d \<in> set (rs_supply_diffs t). 10 ^ 24 \<le> yd_after d - yd_before d)) \<and>
     (mint_id \<in> ids \<longleftrightarrow>
        (\<exists>d \<in> set (rs_supply_diffs t). 0 < yd_after d - yd_before d \<and> yd_after d - yd_before d < 10 ^ 24)) \<and>
     (burn_id \<in> ids \<longleftrightarrow> (\<exists>d \<in> set (rs_supply_diffs t). yd_after d - yd_before d < 0)) \<and>
     (observed_id \<in> ids \<longleftrightarrow> (\<exists>r. execution = Some r \<and> \<not> ra_has_revert (xr_revert_analysis r)))"
proof -
  from assms obtain b where b: "build_state_diff t = Inr b"
    and report: "sx_risk_evidence report = emit_state_evidence clk (rs_transaction_hash t) b execution"
      "sx_allowance_changes report = sb_allowance_changes b"
    by (auto simp: analyze_transition_def normalize_transition_def bindR_eq_Inr)
  have lists: "sb_storage_changes b = analyze_storage t" "sb_supply_changes b = analyze_supply t"
    using build_state_diff_readable [OF build_readable [OF b]] b by (metis sum.inject(2))+
  define ids where "ids = ev_id ` set (sx_risk_evidence report)"
  note all_ids = ids_def [unfolded report(1) state_evidence_ids lists]
  have supplies: "SupplyInflation \<in> uc_kind ` set (analyze_supply t) \<longleftrightarrow>
      (\<exists>d \<in> set (rs_supply_diffs t). 10 ^ 24 \<le> yd_after d - yd_before d)"
    "SupplyMint \<in> uc_kind ` set (analyze_supply t) \<longleftrightarrow>
      (\<exists>d \<in> set (rs_supply_diffs t). 0 < yd_after d - yd_before d \<and> yd_after d - yd_before d < 10 ^ 24)"
    "SupplyBurn \<in> uc_kind ` set (analyze_supply t) \<or> SupplyReduction \<in> uc_kind ` set (analyze_supply t) \<longleftrightarrow>
      (\<exists>d \<in> set (rs_supply_diffs t). yd_after d - yd_before d < 0)"
    unfolding in_kinds
    using supply_kinds [of "\<lambda>k. k = SupplyInflation" "\<lambda>d. 10 ^ 24 \<le> d" t]
      supply_kinds [of "\<lambda>k. k = SupplyMint" "\<lambda>d. 0 < d \<and> d < 10 ^ 24" t, OF classify_supply(2)]
      supply_kinds [of "\<lambda>k. k = SupplyBurn \<or> k = SupplyReduction" "\<lambda>d. d < 0" t]
    by (simp_all only: classify_supply bex_disj_distrib) simp_all
  have allowance: "(\<exists>a \<in> set (sb_allowance_changes b). ac_kind a = AllowUnlimited \<or> ac_is_unlimited a) \<longleftrightarrow>
      (\<exists>c \<in> set (sx_allowance_changes report). 10 ^ 30 \<le> ac_after c)"
    unfolding report(2) using allowances_unlimited [OF b] by blast
  have "ids \<subseteq> {implementation_id, owner_id, allowance_id, inflation_id, mint_id, burn_id, observed_id}"
    unfolding all_ids by (auto simp: supply_id_def split: SupplyChangeKind.splits)
  moreover have "implementation_id \<in> ids \<longleftrightarrow> (\<exists>s \<in> set (analyze_storage t). sc_slot_kind s = SlotImplementation)"
    "owner_id \<in> ids \<longleftrightarrow> sb_ownership_changes b \<noteq> []"
    "allowance_id \<in> ids \<longleftrightarrow> (\<exists>a \<in> set (sb_allowance_changes b). ac_kind a = AllowUnlimited \<or> ac_is_unlimited a)"
    "observed_id \<in> ids \<longleftrightarrow> (\<exists>r. execution = Some r \<and> \<not> ra_has_revert (xr_revert_analysis r))"
    "inflation_id \<in> ids \<longleftrightarrow> SupplyInflation \<in> uc_kind ` set (analyze_supply t)"
    "mint_id \<in> ids \<longleftrightarrow> SupplyMint \<in> uc_kind ` set (analyze_supply t)"
    "burn_id \<in> ids \<longleftrightarrow> SupplyBurn \<in> uc_kind ` set (analyze_supply t) \<or> SupplyReduction \<in> uc_kind ` set (analyze_supply t)"
    unfolding all_ids by (auto simp: evidence_id_inject supply_ids_inject not_supply_id)
  moreover have "distinct (map ev_id (sx_risk_evidence report))"
    by (simp only: report(1) emit_state_evidence_def distinct_merge_evidence)
  moreover have "ev_score ` set (sx_risk_evidence report) \<subseteq> {Dec 0 2}"
    using state_evidence_zero by (simp only: report(1) zero_score_def)
  ultimately show ?thesis
    by (intro exI [of _ ids] conjI) (simp_all only: ids_def [symmetric] implementation_found supplies allowance ownership_found [OF b])
qed

definition demo_instant :: datetime where
  "demo_instant = \<lparr>dt_wall = 63871372800000000, dt_off = Some 0\<rparr>"

theorem state_evidence_exact_witness:
  "\<exists>report. analyze_transition demo_instant (StateTree demo_transition) None None = Inr report \<and>
     {implementation_id, owner_id, burn_id} \<subseteq> ev_id ` set (sx_risk_evidence report) \<and>
     observed_id \<notin> ev_id ` set (sx_risk_evidence report)"
proof -
  obtain b where b: "build_state_diff demo_transition = Inr b"
    using build_state_diff_readable [OF demo_readable] by metis
  then obtain report where r: "analyze_transition demo_instant (StateTree demo_transition) None None = Inr report"
    by (simp add: analyze_transition_def normalize_transition_def)
  have "lower eip1967_implementation_slot = eip1967_implementation_slot" by code_simp
  moreover have "kind_of_log (hd (rs_logs demo_transition)) = Some MapOwnershipTransferred" by code_simp
  ultimately have facts: "(\<exists>d \<in> set (rs_storage_diffs demo_transition).
       sd_before d \<noteq> sd_after d \<and> lower (sd_slot d) = eip1967_implementation_slot) = True"
    "(\<exists>l \<in> set (rs_logs demo_transition). kind_of_log l = Some MapOwnershipTransferred) = True"
    "(\<exists>d \<in> set (rs_supply_diffs demo_transition). yd_after d - yd_before d < 0) = True"
    by (simp_all add: demo_transition_def)
  from state_evidence_exact [OF r, unfolded facts] obtain ids where "ids = ev_id ` set (sx_risk_evidence report)"
    "implementation_id \<in> ids" "owner_id \<in> ids" "burn_id \<in> ids" "observed_id \<notin> ids"
    by (elim exE conjE) simp
  with r show ?thesis by (intro exI [of _ report]) simp
qed

end
