(* ===== verification/SimulationFacts.thy ===== *)
theory SimulationFacts
  imports AttackLibrary StateProps TraceReportProps
begin

text \<open>
  The traces and the state transitions of the scenario templates, analysed: which events and which
  changes each template leads to.
\<close>

section \<open>Texts\<close>

lemma or_text_nonempty: "b \<noteq> [] \<Longrightarrow> or_text a b \<noteq> []"
  by (simp add: or_text_def split: option.split)

lemma lower_or_text: "lower (or_text a (lower b)) = lower (or_text a b)"
  by (simp add: or_text_def split: option.split)

lemma lower_or_text3: "lower (or_text a (or_text b (lower c))) = lower (or_text a (or_text b c))"
  by (simp add: or_text_def split: option.split)

lemma is_address_nonempty: "is_address (Some s) \<Longrightarrow> s \<noteq> []"
  by (auto simp: is_address_def)

lemma lower_Nil [simp]: "lower s = [] \<longleftrightarrow> s = []"
  by (simp add: lower_def)

lemma lower_or_none_lower: "s \<noteq> [] \<Longrightarrow> lower_or_none (Some (lower s)) = Some (lower s)"
  by (simp add: lower_or_none_def)

section \<open>Traces\<close>

lemma preorder_leaf: "rt_children f = [] \<Longrightarrow> preorder p f = [(p, f)]"
  by (subst preorder.simps) (simp add: sorted_children_def)

lemma preorder_nested: "rt_children f = [c] \<Longrightarrow> rt_children c = [] \<Longrightarrow> preorder p f = [(p, f), (p @ [0], c)]"
  by (subst preorder.simps) (simp add: sorted_children_def preorder_leaf)

lemma trace_node_simps [simp]:
  "rt_call_type (trace_node ty a b g i cs) = ty"
  "rt_from_address (trace_node ty a b g i cs) = lower a"
  "rt_to_address (trace_node ty a b g i cs) = lower_or_none b"
  "rt_input (trace_node ty a b g i cs) = i"
  "rt_children (trace_node ty a b g i cs) = cs"
  "rt_error (trace_node ty a b g i cs) = None"
  "rt_revert_reason (trace_node ty a b g i cs) = None"
  by (simp_all add: trace_node_def)

lemma template_not_failed: "\<not> failed_frame (trace_node ty a b g i cs)"
  by (simp add: failed_frame_def opt_truthy_def)

lemma selector_Nil [simp]: "selector_of [] = None"
  by (simp add: selector_of_def)

lemma call_template_events:
  "has_event ty (analyze_events (build_graph (trace_node OpCall a (Some b) g [] [])) []) \<longleftrightarrow> False"
  by (simp add: analyze_events_def no_unexpected_events detect_delegatecalls_def detector_types(4-6)
      delegate_nodes_def build_graph_preorder preorder_leaf flash_loan_callbacks_def flash_nodes_def
      node_of_def call_node_def looks_like_flash_loan_def)

lemma path_ids: "path_id [] = ''0''" "path_id [0] = ''0.0''"
proof -
  have "nat_digits 0 = ''0''" by code_simp
  then show "path_id [] = ''0''" "path_id [0] = ''0.0''" by (simp_all add: path_id_def)
qed

lemma governance_template_events:
  assumes "b \<noteq> []" "t \<noteq> []"
  shows "has_event ty (analyze_events (build_graph
      (trace_node OpCall a (Some b) g [] [trace_node OpCall b (Some t) g' [] []])) []) \<longleftrightarrow>
    ty = RteRecursiveCall \<and> lower a = lower b \<and> lower b = lower t"
  using assms
  by (auto simp: analyze_events_def no_unexpected_events detect_delegatecalls_def detector_types(4-6)
      delegate_nodes_def build_graph_preorder preorder_nested flash_loan_callbacks_def flash_nodes_def
      node_of_def call_node_def looks_like_flash_loan_def lower_or_none_def opt_truthy_def call_pair_def
      runtime_event_def)

lemma upgrade_selector_text: "selector_of (upgrade_selector @ zs) = Some ''3659cfe6''"
proof -
  have "hex_bytes upgrade_selector = ''3659cfe6''" by code_simp
  then show ?thesis by (simp add: selector_of_def upgrade_selector_def)
qed

lemma upgrade_template_events:
  assumes "b \<noteq> []" "t \<noteq> []"
  shows "has_event ty (analyze_events (build_graph (trace_node OpCall a (Some b) g (upgrade_selector @ zs)
      [trace_node OpDelegatecall b (Some t) g' [] []])) []) \<longleftrightarrow>
    ty = RteProxyExecution \<and> lower b \<noteq> lower t"
  using assms
  by (auto simp: analyze_events_def no_unexpected_events detect_delegatecalls_def detector_types(4-6)
      delegate_nodes_def build_graph_preorder preorder_nested flash_loan_callbacks_def flash_nodes_def
      node_of_def call_node_def looks_like_flash_loan_def lower_or_none_def opt_truthy_def call_pair_def
      runtime_event_def upgrade_selector_text flash_loan_selectors_def proxy_execution_def nodes_by_id_def
      dict_of_def path_ids path_parent_def)

text \<open>The frames of a template: one call, or one call with another in it.\<close>

definition template :: "RawTraceNode \<Rightarrow> bool" where
  "template f \<longleftrightarrow> \<not> failed_frame f \<and>
     (rt_children f = [] \<or> (\<exists>c. rt_children f = [c] \<and> \<not> failed_frame c \<and> rt_children c = []))"

lemma template_preorder: "template f \<Longrightarrow> (p, g) \<in> set (preorder [] f) \<Longrightarrow> \<not> failed_frame g"
  by (auto simp: template_def preorder_leaf preorder_nested)

lemma frame_height_leaf: "rt_children f = [] \<Longrightarrow> frame_height f = 0"
  by (subst frame_height_eq) simp

lemma template_report:
  assumes "template (xt_root t)"
  obtains report where "analyze_trace clk (TraceTree t) h chain [] = Some (Inr report)"
    "ev_id ` set (xr_risk_evidence report) =
       event_id_of ` {ty. has_event ty (analyze_events (build_graph (xt_root t)) [])}"
    "\<not> ra_has_revert (xr_revert_analysis report)"
proof -
  let ?frame = "xt_root t"
  let ?es = "analyze_events (build_graph ?frame) []"
  obtain ra where ra: "analyze_reverts (build_graph ?frame) = Some ra"
    "ra_has_revert ra \<longleftrightarrow> (\<exists>p f. frame_at ?frame p = Some f \<and> failed_frame f)"
    by (rule analyze_reverts_has_revert)
  then have no_revert: "\<not> ra_has_revert ra"
    using template_preorder [OF assms] by (auto simp: preorder_mem)
  obtain profile where profile: "profile_gas (build_graph ?frame) = Some (Inr profile)"
    "gp_deepest_depth profile = frame_height ?frame"
    by (rule profile_gas_depth)
  have "frame_height ?frame < 4"
    using assms by (auto simp: template_def frame_height_leaf frame_height_eq [of ?frame])
  then have "gp_deepest_depth profile < 4" using profile(2) by simp
  with no_revert have ids: "ev_id ` set (emit_trace_evidence clk (xt_transaction_hash t) ?es ra profile) =
      event_id_of ` {ty. has_event ty ?es}"
    unfolding evidence_ids by (auto simp: has_event_def)
  obtain report where report: "analyze_trace clk (TraceTree t) h chain [] = Some (Inr report)"
    "xr_risk_evidence report = emit_trace_evidence clk (xt_transaction_hash t) ?es ra profile"
    "xr_revert_analysis report = ra"
    using ra(1) profile(1) by (simp add: analyze_trace_def normalize_trace_def Let_def)
  show thesis
    using report(1) ids [folded report(2)] no_revert [folded report(3)] by (rule that)
qed

lemma template_roots: "template (trace_root_for_scenario ty ctx)"
  by (auto simp: template_def trace_root_for_scenario_def Let_def template_not_failed)

section \<open>Transitions\<close>

text \<open>The raw conditions of the evidence of a state diff.\<close>

lemma state_report_ids:
  assumes "build_state_diff t = Inr b"
  shows "ev_id ` set (emit_state_evidence clk h b x) =
     (if \<exists>d \<in> set (rs_storage_diffs t). sd_before d \<noteq> sd_after d \<and> lower (sd_slot d) = eip1967_implementation_slot
      then {implementation_id} else {}) \<union>
     (if sb_ownership_changes b \<noteq> [] then {owner_id} else {}) \<union>
     (if \<exists>a \<in> set (sb_allowance_changes b). 10 ^ 30 \<le> ac_after a then {allowance_id} else {}) \<union>
     supply_id ` (\<lambda>d. classify_supply_change (yd_after d - yd_before d)) `
       {d \<in> set (rs_supply_diffs t). yd_before d \<noteq> yd_after d} \<union>
     (if \<exists>r. x = Some r \<and> \<not> ra_has_revert (xr_revert_analysis r) then {observed_id} else {})"
proof -
  have lists: "sb_storage_changes b = analyze_storage t" "sb_supply_changes b = analyze_supply t"
    using build_state_diff_readable [OF build_readable [OF assms]] assms by (metis sum.inject(2))+
  have "uc_kind ` set (analyze_supply t) =
      (\<lambda>d. classify_supply_change (yd_after d - yd_before d)) ` {d \<in> set (rs_supply_diffs t). yd_before d \<noteq> yd_after d}"
    by (simp add: analyze_supply_def image_image supply_change_def)
  moreover have "(\<exists>a \<in> set (sb_allowance_changes b). ac_kind a = AllowUnlimited \<or> ac_is_unlimited a) \<longleftrightarrow>
      (\<exists>a \<in> set (sb_allowance_changes b). 10 ^ 30 \<le> ac_after a)"
    using allowances_unlimited [OF assms] by blast
  ultimately show ?thesis
    by (simp only: state_evidence_ids lists implementation_found if_not_P simp_thms(1) cong: if_cong) auto
qed

section \<open>Numbers as data\<close>

lemma hex_digit_val: "n < 16 \<Longrightarrow> hex_val (hex_digit n) = Some n"
  by (auto simp: hex_val_def hex_digit_def Let_def)

lemma hex_digit_no_space: "n < 16 \<Longrightarrow> \<not> ascii_space (hex_digit n)"
  by (auto simp: ascii_space_def hex_digit_def)

definition hex_text :: "string \<Rightarrow> bool" where
  "hex_text s \<longleftrightarrow> (\<forall>c \<in> set s. hex_val c \<noteq> None \<and> \<not> ascii_space c)"

lemma hex_text_append [simp]: "hex_text (s @ t) \<longleftrightarrow> hex_text s \<and> hex_text t"
  by (auto simp: hex_text_def)

lemma hex_text_digits: "hex_text (hex_digits n)"
proof (induction n rule: hex_digits.induct)
  case (1 n)
  have digit: "hex_text [hex_digit k]" if "k < 16" for k
    using that by (simp add: hex_text_def hex_digit_val hex_digit_no_space)
  show ?case
    by (subst hex_digits.simps) (simp add: 1 digit)
qed

lemma length_hex_digits: "0 < k \<Longrightarrow> n < 16 ^ k \<Longrightarrow> length (hex_digits n) \<le> k"
proof (induction n arbitrary: k rule: hex_digits.induct)
  case (1 n)
  show ?case
  proof (cases "n < 16")
    case True
    with 1 show ?thesis by (subst hex_digits.simps) simp
  next
    case False
    then obtain j where j: "k = Suc j" "0 < j"
      using 1(2,3) by (cases k; cases "k - 1") auto
    with 1(3) have "n div 16 < 16 ^ j" by (simp add: less_mult_imp_div_less mult.commute)
    from 1(1) [OF False j(2) this] have "length (hex_digits (n div 16)) \<le> j" .
    with False j show ?thesis by (subst hex_digits.simps) simp
  qed
qed

lemma bytes_fromhex_text: "hex_text s \<Longrightarrow> even (length s) \<Longrightarrow> \<exists>bs. bytes_fromhex s = Some bs"
  by (induction s rule: bytes_fromhex.induct) (auto simp: hex_text_def split: option.split)

lemma hex_text_zeros: "hex_text (replicate n CHR ''0'')"
proof -
  have "hex_val CHR ''0'' \<noteq> None" "\<not> ascii_space CHR ''0''" by code_simp+
  then show ?thesis by (auto simp: hex_text_def)
qed

lemma uint_data_returns:
  assumes "v < 2 ^ 256"
  obtains data where "uint_data v = Inr data"
proof -
  have "nat v < 16 ^ 64" using assms by (cases "0 \<le> v") (simp_all add: nat_less_iff)
  then have "length (format_064x (nat v)) = 64"
    using length_hex_digits [of 64 "nat v"] by (simp add: format_064x_def rjust_def)
  moreover have "hex_text (format_064x (nat v))"
    by (simp add: format_064x_def rjust_def hex_text_zeros hex_text_digits)
  ultimately obtain bs where "bytes_fromhex (format_064x (nat v)) = Some bs"
    using bytes_fromhex_text by (metis even_numeral)
  then have "uint_data v = Inr bs" by (simp add: uint_data_def word_hex_def)
  with that show thesis .
qed

section \<open>The predicted transitions\<close>

lemma allowances_of_diff:
  assumes "build_state_diff t = Inr b" "rs_allowance_diffs t = d # ds"
  shows "allowance_change d \<in> set (sb_allowance_changes b)"
proof -
  have r: "readable t" using assms(1) by (rule build_readable)
  obtain b' where "build_state_diff t = Inr b'" "analyze_allowances t = Inr (sb_allowance_changes b')"
    using build_state_diff_readable [OF r] by metis
  with assms(1) have "analyze_allowances t = Inr (sb_allowance_changes b)" by simp
  from allowances_found(1) [OF this r, of "allowance_change d"] assms(2) show ?thesis by simp
qed

lemma no_allowances:
  assumes "build_state_diff t = Inr b" "rs_allowance_diffs t = []" "logs_of MapApproval t = []"
  shows "sb_allowance_changes b = []"
proof -
  have r: "readable t" using assms(1) by (rule build_readable)
  obtain b' where "build_state_diff t = Inr b'" "analyze_allowances t = Inr (sb_allowance_changes b')"
    using build_state_diff_readable [OF r] by metis
  with assms(1) have "analyze_allowances t = Inr (sb_allowance_changes b)" by simp
  with assms(2,3) r show ?thesis by (simp add: analyze_allowances_readable)
qed

lemma kinds_of_templates:
  "kind_of_log (state_log c (topic_ownership_transferred # ts) d) = Some MapOwnershipTransferred"
  "kind_of_log (state_log c (topic_approval # ts) d) = Some MapApproval"
  "kind_of_log (state_log c (topic_transfer # ts) d) = Some MapTransfer"
  "kind_of_log (state_log c (topic_upgraded # ts) d) = None"
proof -
  have "map_of topic_kinds (lower topic_ownership_transferred) = Some MapOwnershipTransferred"
    "map_of topic_kinds (lower topic_approval) = Some MapApproval"
    "map_of topic_kinds (lower topic_transfer) = Some MapTransfer"
    "map_of topic_kinds (lower topic_upgraded) = None"
    by code_simp+
  then show "kind_of_log (state_log c (topic_ownership_transferred # ts) d) = Some MapOwnershipTransferred"
    "kind_of_log (state_log c (topic_approval # ts) d) = Some MapApproval"
    "kind_of_log (state_log c (topic_transfer # ts) d) = Some MapTransfer"
    "kind_of_log (state_log c (topic_upgraded # ts) d) = None"
    by (simp_all add: kind_of_log_def state_log_def)
qed

lemma large_words: "max_uint256 < 2 ^ 256" "large_mint_amount < 2 ^ 256" "(500 :: int) < 2 ^ 256"
  by (simp_all add: max_uint256_def large_mint_amount_def)

text \<open>The logs of a template: none, or one that can be read.\<close>

lemma predicted_logs_returns:
  obtains logs where "predicted_logs ty ctx = Inr logs" "list_all readable_log logs"
    "map kind_of_log logs =
       (case ty of ScnOwnershipTransfer \<Rightarrow> [Some MapOwnershipTransferred] | ScnUnlimitedApproval \<Rightarrow> [Some MapApproval]
        | ScnUnlimitedMint \<Rightarrow> [Some MapTransfer] | ScnBurn \<Rightarrow> [Some MapTransfer] | ScnProxyUpgrade \<Rightarrow> [None] | _ \<Rightarrow> [])"
proof -
  obtain d1 where d1: "uint_data max_uint256 = Inr d1" by (rule uint_data_returns [OF large_words(1)])
  obtain d2 where d2: "uint_data large_mint_amount = Inr d2" by (rule uint_data_returns [OF large_words(2)])
  obtain d3 where d3: "uint_data 500 = Inr d3" by (rule uint_data_returns [OF large_words(3)])
  show thesis
    by (cases ty)
      (use that d1 d2 d3 in \<open>auto simp: predicted_logs_def Let_def readable_log_def kinds_of_templates state_log_def
         kinds_of_templates [unfolded state_log_def]\<close>)
qed

end
