(* ===== verification/SimulationProps.thy ===== *)
theory SimulationProps
  imports SimulationFacts
begin

text \<open>
  What simulations predict: the evidence of every scenario type, and how the predictions of the attack
  library compare with the evidence it says to expect.
\<close>

section \<open>Predicted evidence\<close>

abbreviation proxy_execution_id :: string where
  "proxy_execution_id \<equiv> evidence_id SrcProxy CatUpgradeability ''proxy_execution''"

abbreviation recursive_id :: string where
  "recursive_id \<equiv> evidence_id SrcThreatSurface CatThreat ''recursive_execution''"

abbreviation authority_id :: "string \<Rightarrow> string" where
  "authority_id signal \<equiv> evidence_id SrcGovernance CatAuthority signal"

text \<open>The evidence of the trace, of the state and of the scenario itself.\<close>

definition trace_ids :: "ScenarioType \<Rightarrow> SimulationContext \<Rightarrow> string set" where
  "trace_ids ty ctx =
     (let actor = cn_actor_address ctx; contract = cn_contract_address ctx
      in case ty of
           ScnProxyUpgrade \<Rightarrow>
             (if lower (or_text (cn_proxy_address ctx) contract) \<noteq>
                 lower (or_text (cn_new_implementation_address ctx) (or_text (cn_implementation_address ctx) actor))
              then {proxy_execution_id} else {})
         | ScnGovernanceExecution \<Rightarrow>
             (if lower actor = lower (or_text (cn_governor_address ctx) contract) \<and>
                 lower (or_text (cn_governor_address ctx) contract) = lower (or_text (cn_recipient_address ctx) contract)
              then {recursive_id} else {})
         | _ \<Rightarrow> {})"

definition state_ids :: "ScenarioType \<Rightarrow> SimulationContext \<Rightarrow> string set" where
  "state_ids ty ctx =
     (let actor = cn_actor_address ctx; contract = cn_contract_address ctx
      in case ty of
           ScnProxyUpgrade \<Rightarrow>
             (if word_address (or_text (cn_implementation_address ctx) contract) \<noteq>
                 word_address (or_text (cn_new_implementation_address ctx) actor)
              then {implementation_id} else {})
         | ScnOwnershipTransfer \<Rightarrow> {owner_id}
         | ScnUnlimitedApproval \<Rightarrow> {allowance_id}
         | ScnUnlimitedMint \<Rightarrow> {inflation_id}
         | ScnBurn \<Rightarrow> {burn_id}
         | ScnTimelockReduction \<Rightarrow> {owner_id}
         | ScnGovernanceExecution \<Rightarrow>
             (if extract_address (word_address actor) \<noteq>
                 extract_address (word_address (or_text (cn_recipient_address ctx) actor))
              then {owner_id} else {})
         | _ \<Rightarrow> {})"

definition own_ids :: "ScenarioType \<Rightarrow> string set" where
  "own_ids ty =
     (case ty of
        ScnPause \<Rightarrow> {authority_id ''simulated_pause''}
      | ScnUnpause \<Rightarrow> {authority_id ''simulated_unpause''}
      | ScnTimelockReduction \<Rightarrow> {authority_id ''simulated_timelock_reduction''}
      | ScnGovernanceExecution \<Rightarrow> {authority_id ''governance_execution''}
      | _ \<Rightarrow> {})"

lemma valid_context:
  "validation_errors ty ctx = [] \<Longrightarrow> cn_actor_address ctx \<noteq> [] \<and> cn_contract_address ctx \<noteq> []"
  by (auto simp: validation_errors_def Let_def check_def dest: is_address_nonempty split: if_splits)

lemma predicted_trace_ids:
  assumes "validation_errors ty ctx = []"
  shows "event_id_of ` {e. has_event e (analyze_events (build_graph (trace_root_for_scenario ty ctx)) [])} =
    trace_ids ty ctx"
proof -
  have ne: "cn_actor_address ctx \<noteq> []" "cn_contract_address ctx \<noteq> []"
    using valid_context [OF assms] by simp_all
  have ids: "event_id_of RteProxyExecution = proxy_execution_id" "event_id_of RteRecursiveCall = recursive_id"
    by (simp_all add: event_id_of_def)
  show ?thesis
  proof (cases ty)
    case ScnProxyUpgrade
    then show ?thesis using ne
      by (simp add: trace_root_for_scenario_def Let_def trace_ids_def upgrade_template_events or_text_nonempty
          lower_or_text lower_or_text3 ids Collect_conv_if)
  next
    case ScnGovernanceExecution
    then show ?thesis using ne
      by (simp add: trace_root_for_scenario_def Let_def trace_ids_def governance_template_events or_text_nonempty
          lower_or_text ids Collect_conv_if)
  qed (simp_all add: trace_root_for_scenario_def Let_def trace_ids_def call_template_events)
qed

lemma word_address_lower [simp]: "word_address (lower s) = word_address s"
  by (simp add: word_address_def)

lemma word_address_or [simp]: "word_address (or_text a (lower b)) = word_address (or_text a b)"
  by (simp add: word_address_def lower_or_text)

text \<open>The slots of the templates.\<close>

lemma template_slots:
  "lower eip1967_implementation_slot = eip1967_implementation_slot"
  "eip1967_implementation_slot \<notin> set ownership_slots"
  "lower zero_slot \<noteq> eip1967_implementation_slot" "lower zero_slot \<in> set ownership_slots"
  "lower timelock_slot \<noteq> eip1967_implementation_slot" "lower timelock_slot \<in> set ownership_slots"
  "lower pause_slot \<noteq> eip1967_implementation_slot" "lower pause_slot \<notin> set ownership_slots"
  by code_simp+

text \<open>The delay of a timelock, read as an address.\<close>

lemma delay_address: "extract_address (word_hex 86400) \<noteq> extract_address (word_hex 0)"
proof -
  have "[hex_digit 1, hex_digit 5, hex_digit 1, hex_digit 8, hex_digit 0] = ''15180''" by code_simp
  then have "hex_digits 86400 = ''15180''" "hex_digits 0 = ''0''"
    by (simp_all add: hex_digits.simps)
  then have "word_hex 86400 = ''0x'' @ replicate 59 CHR ''0'' @ ''15180''" "word_hex 0 = ''0x'' @ replicate 63 CHR ''0'' @ ''0''"
    by (simp_all add: word_hex_def format_064x_def rjust_def)
  moreover have "extract_address (''0x'' @ replicate 59 CHR ''0'' @ ''15180'') \<noteq>
      extract_address (''0x'' @ replicate 63 CHR ''0'' @ ''0'')"
    by code_simp
  ultimately show ?thesis by simp
qed

lemma predicted_state_ids:
  assumes "\<not> ra_has_revert (xr_revert_analysis x)"
  obtains report where "predict_state clk H scenario (Some x) = Inr report"
    "ev_id ` set (sx_risk_evidence report) = insert observed_id (state_ids (sz_scenario_type scenario) (sz_context scenario))"
proof -
  define ty where "ty = sz_scenario_type scenario"
  define ctx where "ctx = sz_context scenario"
  obtain logs where logs: "predicted_logs ty ctx = Inr logs" "list_all readable_log logs"
    "map kind_of_log logs =
       (case ty of ScnOwnershipTransfer \<Rightarrow> [Some MapOwnershipTransferred] | ScnUnlimitedApproval \<Rightarrow> [Some MapApproval]
        | ScnUnlimitedMint \<Rightarrow> [Some MapTransfer] | ScnBurn \<Rightarrow> [Some MapTransfer] | ScnProxyUpgrade \<Rightarrow> [None] | _ \<Rightarrow> [])"
    by (rule predicted_logs_returns)
  obtain t where t: "predicted_transition H scenario = Inr t" "rs_logs t = logs"
    "rs_storage_diffs t = predicted_storage_diffs ty ctx" "rs_allowance_diffs t = predicted_allowance_diffs ty ctx"
    "rs_supply_diffs t = predicted_supply_diffs ty ctx"
    using logs(1) by (simp add: predicted_transition_def Let_def ty_def ctx_def)
  with logs(2) have "readable t" by simp
  then obtain b where b: "build_state_diff t = Inr b" by (rule build_state_diff_readable)
  have kinds: "(\<exists>l \<in> set logs. kind_of_log l = Some k) \<longleftrightarrow> Some k \<in> set (map kind_of_log logs)" for k
    unfolding set_map image_iff by metis
  have no_role: "\<not> (\<exists>l \<in> set logs. kind_of_log l = Some MapRoleGranted \<and> P l)" for P
    using kinds [of MapRoleGranted] unfolding logs(3) by (cases ty) auto
  have own: "sb_ownership_changes b \<noteq> [] \<longleftrightarrow>
      (\<exists>d \<in> set (predicted_storage_diffs ty ctx). lower (sd_slot d) \<in> set ownership_slots \<and>
         extract_address (sd_before d) \<noteq> extract_address (sd_after d)) \<or> ty = ScnOwnershipTransfer"
    unfolding ownership_found [OF b] t(2,3) kinds logs(3) by (cases ty) (simp_all add: no_role)
  have allow: "(\<exists>a \<in> set (sb_allowance_changes b). 10 ^ 30 \<le> ac_after a) \<longleftrightarrow> ty = ScnUnlimitedApproval"
  proof (cases "ty = ScnUnlimitedApproval")
    case True
    then obtain d where "rs_allowance_diffs t = [d]" "ad_after d = max_uint256"
      unfolding t(4) by (simp add: predicted_allowance_diffs_def Let_def)
    with allowances_of_diff [OF b this(1)] True show ?thesis
      by (force simp: allowance_change_def max_uint256_def)
  next
    case False
    then have "\<not> (\<exists>l \<in> set logs. kind_of_log l = Some MapApproval)"
      unfolding kinds logs(3) by (cases ty) simp_all
    then have "logs_of MapApproval t = []" by (auto simp: logs_of_def t(2) filter_empty_conv)
    moreover from False have "rs_allowance_diffs t = []" by (simp add: t(4) predicted_allowance_diffs_def)
    ultimately show ?thesis using no_allowances [OF b] False by simp
  qed
  have "ev_id ` set (emit_state_evidence clk (rs_transaction_hash t) b (Some x)) = insert observed_id (state_ids ty ctx)"
    unfolding state_report_ids [OF b] own allow t(3,5) using assms delay_address
    by (cases ty) (simp_all add: predicted_storage_diffs_def predicted_supply_diffs_def Let_def storage_diff_def
        state_ids_def template_slots classify_supply_change_def large_supply_delta_def large_mint_amount_def
        supply_id_def Collect_conv_if)
  moreover from b obtain report where "analyze_transition clk (StateTree t) None (Some x) = Inr report"
    "sx_risk_evidence report = emit_state_evidence clk (rs_transaction_hash t) b (Some x)"
    by (simp add: analyze_transition_def normalize_transition_def)
  ultimately show thesis
    using that [of report] t(1) by (simp add: predict_state_def ty_def ctx_def)
qed

lemma own_evidence_ids: "ev_id ` set (scenario_evidence clk scenario) = own_ids (sz_scenario_type scenario)"
  by (cases "sz_scenario_type scenario")
    (simp_all add: scenario_evidence_def scenario_signals_def own_ids_def)

lemma annotate_simps [simp]:
  "ev_id (annotate scenario e) = ev_id e" "ev_score (annotate scenario e) = zero_score"
  by (simp_all add: annotate_def)

lemma simulation_evidence_simps:
  "ev_id ` set (map_simulation_evidence clk scenario x r) =
     ev_id ` set (xr_risk_evidence x) \<union> ev_id ` set (sx_risk_evidence r) \<union> own_ids (sz_scenario_type scenario)"
  "distinct (map ev_id (map_simulation_evidence clk scenario x r))"
  "sorted (map ev_id (map_simulation_evidence clk scenario x r))"
  "ev_score ` set (map_simulation_evidence clk scenario x r) \<subseteq> {zero_score}"
proof -
  have "ev_id ` annotate scenario ` S = ev_id ` S" for S by (simp add: image_image)
  then show "ev_id ` set (map_simulation_evidence clk scenario x r) =
     ev_id ` set (xr_risk_evidence x) \<union> ev_id ` set (sx_risk_evidence r) \<union> own_ids (sz_scenario_type scenario)"
    by (simp add: map_simulation_evidence_def image_Un own_evidence_ids Un_assoc)
  have "map ev_id (map (annotate scenario) es) = map ev_id es" for es by simp
  then show "distinct (map ev_id (map_simulation_evidence clk scenario x r))"
    by (simp only: map_simulation_evidence_def distinct_map_sort_key distinct_merge_evidence)
qed (auto simp: map_simulation_evidence_def)

definition simulated_ids :: "ScenarioType \<Rightarrow> SimulationContext \<Rightarrow> string set" where
  "simulated_ids ty ctx = {observed_id} \<union> trace_ids ty ctx \<union> state_ids ty ctx \<union> own_ids ty"

lemma simulate_valid:
  assumes "validation_errors (sz_scenario_type scenario) (sz_context scenario) = []"
  obtains result where "simulate clk H scenario = Some (Inr result)"
    "ev_id ` set (sy_predicted_evidence result) = simulated_ids (sz_scenario_type scenario) (sz_context scenario)"
    "distinct (map ev_id (sy_predicted_evidence result))" "sorted (map ev_id (sy_predicted_evidence result))"
    "ev_score ` set (sy_predicted_evidence result) \<subseteq> {zero_score}"
    "sy_predicted_findings result = build_simulated_findings scenario (sy_predicted_evidence result)"
proof -
  let ?root = "trace_root_for_scenario (sz_scenario_type scenario) (sz_context scenario)"
  have root: "xt_root (predicted_trace H scenario) = ?root" by (simp add: predicted_trace_def)
  then have "template (xt_root (predicted_trace H scenario))" by (simp add: template_roots)
  then obtain x where x: "analyze_trace clk (TraceTree (predicted_trace H scenario)) None None [] = Some (Inr x)"
    "ev_id ` set (xr_risk_evidence x) =
       event_id_of ` {ty. has_event ty (analyze_events (build_graph (xt_root (predicted_trace H scenario))) [])}"
    "\<not> ra_has_revert (xr_revert_analysis x)"
    by (rule template_report)
  obtain r where r: "predict_state clk H scenario (Some x) = Inr r"
    "ev_id ` set (sx_risk_evidence r) = insert observed_id (state_ids (sz_scenario_type scenario) (sz_context scenario))"
    by (rule predicted_state_ids [OF x(3)])
  let ?evidence = "map_simulation_evidence clk scenario x r"
  have "ev_id ` set ?evidence = simulated_ids (sz_scenario_type scenario) (sz_context scenario)"
    unfolding simulation_evidence_simps(1) x(2) root predicted_trace_ids [OF assms] r(2) simulated_ids_def by auto
  moreover obtain result where "simulate clk H scenario = Some (Inr result)" "sy_predicted_evidence result = ?evidence"
    "sy_predicted_findings result = build_simulated_findings scenario ?evidence"
    using assms x(1) r(1)
    by (simp add: simulate_def validate_scenario_def predict_execution_def Let_def build_simulation_result_def)
  ultimately show thesis
    using simulation_evidence_simps(2-4) [of clk scenario x r] by (intro that [of result]) (simp_all only:)
qed

lemma factory_scenario: "scenario_factories ty = Some f \<Longrightarrow>
    sz_scenario_type (f H ctx) = ty \<and> sz_context (f H ctx) = ctx"
  by (cases ty) (auto simp: scenario_factories_def Let_def proxy_upgrade_scenario_def
      ownership_transfer_scenario_def unlimited_approval_scenario_def unlimited_mint_scenario_def
      burn_scenario_def pause_scenario_def unpause_scenario_def timelock_reduction_scenario_def
      governance_proposal_execution_scenario_def)

text \<open>
  Property C14. Simulating a scenario type in a context that passes validation always returns a result,
  and its evidence is exactly what the type stands for: an observed transition and, by type, a changed
  implementation (when it differs) and a proxy execution, a changed owner, an unlimited allowance,
  inflated or burnt supply, a pause, a timelock reduction (which also reports a changed owner) or a
  governance execution; the items are sorted, one per signal, without a score, and each has its finding.
\<close>

theorem simulation_evidence_exact:
  assumes "validation_errors ty ctx = []"
  shows "\<exists>result. simulate_type clk H ty ctx = Some (Inr result) \<and>
    ev_id ` set (sy_predicted_evidence result) = {observed_id} \<union> trace_ids ty ctx \<union> state_ids ty ctx \<union> own_ids ty \<and>
    distinct (map ev_id (sy_predicted_evidence result)) \<and> sorted (map ev_id (sy_predicted_evidence result)) \<and>
    ev_score ` set (sy_predicted_evidence result) \<subseteq> {Dec 0 2} \<and>
    map sg_description (sy_predicted_findings result) = map ev_reason (sy_predicted_evidence result)"
proof -
  obtain f where f: "scenario_factories ty = Some f" by (simp add: scenario_factories_def)
  let ?s = "f H ctx"
  have s: "sz_scenario_type ?s = ty" "sz_context ?s = ctx" using factory_scenario [OF f] by simp_all
  with assms have valid: "validation_errors (sz_scenario_type ?s) (sz_context ?s) = []" by simp
  obtain result where r: "simulate clk H ?s = Some (Inr result)"
    "ev_id ` set (sy_predicted_evidence result) = simulated_ids (sz_scenario_type ?s) (sz_context ?s)"
    "distinct (map ev_id (sy_predicted_evidence result))" "sorted (map ev_id (sy_predicted_evidence result))"
    "ev_score ` set (sy_predicted_evidence result) \<subseteq> {zero_score}"
    "sy_predicted_findings result = build_simulated_findings ?s (sy_predicted_evidence result)"
    by (rule simulate_valid [OF valid])
  have "simulate_type clk H ty ctx = Some (Inr result)"
    using assms f r(1) by (simp add: simulate_type_def build_scenario_def validate_scenario_def Let_def)
  moreover have "map sg_description (sy_predicted_findings result) = map ev_reason (sy_predicted_evidence result)"
    by (auto simp: r(6) build_simulated_findings_def case_prod_unfold list_eq_iff_nth_eq nth_enumerate_eq)
  ultimately show ?thesis
    using r(2-5) by (intro exI [of _ result]) (simp only: s simulated_ids_def zero_score_def simp_thms)
qed

theorem simulation_evidence_exact_witness:
  "\<exists>result. simulate_type demo_instant (\<lambda>s. s) ScnTimelockReduction base_context = Some (Inr result) \<and>
    {owner_id, authority_id ''simulated_timelock_reduction''} \<subseteq> ev_id ` set (sy_predicted_evidence result)"
proof -
  have "validation_errors ScnTimelockReduction base_context = []" by code_simp
  from simulation_evidence_exact [OF this, of demo_instant "\<lambda>s. s"] show ?thesis
    by (auto simp: state_ids_def own_ids_def Let_def)
qed

section \<open>The attack library\<close>

text \<open>The signals a run predicted, and the expected ones it did not.\<close>

definition predicted_signals :: "SimulationResult \<Rightarrow> string set" where
  "predicted_signals r = after_last CHR '':'' ` ev_id ` set (sy_predicted_evidence r)"

definition unmet_expectations :: "AttackScenario \<Rightarrow> SimulationResult list \<Rightarrow> string set" where
  "unmet_expectations attack results =
     xo_signal ` set (at_expected_evidence attack) - (\<Union>r \<in> set results. predicted_signals r)"

lemma simulate_all_valid:
  assumes "list_all (\<lambda>s. validation_errors (sz_scenario_type s) (sz_context s) = []) scenarios"
  obtains results where "simulate_all clk H scenarios = Some (Inr results)"
    "(\<Union>r \<in> set results. predicted_signals r) =
       (\<Union>s \<in> set scenarios. after_last CHR '':'' ` simulated_ids (sz_scenario_type s) (sz_context s))"
proof -
  have "\<exists>results. simulate_all clk H scenarios = Some (Inr results) \<and>
    (\<Union>r \<in> set results. predicted_signals r) =
       (\<Union>s \<in> set scenarios. after_last CHR '':'' ` simulated_ids (sz_scenario_type s) (sz_context s))"
    using assms
  proof (induction scenarios)
    case (Cons s scenarios)
    then obtain results where rs: "simulate_all clk H scenarios = Some (Inr results)"
      "(\<Union>r \<in> set results. predicted_signals r) =
       (\<Union>s \<in> set scenarios. after_last CHR '':'' ` simulated_ids (sz_scenario_type s) (sz_context s))" by auto
    from Cons.prems have "validation_errors (sz_scenario_type s) (sz_context s) = []" by simp
    then obtain r where "simulate clk H s = Some (Inr r)"
      "ev_id ` set (sy_predicted_evidence r) = simulated_ids (sz_scenario_type s) (sz_context s)"
      by (rule simulate_valid)
    with rs show ?case by (simp add: predicted_signals_def)
  qed simp
  with that show thesis by blast
qed

lemma signal_of_id: "CHR '':'' \<notin> set signal \<Longrightarrow> after_last CHR '':'' (evidence_id s c signal) = signal"
  using after_last_append [of "CHR '':''" signal "source_value s @ '':'' @ category_value c"]
  by (simp add: evidence_id_def)

lemma simulated_signals:
  "after_last CHR '':'' ` simulated_ids ty ctx = {''state_transition_observed''} \<union>
     after_last CHR '':'' ` trace_ids ty ctx \<union> after_last CHR '':'' ` state_ids ty ctx \<union>
     after_last CHR '':'' ` own_ids ty"
  by (simp add: simulated_ids_def image_Un signal_of_id)

lemma library_addresses:
  "is_address (Some ''0xaaaaaaaaaaaaaaaaaaaaaaaaaaaaaaaaaaaaaaaa'')"
  "is_address (Some ''0xbbbbbbbbbbbbbbbbbbbbbbbbbbbbbbbbbbbbbbbb'')"
  "is_address (Some ''0xcccccccccccccccccccccccccccccccccccccccc'')"
  "is_address (Some ''0xeeeeeeeeeeeeeeeeeeeeeeeeeeeeeeeeeeeeeeee'')"
  "is_address (Some ''0x1111111111111111111111111111111111111111'')"
  "is_address (Some ''0x4444444444444444444444444444444444444444'')"
  "is_address (Some ''0x5555555555555555555555555555555555555555'')"
  "is_address (Some ''0x6666666666666666666666666666666666666666'')"
  "is_address (Some ''0x7777777777777777777777777777777777777777'')"
  "is_address (Some ''0x2222222222222222222222222222222222222222'')"
  by code_simp+

lemmas validation_simps =
  validation_errors_def check_def bad_optional_def opt_truthy_def or_text_def base_context_def simple_context_def
  library_addresses

text \<open>The scenarios of an attack, as types and contexts, all valid.\<close>

lemma attack_run:
  assumes "map (\<lambda>s. (sz_scenario_type s, sz_context s)) (at_scenarios attack) = templates"
    and "list_all (\<lambda>(ty, ctx). validation_errors ty ctx = []) templates"
  obtains results where "execute_attack clk H attack = Some (Inr results)"
    "unmet_expectations attack results = xo_signal ` set (at_expected_evidence attack) -
       (\<Union>(ty, ctx) \<in> set templates. after_last CHR '':'' ` simulated_ids ty ctx)"
proof -
  have "list_all (\<lambda>s. validation_errors (sz_scenario_type s) (sz_context s) = []) (at_scenarios attack)"
    using assms(2) unfolding assms(1) [symmetric] by (simp add: list_all_iff)
  then obtain results where "simulate_all clk H (at_scenarios attack) = Some (Inr results)"
    "(\<Union>r \<in> set results. predicted_signals r) =
       (\<Union>s \<in> set (at_scenarios attack). after_last CHR '':'' ` simulated_ids (sz_scenario_type s) (sz_context s))"
    by (rule simulate_all_valid)
  then show thesis
    using that by (simp add: execute_attack_def simulate_attack_def unmet_expectations_def flip: assms(1))
qed

lemmas template_simps =
  proxy_upgrade_scenario_def ownership_transfer_scenario_def unlimited_approval_scenario_def
  unlimited_mint_scenario_def timelock_reduction_scenario_def governance_proposal_execution_scenario_def Let_def

lemmas signal_simps = simulated_signals trace_ids_def state_ids_def own_ids_def signal_of_id Let_def

lemma upgrade_differs:
  "lower ''0xcccccccccccccccccccccccccccccccccccccccc'' \<noteq> lower ''0xeeeeeeeeeeeeeeeeeeeeeeeeeeeeeeeeeeeeeeee''"
  "word_address ''0xdddddddddddddddddddddddddddddddddddddddd'' \<noteq>
   word_address ''0xeeeeeeeeeeeeeeeeeeeeeeeeeeeeeeeeeeeeeeee''"
  by code_simp+

lemma upgrade_run:
  "\<exists>results. execute_attack clk H (upgrade_attack H) = Some (Inr results) \<and> unmet_expectations (upgrade_attack H) results = {}"
proof (rule attack_run [of "upgrade_attack H"])
  show "map (\<lambda>s. (sz_scenario_type s, sz_context s)) (at_scenarios (upgrade_attack H)) =
     [(ScnProxyUpgrade, base_context\<lparr>cn_proxy_address := Some ''0xcccccccccccccccccccccccccccccccccccccccc'', cn_implementation_address := Some ''0xdddddddddddddddddddddddddddddddddddddddd'', cn_new_implementation_address := Some ''0xeeeeeeeeeeeeeeeeeeeeeeeeeeeeeeeeeeeeeeee''\<rparr>)]"
    (is "_ = ?templates")
    by (simp add: upgrade_attack_def template_simps)
  show "list_all (\<lambda>(ty, ctx). validation_errors ty ctx = []) ?templates" by (simp add: validation_simps)
  fix results
  assume run: "execute_attack clk H (upgrade_attack H) = Some (Inr results)"
    and unmet: "unmet_expectations (upgrade_attack H) results = xo_signal ` set (at_expected_evidence (upgrade_attack H)) -
      (\<Union>(ty, ctx) \<in> set ?templates. after_last CHR '':'' ` simulated_ids ty ctx)"
  have "unmet_expectations (upgrade_attack H) results = {}"
    unfolding unmet using upgrade_differs by (simp add: upgrade_attack_def outcome_def signal_simps or_text_def del: lower_simps)
  with run show ?thesis by blast
qed

lemma capture_run:
  "\<exists>results. execute_attack clk H (governance_capture H) = Some (Inr results) \<and> unmet_expectations (governance_capture H) results = {}"
proof (rule attack_run [of "governance_capture H"])
  show "map (\<lambda>s. (sz_scenario_type s, sz_context s)) (at_scenarios (governance_capture H)) =
     [(ScnOwnershipTransfer, base_context\<lparr>cn_owner_address := Some ''0x2222222222222222222222222222222222222222'', cn_new_owner_address := Some ''0xaaaaaaaaaaaaaaaaaaaaaaaaaaaaaaaaaaaaaaaa''\<rparr>),
      (ScnGovernanceExecution, base_context\<lparr>cn_governor_address := Some ''0x1111111111111111111111111111111111111111'', cn_recipient_address := Some ''0x3333333333333333333333333333333333333333'', cn_token_address := Some ''0x4444444444444444444444444444444444444444'', cn_treasury_address := Some ''0x5555555555555555555555555555555555555555''\<rparr>)]"
    (is "_ = ?templates")
    by (simp add: governance_capture_def template_simps)
  show "list_all (\<lambda>(ty, ctx). validation_errors ty ctx = []) ?templates" by (simp add: validation_simps)
  fix results
  assume run: "execute_attack clk H (governance_capture H) = Some (Inr results)"
    and unmet: "unmet_expectations (governance_capture H) results = xo_signal ` set (at_expected_evidence (governance_capture H)) -
      (\<Union>(ty, ctx) \<in> set ?templates. after_last CHR '':'' ` simulated_ids ty ctx)"
  have "unmet_expectations (governance_capture H) results = {}"
    unfolding unmet by (simp add: governance_capture_def outcome_def signal_simps or_text_def del: lower_simps)
  with run show ?thesis by blast
qed

lemma drain_run:
  "\<exists>results. execute_attack clk H (treasury_drain H) = Some (Inr results) \<and> unmet_expectations (treasury_drain H) results = {}"
proof (rule attack_run [of "treasury_drain H"])
  show "map (\<lambda>s. (sz_scenario_type s, sz_context s)) (at_scenarios (treasury_drain H)) =
     [(ScnUnlimitedApproval, base_context\<lparr>cn_token_address := Some ''0x4444444444444444444444444444444444444444'', cn_actor_address := ''0x5555555555555555555555555555555555555555'', cn_spender_address := Some ''0xaaaaaaaaaaaaaaaaaaaaaaaaaaaaaaaaaaaaaaaa''\<rparr>)]"
    (is "_ = ?templates")
    by (simp add: treasury_drain_def template_simps)
  show "list_all (\<lambda>(ty, ctx). validation_errors ty ctx = []) ?templates" by (simp add: validation_simps)
  fix results
  assume run: "execute_attack clk H (treasury_drain H) = Some (Inr results)"
    and unmet: "unmet_expectations (treasury_drain H) results = xo_signal ` set (at_expected_evidence (treasury_drain H)) -
      (\<Union>(ty, ctx) \<in> set ?templates. after_last CHR '':'' ` simulated_ids ty ctx)"
  have "unmet_expectations (treasury_drain H) results = {}"
    unfolding unmet by (simp add: treasury_drain_def outcome_def signal_simps or_text_def del: lower_simps)
  with run show ?thesis by blast
qed

lemma mint_run:
  "\<exists>results. execute_attack clk H (unlimited_mint_attack H) = Some (Inr results) \<and> unmet_expectations (unlimited_mint_attack H) results = {''supply_mint''}"
proof (rule attack_run [of "unlimited_mint_attack H"])
  show "map (\<lambda>s. (sz_scenario_type s, sz_context s)) (at_scenarios (unlimited_mint_attack H)) =
     [(ScnUnlimitedMint, base_context\<lparr>cn_token_address := Some ''0x4444444444444444444444444444444444444444'', cn_recipient_address := Some ''0xaaaaaaaaaaaaaaaaaaaaaaaaaaaaaaaaaaaaaaaa''\<rparr>)]"
    (is "_ = ?templates")
    by (simp add: unlimited_mint_attack_def template_simps)
  show "list_all (\<lambda>(ty, ctx). validation_errors ty ctx = []) ?templates" by (simp add: validation_simps)
  fix results
  assume run: "execute_attack clk H (unlimited_mint_attack H) = Some (Inr results)"
    and unmet: "unmet_expectations (unlimited_mint_attack H) results = xo_signal ` set (at_expected_evidence (unlimited_mint_attack H)) -
      (\<Union>(ty, ctx) \<in> set ?templates. after_last CHR '':'' ` simulated_ids ty ctx)"
  have "unmet_expectations (unlimited_mint_attack H) results = {''supply_mint''}"
    unfolding unmet by (simp add: unlimited_mint_attack_def outcome_def signal_simps or_text_def del: lower_simps)
  with run show ?thesis by blast
qed

lemma approval_run:
  "\<exists>results. execute_attack clk H (unlimited_approval_attack H) = Some (Inr results) \<and> unmet_expectations (unlimited_approval_attack H) results = {}"
proof (rule attack_run [of "unlimited_approval_attack H"])
  show "map (\<lambda>s. (sz_scenario_type s, sz_context s)) (at_scenarios (unlimited_approval_attack H)) =
     [(ScnUnlimitedApproval, base_context\<lparr>cn_token_address := Some ''0x4444444444444444444444444444444444444444'', cn_actor_address := ''0x2222222222222222222222222222222222222222'', cn_spender_address := Some ''0xaaaaaaaaaaaaaaaaaaaaaaaaaaaaaaaaaaaaaaaa''\<rparr>)]"
    (is "_ = ?templates")
    by (simp add: unlimited_approval_attack_def template_simps)
  show "list_all (\<lambda>(ty, ctx). validation_errors ty ctx = []) ?templates" by (simp add: validation_simps)
  fix results
  assume run: "execute_attack clk H (unlimited_approval_attack H) = Some (Inr results)"
    and unmet: "unmet_expectations (unlimited_approval_attack H) results = xo_signal ` set (at_expected_evidence (unlimited_approval_attack H)) -
      (\<Union>(ty, ctx) \<in> set ?templates. after_last CHR '':'' ` simulated_ids ty ctx)"
  have "unmet_expectations (unlimited_approval_attack H) results = {}"
    unfolding unmet by (simp add: unlimited_approval_attack_def outcome_def signal_simps or_text_def del: lower_simps)
  with run show ?thesis by blast
qed

lemma oracle_run:
  "\<exists>results. execute_attack clk H (oracle_manipulation H) = Some (Inr results) \<and> unmet_expectations (oracle_manipulation H) results = {''simulated_oracle_manipulation''}"
proof (rule attack_run [of "oracle_manipulation H"])
  show "map (\<lambda>s. (sz_scenario_type s, sz_context s)) (at_scenarios (oracle_manipulation H)) =
     [(ScnTimelockReduction, base_context\<lparr>cn_contract_address := ''0x6666666666666666666666666666666666666666'', cn_timelock_address := Some ''0x6666666666666666666666666666666666666666''\<rparr>)]"
    (is "_ = ?templates")
    by (simp add: oracle_manipulation_def template_simps)
  show "list_all (\<lambda>(ty, ctx). validation_errors ty ctx = []) ?templates" by (simp add: validation_simps)
  fix results
  assume run: "execute_attack clk H (oracle_manipulation H) = Some (Inr results)"
    and unmet: "unmet_expectations (oracle_manipulation H) results = xo_signal ` set (at_expected_evidence (oracle_manipulation H)) -
      (\<Union>(ty, ctx) \<in> set ?templates. after_last CHR '':'' ` simulated_ids ty ctx)"
  have "unmet_expectations (oracle_manipulation H) results = {''simulated_oracle_manipulation''}"
    unfolding unmet by (simp add: oracle_manipulation_def outcome_def signal_simps or_text_def del: lower_simps)
  with run show ?thesis by blast
qed

lemma bridge_run:
  "\<exists>results. execute_attack clk H (bridge_compromise H) = Some (Inr results) \<and> unmet_expectations (bridge_compromise H) results = {}"
proof (rule attack_run [of "bridge_compromise H"])
  show "map (\<lambda>s. (sz_scenario_type s, sz_context s)) (at_scenarios (bridge_compromise H)) =
     [(ScnUnlimitedMint, base_context\<lparr>cn_contract_address := ''0x7777777777777777777777777777777777777777'', cn_token_address := Some ''0x7777777777777777777777777777777777777777'', cn_bridge_address := Some ''0x8888888888888888888888888888888888888888''\<rparr>)]"
    (is "_ = ?templates")
    by (simp add: bridge_compromise_def template_simps)
  show "list_all (\<lambda>(ty, ctx). validation_errors ty ctx = []) ?templates" by (simp add: validation_simps)
  fix results
  assume run: "execute_attack clk H (bridge_compromise H) = Some (Inr results)"
    and unmet: "unmet_expectations (bridge_compromise H) results = xo_signal ` set (at_expected_evidence (bridge_compromise H)) -
      (\<Union>(ty, ctx) \<in> set ?templates. after_last CHR '':'' ` simulated_ids ty ctx)"
  have "unmet_expectations (bridge_compromise H) results = {}"
    unfolding unmet by (simp add: bridge_compromise_def outcome_def signal_simps or_text_def del: lower_simps)
  with run show ?thesis by blast
qed

lemma escalation_run:
  "\<exists>results. execute_attack clk H (privilege_escalation H) = Some (Inr results) \<and> unmet_expectations (privilege_escalation H) results = {}"
proof (rule attack_run [of "privilege_escalation H"])
  show "map (\<lambda>s. (sz_scenario_type s, sz_context s)) (at_scenarios (privilege_escalation H)) =
     [(ScnOwnershipTransfer, base_context\<lparr>cn_owner_address := Some ''0x2222222222222222222222222222222222222222'', cn_new_owner_address := Some ''0xaaaaaaaaaaaaaaaaaaaaaaaaaaaaaaaaaaaaaaaa''\<rparr>)]"
    (is "_ = ?templates")
    by (simp add: privilege_escalation_def template_simps)
  show "list_all (\<lambda>(ty, ctx). validation_errors ty ctx = []) ?templates" by (simp add: validation_simps)
  fix results
  assume run: "execute_attack clk H (privilege_escalation H) = Some (Inr results)"
    and unmet: "unmet_expectations (privilege_escalation H) results = xo_signal ` set (at_expected_evidence (privilege_escalation H)) -
      (\<Union>(ty, ctx) \<in> set ?templates. after_last CHR '':'' ` simulated_ids ty ctx)"
  have "unmet_expectations (privilege_escalation H) results = {}"
    unfolding unmet by (simp add: privilege_escalation_def outcome_def signal_simps or_text_def del: lower_simps)
  with run show ?thesis by blast
qed

text \<open>
  Property C20. Every attack of the library runs to the end, and its simulations predict every piece of
  evidence the library says to expect, with two exceptions: the mint attack never predicts
  \<open>supply_mint\<close> (its amount counts as an inflation instead) and the oracle attack never predicts
  \<open>simulated_oracle_manipulation\<close> (it is simulated as a timelock reduction).
\<close>

theorem attack_expectations:
  "\<exists>results. execute_by_type clk H ty = Some (Inr results) \<and>
     unmet_expectations (the (map_of (attack_library H) ty)) results =
       (case ty of
          AtkUnlimitedMint \<Rightarrow> {''supply_mint''}
        | AtkOracleManipulation \<Rightarrow> {''simulated_oracle_manipulation''}
        | _ \<Rightarrow> {})"
proof -
  have lib: "map_of (attack_library H) ty = Some (case ty of
          AtkUpgrade \<Rightarrow> upgrade_attack H | AtkGovernanceCapture \<Rightarrow> governance_capture H
        | AtkTreasuryDrain \<Rightarrow> treasury_drain H | AtkUnlimitedMint \<Rightarrow> unlimited_mint_attack H
        | AtkUnlimitedApproval \<Rightarrow> unlimited_approval_attack H
        | AtkOracleManipulation \<Rightarrow> oracle_manipulation H | AtkBridgeCompromise \<Rightarrow> bridge_compromise H
        | AtkPrivilegeEscalation \<Rightarrow> privilege_escalation H)"
    by (cases ty) (simp_all add: attack_library_def)
  show ?thesis
    unfolding execute_by_type_def lib option.case option.sel
    by (cases ty) (simp_all only: AttackType.case upgrade_run capture_run drain_run mint_run approval_run
        oracle_run bridge_run escalation_run)
qed

end
