(* ===== verification/Transaction.thy ===== *)
theory Transaction
  imports StateAnalysis
begin

text \<open>
  Transactions (\<open>runtime/transaction/\<close>): the models (\<open>models.py\<close>), the decoder of transaction envelopes
  (\<open>decoder.py\<close>), the table of function selectors (\<open>selector_registry.py\<close>) and the decoding of calldata
  (\<open>abi_decoder.py\<close>). A raw transaction holds values of JSON; \<open>HexBytes\<close> objects are not modelled. The
  ABI decoder \<open>eth_abi.decode\<close>, the text of a keccak hash and the provider of verified sources are
  parameters.
\<close>

section \<open>Models (models.py)\<close>

datatype TransactionFormat = FormatLegacy | FormatEip1559 | FormatCreation

datatype TransactionCategory =
    TxSwap | TxLiquidity | TxBridge | TxGovernance | TxUpgrade | TxTreasury | TxApproval | TxFlashLoan
  | TxDeployment | TxMint | TxBurn | TxTransfer | TxUnknown

primrec tx_category_value :: "TransactionCategory \<Rightarrow> string" where
  "tx_category_value TxSwap = ''swap''"
| "tx_category_value TxLiquidity = ''liquidity''"
| "tx_category_value TxBridge = ''bridge''"
| "tx_category_value TxGovernance = ''governance''"
| "tx_category_value TxUpgrade = ''upgrade''"
| "tx_category_value TxTreasury = ''treasury''"
| "tx_category_value TxApproval = ''approval''"
| "tx_category_value TxFlashLoan = ''flash_loan''"
| "tx_category_value TxDeployment = ''deployment''"
| "tx_category_value TxMint = ''mint''"
| "tx_category_value TxBurn = ''burn''"
| "tx_category_value TxTransfer = ''transfer''"
| "tx_category_value TxUnknown = ''unknown''"

datatype TokenStandard = StdNative | StdErc20 | StdErc721 | StdErc1155

datatype ApprovalKind = KindApprove | KindPermit | KindSetApprovalForAll

primrec approval_kind_value :: "ApprovalKind \<Rightarrow> string" where
  "approval_kind_value KindApprove = ''approve''"
| "approval_kind_value KindPermit = ''permit''"
| "approval_kind_value KindSetApprovalForAll = ''setApprovalForAll''"

datatype PrivilegedOperation =
    PrivUpgradeTo | PrivUpgradeToAndCall | PrivSetImplementation | PrivPause | PrivUnpause | PrivMint
  | PrivBurn | PrivTransferOwnership | PrivGrantRole | PrivRevokeRole

primrec operation_value :: "PrivilegedOperation \<Rightarrow> string" where
  "operation_value PrivUpgradeTo = ''upgradeTo''"
| "operation_value PrivUpgradeToAndCall = ''upgradeToAndCall''"
| "operation_value PrivSetImplementation = ''setImplementation''"
| "operation_value PrivPause = ''pause''"
| "operation_value PrivUnpause = ''unpause''"
| "operation_value PrivMint = ''mint''"
| "operation_value PrivBurn = ''burn''"
| "operation_value PrivTransferOwnership = ''transferOwnership''"
| "operation_value PrivGrantRole = ''grantRole''"
| "operation_value PrivRevokeRole = ''revokeRole''"

record TransactionMetadata =
  xm_transaction_hash :: string
  xm_chain_id :: "int option"
  xm_from_address :: string
  xm_to_address :: "string option"
  xm_value_wei :: int
  xm_nonce :: int
  xm_gas :: int
  xm_gas_price_wei :: "int option"
  xm_max_fee_per_gas_wei :: "int option"
  xm_max_priority_fee_per_gas_wei :: "int option"
  xm_transaction_format :: TransactionFormat
  xm_block_number :: "int option"
  xm_input_size :: nat

text \<open>
  The values of decoded arguments. \<open>abi_value\<close> is what the ABI decoder returns (addresses are texts);
  \<open>arg_value\<close> is what \<open>_normalize_value\<close> leaves of it, where bytes have become texts.
\<close>

datatype abi_value =
    AbiInt int
  | AbiBool bool
  | AbiDec decimal
  | AbiStr string
  | AbiBytes "byte list"
  | AbiTuple "abi_value list"

datatype arg_value =
    ArgInt int
  | ArgBool bool
  | ArgDec decimal
  | ArgStr string
  | ArgTuple "arg_value list"

record DecodedArgument =
  xa_name :: string
  xa_value :: arg_value
  xa_solidity_type :: string

record DecodedFunction =
  xf_selector :: string
  xf_function_name :: string
  xf_signature :: "string option"
  xf_arguments :: "DecodedArgument list"
  xf_decode_source :: string
  xf_raw_calldata :: "byte list"

record TokenTransfer =
  xk_standard :: TokenStandard
  xk_from_address :: string
  xk_to_address :: string
  xk_amount :: "int option"
  xk_token_address :: "string option"
  xk_token_id :: "int option"
  xk_operator :: "string option"

record ApprovalFinding =
  xp_kind :: ApprovalKind
  xp_token_address :: string
  xp_owner_address :: string
  xp_spender_address :: string
  xp_amount :: "int option"
  xp_is_unlimited :: bool
  xp_is_infinite_allowance :: bool
  xp_spender_risk_indicators :: "string list"

record PrivilegedAction =
  xv_operation :: PrivilegedOperation
  xv_contract_address :: string
  xv_actor_address :: string
  xv_target_address :: "string option"
  xv_role :: "string option"
  xv_amount :: "int option"
  xv_is_large_transfer :: bool

record TransactionIntelligence =
  xi_metadata :: TransactionMetadata
  xi_decoded_function :: "DecodedFunction option"
  xi_token_transfers :: "TokenTransfer list"
  xi_approvals :: "ApprovalFinding list"
  xi_privileged_actions :: "PrivilegedAction list"
  xi_category :: TransactionCategory
  xi_risk_evidence :: "RiskEvidence list"

section \<open>Envelopes (decoder.py)\<close>

text \<open>\<open>text if text.startswith("0x") else f"0x{text}"\<close>.\<close>

definition with_0x :: "string \<Rightarrow> string" where
  "with_0x s = (if prefix ''0x'' s then s else ''0x'' @ s)"

definition tx_hash_text :: "pyval \<Rightarrow> string" where
  "tx_hash_text v = (case v of PyNone \<Rightarrow> ''0x'' @ replicate 64 CHR ''0'' | _ \<Rightarrow> with_0x (lower (py_str v)))"

definition tx_address :: "pyval \<Rightarrow> string result" where
  "tx_address v =
     (case v of
        PyNone \<Rightarrow> Inl (ValueError ''transaction missing from address'')
      | _ \<Rightarrow> Inr (with_0x (lower (py_str v))))"

definition tx_optional_address :: "pyval \<Rightarrow> string option" where
  "tx_optional_address v =
     (case v of
        PyNone \<Rightarrow> None
      | _ \<Rightarrow>
          (let address = with_0x (lower (py_str v))
           in if address \<in> {''0x'', ''0x0'', ''0x0000000000000000000000000000000000000000''} then None
              else Some address))"

fun tx_int :: "int \<Rightarrow> pyval \<Rightarrow> int result" where
  "tx_int dflt PyNone = Inr dflt"
| "tx_int dflt (PyStr s) = (if prefix ''0x'' s then parse_hex (drop 2 s) else py_int (PyStr s))"
| "tx_int dflt (PyList xs) = Inr dflt"
| "tx_int dflt (PyDict d) = Inr dflt"
| "tx_int dflt v = py_int v"

definition tx_optional_int :: "pyval \<Rightarrow> int option result" where
  "tx_optional_int v = (case v of PyNone \<Rightarrow> Inr None | _ \<Rightarrow> bindR (tx_int 0 v) (\<lambda>i. Inr (Some i)))"

definition tx_bytes :: "pyval \<Rightarrow> byte list result" where
  "tx_bytes v =
     (case v of
        PyNone \<Rightarrow> Inr []
      | _ \<Rightarrow>
         (let s = py_str v
          in if s \<in> {[], ''0x'', ''0X''} then Inr []
             else (case bytes_fromhex (if prefix ''0x'' s then drop 2 s else s) of
                     None \<Rightarrow> Inl (ValueError ''non-hexadecimal number found in fromhex() arg'')
                   | Some bs \<Rightarrow> Inr bs)))"

definition extract_calldata :: "metadata \<Rightarrow> byte list result" where
  "extract_calldata raw = tx_bytes (py_or (py_get raw ''input'') (py_get raw ''data''))"

definition transaction_format :: "string option \<Rightarrow> int \<Rightarrow> int option \<Rightarrow> TransactionFormat" where
  "transaction_format to_address tx_type max_fee =
     (if to_address = None then FormatCreation
      else if tx_type = 2 \<or> max_fee \<noteq> None then FormatEip1559
      else FormatLegacy)"

definition decode_transaction :: "metadata \<Rightarrow> TransactionMetadata result" where
  "decode_transaction raw =
     bindR (tx_address (py_or (py_get raw ''from'') (py_get raw ''fromAddress''))) (\<lambda>from_address.
     bindR (tx_int 0 (py_get raw ''value'')) (\<lambda>value_wei.
     bindR (tx_int 0 (py_get raw ''nonce'')) (\<lambda>nonce.
     bindR (tx_int 0 (py_get raw ''gas'')) (\<lambda>gas.
     bindR (tx_optional_int (py_get raw ''gasPrice'')) (\<lambda>gas_price.
     bindR (tx_optional_int (py_get raw ''maxFeePerGas'')) (\<lambda>max_fee.
     bindR (tx_optional_int (py_get raw ''maxPriorityFeePerGas'')) (\<lambda>max_priority.
     bindR (tx_optional_int (py_get raw ''chainId'')) (\<lambda>chain_id.
     bindR (tx_optional_int (py_get raw ''blockNumber'')) (\<lambda>block_number.
     bindR (extract_calldata raw) (\<lambda>calldata.
     bindR (tx_int 0 (py_get raw ''type'')) (\<lambda>tx_type.
       let to_address = tx_optional_address (py_get raw ''to'')
       in Inr \<lparr>xm_transaction_hash = tx_hash_text (py_get raw ''hash''),
               xm_chain_id = chain_id,
               xm_from_address = from_address,
               xm_to_address = to_address,
               xm_value_wei = value_wei,
               xm_nonce = nonce,
               xm_gas = gas,
               xm_gas_price_wei = gas_price,
               xm_max_fee_per_gas_wei = max_fee,
               xm_max_priority_fee_per_gas_wei = max_priority,
               xm_transaction_format = transaction_format to_address tx_type max_fee,
               xm_block_number = block_number,
               xm_input_size = length calldata\<rparr>)))))))))))"

section \<open>Selectors (selector\_registry.py)\<close>

record SelectorEntry =
  xe_selector :: string
  xe_function_name :: string
  xe_signature :: string
  xe_category :: "TransactionCategory option"

definition known :: "string \<Rightarrow> string \<Rightarrow> string \<Rightarrow> TransactionCategory \<Rightarrow> string \<times> SelectorEntry" where
  "known selector name parameters category =
     (selector, \<lparr>xe_selector = selector, xe_function_name = name,
        xe_signature = name @ ''('' @ parameters @ '')'', xe_category = Some category\<rparr>)"

definition selector_registry :: "(string, SelectorEntry) dict" where
  "selector_registry =
    [known ''095ea7b3'' ''approve'' ''address,uint256'' TxApproval,
     known ''d505accf'' ''permit'' ''address,address,uint256,uint256,uint8,bytes32,bytes32'' TxApproval,
     known ''a22cb465'' ''setApprovalForAll'' ''address,bool'' TxApproval,
     known ''a9059cbb'' ''transfer'' ''address,uint256'' TxTransfer,
     known ''23b872dd'' ''transferFrom'' ''address,address,uint256'' TxTransfer,
     known ''42842e0e'' ''safeTransferFrom'' ''address,address,uint256'' TxTransfer,
     known ''b88d4fde'' ''safeTransferFrom'' ''address,address,uint256,bytes'' TxTransfer,
     known ''f242432a'' ''safeTransferFrom'' ''address,address,uint256,uint256,bytes'' TxTransfer,
     known ''2eb2c2d6'' ''safeBatchTransferFrom'' ''address,address,uint256[],uint256[],bytes'' TxTransfer,
     known ''3659cfe6'' ''upgradeTo'' ''address'' TxUpgrade,
     known ''4f1ef286'' ''upgradeToAndCall'' ''address,bytes'' TxUpgrade,
     known ''9ded06df'' ''setImplementation'' ''address'' TxUpgrade,
     known ''8456cb59'' ''pause'' [] TxGovernance,
     known ''3f4ba83a'' ''unpause'' [] TxGovernance,
     known ''40c10f19'' ''mint'' ''address,uint256'' TxMint,
     known ''a0712d68'' ''mint'' ''uint256'' TxMint,
     known ''42966c68'' ''burn'' ''uint256'' TxBurn,
     known ''79cc6790'' ''burnFrom'' ''address,uint256'' TxBurn,
     known ''f2fde38b'' ''transferOwnership'' ''address'' TxGovernance,
     known ''715018a6'' ''renounceOwnership'' [] TxGovernance,
     known ''2f2ff15d'' ''grantRole'' ''bytes32,address'' TxGovernance,
     known ''d547741f'' ''revokeRole'' ''bytes32,address'' TxGovernance,
     known ''0121a88c'' ''propose'' ''address[],uint256[],string[],bytes[]'' TxGovernance,
     known ''56781388'' ''castVote'' ''uint256,uint8'' TxGovernance,
     known ''fe0d94c1'' ''execute'' ''address[],uint256[],bytes[],bytes32'' TxGovernance,
     known ''f2a0ba21'' ''schedule'' ''address,uint256,bytes,bytes32,bytes32,uint256'' TxGovernance,
     known ''7ff36ab5'' ''swapExactETHForTokens'' ''uint256,address[],address,uint256'' TxSwap,
     known ''38ed1739'' ''swapExactTokensForTokens'' ''uint256,uint256,address[],address,uint256'' TxSwap,
     known ''791ac947'' ''swapExactTokensForETH'' ''uint256,uint256,address[],address,uint256'' TxSwap,
     known ''b6f9de95'' ''swapExactETHForTokensSupportingFeeOnTransferTokens'' ''uint256,address[],address,uint256''
       TxSwap,
     known ''e8e33700'' ''addLiquidity'' ''address,address,uint256,uint256,uint256,uint256,address,uint256''
       TxLiquidity,
     known ''baa2abde'' ''removeLiquidity'' ''address,address,uint256,uint256,uint256,address,uint256'' TxLiquidity,
     known ''5cffe9de'' ''sendMessage'' ''uint16,bytes,uint256,address,address,bytes'' TxBridge,
     known ''c4d66de8'' ''initialize'' ''address'' TxDeployment]"

text \<open>\<open>SelectorRegistry(entries)\<close>: no or no entries means the table above.\<close>

definition make_registry :: "(string, SelectorEntry) dict option \<Rightarrow> (string, SelectorEntry) dict" where
  "make_registry entries =
     (case entries of None \<Rightarrow> selector_registry | Some es \<Rightarrow> if es = [] then selector_registry else es)"

definition lookup_selector :: "(string, SelectorEntry) dict \<Rightarrow> string \<Rightarrow> SelectorEntry option" where
  "lookup_selector entries selector =
     (let normalized = removeprefix ''0x'' (lower selector)
      in if length normalized < 8 then None else map_of entries (take 8 normalized))"

definition all_entries :: "(string, SelectorEntry) dict \<Rightarrow> SelectorEntry list" where
  "all_entries entries = sort_key xe_selector (dict_values entries)"

section \<open>Calldata (abi\_decoder.py)\<close>

type_synonym abi_decoder = "string list \<Rightarrow> byte list \<Rightarrow> abi_value list result"

record ContractMetadata =
  mx_contract_name :: string
  mx_compiler_version :: "string option"
  mx_optimization_enabled :: "bool option"
  mx_optimization_runs :: "int option"
  mx_evm_version :: "string option"
  mx_license_type :: "string option"
  mx_is_proxy :: bool
  mx_implementation_address :: "string option"
  mx_runs :: "string option"
  mx_constructor_arguments :: "string option"
  mx_library :: "string option"
  mx_swarm_source :: "string option"

record VerifiedContractSource =
  vs_contract_name :: string
  vs_source_code :: string
  vs_abi :: "pyval list option"
  vs_is_proxy :: bool
  vs_implementation_address :: "string option"
  vs_compiler_version :: "string option"
  vs_metadata :: "ContractMetadata option"

type_synonym source_provider = "string \<Rightarrow> int \<Rightarrow> VerifiedContractSource option result"

definition null_source_provider :: source_provider where
  "null_source_provider contract_address chain_id = Inr None"

fun normalize_value :: "abi_value \<Rightarrow> arg_value" where
  "normalize_value (AbiBytes bs) =
     ArgStr (''0x'' @ hex_bytes (if length bs = 32 then last_n 20 bs else bs))"
| "normalize_value (AbiTuple vs) = ArgTuple (map normalize_value vs)"
| "normalize_value (AbiInt i) = ArgInt i"
| "normalize_value (AbiBool b) = ArgBool b"
| "normalize_value (AbiDec d) = ArgDec d"
| "normalize_value (AbiStr s) = ArgStr s"

text \<open>\<open>item.get("type")\<close> of the inputs of an ABI entry, and \<open>inputs\<close> as dictionaries.\<close>

fun abi_input :: "pyval \<Rightarrow> metadata result" where
  "abi_input (PyDict d) = Inr d"
| "abi_input v = Inl (AttributeError ''get'')"

definition input_types :: "metadata list \<Rightarrow> string list" where
  "input_types inputs =
     map (\<lambda>d. py_str (py_get d ''type'')) (filter (\<lambda>d. py_truthy (py_get d ''type'')) inputs)"

definition input_names :: "metadata list \<Rightarrow> string list" where
  "input_names inputs =
     map (\<lambda>(index, d). py_str (py_or (py_get d ''name'') (PyStr (''arg'' @ nat_digits index)))) (enumerate 0 inputs)"

definition function_signature :: "string \<Rightarrow> metadata list \<Rightarrow> string" where
  "function_signature name inputs = name @ ''('' @ join '','' (input_types inputs) @ '')''"

text \<open>\<open>xs[index]\<close> for an index that is not negative.\<close>

definition item_at :: "'a list \<Rightarrow> nat \<Rightarrow> 'a result" where
  "item_at xs i = (if i < length xs then Inr (xs ! i) else Inl (IndexError ''list index out of range''))"

definition abi_arguments ::
  "abi_decoder \<Rightarrow> metadata list \<Rightarrow> byte list \<Rightarrow> DecodedArgument list result" where
  "abi_arguments abi_decode inputs payload =
     (let arg_types = input_types inputs; arg_names = input_names inputs
      in bindR (if arg_types \<noteq> [] \<and> payload \<noteq> [] then abi_decode arg_types payload else Inr []) (\<lambda>decoded_values.
         mapR (\<lambda>(index, value).
             bindR (item_at arg_names index) (\<lambda>name.
             bindR (item_at arg_types index) (\<lambda>ty.
               Inr \<lparr>xa_name = name, xa_value = normalize_value value, xa_solidity_type = ty\<rparr>)))
           (enumerate 0 decoded_values)))"

text \<open>The first function of the ABI whose hashed signature starts with the selector.\<close>

fun decode_with_abi ::
  "abi_decoder \<Rightarrow> (string \<Rightarrow> string) \<Rightarrow> pyval list \<Rightarrow> string \<Rightarrow> byte list \<Rightarrow> byte list \<Rightarrow>
   DecodedFunction option result" where
  "decode_with_abi abi_decode keccak_hex [] selector payload raw_calldata = Inr None"
| "decode_with_abi abi_decode keccak_hex (v # rest) selector payload raw_calldata =
     bindR (abi_input v) (\<lambda>entry.
       if py_get entry ''type'' \<noteq> PyStr ''function''
       then decode_with_abi abi_decode keccak_hex rest selector payload raw_calldata
       else (case py_get entry ''name'' of
               PyStr name \<Rightarrow>
                 bindR (py_iter (py_or (py_get entry ''inputs'') (PyList []))) (\<lambda>items.
                 bindR (mapR abi_input items) (\<lambda>inputs.
                   let signature = function_signature name inputs
                   in if take 8 (keccak_hex signature) \<noteq> selector
                      then decode_with_abi abi_decode keccak_hex rest selector payload raw_calldata
                      else bindR (abi_arguments abi_decode inputs payload) (\<lambda>arguments.
                             Inr (Some \<lparr>xf_selector = selector, xf_function_name = name,
                                        xf_signature = Some signature, xf_arguments = arguments,
                                        xf_decode_source = ''verified_abi'', xf_raw_calldata = raw_calldata\<rparr>))))
             | _ \<Rightarrow> decode_with_abi abi_decode keccak_hex rest selector payload raw_calldata))"

text \<open>\<open>s.split(sep)\<close> for a separator of one character.\<close>

fun split_on :: "char \<Rightarrow> string \<Rightarrow> string list" where
  "split_on sep [] = [[]]"
| "split_on sep (c # s) =
     (if c = sep then [] # split_on sep s
      else (case split_on sep s of [] \<Rightarrow> [[c]] | part # parts \<Rightarrow> (c # part) # parts))"

text \<open>The types between the first parenthesis and the last character.\<close>

definition signature_types :: "string \<Rightarrow> string list" where
  "signature_types signature =
     (case after_first CHR ''('' signature of
        None \<Rightarrow> []
      | Some rest \<Rightarrow> (if butlast rest = [] then [] else map strip (split_on CHR '','' (butlast rest))))"

definition decode_with_signature :: "abi_decoder \<Rightarrow> string \<Rightarrow> byte list \<Rightarrow> DecodedArgument list" where
  "decode_with_signature abi_decode signature payload =
     (if signature = [] \<or> payload = [] then []
      else (let arg_types = signature_types signature
            in if arg_types = [] then []
               else (case abi_decode arg_types payload of
                       Inl e \<Rightarrow> []
                     | Inr decoded_values \<Rightarrow>
                         map (\<lambda>(index, (arg_type, value)).
                             \<lparr>xa_name = ''arg'' @ nat_digits index, xa_value = normalize_value value,
                              xa_solidity_type = arg_type\<rparr>)
                           (enumerate 0 (zip arg_types decoded_values)))))"

definition decode_from_registry ::
  "abi_decoder \<Rightarrow> (string, SelectorEntry) dict \<Rightarrow> byte list \<Rightarrow> DecodedFunction" where
  "decode_from_registry abi_decode registry calldata =
     (let selector = hex_bytes (take 4 calldata)
      in case lookup_selector registry selector of
           None \<Rightarrow>
             \<lparr>xf_selector = selector, xf_function_name = ''unknown'', xf_signature = None, xf_arguments = [],
              xf_decode_source = ''selector_unknown'', xf_raw_calldata = calldata\<rparr>
         | Some entry \<Rightarrow>
             \<lparr>xf_selector = selector, xf_function_name = xe_function_name entry,
              xf_signature = Some (xe_signature entry),
              xf_arguments = decode_with_signature abi_decode (xe_signature entry) (drop 4 calldata),
              xf_decode_source = ''selector_registry'', xf_raw_calldata = calldata\<rparr>)"

definition decode_call ::
  "abi_decoder \<Rightarrow> (string \<Rightarrow> string) \<Rightarrow> source_provider \<Rightarrow> (string, SelectorEntry) dict \<Rightarrow>
   string option \<Rightarrow> byte list \<Rightarrow> int \<Rightarrow> DecodedFunction option result" where
  "decode_call abi_decode keccak_hex get_verified_source registry contract_address calldata chain_id =
     (if length calldata < 4 then Inr None
      else bindR
             (case contract_address of
                None \<Rightarrow> Inr None
              | Some address \<Rightarrow>
                  (if address = [] then Inr None
                   else bindR (get_verified_source address chain_id) (\<lambda>verified.
                     case Option.bind verified vs_abi of
                       None \<Rightarrow> Inr None
                     | Some abi \<Rightarrow>
                         decode_with_abi abi_decode keccak_hex abi (hex_bytes (take 4 calldata)) (drop 4 calldata)
                           calldata)))
             (\<lambda>decoded.
               case decoded of
                 Some f \<Rightarrow> Inr (Some f)
               | None \<Rightarrow> Inr (Some (decode_from_registry abi_decode registry calldata))))"

end
