(* ===== verification/TransactionAnalysis.thy ===== *)
theory TransactionAnalysis
  imports Transaction
begin

text \<open>
  Analysis of decoded transactions (\<open>runtime/transaction/\<close>): transfers (\<open>transfer_analyzer.py\<close>), approvals
  (\<open>approval_analyzer.py\<close>), privileged operations (\<open>privilege_analyzer.py\<close>), the classifier
  (\<open>transaction_classifier.py\<close>), evidence and the engine (\<open>transaction_intelligence.py\<close>). Python counts
  \<open>True\<close> and \<open>False\<close> as integers; an amount that is one of them is represented by 1 or 0.
\<close>

section \<open>Argument values\<close>

text \<open>\<open>repr(v)\<close> and \<open>str(v)\<close>; a tuple of one element is written with a comma.\<close>

fun arg_repr :: "arg_value \<Rightarrow> string" where
  "arg_repr (ArgInt i) = int_str i"
| "arg_repr (ArgBool b) = (if b then ''True'' else ''False'')"
| "arg_repr (ArgDec d) = ''Decimal('' @ repr_str (dec_str d) @ '')''"
| "arg_repr (ArgStr s) = repr_str s"
| "arg_repr (ArgTuple vs) =
     ''('' @ join '', '' (map arg_repr vs) @ (if length vs = 1 then '',)'' else '')'')"

definition arg_str :: "arg_value \<Rightarrow> string" where
  "arg_str v = (case v of ArgStr s \<Rightarrow> s | ArgDec d \<Rightarrow> dec_str d | _ \<Rightarrow> arg_repr v)"

fun arg_truthy :: "arg_value \<Rightarrow> bool" where
  "arg_truthy (ArgInt i) = (i \<noteq> 0)"
| "arg_truthy (ArgBool b) = b"
| "arg_truthy (ArgDec d) = (dec_coeff d \<noteq> 0)"
| "arg_truthy (ArgStr s) = (s \<noteq> [])"
| "arg_truthy (ArgTuple vs) = (vs \<noteq> [])"

fun coerce_int :: "arg_value \<Rightarrow> int result" where
  "coerce_int (ArgInt i) = Inr i"
| "coerce_int (ArgBool b) = Inr (if b then 1 else 0)"
| "coerce_int (ArgStr s) = (if prefix ''0x'' s then parse_hex (drop 2 s) else py_int (PyStr s))"
| "coerce_int (ArgDec d) = Inr (dec_trunc d)"
| "coerce_int (ArgTuple vs) = Inl (TypeError ''int() argument'')"

text \<open>\<open>decoded_function.arguments[i].value\<close>.\<close>

definition arg_at :: "DecodedFunction \<Rightarrow> nat \<Rightarrow> arg_value result" where
  "arg_at f i =
     (if i < length (xf_arguments f) then Inr (xa_value (xf_arguments f ! i))
      else Inl (IndexError ''tuple index out of range''))"

section \<open>Transfers (transfer\_analyzer.py)\<close>

definition native_transfers :: "TransactionMetadata \<Rightarrow> TokenTransfer list" where
  "native_transfers m =
     (if xm_value_wei m > 0
      then [\<lparr>xk_standard = StdNative, xk_from_address = xm_from_address m,
             xk_to_address = or_text (xm_to_address m) (xm_from_address m),
             xk_amount = Some (xm_value_wei m), xk_token_address = None, xk_token_id = None,
             xk_operator = None\<rparr>]
      else [])"

definition token_transfer ::
  "TransactionMetadata \<Rightarrow> TokenStandard \<Rightarrow> string \<Rightarrow> string \<Rightarrow> int option \<Rightarrow> int option \<Rightarrow> string option \<Rightarrow>
   TokenTransfer" where
  "token_transfer m standard sender recipient amount token_id operator =
     \<lparr>xk_standard = standard, xk_from_address = sender, xk_to_address = recipient, xk_amount = amount,
      xk_token_address = xm_to_address m, xk_token_id = token_id, xk_operator = operator\<rparr>"

definition erc20_transfer :: "TransactionMetadata \<Rightarrow> DecodedFunction \<Rightarrow> TokenTransfer list result" where
  "erc20_transfer m f =
     bindR (arg_at f 0) (\<lambda>recipient. bindR (arg_at f 1) (\<lambda>v. bindR (coerce_int v) (\<lambda>amount.
       Inr [token_transfer m StdErc20 (xm_from_address m) (arg_str recipient) (Some amount) None None])))"

definition erc20_transfer_from :: "TransactionMetadata \<Rightarrow> DecodedFunction \<Rightarrow> TokenTransfer list result" where
  "erc20_transfer_from m f =
     bindR (arg_at f 0) (\<lambda>sender. bindR (arg_at f 1) (\<lambda>recipient. bindR (arg_at f 2) (\<lambda>v.
     bindR (coerce_int v) (\<lambda>amount.
       Inr [token_transfer m StdErc20 (arg_str sender) (arg_str recipient) (Some amount) None
              (Some (xm_from_address m))]))))"

definition erc721_transfer :: "TransactionMetadata \<Rightarrow> DecodedFunction \<Rightarrow> TokenTransfer list result" where
  "erc721_transfer m f =
     bindR (arg_at f 0) (\<lambda>sender. bindR (arg_at f 1) (\<lambda>recipient. bindR (arg_at f 2) (\<lambda>v.
     bindR (coerce_int v) (\<lambda>token_id.
       Inr [token_transfer m StdErc721 (arg_str sender) (arg_str recipient) None (Some token_id)
              (Some (xm_from_address m))]))))"

definition erc1155_transfer :: "TransactionMetadata \<Rightarrow> DecodedFunction \<Rightarrow> TokenTransfer list result" where
  "erc1155_transfer m f =
     bindR (arg_at f 0) (\<lambda>sender. bindR (arg_at f 1) (\<lambda>recipient. bindR (arg_at f 2) (\<lambda>v. bindR (arg_at f 3) (\<lambda>w.
     bindR (coerce_int v) (\<lambda>token_id. bindR (coerce_int w) (\<lambda>amount.
       Inr [token_transfer m StdErc1155 (arg_str sender) (arg_str recipient) (Some amount) (Some token_id)
              (Some (xm_from_address m))]))))))"

definition erc1155_batch :: "TransactionMetadata \<Rightarrow> DecodedFunction \<Rightarrow> TokenTransfer list result" where
  "erc1155_batch m f =
     bindR (arg_at f 0) (\<lambda>sender. bindR (arg_at f 1) (\<lambda>recipient. bindR (arg_at f 2) (\<lambda>ids. bindR (arg_at f 3) (\<lambda>amounts.
       case (ids, amounts) of
         (ArgTuple vs, ArgTuple ws) \<Rightarrow>
           mapR (\<lambda>(v, w). bindR (coerce_int w) (\<lambda>amount. bindR (coerce_int v) (\<lambda>token_id.
               Inr (token_transfer m StdErc1155 (arg_str sender) (arg_str recipient) (Some amount)
                      (Some token_id) (Some (xm_from_address m))))))
             (zip vs ws)
       | _ \<Rightarrow> Inr []))))"

definition token_transfers :: "TransactionMetadata \<Rightarrow> DecodedFunction \<Rightarrow> TokenTransfer list result" where
  "token_transfers m f =
     (let selector = xf_selector f; count = length (xf_arguments f)
      in if selector = ''a9059cbb'' \<and> count \<noteq> 0 then erc20_transfer m f
         else if selector = ''23b872dd'' \<and> 3 \<le> count then erc20_transfer_from m f
         else if selector \<in> {''42842e0e'', ''b88d4fde''} then erc721_transfer m f
         else if selector = ''f242432a'' \<and> 4 \<le> count then erc1155_transfer m f
         else if selector = ''2eb2c2d6'' \<and> 4 \<le> count then erc1155_batch m f
         else Inr [])"

definition analyze_transfers ::
  "TransactionMetadata \<Rightarrow> DecodedFunction option \<Rightarrow> TokenTransfer list result" where
  "analyze_transfers m decoded =
     (case decoded of
        None \<Rightarrow> Inr (native_transfers m)
      | Some f \<Rightarrow> bindR (token_transfers m f) (\<lambda>ts. Inr (native_transfers m @ ts)))"

section \<open>Approvals (approval\_analyzer.py)\<close>

definition spender_risk_indicators :: "string \<Rightarrow> bool \<Rightarrow> string list" where
  "spender_risk_indicators spender unlimited =
     sorted_set
       ((if unlimited then [''unlimited_allowance''] else []) @
        (if lower spender \<in> {''0x0000000000000000000000000000000000000000'',
                             ''0x000000000000000000000000000000000000dead''}
         then [''burn_or_null_spender''] else []) @
        (if prefix ''0x'' (lower spender) then [''external_spender''] else []))"

definition allowance_finding :: "ApprovalKind \<Rightarrow> TransactionMetadata \<Rightarrow> string \<Rightarrow> int \<Rightarrow> ApprovalFinding" where
  "allowance_finding kind m spender amount =
     (let unlimited = (amount \<ge> max_uint256 \<or> amount \<ge> large_allowance_threshold)
      in \<lparr>xp_kind = kind, xp_token_address = or_text (xm_to_address m) [],
          xp_owner_address = xm_from_address m, xp_spender_address = spender, xp_amount = Some amount,
          xp_is_unlimited = unlimited, xp_is_infinite_allowance = (amount \<ge> max_uint256),
          xp_spender_risk_indicators = spender_risk_indicators spender unlimited\<rparr>)"

definition operator_finding :: "TransactionMetadata \<Rightarrow> string \<Rightarrow> string \<Rightarrow> ApprovalFinding" where
  "operator_finding m token_address spender =
     \<lparr>xp_kind = KindSetApprovalForAll, xp_token_address = token_address,
      xp_owner_address = xm_from_address m, xp_spender_address = spender, xp_amount = None,
      xp_is_unlimited = True, xp_is_infinite_allowance = True,
      xp_spender_risk_indicators = spender_risk_indicators spender True\<rparr>"

definition analyze_approvals ::
  "TransactionMetadata \<Rightarrow> DecodedFunction option \<Rightarrow> ApprovalFinding list result" where
  "analyze_approvals m decoded =
     (case (decoded, xm_to_address m) of
        (Some f, Some token_address) \<Rightarrow>
          (let selector = xf_selector f; count = length (xf_arguments f)
           in if selector = ''095ea7b3'' \<and> 2 \<le> count
              then bindR (arg_at f 0) (\<lambda>spender. bindR (arg_at f 1) (\<lambda>v. bindR (coerce_int v) (\<lambda>amount.
                     Inr [allowance_finding KindApprove m (arg_str spender) amount])))
              else if selector = ''d505accf'' \<and> 3 \<le> count
              then bindR (arg_at f 1) (\<lambda>spender. bindR (arg_at f 2) (\<lambda>v. bindR (coerce_int v) (\<lambda>amount.
                     Inr [allowance_finding KindPermit m (arg_str spender) amount])))
              else if selector = ''a22cb465'' \<and> 2 \<le> count
              then bindR (arg_at f 1) (\<lambda>approved. bindR (arg_at f 0) (\<lambda>spender.
                     if \<not> arg_truthy approved then Inr []
                     else Inr [operator_finding m token_address (arg_str spender)]))
              else Inr [])
      | _ \<Rightarrow> Inr [])"

section \<open>Privileged operations (privilege\_analyzer.py)\<close>

definition large_value_threshold :: int where
  "large_value_threshold = 10 ^ 21"

definition selector_operations :: "(string, PrivilegedOperation) dict" where
  "selector_operations =
     [(''3659cfe6'', PrivUpgradeTo), (''4f1ef286'', PrivUpgradeToAndCall), (''9ded06df'', PrivSetImplementation),
      (''8456cb59'', PrivPause), (''3f4ba83a'', PrivUnpause), (''40c10f19'', PrivMint), (''a0712d68'', PrivMint),
      (''42966c68'', PrivBurn), (''79cc6790'', PrivBurn), (''f2fde38b'', PrivTransferOwnership),
      (''2f2ff15d'', PrivGrantRole), (''d547741f'', PrivRevokeRole)]"

definition named_operations :: "(string, PrivilegedOperation) dict" where
  "named_operations =
     [(''upgradeto'', PrivUpgradeTo), (''upgradetoandcall'', PrivUpgradeToAndCall),
      (''setimplementation'', PrivSetImplementation), (''pause'', PrivPause), (''unpause'', PrivUnpause),
      (''mint'', PrivMint), (''burn'', PrivBurn), (''burnfrom'', PrivBurn),
      (''transferownership'', PrivTransferOwnership), (''grantrole'', PrivGrantRole),
      (''revokerole'', PrivRevokeRole)]"

definition operation_from_name :: "string \<Rightarrow> PrivilegedOperation option" where
  "operation_from_name function_name = map_of named_operations (lower function_name)"

definition operation_of :: "DecodedFunction \<Rightarrow> PrivilegedOperation option" where
  "operation_of f =
     (case map_of selector_operations (xf_selector f) of
        None \<Rightarrow> operation_from_name (xf_function_name f)
      | Some operation \<Rightarrow> Some operation)"

definition extract_target :: "DecodedFunction \<Rightarrow> string option" where
  "extract_target f =
     (case xf_arguments f of
        [] \<Rightarrow> None
      | a # _ \<Rightarrow> (case xa_value a of ArgStr s \<Rightarrow> if prefix ''0x'' s then Some (lower s) else None | _ \<Rightarrow> None))"

text \<open>Normalised arguments hold no bytes, so the branch of \<open>_extract_role\<close> for bytes is not taken.\<close>

definition extract_role :: "DecodedFunction \<Rightarrow> string option" where
  "extract_role f =
     (if lower (xf_function_name f) \<notin> {''grantrole'', ''revokerole''} then None
      else (case xf_arguments f of [] \<Rightarrow> None | a # _ \<Rightarrow> Some (arg_str (xa_value a))))"

text \<open>The first argument of an unsigned type that holds an integer.\<close>

fun first_uint :: "DecodedArgument list \<Rightarrow> int option" where
  "first_uint [] = None"
| "first_uint (a # rest) =
     (if prefix ''uint'' (xa_solidity_type a)
      then (case xa_value a of
              ArgInt i \<Rightarrow> Some i | ArgBool b \<Rightarrow> Some (if b then 1 else 0) | _ \<Rightarrow> first_uint rest)
      else first_uint rest)"

definition extract_amount :: "DecodedFunction \<Rightarrow> int option result" where
  "extract_amount f =
     (case (if lower (xf_function_name f) \<in> {''mint'', ''burn''} then first_uint (xf_arguments f) else None) of
        Some i \<Rightarrow> Inr (Some i)
      | None \<Rightarrow>
          (if lower (xf_function_name f) = ''mint'' \<and> 2 \<le> length (xf_arguments f)
           then bindR (arg_at f 1) (\<lambda>v. bindR (coerce_int v) (\<lambda>i. Inr (Some i)))
           else Inr None))"

definition analyze_privileges ::
  "TransactionMetadata \<Rightarrow> DecodedFunction option \<Rightarrow> PrivilegedAction list result" where
  "analyze_privileges m decoded =
     (case (decoded, xm_to_address m) of
        (Some f, Some contract_address) \<Rightarrow>
          (case operation_of f of
             None \<Rightarrow> Inr []
           | Some operation \<Rightarrow>
               bindR (extract_amount f) (\<lambda>amount.
                 Inr [\<lparr>xv_operation = operation, xv_contract_address = contract_address,
                       xv_actor_address = xm_from_address m, xv_target_address = extract_target f,
                       xv_role = extract_role f, xv_amount = amount,
                       xv_is_large_transfer =
                         ((case amount of None \<Rightarrow> False | Some a \<Rightarrow> a \<ge> large_value_threshold) \<or>
                          xm_value_wei m \<ge> large_value_threshold)\<rparr>]))
      | _ \<Rightarrow> Inr [])"

section \<open>Classification (transaction\_classifier.py)\<close>

definition operation_category :: "PrivilegedOperation \<Rightarrow> TransactionCategory" where
  "operation_category operation =
     (if operation_value operation \<in> {''upgradeTo'', ''upgradeToAndCall'', ''setImplementation''} then TxUpgrade
      else if operation_value operation = ''mint'' then TxMint
      else if operation_value operation = ''burn'' then TxBurn
      else TxGovernance)"

definition category_from_name :: "string \<Rightarrow> TransactionCategory option" where
  "category_from_name function_name =
     (let name = lower function_name
      in if sublist ''swap'' name then Some TxSwap
         else if sublist ''liquidity'' name then Some TxLiquidity
         else if sublist ''flash'' name then Some TxFlashLoan
         else if sublist ''bridge'' name \<or> sublist ''message'' name then Some TxBridge
         else if name \<in> {''propose'', ''castvote'', ''execute'', ''schedule''} then Some TxGovernance
         else None)"

definition category_of_function ::
  "(string, SelectorEntry) dict \<Rightarrow> DecodedFunction \<Rightarrow> TransactionCategory option" where
  "category_of_function registry f =
     (case Option.bind (lookup_selector registry (xf_selector f)) xe_category of
        Some category \<Rightarrow> Some category
      | None \<Rightarrow> category_from_name (xf_function_name f))"

definition classify_transaction ::
  "(string, SelectorEntry) dict \<Rightarrow> TransactionMetadata \<Rightarrow> DecodedFunction option \<Rightarrow> TokenTransfer list \<Rightarrow>
   ApprovalFinding list \<Rightarrow> PrivilegedAction list \<Rightarrow> TransactionCategory" where
  "classify_transaction registry m decoded transfers approvals actions =
     (if xm_transaction_format m = FormatCreation then TxDeployment
      else if approvals \<noteq> [] then TxApproval
      else (case actions of
              action # _ \<Rightarrow> operation_category (xv_operation action)
            | [] \<Rightarrow>
                (case Option.bind decoded (category_of_function registry) of
                   Some category \<Rightarrow> category
                 | None \<Rightarrow>
                     (if transfers \<noteq> [] \<and> xm_value_wei m > 0 \<and> decoded = None then TxTransfer
                      else if transfers \<noteq> [] then TxTransfer
                      else TxUnknown))))"

section \<open>Evidence (transaction\_intelligence.py)\<close>

definition tx_classification_evidence ::
  "datetime \<Rightarrow> TransactionMetadata \<Rightarrow> TransactionCategory \<Rightarrow> DecodedFunction option \<Rightarrow> RiskEvidence list" where
  "tx_classification_evidence clk m category decoded =
     [create_evidence clk SrcClassification CatClassification (''transaction_'' @ tx_category_value category)
        SevInfo zero_score ConfHigh (''Transaction classified as '' @ tx_category_value category)
        (Some [(key_signal, PyStr (''transaction_'' @ tx_category_value category)),
           (key_reason_only, PyBool True),
           (''transaction_hash'', PyStr (xm_transaction_hash m)),
           (''function_name'', PyStr (case decoded of None \<Rightarrow> ''none'' | Some f \<Rightarrow> xf_function_name f))]) None]"

definition tx_approval_item ::
  "datetime \<Rightarrow> TransactionMetadata \<Rightarrow> ApprovalFinding \<Rightarrow> RiskEvidence" where
  "tx_approval_item clk m approval =
     (if xp_is_unlimited approval
      then create_evidence clk SrcCapability CatAuthority ''unlimited_approval'' SevHigh zero_score ConfHigh
             ''Unlimited token approval granted to external spender''
             (Some [(key_signal, PyStr ''unlimited_approval''), (key_reason_only, PyBool True),
                (''transaction_hash'', PyStr (xm_transaction_hash m)),
                (''token_address'', PyStr (xp_token_address approval)),
                (''spender_address'', PyStr (xp_spender_address approval)),
                (''approval_kind'', PyStr (approval_kind_value (xp_kind approval))),
                (''spender_risk_indicators'', PyList (map PyStr (xp_spender_risk_indicators approval)))]) None
      else create_evidence clk SrcCapability CatAuthority ''token_approval'' SevLow zero_score ConfMedium
             ''Token approval granted to external spender''
             (Some [(key_signal, PyStr ''token_approval''), (key_reason_only, PyBool True),
                (''transaction_hash'', PyStr (xm_transaction_hash m)),
                (''token_address'', PyStr (xp_token_address approval)),
                (''spender_address'', PyStr (xp_spender_address approval)),
                (''amount'', PyStr (case xp_amount approval of None \<Rightarrow> ''None'' | Some i \<Rightarrow> int_str i))]) None)"

definition tx_approval_evidence ::
  "datetime \<Rightarrow> TransactionMetadata \<Rightarrow> ApprovalFinding list \<Rightarrow> RiskEvidence list" where
  "tx_approval_evidence clk m approvals = map (tx_approval_item clk m) approvals"

definition amount_text :: "int option \<Rightarrow> pyval" where
  "amount_text amount = (case amount of None \<Rightarrow> PyNone | Some i \<Rightarrow> PyStr (int_str i))"

definition tx_operation_evidence ::
  "datetime \<Rightarrow> TransactionMetadata \<Rightarrow> PrivilegedAction \<Rightarrow> RiskEvidence list" where
  "tx_operation_evidence clk m action =
     (let operation = operation_value (xv_operation action); signal = ''privileged_'' @ operation
      in if operation \<in> {''upgradeTo'', ''upgradeToAndCall'', ''setImplementation''}
         then [create_evidence clk SrcProxy CatUpgradeability ''upgrade_executed'' SevHigh zero_score ConfHigh
                 ''Contract upgrade executed on-chain''
                 (Some [(key_signal, PyStr ''upgrade_executed''), (key_reason_only, PyBool True),
                    (''transaction_hash'', PyStr (xm_transaction_hash m)),
                    (''contract_address'', PyStr (xv_contract_address action)),
                    (''target_address'', opt_text (xv_target_address action)),
                    (''operation'', PyStr operation)]) None]
         else if operation \<in> {''grantRole'', ''revokeRole'', ''transferOwnership''}
         then [create_evidence clk SrcGovernance CatAuthority signal SevMedium zero_score ConfMedium
                 (''Privileged governance operation executed: '' @ operation)
                 (Some [(key_signal, PyStr signal), (key_reason_only, PyBool True),
                    (''transaction_hash'', PyStr (xm_transaction_hash m)),
                    (''contract_address'', PyStr (xv_contract_address action)),
                    (''target_address'', opt_text (xv_target_address action)),
                    (''role'', opt_text (xv_role action))]) None]
         else if operation \<in> {''mint'', ''burn'', ''pause'', ''unpause''}
         then [create_evidence clk SrcCapability CatCapability signal SevMedium zero_score ConfMedium
                 (''Privileged capability operation executed: '' @ operation)
                 (Some [(key_signal, PyStr signal), (key_reason_only, PyBool True),
                    (''transaction_hash'', PyStr (xm_transaction_hash m)),
                    (''contract_address'', PyStr (xv_contract_address action)),
                    (''amount'', amount_text (xv_amount action))]) None]
         else [])"

definition large_transfer_evidence ::
  "datetime \<Rightarrow> TransactionMetadata \<Rightarrow> PrivilegedAction \<Rightarrow> RiskEvidence list" where
  "large_transfer_evidence clk m action =
     (if xv_is_large_transfer action
      then [create_evidence clk SrcGovernance CatAuthority ''large_privileged_transfer'' SevHigh zero_score
              ConfMedium ''Large privileged transfer or mint detected in runtime transaction''
              (Some [(key_signal, PyStr ''large_privileged_transfer''), (key_reason_only, PyBool True),
                 (''transaction_hash'', PyStr (xm_transaction_hash m)),
                 (''contract_address'', PyStr (xv_contract_address action)),
                 (''amount'', amount_text (xv_amount action)),
                 (''operation'', PyStr (operation_value (xv_operation action)))]) None]
      else [])"

definition tx_privilege_evidence ::
  "datetime \<Rightarrow> TransactionMetadata \<Rightarrow> PrivilegedAction list \<Rightarrow> RiskEvidence list" where
  "tx_privilege_evidence clk m actions =
     concat (map (\<lambda>a. tx_operation_evidence clk m a @ large_transfer_evidence clk m a) actions)"

definition emit_transaction_evidence ::
  "datetime \<Rightarrow> TransactionMetadata \<Rightarrow> TransactionCategory \<Rightarrow> ApprovalFinding list \<Rightarrow>
   PrivilegedAction list \<Rightarrow> DecodedFunction option \<Rightarrow> RiskEvidence list" where
  "emit_transaction_evidence clk m category approvals actions decoded =
     merge_evidence [tx_classification_evidence clk m category decoded,
       tx_approval_evidence clk m approvals, tx_privilege_evidence clk m actions]"

section \<open>The engine\<close>

definition effective_chain_id :: "int option \<Rightarrow> int option \<Rightarrow> int" where
  "effective_chain_id chain_id own =
     (case chain_id of
        Some c \<Rightarrow> c
      | None \<Rightarrow> (case own of None \<Rightarrow> 1 | Some c \<Rightarrow> if c = 0 then 1 else c))"

definition analyze_transaction ::
  "datetime \<Rightarrow> abi_decoder \<Rightarrow> (string \<Rightarrow> string) \<Rightarrow> source_provider \<Rightarrow> (string, SelectorEntry) dict \<Rightarrow>
   metadata \<Rightarrow> int option \<Rightarrow> TransactionIntelligence result" where
  "analyze_transaction clk abi_decode keccak_hex get_verified_source registry raw chain_id =
     bindR (decode_transaction raw) (\<lambda>m.
     bindR (extract_calldata raw) (\<lambda>calldata.
     bindR (decode_call abi_decode keccak_hex get_verified_source registry (xm_to_address m) calldata
              (effective_chain_id chain_id (xm_chain_id m))) (\<lambda>decoded.
     bindR (analyze_transfers m decoded) (\<lambda>transfers.
     bindR (analyze_approvals m decoded) (\<lambda>approvals.
     bindR (analyze_privileges m decoded) (\<lambda>actions.
       let category = classify_transaction registry m decoded transfers approvals actions
       in Inr \<lparr>xi_metadata = m,
               xi_decoded_function = decoded,
               xi_token_transfers = transfers,
               xi_approvals = approvals,
               xi_privileged_actions = actions,
               xi_category = category,
               xi_risk_evidence = emit_transaction_evidence clk m category approvals actions decoded\<rparr>))))))"

text \<open>The transaction provider is a parameter; without one the call fails.\<close>

definition analyze_transaction_hash ::
  "datetime \<Rightarrow> abi_decoder \<Rightarrow> (string \<Rightarrow> string) \<Rightarrow> source_provider \<Rightarrow> (string, SelectorEntry) dict \<Rightarrow>
   (string \<Rightarrow> metadata result) option \<Rightarrow> string \<Rightarrow> int \<Rightarrow> TransactionIntelligence result" where
  "analyze_transaction_hash clk abi_decode keccak_hex get_verified_source registry provider transaction_hash chain_id =
     (case provider of
        None \<Rightarrow> Inl (ValueError ''transaction provider is required for hash-based analysis'')
      | Some get_transaction \<Rightarrow>
          bindR (get_transaction transaction_hash) (\<lambda>raw.
            analyze_transaction clk abi_decode keccak_hex get_verified_source registry raw (Some chain_id)))"

end
