(* ===== verification/TransactionFacts.thy ===== *)
theory TransactionFacts
  imports TransactionAnalysis
begin

text \<open>
  Facts about the transaction analysis of contracts without a verified source, with the default table
  of selectors: what the table says of a selector agrees with the other tables of the analyzers.
\<close>

section \<open>Selectors as texts\<close>

lemma lower_hex_digit:
  assumes "n < 16"
  shows "lower_char (hex_digit n) = hex_digit n" "hex_digit n \<noteq> CHR ''x''"
proof -
  have char: "(of_char (hex_digit n) :: nat) = (if n < 10 then 48 + n else 87 + n)"
    using assms by (simp add: hex_digit_def)
  then have "hex_digit n \<noteq> CHR ''x''" using assms by (auto simp: of_char_eq_iff split: if_splits)
  with char show "lower_char (hex_digit n) = hex_digit n" "hex_digit n \<noteq> CHR ''x''"
    using assms by (simp_all add: lower_char_def)
qed

lemma hex_bytes_digits:
  assumes "c \<in> set (hex_bytes bs)"
  obtains n where "n < 16" "c = hex_digit n"
proof -
  from assms obtain b where "c \<in> set (hex_byte b)" by (auto simp: hex_bytes_def)
  then have "c = hex_digit (unat b div 16) \<or> c = hex_digit (unat b mod 16)" by (simp add: hex_byte_def)
  moreover have "unat b < 2 ^ LENGTH(8)" by (rule unsigned_less)
  then have "unat b div 16 < 16" by (simp add: less_mult_imp_div_less)
  ultimately show thesis using that [of "unat b div 16"] that [of "unat b mod 16"] by auto
qed

lemma hex_bytes_char:
  assumes "c \<in> set (hex_bytes bs)"
  shows "lower_char c = c" "c \<noteq> CHR ''x''"
  using assms by (auto elim!: hex_bytes_digits simp: lower_hex_digit)

lemma lower_hex_bytes: "lower (hex_bytes bs) = hex_bytes bs"
  by (simp add: lower_def map_idI hex_bytes_char)

lemma hex_bytes_no_prefix: "\<not> prefix ''0x'' (hex_bytes bs)"
proof
  assume "prefix ''0x'' (hex_bytes bs)"
  then have "CHR ''x'' \<in> set (hex_bytes bs)" by (auto simp: prefix_def)
  then show False using hex_bytes_char(2) by blast
qed

lemma length_hex_bytes: "length (hex_bytes bs) = 2 * length bs"
  by (induction bs) (simp_all add: hex_bytes_def hex_byte_def)

lemma lookup_hex:
  "lookup_selector registry (hex_bytes bs) =
     (if length bs < 4 then None else map_of registry (take 8 (hex_bytes bs)))"
  by (simp add: lookup_selector_def lower_hex_bytes removeprefix_def hex_bytes_no_prefix length_hex_bytes)

section \<open>The tables agree\<close>

definition entry_operation :: "string \<times> SelectorEntry \<Rightarrow> PrivilegedOperation option" where
  "entry_operation p =
     (case map_of selector_operations (fst p) of
        None \<Rightarrow> operation_from_name (xe_function_name (snd p)) | Some operation \<Rightarrow> Some operation)"

lemma operations_agree:
  "list_all (\<lambda>p. \<forall>operation \<in> set_option (entry_operation p).
     xe_category (snd p) = Some (operation_category operation)) selector_registry"
  by code_simp

lemma selectors_known:
  "list_all (\<lambda>s. map_of selector_registry s \<noteq> None)
     [''a9059cbb'', ''23b872dd'', ''42842e0e'', ''b88d4fde'', ''f242432a'', ''2eb2c2d6'', ''095ea7b3'', ''d505accf'',
      ''a22cb465'']"
  by code_simp

lemma operations_known:
  "list_all (\<lambda>s. map_of selector_registry s \<noteq> None) (map fst selector_operations)"
  by code_simp

lemma approvals_agree:
  "list_all (\<lambda>p. fst p \<in> {''095ea7b3'', ''d505accf'', ''a22cb465''} \<longrightarrow> xe_category (snd p) = Some TxApproval)
     selector_registry"
  by code_simp

lemma entries_categorised: "list_all (\<lambda>p. xe_category (snd p) \<noteq> None) selector_registry"
  by code_simp

lemma unknown_name: "operation_from_name ''unknown'' = None" "category_from_name ''unknown'' = None"
  by code_simp+

section \<open>Typed arguments\<close>

text \<open>
  What the analyzers rely on of \<open>eth_abi.decode\<close>: it returns a value for each type, an integer for
  \<open>uint256\<close> and a tuple of integers for \<open>uint256[]\<close>.
\<close>

fun abi_integer :: "abi_value \<Rightarrow> bool" where
  "abi_integer (AbiInt i) = True"
| "abi_integer v = False"

definition abi_typed :: "string \<Rightarrow> abi_value \<Rightarrow> bool" where
  "abi_typed ty v =
     (if ty = ''uint256'' then abi_integer v
      else if ty = ''uint256[]'' then (case v of AbiTuple vs \<Rightarrow> list_all abi_integer vs | _ \<Rightarrow> False)
      else True)"

definition typed_decoder :: "abi_decoder \<Rightarrow> bool" where
  "typed_decoder abi_decode \<longleftrightarrow>
     (\<forall>types payload values. abi_decode types payload = Inr values \<longrightarrow> list_all2 abi_typed types values)"

definition typed_argument :: "string \<Rightarrow> DecodedArgument \<Rightarrow> bool" where
  "typed_argument ty a \<longleftrightarrow> xa_solidity_type a = ty \<and>
     (ty = ''uint256'' \<longrightarrow> (\<exists>i. xa_value a = ArgInt i)) \<and>
     (ty = ''uint256[]'' \<longrightarrow> (\<exists>ns. xa_value a = ArgTuple (map ArgInt ns)))"

lemma normalize_integers: "list_all abi_integer vs \<Longrightarrow> \<exists>ns. map normalize_value vs = map ArgInt ns"
proof (induction vs)
  case (Cons v vs)
  then obtain i js where "normalize_value v = ArgInt i" "map normalize_value vs = map ArgInt js"
    by (cases v) auto
  then show ?case by (intro exI [of _ "i # js"]) simp
qed simp

lemma typed_normal:
  "abi_typed ty v \<Longrightarrow> typed_argument ty \<lparr>xa_name = n, xa_value = normalize_value v, xa_solidity_type = ty\<rparr>"
  using normalize_integers by (cases v) (auto simp: abi_typed_def typed_argument_def split: if_splits)

lemma typed_signature:
  assumes "typed_decoder abi_decode" "decode_with_signature abi_decode signature payload \<noteq> []"
  shows "list_all2 typed_argument (signature_types signature) (decode_with_signature abi_decode signature payload)"
proof -
  from assms(2) obtain vals where v: "abi_decode (signature_types signature) payload = Inr vals"
    and args: "decode_with_signature abi_decode signature payload =
       map (\<lambda>(index, (arg_type, value)). \<lparr>xa_name = ''arg'' @ nat_digits index, xa_value = normalize_value value,
           xa_solidity_type = arg_type\<rparr>) (enumerate 0 (zip (signature_types signature) vals))"
    by (auto simp: decode_with_signature_def Let_def split: if_splits sum.splits)
  from assms(1) v have typed: "list_all2 abi_typed (signature_types signature) vals"
    unfolding typed_decoder_def by blast
  then have "length (signature_types signature) = length vals" by (rule list_all2_lengthD)
  with typed show ?thesis
    unfolding args list_all2_conv_all_nth
    by (auto simp: nth_enumerate_eq intro: typed_normal)
qed

text \<open>The types the table lists for a selector.\<close>

definition selector_types :: "string \<Rightarrow> string list option" where
  "selector_types s = map_option (\<lambda>e. signature_types (xe_signature e)) (map_of selector_registry s)"

lemma selector_types_simps:
  "selector_types ''a9059cbb'' = Some [''address'', ''uint256'']"
  "selector_types ''23b872dd'' = Some [''address'', ''address'', ''uint256'']"
  "selector_types ''42842e0e'' = Some [''address'', ''address'', ''uint256'']"
  "selector_types ''b88d4fde'' = Some [''address'', ''address'', ''uint256'', ''bytes'']"
  "selector_types ''f242432a'' = Some [''address'', ''address'', ''uint256'', ''uint256'', ''bytes'']"
  "selector_types ''2eb2c2d6'' = Some [''address'', ''address'', ''uint256[]'', ''uint256[]'', ''bytes'']"
  "selector_types ''095ea7b3'' = Some [''address'', ''uint256'']"
  "selector_types ''d505accf'' =
     Some [''address'', ''address'', ''uint256'', ''uint256'', ''uint8'', ''bytes32'', ''bytes32'']"
  "selector_types ''a22cb465'' = Some [''address'', ''bool'']"
  "selector_types ''40c10f19'' = Some [''address'', ''uint256'']"
  "selector_types ''a0712d68'' = Some [''uint256'']"
  by code_simp+

lemma minting_selectors:
  "list_all (\<lambda>p. lower (xe_function_name (snd p)) = ''mint'' \<longrightarrow> fst p \<in> {''40c10f19'', ''a0712d68''})
     selector_registry"
  by code_simp

end
