(* ===== verification/TransactionProps.thy ===== *)
theory TransactionProps
  imports TransactionFacts StateProps
begin

text \<open>
  What the transaction analysis reports: the category of a transaction to a contract without verified
  source, when the analysis fails, and which evidence it raises.
\<close>

section \<open>The function a transaction calls\<close>

lemma decode_unverified:
  "decode_call abi_decode keccak_hex null_source_provider registry to calldata chain_id =
     Inr (if length calldata < 4 then None else Some (decode_from_registry abi_decode registry calldata))"
  by (cases to) (simp_all add: decode_call_def null_source_provider_def)

lemma lookup_take:
  "4 \<le> length calldata \<Longrightarrow> lookup_selector registry (hex_bytes (take 4 calldata)) =
     map_of registry (hex_bytes (take 4 calldata))"
  by (simp add: lookup_hex length_hex_bytes)

lemma registry_decode:
  assumes "4 \<le> length calldata"
  shows "xf_selector (decode_from_registry abi_decode registry calldata) = hex_bytes (take 4 calldata)"
    "xf_function_name (decode_from_registry abi_decode registry calldata) =
       (case map_of registry (hex_bytes (take 4 calldata)) of
          None \<Rightarrow> ''unknown'' | Some entry \<Rightarrow> xe_function_name entry)"
    "xf_arguments (decode_from_registry abi_decode registry calldata) =
       (case map_of registry (hex_bytes (take 4 calldata)) of
          None \<Rightarrow> [] | Some entry \<Rightarrow> decode_with_signature abi_decode (xe_signature entry) (drop 4 calldata))"
  using assms by (simp_all add: decode_from_registry_def lookup_take Let_def split: option.splits)

lemma unregistered_selectors:
  assumes "map_of selector_registry s = None"
  shows "s \<notin> {''a9059cbb'', ''23b872dd'', ''42842e0e'', ''b88d4fde'', ''f242432a'', ''2eb2c2d6'', ''095ea7b3'',
      ''d505accf'', ''a22cb465''}" "map_of selector_operations s = None"
proof -
  show "s \<notin> {''a9059cbb'', ''23b872dd'', ''42842e0e'', ''b88d4fde'', ''f242432a'', ''2eb2c2d6'', ''095ea7b3'',
      ''d505accf'', ''a22cb465''}"
    using selectors_known assms by auto
  from operations_known assms have "s \<notin> fst ` set selector_operations" by (auto simp: list_all_iff)
  then show "map_of selector_operations s = None" by (simp add: map_of_eq_None_iff)
qed

lemma registered_call:
  assumes "map_of selector_registry (xf_selector f) = Some entry" "xf_function_name f = xe_function_name entry"
  obtains category where "xe_category entry = Some category"
    "\<And>operation. operation_of f = Some operation \<Longrightarrow> operation_category operation = category"
    "xf_selector f \<in> {''095ea7b3'', ''d505accf'', ''a22cb465''} \<Longrightarrow> category = TxApproval"
proof -
  from assms(1) have mem: "(xf_selector f, entry) \<in> set selector_registry" by (rule map_of_SomeD)
  with entries_categorised obtain category where c: "xe_category entry = Some category"
    by (fastforce simp: list_all_iff)
  from assms(2) have "operation_of f = entry_operation (xf_selector f, entry)"
    by (simp add: operation_of_def entry_operation_def split: option.split)
  with operations_agree approvals_agree mem c that show thesis by (fastforce simp: list_all_iff)
qed

lemma approving_selector:
  assumes "analyze_approvals m (Some f) = Inr approvals" "approvals \<noteq> []"
  shows "xf_selector f \<in> {''095ea7b3'', ''d505accf'', ''a22cb465''}"
  using assms by (auto simp: analyze_approvals_def Let_def split: option.splits if_splits)

lemma actions_of_operation:
  assumes "analyze_privileges m (Some f) = Inr actions" "xm_to_address m = Some to"
  shows "map xv_operation actions = (case operation_of f of None \<Rightarrow> [] | Some operation \<Rightarrow> [operation])"
  using assms by (auto simp: analyze_privileges_def bindR_eq_Inr split: option.splits)

section \<open>Categories\<close>

lemma analyze_transaction_Inr:
  assumes "analyze_transaction clk abi_decode keccak_hex provider registry raw chain_id = Inr r"
  obtains m calldata where "decode_transaction raw = Inr m" "extract_calldata raw = Inr calldata"
    "xi_metadata r = m"
    "decode_call abi_decode keccak_hex provider registry (xm_to_address m) calldata
       (effective_chain_id chain_id (xm_chain_id m)) = Inr (xi_decoded_function r)"
    "analyze_transfers m (xi_decoded_function r) = Inr (xi_token_transfers r)"
    "analyze_approvals m (xi_decoded_function r) = Inr (xi_approvals r)"
    "analyze_privileges m (xi_decoded_function r) = Inr (xi_privileged_actions r)"
    "xi_category r = classify_transaction registry m (xi_decoded_function r) (xi_token_transfers r)
       (xi_approvals r) (xi_privileged_actions r)"
    "xi_risk_evidence r = emit_transaction_evidence clk m (xi_category r) (xi_approvals r)
       (xi_privileged_actions r) (xi_decoded_function r)"
  using assms by (auto simp: analyze_transaction_def bindR_eq_Inr Let_def)

lemma decoded_format:
  assumes "decode_transaction raw = Inr m"
  shows "xm_transaction_format m = FormatCreation \<longleftrightarrow> xm_to_address m = None"
  using assms by (auto simp: decode_transaction_def bindR_eq_Inr Let_def transaction_format_def split: if_splits)

text \<open>
  Property C21. For a contract without verified source and the default table, the category of a
  transaction is that of its selector in the table, whatever its arguments are: a creation is a
  deployment, a listed selector has the listed category (the findings of the analyzers never say
  otherwise), and any other call is a transfer when it carries value and unknown when it does not.
\<close>

theorem transaction_category:
  assumes "analyze_transaction clk abi_decode keccak_hex null_source_provider selector_registry raw chain_id = Inr r"
  shows "\<exists>calldata. extract_calldata raw = Inr calldata \<and>
    xi_category r =
      (if xm_to_address (xi_metadata r) = None then TxDeployment
       else case lookup_selector selector_registry (hex_bytes (take 4 calldata)) of
              Some entry \<Rightarrow> the (xe_category entry)
            | None \<Rightarrow> if xm_value_wei (xi_metadata r) > 0 then TxTransfer else TxUnknown)"
proof -
  from assms obtain m calldata where d: "decode_transaction raw = Inr m" "extract_calldata raw = Inr calldata"
    "xi_metadata r = m"
    "decode_call abi_decode keccak_hex null_source_provider selector_registry (xm_to_address m) calldata
       (effective_chain_id chain_id (xm_chain_id m)) = Inr (xi_decoded_function r)"
    and a: "analyze_transfers m (xi_decoded_function r) = Inr (xi_token_transfers r)"
    "analyze_approvals m (xi_decoded_function r) = Inr (xi_approvals r)"
    "analyze_privileges m (xi_decoded_function r) = Inr (xi_privileged_actions r)"
    and c: "xi_category r = classify_transaction selector_registry m (xi_decoded_function r) (xi_token_transfers r)
       (xi_approvals r) (xi_privileged_actions r)"
    by (rule analyze_transaction_Inr)
  have f: "xi_decoded_function r =
      (if length calldata < 4 then None else Some (decode_from_registry abi_decode selector_registry calldata))"
    using d(4) by (simp add: decode_unverified)
  have native: "native_transfers m \<noteq> [] \<longleftrightarrow> xm_value_wei m > 0" by (simp add: native_transfers_def)
  have "xi_category r = (case lookup_selector selector_registry (hex_bytes (take 4 calldata)) of
              Some entry \<Rightarrow> the (xe_category entry)
            | None \<Rightarrow> if xm_value_wei m > 0 then TxTransfer else TxUnknown)"
    if "xm_to_address m = Some to" for to
  proof (cases "length calldata < 4")
    case True
    with a f have "xi_approvals r = []" "xi_privileged_actions r = []" "xi_token_transfers r = native_transfers m"
      by (simp_all add: analyze_approvals_def analyze_privileges_def analyze_transfers_def)
    with True native c f that show ?thesis
      using decoded_format [OF d(1)] by (simp add: classify_transaction_def lookup_hex)
  next
    case False
    let ?f = "decode_from_registry abi_decode selector_registry calldata"
    from False f have g: "xi_decoded_function r = Some ?f" by simp
    from False have len: "4 \<le> length calldata" by simp
    note lk = lookup_take [OF len] and rd = registry_decode [OF len, of abi_decode selector_registry]
    show ?thesis
    proof (cases "map_of selector_registry (hex_bytes (take 4 calldata))")
      case None
      note un = unregistered_selectors [OF None]
      have "xi_approvals r = []"
        using approving_selector [OF a(2) [unfolded g]] un(1) rd(1) by auto
      moreover have "xi_privileged_actions r = []"
        using actions_of_operation [OF a(3) [unfolded g] that] None rd un(2)
        by (simp add: operation_of_def unknown_name)
      moreover have "xi_token_transfers r = native_transfers m"
        using a(1) g un(1) rd(1) by (simp add: analyze_transfers_def token_transfers_def)
      moreover have "category_of_function selector_registry ?f = None"
        using None rd lk by (simp add: category_of_function_def unknown_name)
      ultimately show ?thesis
        using c g that native lk None decoded_format [OF d(1)] by (simp add: classify_transaction_def)
    next
      case (Some entry)
      with rd obtain category where cat: "xe_category entry = Some category"
        "\<And>operation. operation_of ?f = Some operation \<Longrightarrow> operation_category operation = category"
        "xf_selector ?f \<in> {''095ea7b3'', ''d505accf'', ''a22cb465''} \<Longrightarrow> category = TxApproval"
        using registered_call [of ?f entry] by force
      have "xi_approvals r \<noteq> [] \<Longrightarrow> category = TxApproval"
        using approving_selector [OF a(2) [unfolded g]] cat(3) by blast
      moreover have "xi_privileged_actions r \<noteq> [] \<Longrightarrow>
          operation_category (xv_operation (hd (xi_privileged_actions r))) = category"
        using actions_of_operation [OF a(3) [unfolded g] that] cat(2)
        by (cases "xi_privileged_actions r") (auto split: option.splits)
      moreover have "category_of_function selector_registry ?f = Some category"
        using Some rd lk cat(1) by (simp add: category_of_function_def)
      ultimately show ?thesis
        using c g that lk Some cat(1) decoded_format [OF d(1)]
        by (cases "xi_privileged_actions r") (auto simp: classify_transaction_def)
    qed
  qed
  moreover have "xi_category r = TxDeployment" if "xm_to_address m = None"
    using c that decoded_format [OF d(1)] by (simp add: classify_transaction_def)
  ultimately show ?thesis using d(2,3) by (cases "xm_to_address m") auto
qed

section \<open>Failures\<close>

text \<open>A decoded call of the table: its arguments are missing, or they have the listed types.\<close>

definition typed_call :: "DecodedFunction \<Rightarrow> bool" where
  "typed_call f \<longleftrightarrow>
     (xf_arguments f = [] \<or>
      (\<exists>types. selector_types (xf_selector f) = Some types \<and> list_all2 typed_argument types (xf_arguments f))) \<and>
     (lower (xf_function_name f) = ''mint'' \<longrightarrow> xf_selector f \<in> {''40c10f19'', ''a0712d68''})"

lemma registry_typed:
  assumes "typed_decoder abi_decode" "4 \<le> length calldata"
  shows "typed_call (decode_from_registry abi_decode selector_registry calldata)"
proof (cases "map_of selector_registry (hex_bytes (take 4 calldata))")
  case None
  have "lower ''unknown'' \<noteq> ''mint''" by code_simp
  with None show ?thesis by (simp add: typed_call_def registry_decode [OF assms(2)])
next
  case (Some entry)
  then have "lower (xe_function_name entry) = ''mint'' \<longrightarrow>
      hex_bytes (take 4 calldata) \<in> {''40c10f19'', ''a0712d68''}"
    using minting_selectors map_of_SomeD [OF Some] by (fastforce simp: list_all_iff)
  with Some typed_signature [OF assms(1)] show ?thesis
    by (auto simp: typed_call_def registry_decode [OF assms(2)] selector_types_def)
qed

lemma typed_integer: "typed_argument ''uint256'' a \<Longrightarrow> \<exists>i. xa_value a = ArgInt i"
  by (simp add: typed_argument_def)

lemma typed_integers: "typed_argument ''uint256[]'' a \<Longrightarrow> \<exists>ns. xa_value a = ArgTuple (map ArgInt ns)"
  by (simp add: typed_argument_def)

lemmas call_simps = selector_types_simps list_all2_Cons1 arg_at_def token_transfers_def Let_def

lemma batch_returns: "\<exists>ts. mapR (\<lambda>(v, w). bindR (coerce_int w) (\<lambda>amount. bindR (coerce_int v) (\<lambda>i. Inr (g i amount))))
    (zip (map ArgInt ns) (map ArgInt ks)) = Inr ts"
  by (induction ns ks rule: list_induct2') auto

lemma transfers_return:
  assumes "typed_call f"
  shows "if xf_selector f \<in> {''42842e0e'', ''b88d4fde''} \<and> xf_arguments f = []
     then token_transfers m f = Inl (IndexError ''tuple index out of range'')
     else \<exists>ts. token_transfers m f = Inr ts"
proof (cases "xf_arguments f = []")
  case True
  then show ?thesis by (auto simp: token_transfers_def Let_def erc721_transfer_def arg_at_def)
next
  case False
  with assms obtain types where types: "selector_types (xf_selector f) = Some types"
    "list_all2 typed_argument types (xf_arguments f)"
    by (auto simp: typed_call_def)
  consider "xf_selector f = ''a9059cbb''" | "xf_selector f = ''23b872dd''"
    | "xf_selector f \<in> {''42842e0e'', ''b88d4fde''}" | "xf_selector f = ''f242432a''"
    | "xf_selector f = ''2eb2c2d6''"
    | "xf_selector f \<notin> {''a9059cbb'', ''23b872dd'', ''42842e0e'', ''b88d4fde'', ''f242432a'', ''2eb2c2d6''}"
    by blast
  then show ?thesis
  proof cases
    case 1
    with types show ?thesis
      by (auto simp: call_simps erc20_transfer_def dest!: typed_integer)
  next
    case 2
    with types show ?thesis by (auto simp: call_simps erc20_transfer_from_def dest!: typed_integer)
  next
    case 3
    with types show ?thesis by (auto simp: call_simps erc721_transfer_def dest!: typed_integer)
  next
    case 4
    with types show ?thesis by (auto simp: call_simps erc1155_transfer_def dest!: typed_integer)
  next
    case 5
    with types show ?thesis
      by (auto simp: call_simps erc1155_batch_def batch_returns dest!: typed_integers)
  next
    case 6
    then show ?thesis by (simp add: token_transfers_def Let_def)
  qed
qed

lemma approvals_return:
  assumes "typed_call f"
  shows "\<exists>as. analyze_approvals m (Some f) = Inr as"
proof (cases "xf_arguments f = [] \<or> xm_to_address m = None")
  case True
  then show ?thesis by (auto simp: analyze_approvals_def Let_def split: option.splits)
next
  case False
  with assms obtain types to where types: "selector_types (xf_selector f) = Some types"
    "list_all2 typed_argument types (xf_arguments f)" "xm_to_address m = Some to"
    by (auto simp: typed_call_def)
  consider "xf_selector f = ''095ea7b3''" | "xf_selector f = ''d505accf''" | "xf_selector f = ''a22cb465''"
    | "xf_selector f \<notin> {''095ea7b3'', ''d505accf'', ''a22cb465''}"
    by blast
  then show ?thesis
  proof cases
    case 1
    with types show ?thesis by (auto simp: call_simps analyze_approvals_def dest!: typed_integer)
  next
    case 2
    with types show ?thesis by (auto simp: call_simps analyze_approvals_def dest!: typed_integer)
  next
    case 3
    with types show ?thesis by (auto simp: call_simps analyze_approvals_def)
  next
    case 4
    with types show ?thesis by (simp add: analyze_approvals_def Let_def)
  qed
qed

lemma amount_returns:
  assumes "typed_call f"
  shows "\<exists>a. extract_amount f = Inr a"
proof (cases "lower (xf_function_name f) = ''mint'' \<and> xf_arguments f \<noteq> []")
  case False
  then show ?thesis by (auto simp: extract_amount_def split: option.splits)
next
  case True
  with assms obtain types where types: "selector_types (xf_selector f) = Some types"
    "list_all2 typed_argument types (xf_arguments f)" "xf_selector f \<in> {''40c10f19'', ''a0712d68''}"
    by (auto simp: typed_call_def)
  then obtain i where "first_uint (xf_arguments f) = Some i"
    by (auto simp: selector_types_simps list_all2_Cons1 typed_argument_def)
  with True show ?thesis by (simp add: extract_amount_def)
qed

lemma privileges_return:
  assumes "typed_call f"
  shows "\<exists>as. analyze_privileges m (Some f) = Inr as"
proof -
  obtain a where "extract_amount f = Inr a" using amount_returns [OF assms] by blast
  then show ?thesis by (simp add: analyze_privileges_def split: option.split)
qed

text \<open>The calls that cannot be analysed: a safe transfer of a token whose arguments do not decode.\<close>

definition undecodable :: "abi_decoder \<Rightarrow> byte list \<Rightarrow> bool" where
  "undecodable abi_decode calldata \<longleftrightarrow>
     (let selector = hex_bytes (take 4 calldata);
          types = [''address'', ''address'', ''uint256''] @ (if selector = ''b88d4fde'' then [''bytes''] else [])
      in selector \<in> {''42842e0e'', ''b88d4fde''} \<and>
         (drop 4 calldata = [] \<or> isl (abi_decode types (drop 4 calldata))))"

lemma types_of_nonempty: "abi_decode types payload = Inr vals \<Longrightarrow> typed_decoder abi_decode \<Longrightarrow>
    types \<noteq> [] \<Longrightarrow> vals \<noteq> []"
  unfolding typed_decoder_def by (metis list_all2_Nil2)

lemma undecodable_iff:
  assumes "typed_decoder abi_decode" "4 \<le> length calldata"
  shows "undecodable abi_decode calldata \<longleftrightarrow>
     hex_bytes (take 4 calldata) \<in> {''42842e0e'', ''b88d4fde''} \<and>
     xf_arguments (decode_from_registry abi_decode selector_registry calldata) = []"
proof -
  have "xf_arguments (decode_from_registry abi_decode selector_registry calldata) = [] \<longleftrightarrow>
      drop 4 calldata = [] \<or> (\<exists>e. abi_decode types (drop 4 calldata) = Inl e)"
    if types: "selector_types (hex_bytes (take 4 calldata)) = Some types" "types \<noteq> []" for types
  proof -
    from types obtain entry where entry: "map_of selector_registry (hex_bytes (take 4 calldata)) = Some entry"
      "signature_types (xe_signature entry) = types"
      by (auto simp: selector_types_def)
    then have "xe_signature entry \<noteq> []" using types(2) by (auto simp: signature_types_def)
    with entry types(2) show ?thesis
      using types_of_nonempty [OF _ assms(1) types(2)]
      by (auto simp: registry_decode [OF assms(2)] decode_with_signature_def Let_def enumerate_eq_zip
          split: sum.splits)
  qed
  from this [of "[''address'', ''address'', ''uint256'']"] this [of "[''address'', ''address'', ''uint256'', ''bytes'']"]
  show ?thesis by (auto simp: undecodable_def Let_def selector_types_simps isl_def)
qed

lemma short_not_undecodable: "length calldata < 4 \<Longrightarrow> \<not> undecodable abi_decode calldata"
proof
  assume "length calldata < 4" "undecodable abi_decode calldata"
  then have "hex_bytes (take 4 calldata) \<in> {''42842e0e'', ''b88d4fde''}" by (simp add: undecodable_def Let_def)
  then have "length (hex_bytes (take 4 calldata)) = 8" by auto
  with \<open>length calldata < 4\<close> show False by (simp add: length_hex_bytes)
qed

lemma analysis_outcome:
  assumes "typed_decoder abi_decode" "decode_transaction raw = Inr m" "extract_calldata raw = Inr calldata"
  shows "if undecodable abi_decode calldata
     then analyze_transaction clk abi_decode keccak_hex null_source_provider selector_registry raw chain_id =
       Inl (IndexError ''tuple index out of range'')
     else \<exists>r. analyze_transaction clk abi_decode keccak_hex null_source_provider selector_registry raw chain_id =
       Inr r"
proof -
  note simps = analyze_transaction_def assms(2,3) decode_unverified analyze_transfers_def
  show ?thesis
  proof (cases "length calldata < 4")
    case True
    then show ?thesis
      using short_not_undecodable by (simp add: simps analyze_approvals_def analyze_privileges_def Let_def)
  next
    case False
    let ?f = "decode_from_registry abi_decode selector_registry calldata"
    from False have len: "4 \<le> length calldata" by simp
    note typed = registry_typed [OF assms(1) len]
    from approvals_return [OF typed] privileges_return [OF typed] obtain as ps where
      "analyze_approvals m (Some ?f) = Inr as" "analyze_privileges m (Some ?f) = Inr ps" by blast
    moreover have "undecodable abi_decode calldata \<Longrightarrow> token_transfers m ?f = Inl (IndexError ''tuple index out of range'')"
      "\<not> undecodable abi_decode calldata \<Longrightarrow> \<exists>ts. token_transfers m ?f = Inr ts"
      using transfers_return [OF typed, of m] undecodable_iff [OF assms(1) len] registry_decode(1) [OF len]
      by (auto split: if_splits)
    ultimately show ?thesis using False by (auto simp: simps Let_def)
  qed
qed

text \<open>
  Property C35. For a contract without verified source and the default table, given that the ABI decoder
  returns values of the types it is asked for, analysing a transaction fails exactly when its envelope
  cannot be decoded, with that error, or when it is a safe transfer of a token (ERC-721) whose arguments
  are missing or do not decode: then \<open>IndexError\<close> is raised. All other transactions are analysed, those
  with undecodable arguments of any other function included.
\<close>

theorem transaction_failures:
  assumes "typed_decoder abi_decode"
  shows "case decode_transaction raw of
      Inl e \<Rightarrow> analyze_transaction clk abi_decode keccak_hex null_source_provider selector_registry raw chain_id = Inl e
    | Inr m \<Rightarrow> \<exists>calldata. extract_calldata raw = Inr calldata \<and>
        (if undecodable abi_decode calldata
         then \<exists>msg. analyze_transaction clk abi_decode keccak_hex null_source_provider selector_registry raw chain_id =
                Inl (IndexError msg)
         else \<exists>r. analyze_transaction clk abi_decode keccak_hex null_source_provider selector_registry raw chain_id =
                Inr r)"
proof (cases "decode_transaction raw")
  case (Inl e)
  then show ?thesis by (simp add: analyze_transaction_def)
next
  case (Inr m)
  then obtain calldata where "extract_calldata raw = Inr calldata"
    by (auto simp: decode_transaction_def bindR_eq_Inr)
  with analysis_outcome [OF assms Inr this, of clk keccak_hex chain_id] Inr show ?thesis
    by (auto split: if_splits)
qed

text \<open>A decoder of static types, word by word.\<close>

fun word_decode :: abi_decoder where
  "word_decode [] payload = Inr []"
| "word_decode (ty # types) payload =
     (if length payload < 32 \<or> ty \<notin> {''uint256'', ''address''} then Inl (ValueError ''cannot decode'')
      else bindR (word_decode types (drop 32 payload)) (\<lambda>vals.
        Inr ((if ty = ''uint256'' then AbiInt (uint_from_data (take 32 payload))
              else AbiStr (''0x'' @ hex_bytes (last_n 20 (take 32 payload)))) # vals)))"

lemma word_decode_typed: "typed_decoder word_decode"
proof -
  have "word_decode types payload = Inr vals \<Longrightarrow> list_all2 abi_typed types vals" for types payload vals
    by (induction types arbitrary: payload vals) (auto simp: bindR_eq_Inr abi_typed_def split: if_splits)
  then show ?thesis unfolding typed_decoder_def by blast
qed

definition safe_transfer :: metadata where
  "safe_transfer = [(''from'', PyStr ''0x0a''), (''to'', PyStr ''0x0b''), (''input'', PyStr ''0x42842e0e00'')]"

theorem transaction_failures_witness:
  "\<exists>msg. analyze_transaction demo_instant word_decode (\<lambda>s. s) null_source_provider selector_registry safe_transfer
     None = Inl (IndexError msg)"
proof -
  have "decode_transaction safe_transfer \<noteq> Inl e" for e by code_simp
  then obtain m where m: "decode_transaction safe_transfer = Inr m" by (cases "decode_transaction safe_transfer") auto
  have c: "extract_calldata safe_transfer = Inr [0x42, 0x84, 0x2e, 0x0e, 0]" by code_simp
  have "undecodable word_decode [0x42, 0x84, 0x2e, 0x0e, 0]" by code_simp
  with transaction_failures [OF word_decode_typed, where raw = safe_transfer and clk = demo_instant and
      keccak_hex = "\<lambda>s. s" and chain_id = None] m c
  show ?thesis by simp
qed

text \<open>An approval of \<open>10^30\<close> units.\<close>

definition approval_call :: metadata where
  "approval_call = [(''from'', PyStr ''0x0a''), (''to'', PyStr ''0x0b''),
     (''input'', PyStr (''0x095ea7b3'' @
       ''000000000000000000000000cccccccccccccccccccccccccccccccccccccccc'' @
       ''000000000000000000000000000000000000000c9f2c9cd04674edea40000000''))]"

lemma approval_call_decodes:
  "case extract_calldata approval_call of Inl e \<Rightarrow> False | Inr calldata \<Rightarrow>
     hex_bytes (take 4 calldata) = ''095ea7b3'' \<and> \<not> undecodable word_decode calldata"
  by code_simp

lemma approval_call_returns:
  obtains r where "analyze_transaction demo_instant word_decode (\<lambda>s. s) null_source_provider selector_registry
     approval_call None = Inr r"
proof -
  have "case decode_transaction approval_call of Inl e \<Rightarrow> False | Inr m \<Rightarrow> True" by code_simp
  then obtain m where "decode_transaction approval_call = Inr m" by (auto split: sum.splits)
  moreover obtain calldata where "extract_calldata approval_call = Inr calldata" "\<not> undecodable word_decode calldata"
    using approval_call_decodes by (auto split: sum.splits)
  ultimately show thesis using that analysis_outcome [OF word_decode_typed] by metis
qed

theorem transaction_category_witness:
  "\<exists>r. analyze_transaction demo_instant word_decode (\<lambda>s. s) null_source_provider selector_registry
     approval_call None = Inr r \<and> xi_category r = TxApproval"
proof -
  obtain r where r: "analyze_transaction demo_instant word_decode (\<lambda>s. s) null_source_provider selector_registry
     approval_call None = Inr r"
    by (rule approval_call_returns)
  obtain calldata where c: "extract_calldata approval_call = Inr calldata"
    "hex_bytes (take 4 calldata) = ''095ea7b3''"
    using approval_call_decodes by (auto split: sum.splits)
  have "case decode_transaction approval_call of Inl e \<Rightarrow> False | Inr m \<Rightarrow> xm_to_address m \<noteq> None" by code_simp
  moreover have "decode_transaction approval_call = Inr (xi_metadata r)"
    using r by (rule analyze_transaction_Inr) simp
  ultimately have "xm_to_address (xi_metadata r) \<noteq> None" by simp
  moreover have "map_option xe_category (lookup_selector selector_registry ''095ea7b3'') = Some (Some TxApproval)"
    by code_simp
  ultimately show ?thesis
    using transaction_category [OF r] r c by (auto split: option.splits)
qed

section \<open>Evidence\<close>

text \<open>What a call grants: nothing, an allowance of an amount, or all tokens (\<open>Some None\<close>).\<close>

definition granted :: "DecodedFunction \<Rightarrow> int option option" where
  "granted f =
     (let selector = xf_selector f;
          amount = (\<lambda>a. case coerce_int (xa_value a) of Inr i \<Rightarrow> Some (Some i) | Inl e \<Rightarrow> None)
      in case xf_arguments f of
           a # b # rest \<Rightarrow>
             (if selector = ''095ea7b3'' then amount b
              else if selector = ''a22cb465'' \<and> arg_truthy (xa_value b) then Some None
              else if selector = ''d505accf'' \<and> rest \<noteq> [] then amount (hd rest)
              else None)
         | _ \<Rightarrow> None)"

abbreviation category_id :: "TransactionCategory \<Rightarrow> string" where
  "category_id c \<equiv> evidence_id SrcClassification CatClassification (''transaction_'' @ tx_category_value c)"

abbreviation grant_id :: "bool \<Rightarrow> string" where
  "grant_id unlimited \<equiv>
     evidence_id SrcCapability CatAuthority (if unlimited then ''unlimited_approval'' else ''token_approval'')"

definition operation_id :: "PrivilegedOperation \<Rightarrow> string" where
  "operation_id operation =
     (case operation of
        PrivUpgradeTo \<Rightarrow> evidence_id SrcProxy CatUpgradeability ''upgrade_executed''
      | PrivUpgradeToAndCall \<Rightarrow> evidence_id SrcProxy CatUpgradeability ''upgrade_executed''
      | PrivSetImplementation \<Rightarrow> evidence_id SrcProxy CatUpgradeability ''upgrade_executed''
      | PrivTransferOwnership \<Rightarrow> evidence_id SrcGovernance CatAuthority ''privileged_transferOwnership''
      | PrivGrantRole \<Rightarrow> evidence_id SrcGovernance CatAuthority ''privileged_grantRole''
      | PrivRevokeRole \<Rightarrow> evidence_id SrcGovernance CatAuthority ''privileged_revokeRole''
      | _ \<Rightarrow> evidence_id SrcCapability CatCapability (''privileged_'' @ operation_value operation))"

abbreviation large_id :: string where
  "large_id \<equiv> evidence_id SrcGovernance CatAuthority ''large_privileged_transfer''"

text \<open>
  The selectors and the names, in lower case, of the functions behind each privileged operation. A
  selector of the table decides; the name counts for other selectors.
\<close>

fun operation_functions :: "PrivilegedOperation \<Rightarrow> string set \<times> string set" where
  "operation_functions PrivUpgradeTo = ({''3659cfe6''}, {''upgradeto''})"
| "operation_functions PrivUpgradeToAndCall = ({''4f1ef286''}, {''upgradetoandcall''})"
| "operation_functions PrivSetImplementation = ({''9ded06df''}, {''setimplementation''})"
| "operation_functions PrivPause = ({''8456cb59''}, {''pause''})"
| "operation_functions PrivUnpause = ({''3f4ba83a''}, {''unpause''})"
| "operation_functions PrivMint = ({''40c10f19'', ''a0712d68''}, {''mint''})"
| "operation_functions PrivBurn = ({''42966c68'', ''79cc6790''}, {''burn'', ''burnfrom''})"
| "operation_functions PrivTransferOwnership = ({''f2fde38b''}, {''transferownership''})"
| "operation_functions PrivGrantRole = ({''2f2ff15d''}, {''grantrole''})"
| "operation_functions PrivRevokeRole = ({''d547741f''}, {''revokerole''})"

definition performs :: "DecodedFunction \<Rightarrow> PrivilegedOperation \<Rightarrow> bool" where
  "performs f operation \<longleftrightarrow>
     xf_selector f \<in> fst (operation_functions operation) \<or>
     ((\<forall>other. xf_selector f \<notin> fst (operation_functions other)) \<and>
      lower (xf_function_name f) \<in> snd (operation_functions operation))"

lemma operation_of_performs: "operation_of f = Some operation \<longleftrightarrow> performs f operation"
proof -
  have selector: "map_of selector_operations s = Some op \<longleftrightarrow> s \<in> fst (operation_functions op)" for s op
    by (cases op) (auto simp: selector_operations_def)
  have named: "map_of named_operations s = Some op \<longleftrightarrow> s \<in> snd (operation_functions op)" for s op
    by (cases op) (auto simp: named_operations_def)
  have "map_of selector_operations s = None \<longleftrightarrow> (\<forall>op. s \<notin> fst (operation_functions op))" for s
    using selector [of s] by (metis not_None_eq)
  then show ?thesis
    by (cases "map_of selector_operations (xf_selector f)")
      (auto simp: operation_of_def operation_from_name_def performs_def selector [symmetric] named)
qed

text \<open>
  The units a call mints or burns: for \<open>mint\<close> and \<open>burn\<close> the first argument that is an unsigned integer,
  and for a \<open>mint\<close> without one its second argument, read as an integer. Other functions, \<open>burnFrom\<close>
  among them, state no units.
\<close>

definition unsigned_argument :: "DecodedArgument \<Rightarrow> int \<Rightarrow> bool" where
  "unsigned_argument a i \<longleftrightarrow> prefix ''uint'' (xa_solidity_type a) \<and>
     (xa_value a = ArgInt i \<or> (\<exists>b. xa_value a = ArgBool b \<and> i = (if b then 1 else 0)))"

definition states_units :: "DecodedFunction \<Rightarrow> int \<Rightarrow> bool" where
  "states_units f i \<longleftrightarrow>
     (lower (xf_function_name f) \<in> {''mint'', ''burn''} \<and>
      (\<exists>xs a ys. xf_arguments f = xs @ a # ys \<and> unsigned_argument a i \<and> (\<forall>x \<in> set xs. \<forall>j. \<not> unsigned_argument x j))) \<or>
     (lower (xf_function_name f) = ''mint'' \<and> (\<forall>x \<in> set (xf_arguments f). \<forall>j. \<not> unsigned_argument x j) \<and>
      (\<exists>a b rest. xf_arguments f = a # b # rest \<and> coerce_int (xa_value b) = Inr i))"

lemma first_uint_Cons:
  "unsigned_argument a j \<Longrightarrow> first_uint (a # rest) = Some j"
  "\<forall>j. \<not> unsigned_argument a j \<Longrightarrow> first_uint (a # rest) = first_uint rest"
  by (cases "xa_value a"; auto simp: unsigned_argument_def)+

lemma first_uint_exact:
  "first_uint as = Some i \<longleftrightarrow>
     (\<exists>xs a ys. as = xs @ a # ys \<and> unsigned_argument a i \<and> (\<forall>x \<in> set xs. \<forall>j. \<not> unsigned_argument x j))"
  "first_uint as = None \<longleftrightarrow> (\<forall>x \<in> set as. \<forall>j. \<not> unsigned_argument x j)"
proof -
  have one: "unsigned_argument a i \<Longrightarrow> unsigned_argument a j \<Longrightarrow> i = j" for a i j
    by (auto simp: unsigned_argument_def)
  show "first_uint as = None \<longleftrightarrow> (\<forall>x \<in> set as. \<forall>j. \<not> unsigned_argument x j)"
  proof (induction as)
    case (Cons b bs)
    then show ?case by (cases "\<exists>j. unsigned_argument b j") (auto simp: first_uint_Cons simp del: first_uint.simps(2))
  qed simp
  show "first_uint as = Some i \<longleftrightarrow>
     (\<exists>xs a ys. as = xs @ a # ys \<and> unsigned_argument a i \<and> (\<forall>x \<in> set xs. \<forall>j. \<not> unsigned_argument x j))"
  proof (induction as)
    case (Cons b bs)
    show ?case
    proof (cases "\<exists>j. unsigned_argument b j")
      case True
      then obtain j where j: "unsigned_argument b j" ..
      then have "first_uint (b # bs) = Some i \<longleftrightarrow> unsigned_argument b i"
        using one by (auto simp: first_uint_Cons(1) simp del: first_uint.simps(2))
      also have "\<dots> \<longleftrightarrow> (\<exists>xs a ys. b # bs = xs @ a # ys \<and> unsigned_argument a i \<and> (\<forall>x \<in> set xs. \<forall>j. \<not> unsigned_argument x j))"
        using j by (fastforce simp: Cons_eq_append_conv)
      finally show ?thesis .
    next
      case False
      then have "first_uint (b # bs) = first_uint bs" by (simp add: first_uint_Cons(2) del: first_uint.simps(2))
      with False Cons show ?thesis by (simp add: Cons_eq_append_conv) (metis list.set_intros set_ConsD)
    qed
  qed simp
qed

lemma extract_amount_exact: "extract_amount f = Inr (Some i) \<longleftrightarrow> states_units f i"
  unfolding states_units_def first_uint_exact(1) [symmetric] unfolding first_uint_exact(2) [symmetric]
  by (cases "xf_arguments f"; cases "tl (xf_arguments f)")
    (auto simp: extract_amount_def arg_at_def bindR_eq_Inr simp del: first_uint.simps split: option.splits)

lemma unlimited_amount: "(i \<ge> max_uint256 \<or> i \<ge> large_allowance_threshold) = (10 ^ 30 \<le> i)"
  using unlimited_amounts(2) unfolding is_unlimited_def .

lemma allowance_item_id:
  "ev_id (tx_approval_item clk m (allowance_finding kind m spender i)) = grant_id (10 ^ 30 \<le> i)"
  "ev_id (tx_approval_item clk m (operator_finding m token spender)) = grant_id True"
  by (simp_all add: tx_approval_item_def allowance_finding_def operator_finding_def unlimited_amount Let_def)

lemma approval_ids:
  assumes "analyze_approvals m (Some f) = Inr approvals" "xm_to_address m \<noteq> None"
  shows "ev_id ` set (tx_approval_evidence clk m approvals) =
     (case granted f of
        None \<Rightarrow> {} | Some None \<Rightarrow> {grant_id True} | Some (Some i) \<Rightarrow> {grant_id (10 ^ 30 \<le> i)})"
proof -
  from assms(2) obtain to where to: "xm_to_address m = Some to" by blast
  note simps = analyze_approvals_def granted_def Let_def tx_approval_evidence_def arg_at_def to
    bindR_eq_Inr allowance_item_id
  consider (none) "xf_arguments f = []" | (one) a where "xf_arguments f = [a]"
    | (two) a b rest where "xf_arguments f = a # b # rest"
    by (metis list.exhaust)
  then show ?thesis
  proof cases
    case two
    consider "xf_selector f = ''095ea7b3''" | "xf_selector f = ''d505accf''" | "xf_selector f = ''a22cb465''"
      | "xf_selector f \<notin> {''095ea7b3'', ''d505accf'', ''a22cb465''}"
      by blast
    then show ?thesis
    proof cases
      case 2
      with assms(1) two show ?thesis by (cases rest) (auto simp: simps)
    qed (use assms(1) two in \<open>auto simp: simps split: if_splits\<close>)
  qed (use assms(1) in \<open>auto simp: simps split: if_splits\<close>)
qed

lemma operation_ids: "ev_id ` set (tx_operation_evidence clk m a) = {operation_id (xv_operation a)}"
  by (cases "xv_operation a") (simp_all add: tx_operation_evidence_def operation_id_def Let_def)

lemma action_ids:
  assumes "analyze_privileges m (Some f) = Inr actions" "xm_to_address m \<noteq> None"
  shows "ev_id ` set (tx_privilege_evidence clk m actions) =
     (case operation_of f of
        None \<Rightarrow> {}
      | Some operation \<Rightarrow>
          {operation_id operation} \<union>
          (if 10 ^ 21 \<le> xm_value_wei m \<or> (\<exists>i. extract_amount f = Inr (Some i) \<and> 10 ^ 21 \<le> i) then {large_id} else {}))"
proof (cases "operation_of f")
  case None
  with assms show ?thesis by (auto simp: analyze_privileges_def tx_privilege_evidence_def)
next
  case (Some operation)
  with assms obtain to amount where "xm_to_address m = Some to" and amount: "extract_amount f = Inr amount"
    by (auto simp: analyze_privileges_def bindR_eq_Inr)
  with Some assms(1) obtain a where a: "actions = [a]" "xv_operation a = operation"
    "xv_is_large_transfer a \<longleftrightarrow>
       (case amount of None \<Rightarrow> False | Some i \<Rightarrow> large_value_threshold \<le> i) \<or> large_value_threshold \<le> xm_value_wei m"
    by (auto simp: analyze_privileges_def)
  have "ev_id ` set (large_transfer_evidence clk m a) = (if xv_is_large_transfer a then {large_id} else {})"
    by (simp add: large_transfer_evidence_def)
  with a Some amount show ?thesis
    by (cases amount) (auto simp: tx_privilege_evidence_def image_Un operation_ids large_value_threshold_def)
qed

lemma privilege_ids:
  assumes "analyze_privileges m (Some f) = Inr actions" "xm_to_address m \<noteq> None"
  shows "ev_id ` set (tx_privilege_evidence clk m actions) =
     operation_id ` {operation. performs f operation} \<union>
     (if (\<exists>operation. performs f operation) \<and>
         (10 ^ 21 \<le> xm_value_wei m \<or> (\<exists>i. states_units f i \<and> 10 ^ 21 \<le> i)) then {large_id} else {})"
  unfolding action_ids [OF assms] operation_of_performs [symmetric] extract_amount_exact [symmetric]
  by (cases "operation_of f") (simp_all cong: if_cong)

lemma tx_evidence_scores:
  "ev_score ` set (emit_transaction_evidence clk m category approvals actions decoded) \<subseteq> {zero_score}"
proof -
  have "e \<in> set (tx_operation_evidence clk m a) \<Longrightarrow> ev_score e = zero_score"
    "e \<in> set (large_transfer_evidence clk m a) \<Longrightarrow> ev_score e = zero_score"
    "ev_score (tx_approval_item clk m b) = zero_score" for a b e
    by (auto simp: tx_operation_evidence_def large_transfer_evidence_def tx_approval_item_def Let_def split: if_splits)
  then have "\<forall>e \<in> set (tx_classification_evidence clk m category decoded) \<union>
      set (tx_approval_evidence clk m approvals) \<union> set (tx_privilege_evidence clk m actions). ev_score e = zero_score"
    by (auto simp: tx_classification_evidence_def tx_approval_evidence_def tx_privilege_evidence_def)
  with merge_evidence_subset show ?thesis unfolding emit_transaction_evidence_def by fastforce
qed

text \<open>
  Property C7. The evidence of a transaction says exactly what it did: its category; when it calls a
  contract, the allowance it grants (unlimited from \<open>10^30\<close> on, and for an operator of all tokens), the
  privileged operation it executes, told by selector or name, and for such an operation whether it
  moves at least \<open>10^21\<close> in value, or in the units a \<open>mint\<close> or \<open>burn\<close> states. The units of a \<open>burnFrom\<close>,
  though it counts as a burn, are not read. There is one item per signal, and none has a score.
\<close>

theorem transaction_evidence_exact:
  assumes "analyze_transaction clk abi_decode keccak_hex provider registry raw chain_id = Inr r"
  shows "\<exists>call. call = (if xm_to_address (xi_metadata r) = None then None else xi_decoded_function r) \<and>
    ev_id ` set (xi_risk_evidence r) =
      {category_id (xi_category r)} \<union>
      (case Option.bind call granted of
         None \<Rightarrow> {} | Some None \<Rightarrow> {grant_id True} | Some (Some i) \<Rightarrow> {grant_id (10 ^ 30 \<le> i)}) \<union>
      (case call of
         None \<Rightarrow> {}
       | Some f \<Rightarrow>
           operation_id ` {operation. performs f operation} \<union>
           (if (\<exists>operation. performs f operation) \<and>
               (10 ^ 21 \<le> xm_value_wei (xi_metadata r) \<or> (\<exists>i. states_units f i \<and> 10 ^ 21 \<le> i))
            then {large_id} else {})) \<and>
    distinct (map ev_id (xi_risk_evidence r)) \<and> ev_score ` set (xi_risk_evidence r) \<subseteq> {Dec 0 2}"
proof -
  from assms obtain m where m: "xi_metadata r = m"
    and a: "analyze_approvals m (xi_decoded_function r) = Inr (xi_approvals r)"
    "analyze_privileges m (xi_decoded_function r) = Inr (xi_privileged_actions r)"
    and e: "xi_risk_evidence r = emit_transaction_evidence clk m (xi_category r) (xi_approvals r)
       (xi_privileged_actions r) (xi_decoded_function r)"
    by (rule analyze_transaction_Inr)
  let ?call = "if xm_to_address m = None then None else xi_decoded_function r"
  have ids: "ev_id ` set (xi_risk_evidence r) = {category_id (xi_category r)} \<union>
      ev_id ` set (tx_approval_evidence clk m (xi_approvals r)) \<union>
      ev_id ` set (tx_privilege_evidence clk m (xi_privileged_actions r))"
    by (auto simp: e emit_transaction_evidence_def tx_classification_evidence_def)
  have scores: "ev_score ` set (xi_risk_evidence r) \<subseteq> {Dec 0 2}"
    using tx_evidence_scores unfolding e zero_score_def .
  have unique: "distinct (map ev_id (xi_risk_evidence r))" by (simp add: e emit_transaction_evidence_def)
  show ?thesis
  proof (cases ?call)
    case None
    with a have "xi_approvals r = []" "xi_privileged_actions r = []"
      by (auto simp: analyze_approvals_def analyze_privileges_def split: option.splits if_splits)
    with None ids scores unique m show ?thesis
      by (auto simp: tx_approval_evidence_def tx_privilege_evidence_def)
  next
    case (Some f)
    then have f: "xi_decoded_function r = Some f" "xm_to_address m \<noteq> None" by (auto split: if_splits)
    show ?thesis
      unfolding m ids approval_ids [OF a(1) [unfolded f(1)] f(2)] privilege_ids [OF a(2) [unfolded f(1)] f(2)]
      using f scores unique
      by (intro exI [of _ "Some f"] conjI) (simp_all only: Option.bind.simps option.case Un_assoc if_False)
  qed
qed

text \<open>Minting \<open>10^30\<close> units and burning as many from another account.\<close>

definition units_call :: "string \<Rightarrow> metadata" where
  "units_call selector = [(''from'', PyStr ''0x0a''), (''to'', PyStr ''0x0b''),
     (''input'', PyStr (''0x'' @ selector @
       ''000000000000000000000000cccccccccccccccccccccccccccccccccccccccc'' @
       ''000000000000000000000000000000000000000c9f2c9cd04674edea40000000''))]"

lemma units_call_analysis:
  assumes "selector \<in> {''40c10f19'', ''79cc6790''}"
  obtains r f where "analyze_transaction demo_instant word_decode (\<lambda>s. s) null_source_provider selector_registry
     (units_call selector) None = Inr r" "xm_to_address (xi_metadata r) \<noteq> None" "xm_value_wei (xi_metadata r) = 0"
     "xi_decoded_function r = Some f" "xf_selector f = selector" "granted f = None"
     "xf_function_name f = (if selector = ''40c10f19'' then ''mint'' else ''burnFrom'')"
     "selector = ''40c10f19'' \<Longrightarrow> first_uint (xf_arguments f) = Some (10 ^ 30)"
proof -
  let ?f = "\<lambda>calldata. decode_from_registry word_decode selector_registry calldata"
  have "case decode_transaction (units_call selector) of Inl e \<Rightarrow> False
      | Inr m \<Rightarrow> xm_to_address m \<noteq> None \<and> xm_value_wei m = 0"
    using assms by (elim insertE emptyE; hypsubst; code_simp)
  then obtain m where m: "decode_transaction (units_call selector) = Inr m" "xm_to_address m \<noteq> None" "xm_value_wei m = 0"
    by (auto split: sum.splits)
  have "case extract_calldata (units_call selector) of Inl e \<Rightarrow> False
      | Inr calldata \<Rightarrow> 4 \<le> length calldata \<and> \<not> undecodable word_decode calldata \<and>
          xf_selector (?f calldata) = selector \<and> granted (?f calldata) = None \<and>
          xf_function_name (?f calldata) = (if selector = ''40c10f19'' then ''mint'' else ''burnFrom'') \<and>
          first_uint (xf_arguments (?f calldata)) = Some (10 ^ 30)"
    using assms by (elim insertE emptyE; hypsubst; code_simp)
  then obtain calldata where c: "extract_calldata (units_call selector) = Inr calldata" "4 \<le> length calldata"
      "\<not> undecodable word_decode calldata" "xf_selector (?f calldata) = selector" "granted (?f calldata) = None"
      "xf_function_name (?f calldata) = (if selector = ''40c10f19'' then ''mint'' else ''burnFrom'')"
      "first_uint (xf_arguments (?f calldata)) = Some (10 ^ 30)"
    by (auto split: sum.splits)
  obtain r where r: "analyze_transaction demo_instant word_decode (\<lambda>s. s) null_source_provider selector_registry
     (units_call selector) None = Inr r"
    using m(1) c(1,3) analysis_outcome [OF word_decode_typed] by metis
  moreover obtain m' calldata' where "decode_transaction (units_call selector) = Inr m'"
    "extract_calldata (units_call selector) = Inr calldata'" "xi_metadata r = m'"
    "decode_call word_decode (\<lambda>s. s) null_source_provider selector_registry (xm_to_address m') calldata'
       (effective_chain_id None (xm_chain_id m')) = Inr (xi_decoded_function r)"
    using r by (rule analyze_transaction_Inr)
  ultimately have "xi_metadata r = m" "xi_decoded_function r = Some (?f calldata)"
    using m c by (simp_all add: decode_unverified)
  with r m(2,3) c(4-7) that [of r "?f calldata"] show thesis by simp
qed

theorem transaction_evidence_exact_witness:
  "\<exists>r r'. analyze_transaction demo_instant word_decode (\<lambda>s. s) null_source_provider selector_registry
     (units_call ''40c10f19'') None = Inr r \<and>
     ev_id ` set (xi_risk_evidence r) = {category_id (xi_category r), operation_id PrivMint, large_id} \<and>
   analyze_transaction demo_instant word_decode (\<lambda>s. s) null_source_provider selector_registry
     (units_call ''79cc6790'') None = Inr r' \<and>
     ev_id ` set (xi_risk_evidence r') = {category_id (xi_category r'), operation_id PrivBurn}"
proof -
  have only: "{operation. performs f operation} = {operation. operation_of f = Some operation}" for f
    by (simp only: operation_of_performs)
  obtain r f where r: "analyze_transaction demo_instant word_decode (\<lambda>s. s) null_source_provider selector_registry
     (units_call ''40c10f19'') None = Inr r" "xm_to_address (xi_metadata r) \<noteq> None" "xi_decoded_function r = Some f"
     "xf_selector f = ''40c10f19''" "granted f = None" "xf_function_name f = ''mint''"
     "first_uint (xf_arguments f) = Some (10 ^ 30)"
    by (rule units_call_analysis [of "''40c10f19''"]) simp_all
  have mint: "operation_of f = Some PrivMint" by (simp add: operation_of_def r(4) selector_operations_def)
  have "lower ''mint'' = ''mint''" by code_simp
  then have "extract_amount f = Inr (Some (10 ^ 30))" by (simp add: extract_amount_def r(6,7))
  then have "\<exists>i. states_units f i \<and> 10 ^ 21 \<le> i" unfolding extract_amount_exact by (intro exI [of _ "10 ^ 30"]) simp
  with mint transaction_evidence_exact [OF r(1)] r(2,3,5)
  have large: "ev_id ` set (xi_risk_evidence r) = {category_id (xi_category r), operation_id PrivMint, large_id}"
    by (auto simp: operation_of_performs [symmetric])
  obtain r' f' where r': "analyze_transaction demo_instant word_decode (\<lambda>s. s) null_source_provider selector_registry
     (units_call ''79cc6790'') None = Inr r'" "xm_to_address (xi_metadata r') \<noteq> None" "xi_decoded_function r' = Some f'"
     "xf_selector f' = ''79cc6790''" "granted f' = None" "xf_function_name f' = ''burnFrom''" "xm_value_wei (xi_metadata r') = 0"
    by (rule units_call_analysis [of "''79cc6790''"]) simp_all
  have burn: "operation_of f' = Some PrivBurn" by (simp add: operation_of_def r'(4) selector_operations_def)
  have "lower ''burnFrom'' = ''burnfrom''" by code_simp
  then have "\<not> states_units f' i" for i by (simp add: states_units_def r'(6))
  with burn transaction_evidence_exact [OF r'(1)] r'(2,3,5,7)
  have "ev_id ` set (xi_risk_evidence r') = {category_id (xi_category r'), operation_id PrivBurn}"
    by (auto simp: operation_of_performs [symmetric])
  with large r(1) r'(1) show ?thesis by blast
qed

end
