(* ===== verification/ChainNode.thy ===== *)
theory ChainNode
  imports Transaction RiskInput
begin

text \<open>
  What the analyzers know of the chain: validation of addresses (\<open>core/validators.py\<close>), the node they
  query, and the readers of storage words, call results and bytecode (\<open>eip1967.py\<close>, \<open>ownable.py\<close>,
  \<open>timelock.py\<close>, \<open>multisig.py\<close>, \<open>erc165.py\<close>, \<open>token_standards.py\<close>, \<open>access_control.py\<close>,
  \<open>governance_patterns.py\<close>, \<open>capability.py\<close>).

  The node is a parameter: a \<open>ChainNode\<close> answers \<open>eth_getCode\<close>, \<open>eth_getStorageAt\<close> and \<open>eth_call\<close> for
  an address, or raises. It takes the normalized address: the checksum spelling that the code passes
  denotes the same account. Call data is the bytes sent, also where the code passes their hex text.
  The hash \<open>Web3.keccak(text=...)\<close> is a parameter \<open>K\<close>.
\<close>

section \<open>Addresses (core/validators.py)\<close>

definition is_hex :: "char \<Rightarrow> bool" where
  "is_hex c \<longleftrightarrow> hex_val c \<noteq> None"

fun eth_address_pattern :: "string \<Rightarrow> bool" where
  "eth_address_pattern (a # b # digits) =
     (a = CHR ''0'' \<and> b \<in> {CHR ''x'', CHR ''X''} \<and> length digits = 40 \<and> list_all is_hex digits)"
| "eth_address_pattern s = False"

definition normalize_eth_address :: "string \<Rightarrow> string result" where
  "normalize_eth_address address =
     (let normalized = strip address
      in if eth_address_pattern normalized then Inr (lower normalized)
         else Inl (ValueError ''target_address must be a valid 20-byte EVM address (0x + 40 hex characters)''))"

definition is_valid_eth_address :: "string \<Rightarrow> bool" where
  "is_valid_eth_address address =
     (case normalize_eth_address address of
        Inr s \<Rightarrow> True
      | Inl e \<Rightarrow> False)"

section \<open>The node\<close>

record ChainNode =
  nd_get_code :: "string \<Rightarrow> byte list result"
  nd_get_storage_at :: "string \<Rightarrow> string \<Rightarrow> byte list result"
  nd_eth_call :: "string \<Rightarrow> byte list \<Rightarrow> byte list result"

text \<open>\<open>word.rjust(32, b"\0")\<close>, \<open>int.from_bytes(word, "big")\<close> and \<open>bytes.fromhex\<close> of a constant.\<close>

definition rjust_word :: "byte list \<Rightarrow> byte list" where
  "rjust_word bs = replicate (32 - length bs) 0 @ bs"

definition int_from_bytes :: "byte list \<Rightarrow> int" where
  "int_from_bytes bs = foldl (\<lambda>n b. 256 * n + int (unat b)) 0 bs"

definition hex_const :: "string \<Rightarrow> byte list" where
  "hex_const s = the (bytes_fromhex s)"

text \<open>The address in the last 20 bytes of a word; the zero address counts as none.\<close>

definition word_to_address :: "byte list \<Rightarrow> string option" where
  "word_to_address word =
     (let address_bytes = last_n 20 word
      in if address_bytes = replicate 20 0 then None else Some (''0x'' @ hex_bytes address_bytes))"

section \<open>Storage words and call results\<close>

subsection \<open>eip1967.py\<close>

definition implementation_slot :: string where
  "implementation_slot = ''0x360894a13ba1a3210667c828492db98dca3e2076cc3735a920a3ca505d382bbc''"

definition admin_slot :: string where
  "admin_slot = ''0xb53127684a568b3173ae63b9f9a42cbe97166b21bf7da7747eed036fb0d46a55''"

definition beacon_slot :: string where
  "beacon_slot = ''0xa3f0ad74e5423aebfd80d3ef4346578335a9a72aeaee59ff6cb3582b35133d50''"

definition parse_eip1967_storage_address :: "byte list \<Rightarrow> string option" where
  "parse_eip1967_storage_address storage_word =
     (let word = (if length storage_word \<noteq> 32 then rjust_word storage_word else storage_word)
      in word_to_address word)"

definition parse_eip1967_implementation :: "byte list \<Rightarrow> string option" where
  "parse_eip1967_implementation storage_word = parse_eip1967_storage_address storage_word"

definition parse_eip1967_admin :: "byte list \<Rightarrow> string option" where
  "parse_eip1967_admin storage_word = parse_eip1967_storage_address storage_word"

subsection \<open>ownable.py, timelock.py, multisig.py\<close>

definition owner_function_selector :: "byte list" where
  "owner_function_selector = hex_const ''8da5cb5b''"

definition parse_ownable_owner :: "byte list \<Rightarrow> string option" where
  "parse_ownable_owner return_data =
     word_to_address (if length return_data < 32 then rjust_word return_data else return_data)"

definition get_min_delay_selector :: "byte list" where
  "get_min_delay_selector = hex_const ''3ecaef56''"

definition parse_min_delay :: "byte list \<Rightarrow> int" where
  "parse_min_delay return_data =
     int_from_bytes (if length return_data < 32 then rjust_word return_data else return_data)"

definition is_gnosis_safe_multisig :: "byte list \<Rightarrow> bool" where
  "is_gnosis_safe_multisig bytecode \<longleftrightarrow>
     sublist (hex_const ''a0e67e2b'') bytecode \<and> sublist (hex_const ''e75235b8'') bytecode"

subsection \<open>erc165.py\<close>

definition interface_id_erc165 :: "byte list" where
  "interface_id_erc165 = hex_const ''01ffc9a7''"

definition interface_id_erc721 :: "byte list" where
  "interface_id_erc721 = hex_const ''80ac58cd''"

definition interface_id_erc1155 :: "byte list" where
  "interface_id_erc1155 = hex_const ''d9b67a26''"

definition encode_supports_interface_call :: "(string \<Rightarrow> byte list) \<Rightarrow> byte list \<Rightarrow> byte list result" where
  "encode_supports_interface_call K interface_id =
     (if length interface_id \<noteq> 4 then Inl (ValueError ''interface_id must be 4 bytes'')
      else Inr (take 4 (K ''supportsInterface(bytes4)'') @ rjust_word interface_id))"

definition parse_bool_word :: "byte list \<Rightarrow> bool" where
  "parse_bool_word return_data \<longleftrightarrow>
     int_from_bytes (last_n 32 (if length return_data < 32 then rjust_word return_data else return_data)) \<noteq> 0"

definition parse_supports_interface_result :: "byte list \<Rightarrow> bool" where
  "parse_supports_interface_result return_data = parse_bool_word return_data"

section \<open>Token standards (token\_standards.py)\<close>

record TokenStandardFlags =
  tf_is_erc20 :: bool
  tf_is_erc721 :: bool
  tf_is_erc1155 :: bool

definition no_token_flags :: TokenStandardFlags where
  "no_token_flags = \<lparr>tf_is_erc20 = False, tf_is_erc721 = False, tf_is_erc1155 = False\<rparr>"

definition has_any_selector :: "byte list \<Rightarrow> string list \<Rightarrow> bool" where
  "has_any_selector bytecode selectors = list_ex (\<lambda>selector. sublist (hex_const selector) bytecode) selectors"

definition detect_token_standards_from_bytecode :: "byte list \<Rightarrow> TokenStandardFlags" where
  "detect_token_standards_from_bytecode bytecode =
     (if bytecode = [] then no_token_flags
      else if has_any_selector bytecode [''4e1273f4'', ''f242432a'', ''0e89341c'']
      then no_token_flags\<lparr>tf_is_erc1155 := True\<rparr>
      else if has_any_selector bytecode [''6352211e'', ''b88d4fde'', ''c87b56dd'']
      then no_token_flags\<lparr>tf_is_erc721 := True\<rparr>
      else no_token_flags\<lparr>tf_is_erc20 :=
        sublist (hex_const ''a9059cbb'') bytecode \<and> sublist (hex_const ''70a08231'') bytecode \<and>
        has_any_selector bytecode [''18160ddd'', ''095ea7b3'', ''23b872dd'', ''d0e30db0'', ''2e1a7d4d'']\<rparr>)"

section \<open>Roles (access\_control.py, governance\_patterns.py)\<close>

definition get_role_admin_selector :: "(string \<Rightarrow> byte list) \<Rightarrow> byte list" where
  "get_role_admin_selector K = take 4 (K ''getRoleAdmin(bytes32)'')"

definition has_role_selector :: "(string \<Rightarrow> byte list) \<Rightarrow> byte list" where
  "has_role_selector K = take 4 (K ''hasRole(bytes32,address)'')"

definition known_roles :: "(string \<Rightarrow> byte list) \<Rightarrow> (string, byte list) dict" where
  "known_roles K =
    [(''DEFAULT_ADMIN_ROLE'', replicate 32 0), (''MINTER_ROLE'', K ''MINTER_ROLE''),
     (''PAUSER_ROLE'', K ''PAUSER_ROLE''), (''UPGRADER_ROLE'', K ''UPGRADER_ROLE''),
     (''BURNER_ROLE'', K ''BURNER_ROLE'')]"

definition role_id_to_name :: "(string \<Rightarrow> byte list) \<Rightarrow> (byte list, string) dict" where
  "role_id_to_name K = dict_of snd fst (known_roles K)"

definition role_id_hex :: "byte list \<Rightarrow> string" where
  "role_id_hex role_id = ''0x'' @ hex_bytes role_id"

definition encode_get_role_admin_call :: "(string \<Rightarrow> byte list) \<Rightarrow> byte list \<Rightarrow> byte list result" where
  "encode_get_role_admin_call K role_id =
     (if length role_id \<noteq> 32 then Inl (ValueError ''role_id must be 32 bytes'')
      else Inr (get_role_admin_selector K @ role_id))"

definition encode_has_role_call :: "(string \<Rightarrow> byte list) \<Rightarrow> byte list \<Rightarrow> string \<Rightarrow> byte list result" where
  "encode_has_role_call K role_id account =
     (if length role_id \<noteq> 32 then Inl (ValueError ''role_id must be 32 bytes'')
      else case bytes_fromhex (removeprefix ''0x'' account) of
          None \<Rightarrow> Inl (ValueError ''non-hexadecimal number found in fromhex() arg'')
        | Some account_bytes \<Rightarrow>
            (if length account_bytes \<noteq> 20 then Inl (ValueError ''account must be 20 bytes'')
             else Inr (has_role_selector K @ role_id @ rjust_word account_bytes)))"

definition parse_role_admin :: "byte list \<Rightarrow> byte list" where
  "parse_role_admin return_data =
     last_n 32 (if length return_data < 32 then rjust_word return_data else return_data)"

definition parse_has_role_result :: "byte list \<Rightarrow> bool" where
  "parse_has_role_result return_data = parse_bool_word return_data"

definition has_access_control_selectors :: "(string \<Rightarrow> byte list) \<Rightarrow> byte list \<Rightarrow> bool" where
  "has_access_control_selectors K bytecode \<longleftrightarrow>
     sublist (get_role_admin_selector K) bytecode \<and> sublist (has_role_selector K) bytecode"

definition role_name_for_id :: "(string \<Rightarrow> byte list) \<Rightarrow> byte list \<Rightarrow> string option" where
  "role_name_for_id K role_id = map_of (role_id_to_name K) role_id"

definition has_ownable2step_selectors :: "(string \<Rightarrow> byte list) \<Rightarrow> byte list \<Rightarrow> bool" where
  "has_ownable2step_selectors K bytecode = sublist (take 4 (K ''pendingOwner()'')) bytecode"

definition has_proxy_admin_selectors :: "(string \<Rightarrow> byte list) \<Rightarrow> byte list \<Rightarrow> bool" where
  "has_proxy_admin_selectors K bytecode \<longleftrightarrow>
     sublist (take 4 (K ''upgrade(address,address)'')) bytecode \<or>
     sublist (take 4 (K ''changeProxyAdmin(address,address)'')) bytecode"

definition has_access_control_bytecode :: "(string \<Rightarrow> byte list) \<Rightarrow> byte list \<Rightarrow> bool" where
  "has_access_control_bytecode K bytecode \<longleftrightarrow>
     sublist (get_role_admin_selector K) bytecode \<and> sublist (has_role_selector K) bytecode"

section \<open>Capabilities (capability.py)\<close>

record CapabilityFlags =
  cf_mint_capability :: bool
  cf_pause_capability :: bool
  cf_blacklist_capability :: bool
  cf_ownership_capability :: bool

definition no_capabilities :: CapabilityFlags where
  "no_capabilities = \<lparr>cf_mint_capability = False, cf_pause_capability = False,
     cf_blacklist_capability = False, cf_ownership_capability = False\<rparr>"

definition has_any_capability :: "CapabilityFlags \<Rightarrow> bool" where
  "has_any_capability flags \<longleftrightarrow>
     cf_mint_capability flags \<or> cf_pause_capability flags \<or> cf_blacklist_capability flags \<or>
     cf_ownership_capability flags"

definition mint_selectors :: "string list" where
  "mint_selectors = [''40c10f19'', ''a0712d68'', ''6a627842'', ''449a52f8'']"

definition pause_selectors :: "string list" where
  "pause_selectors = [''8456cb59'', ''3f4ba83a'']"

definition blacklist_selectors :: "string list" where
  "blacklist_selectors = [''f9f92be4'', ''44337ea1'', ''153b0d1e'', ''e5c7160b'', ''fe575a87'']"

definition ownership_selectors :: "string list" where
  "ownership_selectors = [''8da5cb5b'', ''f2fde38b'', ''715018a6'']"

definition detect_capabilities_from_bytecode :: "byte list \<Rightarrow> CapabilityFlags" where
  "detect_capabilities_from_bytecode bytecode =
     (if bytecode = [] then no_capabilities
      else \<lparr>cf_mint_capability = has_any_selector bytecode mint_selectors,
            cf_pause_capability = has_any_selector bytecode pause_selectors,
            cf_blacklist_capability = has_any_selector bytecode blacklist_selectors,
            cf_ownership_capability = has_any_selector bytecode ownership_selectors\<rparr>)"

definition mint_function_names :: "string list" where
  "mint_function_names = map lower [''mint'', ''mintTo'', ''_mint'']"

definition pause_function_names :: "string list" where
  "pause_function_names = map lower [''pause'']"

definition blacklist_function_names :: "string list" where
  "blacklist_function_names = map lower
     [''blacklist'', ''addToBlacklist'', ''setBlacklist'', ''blocklist'', ''addToBlocklist'', ''ban'',
      ''addToDenylist'']"

definition ownership_function_names :: "string list" where
  "ownership_function_names = map lower [''owner'', ''transferOwnership'', ''renounceOwnership'']"

definition names_meet :: "string list \<Rightarrow> string list \<Rightarrow> bool" where
  "names_meet names markers = list_ex (\<lambda>n. n \<in> set markers) names"

definition flags_from_function_names :: "string list \<Rightarrow> CapabilityFlags" where
  "flags_from_function_names names =
     \<lparr>cf_mint_capability = names_meet names mint_function_names,
      cf_pause_capability = names_meet names pause_function_names,
      cf_blacklist_capability = names_meet names blacklist_function_names,
      cf_ownership_capability = names_meet names ownership_function_names\<rparr>"

text \<open>
  The names of the function entries of an ABI; the set is the list of names found. An entry that is
  not a dictionary has no \<open>get\<close>.
\<close>

fun abi_names_with :: "(string \<Rightarrow> string) \<Rightarrow> pyval list \<Rightarrow> string list result" where
  "abi_names_with f [] = Inr []"
| "abi_names_with f (v # abi) =
     (case v of
        PyDict entry \<Rightarrow>
          bindR (abi_names_with f abi) (\<lambda>names.
            Inr (if py_eq (py_get entry ''type'') (PyStr ''function'')
                 then (case py_get entry ''name'' of PyStr name \<Rightarrow> f name # names | _ \<Rightarrow> names)
                 else names))
      | _ \<Rightarrow> Inl (AttributeError ''get''))"

definition detect_capabilities_from_abi :: "pyval list \<Rightarrow> CapabilityFlags result" where
  "detect_capabilities_from_abi abi =
     bindR (abi_names_with lower abi) (\<lambda>names. Inr (flags_from_function_names names))"

end
