(* ===== verification/SourceAnalysis.thy ===== *)
theory SourceAnalysis
  imports ChainNode
begin

text \<open>
  The analysis of verified sources (\<open>source_analysis_engine.py\<close>). Its regular expressions are
  sequences of a few pieces: a literal text, an opening parenthesis, blanks (\<open>\s*\<close> or \<open>\s+\<close>) and a word
  boundary (\<open>\b\<close>). Blanks are always followed by a piece that is not blank, so the greedy matcher below
  needs no backtracking. Letters outside ASCII, which \<open>re.IGNORECASE\<close> and \<open>\w\<close> know too, are not
  modelled. A set of names is the list of the names found; it is only searched or sorted.
\<close>

section \<open>Patterns\<close>

datatype piece = Lit string | Paren | Blanks | Blanks1 | Boundary

definition word_char :: "char \<Rightarrow> bool" where
  "word_char c \<longleftrightarrow>
     (let n = (of_char c :: nat)
      in (48 \<le> n \<and> n \<le> 57) \<or> (65 \<le> n \<and> n \<le> 90) \<or> (97 \<le> n \<and> n \<le> 122) \<or> n = 95)"

definition word_option :: "char option \<Rightarrow> bool" where
  "word_option c = (case c of None \<Rightarrow> False | Some x \<Rightarrow> word_char x)"

definition first_char :: "string \<Rightarrow> char option" where
  "first_char s = (case s of [] \<Rightarrow> None | c # _ \<Rightarrow> Some c)"

definition last_char :: "char option \<Rightarrow> string \<Rightarrow> char option" where
  "last_char before s = (if s = [] then before else Some (last s))"

text \<open>Does the pattern match here, \<open>before\<close> being the character in front?\<close>

fun match_here :: "piece list \<Rightarrow> char option \<Rightarrow> string \<Rightarrow> bool" where
  "match_here [] before s = True"
| "match_here (Lit t # ps) before s =
     (prefix (lower t) (lower s) \<and>
      match_here ps (last_char before (take (length t) s)) (drop (length t) s))"
| "match_here (Paren # ps) before s =
     (case s of [] \<Rightarrow> False | c # s' \<Rightarrow> c = CHR ''('' \<and> match_here ps (Some c) s')"
| "match_here (Blanks # ps) before s =
     match_here ps (last_char before (takeWhile py_space s)) (dropWhile py_space s)"
| "match_here (Blanks1 # ps) before s =
     (takeWhile py_space s \<noteq> [] \<and>
      match_here ps (last_char before (takeWhile py_space s)) (dropWhile py_space s))"
| "match_here (Boundary # ps) before s =
     (word_option before \<noteq> word_option (first_char s) \<and> match_here ps before s)"

text \<open>\<open>re.search\<close>: does it match somewhere?\<close>

fun search :: "piece list \<Rightarrow> char option \<Rightarrow> string \<Rightarrow> bool" where
  "search ps before [] = match_here ps before []"
| "search ps before (c # s) = (match_here ps before (c # s) \<or> search ps (Some c) s)"

text \<open>The text of a pattern, as the evidence shows it: without backslashes at its ends.\<close>

definition backslash :: char where
  "backslash = CHR 0x5C"

fun piece_text :: "piece \<Rightarrow> string" where
  "piece_text (Lit t) = t"
| "piece_text Paren = [backslash, CHR ''('']"
| "piece_text Blanks = backslash # ''s*''"
| "piece_text Blanks1 = backslash # ''s+''"
| "piece_text Boundary = [backslash, CHR ''b'']"

definition marker_text :: "piece list \<Rightarrow> string" where
  "marker_text ps =
     rev (dropWhile (\<lambda>c. c = backslash) (rev (dropWhile (\<lambda>c. c = backslash) (concat (map piece_text ps)))))"

abbreviation word_marker :: "string \<Rightarrow> piece list" where
  "word_marker t \<equiv> [Boundary, Lit t, Boundary]"

abbreviation function_marker :: "string \<Rightarrow> piece list" where
  "function_marker t \<equiv> [Lit ''function'', Blanks1, Lit t, Blanks, Paren]"

definition ownable_markers :: "piece list list" where
  "ownable_markers =
    [word_marker ''Ownable'', word_marker ''Ownable2Step'', function_marker ''owner'',
     function_marker ''transferOwnership'', function_marker ''renounceOwnership'']"

definition access_control_markers :: "piece list list" where
  "access_control_markers =
    [word_marker ''AccessControl'', word_marker ''AccessControlEnumerable'', [Lit ''DEFAULT_ADMIN_ROLE''],
     function_marker ''grantRole'', function_marker ''revokeRole'', function_marker ''hasRole'',
     function_marker ''getRoleAdmin'']"

definition pausable_markers :: "piece list list" where
  "pausable_markers =
    [word_marker ''Pausable'', function_marker ''pause'', function_marker ''unpause'', [Lit ''whenNotPaused''],
     [Lit ''whenPaused'']]"

definition blacklist_markers :: "piece list list" where
  "blacklist_markers =
    [[Lit ''blacklist''], [Lit ''blocklist''], [Lit ''isBlacklisted''], [Lit ''isBot''], [Lit ''setBots''],
     [Lit ''addToBlacklist'']]"

definition trading_gate_markers :: "piece list list" where
  "trading_gate_markers =
    [[Lit ''enableTrading''], [Lit ''setTradingEnabled''], [Lit ''openTrading''], [Lit ''startTrading''],
     [Lit ''launch'', Blanks, Paren], [Lit ''tradingEnabled'']]"

definition tax_controller_markers :: "piece list list" where
  "tax_controller_markers =
    [[Lit ''setTaxFee''], [Lit ''setBuyFee''], [Lit ''setSellFee''], [Lit ''setFees''], [Lit ''updateFees''],
     [Lit ''reduceFee''], [Lit ''setCustomTax''], [Lit ''buyFee''], [Lit ''sellFee''], [Lit ''isExcludedFromFee'']]"

definition rescue_markers :: "piece list list" where
  "rescue_markers =
    [[Lit ''rescueTokens''], [Lit ''rescueETH''], [Lit ''recoverERC20''], [Lit ''recoverTokens''], [Lit ''sweep''],
     [Lit ''withdrawStuck''], [Lit ''claimStuckTokens'']]"

definition abi_ownable :: "string list" where
  "abi_ownable = [''owner'', ''transferownership'', ''renounceownership'']"

definition abi_access_control :: "string list" where
  "abi_access_control = [''grantrole'', ''revokerole'', ''hasrole'', ''getroleadmin'']"

definition abi_pausable :: "string list" where
  "abi_pausable = [''pause'', ''unpause'']"

definition abi_blacklist :: "string list" where
  "abi_blacklist = [''blacklist'', ''addtoblacklist'', ''isblacklisted'', ''isbot'', ''setbots'']"

definition abi_trading_gate :: "string list" where
  "abi_trading_gate = [''enabletrading'', ''settradingenabled'', ''opentrading'', ''starttrading'', ''launch'']"

definition abi_tax :: "string list" where
  "abi_tax =
    [''settaxfee'', ''setbuyfee'', ''setsellfee'', ''setfees'', ''updatefees'', ''reducefee'', ''setfee'']"

definition abi_rescue :: "string list" where
  "abi_rescue = [''rescuetokens'', ''rescueeth'', ''recovererc20'', ''recovertokens'', ''sweep'']"

section \<open>Results\<close>

record SourcePatternHit =
  ph_detected :: bool
  ph_confidence :: ConfidenceLevel
  ph_evidence :: "string list"

record SourceAnalysisResult =
  sr_verified :: bool
  sr_ownable :: SourcePatternHit
  sr_access_control :: SourcePatternHit
  sr_pausable :: SourcePatternHit
  sr_blacklist :: SourcePatternHit
  sr_trading_gate :: SourcePatternHit
  sr_tax_controller :: SourcePatternHit
  sr_rescue_function :: SourcePatternHit
  sr_renounced_ownership :: bool
  sr_role_names :: "string list"
  sr_abi_function_names :: "string list"
  sr_source_confidence :: ConfidenceLevel

definition function_names :: "SourceAnalysisResult \<Rightarrow> string list" where
  "function_names r = sr_abi_function_names r"

definition is_verified :: "VerifiedContractSource \<Rightarrow> bool" where
  "is_verified source \<longleftrightarrow> strip (vs_source_code source) \<noteq> []"

section \<open>Detection\<close>

definition abi_function_names :: "pyval list option \<Rightarrow> string list result" where
  "abi_function_names abi = (case abi of None \<Rightarrow> Inr [] | Some es \<Rightarrow> abi_names_with (\<lambda>name. name) es)"

definition detect_pattern ::
  "string \<Rightarrow> string list \<Rightarrow> piece list list \<Rightarrow> string list \<Rightarrow> string list \<Rightarrow> SourcePatternHit" where
  "detect_pattern source names markers abi_markers extra_evidence =
     (let hits = filter (\<lambda>marker. search marker None source) markers;
          matched = filter (\<lambda>n. n \<in> set abi_markers) (map lower names);
          detected = (hits \<noteq> [] \<or> matched \<noteq> [])
      in \<lparr>ph_detected = detected,
          ph_confidence = (if detected then ConfHigh else ConfLow),
          ph_evidence = map (\<lambda>marker. ''source:'' @ marker_text marker) hits
            @ map (\<lambda>name. ''abi:'' @ name @ ''()'') (sorted_set matched)
            @ extra_evidence\<rparr>)"

definition detect_renounced_ownership :: "string \<Rightarrow> string list \<Rightarrow> string option \<Rightarrow> bool" where
  "detect_renounced_ownership source abi_names ownership_address =
     (if (case ownership_address of None \<Rightarrow> False | Some a \<Rightarrow> lower a = zero_address) then True
      else if \<not> (''renounceownership'' \<in> set (map lower abi_names)
                 \<or> search (function_marker ''renounceOwnership'') None source) then False
      else (case ownership_address of None \<Rightarrow> True | Some a \<Rightarrow> lower a = zero_address))"

text \<open>
  \<open>re.findall\<close> of role names: a capital, then capitals, digits and underscores up to \<open>_ROLE\<close> at a word
  boundary. A run of such characters can only end at a boundary when it ends where the word does.
  The optional \<open>bytes32 public\<close> in front holds no capital and does not change the names found.
\<close>

definition capital :: "char \<Rightarrow> bool" where
  "capital c \<longleftrightarrow> (let n = (of_char c :: nat) in 65 \<le> n \<and> n \<le> 90)"

definition role_char :: "char \<Rightarrow> bool" where
  "role_char c \<longleftrightarrow> (let n = (of_char c :: nat) in capital c \<or> (48 \<le> n \<and> n \<le> 57) \<or> n = 95)"

definition role_run :: "string \<Rightarrow> bool" where
  "role_run s \<longleftrightarrow>
     (let run = takeWhile role_char s
      in 6 \<le> length run \<and> suffix ''_ROLE'' run \<and> \<not> word_option (first_char (dropWhile role_char s)))"

function find_roles :: "string \<Rightarrow> string list" where
  "find_roles [] = []"
| "find_roles (c # s) =
     (if capital c \<and> role_run (c # s)
      then takeWhile role_char (c # s) # find_roles (dropWhile role_char (c # s))
      else find_roles s)"
  by pat_completeness auto

termination
  by (relation "measure length")
    (auto simp: role_char_def Let_def intro: le_imp_less_Suc length_dropWhile_le)

definition extract_role_names :: "string \<Rightarrow> string list" where
  "extract_role_names source =
     (let roles = find_roles source
      in if ''DEFAULT_ADMIN_ROLE'' \<notin> set roles \<and> sublist ''AccessControl'' source
         then roles @ [''DEFAULT_ADMIN_ROLE''] else roles)"

definition analyze_source ::
  "VerifiedContractSource option \<Rightarrow> string option \<Rightarrow> SourceAnalysisResult option result" where
  "analyze_source verified ownership_address =
     (case verified of
        None \<Rightarrow> Inr None
      | Some v \<Rightarrow>
          (if \<not> is_verified v then Inr None
           else bindR (abi_function_names (vs_abi v)) (\<lambda>abi_names.
             let source = vs_source_code v; role_names = extract_role_names source
             in Inr (Some
               \<lparr>sr_verified = True,
                sr_ownable = detect_pattern source abi_names ownable_markers abi_ownable [],
                sr_access_control =
                  detect_pattern source abi_names access_control_markers abi_access_control (sorted_set role_names),
                sr_pausable = detect_pattern source abi_names pausable_markers abi_pausable [],
                sr_blacklist = detect_pattern source abi_names blacklist_markers abi_blacklist [],
                sr_trading_gate = detect_pattern source abi_names trading_gate_markers abi_trading_gate [],
                sr_tax_controller = detect_pattern source abi_names tax_controller_markers abi_tax [],
                sr_rescue_function = detect_pattern source abi_names rescue_markers abi_rescue [],
                sr_renounced_ownership = detect_renounced_ownership source abi_names ownership_address,
                sr_role_names = role_names,
                sr_abi_function_names = map lower abi_names,
                sr_source_confidence = ConfHigh\<rparr>))))"

definition merge_abi_function_names ::
  "SourceAnalysisResult option \<Rightarrow> string list option \<Rightarrow> string list option" where
  "merge_abi_function_names source_analysis fallback =
     (case source_analysis of Some r \<Rightarrow> Some (function_names r) | None \<Rightarrow> fallback)"

section \<open>Function names of a source (capability.py)\<close>

text \<open>
  \<open>re.findall(r"function\s+(\w+)\s*\(", source)\<close>: the name found here with the text behind the
  parenthesis. A shorter name cannot match, since the character after it belongs to the name.
\<close>

definition function_here :: "string \<Rightarrow> (string \<times> string) option" where
  "function_here s =
     (if \<not> prefix ''function'' s then None
      else let after_word = drop 8 s;
               name_on = dropWhile py_space after_word;
               name = takeWhile word_char name_on;
               tail = dropWhile py_space (dropWhile word_char name_on)
           in if name_on = after_word \<or> name = [] then None
              else case tail of [] \<Rightarrow> None | c # rest \<Rightarrow> if c = CHR ''('' then Some (name, rest) else None)"

function find_functions :: "string \<Rightarrow> string list" where
  "find_functions s =
     (case function_here s of
        Some (name, rest) \<Rightarrow> name # find_functions rest
      | None \<Rightarrow> (case s of [] \<Rightarrow> [] | c # s' \<Rightarrow> find_functions s'))"
  by pat_completeness auto

lemma function_here_shorter: "function_here s = Some (name, rest) \<Longrightarrow> length rest < length s"
proof -
  assume f: "function_here s = Some (name, rest)"
  let ?name_on = "dropWhile py_space (drop 8 s)"
  from f have "CHR ''('' # rest = dropWhile py_space (dropWhile word_char ?name_on)"
    by (auto simp: function_here_def Let_def split: if_splits list.splits)
  then have "length (CHR ''('' # rest) = length (dropWhile py_space (dropWhile word_char ?name_on))" by simp
  also have "\<dots> \<le> length (dropWhile word_char ?name_on)" by (rule length_dropWhile_le)
  also have "\<dots> \<le> length ?name_on" by (rule length_dropWhile_le)
  also have "\<dots> \<le> length (drop 8 s)" by (rule length_dropWhile_le)
  also have "\<dots> \<le> length s" by simp
  finally show ?thesis by simp
qed

termination find_functions
  by (relation "measure length") (auto dest: function_here_shorter)

declare find_functions.simps [simp del]

definition detect_capabilities_from_source :: "string \<Rightarrow> CapabilityFlags" where
  "detect_capabilities_from_source source = flags_from_function_names (map lower (find_functions source))"

end
