(* ===== verification/ChainAnalyzers.thy ===== *)
theory ChainAnalyzers
  imports SourceAnalysis
begin

text \<open>
  The analyzers that query the node (\<open>app/services/\<close>): proxies, admins, timelocks, the type of an
  admin, the owner behind a proxy admin, the type of a contract, governance, and the part of
  \<open>ContractAnalyzer.analyze\<close> that follows the authority of a proxy through them. A \<open>BlockchainRpcError\<close>
  stands for the failed call it is raised from; everything the code catches is a case here.
\<close>

section \<open>Proxies and admins (proxy\_analyzer.py, admin\_analyzer.py, admin\_classifier.py)\<close>

record ProxyAnalysisData =
  px_is_upgradeable :: bool
  px_implementation_address :: "string option"

record AdminAnalysisData =
  aa_admin_address :: "string option"

definition rpc_read :: "string \<Rightarrow> 'a result \<Rightarrow> 'a result" where
  "rpc_read message r = (case r of Inl e \<Rightarrow> Inl (BlockchainRpcError message) | Inr x \<Rightarrow> Inr x)"

definition analyze_proxy :: "ChainNode \<Rightarrow> string \<Rightarrow> ProxyAnalysisData result" where
  "analyze_proxy node target_address =
     bindR (normalize_eth_address target_address) (\<lambda>normalized.
     bindR (rpc_read ''Ethereum RPC storage request failed''
       (nd_get_storage_at node normalized implementation_slot)) (\<lambda>storage_word.
       let implementation_address = parse_eip1967_implementation storage_word
       in Inr \<lparr>px_is_upgradeable = (implementation_address \<noteq> None),
               px_implementation_address = implementation_address\<rparr>))"

definition analyze_admin :: "ChainNode \<Rightarrow> string \<Rightarrow> AdminAnalysisData result" where
  "analyze_admin node target_address =
     bindR (normalize_eth_address target_address) (\<lambda>normalized.
     bindR (rpc_read ''Ethereum RPC admin storage request failed''
       (nd_get_storage_at node normalized admin_slot)) (\<lambda>storage_word.
       Inr \<lparr>aa_admin_address = parse_eip1967_admin storage_word\<rparr>))"

definition classify_admin :: "ChainNode \<Rightarrow> string option \<Rightarrow> AdminType option result" where
  "classify_admin node admin_address =
     (case admin_address of
        None \<Rightarrow> Inr None
      | Some address \<Rightarrow>
          bindR (normalize_eth_address address) (\<lambda>normalized.
          bindR (rpc_read ''Ethereum RPC admin classification request failed''
            (nd_get_code node normalized)) (\<lambda>bytecode.
            Inr (Some (if bytecode = [] then AdminEoa
                       else if is_gnosis_safe_multisig bytecode then AdminMultisig
                       else AdminContract)))))"

section \<open>Timelocks and owners (timelock\_analyzer.py, proxy\_admin\_analyzer.py)\<close>

record TimelockAnalysisData =
  tl_is_timelock :: bool
  tl_min_delay :: "int option"

record ProxyAdminOwnerAnalysisData =
  po_owner_address :: "string option"
  po_owner_type :: "AdminType option"

definition analyze_timelock :: "ChainNode \<Rightarrow> string \<Rightarrow> TimelockAnalysisData result" where
  "analyze_timelock node contract_address =
     bindR (normalize_eth_address contract_address) (\<lambda>normalized.
       Inr (case nd_eth_call node normalized get_min_delay_selector of
              Inl e \<Rightarrow> \<lparr>tl_is_timelock = False, tl_min_delay = None\<rparr>
            | Inr return_data \<Rightarrow> \<lparr>tl_is_timelock = True, tl_min_delay = Some (parse_min_delay return_data)\<rparr>))"

definition no_owner :: ProxyAdminOwnerAnalysisData where
  "no_owner = \<lparr>po_owner_address = None, po_owner_type = None\<rparr>"

definition analyze_proxy_admin ::
  "ChainNode \<Rightarrow> string option \<Rightarrow> AdminType option \<Rightarrow> ProxyAdminOwnerAnalysisData result" where
  "analyze_proxy_admin node admin_address admin_type =
     (case admin_address of
        None \<Rightarrow> Inr no_owner
      | Some admin \<Rightarrow>
          (if admin_type \<noteq> Some AdminContract then Inr no_owner
           else bindR (normalize_eth_address admin) (\<lambda>normalized_admin.
             case nd_eth_call node normalized_admin owner_function_selector of
               Inl e \<Rightarrow> Inr no_owner
             | Inr return_data \<Rightarrow>
                 (case parse_ownable_owner return_data of
                    None \<Rightarrow> Inr no_owner
                  | Some owner_address \<Rightarrow>
                      bindR (classify_admin node (Some owner_address)) (\<lambda>owner_type.
                        Inr \<lparr>po_owner_address = Some owner_address, po_owner_type = owner_type\<rparr>)))))"

section \<open>Contract types (contract\_classifier.py)\<close>

record ContractClassificationData =
  cc_contract_type :: ContractType
  cc_proxy_type :: ProxyType
  cc_is_verified :: bool

definition read_slot_address :: "ChainNode \<Rightarrow> string \<Rightarrow> string \<Rightarrow> string option result" where
  "read_slot_address node address slot =
     bindR (nd_get_storage_at node address slot) (\<lambda>word. Inr (parse_eip1967_storage_address word))"

text \<open>A failed read of the beacon or admin slot counts as empty, one of the implementation slot as no proxy.\<close>

definition slot_or_none :: "ChainNode \<Rightarrow> string \<Rightarrow> string \<Rightarrow> string option" where
  "slot_or_none node address slot =
     (case read_slot_address node address slot of Inl e \<Rightarrow> None | Inr a \<Rightarrow> a)"

definition detect_proxy_type :: "ChainNode \<Rightarrow> string \<Rightarrow> string option \<Rightarrow> string option \<Rightarrow> ProxyType" where
  "detect_proxy_type node target_address admin_address implementation_address =
     (if slot_or_none node target_address beacon_slot \<noteq> None then PtEip1967Beacon
      else let implementation = (case implementation_address of
             Some a \<Rightarrow> Some a
           | None \<Rightarrow> slot_or_none node target_address implementation_slot)
      in if implementation = None then PtNone
         else let admin = (case admin_address of
                Some a \<Rightarrow> Some a
              | None \<Rightarrow> slot_or_none node target_address admin_slot)
         in if admin \<noteq> None then PtEip1967Transparent else PtEip1967Uups)"

definition supports_interface :: "ChainNode \<Rightarrow> (string \<Rightarrow> byte list) \<Rightarrow> string \<Rightarrow> byte list \<Rightarrow> bool" where
  "supports_interface node K address interface_id =
     (case bindR (encode_supports_interface_call K interface_id) (nd_eth_call node address) of
        Inl e \<Rightarrow> False
      | Inr return_data \<Rightarrow> parse_supports_interface_result return_data)"

definition detect_token_standards_via_erc165 ::
  "ChainNode \<Rightarrow> (string \<Rightarrow> byte list) \<Rightarrow> string \<Rightarrow> TokenStandardFlags result" where
  "detect_token_standards_via_erc165 node K contract_address =
     bindR (normalize_eth_address contract_address) (\<lambda>address.
       Inr (if \<not> supports_interface node K address interface_id_erc165 then no_token_flags
            else if supports_interface node K address interface_id_erc1155
            then no_token_flags\<lparr>tf_is_erc1155 := True\<rparr>
            else if supports_interface node K address interface_id_erc721
            then no_token_flags\<lparr>tf_is_erc721 := True\<rparr>
            else no_token_flags))"

definition detect_token_standards ::
  "ChainNode \<Rightarrow> (string \<Rightarrow> byte list) \<Rightarrow> string \<Rightarrow> byte list \<Rightarrow> TokenStandardFlags result" where
  "detect_token_standards node K logic_address logic_bytecode =
     bindR (detect_token_standards_via_erc165 node K logic_address) (\<lambda>erc165_flags.
       if tf_is_erc1155 erc165_flags \<or> tf_is_erc721 erc165_flags then Inr erc165_flags
       else let bytecode_flags = detect_token_standards_from_bytecode logic_bytecode
       in if tf_is_erc1155 bytecode_flags \<or> tf_is_erc721 bytecode_flags \<or> tf_is_erc20 bytecode_flags
          then Inr bytecode_flags
          else Inr (if tf_is_erc20 erc165_flags then erc165_flags else bytecode_flags))"

definition resolve_contract_type ::
  "ChainNode \<Rightarrow> (string \<Rightarrow> byte list) \<Rightarrow> string \<Rightarrow> byte list \<Rightarrow> string \<Rightarrow> byte list \<Rightarrow> bool \<Rightarrow> ProxyType \<Rightarrow>
   ContractType result" where
  "resolve_contract_type node K target_address bytecode logic_address logic_bytecode is_timelock_hint proxy_type =
     (if is_timelock_hint then Inr CtTimelock
      else bindR (analyze_timelock node target_address) (\<lambda>timelock_analysis.
        if tl_is_timelock timelock_analysis then Inr CtTimelock
        else if is_gnosis_safe_multisig bytecode then Inr CtMultisig
        else bindR (detect_token_standards node K logic_address logic_bytecode) (\<lambda>token_flags.
          if tf_is_erc1155 token_flags then Inr CtErc1155
          else if tf_is_erc721 token_flags then Inr CtErc721
          else if tf_is_erc20 token_flags then Inr CtErc20
          else if proxy_type \<noteq> PtNone then Inr CtProxy
          else Inr CtUnknown)))"

definition is_verified_on_explorer :: "source_provider \<Rightarrow> int option \<Rightarrow> string \<Rightarrow> bool result" where
  "is_verified_on_explorer get_verified_source chain_id contract_address =
     (case chain_id of
        None \<Rightarrow> Inr False
      | Some c \<Rightarrow> bindR (get_verified_source contract_address c) (\<lambda>verified. Inr (verified \<noteq> None)))"

definition classify_contract_type ::
  "ChainNode \<Rightarrow> (string \<Rightarrow> byte list) \<Rightarrow> source_provider \<Rightarrow> int option \<Rightarrow> string \<Rightarrow> byte list \<Rightarrow> bool \<Rightarrow>
   string option \<Rightarrow> byte list option \<Rightarrow> string option \<Rightarrow> bool \<Rightarrow> ContractClassificationData result" where
  "classify_contract_type node K get_verified_source chain_id target_address bytecode is_contract
     implementation_address implementation_bytecode admin_address is_timelock_hint =
     (if \<not> is_contract
      then Inr \<lparr>cc_contract_type = CtEoa, cc_proxy_type = PtNone, cc_is_verified = False\<rparr>
      else bindR (normalize_eth_address target_address) (\<lambda>normalized.
        let proxy_type = detect_proxy_type node normalized admin_address implementation_address;
            logic_bytecode = (case implementation_bytecode of Some b \<Rightarrow> b | None \<Rightarrow> bytecode);
            logic_address = or_text implementation_address normalized
        in bindR (is_verified_on_explorer get_verified_source chain_id logic_address) (\<lambda>verified.
           bindR (resolve_contract_type node K normalized bytecode logic_address logic_bytecode
             is_timelock_hint proxy_type) (\<lambda>contract_type.
             Inr \<lparr>cc_contract_type = contract_type, cc_proxy_type = proxy_type, cc_is_verified = verified\<rparr>))))"

section \<open>Governance (governance\_analyzer.py)\<close>

definition empty_governance :: GovernanceAnalysisData where
  "empty_governance =
     \<lparr>ga_governance_type = GovNone, ga_upgrade_authority = AuthNone, ga_has_timelock = False,
      ga_role_count = 0, ga_roles = [], ga_ownership_address = None, ga_ownership_renounced = False,
      ga_source_confidence = ConfLow\<rparr>"

definition probe_owner :: "ChainNode \<Rightarrow> string \<Rightarrow> byte list \<Rightarrow> bool \<Rightarrow> string option result" where
  "probe_owner node contract_address logic_bytecode ownership_capability =
     (if \<not> ownership_capability \<and> \<not> sublist owner_function_selector logic_bytecode then Inr None
      else bindR (normalize_eth_address contract_address) (\<lambda>address.
        Inr (case nd_eth_call node address owner_function_selector of
               Inl e \<Rightarrow> None | Inr return_data \<Rightarrow> parse_ownable_owner return_data)))"

definition read_role_admin ::
  "ChainNode \<Rightarrow> (string \<Rightarrow> byte list) \<Rightarrow> string \<Rightarrow> byte list \<Rightarrow> byte list option" where
  "read_role_admin node K address role_id =
     (case bindR (encode_get_role_admin_call K role_id) (nd_eth_call node address) of
        Inl e \<Rightarrow> None | Inr return_data \<Rightarrow> Some (parse_role_admin return_data))"

definition probe_has_role ::
  "ChainNode \<Rightarrow> (string \<Rightarrow> byte list) \<Rightarrow> string \<Rightarrow> byte list \<Rightarrow> string \<Rightarrow> bool option" where
  "probe_has_role node K address role_id account =
     (case bindR (encode_has_role_call K role_id account) (nd_eth_call node address) of
        Inl e \<Rightarrow> None | Inr return_data \<Rightarrow> Some (parse_has_role_result return_data))"

definition sort_roles :: "GovernanceRoleData list \<Rightarrow> GovernanceRoleData list" where
  "sort_roles roles = sort_key (\<lambda>role. (if gr_is_default_admin role then 0 else 1 :: nat, gr_name role)) roles"

text \<open>A role the chain is asked for: \<open>None\<close> when it is skipped.\<close>

definition chain_role ::
  "ChainNode \<Rightarrow> (string \<Rightarrow> byte list) \<Rightarrow> string \<Rightarrow> bool \<Rightarrow> string \<Rightarrow> GovernanceRoleData option" where
  "chain_role node K address has_source_ac role_name =
     (case map_of (known_roles K) role_name of
        None \<Rightarrow> None
      | Some role_id \<Rightarrow>
          (let admin_role_id = read_role_admin node K address role_id
           in if admin_role_id = None \<and> \<not> has_source_ac then None
              else Some
                \<lparr>gr_name = role_name,
                 gr_role_id = role_id_hex role_id,
                 gr_admin_role_name = (case admin_role_id of
                     Some admin \<Rightarrow> role_name_for_id K admin | None \<Rightarrow> Some ''DEFAULT_ADMIN_ROLE''),
                 gr_admin_role_id = map_option role_id_hex admin_role_id,
                 gr_is_default_admin = (role_name = ''DEFAULT_ADMIN_ROLE'')\<rparr>))"

definition source_role :: "string \<Rightarrow> GovernanceRoleData" where
  "source_role role_name =
     \<lparr>gr_name = role_name,
      gr_role_id = ''0x'' @ replicate 64 CHR ''0'',
      gr_admin_role_name = Some ''DEFAULT_ADMIN_ROLE'',
      gr_admin_role_id = Some (''0x'' @ replicate 64 CHR ''0''),
      gr_is_default_admin = (role_name = ''DEFAULT_ADMIN_ROLE'')\<rparr>"

definition analyze_roles ::
  "ChainNode \<Rightarrow> (string \<Rightarrow> byte list) \<Rightarrow> string \<Rightarrow> byte list \<Rightarrow> SourceAnalysisResult option \<Rightarrow>
   GovernanceRoleData list result" where
  "analyze_roles node K contract_address logic_bytecode source_analysis =
     (let has_on_chain_ac =
            (has_access_control_selectors K logic_bytecode \<or> has_access_control_bytecode K logic_bytecode);
          has_source_ac =
            (case source_analysis of None \<Rightarrow> False | Some r \<Rightarrow> ph_detected (sr_access_control r));
          source_names = (case source_analysis of None \<Rightarrow> [] | Some r \<Rightarrow> sr_role_names r)
      in if \<not> has_on_chain_ac \<and> \<not> has_source_ac then Inr []
         else bindR (normalize_eth_address contract_address) (\<lambda>address.
           let roles = List.map_filter (chain_role node K address has_source_ac)
                         (sorted_set (dict_keys (known_roles K) @ source_names))
           in Inr (sort_roles
                (if roles \<noteq> [] then roles
                 else if has_source_ac then map source_role (sorted_set source_names)
                 else []))))"

definition resolve_governance_type ::
  "(string \<Rightarrow> byte list) \<Rightarrow> byte list \<Rightarrow> byte list \<Rightarrow> bool \<Rightarrow> string option \<Rightarrow> AdminType option \<Rightarrow> bool \<Rightarrow> bool \<Rightarrow>
   ContractType option \<Rightarrow> GovernanceRoleData list \<Rightarrow> SourceAnalysisResult option \<Rightarrow> GovernanceType" where
  "resolve_governance_type K bytecode logic_bytecode is_upgradeable admin_address admin_type is_timelock
     ownership_capability contract_type roles source_analysis =
     (let has_admin = (case admin_address of None \<Rightarrow> False | Some a \<Rightarrow> a \<noteq> [])
      in if contract_type = Some CtMultisig \<or> is_gnosis_safe_multisig bytecode then GovMultisig
         else if is_timelock \<or> contract_type = Some CtTimelock then GovTimelock
         else if roles \<noteq> [] \<or>
             (case source_analysis of None \<Rightarrow> False | Some r \<Rightarrow> ph_detected (sr_access_control r))
         then GovAccessControl
         else if is_upgradeable \<and> has_admin \<and> admin_type = Some AdminContract \<and>
             (has_proxy_admin_selectors K bytecode \<or> has_admin)
         then GovProxyAdmin
         else if has_ownable2step_selectors K logic_bytecode then GovOwnable2Step
         else if ownership_capability \<or> sublist owner_function_selector logic_bytecode \<or>
             (case source_analysis of None \<Rightarrow> False | Some r \<Rightarrow> ph_detected (sr_ownable r))
         then GovOwnable
         else if is_upgradeable \<or> has_admin then GovUnknown
         else GovNone)"

definition resolve_upgrade_authority ::
  "bool \<Rightarrow> AdminType option \<Rightarrow> AdminType option \<Rightarrow> bool \<Rightarrow> UpgradeAuthority" where
  "resolve_upgrade_authority is_upgradeable admin_type owner_type is_timelock =
     (if \<not> is_upgradeable then AuthNone
      else if is_timelock then AuthTimelock
      else case (case owner_type of Some t \<Rightarrow> Some t | None \<Rightarrow> admin_type) of
          Some AdminMultisig \<Rightarrow> AuthMultisig
        | Some AdminEoa \<Rightarrow> AuthEoa
        | Some AdminContract \<Rightarrow> AuthContract
        | None \<Rightarrow> AuthUnknown)"

definition fetch_verified_source ::
  "source_provider \<Rightarrow> int option \<Rightarrow> string \<Rightarrow> VerifiedContractSource option result" where
  "fetch_verified_source get_verified_source chain_id logic_address =
     (case chain_id of None \<Rightarrow> Inr None | Some c \<Rightarrow> get_verified_source logic_address c)"

text \<open>The keyword arguments of the analysis.\<close>

record GovernanceQuery =
  gq_bytecode :: "byte list"
  gq_logic_address :: "string option"
  gq_logic_bytecode :: "byte list option"
  gq_is_upgradeable :: bool
  gq_admin_address :: "string option"
  gq_admin_type :: "AdminType option"
  gq_owner_type :: "AdminType option"
  gq_is_timelock :: bool
  gq_ownership_capability :: bool
  gq_contract_type :: "ContractType option"

definition analyze_governance ::
  "ChainNode \<Rightarrow> (string \<Rightarrow> byte list) \<Rightarrow> source_provider \<Rightarrow> int option \<Rightarrow> string \<Rightarrow> GovernanceQuery \<Rightarrow>
   GovernanceAnalysisData result" where
  "analyze_governance node K get_verified_source chain_id target_address q =
     (if gq_bytecode q = [] then Inr empty_governance
      else let logic = (case gq_logic_bytecode q of Some b \<Rightarrow> b | None \<Rightarrow> gq_bytecode q);
               probe_address = or_text (gq_logic_address q) target_address
      in bindR (probe_owner node probe_address logic (gq_ownership_capability q)) (\<lambda>owner.
         bindR (fetch_verified_source get_verified_source chain_id probe_address) (\<lambda>verified.
         bindR (analyze_source verified owner) (\<lambda>source_analysis.
         bindR (analyze_roles node K probe_address logic source_analysis) (\<lambda>roles.
           let renounced = (case source_analysis of None \<Rightarrow> False | Some r \<Rightarrow> sr_renounced_ownership r)
           in Inr
             \<lparr>ga_governance_type = resolve_governance_type K (gq_bytecode q) logic (gq_is_upgradeable q)
                (gq_admin_address q) (gq_admin_type q) (gq_is_timelock q) (gq_ownership_capability q)
                (gq_contract_type q) roles source_analysis,
              ga_upgrade_authority = resolve_upgrade_authority (gq_is_upgradeable q) (gq_admin_type q)
                (gq_owner_type q) (gq_is_timelock q),
              ga_has_timelock = gq_is_timelock q,
              ga_role_count = length roles,
              ga_roles = roles,
              ga_ownership_address = (if renounced then None else owner),
              ga_ownership_renounced = renounced,
              ga_source_confidence =
                (case source_analysis of None \<Rightarrow> ConfLow | Some r \<Rightarrow> sr_source_confidence r)\<rparr>)))))"

section \<open>The authority of a proxy (contract\_analyzer.py)\<close>

text \<open>
  The steps of \<open>ContractAnalyzer.analyze\<close> on a contract up to the bytecode of its implementation: the
  proxy and admin slots, the type of the admin, and the timelock probes of a contract admin and of the
  contract that owns it.
\<close>

record AuthorityFindings =
  af_is_upgradeable :: bool
  af_implementation_address :: "string option"
  af_admin_address :: "string option"
  af_admin_type :: "AdminType option"
  af_owner_address :: "string option"
  af_owner_type :: "AdminType option"
  af_is_timelock :: bool
  af_min_delay :: "int option"
  af_implementation_bytecode :: "byte list option"

definition merge_timelock_probe ::
  "ChainNode \<Rightarrow> string \<Rightarrow> bool \<times> int option \<Rightarrow> (bool \<times> int option) result" where
  "merge_timelock_probe node contract_address timelock =
     bindR (analyze_timelock node contract_address) (\<lambda>analysis.
       Inr (if tl_is_timelock analysis then (True, tl_min_delay analysis) else timelock))"

definition admin_authority ::
  "ChainNode \<Rightarrow> string option \<Rightarrow> AdminType option \<Rightarrow>
   (ProxyAdminOwnerAnalysisData \<times> bool \<times> int option) result" where
  "admin_authority node admin_address admin_type =
     (case admin_address of
        Some admin \<Rightarrow>
          (if admin_type = Some AdminContract then
             bindR (merge_timelock_probe node admin (False, None)) (\<lambda>timelock.
             bindR (analyze_proxy_admin node admin_address admin_type) (\<lambda>owner.
             bindR (case po_owner_address owner of
                  Some a \<Rightarrow>
                    (if a \<noteq> [] \<and> po_owner_type owner = Some AdminContract
                     then merge_timelock_probe node a timelock else Inr timelock)
                | None \<Rightarrow> Inr timelock) (\<lambda>final. Inr (owner, final))))
           else Inr (no_owner, False, None))
      | None \<Rightarrow> Inr (no_owner, False, None))"

definition implementation_code :: "ChainNode \<Rightarrow> string option \<Rightarrow> byte list option" where
  "implementation_code node implementation_address =
     (case implementation_address of
        None \<Rightarrow> None
      | Some a \<Rightarrow>
          (case bindR (normalize_eth_address a) (nd_get_code node) of
             Inl e \<Rightarrow> None | Inr code \<Rightarrow> Some code))"

definition resolve_authority :: "ChainNode \<Rightarrow> string \<Rightarrow> AuthorityFindings result" where
  "resolve_authority node normalized =
     bindR (analyze_proxy node normalized) (\<lambda>proxy.
     bindR (analyze_admin node normalized) (\<lambda>admin.
       let admin_address = aa_admin_address admin
       in bindR (classify_admin node admin_address) (\<lambda>admin_type.
          bindR (admin_authority node admin_address admin_type) (\<lambda>(owner, is_timelock, min_delay).
            Inr \<lparr>af_is_upgradeable = px_is_upgradeable proxy,
                 af_implementation_address = px_implementation_address proxy,
                 af_admin_address = admin_address,
                 af_admin_type = admin_type,
                 af_owner_address = po_owner_address owner,
                 af_owner_type = po_owner_type owner,
                 af_is_timelock = is_timelock,
                 af_min_delay = min_delay,
                 af_implementation_bytecode =
                   implementation_code node (px_implementation_address proxy)\<rparr>))))"

end
