(* ===== verification/ChainFacts.thy ===== *)
theory ChainFacts
  imports ChainAnalyzers TransactionFacts
begin

text \<open>
  Facts about the readers of the chain: normalized addresses, the addresses in words, the declarative
  meaning of source patterns, and the timelock probe.
\<close>

section \<open>Addresses\<close>

lemma is_hex_lower [simp]: "is_hex (lower_char c) = is_hex c"
proof -
  let ?n = "of_char c :: nat"
  have "(of_char (char_of (?n + 32) :: char) :: nat) = ?n + 32" if "?n \<le> 90" using that by simp
  then show ?thesis by (auto simp: is_hex_def hex_val_def lower_char_def Let_def)
qed

lemma is_hex_no_space: "is_hex c \<Longrightarrow> \<not> py_space c"
  by (auto simp: is_hex_def hex_val_def py_space_def ascii_space_def Let_def split: if_splits)

lemma is_hex_digit: "n < 16 \<Longrightarrow> is_hex (hex_digit n)"
  by (auto simp: is_hex_def hex_val_def hex_digit_def Let_def)

lemma dropWhile_none: "\<forall>c \<in> set s. \<not> P c \<Longrightarrow> dropWhile P s = s"
  by (cases s) simp_all

lemma strip_no_space: "\<forall>c \<in> set s. \<not> py_space c \<Longrightarrow> strip s = s"
  by (simp add: strip_def dropWhile_none)

lemma prefix_0x_chars: "\<not> py_space CHR ''0''" "\<not> py_space CHR ''x''" "\<not> py_space CHR ''X''"
  "lower_char CHR ''0'' = CHR ''0''" "lower_char CHR ''x'' = CHR ''x''" "lower_char CHR ''X'' = CHR ''x''"
  by code_simp+

lemma eth_address_strip: "eth_address_pattern s \<Longrightarrow> strip s = s"
  by (rule strip_no_space, cases s rule: eth_address_pattern.cases)
    (auto simp: list_all_iff is_hex_no_space prefix_0x_chars)

lemma eth_address_lower: "eth_address_pattern (lower s) = eth_address_pattern s"
  if "eth_address_pattern s \<or> lower s = s"
  using that by (cases s rule: eth_address_pattern.cases) (auto simp: lower_def list_all_iff prefix_0x_chars)

definition canonical :: "string \<Rightarrow> bool" where
  "canonical a \<longleftrightarrow> (\<exists>digits. a = ''0x'' @ digits \<and> length digits = 40 \<and> list_all is_hex digits \<and> lower digits = digits)"

lemma canonical_pattern: "canonical a \<longleftrightarrow> eth_address_pattern a \<and> lower a = a"
proof
  assume "eth_address_pattern a \<and> lower a = a"
  then show "canonical a"
    by (cases a rule: eth_address_pattern.cases) (auto simp: canonical_def prefix_0x_chars)
qed (auto simp: canonical_def prefix_0x_chars)

lemma normalize_Inr: "normalize_eth_address s = Inr a \<longleftrightarrow> eth_address_pattern (strip s) \<and> a = lower (strip s)"
  by (auto simp: normalize_eth_address_def Let_def)

lemma normalize_canonical: "normalize_eth_address s = Inr a \<Longrightarrow> canonical a"
  unfolding normalize_Inr canonical_pattern using eth_address_lower by auto

lemma canonical_normalize [simp]: "canonical a \<Longrightarrow> normalize_eth_address a = Inr a"
  by (simp add: normalize_Inr canonical_pattern eth_address_strip)

lemma canonical_nonempty: "canonical a \<Longrightarrow> a \<noteq> []"
  by (auto simp: canonical_def)

section \<open>Addresses in words\<close>

lemma hex_bytes_hex: "list_all is_hex (hex_bytes bs)"
  by (auto simp: list_all_iff elim!: hex_bytes_digits intro: is_hex_digit)

lemma length_last_n: "n \<le> length xs \<Longrightarrow> length (last_n n xs) = n"
  by (simp add: last_n_def)

lemma length_rjust_word: "length (rjust_word bs) = max 32 (length bs)"
  by (simp add: rjust_word_def)

lemma canonical_hex: "length bs = 20 \<Longrightarrow> canonical (''0x'' @ hex_bytes bs)"
  unfolding canonical_def
  by (intro exI [of _ "hex_bytes bs"]) (simp add: length_hex_bytes hex_bytes_hex lower_hex_bytes)

lemma word_to_address_canonical:
  assumes "word_to_address word = Some a" "20 \<le> length word"
  shows "canonical a"
proof -
  from assms(1) have "a = ''0x'' @ hex_bytes (last_n 20 word)"
    by (auto simp: word_to_address_def Let_def split: if_splits)
  then show ?thesis using canonical_hex [of "last_n 20 word"] length_last_n [OF assms(2)] by simp
qed

lemma slot_canonical: "parse_eip1967_storage_address word = Some a \<Longrightarrow> canonical a"
  unfolding parse_eip1967_storage_address_def Let_def
  by (rule word_to_address_canonical) (auto simp: length_rjust_word split: if_splits)

lemma owner_canonical: "parse_ownable_owner word = Some a \<Longrightarrow> canonical a"
  unfolding parse_ownable_owner_def
  by (rule word_to_address_canonical) (auto simp: length_rjust_word split: if_splits)

lemma hex_val_digit: "n < 16 \<Longrightarrow> hex_val (hex_digit n) = Some n"
  by (auto simp: hex_val_def hex_digit_def Let_def)

lemma hex_digit_not_blank: "n < 16 \<Longrightarrow> \<not> ascii_space (hex_digit n)"
  using is_hex_no_space [OF is_hex_digit] by (auto simp: py_space_def)

lemma byte_digits: "unat (b :: byte) div 16 < 16" "word_of_nat (16 * (unat b div 16) + unat b mod 16) = b"
proof -
  have "unat b < 2 ^ LENGTH(8)" by (rule unsigned_less)
  then show "unat b div 16 < 16" by (simp add: less_mult_imp_div_less)
  show "word_of_nat (16 * (unat b div 16) + unat b mod 16) = b" by (simp only: mult_div_mod_eq) simp
qed

lemma fromhex_hex_bytes [simp]: "bytes_fromhex (hex_bytes bs) = Some bs"
proof (induction bs)
  case Nil
  then show ?case by (simp add: hex_bytes_def)
next
  case (Cons b bs)
  have "hex_bytes (b # bs) = hex_digit (unat b div 16) # hex_digit (unat b mod 16) # hex_bytes bs"
    by (simp add: hex_bytes_def hex_byte_def)
  with Cons show ?case by (simp add: hex_digit_not_blank byte_digits hex_val_digit)
qed

section \<open>What a pattern means\<close>

text \<open>
  The reference: \<open>denotes ps u m v\<close> says that the pattern describes the part \<open>m\<close> of the text
  \<open>u @ m @ v\<close>. Blanks may be any number of blanks here.
\<close>

inductive denotes :: "piece list \<Rightarrow> string \<Rightarrow> string \<Rightarrow> string \<Rightarrow> bool" where
  "denotes [] u [] v"
| "lower t' = lower t \<Longrightarrow> denotes ps (u @ t') m v \<Longrightarrow> denotes (Lit t # ps) u (t' @ m) v"
| "denotes ps (u @ [CHR ''('']) m v \<Longrightarrow> denotes (Paren # ps) u (CHR ''('' # m) v"
| "list_all py_space b \<Longrightarrow> denotes ps (u @ b) m v \<Longrightarrow> denotes (Blanks # ps) u (b @ m) v"
| "list_all py_space b \<Longrightarrow> b \<noteq> [] \<Longrightarrow> denotes ps (u @ b) m v \<Longrightarrow> denotes (Blanks1 # ps) u (b @ m) v"
| "word_option (last_char None u) \<noteq> word_option (first_char (m @ v)) \<Longrightarrow> denotes ps u m v \<Longrightarrow>
     denotes (Boundary # ps) u m v"

inductive_cases denotes_NilE: "denotes [] u m v"
inductive_cases denotes_LitE: "denotes (Lit t # ps) u m v"
inductive_cases denotes_ParenE: "denotes (Paren # ps) u m v"
inductive_cases denotes_BlanksE: "denotes (Blanks # ps) u m v"
inductive_cases denotes_Blanks1E: "denotes (Blanks1 # ps) u m v"
inductive_cases denotes_BoundaryE: "denotes (Boundary # ps) u m v"

text \<open>Blanks are followed by a parenthesis or by a text that does not start with a blank.\<close>

definition solid :: "piece \<Rightarrow> bool" where
  "solid p \<longleftrightarrow> (case p of Lit (c # t) \<Rightarrow> \<not> py_space (lower_char c) | Paren \<Rightarrow> True | _ \<Rightarrow> False)"

fun blanks_end :: "piece list \<Rightarrow> bool" where
  "blanks_end [] = True"
| "blanks_end (p # ps) =
     ((p \<in> {Blanks, Blanks1} \<longrightarrow> (case ps of [] \<Rightarrow> False | q # _ \<Rightarrow> solid q)) \<and> blanks_end ps)"

lemma last_char_append: "last_char (last_char before u) t = last_char before (u @ t)"
  by (simp add: last_char_def)

lemma lower_char_space: "py_space c \<Longrightarrow> lower_char c = c"
  by (auto simp: py_space_def ascii_space_def lower_char_def)

lemma solid_first: "denotes (p # ps) u m v \<Longrightarrow> solid p \<Longrightarrow> m \<noteq> [] \<and> \<not> py_space (hd m)"
  by (cases p)
    (auto simp: solid_def prefix_0x_chars py_space_def ascii_space_def split: list.splits
      elim!: denotes_LitE denotes_ParenE, auto simp: lower_def lower_char_space py_space_def ascii_space_def)

text \<open>So greedy blanks are the only way to match.\<close>

lemma blanks_greedy:
  assumes "s = b @ m @ v" "list_all py_space b" "denotes ps (u @ b) m v"
    "case ps of [] \<Rightarrow> False | q # _ \<Rightarrow> solid q"
  shows "b = takeWhile py_space s \<and> m @ v = dropWhile py_space s"
proof -
  obtain q qs where ps: "ps = q # qs" "solid q" using assms(4) by (cases ps) auto
  then have m: "m \<noteq> []" "\<not> py_space (hd m)" using solid_first assms(3) by blast+
  then have "takeWhile py_space (m @ v) = []" "dropWhile py_space (m @ v) = m @ v" by (cases m; simp)+
  with assms(1,2) show ?thesis
    by (metis append_Nil2 dropWhile_append2 list_all_iff takeWhile_append2)
qed

lemma match_here_denotes:
  "blanks_end ps \<Longrightarrow> match_here ps (last_char None u) s \<longleftrightarrow> (\<exists>m v. s = m @ v \<and> denotes ps u m v)"
proof (induction ps arbitrary: u s)
  case Nil
  then show ?case by (auto intro: denotes.intros(1))
next
  case (Cons p ps)
  then have IH: "match_here ps (last_char None u') s' \<longleftrightarrow> (\<exists>m v. s' = m @ v \<and> denotes ps u' m v)" for u' s'
    by simp
  have blanks: "(\<exists>m v. s = m @ v \<and> denotes (q # ps) u m v) \<longleftrightarrow>
      (q = Blanks1 \<longrightarrow> takeWhile py_space s \<noteq> []) \<and>
      (\<exists>m v. dropWhile py_space s = m @ v \<and> denotes ps (u @ takeWhile py_space s) m v)"
    (is "?l = ?r") if q: "q \<in> {Blanks, Blanks1}" "case ps of [] \<Rightarrow> False | q # _ \<Rightarrow> solid q" for q
  proof
    assume ?l
    then obtain b m v where "s = b @ m @ v" "list_all py_space b" "denotes ps (u @ b) m v" "q = Blanks1 \<longrightarrow> b \<noteq> []"
      using q(1) by (auto elim!: denotes_BlanksE denotes_Blanks1E)
    with blanks_greedy [OF this(1-3) q(2)] show ?r by metis
  next
    assume r: ?r
    then obtain m v where mv: "dropWhile py_space s = m @ v" "denotes ps (u @ takeWhile py_space s) m v" by blast
    have "list_all py_space (takeWhile py_space s)" by (auto simp: list_all_iff dest: set_takeWhileD)
    with mv r q(1) have "denotes (q # ps) u (takeWhile py_space s @ m) v"
      by (auto intro: denotes.intros(4,5))
    moreover have "s = (takeWhile py_space s @ m) @ v" using mv(1) by (metis append.assoc takeWhile_dropWhile_id)
    ultimately show ?l by blast
  qed
  show ?case
  proof (cases p)
    case (Lit t)
    have "prefix (lower t) (lower s) \<longleftrightarrow> lower (take (length t) s) = lower t"
      unfolding lower_def take_map [symmetric]
      by (metis append_eq_conv_conj append_take_drop_id length_map prefix_def)
    then have "match_here (p # ps) (last_char None u) s \<longleftrightarrow> lower (take (length t) s) = lower t \<and>
        (\<exists>m v. drop (length t) s = m @ v \<and> denotes ps (u @ take (length t) s) m v)"
      using Lit by (simp add: last_char_append IH)
    also have "\<dots> \<longleftrightarrow> (\<exists>m v. s = m @ v \<and> denotes (Lit t # ps) u m v)" (is "?l = ?r")
    proof
      assume ?l
      then obtain m v where "drop (length t) s = m @ v" "denotes ps (u @ take (length t) s) m v"
        "lower (take (length t) s) = lower t" by blast
      then have "denotes (Lit t # ps) u (take (length t) s @ m) v" "s = (take (length t) s @ m) @ v"
        by (auto intro: denotes.intros(2)) (metis append_take_drop_id)
      then show ?r by blast
    next
      assume ?r
      then obtain t' m v where t': "s = t' @ m @ v" "lower t' = lower t" "denotes ps (u @ t') m v"
        by (auto elim!: denotes_LitE)
      then have "length t = length t'" by (metis lower_simps(3))
      with t' show ?l by auto
    qed
    finally show ?thesis using Lit by simp
  next
    case Paren
    have "match_here (p # ps) (last_char None u) s \<longleftrightarrow>
        (\<exists>s'. s = CHR ''('' # s' \<and> (\<exists>m v. s' = m @ v \<and> denotes ps (u @ [CHR ''('']) m v))"
      using Paren IH [of "u @ [CHR ''('']"] by (cases s) (auto simp: last_char_def)
    also have "\<dots> \<longleftrightarrow> (\<exists>m v. s = m @ v \<and> denotes (Paren # ps) u m v)"
      by (metis (no_types, lifting) append_Cons denotes.intros(3) denotes_ParenE)
    finally show ?thesis using Paren by simp
  next
    case Blanks
    with Cons.prems have "case ps of [] \<Rightarrow> False | q # _ \<Rightarrow> solid q" by simp
    with Blanks blanks [of Blanks] show ?thesis by (simp add: last_char_append IH)
  next
    case Blanks1
    with Cons.prems have "case ps of [] \<Rightarrow> False | q # _ \<Rightarrow> solid q" by simp
    with Blanks1 blanks [of Blanks1] show ?thesis by (simp add: last_char_append IH)
  next
    case Boundary
    then show ?thesis by (auto simp: IH elim!: denotes_BoundaryE intro: denotes.intros(6))
  qed
qed

lemma search_from: "search ps before s \<longleftrightarrow> (\<exists>u s'. s = u @ s' \<and> match_here ps (last_char before u) s')"
proof (induction s arbitrary: before)
  case Nil
  then show ?case by (simp add: last_char_def)
next
  case (Cons c s)
  have split: "(\<exists>u s'. c # s = u @ s' \<and> P u s') \<longleftrightarrow> P [] (c # s) \<or> (\<exists>u s'. s = u @ s' \<and> P (c # u) s')" for P
    by (metis Cons_eq_append_conv append_Cons append_Nil)
  have "(\<exists>u s'. c # s = u @ s' \<and> match_here ps (last_char before u) s') \<longleftrightarrow>
      match_here ps before (c # s) \<or> (\<exists>u s'. s = u @ s' \<and> match_here ps (last_char before (c # u)) s')"
    unfolding split by (simp add: last_char_def)
  moreover have "last_char before (c # u) = last_char (Some c) u" for u by (simp add: last_char_def)
  ultimately show ?case using Cons by simp
qed

lemma search_denotes: "blanks_end ps \<Longrightarrow> search ps None s \<longleftrightarrow> (\<exists>u m v. s = u @ m @ v \<and> denotes ps u m v)"
  unfolding search_from by (metis match_here_denotes)

definition all_markers :: "piece list list" where
  "all_markers = ownable_markers @ access_control_markers @ pausable_markers @ blacklist_markers @
     trading_gate_markers @ tax_controller_markers @ rescue_markers"

lemma markers_blanks_end: "marker \<in> set all_markers \<Longrightarrow> blanks_end marker"
proof -
  have "list_all blanks_end all_markers" by code_simp
  then show "marker \<in> set all_markers \<Longrightarrow> blanks_end marker" by (simp add: list_all_iff)
qed

section \<open>Role names\<close>

definition role_name :: "string \<Rightarrow> bool" where
  "role_name r \<longleftrightarrow> r \<noteq> [] \<and> capital (hd r) \<and> list_all role_char r \<and> suffix ''_ROLE'' r \<and> 6 \<le> length r"

text \<open>A role name that is not the rest of a longer run, and ends where a word ends.\<close>

definition role_occurs :: "string \<Rightarrow> string \<Rightarrow> string \<Rightarrow> bool" where
  "role_occurs u r v \<longleftrightarrow>
     role_name r \<and> \<not> word_option (first_char v) \<and> \<not> list_ex capital (takeWhile role_char (rev u))"

lemma role_char_word: "role_char c \<Longrightarrow> word_char c"
  by (auto simp: role_char_def word_char_def capital_def Let_def)

lemma takeWhile_run:
  assumes "list_all P r" "v = [] \<or> \<not> P (hd v)"
  shows "takeWhile P (r @ v) = r" "dropWhile P (r @ v) = v"
  using assms by (cases v; simp add: list_all_iff)+

lemma boundary_no_role: "\<not> word_option (first_char v) \<Longrightarrow> v = [] \<or> \<not> role_char (hd v)"
  using role_char_word by (cases v) (auto simp: word_option_def first_char_def)

lemma role_run_append:
  assumes "list_all role_char r" "\<not> word_option (first_char v)"
  shows "role_run (r @ v) \<longleftrightarrow> 6 \<le> length r \<and> suffix ''_ROLE'' r"
  using takeWhile_run [OF assms(1) boundary_no_role [OF assms(2)]] assms(2) by (simp add: role_run_def)

lemma role_run_split:
  assumes "capital c" "role_run (c # s)"
  obtains r v where "c # s = r @ v" "takeWhile role_char (c # s) = r" "dropWhile role_char (c # s) = v"
    "role_name r" "hd r = c" "\<not> word_option (first_char v)"
proof -
  let ?r = "takeWhile role_char (c # s)" and ?v = "dropWhile role_char (c # s)"
  have c: "role_char c" using assms(1) by (simp add: role_char_def)
  have "role_name ?r"
    using assms c by (auto simp: role_name_def role_run_def list_all_iff dest: set_takeWhileD)
  moreover have "hd ?r = c" using c by simp
  moreover have "\<not> word_option (first_char ?v)" using assms(2) unfolding role_run_def Let_def by blast
  ultimately show thesis by (rule that [OF takeWhile_dropWhile_id [symmetric] refl refl])
qed

lemma role_occurs_skip:
  assumes "role_occurs (c # u) r v \<or> role_occurs u r v" "\<not> (capital c \<and> role_run (c # u @ r @ v))"
  shows "role_occurs (c # u) r v = role_occurs u r v"
proof (cases "list_all role_char u")
  case False
  then have "takeWhile role_char (rev (c # u)) = takeWhile role_char (rev u)"
    by (auto simp: list_all_iff intro: takeWhile_append1)
  then show ?thesis by (simp add: role_occurs_def)
next
  case True
  then have whole: "takeWhile role_char (rev (c # u)) = rev u @ (if role_char c then [c] else [])"
    "takeWhile role_char (rev u) = rev u"
    using takeWhile_append2 [of "rev u" role_char "[c]"] by (simp_all add: list_all_iff)
  have r: "role_name r" "\<not> word_option (first_char v)" using assms(1) by (auto simp: role_occurs_def)
  have "\<not> capital c"
  proof
    assume c: "capital c"
    then have "list_all role_char (c # u @ r)" using True r(1) by (simp add: role_char_def role_name_def)
    from role_run_append [OF this r(2)] have "role_run (c # u @ r @ v)"
      using r(1) by (auto simp: role_name_def suffix_def)
    with c assms(2) show False by simp
  qed
  then show ?thesis unfolding role_occurs_def whole by auto
qed

lemma trailing_rest:
  assumes "w = [] \<or> \<not> role_char (hd w)" "w = u @ r @ v" "role_name r"
  shows "takeWhile role_char (rev (q @ u)) = takeWhile role_char (rev u)"
proof (cases u)
  case Nil
  with assms show ?thesis by (cases r) (auto simp: role_name_def)
next
  case (Cons x xs)
  with assms(1,2) have "x \<in> set (rev u)" "\<not> role_char x" by auto
  then show ?thesis unfolding rev_append by (rule takeWhile_append1)
qed

lemma find_roles_exact: "r \<in> set (find_roles s) \<longleftrightarrow> (\<exists>u v. s = u @ r @ v \<and> role_occurs u r v)"
proof (induction s rule: find_roles.induct)
  case 1
  then show ?case by (auto simp: role_occurs_def role_name_def)
next
  case (2 c s)
  have split: "(\<exists>u v. c # s = u @ r @ v \<and> role_occurs u r v) \<longleftrightarrow>
      (\<exists>v. c # s = r @ v \<and> role_occurs [] r v) \<or> (\<exists>u v. s = u @ r @ v \<and> role_occurs (c # u) r v)"
    unfolding Cons_eq_append_conv by auto
  have start: "capital c \<and> role_run (c # s)" if "c # s = r @ v" "role_occurs [] r v" for v
  proof -
    have "hd (r @ v) = c" using that(1) [symmetric] by simp
    then have "capital c" using that(2) by (auto simp: role_occurs_def role_name_def)
    moreover have "role_run (r @ v)" using that(2) role_run_append by (auto simp: role_occurs_def role_name_def)
    ultimately show ?thesis using that(1) by simp
  qed
  show ?case
  proof (cases "capital c \<and> role_run (c # s)")
    case False
    then have "s = u @ r @ v \<Longrightarrow> role_occurs (c # u) r v = role_occurs u r v" for u v
      using role_occurs_skip [of c u r v] by blast
    then have "(\<exists>u v. s = u @ r @ v \<and> role_occurs (c # u) r v) = (\<exists>u v. s = u @ r @ v \<and> role_occurs u r v)"
      by blast
    moreover have "\<not> (\<exists>v. c # s = r @ v \<and> role_occurs [] r v)" using False start by blast
    moreover have "find_roles (c # s) = find_roles s" using False by (simp only: find_roles.simps if_False)
    ultimately show ?thesis unfolding split using 2(2) [OF False] by metis
  next
    case True
    then obtain q w where q: "c # s = q @ w" "takeWhile role_char (c # s) = q" "dropWhile role_char (c # s) = w"
      "role_name q" "hd q = c" "\<not> word_option (first_char w)"
      by (metis role_run_split)
    have found: "find_roles (c # s) = q # find_roles w" using True q(2,3) by simp
    have IH: "r \<in> set (find_roles w) \<longleftrightarrow> (\<exists>u v. w = u @ r @ v \<and> role_occurs u r v)" using 2(1) True q(3) by simp
    show ?thesis
    proof
      assume "r \<in> set (find_roles (c # s))"
      then consider "r = q" | "r \<in> set (find_roles w)" using found by auto
      then show "\<exists>u v. c # s = u @ r @ v \<and> role_occurs u r v"
      proof cases
        case 1
        with q have "c # s = [] @ r @ w \<and> role_occurs [] r w" by (simp add: role_occurs_def)
        then show ?thesis by blast
      next
        case 2
        then obtain u v where u: "w = u @ r @ v" "role_occurs u r v" using IH by blast
        have "takeWhile role_char (rev (q @ u)) = takeWhile role_char (rev u)"
          using boundary_no_role [OF q(6)] u(1) by (rule trailing_rest) (use u(2) in \<open>simp add: role_occurs_def\<close>)
        then have "role_occurs (q @ u) r v" using u(2) by (simp add: role_occurs_def)
        moreover have "c # s = (q @ u) @ r @ v" using q(1) u(1) by simp
        ultimately show ?thesis by blast
      qed
    next
      assume "\<exists>u v. c # s = u @ r @ v \<and> role_occurs u r v"
      then obtain u v where u: "q @ w = u @ r @ v" "role_occurs u r v" using q(1) by auto
      have v: "list_all role_char r" "v = [] \<or> \<not> role_char (hd v)" "r \<noteq> []"
        using u(2) boundary_no_role by (auto simp: role_occurs_def role_name_def)
      from u(1) obtain t where t: "q = u @ t \<and> t @ w = r @ v \<or> u = q @ t \<and> w = t @ r @ v"
        unfolding append_eq_append_conv2 [of q] by metis
      then consider (inside) "q = u @ t" "t @ w = r @ v" "t \<noteq> []" | (after) u' where "u = q @ u'" "w = u' @ r @ v"
        by (cases "t = []") auto
      then show "r \<in> set (find_roles (c # s))"
      proof cases
        case inside
        have t: "list_all role_char t" using q(4) inside(1) by (simp add: role_name_def)
        have "r = t" using takeWhile_run(1) [OF v(1,2)] takeWhile_run(1) [OF t boundary_no_role [OF q(6)]] inside(2) by simp
        have "u = []"
        proof (rule ccontr)
          assume "u \<noteq> []"
          then have "c \<in> set u" using q(5) inside(1) by (cases u) auto
          moreover have "list_all role_char u" using q(4) inside(1) by (simp add: role_name_def)
          then have "takeWhile role_char (rev u) = rev u" by (auto simp: list_all_iff)
          ultimately have "list_ex capital (takeWhile role_char (rev u))" using True by (simp only: list_ex_iff set_rev) blast
          then show False using u(2) by (simp add: role_occurs_def)
        qed
        with inside(1) \<open>r = t\<close> found show ?thesis by simp
      next
        case after
        have "takeWhile role_char (rev (q @ u')) = takeWhile role_char (rev u')"
          using boundary_no_role [OF q(6)] after(2) by (rule trailing_rest) (use u(2) in \<open>simp add: role_occurs_def\<close>)
        then have "role_occurs u' r v" using u(2) by (simp add: role_occurs_def after(1))
        with after(2) IH found show ?thesis by auto
      qed
    qed
  qed
qed

end
