(* ===== verification/ChainProps.thy ===== *)
theory ChainProps
  imports ChainFacts
begin

text \<open>
  Properties of the chain readers and of the analyzers over them: addresses survive the way into a
  storage word and back, the authority of a proxy is what the node says, a contract that answers the
  probe is a timelock, ERC-165 detection cannot see ERC-721, governance data is consistent, and source
  findings are those the patterns describe.
\<close>

section \<open>Addresses in words\<close>

text \<open>The word that holds an address.\<close>

definition address_word :: "string \<Rightarrow> byte list" where
  "address_word a = rjust_word (hex_const (drop 2 a))"

lemma hex_digit_of_val: "hex_val c = Some n \<Longrightarrow> lower_char c = c \<Longrightarrow> hex_digit n = c \<and> n < 16"
proof -
  let ?k = "of_char c :: nat"
  assume h: "hex_val c = Some n" and l: "lower_char c = c"
  have "\<not> (65 \<le> ?k \<and> ?k \<le> 90)"
  proof
    assume k: "65 \<le> ?k \<and> ?k \<le> 90"
    then have "(of_char (lower_char c) :: nat) = ?k + 32" by (simp add: lower_char_def)
    with l show False by simp
  qed
  with h have "(48 \<le> ?k \<and> ?k \<le> 57 \<and> n = ?k - 48) \<or> (97 \<le> ?k \<and> ?k \<le> 102 \<and> n = ?k - 87)"
    by (auto simp: hex_val_def Let_def split: if_splits)
  then show ?thesis
  proof
    assume k: "48 \<le> ?k \<and> ?k \<le> 57 \<and> n = ?k - 48"
    then have "n < 10" by linarith
    then have "hex_digit n = char_of (48 + n)" "n < 16" by (simp_all add: hex_digit_def)
    moreover have "48 + n = ?k" using k by linarith
    ultimately show ?thesis by simp
  next
    assume k: "97 \<le> ?k \<and> ?k \<le> 102 \<and> n = ?k - 87"
    then have "\<not> n < 10" by linarith
    then have "hex_digit n = char_of (87 + n)" by (simp add: hex_digit_def)
    moreover have "87 + n = ?k" "n < 16" using k by linarith+
    ultimately show ?thesis by simp
  qed
qed

lemma hex_text_bytes: "even (length s) \<Longrightarrow> list_all is_hex s \<Longrightarrow> lower s = s \<Longrightarrow> \<exists>bs. s = hex_bytes bs"
proof (induction s rule: bytes_fromhex.induct)
  case 1
  then show ?case by (auto simp: hex_bytes_def intro: exI [of _ "[]"])
next
  case (3 c d s)
  then obtain h l where v: "hex_val c = Some h" "hex_val d = Some l" by (auto simp: is_hex_def)
  then have hl: "hex_digit h = c" "hex_digit l = d" "h < 16" "l < 16"
    using 3(5) hex_digit_of_val by (auto simp: lower_def)
  have "\<not> ascii_space c" using 3(4) is_hex_no_space by (auto simp: py_space_def)
  then obtain bs where bs: "s = hex_bytes bs" using 3 v by auto
  have "16 * h + l < 2 ^ LENGTH(8)" using hl by simp
  then have "unat (word_of_nat (16 * h + l) :: byte) = 16 * h + l" by (simp only: unat_of_nat mod_less)
  then have "hex_byte (word_of_nat (16 * h + l)) = [hex_digit ((16 * h + l) div 16), hex_digit ((16 * h + l) mod 16)]"
    by (simp only: hex_byte_def)
  also have "\<dots> = [c, d]" using hl by simp
  finally have "hex_byte (word_of_nat (16 * h + l)) = [c, d]" .
  then have "hex_bytes (word_of_nat (16 * h + l) # bs) = c # d # s" by (simp add: hex_bytes_def bs)
  then show ?case by metis
qed simp

lemma canonical_bytes:
  assumes "canonical a"
  obtains bs where "a = ''0x'' @ hex_bytes bs" "length bs = 20"
proof -
  from assms obtain digits where d: "a = ''0x'' @ digits" "length digits = 40" "list_all is_hex digits" "lower digits = digits"
    by (auto simp: canonical_def)
  then obtain bs where "digits = hex_bytes bs" using hex_text_bytes [of digits] by auto
  with d that [of bs] show thesis by (simp add: length_hex_bytes)
qed

lemma zero_bytes: "length bs = 20 \<Longrightarrow> (''0x'' @ hex_bytes bs = zero_address) = (bs = replicate 20 0)"
proof -
  have zero: "zero_address = ''0x'' @ hex_bytes (replicate 20 0)" by code_simp
  assume "length bs = 20"
  have "hex_bytes bs = hex_bytes cs \<Longrightarrow> bs = cs" for cs by (metis fromhex_hex_bytes option.inject)
  then show ?thesis unfolding zero by auto
qed

lemma last_n_append: "length ys = n \<Longrightarrow> last_n n (xs @ ys) = ys"
  by (simp add: last_n_def)

text \<open>
  An address read from a storage word or from the answer of \<open>owner()\<close> is normalized, and
  reading inverts writing: the word of a normalized address reads as that address, except that the
  zero address reads as none. A word that reads as an address holds it in its last 20 bytes.
\<close>

theorem address_word_roundtrip:
  assumes "normalize_eth_address s = Inr a"
  shows "parse_eip1967_storage_address (address_word a) = (if a = zero_address then None else Some a) \<and>
    parse_ownable_owner (address_word a) = (if a = zero_address then None else Some a) \<and>
    (parse_eip1967_storage_address word = Some b \<or> parse_ownable_owner word = Some b \<longrightarrow>
       normalize_eth_address b = Inr b \<and> last_n 20 (rjust_word word) = last_n 20 (address_word b))"
proof (intro conjI impI)
  obtain bs where a: "a = ''0x'' @ hex_bytes bs" and len: "length bs = 20"
    using normalize_canonical [OF assms] by (rule canonical_bytes)
  then have word: "address_word a = replicate 12 0 @ bs"
    by (simp add: address_word_def hex_const_def rjust_word_def)
  then have "word_to_address (address_word a) = (if a = zero_address then None else Some a)"
    unfolding a zero_bytes [OF len] by (simp add: word_to_address_def last_n_append [OF len])
  then show "parse_eip1967_storage_address (address_word a) = (if a = zero_address then None else Some a)"
    "parse_ownable_owner (address_word a) = (if a = zero_address then None else Some a)"
    using len by (simp_all add: parse_eip1967_storage_address_def parse_ownable_owner_def word)
next
  assume b: "parse_eip1967_storage_address word = Some b \<or> parse_ownable_owner word = Some b"
  then have canonical: "canonical b" using slot_canonical owner_canonical by blast
  then show "normalize_eth_address b = Inr b" by simp
  have "word_to_address (rjust_word word) = Some b"
    using b by (auto simp: parse_eip1967_storage_address_def parse_ownable_owner_def rjust_word_def split: if_splits)
  then have "b = ''0x'' @ hex_bytes (last_n 20 (rjust_word word))"
    by (auto simp: word_to_address_def Let_def split: if_splits)
  moreover have "length (last_n 20 (rjust_word word)) = 20" by (rule length_last_n) (simp add: length_rjust_word)
  ultimately show "last_n 20 (rjust_word word) = last_n 20 (address_word b)"
    by (simp add: address_word_def hex_const_def rjust_word_def last_n_append)
qed

theorem address_word_roundtrip_witness:
  "parse_eip1967_storage_address (address_word ''0x00000000000000000000000000000000000000ab'') =
     Some ''0x00000000000000000000000000000000000000ab''"
proof -
  have "normalize_eth_address ''  0X00000000000000000000000000000000000000aB '' =
      Inr ''0x00000000000000000000000000000000000000ab''" by code_simp
  from address_word_roundtrip [OF this, of "[]" "[]"]
  show ?thesis by (simp add: zero_address_def)
qed

section \<open>The authority of a proxy\<close>

definition answers :: "ChainNode \<Rightarrow> string \<Rightarrow> byte list \<Rightarrow> bool" where
  "answers node a data \<longleftrightarrow> \<not> isl (nd_eth_call node a data)"

lemma analyze_timelock_canonical:
  "canonical a \<Longrightarrow> analyze_timelock node a =
     Inr (case nd_eth_call node a get_min_delay_selector of
            Inl e \<Rightarrow> \<lparr>tl_is_timelock = False, tl_min_delay = None\<rparr>
          | Inr return_data \<Rightarrow> \<lparr>tl_is_timelock = True, tl_min_delay = Some (parse_min_delay return_data)\<rparr>)"
  by (simp add: analyze_timelock_def)

text \<open>The delay a probe reports, \<open>None\<close> when the call fails.\<close>

definition probed_delay :: "ChainNode \<Rightarrow> string \<Rightarrow> int option" where
  "probed_delay node a =
     (case nd_eth_call node a get_min_delay_selector of Inl e \<Rightarrow> None | Inr d \<Rightarrow> Some (parse_min_delay d))"

lemma merge_probe:
  "canonical a \<Longrightarrow> merge_timelock_probe node a (t, d) =
     Inr (t \<or> probed_delay node a \<noteq> None, case probed_delay node a of None \<Rightarrow> d | Some x \<Rightarrow> Some x)"
  by (auto simp: merge_timelock_probe_def analyze_timelock_canonical probed_delay_def split: sum.split)

lemma classify_admin_canonical:
  "canonical a \<Longrightarrow> classify_admin node (Some a) =
     (case nd_get_code node a of
        Inl e \<Rightarrow> Inl (BlockchainRpcError ''Ethereum RPC admin classification request failed'')
      | Inr code \<Rightarrow> Inr (Some (if code = [] then AdminEoa
          else if is_gnosis_safe_multisig code then AdminMultisig else AdminContract)))"
  by (auto simp: classify_admin_def rpc_read_def split: sum.split)

lemma proxy_admin_cases:
  assumes "canonical admin"
  shows "analyze_proxy_admin node (Some admin) (Some AdminContract) =
    (case nd_eth_call node admin owner_function_selector of
       Inl e \<Rightarrow> Inr no_owner
     | Inr d \<Rightarrow> (case parse_ownable_owner d of
         None \<Rightarrow> Inr no_owner
       | Some owner \<Rightarrow> bindR (classify_admin node (Some owner)) (\<lambda>t.
           Inr \<lparr>po_owner_address = Some owner, po_owner_type = t\<rparr>)))"
  using assms by (simp add: analyze_proxy_admin_def)

lemma proxy_admin_owner:
  assumes "analyze_proxy_admin node (Some admin) t = Inr owner" "po_owner_address owner = Some a"
  shows "canonical a"
proof -
  from assms obtain n where t: "t = Some AdminContract" "normalize_eth_address admin = Inr n"
    by (auto simp: analyze_proxy_admin_def no_owner_def bindR_eq_Inr split: if_splits)
  then have "canonical n" by (rule_tac normalize_canonical)
  from t assms(1) have "analyze_proxy_admin node (Some n) (Some AdminContract) = Inr owner"
    by (simp add: analyze_proxy_admin_def canonical_normalize [OF \<open>canonical n\<close>])
  with assms(2) obtain d where "parse_ownable_owner d = Some a"
    unfolding proxy_admin_cases [OF \<open>canonical n\<close>]
    by (cases "nd_eth_call node n owner_function_selector")
      (auto simp: no_owner_def bindR_eq_Inr split: option.splits)
  then show ?thesis by (rule owner_canonical)
qed

lemma classify_admin_error:
  "canonical a \<Longrightarrow> classify_admin node (Some a) = Inl e \<Longrightarrow>
     e = BlockchainRpcError ''Ethereum RPC admin classification request failed'' \<and> isl (nd_get_code node a)"
  by (auto simp: classify_admin_canonical split: sum.splits)

lemma admin_authority_error:
  assumes "admin_authority node a t = Inl e" "\<And>x. a = Some x \<Longrightarrow> canonical x"
  shows "e = BlockchainRpcError ''Ethereum RPC admin classification request failed'' \<and> (\<exists>x. isl (nd_get_code node x))"
proof -
  from assms(1) obtain admin where a: "a = Some admin" "t = Some AdminContract"
    by (auto simp: admin_authority_def split: option.splits if_splits)
  then have canonical: "canonical admin" using assms(2) by blast
  obtain tlock d where probe: "merge_timelock_probe node admin (False, None) = Inr (tlock, d)"
    by (simp add: merge_probe [OF canonical])
  show ?thesis
  proof (cases "analyze_proxy_admin node a t")
    case (Inl e')
    then have "e' = e" using assms(1) a by (simp add: admin_authority_def probe)
    with Inl a canonical obtain d owner where "parse_ownable_owner d = Some owner" "classify_admin node (Some owner) = Inl e"
      by (auto simp: proxy_admin_cases bindR_eq_Inl split: sum.splits option.splits)
    with classify_admin_error owner_canonical show ?thesis by blast
  next
    case (Inr owner)
    then have "po_owner_address owner = Some x \<Longrightarrow> merge_timelock_probe node x (tlock, d) \<noteq> Inl e" for x
      using merge_probe [OF proxy_admin_owner] a by simp
    with assms(1) a Inr have False
      by (auto simp: admin_authority_def probe bindR_eq_Inl split: option.splits if_splits)
    then show ?thesis ..
  qed
qed

lemma resolve_authority_reads:
  assumes "canonical a" "nd_get_storage_at node a implementation_slot = Inr w" "nd_get_storage_at node a admin_slot = Inr w'"
  shows "resolve_authority node a =
    bindR (classify_admin node (parse_eip1967_admin w')) (\<lambda>t.
    bindR (admin_authority node (parse_eip1967_admin w') t) (\<lambda>r.
      Inr \<lparr>af_is_upgradeable = (parse_eip1967_implementation w \<noteq> None),
           af_implementation_address = parse_eip1967_implementation w,
           af_admin_address = parse_eip1967_admin w', af_admin_type = t,
           af_owner_address = po_owner_address (fst r), af_owner_type = po_owner_type (fst r),
           af_is_timelock = fst (snd r), af_min_delay = snd (snd r),
           af_implementation_bytecode = implementation_code node (parse_eip1967_implementation w)\<rparr>))"
  using assms
  by (simp add: resolve_authority_def analyze_proxy_def analyze_admin_def rpc_read_def Let_def case_prod_unfold)

text \<open>
  Property C34. Following the authority of a proxy fails only when the node does, always with a
  \<open>BlockchainRpcError\<close>: the failed read of the implementation slot, then of the admin slot, else of the
  code of the admin or of its owner. Calls that fail (the owner, the delay) are never an error.
\<close>

theorem authority_errors:
  assumes "normalize_eth_address s = Inr a"
  shows "(case resolve_authority node a of
      Inl e \<Rightarrow>
        (if isl (nd_get_storage_at node a implementation_slot)
         then e = BlockchainRpcError ''Ethereum RPC storage request failed''
         else if isl (nd_get_storage_at node a admin_slot)
         then e = BlockchainRpcError ''Ethereum RPC admin storage request failed''
         else e = BlockchainRpcError ''Ethereum RPC admin classification request failed'' \<and>
           (\<exists>b. isl (nd_get_code node b)))
    | Inr f \<Rightarrow> \<not> isl (nd_get_storage_at node a implementation_slot) \<and> \<not> isl (nd_get_storage_at node a admin_slot))"
proof -
  have a: "canonical a" using assms by (rule normalize_canonical)
  note steps = resolve_authority_def analyze_proxy_def analyze_admin_def rpc_read_def
  show ?thesis
  proof (cases "nd_get_storage_at node a implementation_slot")
    case (Inl e)
    with a show ?thesis by (simp add: steps)
  next
    case impl: (Inr w)
    show ?thesis
    proof (cases "nd_get_storage_at node a admin_slot")
      case (Inl e)
      with a impl show ?thesis by (simp add: steps Let_def)
    next
      case (Inr w')
      let ?admin = "parse_eip1967_admin w'"
      have canonical: "?admin = Some x \<Longrightarrow> canonical x" for x
        using slot_canonical by (simp add: parse_eip1967_admin_def)
      have classify: "e = BlockchainRpcError ''Ethereum RPC admin classification request failed'' \<and>
          (\<exists>b. isl (nd_get_code node b))" if "classify_admin node ?admin = Inl e" for e
      proof (cases ?admin)
        case None
        with that show ?thesis by (simp add: classify_admin_def)
      next
        case (Some x)
        with classify_admin_error [OF canonical [OF Some]] that show ?thesis by auto
      qed
      note run = resolve_authority_reads [OF a impl Inr]
      show ?thesis
      proof (cases "classify_admin node ?admin")
        case (Inl e)
        with run classify [OF Inl] impl Inr show ?thesis by simp
      next
        case t: (Inr t)
        show ?thesis
        proof (cases "admin_authority node ?admin t")
          case (Inl e)
          have "e = BlockchainRpcError ''Ethereum RPC admin classification request failed'' \<and> (\<exists>x. isl (nd_get_code node x))"
            using Inl canonical by (rule admin_authority_error)
          with Inl run t impl \<open>nd_get_storage_at node a admin_slot = Inr w'\<close> show ?thesis by simp
        next
          case (Inr r)
          with run t impl \<open>nd_get_storage_at node a admin_slot = Inr w'\<close> show ?thesis by simp
        qed
      qed
    qed
  qed
qed

text \<open>A node with a proxy at \<open>0x...aa\<close> whose admin \<open>0x...bb\<close> answers every call with nothing.\<close>

definition proxy_address :: string where
  "proxy_address = ''0x00000000000000000000000000000000000000aa''"

definition admin_text :: string where
  "admin_text = ''0x00000000000000000000000000000000000000bb''"

definition demo_node :: ChainNode where
  "demo_node =
     \<lparr>nd_get_code = (\<lambda>a. Inr [1]),
      nd_get_storage_at = (\<lambda>a slot. Inr (address_word admin_text)),
      nd_eth_call = (\<lambda>a data. Inr [])\<rparr>"

lemma proxy_address_normalized: "normalize_eth_address proxy_address = Inr proxy_address"
  by code_simp

theorem authority_errors_witness:
  "\<exists>f. resolve_authority demo_node proxy_address = Inr f"
proof -
  have "\<not> isl (nd_get_storage_at demo_node proxy_address implementation_slot)"
    "\<not> isl (nd_get_storage_at demo_node proxy_address admin_slot)" "\<not> (\<exists>b. isl (nd_get_code demo_node b))"
    by (simp_all add: demo_node_def)
  with authority_errors [OF proxy_address_normalized, of demo_node] show ?thesis
    by (cases "resolve_authority demo_node proxy_address") simp_all
qed

section \<open>Timelocks\<close>

text \<open>The contracts that are probed for a delay, in order: a contract admin, and a contract that owns it.\<close>

definition probed :: "AuthorityFindings \<Rightarrow> string list" where
  "probed f =
     (case (af_admin_address f, af_admin_type f) of
        (Some admin, Some AdminContract) \<Rightarrow>
          admin # (case (af_owner_address f, af_owner_type f) of
                     (Some owner, Some AdminContract) \<Rightarrow> [owner] | _ \<Rightarrow> [])
      | _ \<Rightarrow> [])"

lemma classify_admin_Inr: "classify_admin node a = Inr t \<Longrightarrow> (t = None) = (a = None)"
  by (auto simp: classify_admin_def bindR_eq_Inr split: option.splits)

lemma admin_authority_Inr:
  assumes "admin_authority node a t = Inr (owner, tlock, d)" "\<And>x. a = Some x \<Longrightarrow> canonical x"
  shows "(case (a, t) of
      (Some admin, Some AdminContract) \<Rightarrow>
        (let ds = List.map_filter (probed_delay node)
              (admin # (case (po_owner_address owner, po_owner_type owner) of
                 (Some x, Some AdminContract) \<Rightarrow> [x] | _ \<Rightarrow> []))
         in tlock = (ds \<noteq> []) \<and> d = (if ds = [] then None else Some (last ds)))
    | _ \<Rightarrow> owner = no_owner \<and> \<not> tlock \<and> d = None)"
proof (cases "\<exists>admin. a = Some admin \<and> t = Some AdminContract")
  case False
  then show ?thesis using assms(1)
    by (auto simp: admin_authority_def split: option.splits AdminType.splits if_splits)
next
  case True
  then obtain admin where at: "a = Some admin" "t = Some AdminContract" by blast
  note probe = merge_probe [OF assms(2) [OF at(1)], of node False None]
  have own: "po_owner_address owner = Some x \<Longrightarrow> canonical x \<and> x \<noteq> []" for x
    using assms(1) at probe proxy_admin_owner canonical_nonempty
    by (fastforce simp: admin_authority_def bindR_eq_Inr)
  let ?p = "probed_delay node admin"
  have run: "(case po_owner_address owner of
        Some x \<Rightarrow> if x \<noteq> [] \<and> po_owner_type owner = Some AdminContract
                 then merge_timelock_probe node x (?p \<noteq> None, ?p) else Inr (?p \<noteq> None, ?p)
      | None \<Rightarrow> Inr (?p \<noteq> None, ?p)) = Inr (tlock, d)"
  proof -
    have "merge_timelock_probe node admin (False, None) = Inr (?p \<noteq> None, ?p)" unfolding probe by (cases ?p) simp_all
    with assms(1) at show ?thesis by (auto simp: admin_authority_def bindR_eq_Inr simp del: not_None_eq)
  qed
  show ?thesis
  proof (cases "\<exists>x. po_owner_address owner = Some x \<and> po_owner_type owner = Some AdminContract")
    case True
    then obtain x where x: "po_owner_address owner = Some x" "po_owner_type owner = Some AdminContract" by blast
    with own run have "tlock = (?p \<noteq> None \<or> probed_delay node x \<noteq> None)"
      "d = (case probed_delay node x of None \<Rightarrow> ?p | Some y \<Rightarrow> Some y)"
      by (auto simp: merge_probe)
    with x at show ?thesis by (cases ?p; cases "probed_delay node x") (simp_all add: map_filter_simps)
  next
    case False
    with run have "tlock = (?p \<noteq> None)" "d = ?p" by (auto split: option.splits if_splits)
    with False at show ?thesis
      by (cases ?p) (auto simp: map_filter_simps split: option.splits AdminType.splits)
  qed
qed

text \<open>
  Property C9. The timelock verdict on a proxy is the probe's: the proxy counts as timelocked exactly
  when its contract admin, or the contract that owns that admin, answers the delay call at all, and the
  delay kept is the last one answered. An empty answer, what any contract with a fallback gives, is an
  answer with delay 0; and a contract that answers is itself classified as a timelock.
\<close>

theorem timelock_probe_exact:
  assumes "normalize_eth_address s = Inr a"
  shows "(\<forall>f. resolve_authority node a = Inr f \<longrightarrow>
      (let delays = List.map_filter (probed_delay node) (probed f)
       in af_is_timelock f = (delays \<noteq> []) \<and> af_min_delay f = (if delays = [] then None else Some (last delays)))) \<and>
    (nd_eth_call node a get_min_delay_selector = Inr [] \<longrightarrow> probed_delay node a = Some 0) \<and>
    (\<forall>c. classify_contract_type node K src chain a code True impl impl_code admin hint = Inr c \<longrightarrow>
      (cc_contract_type c = CtTimelock) = (hint \<or> probed_delay node a \<noteq> None))"
proof (intro conjI allI impI)
  have a: "canonical a" using assms by (rule normalize_canonical)
  fix f
  assume f: "resolve_authority node a = Inr f"
  then obtain w w' where slots: "nd_get_storage_at node a implementation_slot = Inr w"
    "nd_get_storage_at node a admin_slot = Inr w'"
    using a by (auto simp: resolve_authority_def analyze_proxy_def analyze_admin_def rpc_read_def
      bindR_eq_Inr Let_def split: sum.splits)
  let ?admin = "parse_eip1967_admin w'"
  from f resolve_authority_reads [OF a slots] obtain t owner tlock d where t: "classify_admin node ?admin = Inr t"
    and r: "admin_authority node ?admin t = Inr (owner, tlock, d)"
    and fields: "af_admin_address f = ?admin" "af_admin_type f = t" "af_owner_address f = po_owner_address owner"
      "af_owner_type f = po_owner_type owner" "af_is_timelock f = tlock" "af_min_delay f = d"
    by (auto simp: bindR_eq_Inr)
  have "?admin = Some x \<Longrightarrow> canonical x" for x using slot_canonical by (simp add: parse_eip1967_admin_def)
  from admin_authority_Inr [OF r this]
  show "let delays = List.map_filter (probed_delay node) (probed f)
      in af_is_timelock f = (delays \<noteq> []) \<and> af_min_delay f = (if delays = [] then None else Some (last delays))"
    unfolding probed_def fields
    by (auto simp: Let_def map_filter_simps split: option.splits AdminType.splits)
next
  assume "nd_eth_call node a get_min_delay_selector = Inr []"
  moreover have "parse_min_delay [] = 0" by code_simp
  ultimately show "probed_delay node a = Some 0" by (simp add: probed_delay_def)
next
  fix c
  assume "classify_contract_type node K src chain a code True impl impl_code admin hint = Inr c"
  then obtain x lc la pt where x: "resolve_contract_type node K a code la lc hint pt = Inr x" "cc_contract_type c = x"
    using normalize_canonical [OF assms] by (auto simp: classify_contract_type_def Let_def bindR_eq_Inr)
  have "analyze_timelock node a = Inr tlock \<Longrightarrow> tl_is_timelock tlock = (probed_delay node a \<noteq> None)" for tlock
    using normalize_canonical [OF assms] by (auto simp: analyze_timelock_canonical probed_delay_def split: sum.splits)
  with x show "(cc_contract_type c = CtTimelock) = (hint \<or> probed_delay node a \<noteq> None)"
    by (auto simp: resolve_contract_type_def bindR_eq_Inr split: if_splits)
qed

theorem timelock_probe_exact_witness:
  "\<exists>f. resolve_authority demo_node proxy_address = Inr f \<and> af_is_timelock f \<and> af_min_delay f = Some 0"
proof -
  obtain f where f: "resolve_authority demo_node proxy_address = Inr f" "probed f \<noteq> []"
  proof -
    have "case resolve_authority demo_node proxy_address of Inl e \<Rightarrow> False | Inr f \<Rightarrow> probed f \<noteq> []" by code_simp
    with that show thesis by (cases "resolve_authority demo_node proxy_address") simp_all
  qed
  have delay: "probed_delay demo_node x = Some 0" for x
  proof -
    have "parse_min_delay [] = 0" by code_simp
    then show ?thesis by (simp add: probed_delay_def demo_node_def)
  qed
  then have "List.map_filter (probed_delay demo_node) xs = map (\<lambda>x. 0) xs" for xs
    by (induction xs) (simp_all add: map_filter_simps)
  then have "List.map_filter (probed_delay demo_node) (probed f) \<noteq> []"
    "last (List.map_filter (probed_delay demo_node) (probed f)) = 0"
    using f(2) by (simp_all add: last_map)
  with timelock_probe_exact [OF proxy_address_normalized, of demo_node] f(1) show ?thesis by (auto simp: Let_def)
qed

section \<open>ERC-165\<close>

text \<open>
  A contract with ERC-165, as the ABI prescribes: the argument of \<open>supportsInterface(bytes4)\<close> is the
  first four bytes of the word behind the selector. A strict decoder reverts when the other bytes of
  the word are not zero, a lenient one ignores them. Nothing is said of other calls.
\<close>

definition bool_word :: "bool \<Rightarrow> byte list" where
  "bool_word b = replicate 31 0 @ [if b then 1 else 0]"

definition answers_erc165 ::
  "ChainNode \<Rightarrow> (string \<Rightarrow> byte list) \<Rightarrow> string \<Rightarrow> bool \<Rightarrow> byte list set \<Rightarrow> bool" where
  "answers_erc165 node K a strict interfaces \<longleftrightarrow>
     (\<forall>interface padding. length interface = 4 \<and> length padding = 28 \<longrightarrow>
        (let answer = nd_eth_call node a (take 4 (K ''supportsInterface(bytes4)'') @ interface @ padding)
         in if strict \<and> padding \<noteq> replicate 28 0 then isl answer
            else answer = Inr (bool_word (interface \<in> interfaces))))"

lemma parse_bool_word_word: "parse_bool_word (bool_word b) = b"
proof -
  have "parse_bool_word (bool_word True)" "\<not> parse_bool_word (bool_word False)" by code_simp+
  then show ?thesis by (cases b) simp_all
qed

lemma supports_interface_abi:
  assumes "answers_erc165 node K a strict interfaces" "length interface = 4" "interface \<noteq> replicate 4 0"
  shows "supports_interface node K a interface \<longleftrightarrow> \<not> strict \<and> replicate 4 0 \<in> interfaces"
proof -
  have word: "rjust_word interface = replicate 4 0 @ (replicate 24 0 @ interface)"
    using assms(2) replicate_add [of 4 24 "0 :: byte"] by (simp add: rjust_word_def)
  have "replicate 24 0 @ interface \<noteq> replicate 28 0"
    using assms(3) replicate_add [of 24 4 "0 :: byte"] by simp
  then have "if strict
      then isl (nd_eth_call node a (take 4 (K ''supportsInterface(bytes4)'') @ rjust_word interface))
      else nd_eth_call node a (take 4 (K ''supportsInterface(bytes4)'') @ rjust_word interface) =
        Inr (bool_word (replicate 4 0 \<in> interfaces))"
    using assms(1,2) unfolding word answers_erc165_def Let_def
    by (auto dest!: spec [of _ "replicate 4 0"] spec [of _ "replicate 24 0 @ interface"])
  with assms(2) show ?thesis
    by (auto simp: supports_interface_def encode_supports_interface_call_def parse_supports_interface_result_def
        parse_bool_word_word isl_def split: if_splits sum.split)
qed

text \<open>
  Property C36. Detection by ERC-165 finds nothing. The queried identifier is padded on the left, so a
  contract that decodes the query as the ABI prescribes reads the identifier zero with dirty padding,
  whichever interface is meant. Whatever interfaces it supports, ERC-721 and ERC-1155 among them, the
  detection reports no standard; only a lenient contract that claims the identifier zero is taken for
  an ERC-1155 token.
\<close>

theorem erc165_blind:
  assumes "answers_erc165 node K a strict interfaces" and "normalize_eth_address s = Inr a"
  shows "detect_token_standards_via_erc165 node K a =
    Inr (no_token_flags\<lparr>tf_is_erc1155 := (\<not> strict \<and> replicate 4 0 \<in> interfaces)\<rparr>)"
proof -
  have "length interface_id_erc165 = 4" "length interface_id_erc1155 = 4"
    "interface_id_erc165 \<noteq> replicate 4 0" "interface_id_erc1155 \<noteq> replicate 4 0" by code_simp+
  with supports_interface_abi [OF assms(1)] normalize_canonical [OF assms(2)] show ?thesis
    by (simp add: detect_token_standards_via_erc165_def no_token_flags_def)
qed

text \<open>
  An ERC-721 contract with a strict decoder: it reverts on short calldata, tells its interfaces, names
  an owner that depends on the token, and reverts on anything else.
\<close>

definition erc165_hash :: "string \<Rightarrow> byte list" where
  "erc165_hash s = interface_id_erc165 @ replicate 28 0"

definition erc721_node :: ChainNode where
  "erc721_node =
     \<lparr>nd_get_code = (\<lambda>a. Inr [1]),
      nd_get_storage_at = (\<lambda>a slot. Inr (replicate 32 0)),
      nd_eth_call = (\<lambda>a data.
        if length data < 36 then Inl (BlockchainRpcError ''execution reverted'')
        else if take 4 data = interface_id_erc165
        then (if drop 8 data \<noteq> replicate 28 0 then Inl (BlockchainRpcError ''execution reverted'')
              else Inr (bool_word (take 4 (drop 4 data) \<in> {interface_id_erc165, interface_id_erc721})))
        else if take 4 data = hex_const ''6352211e'' then Inr (replicate 12 0 @ drop 12 (take 32 (drop 4 data)))
        else Inl (BlockchainRpcError ''execution reverted''))\<rparr>"

theorem erc165_blind_witness:
  "nd_eth_call erc721_node proxy_address (interface_id_erc165 @ interface_id_erc721 @ replicate 28 0) = Inr (bool_word True) \<and>
   detect_token_standards_via_erc165 erc721_node erc165_hash proxy_address = Inr no_token_flags"
proof -
  have len: "length interface_id_erc165 = 4" by code_simp
  have "answers_erc165 erc721_node erc165_hash proxy_address True {interface_id_erc165, interface_id_erc721}"
    by (simp add: answers_erc165_def erc721_node_def erc165_hash_def len Let_def)
  from erc165_blind [OF this proxy_address_normalized]
  have "detect_token_standards_via_erc165 erc721_node erc165_hash proxy_address = Inr no_token_flags"
    by (simp add: no_token_flags_def)
  moreover have "length interface_id_erc721 = 4" by code_simp
  then have "nd_eth_call erc721_node proxy_address (interface_id_erc165 @ interface_id_erc721 @ replicate 28 0) = Inr (bool_word True)"
    by (simp add: erc721_node_def len)
  ultimately show ?thesis by simp
qed

section \<open>Governance\<close>

lemma sort_roles_names: "distinct (map gr_name (sort_roles roles)) = distinct (map gr_name roles)"
  "length (sort_roles roles) = length roles" "set (sort_roles roles) = set roles" "(sort_roles roles = []) = (roles = [])"
  by (simp_all add: sort_roles_def)

lemma sort_roles_Nil [simp]: "sort_roles [] = []"
  by (simp add: sort_roles_def)

lemma distinct_map_filter:
  "distinct xs \<Longrightarrow> (\<And>x y. f x = Some y \<Longrightarrow> g y = x) \<Longrightarrow> distinct (map g (List.map_filter f xs))"
proof (induction xs)
  case (Cons x xs)
  then have "g ` set (List.map_filter f xs) \<subseteq> set xs" by (auto simp: List.map_filter_def)
  with Cons show ?case by (auto simp: map_filter_simps split: option.split)
qed (simp add: map_filter_simps)

lemma chain_role_name:
  "chain_role node K address ac n = Some r \<Longrightarrow> gr_name r = n \<and> (gr_is_default_admin r = (n = ''DEFAULT_ADMIN_ROLE''))"
  by (auto simp: chain_role_def Let_def split: option.splits if_splits)

lemma analyze_roles_wf:
  assumes "analyze_roles node K a code sa = Inr roles"
  shows "distinct (map gr_name roles)" "\<forall>r \<in> set roles. gr_is_default_admin r = (gr_name r = ''DEFAULT_ADMIN_ROLE'')"
    "sorted (map (\<lambda>r. (if gr_is_default_admin r then 0 else 1 :: nat, gr_name r)) roles)"
proof -
  from assms consider "roles = []" | f names where "roles = sort_roles (List.map_filter f (sorted_set names))"
      "\<And>n r. f n = Some r \<Longrightarrow> gr_name r = n \<and> (gr_is_default_admin r = (n = ''DEFAULT_ADMIN_ROLE''))"
  proof (cases "roles = []")
    case False
    then obtain address ac names where "roles = sort_roles (List.map_filter (chain_role node K address ac) (sorted_set names))
        \<or> roles = sort_roles (map source_role (sorted_set names))"
      using assms by (auto simp: analyze_roles_def Let_def bindR_eq_Inr split: if_splits)
    moreover have "map source_role xs = List.map_filter (\<lambda>n. Some (source_role n)) xs" for xs
      by (induction xs) (simp_all add: map_filter_simps)
    ultimately show thesis using that(2) chain_role_name by (fastforce simp: source_role_def)
  qed simp
  then have "distinct (map gr_name roles) \<and> (\<forall>r \<in> set roles. gr_is_default_admin r = (gr_name r = ''DEFAULT_ADMIN_ROLE'')) \<and>
      sorted (map (\<lambda>r. (if gr_is_default_admin r then 0 else 1 :: nat, gr_name r)) roles)"
  proof cases
    case (2 f names)
    then have "distinct (map gr_name (List.map_filter f (sorted_set names)))"
      by (intro distinct_map_filter) (auto simp: sorted_set_def)
    moreover have "\<forall>r \<in> set (List.map_filter f (sorted_set names)). gr_is_default_admin r = (gr_name r = ''DEFAULT_ADMIN_ROLE'')"
      using 2(2) by (force simp: List.map_filter_def)
    ultimately show ?thesis by (simp only: 2(1) sort_roles_names) (simp add: sort_roles_def)
  qed simp
  then show "distinct (map gr_name roles)" "\<forall>r \<in> set roles. gr_is_default_admin r = (gr_name r = ''DEFAULT_ADMIN_ROLE'')"
    "sorted (map (\<lambda>r. (if gr_is_default_admin r then 0 else 1 :: nat, gr_name r)) roles)" by blast+
qed

lemma analyze_roles_total: "normalize_eth_address a = Inr b \<Longrightarrow> \<not> isl (analyze_roles node K a code sa)"
  by (simp add: analyze_roles_def Let_def if_distrib [of isl])

lemma probe_owner_nonzero: "probe_owner node a code cap = Inr (Some x) \<Longrightarrow> canonical x \<and> x \<noteq> zero_address"
proof -
  assume "probe_owner node a code cap = Inr (Some x)"
  then obtain n where "(case nd_eth_call node n owner_function_selector of Inl e \<Rightarrow> None | Inr d \<Rightarrow> parse_ownable_owner d) = Some x"
    by (auto simp: probe_owner_def bindR_eq_Inr split: if_splits)
  then obtain d where d: "parse_ownable_owner d = Some x"
    by (cases "nd_eth_call node n owner_function_selector") auto
  then have "canonical x" by (rule owner_canonical)
  moreover have "x \<noteq> zero_address"
  proof
    assume "x = zero_address"
    let ?w = "last_n 20 (if length d < 32 then rjust_word d else d)"
    from d have "?w \<noteq> replicate 20 0" "x = ''0x'' @ hex_bytes ?w"
      by (auto simp: parse_ownable_owner_def word_to_address_def Let_def split: if_splits)
    moreover have "length ?w = 20" by (rule length_last_n) (simp add: length_rjust_word)
    ultimately show False using \<open>x = zero_address\<close> zero_bytes by metis
  qed
  ultimately show ?thesis ..
qed

lemma analyze_governance_Inr:
  assumes "analyze_governance node K src chain a q = Inr g" "gq_bytecode q \<noteq> []"
  obtains logic address owner verified sa where
    "probe_owner node address logic (gq_ownership_capability q) = Inr owner"
    "address = or_text (gq_logic_address q) a"
    "logic = (case gq_logic_bytecode q of Some b \<Rightarrow> b | None \<Rightarrow> gq_bytecode q)"
    "fetch_verified_source src chain address = Inr verified" "analyze_source verified owner = Inr sa"
    "analyze_roles node K address logic sa = Inr (ga_roles g)"
    "ga_role_count g = length (ga_roles g)"
    "ga_governance_type g = resolve_governance_type K (gq_bytecode q) logic (gq_is_upgradeable q)
       (gq_admin_address q) (gq_admin_type q) (gq_is_timelock q) (gq_ownership_capability q)
       (gq_contract_type q) (ga_roles g) sa"
    "ga_upgrade_authority g = resolve_upgrade_authority (gq_is_upgradeable q) (gq_admin_type q)
       (gq_owner_type q) (gq_is_timelock q)"
    "ga_ownership_renounced g = (case sa of None \<Rightarrow> False | Some r \<Rightarrow> sr_renounced_ownership r)"
    "ga_ownership_address g = (if ga_ownership_renounced g then None else owner)"
  using assms by (auto simp: analyze_governance_def Let_def bindR_eq_Inr)

text \<open>
  Property C22. The governance data of a contract is consistent: the roles are distinct, counted, and
  sorted with the default admin first; a contract with roles is never classified below access control;
  the upgrade authority is absent exactly for contracts that are not upgradeable, and a timelock
  overrides every other authority. Ownership is reported as renounced exactly when no owner address was
  read, also because the call failed, and a verified source or ABI mentions \<open>renounceOwnership\<close>; then
  no owner is reported.
\<close>

theorem governance_consistent:
  assumes "analyze_governance node K src chain a q = Inr g" "gq_bytecode q \<noteq> []"
  shows "ga_role_count g = length (ga_roles g) \<and> distinct (map gr_name (ga_roles g)) \<and>
    sorted (map (\<lambda>r. (if gr_is_default_admin r then 0 else 1 :: nat, gr_name r)) (ga_roles g)) \<and>
    (\<forall>r \<in> set (ga_roles g). gr_is_default_admin r = (gr_name r = ''DEFAULT_ADMIN_ROLE'')) \<and>
    (ga_roles g \<noteq> [] \<longrightarrow> ga_governance_type g \<in> {GovMultisig, GovTimelock, GovAccessControl}) \<and>
    (ga_upgrade_authority g = AuthNone) = (\<not> gq_is_upgradeable q) \<and>
    (ga_upgrade_authority g = AuthTimelock) = (gq_is_upgradeable q \<and> gq_is_timelock q) \<and>
    ga_ownership_renounced g =
      (\<exists>v names. fetch_verified_source src chain (or_text (gq_logic_address q) a) = Inr (Some v) \<and> is_verified v \<and>
         abi_function_names (vs_abi v) = Inr names \<and>
         probe_owner node (or_text (gq_logic_address q) a)
           (case gq_logic_bytecode q of Some b \<Rightarrow> b | None \<Rightarrow> gq_bytecode q) (gq_ownership_capability q) = Inr None \<and>
         (''renounceownership'' \<in> lower ` set names \<or>
          search (function_marker ''renounceOwnership'') None (vs_source_code v))) \<and>
    (ga_ownership_renounced g \<longrightarrow> ga_ownership_address g = None)"
proof -
  from assms obtain logic address owner verified sa where
    g: "probe_owner node address logic (gq_ownership_capability q) = Inr owner"
    "address = or_text (gq_logic_address q) a"
    "logic = (case gq_logic_bytecode q of Some b \<Rightarrow> b | None \<Rightarrow> gq_bytecode q)"
    "fetch_verified_source src chain address = Inr verified" "analyze_source verified owner = Inr sa"
    and roles: "analyze_roles node K address logic sa = Inr (ga_roles g)"
    and r: "ga_role_count g = length (ga_roles g)"
    "ga_governance_type g = resolve_governance_type K (gq_bytecode q) logic (gq_is_upgradeable q)
       (gq_admin_address q) (gq_admin_type q) (gq_is_timelock q) (gq_ownership_capability q)
       (gq_contract_type q) (ga_roles g) sa"
    "ga_upgrade_authority g = resolve_upgrade_authority (gq_is_upgradeable q) (gq_admin_type q)
       (gq_owner_type q) (gq_is_timelock q)"
    "ga_ownership_renounced g = (case sa of None \<Rightarrow> False | Some r \<Rightarrow> sr_renounced_ownership r)"
    "ga_ownership_address g = (if ga_ownership_renounced g then None else owner)"
    by (rule analyze_governance_Inr)
  have "ga_roles g \<noteq> [] \<longrightarrow> ga_governance_type g \<in> {GovMultisig, GovTimelock, GovAccessControl}"
    by (simp add: r(2) resolve_governance_type_def Let_def)
  moreover have "(ga_upgrade_authority g = AuthNone) = (\<not> gq_is_upgradeable q) \<and>
      (ga_upgrade_authority g = AuthTimelock) = (gq_is_upgradeable q \<and> gq_is_timelock q)"
    by (simp add: r(3) resolve_upgrade_authority_def split: option.split AdminType.split)
  moreover have "owner = Some x \<Longrightarrow> lower x \<noteq> zero_address" for x
    using probe_owner_nonzero g(1) by (auto simp: canonical_pattern)
  then have "ga_ownership_renounced g =
      (\<exists>v names. verified = Some v \<and> is_verified v \<and> abi_function_names (vs_abi v) = Inr names \<and> owner = None \<and>
         (''renounceownership'' \<in> lower ` set names \<or>
          search (function_marker ''renounceOwnership'') None (vs_source_code v)))"
    using g(5) unfolding r(4)
    by (auto simp: analyze_source_def detect_renounced_ownership_def Let_def bindR_eq_Inr
      split: option.splits if_splits)
  ultimately show ?thesis
    using r analyze_roles_wf [OF roles] g by simp
qed

definition demo_source :: VerifiedContractSource where
  "demo_source =
     \<lparr>vs_contract_name = ''Token'', vs_source_code = ''function  renounceOwnership () public {}'', vs_abi = None,
      vs_is_proxy = False, vs_implementation_address = None, vs_compiler_version = None, vs_metadata = None\<rparr>"

definition demo_query :: GovernanceQuery where
  "demo_query =
     \<lparr>gq_bytecode = [1], gq_logic_address = None, gq_logic_bytecode = None, gq_is_upgradeable = False,
      gq_admin_address = None, gq_admin_type = None, gq_owner_type = None, gq_is_timelock = False,
      gq_ownership_capability = True, gq_contract_type = None\<rparr>"

definition silent_node :: ChainNode where
  "silent_node = demo_node\<lparr>nd_eth_call := (\<lambda>a data. Inl (ValueError ''execution reverted''))\<rparr>"

theorem governance_consistent_witness:
  "\<exists>g. analyze_governance silent_node (\<lambda>s. replicate 32 7) (\<lambda>a c. Inr (Some demo_source)) (Some 1) proxy_address
     demo_query = Inr g \<and> ga_ownership_renounced g"
proof -
  let ?run = "analyze_governance silent_node (\<lambda>s. replicate 32 7) (\<lambda>a c. Inr (Some demo_source)) (Some 1) proxy_address demo_query"
  obtain owner where owner: "probe_owner silent_node proxy_address [1] True = Inr owner"
    by (simp add: probe_owner_def proxy_address_normalized)
  obtain sa where sa: "analyze_source (Some demo_source) owner = Inr sa"
    using that by (cases "is_verified demo_source") (simp_all add: analyze_source_def abi_function_names_def demo_source_def Let_def)
  obtain roles where roles: "analyze_roles silent_node (\<lambda>s. replicate 32 7) proxy_address [1] sa = Inr roles"
    using analyze_roles_total [OF proxy_address_normalized] by (metis sum.collapse(2))
  obtain g where g: "?run = Inr g"
    by (simp add: analyze_governance_def demo_query_def or_text_def fetch_verified_source_def owner sa roles Let_def)
  have "is_verified demo_source \<and> search (function_marker ''renounceOwnership'') None (vs_source_code demo_source)"
    by code_simp
  moreover have "probe_owner silent_node (or_text (gq_logic_address demo_query) proxy_address) [1] True = Inr None"
    by code_simp
  ultimately have "\<exists>v names. fetch_verified_source (\<lambda>a c. Inr (Some demo_source)) (Some 1)
        (or_text (gq_logic_address demo_query) proxy_address) = Inr (Some v) \<and> is_verified v \<and>
      abi_function_names (vs_abi v) = Inr names \<and>
      probe_owner silent_node (or_text (gq_logic_address demo_query) proxy_address)
        (case gq_logic_bytecode demo_query of Some b \<Rightarrow> b | None \<Rightarrow> gq_bytecode demo_query)
        (gq_ownership_capability demo_query) = Inr None \<and>
      (''renounceownership'' \<in> lower ` set names \<or>
       search (function_marker ''renounceOwnership'') None (vs_source_code v))"
    by (intro exI [of _ demo_source] exI [of _ "[]"])
      (simp add: fetch_verified_source_def abi_function_names_def demo_query_def, simp add: demo_source_def)
  moreover have "gq_bytecode demo_query \<noteq> []" by (simp add: demo_query_def)
  ultimately show ?thesis using governance_consistent [OF g] g by blast
qed

section \<open>Findings in verified sources\<close>

definition pattern_hits :: "SourceAnalysisResult \<Rightarrow> (SourcePatternHit \<times> piece list list \<times> string list) list" where
  "pattern_hits r =
    [(sr_ownable r, ownable_markers, abi_ownable),
     (sr_access_control r, access_control_markers, abi_access_control),
     (sr_pausable r, pausable_markers, abi_pausable),
     (sr_blacklist r, blacklist_markers, abi_blacklist),
     (sr_trading_gate r, trading_gate_markers, abi_trading_gate),
     (sr_tax_controller r, tax_controller_markers, abi_tax),
     (sr_rescue_function r, rescue_markers, abi_rescue)]"

lemma pattern_hits_markers: "(hit, markers, abi) \<in> set (pattern_hits r) \<Longrightarrow> set markers \<subseteq> set all_markers"
  by (auto simp: pattern_hits_def all_markers_def)

lemma detect_pattern_detected:
  "ph_detected (detect_pattern source names markers abi extra) \<longleftrightarrow>
     (\<exists>marker \<in> set markers. search marker None source) \<or> (\<exists>n \<in> set names. lower n \<in> set abi)"
  by (auto simp: detect_pattern_def Let_def filter_empty_conv)

text \<open>
  Property C18. What is found in a verified source is what the patterns describe. A pattern is reported
  exactly when some part of the source is described by one of its markers, read declaratively, or the
  ABI has one of its functions. The role names are exactly the capital names in \<open>_ROLE\<close> that end where a
  word ends and are not the rest of a longer name, and the default admin when access control is named.
\<close>

theorem source_findings_exact:
  assumes "analyze_source (Some v) owner = Inr (Some r)" "abi_function_names (vs_abi v) = Inr names"
  shows "(\<forall>(hit, markers, abi) \<in> set (pattern_hits r).
      ph_detected hit \<longleftrightarrow>
        (\<exists>marker \<in> set markers. \<exists>u m w. vs_source_code v = u @ m @ w \<and> denotes marker u m w) \<or>
        (\<exists>n \<in> set names. lower n \<in> set abi)) \<and>
    set (sr_role_names r) =
      {n. \<exists>u w. vs_source_code v = u @ n @ w \<and> role_occurs u n w} \<union>
      (if sublist ''AccessControl'' (vs_source_code v) then {''DEFAULT_ADMIN_ROLE''} else {})"
proof
  have r: "sr_role_names r = extract_role_names (vs_source_code v)"
    and hits: "\<forall>(hit, markers, abi) \<in> set (pattern_hits r).
      \<exists>extra. hit = detect_pattern (vs_source_code v) names markers abi extra"
    using assms by (auto simp: analyze_source_def bindR_eq_Inr Let_def pattern_hits_def split: if_splits)
  show "\<forall>(hit, markers, abi) \<in> set (pattern_hits r).
      ph_detected hit \<longleftrightarrow>
        (\<exists>marker \<in> set markers. \<exists>u m w. vs_source_code v = u @ m @ w \<and> denotes marker u m w) \<or>
        (\<exists>n \<in> set names. lower n \<in> set abi)"
  proof clarify
    fix hit markers abi
    assume h: "(hit, markers, abi) \<in> set (pattern_hits r)"
    then obtain extra where "hit = detect_pattern (vs_source_code v) names markers abi extra" using hits by blast
    moreover have "marker \<in> set markers \<Longrightarrow> search marker None (vs_source_code v) \<longleftrightarrow>
        (\<exists>u m w. vs_source_code v = u @ m @ w \<and> denotes marker u m w)" for marker
      using pattern_hits_markers [OF h] markers_blanks_end search_denotes by blast
    ultimately show "ph_detected hit \<longleftrightarrow>
        (\<exists>marker \<in> set markers. \<exists>u m w. vs_source_code v = u @ m @ w \<and> denotes marker u m w) \<or>
        (\<exists>n \<in> set names. lower n \<in> set abi)"
      by (simp add: detect_pattern_detected)
  qed
  have found: "set (find_roles (vs_source_code v)) = {n. \<exists>u w. vs_source_code v = u @ n @ w \<and> role_occurs u n w}"
    using find_roles_exact by blast
  have "set (sr_role_names r) = set (find_roles (vs_source_code v)) \<union>
      (if sublist ''AccessControl'' (vs_source_code v) then {''DEFAULT_ADMIN_ROLE''} else {})"
    unfolding r extract_role_names_def Let_def by auto
  then show "set (sr_role_names r) =
      {n. \<exists>u w. vs_source_code v = u @ n @ w \<and> role_occurs u n w} \<union>
      (if sublist ''AccessControl'' (vs_source_code v) then {''DEFAULT_ADMIN_ROLE''} else {})"
    unfolding found .
qed

theorem source_findings_exact_witness:
  "\<exists>r. analyze_source (Some demo_source) None = Inr (Some r) \<and> ph_detected (sr_ownable r)"
proof -
  have names: "abi_function_names (vs_abi demo_source) = Inr []" by code_simp
  have "is_verified demo_source" by code_simp
  then obtain r where r: "analyze_source (Some demo_source) None = Inr (Some r)"
    by (simp add: analyze_source_def names Let_def)
  have "search (function_marker ''renounceOwnership'') None (vs_source_code demo_source)" by code_simp
  moreover have "blanks_end (function_marker ''renounceOwnership'')" by code_simp
  ultimately have "\<exists>u m w. vs_source_code demo_source = u @ m @ w \<and> denotes (function_marker ''renounceOwnership'') u m w"
    by (simp only: search_denotes)
  moreover have "function_marker ''renounceOwnership'' \<in> set ownable_markers" by (simp add: ownable_markers_def)
  moreover have "(sr_ownable r, ownable_markers, abi_ownable) \<in> set (pattern_hits r)" by (simp add: pattern_hits_def)
  ultimately show ?thesis using source_findings_exact [OF r names] r by blast
qed

end
