(* ===== verification/DeploymentRegistry.thy ===== *)
theory DeploymentRegistry
  imports ChainAnalyzers
begin

text \<open>
  The tables of known deployments (\<open>protocol/defi_registry.py\<close>, \<open>bridge_registry.py\<close>,
  \<open>vault_registry.py\<close>, \<open>governance_registry.py\<close>) and the search for markers in a source. The four
  deployment classes have the same fields; a \<open>VaultDeployment\<close> calls the role its \<open>vault_type\<close>.
\<close>

record Deployment =
  dp_protocol :: string
  dp_role :: string
  dp_chain_id :: int
  dp_address :: string

definition deployment :: "string \<Rightarrow> string \<Rightarrow> int \<Rightarrow> string \<Rightarrow> Deployment" where
  "deployment protocol role chain_id address =
     \<lparr>dp_protocol = protocol, dp_role = role, dp_chain_id = chain_id, dp_address = address\<rparr>"

definition defi_deployments :: "Deployment list" where
  "defi_deployments =
    [deployment ''Uniswap V2'' ''factory'' 1 ''0x5c69bee701ef814a2b6a3edd4b1652cb9cc5aa6f'',
     deployment ''Uniswap V2'' ''router'' 1 ''0x7a250d5630b4cf539739df2c5dacb4c659f2488d'',
     deployment ''Uniswap V3'' ''factory'' 1 ''0x1f9840a85d5af5bf1d1762f925bdaddc4201f984'',
     deployment ''Uniswap V3'' ''router'' 1 ''0x68b3465833fb72a70ecd978e0e7a112bb5527bff'',
     deployment ''SushiSwap'' ''factory'' 1 ''0xc0aee478e3658e2610c5f7a4a2e1777ce9e4f2c'',
     deployment ''SushiSwap'' ''router'' 1 ''0xd9e1ce17f2641f24ae83637ab66a2cca9c378b9f'',
     deployment ''Curve'' ''router'' 1 ''0x99a58482c5f59cff7d9d248a6c415aff0a151b0b'',
     deployment ''Balancer'' ''vault'' 1 ''0xba12222222228d8ba445958a75a0704d566bf2c8'',
     deployment ''Aave'' ''pool'' 1 ''0x87870bca3f3fd6335c3f4ce8392d69350b4fa4e2'',
     deployment ''Compound'' ''comptroller'' 1 ''0x3d9819210a31b4961b5e55aaf6cf52de0a3b83b7'',
     deployment ''Spark'' ''pool'' 1 ''0xc13e21b648a5e7a66a55a667f3c8bff20087efa9'',
     deployment ''Morpho'' ''market'' 1 ''0xbbbbbbbbbb9cc5e90e3b3af64bdaf62c37eeffcb'',
     deployment ''PancakeSwap'' ''factory'' 56 ''0xcA143Ce32Fe78f1f7019d7d551a6402fC5350c73'',
     deployment ''PancakeSwap'' ''router'' 56 ''0x10ed43c718714eb63d5aa57b78b54704e256024e'',
     deployment ''Aerodrome'' ''factory'' 8453 ''0x420dd381b31aef6683db6b902084cb0ffece40da'',
     deployment ''Aerodrome'' ''router'' 8453 ''0xcF77a3Ba9A5CA399B7c97c74d54e5b1Beb874E43'',
     deployment ''Uniswap V2'' ''factory'' 11155111 ''0x7e0987e5b3a30e3f2828572cd659dd524b256b59'',
     deployment ''Uniswap V2'' ''router'' 11155111 ''0xc532a74256d3db42d0bb7b040438bed69799a8cc'']"

definition bridge_deployments :: "Deployment list" where
  "bridge_deployments =
    [deployment ''LayerZero'' ''endpoint'' 1 ''0x66a71dcef29a0ffbdb3c6a460a3b5bc2251575'',
     deployment ''Wormhole'' ''core'' 1 ''0x98f3c9e6e3f36eaa832f396b124298900b640994'',
     deployment ''Stargate'' ''router'' 1 ''0x8731d54e9d02ca2863d457a8346a88afeca0e07'',
     deployment ''Circle CCTP'' ''messenger'' 1 ''0x0a991d191182e2b023275e980142aaaf265c455e'',
     deployment ''Axelar'' ''gateway'' 1 ''0x4f4495245920a2b2e19e634f733016ac2b12a581'',
     deployment ''Hyperlane'' ''mailbox'' 1 ''0xc005dc82818d67af737725b7844c7863d9f9a5e'',
     deployment ''LayerZero'' ''endpoint'' 11155111 ''0x6edce65403992e310a62460808c4b910d552f9f9'']"

definition vault_deployments :: "Deployment list" where
  "vault_deployments =
    [deployment ''Yearn'' ''ERC4626 Vault'' 1 ''0x5f18c75abdae578b483e0628919e8f13bd7f7d0a'',
     deployment ''Beefy'' ''Yield Vault'' 1 ''0x850b1d5574be5c99288215c684b1881ff85559e'',
     deployment ''Pendle'' ''Yield Token'' 1 ''0x808507121b80c02388fad14726482e061b8da827'',
     deployment ''EigenLayer'' ''Restaking Vault'' 1 ''0x85864637863b2a5773840591b90c1950e2cfe11'']"

definition governance_deployments :: "Deployment list" where
  "governance_deployments =
    [deployment ''Governor Bravo'' ''governor'' 1 ''0x30948667925aaad57af76230dada8050db471066'',
     deployment ''Compound Governor'' ''governor'' 1 ''0x30948667925aaad57af76230dada8050db471066'',
     deployment ''OpenZeppelin Governor'' ''governor'' 1 ''0x408854448c7f4771883bc9f6a328f585a1c0c572'',
     deployment ''Timelock Governor'' ''timelock'' 1 ''0x3d9819210a31b4961b5e55aaf6cf52de0a3b83b7'']"

text \<open>The search all four modules have, over their own table.\<close>

definition match_in :: "Deployment list \<Rightarrow> int \<Rightarrow> string \<Rightarrow> Deployment list" where
  "match_in deployments chain_id target_address =
     (let normalized = lower target_address
      in filter (\<lambda>d. dp_chain_id d = chain_id \<and> lower (dp_address d) = normalized) deployments)"

definition match_deployments :: "int \<Rightarrow> string \<Rightarrow> Deployment list" where
  "match_deployments chain_id target_address = match_in defi_deployments chain_id target_address"

definition match_bridge_deployments :: "int \<Rightarrow> string \<Rightarrow> Deployment list" where
  "match_bridge_deployments chain_id target_address = match_in bridge_deployments chain_id target_address"

definition match_vault_deployments :: "int \<Rightarrow> string \<Rightarrow> Deployment list" where
  "match_vault_deployments chain_id target_address = match_in vault_deployments chain_id target_address"

definition match_governance_deployments :: "int \<Rightarrow> string \<Rightarrow> Deployment list" where
  "match_governance_deployments chain_id target_address = match_in governance_deployments chain_id target_address"

text \<open>\<open>s.upper()\<close> and the search for a marker in an upper-cased source.\<close>

definition upper :: "string \<Rightarrow> string" where
  "upper s = map upper_char s"

definition source_contains_marker :: "string option \<Rightarrow> string list \<Rightarrow> bool" where
  "source_contains_marker source_code markers =
     (case source_code of
        None \<Rightarrow> False
      | Some s \<Rightarrow> s \<noteq> [] \<and> list_ex (\<lambda>marker. sublist marker (upper s)) markers)"

text \<open>
  The first deployment of a protocol in a role on a chain (\<open>_find_paired_deployment\<close>,
  \<open>_find_defi_peer\<close>, \<open>_find_bridge_peer\<close>). The protocol comes from metadata and may be any value.
\<close>

definition find_deployment :: "Deployment list \<Rightarrow> pyval \<Rightarrow> string \<Rightarrow> int \<Rightarrow> string option" where
  "find_deployment deployments protocol role chain_id =
     map_option (\<lambda>d. lower (dp_address d))
       (find (\<lambda>d. py_eq (PyStr (dp_protocol d)) protocol \<and> dp_role d = role \<and> dp_chain_id d = chain_id)
         deployments)"

end
