(* ===== verification/DiscoveryProbe.thy ===== *)
theory DiscoveryProbe
  imports DeploymentRegistry Stores
begin

text \<open>
  Probing a contract for the discovery of its protocol (\<open>protocol_scan/provider.py\<close>) and the registry
  of probing providers (\<open>protocol_scan/registry.py\<close>). The default provider uses the node, the source
  provider and the proxy and admin analyzers.
\<close>

section \<open>Probes (provider.py)\<close>

record ContractProbeResult =
  cb_address :: string
  cb_chain_id :: int
  cb_bytecode :: "byte list"
  cb_verified_source :: "VerifiedContractSource option"
  cb_implementation_address :: "string option"
  cb_admin_address :: "string option"
  cb_is_timelock :: bool
  cb_linked_addresses :: "string list"

definition detect_timelock :: "byte list \<Rightarrow> string option \<Rightarrow> bool" where
  "detect_timelock bytecode source_code =
     (if source_contains_marker source_code
           [''TIMELOCKCONTROLLER'', ''TIMELOCK CONTROLLER'', ''MINIMUMDELAY'', ''schedule('']
      then True
      else let text = upper (hex_bytes bytecode)
           in sublist ''TIMELOCK'' text \<or> sublist ''4756574F524E'' text)"

text \<open>\<open>re.findall(r"0x[a-fA-F0-9]{40}", source)\<close>: the matches from left to right, without overlap.\<close>

definition address_here :: "string \<Rightarrow> bool" where
  "address_here s \<longleftrightarrow> prefix ''0x'' s \<and> 42 \<le> length s \<and> list_all is_hex (take 40 (drop 2 s))"

function find_addresses :: "string \<Rightarrow> string list" where
  "find_addresses [] = []"
| "find_addresses (c # s) =
     (if address_here (c # s) then take 42 (c # s) # find_addresses (drop 42 (c # s)) else find_addresses s)"
  by pat_completeness auto

termination
  by (relation "measure length") auto

definition ignored_addresses :: "string list" where
  "ignored_addresses =
    [''0x0000000000000000000000000000000000000000'', ''0x000000000000000000000000000000000000dead'']"

text \<open>
  The loop over the ABI collects nothing; it only fails on entries that are no dictionaries and on
  inputs that cannot be iterated.
\<close>

fun check_abi_entry :: "pyval \<Rightarrow> unit result" where
  "check_abi_entry (PyDict entry) =
     bindR (py_iter (dict_get entry ''inputs'' (PyList []))) (\<lambda>inputs. bindR (mapR abi_input inputs) (\<lambda>_. Inr ()))"
| "check_abi_entry v = Inl (AttributeError ''get'')"

definition extract_linked_addresses :: "string option \<Rightarrow> pyval list option \<Rightarrow> string list result" where
  "extract_linked_addresses source_code abi =
     bindR (case abi of None \<Rightarrow> Inr [] | Some entries \<Rightarrow> mapR check_abi_entry entries) (\<lambda>_.
       Inr (sorted_set (filter (\<lambda>a. a \<notin> set ignored_addresses)
         (case source_code of None \<Rightarrow> [] | Some s \<Rightarrow> map lower (find_addresses s)))))"

definition probed_implementation ::
  "ChainNode \<Rightarrow> string \<Rightarrow> VerifiedContractSource option \<Rightarrow> string option result" where
  "probed_implementation node address verified_source =
     (let proxied = (case analyze_proxy node address of
            Inl e \<Rightarrow> None | Inr p \<Rightarrow> px_implementation_address p)
      in case Option.bind verified_source vs_implementation_address of
           Some a \<Rightarrow> (if a \<noteq> [] then bindR (normalize_eth_address a) (\<lambda>n. Inr (Some n)) else Inr proxied)
         | None \<Rightarrow> Inr proxied)"

definition probe_contract :: "ChainNode \<Rightarrow> source_provider \<Rightarrow> string \<Rightarrow> int \<Rightarrow> ContractProbeResult result" where
  "probe_contract node get_verified_source address chain_id =
     bindR (normalize_eth_address address) (\<lambda>normalized.
     bindR (nd_get_code node normalized) (\<lambda>bytecode.
     bindR (get_verified_source normalized chain_id) (\<lambda>verified_source.
     bindR (if bytecode = [] then Inr None else probed_implementation node normalized verified_source)
       (\<lambda>implementation_address.
     bindR (extract_linked_addresses (map_option vs_source_code verified_source)
       (Option.bind verified_source vs_abi)) (\<lambda>linked_addresses.
       Inr \<lparr>cb_address = normalized,
            cb_chain_id = chain_id,
            cb_bytecode = bytecode,
            cb_verified_source = verified_source,
            cb_implementation_address = implementation_address,
            cb_admin_address =
              (if bytecode = [] then None
               else case analyze_admin node normalized of Inl e \<Rightarrow> None | Inr a \<Rightarrow> aa_admin_address a),
            cb_is_timelock = detect_timelock bytecode (map_option vs_source_code verified_source),
            cb_linked_addresses = linked_addresses\<rparr>)))))"

section \<open>Providers (registry.py)\<close>

type_synonym discovery_provider = "string \<Rightarrow> int \<Rightarrow> ContractProbeResult result"
type_synonym provider_registry = "(string, discovery_provider) dict"

definition default_provider :: string where
  "default_provider = ''on_chain''"

definition register_provider :: "string \<Rightarrow> discovery_provider \<Rightarrow> provider_registry \<Rightarrow> provider_registry result" where
  "register_provider name provider reg =
     (if name \<in> set (dict_keys reg)
      then Inl (DuplicateDiscoveryProviderError (''Discovery provider already registered: '' @ name))
      else Inr (AList.update name provider reg))"

definition get_provider :: "provider_registry \<Rightarrow> string \<Rightarrow> discovery_provider option" where
  "get_provider reg name = map_of reg name"

definition require_provider :: "provider_registry \<Rightarrow> string \<Rightarrow> discovery_provider result" where
  "require_provider reg name =
     (case get_provider reg name of
        None \<Rightarrow> Inl (KeyError (''Discovery provider not registered: '' @ name))
      | Some provider \<Rightarrow> Inr provider)"

definition all_names :: "provider_registry \<Rightarrow> string list" where
  "all_names reg = sort (dict_keys reg)"

definition registry_length :: "provider_registry \<Rightarrow> nat" where
  "registry_length reg = length reg"

text \<open>A caller that ignores the error sees a write-once store of named providers.\<close>

definition named_provider :: "provider_registry \<Rightarrow> string \<Rightarrow> (string \<times> discovery_provider) option" where
  "named_provider reg name = map_option (Pair name) (get_provider reg name)"

definition put_provider :: "string \<times> discovery_provider \<Rightarrow> provider_registry \<Rightarrow> provider_registry" where
  "put_provider p reg = (case register_provider (fst p) (snd p) reg of Inl e \<Rightarrow> reg | Inr reg' \<Rightarrow> reg')"

interpretation providers: write_once_store named_provider put_provider fst
proof
  fix s :: provider_registry and v w :: "string \<times> discovery_provider"
  assume "named_provider s (fst v) = Some w"
  then have "map_of s (fst v) \<noteq> None" by (auto simp: named_provider_def get_provider_def)
  then have "fst v \<in> set (dict_keys s)" by (simp only: dom_map_of_keys not_not)
  then show "put_provider v s = s" by (simp add: put_provider_def register_provider_def)
next
  fix s :: provider_registry and v :: "string \<times> discovery_provider"
  assume "named_provider s (fst v) = None"
  then have "fst v \<notin> set (dict_keys s)" by (simp add: named_provider_def get_provider_def dom_map_of_keys del: set_map)
  then show "named_provider (put_provider v s) = (named_provider s)(fst v \<mapsto> v)"
    by (auto simp: put_provider_def register_provider_def named_provider_def get_provider_def fun_eq_iff simp del: set_map)
qed

end
