(* ===== verification/DiscoveryClassifier.thy ===== *)
theory DiscoveryClassifier
  imports DiscoveryProbe ProtocolGraph
begin

text \<open>
  From probes and analyzer results to a discovery result: the roles of contracts
  (\<open>protocol_scan/contract_classifier.py\<close>), the links between them (\<open>relationship_detector.py\<close>) and the
  assembly of both (\<open>builder.py\<close>). The contracts are those of \<open>ProtocolGraph\<close>.
\<close>

section \<open>Roles (contract\_classifier.py)\<close>

definition contract_of :: "string \<Rightarrow> protocol_role \<Rightarrow> int \<Rightarrow> string \<Rightarrow> metadata \<Rightarrow> ProtocolContract" where
  "contract_of address role confidence detection_source metadata =
     \<lparr>pc_address = address, pc_role = role, pc_confidence = confidence,
      pc_detection_source = detection_source, pc_metadata = metadata\<rparr>"

definition none_or_text :: "string option \<Rightarrow> pyval" where
  "none_or_text a = (case a of None \<Rightarrow> PyNone | Some s \<Rightarrow> PyStr s)"

definition defi_role_map :: "(string, protocol_role) dict" where
  "defi_role_map =
    [(''factory'', FACTORY), (''router'', ROUTER), (''pool'', POOL), (''vault'', VAULT), (''market'', POOL),
     (''comptroller'', GOVERNOR)]"

definition bridge_role_map :: "(string, protocol_role) dict" where
  "bridge_role_map =
    [(''endpoint'', BRIDGE), (''core'', BRIDGE), (''router'', BRIDGE), (''messenger'', MESSENGER),
     (''gateway'', BRIDGE), (''mailbox'', BRIDGE)]"

definition governance_role_map :: "(string, protocol_role) dict" where
  "governance_role_map = [(''governor'', GOVERNOR), (''timelock'', TIMELOCK), (''multisig'', GOVERNOR)]"

definition intelligence_role_map :: "(string, protocol_role) dict" where
  "intelligence_role_map =
    [(''upgradeable_proxy'', PROXY), (''minimal_proxy'', PROXY), (''token_vault'', VAULT), (''timelock'', TIMELOCK),
     (''governance'', GOVERNOR), (''fungible_token'', TOKEN)]"

definition registry_contract :: "string \<Rightarrow> int \<Rightarrow> protocol_role \<Rightarrow> Deployment \<Rightarrow> ProtocolContract" where
  "registry_contract address chain_id role d =
     contract_of address role 92 ''registry.deployment''
       [(''protocol'', PyStr (dp_protocol d)), (''registry_role'', PyStr (dp_role d)), (''chain_id'', PyInt chain_id)]"

definition classify_from_registry :: "string \<Rightarrow> int \<Rightarrow> ProtocolContract option" where
  "classify_from_registry address chain_id =
     (case match_deployments chain_id address of
        d # _ \<Rightarrow> Some (registry_contract address chain_id (dict_get defi_role_map (dp_role d) UNKNOWN) d)
      | [] \<Rightarrow> (case match_bridge_deployments chain_id address of
          d # _ \<Rightarrow> Some (registry_contract address chain_id (dict_get bridge_role_map (dp_role d) BRIDGE) d)
        | [] \<Rightarrow> (case match_vault_deployments chain_id address of
            d # _ \<Rightarrow> Some (registry_contract address chain_id VAULT d)
          | [] \<Rightarrow> (case match_governance_deployments chain_id address of
              d # _ \<Rightarrow> Some (registry_contract address chain_id (dict_get governance_role_map (dp_role d) GOVERNOR) d)
            | [] \<Rightarrow> None))))"

definition classify_root :: "ContractProbeResult \<Rightarrow> ProtocolContract" where
  "classify_root probe = contract_of (cb_address probe) ROOT 95 ''discovery.root'' []"

definition probe_verified :: "ContractProbeResult \<Rightarrow> bool" where
  "probe_verified probe = (case cb_verified_source probe of None \<Rightarrow> False | Some v \<Rightarrow> is_verified v)"

definition resolve_role ::
  "ContractProbeResult \<Rightarrow> protocol_role \<Rightarrow> string \<Rightarrow> int \<Rightarrow> protocol_role \<times> int \<times> string" where
  "resolve_role probe default_role detection_source confidence =
     (case classify_from_registry (cb_address probe) (cb_chain_id probe) of
        Some c \<Rightarrow> (pc_role c, pc_confidence c, pc_detection_source c)
      | None \<Rightarrow>
          (if (case cb_implementation_address probe of
                 None \<Rightarrow> False | Some a \<Rightarrow> a \<noteq> [] \<and> cb_address probe \<noteq> a)
           then (PROXY, max confidence 85, ''proxy_resolution'')
           else if cb_is_timelock probe then (TIMELOCK, max confidence 80, ''source_inspection.timelock'')
           else if probe_verified probe then (default_role, max confidence 70, ''verified_source'')
           else (default_role, confidence, detection_source)))"

definition probe_metadata :: "ContractProbeResult \<Rightarrow> metadata" where
  "probe_metadata probe =
    [(''verified'', PyBool (probe_verified probe)),
     (''contract_name'', none_or_text (map_option vs_contract_name (cb_verified_source probe))),
     (''implementation_address'', none_or_text (cb_implementation_address probe)),
     (''admin_address'', none_or_text (cb_admin_address probe)),
     (''is_timelock'', PyBool (cb_is_timelock probe))]"

definition classify_probe ::
  "ContractProbeResult \<Rightarrow> protocol_role \<Rightarrow> string \<Rightarrow> int \<Rightarrow> ProtocolContract" where
  "classify_probe probe default_role detection_source confidence =
     (let (role, score, source) = resolve_role probe default_role detection_source confidence
      in contract_of (cb_address probe) role score source (probe_metadata probe))"

definition classify_from_intelligence :: "string \<Rightarrow> ProtocolIntelligenceData \<Rightarrow> ProtocolContract option" where
  "classify_from_intelligence address intelligence =
     (if pi_name intelligence = ''unknown'' \<and> pi_family intelligence = ''unknown'' then None
      else Some (contract_of address (dict_get intelligence_role_map (pi_protocol_type intelligence) UNKNOWN)
        (if pi_confidence_score intelligence = 0 then 55 else pi_confidence_score intelligence)
        ''protocol_intelligence''
        [(''protocol_name'', PyStr (pi_name intelligence)), (''protocol_family'', PyStr (pi_family intelligence)),
         (''protocol_type'', PyStr (pi_protocol_type intelligence))]))"

text \<open>The values of \<open>ConfidenceLevel\<close> are those of \<open>frontend/src/types/scan.ts\<close>.\<close>

fun confidence_level_value :: "ConfidenceLevel \<Rightarrow> string" where
  "confidence_level_value ConfLow = ''low''"
| "confidence_level_value ConfMedium = ''medium''"
| "confidence_level_value ConfHigh = ''high''"

definition confidence_from_level :: "string \<Rightarrow> int" where
  "confidence_from_level level = dict_get [(''high'', 85), (''medium'', 65), (''low'', 45)] level 55"

definition classify_governance_authority ::
  "string \<Rightarrow> GovernanceAnalysisData \<Rightarrow> bool \<Rightarrow> ProtocolContract" where
  "classify_governance_authority address governance is_timelock =
     contract_of address
       (if is_timelock \<or> ga_governance_type governance = GovTimelock then TIMELOCK
        else if ga_governance_type governance \<in> {GovMultisig, GovAccessControl} then GOVERNOR else GOVERNOR)
       (confidence_from_level (confidence_level_value (ga_source_confidence governance)))
       ''governance_analyzer''
       [(''governance_type'', PyStr (governance_type_value (ga_governance_type governance)))]"

definition classify_proxy_implementation :: "string \<Rightarrow> string \<Rightarrow> int \<Rightarrow> ProtocolContract \<times> ProtocolContract" where
  "classify_proxy_implementation proxy_address implementation_address confidence =
     (contract_of proxy_address PROXY confidence ''proxy_resolution'' [],
      contract_of implementation_address IMPLEMENTATION confidence ''proxy_resolution'' [])"

definition classify_treasury :: "string \<Rightarrow> int \<Rightarrow> ProtocolContract" where
  "classify_treasury address confidence = contract_of address TREASURY confidence ''wallet_intelligence'' []"

section \<open>Links (relationship\_detector.py)\<close>

type_synonym role_index = "(protocol_role, ProtocolContract list) dict"

text \<open>\<open>by_role.setdefault(role, []).append(contract)\<close> over all contracts.\<close>

definition index_roles :: "ProtocolContract list \<Rightarrow> role_index" where
  "index_roles contracts =
     fold (\<lambda>c d. AList.update (pc_role c) (dict_get d (pc_role c) [] @ [c]) d) contracts []"

definition in_role :: "role_index \<Rightarrow> protocol_role \<Rightarrow> ProtocolContract list" where
  "in_role by_role role = dict_get by_role role []"

definition link :: "string \<Rightarrow> string \<Rightarrow> protocol_relationship_type \<Rightarrow> int \<Rightarrow> string \<Rightarrow> ProtocolRelationship" where
  "link source target type confidence detection_source =
     \<lparr>rel_source_address = source, rel_target_address = target, rel_type = type,
      rel_confidence = confidence, rel_detection_source = detection_source\<rparr>"

definition link_contracts ::
  "protocol_relationship_type \<Rightarrow> string \<Rightarrow> ProtocolContract \<Rightarrow> ProtocolContract \<Rightarrow> ProtocolRelationship" where
  "link_contracts type detection_source a b =
     link (pc_address a) (pc_address b) type (min (pc_confidence a) (pc_confidence b)) detection_source"

text \<open>Every contract of one list with every contract of another.\<close>

definition link_all ::
  "protocol_relationship_type \<Rightarrow> string \<Rightarrow> ProtocolContract list \<Rightarrow> ProtocolContract list \<Rightarrow> ProtocolRelationship list" where
  "link_all type detection_source as bs =
     concat (map (\<lambda>a. map (link_contracts type detection_source a) bs) as)"

definition same_protocol :: "ProtocolContract \<Rightarrow> ProtocolContract \<Rightarrow> bool" where
  "same_protocol left right =
     (let l = py_get (pc_metadata left) ''protocol''; r = py_get (pc_metadata right) ''protocol''
      in if py_truthy l \<and> py_truthy r then py_eq l r else False)"

definition proxy_relationships :: "role_index \<Rightarrow> ProtocolRelationship list" where
  "proxy_relationships by_role =
     (let implementations = in_role by_role IMPLEMENTATION
      in concat (map (\<lambda>proxy.
           let impl_address = py_get (pc_metadata proxy) ''implementation_address'';
               chosen = filter (\<lambda>item. impl_address = PyNone \<or> py_eq (PyStr (pc_address item)) impl_address) implementations;
               targets = (if chosen = [] then implementations else chosen)
           in map (link_contracts PROXY_TO_IMPLEMENTATION ''relationship_detector.proxy'' proxy) targets)
         (in_role by_role PROXY)))"

definition governance_relationships :: "role_index \<Rightarrow> ProtocolRelationship list" where
  "governance_relationships by_role =
     link_all GOVERNOR_TO_TIMELOCK ''relationship_detector.governance'' (in_role by_role GOVERNOR) (in_role by_role TIMELOCK)"

text \<open>A factory without a discovered router: the link to the router the registry has for its protocol.\<close>

definition registry_pair :: "ProtocolContract \<Rightarrow> ProtocolRelationship list result" where
  "registry_pair contract =
     (if pc_role contract \<noteq> FACTORY then Inr []
      else let protocol = py_get (pc_metadata contract) ''protocol'';
               chain_id = py_get (pc_metadata contract) ''chain_id''
           in if \<not> py_truthy protocol \<or> chain_id = PyNone then Inr []
              else bindR (py_int chain_id) (\<lambda>c.
                Inr (case find_deployment defi_deployments protocol ''router'' c of
                       None \<Rightarrow> []
                     | Some router \<Rightarrow>
                         [link router (pc_address contract) ROUTER_TO_FACTORY (pc_confidence contract)
                            ''relationship_detector.registry_pair''])))"

definition dex_relationships :: "ProtocolContract list \<Rightarrow> role_index \<Rightarrow> ProtocolRelationship list result" where
  "dex_relationships contracts by_role =
     (let routers = in_role by_role ROUTER; factories = in_role by_role FACTORY
      in if routers \<noteq> [] \<and> factories \<noteq> []
         then Inr (concat (map (\<lambda>router.
                map (link_contracts ROUTER_TO_FACTORY ''relationship_detector.dex'' router)
                  (filter (same_protocol router) factories)) routers))
         else bindR (mapR registry_pair contracts) (\<lambda>rs. Inr (concat rs)))"

definition vault_relationships :: "role_index \<Rightarrow> ProtocolRelationship list" where
  "vault_relationships by_role =
     link_all VAULT_TO_STRATEGY ''relationship_detector.vault'' (in_role by_role VAULT) (in_role by_role STRATEGY)"

definition treasury_relationships :: "role_index \<Rightarrow> ProtocolRelationship list" where
  "treasury_relationships by_role =
     link_all TOKEN_TO_TREASURY ''relationship_detector.treasury''
       (in_role by_role TOKEN @ in_role by_role ROOT) (in_role by_role TREASURY)"

definition bridge_relationships :: "role_index \<Rightarrow> ProtocolRelationship list" where
  "bridge_relationships by_role =
     concat (map (\<lambda>bridge.
       map (link_contracts BRIDGE_TO_MESSENGER ''relationship_detector.bridge'' bridge)
         (filter (same_protocol bridge) (in_role by_role MESSENGER))) (in_role by_role BRIDGE))"

text \<open>\<open>factory_address and factory_address in by_address\<close>: lists and dictionaries have no hash.\<close>

definition factory_pool :: "string list \<Rightarrow> ProtocolContract \<Rightarrow> ProtocolRelationship list result" where
  "factory_pool addresses contract =
     (if pc_role contract \<noteq> POOL then Inr []
      else let factory_address = py_get (pc_metadata contract) ''factory_address''
           in if \<not> py_truthy factory_address then Inr []
              else case factory_address of
                PyStr f \<Rightarrow> Inr (if f \<in> set addresses
                  then [link f (pc_address contract) FACTORY_TO_POOL (pc_confidence contract) ''relationship_detector.pool'']
                  else [])
              | PyList xs \<Rightarrow> Inl (TypeError ''unhashable type'')
              | PyDict d \<Rightarrow> Inl (TypeError ''unhashable type'')
              | _ \<Rightarrow> Inr [])"

definition factory_pool_relationships ::
  "(string, ProtocolContract) dict \<Rightarrow> ProtocolContract list \<Rightarrow> ProtocolRelationship list result" where
  "factory_pool_relationships by_address contracts =
     bindR (mapR (factory_pool (dict_keys by_address)) contracts) (\<lambda>rs. Inr (concat rs))"

abbreviation rel_key :: "ProtocolRelationship \<Rightarrow> string \<times> string \<times> string" where
  "rel_key r \<equiv> (rel_source_address r, rel_target_address r, relationship_type_value (rel_type r))"

definition detect_relationships :: "ProtocolContract list \<Rightarrow> ProtocolRelationship list result" where
  "detect_relationships contracts =
     (let by_address = dict_of pc_address (\<lambda>c. c) contracts; by_role = index_roles contracts
      in bindR (dex_relationships contracts by_role) (\<lambda>dex.
         bindR (factory_pool_relationships by_address contracts) (\<lambda>pools.
           Inr (dedup_by rel_key
             (proxy_relationships by_role @ governance_relationships by_role @ dex
              @ vault_relationships by_role @ treasury_relationships by_role
              @ bridge_relationships by_role @ pools)))))"

section \<open>Assembly (builder.py)\<close>

definition dedupe_contracts :: "ProtocolContract list \<Rightarrow> ProtocolContract list" where
  "dedupe_contracts contracts =
     dict_values (keep_best pc_address (\<lambda>c existing. pc_confidence c > pc_confidence existing) contracts)"

definition dedupe_relationships ::
  "ProtocolRelationship list \<Rightarrow> ProtocolContract list \<Rightarrow> ProtocolRelationship list" where
  "dedupe_relationships relationships contracts =
     (let addresses = set (map pc_address contracts)
      in dedup_by rel_key
           (filter (\<lambda>r. rel_source_address r \<in> addresses \<and> rel_target_address r \<in> addresses) relationships))"

definition role_order :: "protocol_role list" where
  "role_order =
    [ROOT, PROXY, IMPLEMENTATION, GOVERNOR, TIMELOCK, ROUTER, FACTORY, POOL, VAULT, STRATEGY, TOKEN, TREASURY,
     ORACLE, BRIDGE, MESSENGER, UNKNOWN]"

abbreviation contract_rank :: "ProtocolContract \<Rightarrow> nat \<times> string" where
  "contract_rank c \<equiv> (index_of role_order (pc_role c), pc_address c)"

abbreviation relationship_rank :: "ProtocolRelationship \<Rightarrow> string \<times> string \<times> string" where
  "relationship_rank r \<equiv> (relationship_type_value (rel_type r), rel_source_address r, rel_target_address r)"

definition sort_contracts :: "ProtocolContract list \<Rightarrow> ProtocolContract list" where
  "sort_contracts contracts = sort_key contract_rank contracts"

definition sort_relationships :: "ProtocolRelationship list \<Rightarrow> ProtocolRelationship list" where
  "sort_relationships relationships = sort_key relationship_rank relationships"

definition collect_detection_sources ::
  "ProtocolContract list \<Rightarrow> ProtocolRelationship list \<Rightarrow> string list" where
  "collect_detection_sources contracts relationships =
     sorted_set (map pc_detection_source contracts @ map rel_detection_source relationships)"

definition rootish :: "ProtocolContract \<Rightarrow> bool" where
  "rootish c \<longleftrightarrow> pc_role c = ROOT \<or> py_truthy (py_get (pc_metadata c) ''is_root'')"

definition aggregate_discovery_confidence :: "ProtocolContract list \<Rightarrow> int" where
  "aggregate_discovery_confidence contracts =
     (if contracts = [] then 0
      else let roots = filter rootish contracts
           in if roots \<noteq> [] then Min (pc_confidence ` set roots) else Min (pc_confidence ` set contracts))"

definition or_unknown :: "string \<Rightarrow> string" where
  "or_unknown s = (if s = [] then ''unknown'' else s)"

definition build_discovery ::
  "string \<Rightarrow> int \<Rightarrow> string \<Rightarrow> string \<Rightarrow> ProtocolContract list \<Rightarrow> ProtocolRelationship list \<Rightarrow>
   ProtocolDiscoveryResult" where
  "build_discovery root_address chain_id protocol_name protocol_family contracts relationships =
     (let deduped_contracts = dedupe_contracts contracts;
          deduped_relationships = dedupe_relationships relationships deduped_contracts;
          ordered_contracts = sort_contracts deduped_contracts;
          ordered_relationships = sort_relationships deduped_relationships
      in \<lparr>pd_root_address = root_address,
          pd_chain_id = chain_id,
          pd_protocol_name = or_unknown protocol_name,
          pd_protocol_family = or_unknown protocol_family,
          pd_contracts = ordered_contracts,
          pd_relationships = ordered_relationships,
          pd_confidence = aggregate_discovery_confidence ordered_contracts,
          pd_detection_sources = collect_detection_sources ordered_contracts ordered_relationships\<rparr>)"

end
