(* ===== verification/DiscoveryEngine.thy ===== *)
theory DiscoveryEngine
  imports DiscoveryClassifier
begin

text \<open>
  The discovery engine (\<open>protocol_scan/discovery.py\<close>). The governance, liquidity, wallet and protocol
  intelligence analyzers are parameters, the first three optional as in the code: of these, an
  exception is caught where the code catches it. The probing provider is one of \<open>DiscoveryProbe\<close>.
\<close>

record IntelligenceQuery =
  iq_address :: string
  iq_bytecode :: "byte list"
  iq_chain_id :: int
  iq_implementation_bytecode :: "byte list"
  iq_implementation_address :: "string option"
  iq_admin_address :: "string option"
  iq_is_timelock :: bool
  iq_is_verified :: bool
  iq_verified_source_code :: "string option"
  iq_contract_name :: "string option"

record WalletQuery =
  wq_address :: string
  wq_admin_address :: "string option"
  wq_admin_type :: "AdminType option"
  wq_is_timelock :: bool

record DiscoveryEngine =
  de_provider :: discovery_provider
  de_provider_registry :: provider_registry
  de_governance_analyzer :: "(string \<Rightarrow> GovernanceQuery \<Rightarrow> GovernanceAnalysisData result) option"
  de_liquidity_analyzer :: "(string \<Rightarrow> LiquidityAnalysisData result) option"
  de_wallet_analyzer :: "(WalletQuery \<Rightarrow> WalletIntelligenceData result) option"
  de_intelligence_analyzer :: "IntelligenceQuery \<Rightarrow> ProtocolIntelligenceData result"

text \<open>The provider and the registry an engine starts with.\<close>

definition initial_provider ::
  "discovery_provider option \<Rightarrow> provider_registry \<Rightarrow> discovery_provider \<Rightarrow> (discovery_provider \<times> provider_registry) result" where
  "initial_provider provider reg on_chain =
     (case provider of
        Some p \<Rightarrow> Inr (p, reg)
      | None \<Rightarrow>
          (if default_provider \<notin> set (all_names reg)
           then bindR (register_provider default_provider on_chain reg) (\<lambda>reg'. Inr (on_chain, reg'))
           else Inr (on_chain, reg)))"

type_synonym probes = "(string, ContractProbeResult) dict"

definition discover_proxy_chain ::
  "ContractProbeResult \<Rightarrow> probes \<Rightarrow> discovery_provider \<Rightarrow> int \<Rightarrow> (ProtocolContract list \<times> probes) result" where
  "discover_proxy_chain root_probe probes provider chain_id =
     (case cb_implementation_address root_probe of
        None \<Rightarrow> Inr ([], probes)
      | Some raw \<Rightarrow>
          (if raw = [] then Inr ([], probes)
           else bindR (normalize_eth_address raw) (\<lambda>implementation_address.
             let (proxy, implementation) =
                   classify_proxy_implementation (cb_address root_probe) implementation_address 90;
                 proxy' = proxy\<lparr>pc_metadata := dict_merge (pc_metadata proxy)
                   [(''implementation_address'', PyStr implementation_address)]\<rparr>
             in bindR (provider implementation_address chain_id) (\<lambda>impl_probe.
                  Inr ([proxy', implementation,
                        classify_probe impl_probe IMPLEMENTATION ''verified_source.implementation'' 85],
                       AList.update implementation_address impl_probe probes)))))"

definition governance_query :: "ContractProbeResult \<Rightarrow> ContractProbeResult \<Rightarrow> string \<Rightarrow> GovernanceQuery" where
  "governance_query root_probe admin_probe admin_address =
     \<lparr>gq_bytecode = cb_bytecode root_probe,
      gq_logic_address = Some (or_text (cb_implementation_address root_probe) (cb_address root_probe)),
      gq_logic_bytecode = Some (if cb_bytecode admin_probe = [] then cb_bytecode root_probe else cb_bytecode admin_probe),
      gq_is_upgradeable = (cb_implementation_address root_probe \<noteq> None),
      gq_admin_address = Some admin_address,
      gq_admin_type = Some AdminContract,
      gq_owner_type = None,
      gq_is_timelock = (cb_is_timelock admin_probe \<or> cb_is_timelock root_probe),
      gq_ownership_capability = False,
      gq_contract_type = Some CtUnknown\<rparr>"

definition admin_contract :: "ContractProbeResult \<Rightarrow> string \<Rightarrow> ProtocolContract" where
  "admin_contract admin_probe admin_address =
     contract_of admin_address (if cb_is_timelock admin_probe then TIMELOCK else GOVERNOR) 75
       ''proxy_resolution.admin'' [(''is_timelock'', PyBool (cb_is_timelock admin_probe))]"

definition discover_governance_chain ::
  "DiscoveryEngine \<Rightarrow> ContractProbeResult \<Rightarrow> probes \<Rightarrow> discovery_provider \<Rightarrow> int \<Rightarrow>
   (ProtocolContract list \<times> probes) result" where
  "discover_governance_chain engine root_probe probes provider chain_id =
     (case cb_admin_address root_probe of
        None \<Rightarrow> Inr ([], probes)
      | Some raw \<Rightarrow>
          (if raw = [] then Inr ([], probes)
           else bindR (normalize_eth_address raw) (\<lambda>admin_address.
             bindR (provider admin_address chain_id) (\<lambda>admin_probe.
               let probes' = AList.update admin_address admin_probe probes
               in case de_governance_analyzer engine of
                    None \<Rightarrow> Inr ([admin_contract admin_probe admin_address], probes')
                  | Some analyze \<Rightarrow>
                      (case analyze (cb_address root_probe) (governance_query root_probe admin_probe admin_address) of
                         Inl e \<Rightarrow> Inr ([admin_contract admin_probe admin_address], probes')
                       | Inr governance \<Rightarrow>
                           Inr ([classify_governance_authority admin_address governance (cb_is_timelock admin_probe)],
                             probes'))))))"

text \<open>The peer the registry has for a factory (its router) or a bridge (its messenger).\<close>

definition peer_of :: "Deployment list \<Rightarrow> pyval \<Rightarrow> string \<Rightarrow> int \<Rightarrow> string \<Rightarrow> ProtocolContract list" where
  "peer_of deployments protocol role chain_id root_address =
     (case find_deployment deployments protocol role chain_id of
        None \<Rightarrow> []
      | Some peer \<Rightarrow>
          (if peer \<noteq> [] \<and> peer \<noteq> root_address
           then (case classify_from_registry peer chain_id of None \<Rightarrow> [] | Some c \<Rightarrow> [c])
           else []))"

definition discover_registry_peers :: "string \<Rightarrow> int \<Rightarrow> ProtocolContract list" where
  "discover_registry_peers root_address chain_id =
     (case classify_from_registry root_address chain_id of
        None \<Rightarrow> []
      | Some root_registry \<Rightarrow>
          (let protocol = py_get (pc_metadata root_registry) ''protocol'';
               role = py_get (pc_metadata root_registry) ''registry_role''
           in if \<not> py_truthy protocol \<or> \<not> py_truthy role then []
              else if role = PyStr ''factory'' then peer_of defi_deployments protocol ''router'' chain_id root_address
              else if role \<in> {PyStr ''endpoint'', PyStr ''core'', PyStr ''gateway'', PyStr ''mailbox''}
              then peer_of bridge_deployments protocol ''messenger'' chain_id root_address
              else []))"

definition intelligence_query :: "ContractProbeResult \<Rightarrow> int \<Rightarrow> IntelligenceQuery" where
  "intelligence_query root_probe chain_id =
     \<lparr>iq_address = cb_address root_probe,
      iq_bytecode = cb_bytecode root_probe,
      iq_chain_id = chain_id,
      iq_implementation_bytecode = cb_bytecode root_probe,
      iq_implementation_address = cb_implementation_address root_probe,
      iq_admin_address = cb_admin_address root_probe,
      iq_is_timelock = cb_is_timelock root_probe,
      iq_is_verified = probe_verified root_probe,
      iq_verified_source_code = map_option vs_source_code (cb_verified_source root_probe),
      iq_contract_name = map_option vs_contract_name (cb_verified_source root_probe)\<rparr>"

text \<open>A contract for the integrations of one kind: the lowest confidence and the first name.\<close>

definition integration_contract ::
  "string \<Rightarrow> protocol_role \<Rightarrow> string \<Rightarrow> string \<Rightarrow> IntegrationData list \<Rightarrow> ProtocolContract list" where
  "integration_contract address role detection_source key items =
     (case items of
        [] \<Rightarrow> []
      | item # _ \<Rightarrow>
          [contract_of address role (Min (ig_confidence ` set items)) detection_source
             [(key, PyStr (case item of NamedIntegration n c \<Rightarrow> n | NftIntegration s c \<Rightarrow> s))]])"

definition contracts_of_intelligence :: "string \<Rightarrow> ProtocolIntelligenceData \<Rightarrow> ProtocolContract list" where
  "contracts_of_intelligence address intelligence =
     (case classify_from_intelligence address intelligence of None \<Rightarrow> [] | Some c \<Rightarrow> [c])
     @ integration_contract address STRATEGY ''protocol_intelligence.vault'' ''vault_protocol'' (pi_vaults intelligence)
     @ integration_contract address ORACLE ''protocol_intelligence.oracle'' ''oracle_protocol'' (pi_oracles intelligence)"

definition discover_from_intelligence ::
  "DiscoveryEngine \<Rightarrow> ContractProbeResult \<Rightarrow> int \<Rightarrow> ProtocolContract list result" where
  "discover_from_intelligence engine root_probe chain_id =
     bindR (de_intelligence_analyzer engine (intelligence_query root_probe chain_id)) (\<lambda>intelligence.
       Inr (contracts_of_intelligence (cb_address root_probe) intelligence))"

definition discover_wallet_treasury :: "DiscoveryEngine \<Rightarrow> ContractProbeResult \<Rightarrow> ProtocolContract list result" where
  "discover_wallet_treasury engine root_probe =
     (case de_wallet_analyzer engine of
        None \<Rightarrow> Inr []
      | Some analyze \<Rightarrow>
          (case analyze \<lparr>wq_address = cb_address root_probe,
                         wq_admin_address = cb_admin_address root_probe,
                         wq_admin_type = (case cb_admin_address root_probe of
                            None \<Rightarrow> None | Some a \<Rightarrow> if a = [] then None else Some AdminContract),
                         wq_is_timelock = cb_is_timelock root_probe\<rparr> of
             Inl e \<Rightarrow> Inr []
           | Inr wallet \<Rightarrow>
               (case wo_treasury (wi_ownership wallet) of
                  None \<Rightarrow> Inr []
                | Some treasury \<Rightarrow>
                    (if treasury = [] then Inr []
                     else bindR (normalize_eth_address treasury) (\<lambda>a. Inr [classify_treasury a 75])))))"

definition pool_contract :: "LiquidityPoolData \<Rightarrow> ProtocolContract result" where
  "pool_contract pool =
     bindR (normalize_eth_address (lq_pair_address pool)) (\<lambda>a.
       Inr (contract_of a POOL 70 ''liquidity_analyzer''
         [(''dex'', PyStr (lq_dex pool)), (''factory_address'', PyNone)]))"

definition discover_liquidity_pools :: "DiscoveryEngine \<Rightarrow> string \<Rightarrow> ProtocolContract list result" where
  "discover_liquidity_pools engine root_address =
     (case de_liquidity_analyzer engine of
        None \<Rightarrow> Inr []
      | Some analyze \<Rightarrow>
          (case analyze root_address of
             Inl e \<Rightarrow> Inr []
           | Inr liquidity \<Rightarrow> mapR pool_contract (take 3 (la_top_pools liquidity))))"

definition discover_source_linked_contracts ::
  "ContractProbeResult \<Rightarrow> probes \<Rightarrow> int \<Rightarrow> ProtocolContract list" where
  "discover_source_linked_contracts root_probe probes chain_id =
     List.map_filter
       (\<lambda>linked. if linked \<in> set (dict_keys probes) then None else classify_from_registry linked chain_id)
       (take 5 (cb_linked_addresses root_probe))"

fun family_from_role :: "protocol_role \<Rightarrow> string" where
  "family_from_role FACTORY = ''dex''"
| "family_from_role ROUTER = ''dex''"
| "family_from_role POOL = ''dex''"
| "family_from_role VAULT = ''vault''"
| "family_from_role BRIDGE = ''bridge''"
| "family_from_role MESSENGER = ''bridge''"
| "family_from_role GOVERNOR = ''governance''"
| "family_from_role TIMELOCK = ''governance''"
| "family_from_role ORACLE = ''oracle''"
| "family_from_role r = ''unknown''"

fun resolve_protocol_identity :: "ProtocolContract list \<Rightarrow> string \<times> string" where
  "resolve_protocol_identity [] = (''unknown'', ''unknown'')"
| "resolve_protocol_identity (contract # contracts) =
     (let md = pc_metadata contract; protocol = py_get md ''protocol''; protocol_name = py_get md ''protocol_name''
      in if py_truthy protocol
         then (py_str protocol,
               py_str (py_or (py_get md ''protocol_family'') (PyStr (family_from_role (pc_role contract)))))
         else if py_truthy protocol_name \<and> \<not> py_eq protocol_name (PyStr ''unknown'')
         then (py_str protocol_name, py_str (dict_get md ''protocol_family'' (PyStr ''unknown'')))
         else resolve_protocol_identity contracts)"

definition root_contract :: "string \<Rightarrow> int \<Rightarrow> ContractProbeResult \<Rightarrow> ProtocolContract" where
  "root_contract root_address chain_id root_probe =
     (case classify_from_registry root_address chain_id of
        Some c \<Rightarrow> contract_of (pc_address c) (pc_role c) (max (pc_confidence c) 95) (pc_detection_source c)
          (dict_merge (pc_metadata c) [(''is_root'', PyBool True)])
      | None \<Rightarrow> classify_root root_probe)"

definition select_provider :: "DiscoveryEngine \<Rightarrow> string \<Rightarrow> discovery_provider result" where
  "select_provider engine provider_name =
     (if provider_name = default_provider then Inr (de_provider engine)
      else require_provider (de_provider_registry engine) provider_name)"

text \<open>All contracts the steps of the engine find, in their order.\<close>

definition discovered_contracts ::
  "DiscoveryEngine \<Rightarrow> string \<Rightarrow> int \<Rightarrow> discovery_provider \<Rightarrow> ContractProbeResult \<Rightarrow>
   ProtocolContract list result" where
  "discovered_contracts engine root_address chain_id provider root_probe =
     bindR (discover_proxy_chain root_probe [(root_address, root_probe)] provider chain_id) (\<lambda>(proxies, probes).
     bindR (discover_governance_chain engine root_probe probes provider chain_id) (\<lambda>(governance, probes').
     bindR (discover_from_intelligence engine root_probe chain_id) (\<lambda>intelligence.
     bindR (discover_wallet_treasury engine root_probe) (\<lambda>treasuries.
     bindR (discover_liquidity_pools engine root_address) (\<lambda>pools.
       Inr (root_contract root_address chain_id root_probe # proxies @ governance
         @ discover_registry_peers root_address chain_id @ intelligence @ treasuries @ pools
         @ discover_source_linked_contracts root_probe probes' chain_id))))))"

definition discover :: "DiscoveryEngine \<Rightarrow> string \<Rightarrow> int \<Rightarrow> string \<Rightarrow> ProtocolDiscoveryResult result" where
  "discover engine root_address chain_id provider_name =
     bindR (normalize_eth_address root_address) (\<lambda>normalized_root.
     bindR (select_provider engine provider_name) (\<lambda>provider.
     bindR (provider normalized_root chain_id) (\<lambda>root_probe.
     bindR (discovered_contracts engine normalized_root chain_id provider root_probe) (\<lambda>contracts.
     bindR (detect_relationships contracts) (\<lambda>relationships.
       let (protocol_name, protocol_family) = resolve_protocol_identity contracts
       in Inr (build_discovery normalized_root chain_id protocol_name protocol_family contracts relationships))))))"

end
