(* ===== verification/DiscoveryFacts.thy ===== *)
theory DiscoveryFacts
  imports DiscoveryEngine ChainFacts GraphFacts
begin

text \<open>
  Facts on the discovery of protocols: the role index, the links of each rule, the addresses found in
  a source, the deployments of the registries and what the steps of the engine may find.
\<close>

section \<open>Lists of results\<close>

lemma mapR_set: "mapR f xs = Inr ys \<Longrightarrow> set ys = {y. \<exists>x \<in> set xs. f x = Inr y}"
  by (induction xs arbitrary: ys) (auto simp: bindR_eq_Inr)

lemma mapR_defined: "mapR f xs = Inr ys \<Longrightarrow> x \<in> set xs \<Longrightarrow> \<exists>y. f x = Inr y"
  by (induction xs arbitrary: ys) (auto simp: bindR_eq_Inr)

section \<open>The role index\<close>

lemma in_role_index: "set (in_role (index_roles contracts) role) = {c \<in> set contracts. pc_role c = role}"
proof (induction contracts rule: rev_induct)
  case Nil
  then show ?case by (simp add: in_role_def index_roles_def dict_get_def)
next
  case (snoc c cs)
  have "in_role (index_roles (cs @ [c])) role =
      (if role = pc_role c then in_role (index_roles cs) role @ [c] else in_role (index_roles cs) role)"
    by (simp add: in_role_def index_roles_def dict_get_def)
  with snoc show ?case by auto
qed

section \<open>Links\<close>

lemma link_contracts_simps [simp]:
  "rel_source_address (link_contracts t s a b) = pc_address a"
  "rel_target_address (link_contracts t s a b) = pc_address b"
  "rel_type (link_contracts t s a b) = t"
  "rel_confidence (link_contracts t s a b) = min (pc_confidence a) (pc_confidence b)"
  by (simp_all add: link_contracts_def link_def)

lemma set_link_all: "set (link_all t s as bs) = {link_contracts t s a b |a b. a \<in> set as \<and> b \<in> set bs}"
  by (auto simp: link_all_def)

text \<open>The pairs of contracts each rule links, over the contracts and their roles alone.\<close>

definition points_to :: "ProtocolContract list \<Rightarrow> ProtocolContract \<Rightarrow> ProtocolContract \<Rightarrow> bool" where
  "points_to contracts proxy impl \<longleftrightarrow>
     (let names = (\<lambda>c. py_get (pc_metadata proxy) ''implementation_address'' = PyNone \<or>
        py_eq (PyStr (pc_address c)) (py_get (pc_metadata proxy) ''implementation_address''))
      in names impl \<or> \<not> (\<exists>c \<in> set contracts. pc_role c = IMPLEMENTATION \<and> names c))"

definition share_protocol :: "ProtocolContract \<Rightarrow> ProtocolContract \<Rightarrow> bool" where
  "share_protocol a b \<longleftrightarrow>
     (let names = (\<lambda>c. py_get (pc_metadata c) ''protocol'')
      in py_truthy (names a) \<and> py_truthy (names b) \<and> py_eq (names a) (names b))"

lemma same_protocol_iff [simp]: "same_protocol a b \<longleftrightarrow> share_protocol a b"
  by (auto simp: same_protocol_def share_protocol_def Let_def)

definition linked_pair ::
  "ProtocolContract list \<Rightarrow> protocol_relationship_type \<Rightarrow> ProtocolContract \<Rightarrow> ProtocolContract \<Rightarrow> bool" where
  "linked_pair contracts t a b \<longleftrightarrow> a \<in> set contracts \<and> b \<in> set contracts \<and>
     (case t of
        PROXY_TO_IMPLEMENTATION \<Rightarrow> pc_role a = PROXY \<and> pc_role b = IMPLEMENTATION \<and> points_to contracts a b
      | GOVERNOR_TO_TIMELOCK \<Rightarrow> pc_role a = GOVERNOR \<and> pc_role b = TIMELOCK
      | ROUTER_TO_FACTORY \<Rightarrow> pc_role a = ROUTER \<and> pc_role b = FACTORY \<and> share_protocol a b
      | VAULT_TO_STRATEGY \<Rightarrow> pc_role a = VAULT \<and> pc_role b = STRATEGY
      | TOKEN_TO_TREASURY \<Rightarrow> pc_role a \<in> {TOKEN, ROOT} \<and> pc_role b = TREASURY
      | BRIDGE_TO_MESSENGER \<Rightarrow> pc_role a = BRIDGE \<and> pc_role b = MESSENGER \<and> share_protocol a b
      | FACTORY_TO_POOL \<Rightarrow> pc_role b = POOL \<and>
          py_get (pc_metadata b) ''factory_address'' = PyStr (pc_address a) \<and> pc_address a \<noteq> [])"

lemma proxy_links:
  "rel_key ` set (proxy_relationships (index_roles cs)) =
     {(pc_address a, pc_address b, ''PROXY_TO_IMPLEMENTATION'') |a b. linked_pair cs PROXY_TO_IMPLEMENTATION a b}"
proof -
  let ?impls = "in_role (index_roles cs) IMPLEMENTATION"
  let ?names = "\<lambda>p c. py_get (pc_metadata p) ''implementation_address'' = PyNone \<or>
    py_eq (PyStr (pc_address c)) (py_get (pc_metadata p) ''implementation_address'')"
  have "set (if filter (?names p) ?impls = [] then ?impls else filter (?names p) ?impls)
      = {b \<in> set cs. pc_role b = IMPLEMENTATION \<and> points_to cs p b}" for p
    by (auto simp: points_to_def Let_def filter_empty_conv in_role_index)
  then show ?thesis
    unfolding proxy_relationships_def Let_def
    by (force simp: linked_pair_def in_role_index image_UN image_image)
qed

lemma link_all_keys:
  "rel_key ` set (link_all t s as bs) = {(pc_address a, pc_address b, relationship_type_value t) |a b. a \<in> set as \<and> b \<in> set bs}"
  by (force simp: set_link_all)

lemma rule_links:
  "rel_key ` set (governance_relationships (index_roles cs)) =
     {(pc_address a, pc_address b, ''GOVERNOR_TO_TIMELOCK'') |a b. linked_pair cs GOVERNOR_TO_TIMELOCK a b}"
  "rel_key ` set (vault_relationships (index_roles cs)) =
     {(pc_address a, pc_address b, ''VAULT_TO_STRATEGY'') |a b. linked_pair cs VAULT_TO_STRATEGY a b}"
  "rel_key ` set (treasury_relationships (index_roles cs)) =
     {(pc_address a, pc_address b, ''TOKEN_TO_TREASURY'') |a b. linked_pair cs TOKEN_TO_TREASURY a b}"
  by (auto simp: governance_relationships_def vault_relationships_def treasury_relationships_def link_all_keys
      linked_pair_def in_role_index)

lemma bridge_links:
  "rel_key ` set (bridge_relationships (index_roles cs)) =
     {(pc_address a, pc_address b, ''BRIDGE_TO_MESSENGER'') |a b. linked_pair cs BRIDGE_TO_MESSENGER a b}"
  by (force simp: bridge_relationships_def linked_pair_def in_role_index image_UN image_image)

text \<open>The router the registry has for a factory whose protocol and chain are in its metadata.\<close>

definition registry_router :: "ProtocolContract \<Rightarrow> string \<Rightarrow> bool" where
  "registry_router c router \<longleftrightarrow> pc_role c = FACTORY \<and> py_truthy (py_get (pc_metadata c) ''protocol'') \<and>
     py_get (pc_metadata c) ''chain_id'' \<noteq> PyNone \<and>
     (\<exists>n. py_int (py_get (pc_metadata c) ''chain_id'') = Inr n \<and>
       (\<exists>d. find (\<lambda>d. py_get (pc_metadata c) ''protocol'' = PyStr (dp_protocol d) \<and> dp_role d = ''router'' \<and>
            dp_chain_id d = n) defi_deployments = Some d \<and> router = lower (dp_address d)))"

lemma py_eq_text: "py_eq (PyStr s) v \<longleftrightarrow> v = PyStr s"
  by (cases v) auto

lemma registered_router:
  "find_deployment defi_deployments protocol ''router'' n = Some router \<longleftrightarrow>
     (\<exists>d. find (\<lambda>d. protocol = PyStr (dp_protocol d) \<and> dp_role d = ''router'' \<and> dp_chain_id d = n) defi_deployments = Some d \<and>
       router = lower (dp_address d))"
  by (auto simp: find_deployment_def py_eq_text)

lemma registry_router_iff:
  "registry_router c router \<longleftrightarrow> pc_role c = FACTORY \<and> py_truthy (py_get (pc_metadata c) ''protocol'') \<and>
     py_get (pc_metadata c) ''chain_id'' \<noteq> PyNone \<and>
     (\<exists>n. py_int (py_get (pc_metadata c) ''chain_id'') = Inr n \<and>
       find_deployment defi_deployments (py_get (pc_metadata c) ''protocol'') ''router'' n = Some router)"
  unfolding registry_router_def registered_router ..

lemma registry_pair_links:
  assumes "registry_pair c = Inr rs"
  shows "rel_key ` set rs = {(router, pc_address c, ''ROUTER_TO_FACTORY'') |router. registry_router c router}"
    and "r \<in> set rs \<Longrightarrow> rel_type r = ROUTER_TO_FACTORY"
  using assms
  by (auto simp: registry_pair_def registry_router_iff Let_def link_def bindR_eq_Inr split: if_splits option.splits)

lemma dex_links:
  assumes "dex_relationships cs (index_roles cs) = Inr rs"
  shows "rel_key ` set rs =
     {(pc_address a, pc_address b, ''ROUTER_TO_FACTORY'') |a b. linked_pair cs ROUTER_TO_FACTORY a b} \<union>
     {(router, pc_address c, ''ROUTER_TO_FACTORY'') |router c.
        (\<forall>a \<in> set cs. pc_role a \<noteq> ROUTER) \<and> c \<in> set cs \<and> registry_router c router}"
proof (cases "in_role (index_roles cs) ROUTER \<noteq> [] \<and> in_role (index_roles cs) FACTORY \<noteq> []")
  case True
  then obtain a where "a \<in> set cs" "pc_role a = ROUTER"
    using in_role_index [of cs ROUTER] by (cases "in_role (index_roles cs) ROUTER") auto
  moreover from True assms have "rs = concat (map (\<lambda>router.
      map (link_contracts ROUTER_TO_FACTORY ''relationship_detector.dex'' router)
        (filter (same_protocol router) (in_role (index_roles cs) FACTORY))) (in_role (index_roles cs) ROUTER))"
    by (simp add: dex_relationships_def Let_def)
  ultimately show ?thesis by (force simp: linked_pair_def in_role_index image_UN image_image)
next
  case False
  then have none: "(\<forall>a \<in> set cs. pc_role a \<noteq> ROUTER) \<or> (\<forall>a \<in> set cs. pc_role a \<noteq> FACTORY)"
    using in_role_index [of cs ROUTER] in_role_index [of cs FACTORY] by auto
  from False assms have "bindR (mapR registry_pair cs) (\<lambda>rss. Inr (concat rss)) = Inr rs"
    unfolding dex_relationships_def Let_def by (simp only: if_False)
  then obtain rss where rss: "mapR registry_pair cs = Inr rss" "rs = concat rss" by (auto simp: bindR_eq_Inr)
  have "rel_key ` set rs = (\<Union>l \<in> {l. \<exists>c \<in> set cs. registry_pair c = Inr l}. rel_key ` set l)"
    using mapR_set [OF rss(1)] by (auto simp: rss(2))
  also have "\<dots> = {(router, pc_address c, ''ROUTER_TO_FACTORY'') |router c. c \<in> set cs \<and> registry_router c router}"
    (is "_ = ?links")
  proof (intro equalityI subsetI)
    fix k assume "k \<in> (\<Union>l \<in> {l. \<exists>c \<in> set cs. registry_pair c = Inr l}. rel_key ` set l)"
    then obtain c l where "c \<in> set cs" "registry_pair c = Inr l" "k \<in> rel_key ` set l" by blast
    then show "k \<in> ?links" using registry_pair_links(1) [of c l] by auto
  next
    fix k assume "k \<in> ?links"
    then obtain router c where c: "k = (router, pc_address c, ''ROUTER_TO_FACTORY'')" "c \<in> set cs" "registry_router c router"
      by blast
    from mapR_defined [OF rss(1) c(2)] obtain l where l: "registry_pair c = Inr l" ..
    with c registry_pair_links(1) [OF l] have "k \<in> rel_key ` set l" by auto
    with c(2) l show "k \<in> (\<Union>l \<in> {l. \<exists>c \<in> set cs. registry_pair c = Inr l}. rel_key ` set l)" by blast
  qed
  finally have keys: "rel_key ` set rs = ?links" .
  from none have "\<not> linked_pair cs ROUTER_TO_FACTORY a b" for a b by (auto simp: linked_pair_def)
  moreover have "?links = {(router, pc_address c, ''ROUTER_TO_FACTORY'') |router c.
      (\<forall>a \<in> set cs. pc_role a \<noteq> ROUTER) \<and> c \<in> set cs \<and> registry_router c router}"
    using none unfolding registry_router_def by blast
  ultimately show ?thesis by (simp only: keys HOL.simp_thms Collect_const Un_empty_left if_False)
qed

lemma pool_links:
  assumes "factory_pool_relationships (dict_of pc_address (\<lambda>c. c) cs) cs = Inr rs"
  shows "rel_key ` set rs =
     {(pc_address a, pc_address b, ''FACTORY_TO_POOL'') |a b. linked_pair cs FACTORY_TO_POOL a b}"
proof -
  have one: "rel_key ` set l = {(pc_address a, pc_address b, ''FACTORY_TO_POOL'') |a. linked_pair cs FACTORY_TO_POOL a b}"
    if "factory_pool (dict_keys (dict_of pc_address (\<lambda>c. c) cs)) b = Inr l" "b \<in> set cs" for b l
    using that by (auto simp: factory_pool_def linked_pair_def Let_def link_def simp del: set_map
        split: if_splits pyval.splits)
  from assms obtain rss where rss: "mapR (factory_pool (dict_keys (dict_of pc_address (\<lambda>c. c) cs))) cs = Inr rss"
      "rs = concat rss"
    by (auto simp: factory_pool_relationships_def bindR_eq_Inr)
  have "rel_key ` set rs = (\<Union>b \<in> set cs. \<Union>l \<in> {l. factory_pool (dict_keys (dict_of pc_address (\<lambda>c. c) cs)) b = Inr l}.
      rel_key ` set l)"
    using mapR_set [OF rss(1)] by (auto simp: rss(2) simp del: set_map)
  also have "\<dots> = (\<Union>b \<in> set cs. {(pc_address a, pc_address b, ''FACTORY_TO_POOL'') |a. linked_pair cs FACTORY_TO_POOL a b})"
  proof (intro SUP_cong refl)
    fix b assume b: "b \<in> set cs"
    from mapR_defined [OF rss(1) b] obtain l where l: "factory_pool (dict_keys (dict_of pc_address (\<lambda>c. c) cs)) b = Inr l" ..
    then have "{l. factory_pool (dict_keys (dict_of pc_address (\<lambda>c. c) cs)) b = Inr l} = {l}" by auto
    with one [OF l b] show "(\<Union>l \<in> {l. factory_pool (dict_keys (dict_of pc_address (\<lambda>c. c) cs)) b = Inr l}. rel_key ` set l) =
        {(pc_address a, pc_address b, ''FACTORY_TO_POOL'') |a. linked_pair cs FACTORY_TO_POOL a b}" by simp
  qed
  also have "\<dots> = {(pc_address a, pc_address b, ''FACTORY_TO_POOL'') |a b. linked_pair cs FACTORY_TO_POOL a b}"
    by (auto simp: linked_pair_def)
  finally show ?thesis .
qed

text \<open>All links of a list of contracts: those between discovered contracts and those to a registered router.\<close>

lemma detect_links:
  assumes "detect_relationships cs = Inr rs"
  shows "rel_key ` set rs =
     {(pc_address a, pc_address b, relationship_type_value t) |a b t. linked_pair cs t a b} \<union>
     {(router, pc_address c, ''ROUTER_TO_FACTORY'') |router c.
        (\<forall>a \<in> set cs. pc_role a \<noteq> ROUTER) \<and> c \<in> set cs \<and> registry_router c router}"
    and "distinct (map rel_key rs)"
proof -
  let ?i = "index_roles cs"
  from assms obtain dex pools where d: "dex_relationships cs ?i = Inr dex"
    "factory_pool_relationships (dict_of pc_address (\<lambda>c. c) cs) cs = Inr pools"
    and rs: "rs = dedup_by rel_key (proxy_relationships ?i @ governance_relationships ?i @ dex
      @ vault_relationships ?i @ treasury_relationships ?i @ bridge_relationships ?i @ pools)"
    unfolding detect_relationships_def Let_def bindR_eq_Inr by auto
  show "distinct (map rel_key rs)" unfolding rs by (rule dedup_by_distinct)
  have types: "{(pc_address a, pc_address b, relationship_type_value t) |a b t. linked_pair cs t a b} =
      (\<Union>t \<in> {PROXY_TO_IMPLEMENTATION, GOVERNOR_TO_TIMELOCK, ROUTER_TO_FACTORY, FACTORY_TO_POOL, VAULT_TO_STRATEGY,
         TOKEN_TO_TREASURY, BRIDGE_TO_MESSENGER}.
       {(pc_address a, pc_address b, relationship_type_value t) |a b. linked_pair cs t a b})" (is "_ = (\<Union>t \<in> ?all. _ t)")
  proof -
    have "t \<in> ?all" for t by (cases t) simp_all
    then show ?thesis by blast
  qed
  show "rel_key ` set rs =
     {(pc_address a, pc_address b, relationship_type_value t) |a b t. linked_pair cs t a b} \<union>
     {(router, pc_address c, ''ROUTER_TO_FACTORY'') |router c.
        (\<forall>a \<in> set cs. pc_role a \<noteq> ROUTER) \<and> c \<in> set cs \<and> registry_router c router}"
    unfolding types rs dedup_by_keys set_append image_Un proxy_links rule_links bridge_links dex_links [OF d(1)]
      pool_links [OF d(2)] UN_insert UN_empty relationship_type_value.simps
    by (simp only: Un_ac Un_empty_right Un_empty_left)
qed

section \<open>Addresses in a source\<close>

lemma address_here_iff: "address_here s \<longleftrightarrow> 42 \<le> length s \<and> s ! 0 = CHR ''0'' \<and> s ! 1 = CHR ''x'' \<and>
    (\<forall>i. 2 \<le> i \<and> i < 42 \<longrightarrow> is_hex (s ! i))"
proof (cases "42 \<le> length s")
  case True
  then obtain a b t where s: "s = a # b # t" "40 \<le> length t"
    by (cases s; cases "tl s") auto
  have "(\<forall>i. 2 \<le> i \<and> i < 42 \<longrightarrow> is_hex (s ! i)) \<longleftrightarrow> (\<forall>i < 40. is_hex (t ! i))"
  proof safe
    fix i assume "\<forall>i. 2 \<le> i \<and> i < 42 \<longrightarrow> is_hex (s ! i)" "i < (40 :: nat)"
    then show "is_hex (t ! i)" using s(1) by (auto dest: spec [of _ "i + 2"])
  next
    fix i :: nat assume "\<forall>i < 40. is_hex (t ! i)" "2 \<le> i" "i < 42"
    then show "is_hex (s ! i)" using s(1) by (auto dest: spec [of _ "i - 2"] simp: nth_Cons' numeral_2_eq_2)
  qed
  with s True show ?thesis by (auto simp: address_here_def list_all_length)
qed (simp add: address_here_def)

lemma hex_not_x [simp]: "\<not> is_hex CHR ''x''" "is_hex CHR ''0''"
  by code_simp+

lemma find_addresses_sound: "m \<in> set (find_addresses s) \<Longrightarrow> address_here m \<and> length m = 42 \<and> sublist m s"
proof (induction s rule: find_addresses.induct)
  case (2 c s)
  show ?case
  proof (cases "address_here (c # s) \<and> m = take 42 (c # s)")
    case True
    moreover have "sublist (take 42 (c # s)) (c # s)" by (intro prefix_imp_sublist take_is_prefix)
    moreover have "address_here (take 42 (c # s))" "length (take 42 (c # s)) = 42"
      using True by (auto simp: address_here_iff simp del: take_Suc_Cons)
    ultimately show ?thesis by blast
  next
    case False
    have "sublist (drop 42 (c # s)) (c # s)" "sublist s (c # s)"
      by (auto intro: suffix_imp_sublist suffix_drop suffix_ConsI)
    with False 2 show ?thesis by (auto simp del: drop_Suc_Cons take_Suc_Cons split: if_splits intro: sublist_order.order.trans)
  qed
qed simp

text \<open>An address whose first digit cannot be the last digit of another one is found.\<close>

lemma find_addresses_complete:
  assumes "s = u @ m @ v" "address_here m" "length m = 42" "u = [] \<or> \<not> is_hex (last u)"
  shows "m \<in> set (find_addresses s)"
  using assms
proof (induction s arbitrary: u rule: find_addresses.induct)
  case (2 c s)
  have here: "address_here (m @ v)" using 2(4,5) by (auto simp: address_here_iff nth_append)
  show ?case
  proof (cases "address_here (c # s)")
    case True
    show ?thesis
    proof (cases "length u < 42")
      case True
      have "u = []"
      proof (rule ccontr)
        assume "u \<noteq> []"
        then have u: "0 < length u" "\<not> is_hex (last u)" using 2(6) by auto
        have hex: "is_hex ((u @ m @ v) ! i)" if "2 \<le> i" "i < 42" for i
          using \<open>address_here (c # s)\<close> that unfolding 2(3) address_here_iff by blast
        have x: "(u @ m @ v) ! (length u + 1) = CHR ''x''" using 2(4,5) by (simp add: nth_append address_here_iff)
        have l: "(u @ m @ v) ! (length u - 1) = last u" using u(1) by (simp add: nth_append last_conv_nth)
        have "length u \<noteq> 1"
          using l u(2) hex_not_x(2) \<open>address_here (c # s)\<close> unfolding 2(3) address_here_iff
          by (metis diff_self_eq_0)
        then show False using hex [of "length u + 1"] x hex [of "length u - 1"] l u True
          by (cases "length u = 41") (simp_all, linarith?)
      qed
      then have "take 42 (c # s) = m" using 2(5) unfolding 2(3) by simp
      with \<open>address_here (c # s)\<close> show ?thesis by (simp del: take_Suc_Cons)
    next
      case False
      then have "drop 42 (c # s) = drop 42 u @ m @ v" unfolding 2(3) by simp
      moreover have "drop 42 u = [] \<or> \<not> is_hex (last (drop 42 u))" using 2(6) False by (auto simp: last_drop)
      ultimately have "m \<in> set (find_addresses (drop 42 (c # s)))" using 2(1) True 2(4,5) \<open>address_here (c # s)\<close> by blast
      with \<open>address_here (c # s)\<close> show ?thesis by simp
    qed
  next
    case False
    with here 2(3) obtain u' where u': "u = c # u'" "s = u' @ m @ v" by (cases u) auto
    then have "u' = [] \<or> \<not> is_hex (last u')" using 2(6) by auto
    with 2(2) False u'(2) 2(4,5) show ?thesis by simp
  qed
qed (auto simp: address_here_iff)

lemma address_lower: "address_here m \<Longrightarrow> length m = 42 \<Longrightarrow> canonical (lower m)"
  unfolding canonical_def
  by (rule exI [of _ "lower (drop 2 m)"])
    (auto simp: address_here_def lower_def prefix_def list_all_iff prefix_0x_chars)

section \<open>The registries\<close>

lemma match_first:
  assumes "match_in ds n a = d # rest"
  shows "d \<in> set ds \<and> dp_chain_id d = n \<and> lower (dp_address d) = lower a"
proof -
  have "d \<in> set (match_in ds n a)" using assms by simp
  then show ?thesis by (simp add: match_in_def Let_def)
qed

text \<open>
  Six deployments have an address that is too short, so no canonical address matches them.
\<close>

lemma matched_length: "match_in ds n a = d # rest \<Longrightarrow> canonical a \<Longrightarrow> length (dp_address d) = 42"
  by (drule match_first) (auto simp: canonical_def dest!: arg_cong [where f = length])

lemma short_deployments:
  "map (\<lambda>d. (dp_protocol d, dp_role d))
     (filter (\<lambda>d. length (dp_address d) \<noteq> 42)
       (defi_deployments @ bridge_deployments @ vault_deployments @ governance_deployments)) =
   [(''SushiSwap'', ''factory''), (''LayerZero'', ''endpoint''), (''Stargate'', ''router''), (''Hyperlane'', ''mailbox''),
    (''Beefy'', ''Yield Vault''), (''EigenLayer'', ''Restaking Vault'')]"
  by code_simp

definition bridge_role :: "Deployment \<Rightarrow> protocol_role" where
  "bridge_role d = dict_get bridge_role_map (dp_role d) BRIDGE"

text \<open>The only registered messenger belongs to a protocol of which no bridge is registered.\<close>

lemma registry_protocols:
  "\<forall>d \<in> set (defi_deployments @ bridge_deployments @ vault_deployments @ governance_deployments). dp_protocol d \<noteq> []"
  "\<forall>d \<in> set defi_deployments. dict_get defi_role_map (dp_role d) UNKNOWN \<notin> {BRIDGE, MESSENGER}"
  "\<forall>d \<in> set governance_deployments. dict_get governance_role_map (dp_role d) GOVERNOR \<notin> {BRIDGE, MESSENGER}"
  "\<forall>d \<in> set bridge_deployments. (bridge_role d = MESSENGER) = (dp_protocol d = ''Circle CCTP'')"
  "\<forall>d \<in> set bridge_deployments. bridge_role d \<in> {BRIDGE, MESSENGER}"
  by code_simp+

lemma registry_peers_canonical:
  "\<forall>d \<in> set defi_deployments. dp_role d = ''router'' \<longrightarrow> canonical (lower (dp_address d))"
  "\<forall>d \<in> set bridge_deployments. dp_role d = ''messenger'' \<longrightarrow> canonical (lower (dp_address d))"
  unfolding canonical_pattern by code_simp+

lemma registry_contract_simps [simp]:
  "pc_address (registry_contract a n r d) = a" "pc_role (registry_contract a n r d) = r"
  "py_get (pc_metadata (registry_contract a n r d)) ''protocol'' = PyStr (dp_protocol d)"
  "py_get (pc_metadata (registry_contract a n r d)) ''registry_role'' = PyStr (dp_role d)"
  "py_get (pc_metadata (registry_contract a n r d)) ''chain_id'' = PyInt n"
  "py_get (pc_metadata (registry_contract a n r d)) ''factory_address'' = PyNone"
  by (simp_all add: registry_contract_def contract_of_def py_get_def dict_get_def)

lemma classify_registry_cases:
  assumes "classify_from_registry a n = Some c"
  obtains r d where "c = registry_contract a n r d" "dp_protocol d \<noteq> []"
    "r = MESSENGER \<longleftrightarrow> (r = MESSENGER \<or> r = BRIDGE) \<and> dp_protocol d = ''Circle CCTP''"
proof -
  note split = list.splits
  consider
      (defi) d rest where "match_in defi_deployments n a = d # rest"
        "c = registry_contract a n (dict_get defi_role_map (dp_role d) UNKNOWN) d"
    | (bridge) d rest where "match_in bridge_deployments n a = d # rest" "c = registry_contract a n (bridge_role d) d"
    | (vault) d rest where "match_in vault_deployments n a = d # rest" "c = registry_contract a n VAULT d"
    | (governance) d rest where "match_in governance_deployments n a = d # rest"
        "c = registry_contract a n (dict_get governance_role_map (dp_role d) GOVERNOR) d"
    using assms
    unfolding classify_from_registry_def match_deployments_def match_bridge_deployments_def
      match_vault_deployments_def match_governance_deployments_def bridge_role_def
    by (auto split: list.splits)
  then show thesis
  proof cases
    case defi
    with match_first [OF defi(1)] registry_protocols(1,2) show thesis by (intro that [OF defi(2)]) auto
  next
    case bridge
    with match_first [OF bridge(1)] registry_protocols(1,4,5) show thesis by (intro that [OF bridge(2)]) auto
  next
    case vault
    with match_first [OF vault(1)] registry_protocols(1) show thesis by (intro that [OF vault(2)]) auto
  next
    case governance
    with match_first [OF governance(1)] registry_protocols(1,3) show thesis by (intro that [OF governance(2)]) auto
  qed
qed

lemma find_deployment_Some:
  assumes "find_deployment ds protocol role n = Some x"
  obtains d where "d \<in> set ds" "dp_role d = role" "x = lower (dp_address d)"
  using assms by (auto simp: find_deployment_def find_Some_iff) (metis nth_mem)

section \<open>What the engine finds\<close>

text \<open>
  A contract the engine finds has a canonical address, names no factory, and either has no protocol in
  its metadata or the role, protocol and chain the registry has for its address.
\<close>

definition found :: "ProtocolContract \<Rightarrow> bool" where
  "found c \<longleftrightarrow> canonical (pc_address c) \<and> py_get (pc_metadata c) ''factory_address'' = PyNone \<and>
     ((py_get (pc_metadata c) ''protocol'' = PyNone \<and> py_get (pc_metadata c) ''chain_id'' = PyNone) \<or>
      (\<exists>n reg. classify_from_registry (pc_address c) n = Some reg \<and> pc_role c = pc_role reg \<and>
         py_get (pc_metadata c) ''protocol'' = py_get (pc_metadata reg) ''protocol'' \<and>
         py_get (pc_metadata c) ''chain_id'' = py_get (pc_metadata reg) ''chain_id''))"

definition probes_well :: "discovery_provider \<Rightarrow> bool" where
  "probes_well provider \<longleftrightarrow> (\<forall>a n p. provider a n = Inr p \<longrightarrow>
     normalize_eth_address a = Inr (cb_address p) \<and> list_all canonical (cb_linked_addresses p))"

lemma linked_canonical:
  "extract_linked_addresses s abi = Inr as \<Longrightarrow> list_all canonical as"
  by (auto simp: extract_linked_addresses_def bindR_eq_Inr list_all_iff split: option.splits
      dest!: find_addresses_sound intro: address_lower)

lemma on_chain_probes_well [simp]: "probes_well (probe_contract node src)"
  unfolding probes_well_def probe_contract_def bindR_eq_Inr by (auto dest: linked_canonical)

lemma contract_of_simps [simp]:
  "pc_address (contract_of a r n s m) = a" "pc_role (contract_of a r n s m) = r"
  "pc_metadata (contract_of a r n s m) = m" "pc_confidence (contract_of a r n s m) = n"
  by (simp_all add: contract_of_def)

lemma found_plain:
  "canonical a \<Longrightarrow> py_get m ''factory_address'' = PyNone \<Longrightarrow> py_get m ''protocol'' = PyNone \<Longrightarrow>
   py_get m ''chain_id'' = PyNone \<Longrightarrow> found (contract_of a r n s m)"
  by (simp add: found_def)

lemma found_registry: "classify_from_registry a n = Some c \<Longrightarrow> canonical a \<Longrightarrow> found c"
proof -
  assume reg: "classify_from_registry a n = Some c" and a: "canonical a"
  from reg obtain r d where c: "c = registry_contract a n r d" by (elim classify_registry_cases)
  then have "\<exists>n reg. classify_from_registry (pc_address c) n = Some reg \<and> pc_role c = pc_role reg \<and>
      py_get (pc_metadata c) ''protocol'' = py_get (pc_metadata reg) ''protocol'' \<and>
      py_get (pc_metadata c) ''chain_id'' = py_get (pc_metadata reg) ''chain_id''"
    using reg by (intro exI [of _ n] exI [of _ c]) simp
  with c a show "found c" by (simp add: found_def)
qed

lemmas plain_metadata = py_get_def dict_get_def dict_merge_def

lemma found_classified: "canonical (cb_address p) \<Longrightarrow> found (classify_probe p r s n)"
  unfolding classify_probe_def by (auto split: prod.split intro!: found_plain simp: probe_metadata_def plain_metadata)

lemma proxy_chain_found:
  assumes "discover_proxy_chain root_probe probes provider n = Inr (cs, probes')" "probes_well provider"
    "canonical (cb_address root_probe)"
  shows "list_all found cs"
proof (cases "cb_implementation_address root_probe = None \<or> cb_implementation_address root_probe = Some []")
  case True
  with assms(1) show ?thesis by (auto simp: discover_proxy_chain_def)
next
  case False
  then obtain raw where "cb_implementation_address root_probe = Some raw" "raw \<noteq> []" by auto
  with assms(1) obtain a p where a: "normalize_eth_address raw = Inr a" "provider a n = Inr p"
    and cs: "cs = [(contract_of (cb_address root_probe) PROXY 90 ''proxy_resolution'' [])
        \<lparr>pc_metadata := dict_merge [] [(''implementation_address'', PyStr a)]\<rparr>,
      contract_of a IMPLEMENTATION 90 ''proxy_resolution'' [],
      classify_probe p IMPLEMENTATION ''verified_source.implementation'' 85]"
    by (auto simp: discover_proxy_chain_def bindR_eq_Inr classify_proxy_implementation_def Let_def contract_of_def)
  from a assms(2) have "canonical a" "canonical (cb_address p)"
    unfolding probes_well_def by (auto dest: normalize_canonical)
  with assms(3) show ?thesis
    by (simp add: cs found_classified) (simp add: found_def plain_metadata)
qed

lemma authority_found: "canonical a \<Longrightarrow> found (classify_governance_authority a g t)" "canonical a \<Longrightarrow> found (admin_contract p a)"
  unfolding classify_governance_authority_def admin_contract_def
  by (rule found_plain; simp add: plain_metadata)+

lemma governance_chain_found:
  assumes "discover_governance_chain engine root_probe probes provider n = Inr (cs, probes')"
  shows "list_all found cs"
proof (cases "cb_admin_address root_probe = None \<or> cb_admin_address root_probe = Some []")
  case True
  with assms show ?thesis by (auto simp: discover_governance_chain_def)
next
  case False
  then obtain raw where "cb_admin_address root_probe = Some raw" "raw \<noteq> []" by auto
  with assms obtain a p where a: "normalize_eth_address raw = Inr a" and
    rest: "(let probes' = AList.update a p probes
       in case de_governance_analyzer engine of
            None \<Rightarrow> Inr ([admin_contract p a], probes')
          | Some analyze \<Rightarrow>
              (case analyze (cb_address root_probe) (governance_query root_probe p a) of
                 Inl e \<Rightarrow> Inr ([admin_contract p a], probes')
               | Inr governance \<Rightarrow>
                   Inr ([classify_governance_authority a governance (cb_is_timelock p)], probes')))
      = (Inr (cs, probes') :: (ProtocolContract list \<times> probes) result)"
    by (auto simp: discover_governance_chain_def bindR_eq_Inr)
  from normalize_canonical [OF a] rest show ?thesis
    by (cases "de_governance_analyzer engine"; cases "the (de_governance_analyzer engine) (cb_address root_probe)
          (governance_query root_probe p a)") (auto simp: Let_def authority_found)
qed

lemma peers_found: "list_all found (discover_registry_peers a n)"
proof -
  have peer: "list_all found (peer_of ds protocol role n a)"
    if "\<forall>d \<in> set ds. dp_role d = role \<longrightarrow> canonical (lower (dp_address d))" for ds protocol role
    using that by (auto simp: peer_of_def elim!: find_deployment_Some intro: found_registry split: option.split)
  show ?thesis
    using peer [OF registry_peers_canonical(1)] peer [OF registry_peers_canonical(2)]
    by (simp add: discover_registry_peers_def Let_def split: option.split)
qed

lemma intelligence_found:
  assumes "discover_from_intelligence engine root_probe n = Inr cs" "canonical (cb_address root_probe)"
  shows "list_all found cs"
  using assms
  by (auto simp: discover_from_intelligence_def bindR_eq_Inr contracts_of_intelligence_def integration_contract_def
      classify_from_intelligence_def plain_metadata split: option.splits list.splits if_splits intro!: found_plain)

lemma treasury_found: "discover_wallet_treasury engine root_probe = Inr cs \<Longrightarrow> list_all found cs"
  by (auto simp: discover_wallet_treasury_def bindR_eq_Inr classify_treasury_def plain_metadata
      split: option.splits sum.splits if_splits dest: normalize_canonical intro!: found_plain)

lemma pools_found: "discover_liquidity_pools engine a = Inr cs \<Longrightarrow> list_all found cs"
  unfolding discover_liquidity_pools_def list_all_iff
  by (auto split: option.splits sum.splits dest!: mapR_set simp: pool_contract_def bindR_eq_Inr plain_metadata
      dest: normalize_canonical intro!: found_plain)

lemma linked_found:
  "list_all canonical (cb_linked_addresses p) \<Longrightarrow> list_all found (discover_source_linked_contracts p probes n)"
proof -
  assume "list_all canonical (cb_linked_addresses p)"
  then have "found c" if "a \<in> set (take 5 (cb_linked_addresses p))" "classify_from_registry a n = Some c" for a c
    using found_registry [OF that(2)] in_set_takeD [OF that(1)] by (simp add: list_all_iff)
  then show ?thesis
    by (auto simp: discover_source_linked_contracts_def list_all_iff in_map_filter split: if_splits)
qed

lemma root_found:
  assumes "canonical a" "cb_address p = a"
  shows "found (root_contract a n p)" "pc_address (root_contract a n p) = a"
proof -
  have "found (root_contract a n p) \<and> pc_address (root_contract a n p) = a"
  proof (cases "classify_from_registry a n")
    case None
    with assms show ?thesis
      by (auto simp: root_contract_def classify_root_def plain_metadata intro!: found_plain)
  next
    case (Some c)
    from found_registry [OF Some assms(1)] have f: "found c" .
    from Some have "pc_address c = a" by (elim classify_registry_cases) simp
    with f Some show ?thesis by (auto simp: root_contract_def found_def plain_metadata split: option.splits)
  qed
  then show "found (root_contract a n p)" "pc_address (root_contract a n p) = a" by simp_all
qed

lemma discovered_found:
  assumes "discovered_contracts engine a n provider p = Inr cs" "probes_well provider" "provider a n = Inr p" "canonical a"
  shows "list_all found cs" "root_contract a n p \<in> set cs"
proof -
  from assms(2-4) have p: "cb_address p = a" "list_all canonical (cb_linked_addresses p)"
    unfolding probes_well_def by (auto dest: canonical_normalize)
  from assms(1) obtain proxies probes governance probes' intelligence treasuries pools where
    steps: "discover_proxy_chain p [(a, p)] provider n = Inr (proxies, probes)"
      "discover_governance_chain engine p probes provider n = Inr (governance, probes')"
      "discover_from_intelligence engine p n = Inr intelligence"
      "discover_wallet_treasury engine p = Inr treasuries" "discover_liquidity_pools engine a = Inr pools"
    and cs: "cs = root_contract a n p # proxies @ governance @ discover_registry_peers a n @ intelligence
      @ treasuries @ pools @ discover_source_linked_contracts p probes' n"
    unfolding discovered_contracts_def bindR_eq_Inr by (auto simp: bindR_eq_Inr)
  have "canonical (cb_address p)" using assms(4) p(1) by simp
  then show "list_all found cs" "root_contract a n p \<in> set cs"
    using proxy_chain_found [OF steps(1) assms(2)] governance_chain_found [OF steps(2)]
      intelligence_found [OF steps(3)] treasury_found [OF steps(4)] pools_found [OF steps(5)]
      peers_found linked_found [OF p(2)] root_found(1) [OF assms(4) p(1)]
    by (simp_all add: cs)
qed

end
