(* ===== verification/DiscoveryProps.thy ===== *)
theory DiscoveryProps
  imports DiscoveryFacts GraphProps ChainProps
begin

text \<open>
  What discovery promises: the contracts and links a result holds, what every result of the engine over
  the on-chain provider looks like, what a probe reads from a verified source, and the vaults whose
  discovery no graph can be built from.
\<close>

section \<open>Assembly\<close>

lemma kept_contracts:
  "pc_address ` set (dedupe_contracts cs) = pc_address ` set cs"
  "distinct (map pc_address (dedupe_contracts cs))"
  "set (dedupe_contracts cs) \<subseteq> set cs"
  unfolding dedupe_contracts_def by (rule keep_best_values)+

lemma kept_best:
  assumes "c \<in> set (dedupe_contracts cs)" "c' \<in> set cs" "pc_address c' = pc_address c"
  shows "pc_confidence c' \<le> pc_confidence c"
  by (rule keep_best_optimal [where key = pc_address and xs = cs and
        better = "\<lambda>c existing. pc_confidence c > pc_confidence existing"])
    (use assms in \<open>simp_all add: dedupe_contracts_def\<close>)

lemma build_discovery_simps [simp]:
  "pd_root_address (build_discovery a n x y cs rs) = a"
  "pd_chain_id (build_discovery a n x y cs rs) = n"
  "pd_contracts (build_discovery a n x y cs rs) = sort_contracts (dedupe_contracts cs)"
  "pd_relationships (build_discovery a n x y cs rs) = sort_relationships (dedupe_relationships rs (dedupe_contracts cs))"
  by (simp_all add: build_discovery_def Let_def)

lemma known_build [simp]: "known_addresses (build_discovery a n x y cs rs) = pc_address ` set cs"
  using kept_contracts(1) by (simp add: known_addresses_def sort_contracts_def del: set_map)

lemma image_filter: "f ` {x \<in> A. P (f x)} = {k \<in> f ` A. P k}"
  by auto

lemma built_links:
  "rel_key ` set (pd_relationships (build_discovery a n x y cs rs)) =
     {k \<in> rel_key ` set rs. fst k \<in> pc_address ` set cs \<and> fst (snd k) \<in> pc_address ` set cs}"
  "distinct (map rel_key (pd_relationships (build_discovery a n x y cs rs)))"
proof -
  let ?kept = "filter (\<lambda>r. rel_source_address r \<in> pc_address ` set cs \<and> rel_target_address r \<in> pc_address ` set cs) rs"
  have rels: "pd_relationships (build_discovery a n x y cs rs) = sort_relationships (dedup_by rel_key ?kept)"
    by (simp add: dedupe_relationships_def Let_def kept_contracts(1) set_map)
  have "rel_key ` set (pd_relationships (build_discovery a n x y cs rs)) = rel_key ` set ?kept"
    unfolding rels sort_relationships_def set_sort dedup_by_keys ..
  then show "rel_key ` set (pd_relationships (build_discovery a n x y cs rs)) =
     {k \<in> rel_key ` set rs. fst k \<in> pc_address ` set cs \<and> fst (snd k) \<in> pc_address ` set cs}"
    using image_filter [of rel_key "set rs" "\<lambda>k. fst k \<in> pc_address ` set cs \<and> fst (snd k) \<in> pc_address ` set cs"]
    by (simp only: fst_conv snd_conv set_filter)
  show "distinct (map rel_key (pd_relationships (build_discovery a n x y cs rs)))"
    unfolding rels sort_relationships_def distinct_map_sort_key by (rule dedup_by_distinct)
qed

text \<open>
  The contracts of a discovery result: every discovered address once, with a contract of
  the highest confidence found for it, ordered by role and address; its confidence is the least of
  the root contracts when there is one.
\<close>

theorem contracts_kept_best:
  assumes "d = build_discovery a n x y cs rs"
  shows "known_addresses d = pc_address ` set cs \<and> distinct (map pc_address (pd_contracts d)) \<and>
    sorted (map contract_rank (pd_contracts d)) \<and>
    (\<forall>c \<in> set (pd_contracts d). c \<in> set cs \<and>
       (\<forall>c' \<in> set cs. pc_address c' = pc_address c \<longrightarrow> pc_confidence c' \<le> pc_confidence c)) \<and>
    (\<forall>c \<in> set (pd_contracts d). rootish c \<longrightarrow> pd_confidence d \<le> pc_confidence c)"
proof -
  have "pd_confidence d \<le> pc_confidence c" if "c \<in> set (pd_contracts d)" "rootish c" for c
  proof -
    from that have "c \<in> set (filter rootish (pd_contracts d))" by simp
    then have "filter rootish (pd_contracts d) \<noteq> []" "pd_contracts d \<noteq> []" using that by (metis empty_iff empty_set)+
    then have "pd_confidence d = Min (pc_confidence ` set (filter rootish (pd_contracts d)))"
      by (simp add: assms build_discovery_def Let_def aggregate_discovery_confidence_def)
    with \<open>c \<in> set (filter rootish (pd_contracts d))\<close> show ?thesis by (simp add: Min_le)
  qed
  moreover have "set (pd_contracts d) = set (dedupe_contracts cs)" by (simp add: assms sort_contracts_def)
  ultimately show ?thesis
    using kept_contracts(2) [of cs] kept_contracts(3) [of cs] kept_best [of _ cs]
    by (auto simp: assms sort_contracts_def simp del: sort_key_simps)
qed

text \<open>
  Property C39. The links of a discovery result are exactly those the roles of the discovered contracts
  call for, each once and in order: proxies to the implementation they name, governors to timelocks,
  routers to factories and bridges to messengers of the same protocol, vaults to strategies, tokens and
  roots to treasuries, factories to the pools that name them; and, without a discovered router, the
  registered router of a factory if its address was discovered.
\<close>

theorem links_exact:
  assumes "detect_relationships cs = Inr rs"
  shows "let d = build_discovery a n x y cs rs
    in rel_key ` set (pd_relationships d) =
         {(pc_address a, pc_address b, relationship_type_value t) |a b t. linked_pair cs t a b} \<union>
         {(router, pc_address c, ''ROUTER_TO_FACTORY'') |router c. router \<in> pc_address ` set cs \<and>
            (\<forall>a \<in> set cs. pc_role a \<noteq> ROUTER) \<and> c \<in> set cs \<and> registry_router c router} \<and>
       distinct (map rel_key (pd_relationships d)) \<and> sorted (map relationship_rank (pd_relationships d))"
proof -
  have "{k \<in> A \<union> B. P k} = A \<union> {k \<in> B. P k}" if "\<And>k. k \<in> A \<Longrightarrow> P k" for A B and P :: "string \<times> string \<times> string \<Rightarrow> bool"
    using that by blast
  note split = this [of "{(pc_address a, pc_address b, relationship_type_value t) |a b t. linked_pair cs t a b}"
      "\<lambda>k. fst k \<in> pc_address ` set cs \<and> fst (snd k) \<in> pc_address ` set cs"]
  have "sorted (map relationship_rank (pd_relationships (build_discovery a n x y cs rs)))"
    by (simp add: sort_relationships_def)
  then show ?thesis
    unfolding Let_def built_links(1) detect_links(1) [OF assms]
    by (subst split) (auto simp: linked_pair_def intro: built_links(2) [unfolded build_discovery_simps])
qed

text \<open>A factory with its router, a governed vault with a strategy, and a bridge of another protocol than the messenger.\<close>

definition found_contract :: "string \<Rightarrow> protocol_role \<Rightarrow> string \<Rightarrow> ProtocolContract" where
  "found_contract a role protocol = contract_of a role 80 ''sample'' [(''protocol'', PyStr protocol)]"

definition sample_contracts :: "ProtocolContract list" where
  "sample_contracts =
     [found_contract ''f'' FACTORY ''Uniswap V2'', found_contract ''r'' ROUTER ''Uniswap V2'',
      found_contract ''v'' VAULT ''Yearn'', found_contract ''s'' STRATEGY ''Yearn'',
      found_contract ''b'' BRIDGE ''Wormhole'', found_contract ''m'' MESSENGER ''Circle CCTP'']"

theorem links_exact_witness:
  "\<exists>rs. detect_relationships sample_contracts = Inr rs \<and>
     distinct (map rel_key (pd_relationships (build_discovery ''v'' 1 [] [] sample_contracts rs))) \<and>
     rel_key ` set (pd_relationships (build_discovery ''v'' 1 [] [] sample_contracts rs)) =
       {(pc_address a, pc_address b, relationship_type_value t) |a b t. linked_pair sample_contracts t a b} \<and>
     (''r'', ''f'', ''ROUTER_TO_FACTORY'') \<in> rel_key ` set (pd_relationships (build_discovery ''v'' 1 [] [] sample_contracts rs))"
proof -
  have "\<not> isl (detect_relationships sample_contracts)" by code_simp
  then obtain rs where rs: "detect_relationships sample_contracts = Inr rs"
    by (cases "detect_relationships sample_contracts") auto
  have router: "found_contract ''r'' ROUTER ''Uniswap V2'' \<in> set sample_contracts"
    "pc_role (found_contract ''r'' ROUTER ''Uniswap V2'') = ROUTER"
    by (simp_all add: sample_contracts_def found_contract_def)
  have "share_protocol (found_contract ''r'' ROUTER ''Uniswap V2'') (found_contract ''f'' FACTORY ''Uniswap V2'')"
    by code_simp
  then have "linked_pair sample_contracts ROUTER_TO_FACTORY (found_contract ''r'' ROUTER ''Uniswap V2'')
      (found_contract ''f'' FACTORY ''Uniswap V2'')"
    by (simp add: linked_pair_def sample_contracts_def found_contract_def)
  then have "(''r'', ''f'', ''ROUTER_TO_FACTORY'') \<in>
      {(pc_address a, pc_address b, relationship_type_value t) |a b t. linked_pair sample_contracts t a b}"
    by (intro CollectI exI [of _ "found_contract ''r'' ROUTER ''Uniswap V2''"]
        exI [of _ "found_contract ''f'' FACTORY ''Uniswap V2''"] exI [of _ ROUTER_TO_FACTORY])
      (simp add: found_contract_def)
  moreover have "{(router, pc_address c, ''ROUTER_TO_FACTORY'') |router c. router \<in> pc_address ` set sample_contracts \<and>
      (\<forall>a \<in> set sample_contracts. pc_role a \<noteq> ROUTER) \<and> c \<in> set sample_contracts \<and> registry_router c router} = {}"
    using router by blast
  ultimately show ?thesis
    using links_exact [OF rs, of "''v''" 1 "[]" "[]"] rs by (simp only: Let_def Un_empty_right) blast
qed

section \<open>The engine over the on-chain provider\<close>

lemma discover_steps:
  assumes "discover engine raw n default_provider = Inr d"
  obtains p cs rs x y where "normalize_eth_address raw = Inr (pd_root_address d)"
    "de_provider engine (pd_root_address d) n = Inr p"
    "discovered_contracts engine (pd_root_address d) n (de_provider engine) p = Inr cs"
    "detect_relationships cs = Inr rs" "d = build_discovery (pd_root_address d) n x y cs rs"
proof -
  from assms obtain a p cs rs where steps: "normalize_eth_address raw = Inr a" "de_provider engine a n = Inr p"
      "discovered_contracts engine a n (de_provider engine) p = Inr cs" "detect_relationships cs = Inr rs"
    and d: "d = build_discovery a n (fst (resolve_protocol_identity cs)) (snd (resolve_protocol_identity cs)) cs rs"
    unfolding discover_def bindR_eq_Inr select_provider_def by (auto simp: case_prod_unfold Let_def)
  from d have a: "a = pd_root_address d" by simp
  show thesis by (rule that [OF steps [unfolded a] d [unfolded a]])
qed

lemma found_no_pool_link: "list_all found cs \<Longrightarrow> \<not> linked_pair cs FACTORY_TO_POOL a b"
  by (auto simp: linked_pair_def list_all_iff found_def)

lemma found_protocol:
  assumes "found c" "py_truthy (py_get (pc_metadata c) ''protocol'')" "pc_role c \<in> {BRIDGE, MESSENGER}"
  shows "pc_role c = MESSENGER \<longleftrightarrow> py_get (pc_metadata c) ''protocol'' = PyStr ''Circle CCTP''"
proof -
  from assms(1,2) obtain n reg where reg: "classify_from_registry (pc_address c) n = Some reg" "pc_role c = pc_role reg"
    "py_get (pc_metadata c) ''protocol'' = py_get (pc_metadata reg) ''protocol''"
    unfolding found_def by (auto simp: py_truthy.simps)
  from reg(1) show ?thesis by (rule classify_registry_cases) (use reg(2,3) assms(3) in auto)
qed

lemma found_no_messenger_link: 
  assumes "list_all found cs"
  shows "\<not> linked_pair cs BRIDGE_TO_MESSENGER a b"
proof
  assume l: "linked_pair cs BRIDGE_TO_MESSENGER a b"
  then have roles: "pc_role a = BRIDGE" "pc_role b = MESSENGER" and same: "share_protocol a b"
    and f: "found a" "found b" using assms by (auto simp: linked_pair_def list_all_iff)
  from same have t: "py_truthy (py_get (pc_metadata a) ''protocol'')" "py_truthy (py_get (pc_metadata b) ''protocol'')"
    and eq: "py_eq (py_get (pc_metadata a) ''protocol'') (py_get (pc_metadata b) ''protocol'')"
    by (auto simp: share_protocol_def Let_def)
  from found_protocol [OF f(2) t(2)] roles(2) have b: "py_get (pc_metadata b) ''protocol'' = PyStr ''Circle CCTP''" by simp
  from f(1) t(1) obtain p where "py_get (pc_metadata a) ''protocol'' = PyStr p"
    unfolding found_def by (auto elim: classify_registry_cases)
  with eq b found_protocol [OF f(1) t(1)] roles(1) show False by simp
qed

text \<open>
  A result of the engine over the on-chain provider is well typed: the root is the
  normalized address and among the contracts; every address is canonical and occurs once; every link
  joins two discovered contracts. But no result ever links a factory to a pool or a bridge to a
  messenger: pools are discovered without their factory, and no registered bridge shares the protocol
  of the registered messenger.
\<close>

theorem discovery_typed:
  assumes "de_provider engine = probe_contract node src" "discover engine raw n default_provider = Inr d"
  shows "normalize_eth_address raw = Inr (pd_root_address d) \<and> pd_root_address d \<in> known_addresses d \<and>
    (\<forall>a \<in> known_addresses d. canonical a) \<and> distinct (map pc_address (pd_contracts d)) \<and>
    (\<forall>r \<in> set (pd_relationships d). rel_source_address r \<in> known_addresses d \<and> rel_target_address r \<in> known_addresses d \<and>
       rel_type r \<notin> {FACTORY_TO_POOL, BRIDGE_TO_MESSENGER})"
proof -
  let ?a = "pd_root_address d"
  from assms(2) obtain p cs rs x y where a: "normalize_eth_address raw = Inr ?a"
    and p: "de_provider engine ?a n = Inr p"
    and cs: "discovered_contracts engine ?a n (de_provider engine) p = Inr cs"
    and rs: "detect_relationships cs = Inr rs" and d: "d = build_discovery ?a n x y cs rs"
    by (rule discover_steps)
  from a have can: "canonical ?a" by (rule normalize_canonical)
  have well: "probes_well (de_provider engine)" by (simp add: assms(1))
  have f: "list_all found cs" and rt: "root_contract ?a n p \<in> set cs"
    using discovered_found [OF cs well p can] by simp_all
  have "cb_address p = ?a" using well p can unfolding probes_well_def by fastforce
  from root_found(2) [OF can this] rt have "?a \<in> pc_address ` set cs" by (metis image_eqI)
  moreover have known: "known_addresses d = pc_address ` set cs" by (subst d) simp
  moreover have "distinct (map pc_address (pd_contracts d))"
    by (subst d) (simp add: sort_contracts_def kept_contracts(2))
  moreover have "rel_source_address r \<in> known_addresses d \<and> rel_target_address r \<in> known_addresses d \<and>
      rel_type r \<notin> {FACTORY_TO_POOL, BRIDGE_TO_MESSENGER}" if r: "r \<in> set (pd_relationships d)" for r
  proof -
    from r have "rel_key r \<in> rel_key ` set (pd_relationships (build_discovery ?a n x y cs rs))" using d by auto
    then have k: "rel_key r \<in> rel_key ` set rs" "rel_source_address r \<in> pc_address ` set cs"
      "rel_target_address r \<in> pc_address ` set cs" unfolding built_links by auto
    from k(1) have "relationship_type_value (rel_type r) \<notin> {''FACTORY_TO_POOL'', ''BRIDGE_TO_MESSENGER''}"
      unfolding detect_links(1) [OF rs]
    proof (elim UnE CollectE exE conjE)
      fix a b t assume "rel_key r = (pc_address a, pc_address b, relationship_type_value t)" "linked_pair cs t a b"
      with found_no_pool_link [OF f] found_no_messenger_link [OF f] show ?thesis by (cases t) auto
    qed auto
    then have "rel_type r \<notin> {FACTORY_TO_POOL, BRIDGE_TO_MESSENGER}" by auto
    with k known show ?thesis by simp
  qed
  ultimately show ?thesis using a f by (auto simp: list_all_iff found_def)
qed

section \<open>Vaults\<close>

lemma self_link_unbuildable:
  assumes "r \<in> set (pd_relationships d)" "rel_source_address r = rel_target_address r"
    "rel_source_address r \<in> known_addresses d"
  shows "\<exists>msg. build d = Inl (ValueError msg)"
proof -
  from assms have "from_relationship r \<in> set (raw_edges d)"
    by (simp add: raw_edges_def) (simp add: from_relationship_def)
  then have "\<not> valid_graph (assemble_graph d)"
    using assms(2) unfolding assemble_valid by (force simp: from_relationship_def)
  then show ?thesis by (simp add: build_def invalid_graph_def Let_def validate_valid)
qed

text \<open>
  Property C40. Protocol intelligence that recognises the root as a vault makes it a vault and, for the
  vault integrations found in it, a strategy as well. The engine then links the root to itself, and
  building the protocol graph of the result fails with a \<open>ValueError\<close>.
\<close>

theorem vault_unbuildable:
  assumes "de_provider engine = probe_contract node src" "discover engine raw n default_provider = Inr d"
    and "probe_contract node src (pd_root_address d) n = Inr p"
    and "de_intelligence_analyzer engine (intelligence_query p n) = Inr intelligence"
    and "pi_vaults intelligence \<noteq> []"
    and "(pi_name intelligence \<noteq> ''unknown'' \<and> pi_protocol_type intelligence = ''token_vault'') \<or>
      (\<exists>c. classify_from_registry (pd_root_address d) n = Some c \<and> pc_role c = VAULT)"
  shows "\<exists>msg. build d = Inl (ValueError msg)"
proof -
  let ?a = "pd_root_address d"
  from assms(2) obtain p' cs rs x y where a: "normalize_eth_address raw = Inr ?a"
    and p': "de_provider engine ?a n = Inr p'"
    and cs: "discovered_contracts engine ?a n (de_provider engine) p' = Inr cs"
    and rs: "detect_relationships cs = Inr rs" and d: "d = build_discovery ?a n x y cs rs"
    by (rule discover_steps)
  have p: "p' = p" using p' assms(1,3) by simp
  have addr: "cb_address p = ?a"
    using assms(3) on_chain_probes_well [of node src] normalize_canonical [OF a] unfolding probes_well_def by fastforce
  have cs_sub: "set (contracts_of_intelligence ?a intelligence) \<subseteq> set cs" "root_contract ?a n p \<in> set cs"
    using cs assms(4) addr
    unfolding discovered_contracts_def p by (auto simp: bindR_eq_Inr discover_from_intelligence_def)
  obtain v vs where vs: "pi_vaults intelligence = v # vs" using assms(5) by (cases "pi_vaults intelligence") auto
  then have "\<exists>s \<in> set (contracts_of_intelligence ?a intelligence). pc_role s = STRATEGY \<and> pc_address s = ?a"
    by (simp add: contracts_of_intelligence_def integration_contract_def)
  then obtain s where s: "s \<in> set cs" "pc_role s = STRATEGY" "pc_address s = ?a" using cs_sub(1) by blast
  have "\<exists>v \<in> set cs. pc_role v = VAULT \<and> pc_address v = ?a"
  proof (cases "\<exists>c. classify_from_registry ?a n = Some c \<and> pc_role c = VAULT")
    case True
    then have "pc_role (root_contract ?a n p) = VAULT" by (auto simp: root_contract_def)
    with cs_sub(2) root_found(2) [OF normalize_canonical [OF a] addr] show ?thesis by blast
  next
    case False
    with assms(6) have "\<exists>c \<in> set (contracts_of_intelligence ?a intelligence). pc_role c = VAULT \<and> pc_address c = ?a"
      by (simp add: contracts_of_intelligence_def classify_from_intelligence_def intelligence_role_map_def dict_get_def)
    with cs_sub(1) show ?thesis by blast
  qed
  then obtain v where "v \<in> set cs" "pc_role v = VAULT" "pc_address v = ?a" by blast
  with s have "linked_pair cs VAULT_TO_STRATEGY v s" by (simp add: linked_pair_def)
  then have "(?a, ?a, ''VAULT_TO_STRATEGY'') \<in> rel_key ` set rs"
    unfolding detect_links(1) [OF rs] using s(3) \<open>pc_address v = ?a\<close>
    by (intro UnI1 CollectI exI [of _ v] exI [of _ s] exI [of _ VAULT_TO_STRATEGY]) simp
  then have "(?a, ?a, ''VAULT_TO_STRATEGY'') \<in> rel_key ` set (pd_relationships (build_discovery ?a n x y cs rs))"
    unfolding built_links using imageI [OF s(1), of pc_address] s(3) by simp
  then have "(?a, ?a, ''VAULT_TO_STRATEGY'') \<in> rel_key ` set (pd_relationships d)" unfolding d [symmetric] .
  then obtain r where "r \<in> set (pd_relationships d)" "rel_source_address r = ?a" "rel_target_address r = ?a" by auto
  moreover have "?a \<in> known_addresses d" using imageI [OF s(1), of pc_address] s(3) by (subst d) simp
  ultimately show ?thesis using self_link_unbuildable [of r d] by simp
qed

text \<open>A vault without proxy, admin or verified source, recognised as one.\<close>

definition vault_address :: string where
  "vault_address = ''0x00000000000000000000000000000000000000aa''"

definition vault_node :: ChainNode where
  "vault_node =
     \<lparr>nd_get_code = (\<lambda>a. Inr [1]), nd_get_storage_at = (\<lambda>a slot. Inr (replicate 32 0)),
      nd_eth_call = (\<lambda>a data. Inl (BlockchainRpcError ''execution reverted''))\<rparr>"

definition vault_intelligence :: ProtocolIntelligenceData where
  "vault_intelligence =
     \<lparr>pi_protocol_family = ''vault'', pi_protocol_name = ''erc4626_vault'', pi_protocol_type = ''token_vault'',
      pi_family = ''vault'', pi_name = ''erc4626_vault'', pi_dexes = [], pi_lending = [], pi_oracles = [],
      pi_bridges = [], pi_vaults = [NamedIntegration ''ERC4626'' 98], pi_nfts = [], pi_governance = [],
      pi_relationships = [],
      pi_threat_surface = \<lparr>ts_external_dependencies = [], ts_trust_boundaries = [], ts_privileged_entities = [],
        ts_attack_paths = [], ts_critical_assets = []\<rparr>,
      pi_confidence_score = 90, pi_confidence_level = ConfHigh, pi_detection_reasons = []\<rparr>"

definition vault_engine :: DiscoveryEngine where
  "vault_engine =
     \<lparr>de_provider = probe_contract vault_node null_source_provider, de_provider_registry = [],
      de_governance_analyzer = None, de_liquidity_analyzer = None, de_wallet_analyzer = None,
      de_intelligence_analyzer = (\<lambda>q. Inr vault_intelligence)\<rparr>"

lemma vault_discovered:
  obtains d p where "discover vault_engine vault_address 1 default_provider = Inr d" "pd_root_address d = vault_address"
    "probe_contract vault_node null_source_provider vault_address 1 = Inr p"
proof -
  have "\<not> isl (discover vault_engine vault_address 1 default_provider)" by code_simp
  then obtain d where d: "discover vault_engine vault_address 1 default_provider = Inr d"
    by (cases "discover vault_engine vault_address 1 default_provider") auto
  obtain p where p: "normalize_eth_address vault_address = Inr (pd_root_address d)"
    "de_provider vault_engine (pd_root_address d) 1 = Inr p"
    using d by (rule discover_steps)
  have "normalize_eth_address vault_address = Inr vault_address" by code_simp
  with p(1) have a: "pd_root_address d = vault_address" by simp
  show thesis by (rule that [OF d a]) (use p(2) a in \<open>simp add: vault_engine_def\<close>)
qed

theorem vault_unbuildable_witness:
  "\<exists>d msg. discover vault_engine vault_address 1 default_provider = Inr d \<and> build d = Inl (ValueError msg)"
proof -
  obtain d p where d: "discover vault_engine vault_address 1 default_provider = Inr d" "pd_root_address d = vault_address"
    "probe_contract vault_node null_source_provider vault_address 1 = Inr p" by (rule vault_discovered)
  have "de_provider vault_engine = probe_contract vault_node null_source_provider"
    "de_intelligence_analyzer vault_engine q = Inr vault_intelligence" for q
    by (simp_all add: vault_engine_def)
  from vault_unbuildable [OF this(1) d(1) _ this(2)] d show ?thesis by (simp add: vault_intelligence_def)
qed

theorem discovery_typed_witness:
  "\<exists>d. discover vault_engine vault_address 1 default_provider = Inr d \<and> vault_address \<in> known_addresses d"
proof -
  obtain d p where d: "discover vault_engine vault_address 1 default_provider = Inr d" "pd_root_address d = vault_address"
    "probe_contract vault_node null_source_provider vault_address 1 = Inr p" by (rule vault_discovered)
  have "de_provider vault_engine = probe_contract vault_node null_source_provider" by (simp add: vault_engine_def)
  from discovery_typed [OF this d(1)] d show ?thesis by auto
qed

section \<open>What a probe reads\<close>

text \<open>No lower-case letter is left in upper-cased text, and no \<open>T\<close> is a hex digit.\<close>

lemma no_lower_case: "CHR ''s'' \<notin> set (upper s)"
proof -
  have "upper_char c \<noteq> CHR ''s''" for c
  proof
    assume c: "upper_char c = CHR ''s''"
    have "upper_char c = c \<or> (of_char (upper_char c) :: nat) \<le> 90"
      by (auto simp: upper_char_def Let_def of_char_of take_bit_nat_eq_self)
    then show False
    proof
      assume "upper_char c = c"
      with c have "upper_char CHR ''s'' = CHR ''s''" by simp
      then show False by code_simp
    next
      assume "(of_char (upper_char c) :: nat) \<le> 90"
      then show False unfolding c by simp
    qed
  qed
  then show ?thesis by (simp add: upper_def image_iff) metis
qed

lemma upper_hex_digit: "n < 16 \<Longrightarrow> upper_char (hex_digit n) \<noteq> CHR ''T''"
proof
  assume n: "n < 16" and t: "upper_char (hex_digit n) = CHR ''T''"
  from n have "(of_char (upper_char (hex_digit n)) :: nat) \<le> 70"
    by (auto simp: upper_char_def hex_digit_def Let_def of_char_of take_bit_nat_eq_self)
  then show False unfolding t by simp
qed

lemma detect_timelock_exact:
  "detect_timelock code src \<longleftrightarrow>
     source_contains_marker src [''TIMELOCKCONTROLLER'', ''TIMELOCK CONTROLLER'', ''MINIMUMDELAY''] \<or>
     sublist ''4756574F524E'' (upper (hex_bytes code))"
proof -
  have "\<not> sublist ''schedule('' (upper s)" for s
    using no_lower_case [of s] set_mono_sublist [of "''schedule(''" "upper s"] by auto
  moreover have "CHR ''T'' \<notin> set (upper (hex_bytes code))"
    by (auto simp: upper_def elim!: hex_bytes_digits) (metis upper_hex_digit)
  then have "\<not> sublist ''TIMELOCK'' (upper (hex_bytes code))"
    using set_mono_sublist [of "''TIMELOCK''" "upper (hex_bytes code)"] by auto
  ultimately show ?thesis
    by (simp add: detect_timelock_def source_contains_marker_def split: option.split)
qed

text \<open>
  What a probe of the on-chain provider reads: the normalized address and its code; as
  linked addresses, in order and once, canonical addresses that occur in the verified source, and every
  one of those written where no hex digit precedes it, except the zero and the burn address; and a
  timelock where one of three names occurs in the source or the bytes \<open>GVWORN\<close> in the code, while the
  markers \<open>schedule(\<close> and \<open>TIMELOCK\<close> the probe also looks for never match.
\<close>

theorem probe_exact:
  assumes "probe_contract node src raw n = Inr p"
  shows "let source = (case cb_verified_source p of None \<Rightarrow> [] | Some v \<Rightarrow> vs_source_code v) in
    normalize_eth_address raw = Inr (cb_address p) \<and> nd_get_code node (cb_address p) = Inr (cb_bytecode p) \<and>
    sorted (cb_linked_addresses p) \<and> distinct (cb_linked_addresses p) \<and>
    (\<forall>a \<in> set (cb_linked_addresses p). canonical a \<and> a \<notin> set ignored_addresses \<and> (\<exists>m. sublist m source \<and> lower m = a)) \<and>
    (\<forall>u m v. source = u @ m @ v \<and> address_here m \<and> length m = 42 \<and> (u = [] \<or> \<not> is_hex (last u)) \<and>
       lower m \<notin> set ignored_addresses \<longrightarrow> lower m \<in> set (cb_linked_addresses p)) \<and>
    (cb_is_timelock p \<longleftrightarrow>
       (\<exists>marker \<in> {''TIMELOCKCONTROLLER'', ''TIMELOCK CONTROLLER'', ''MINIMUMDELAY''}. sublist marker (upper source)) \<or>
       sublist ''4756574F524E'' (upper (hex_bytes (cb_bytecode p))))"
proof -
  let ?source = "case cb_verified_source p of None \<Rightarrow> [] | Some v \<Rightarrow> vs_source_code v"
  from assms have basic: "normalize_eth_address raw = Inr (cb_address p)" "nd_get_code node (cb_address p) = Inr (cb_bytecode p)"
    and tl: "cb_is_timelock p = detect_timelock (cb_bytecode p) (map_option vs_source_code (cb_verified_source p))"
    and linked: "\<exists>abi. extract_linked_addresses (map_option vs_source_code (cb_verified_source p)) abi = Inr (cb_linked_addresses p)"
    unfolding probe_contract_def bindR_eq_Inr by auto
  have links: "cb_linked_addresses p =
      sorted_set (filter (\<lambda>a. a \<notin> set ignored_addresses) (map lower (find_addresses ?source)))"
    using linked by (auto simp: extract_linked_addresses_def bindR_eq_Inr split: option.splits)
  have sound: "canonical a \<and> a \<notin> set ignored_addresses \<and> (\<exists>m. sublist m ?source \<and> lower m = a)"
    if "a \<in> set (cb_linked_addresses p)" for a
    using that unfolding links by (auto dest!: find_addresses_sound intro: address_lower)
  have complete: "lower m \<in> set (cb_linked_addresses p)"
    if "?source = u @ m @ v" "address_here m" "length m = 42" "u = [] \<or> \<not> is_hex (last u)" "lower m \<notin> set ignored_addresses"
    for u m v
    using find_addresses_complete [OF that(1-4)] that(5) unfolding links by simp
  have "source_contains_marker (map_option vs_source_code (cb_verified_source p)) ms =
      (\<exists>marker \<in> set ms. sublist marker (upper ?source))" if "[] \<notin> set ms" for ms
    using that by (auto simp: source_contains_marker_def list_ex_iff upper_def split: option.split)
  then have timelock: "cb_is_timelock p \<longleftrightarrow>
       (\<exists>marker \<in> {''TIMELOCKCONTROLLER'', ''TIMELOCK CONTROLLER'', ''MINIMUMDELAY''}. sublist marker (upper ?source)) \<or>
       sublist ''4756574F524E'' (upper (hex_bytes (cb_bytecode p)))"
    unfolding tl detect_timelock_exact by simp
  have ordered: "sorted (cb_linked_addresses p)" "distinct (cb_linked_addresses p)" unfolding links by simp_all
  show ?thesis unfolding Let_def using basic ordered sound complete timelock by blast
qed

end
