(* ===== verification/Spec2Isabelle.thy ===== *)
theory Spec2Isabelle
  imports WatchPersistence HistoryPersistence TimelineProps SchedulerProps RiskProps TraceReportProps
    SimulationProps TransactionProps ChainProps DiscoveryProps
begin

text \<open>
  Verification of the decision logic of the ChainSentinel backend (\<open>src/backend/app\<close>).

  ChainSentinel watches blockchain protocols. A watch is registered and scheduled; a scan of its
  protocol yields a discovery result, from which a dependency graph is built and scanned in
  dependency order; analyzers turn what they find into risk evidence, which the risk engine scores
  and correlates; a new snapshot is compared with the baseline, the changes select the analyzers to
  run again, the new evidence is compared with the old, alerts are derived from the difference and
  everything is archived. The theories follow this path. All of it is sequential Python except the
  worker pool of the scheduler; every operation is a total function or a function into
  \<open>py_error + 'a\<close>, so that each exception of the code is a value.

  \<^bold>\<open>Python.\<close> \<open>Prelude\<close> holds exceptions, insertion-ordered dictionaries, stable sorting and loops that
  keep the first item of each key. \<open>PyValue\<close> holds \<open>Decimal\<close> and dynamically typed metadata values,
  \<open>PyTime\<close> aware and naive \<open>datetime\<close> values with \<open>isoformat\<close>, \<open>Calendar\<close> and \<open>IsoFormat\<close> the
  proleptic calendar and \<open>fromisoformat\<close>, which reads back what \<open>isoformat\<close> writes, \<open>PyText\<close>
  conversions from text. \<open>Serialization\<close> has the reading of dictionaries that come from a file: a
  JSON text stands for the value \<open>json.loads\<close> returns for it, \<open>json.dumps\<close> rejects what it cannot
  write and sorts the keys, a field of another type than declared raises \<open>TypeError\<close>. Its locale
  \<open>json_codec\<close> states when a dump can be loaded. \<open>Stores\<close> states the interfaces of append-only and
  write-once stores as locales; the history store and the baseline store are interpretations of them.

  \<^bold>\<open>Watches\<close> (\<open>continuous/models.py\<close>, \<open>protocol_subscription.py\<close>, \<open>scheduler.py\<close>, \<open>persistence.py\<close>,
  \<open>watch_registry.py\<close>, \<open>watch_manager.py\<close>). \<open>WatchModels\<close> has the data and the schedule arithmetic,
  \<open>Watch\<close> the registry, the manager and the in-memory store as operations on one state record,
  \<open>WatchLifecycle\<close> the sequences of commands: the registry invariant, the completeness of the event
  log, the baseline that is written once, when an executed watch is due again. \<open>WatchPersistence\<close> has
  the dictionary form of the store: what is dumped loads back.

  \<^bold>\<open>Protocol graph\<close> (\<open>protocol_scan/models.py\<close>, \<open>protocol_graph/\<close>). \<open>GraphSearch\<close> has the search loops
  over an adjacency map and \<open>GraphSearchProps\<close> relates them to reachability; \<open>ProtocolGraph\<close> has node
  classification, edge inference and deduplication, \<open>GraphTraversal\<close> the traversal class, the
  validator and the builder; \<open>GraphOrder\<close> and \<open>GraphFacts\<close> hold the invariants of topological sorting
  and of building. \<open>GraphProps\<close>: building fails exactly on the two documented errors, built graphs are
  well typed, searches are reachability, shortest paths are shortest, topological sorting refines the
  dependency order and agrees with the cycle search.

  \<^bold>\<open>Protocol discovery\<close> (the rest of \<open>protocol_scan/\<close> and the four deployment registries of
  \<open>protocol/\<close>). \<open>DeploymentRegistry\<close> has the tables of known deployments, \<open>DiscoveryProbe\<close> the on-chain
  provider and the registry of providers, \<open>DiscoveryClassifier\<close> the classifier, the relationship
  detector and the result builder, \<open>DiscoveryEngine\<close> the engine; the governance, liquidity, wallet and
  intelligence analyzers it calls are parameters. \<open>DiscoveryFacts\<close> gives the links a meaning of their
  own; \<open>DiscoveryProps\<close>: the links of a result are exactly those, contracts are kept with their best
  confidence, every result is well typed, what a probe reads, and that the vaults the intelligence
  recognises yield results no graph can be built from.

  \<^bold>\<open>Scan scheduler\<close> (\<open>protocol_scheduler/\<close>). \<open>Scheduler\<close> has the dependency resolver, retries, the
  scan of a node and the run loop; \<open>SchedulerFacts\<close> the invariant of the run, \<open>SchedulerProps\<close> what
  every run guarantees: it ends, each node gets the outcome its dependencies dictate, dependencies
  complete first, and without failures the run is the static plan. The worker pool is used through
  its contract, results in task order; what the executor and the clock return are parameters.

  \<^bold>\<open>Risk\<close> (\<open>risk/\<close>, \<open>services/risk_engine.py\<close>, \<open>schemas/risk.py\<close>, parts of \<open>schemas/scan_result.py\<close>).
  \<open>RiskEvidence\<close> has the evidence items and their merging; \<open>RiskInput\<close> the findings and analyzer
  outputs; \<open>EvidenceBuilder\<close> the adapters that turn them into evidence; \<open>Correlation\<close> the evidence
  index, the rule registry, the matcher and the six built-in rules; \<open>RiskEngine\<close> the assessment.
  \<open>CorrelationFacts\<close> and \<open>RiskProps\<close> show which rules are reported, that no rule hides another, and
  that the assessment of a contract is the clamped sum of its findings' weights.

  \<^bold>\<open>Change detection and re-analysis\<close> (\<open>continuous/change_detection/\<close>, \<open>continuous/reanalysis/\<close>).
  \<open>ChangeDetection\<close> compares two snapshots, \<open>Reanalysis\<close> selects the modules to run again, plans,
  runs and compares the evidence. Their \<open>Props\<close> theories: no change is reported exactly when the
  snapshots agree, every change is an event, module selection is exact, evidence deltas patch the
  previous evidence.

  \<^bold>\<open>Risk delta and alerts\<close> (\<open>continuous/risk_delta/\<close>, \<open>continuous/alerting/\<close>). \<open>RiskDelta\<close> summarises
  evidence bundles and explains their difference, \<open>Alerting\<close> derives, deduplicates, suppresses, routes
  and formats alerts. Their \<open>Props\<close> theories: deltas explain the difference of the totals, no alert is
  lost, delivery is exactly what the policy allows, no repetition within the cooldown, critical
  evidence always alerts.

  \<^bold>\<open>History\<close> (\<open>continuous/history/\<close>). \<open>Snapshots\<close> and \<open>History\<close> have the history store, the baseline
  store, the archiver, the ingestor and retention, \<open>Timeline\<close> the timeline and the trend analysis.
  \<open>HistoryProps\<close> and \<open>TimelineProps\<close>: listings are exact in every reachable store,
  retention removes only what it may and no more than it must, timelines are faithful.
  \<open>SnapshotBuilder\<close> builds snapshots from discovery results; it and \<open>HistoryPersistence\<close> hold the
  dictionary forms of the snapshot, baseline and history stores and their round trips, and that
  archiving never changes a baseline and keeps every snapshot readable.

  \<^bold>\<open>Runtime call traces\<close> (\<open>runtime/calltrace/\<close>). \<open>CallTrace\<close> has the frames, the classifier and the
  call graph builder, with preorder and paths of the call tree as the reference, \<open>TraceDecoder\<close> the
  decoding of a raw \<open>callTracer\<close> value, \<open>TraceAnalysis\<close> gas, reverts, events, the evidence, the engine
  and the providers. \<open>CallTraceFacts\<close> and \<open>CallTraceProps\<close> show that the graph is the trace, that
  parents come first and that the deepest path is one of the longest; \<open>TraceReportProps\<close> that reverts,
  gas totals and evidence signals are exact, and that one of the advertised signals is never raised.

  \<^bold>\<open>Runtime transactions\<close> (\<open>runtime/transaction/\<close>). \<open>Transaction\<close> has the envelope decoder, the selector
  table and the decoding of calldata, \<open>TransactionAnalysis\<close> the transfer, approval and privilege
  analyzers, the classifier, the evidence and the engine. \<open>TransactionFacts\<close> shows that the tables of
  the analyzers agree; \<open>TransactionProps\<close> that the classification is the table's, which transactions
  cannot be analysed, and that the evidence is exact.

  \<^bold>\<open>Runtime state\<close> (\<open>runtime/state/\<close>). \<open>StateTransition\<close> has the diffs and logs of a transaction and
  the decoder of provider payloads, \<open>StateAnalysis\<close> the reading of logs and the five analyzers,
  \<open>StateEngine\<close> the evidence, the engine and the providers. \<open>StateFacts\<close> reads the logs of a transition
  independently of the order in which they are analysed; \<open>StateProps\<close> shows when the analysis fails,
  what each list of changes holds, that the evidence is exact, and that the event signatures of
  transfers and granted roles can match no topic of 32 bytes.

  \<^bold>\<open>Simulation\<close> (\<open>runtime/simulation/\<close>). \<open>SimulationScenario\<close> has the scenario types, their
  templates and the validation of a context, \<open>SimulationEngine\<close> the predicted traces and state
  transitions, which the two runtime analyses read, and the mapping of their evidence,
  \<open>AttackLibrary\<close> the eight attacks. \<open>SimulationFacts\<close> and \<open>SimulationProps\<close> compose the results on
  traces and states: each scenario type yields exactly the evidence it stands for, and the attacks
  yield what the library expects of them, with two exceptions.

  \<^bold>\<open>On-chain analysis\<close> (\<open>core/validators.py\<close>, \<open>blockchain/\<close>, \<open>services/\<close>). \<open>ChainNode\<close> has the
  validation of addresses, the node as a record of its calls, and the readers of storage words, call
  results and bytecode (\<open>eip1967.py\<close>, \<open>ownable.py\<close>, \<open>timelock.py\<close>, \<open>multisig.py\<close>, \<open>erc165.py\<close>,
  \<open>token_standards.py\<close>, \<open>access_control.py\<close>, \<open>governance_patterns.py\<close>, \<open>capability.py\<close>);
  \<open>SourceAnalysis\<close> the regular expressions of \<open>source_analysis_engine.py\<close> as executable matchers;
  \<open>ChainAnalyzers\<close> the proxy, admin, timelock, contract type and governance analyzers and the steps of
  \<open>ContractAnalyzer.analyze\<close> that follow the authority of a proxy through them. \<open>ChainFacts\<close> gives the
  patterns a declarative meaning; \<open>ChainProps\<close> shows that addresses survive the way through a word, what
  the verdicts on timelocks, interfaces, roles and renounced ownership are, and which errors remain.

  \<^bold>\<open>Parameters.\<close> sha256 digests are a function \<open>H\<close>, the reading of the system clock is \<open>clk\<close>, the
  outcomes of node scans are a \<open>scan_env\<close>, the values of enumerations whose module is not in the
  repository are \<open>EnumValues\<close>, the loaders of traces and transitions are
  functions, as are \<open>eth_abi.decode\<close>, the keccak hash, the chain node and the provider of verified sources.
  Nothing is assumed of them unless a property says so.

  \<^bold>\<open>Termination.\<close> No definition uses fuel. Loops over lists are structural; the graph searches end
  because the unvisited nodes decrease, Kahn's loop and the batch loop because each step releases
  nodes, the run loop because each batch leaves fewer pending nodes, the retry loop because it counts
  down, the trace decoder because nested calls are smaller values. Each measure is in the
  termination proof of its function. The walks of the trace analysis from a call up through its
  parents follow identifiers and would not end on a cycle: they are \<open>partial_function (option)\<close> and
  are shown to return on the graphs the builder builds.

  \<^bold>\<open>Not modelled.\<close> Input and output: API, database, settings, network clients, the scan jobs and the
  notification providers, which only raise.
  The catalogues and simulations of the protocol, capability, honeypot, wallet, liquidity and threat
  surface analyzers: the evidence builder takes their results as data. The report generator. Of Python:
  the text forms of numbers in JSON, the year range of \<open>datetime\<close>, rounding of \<open>Decimal\<close> beyond 28
  digits, letters outside ASCII, recursion depth, and floats, which occur as durations only and are
  rational numbers.
\<close>

end
